(* ===== verification/Prelude.thy ===== *)
theory Prelude
  imports Main "HOL-Library.Word" "HOL-Library.State_Monad"
begin

unbundle bit_operations_syntax

text \<open>
  What the components share: the collections of facts their proofs rest on, machine-integer
  reads and writes, a state monad with two proof rules closed under sequencing
  (\<open>keeps\<close>, an invariant with a fact about the result, and \<open>mirror\<close>, commutation with a
  relabelling of the state), and the locale of transition systems with an invariant.
\<close>

named_theorems keeps_intros \<open>rules that keep an invariant\<close>
named_theorems mirror_intros \<open>rules that commute with a relabelling of the state\<close>
named_theorems run_simps \<open>equations that run a monadic step\<close>

subsection \<open>Machine integers\<close>

type_synonym byte = "8 word"

text \<open>Truncation to \<open>uint8_t\<close>, \<open>uint16_t\<close> and \<open>uint32_t\<close>, written out on \<open>nat\<close>.\<close>

definition u8 :: "nat \<Rightarrow> nat" where "u8 n = n mod 256"

definition u16 :: "nat \<Rightarrow> nat" where "u16 n = n mod 65536"

definition u32 :: "nat \<Rightarrow> nat" where "u32 n = n mod 4294967296"

text \<open>Unsigned subtraction of a smaller width wraps; the minuend and the subtrahend are in range.\<close>

definition sub8 :: "nat \<Rightarrow> nat \<Rightarrow> nat" where "sub8 a b = (a + (256 - b)) mod 256"

definition sub16 :: "nat \<Rightarrow> nat \<Rightarrow> nat" where "sub16 a b = (a + (65536 - b)) mod 65536"

definition sub32 :: "nat \<Rightarrow> nat \<Rightarrow> nat" where "sub32 a b = (a + (4294967296 - b)) mod 4294967296"

lemma u8_less [simp]: "u8 n < 256" by (simp add: u8_def)

lemma u16_less [simp]: "u16 n < 65536" by (simp add: u16_def)

lemma u32_less [simp]: "u32 n < 4294967296" by (simp add: u32_def)

lemma sub8_less [simp]: "sub8 a b < 256" by (simp add: sub8_def)

lemma sub16_less [simp]: "sub16 a b < 65536" by (simp add: sub16_def)

lemma u8_id [simp]: "n < 256 \<Longrightarrow> u8 n = n" by (simp add: u8_def)

lemma u16_id [simp]: "n < 65536 \<Longrightarrow> u16 n = n" by (simp add: u16_def)

lemma u32_id [simp]: "n < 4294967296 \<Longrightarrow> u32 n = n" by (simp add: u32_def)

lemma u16_le: "u16 n \<le> n" by (simp add: u16_def)

lemma sub16_exact: "b \<le> a \<Longrightarrow> a < 65536 \<Longrightarrow> sub16 a b = a - b"
  by (simp add: sub16_def mod_if)

lemma sub8_exact: "b \<le> a \<Longrightarrow> a < 256 \<Longrightarrow> sub8 a b = a - b"
  by (simp add: sub8_def mod_if)

lemma sub32_exact: "b \<le> a \<Longrightarrow> a < 4294967296 \<Longrightarrow> sub32 a b = a - b"
  by (simp add: sub32_def mod_if)

lemma sub32_less [simp]: "sub32 a b < 4294967296" by (simp add: sub32_def)

lemma sub32_self [simp]: "a < 4294967296 \<Longrightarrow> sub32 a a = 0" by (simp add: sub32_def)

lemma sub8_wrap: "sub8 0 1 = 255" by (simp add: sub8_def)

lemma sub16_wrap: "sub16 0 1 = 65535" by (simp add: sub16_def)

text \<open>A signed 32-bit intermediate: outside its range C leaves the behaviour undefined.\<close>

definition i32 :: "int \<Rightarrow> int option" where
  "i32 x = (if - 2147483648 \<le> x \<and> x < 2147483648 then Some x else None)"

lemma i32_Some [simp]: "- 2147483648 \<le> x \<Longrightarrow> x < 2147483648 \<Longrightarrow> i32 x = Some x"
  by (simp add: i32_def)

lemma i32_eq_Some: "i32 x = Some y \<longleftrightarrow> x = y \<and> - 2147483648 \<le> x \<and> x < 2147483648"
  by (auto simp: i32_def)

text \<open>Big-endian reads and writes of a byte buffer.\<close>

definition be16 :: "byte list \<Rightarrow> nat" where
  "be16 p = unat (p ! 0) * 256 + unat (p ! 1)"

definition setBe16 :: "nat \<Rightarrow> byte list" where
  "setBe16 v = [of_nat (v div 256), of_nat v]"

lemma unat_byte_less [simp]: "unat (x :: byte) < 256"
  using unsigned_less [of x] by simp

lemma be16_less: "be16 p < 65536"
  using unat_byte_less [of "p ! 0"] unat_byte_less [of "p ! 1"] unfolding be16_def by linarith

lemma length_setBe16 [simp]: "length (setBe16 v) = 2" by (simp add: setBe16_def)

lemma be16_setBe16: "v < 65536 \<Longrightarrow> be16 (setBe16 v) = v"
proof -
  assume "v < 65536"
  then have "v div 256 < 256" by simp
  then show ?thesis
    by (simp add: be16_def setBe16_def unat_of_nat)
qed

subsection \<open>Lists\<close>

definition upd_at :: "nat \<Rightarrow> ('a \<Rightarrow> 'a) \<Rightarrow> 'a list \<Rightarrow> 'a list" where
  "upd_at i f xs = xs[i := f (xs ! i)]"

lemma length_upd_at [simp]: "length (upd_at i f xs) = length xs" by (simp add: upd_at_def)

lemma nth_upd_at: "j < length xs \<Longrightarrow> upd_at i f xs ! j = (if i = j then f (xs ! j) else xs ! j)"
  by (auto simp: upd_at_def nth_list_update)

lemma list_all_update: "list_all P xs \<Longrightarrow> P y \<Longrightarrow> list_all P (xs[i := y])"
  by (cases "i < length xs") (auto simp: list_all_length nth_list_update)

lemma list_all_nth: "list_all P xs \<Longrightarrow> i < length xs \<Longrightarrow> P (xs ! i)"
  by (simp add: list_all_length)

lemma find_SomeD: "find P xs = Some x \<Longrightarrow> x \<in> set xs \<and> P x"
  by (induction xs) (auto split: if_splits)

subsection \<open>Strings\<close>

fun strip_prefix :: "string \<Rightarrow> string \<Rightarrow> string option" where
  "strip_prefix [] s = Some s"
| "strip_prefix (c # cs) (d # ds) = (if c = d then strip_prefix cs ds else None)"
| "strip_prefix (c # cs) [] = None"

lemma strip_prefix_length: "strip_prefix p s = Some r \<Longrightarrow> length s = length p + length r"
  by (induction p s rule: strip_prefix.induct) (auto split: if_splits)

text \<open>\<open>strstr\<close> as a test: the pattern occurs in the string.\<close>

fun contains :: "string \<Rightarrow> string \<Rightarrow> bool" where
  "contains pat [] \<longleftrightarrow> pat = []"
| "contains pat (c # cs) \<longleftrightarrow> strip_prefix pat (c # cs) \<noteq> None \<or> contains pat cs"

fun digits_of :: "nat \<Rightarrow> string" where
  "digits_of n = (if n < 10 then [char_of (48 + n)] else digits_of (n div 10) @ [char_of (48 + n mod 10)])"

declare digits_of.simps [simp del]

definition showInt :: "int \<Rightarrow> string" where
  "showInt i = (if i < 0 then CHR ''-'' # digits_of (nat (- i)) else digits_of (nat i))"

text \<open>
  \<open>fmtS f args\<close> replaces every \<open>%s\<close> of a format by the next argument (the formats of
  the source have no other directive; a number is passed as its digits), and \<open>snprintf n\<close> keeps
  what fits a buffer of \<open>n\<close> bytes with its terminator.
\<close>

fun fmtS :: "string \<Rightarrow> string list \<Rightarrow> string" where
  "fmtS (c # d # cs) args =
     (if c = CHR ''%'' \<and> d = CHR ''s'' then
        (case args of a # as \<Rightarrow> a @ fmtS cs as | [] \<Rightarrow> fmtS cs [])
      else c # fmtS (d # cs) args)"
| "fmtS cs args = cs"

definition snprintf :: "nat \<Rightarrow> string \<Rightarrow> string" where
  "snprintf n s = take (n - 1) s"

lemma snprintf_length: "0 < n \<Longrightarrow> length (snprintf n s) < n"
  by (simp add: snprintf_def)

text \<open>A tag is appended only when it fits the buffer with its terminator.\<close>

definition appendTag :: "nat \<Rightarrow> string \<Rightarrow> string \<Rightarrow> string" where
  "appendTag n tag s = (if length s + length tag < n then s @ tag else s)"

lemma appendTag_length: "length s < n \<Longrightarrow> length (appendTag n tag s) < n"
  by (simp add: appendTag_def)

subsection \<open>A state monad with proof rules\<close>

definition gets :: "('s \<Rightarrow> 'a) \<Rightarrow> ('s, 'a) state" where
  "gets f = State (\<lambda>s. (f s, s))"

definition modify :: "('s \<Rightarrow> 's) \<Rightarrow> ('s, unit) state" where
  "modify f = State (\<lambda>s. ((), f s))"

definition skip :: "('s, unit) state" where
  "skip = State_Monad.return ()"

definition when_ok :: "bool \<Rightarrow> ('s, unit) state \<Rightarrow> ('s, unit) state" where
  "when_ok b m = (if b then m else skip)"

lemma run_gets [simp, run_simps]: "run_state (gets f) s = (f s, s)" by (simp add: gets_def)

lemma run_modify [simp, run_simps]: "run_state (modify f) s = ((), f s)" by (simp add: modify_def)

lemma run_skip [simp, run_simps]: "run_state skip s = ((), s)" by (simp add: skip_def)

lemma run_when_ok [run_simps]: "run_state (when_ok b m) s = (if b then run_state m s else ((), s))"
  by (simp add: when_ok_def)

text \<open>\<open>keeps I m R\<close>: from a state in \<open>I\<close>, \<open>m\<close> ends in \<open>I\<close> with a result in \<open>R\<close>.\<close>

definition keeps :: "('s \<Rightarrow> bool) \<Rightarrow> ('s, 'a) state \<Rightarrow> ('a \<Rightarrow> bool) \<Rightarrow> bool" where
  "keeps I m R \<longleftrightarrow> (\<forall>s. I s \<longrightarrow> I (snd (run_state m s)) \<and> R (fst (run_state m s)))"

abbreviation preserves :: "('s \<Rightarrow> bool) \<Rightarrow> ('s, 'a) state \<Rightarrow> bool" where
  "preserves I m \<equiv> keeps I m (\<lambda>_. True)"

lemma keepsD: "keeps I m R \<Longrightarrow> I s \<Longrightarrow> I (snd (run_state m s)) \<and> R (fst (run_state m s))"
  by (simp add: keeps_def)

lemma keeps_weaken: "keeps I m R \<Longrightarrow> (\<And>x. R x \<Longrightarrow> S x) \<Longrightarrow> keeps I m S"
  by (simp add: keeps_def)

lemma keeps_bind:
  assumes "keeps I m R" and "\<And>x. R x \<Longrightarrow> keeps I (f x) S"
  shows "keeps I (m \<bind> f) S"
  using assms by (fastforce simp: keeps_def split: prod.splits)

lemma keeps_return [keeps_intros]: "R x \<Longrightarrow> keeps I (State_Monad.return x) R"
  by (simp add: keeps_def)

lemma keeps_skip [keeps_intros]: "preserves I skip"
  by (simp add: keeps_def)

lemma keeps_gets: "(\<And>s. I s \<Longrightarrow> R (f s)) \<Longrightarrow> keeps I (gets f) R"
  by (simp add: keeps_def)

lemma keeps_modify: "(\<And>s. I s \<Longrightarrow> I (f s)) \<Longrightarrow> preserves I (modify f)"
  by (simp add: keeps_def)

lemma keeps_if [keeps_intros]:
  "(b \<Longrightarrow> keeps I m R) \<Longrightarrow> (\<not> b \<Longrightarrow> keeps I n R) \<Longrightarrow> keeps I (if b then m else n) R"
  by simp

lemma keeps_when [keeps_intros]: "(b \<Longrightarrow> preserves I m) \<Longrightarrow> preserves I (when_ok b m)"
  by (simp add: when_ok_def keeps_skip)

lemma keeps_Let [keeps_intros]: "keeps I (f x) R \<Longrightarrow> keeps I (let y = x in f y) R"
  by simp

lemma keeps_case_option [keeps_intros]:
  "(x = None \<Longrightarrow> keeps I m R) \<Longrightarrow> (\<And>y. x = Some y \<Longrightarrow> keeps I (f y) R) \<Longrightarrow>
   keeps I (case x of None \<Rightarrow> m | Some y \<Rightarrow> f y) R"
  by (cases x) simp_all

lemma keeps_case_prod [keeps_intros]:
  "(\<And>a b. x = (a, b) \<Longrightarrow> keeps I (f a b) R) \<Longrightarrow> keeps I (case x of (a, b) \<Rightarrow> f a b) R"
  by (cases x) simp

text \<open>\<open>mirror \<sigma> m m'\<close>: running \<open>m'\<close> on the relabelled state is relabelling the run of \<open>m\<close>.\<close>

definition mirror :: "('s \<Rightarrow> 's) \<Rightarrow> ('s, 'a) state \<Rightarrow> ('s, 'a) state \<Rightarrow> bool" where
  "mirror \<sigma> m m' \<longleftrightarrow> (\<forall>s. run_state m' (\<sigma> s) = map_prod id \<sigma> (run_state m s))"

lemma mirrorD: "mirror \<sigma> m m' \<Longrightarrow> run_state m' (\<sigma> s) = map_prod id \<sigma> (run_state m s)"
  by (simp add: mirror_def)

lemma mirror_bind [mirror_intros]:
  assumes "mirror \<sigma> m m'" and "\<And>x. mirror \<sigma> (f x) (f' x)"
  shows "mirror \<sigma> (m \<bind> f) (m' \<bind> f')"
  using assms by (simp add: mirror_def split: prod.splits)

lemma mirror_return [mirror_intros]: "mirror \<sigma> (State_Monad.return x) (State_Monad.return x)"
  by (simp add: mirror_def)

lemma mirror_skip [mirror_intros]: "mirror \<sigma> skip skip"
  by (simp add: mirror_def)

lemma mirror_gets: "(\<And>s. g (\<sigma> s) = f s) \<Longrightarrow> mirror \<sigma> (gets f) (gets g)"
  by (simp add: mirror_def)

lemma mirror_modify: "(\<And>s. g (\<sigma> s) = \<sigma> (f s)) \<Longrightarrow> mirror \<sigma> (modify f) (modify g)"
  by (simp add: mirror_def)

lemma mirror_if [mirror_intros]:
  "(b \<Longrightarrow> mirror \<sigma> m m') \<Longrightarrow> (\<not> b \<Longrightarrow> mirror \<sigma> n n') \<Longrightarrow>
   mirror \<sigma> (if b then m else n) (if b then m' else n')"
  by simp

lemma mirror_when [mirror_intros]:
  "(b \<Longrightarrow> mirror \<sigma> m m') \<Longrightarrow> mirror \<sigma> (when_ok b m) (when_ok b m')"
  by (simp add: when_ok_def mirror_skip)

lemma mirror_Let [mirror_intros]:
  "mirror \<sigma> (f x) (g x) \<Longrightarrow> mirror \<sigma> (let y = x in f y) (let y = x in g y)"
  by simp

lemma mirror_case_option [mirror_intros]:
  "(x = None \<Longrightarrow> mirror \<sigma> m m') \<Longrightarrow> (\<And>y. x = Some y \<Longrightarrow> mirror \<sigma> (f y) (f' y)) \<Longrightarrow>
   mirror \<sigma> (case x of None \<Rightarrow> m | Some y \<Rightarrow> f y) (case x of None \<Rightarrow> m' | Some y \<Rightarrow> f' y)"
  by (cases x) simp_all

lemma mirror_case_prod [mirror_intros]:
  "(\<And>a b. x = (a, b) \<Longrightarrow> mirror \<sigma> (f a b) (f' a b)) \<Longrightarrow>
   mirror \<sigma> (case x of (a, b) \<Rightarrow> f a b) (case x of (a, b) \<Rightarrow> f' a b)"
  by (cases x) simp

subsection \<open>Transition systems with an invariant\<close>

text \<open>
  The interface of a component driven by a sequence of calls: its start states, the effect of one
  call, and the invariant the provider keeps.  The client's conclusion is about every run.
\<close>

locale transition_system =
  fixes start :: "'s \<Rightarrow> bool"
    and call :: "'c \<Rightarrow> 's \<Rightarrow> 's"
    and allowed :: "'c \<Rightarrow> bool"
    and inv :: "'s \<Rightarrow> bool"
  assumes start_inv: "start s \<Longrightarrow> inv s"
    and call_inv: "inv s \<Longrightarrow> allowed c \<Longrightarrow> inv (call c s)"
begin

lemma run_inv: "inv s \<Longrightarrow> list_all allowed cs \<Longrightarrow> inv (fold call cs s)"
  by (induction cs arbitrary: s) (auto intro: call_inv)

lemma reach_inv: "start s \<Longrightarrow> list_all allowed cs \<Longrightarrow> inv (fold call cs s)"
  by (rule run_inv [OF start_inv])

end

end
