(* ===== verification/MoveTables.thy ===== *)
theory MoveTables
  imports Prelude
begin

text \<open>
  Move data of the battle engine: \<^verbatim>\<open>src/modules/monstermesh/showdown_gen1_moves.h\<close> and
  \<^verbatim>\<open>showdown_gen3_moves.h\<close>.  The enum \<open>Gen1MoveEffect\<close> is a datatype with the source's
  constructors in the source's order; the struct \<open>Gen1MoveData\<close> is a record; the two tables are
  lists in table order; \<open>gen1Move\<close> and \<open>gen3Move\<close> are the linear searches, with \<open>None\<close>
  for the null pointer.
\<close>

datatype (plugins only: code) Gen1MoveEffect =
    EFF_NONE | EFF_STATUS_PSN | EFF_STATUS_BRN | EFF_STATUS_PAR
  | EFF_STATUS_SLP | EFF_STATUS_FRZ | EFF_STATUS_CONFUSE | EFF_BOOST_ATK
  | EFF_BOOST_DEF | EFF_BOOST_SPD | EFF_BOOST_SPC | EFF_BOOST_ACC
  | EFF_BOOST_EVA | EFF_DROP_ATK | EFF_DROP_DEF | EFF_DROP_SPD
  | EFF_DROP_SPC | EFF_DROP_ACC | EFF_DROP_EVA | EFF_DRAIN_HP
  | EFF_RECOIL | EFF_OHKO | EFF_MULTI_HIT | EFF_DOUBLE_HIT
  | EFF_FIXED_DMG | EFF_LEVEL_DMG | EFF_PSYWAVE | EFF_SUPER_FANG
  | EFF_COUNTER | EFF_CHARGE_TURN | EFF_RECHARGE | EFF_HYPER_BEAM
  | EFF_RAGE | EFF_MIMIC | EFF_METRONOME | EFF_TRANSFORM
  | EFF_SUBSTITUTE | EFF_REST | EFF_DISABLE | EFF_MIST
  | EFF_LIGHT_SCREEN | EFF_REFLECT | EFF_FOCUS_ENERGY | EFF_HAZE
  | EFF_BIDE | EFF_THRASH | EFF_TRAPPING | EFF_FLINCH
  | EFF_SWIFT_NEVERMISS | EFF_DREAM_EATER | EFF_EXPLODE | EFF_PAY_DAY
  | EFF_CONVERSION | EFF_SUBSTITUTE_DAMAGE | EFF_HEAL_HALF

record Gen1MoveData =
  mnum :: nat
  mname :: string
  mtype :: nat
  mpower :: nat
  maccuracy :: nat
  mpp :: nat
  mpriority :: int
  meffect :: Gen1MoveEffect
  meffectChance :: nat

definition mkMove :: "nat \<Rightarrow> string \<Rightarrow> nat \<Rightarrow> nat \<Rightarrow> nat \<Rightarrow> nat \<Rightarrow> int \<Rightarrow> Gen1MoveEffect \<Rightarrow> nat
    \<Rightarrow> Gen1MoveData" where
  "mkMove n nm t p a q pr e c =
     \<lparr>mnum = n, mname = nm, mtype = t, mpower = p, maccuracy = a, mpp = q, mpriority = pr,
       meffect = e, meffectChance = c\<rparr>"

lemma mkMove_sel [simp]:
  "mnum (mkMove n nm t p a q pr e c) = n" "mname (mkMove n nm t p a q pr e c) = nm"
  "mtype (mkMove n nm t p a q pr e c) = t" "mpower (mkMove n nm t p a q pr e c) = p"
  "maccuracy (mkMove n nm t p a q pr e c) = a" "mpp (mkMove n nm t p a q pr e c) = q"
  "mpriority (mkMove n nm t p a q pr e c) = pr" "meffect (mkMove n nm t p a q pr e c) = e"
  "meffectChance (mkMove n nm t p a q pr e c) = c"
  by (simp_all add: mkMove_def)

definition GEN1_MOVES :: "Gen1MoveData list" where
  "GEN1_MOVES = [
  mkMove 1 ''Pound'' 0 40 100 35 0 EFF_NONE 0,
  mkMove 2 ''Karate Chop'' 0 50 100 25 0 EFF_NONE 0,
  mkMove 3 ''Double Slap'' 0 15 85 10 0 EFF_MULTI_HIT 0,
  mkMove 4 ''Comet Punch'' 0 18 85 15 0 EFF_MULTI_HIT 0,
  mkMove 5 ''Mega Punch'' 0 80 85 20 0 EFF_NONE 0,
  mkMove 6 ''Pay Day'' 0 40 100 20 0 EFF_PAY_DAY 0,
  mkMove 7 ''Fire Punch'' 9 75 100 15 0 EFF_STATUS_BRN 10,
  mkMove 8 ''Ice Punch'' 14 75 100 15 0 EFF_STATUS_FRZ 10,
  mkMove 9 ''Thunder Punch'' 12 75 100 15 0 EFF_STATUS_PAR 10,
  mkMove 10 ''Scratch'' 0 40 100 35 0 EFF_NONE 0,
  mkMove 11 ''Vise Grip'' 0 55 100 30 0 EFF_NONE 0,
  mkMove 12 ''Guillotine'' 0 0 30 5 0 EFF_OHKO 0,
  mkMove 13 ''Razor Wind'' 0 80 100 10 0 EFF_CHARGE_TURN 0,
  mkMove 14 ''Swords Dance'' 0 0 0 20 0 EFF_BOOST_ATK 0,
  mkMove 15 ''Cut'' 0 50 95 30 0 EFF_NONE 0,
  mkMove 16 ''Gust'' 0 40 100 35 0 EFF_NONE 0,
  mkMove 17 ''Wing Attack'' 2 35 100 35 0 EFF_NONE 0,
  mkMove 18 ''Whirlwind'' 0 0 85 20 0 EFF_NONE 0,
  mkMove 19 ''Fly'' 2 90 95 15 0 EFF_CHARGE_TURN 0,
  mkMove 20 ''Bind'' 0 15 85 20 0 EFF_TRAPPING 0,
  mkMove 21 ''Slam'' 0 80 75 20 0 EFF_NONE 0,
  mkMove 22 ''Vine Whip'' 11 45 100 25 0 EFF_NONE 0,
  mkMove 23 ''Stomp'' 0 65 100 20 0 EFF_FLINCH 30,
  mkMove 24 ''Double Kick'' 1 30 100 30 0 EFF_DOUBLE_HIT 0,
  mkMove 25 ''Mega Kick'' 0 120 75 5 0 EFF_NONE 0,
  mkMove 26 ''Jump Kick'' 1 100 95 10 0 EFF_NONE 0,
  mkMove 27 ''Rolling Kick'' 1 60 85 15 0 EFF_FLINCH 30,
  mkMove 28 ''Sand Attack'' 0 0 100 15 0 EFF_DROP_ACC 0,
  mkMove 29 ''Headbutt'' 0 70 100 15 0 EFF_FLINCH 30,
  mkMove 30 ''Horn Attack'' 0 65 100 25 0 EFF_NONE 0,
  mkMove 31 ''Fury Attack'' 0 15 85 20 0 EFF_MULTI_HIT 0,
  mkMove 32 ''Horn Drill'' 0 0 30 5 0 EFF_OHKO 0,
  mkMove 33 ''Tackle'' 0 40 100 35 0 EFF_NONE 0,
  mkMove 34 ''Body Slam'' 0 85 100 15 0 EFF_STATUS_PAR 30,
  mkMove 35 ''Wrap'' 0 15 85 20 0 EFF_TRAPPING 0,
  mkMove 36 ''Take Down'' 0 90 85 20 0 EFF_RECOIL 0,
  mkMove 37 ''Thrash'' 0 120 100 10 0 EFF_THRASH 0,
  mkMove 38 ''Double-Edge'' 0 100 100 15 0 EFF_RECOIL 0,
  mkMove 39 ''Tail Whip'' 0 0 100 30 0 EFF_DROP_DEF 0,
  mkMove 40 ''Poison Sting'' 3 15 100 35 0 EFF_STATUS_PSN 30,
  mkMove 41 ''Twineedle'' 7 25 100 20 0 EFF_NONE 20,
  mkMove 42 ''Pin Missile'' 7 25 95 20 0 EFF_MULTI_HIT 0,
  mkMove 43 ''Leer'' 0 0 100 30 0 EFF_DROP_DEF 0,
  mkMove 44 ''Bite'' 0 60 100 25 0 EFF_FLINCH 30,
  mkMove 45 ''Growl'' 0 0 100 40 0 EFF_DROP_ATK 0,
  mkMove 46 ''Roar'' 0 0 0 20 0 EFF_NONE 0,
  mkMove 47 ''Sing'' 0 0 55 15 0 EFF_STATUS_SLP 0,
  mkMove 48 ''Supersonic'' 0 0 55 20 0 EFF_STATUS_CONFUSE 0,
  mkMove 49 ''Sonic Boom'' 0 1 90 20 0 EFF_FIXED_DMG 0,
  mkMove 50 ''Disable'' 0 0 100 20 0 EFF_DISABLE 0,
  mkMove 51 ''Acid'' 3 40 100 30 0 EFF_NONE 10,
  mkMove 52 ''Ember'' 9 40 100 25 0 EFF_STATUS_BRN 10,
  mkMove 53 ''Flamethrower'' 9 90 100 15 0 EFF_STATUS_BRN 10,
  mkMove 54 ''Mist'' 14 0 0 30 0 EFF_MIST 0,
  mkMove 55 ''Water Gun'' 10 40 100 25 0 EFF_NONE 0,
  mkMove 56 ''Hydro Pump'' 10 110 80 5 0 EFF_NONE 0,
  mkMove 57 ''Surf'' 10 90 100 15 0 EFF_NONE 0,
  mkMove 58 ''Ice Beam'' 14 90 100 10 0 EFF_STATUS_FRZ 10,
  mkMove 59 ''Blizzard'' 14 110 90 5 0 EFF_STATUS_FRZ 10,
  mkMove 60 ''Psybeam'' 13 65 100 20 0 EFF_STATUS_CONFUSE 10,
  mkMove 61 ''Bubble Beam'' 10 65 100 20 0 EFF_NONE 10,
  mkMove 62 ''Aurora Beam'' 14 65 100 20 0 EFF_NONE 10,
  mkMove 63 ''Hyper Beam'' 0 150 90 5 0 EFF_HYPER_BEAM 0,
  mkMove 64 ''Peck'' 2 35 100 35 0 EFF_NONE 0,
  mkMove 65 ''Drill Peck'' 2 80 100 20 0 EFF_NONE 0,
  mkMove 66 ''Submission'' 1 80 80 20 0 EFF_RECOIL 0,
  mkMove 67 ''Low Kick'' 1 0 100 20 0 EFF_FLINCH 0,
  mkMove 68 ''Counter'' 1 1 100 20 (-5) EFF_COUNTER 0,
  mkMove 69 ''Seismic Toss'' 1 1 100 20 0 EFF_LEVEL_DMG 0,
  mkMove 70 ''Strength'' 0 80 100 15 0 EFF_NONE 0,
  mkMove 71 ''Absorb'' 11 20 100 25 0 EFF_DRAIN_HP 0,
  mkMove 72 ''Mega Drain'' 11 40 100 15 0 EFF_DRAIN_HP 0,
  mkMove 73 ''Leech Seed'' 11 0 90 10 0 EFF_DRAIN_HP 0,
  mkMove 74 ''Growth'' 0 0 0 20 0 EFF_BOOST_SPC 0,
  mkMove 75 ''Razor Leaf'' 11 55 95 25 0 EFF_NONE 0,
  mkMove 76 ''Solar Beam'' 11 120 100 10 0 EFF_CHARGE_TURN 0,
  mkMove 77 ''Poison Powder'' 3 0 75 35 0 EFF_STATUS_PSN 0,
  mkMove 78 ''Stun Spore'' 11 0 75 30 0 EFF_STATUS_PAR 0,
  mkMove 79 ''Sleep Powder'' 11 0 75 15 0 EFF_STATUS_SLP 0,
  mkMove 80 ''Petal Dance'' 11 120 100 10 0 EFF_THRASH 0,
  mkMove 81 ''String Shot'' 7 0 95 40 0 EFF_DROP_SPD 0,
  mkMove 82 ''Dragon Rage'' 15 1 100 10 0 EFF_FIXED_DMG 0,
  mkMove 83 ''Fire Spin'' 9 15 70 15 0 EFF_TRAPPING 0,
  mkMove 84 ''Thunder Shock'' 12 40 100 30 0 EFF_STATUS_PAR 10,
  mkMove 85 ''Thunderbolt'' 12 90 100 15 0 EFF_STATUS_PAR 10,
  mkMove 86 ''Thunder Wave'' 12 0 90 20 0 EFF_STATUS_PAR 0,
  mkMove 87 ''Thunder'' 12 110 70 10 0 EFF_STATUS_PAR 30,
  mkMove 88 ''Rock Throw'' 5 50 65 15 0 EFF_NONE 0,
  mkMove 89 ''Earthquake'' 4 100 100 10 0 EFF_NONE 0,
  mkMove 90 ''Fissure'' 4 0 30 5 0 EFF_OHKO 0,
  mkMove 91 ''Dig'' 4 100 100 10 0 EFF_CHARGE_TURN 0,
  mkMove 92 ''Toxic'' 3 0 90 10 0 EFF_STATUS_PSN 0,
  mkMove 93 ''Confusion'' 13 50 100 25 0 EFF_STATUS_CONFUSE 10,
  mkMove 94 ''Psychic'' 13 90 100 10 0 EFF_NONE 10,
  mkMove 95 ''Hypnosis'' 13 0 60 20 0 EFF_STATUS_SLP 0,
  mkMove 96 ''Meditate'' 13 0 0 40 0 EFF_BOOST_ATK 0,
  mkMove 97 ''Agility'' 13 0 0 30 0 EFF_BOOST_SPD 0,
  mkMove 98 ''Quick Attack'' 0 40 100 30 1 EFF_NONE 0,
  mkMove 99 ''Rage'' 0 20 100 20 0 EFF_RAGE 0,
  mkMove 100 ''Teleport'' 13 0 0 20 (-6) EFF_NONE 0,
  mkMove 101 ''Night Shade'' 8 1 100 15 0 EFF_LEVEL_DMG 0,
  mkMove 102 ''Mimic'' 0 0 0 10 0 EFF_MIMIC 0,
  mkMove 103 ''Screech'' 0 0 85 40 0 EFF_DROP_DEF 0,
  mkMove 104 ''Double Team'' 0 0 0 15 0 EFF_BOOST_EVA 0,
  mkMove 105 ''Recover'' 0 0 0 5 0 EFF_HEAL_HALF 0,
  mkMove 106 ''Harden'' 0 0 0 30 0 EFF_BOOST_DEF 0,
  mkMove 107 ''Minimize'' 0 0 0 10 0 EFF_BOOST_EVA 0,
  mkMove 108 ''Smokescreen'' 0 0 100 20 0 EFF_DROP_ACC 0,
  mkMove 109 ''Confuse Ray'' 8 0 100 10 0 EFF_STATUS_CONFUSE 0,
  mkMove 110 ''Withdraw'' 10 0 0 40 0 EFF_BOOST_DEF 0,
  mkMove 111 ''Defense Curl'' 0 0 0 40 0 EFF_BOOST_DEF 0,
  mkMove 112 ''Barrier'' 13 0 0 20 0 EFF_BOOST_DEF 0,
  mkMove 113 ''Light Screen'' 13 0 0 30 0 EFF_LIGHT_SCREEN 0,
  mkMove 114 ''Haze'' 14 0 0 30 0 EFF_HAZE 0,
  mkMove 115 ''Reflect'' 13 0 0 20 0 EFF_REFLECT 0,
  mkMove 116 ''Focus Energy'' 0 0 0 30 0 EFF_FOCUS_ENERGY 0,
  mkMove 117 ''Bide'' 0 0 0 10 1 EFF_BIDE 0,
  mkMove 118 ''Metronome'' 0 0 0 10 0 EFF_METRONOME 0,
  mkMove 119 ''Mirror Move'' 2 0 0 20 0 EFF_NONE 0,
  mkMove 120 ''Self-Destruct'' 0 130 100 5 0 EFF_EXPLODE 0,
  mkMove 121 ''Egg Bomb'' 0 100 75 10 0 EFF_NONE 0,
  mkMove 122 ''Lick'' 8 30 100 30 0 EFF_STATUS_PAR 30,
  mkMove 123 ''Smog'' 3 30 70 20 0 EFF_STATUS_PSN 40,
  mkMove 124 ''Sludge'' 3 65 100 20 0 EFF_STATUS_PSN 30,
  mkMove 125 ''Bone Club'' 4 65 85 20 0 EFF_NONE 10,
  mkMove 126 ''Fire Blast'' 9 110 85 5 0 EFF_STATUS_BRN 10,
  mkMove 127 ''Waterfall'' 10 80 100 15 0 EFF_NONE 20,
  mkMove 128 ''Clamp'' 10 35 75 10 0 EFF_TRAPPING 0,
  mkMove 129 ''Swift'' 0 60 0 20 0 EFF_SWIFT_NEVERMISS 0,
  mkMove 130 ''Skull Bash'' 0 130 100 10 0 EFF_CHARGE_TURN 0,
  mkMove 131 ''Spike Cannon'' 0 20 100 15 0 EFF_MULTI_HIT 0,
  mkMove 132 ''Constrict'' 0 10 100 35 0 EFF_NONE 10,
  mkMove 133 ''Amnesia'' 13 0 0 20 0 EFF_BOOST_SPC 0,
  mkMove 134 ''Kinesis'' 13 0 80 15 0 EFF_DROP_ACC 0,
  mkMove 135 ''Soft-Boiled'' 0 0 0 5 0 EFF_HEAL_HALF 0,
  mkMove 136 ''High Jump Kick'' 1 130 90 10 0 EFF_NONE 0,
  mkMove 137 ''Glare'' 0 0 100 30 0 EFF_STATUS_PAR 0,
  mkMove 138 ''Dream Eater'' 13 100 100 15 0 EFF_DREAM_EATER 0,
  mkMove 139 ''Poison Gas'' 3 0 90 40 0 EFF_STATUS_PSN 0,
  mkMove 140 ''Barrage'' 0 15 85 20 0 EFF_MULTI_HIT 0,
  mkMove 141 ''Leech Life'' 7 80 100 10 0 EFF_DRAIN_HP 0,
  mkMove 142 ''Lovely Kiss'' 0 0 75 10 0 EFF_STATUS_SLP 0,
  mkMove 143 ''Sky Attack'' 2 140 90 5 0 EFF_CHARGE_TURN 30,
  mkMove 144 ''Transform'' 0 0 0 10 0 EFF_TRANSFORM 0,
  mkMove 145 ''Bubble'' 10 40 100 30 0 EFF_NONE 10,
  mkMove 146 ''Dizzy Punch'' 0 70 100 10 0 EFF_NONE 20,
  mkMove 147 ''Spore'' 11 0 100 15 0 EFF_STATUS_SLP 0,
  mkMove 148 ''Flash'' 0 0 100 20 0 EFF_DROP_ACC 0,
  mkMove 149 ''Psywave'' 13 1 100 15 0 EFF_PSYWAVE 0,
  mkMove 150 ''Splash'' 0 0 0 40 0 EFF_NONE 0,
  mkMove 151 ''Acid Armor'' 3 0 0 20 0 EFF_BOOST_DEF 0,
  mkMove 152 ''Crabhammer'' 10 100 90 10 0 EFF_NONE 0,
  mkMove 153 ''Explosion'' 0 170 100 5 0 EFF_EXPLODE 0,
  mkMove 154 ''Fury Swipes'' 0 18 80 15 0 EFF_MULTI_HIT 0,
  mkMove 155 ''Bonemerang'' 4 50 90 10 0 EFF_DOUBLE_HIT 0,
  mkMove 156 ''Rest'' 13 0 0 5 0 EFF_REST 0,
  mkMove 157 ''Rock Slide'' 5 75 90 10 0 EFF_NONE 30,
  mkMove 158 ''Hyper Fang'' 0 80 90 15 0 EFF_FLINCH 10,
  mkMove 159 ''Sharpen'' 0 0 0 30 0 EFF_BOOST_ATK 0,
  mkMove 160 ''Conversion'' 0 0 0 30 0 EFF_CONVERSION 0,
  mkMove 161 ''Tri Attack'' 0 80 100 10 0 EFF_NONE 20,
  mkMove 162 ''Super Fang'' 0 1 90 10 0 EFF_SUPER_FANG 0,
  mkMove 163 ''Slash'' 0 70 100 20 0 EFF_NONE 0,
  mkMove 164 ''Substitute'' 0 0 0 10 0 EFF_SUBSTITUTE 0,
  mkMove 165 ''Struggle'' 0 50 0 10 0 EFF_RECOIL 0]"

definition GEN3_MOVES :: "Gen1MoveData list" where
  "GEN3_MOVES = [
  mkMove 1 ''Pound'' 0 40 100 35 0 EFF_NONE 0,
  mkMove 2 ''Karate Chop'' 1 50 100 25 0 EFF_NONE 0,
  mkMove 3 ''Double Slap'' 0 15 85 10 0 EFF_MULTI_HIT 0,
  mkMove 4 ''Comet Punch'' 0 18 85 15 0 EFF_MULTI_HIT 0,
  mkMove 5 ''Mega Punch'' 0 80 85 20 0 EFF_NONE 0,
  mkMove 6 ''Pay Day'' 0 40 100 20 0 EFF_PAY_DAY 0,
  mkMove 7 ''Fire Punch'' 9 75 100 15 0 EFF_STATUS_BRN 10,
  mkMove 8 ''Ice Punch'' 14 75 100 15 0 EFF_STATUS_FRZ 10,
  mkMove 9 ''Thunder Punch'' 12 75 100 15 0 EFF_STATUS_PAR 10,
  mkMove 10 ''Scratch'' 0 40 100 35 0 EFF_NONE 0,
  mkMove 11 ''Vise Grip'' 0 55 100 30 0 EFF_NONE 0,
  mkMove 12 ''Guillotine'' 0 0 30 5 0 EFF_OHKO 0,
  mkMove 13 ''Razor Wind'' 0 80 100 10 0 EFF_CHARGE_TURN 0,
  mkMove 14 ''Swords Dance'' 0 0 0 20 0 EFF_BOOST_ATK 0,
  mkMove 15 ''Cut'' 0 50 95 30 0 EFF_NONE 0,
  mkMove 16 ''Gust'' 2 40 100 35 0 EFF_NONE 0,
  mkMove 17 ''Wing Attack'' 2 60 100 35 0 EFF_NONE 0,
  mkMove 18 ''Whirlwind'' 0 0 0 20 0 EFF_NONE 0,
  mkMove 19 ''Fly'' 2 90 95 15 0 EFF_CHARGE_TURN 0,
  mkMove 20 ''Bind'' 0 15 85 20 0 EFF_TRAPPING 0,
  mkMove 21 ''Slam'' 0 80 75 20 0 EFF_NONE 0,
  mkMove 22 ''Vine Whip'' 11 45 100 25 0 EFF_NONE 0,
  mkMove 23 ''Stomp'' 0 65 100 20 0 EFF_FLINCH 30,
  mkMove 24 ''Double Kick'' 1 30 100 30 0 EFF_DOUBLE_HIT 0,
  mkMove 25 ''Mega Kick'' 0 120 75 5 0 EFF_NONE 0,
  mkMove 26 ''Jump Kick'' 1 100 95 10 0 EFF_NONE 0,
  mkMove 27 ''Rolling Kick'' 1 60 85 15 0 EFF_FLINCH 30,
  mkMove 28 ''Sand Attack'' 4 0 100 15 0 EFF_DROP_ACC 0,
  mkMove 29 ''Headbutt'' 0 70 100 15 0 EFF_FLINCH 30,
  mkMove 30 ''Horn Attack'' 0 65 100 25 0 EFF_NONE 0,
  mkMove 31 ''Fury Attack'' 0 15 85 20 0 EFF_MULTI_HIT 0,
  mkMove 32 ''Horn Drill'' 0 0 30 5 0 EFF_OHKO 0,
  mkMove 33 ''Tackle'' 0 40 100 35 0 EFF_NONE 0,
  mkMove 34 ''Body Slam'' 0 85 100 15 0 EFF_STATUS_PAR 30,
  mkMove 35 ''Wrap'' 0 15 90 20 0 EFF_TRAPPING 0,
  mkMove 36 ''Take Down'' 0 90 85 20 0 EFF_RECOIL 0,
  mkMove 37 ''Thrash'' 0 120 100 10 0 EFF_THRASH 0,
  mkMove 38 ''Double-Edge'' 0 120 100 15 0 EFF_RECOIL 0,
  mkMove 39 ''Tail Whip'' 0 0 100 30 0 EFF_DROP_DEF 0,
  mkMove 40 ''Poison Sting'' 3 15 100 35 0 EFF_STATUS_PSN 30,
  mkMove 41 ''Twineedle'' 7 25 100 20 0 EFF_NONE 20,
  mkMove 42 ''Pin Missile'' 7 25 95 20 0 EFF_MULTI_HIT 0,
  mkMove 43 ''Leer'' 0 0 100 30 0 EFF_DROP_DEF 0,
  mkMove 44 ''Bite'' 16 60 100 25 0 EFF_FLINCH 30,
  mkMove 45 ''Growl'' 0 0 100 40 0 EFF_DROP_ATK 0,
  mkMove 46 ''Roar'' 0 0 0 20 0 EFF_NONE 0,
  mkMove 47 ''Sing'' 0 0 55 15 0 EFF_STATUS_SLP 0,
  mkMove 48 ''Supersonic'' 0 0 55 20 0 EFF_STATUS_CONFUSE 0,
  mkMove 49 ''Sonic Boom'' 0 0 90 20 0 EFF_FIXED_DMG 0,
  mkMove 50 ''Disable'' 0 0 100 20 0 EFF_DISABLE 0,
  mkMove 51 ''Acid'' 3 40 100 30 0 EFF_NONE 10,
  mkMove 52 ''Ember'' 9 40 100 25 0 EFF_STATUS_BRN 10,
  mkMove 53 ''Flamethrower'' 9 90 100 15 0 EFF_STATUS_BRN 10,
  mkMove 54 ''Mist'' 14 0 0 30 0 EFF_MIST 0,
  mkMove 55 ''Water Gun'' 10 40 100 25 0 EFF_NONE 0,
  mkMove 56 ''Hydro Pump'' 10 110 80 5 0 EFF_NONE 0,
  mkMove 57 ''Surf'' 10 90 100 15 0 EFF_NONE 0,
  mkMove 58 ''Ice Beam'' 14 90 100 10 0 EFF_STATUS_FRZ 10,
  mkMove 59 ''Blizzard'' 14 110 70 5 0 EFF_STATUS_FRZ 10,
  mkMove 60 ''Psybeam'' 13 65 100 20 0 EFF_STATUS_CONFUSE 10,
  mkMove 61 ''Bubble Beam'' 10 65 100 20 0 EFF_NONE 10,
  mkMove 62 ''Aurora Beam'' 14 65 100 20 0 EFF_NONE 10,
  mkMove 63 ''Hyper Beam'' 0 150 90 5 0 EFF_HYPER_BEAM 0,
  mkMove 64 ''Peck'' 2 35 100 35 0 EFF_NONE 0,
  mkMove 65 ''Drill Peck'' 2 80 100 20 0 EFF_NONE 0,
  mkMove 66 ''Submission'' 1 80 80 20 0 EFF_RECOIL 0,
  mkMove 67 ''Low Kick'' 1 0 100 20 0 EFF_FLINCH 0,
  mkMove 68 ''Counter'' 1 0 100 20 (-5) EFF_COUNTER 0,
  mkMove 69 ''Seismic Toss'' 1 0 100 20 0 EFF_LEVEL_DMG 0,
  mkMove 70 ''Strength'' 0 80 100 15 0 EFF_NONE 0,
  mkMove 71 ''Absorb'' 11 20 100 25 0 EFF_DRAIN_HP 0,
  mkMove 72 ''Mega Drain'' 11 40 100 15 0 EFF_DRAIN_HP 0,
  mkMove 73 ''Leech Seed'' 11 0 90 10 0 EFF_DRAIN_HP 0,
  mkMove 74 ''Growth'' 0 0 0 20 0 EFF_BOOST_SPC 0,
  mkMove 75 ''Razor Leaf'' 11 55 95 25 0 EFF_NONE 0,
  mkMove 76 ''Solar Beam'' 11 120 100 10 0 EFF_CHARGE_TURN 0,
  mkMove 77 ''Poison Powder'' 3 0 75 35 0 EFF_STATUS_PSN 0,
  mkMove 78 ''Stun Spore'' 11 0 75 30 0 EFF_STATUS_PAR 0,
  mkMove 79 ''Sleep Powder'' 11 0 75 15 0 EFF_STATUS_SLP 0,
  mkMove 80 ''Petal Dance'' 11 120 100 10 0 EFF_THRASH 0,
  mkMove 81 ''String Shot'' 7 0 95 40 0 EFF_DROP_SPD 0,
  mkMove 82 ''Dragon Rage'' 15 0 100 10 0 EFF_FIXED_DMG 0,
  mkMove 83 ''Fire Spin'' 9 35 85 15 0 EFF_TRAPPING 0,
  mkMove 84 ''Thunder Shock'' 12 40 100 30 0 EFF_STATUS_PAR 10,
  mkMove 85 ''Thunderbolt'' 12 90 100 15 0 EFF_STATUS_PAR 10,
  mkMove 86 ''Thunder Wave'' 12 0 90 20 0 EFF_STATUS_PAR 0,
  mkMove 87 ''Thunder'' 12 110 70 10 0 EFF_STATUS_PAR 30,
  mkMove 88 ''Rock Throw'' 5 50 90 15 0 EFF_NONE 0,
  mkMove 89 ''Earthquake'' 4 100 100 10 0 EFF_NONE 0,
  mkMove 90 ''Fissure'' 4 0 30 5 0 EFF_OHKO 0,
  mkMove 91 ''Dig'' 4 80 100 10 0 EFF_CHARGE_TURN 0,
  mkMove 92 ''Toxic'' 3 0 90 10 0 EFF_STATUS_PSN 0,
  mkMove 93 ''Confusion'' 13 50 100 25 0 EFF_STATUS_CONFUSE 10,
  mkMove 94 ''Psychic'' 13 90 100 10 0 EFF_NONE 10,
  mkMove 95 ''Hypnosis'' 13 0 60 20 0 EFF_STATUS_SLP 0,
  mkMove 96 ''Meditate'' 13 0 0 40 0 EFF_BOOST_ATK 0,
  mkMove 97 ''Agility'' 13 0 0 30 0 EFF_BOOST_SPD 0,
  mkMove 98 ''Quick Attack'' 0 40 100 30 1 EFF_NONE 0,
  mkMove 99 ''Rage'' 0 20 100 20 0 EFF_RAGE 0,
  mkMove 100 ''Teleport'' 13 0 0 20 (-6) EFF_NONE 0,
  mkMove 101 ''Night Shade'' 8 0 100 15 0 EFF_LEVEL_DMG 0,
  mkMove 102 ''Mimic'' 0 0 0 10 0 EFF_MIMIC 0,
  mkMove 103 ''Screech'' 0 0 85 40 0 EFF_DROP_DEF 0,
  mkMove 104 ''Double Team'' 0 0 0 15 0 EFF_BOOST_EVA 0,
  mkMove 105 ''Recover'' 0 0 0 5 0 EFF_HEAL_HALF 0,
  mkMove 106 ''Harden'' 0 0 0 30 0 EFF_BOOST_DEF 0,
  mkMove 107 ''Minimize'' 0 0 0 10 0 EFF_BOOST_EVA 0,
  mkMove 108 ''Smokescreen'' 0 0 100 20 0 EFF_DROP_ACC 0,
  mkMove 109 ''Confuse Ray'' 8 0 100 10 0 EFF_STATUS_CONFUSE 0,
  mkMove 110 ''Withdraw'' 10 0 0 40 0 EFF_BOOST_DEF 0,
  mkMove 111 ''Defense Curl'' 0 0 0 40 0 EFF_BOOST_DEF 0,
  mkMove 112 ''Barrier'' 13 0 0 20 0 EFF_BOOST_DEF 0,
  mkMove 113 ''Light Screen'' 13 0 0 30 0 EFF_LIGHT_SCREEN 0,
  mkMove 114 ''Haze'' 14 0 0 30 0 EFF_HAZE 0,
  mkMove 115 ''Reflect'' 13 0 0 20 0 EFF_REFLECT 0,
  mkMove 116 ''Focus Energy'' 0 0 0 30 0 EFF_FOCUS_ENERGY 0,
  mkMove 117 ''Bide'' 0 0 0 10 1 EFF_BIDE 0,
  mkMove 118 ''Metronome'' 0 0 0 10 0 EFF_METRONOME 0,
  mkMove 119 ''Mirror Move'' 2 0 0 20 0 EFF_NONE 0,
  mkMove 120 ''Self-Destruct'' 0 200 100 5 0 EFF_EXPLODE 0,
  mkMove 121 ''Egg Bomb'' 0 100 75 10 0 EFF_NONE 0,
  mkMove 122 ''Lick'' 8 30 100 30 0 EFF_STATUS_PAR 30,
  mkMove 123 ''Smog'' 3 30 70 20 0 EFF_STATUS_PSN 40,
  mkMove 124 ''Sludge'' 3 65 100 20 0 EFF_STATUS_PSN 30,
  mkMove 125 ''Bone Club'' 4 65 85 20 0 EFF_NONE 10,
  mkMove 126 ''Fire Blast'' 9 110 85 5 0 EFF_STATUS_BRN 10,
  mkMove 127 ''Waterfall'' 10 80 100 15 0 EFF_NONE 20,
  mkMove 128 ''Clamp'' 10 35 85 10 0 EFF_TRAPPING 0,
  mkMove 129 ''Swift'' 0 60 0 20 0 EFF_SWIFT_NEVERMISS 0,
  mkMove 130 ''Skull Bash'' 0 130 100 10 0 EFF_CHARGE_TURN 0,
  mkMove 131 ''Spike Cannon'' 0 20 100 15 0 EFF_MULTI_HIT 0,
  mkMove 132 ''Constrict'' 0 10 100 35 0 EFF_NONE 10,
  mkMove 133 ''Amnesia'' 13 0 0 20 0 EFF_BOOST_SPC 0,
  mkMove 134 ''Kinesis'' 13 0 80 15 0 EFF_DROP_ACC 0,
  mkMove 135 ''Soft-Boiled'' 0 0 0 5 0 EFF_HEAL_HALF 0,
  mkMove 136 ''High Jump Kick'' 1 130 90 10 0 EFF_NONE 0,
  mkMove 137 ''Glare'' 0 0 100 30 0 EFF_STATUS_PAR 0,
  mkMove 138 ''Dream Eater'' 13 100 100 15 0 EFF_DREAM_EATER 0,
  mkMove 139 ''Poison Gas'' 3 0 90 40 0 EFF_STATUS_PSN 0,
  mkMove 140 ''Barrage'' 0 15 85 20 0 EFF_MULTI_HIT 0,
  mkMove 141 ''Leech Life'' 7 80 100 10 0 EFF_DRAIN_HP 0,
  mkMove 142 ''Lovely Kiss'' 0 0 75 10 0 EFF_STATUS_SLP 0,
  mkMove 143 ''Sky Attack'' 2 140 90 5 0 EFF_CHARGE_TURN 30,
  mkMove 144 ''Transform'' 0 0 0 10 0 EFF_TRANSFORM 0,
  mkMove 145 ''Bubble'' 10 40 100 30 0 EFF_NONE 10,
  mkMove 146 ''Dizzy Punch'' 0 70 100 10 0 EFF_NONE 20,
  mkMove 147 ''Spore'' 11 0 100 15 0 EFF_STATUS_SLP 0,
  mkMove 148 ''Flash'' 0 0 100 20 0 EFF_DROP_ACC 0,
  mkMove 149 ''Psywave'' 13 0 100 15 0 EFF_PSYWAVE 0,
  mkMove 150 ''Splash'' 0 0 0 40 0 EFF_NONE 0,
  mkMove 151 ''Acid Armor'' 3 0 0 20 0 EFF_BOOST_DEF 0,
  mkMove 152 ''Crabhammer'' 10 100 90 10 0 EFF_NONE 0,
  mkMove 153 ''Explosion'' 0 250 100 5 0 EFF_EXPLODE 0,
  mkMove 154 ''Fury Swipes'' 0 18 80 15 0 EFF_MULTI_HIT 0,
  mkMove 155 ''Bonemerang'' 4 50 90 10 0 EFF_DOUBLE_HIT 0,
  mkMove 156 ''Rest'' 13 0 0 5 0 EFF_REST 0,
  mkMove 157 ''Rock Slide'' 5 75 90 10 0 EFF_NONE 30,
  mkMove 158 ''Hyper Fang'' 0 80 90 15 0 EFF_FLINCH 10,
  mkMove 159 ''Sharpen'' 0 0 0 30 0 EFF_BOOST_ATK 0,
  mkMove 160 ''Conversion'' 0 0 0 30 0 EFF_CONVERSION 0,
  mkMove 161 ''Tri Attack'' 0 80 100 10 0 EFF_NONE 20,
  mkMove 162 ''Super Fang'' 0 0 90 10 0 EFF_SUPER_FANG 0,
  mkMove 163 ''Slash'' 0 70 100 20 0 EFF_NONE 0,
  mkMove 164 ''Substitute'' 0 0 0 10 0 EFF_SUBSTITUTE 0,
  mkMove 165 ''Struggle'' 0 50 0 10 0 EFF_RECOIL 0]"

text \<open>
  \<open>gen1Move\<close> and \<open>gen3Move\<close>: the first entry whose number matches.  The loops run over
  \<open>GEN1_MOVE_COUNT = GEN3_MOVE_COUNT = 165\<close> entries, which is the whole of either table.
\<close>

definition gen1Move :: "nat \<Rightarrow> Gen1MoveData option" where
  "gen1Move num = find (\<lambda>m. mnum m = num) GEN1_MOVES"

definition gen3Move :: "nat \<Rightarrow> Gen1MoveData option" where
  "gen3Move num = find (\<lambda>m. mnum m = num) GEN3_MOVES"

end
