(* ===== verification/SpeciesTables.thy ===== *)
theory SpeciesTables
  imports Prelude
begin

text \<open>
  Species data: base stats of both mechanics generations
  (\<^verbatim>\<open>showdown_gen1_basestats.h\<close>, \<^verbatim>\<open>showdown_gen3_basestats.h\<close>), the two type charts
  (\<^verbatim>\<open>showdown_gen1_typechart.h\<close>, \<^verbatim>\<open>showdown_gen3_typechart.h\<close>), the internal-index to
  Pokedex maps, growth rates and base stats of \<^verbatim>\<open>DaycareSavPatcher.h\<close>, the names of
  \<^verbatim>\<open>Gen1Species.h\<close> and the learnsets of \<^verbatim>\<open>Gen1Learnsets.h\<close>, all as lists in table order.
\<close>

record Gen1BaseStats =
  b1_hp :: nat
  b1_atk :: nat
  b1_def :: nat
  b1_spd :: nat
  b1_spc :: nat
  b1_type1 :: nat
  b1_type2 :: nat

definition mkB1 :: "nat \<Rightarrow> nat \<Rightarrow> nat \<Rightarrow> nat \<Rightarrow> nat \<Rightarrow> nat \<Rightarrow> nat \<Rightarrow> Gen1BaseStats" where
  "mkB1 h a d s c t u =
     \<lparr>b1_hp = h, b1_atk = a, b1_def = d, b1_spd = s, b1_spc = c, b1_type1 = t, b1_type2 = u\<rparr>"

record Gen3BaseStats =
  b3_hp :: nat
  b3_atk :: nat
  b3_def :: nat
  b3_spa :: nat
  b3_spd :: nat
  b3_spe :: nat
  b3_type1 :: nat
  b3_type2 :: nat

definition mkB3 :: "nat \<Rightarrow> nat \<Rightarrow> nat \<Rightarrow> nat \<Rightarrow> nat \<Rightarrow> nat \<Rightarrow> nat \<Rightarrow> nat \<Rightarrow> Gen3BaseStats" where
  "mkB3 h a d sa sd sp t u =
     \<lparr>b3_hp = h, b3_atk = a, b3_def = d, b3_spa = sa, b3_spd = sd, b3_spe = sp,
       b3_type1 = t, b3_type2 = u\<rparr>"

record BaseStats =
  bs_hp :: nat
  bs_atk :: nat
  bs_def :: nat
  bs_spd :: nat
  bs_spc :: nat

definition mkBS :: "nat \<Rightarrow> nat \<Rightarrow> nat \<Rightarrow> nat \<Rightarrow> nat \<Rightarrow> BaseStats" where
  "mkBS h a d s c = \<lparr>bs_hp = h, bs_atk = a, bs_def = d, bs_spd = s, bs_spc = c\<rparr>"

lemma mkB_sel [simp]:
  "b1_hp (mkB1 h a d s c t u) = h" "b1_atk (mkB1 h a d s c t u) = a"
  "b1_def (mkB1 h a d s c t u) = d" "b1_spd (mkB1 h a d s c t u) = s"
  "b1_spc (mkB1 h a d s c t u) = c" "b1_type1 (mkB1 h a d s c t u) = t"
  "b1_type2 (mkB1 h a d s c t u) = u"
  "b3_hp (mkB3 h a d sa sd sp t u) = h" "b3_atk (mkB3 h a d sa sd sp t u) = a"
  "b3_def (mkB3 h a d sa sd sp t u) = d" "b3_spa (mkB3 h a d sa sd sp t u) = sa"
  "b3_spd (mkB3 h a d sa sd sp t u) = sd" "b3_spe (mkB3 h a d sa sd sp t u) = sp"
  "b3_type1 (mkB3 h a d sa sd sp t u) = t" "b3_type2 (mkB3 h a d sa sd sp t u) = u"
  "bs_hp (mkBS h a d s c) = h" "bs_atk (mkBS h a d s c) = a" "bs_def (mkBS h a d s c) = d"
  "bs_spd (mkBS h a d s c) = s" "bs_spc (mkBS h a d s c) = c"
  by (simp_all add: mkB1_def mkB3_def mkBS_def)

definition GEN1_BASE_STATS :: "Gen1BaseStats list" where
  "GEN1_BASE_STATS = [
  mkB1 0 0 0 0 0 0 0,
  mkB1 45 49 49 45 65 11 3,
  mkB1 60 62 63 60 80 11 3,
  mkB1 80 82 83 80 100 11 3,
  mkB1 39 52 43 65 50 9 9,
  mkB1 58 64 58 80 65 9 9,
  mkB1 78 84 78 100 109 9 2,
  mkB1 44 48 65 43 50 10 10,
  mkB1 59 63 80 58 65 10 10,
  mkB1 79 83 100 78 85 10 10,
  mkB1 45 30 35 45 20 7 7,
  mkB1 50 20 55 30 25 7 7,
  mkB1 60 45 50 70 90 7 2,
  mkB1 40 35 30 50 20 7 3,
  mkB1 45 25 50 35 25 7 3,
  mkB1 65 150 40 145 15 7 3,
  mkB1 40 45 40 56 35 0 2,
  mkB1 63 60 55 71 50 0 2,
  mkB1 83 80 80 121 135 0 2,
  mkB1 30 56 35 72 25 0 0,
  mkB1 75 71 70 77 40 0 0,
  mkB1 40 60 30 70 31 0 2,
  mkB1 65 90 65 100 61 0 2,
  mkB1 35 60 44 55 40 3 3,
  mkB1 60 85 69 80 65 3 3,
  mkB1 35 55 40 90 50 12 12,
  mkB1 60 100 55 130 160 12 12,
  mkB1 50 75 90 40 10 14 0,
  mkB1 75 100 120 65 25 14 0,
  mkB1 55 47 52 41 40 3 3,
  mkB1 70 62 67 56 55 3 3,
  mkB1 90 82 87 76 75 3 4,
  mkB1 46 57 40 50 40 3 3,
  mkB1 61 72 57 65 55 3 3,
  mkB1 81 92 77 85 75 3 4,
  mkB1 70 45 48 35 60 0 0,
  mkB1 95 80 93 70 135 0 2,
  mkB1 38 41 40 65 50 14 14,
  mkB1 73 67 75 109 81 14 0,
  mkB1 115 45 20 20 25 0 0,
  mkB1 140 70 45 45 50 0 0,
  mkB1 40 45 35 55 40 3 2,
  mkB1 75 80 70 90 75 3 2,
  mkB1 45 50 55 30 75 11 3,
  mkB1 60 65 70 40 85 11 3,
  mkB1 75 80 85 50 100 11 3,
  mkB1 35 70 55 25 55 7 11,
  mkB1 60 95 80 30 80 7 11,
  mkB1 60 55 50 45 40 7 3,
  mkB1 70 65 60 90 90 7 3,
  mkB1 10 55 30 90 35 4 0,
  mkB1 35 100 60 110 50 4 0,
  mkB1 40 45 35 90 40 0 0,
  mkB1 65 60 60 115 75 0 0,
  mkB1 50 52 48 55 50 10 10,
  mkB1 80 82 78 85 80 10 10,
  mkB1 40 80 35 70 35 1 1,
  mkB1 65 105 60 95 60 1 1,
  mkB1 60 75 45 55 65 9 5,
  mkB1 95 115 80 90 95 9 5,
  mkB1 40 50 40 90 40 10 10,
  mkB1 65 65 65 90 50 10 10,
  mkB1 90 85 95 70 70 10 1,
  mkB1 25 20 15 90 105 13 13,
  mkB1 40 35 30 105 120 13 13,
  mkB1 55 50 65 150 175 13 13,
  mkB1 70 80 50 35 35 1 1,
  mkB1 80 100 70 45 50 1 1,
  mkB1 90 130 80 55 65 1 1,
  mkB1 50 75 35 40 70 11 3,
  mkB1 65 90 50 55 85 11 3,
  mkB1 80 125 85 70 135 11 3,
  mkB1 40 40 35 70 100 10 3,
  mkB1 80 70 65 100 120 10 3,
  mkB1 40 80 100 20 30 5 12,
  mkB1 55 95 115 35 45 5 12,
  mkB1 80 120 130 45 55 5 12,
  mkB1 50 85 55 90 65 13 13,
  mkB1 65 100 70 105 80 13 0,
  mkB1 90 65 65 15 40 13 13,
  mkB1 95 100 95 30 100 3 13,
  mkB1 25 35 70 45 95 12 12,
  mkB1 50 60 95 70 120 12 12,
  mkB1 52 95 55 55 58 1 1,
  mkB1 35 85 45 75 35 0 2,
  mkB1 60 110 70 100 60 0 2,
  mkB1 65 45 55 45 70 10 10,
  mkB1 90 70 80 70 95 10 14,
  mkB1 80 80 50 25 40 3 0,
  mkB1 105 105 75 50 65 3 0,
  mkB1 30 65 100 40 45 10 10,
  mkB1 50 95 180 70 85 10 14,
  mkB1 30 35 30 80 100 8 3,
  mkB1 45 50 45 95 115 8 3,
  mkB1 60 65 60 110 130 8 3,
  mkB1 35 45 160 70 30 5 4,
  mkB1 60 48 45 42 90 13 13,
  mkB1 85 73 70 67 115 13 13,
  mkB1 30 105 90 50 25 10 10,
  mkB1 55 130 115 75 50 10 10,
  mkB1 40 30 50 100 55 12 11,
  mkB1 60 50 70 150 80 12 11,
  mkB1 60 40 80 40 60 11 13,
  mkB1 95 105 85 45 125 11 15,
  mkB1 50 50 95 35 40 4 4,
  mkB1 60 80 110 45 50 9 8,
  mkB1 50 120 53 87 35 1 1,
  mkB1 50 105 79 76 35 1 1,
  mkB1 90 55 75 30 60 0 0,
  mkB1 40 65 95 35 60 3 3,
  mkB1 65 90 120 60 85 3 0,
  mkB1 80 85 95 25 30 4 5,
  mkB1 105 130 120 40 45 4 5,
  mkB1 250 5 5 50 105 0 0,
  mkB1 65 55 115 60 100 11 11,
  mkB1 105 125 100 100 60 0 0,
  mkB1 30 40 70 60 70 10 10,
  mkB1 55 65 95 85 95 10 10,
  mkB1 45 67 60 63 50 10 10,
  mkB1 80 92 65 68 80 10 10,
  mkB1 30 45 55 85 70 10 10,
  mkB1 60 100 105 120 130 10 13,
  mkB1 50 65 65 100 90 14 13,
  mkB1 70 110 80 105 55 7 2,
  mkB1 65 50 35 95 95 14 13,
  mkB1 65 83 57 105 85 12 12,
  mkB1 65 95 57 93 85 9 9,
  mkB1 65 155 120 105 65 7 2,
  mkB1 75 110 105 100 30 1 10,
  mkB1 20 10 55 80 20 10 10,
  mkB1 95 155 109 81 70 10 0,
  mkB1 130 85 80 60 85 10 14,
  mkB1 48 48 48 48 48 0 0,
  mkB1 55 55 50 55 45 0 0,
  mkB1 130 65 60 65 110 10 10,
  mkB1 65 65 60 130 110 12 12,
  mkB1 65 130 60 65 110 9 9,
  mkB1 65 60 70 40 75 0 0,
  mkB1 35 40 100 35 90 5 10,
  mkB1 70 60 125 55 115 5 10,
  mkB1 30 80 90 55 45 5 10,
  mkB1 60 115 105 80 70 5 10,
  mkB1 80 135 85 150 70 5 2,
  mkB1 160 110 65 30 65 0 0,
  mkB1 90 85 85 95 125 13 2,
  mkB1 90 125 90 100 85 1 2,
  mkB1 90 85 90 90 100 0 2,
  mkB1 41 64 45 50 50 15 15,
  mkB1 61 84 65 70 70 15 15,
  mkB1 91 124 115 100 145 15 2,
  mkB1 106 150 70 140 194 13 13,
  mkB1 100 100 100 100 100 13 13]"

definition GEN3_BASE_STATS :: "Gen3BaseStats list" where
  "GEN3_BASE_STATS = [
  mkB3 0 0 0 0 0 0 0 0,
  mkB3 45 49 49 65 65 45 11 3,
  mkB3 60 62 63 80 80 60 11 3,
  mkB3 80 82 83 100 100 80 11 3,
  mkB3 39 52 43 60 50 65 9 9,
  mkB3 58 64 58 80 65 80 9 9,
  mkB3 78 84 78 109 85 100 9 2,
  mkB3 44 48 65 50 64 43 10 10,
  mkB3 59 63 80 65 80 58 10 10,
  mkB3 79 83 100 85 105 78 10 10,
  mkB3 45 30 35 20 20 45 7 7,
  mkB3 50 20 55 25 25 30 7 7,
  mkB3 60 45 50 90 80 70 7 2,
  mkB3 40 35 30 20 20 50 7 3,
  mkB3 45 25 50 25 25 35 7 3,
  mkB3 65 90 40 45 80 75 7 3,
  mkB3 40 45 40 35 35 56 0 2,
  mkB3 63 60 55 50 50 71 0 2,
  mkB3 83 80 75 70 70 101 0 2,
  mkB3 30 56 35 25 35 72 0 0,
  mkB3 55 81 60 50 70 97 0 0,
  mkB3 40 60 30 31 31 70 0 2,
  mkB3 65 90 65 61 61 100 0 2,
  mkB3 35 60 44 40 54 55 3 3,
  mkB3 60 95 69 65 79 80 3 3,
  mkB3 35 55 40 50 50 90 12 12,
  mkB3 60 90 55 90 80 110 12 12,
  mkB3 50 75 85 20 30 40 4 4,
  mkB3 75 100 110 45 55 65 4 4,
  mkB3 55 47 52 40 40 41 3 3,
  mkB3 70 62 67 55 55 56 3 3,
  mkB3 90 92 87 75 85 76 3 4,
  mkB3 46 57 40 40 40 50 3 3,
  mkB3 61 72 57 55 55 65 3 3,
  mkB3 81 102 77 85 75 85 3 4,
  mkB3 70 45 48 60 65 35 0 0,
  mkB3 95 70 73 95 90 60 0 0,
  mkB3 38 41 40 50 65 65 9 9,
  mkB3 73 76 75 81 100 100 9 9,
  mkB3 115 45 20 45 25 20 0 0,
  mkB3 140 70 45 85 50 45 0 0,
  mkB3 40 45 35 30 40 55 3 2,
  mkB3 75 80 70 65 75 90 3 2,
  mkB3 45 50 55 75 65 30 11 3,
  mkB3 60 65 70 85 75 40 11 3,
  mkB3 75 80 85 110 90 50 11 3,
  mkB3 35 70 55 45 55 25 7 11,
  mkB3 60 95 80 60 80 30 7 11,
  mkB3 60 55 50 40 55 45 7 3,
  mkB3 70 65 60 90 75 90 7 3,
  mkB3 10 55 25 35 45 95 4 4,
  mkB3 35 100 50 50 70 120 4 4,
  mkB3 40 45 35 40 40 90 0 0,
  mkB3 65 70 60 65 65 115 0 0,
  mkB3 50 52 48 65 50 55 10 10,
  mkB3 80 82 78 95 80 85 10 10,
  mkB3 40 80 35 35 45 70 1 1,
  mkB3 65 105 60 60 70 95 1 1,
  mkB3 55 70 45 70 50 60 9 9,
  mkB3 90 110 80 100 80 95 9 9,
  mkB3 40 50 40 40 40 90 10 10,
  mkB3 65 65 65 50 50 90 10 10,
  mkB3 90 95 95 70 90 70 10 1,
  mkB3 25 20 15 105 55 90 13 13,
  mkB3 40 35 30 120 70 105 13 13,
  mkB3 55 50 45 135 95 120 13 13,
  mkB3 70 80 50 35 35 35 1 1,
  mkB3 80 100 70 50 60 45 1 1,
  mkB3 90 130 80 65 85 55 1 1,
  mkB3 50 75 35 70 30 40 11 3,
  mkB3 65 90 50 85 45 55 11 3,
  mkB3 80 105 65 100 70 70 11 3,
  mkB3 40 40 35 50 100 70 10 3,
  mkB3 80 70 65 80 120 100 10 3,
  mkB3 40 80 100 30 30 20 5 4,
  mkB3 55 95 115 45 45 35 5 4,
  mkB3 80 120 130 55 65 45 5 4,
  mkB3 50 85 55 65 65 90 9 9,
  mkB3 65 100 70 80 80 105 9 9,
  mkB3 90 65 65 40 40 15 10 13,
  mkB3 95 75 110 100 80 30 10 13,
  mkB3 25 35 70 95 55 45 12 17,
  mkB3 50 60 95 120 70 70 12 17,
  mkB3 52 90 55 58 62 60 0 2,
  mkB3 35 85 45 35 35 75 0 2,
  mkB3 60 110 70 60 60 110 0 2,
  mkB3 65 45 55 45 70 45 10 10,
  mkB3 90 70 80 70 95 70 10 14,
  mkB3 80 80 50 40 50 25 3 3,
  mkB3 105 105 75 65 100 50 3 3,
  mkB3 30 65 100 45 25 40 10 10,
  mkB3 50 95 180 85 45 70 10 14,
  mkB3 30 35 30 100 35 80 8 3,
  mkB3 45 50 45 115 55 95 8 3,
  mkB3 60 65 60 130 75 110 8 3,
  mkB3 35 45 160 30 45 70 5 4,
  mkB3 60 48 45 43 90 42 13 13,
  mkB3 85 73 70 73 115 67 13 13,
  mkB3 30 105 90 25 25 50 10 10,
  mkB3 55 130 115 50 50 75 10 10,
  mkB3 40 30 50 55 55 100 12 12,
  mkB3 60 50 70 80 80 150 12 12,
  mkB3 60 40 80 60 45 40 11 13,
  mkB3 95 95 85 125 75 55 11 13,
  mkB3 50 50 95 40 50 35 4 4,
  mkB3 60 80 110 50 80 45 4 4,
  mkB3 50 120 53 35 110 87 1 1,
  mkB3 50 105 79 35 110 76 1 1,
  mkB3 90 55 75 60 75 30 0 0,
  mkB3 40 65 95 60 45 35 3 3,
  mkB3 65 90 120 85 70 60 3 3,
  mkB3 80 85 95 30 30 25 4 5,
  mkB3 105 130 120 45 45 40 4 5,
  mkB3 250 5 5 35 105 50 0 0,
  mkB3 65 55 115 100 40 60 11 11,
  mkB3 105 95 80 40 80 90 0 0,
  mkB3 30 40 70 70 25 60 10 10,
  mkB3 55 65 95 95 45 85 10 10,
  mkB3 45 67 60 35 50 63 10 10,
  mkB3 80 92 65 65 80 68 10 10,
  mkB3 30 45 55 70 55 85 10 10,
  mkB3 60 75 85 100 85 115 10 13,
  mkB3 40 45 65 100 120 90 13 13,
  mkB3 70 110 80 55 80 105 7 2,
  mkB3 65 50 35 115 95 95 14 13,
  mkB3 65 83 57 95 85 105 12 12,
  mkB3 65 95 57 100 85 93 9 9,
  mkB3 65 125 100 55 70 85 7 7,
  mkB3 75 100 95 40 70 110 0 0,
  mkB3 20 10 55 15 20 80 10 10,
  mkB3 95 125 79 60 100 81 10 2,
  mkB3 130 85 80 85 95 60 10 14,
  mkB3 48 48 48 48 48 48 0 0,
  mkB3 55 55 50 45 65 55 0 0,
  mkB3 130 65 60 110 95 65 10 10,
  mkB3 65 65 60 110 95 130 12 12,
  mkB3 65 130 60 95 110 65 9 9,
  mkB3 65 60 70 85 75 40 0 0,
  mkB3 35 40 100 90 55 35 5 10,
  mkB3 70 60 125 115 70 55 5 10,
  mkB3 30 80 90 55 45 55 5 10,
  mkB3 60 115 105 65 70 80 5 10,
  mkB3 80 105 65 60 75 130 5 2,
  mkB3 160 110 65 65 110 30 0 0,
  mkB3 90 85 100 95 125 85 14 2,
  mkB3 90 90 85 125 90 100 12 2,
  mkB3 90 100 90 125 85 90 9 2,
  mkB3 41 64 45 50 50 50 15 15,
  mkB3 61 84 65 70 70 70 15 15,
  mkB3 91 134 95 100 100 80 15 2,
  mkB3 106 110 90 154 90 130 13 13,
  mkB3 100 100 100 100 100 100 13 13]"

definition speciesBaseStats :: "BaseStats list" where
  "speciesBaseStats = [
  mkBS 0 0 0 0 0,
  mkBS 45 49 49 45 65,
  mkBS 60 62 63 60 80,
  mkBS 80 82 83 80 100,
  mkBS 39 52 43 65 50,
  mkBS 58 64 58 80 65,
  mkBS 78 84 78 100 85,
  mkBS 44 48 65 43 50,
  mkBS 59 63 80 58 65,
  mkBS 79 83 100 78 85,
  mkBS 45 30 35 45 20,
  mkBS 50 20 55 30 25,
  mkBS 60 45 50 70 80,
  mkBS 40 35 30 50 20,
  mkBS 45 25 50 35 25,
  mkBS 65 80 40 75 45,
  mkBS 40 45 40 56 35,
  mkBS 63 60 55 71 50,
  mkBS 83 80 75 91 70,
  mkBS 30 56 35 72 25,
  mkBS 55 81 60 97 50,
  mkBS 40 60 30 70 31,
  mkBS 65 90 65 100 61,
  mkBS 35 60 44 55 40,
  mkBS 60 85 69 80 65,
  mkBS 35 55 30 90 50,
  mkBS 60 90 55 100 90,
  mkBS 50 75 85 40 30,
  mkBS 75 100 110 65 55,
  mkBS 55 47 52 41 40,
  mkBS 70 62 67 56 55,
  mkBS 90 82 87 76 75,
  mkBS 46 57 40 50 40,
  mkBS 61 72 57 65 55,
  mkBS 81 92 77 85 75,
  mkBS 70 45 48 35 60,
  mkBS 95 70 73 60 85,
  mkBS 38 41 40 65 65,
  mkBS 73 76 75 100 100,
  mkBS 115 45 20 20 25,
  mkBS 140 70 45 45 50,
  mkBS 40 45 35 55 40,
  mkBS 75 80 70 90 75,
  mkBS 45 50 55 30 75,
  mkBS 60 65 70 40 85,
  mkBS 75 80 85 50 100,
  mkBS 35 70 55 25 55,
  mkBS 60 95 80 30 80,
  mkBS 60 55 50 45 40,
  mkBS 70 65 60 90 90,
  mkBS 10 55 25 95 45,
  mkBS 35 80 50 120 70,
  mkBS 40 45 35 90 40,
  mkBS 65 70 60 115 65,
  mkBS 50 52 48 55 50,
  mkBS 80 82 78 85 80,
  mkBS 40 80 35 70 35,
  mkBS 65 105 60 95 60,
  mkBS 55 70 45 60 50,
  mkBS 90 110 80 95 80,
  mkBS 40 50 40 90 40,
  mkBS 65 65 65 90 50,
  mkBS 90 85 95 70 70,
  mkBS 25 20 15 90 105,
  mkBS 40 35 30 105 120,
  mkBS 55 50 45 120 135,
  mkBS 70 80 50 35 35,
  mkBS 80 100 70 45 50,
  mkBS 90 130 80 55 65,
  mkBS 50 75 35 40 70,
  mkBS 65 90 50 55 85,
  mkBS 80 105 65 70 100,
  mkBS 40 40 35 70 100,
  mkBS 80 70 65 100 120,
  mkBS 40 80 100 20 30,
  mkBS 55 95 115 35 45,
  mkBS 80 110 130 45 55,
  mkBS 50 85 55 90 65,
  mkBS 65 100 70 105 80,
  mkBS 90 65 65 15 40,
  mkBS 95 75 110 30 80,
  mkBS 25 35 70 45 95,
  mkBS 50 60 95 70 120,
  mkBS 52 65 55 60 58,
  mkBS 35 85 45 75 35,
  mkBS 60 110 70 100 60,
  mkBS 65 45 55 45 70,
  mkBS 90 70 80 70 95,
  mkBS 80 80 50 25 40,
  mkBS 105 105 75 50 65,
  mkBS 30 65 100 40 45,
  mkBS 50 95 180 70 85,
  mkBS 30 35 30 80 100,
  mkBS 45 50 45 95 115,
  mkBS 60 65 60 110 130,
  mkBS 35 45 160 70 30,
  mkBS 60 48 45 42 90,
  mkBS 85 73 70 67 115,
  mkBS 30 105 90 50 25,
  mkBS 55 130 115 75 50,
  mkBS 40 30 50 100 55,
  mkBS 60 50 70 140 80,
  mkBS 60 40 80 40 60,
  mkBS 95 95 85 55 125,
  mkBS 50 50 95 35 40,
  mkBS 60 80 110 45 50,
  mkBS 50 120 53 87 35,
  mkBS 50 105 79 76 35,
  mkBS 90 55 75 30 60,
  mkBS 40 65 95 35 60,
  mkBS 65 90 120 60 85,
  mkBS 80 85 95 25 30,
  mkBS 105 130 120 40 45,
  mkBS 250 5 5 50 105,
  mkBS 65 55 115 60 100,
  mkBS 105 95 80 90 40,
  mkBS 30 40 70 60 70,
  mkBS 55 65 95 85 95,
  mkBS 45 67 60 63 50,
  mkBS 80 92 65 68 80,
  mkBS 30 45 55 85 70,
  mkBS 60 75 85 115 100,
  mkBS 40 45 65 90 100,
  mkBS 70 110 80 105 55,
  mkBS 65 50 35 95 95,
  mkBS 65 83 57 105 85,
  mkBS 65 95 57 93 85,
  mkBS 65 125 100 85 55,
  mkBS 75 100 95 110 70,
  mkBS 20 10 55 80 20,
  mkBS 95 125 79 81 100,
  mkBS 130 85 80 60 95,
  mkBS 48 48 48 48 48,
  mkBS 55 55 50 55 65,
  mkBS 130 65 60 65 110,
  mkBS 65 65 60 130 110,
  mkBS 65 130 60 65 110,
  mkBS 65 60 70 40 75,
  mkBS 35 40 100 35 90,
  mkBS 70 60 125 55 115,
  mkBS 30 80 90 55 45,
  mkBS 60 115 105 80 70,
  mkBS 80 105 65 130 60,
  mkBS 160 110 65 30 65,
  mkBS 90 85 100 85 125,
  mkBS 90 90 85 100 125,
  mkBS 90 100 90 90 125,
  mkBS 41 64 45 50 50,
  mkBS 61 84 65 70 70,
  mkBS 91 134 95 80 100,
  mkBS 106 110 90 130 154,
  mkBS 100 100 100 100 100]"

definition GEN1_TYPECHART :: "nat list list" where
  "GEN1_TYPECHART = [
  [2, 2, 2, 2, 2, 1, 2, 2, 0, 2, 2, 2, 2, 2, 2, 2],
  [4, 2, 1, 1, 2, 4, 2, 1, 0, 2, 2, 2, 2, 1, 4, 2],
  [2, 4, 2, 2, 2, 1, 2, 4, 2, 2, 2, 4, 1, 2, 2, 2],
  [2, 2, 2, 1, 1, 1, 2, 4, 1, 2, 2, 4, 2, 2, 2, 2],
  [2, 2, 0, 4, 2, 4, 2, 1, 2, 4, 2, 1, 4, 2, 2, 2],
  [2, 1, 4, 2, 1, 2, 2, 4, 2, 4, 2, 2, 2, 2, 4, 2],
  [2, 2, 2, 2, 2, 2, 2, 2, 2, 2, 2, 2, 2, 2, 2, 2],
  [2, 1, 1, 4, 2, 2, 2, 2, 1, 1, 2, 4, 2, 4, 2, 2],
  [0, 2, 2, 2, 2, 2, 2, 2, 4, 2, 2, 2, 2, 0, 2, 2],
  [2, 2, 2, 2, 2, 1, 2, 4, 2, 1, 1, 4, 2, 2, 4, 1],
  [2, 2, 2, 2, 4, 4, 2, 2, 2, 4, 1, 1, 2, 2, 2, 1],
  [2, 2, 1, 1, 4, 4, 2, 1, 2, 1, 4, 1, 2, 2, 2, 1],
  [2, 2, 4, 2, 0, 2, 2, 2, 2, 2, 4, 1, 1, 2, 2, 1],
  [2, 4, 2, 4, 2, 2, 2, 2, 2, 2, 2, 2, 2, 1, 2, 2],
  [2, 2, 4, 2, 4, 2, 2, 2, 2, 2, 1, 4, 2, 2, 1, 4],
  [2, 2, 2, 2, 2, 2, 2, 2, 2, 2, 2, 2, 2, 2, 2, 4]]"

definition GEN3_TYPECHART :: "nat list list" where
  "GEN3_TYPECHART = [
  [2, 2, 2, 2, 2, 1, 2, 2, 0, 2, 2, 2, 2, 2, 2, 2, 2, 1],
  [4, 2, 1, 1, 2, 4, 2, 1, 0, 2, 2, 2, 2, 1, 4, 2, 4, 4],
  [2, 4, 2, 2, 2, 1, 2, 4, 2, 2, 2, 4, 1, 2, 2, 2, 2, 1],
  [2, 2, 2, 1, 1, 1, 2, 2, 1, 2, 2, 4, 2, 2, 2, 2, 2, 0],
  [2, 2, 0, 4, 2, 4, 2, 1, 2, 4, 2, 1, 4, 2, 2, 2, 2, 4],
  [2, 1, 4, 2, 1, 2, 2, 4, 2, 4, 2, 2, 2, 2, 4, 2, 2, 1],
  [2, 2, 2, 2, 2, 2, 2, 2, 2, 2, 2, 2, 2, 2, 2, 2, 2, 2],
  [2, 1, 1, 1, 2, 2, 2, 2, 1, 1, 2, 4, 2, 4, 2, 2, 4, 1],
  [0, 2, 2, 2, 2, 2, 2, 2, 4, 2, 2, 2, 2, 4, 2, 2, 1, 2],
  [2, 2, 2, 2, 2, 1, 2, 4, 2, 1, 1, 4, 2, 2, 4, 1, 2, 4],
  [2, 2, 2, 2, 4, 4, 2, 2, 2, 4, 1, 1, 2, 2, 2, 1, 2, 2],
  [2, 2, 1, 1, 4, 4, 2, 1, 2, 1, 4, 1, 2, 2, 2, 1, 2, 1],
  [2, 2, 4, 2, 0, 2, 2, 2, 2, 2, 4, 1, 1, 2, 2, 1, 2, 2],
  [2, 4, 2, 4, 2, 2, 2, 2, 2, 2, 2, 2, 2, 1, 2, 2, 0, 1],
  [2, 2, 4, 2, 4, 2, 2, 2, 2, 1, 1, 4, 2, 2, 1, 4, 2, 1],
  [2, 2, 2, 2, 2, 2, 2, 2, 2, 2, 2, 2, 2, 2, 2, 4, 2, 1],
  [2, 1, 2, 2, 2, 2, 2, 2, 4, 2, 2, 2, 2, 4, 2, 2, 1, 2],
  [2, 2, 2, 2, 2, 4, 2, 2, 2, 1, 1, 2, 1, 2, 4, 2, 2, 1]]"

definition GEN1_TYPE_COUNT :: nat where "GEN1_TYPE_COUNT = 16"

definition GEN3_TYPE_COUNT :: nat where "GEN3_TYPE_COUNT = 18"

definition GEN3_TYPE_IS_SPECIAL :: "bool list" where
  "GEN3_TYPE_IS_SPECIAL = [False, False, False, False, False, False, False, False, False, True, True, True, True, True, True, True, True, False]"

definition speciesGrowthRate :: "nat list" where
  "speciesGrowthRate = [
  0, 2, 2, 2, 2, 2, 2, 2, 2, 2, 0, 0, 0, 0, 0, 0,
  2, 2, 2, 0, 0, 0, 0, 0, 0, 0, 0, 0, 0, 2, 2, 2,
  2, 2, 2, 1, 1, 0, 0, 1, 1, 0, 0, 2, 2, 2, 0, 0,
  0, 0, 0, 0, 0, 0, 0, 0, 0, 0, 3, 3, 2, 2, 2, 2,
  2, 2, 2, 2, 2, 2, 2, 2, 3, 3, 2, 2, 2, 0, 0, 0,
  0, 0, 0, 0, 0, 0, 0, 0, 0, 0, 3, 3, 2, 2, 2, 0,
  0, 0, 0, 0, 0, 0, 3, 3, 0, 0, 0, 0, 0, 0, 0, 3,
  3, 1, 0, 0, 0, 0, 0, 0, 3, 3, 0, 0, 0, 0, 0, 3,
  3, 3, 3, 3, 0, 0, 0, 0, 0, 0, 0, 0, 0, 0, 3, 3,
  3, 3, 3, 3, 3, 3, 3, 2]"

definition internalToDex :: "nat list" where
  "internalToDex = [
  0, 112, 115, 32, 35, 21, 100, 34, 80, 2, 103, 108, 102, 88, 94, 29,
  31, 104, 111, 131, 59, 151, 130, 90, 72, 92, 123, 120, 9, 127, 114, 0,
  0, 58, 95, 22, 16, 79, 64, 75, 113, 67, 122, 106, 107, 24, 47, 54,
  96, 76, 0, 126, 0, 125, 82, 109, 0, 56, 86, 50, 128, 0, 0, 0,
  83, 48, 149, 0, 0, 0, 84, 60, 124, 146, 144, 145, 132, 52, 98, 0,
  0, 0, 37, 38, 25, 26, 0, 0, 147, 148, 140, 141, 116, 117, 0, 0,
  27, 28, 138, 139, 39, 40, 133, 136, 135, 134, 66, 41, 23, 46, 61, 62,
  13, 14, 15, 0, 85, 57, 51, 49, 87, 0, 0, 10, 11, 12, 68, 0,
  55, 97, 42, 150, 143, 129, 0, 0, 89, 0, 99, 91, 0, 101, 36, 110,
  53, 105, 0, 93, 63, 65, 17, 18, 121, 1, 3, 73, 0, 118, 119, 0,
  0, 0, 0, 77, 78, 19, 20, 33, 30, 74, 137, 142, 0, 81, 0, 0,
  4, 7, 5, 8, 6, 0, 0, 0, 0, 43, 44, 45, 69, 70, 71, 0,
  0, 0, 0, 0, 0, 0, 0, 0, 0, 0, 0, 0, 0, 0, 0, 0,
  0, 0, 0, 0, 0, 0, 0, 0, 0, 0, 0, 0, 0, 0, 0, 0,
  0, 0, 0, 0, 0, 0, 0, 0, 0, 0, 0, 0, 0, 0, 0, 0,
  0, 0, 0, 0, 0, 0, 0, 0, 0, 0, 0, 0, 0, 0, 0, 0]"

definition dexToInternal :: "nat list" where
  "dexToInternal = [
  0, 153, 9, 154, 176, 178, 180, 177, 179, 28, 123, 124, 125, 112, 113, 114,
  36, 150, 151, 165, 166, 5, 35, 108, 45, 84, 85, 96, 97, 15, 168, 16,
  3, 167, 7, 4, 142, 82, 83, 100, 101, 107, 130, 185, 186, 187, 109, 46,
  65, 119, 59, 118, 77, 144, 47, 128, 57, 117, 33, 20, 71, 110, 111, 148,
  38, 149, 106, 41, 126, 188, 189, 190, 24, 155, 169, 39, 49, 163, 164, 37,
  8, 173, 54, 64, 70, 116, 58, 120, 13, 136, 23, 139, 25, 147, 14, 34,
  48, 129, 78, 138, 6, 141, 12, 10, 17, 145, 43, 44, 11, 55, 143, 18,
  1, 40, 30, 2, 92, 93, 157, 158, 27, 152, 42, 26, 72, 53, 51, 29,
  60, 133, 22, 19, 76, 102, 105, 104, 103, 170, 98, 99, 90, 91, 171, 132,
  74, 75, 73, 88, 89, 66, 131, 21]"

definition gen1LearnsetOffset :: "nat list" where
  "gen1LearnsetOffset = [
  0, 0, 7, 14, 21, 27, 33, 39, 45, 51, 57, 57, 57, 64, 64, 64,
  70, 76, 82, 88, 92, 96, 101, 106, 111, 116, 121, 121, 126, 131, 137, 143,
  146, 152, 158, 161, 167, 167, 172, 172, 179, 179, 184, 189, 195, 201, 204, 209,
  214, 220, 226, 231, 236, 241, 246, 251, 256, 261, 266, 271, 271, 277, 283, 285,
  285, 291, 297, 302, 307, 312, 319, 326, 329, 337, 345, 351, 357, 363, 369, 375,
  381, 388, 394, 400, 405, 411, 417, 422, 427, 433, 439, 444, 445, 447, 449, 451,
  456, 462, 468, 473, 478, 483, 488, 494, 495, 500, 505, 510, 515, 520, 525, 530,
  536, 542, 548, 554, 559, 564, 569, 575, 581, 588, 588, 593, 599, 605, 610, 616,
  622, 627, 628, 633, 639, 639, 643, 651, 659, 667, 671, 675, 679, 683, 687, 691,
  695, 698, 701, 704, 709, 714, 719, 724]"

definition gen1LearnsetCount :: "nat list" where
  "gen1LearnsetCount = [
  0, 7, 7, 7, 6, 6, 6, 6, 6, 6, 0, 0, 7, 0, 0, 6,
  6, 6, 6, 4, 4, 5, 5, 5, 5, 5, 0, 5, 5, 6, 6, 3,
  6, 6, 3, 6, 0, 5, 0, 7, 0, 5, 5, 6, 6, 3, 5, 5,
  6, 6, 5, 5, 5, 5, 5, 5, 5, 5, 5, 0, 6, 6, 2, 0,
  6, 6, 5, 5, 5, 7, 7, 3, 8, 8, 6, 6, 6, 6, 6, 6,
  7, 6, 6, 5, 6, 6, 5, 5, 6, 6, 5, 1, 2, 2, 2, 5,
  6, 6, 5, 5, 5, 5, 6, 1, 5, 5, 5, 5, 5, 5, 5, 6,
  6, 6, 6, 5, 5, 5, 6, 6, 7, 0, 5, 6, 6, 5, 6, 6,
  5, 1, 5, 6, 0, 4, 8, 8, 8, 4, 4, 4, 4, 4, 4, 4,
  3, 3, 3, 5, 5, 5, 5, 4]"

text \<open>An entry \<open>(level, moveId)\<close> of the struct \<open>Gen1LearnEntry\<close>.\<close>

definition gen1LearnsetData :: "(nat \<times> nat) list" where
  "gen1LearnsetData = [
  (7, 73), (13, 22), (20, 77), (27, 75), (34, 74), (41, 79), (48, 76), (7, 73),
  (13, 22), (22, 77), (30, 75), (38, 74), (46, 79), (54, 76), (7, 73), (13, 22),
  (22, 77), (30, 75), (43, 74), (55, 79), (65, 76), (9, 52), (15, 43), (22, 99),
  (30, 163), (38, 53), (46, 83), (9, 52), (15, 43), (24, 99), (33, 163), (42, 53),
  (56, 83), (9, 52), (15, 43), (24, 99), (36, 163), (46, 53), (55, 83), (8, 145),
  (15, 55), (22, 44), (28, 110), (35, 130), (42, 56), (8, 145), (15, 55), (24, 44),
  (31, 110), (39, 130), (47, 56), (8, 145), (15, 55), (24, 44), (31, 110), (42, 130),
  (52, 56), (12, 93), (15, 77), (16, 78), (17, 79), (21, 48), (26, 18), (32, 60),
  (12, 31), (16, 116), (20, 41), (25, 99), (30, 42), (35, 97), (5, 28), (12, 98),
  (19, 18), (28, 17), (36, 97), (44, 119), (5, 28), (12, 98), (21, 18), (31, 17),
  (40, 97), (49, 119), (5, 28), (12, 98), (21, 18), (31, 17), (44, 97), (54, 119),
  (7, 98), (14, 158), (23, 116), (34, 162), (7, 98), (14, 158), (27, 116), (41, 162),
  (9, 43), (15, 31), (22, 119), (29, 65), (36, 97), (9, 43), (15, 31), (25, 119),
  (34, 65), (43, 97), (10, 40), (17, 44), (24, 137), (31, 103), (38, 51), (10, 40),
  (17, 44), (27, 137), (36, 103), (47, 51), (9, 86), (16, 98), (26, 129), (33, 97),
  (43, 87), (10, 28), (17, 163), (24, 40), (31, 129), (38, 154), (10, 28), (17, 163),
  (27, 40), (36, 129), (47, 154), (8, 10), (14, 40), (21, 39), (29, 44), (36, 154),
  (43, 24), (8, 10), (14, 40), (23, 39), (32, 44), (41, 154), (50, 24), (8, 10),
  (14, 40), (23, 34), (8, 30), (14, 40), (21, 116), (29, 31), (36, 32), (43, 24),
  (8, 30), (14, 40), (23, 116), (32, 31), (41, 32), (50, 24), (8, 30), (14, 40),
  (23, 37), (13, 47), (18, 3), (24, 107), (31, 118), (39, 111), (48, 113), (16, 98),
  (21, 46), (28, 109), (35, 53), (42, 83), (9, 1), (14, 50), (19, 111), (24, 3),
  (29, 156), (34, 34), (39, 38), (10, 48), (15, 44), (21, 109), (28, 17), (36, 114),
  (10, 48), (15, 44), (21, 109), (32, 17), (43, 114), (15, 77), (17, 78), (19, 79),
  (24, 51), (33, 80), (46, 76), (15, 77), (17, 78), (19, 79), (28, 51), (38, 80),
  (52, 76), (15, 77), (17, 78), (19, 79), (13, 78), (20, 141), (27, 147), (34, 163),
  (41, 74), (13, 78), (20, 141), (30, 147), (39, 163), (48, 74), (24, 77), (27, 141),
  (30, 78), (35, 60), (38, 79), (43, 94), (24, 77), (27, 141), (30, 78), (38, 60),
  (43, 79), (50, 94), (15, 45), (19, 91), (24, 28), (31, 163), (40, 89), (15, 45),
  (19, 91), (24, 28), (35, 163), (47, 89), (12, 44), (17, 6), (24, 103), (33, 154),
  (44, 163), (12, 44), (17, 6), (24, 103), (37, 154), (51, 163), (28, 39), (31, 50),
  (36, 93), (43, 154), (52, 56), (28, 39), (31, 50), (39, 93), (48, 154), (59, 56),
  (15, 2), (21, 154), (27, 116), (33, 69), (39, 37), (15, 2), (21, 154), (27, 116),
  (37, 69), (46, 37), (18, 52), (23, 43), (30, 36), (39, 97), (50, 53), (16, 95),
  (19, 55), (25, 3), (31, 34), (38, 133), (45, 56), (16, 95), (19, 55), (26, 3),
  (33, 34), (41, 133), (49, 56), (16, 95), (19, 55), (16, 93), (20, 50), (27, 60),
  (31, 105), (38, 94), (42, 115), (16, 93), (20, 50), (27, 60), (31, 105), (38, 94),
  (42, 115), (20, 67), (25, 43), (32, 116), (39, 69), (46, 66), (20, 67), (25, 43),
  (36, 116), (44, 69), (52, 66), (20, 67), (25, 43), (36, 116), (44, 69), (52, 66),
  (13, 35), (15, 77), (18, 79), (21, 78), (26, 51), (33, 75), (42, 21), (13, 35),
  (15, 77), (18, 79), (23, 78), (29, 51), (38, 75), (49, 21), (13, 35), (15, 77),
  (18, 79), (7, 48), (13, 35), (18, 40), (22, 55), (27, 132), (33, 112), (40, 103),
  (48, 56), (7, 48), (13, 35), (18, 40), (22, 55), (27, 132), (35, 112), (43, 103),
  (50, 56), (11, 111), (16, 88), (21, 120), (26, 106), (31, 89), (36, 153), (11, 111),
  (16, 88), (21, 120), (29, 106), (36, 89), (43, 153), (11, 111), (16, 88), (21, 120),
  (29, 106), (36, 89), (43, 153), (30, 39), (32, 23), (35, 45), (39, 83), (43, 36),
  (48, 97), (30, 39), (32, 23), (35, 45), (39, 83), (47, 36), (55, 97), (18, 50),
  (22, 29), (27, 45), (33, 55), (40, 133), (48, 94), (18, 50), (22, 29), (27, 45),
  (33, 55), (37, 110), (44, 133), (55, 94), (21, 49), (25, 84), (29, 48), (35, 86),
  (41, 129), (47, 103), (21, 49), (25, 84), (29, 48), (38, 86), (46, 129), (54, 103),
  (7, 43), (15, 31), (23, 14), (31, 97), (39, 163), (20, 45), (24, 31), (30, 65),
  (36, 99), (40, 161), (44, 97), (20, 45), (24, 31), (30, 65), (39, 99), (45, 161),
  (51, 97), (30, 45), (35, 62), (40, 156), (45, 36), (50, 58), (30, 45), (35, 62),
  (44, 156), (50, 36), (56, 58), (30, 139), (33, 107), (37, 124), (42, 106), (48, 103),
  (55, 151), (30, 139), (33, 107), (37, 124), (45, 106), (53, 103), (60, 151), (18, 48),
  (23, 128), (30, 62), (39, 43), (50, 58), (50, 131), (27, 95), (35, 138), (29, 95),
  (38, 138), (29, 95), (38, 138), (15, 20), (19, 88), (25, 99), (33, 21), (43, 106),
  (12, 50), (17, 93), (24, 29), (29, 139), (32, 94), (37, 96), (12, 50), (17, 93),
  (24, 29), (33, 139), (37, 94), (43, 96), (20, 11), (25, 12), (30, 23), (35, 152),
  (40, 106), (20, 11), (25, 12), (34, 23), (42, 152), (49, 106), (17, 49), (22, 120),
  (29, 113), (36, 129), (43, 153), (17, 49), (22, 120), (29, 113), (40, 129), (50, 153),
  (25, 115), (28, 73), (32, 78), (37, 77), (42, 76), (48, 79), (28, 23), (25, 43),
  (31, 116), (38, 37), (43, 155), (46, 99), (25, 43), (33, 116), (41, 37), (48, 155),
  (55, 99), (33, 27), (38, 26), (43, 116), (48, 136), (53, 25), (33, 7), (38, 8),
  (43, 9), (48, 5), (53, 68), (7, 23), (15, 50), (23, 111), (31, 21), (39, 103),
  (32, 124), (37, 108), (40, 120), (45, 114), (48, 153), (32, 124), (39, 108), (43, 120),
  (49, 114), (53, 153), (30, 23), (35, 39), (40, 31), (45, 32), (50, 43), (55, 36),
  (30, 23), (35, 39), (40, 31), (48, 32), (55, 43), (64, 36), (24, 47), (30, 45),
  (38, 107), (44, 111), (48, 113), (54, 38), (29, 71), (32, 77), (36, 78), (39, 79),
  (45, 21), (49, 74), (26, 44), (31, 39), (36, 5), (41, 43), (46, 146), (19, 108),
  (24, 43), (30, 55), (37, 97), (45, 56), (19, 108), (24, 43), (30, 55), (41, 97),
  (52, 56), (19, 48), (24, 30), (30, 31), (37, 127), (45, 32), (54, 97), (19, 48),
  (24, 30), (30, 31), (39, 127), (48, 32), (54, 97), (17, 55), (22, 106), (27, 105),
  (32, 129), (37, 107), (42, 113), (47, 56), (15, 93), (23, 113), (31, 3), (39, 96),
  (47, 164), (17, 43), (20, 116), (24, 104), (29, 163), (35, 14), (42, 97), (18, 122),
  (23, 3), (31, 8), (39, 34), (47, 37), (58, 59), (34, 84), (37, 103), (42, 9),
  (49, 113), (54, 87), (36, 43), (39, 109), (43, 7), (48, 108), (52, 123), (55, 53),
  (25, 69), (30, 12), (36, 116), (43, 106), (49, 163), (54, 14), (21, 23), (28, 39),
  (35, 43), (44, 99), (51, 36), (15, 33), (20, 44), (25, 82), (32, 43), (41, 56),
  (52, 63), (16, 47), (20, 54), (25, 34), (31, 109), (38, 58), (46, 56), (27, 98),
  (31, 39), (37, 44), (45, 36), (27, 98), (31, 55), (37, 39), (40, 44), (42, 151),
  (44, 114), (48, 54), (54, 56), (27, 98), (31, 84), (37, 39), (40, 86), (42, 24),
  (44, 97), (48, 42), (54, 87), (27, 98), (31, 52), (37, 39), (40, 44), (42, 43),
  (44, 83), (48, 99), (54, 53), (23, 60), (28, 105), (35, 97), (42, 161), (34, 30),
  (39, 43), (46, 131), (53, 56), (34, 30), (39, 43), (44, 131), (49, 56), (34, 71),
  (39, 163), (44, 43), (49, 56), (34, 71), (39, 163), (46, 43), (53, 56), (33, 48),
  (38, 44), (45, 36), (54, 63), (35, 34), (41, 106), (48, 38), (56, 63), (51, 59),
  (55, 97), (60, 54), (51, 87), (55, 97), (60, 113), (51, 43), (55, 97), (60, 143),
  (10, 86), (20, 97), (30, 21), (40, 82), (50, 63), (10, 86), (20, 97), (35, 21),
  (45, 82), (55, 63), (10, 86), (20, 97), (35, 21), (45, 82), (60, 63), (63, 112),
  (66, 94), (70, 105), (75, 54), (81, 133), (10, 144), (20, 5), (30, 118), (40, 94)]"

definition speciesNames :: "string list" where
  "speciesNames = [
  ''???'', ''RHYDON'', ''KANGASKHAN'', ''NIDORAN M'', ''CLEFAIRY'',
  ''SPEAROW'', ''VOLTORB'', ''NIDOKING'', ''SLOWBRO'', ''IVYSAUR'',
  ''EXEGGUTOR'', ''LICKITUNG'', ''EXEGGCUTE'', ''GRIMER'', ''GENGAR'',
  ''NIDORAN F'', ''NIDOQUEEN'', ''CUBONE'', ''RHYHORN'', ''LAPRAS'',
  ''ARCANINE'', ''MEW'', ''GYARADOS'', ''SHELLDER'', ''TENTACOOL'',
  ''GASTLY'', ''SCYTHER'', ''STARYU'', ''BLASTOISE'', ''PINSIR'',
  ''TANGELA'', ''???'', ''???'', ''GROWLITHE'', ''ONIX'',
  ''FEAROW'', ''PIDGEY'', ''SLOWPOKE'', ''KADABRA'', ''GRAVELER'',
  ''CHANSEY'', ''MACHOKE'', ''MR. MIME'', ''HITMONLEE'', ''HITMONCHAN'',
  ''ARBOK'', ''PARASECT'', ''PSYDUCK'', ''DROWZEE'', ''GOLEM'',
  ''???'', ''MAGMAR'', ''???'', ''ELECTABUZZ'', ''MAGNETON'',
  ''KOFFING'', ''???'', ''MANKEY'', ''SEEL'', ''DIGLETT'',
  ''TAUROS'', ''???'', ''???'', ''???'', (''FARFETCH'' @ CHR 0x27 # ''D''),
  ''VENONAT'', ''DRAGONITE'', ''???'', ''???'', ''???'',
  ''DODUO'', ''POLIWAG'', ''JYNX'', ''MOLTRES'', ''ARTICUNO'',
  ''ZAPDOS'', ''DITTO'', ''MEOWTH'', ''KRABBY'', ''???'',
  ''???'', ''???'', ''VULPIX'', ''NINETALES'', ''PIKACHU'',
  ''RAICHU'', ''???'', ''???'', ''DRATINI'', ''DRAGONAIR'',
  ''KABUTO'', ''KABUTOPS'', ''HORSEA'', ''SEADRA'', ''???'',
  ''???'', ''SANDSHREW'', ''SANDSLASH'', ''OMANYTE'', ''OMASTAR'',
  ''JIGGLYPUFF'', ''WIGGLYTUFF'', ''EEVEE'', ''FLAREON'', ''JOLTEON'',
  ''VAPOREON'', ''MACHOP'', ''ZUBAT'', ''EKANS'', ''PARAS'',
  ''POLIWHIRL'', ''POLIWRATH'', ''WEEDLE'', ''KAKUNA'', ''BEEDRILL'',
  ''???'', ''DODRIO'', ''PRIMEAPE'', ''DUGTRIO'', ''VENOMOTH'',
  ''DEWGONG'', ''???'', ''???'', ''CATERPIE'', ''METAPOD'',
  ''BUTTERFREE'', ''MACHAMP'', ''???'', ''GOLDUCK'', ''HYPNO'',
  ''GOLBAT'', ''MEWTWO'', ''SNORLAX'', ''MAGIKARP'', ''???'',
  ''???'', ''MUK'', ''???'', ''KINGLER'', ''CLOYSTER'',
  ''???'', ''ELECTRODE'', ''CLEFABLE'', ''WEEZING'', ''PERSIAN'',
  ''MAROWAK'', ''???'', ''HAUNTER'', ''ABRA'', ''ALAKAZAM'',
  ''PIDGEOTTO'', ''PIDGEOT'', ''STARMIE'', ''BULBASAUR'', ''VENUSAUR'',
  ''TENTACRUEL'', ''???'', ''GOLDEEN'', ''SEAKING'', ''???'',
  ''???'', ''???'', ''???'', ''PONYTA'', ''RAPIDASH'',
  ''RATTATA'', ''RATICATE'', ''NIDORINO'', ''NIDORINA'', ''GEODUDE'',
  ''PORYGON'', ''AERODACTYL'', ''???'', ''MAGNEMITE'', ''???'',
  ''???'', ''CHARMANDER'', ''SQUIRTLE'', ''CHARMELEON'', ''WARTORTLE'',
  ''CHARIZARD'', ''???'', ''???'', ''???'', ''???'',
  ''ODDISH'', ''GLOOM'', ''VILEPLUME'', ''BELLSPROUT'', ''WEEPINBELL'',
  ''VICTREEBEL'']"

definition gen1SpeciesName :: "nat \<Rightarrow> string" where
  "gen1SpeciesName i = (if i > 0xBE then ''???'' else speciesNames ! i)"

end
