(* ===== verification/BattleTypes.thy ===== *)
theory BattleTypes
  imports MoveTables SpeciesTables
begin

text \<open>
  State of the battle engine (\<^verbatim>\<open>src/modules/monstermesh/Gen1BattleEngine.h\<close>) and of the save
  records it starts from (\<^verbatim>\<open>PokemonData.h\<close>).  Fields of \<open>uint8_t\<close> and \<open>uint16_t\<close> are
  \<open>nat\<close> with the wrap-around written at the writes that can overflow, \<open>int8_t\<close> stages are
  \<open>int\<close>, the generator's words are \<open>32 word\<close>; the slot sentinel \<open>0xFF\<close> is 255.  The two
  sides \<open>p_[0]\<close> and \<open>p_[1]\<close> are a function from \<open>side\<close>.
\<close>

subsection \<open>Save records\<close>

record Gen1Pokemon =
  sv_species :: byte
  sv_hp :: "byte list"
  sv_boxLevel :: byte
  sv_status :: byte
  sv_type1 :: byte
  sv_type2 :: byte
  sv_catchRate :: byte
  sv_moves :: "byte list"
  sv_otId :: "byte list"
  sv_exp :: "byte list"
  sv_hpExp :: "byte list"
  sv_atkExp :: "byte list"
  sv_defExp :: "byte list"
  sv_spdExp :: "byte list"
  sv_spcExp :: "byte list"
  sv_dvs :: "byte list"
  sv_pp :: "byte list"
  sv_level :: byte
  sv_maxHp :: "byte list"
  sv_atk :: "byte list"
  sv_def :: "byte list"
  sv_spd :: "byte list"
  sv_spc :: "byte list"

record Gen1Party =
  gp_count :: byte
  gp_species :: "byte list"
  gp_mons :: "Gen1Pokemon list"
  gp_otNames :: "byte list list"
  gp_nicknames :: "byte list list"

subsection \<open>Battle records\<close>

record BattlePoke =
  species :: nat
  nickname :: string
  level :: nat
  type1 :: nat
  type2 :: nat
  hp :: nat
  maxHp :: nat
  atk :: nat
  dfn :: nat
  spd :: nat
  spc :: nat
  spaG3 :: nat
  spdG3 :: nat
  moves :: "nat list"
  pp :: "nat list"
  status :: nat
  sleepTurns :: nat
  confuseTurns :: nat
  atkBoost :: int
  defBoost :: int
  spdBoost :: int
  spcBoost :: int
  accBoost :: int
  evaBoost :: int
  toxicCounter :: nat
  mustRecharge :: bool
  thrashing :: bool
  thrashTurns :: nat
  lastMoveIdx :: nat
  disabledSlot :: nat
  disabledTurns :: nat
  flinched :: bool
  chargingSlot :: nat
  trapTurns :: nat
  thrashSlot :: nat
  bideTurns :: nat
  bideDamage :: nat
  rageActive :: bool
  substituteHp :: nat
  lastDamageTaken :: nat
  mimicSlot :: nat
  mimicOrigMove :: nat
  mimicOrigPp :: nat
  transformed :: bool
  origSpecies :: nat
  origType1 :: nat
  origType2 :: nat
  origAtk :: nat
  origDef :: nat
  origSpd :: nat
  origSpc :: nat
  origMoves :: "nat list"
  origPp :: "nat list"

record BattleParty =
  mons :: "BattlePoke list"
  pcount :: nat
  active :: nat
  reflect :: bool
  lightScreen :: bool
  mist :: bool
  focused :: bool
  reflectTurns :: nat
  lightScreenTurns :: nat

datatype side = S0 | S1

fun other :: "side \<Rightarrow> side" where
  "other S0 = S1"
| "other S1 = S0"

lemma other_other [simp]: "other (other s) = s" by (cases s) simp_all

lemma other_neq [simp]: "other s \<noteq> s" "s \<noteq> other s" by (cases s; simp)+

lemma other_eq_iff: "other s = t \<longleftrightarrow> s = other t" by (cases s; cases t) simp_all

lemma side_eq_other: "s \<noteq> t \<longleftrightarrow> s = other t" by (cases s; cases t) simp_all

text \<open>\<open>side & 1\<close> of a \<open>uint8_t\<close> argument.\<close>

definition side_of :: "nat \<Rightarrow> side" where
  "side_of n = (if n mod 2 = 0 then S0 else S1)"

datatype Result = ONGOING | P1_WIN | P2_WIN | DRAW

text \<open>
  The engine object.  Three fields are not in the class: \<open>logOn\<close> says whether the caller's log
  sink is non-null, \<open>elog\<close> is what the sink received, and \<open>fault\<close> is set where the C++ run
  would have no defined result (an integer division by zero, a signed overflow, a call through a
  null log sink); after a fault the rest of the state means nothing.
\<close>

record Engine =
  parties :: "side \<Rightarrow> BattleParty"
  rngSeed :: "32 word"
  turn :: nat
  gen :: nat
  result :: Result
  pendAction :: "side \<Rightarrow> nat"
  pendIndex :: "side \<Rightarrow> nat"
  xs0 :: "32 word"
  xs1 :: "32 word"
  xs2 :: "32 word"
  xs3 :: "32 word"
  logOn :: bool
  elog :: "string list"
  fault :: bool

type_synonym 'a eng = "(Engine, 'a) state"

text \<open>Status bits.\<close>

abbreviation (input) ST_NONE :: nat where "ST_NONE \<equiv> 0"
abbreviation (input) ST_SLP :: nat where "ST_SLP \<equiv> 7"
abbreviation (input) ST_PSN :: nat where "ST_PSN \<equiv> 8"
abbreviation (input) ST_BRN :: nat where "ST_BRN \<equiv> 16"
abbreviation (input) ST_FRZ :: nat where "ST_FRZ \<equiv> 32"
abbreviation (input) ST_PAR :: nat where "ST_PAR \<equiv> 64"

definition has_status :: "nat \<Rightarrow> nat \<Rightarrow> bool" where
  "has_status st bits \<longleftrightarrow> and st bits \<noteq> 0"

subsection \<open>Reading and writing the state\<close>

definition activeMon :: "Engine \<Rightarrow> side \<Rightarrow> BattlePoke" where
  "activeMon e s = mons (parties e s) ! active (parties e s)"

definition setActive :: "(BattlePoke \<Rightarrow> BattlePoke) \<Rightarrow> BattleParty \<Rightarrow> BattleParty" where
  "setActive f p = p\<lparr>mons := upd_at (active p) f (mons p)\<rparr>"

definition onParty :: "side \<Rightarrow> (BattleParty \<Rightarrow> BattleParty) \<Rightarrow> Engine \<Rightarrow> Engine" where
  "onParty s f e = e\<lparr>parties := (parties e)(s := f (parties e s))\<rparr>"

definition mon :: "side \<Rightarrow> BattlePoke eng" where
  "mon s = gets (\<lambda>e. activeMon e s)"

definition party :: "side \<Rightarrow> BattleParty eng" where
  "party s = gets (\<lambda>e. parties e s)"

definition updMon :: "side \<Rightarrow> (BattlePoke \<Rightarrow> BattlePoke) \<Rightarrow> unit eng" where
  "updMon s f = modify (onParty s (setActive f))"

definition updParty :: "side \<Rightarrow> (BattleParty \<Rightarrow> BattleParty) \<Rightarrow> unit eng" where
  "updParty s f = modify (onParty s f)"

definition trap :: "unit eng" where
  "trap = modify (\<lambda>e. e\<lparr>fault := True\<rparr>)"

definition isGen3 :: "Engine \<Rightarrow> bool" where
  "isGen3 e \<longleftrightarrow> 3 \<le> gen e"

definition mdata :: "bool \<Rightarrow> nat \<Rightarrow> Gen1MoveData option" where
  "mdata g3 i = (if g3 then gen3Move i else gen1Move i)"

subsection \<open>The generator: xoshiro128+\<close>

definition rotl32 :: "32 word \<Rightarrow> nat \<Rightarrow> 32 word" where
  "rotl32 x k = push_bit k x OR drop_bit (32 - k) x"

definition nextRng :: "Engine \<Rightarrow> 32 word \<times> Engine" where
  "nextRng e =
     (let r = xs0 e + xs3 e;
          t = push_bit 9 (xs1 e);
          a2 = xs2 e XOR xs0 e;
          a3 = xs3 e XOR xs1 e;
          a1 = xs1 e XOR a2;
          a0 = xs0 e XOR a3;
          a2' = a2 XOR t;
          a3' = rotl32 a3 11
      in (r, e\<lparr>xs0 := a0, xs1 := a1, xs2 := a2', xs3 := a3'\<rparr>))"

definition rand32 :: "nat eng" where
  "rand32 = State (\<lambda>e. let (r, e') = nextRng e in (unat r, e'))"

definition percent :: "nat \<Rightarrow> bool eng" where
  "percent p = do { r \<leftarrow> rand32; State_Monad.return (r mod 100 < p) }"

text \<open>\<open>start()\<close> spreads the 32-bit seed over the four words.\<close>

definition seedRng :: "32 word \<Rightarrow> Engine \<Rightarrow> Engine" where
  "seedRng seed e =
     (let a0 = (if seed \<noteq> 0 then seed else 0xDEADBEEF);
          a1 = rotl32 a0 7 XOR 0x9E3779B9;
          a2 = rotl32 a1 13 XOR 0x85EBCA77;
          a3 = rotl32 a2 17 XOR 0xC2B2AE3D
      in e\<lparr>xs0 := a0, xs1 := a1, xs2 := a2, xs3 := a3\<rparr>)"

subsection \<open>The log\<close>

text \<open>
  \<open>emit\<close> substitutes the placeholders of a template into a 64-byte buffer (63 characters and the
  terminator).  A placeholder whose argument is null is skipped and the character after it copied,
  as the source's fall-through does.
\<close>

datatype placeholder = PhPokemon | PhMove | PhTarget | PhNum

definition placeholder_at :: "string \<Rightarrow> (placeholder \<times> string) option" where
  "placeholder_at s =
     (case strip_prefix ''[POKEMON]'' s of Some r \<Rightarrow> Some (PhPokemon, r) | None \<Rightarrow>
     (case strip_prefix ''[MOVE]'' s of Some r \<Rightarrow> Some (PhMove, r) | None \<Rightarrow>
     (case strip_prefix ''[TARGET]'' s of Some r \<Rightarrow> Some (PhTarget, r) | None \<Rightarrow>
     (case strip_prefix ''[NUM]'' s of Some r \<Rightarrow> Some (PhNum, r) | None \<Rightarrow> None))))"

lemma placeholder_at_shorter: "placeholder_at s = Some (p, r) \<Longrightarrow> length r < length s"
  by (auto simp: placeholder_at_def split: option.splits dest: strip_prefix_length)

function expand :: "string option \<Rightarrow> string option \<Rightarrow> string option \<Rightarrow> int \<Rightarrow> nat \<Rightarrow> string \<Rightarrow> string" where
  "expand poke move target num room [] = []"
| "expand poke move target num room (c # cs) =
     (if room = 0 then []
      else case placeholder_at (c # cs) of
        None \<Rightarrow> c # expand poke move target num (room - 1) cs
      | Some (ph, rest) \<Rightarrow>
          (case (case ph of PhPokemon \<Rightarrow> poke | PhMove \<Rightarrow> move
                 | PhTarget \<Rightarrow> (if target = None then poke else target)
                 | PhNum \<Rightarrow> Some (take 7 (showInt num))) of
             Some sub \<Rightarrow> (let t = take room sub in
                t @ expand poke move target num (room - length t) rest)
           | None \<Rightarrow> (case rest of [] \<Rightarrow> []
                      | d # ds \<Rightarrow> d # expand poke move target num (room - 1) ds)))"
  by pat_completeness auto
termination
  by (relation "measure (\<lambda>(poke, move, target, num, room, s). length s)")
    (auto dest!: placeholder_at_shorter)

declare expand.simps [simp del]

definition emit :: "string \<Rightarrow> string option \<Rightarrow> string option \<Rightarrow> unit eng" where
  "emit tmpl poke move =
     modify (\<lambda>e. if logOn e then e\<lparr>elog := elog e @ [expand poke move None 0 63 tmpl]\<rparr> else e)"

text \<open>\<open>log(msg, ctx)\<close> without the null check.\<close>

definition rawLog :: "string \<Rightarrow> unit eng" where
  "rawLog msg = modify (\<lambda>e. if logOn e then e\<lparr>elog := elog e @ [msg]\<rparr> else e\<lparr>fault := True\<rparr>)"

subsection \<open>Facts about reads and writes\<close>

lemma activeMon_onParty:
  "activeMon (onParty s f e) t =
     (if s = t then mons (f (parties e s)) ! active (f (parties e s)) else activeMon e t)"
  by (simp add: activeMon_def onParty_def)

lemma setActive_sel [simp]:
  "active (setActive f p) = active p" "pcount (setActive f p) = pcount p"
  "mons (setActive f p) = upd_at (active p) f (mons p)"
  "reflect (setActive f p) = reflect p" "lightScreen (setActive f p) = lightScreen p"
  "mist (setActive f p) = mist p" "focused (setActive f p) = focused p"
  "reflectTurns (setActive f p) = reflectTurns p"
  "lightScreenTurns (setActive f p) = lightScreenTurns p"
  by (simp_all add: setActive_def)

lemma onParty_sel [simp]:
  "parties (onParty s f e) = (parties e)(s := f (parties e s))"
  "rngSeed (onParty s f e) = rngSeed e" "turn (onParty s f e) = turn e"
  "gen (onParty s f e) = gen e" "result (onParty s f e) = result e"
  "pendAction (onParty s f e) = pendAction e" "pendIndex (onParty s f e) = pendIndex e"
  "xs0 (onParty s f e) = xs0 e" "xs1 (onParty s f e) = xs1 e" "xs2 (onParty s f e) = xs2 e"
  "xs3 (onParty s f e) = xs3 e" "logOn (onParty s f e) = logOn e" "elog (onParty s f e) = elog e"
  "fault (onParty s f e) = fault e"
  by (simp_all add: onParty_def)

lemmas run_basics = run_gets run_modify run_skip run_when_ok mon_def party_def updMon_def
  updParty_def trap_def

end
