(* ===== verification/IntSqrt.thy ===== *)
theory IntSqrt
  imports Prelude
begin

text \<open>
  The integer square root of \<^verbatim>\<open>DaycareSavPatcher.h\<close> (\<open>isqrt16(uint16_t)\<close>).  The stat formula
  of \<^verbatim>\<open>Gen1BattleEngine.cpp\<close> calls it too: its argument is a \<open>uint16_t\<close>, so overload
  resolution prefers it to the \<open>uint32_t\<close> function of the same name in that file.  No intermediate
  value of the Newton iteration leaves 16 bits.
\<close>

function newton :: "nat \<Rightarrow> nat \<Rightarrow> nat \<Rightarrow> nat" where
  "newton n x y = (if y < x then newton n y ((y + n div y) div 2) else x)"
  by pat_completeness auto
termination
  by (relation "measure (\<lambda>(n, x, y). x)") auto

declare newton.simps [simp del]

definition isqrt16 :: "nat \<Rightarrow> nat" where
  "isqrt16 n = (if n = 0 then 0 else newton n n ((n + 1) div 2))"

lemma root_exists: "\<exists>s :: nat. s\<^sup>2 \<le> n \<and> n < (Suc s)\<^sup>2"
proof (induction n)
  case 0
  show ?case by (rule exI [of _ 0]) simp
next
  case (Suc n)
  then obtain s where s: "s\<^sup>2 \<le> n" "n < (Suc s)\<^sup>2" by blast
  show ?case
  proof (cases "Suc n < (Suc s)\<^sup>2")
    case True
    with s show ?thesis by (intro exI [of _ s]) simp
  next
    case False
    with s have "Suc n = (Suc s)\<^sup>2" by simp
    then show ?thesis by (intro exI [of _ "Suc s"]) (simp add: power2_eq_square)
  qed
qed

lemma root_unique: "s\<^sup>2 \<le> n \<Longrightarrow> n < (Suc s)\<^sup>2 \<Longrightarrow> t\<^sup>2 \<le> n \<Longrightarrow> n < (Suc t)\<^sup>2 \<Longrightarrow> s = (t :: nat)"
proof -
  have "a < Suc b" if "a\<^sup>2 \<le> n" "n < (Suc b)\<^sup>2" for a b :: nat
    using that by (intro power_less_imp_less_base [of a 2 "Suc b"]) simp_all
  then show "s\<^sup>2 \<le> n \<Longrightarrow> n < (Suc s)\<^sup>2 \<Longrightarrow> t\<^sup>2 \<le> n \<Longrightarrow> n < (Suc t)\<^sup>2 \<Longrightarrow> s = t"
    by (metis less_antisym not_less_eq)
qed

text \<open>Newton's step never goes below the root.\<close>

lemma newton_step_ge:
  fixes y :: nat
  assumes "s\<^sup>2 \<le> n" "0 < y"
  shows "s \<le> (y + n div y) div 2"
proof (cases "2 * s \<le> y")
  case True
  then show ?thesis by simp
next
  case False
  have "int ((2 * s - y) * y) = (2 * int s - int y) * int y" using False by (simp add: of_nat_diff)
  also have "\<dots> = (int s)\<^sup>2 - (int s - int y)\<^sup>2" by (simp add: power2_eq_square algebra_simps)
  also have "\<dots> \<le> int (s\<^sup>2)" by simp
  finally have "(2 * s - y) * y \<le> n" using assms(1) by linarith
  then have "2 * s - y \<le> n div y" using assms(2) by (simp add: less_eq_div_iff_mult_less_eq)
  then show ?thesis by linarith
qed

lemma newton_root:
  assumes "0 < s" "s\<^sup>2 \<le> n" "n < (Suc s)\<^sup>2" "s \<le> x"
  shows "newton n x ((x + n div x) div 2) = s"
  using assms(4)
proof (induction x rule: less_induct)
  case (less x)
  let ?y = "(x + n div x) div 2"
  have x: "0 < x" using less.prems assms(1) by simp
  have y: "s \<le> ?y" using newton_step_ge [OF assms(2) x] .
  show ?case
  proof (cases "?y < x")
    case True
    have "newton n x ?y = newton n ?y ((?y + n div ?y) div 2)" using True by (subst newton.simps) simp
    then show ?thesis using less.IH [OF True y] by simp
  next
    case False
    then have "x \<le> n div x" by linarith
    then have "x * x \<le> n" using x by (simp add: less_eq_div_iff_mult_less_eq)
    then have "x\<^sup>2 \<le> n" by (simp add: power2_eq_square)
    moreover have "n < (Suc x)\<^sup>2"
      using assms(3) power_mono [of "Suc s" "Suc x" 2] less.prems by (meson Suc_le_mono le_trans linorder_not_le zero_le)
    ultimately have "x = s" using assms(2,3) root_unique by blast
    with False show ?thesis by (subst newton.simps) simp
  qed
qed

lemma isqrt16_root: "(isqrt16 n)\<^sup>2 \<le> n" "n < (Suc (isqrt16 n))\<^sup>2"
proof -
  obtain s where s: "s\<^sup>2 \<le> n" "n < (Suc s)\<^sup>2" using root_exists by blast
  have "isqrt16 n = s"
  proof (cases "n = 0")
    case True
    with s show ?thesis by (simp add: isqrt16_def)
  next
    case False
    with s have "0 < s" by (cases s) simp_all
    moreover have "s \<le> n" using s(1) power2_nat_le_imp_le by blast
    ultimately have "newton n n ((n + n div n) div 2) = s" using s by (intro newton_root)
    with False show ?thesis by (simp add: isqrt16_def)
  qed
  with s show "(isqrt16 n)\<^sup>2 \<le> n" "n < (Suc (isqrt16 n))\<^sup>2" by simp_all
qed

lemma isqrt16_eqI: "s\<^sup>2 \<le> n \<Longrightarrow> n < (Suc s)\<^sup>2 \<Longrightarrow> isqrt16 n = s"
  using root_unique isqrt16_root by blast

lemma isqrt16_le: "n < 65536 \<Longrightarrow> isqrt16 n \<le> 255"
proof (rule ccontr)
  assume "n < 65536" "\<not> isqrt16 n \<le> 255"
  then have "256\<^sup>2 \<le> (isqrt16 n)\<^sup>2" by (intro power_mono) simp_all
  with isqrt16_root(1) [of n] \<open>n < 65536\<close> show False by simp
qed

end
