(* ===== verification/BattleStats.thy ===== *)
theory BattleStats
  imports BattleTypes IntSqrt
begin

text \<open>
  Building live battle records (\<^verbatim>\<open>Gen1BattleEngine.cpp\<close>, lines 35 to 233): the integer square
  root and stat formula, decoding of a saved monster, a wild monster, \<open>start\<close> and
  \<open>replaceOpponent\<close>.  The file's own square root on \<open>uint32_t\<close> is modelled as well, though its
  one caller passes a \<open>uint16_t\<close> and so gets the overload of \<^verbatim>\<open>DaycareSavPatcher.h\<close>; it is
  shown to be twice the root of half its argument.
\<close>

subsection \<open>Square root and stat formula\<close>

function sqrtBit :: "nat \<Rightarrow> nat \<Rightarrow> nat" where
  "sqrtBit v b = (if v < b then sqrtBit v (b div 4) else b)"
  by pat_completeness auto
termination
  by (relation "measure (\<lambda>(v, b). b)") auto

declare sqrtBit.simps [simp del]

function sqrtLoop :: "nat \<Rightarrow> nat \<Rightarrow> nat \<Rightarrow> nat" where
  "sqrtLoop v r b =
     (if b = 0 then r
      else if r + b \<le> v then sqrtLoop (v - (r + b)) (r div 2 + b) (b div 4)
      else sqrtLoop v (r div 2) (b div 4))"
  by pat_completeness auto
termination
  by (relation "measure (\<lambda>(v, r, b). b)") auto

declare sqrtLoop.simps [simp del]

definition isqrt16_u32 :: "nat \<Rightarrow> nat" where
  "isqrt16_u32 v = u16 (sqrtLoop v 0 (sqrtBit v 32768))"

definition calcStat :: "nat \<Rightarrow> nat \<Rightarrow> nat \<Rightarrow> nat \<Rightarrow> bool \<Rightarrow> nat" where
  "calcStat base iv expVal lvl isHp =
     (let expBonus = (isqrt16 expVal + 3) div 4;
          v = u32 (((base + iv) * 2 + expBonus) * lvl) div 100
      in u16 (if isHp then v + lvl + 10 else v + 5))"

subsection \<open>Monsters from a save and from base stats\<close>

definition zeroPoke :: BattlePoke where
  "zeroPoke = \<lparr>species = 0, nickname = [], level = 0, type1 = 0, type2 = 0, hp = 0, maxHp = 0,
     atk = 0, dfn = 0, spd = 0, spc = 0, spaG3 = 0, spdG3 = 0, moves = [0,0,0,0], pp = [0,0,0,0],
     status = 0, sleepTurns = 0, confuseTurns = 0, atkBoost = 0, defBoost = 0, spdBoost = 0,
     spcBoost = 0, accBoost = 0, evaBoost = 0, toxicCounter = 0, mustRecharge = False,
     thrashing = False, thrashTurns = 0, lastMoveIdx = 0, disabledSlot = 0, disabledTurns = 0,
     flinched = False, chargingSlot = 0, trapTurns = 0, thrashSlot = 0, bideTurns = 0,
     bideDamage = 0, rageActive = False, substituteHp = 0, lastDamageTaken = 0, mimicSlot = 0,
     mimicOrigMove = 0, mimicOrigPp = 0, transformed = False, origSpecies = 0, origType1 = 0,
     origType2 = 0, origAtk = 0, origDef = 0, origSpd = 0, origSpc = 0, origMoves = [0,0,0,0],
     origPp = [0,0,0,0]\<rparr>"

definition initSentinelFields :: "BattlePoke \<Rightarrow> BattlePoke" where
  "initSentinelFields p = p\<lparr>lastMoveIdx := 255, disabledSlot := 255, chargingSlot := 255,
     thrashSlot := 255, mimicSlot := 255\<rparr>"

definition gen1CharToAscii :: "byte \<Rightarrow> char" where
  "gen1CharToAscii c =
     (let n = unat c in
      if 0x80 \<le> n \<and> n \<le> 0x99 then char_of (65 + (n - 0x80))
      else if 0xA0 \<le> n \<and> n \<le> 0xB9 then char_of (97 + (n - 0xA0))
      else if 0xF6 \<le> n \<and> n \<le> 0xFF then char_of (48 + (n - 0xF6))
      else if n = 0x7F then CHR '' ''
      else if n = 0x50 then CHR 0x00
      else if n = 0xE8 then CHR ''.''
      else CHR ''?'')"

definition decodeNick :: "byte list \<Rightarrow> string" where
  "decodeNick nick =
     (if nick ! 0 \<noteq> 0 \<and> nick ! 0 \<noteq> 0x50
      then takeWhile (\<lambda>a. a \<noteq> CHR 0x00) (map gen1CharToAscii (take 10 nick)) else [])"

definition nickOrSpecies :: "nat \<Rightarrow> string \<Rightarrow> string" where
  "nickOrSpecies dex nick =
     (if nick = [] \<or> hd nick = CHR ''?''
      then take 10 (gen1SpeciesName (if dex < 152 then dexToInternal ! dex else 0))
      else nick)"

definition dvHigh :: "byte \<Rightarrow> nat" where "dvHigh b = unat b div 16"

definition dvLow :: "byte \<Rightarrow> nat" where "dvLow b = unat b mod 16"

text \<open>The HP value is the parity bits of the four others.\<close>

definition hpDV :: "byte list \<Rightarrow> nat" where
  "hpDV dvs = (dvHigh (dvs ! 0) mod 2) * 8 + (dvLow (dvs ! 0) mod 2) * 4
            + (dvHigh (dvs ! 1) mod 2) * 2 + dvLow (dvs ! 1) mod 2"

definition statsFromSave :: "bool \<Rightarrow> Gen1Pokemon \<Rightarrow> BattlePoke \<Rightarrow> BattlePoke" where
  "statsFromSave g3 src dst =
     (let d = sv_dvs src; lv = level dst;
          i = (if species dst < 152 then species dst else 0);
          b = GEN1_BASE_STATS ! i; g = GEN3_BASE_STATS ! i;
          atkDV = dvHigh (d ! 0); defDV = dvLow (d ! 0);
          spdDV = dvHigh (d ! 1); spcDV = dvLow (d ! 1);
          hE = be16 (sv_hpExp src); aE = be16 (sv_atkExp src); dE = be16 (sv_defExp src);
          sE = be16 (sv_spdExp src); cE = be16 (sv_spcExp src)
      in if g3 then
        dst\<lparr>type1 := b3_type1 g, type2 := b3_type2 g,
          maxHp := calcStat (b3_hp g) (hpDV d) hE lv True,
          atk := calcStat (b3_atk g) atkDV aE lv False,
          dfn := calcStat (b3_def g) defDV dE lv False,
          spd := calcStat (b3_spe g) spdDV sE lv False,
          spaG3 := calcStat (b3_spa g) spcDV cE lv False,
          spdG3 := calcStat (b3_spd g) spcDV cE lv False,
          spc := calcStat (b3_spa g) spcDV cE lv False\<rparr>
      else
        dst\<lparr>type1 := b1_type1 b, type2 := b1_type2 b,
          maxHp := calcStat (b1_hp b) (hpDV d) hE lv True,
          atk := calcStat (b1_atk b) atkDV aE lv False,
          dfn := calcStat (b1_def b) defDV dE lv False,
          spd := calcStat (b1_spd b) spdDV sE lv False,
          spc := calcStat (b1_spc b) spcDV cE lv False\<rparr>)"

definition initBattlePokeFromSave :: "Gen1Pokemon \<Rightarrow> byte list \<Rightarrow> nat \<Rightarrow> BattlePoke" where
  "initBattlePokeFromSave src nick g =
     (let dex = internalToDex ! unat (sv_species src);
          dst = (initSentinelFields zeroPoke)\<lparr>species := dex,
                  nickname := nickOrSpecies dex (decodeNick nick),
                  level := (if sv_level src \<noteq> 0 then unat (sv_level src) else unat (sv_boxLevel src))\<rparr>;
          dst = statsFromSave (3 \<le> g) src dst;
          h = be16 (sv_hp src)
      in dst\<lparr>hp := (if h = 0 \<or> maxHp dst < h then maxHp dst else h),
             moves := map unat (take 4 (sv_moves src)), pp := map unat (take 4 (sv_pp src)),
             status := unat (sv_status src)\<rparr>)"

definition initBattlePokeFromBase :: "nat \<Rightarrow> nat \<Rightarrow> nat list \<Rightarrow> nat \<Rightarrow> BattlePoke" where
  "initBattlePokeFromBase sp lv mvs g =
     (let i = (if sp < 152 then sp else 0); b = GEN1_BASE_STATS ! i; h = GEN3_BASE_STATS ! i;
          dst = (initSentinelFields zeroPoke)\<lparr>species := sp, level := lv\<rparr>;
          dst = (if 3 \<le> g then
             dst\<lparr>type1 := b3_type1 h, type2 := b3_type2 h,
               maxHp := calcStat (b3_hp h) 8 0 lv True, atk := calcStat (b3_atk h) 8 0 lv False,
               dfn := calcStat (b3_def h) 8 0 lv False, spd := calcStat (b3_spe h) 8 0 lv False,
               spaG3 := calcStat (b3_spa h) 8 0 lv False, spdG3 := calcStat (b3_spd h) 8 0 lv False,
               spc := calcStat (b3_spa h) 8 0 lv False\<rparr>
           else
             dst\<lparr>type1 := b1_type1 b, type2 := b1_type2 b,
               maxHp := calcStat (b1_hp b) 8 0 lv True, atk := calcStat (b1_atk b) 8 0 lv False,
               dfn := calcStat (b1_def b) 8 0 lv False, spd := calcStat (b1_spd b) 8 0 lv False,
               spc := calcStat (b1_spc b) 8 0 lv False\<rparr>)
      in dst\<lparr>hp := maxHp dst, moves := mvs,
             pp := map (\<lambda>m. case mdata (3 \<le> g) m of Some d \<Rightarrow> mpp d | None \<Rightarrow> 0) mvs,
             nickname := (if sp < 152 then ''WILD'' else ''???'')\<rparr>)"

subsection \<open>Starting a battle\<close>

definition emptyParty :: BattleParty where
  "emptyParty = \<lparr>mons = replicate 6 zeroPoke, pcount = 0, active = 0, reflect = False,
     lightScreen = False, mist = False, focused = False, reflectTurns = 0, lightScreenTurns = 0\<rparr>"

definition initSide :: "nat \<Rightarrow> Gen1Party \<Rightarrow> BattleParty" where
  "initSide g pty =
     (let n = min 6 (unat (gp_count pty))
      in emptyParty\<lparr>pcount := n,
           mons := map (\<lambda>i. initBattlePokeFromSave (gp_mons pty ! i) (gp_nicknames pty ! i) g) [0..<n]
                   @ replicate (6 - n) zeroPoke\<rparr>)"

text \<open>
  \<open>start\<close> leaves \<open>pendIndex_\<close> as it was; \<open>e0\<close> is the object before the call, with its sink.
\<close>

definition start :: "Gen1Party \<Rightarrow> Gen1Party \<Rightarrow> 32 word \<Rightarrow> nat \<Rightarrow> Engine \<Rightarrow> Engine" where
  "start p1 p2 seed g e0 =
     (seedRng seed (e0\<lparr>rngSeed := seed, gen := g, turn := 0, result := ONGOING,
        pendAction := (\<lambda>_. 255)\<rparr>))
     \<lparr>parties := (\<lambda>s. case s of S0 \<Rightarrow> initSide g p1 | S1 \<Rightarrow> initSide g p2)\<rparr>"

definition replaceOpponent :: "Gen1Party \<Rightarrow> Engine \<Rightarrow> Engine" where
  "replaceOpponent p e =
     e\<lparr>parties := (parties e)(S1 := initSide (gen e) p), result := ONGOING,
       pendAction := (\<lambda>_. 255), pendIndex := (\<lambda>_. 0)\<rparr>"

definition submitAction :: "nat \<Rightarrow> nat \<Rightarrow> nat \<Rightarrow> Engine \<Rightarrow> bool \<times> Engine" where
  "submitAction sd actionType index e =
     (let s = side_of sd;
          e' = e\<lparr>pendAction := (pendAction e)(s := actionType), pendIndex := (pendIndex e)(s := index)\<rparr>
      in (pendAction e' S0 \<noteq> 255 \<and> pendAction e' S1 \<noteq> 255, e'))"

definition newEngine :: "bool \<Rightarrow> Engine" where
  "newEngine sink = \<lparr>parties = (\<lambda>_. emptyParty), rngSeed = 0, turn = 0, gen = 3, result = ONGOING,
     pendAction = (\<lambda>_. 255), pendIndex = (\<lambda>_. 0), xs0 = 0, xs1 = 0, xs2 = 0, xs3 = 0,
     logOn = sink, elog = [], fault = False\<rparr>"

subsection \<open>The square root is not the square root\<close>

lemma sqrtLoop_digits:
  assumes "2 * q\<^sup>2 * 4 ^ Suc k \<le> n" and "n < 2 * (Suc q)\<^sup>2 * 4 ^ Suc k"
  shows "\<exists>q'. sqrtLoop (n - 2 * q\<^sup>2 * 4 ^ Suc k) (2 * q * 4 ^ Suc k) (2 * 4 ^ k) = 2 * q'
              \<and> 2 * q'\<^sup>2 \<le> n \<and> n < 2 * (Suc q')\<^sup>2"
  using assms
proof (induction k arbitrary: q)
  case 0
  show ?case
  proof (cases "8 * q + 2 \<le> n - 8 * q\<^sup>2")
    case True
    with 0 show ?thesis
      by (intro exI [of _ "2 * q + 1"])
        (simp add: sqrtLoop.simps power2_eq_square algebra_simps)
  next
    case False
    with 0 show ?thesis
      by (intro exI [of _ "2 * q"])
        (simp add: sqrtLoop.simps power2_eq_square algebra_simps)
  qed
next
  case (Suc k)
  let ?b = "4 ^ k :: nat"
  have half: "2 * q * (4 ^ Suc (Suc k)) div 2 = 2 * (2 * q) * 4 ^ Suc k"
    and quarter: "2 * 4 ^ Suc k div 4 = 2 * (4::nat) ^ k" by simp_all
  have step: "2 * q * 4 ^ Suc (Suc k) + 2 * 4 ^ Suc k + 2 * q\<^sup>2 * 4 ^ Suc (Suc k)
      = 2 * (Suc (2 * q))\<^sup>2 * 4 ^ Suc k"
    by (simp add: power2_eq_square algebra_simps)
  have even_q: "2 * q\<^sup>2 * 4 ^ Suc (Suc k) = 2 * (2 * q)\<^sup>2 * 4 ^ Suc k"
    by (simp add: power2_eq_square)
  show ?case
  proof (cases "2 * q * 4 ^ Suc (Suc k) + 2 * 4 ^ Suc k \<le> n - 2 * q\<^sup>2 * 4 ^ Suc (Suc k)")
    case True
    have lo: "2 * (Suc (2 * q))\<^sup>2 * 4 ^ Suc k \<le> n"
      using True Suc.prems(1) step by linarith
    have hi: "n < 2 * (Suc (Suc (2 * q)))\<^sup>2 * 4 ^ Suc k"
      using Suc.prems(2) by (simp add: power2_eq_square algebra_simps)
    have "n - 2 * q\<^sup>2 * 4 ^ Suc (Suc k) - (2 * q * 4 ^ Suc (Suc k) + 2 * 4 ^ Suc k)
        = n - 2 * (Suc (2 * q))\<^sup>2 * 4 ^ Suc k"
      using step by linarith
    moreover have "2 * q * 4 ^ Suc (Suc k) div 2 + 2 * 4 ^ Suc k = 2 * (Suc (2 * q)) * 4 ^ Suc k"
      by simp
    ultimately have "sqrtLoop (n - 2 * q\<^sup>2 * 4 ^ Suc (Suc k)) (2 * q * 4 ^ Suc (Suc k)) (2 * 4 ^ Suc k)
        = sqrtLoop (n - 2 * (Suc (2 * q))\<^sup>2 * 4 ^ Suc k) (2 * Suc (2 * q) * 4 ^ Suc k) (2 * 4 ^ k)"
      using True by (subst sqrtLoop.simps) (simp only: quarter if_True, simp)
    with Suc.IH [OF lo hi] show ?thesis by simp
  next
    case False
    have lo: "2 * (2 * q)\<^sup>2 * 4 ^ Suc k \<le> n" using Suc.prems(1) even_q by linarith
    have hi: "n < 2 * (Suc (2 * q))\<^sup>2 * 4 ^ Suc k"
      using False step Suc.prems(1) by linarith
    have "sqrtLoop (n - 2 * q\<^sup>2 * 4 ^ Suc (Suc k)) (2 * q * 4 ^ Suc (Suc k)) (2 * 4 ^ Suc k)
        = sqrtLoop (n - 2 * (2 * q)\<^sup>2 * 4 ^ Suc k) (2 * (2 * q) * 4 ^ Suc k) (2 * 4 ^ k)"
      using False by (subst sqrtLoop.simps) (simp only: quarter half even_q if_False, simp)
    with Suc.IH [OF lo hi] show ?thesis by simp
  qed
qed

lemma sqrtBit_cases:
  "v < 8 * 4 ^ k \<Longrightarrow> (sqrtBit v (2 * 4 ^ k) = 0 \<and> v < 2) \<or> (\<exists>j. sqrtBit v (2 * 4 ^ k) = 2 * 4 ^ j \<and> v < 8 * 4 ^ j)"
proof (induction k)
  case 0
  then show ?case
    by (cases "v < 2") (auto simp: sqrtBit.simps [of v 2] sqrtBit.simps [of v 0] intro: exI [of _ 0])
next
  case (Suc k)
  show ?case
  proof (cases "v < 2 * 4 ^ Suc k")
    case True
    then have "sqrtBit v (2 * 4 ^ Suc k) = sqrtBit v (2 * 4 ^ k)"
      by (subst sqrtBit.simps) simp
    with Suc.IH True show ?thesis by simp
  next
    case False
    then have "sqrtBit v (2 * 4 ^ Suc k) = 2 * 4 ^ Suc k"
      by (subst sqrtBit.simps) simp
    with Suc.prems show ?thesis by blast
  qed
qed

lemma isqrt16_u32_digits:
  assumes "v < 65536"
  obtains q where "isqrt16_u32 v = 2 * q" and "2 * q\<^sup>2 \<le> v" and "v < 2 * (Suc q)\<^sup>2"
proof -
  have "(32768::nat) = 2 * 4 ^ 7" by simp
  moreover have "v < 8 * 4 ^ 7" using assms by simp
  ultimately consider "sqrtBit v 32768 = 0" "v < 2"
    | j where "sqrtBit v 32768 = 2 * 4 ^ j" "v < 8 * 4 ^ j"
    using sqrtBit_cases [of v 7] by metis
  then obtain q where q: "sqrtLoop v 0 (sqrtBit v 32768) = 2 * q" "2 * q\<^sup>2 \<le> v" "v < 2 * (Suc q)\<^sup>2"
  proof cases
    case 1
    then show ?thesis by (intro that [of 0]) (simp_all add: sqrtLoop.simps)
  next
    case 2
    then show ?thesis using sqrtLoop_digits [of 0 j v] by (auto intro: that)
  qed
  have "q < 182"
  proof (rule ccontr)
    assume "\<not> q < 182"
    then have "182\<^sup>2 \<le> q\<^sup>2" by (intro power_mono) simp_all
    with q(2) assms show False by simp
  qed
  with q show ?thesis by (intro that [of q]) (simp_all add: isqrt16_u32_def)
qed

text \<open>A stat of a level-100-or-lower monster stays far below the \<open>uint16_t\<close> range.\<close>

lemma calcStat_bounds:
  assumes "base \<le> 255" "iv \<le> 15" "x < 65536" "lv \<le> 100"
  shows "calcStat base iv x lv False \<le> 609" and "5 \<le> calcStat base iv x lv False"
    and "calcStat base iv x lv True \<le> 714" and "10 \<le> calcStat base iv x lv True"
proof -
  let ?n = "((base + iv) * 2 + (isqrt16 x + 3) div 4) * lv"
  have "(base + iv) * 2 + (isqrt16 x + 3) div 4 \<le> 604"
    using isqrt16_le [OF assms(3)] assms(1,2) by presburger
  then have n: "?n \<le> 604 * 100" using assms(4) by (rule mult_le_mono)
  then have "u32 ?n = ?n" by simp
  moreover have "?n div 100 \<le> 604" using n by linarith
  ultimately show "calcStat base iv x lv False \<le> 609" "5 \<le> calcStat base iv x lv False"
    "calcStat base iv x lv True \<le> 714" "10 \<le> calcStat base iv x lv True"
    using assms(4) by (simp_all add: calcStat_def Let_def)
qed

end
