(* ===== verification/BattleDamage.thy ===== *)
theory BattleDamage
  imports BattleStats
begin

text \<open>
  The arithmetic of a turn (\<^verbatim>\<open>Gen1BattleEngine.cpp\<close>, lines 245 to 414): stage multipliers,
  type effectiveness, the hit roll, the damage formula with its signed 32-bit intermediates, the
  speed comparison and stage changes.  The operands of every C division here are non-negative, so
  \<open>div\<close> is C's division.
\<close>

subsection \<open>Stages and types\<close>

definition boostTable :: "int list" where
  "boostTable = [25, 28, 33, 40, 50, 66, 100, 150, 200, 250, 300, 350, 400]"

definition boostMult :: "int \<Rightarrow> int" where
  "boostMult stage =
     (let s = stage + 6;
          s = (if s < 0 then 0 else s);
          s = (if s > 12 then 12 else s)
      in boostTable ! nat s)"

definition effectiveness :: "bool \<Rightarrow> nat \<Rightarrow> nat \<Rightarrow> nat" where
  "effectiveness g3 atkType defType =
     (if g3 then (if GEN3_TYPE_COUNT \<le> atkType \<or> GEN3_TYPE_COUNT \<le> defType then 2
                  else GEN3_TYPECHART ! atkType ! defType)
      else if GEN1_TYPE_COUNT \<le> atkType \<or> GEN1_TYPE_COUNT \<le> defType then 2
      else GEN1_TYPECHART ! atkType ! defType)"

text \<open>The two factors of a hit: the second is neutral on a single-typed target.\<close>

definition eff1 :: "bool \<Rightarrow> Gen1MoveData \<Rightarrow> BattlePoke \<Rightarrow> nat" where
  "eff1 g3 mv t = effectiveness g3 (mtype mv) (type1 t)"

definition eff2 :: "bool \<Rightarrow> Gen1MoveData \<Rightarrow> BattlePoke \<Rightarrow> nat" where
  "eff2 g3 mv t = (if type1 t \<noteq> type2 t then effectiveness g3 (mtype mv) (type2 t) else 2)"

subsection \<open>Hit roll\<close>

definition hitThreshold :: "Gen1MoveData \<Rightarrow> BattlePoke \<Rightarrow> BattlePoke \<Rightarrow> nat" where
  "hitThreshold mv a d =
     (let t = nat (int (maccuracy mv) * boostMult (accBoost a) * boostMult (- evaBoost d)) div 10000
      in if t > 100 then 100 else t)"

definition rollHit :: "side \<Rightarrow> side \<Rightarrow> Gen1MoveData \<Rightarrow> bool eng" where
  "rollHit s t mv =
     (if maccuracy mv = 0 then State_Monad.return True
      else do {
        a \<leftarrow> mon s;
        d \<leftarrow> mon t;
        r \<leftarrow> rand32;
        State_Monad.return (r mod 100 < hitThreshold mv a d)
      })"

subsection \<open>Damage\<close>

definition isSpecialType :: "bool \<Rightarrow> nat \<Rightarrow> bool" where
  "isSpecialType g3 t =
     (if g3 then t < GEN3_TYPE_COUNT \<and> GEN3_TYPE_IS_SPECIAL ! t else 9 \<le> t \<and> t \<le> 15)"

definition rawAttack :: "bool \<Rightarrow> bool \<Rightarrow> BattlePoke \<Rightarrow> int" where
  "rawAttack g3 special m = int (if special then (if g3 then spaG3 m else spc m) else atk m)"

definition rawDefense :: "bool \<Rightarrow> bool \<Rightarrow> BattlePoke \<Rightarrow> int" where
  "rawDefense g3 special m = int (if special then (if g3 then spdG3 m else spc m) else dfn m)"

definition halveIf :: "bool \<Rightarrow> int \<Rightarrow> int" where
  "halveIf b x = (if b then x div 2 else x)"

definition attackStat :: "bool \<Rightarrow> bool \<Rightarrow> bool \<Rightarrow> BattlePoke \<Rightarrow> int" where
  "attackStat g3 special crit a =
     halveIf (has_status (status a) ST_BRN)
       (if crit then rawAttack g3 special a
        else (rawAttack g3 special a * boostMult (if special then spcBoost a else atkBoost a)) div 100)"

definition defenseStat :: "bool \<Rightarrow> bool \<Rightarrow> bool \<Rightarrow> BattleParty \<Rightarrow> BattlePoke \<Rightarrow> int" where
  "defenseStat g3 special crit p d =
     (if crit then rawDefense g3 special d
      else (let x = (rawDefense g3 special d * boostMult (if special then spcBoost d else defBoost d)) div 100
            in if (special \<and> lightScreen p) \<or> (\<not> special \<and> reflect p) then x * 2 else x))"

definition critRoll :: "bool \<Rightarrow> bool \<Rightarrow> BattlePoke \<Rightarrow> nat \<Rightarrow> bool" where
  "critRoll g3 foc a r =
     (if g3 then (if foc then r mod 256 mod 4 = 0 else r mod 256 mod 16 = 0)
      else (let rate = b1_spd (GEN1_BASE_STATS ! (if species a < 152 then species a else 0)) div 2;
                rate = (if foc then rate div 4 else rate)
            in r mod 256 < min 255 rate))"

definition baseDamage :: "int \<Rightarrow> int \<Rightarrow> int \<Rightarrow> int \<Rightarrow> int option" where
  "baseDamage L pw A D = do {
     a \<leftarrow> i32 (2 * L);
     b \<leftarrow> i32 (a div 5 + 2);
     c \<leftarrow> i32 (b * pw);
     d \<leftarrow> i32 (c * A);
     if D = 0 then None else i32 (d div D div 50 + 2)
   }"

definition typedDamage :: "bool \<Rightarrow> bool \<Rightarrow> nat \<Rightarrow> nat \<Rightarrow> int \<Rightarrow> int option" where
  "typedDamage doubled stab e1 e2 dmg = do {
     dmg \<leftarrow> (if doubled then i32 (dmg * 2) else Some dmg);
     dmg \<leftarrow> (if stab then map_option (\<lambda>x. x div 2) (i32 (dmg * 3)) else Some dmg);
     dmg \<leftarrow> map_option (\<lambda>x. x div 2) (i32 (dmg * int e1));
     map_option (\<lambda>x. x div 2) (i32 (dmg * int e2))
   }"

definition variedDamage :: "int \<Rightarrow> nat \<Rightarrow> int option" where
  "variedDamage dmg r =
     map_option (\<lambda>x. let y = x div 255; y = (if y < 1 then 1 else y)
                     in if y > 65535 then 65535 else y)
       (i32 (dmg * (217 + int (r mod 39))))"

text \<open>
  \<open>calcDamage\<close>: the damage and whether the hit was critical.  A division by a zero defence and a
  signed overflow set the fault flag.
\<close>

definition calcDamage :: "side \<Rightarrow> side \<Rightarrow> Gen1MoveData \<Rightarrow> (nat \<times> bool) eng" where
  "calcDamage s t mv = do {
     a \<leftarrow> mon s;
     d \<leftarrow> mon t;
     ps \<leftarrow> party s;
     pt \<leftarrow> party t;
     g3 \<leftarrow> gets isGen3;
     if mpower mv = 0 then State_Monad.return (0, False)
     else do {
       let special = isSpecialType g3 (mtype mv);
       r \<leftarrow> rand32;
       let crit = critRoll g3 (focused ps) a r;
       let A = attackStat g3 special crit a;
       let D = defenseStat g3 special crit pt d;
       let L = (if crit \<and> \<not> g3 then int (level a) * 2 else int (level a));
       case Option.bind (baseDamage L (int (mpower mv)) A D)
              (typedDamage (crit \<and> g3) (mtype mv = type1 a \<or> mtype mv = type2 a)
                 (eff1 g3 mv d) (eff2 g3 mv d)) of
         None \<Rightarrow> do { trap; State_Monad.return (0, crit) }
       | Some dmg \<Rightarrow>
           (if dmg = 0 then State_Monad.return (0, crit)
            else do {
              v \<leftarrow> rand32;
              (case variedDamage dmg v of
                 None \<Rightarrow> do { trap; State_Monad.return (0, crit) }
               | Some x \<Rightarrow> State_Monad.return (nat x, crit))
            })
     }
   }"

subsection \<open>Speed comparison\<close>

definition actionPriority :: "Engine \<Rightarrow> side \<Rightarrow> nat \<Rightarrow> int" where
  "actionPriority e s act =
     (if act = 1 then 6
      else if act = 0 \<and> pendIndex e s < 4 then
        (case mdata (isGen3 e) (moves (activeMon e s) ! pendIndex e s) of
           Some mv \<Rightarrow> mpriority mv | None \<Rightarrow> 0)
      else 0)"

definition battleSpeed :: "BattlePoke \<Rightarrow> int" where
  "battleSpeed m =
     (let v = (int (spd m) * boostMult (spdBoost m)) div 100
      in if has_status (status m) ST_PAR then v div 4 else v)"

definition pokeActsFirst :: "side \<Rightarrow> nat \<Rightarrow> nat \<Rightarrow> bool eng" where
  "pokeActsFirst s act targetAct = do {
     p1 \<leftarrow> gets (\<lambda>e. actionPriority e s act);
     p2 \<leftarrow> gets (\<lambda>e. actionPriority e (other s) targetAct);
     if p1 \<noteq> p2 then State_Monad.return (p1 > p2)
     else do {
       a \<leftarrow> mon s;
       b \<leftarrow> mon (other s);
       if battleSpeed a \<noteq> battleSpeed b then State_Monad.return (battleSpeed a > battleSpeed b)
       else do {
         r \<leftarrow> rand32;
         State_Monad.return (r mod 2 = 0)
       }
     }
   }"

subsection \<open>Stage changes\<close>

datatype stat = Attack | Defense | Speed | Special | Accuracy | Evasion

fun statName :: "stat \<Rightarrow> string" where
  "statName Attack = ''Attack''"
| "statName Defense = ''Defense''"
| "statName Speed = ''Speed''"
| "statName Special = ''Special''"
| "statName Accuracy = ''accuracy''"
| "statName Evasion = ''evasion''"

fun stage :: "stat \<Rightarrow> BattlePoke \<Rightarrow> int" where
  "stage Attack m = atkBoost m"
| "stage Defense m = defBoost m"
| "stage Speed m = spdBoost m"
| "stage Special m = spcBoost m"
| "stage Accuracy m = accBoost m"
| "stage Evasion m = evaBoost m"

fun setStage :: "stat \<Rightarrow> int \<Rightarrow> BattlePoke \<Rightarrow> BattlePoke" where
  "setStage Attack v m = m\<lparr>atkBoost := v\<rparr>"
| "setStage Defense v m = m\<lparr>defBoost := v\<rparr>"
| "setStage Speed v m = m\<lparr>spdBoost := v\<rparr>"
| "setStage Special v m = m\<lparr>spcBoost := v\<rparr>"
| "setStage Accuracy v m = m\<lparr>accBoost := v\<rparr>"
| "setStage Evasion v m = m\<lparr>evaBoost := v\<rparr>"

definition bumpStage :: "int \<Rightarrow> int \<Rightarrow> int" where
  "bumpStage delta st = (if delta > 0 then (if st \<ge> 6 then st else st + 1)
                         else if st \<le> -6 then st else st - 1)"

definition stageMessage :: "int \<Rightarrow> int \<Rightarrow> string \<Rightarrow> string \<Rightarrow> string" where
  "stageMessage delta st nick name =
     take 63 (take 10 nick @ CHR 0x27 # ''s '' @ name @
       (if delta > 0 then (if st \<ge> 6 then '' maxed!'' else '' rose!'')
        else if st \<le> -6 then '' bottomed!'' else '' fell!''))"

text \<open>The stage moves only when there is a sink: \<open>if (!log) return\<close> comes first.\<close>

definition emitStatChange :: "side \<Rightarrow> stat \<Rightarrow> int \<Rightarrow> unit eng" where
  "emitStatChange s st delta = do {
     on \<leftarrow> gets logOn;
     if \<not> on then skip
     else do {
       m \<leftarrow> mon s;
       updMon s (\<lambda>u. setStage st (bumpStage delta (stage st u)) u);
       rawLog (stageMessage delta (stage st m) (nickname m) (statName st))
     }
   }"

subsection \<open>Bounds\<close>

lemma boostMult_cases: "boostMult st \<in> set boostTable"
proof -
  define k where "k = nat (if (if st + 6 < 0 then 0 else st + 6) > 12 then 12 else (if st + 6 < 0 then 0 else st + 6))"
  have "k < length boostTable" by (auto simp: k_def boostTable_def)
  then have "boostTable ! k \<in> set boostTable" by (rule nth_mem)
  then show ?thesis by (simp add: boostMult_def Let_def k_def)
qed

lemma boostMult_bounds: "25 \<le> boostMult st" "boostMult st \<le> 400"
  using boostMult_cases [of st] by (auto simp: boostTable_def)

lemma boostMult_0 [simp]: "boostMult 0 = 100"
  by (simp add: boostMult_def boostTable_def)

lemma bumpStage_range: "- 6 \<le> st \<Longrightarrow> st \<le> 6 \<Longrightarrow> - 6 \<le> bumpStage d st \<and> bumpStage d st \<le> 6"
  by (auto simp: bumpStage_def)

lemma scaled_bounds:
  fixes x :: int
  assumes "lo \<le> x" "x \<le> hi" "0 \<le> lo"
  shows "lo div 4 \<le> x * boostMult st div 100" and "x * boostMult st div 100 \<le> hi * 4"
proof -
  have "lo * 25 \<le> x * boostMult st" using assms boostMult_bounds [of st] by (intro mult_mono) auto
  then have "lo * 25 div 100 \<le> x * boostMult st div 100" by (rule zdiv_mono1) simp
  then show "lo div 4 \<le> x * boostMult st div 100" by simp
  have "x * boostMult st \<le> hi * 400" using assms boostMult_bounds [of st] by (intro mult_mono) auto
  then have "x * boostMult st div 100 \<le> hi * 400 div 100" by (rule zdiv_mono1) simp
  then show "x * boostMult st div 100 \<le> hi * 4" by simp
qed

end
