(* ===== verification/BattleMoves.thy ===== *)
theory BattleMoves
  imports BattleDamage
begin

text \<open>
  Move execution (\<^verbatim>\<open>Gen1BattleEngine.cpp\<close>, lines 442 to 972).  \<open>useMove\<close> and
  \<open>applyMove\<close> are split at the source's early returns into phases, each a definition; a phase that
  can end the call returns whether it did.  \<open>user\<close> and \<open>target\<close> are references in the source, so
  every read here takes the state as it is at that point.
\<close>

subsection \<open>Messages and hit points\<close>

definition say :: "string \<Rightarrow> side \<Rightarrow> unit eng" where
  "say tmpl s = do { m \<leftarrow> mon s; emit tmpl (Some (nickname m)) None }"

definition sayMove :: "string \<Rightarrow> side \<Rightarrow> Gen1MoveData \<Rightarrow> unit eng" where
  "sayMove tmpl s mv = do { m \<leftarrow> mon s; emit tmpl (Some (nickname m)) (Some (mname mv)) }"

definition FAINT :: string where "FAINT = ''[POKEMON] fainted!''"
definition MISS :: string where "MISS = ''[POKEMON]'' @ CHR 0x27 # ''s attack missed!''"
definition IMMUNE :: string where "IMMUNE = ''It doesn'' @ CHR 0x27 # ''t affect [POKEMON]...''"

text \<open>\<open>if (x.hp <= d) x.hp = 0; else x.hp -= d;\<close>\<close>

definition loseHp :: "nat \<Rightarrow> BattlePoke \<Rightarrow> BattlePoke" where
  "loseHp d m = m\<lparr>hp := (if hp m \<le> d then 0 else hp m - d)\<rparr>"

text \<open>\<open>x.hp += h; if (x.hp > x.maxHp) x.hp = x.maxHp;\<close> in \<open>uint16_t\<close>.\<close>

definition gainHp :: "nat \<Rightarrow> BattlePoke \<Rightarrow> BattlePoke" where
  "gainHp h m = (let x = u16 (hp m + h) in m\<lparr>hp := (if x > maxHp m then maxHp m else x)\<rparr>)"

definition sayIfFainted :: "side \<Rightarrow> unit eng" where
  "sayIfFainted s = do { m \<leftarrow> mon s; when_ok (hp m = 0) (say FAINT s) }"

subsection \<open>Phases of useMove before the move fires\<close>

definition selectMove :: "bool \<Rightarrow> BattlePoke \<Rightarrow> nat \<Rightarrow> Gen1MoveData option" where
  "selectMove g3 u slot =
     (if slot = 0xFE then mdata g3 165
      else if 4 \<le> slot then None
      else case mdata g3 (moves u ! slot) of
             None \<Rightarrow> None
           | Some mv \<Rightarrow> (if pp u ! slot = 0 then None else Some mv))"

text \<open>Sleep: \<open>True\<close> when the user stays asleep and the call ends.\<close>

definition sleepCheck :: "side \<Rightarrow> bool eng" where
  "sleepCheck s = do {
     u \<leftarrow> mon s;
     if \<not> has_status (status u) ST_SLP then State_Monad.return False
     else if sleepTurns u > 0 then do {
       updMon s (\<lambda>m. m\<lparr>sleepTurns := sleepTurns m - 1\<rparr>);
       say ''[POKEMON] is fast asleep.'' s;
       State_Monad.return True
     } else do {
       updMon s (\<lambda>m. m\<lparr>status := and (status m) (255 - ST_SLP)\<rparr>);
       say ''[POKEMON] woke up!'' s;
       State_Monad.return False
     }
   }"

definition parCheck :: "side \<Rightarrow> bool eng" where
  "parCheck s = do {
     u \<leftarrow> mon s;
     if has_status (status u) ST_PAR then do {
       p \<leftarrow> percent 25;
       if p then do { say ''[POKEMON] is fully paralyzed!'' s; State_Monad.return True }
       else State_Monad.return False
     } else State_Monad.return False
   }"

text \<open>The self-hit of confusion: 40-power typeless damage; a zero defence would trap.\<close>

definition selfHit :: "BattlePoke \<Rightarrow> nat" where
  "selfHit u = u16 ((2 * level u div 5 + 2) * 40 * atk u div dfn u div 50 + 2)"

definition confusionCheck :: "side \<Rightarrow> bool eng" where
  "confusionCheck s = do {
     u \<leftarrow> mon s;
     if confuseTurns u = 0 then State_Monad.return False
     else do {
       updMon s (\<lambda>m. m\<lparr>confuseTurns := confuseTurns m - 1\<rparr>);
       p \<leftarrow> percent 50;
       if \<not> p then State_Monad.return False
       else do {
         say ''[POKEMON] hurt itself in confusion!'' s;
         when_ok (dfn u = 0) trap;
         updMon s (\<lambda>m. m\<lparr>hp := (if selfHit m > hp m then 0 else hp m - selfHit m)\<rparr>);
         State_Monad.return True
       }
     }
   }"

text \<open>All pre-move checks in order (lines 465 to 512): \<open>True\<close> when the call goes on.\<close>

definition preMoveChecks :: "side \<Rightarrow> bool eng" where
  "preMoveChecks s = do {
     u \<leftarrow> mon s;
     if has_status (status u) ST_FRZ then do {
       say ''[POKEMON] is frozen solid!'' s; State_Monad.return False
     } else do {
       asleep \<leftarrow> sleepCheck s;
       if asleep then State_Monad.return False else do {
         par \<leftarrow> parCheck s;
         if par then State_Monad.return False else do {
           u \<leftarrow> mon s;
           if mustRecharge u then do {
             updMon s (\<lambda>m. m\<lparr>mustRecharge := False\<rparr>);
             say ''[POKEMON] must recharge!'' s; State_Monad.return False
           } else do {
             conf \<leftarrow> confusionCheck s;
             if conf then State_Monad.return False else do {
               u \<leftarrow> mon s;
               if trapTurns u > 0 then do {
                 say (''[POKEMON] can'' @ CHR 0x27 # ''t move!'') s; State_Monad.return False
               } else if flinched u then do {
                 updMon s (\<lambda>m. m\<lparr>flinched := False\<rparr>);
                 say (''[POKEMON] flinched and couldn'' @ CHR 0x27 # ''t move!'') s;
                 State_Monad.return False
               } else State_Monad.return True
             }
           }
         }
       }
     }
   }"

text \<open>
  Forced slots: the second turn of a charging move, then a thrash lock (lines 514 to 533).  \<open>None\<close>
  is the early return on a move id without data.
\<close>

definition forcedSlot :: "side \<Rightarrow> bool \<Rightarrow> nat \<Rightarrow> Gen1MoveData \<Rightarrow> (nat \<times> Gen1MoveData) option eng" where
  "forcedSlot s struggle slot mv =
     (if struggle then State_Monad.return (Some (slot, mv))
      else do {
        g3 \<leftarrow> gets isGen3;
        u \<leftarrow> mon s;
        c \<leftarrow> (if chargingSlot u \<noteq> 255 then do {
               updMon s (\<lambda>m. m\<lparr>chargingSlot := 255\<rparr>);
               State_Monad.return (map_option (Pair (chargingSlot u)) (mdata g3 (moves u ! chargingSlot u)))
             } else State_Monad.return (Some (slot, mv)));
        (case c of
           None \<Rightarrow> State_Monad.return None
         | Some sm \<Rightarrow>
             (if thrashSlot u \<noteq> 255
              then State_Monad.return (map_option (Pair (thrashSlot u)) (mdata g3 (moves u ! thrashSlot u)))
              else State_Monad.return (Some sm)))
      })"

definition bideTurn :: "side \<Rightarrow> bool \<Rightarrow> bool eng" where
  "bideTurn s struggle = do {
     u \<leftarrow> mon s;
     if struggle \<or> bideTurns u = 0 then State_Monad.return False
     else do {
       updMon s (\<lambda>m. m\<lparr>bideTurns := bideTurns m - 1\<rparr>);
       (if bideTurns u = 1 then do {
          updMon s (\<lambda>m. m\<lparr>bideDamage := 0\<rparr>);
          updMon (other s) (loseHp (u16 (bideDamage u * 2)));
          say ''[POKEMON] unleashed energy!'' s;
          sayIfFainted (other s)
        } else say ''[POKEMON] is storing energy.'' s);
       State_Monad.return True
     }
   }"

definition disabledCheck :: "side \<Rightarrow> bool \<Rightarrow> nat \<Rightarrow> bool eng" where
  "disabledCheck s struggle slot = do {
     u \<leftarrow> mon s;
     if struggle \<or> disabledSlot u \<noteq> slot \<or> disabledTurns u = 0 then State_Monad.return False
     else do {
       say (''[POKEMON]'' @ CHR 0x27 # ''s move is disabled!'') s;
       updMon s (\<lambda>m. m\<lparr>disabledTurns := disabledTurns m - 1,
                        disabledSlot := (if disabledTurns m = 1 then 255 else disabledSlot m)\<rparr>);
       State_Monad.return True
     }
   }"

text \<open>\<open>user.pp[moveSlot]--\<close> on \<open>uint8_t\<close>, and the last-move record.\<close>

definition spendPp :: "side \<Rightarrow> bool \<Rightarrow> nat \<Rightarrow> unit eng" where
  "spendPp s struggle slot =
     (if struggle then skip
      else updMon s (\<lambda>m. m\<lparr>pp := upd_at slot (\<lambda>x. sub8 x 1) (pp m), lastMoveIdx := slot\<rparr>))"

definition chargeMessage :: "string \<Rightarrow> string" where
  "chargeMessage nm =
     (if nm = ''Solar Beam'' then ''[POKEMON] absorbed light!''
      else if nm = ''Sky Attack'' then ''[POKEMON] is glowing!''
      else if nm = ''Skull Bash'' then ''[POKEMON] lowered its head!''
      else if nm = ''Razor Wind'' then ''[POKEMON] whipped up a whirlwind!''
      else if nm = ''Fly'' then ''[POKEMON] flew up high!''
      else if nm = ''Dig'' then ''[POKEMON] dug a hole!''
      else ''[POKEMON] is charging!'')"

definition chargeStart :: "side \<Rightarrow> bool \<Rightarrow> nat \<Rightarrow> Gen1MoveData \<Rightarrow> bool eng" where
  "chargeStart s struggle slot mv = do {
     u \<leftarrow> mon s;
     if \<not> struggle \<and> meffect mv = EFF_CHARGE_TURN \<and> chargingSlot u = 255 then do {
       updMon s (\<lambda>m. m\<lparr>chargingSlot := slot\<rparr>);
       say (chargeMessage (mname mv)) s;
       State_Monad.return True
     } else State_Monad.return False
   }"

definition bideStart :: "side \<Rightarrow> bool \<Rightarrow> Gen1MoveData \<Rightarrow> bool eng" where
  "bideStart s struggle mv = do {
     u \<leftarrow> mon s;
     if \<not> struggle \<and> meffect mv = EFF_BIDE \<and> bideTurns u = 0 then do {
       updMon s (\<lambda>m. m\<lparr>bideTurns := 2, bideDamage := 0\<rparr>);
       say ''[POKEMON] is storing energy.'' s;
       State_Monad.return True
     } else State_Monad.return False
   }"

definition thrashStart :: "side \<Rightarrow> bool \<Rightarrow> nat \<Rightarrow> Gen1MoveData \<Rightarrow> unit eng" where
  "thrashStart s struggle slot mv = do {
     u \<leftarrow> mon s;
     if \<not> struggle \<and> meffect mv = EFF_THRASH \<and> thrashSlot u = 255 then do {
       updMon s (\<lambda>m. m\<lparr>thrashSlot := slot\<rparr>);
       r \<leftarrow> rand32;
       updMon s (\<lambda>m. m\<lparr>thrashTurns := 2 + r mod 2\<rparr>)
     } else skip
   }"

subsection \<open>applyMove\<close>

definition selfTarget :: "Gen1MoveEffect \<Rightarrow> bool" where
  "selfTarget e \<longleftrightarrow> e \<in> {EFF_BOOST_ATK, EFF_BOOST_DEF, EFF_BOOST_SPD, EFF_BOOST_SPC, EFF_BOOST_ACC,
     EFF_BOOST_EVA, EFF_FOCUS_ENERGY, EFF_MIST, EFF_LIGHT_SCREEN, EFF_REFLECT, EFF_REST,
     EFF_HEAL_HALF, EFF_HAZE}"

text \<open>Dream Eater on a waking target and the hit roll (lines 705 to 728): \<open>True\<close> when it connects.\<close>

definition connects :: "side \<Rightarrow> side \<Rightarrow> Gen1MoveData \<Rightarrow> bool eng" where
  "connects s t mv = do {
     d \<leftarrow> mon t;
     if meffect mv = EFF_DREAM_EATER \<and> \<not> has_status (status d) ST_SLP then do {
       say MISS s; State_Monad.return False
     } else if selfTarget (meffect mv) \<or> meffect mv = EFF_SWIFT_NEVERMISS then State_Monad.return True
     else do {
       h \<leftarrow> rollHit s t mv;
       if h then State_Monad.return True
       else do { say MISS s; State_Monad.return False }
     }
   }"

definition flinchStop :: "side \<Rightarrow> bool eng" where
  "flinchStop s = do {
     u \<leftarrow> mon s;
     if flinched u then do {
       say (''[POKEMON] flinched and couldn'' @ CHR 0x27 # ''t move!'') s;
       updMon s (\<lambda>m. m\<lparr>flinched := False\<rparr>);
       State_Monad.return True
     } else State_Monad.return False
   }"

definition hitCount :: "Gen1MoveEffect \<Rightarrow> nat eng" where
  "hitCount e =
     (if e = EFF_MULTI_HIT then do {
        a \<leftarrow> rand32;
        b \<leftarrow> rand32;
        State_Monad.return (if a mod 4 < 2 then (if b mod 2 = 1 then 2 else 3)
                            else (if b mod 2 = 1 then 4 else 5))
      } else State_Monad.return (if e = EFF_DOUBLE_HIT then 2 else 1))"

text \<open>The hit loop: it stops once the target is down.\<close>

fun applyHits :: "nat \<Rightarrow> nat \<Rightarrow> nat \<Rightarrow> nat" where
  "applyHits 0 dmg h = h"
| "applyHits (Suc n) dmg h =
     (let h' = (if h \<le> dmg then 0 else h - dmg) in if h' = 0 then 0 else applyHits n dmg h')"

definition hitMessages :: "bool \<Rightarrow> nat \<Rightarrow> nat \<Rightarrow> unit eng" where
  "hitMessages crit eff hits = do {
     when_ok crit (emit ''A critical hit!'' None None);
     (if eff > 4 then emit (''It'' @ CHR 0x27 # ''s super effective!'') None None
      else when_ok (eff < 4) (emit (''It'' @ CHR 0x27 # ''s not very effective...'') None None));
     when_ok (hits > 1) (rawLog (take 39 (''Hit '' @ digits_of hits @ '' times!'')))
   }"

text \<open>What follows a damaging hit (lines 772 to 827).\<close>

definition afterHit :: "side \<Rightarrow> side \<Rightarrow> Gen1MoveData \<Rightarrow> nat \<Rightarrow> unit eng" where
  "afterHit s t mv dmg = do {
     when_ok (meffect mv = EFF_RECOIL) (do {
       updMon s (\<lambda>m. m\<lparr>hp := (if dmg div 4 > hp m then 0 else hp m - dmg div 4)\<rparr>);
       say ''[POKEMON] is hit with recoil!'' s });
     when_ok (meffect mv = EFF_DRAIN_HP) (do {
       updMon s (gainHp (dmg div 2));
       say ''[POKEMON] had its energy drained!'' t });
     when_ok (meffect mv = EFF_DREAM_EATER) (do {
       updMon s (gainHp (dmg div 2));
       say (''[POKEMON]'' @ CHR 0x27 # ''s dream was eaten!'') t });
     when_ok (meffect mv = EFF_EXPLODE) (do {
       updMon s (\<lambda>m. m\<lparr>hp := 0\<rparr>);
       say FAINT s });
     d \<leftarrow> mon t;
     when_ok (meffect mv = EFF_FLINCH \<and> hp d > 0) (do {
       f \<leftarrow> (if meffectChance mv = 0 then State_Monad.return True else percent (meffectChance mv));
       when_ok f (updMon t (\<lambda>m. m\<lparr>flinched := True\<rparr>)) });
     when_ok (meffect mv = EFF_TRAPPING \<and> hp d > 0 \<and> trapTurns d = 0) (do {
       r \<leftarrow> rand32;
       updMon t (\<lambda>m. m\<lparr>trapTurns := 2 + r mod 4\<rparr>);
       say ''[POKEMON] was trapped!'' t });
     updMon t (\<lambda>m. m\<lparr>bideDamage := (if bideTurns m > 0 then u16 (bideDamage m + dmg) else bideDamage m),
                      lastDamageTaken := dmg\<rparr>);
     d \<leftarrow> mon t;
     when_ok (rageActive d \<and> hp d > 0) (emitStatChange t Attack 1)
   }"

text \<open>The damage block (lines 744 to 828): \<open>False\<close> when the target is immune and the call ends.\<close>

definition damageBlock :: "side \<Rightarrow> side \<Rightarrow> Gen1MoveData \<Rightarrow> bool eng" where
  "damageBlock s t mv =
     (if 0 < mpower mv \<and> meffect mv \<notin> {EFF_FIXED_DMG, EFF_LEVEL_DMG, EFF_OHKO} then do {
        (dmg, crit) \<leftarrow> calcDamage s t mv;
        g3 \<leftarrow> gets isGen3;
        d \<leftarrow> mon t;
        let eff = eff1 g3 mv d * eff2 g3 mv d;
        if eff = 0 then do { say IMMUNE t; State_Monad.return False }
        else do {
          hits \<leftarrow> hitCount (meffect mv);
          updMon t (\<lambda>m. m\<lparr>hp := applyHits hits dmg (hp m)\<rparr>);
          hitMessages crit eff hits;
          afterHit s t mv dmg;
          State_Monad.return True
        }
      } else State_Monad.return True)"

definition fixedDamage :: "side \<Rightarrow> side \<Rightarrow> Gen1MoveData \<Rightarrow> unit eng" where
  "fixedDamage s t mv =
     (case meffect mv of
        EFF_FIXED_DMG \<Rightarrow>
          updMon t (loseHp (if contains ''Sonic'' (mname mv) \<or> contains ''Sonicboom'' (mname mv) then 20 else 40))
      | EFF_LEVEL_DMG \<Rightarrow> do { u \<leftarrow> mon s; updMon t (loseHp (level u)) }
      | EFF_PSYWAVE \<Rightarrow> do {
          u \<leftarrow> mon s;
          r \<leftarrow> rand32;
          if level u * 3 div 2 = 0 then trap
          else updMon t (loseHp (u16 (1 + r mod (level u * 3 div 2)))) }
      | EFF_SUPER_FANG \<Rightarrow>
          updMon t (\<lambda>m. m\<lparr>hp := sub16 (hp m) (if hp m div 2 = 0 then 1 else hp m div 2)\<rparr>)
      | EFF_OHKO \<Rightarrow> do {
          u \<leftarrow> mon s;
          d \<leftarrow> mon t;
          if level u < level d then say MISS s
          else do { updMon t (\<lambda>m. m\<lparr>hp := 0\<rparr>);
                    emit (''It'' @ CHR 0x27 # ''s a one-hit KO!'') None None } }
      | _ \<Rightarrow> skip)"

text \<open>\<open>roll(chance)\<close>: certain at 0.\<close>

definition roll :: "nat \<Rightarrow> bool eng" where
  "roll c = (if c = 0 then State_Monad.return True else percent c)"

definition inflict :: "side \<Rightarrow> nat \<Rightarrow> nat \<Rightarrow> string \<Rightarrow> unit eng" where
  "inflict t chance st msg = do {
     d \<leftarrow> mon t;
     when_ok (status d = ST_NONE) (do {
       ok \<leftarrow> roll chance;
       when_ok ok (do { updMon t (\<lambda>m. m\<lparr>status := st\<rparr>); say msg t }) })
   }"

definition inflictSleep :: "side \<Rightarrow> nat \<Rightarrow> unit eng" where
  "inflictSleep t chance = do {
     d \<leftarrow> mon t;
     when_ok (status d = ST_NONE) (do {
       ok \<leftarrow> roll chance;
       when_ok ok (do {
         updMon t (\<lambda>m. m\<lparr>status := ST_SLP\<rparr>);
         r \<leftarrow> rand32;
         updMon t (\<lambda>m. m\<lparr>sleepTurns := 1 + r mod 7\<rparr>);
         say ''[POKEMON] fell asleep!'' t }) })
   }"

definition confuse :: "side \<Rightarrow> nat \<Rightarrow> unit eng" where
  "confuse t chance = do {
     d \<leftarrow> mon t;
     when_ok (confuseTurns d = 0) (do {
       ok \<leftarrow> roll chance;
       when_ok ok (do {
         r \<leftarrow> rand32;
         updMon t (\<lambda>m. m\<lparr>confuseTurns := 2 + r mod 4\<rparr>);
         say ''[POKEMON] became confused!'' t }) })
   }"

definition clearBoosts :: "BattlePoke \<Rightarrow> BattlePoke" where
  "clearBoosts m = m\<lparr>atkBoost := 0, defBoost := 0, spdBoost := 0, spcBoost := 0, accBoost := 0, evaBoost := 0\<rparr>"

definition hazeSide :: "side \<Rightarrow> unit eng" where
  "hazeSide s = do {
     updMon s clearBoosts;
     updParty s (\<lambda>p. p\<lparr>focused := False, lightScreen := False, reflect := False, mist := False\<rparr>)
   }"

definition secondaryEffect :: "side \<Rightarrow> side \<Rightarrow> Gen1MoveData \<Rightarrow> unit eng" where
  "secondaryEffect s t mv =
     (case meffect mv of
        EFF_STATUS_PSN \<Rightarrow> inflict t (meffectChance mv) ST_PSN ''[POKEMON] was poisoned!''
      | EFF_STATUS_BRN \<Rightarrow> inflict t (meffectChance mv) ST_BRN ''[POKEMON] was burned!''
      | EFF_STATUS_PAR \<Rightarrow> inflict t (meffectChance mv) ST_PAR
                           ''[POKEMON] is paralyzed! It may be unable to move!''
      | EFF_STATUS_SLP \<Rightarrow> inflictSleep t (meffectChance mv)
      | EFF_STATUS_FRZ \<Rightarrow> inflict t (meffectChance mv) ST_FRZ ''[POKEMON] was frozen solid!''
      | EFF_STATUS_CONFUSE \<Rightarrow> confuse t (meffectChance mv)
      | EFF_BOOST_ATK \<Rightarrow> emitStatChange s Attack 1
      | EFF_BOOST_DEF \<Rightarrow> emitStatChange s Defense 1
      | EFF_BOOST_SPD \<Rightarrow> emitStatChange s Speed 1
      | EFF_BOOST_SPC \<Rightarrow> emitStatChange s Special 1
      | EFF_BOOST_ACC \<Rightarrow> emitStatChange s Accuracy 1
      | EFF_BOOST_EVA \<Rightarrow> emitStatChange s Evasion 1
      | EFF_DROP_ATK \<Rightarrow> emitStatChange t Attack (- 1)
      | EFF_DROP_DEF \<Rightarrow> emitStatChange t Defense (- 1)
      | EFF_DROP_SPD \<Rightarrow> emitStatChange t Speed (- 1)
      | EFF_DROP_SPC \<Rightarrow> emitStatChange t Special (- 1)
      | EFF_DROP_ACC \<Rightarrow> emitStatChange t Accuracy (- 1)
      | EFF_DROP_EVA \<Rightarrow> emitStatChange t Evasion (- 1)
      | EFF_FOCUS_ENERGY \<Rightarrow> updParty s (\<lambda>p. p\<lparr>focused := True\<rparr>)
      | EFF_MIST \<Rightarrow> updParty s (\<lambda>p. p\<lparr>mist := True\<rparr>)
      | EFF_LIGHT_SCREEN \<Rightarrow> updParty s (\<lambda>p. p\<lparr>lightScreen := True, lightScreenTurns := 5\<rparr>)
      | EFF_REFLECT \<Rightarrow> updParty s (\<lambda>p. p\<lparr>reflect := True, reflectTurns := 5\<rparr>)
      | EFF_HAZE \<Rightarrow> do { hazeSide s; hazeSide (other s) }
      | EFF_REST \<Rightarrow> updMon s (\<lambda>m. m\<lparr>hp := maxHp m, status := ST_SLP, sleepTurns := 2\<rparr>)
      | EFF_HEAL_HALF \<Rightarrow> do {
          u \<leftarrow> mon s;
          when_ok (hp u < maxHp u) (do {
            updMon s (gainHp (if maxHp u div 2 = 0 then 1 else maxHp u div 2));
            say ''[POKEMON] regained health!'' s }) }
      | EFF_CONVERSION \<Rightarrow> do {
          d \<leftarrow> mon t;
          updMon s (\<lambda>m. m\<lparr>type1 := type1 d, type2 := type2 d\<rparr>);
          say (''[POKEMON] copied the foe'' @ CHR 0x27 # ''s type!'') s }
      | EFF_RAGE \<Rightarrow> updMon s (\<lambda>m. m\<lparr>rageActive := True\<rparr>)
      | EFF_HYPER_BEAM \<Rightarrow> do {
          d \<leftarrow> mon t;
          when_ok (hp d > 0) (updMon s (\<lambda>m. m\<lparr>mustRecharge := True\<rparr>)) }
      | _ \<Rightarrow> skip)"

definition applyMove :: "side \<Rightarrow> side \<Rightarrow> Gen1MoveData \<Rightarrow> unit eng" where
  "applyMove s t mv = do {
     h \<leftarrow> connects s t mv;
     if \<not> h then skip
     else do {
       when_ok (meffect mv = EFF_PAY_DAY) (emit ''Coins scattered everywhere!'' None None);
       f \<leftarrow> flinchStop s;
       if f then skip
       else do {
         go \<leftarrow> damageBlock s t mv;
         if \<not> go then skip
         else do {
           fixedDamage s t mv;
           secondaryEffect s t mv;
           when_ok (mpower mv = 0 \<and> meffect mv = EFF_NONE) (emit ''But nothing happened!'' None None);
           sayIfFainted t
         }
       }
     }
   }"

end
