(* ===== verification/BattleTurn.thy ===== *)
theory BattleTurn
  imports BattleMoves
begin

text \<open>
  The rest of \<open>useMove\<close>, switching, the end of a turn, \<open>executeTurn\<close>, replacement of a fainted
  monster, forfeit and the CPU's choice (\<^verbatim>\<open>Gen1BattleEngine.cpp\<close>, lines 562 to 697, 974 to
  1112 and 1199 to 1232).
\<close>

subsection \<open>Phases of useMove after the move fired\<close>

definition thrashEnd :: "side \<Rightarrow> Gen1MoveData \<Rightarrow> unit eng" where
  "thrashEnd s mv = do {
     u \<leftarrow> mon s;
     if meffect mv = EFF_THRASH \<and> thrashSlot u \<noteq> 255 then do {
       updMon s (\<lambda>m. m\<lparr>thrashTurns := thrashTurns m - 1\<rparr>);
       u \<leftarrow> mon s;
       when_ok (thrashTurns u = 0) (do {
         updMon s (\<lambda>m. m\<lparr>thrashSlot := 255\<rparr>);
         when_ok (confuseTurns u = 0) (do {
           r \<leftarrow> rand32;
           updMon s (\<lambda>m. m\<lparr>confuseTurns := 2 + r mod 4\<rparr>);
           say ''[POKEMON] became confused!'' s }) })
     } else skip
   }"

definition counterHit :: "side \<Rightarrow> Gen1MoveData \<Rightarrow> unit eng" where
  "counterHit s mv = do {
     u \<leftarrow> mon s;
     when_ok (meffect mv = EFF_COUNTER \<and> lastDamageTaken u > 0) (do {
       updMon s (\<lambda>m. m\<lparr>lastDamageTaken := 0\<rparr>);
       updMon (other s) (loseHp (u16 (lastDamageTaken u * 2)));
       say ''[POKEMON] returned the hit!'' s;
       sayIfFainted (other s) })
   }"

definition substituteUp :: "side \<Rightarrow> Gen1MoveData \<Rightarrow> unit eng" where
  "substituteUp s mv = do {
     u \<leftarrow> mon s;
     when_ok (meffect mv = EFF_SUBSTITUTE \<and> substituteHp u = 0) (do {
       let cost = (if maxHp u div 4 = 0 then 1 else maxHp u div 4);
       if hp u > cost then do {
         updMon s (\<lambda>m. m\<lparr>hp := hp m - cost, substituteHp := cost\<rparr>);
         say ''[POKEMON] made a substitute!'' s
       } else say ''[POKEMON] is too weak for a substitute!'' s })
   }"

definition disableTarget :: "side \<Rightarrow> Gen1MoveData \<Rightarrow> unit eng" where
  "disableTarget s mv = do {
     t \<leftarrow> mon (other s);
     let valid = filter (\<lambda>i. moves t ! i \<noteq> 0 \<and> pp t ! i > 0) [0..<4];
     when_ok (meffect mv = EFF_DISABLE \<and> valid \<noteq> []) (do {
       a \<leftarrow> rand32;
       b \<leftarrow> rand32;
       updMon (other s) (\<lambda>m. m\<lparr>disabledSlot := valid ! (a mod length valid), disabledTurns := 4 + b mod 4\<rparr>);
       say (''[POKEMON]'' @ CHR 0x27 # ''s move was disabled!'') (other s) })
   }"

definition metronome :: "side \<Rightarrow> Gen1MoveData \<Rightarrow> unit eng" where
  "metronome s mv =
     when_ok (meffect mv = EFF_METRONOME) (do {
       r \<leftarrow> rand32;
       g3 \<leftarrow> gets isGen3;
       (case mdata g3 (1 + r mod 165) of
          None \<Rightarrow> skip
        | Some picked \<Rightarrow>
            when_ok (meffect picked \<noteq> EFF_METRONOME) (do {
              emit ''Metronome rolled [MOVE]!'' None (Some (mname picked));
              applyMove s (other s) picked })) })"

definition mimicMove :: "side \<Rightarrow> nat \<Rightarrow> Gen1MoveData \<Rightarrow> unit eng" where
  "mimicMove s slot mv = do {
     u \<leftarrow> mon s;
     t \<leftarrow> mon (other s);
     g3 \<leftarrow> gets isGen3;
     when_ok (meffect mv = EFF_MIMIC \<and> mimicSlot u = 255 \<and> lastMoveIdx t < 4 \<and>
              moves t ! lastMoveIdx t \<noteq> 0) (do {
       updMon s (\<lambda>m. m\<lparr>mimicSlot := slot, mimicOrigMove := moves m ! slot, mimicOrigPp := pp m ! slot,
                        moves := (moves m)[slot := moves t ! lastMoveIdx t],
                        pp := (pp m)[slot := 5]\<rparr>);
       emit ''[POKEMON] copied [MOVE]!'' (Some (nickname u))
         (Some (case mdata g3 (moves t ! lastMoveIdx t) of Some c \<Rightarrow> mname c | None \<Rightarrow> ''?'')) })
   }"

definition transformMon :: "side \<Rightarrow> Gen1MoveData \<Rightarrow> unit eng" where
  "transformMon s mv = do {
     u \<leftarrow> mon s;
     t \<leftarrow> mon (other s);
     when_ok (meffect mv = EFF_TRANSFORM \<and> \<not> transformed u) (do {
       updMon s (\<lambda>m. m\<lparr>transformed := True, origSpecies := species m, origType1 := type1 m,
         origType2 := type2 m, origAtk := atk m, origDef := dfn m, origSpd := spd m,
         origSpc := spc m, origMoves := moves m, origPp := pp m,
         species := species t, type1 := type1 t, type2 := type2 t, atk := atk t, dfn := dfn t,
         spd := spd t, spc := spc t, moves := moves t, pp := [5, 5, 5, 5]\<rparr>);
       say ''[POKEMON] transformed!'' s })
   }"

text \<open>Everything after PP is spent (lines 566 to 697).\<close>

definition fireMove :: "side \<Rightarrow> bool \<Rightarrow> nat \<Rightarrow> Gen1MoveData \<Rightarrow> unit eng" where
  "fireMove s struggle slot mv = do {
     sayMove ''[POKEMON] used [MOVE]!'' s mv;
     c \<leftarrow> chargeStart s struggle slot mv;
     if c then skip
     else do {
       b \<leftarrow> bideStart s struggle mv;
       if b then skip
       else do {
         thrashStart s struggle slot mv;
         applyMove s (other s) mv;
         thrashEnd s mv;
         counterHit s mv;
         substituteUp s mv;
         disableTarget s mv;
         metronome s mv;
         mimicMove s slot mv;
         transformMon s mv
       }
     }
   }"

definition useMove :: "side \<Rightarrow> nat \<Rightarrow> unit eng" where
  "useMove s moveSlot = do {
     u \<leftarrow> mon s;
     g3 \<leftarrow> gets isGen3;
     let struggle = (moveSlot = 0xFE);
     case selectMove g3 u moveSlot of
       None \<Rightarrow> skip
     | Some mv0 \<Rightarrow> do {
         go \<leftarrow> preMoveChecks s;
         if \<not> go then skip
         else do {
           f \<leftarrow> forcedSlot s struggle moveSlot mv0;
           (case f of
              None \<Rightarrow> skip
            | Some sm \<Rightarrow> do {
                b \<leftarrow> bideTurn s struggle;
                if b then skip
                else do {
                  d \<leftarrow> disabledCheck s struggle (fst sm);
                  if d then skip
                  else do {
                    spendPp s struggle (fst sm);
                    fireMove s struggle (fst sm) (snd sm)
                  }
                }
              })
         }
       }
   }"

subsection \<open>Switching\<close>

definition clearCounters :: "BattlePoke \<Rightarrow> BattlePoke" where
  "clearCounters m = (clearBoosts m)\<lparr>confuseTurns := 0, mustRecharge := False, thrashing := False,
     thrashTurns := 0, disabledSlot := 255, disabledTurns := 0, flinched := False,
     chargingSlot := 255, trapTurns := 0, thrashSlot := 255, bideTurns := 0, bideDamage := 0,
     rageActive := False, substituteHp := 0, lastDamageTaken := 0\<rparr>"

definition restoreMimic :: "BattlePoke \<Rightarrow> BattlePoke" where
  "restoreMimic m =
     (if mimicSlot m < 4 then
        m\<lparr>moves := (moves m)[mimicSlot m := mimicOrigMove m], pp := (pp m)[mimicSlot m := mimicOrigPp m],
          mimicSlot := 255, mimicOrigMove := 0, mimicOrigPp := 0\<rparr>
      else m)"

definition restoreTransform :: "BattlePoke \<Rightarrow> BattlePoke" where
  "restoreTransform m =
     (if transformed m then
        m\<lparr>species := origSpecies m, type1 := origType1 m, type2 := origType2 m, atk := origAtk m,
          dfn := origDef m, spd := origSpd m, spc := origSpc m, moves := origMoves m,
          pp := origPp m, transformed := False\<rparr>
      else m)"

definition clearVolatile :: "BattlePoke \<Rightarrow> BattlePoke" where
  "clearVolatile m = restoreTransform (restoreMimic (clearCounters m))"

definition switchTo :: "side \<Rightarrow> nat \<Rightarrow> unit eng" where
  "switchTo s idx = do {
     say ''Come back, [POKEMON]!'' s;
     updMon s clearVolatile;
     updParty s (\<lambda>p. p\<lparr>active := idx\<rparr>);
     say ''Go! [POKEMON]!'' s
   }"

definition stepAction :: "side \<Rightarrow> unit eng" where
  "stepAction s = do {
     res \<leftarrow> gets result;
     m \<leftarrow> mon s;
     if res \<noteq> ONGOING \<or> hp m = 0 then skip
     else do {
       act \<leftarrow> gets (\<lambda>e. pendAction e s);
       idx \<leftarrow> gets (\<lambda>e. pendIndex e s);
       bp \<leftarrow> party s;
       if act = 1 then
         (if pcount bp \<le> idx \<or> idx = active bp \<or> hp (mons bp ! idx) = 0 then skip
          else switchTo s idx)
       else if act = 0 then useMove s idx
       else skip
     }
   }"

subsection \<open>End of turn\<close>

definition residual :: "nat \<Rightarrow> BattlePoke \<Rightarrow> BattlePoke" where
  "residual k m = loseHp (if maxHp m div k = 0 then 1 else maxHp m div k) m"

definition screenTick :: "BattleParty \<Rightarrow> BattleParty" where
  "screenTick p =
     p\<lparr>lightScreenTurns := lightScreenTurns p - 1,
       lightScreen := (if lightScreenTurns p = 1 then False else lightScreen p),
       reflectTurns := reflectTurns p - 1,
       reflect := (if reflectTurns p = 1 then False else reflect p)\<rparr>"

definition applyEndOfTurn :: "side \<Rightarrow> unit eng" where
  "applyEndOfTurn s = do {
     m \<leftarrow> mon s;
     if hp m = 0 then skip
     else do {
       when_ok (has_status (status m) ST_PSN)
         (do { updMon s (residual 8); say ''[POKEMON] is hurt by poison!'' s });
       when_ok (has_status (status m) ST_BRN)
         (do { updMon s (residual 8); say ''[POKEMON] is hurt by its burn!'' s });
       when_ok (trapTurns m > 0)
         (do { updMon s (residual 16);
               say ''[POKEMON] is hurt by trap!'' s;
               updMon s (\<lambda>m. m\<lparr>trapTurns := trapTurns m - 1\<rparr>) });
       sayIfFainted s;
       updParty s screenTick
     }
   }"

subsection \<open>Turns\<close>

definition alive :: "BattleParty \<Rightarrow> bool" where
  "alive p = list_ex (\<lambda>m. hp m > 0) (take (pcount p) (mons p))"

definition outcome :: "bool \<Rightarrow> bool \<Rightarrow> Result \<Rightarrow> Result" where
  "outcome a0 a1 r = (if \<not> a0 \<and> \<not> a1 then DRAW else if \<not> a0 then P2_WIN else if \<not> a1 then P1_WIN else r)"

definition endTurn :: "unit eng" where
  "endTurn = modify (\<lambda>e. e\<lparr>pendAction := (\<lambda>_. 255), turn := u16 (turn e + 1),
     result := outcome (alive (parties e S0)) (alive (parties e S1)) (result e)\<rparr>)"

definition executeTurn :: "unit eng" where
  "executeTurn = do {
     res \<leftarrow> gets result;
     a0 \<leftarrow> gets (\<lambda>e. pendAction e S0);
     a1 \<leftarrow> gets (\<lambda>e. pendAction e S1);
     if res \<noteq> ONGOING \<or> a0 = 255 \<or> a1 = 255 then skip
     else do {
       firstIs0 \<leftarrow> pokeActsFirst S0 a0 a1;
       let f = (if firstIs0 then S0 else S1);
       stepAction f;
       stepAction (other f);
       applyEndOfTurn f;
       applyEndOfTurn (other f);
       endTurn
     }
   }"

definition autoReplaceIfFainted :: "side \<Rightarrow> bool eng" where
  "autoReplaceIfFainted s = do {
     bp \<leftarrow> party s;
     m \<leftarrow> mon s;
     if hp m > 0 then State_Monad.return True
     else (case find (\<lambda>i. hp (mons bp ! i) > 0) [0..<pcount bp] of
             None \<Rightarrow> State_Monad.return False
           | Some i \<Rightarrow> do {
               updMon s clearVolatile;
               updParty s (\<lambda>p. p\<lparr>active := i\<rparr>);
               say ''Go! [POKEMON]!'' s;
               State_Monad.return True })
   }"

definition forfeit :: "nat \<Rightarrow> unit eng" where
  "forfeit sd = do {
     say ''[POKEMON] forfeited the match.'' (side_of sd);
     modify (\<lambda>e. e\<lparr>result := (if side_of sd = S0 then P2_WIN else P1_WIN)\<rparr>)
   }"

subsection \<open>The CPU's choice\<close>

definition moveScore :: "bool \<Rightarrow> BattlePoke \<Rightarrow> BattlePoke \<Rightarrow> Gen1MoveData \<Rightarrow> int" where
  "moveScore g3 m foe mv =
     (let sc = int (mpower mv);
          sc = (if mtype mv = type1 m \<or> mtype mv = type2 m then sc * 3 div 2 else sc);
          sc = sc * int (eff1 g3 mv foe) * int (eff2 g3 mv foe) div 4
      in if mpower mv = 0 \<and> status foe = ST_NONE then 30 else sc)"

text \<open>The scan over the four slots keeps the first best score; it starts at slot 0 with score -1.\<close>

fun bestMove :: "bool \<Rightarrow> BattlePoke \<Rightarrow> BattlePoke \<Rightarrow> nat list \<Rightarrow> nat \<times> int \<Rightarrow> nat \<times> int" where
  "bestMove g3 m foe [] best = best"
| "bestMove g3 m foe (i # is) best =
     bestMove g3 m foe is
       (if moves m ! i = 0 \<or> pp m ! i = 0 then best
        else case mdata g3 (moves m ! i) of
               None \<Rightarrow> best
             | Some mv \<Rightarrow> (if moveScore g3 m foe mv > snd best then (i, moveScore g3 m foe mv) else best))"

definition cpuPickAction :: "nat \<Rightarrow> Engine \<Rightarrow> nat \<times> nat" where
  "cpuPickAction sd e =
     (let s = side_of sd; bp = parties e s; m = activeMon e s; foe = activeMon e (other s) in
      if hp m = 0 then
        (1, case find (\<lambda>i. hp (mons bp ! i) > 0) [0..<pcount bp] of Some i \<Rightarrow> i | None \<Rightarrow> 0)
      else (let best = bestMove (isGen3 e) m foe [0..<4] (0, - 1)
            in (0, if snd best < 0 then 0xFE else fst best)))"

end
