(* ===== verification/BattleHash.thy ===== *)
theory BattleHash
  imports BattleTurn
begin

text \<open>
  The state hash exchanged by two peers (\<^verbatim>\<open>Gen1BattleEngine.cpp\<close>, lines 1114 to 1197): FNV-1a
  over the bytes of each side, over the turn counter and the generator, the three joined by XOR.
  Multi-byte fields are in memory order of the little-endian target.
\<close>

definition FNV_OFFSET :: "64 word" where "FNV_OFFSET = 1469598103934665603"

definition FNV_PRIME :: "64 word" where "FNV_PRIME = 1099511628211"

definition mixByte :: "64 word \<Rightarrow> nat \<Rightarrow> 64 word" where
  "mixByte h b = (h XOR of_nat (u8 b)) * FNV_PRIME"

definition fnv :: "nat list \<Rightarrow> 64 word" where
  "fnv bs = foldl mixByte FNV_OFFSET bs"

definition le16 :: "nat \<Rightarrow> nat list" where
  "le16 v = [v mod 256, v div 256 mod 256]"

definition le32 :: "32 word \<Rightarrow> nat list" where
  "le32 w = (let v = unat w in [v mod 256, v div 256 mod 256, v div 65536 mod 256, v div 16777216 mod 256])"

definition boolByte :: "bool \<Rightarrow> nat" where "boolByte b = (if b then 1 else 0)"

text \<open>\<open>int8_t\<close> as the byte of its two's complement.\<close>

definition int8Byte :: "int \<Rightarrow> nat" where "int8Byte i = nat (i mod 256)"

definition flagByte :: "BattlePoke \<Rightarrow> nat" where
  "flagByte m = boolByte (mustRecharge m) + 2 * boolByte (thrashing m) + 4 * boolByte (flinched m)
     + 8 * boolByte (rageActive m) + 16 * boolByte (transformed m)"

definition monBytes :: "BattlePoke \<Rightarrow> nat list" where
  "monBytes m =
     [species m, level m, type1 m, type2 m] @ le16 (maxHp m) @ le16 (atk m) @ le16 (dfn m)
     @ le16 (spd m) @ le16 (spc m) @ moves m @ le16 (hp m)
     @ [status m, sleepTurns m, confuseTurns m]
     @ map int8Byte [atkBoost m, defBoost m, spdBoost m, spcBoost m, accBoost m, evaBoost m]
     @ [toxicCounter m, flagByte m, thrashTurns m, lastMoveIdx m, disabledSlot m, disabledTurns m,
        chargingSlot m, trapTurns m, thrashSlot m]
     @ le16 (bideTurns m) @ le16 (bideDamage m) @ le16 (substituteHp m) @ le16 (lastDamageTaken m)
     @ [mimicSlot m, mimicOrigMove m, mimicOrigPp m] @ pp m"

definition sideBytes :: "BattleParty \<Rightarrow> nat list" where
  "sideBytes p =
     [active p, boolByte (reflect p), boolByte (lightScreen p), boolByte (mist p),
      boolByte (focused p), reflectTurns p, lightScreenTurns p]
     @ concat (map monBytes (take (pcount p) (mons p)))"

definition turnBytes :: "Engine \<Rightarrow> nat list" where
  "turnBytes e = le16 (turn e) @ le32 (xs0 e) @ le32 (xs1 e) @ le32 (xs2 e) @ le32 (xs3 e) @ le32 (rngSeed e)"

definition stateHash :: "Engine \<Rightarrow> 64 word" where
  "stateHash e = fnv (turnBytes e) XOR fnv (sideBytes (parties e S0)) XOR fnv (sideBytes (parties e S1))"

definition hashState :: "Engine \<Rightarrow> byte list" where
  "hashState e = map (\<lambda>i. ucast (drop_bit (i * 8) (stateHash e))) [0..<8]"

lemma length_hashState: "length (hashState e) = 8"
  by (simp add: hashState_def)

text \<open>One step of FNV-1a is injective in the running hash (the prime is odd) and in the byte.\<close>

lemma fnv_prime_inverse: "FNV_PRIME * 14886173955864302971 = 1"
  by (simp add: FNV_PRIME_def)

lemma mixByte_inject: "mixByte h b = mixByte h' b \<longleftrightarrow> h = h'"
proof
  assume "mixByte h b = mixByte h' b"
  then have "mixByte h b * 14886173955864302971 = mixByte h' b * 14886173955864302971" by simp
  then have "h XOR of_nat (u8 b) = h' XOR of_nat (u8 b)"
    by (simp only: mixByte_def mult.assoc fnv_prime_inverse mult_1_right)
  then have "(h XOR of_nat (u8 b)) XOR of_nat (u8 b) = (h' XOR of_nat (u8 b)) XOR of_nat (u8 b)"
    by simp
  then show "h = h'" by (simp only: xor.assoc xor_self_eq xor.right_neutral)
qed simp

lemma mixByte_inject_byte:
  assumes "b < 256" "c < 256" "mixByte h b = mixByte h c"
  shows "b = c"
proof -
  from assms(3) have "mixByte h b * 14886173955864302971 = mixByte h c * 14886173955864302971" by simp
  then have "h XOR of_nat (u8 b) = h XOR of_nat (u8 c)"
    by (simp only: mixByte_def mult.assoc fnv_prime_inverse mult_1_right)
  then have "h XOR (h XOR of_nat (u8 b)) = h XOR (h XOR of_nat (u8 c))" by simp
  then have "(of_nat (u8 b) :: 64 word) = of_nat (u8 c)"
    by (simp only: xor.assoc [symmetric] xor_self_eq xor.left_neutral)
  then show ?thesis using assms(1,2) by (simp add: word_of_nat_eq_iff take_bit_eq_mod)
qed

lemma foldl_mixByte_inject: "foldl mixByte h bs = foldl mixByte h' bs \<longleftrightarrow> h = h'"
  by (induction bs arbitrary: h h') (simp_all add: mixByte_inject)

text \<open>Two byte strings of one length that differ in a single byte have different hashes.\<close>

lemma fnv_single_byte:
  assumes "b < 256" "c < 256" "b \<noteq> c"
  shows "fnv (xs @ b # ys) \<noteq> fnv (xs @ c # ys)"
  using mixByte_inject_byte [OF assms(1,2)] assms(3)
  by (auto simp: fnv_def foldl_mixByte_inject)

end
