(* ===== verification/BattleSync.thy ===== *)
theory BattleSync
  imports BattleHash
begin

text \<open>
  Two peers of a networked battle run the same engine with the sides exchanged: each is side 0 of
  its own object.  \<open>swapE\<close> is that exchange; every operation of the engine commutes with it, so the
  two objects stay each other's image, with one exception: the coin flip of a speed tie.
\<close>

fun swapResult :: "Result \<Rightarrow> Result" where
  "swapResult P1_WIN = P2_WIN"
| "swapResult P2_WIN = P1_WIN"
| "swapResult r = r"

definition swapE :: "Engine \<Rightarrow> Engine" where
  "swapE e = e\<lparr>parties := parties e \<circ> other, pendAction := pendAction e \<circ> other,
     pendIndex := pendIndex e \<circ> other, result := swapResult (result e)\<rparr>"

abbreviation peer :: "'a eng \<Rightarrow> 'a eng \<Rightarrow> bool" where
  "peer m m' \<equiv> mirror swapE m m'"

lemma swapResult_swapResult [simp]: "swapResult (swapResult r) = r" by (cases r) simp_all

lemma swapResult_ONGOING [simp]: "swapResult r = ONGOING \<longleftrightarrow> r = ONGOING" by (cases r) simp_all

lemma swapE_sel [simp]:
  "parties (swapE e) = parties e \<circ> other" "pendAction (swapE e) = pendAction e \<circ> other"
  "pendIndex (swapE e) = pendIndex e \<circ> other" "result (swapE e) = swapResult (result e)"
  "rngSeed (swapE e) = rngSeed e" "turn (swapE e) = turn e" "gen (swapE e) = gen e"
  "xs0 (swapE e) = xs0 e" "xs1 (swapE e) = xs1 e" "xs2 (swapE e) = xs2 e" "xs3 (swapE e) = xs3 e"
  "logOn (swapE e) = logOn e" "elog (swapE e) = elog e" "fault (swapE e) = fault e"
  by (simp_all add: swapE_def)

lemma swapE_swapE [simp]: "swapE (swapE e) = e"
  by (simp add: swapE_def comp_def)

lemma fun_upd_comp_other: "(f(s := x)) \<circ> other = (f \<circ> other)(other s := x)"
  by (rule ext) (auto simp: other_eq_iff)

lemma activeMon_swapE [simp]: "activeMon (swapE e) s = activeMon e (other s)"
  by (simp add: activeMon_def)

lemma isGen3_swapE [simp]: "isGen3 (swapE e) = isGen3 e"
  by (simp add: isGen3_def)

lemma onParty_swapE: "onParty (other s) f (swapE e) = swapE (onParty s f e)"
  by (simp add: onParty_def swapE_def fun_upd_comp_other)

subsection \<open>The primitive operations\<close>

lemma peer_mon [mirror_intros]: "peer (mon s) (mon (other s))"
  unfolding mon_def by (rule mirror_gets) simp

lemma peer_party [mirror_intros]: "peer (party s) (party (other s))"
  unfolding party_def by (rule mirror_gets) simp

lemma peer_updMon [mirror_intros]: "peer (updMon s f) (updMon (other s) f)"
  unfolding updMon_def by (rule mirror_modify) (simp add: onParty_swapE)

lemma peer_updParty [mirror_intros]: "peer (updParty s f) (updParty (other s) f)"
  unfolding updParty_def by (rule mirror_modify) (simp add: onParty_swapE)

lemma peer_isGen3 [mirror_intros]: "peer (gets isGen3) (gets isGen3)"
  by (rule mirror_gets) simp

lemma peer_logOn [mirror_intros]: "peer (gets logOn) (gets logOn)"
  by (rule mirror_gets) simp

lemma peer_rand32 [mirror_intros]: "peer rand32 rand32"
  by (simp add: mirror_def rand32_def nextRng_def Let_def swapE_def)

lemma peer_trap [mirror_intros]: "peer trap trap"
  unfolding trap_def by (rule mirror_modify) (simp add: swapE_def)

lemma peer_emit [mirror_intros]: "peer (emit tmpl p m) (emit tmpl p m)"
  unfolding emit_def by (rule mirror_modify) (simp add: swapE_def)

lemma peer_rawLog [mirror_intros]: "peer (rawLog msg) (rawLog msg)"
  unfolding rawLog_def by (rule mirror_modify) (simp add: swapE_def)

subsection \<open>Every phase\<close>

lemma peer_percent [mirror_intros]: "peer (percent p) (percent p)"
  unfolding percent_def by (intro mirror_intros)

lemma peer_roll [mirror_intros]: "peer (roll p) (roll p)"
  unfolding roll_def by (intro mirror_intros)

lemma peer_say [mirror_intros]: "peer (say t s) (say t (other s))"
  unfolding say_def by (intro mirror_intros)

lemma peer_sayMove [mirror_intros]: "peer (sayMove t s mv) (sayMove t (other s) mv)"
  unfolding sayMove_def by (intro mirror_intros)

lemma peer_sayIfFainted [mirror_intros]: "peer (sayIfFainted s) (sayIfFainted (other s))"
  unfolding sayIfFainted_def by (intro mirror_intros)

lemma peer_emitStatChange [mirror_intros]: "peer (emitStatChange s st d) (emitStatChange (other s) st d)"
  unfolding emitStatChange_def by (intro mirror_intros)

lemma peer_rollHit [mirror_intros]: "peer (rollHit s t mv) (rollHit (other s) (other t) mv)"
  unfolding rollHit_def by (intro mirror_intros)

lemma peer_calcDamage [mirror_intros]: "peer (calcDamage s t mv) (calcDamage (other s) (other t) mv)"
  unfolding calcDamage_def by (intro mirror_intros)

lemma peer_preMoveChecks [mirror_intros]: "peer (preMoveChecks s) (preMoveChecks (other s))"
  unfolding preMoveChecks_def sleepCheck_def parCheck_def confusionCheck_def
  by (intro mirror_intros)

lemma peer_forcedSlot [mirror_intros]:
  "peer (forcedSlot s str slot mv) (forcedSlot (other s) str slot mv)"
  unfolding forcedSlot_def by (intro mirror_intros)

lemma peer_bideTurn [mirror_intros]: "peer (bideTurn s str) (bideTurn (other s) str)"
  unfolding bideTurn_def by (intro mirror_intros)

lemma peer_disabledCheck [mirror_intros]:
  "peer (disabledCheck s str slot) (disabledCheck (other s) str slot)"
  unfolding disabledCheck_def by (intro mirror_intros)

lemma peer_spendPp [mirror_intros]: "peer (spendPp s str slot) (spendPp (other s) str slot)"
  unfolding spendPp_def by (intro mirror_intros)

lemma peer_starts [mirror_intros]:
  "peer (chargeStart s str slot mv) (chargeStart (other s) str slot mv)"
  "peer (bideStart s str mv) (bideStart (other s) str mv)"
  "peer (thrashStart s str slot mv) (thrashStart (other s) str slot mv)"
  unfolding chargeStart_def bideStart_def thrashStart_def by (intro mirror_intros)+

lemma peer_connects [mirror_intros]: "peer (connects s t mv) (connects (other s) (other t) mv)"
  unfolding connects_def by (intro mirror_intros)

lemma peer_flinchStop [mirror_intros]: "peer (flinchStop s) (flinchStop (other s))"
  unfolding flinchStop_def by (intro mirror_intros)

lemma peer_hitCount [mirror_intros]: "peer (hitCount e) (hitCount e)"
  unfolding hitCount_def by (intro mirror_intros)

lemma peer_hitMessages [mirror_intros]: "peer (hitMessages c e h) (hitMessages c e h)"
  unfolding hitMessages_def by (intro mirror_intros)

lemma peer_afterHit [mirror_intros]: "peer (afterHit s t mv d) (afterHit (other s) (other t) mv d)"
  unfolding afterHit_def by (intro mirror_intros)

lemma peer_damageBlock [mirror_intros]: "peer (damageBlock s t mv) (damageBlock (other s) (other t) mv)"
  unfolding damageBlock_def by (intro mirror_intros)

lemma peer_fixedDamage [mirror_intros]: "peer (fixedDamage s t mv) (fixedDamage (other s) (other t) mv)"
  unfolding fixedDamage_def by (cases "meffect mv"; simp only: Gen1MoveEffect.case; intro mirror_intros)

lemma peer_statuses [mirror_intros]:
  "peer (inflict t c st msg) (inflict (other t) c st msg)"
  "peer (inflictSleep t c) (inflictSleep (other t) c)"
  "peer (confuse t c) (confuse (other t) c)"
  "peer (hazeSide t) (hazeSide (other t))"
  unfolding inflict_def inflictSleep_def confuse_def hazeSide_def by (intro mirror_intros)+

lemma peer_secondaryEffect [mirror_intros]:
  "peer (secondaryEffect s t mv) (secondaryEffect (other s) (other t) mv)"
  unfolding secondaryEffect_def
  by (cases "meffect mv"; simp only: Gen1MoveEffect.case; intro mirror_intros)

lemma peer_applyMove [mirror_intros]: "peer (applyMove s t mv) (applyMove (other s) (other t) mv)"
  unfolding applyMove_def by (intro mirror_intros)

lemma peer_after [mirror_intros]:
  "peer (thrashEnd s mv) (thrashEnd (other s) mv)"
  "peer (counterHit s mv) (counterHit (other s) mv)"
  "peer (substituteUp s mv) (substituteUp (other s) mv)"
  "peer (disableTarget s mv) (disableTarget (other s) mv)"
  "peer (metronome s mv) (metronome (other s) mv)"
  "peer (mimicMove s slot mv) (mimicMove (other s) slot mv)"
  "peer (transformMon s mv) (transformMon (other s) mv)"
  unfolding thrashEnd_def counterHit_def substituteUp_def disableTarget_def metronome_def
    mimicMove_def transformMon_def
  by (intro mirror_intros)+

lemma peer_fireMove [mirror_intros]:
  "peer (fireMove s str slot mv) (fireMove (other s) str slot mv)"
  unfolding fireMove_def by (intro mirror_intros)

lemma peer_useMove [mirror_intros]: "peer (useMove s slot) (useMove (other s) slot)"
  unfolding useMove_def by (intro mirror_intros)

lemma peer_switchTo [mirror_intros]: "peer (switchTo s i) (switchTo (other s) i)"
  unfolding switchTo_def by (intro mirror_intros)

lemma peer_pend [mirror_intros]:
  "peer (gets (\<lambda>e. pendAction e s)) (gets (\<lambda>e. pendAction e (other s)))"
  "peer (gets (\<lambda>e. pendIndex e s)) (gets (\<lambda>e. pendIndex e (other s)))"
  by (rule mirror_gets, simp)+

lemma peer_ongoing:
  assumes "peer m m'" "peer n n'"
  shows "peer (do { r \<leftarrow> gets result; x \<leftarrow> mon s; if r \<noteq> ONGOING \<or> hp x = 0 then m else n })
              (do { r \<leftarrow> gets result; x \<leftarrow> mon (other s); if r \<noteq> ONGOING \<or> hp x = 0 then m' else n' })"
  using assms by (simp add: mirror_def mon_def)

lemma peer_stepAction [mirror_intros]: "peer (stepAction s) (stepAction (other s))"
  unfolding stepAction_def by (rule peer_ongoing; intro mirror_intros)

lemma peer_applyEndOfTurn [mirror_intros]: "peer (applyEndOfTurn s) (applyEndOfTurn (other s))"
  unfolding applyEndOfTurn_def by (intro mirror_intros)

lemma outcome_swap: "outcome a1 a0 (swapResult r) = swapResult (outcome a0 a1 r)"
  by (simp add: outcome_def)

lemma peer_endTurn [mirror_intros]: "peer endTurn endTurn"
  unfolding endTurn_def by (rule mirror_modify) (simp add: swapE_def outcome_swap comp_def)

lemma peer_autoReplace [mirror_intros]:
  "peer (autoReplaceIfFainted s) (autoReplaceIfFainted (other s))"
  unfolding autoReplaceIfFainted_def by (intro mirror_intros)

subsection \<open>Turns\<close>

definition speedTie :: "Engine \<Rightarrow> bool" where
  "speedTie e \<longleftrightarrow> actionPriority e S0 (pendAction e S0) = actionPriority e S1 (pendAction e S1) \<and>
     battleSpeed (activeMon e S0) = battleSpeed (activeMon e S1)"

lemma actionPriority_swapE: "actionPriority (swapE e) s a = actionPriority e (other s) a"
  by (simp add: actionPriority_def)

lemma speedTie_swapE [simp]: "speedTie (swapE e) = speedTie e"
  by (auto simp: speedTie_def actionPriority_swapE)

lemma pokeActsFirst_no_tie:
  assumes "\<not> speedTie e"
  shows "\<exists>b. run_state (pokeActsFirst S0 (pendAction e S0) (pendAction e S1)) e = (b, e) \<and>
    run_state (pokeActsFirst S0 (pendAction e S1) (pendAction e S0)) (swapE e) = (\<not> b, swapE e)"
proof (cases "actionPriority e S0 (pendAction e S0) = actionPriority e S1 (pendAction e S1)")
  case True
  with assms have "battleSpeed (activeMon e S0) \<noteq> battleSpeed (activeMon e S1)"
    by (simp add: speedTie_def)
  with True show ?thesis
    by (simp add: pokeActsFirst_def actionPriority_swapE mon_def) linarith
next
  case False
  then show ?thesis
    by (simp add: pokeActsFirst_def actionPriority_swapE) linarith
qed

text \<open>The part of a turn after the order is known.\<close>

definition turnBody :: "side \<Rightarrow> unit eng" where
  "turnBody f = do {
     stepAction f; stepAction (other f); applyEndOfTurn f; applyEndOfTurn (other f); endTurn }"

lemma peer_turnBody: "peer (turnBody f) (turnBody (other f))"
  unfolding turnBody_def by (intro mirror_intros)

lemma run_executeTurn:
  "run_state executeTurn e =
     (if result e \<noteq> ONGOING \<or> pendAction e S0 = 255 \<or> pendAction e S1 = 255 then ((), e)
      else (case run_state (pokeActsFirst S0 (pendAction e S0) (pendAction e S1)) e of
              (b, e') \<Rightarrow> run_state (turnBody (if b then S0 else S1)) e'))"
  by (simp add: executeTurn_def turnBody_def Let_def split: prod.splits)

lemma executeTurn_swapE:
  assumes "\<not> speedTie e"
  shows "run_state executeTurn (swapE e) = map_prod id swapE (run_state executeTurn e)"
proof -
  obtain b where b: "run_state (pokeActsFirst S0 (pendAction e S0) (pendAction e S1)) e = (b, e)"
    "run_state (pokeActsFirst S0 (pendAction e S1) (pendAction e S0)) (swapE e) = (\<not> b, swapE e)"
    using pokeActsFirst_no_tie [OF assms] by blast
  have body: "run_state (turnBody (other f)) (swapE e) = map_prod id swapE (run_state (turnBody f) e)" for f
    using peer_turnBody by (rule mirrorD)
  show ?thesis
  proof (cases "result e \<noteq> ONGOING \<or> pendAction e S0 = 255 \<or> pendAction e S1 = 255")
    case True
    then show ?thesis by (auto simp: run_executeTurn)
  next
    case False
    then show ?thesis using b body [of S0] body [of S1]
      by (cases b) (simp_all add: run_executeTurn)
  qed
qed

text \<open>The operations both peers perform, and the same operation seen from the other device.\<close>

datatype netOp = Submit side nat nat | Turn | Replace side

fun netStep :: "netOp \<Rightarrow> Engine \<Rightarrow> Engine" where
  "netStep (Submit s a i) e = snd (submitAction (case s of S0 \<Rightarrow> 0 | S1 \<Rightarrow> 1) a i e)"
| "netStep Turn e = snd (run_state executeTurn e)"
| "netStep (Replace s) e = snd (run_state (autoReplaceIfFainted s) e)"

fun swapOp :: "netOp \<Rightarrow> netOp" where
  "swapOp (Submit s a i) = Submit (other s) a i"
| "swapOp Turn = Turn"
| "swapOp (Replace s) = Replace (other s)"

fun tieFree :: "netOp list \<Rightarrow> Engine \<Rightarrow> bool" where
  "tieFree [] e \<longleftrightarrow> True"
| "tieFree (c # cs) e \<longleftrightarrow> (c = Turn \<longrightarrow> \<not> speedTie e) \<and> tieFree cs (netStep c e)"

lemma submit_swapE:
  "netStep (swapOp (Submit s a i)) (swapE e) = swapE (netStep (Submit s a i) e)"
  by (cases s)
    (simp_all add: submitAction_def side_of_def Let_def swapE_def fun_upd_comp_other)

lemma netStep_swapE:
  assumes "c = Turn \<Longrightarrow> \<not> speedTie e"
  shows "netStep (swapOp c) (swapE e) = swapE (netStep c e)"
proof (cases c)
  case (Submit s a i)
  then show ?thesis using submit_swapE by simp
next
  case Turn
  then show ?thesis using executeTurn_swapE assms by simp
next
  case (Replace s)
  then show ?thesis using mirrorD [OF peer_autoReplace] by simp
qed

lemma netRun_swapE:
  "tieFree cs e \<Longrightarrow> fold netStep (map swapOp cs) (swapE e) = swapE (fold netStep cs e)"
  by (induction cs arbitrary: e) (auto simp: netStep_swapE)

lemma turnBytes_swapE: "turnBytes (swapE e) = turnBytes e"
  by (simp add: turnBytes_def)

lemma stateHash_swapE: "stateHash (swapE e) = stateHash e"
  by (simp add: stateHash_def turnBytes_swapE xor.commute xor.left_commute xor.assoc)

lemma start_swapE: "start p2 p1 seed g (swapE e) = swapE (start p1 p2 seed g e)"
proof -
  have "(\<lambda>s. case s of S0 \<Rightarrow> initSide g p2 | S1 \<Rightarrow> initSide g p1)
      = (\<lambda>s. case s of S0 \<Rightarrow> initSide g p1 | S1 \<Rightarrow> initSide g p2) \<circ> other"
    by (rule ext) (auto split: side.splits elim: other.elims)
  then show ?thesis by (simp add: start_def seedRng_def Let_def swapE_def comp_def)
qed

text \<open>On a tie both devices draw the same bit, so each lets its own side 0 go first.\<close>

lemma pokeActsFirst_tie:
  assumes "speedTie e"
  shows "fst (run_state (pokeActsFirst S0 (pendAction e S1) (pendAction e S0)) (swapE e))
       = fst (run_state (pokeActsFirst S0 (pendAction e S0) (pendAction e S1)) e)"
  using assms mirrorD [OF peer_rand32, of e]
  by (auto simp: speedTie_def pokeActsFirst_def actionPriority_swapE mon_def split: prod.splits)

end
