(* ===== verification/BattleSafety.thy ===== *)
theory BattleSafety
  imports BattleSync
begin

text \<open>
  The invariant of the engine and its preservation by every operation: array lengths and indices,
  value ranges, stages within -6 to 6, and no fault.  It is stated for parties of one to six
  monsters of level 1 to 100 and a non-null log sink, the way the module runs the engine.
\<close>

subsection \<open>The invariant\<close>

definition stat_ok :: "nat \<Rightarrow> bool" where
  "stat_ok x \<longleftrightarrow> 5 \<le> x \<and> x \<le> 609"

definition slot_ok :: "nat \<Rightarrow> bool" where
  "slot_ok k \<longleftrightarrow> k < 4 \<or> k = 255"

definition stages_ok :: "BattlePoke \<Rightarrow> bool" where
  "stages_ok m \<longleftrightarrow> (\<forall>st. - 6 \<le> stage st m \<and> stage st m \<le> 6)"

definition mon_ok :: "bool \<Rightarrow> BattlePoke \<Rightarrow> bool" where
  "mon_ok g m \<longleftrightarrow>
     length (moves m) = 4 \<and> length (pp m) = 4 \<and> 1 \<le> level m \<and> level m \<le> 100 \<and>
     hp m < 65536 \<and> 10 \<le> maxHp m \<and> maxHp m \<le> 714 \<and>
     stat_ok (atk m) \<and> stat_ok (dfn m) \<and> stat_ok (spd m) \<and> stat_ok (spc m) \<and>
     (g \<longrightarrow> stat_ok (spaG3 m) \<and> stat_ok (spdG3 m)) \<and> stages_ok m \<and>
     slot_ok (chargingSlot m) \<and> slot_ok (thrashSlot m) \<and> slot_ok (mimicSlot m) \<and>
     bideDamage m < 65536 \<and> lastDamageTaken m < 65536 \<and>
     (transformed m \<longrightarrow> length (origMoves m) = 4 \<and> length (origPp m) = 4 \<and>
        stat_ok (origAtk m) \<and> stat_ok (origDef m) \<and> stat_ok (origSpd m) \<and> stat_ok (origSpc m))"

definition party_ok :: "bool \<Rightarrow> BattleParty \<Rightarrow> bool" where
  "party_ok g p \<longleftrightarrow> length (mons p) = 6 \<and> active p < pcount p \<and> pcount p \<le> 6 \<and>
     (\<forall>i < pcount p. mon_ok g (mons p ! i))"

definition safe :: "bool \<Rightarrow> Engine \<Rightarrow> bool" where
  "safe g e \<longleftrightarrow> isGen3 e = g \<and> (\<forall>s. party_ok g (parties e s)) \<and> logOn e \<and> \<not> fault e"

lemma party_ok_active: "party_ok g p \<Longrightarrow> mon_ok g (mons p ! active p)"
  by (simp add: party_ok_def)

lemma party_ok_setActive:
  assumes "party_ok g p" and "\<And>m. mon_ok g m \<Longrightarrow> mon_ok g (f m)"
  shows "party_ok g (setActive f p)"
  using assms by (auto simp: party_ok_def nth_upd_at)

lemma safe_active: "safe g e \<Longrightarrow> mon_ok g (activeMon e s)"
  by (simp add: safe_def activeMon_def party_ok_active)

lemma safe_onParty:
  assumes "safe g e" and "\<And>p. party_ok g p \<Longrightarrow> party_ok g (f p)"
  shows "safe g (onParty s f e)"
  using assms by (simp add: safe_def isGen3_def)

lemma stages_ok_setStage:
  "stages_ok m \<Longrightarrow> - 6 \<le> v \<Longrightarrow> v \<le> 6 \<Longrightarrow> stages_ok (setStage st v m)"
proof -
  have "stage st' (setStage st v m) = (if st = st' then v else stage st' m)" for st'
    by (cases st; cases st') simp_all
  then show "stages_ok m \<Longrightarrow> - 6 \<le> v \<Longrightarrow> v \<le> 6 \<Longrightarrow> stages_ok (setStage st v m)"
    by (simp add: stages_ok_def)
qed

lemma stages_ok_cong:
  "atkBoost m = atkBoost n \<Longrightarrow> defBoost m = defBoost n \<Longrightarrow> spdBoost m = spdBoost n \<Longrightarrow>
   spcBoost m = spcBoost n \<Longrightarrow> accBoost m = accBoost n \<Longrightarrow> evaBoost m = evaBoost n \<Longrightarrow>
   stages_ok m = stages_ok n"
proof -
  assume "atkBoost m = atkBoost n" "defBoost m = defBoost n" "spdBoost m = spdBoost n"
    "spcBoost m = spcBoost n" "accBoost m = accBoost n" "evaBoost m = evaBoost n"
  then have "stage st m = stage st n" for st by (cases st) simp_all
  then show ?thesis by (simp add: stages_ok_def)
qed

lemma stages_ok_iff:
  "stages_ok m \<longleftrightarrow> (- 6 \<le> atkBoost m \<and> atkBoost m \<le> 6) \<and> (- 6 \<le> defBoost m \<and> defBoost m \<le> 6) \<and>
     (- 6 \<le> spdBoost m \<and> spdBoost m \<le> 6) \<and> (- 6 \<le> spcBoost m \<and> spcBoost m \<le> 6) \<and>
     (- 6 \<le> accBoost m \<and> accBoost m \<le> 6) \<and> (- 6 \<le> evaBoost m \<and> evaBoost m \<le> 6)"
proof
  assume "stages_ok m"
  then have "- 6 \<le> stage st m \<and> stage st m \<le> 6" for st by (simp add: stages_ok_def)
  from this [of Attack] this [of Defense] this [of Speed] this [of Special] this [of Accuracy]
    this [of Evasion]
  show "(- 6 \<le> atkBoost m \<and> atkBoost m \<le> 6) \<and> (- 6 \<le> defBoost m \<and> defBoost m \<le> 6) \<and>
     (- 6 \<le> spdBoost m \<and> spdBoost m \<le> 6) \<and> (- 6 \<le> spcBoost m \<and> spcBoost m \<le> 6) \<and>
     (- 6 \<le> accBoost m \<and> accBoost m \<le> 6) \<and> (- 6 \<le> evaBoost m \<and> evaBoost m \<le> 6)"
    by simp
next
  assume *: "(- 6 \<le> atkBoost m \<and> atkBoost m \<le> 6) \<and> (- 6 \<le> defBoost m \<and> defBoost m \<le> 6) \<and>
     (- 6 \<le> spdBoost m \<and> spdBoost m \<le> 6) \<and> (- 6 \<le> spcBoost m \<and> spcBoost m \<le> 6) \<and>
     (- 6 \<le> accBoost m \<and> accBoost m \<le> 6) \<and> (- 6 \<le> evaBoost m \<and> evaBoost m \<le> 6)"
  have "- 6 \<le> stage st m \<and> stage st m \<le> 6" for st using * by (cases st) simp_all
  then show "stages_ok m" by (simp add: stages_ok_def)
qed

subsection \<open>Sequencing rules over the invariant\<close>

lemma keeps_any_bind:
  "preserves I m \<Longrightarrow> (\<And>x. keeps I (f x) S) \<Longrightarrow> keeps I (m \<bind> f) S"
  by (rule keeps_bind)

lemma keeps_mon_bind:
  "(\<And>x. mon_ok g x \<Longrightarrow> keeps (safe g) (f x) S) \<Longrightarrow> keeps (safe g) (mon s \<bind> f) S"
  unfolding mon_def
  by (rule keeps_bind [where R = "mon_ok g"]) (auto intro: keeps_gets safe_active)

lemma keeps_party_bind:
  "(\<And>x. party_ok g x \<Longrightarrow> keeps (safe g) (f x) S) \<Longrightarrow> keeps (safe g) (party s \<bind> f) S"
  unfolding party_def
  by (rule keeps_bind [where R = "party_ok g"]) (auto intro!: keeps_gets simp: safe_def)

lemma keeps_isGen3_bind:
  "keeps (safe g) (f g) S \<Longrightarrow> keeps (safe g) (gets isGen3 \<bind> f) S"
  by (rule keeps_bind [where R = "\<lambda>x. x = g"]) (auto intro!: keeps_gets simp: safe_def)

lemma keeps_logOn_bind:
  "keeps (safe g) (f True) S \<Longrightarrow> keeps (safe g) (gets logOn \<bind> f) S"
  by (rule keeps_bind [where R = "\<lambda>x. x = True"]) (auto intro!: keeps_gets simp: safe_def)

lemma keeps_gets_any: "preserves I (gets f)"
  by (rule keeps_gets) simp

lemma keeps_updMon: "(\<And>m. mon_ok g m \<Longrightarrow> mon_ok g (f m)) \<Longrightarrow> preserves (safe g) (updMon s f)"
  unfolding updMon_def by (rule keeps_modify) (auto intro: safe_onParty party_ok_setActive)

lemma keeps_updParty: "(\<And>p. party_ok g p \<Longrightarrow> party_ok g (f p)) \<Longrightarrow> preserves (safe g) (updParty s f)"
  unfolding updParty_def by (rule keeps_modify) (rule safe_onParty)

lemma keeps_rand32: "preserves (safe g) rand32"
  by (simp add: keeps_def rand32_def nextRng_def Let_def safe_def isGen3_def)

lemma keeps_emit: "preserves (safe g) (emit t p m)"
  unfolding emit_def by (rule keeps_modify) (simp add: safe_def isGen3_def)

lemma keeps_rawLog: "preserves (safe g) (rawLog msg)"
  unfolding rawLog_def by (rule keeps_modify) (simp add: safe_def isGen3_def)

text \<open>A result-independent step, the branch rules, and the rules that carry a fact on.\<close>

lemmas safe_rules = keeps_mon_bind keeps_party_bind keeps_isGen3_bind keeps_logOn_bind
  keeps_any_bind keeps_if keeps_when keeps_Let keeps_case_option keeps_case_prod
  keeps_return keeps_skip keeps_gets_any keeps_rand32 keeps_emit keeps_rawLog

lemma mon_ok_frames:
  "mon_ok g m \<Longrightarrow> mon_ok g (m\<lparr>sleepTurns := k\<rparr>)" "mon_ok g m \<Longrightarrow> mon_ok g (m\<lparr>status := k\<rparr>)"
  "mon_ok g m \<Longrightarrow> mon_ok g (m\<lparr>confuseTurns := k\<rparr>)" "mon_ok g m \<Longrightarrow> mon_ok g (m\<lparr>mustRecharge := b\<rparr>)"
  "mon_ok g m \<Longrightarrow> mon_ok g (m\<lparr>flinched := b\<rparr>)" "mon_ok g m \<Longrightarrow> mon_ok g (m\<lparr>bideTurns := k\<rparr>)"
  "mon_ok g m \<Longrightarrow> mon_ok g (m\<lparr>trapTurns := k\<rparr>)" "mon_ok g m \<Longrightarrow> mon_ok g (m\<lparr>thrashTurns := k\<rparr>)"
  "mon_ok g m \<Longrightarrow> mon_ok g (m\<lparr>rageActive := b\<rparr>)" "mon_ok g m \<Longrightarrow> mon_ok g (m\<lparr>lastMoveIdx := k\<rparr>)"
  "mon_ok g m \<Longrightarrow> k < 65536 \<Longrightarrow> mon_ok g (m\<lparr>bideDamage := k\<rparr>)"
  "mon_ok g m \<Longrightarrow> k < 65536 \<Longrightarrow> mon_ok g (m\<lparr>lastDamageTaken := k\<rparr>)"
  "mon_ok g m \<Longrightarrow> k < 65536 \<Longrightarrow> mon_ok g (m\<lparr>hp := k\<rparr>)"
  "mon_ok g m \<Longrightarrow> slot_ok k \<Longrightarrow> mon_ok g (m\<lparr>chargingSlot := k\<rparr>)"
  "mon_ok g m \<Longrightarrow> slot_ok k \<Longrightarrow> mon_ok g (m\<lparr>thrashSlot := k\<rparr>)"
  "mon_ok g m \<Longrightarrow> mon_ok g (m\<lparr>disabledSlot := j, disabledTurns := k\<rparr>)"
  "mon_ok g m \<Longrightarrow> mon_ok g (m\<lparr>disabledTurns := k, disabledSlot := j\<rparr>)"
  "mon_ok g m \<Longrightarrow> mon_ok g (m\<lparr>type1 := j, type2 := k\<rparr>)"
  "mon_ok g m \<Longrightarrow> length ps = 4 \<Longrightarrow> mon_ok g (m\<lparr>pp := ps, lastMoveIdx := k\<rparr>)"
  by (simp_all add: mon_ok_def stages_ok_iff)

lemma mon_ok_hp: "mon_ok g m \<Longrightarrow> hp m < 65536"
  by (simp add: mon_ok_def)

lemma mon_ok_loseHp: "mon_ok g m \<Longrightarrow> mon_ok g (loseHp d m)"
  unfolding loseHp_def by (rule mon_ok_frames) (auto dest: mon_ok_hp)

lemma mon_ok_gainHp: "mon_ok g m \<Longrightarrow> mon_ok g (gainHp d m)"
  unfolding gainHp_def Let_def
  by (rule mon_ok_frames, assumption) (use u16_less [of "hp m + d"] in \<open>auto simp: mon_ok_def simp del: u16_less\<close>)

lemma slot_ok_255 [simp]: "slot_ok 255" by (simp add: slot_ok_def)

lemma mon_ok_clearBoosts: "mon_ok g m \<Longrightarrow> mon_ok g (clearBoosts m)"
  by (simp add: mon_ok_def stages_ok_iff clearBoosts_def)

lemma mon_ok_setStage: "mon_ok g m \<Longrightarrow> - 6 \<le> v \<Longrightarrow> v \<le> 6 \<Longrightarrow> mon_ok g (setStage st v m)"
  by (cases st) (simp_all add: mon_ok_def stages_ok_iff)

lemma mon_ok_stage: "mon_ok g m \<Longrightarrow> - 6 \<le> stage st m \<and> stage st m \<le> 6"
  by (simp add: mon_ok_def stages_ok_def)

subsection \<open>The damage formula neither traps nor overflows\<close>

lemma typechart1_le: "list_all (list_all (\<lambda>x. x \<le> 4)) GEN1_TYPECHART \<and>
    length GEN1_TYPECHART = 16 \<and> list_all (\<lambda>r. length r = 16) GEN1_TYPECHART"
  by (simp add: GEN1_TYPECHART_def)

lemma typechart3_le: "list_all (list_all (\<lambda>x. x \<le> 4)) GEN3_TYPECHART \<and>
    length GEN3_TYPECHART = 18 \<and> list_all (\<lambda>r. length r = 18) GEN3_TYPECHART"
  by (simp add: GEN3_TYPECHART_def)

lemma effectiveness_le: "effectiveness g a d \<le> 4"
  using typechart1_le typechart3_le
  by (auto simp: effectiveness_def GEN1_TYPE_COUNT_def GEN3_TYPE_COUNT_def list_all_length)

lemma eff_le: "eff1 g mv t \<le> 4" "eff2 g mv t \<le> 4"
  using effectiveness_le by (auto simp: eff1_def eff2_def)

lemma baseDamage_Some:
  assumes "0 \<le> L" "L \<le> k" "k \<le> 200" "0 \<le> pw" "pw \<le> 255" "0 \<le> A" "A \<le> 2436" "1 \<le> D"
  obtains x where "baseDamage L pw A D = Some x" "0 \<le> x"
    "x \<le> (2 * k div 5 + 2) * 255 * 2436 div 50 + 2"
proof -
  let ?b = "2 * L div 5 + 2" and ?k = "2 * k div 5 + 2"
  have b: "0 \<le> ?b" "?b \<le> ?k" "?k \<le> 82" using assms(1-3) by linarith+
  have c: "0 \<le> ?b * pw" "?b * pw \<le> ?k * 255"
    using mult_nonneg_nonneg [OF b(1) assms(4)] mult_mono [OF b(2) assms(5) _ assms(4)] b by simp_all
  have d: "0 \<le> ?b * pw * A" "?b * pw * A \<le> ?k * 255 * 2436"
    using mult_nonneg_nonneg [OF c(1) assms(6)] mult_mono [OF c(2) assms(7) _ assms(6)] b(1,2) by simp_all
  have "?b * pw * A div D \<le> ?b * pw * A div 1"
    using d(1) assms(8) by (intro zdiv_mono2) auto
  then have q: "?b * pw * A div D \<le> ?b * pw * A" by simp
  have q0: "0 \<le> ?b * pw * A div D" using d(1) assms(8) by (simp add: pos_imp_zdiv_nonneg_iff)
  have r: "?b * pw * A div D div 50 \<le> ?k * 255 * 2436 div 50"
    using q d(2) by (intro zdiv_mono1) auto
  have kk: "?k * 255 * 2436 \<le> 82 * 255 * 2436" using b by simp
  have "baseDamage L pw A D = Some (?b * pw * A div D div 50 + 2)"
  proof -
    have "i32 (2 * L) = Some (2 * L)" using assms(1-3) by (intro i32_Some) linarith+
    moreover have "i32 ?b = Some ?b" using b by (intro i32_Some) linarith+
    moreover have "?k * 255 \<le> 82 * 255" using b(3) by simp
    then have "i32 (?b * pw) = Some (?b * pw)" using c by (intro i32_Some) linarith+
    moreover have "i32 (?b * pw * A) = Some (?b * pw * A)" using d kk by (intro i32_Some) linarith+
    moreover have "0 \<le> ?b * pw * A div D div 50" using q0 by (rule pos_imp_zdiv_nonneg_iff [THEN iffD2, rotated]) simp
    then have "i32 (?b * pw * A div D div 50 + 2) = Some (?b * pw * A div D div 50 + 2)"
      using q d(2) kk by (intro i32_Some) linarith+
    moreover have "D \<noteq> 0" using assms(8) by simp
    ultimately show ?thesis unfolding baseDamage_def by (simp only: Option.bind.bind_lunit if_False simp_thms)
  qed
  then show ?thesis by (rule that) (use q0 r in \<open>simp_all add: pos_imp_zdiv_nonneg_iff\<close>)
qed

lemma half_times:
  assumes "0 \<le> (x::int)" "x \<le> h" "0 \<le> n" "n \<le> m" "h * m < 2147483648"
  obtains y where "map_option (\<lambda>z. z div 2) (i32 (x * n)) = Some y" "0 \<le> y" "y \<le> h * m div 2"
proof -
  have lo: "0 \<le> x * n" using assms(1,3) by simp
  have hi: "x * n \<le> h * m" using assms(1-4) by (intro mult_mono) simp_all
  have "i32 (x * n) = Some (x * n)" using lo hi assms(5) by simp
  moreover have "x * n div 2 \<le> h * m div 2" using hi by (rule zdiv_mono1) simp
  ultimately show ?thesis using lo by (intro that [of "x * n div 2"]) simp_all
qed

lemma typedDamage_Some:
  assumes "0 \<le> x" "(if doubled then x * 2 else x) \<le> 1043586" "e1 \<le> 4" "e2 \<le> 4"
  obtains y where "typedDamage doubled stab e1 e2 x = Some y" "0 \<le> y" "y \<le> 6261516"
proof -
  define x1 where "x1 = (if doubled then x * 2 else x)"
  have x1: "(if doubled then i32 (x * 2) else Some x) = Some x1" "0 \<le> x1" "x1 \<le> 1043586"
    using assms(1,2) by (auto simp: x1_def)
  obtain x2 where x2: "(if stab then map_option (\<lambda>z. z div 2) (i32 (x1 * 3)) else Some x1) = Some x2"
    "0 \<le> x2" "x2 \<le> 1565379"
  proof (cases stab)
    case True
    then show ?thesis using half_times [OF x1(2,3), where n = 3 and m = 3] that by auto
  qed (use that x1(2,3) in auto)
  obtain x3 where x3: "map_option (\<lambda>z. z div 2) (i32 (x2 * int e1)) = Some x3" "0 \<le> x3" "x3 \<le> 3130758"
    using half_times [OF x2(2,3), where n = "int e1" and m = 4] assms(3) by auto
  obtain x4 where "map_option (\<lambda>z. z div 2) (i32 (x3 * int e2)) = Some x4" "0 \<le> x4" "x4 \<le> 6261516"
    using half_times [OF x3(2,3), where n = "int e2" and m = 4] assms(4) by auto
  then show ?thesis
    by (intro that [of x4]) (simp_all only: typedDamage_def x1(1) x2(1) x3(1) Option.bind.bind_lunit)
qed

lemma variedDamage_Some:
  assumes "0 \<le> x" "x \<le> 6261516"
  obtains y where "variedDamage x r = Some y" "1 \<le> y" "y \<le> 65535"
proof -
  have r: "0 \<le> 217 + int (r mod 39)" "217 + int (r mod 39) \<le> 255" by simp_all
  have "0 \<le> x * (217 + int (r mod 39))" "x * (217 + int (r mod 39)) \<le> 6261516 * 255"
    using assms r mult_nonneg_nonneg [OF assms(1) r(1)] mult_mono [OF assms(2) r(2) _ r(1)] by simp_all
  then show ?thesis
    by (intro that) (auto simp: variedDamage_def Let_def)
qed

lemma raw_bounds:
  assumes "mon_ok g m"
  shows "5 \<le> rawAttack g sp m \<and> rawAttack g sp m \<le> 609" "5 \<le> rawDefense g sp m \<and> rawDefense g sp m \<le> 609"
  using assms by (auto simp: rawAttack_def rawDefense_def mon_ok_def stat_ok_def)

lemma attackStat_bounds:
  assumes "mon_ok g m"
  shows "0 \<le> attackStat g sp crit m" "attackStat g sp crit m \<le> 2436"
  using raw_bounds(1) [OF assms, of sp]
    scaled_bounds [of 5 "rawAttack g sp m" 609 "if sp then spcBoost m else atkBoost m"]
  by (auto simp: attackStat_def halveIf_def)

lemma defenseStat_pos: "mon_ok g m \<Longrightarrow> 1 \<le> defenseStat g sp crit p m"
  using raw_bounds(2) [of g m sp]
    scaled_bounds(1) [of 5 "rawDefense g sp m" 609 "if sp then spcBoost m else defBoost m"]
  by (auto simp: defenseStat_def Let_def)

text \<open>The whole formula for a monster of level at most 100 and a \<open>uint8_t\<close> power.\<close>

lemma damage_formula_defined:
  assumes a: "mon_ok g a" and d: "mon_ok g d" and pw: "mpower mv \<le> 255"
  obtains x where
    "Option.bind (baseDamage (if crit \<and> \<not> g then int (level a) * 2 else int (level a)) (int (mpower mv))
        (attackStat g sp crit a) (defenseStat g sp crit p d))
       (typedDamage (crit \<and> g) stab (eff1 g mv d) (eff2 g mv d)) = Some x" "0 \<le> x" "x \<le> 6261516"
proof -
  let ?L = "if crit \<and> \<not> g then int (level a) * 2 else int (level a)"
  define k :: int where "k = (if crit \<and> \<not> g then 200 else 100)"
  have lv: "1 \<le> level a" "level a \<le> 100" using a by (simp_all add: mon_ok_def)
  have "?L \<le> k" "0 \<le> ?L" "k \<le> 200" using lv by (auto simp: k_def)
  then obtain x where x: "baseDamage ?L (int (mpower mv)) (attackStat g sp crit a) (defenseStat g sp crit p d) = Some x"
    "0 \<le> x" "x \<le> (2 * k div 5 + 2) * 255 * 2436 div 50 + 2"
    using baseDamage_Some [of ?L k "int (mpower mv)" "attackStat g sp crit a" "defenseStat g sp crit p d"]
      attackStat_bounds [OF a] defenseStat_pos [OF d] pw by (metis of_nat_0_le_iff of_nat_le_iff of_nat_numeral)
  have "(if crit \<and> g then x * 2 else x) \<le> 1043586"
    using x(3) by (auto simp: k_def split: if_splits)
  then show ?thesis
    using typedDamage_Some [OF x(2) _ eff_le] x(1) that by (metis Option.bind.bind_lunit)
qed

end
