(* ===== verification/BattleInvariant.thy ===== *)
theory BattleInvariant
  imports BattleSafety TableFacts
begin

text \<open>
  Every operation of the engine keeps the invariant \<open>safe\<close>, phase by phase in the order of the
  source; then the engine is an instance of \<open>transition_system\<close>, so every sequence of calls from
  \<open>start\<close> stays in it.
\<close>

named_theorems safe_ops \<open>operations that keep the engine invariant\<close>

subsection \<open>Rules for writes\<close>

lemma keeps_gets_bind:
  assumes "\<And>e. I e \<Longrightarrow> I (snd (run_state (f (h e)) e)) \<and> S (fst (run_state (f (h e)) e))"
  shows "keeps I (gets h \<bind> f) S"
  using assms by (simp add: keeps_def)

lemma keeps_percent [safe_ops]: "preserves (safe g) (percent p)"
  unfolding percent_def by (rule safe_rules TrueI)+

lemma keeps_say [safe_ops]: "preserves (safe g) (say tmpl s)"
  unfolding say_def by (rule safe_rules TrueI)+

lemma keeps_sayMove [safe_ops]: "preserves (safe g) (sayMove tmpl s mv)"
  unfolding sayMove_def by (rule safe_rules TrueI)+

lemma keeps_sayIfFainted [safe_ops]: "preserves (safe g) (sayIfFainted s)"
  unfolding sayIfFainted_def by (rule safe_rules safe_ops TrueI)+

lemma keeps_stage_bump [safe_ops]:
  "preserves (safe g) (updMon s (\<lambda>u. setStage st (bumpStage d (stage st u)) u))"
proof (rule keeps_updMon)
  fix m assume m: "mon_ok g m"
  then have "- 6 \<le> bumpStage d (stage st m) \<and> bumpStage d (stage st m) \<le> 6"
    using mon_ok_stage [OF m, of st] by (intro bumpStage_range) simp_all
  with m show "mon_ok g (setStage st (bumpStage d (stage st m)) m)"
    by (simp add: mon_ok_setStage)
qed

lemma keeps_emitStatChange [safe_ops]: "preserves (safe g) (emitStatChange s st d)"
  unfolding emitStatChange_def by (rule keeps_logOn_bind | simp | rule safe_rules safe_ops TrueI)+

text \<open>Writes of single fields; each leaves the fields the invariant reads in range.\<close>

lemmas mon_writes = mon_ok_frames mon_ok_loseHp mon_ok_gainHp mon_ok_clearBoosts

lemma hp_diff_less: "mon_ok g m \<Longrightarrow> (if b then 0 else hp m - d) < 65536"
  by (auto dest: mon_ok_hp)

lemma mon_ok_maxHp: "mon_ok g m \<Longrightarrow> maxHp m < 65536"
  by (simp add: mon_ok_def)

lemma keeps_trap: "\<not> b \<Longrightarrow> preserves (safe g) (when_ok b trap)"
  by (simp add: when_ok_def keeps_skip)

subsection \<open>Pre-move checks\<close>

lemma keeps_sleepCheck [safe_ops]: "preserves (safe g) (sleepCheck s)"
  unfolding sleepCheck_def
  by (rule safe_rules safe_ops TrueI | rule keeps_updMon, rule mon_writes, assumption)+

lemma keeps_parCheck [safe_ops]: "preserves (safe g) (parCheck s)"
  unfolding parCheck_def by (rule safe_rules safe_ops TrueI)+

lemma keeps_confusionCheck [safe_ops]: "preserves (safe g) (confusionCheck s)"
  unfolding confusionCheck_def
  by (rule keeps_trap, simp add: mon_ok_def stat_ok_def
      | rule safe_rules safe_ops TrueI
      | rule keeps_updMon, rule mon_writes, assumption
      | rule hp_diff_less, assumption)+

lemma keeps_preMoveChecks [safe_ops]: "preserves (safe g) (preMoveChecks s)"
  unfolding preMoveChecks_def
  by (rule safe_rules safe_ops TrueI | rule keeps_updMon, rule mon_writes, assumption)+

subsection \<open>Forced slots and locks\<close>

lemma slot_ok_less: "slot_ok k \<Longrightarrow> k \<noteq> 255 \<Longrightarrow> k < 4"
  by (simp add: slot_ok_def)

lemma mon_ok_slots: "mon_ok g m \<Longrightarrow> slot_ok (chargingSlot m)" "mon_ok g m \<Longrightarrow> slot_ok (thrashSlot m)"
  "mon_ok g m \<Longrightarrow> slot_ok (mimicSlot m)"
  by (simp_all add: mon_ok_def)

text \<open>
  The move fired is a row of the generation's table (its power is a byte), and its slot is one of
  the four unless it is Struggle.
\<close>

definition firing_ok :: "bool \<Rightarrow> bool \<Rightarrow> (nat \<times> Gen1MoveData) \<Rightarrow> bool" where
  "firing_ok g struggle sm \<longleftrightarrow>
     (\<exists>i. mdata g i = Some (snd sm) \<and> (struggle \<longrightarrow> i = 165)) \<and> (\<not> struggle \<longrightarrow> fst sm < 4)"

lemma firing_ok_mdata:
  "firing_ok g False (k, mv) \<longleftrightarrow> (\<exists>i. mdata g i = Some mv) \<and> k < 4"
  by (simp add: firing_ok_def)

lemma keeps_forcedSlot:
  assumes "firing_ok g struggle (slot, mv)"
  shows "keeps (safe g) (forcedSlot s struggle slot mv) (\<lambda>r. \<forall>sm. r = Some sm \<longrightarrow> firing_ok g struggle sm)"
proof (cases struggle)
  case True
  with assms show ?thesis by (simp add: forcedSlot_def keeps_return)
next
  case False
  let ?R = "\<lambda>r. \<forall>sm. r = Some sm \<longrightarrow> firing_ok g False sm"
  have tab: "?R (map_option (Pair k) (mdata g i))" if "k < 4" for k i
    using that by (auto simp: firing_ok_mdata)
  have "keeps (safe g)
     (if chargingSlot u \<noteq> 255 then do {
               updMon s (\<lambda>m. m\<lparr>chargingSlot := 255\<rparr>);
               State_Monad.return (map_option (Pair (chargingSlot u)) (mdata g (moves u ! chargingSlot u)))
             } else State_Monad.return (Some (slot, mv))) ?R" if "mon_ok g u" for u
    using assms False mon_ok_slots(1) [OF that]
    by (intro keeps_if keeps_any_bind keeps_return tab keeps_updMon mon_writes)
      (auto dest: slot_ok_less)
  moreover have "keeps (safe g) (case c of
           None \<Rightarrow> State_Monad.return None
         | Some sm \<Rightarrow>
             (if thrashSlot u \<noteq> 255
              then State_Monad.return (map_option (Pair (thrashSlot u)) (mdata g (moves u ! thrashSlot u)))
              else State_Monad.return (Some sm))) ?R" if "mon_ok g u" "?R c" for u c
    using that mon_ok_slots(2) [OF that(1)]
    by (intro keeps_case_option keeps_if keeps_return tab) (auto dest: slot_ok_less)
  ultimately show ?thesis
    using False unfolding forcedSlot_def
    by (simp, intro keeps_isGen3_bind keeps_mon_bind) (rule keeps_bind [where R = ?R], blast, blast)
qed

lemma keeps_bideTurn [safe_ops]: "preserves (safe g) (bideTurn s struggle)"
  unfolding bideTurn_def
  by (rule safe_rules safe_ops TrueI | rule keeps_updMon, rule mon_writes, assumption
      | simp (no_asm); fail)+

lemma keeps_disabledCheck [safe_ops]: "preserves (safe g) (disabledCheck s struggle slot)"
  unfolding disabledCheck_def
  by (rule safe_rules safe_ops TrueI | rule keeps_updMon, rule mon_writes, assumption)+

lemma keeps_spendPp [safe_ops]: "preserves (safe g) (spendPp s struggle slot)"
  unfolding spendPp_def
  by (rule safe_rules safe_ops TrueI
      | rule keeps_updMon, rule mon_writes(19), assumption, simp add: mon_ok_def)+

lemma keeps_chargeStart [safe_ops]:
  "firing_ok g struggle (slot, mv) \<Longrightarrow> preserves (safe g) (chargeStart s struggle slot mv)"
  unfolding chargeStart_def
  by (rule safe_rules safe_ops TrueI
      | rule keeps_updMon, rule mon_writes(14), assumption, simp add: firing_ok_def slot_ok_def)+

lemma mon_ok_bideStart: "mon_ok g m \<Longrightarrow> mon_ok g (m\<lparr>bideTurns := k, bideDamage := 0\<rparr>)"
  by (simp add: mon_ok_def stages_ok_iff)

lemma keeps_bideStart [safe_ops]: "preserves (safe g) (bideStart s struggle mv)"
  unfolding bideStart_def
  by (rule safe_rules safe_ops TrueI | rule keeps_updMon, erule mon_ok_bideStart)+

lemma keeps_thrashStart [safe_ops]:
  "firing_ok g struggle (slot, mv) \<Longrightarrow> preserves (safe g) (thrashStart s struggle slot mv)"
  unfolding thrashStart_def
  by (rule safe_rules safe_ops TrueI | rule keeps_updMon, rule mon_writes, assumption
      | simp add: firing_ok_def slot_ok_def; fail)+

subsection \<open>Damage\<close>

lemma mdata_row:
  "mdata g i = Some mv \<Longrightarrow> mpower mv \<le> 255 \<and> mpriority mv < 6"
  using gen1_rows gen3_rows
  by (auto simp: mdata_def gen1Move_def gen3Move_def list_all_iff split: if_splits dest!: find_SomeD)

lemma mdata_power: "mdata g i = Some mv \<Longrightarrow> mpower mv \<le> 255"
  by (simp add: mdata_row)

text \<open>The damage computed is a \<open>uint16_t\<close>, positive unless the move has no power or no effect.\<close>

lemma keeps_calcDamage:
  assumes pw: "mpower mv \<le> 255"
  shows "keeps (safe g) (calcDamage s t mv) (\<lambda>(dmg, crit). dmg \<le> 65535)"
proof -
  let ?R = "\<lambda>(dmg::nat, crit::bool). dmg \<le> 65535"
  have core: "keeps (safe g)
      (case Option.bind (baseDamage (if crit \<and> \<not> g then int (level a) * 2 else int (level a))
               (int (mpower mv)) (attackStat g sp crit a) (defenseStat g sp crit p d))
             (typedDamage (crit \<and> g) stab (eff1 g mv d) (eff2 g mv d)) of
         None \<Rightarrow> do { trap; State_Monad.return (0, crit) }
       | Some dmg \<Rightarrow>
           (if dmg = 0 then State_Monad.return (0, crit)
            else do {
              v \<leftarrow> rand32;
              (case variedDamage dmg v of
                 None \<Rightarrow> do { trap; State_Monad.return (0, crit) }
               | Some x \<Rightarrow> State_Monad.return (nat x, crit))
            })) ?R" if a: "mon_ok g a" and d: "mon_ok g d" for a d crit sp p stab
  proof -
    obtain x where x: "Option.bind (baseDamage (if crit \<and> \<not> g then int (level a) * 2 else int (level a))
               (int (mpower mv)) (attackStat g sp crit a) (defenseStat g sp crit p d))
             (typedDamage (crit \<and> g) stab (eff1 g mv d) (eff2 g mv d)) = Some x" "0 \<le> x" "x \<le> 6261516"
      using damage_formula_defined [OF a d pw] by blast
    have "keeps (safe g) (case variedDamage x v of
                 None \<Rightarrow> do { trap; State_Monad.return (0, crit) }
               | Some x \<Rightarrow> State_Monad.return (nat x, crit)) ?R" for v
      by (rule variedDamage_Some [OF x(2,3), of v]) (simp add: keeps_return nat_le_iff)
    then show ?thesis
      unfolding x(1) option.case by (intro keeps_if keeps_return keeps_any_bind keeps_rand32) simp_all
  qed
  show ?thesis
    unfolding calcDamage_def Let_def
    by (rule keeps_mon_bind keeps_party_bind keeps_isGen3_bind)+
      (rule keeps_if keeps_any_bind keeps_rand32 core | assumption | simp add: keeps_return)+
qed

text \<open>Hit points after the hit loop.\<close>

lemma applyHits_le: "applyHits n d h \<le> h"
  by (induction n d h rule: applyHits.induct) (auto simp: Let_def intro: le_trans)

lemma mon_ok_applyHits: "mon_ok g m \<Longrightarrow> mon_ok g (m\<lparr>hp := applyHits n d (hp m)\<rparr>)"
  using applyHits_le [of n d "hp m"] by (intro mon_ok_frames) (auto simp: mon_ok_def)

lemma mon_ok_afterHit: "mon_ok g m \<Longrightarrow> d \<le> 65535 \<Longrightarrow>
   mon_ok g (m\<lparr>bideDamage := (if b then u16 k else bideDamage m), lastDamageTaken := d\<rparr>)"
  by (simp add: mon_ok_def stages_ok_iff)

lemma keeps_rollHit [safe_ops]: "preserves (safe g) (rollHit s t mv)"
  unfolding rollHit_def Let_def by (rule safe_rules safe_ops TrueI)+

lemma keeps_connects [safe_ops]: "preserves (safe g) (connects s t mv)"
  unfolding connects_def by (rule safe_rules safe_ops TrueI)+

lemma keeps_flinchStop [safe_ops]: "preserves (safe g) (flinchStop s)"
  unfolding flinchStop_def
  by (rule safe_rules safe_ops TrueI | rule keeps_updMon, rule mon_writes, assumption)+

lemma keeps_hitCount [safe_ops]: "preserves (safe g) (hitCount e)"
  unfolding hitCount_def by (rule safe_rules safe_ops TrueI)+

lemma keeps_hitMessages [safe_ops]: "preserves (safe g) (hitMessages c e n)"
  unfolding hitMessages_def by (rule safe_rules safe_ops TrueI)+

lemma keeps_afterHit: "dmg \<le> 65535 \<Longrightarrow> preserves (safe g) (afterHit s t mv dmg)"
  unfolding afterHit_def
  by (rule safe_rules safe_ops TrueI
      | rule keeps_updMon, rule mon_ok_afterHit, assumption
      | rule keeps_updMon, rule mon_writes, assumption
      | assumption | rule hp_diff_less, assumption | simp (no_asm); fail)+

lemma keeps_damageBlock [safe_ops]: "mpower mv \<le> 255 \<Longrightarrow> preserves (safe g) (damageBlock s t mv)"
  unfolding damageBlock_def Let_def
  by (rule keeps_if keeps_return TrueI | rule keeps_bind [OF keeps_calcDamage] | assumption
      | (simp only: split_paired_all case_prod_conv)
      | rule keeps_afterHit
      | rule safe_rules safe_ops | rule keeps_updMon, rule mon_ok_applyHits, assumption)+

subsection \<open>Fixed damage and effects\<close>

lemma keeps_loseHp [safe_ops]: "preserves (safe g) (updMon s (loseHp d))"
  by (rule keeps_updMon) (rule mon_ok_loseHp)

lemma keeps_gainHp [safe_ops]: "preserves (safe g) (updMon s (gainHp d))"
  by (rule keeps_updMon) (rule mon_ok_gainHp)

lemma party_ok_frames:
  "party_ok g p \<Longrightarrow> party_ok g (p\<lparr>focused := b\<rparr>)" "party_ok g p \<Longrightarrow> party_ok g (p\<lparr>mist := b\<rparr>)"
  "party_ok g p \<Longrightarrow> party_ok g (p\<lparr>lightScreen := b, lightScreenTurns := k\<rparr>)"
  "party_ok g p \<Longrightarrow> party_ok g (p\<lparr>reflect := b, reflectTurns := k\<rparr>)"
  "party_ok g p \<Longrightarrow> party_ok g (p\<lparr>focused := b, lightScreen := c, reflect := d, mist := f\<rparr>)"
  "party_ok g p \<Longrightarrow> party_ok g (screenTick p)"
  by (simp_all add: party_ok_def screenTick_def)

lemma level_pos: "mon_ok g m \<Longrightarrow> level m * 3 div 2 \<noteq> 0"
  by (simp add: mon_ok_def div_eq_0_iff)

lemma keeps_fixedDamage [safe_ops]: "preserves (safe g) (fixedDamage s t mv)"
proof (cases "meffect mv")
  case EFF_PSYWAVE
  then show ?thesis
    unfolding fixedDamage_def
    by (simp only: Gen1MoveEffect.case) (rule keeps_mon_bind keeps_any_bind keeps_rand32 | simp add: level_pos keeps_loseHp)+
next
  case EFF_OHKO
  then show ?thesis
    unfolding fixedDamage_def
    by (simp only: Gen1MoveEffect.case)
      (rule safe_rules safe_ops TrueI | rule keeps_updMon, rule mon_writes, assumption | simp (no_asm); fail)+
next
  case EFF_SUPER_FANG
  then show ?thesis
    unfolding fixedDamage_def
    by (simp only: Gen1MoveEffect.case) (rule keeps_updMon, rule mon_writes, assumption, simp)
qed (simp_all add: fixedDamage_def keeps_skip keeps_loseHp keeps_mon_bind)

lemma keeps_roll [safe_ops]: "preserves (safe g) (roll c)"
  unfolding roll_def by (rule safe_rules safe_ops TrueI)+

lemma keeps_inflict [safe_ops]: "preserves (safe g) (inflict t c st msg)"
  unfolding inflict_def
  by (rule safe_rules safe_ops TrueI | rule keeps_updMon, rule mon_writes, assumption)+

lemma keeps_inflictSleep [safe_ops]: "preserves (safe g) (inflictSleep t c)"
  unfolding inflictSleep_def
  by (rule safe_rules safe_ops TrueI | rule keeps_updMon, rule mon_writes, assumption)+

lemma keeps_confuse [safe_ops]: "preserves (safe g) (confuse t c)"
  unfolding confuse_def
  by (rule safe_rules safe_ops TrueI | rule keeps_updMon, rule mon_writes, assumption)+

lemma keeps_hazeSide [safe_ops]: "preserves (safe g) (hazeSide s)"
  unfolding hazeSide_def
  by (rule safe_rules safe_ops TrueI | rule keeps_updMon, rule mon_writes, assumption
      | rule keeps_updParty, rule party_ok_frames, assumption)+

lemma mon_ok_rest: "mon_ok g m \<Longrightarrow> mon_ok g (m\<lparr>hp := maxHp m, status := st, sleepTurns := k\<rparr>)"
  by (simp add: mon_ok_def stages_ok_iff)

lemma keeps_effect_writes:
  "preserves (safe g) (updMon s (\<lambda>m. m\<lparr>hp := maxHp m, status := st, sleepTurns := n\<rparr>))"
  "preserves (safe g) (updMon s (\<lambda>m. m\<lparr>type1 := j, type2 := k\<rparr>))"
  "preserves (safe g) (updMon s (\<lambda>m. m\<lparr>rageActive := b\<rparr>))"
  "preserves (safe g) (updMon s (\<lambda>m. m\<lparr>mustRecharge := b\<rparr>))"
  "preserves (safe g) (updParty s (\<lambda>p. p\<lparr>focused := b\<rparr>))"
  "preserves (safe g) (updParty s (\<lambda>p. p\<lparr>mist := b\<rparr>))"
  "preserves (safe g) (updParty s (\<lambda>p. p\<lparr>lightScreen := b, lightScreenTurns := n\<rparr>))"
  "preserves (safe g) (updParty s (\<lambda>p. p\<lparr>reflect := b, reflectTurns := n\<rparr>))"
  by (rule keeps_updMon, erule mon_ok_rest mon_writes | rule keeps_updParty, erule party_ok_frames)+

lemma keeps_secondaryEffect [safe_ops]: "preserves (safe g) (secondaryEffect s t mv)"
  unfolding secondaryEffect_def
  by (cases "meffect mv"; simp only: Gen1MoveEffect.case;
      (rule safe_rules keeps_effect_writes safe_ops TrueI)+)

lemma keeps_applyMove: "mpower mv \<le> 255 \<Longrightarrow> preserves (safe g) (applyMove s t mv)"
  unfolding applyMove_def by (rule safe_rules safe_ops TrueI | assumption)+

subsection \<open>After the move fired\<close>

lemma keeps_thrashEnd [safe_ops]: "preserves (safe g) (thrashEnd s mv)"
  unfolding thrashEnd_def
  by (rule safe_rules safe_ops TrueI slot_ok_255 | rule keeps_updMon, rule mon_writes, assumption)+

lemma keeps_counterHit [safe_ops]: "preserves (safe g) (counterHit s mv)"
  unfolding counterHit_def
  by (rule safe_rules safe_ops TrueI | rule keeps_updMon, rule mon_writes, assumption | simp (no_asm); fail)+

lemma mon_ok_substitute:
  "mon_ok g m \<Longrightarrow> mon_ok g (m\<lparr>hp := hp m - c, substituteHp := c\<rparr>)"
  by (auto simp: mon_ok_def stages_ok_iff)

lemma keeps_substituteUp [safe_ops]: "preserves (safe g) (substituteUp s mv)"
  unfolding substituteUp_def Let_def
  by (rule safe_rules safe_ops TrueI | rule keeps_updMon, rule mon_ok_substitute, assumption)+

lemma keeps_disableTarget [safe_ops]: "preserves (safe g) (disableTarget s mv)"
  unfolding disableTarget_def Let_def
  by (rule safe_rules safe_ops TrueI | rule keeps_updMon, rule mon_writes, assumption)+

lemma keeps_metronome [safe_ops]: "preserves (safe g) (metronome s mv)"
  unfolding metronome_def
  by (rule safe_rules safe_ops TrueI keeps_applyMove | erule mdata_power)+

lemma mon_ok_mimic:
  "mon_ok g m \<Longrightarrow> slot < 4 \<Longrightarrow>
   mon_ok g (m\<lparr>mimicSlot := slot, mimicOrigMove := j, mimicOrigPp := k,
                moves := (moves m)[slot := l], pp := (pp m)[slot := n]\<rparr>)"
  by (simp add: mon_ok_def stages_ok_iff slot_ok_def)

lemma keeps_mimicMove [safe_ops]:
  "(meffect mv = EFF_MIMIC \<Longrightarrow> slot < 4) \<Longrightarrow> preserves (safe g) (mimicMove s slot mv)"
  unfolding mimicMove_def
  by (rule safe_rules safe_ops TrueI | rule keeps_updMon, rule mon_ok_mimic, assumption | blast)+

lemma mon_ok_transform:
  "mon_ok g m \<Longrightarrow> mon_ok g t \<Longrightarrow>
   mon_ok g (m\<lparr>transformed := True, origSpecies := species m, origType1 := type1 m,
         origType2 := type2 m, origAtk := atk m, origDef := dfn m, origSpd := spd m,
         origSpc := spc m, origMoves := moves m, origPp := pp m,
         species := species t, type1 := type1 t, type2 := type2 t, atk := atk t, dfn := dfn t,
         spd := spd t, spc := spc t, moves := moves t, pp := [5, 5, 5, 5]\<rparr>)"
  by (simp add: mon_ok_def stages_ok_iff)

lemma keeps_transformMon [safe_ops]: "preserves (safe g) (transformMon s mv)"
  unfolding transformMon_def
  by (rule safe_rules safe_ops TrueI | rule keeps_updMon, rule mon_ok_transform, assumption | assumption)+

text \<open>Struggle is not Mimic, so Mimic always has a slot.\<close>

lemma struggle_effect: "mdata g 165 = Some mv \<Longrightarrow> meffect mv = EFF_RECOIL"
  using struggle_row by (auto simp: mdata_def split: if_splits)

lemma firing_ok_slot: "firing_ok g struggle (slot, mv) \<Longrightarrow> meffect mv = EFF_MIMIC \<Longrightarrow> slot < 4"
  by (cases struggle) (auto simp: firing_ok_def dest: struggle_effect)

lemma firing_ok_power: "firing_ok g struggle (slot, mv) \<Longrightarrow> mpower mv \<le> 255"
  by (auto simp: firing_ok_def dest: mdata_power)

lemma keeps_fireMove:
  assumes "firing_ok g struggle (slot, mv)"
  shows "preserves (safe g) (fireMove s struggle slot mv)"
  unfolding fireMove_def
  by (rule safe_rules safe_ops TrueI keeps_applyMove assms firing_ok_power [OF assms]
      | erule firing_ok_slot [OF assms])+

lemma selectMove_firing: "selectMove g u k = Some mv \<Longrightarrow> firing_ok g (k = 254) (k, mv)"
  by (auto simp: selectMove_def firing_ok_def split: if_splits option.splits)

lemma keeps_useMove [safe_ops]: "preserves (safe g) (useMove s k)"
  unfolding useMove_def Let_def
proof (rule keeps_mon_bind, rule keeps_isGen3_bind, rule keeps_case_option, rule keeps_skip,
    rule keeps_any_bind, rule keeps_preMoveChecks, rule keeps_if, rule keeps_skip,
    rule keeps_bind, rule keeps_forcedSlot, erule selectMove_firing)
  fix r :: "(nat \<times> Gen1MoveData) option"
  assume r: "\<forall>sm. r = Some sm \<longrightarrow> firing_ok g (k = 254) sm"
  show "preserves (safe g) (case r of None \<Rightarrow> skip
     | Some sm \<Rightarrow> do {
         b \<leftarrow> bideTurn s (k = 254);
         if b then skip
         else do {
           d \<leftarrow> disabledCheck s (k = 254) (fst sm);
           if d then skip
           else do {
             spendPp s (k = 254) (fst sm);
             fireMove s (k = 254) (fst sm) (snd sm)
           }
         }
       })"
    using r by (intro keeps_case_option keeps_any_bind keeps_bideTurn keeps_if keeps_skip
        keeps_disabledCheck keeps_spendPp keeps_fireMove) simp
qed

subsection \<open>Switching and the end of a turn\<close>

lemma mon_ok_clearCounters: "mon_ok g m \<Longrightarrow> mon_ok g (clearCounters m)"
  by (simp add: clearCounters_def clearBoosts_def mon_ok_def stages_ok_iff)

lemma mon_ok_restoreMimic: "mon_ok g m \<Longrightarrow> mon_ok g (restoreMimic m)"
  by (simp add: restoreMimic_def mon_ok_def stages_ok_iff)

lemma mon_ok_restoreTransform: "mon_ok g m \<Longrightarrow> mon_ok g (restoreTransform m)"
  by (simp add: restoreTransform_def mon_ok_def stages_ok_iff)

lemma mon_ok_clearVolatile: "mon_ok g m \<Longrightarrow> mon_ok g (clearVolatile m)"
  by (simp add: clearVolatile_def mon_ok_clearCounters mon_ok_restoreMimic mon_ok_restoreTransform)

lemma parties_say [simp]: "parties (snd (run_state (say tmpl s) e)) = parties e"
  by (simp add: say_def emit_def run_basics)

lemma say_safe: "safe g e \<Longrightarrow> safe g (snd (run_state (say tmpl s) e))"
  using keeps_say [of g tmpl s] by (simp add: keeps_def)

lemma safe_activate:
  assumes e: "safe g e" and i: "idx < pcount (parties e s)"
  shows "safe g (onParty s (\<lambda>p. p\<lparr>active := idx\<rparr>) (onParty s (setActive clearVolatile) e))"
proof -
  have "party_ok g (setActive clearVolatile (parties e s))"
    using e by (intro party_ok_setActive mon_ok_clearVolatile) (simp_all add: safe_def)
  then have "party_ok g ((setActive clearVolatile (parties e s))\<lparr>active := idx\<rparr>)"
    using i by (simp add: party_ok_def)
  with e show ?thesis by (simp add: safe_def isGen3_def)
qed

lemma switchTo_safe:
  assumes "safe g e" "idx < pcount (parties e s)"
  shows "safe g (snd (run_state (switchTo s idx) e))"
proof -
  let ?e = "snd (run_state (say ''Come back, [POKEMON]!'' s) e)"
  have "safe g ?e" using assms(1) by (rule say_safe)
  then have "safe g (onParty s (\<lambda>p. p\<lparr>active := idx\<rparr>) (onParty s (setActive clearVolatile) ?e))"
    using assms(2) by (intro safe_activate) simp_all
  from say_safe [OF this] show ?thesis
    by (simp add: switchTo_def updMon_def updParty_def split_beta)
qed

lemma keeps_stepAction [safe_ops]: "preserves (safe g) (stepAction s)"
proof -
  have sw: "preserves (safe g) (do { bp \<leftarrow> party s;
       if act = 1 then
         (if pcount bp \<le> idx \<or> idx = active bp \<or> hp (mons bp ! idx) = 0 then skip
          else switchTo s idx)
       else if act = 0 then useMove s idx
       else skip })" for act idx
    unfolding party_def
    by (rule keeps_gets_bind)
      (use keeps_useMove [of g s idx] in \<open>auto simp: keeps_def intro: switchTo_safe\<close>)
  show ?thesis
    unfolding stepAction_def
    by (rule sw | rule safe_rules safe_ops TrueI)+
qed

lemma keeps_residual [safe_ops]: "preserves (safe g) (updMon s (residual k))"
  unfolding residual_def by (rule keeps_updMon) (rule mon_ok_loseHp)

lemma keeps_screenTick [safe_ops]: "preserves (safe g) (updParty s screenTick)"
  by (rule keeps_updParty) (rule party_ok_frames)

lemma keeps_applyEndOfTurn [safe_ops]: "preserves (safe g) (applyEndOfTurn s)"
  unfolding applyEndOfTurn_def
  by (rule safe_rules safe_ops TrueI | rule keeps_updMon, rule mon_writes, assumption)+

lemma keeps_endTurn [safe_ops]: "preserves (safe g) endTurn"
  unfolding endTurn_def by (rule keeps_modify) (simp add: safe_def isGen3_def)

lemma keeps_pokeActsFirst [safe_ops]: "preserves (safe g) (pokeActsFirst s a b)"
  unfolding pokeActsFirst_def by (rule safe_rules safe_ops TrueI)+

lemma keeps_executeTurn [safe_ops]: "preserves (safe g) executeTurn"
  unfolding executeTurn_def Let_def by (rule safe_rules safe_ops TrueI)+

lemma safe_activate_say:
  assumes "safe g e" "find (\<lambda>i. P i) [0..<pcount (parties e s)] = Some i"
  shows "safe g (snd (run_state (say msg s) (onParty s (\<lambda>p. p\<lparr>active := i\<rparr>) (onParty s (setActive clearVolatile) e))))"
proof -
  have "i < pcount (parties e s)" using find_SomeD [OF assms(2)] by simp
  with assms(1) have "safe g (onParty s (\<lambda>p. p\<lparr>active := i\<rparr>) (onParty s (setActive clearVolatile) e))"
    by (rule safe_activate)
  then show ?thesis by (rule say_safe)
qed

lemma keeps_autoReplace [safe_ops]: "preserves (safe g) (autoReplaceIfFainted s)"
  unfolding autoReplaceIfFainted_def party_def
  by (rule keeps_gets_bind)
    (auto simp: mon_def updMon_def updParty_def split_beta safe_activate_say split: option.split)

lemma keeps_forfeit [safe_ops]: "preserves (safe g) (forfeit k)"
  unfolding forfeit_def
  by (rule safe_rules safe_ops TrueI | rule keeps_modify, simp add: safe_def isGen3_def)+

lemma submit_safe: "safe g e \<Longrightarrow> safe g (snd (submitAction s a i e))"
  by (simp add: submitAction_def Let_def safe_def isGen3_def)

subsection \<open>The start of a battle\<close>

text \<open>
  A save party the invariant starts from: one to six slots in use, four moves and four PP bytes per
  slot (the array sizes of the save record), levels 1 to 100.
\<close>

definition saveLevel :: "Gen1Pokemon \<Rightarrow> nat" where
  "saveLevel m = (if sv_level m \<noteq> 0 then unat (sv_level m) else unat (sv_boxLevel m))"

definition save_ok :: "Gen1Party \<Rightarrow> bool" where
  "save_ok p \<longleftrightarrow> 1 \<le> unat (gp_count p) \<and>
     (\<forall>i < min 6 (unat (gp_count p)). let m = gp_mons p ! i in
        length (sv_moves m) = 4 \<and> length (sv_pp m) = 4 \<and> 1 \<le> saveLevel m \<and> saveLevel m \<le> 100)"

lemma base1_le: "list_all (\<lambda>b. b1_hp b \<le> 255 \<and> b1_atk b \<le> 255 \<and> b1_def b \<le> 255 \<and> b1_spd b \<le> 255
    \<and> b1_spc b \<le> 255) GEN1_BASE_STATS \<and> length GEN1_BASE_STATS = 152"
  by (simp add: GEN1_BASE_STATS_def)

lemma base3_le: "list_all (\<lambda>b. b3_hp b \<le> 255 \<and> b3_atk b \<le> 255 \<and> b3_def b \<le> 255 \<and> b3_spa b \<le> 255
    \<and> b3_spd b \<le> 255 \<and> b3_spe b \<le> 255) GEN3_BASE_STATS \<and> length GEN3_BASE_STATS = 152"
  by (simp add: GEN3_BASE_STATS_def)

lemma dv_le: "dvHigh b \<le> 15" "dvLow b \<le> 15"
proof -
  have "unat b div 16 < 16" using unat_byte_less [of b] by (simp add: less_mult_imp_div_less)
  then show "dvHigh b \<le> 15" by (simp add: dvHigh_def)
  show "dvLow b \<le> 15" by (simp add: dvLow_def)
qed

lemma hpDV_le: "hpDV d \<le> 15"
proof -
  have "x mod 2 \<le> 1" for x :: nat by simp
  from this [of "dvHigh (d ! 0)"] this [of "dvLow (d ! 0)"] this [of "dvHigh (d ! 1)"] this [of "dvLow (d ! 1)"]
  show ?thesis unfolding hpDV_def by linarith
qed

lemma stats_ok_calc:
  assumes "base \<le> 255" "iv \<le> 15" "x < 65536" "lv \<le> 100"
  shows "stat_ok (calcStat base iv x lv False)" "10 \<le> calcStat base iv x lv True"
    "calcStat base iv x lv True \<le> 714"
  using calcStat_bounds [OF assms] by (simp_all add: stat_ok_def)

lemma statsFromSave_ok:
  fixes g :: bool and src :: Gen1Pokemon
  assumes "level dst \<le> 100"
  defines "m \<equiv> statsFromSave g src dst"
  shows "10 \<le> maxHp m \<and> maxHp m \<le> 714 \<and> stat_ok (atk m) \<and> stat_ok (dfn m) \<and> stat_ok (spd m) \<and>
    stat_ok (spc m) \<and> (g \<longrightarrow> stat_ok (spaG3 m) \<and> stat_ok (spdG3 m))"
proof -
  define i where "i = (if species dst < 152 then species dst else 0)"
  have i: "i < 152" by (simp add: i_def)
  have b1: "b1_hp (GEN1_BASE_STATS ! i) \<le> 255" "b1_atk (GEN1_BASE_STATS ! i) \<le> 255"
    "b1_def (GEN1_BASE_STATS ! i) \<le> 255" "b1_spd (GEN1_BASE_STATS ! i) \<le> 255"
    "b1_spc (GEN1_BASE_STATS ! i) \<le> 255"
    using base1_le i list_all_nth [of _ GEN1_BASE_STATS i] by auto
  have b3: "b3_hp (GEN3_BASE_STATS ! i) \<le> 255" "b3_atk (GEN3_BASE_STATS ! i) \<le> 255"
    "b3_def (GEN3_BASE_STATS ! i) \<le> 255" "b3_spa (GEN3_BASE_STATS ! i) \<le> 255"
    "b3_spd (GEN3_BASE_STATS ! i) \<le> 255" "b3_spe (GEN3_BASE_STATS ! i) \<le> 255"
    using base3_le i list_all_nth [of _ GEN3_BASE_STATS i] by auto
  show ?thesis
    unfolding m_def statsFromSave_def Let_def i_def [symmetric]
    by (cases g) (simp_all add: b1 b3 dv_le hpDV_le be16_less assms(1) stats_ok_calc)
qed

lemma statsFromSave_frame [simp]:
  "level (statsFromSave g src dst) = level dst" "moves (statsFromSave g src dst) = moves dst"
  "pp (statsFromSave g src dst) = pp dst" "atkBoost (statsFromSave g src dst) = atkBoost dst"
  "defBoost (statsFromSave g src dst) = defBoost dst" "spdBoost (statsFromSave g src dst) = spdBoost dst"
  "spcBoost (statsFromSave g src dst) = spcBoost dst" "accBoost (statsFromSave g src dst) = accBoost dst"
  "evaBoost (statsFromSave g src dst) = evaBoost dst"
  "chargingSlot (statsFromSave g src dst) = chargingSlot dst"
  "thrashSlot (statsFromSave g src dst) = thrashSlot dst"
  "mimicSlot (statsFromSave g src dst) = mimicSlot dst"
  "bideDamage (statsFromSave g src dst) = bideDamage dst"
  "lastDamageTaken (statsFromSave g src dst) = lastDamageTaken dst"
  "transformed (statsFromSave g src dst) = transformed dst"
  by (simp_all add: statsFromSave_def Let_def)

lemma initFromSave_ok:
  assumes "length (sv_moves src) = 4" "length (sv_pp src) = 4" "1 \<le> saveLevel src" "saveLevel src \<le> 100"
  shows "mon_ok (3 \<le> gn) (initBattlePokeFromSave src nick gn)"
proof -
  define dst where "dst = (initSentinelFields zeroPoke)\<lparr>species := internalToDex ! unat (sv_species src),
     nickname := nickOrSpecies (internalToDex ! unat (sv_species src)) (decodeNick nick),
     level := (if sv_level src \<noteq> 0 then unat (sv_level src) else unat (sv_boxLevel src))\<rparr>"
  define m where "m = statsFromSave (3 \<le> gn) src dst"
  have lv: "level dst = saveLevel src" by (simp add: dst_def saveLevel_def)
  have st: "10 \<le> maxHp m \<and> maxHp m \<le> 714 \<and> stat_ok (atk m) \<and> stat_ok (dfn m) \<and> stat_ok (spd m) \<and>
    stat_ok (spc m) \<and> (3 \<le> gn \<longrightarrow> stat_ok (spaG3 m) \<and> stat_ok (spdG3 m))"
    unfolding m_def by (rule statsFromSave_ok) (simp add: lv assms)
  have "initBattlePokeFromSave src nick gn = m\<lparr>hp := (if be16 (sv_hp src) = 0 \<or> maxHp m < be16 (sv_hp src)
         then maxHp m else be16 (sv_hp src)),
       moves := map unat (take 4 (sv_moves src)), pp := map unat (take 4 (sv_pp src)),
       status := unat (sv_status src)\<rparr>"
    unfolding initBattlePokeFromSave_def Let_def m_def dst_def ..
  moreover have "level m = saveLevel src" by (simp add: m_def lv)
  ultimately show ?thesis
    using st assms by (simp add: mon_ok_def stages_ok_iff m_def dst_def initSentinelFields_def zeroPoke_def)
qed

lemma initSide_ok: "save_ok p \<Longrightarrow> party_ok (3 \<le> gn) (initSide gn p)"
  by (auto simp: save_ok_def party_ok_def initSide_def Let_def emptyParty_def nth_append intro!: initFromSave_ok)

lemma start_safe:
  assumes "save_ok p1" "save_ok p2" "logOn e0" "\<not> fault e0"
  shows "safe (3 \<le> gn) (start p1 p2 seed gn e0)"
  using assms
  by (auto simp: safe_def start_def isGen3_def seedRng_def Let_def intro: initSide_ok split: side.split)

lemma replaceOpponent_safe: "safe g e \<Longrightarrow> save_ok p \<Longrightarrow> safe g (replaceOpponent p e)"
  using initSide_ok [of p "gen e"] by (auto simp: safe_def replaceOpponent_def isGen3_def)

subsection \<open>The engine as a transition system\<close>

text \<open>Every public operation that changes the engine.\<close>

datatype engineOp = Net netOp | Forfeit nat | NextOpponent Gen1Party

fun engineStep :: "engineOp \<Rightarrow> Engine \<Rightarrow> Engine" where
  "engineStep (Net c) e = netStep c e"
| "engineStep (Forfeit s) e = snd (run_state (forfeit s) e)"
| "engineStep (NextOpponent p) e = replaceOpponent p e"

fun engineAllowed :: "engineOp \<Rightarrow> bool" where
  "engineAllowed (NextOpponent p) \<longleftrightarrow> save_ok p"
| "engineAllowed c \<longleftrightarrow> True"

definition started :: "bool \<Rightarrow> Engine \<Rightarrow> bool" where
  "started g e \<longleftrightarrow> (\<exists>p1 p2 seed gn. save_ok p1 \<and> save_ok p2 \<and> g = (3 \<le> gn) \<and>
     e = start p1 p2 seed gn (newEngine True))"

lemma netStep_safe: "safe g e \<Longrightarrow> safe g (netStep c e)"
  using keeps_executeTurn [of g] keeps_autoReplace [of g]
  by (cases c) (auto simp: keeps_def submit_safe)

lemma engineStep_safe: "safe g e \<Longrightarrow> engineAllowed c \<Longrightarrow> safe g (engineStep c e)"
  using keeps_forfeit [of g]
  by (cases c) (auto simp: keeps_def netStep_safe replaceOpponent_safe)

interpretation engine: transition_system "started g" engineStep engineAllowed "safe g" for g
  by unfold_locales (auto simp: started_def newEngine_def intro: start_safe engineStep_safe)

end
