(* ===== verification/BattleProps.thy ===== *)
theory BattleProps
  imports BattleInvariant
begin

text \<open>
  What the battle engine guarantees to the module that drives it, and where it does not do what it
  means to.  Each property is stated over the model's definitions; a property with a hypothesis is
  followed by an instance at a concrete battle.
\<close>

subsection \<open>A concrete battle\<close>

text \<open>A party of one monster of level 50; \<open>h\<close> is its saved HP (0 reads as full HP).\<close>

definition demoMon :: "byte \<Rightarrow> byte list \<Rightarrow> byte \<Rightarrow> Gen1Pokemon" where
  "demoMon sp mvs h = \<lparr>sv_species = sp, sv_hp = [0, h], sv_boxLevel = 50, sv_status = 0, sv_type1 = 0,
     sv_type2 = 0, sv_catchRate = 0, sv_moves = mvs, sv_otId = [0, 0], sv_exp = [0, 0, 0],
     sv_hpExp = [0, 0], sv_atkExp = [0, 0], sv_defExp = [0, 0], sv_spdExp = [0, 0],
     sv_spcExp = [0, 0], sv_dvs = [0x88, 0x88], sv_pp = [10, 10, 10, 10], sv_level = 50,
     sv_maxHp = [0, 0], sv_atk = [0, 0], sv_def = [0, 0], sv_spd = [0, 0], sv_spc = [0, 0]\<rparr>"

definition demoParty :: "byte \<Rightarrow> byte list \<Rightarrow> byte \<Rightarrow> Gen1Party" where
  "demoParty sp mvs h = \<lparr>gp_count = 1, gp_species = [sp], gp_mons = [demoMon sp mvs h],
     gp_otNames = [[0x50]], gp_nicknames = [[0x80, 0x50, 0, 0, 0, 0, 0, 0, 0, 0, 0]]\<rparr>"

text \<open>Pikachu (Thunderbolt, Quick Attack) against Pidgey (Gust, Quick Attack), Gen 1 rules.\<close>

definition demoBattle :: Engine where
  "demoBattle = start (demoParty 0x54 [85, 98, 0, 0] 0) (demoParty 0x24 [16, 98, 0, 0] 0) 7 1 (newEngine True)"

lemma demo_save_ok: "length mvs = 4 \<Longrightarrow> save_ok (demoParty sp mvs h)"
  by (simp add: save_ok_def demoParty_def demoMon_def saveLevel_def Let_def)

lemma demoBattle_safe: "safe False demoBattle"
  unfolding demoBattle_def
  using start_safe [of _ _ "newEngine True" 1] by (simp add: demo_save_ok newEngine_def)

subsection \<open>Two peers\<close>

lemma swapE_newEngine: "swapE (newEngine b) = newEngine b"
  by (simp add: swapE_def newEngine_def comp_def)

text \<open>
  C1 Two devices that start a networked battle from the same seed, each with itself as side 0, and
  perform the same operations stay each other's mirror image as long as no turn has a speed tie:
  the exchanged state hashes agree, the parties and the result are mirrored, and the logs are equal.
\<close>

theorem peers_in_lockstep:
  assumes "tieFree cs (start p1 p2 seed g (newEngine b))"
  shows "let a = fold netStep cs (start p1 p2 seed g (newEngine b));
             d = fold netStep (map swapOp cs) (start p2 p1 seed g (newEngine b))
         in hashState d = hashState a \<and> parties d = parties a \<circ> other \<and>
            result d = swapResult (result a) \<and> elog d = elog a \<and> fault d = fault a"
proof -
  have "start p2 p1 seed g (newEngine b) = swapE (start p1 p2 seed g (newEngine b))"
    using start_swapE [of p2 p1 seed g "newEngine b"] by (simp add: swapE_newEngine)
  then show ?thesis
    using netRun_swapE [OF assms] by (simp add: Let_def hashState_def stateHash_swapE)
qed

lemma peers_in_lockstep_witness:
  "let cs = [Submit S0 1 0, Submit S1 0 254, Turn];
       d = fold netStep (map swapOp cs)
             (start (demoParty 0x24 [16, 98, 0, 0] 0) (demoParty 0x54 [85, 98, 0, 0] 0) 7 1 (newEngine True))
   in hashState d = hashState (fold netStep cs demoBattle)"
proof -
  have "tieFree [Submit S0 1 0, Submit S1 0 254, Turn]
     (start (demoParty 0x54 [85, 98, 0, 0] 0) (demoParty 0x24 [16, 98, 0, 0] 0) 7 1 (newEngine True))"
    by (simp add: submitAction_def Let_def side_of_def speedTie_def actionPriority_def)
  from peers_in_lockstep [OF this] show ?thesis by (simp add: Let_def demoBattle_def)
qed


lemma symmetric_tie: "swapE e = e \<Longrightarrow> speedTie e"
proof -
  assume e: "swapE e = e"
  have "activeMon e S0 = activeMon (swapE e) S0" "pendAction e S0 = pendAction (swapE e) S0"
    "actionPriority e S0 a = actionPriority (swapE e) S0 a" for a
    using e by simp_all
  then show ?thesis by (simp add: speedTie_def actionPriority_swapE)
qed


lemma hashState_inject: "hashState e = hashState e' \<Longrightarrow> stateHash e = stateHash e'"
proof -
  assume eq: "hashState e = hashState e'"
  have bit: "bit (hashState e ! (n div 8)) (n mod 8) = bit (stateHash e) n" if "n < 64" for n e
    using that by (simp add: hashState_def bit_ucast_iff bit_drop_bit_eq less_mult_imp_div_less)
  show ?thesis
  proof (rule bit_word_eqI)
    fix n assume "n < LENGTH(64)"
    then have n: "n < 64" by simp
    show "bit (stateHash e) n = bit (stateHash e') n"
      using bit [OF n, of e] bit [OF n, of e'] eq by simp
  qed
qed

text \<open>
  The state hash detects every difference in one byte of one side's state: two engines with the
  same turn bytes and the same opposite side whose byte images of one side differ in exactly one
  place have different hashes.
\<close>

theorem hash_detects_single_byte:
  assumes "sideBytes (parties e s) = xs @ b # ys" "sideBytes (parties e' s) = xs @ c # ys"
    and "b \<noteq> c" "b < 256" "c < 256"
    and "parties e' (other s) = parties e (other s)" "turnBytes e' = turnBytes e"
  shows "hashState e' \<noteq> hashState e"
proof
  have diff: "fnv (sideBytes (parties e s)) \<noteq> fnv (sideBytes (parties e' s))"
    using fnv_single_byte [OF assms(4,5,3)] assms(1,2) by simp
  have hash: "stateHash x = fnv (turnBytes x) XOR (fnv (sideBytes (parties x s)) XOR fnv (sideBytes (parties x (other s))))" for x
    by (cases s) (simp_all add: stateHash_def ac_simps)
  have cancel: "x = y" if "a XOR (x XOR z) = a XOR (y XOR z)" for a x y z :: "64 word"
  proof -
    have "(a XOR (a XOR (x XOR z))) XOR z = (a XOR (a XOR (y XOR z))) XOR z" using that by simp
    then show ?thesis by (simp add: xor.assoc [symmetric]) (simp add: xor.assoc)
  qed
  assume "hashState e' = hashState e"
  then have "stateHash e' = stateHash e" by (rule hashState_inject)
  then have "fnv (sideBytes (parties e' s)) = fnv (sideBytes (parties e s))"
    using hash [of e] hash [of e'] assms(6,7) cancel by simp
  with diff show False by simp
qed

lemma hash_detects_single_byte_witness:
  "hashState (onParty S0 (\<lambda>p. p\<lparr>reflect := True\<rparr>) demoBattle) \<noteq> hashState demoBattle"
proof -
  define p where "p = parties demoBattle S0"
  have off: "\<not> reflect p" by (simp add: p_def demoBattle_def start_def initSide_def emptyParty_def Let_def)
  have a: "sideBytes (parties demoBattle S0) = [active p] @ 0 # tl (tl (sideBytes p))"
    using off by (simp add: p_def sideBytes_def boolByte_def)
  have b: "sideBytes (parties (onParty S0 (\<lambda>p. p\<lparr>reflect := True\<rparr>) demoBattle) S0)
      = [active p] @ 1 # tl (tl (sideBytes p))"
    by (simp add: p_def sideBytes_def boolByte_def)
  show ?thesis
    using hash_detects_single_byte [OF a b] by (simp add: turnBytes_def)
qed

subsection \<open>No run faults\<close>

text \<open>
  C2 From a start with two save parties of one to six monsters of level 1 to 100 and a log sink,
  no sequence of calls - actions with any bytes, turns, replacements, forfeits, further opponents -
  divides by zero, overflows a signed integer or calls a null sink, and every index, slot, stage and
  stat stays in its range.
\<close>

theorem engine_never_faults:
  assumes "save_ok p1" "save_ok p2" "list_all engineAllowed cs"
  shows "let e = fold engineStep cs (start p1 p2 seed gn (newEngine True))
         in \<not> fault e \<and> (\<forall>s. party_ok (3 \<le> gn) (parties e s))"
proof -
  have "started (3 \<le> gn) (start p1 p2 seed gn (newEngine True))"
    using assms(1,2) by (auto simp: started_def)
  from engine.reach_inv [OF this assms(3)] show ?thesis by (simp add: safe_def Let_def)
qed

lemma engine_never_faults_witness:
  "let p = demoParty 0x54 [85, 98, 0, 0] 0;
       e = fold engineStep [Net (Submit S0 0 200), Net (Submit S1 0 0), Net Turn, Forfeit 3, NextOpponent p]
             (start p p 7 1 (newEngine True))
   in \<not> fault e \<and> (\<forall>s. party_ok False (parties e s))"
  using engine_never_faults [of "demoParty 0x54 [85, 98, 0, 0] 0" "demoParty 0x54 [85, 98, 0, 0] 0"
      "[Net (Submit S0 0 200), Net (Submit S1 0 0), Net Turn, Forfeit 3, NextOpponent (demoParty 0x54 [85, 98, 0, 0] 0)]" 7 1]
  by (simp add: demo_save_ok Let_def)

lemma bind_in: "(\<And>x. f x \<in> S) \<Longrightarrow> None \<in> S \<Longrightarrow> Option.bind a f \<in> S"
  by (cases a) auto

lemma typedDamage_immune: "e1 = 0 \<or> e2 = 0 \<Longrightarrow> typedDamage d st e1 e2 x \<in> {None, Some 0}"
proof -
  have "typedDamage d st 0 e2 x \<in> {None, Some 0}"
    unfolding typedDamage_def by (cases st; cases d; simp del: insert_iff; (intro bind_in)?; simp)
  moreover have "typedDamage d st e1 0 x \<in> {None, Some 0}"
    unfolding typedDamage_def by (cases st; cases d; simp del: insert_iff; (intro bind_in)?; simp)
  ultimately show "e1 = 0 \<or> e2 = 0 \<Longrightarrow> typedDamage d st e1 e2 x \<in> {None, Some 0}" by metis
qed

text \<open>
  C3 The damage of a move from the tables is a \<open>uint16_t\<close> computed without overflow or division by
  zero, and it is 0 for a move without power and for a target that is immune to the move's type.
\<close>

theorem damage_in_range:
  assumes "safe g e" "mdata g i = Some mv"
  shows "let (r, e') = run_state (calcDamage s t mv) e in fst r \<le> 65535 \<and> \<not> fault e' \<and>
    (mpower mv = 0 \<or> eff1 g mv (activeMon e t) = 0 \<or> eff2 g mv (activeMon e t) = 0 \<longrightarrow> fst r = 0)"
proof -
  have "mpower mv \<le> 255" using assms(2) by (rule mdata_power)
  then have "keeps (safe g) (calcDamage s t mv) (\<lambda>(d, c). d \<le> 65535)" by (rule keeps_calcDamage)
  from keepsD [OF this assms(1)]
  have "fst (fst (run_state (calcDamage s t mv) e)) \<le> 65535" "\<not> fault (snd (run_state (calcDamage s t mv) e))"
    by (auto simp: safe_def split_beta)
  moreover have "fst (fst (run_state (calcDamage s t mv) e)) = 0" if "mpower mv = 0"
    using that by (simp add: calcDamage_def run_basics)
  moreover have "fst (fst (run_state (calcDamage s t mv) e)) = 0"
    if im: "eff1 g mv (activeMon e t) = 0 \<or> eff2 g mv (activeMon e t) = 0"
  proof -
    have zero: "fst (fst (run_state (case X of None \<Rightarrow> do { trap; State_Monad.return (0, c) }
          | Some dmg \<Rightarrow> if dmg = 0 then State_Monad.return (0, c) else k dmg) x)) = 0"
      if "X \<in> {None, Some 0}" for X c x and k :: "int \<Rightarrow> (nat \<times> bool) eng"
      using that by (auto simp: trap_def)
    have "Option.bind b (typedDamage d st (eff1 g mv (activeMon e t)) (eff2 g mv (activeMon e t))) \<in> {None, Some 0}"
      for b d st using typedDamage_immune [OF im] by (cases b) auto
    note zero [OF this]
    then show ?thesis
      using assms(1) unfolding calcDamage_def Let_def
      by (auto simp: run_basics safe_def split_beta)
  qed
  ultimately show ?thesis by (auto simp: split_beta)
qed

lemma gen1_has_pound: "\<exists>mv. mdata False 1 = Some mv"
  using gen1Move_nth [of 0] by (simp add: mdata_def)

lemma damage_in_range_witness:
  "\<exists>mv. mdata False 1 = Some mv \<and>
     (let (r, e') = run_state (calcDamage S0 S1 mv) demoBattle in fst r \<le> 65535 \<and> \<not> fault e')"
proof -
  obtain mv where mv: "mdata False 1 = Some mv" using gen1_has_pound by blast
  from damage_in_range [OF demoBattle_safe mv, of S0 S1] mv show ?thesis by (auto simp: split_beta)
qed

text \<open>
  The stat formula never wraps for a level of at most 100: its 32-bit product and its 16-bit
  result are the exact integers, at most 714.
\<close>

theorem calcStat_exact:
  assumes "base \<le> 255" "iv \<le> 15" "x < 65536" "lv \<le> 100"
  shows "calcStat base iv x lv hpStat =
     ((base + iv) * 2 + (isqrt16 x + 3) div 4) * lv div 100 + (if hpStat then lv + 10 else 5) \<and>
     calcStat base iv x lv hpStat \<le> 714"
proof -
  let ?n = "((base + iv) * 2 + (isqrt16 x + 3) div 4) * lv"
  have "(base + iv) * 2 + (isqrt16 x + 3) div 4 \<le> 604"
    using isqrt16_le [OF assms(3)] assms(1,2) by presburger
  then have n: "?n \<le> 604 * 100" using assms(4) by (rule mult_le_mono)
  then have "u32 ?n = ?n" by simp
  moreover have "?n div 100 \<le> 604" using n by linarith
  ultimately show ?thesis using assms(4) by (simp add: calcStat_def Let_def)
qed

lemma calcStat_exact_witness: "calcStat 255 15 65535 100 True \<le> 714"
  using calcStat_exact [of 255 15 65535 100 True] by simp

end
