(* ===== verification/BattleRules.thy ===== *)
theory BattleRules
  imports BattleProps
begin

text \<open>
  The rules of a turn, operation by operation: who acts first, when a turn ends the battle, who may
  switch in, what a switch gives back, what the CPU picks, and the size of a log line.
\<close>

subsection \<open>What a move cannot touch\<close>

text \<open>
  The operations of a turn write the state through a handful of primitives; an invariant that those
  keep is kept by every operation.
\<close>

named_theorems frame_keep \<open>operations that keep a frame\<close>

lemma take_le: "length (take n xs) \<le> n"
  by simp

locale engine_frame =
  fixes I :: "Engine \<Rightarrow> bool"
  assumes keep_updMon: "preserves I (updMon s h)"
    and keep_updParty: "preserves I (updParty s k)"
    and keep_rand32: "preserves I rand32"
    and keep_trap: "preserves I trap"
    and keep_emit: "preserves I (emit t p m)"
    and keep_rawLog: "length msg \<le> 63 \<Longrightarrow> preserves I (rawLog msg)"
begin

lemma keep_reads: "preserves I (gets f)" "preserves I (mon s)" "preserves I (party s)"
  by (simp_all add: keeps_def run_basics)

lemma keep_step: "preserves I m \<Longrightarrow> (\<And>x. preserves I (f x)) \<Longrightarrow> preserves I (m \<bind> f)"
  by (rule keeps_bind)

lemma keep_short: "preserves I (rawLog (take 63 x))" "preserves I (rawLog (take 39 x))"
  by (rule keep_rawLog, rule le_trans [OF take_le], simp)+

lemmas frame_rules = keep_step keeps_if keeps_when keeps_Let keeps_case_option keeps_case_prod
  keeps_return keeps_skip TrueI keep_updMon keep_updParty keep_rand32 keep_trap keep_emit keep_reads
  keep_short

lemma frame_say [frame_keep]:
  "preserves I (say t s)" "preserves I (sayMove t s mv)" "preserves I (percent p)"
  unfolding say_def sayMove_def percent_def by (rule frame_rules frame_keep)+

lemma frame_pre [frame_keep]:
  "preserves I (sayIfFainted s)" "preserves I (sleepCheck s)"
  "preserves I (parCheck s)" "preserves I (confusionCheck s)"
  "preserves I (emitStatChange s st d)" "preserves I (roll c)"
  "preserves I (hitCount ef)" "preserves I (hitMessages b i j)"
  "preserves I (rollHit s t mv)" "preserves I (flinchStop s)"
  unfolding sayIfFainted_def sleepCheck_def parCheck_def confusionCheck_def emitStatChange_def
    roll_def hitCount_def hitMessages_def rollHit_def flinchStop_def stageMessage_def
  by (rule frame_rules frame_keep)+

lemma frame_slots [frame_keep]:
  "preserves I (preMoveChecks s)" "preserves I (forcedSlot s b k mv)"
  "preserves I (bideTurn s b)" "preserves I (disabledCheck s b k)"
  "preserves I (spendPp s b k)" "preserves I (chargeStart s b k mv)"
  "preserves I (bideStart s b mv)" "preserves I (thrashStart s b k mv)"
  "preserves I (connects s t mv)"
  unfolding preMoveChecks_def forcedSlot_def bideTurn_def disabledCheck_def spendPp_def
    chargeStart_def bideStart_def thrashStart_def connects_def
  by (rule frame_rules frame_keep)+

lemma frame_damage [frame_keep]:
  "preserves I (calcDamage s t mv)" "preserves I (afterHit s t mv d)"
  unfolding calcDamage_def afterHit_def Let_def by (rule frame_rules frame_keep)+

lemma frame_block [frame_keep]: "preserves I (damageBlock s t mv)"
  unfolding damageBlock_def Let_def by (rule frame_rules frame_keep)+

lemma frame_status [frame_keep]:
  "preserves I (inflict t c st msg)" "preserves I (inflictSleep t c)"
  "preserves I (confuse t c)" "preserves I (hazeSide s)"
  unfolding inflict_def inflictSleep_def confuse_def hazeSide_def by (rule frame_rules frame_keep)+

lemma frame_effects [frame_keep]:
  "preserves I (fixedDamage s t mv)" "preserves I (secondaryEffect s t mv)"
  unfolding fixedDamage_def secondaryEffect_def
  by (cases "meffect mv"; simp only: Gen1MoveEffect.case; (rule frame_rules frame_keep)+)+

lemma frame_apply [frame_keep]: "preserves I (applyMove s t mv)"
  unfolding applyMove_def by (rule frame_rules frame_keep)+

lemma frame_after [frame_keep]:
  "preserves I (thrashEnd s mv)" "preserves I (counterHit s mv)"
  "preserves I (substituteUp s mv)" "preserves I (disableTarget s mv)"
  "preserves I (metronome s mv)" "preserves I (mimicMove s k mv)"
  "preserves I (transformMon s mv)" "preserves I (switchTo s i)"
  "preserves I (applyEndOfTurn s)" "preserves I (pokeActsFirst s a c)"
  unfolding thrashEnd_def counterHit_def substituteUp_def disableTarget_def metronome_def
    mimicMove_def transformMon_def switchTo_def applyEndOfTurn_def pokeActsFirst_def Let_def
  by (rule frame_rules frame_keep)+

lemma frame_use [frame_keep]: "preserves I (fireMove s b k mv)" "preserves I (useMove s k)"
  unfolding useMove_def fireMove_def Let_def by (rule frame_rules frame_keep)+

lemma frame_step [frame_keep]: "preserves I (stepAction s)"
  unfolding stepAction_def by (rule frame_rules frame_keep)+

lemma frame_body:
  "preserves I (do { stepAction f; stepAction (other f); applyEndOfTurn f; applyEndOfTurn (other f) })"
  by (rule frame_rules frame_keep)+

lemma frame_replace [frame_keep]: "preserves I (autoReplaceIfFainted s)"
  unfolding autoReplaceIfFainted_def by (rule frame_rules frame_keep)+

end

text \<open>No operation of a turn but its end writes the result, the counters or the submitted actions.\<close>

definition header :: "Engine \<Rightarrow> Result \<times> nat \<times> nat \<times> 32 word \<times> (side \<Rightarrow> nat) \<times> (side \<Rightarrow> nat)" where
  "header e = (result e, turn e, gen e, rngSeed e, pendAction e, pendIndex e)"

interpretation header_frame: engine_frame "\<lambda>e. header e = r" for r
  by unfold_locales
    (simp_all add: keeps_def run_basics header_def rand32_def nextRng_def Let_def emit_def rawLog_def)

text \<open>Every line written to the log fits the 64-byte buffers of the source.\<close>

definition logFits :: "Engine \<Rightarrow> bool" where
  "logFits e \<longleftrightarrow> list_all (\<lambda>l. length l \<le> 63) (elog e)"

lemma expand_length: "length (expand poke move target num room s) \<le> room"
proof (induction "length s" arbitrary: room s rule: less_induct)
  case less
  show ?case
  proof (cases s)
    case Nil
    then show ?thesis by (simp add: expand.simps)
  next
    case (Cons c cs)
    have one: "length (d # expand poke move target num (room - 1) ds) \<le> room"
      if "room \<noteq> 0" "length ds < length s" for d ds
      using less [OF that(2), of "room - 1"] that(1) by simp
    have sub: "length (take room x @ expand poke move target num (room - length (take room x)) r) \<le> room"
      if "length r < length s" for x r
      using less [OF that, of "room - length (take room x)"] take_le [of room x] by simp
    have rest: "length r < length s" if "placeholder_at (c # cs) = Some (ph, r)" for ph r
      using placeholder_at_shorter [OF that] Cons by simp
    show ?thesis
    proof (cases "room = 0 \<or> placeholder_at (c # cs) = None")
      case True
      then show ?thesis using one [of cs c] Cons by (auto simp: expand.simps)
    next
      case False
      then obtain ph r where ph: "placeholder_at (c # cs) = Some (ph, r)" "room \<noteq> 0" by auto
      define x where "x = (case ph of PhPokemon \<Rightarrow> poke | PhMove \<Rightarrow> move
                 | PhTarget \<Rightarrow> (if target = None then poke else target)
                 | PhNum \<Rightarrow> Some (take 7 (showInt num)))"
      have eq: "expand poke move target num room s =
        (case x of Some y \<Rightarrow> take room y @ expand poke move target num (room - length (take room y)) r
         | None \<Rightarrow> (case r of [] \<Rightarrow> [] | d # ds \<Rightarrow> d # expand poke move target num (room - 1) ds))"
        unfolding x_def by (simp only: Cons expand.simps(2) ph option.case prod.case if_False Let_def)
      show ?thesis
      proof (cases x)
        case None
        then show ?thesis
          using rest [OF ph(1)] one ph(2) unfolding eq by (cases r) simp_all
      next
        case (Some y)
        then show ?thesis using sub [OF rest [OF ph(1)], of y] unfolding eq by simp
      qed
    qed
  qed
qed

interpretation log_frame: engine_frame logFits
  by unfold_locales
    (auto simp: keeps_def run_basics logFits_def rand32_def nextRng_def Let_def emit_def rawLog_def expand_length)

subsection \<open>Turns\<close>

text \<open>
  C4 A turn runs only when the battle is on and both sides have submitted; otherwise nothing changes.
  A turn that runs clears both actions, counts one turn, and leaves the result that the two parties
  decide: a draw when neither has a monster with HP, a win for the side that alone has one, and
  otherwise the battle goes on.
\<close>

theorem turn_decides_result:
  "let e' = netStep Turn e
   in if result e = ONGOING \<and> pendAction e S0 \<noteq> 255 \<and> pendAction e S1 \<noteq> 255
      then pendAction e' = (\<lambda>_. 255) \<and> turn e' = u16 (turn e + 1) \<and>
           result e' = (case (alive (parties e' S0), alive (parties e' S1)) of
              (False, False) \<Rightarrow> DRAW | (False, True) \<Rightarrow> P2_WIN | (True, False) \<Rightarrow> P1_WIN
            | (True, True) \<Rightarrow> ONGOING)
      else e' = e"
proof (cases "result e \<noteq> ONGOING \<or> pendAction e S0 = 255 \<or> pendAction e S1 = 255")
  case True
  then have "netStep Turn e = e" by (simp add: run_executeTurn)
  with True show ?thesis by (auto simp: Let_def)
next
  case False
  define d where "d = snd (run_state (pokeActsFirst S0 (pendAction e S0) (pendAction e S1)) e)"
  define f where "f = (if fst (run_state (pokeActsFirst S0 (pendAction e S0) (pendAction e S1)) e) then S0 else S1)"
  define b where "b = snd (run_state (do { stepAction f; stepAction (other f); applyEndOfTurn f; applyEndOfTurn (other f) }) d)"
  have "header d = header e" unfolding d_def
    using header_frame.frame_after(10) by (simp add: keeps_def)
  moreover have "header b = header d" unfolding b_def
    using header_frame.frame_body by (simp add: keeps_def)
  ultimately have hb: "result b = ONGOING" "turn b = turn e" using False by (simp_all add: header_def)
  have "netStep Turn e = snd (run_state endTurn b)"
    using False by (simp add: run_executeTurn turnBody_def b_def d_def f_def split_beta)
  then show ?thesis
    using False hb by (simp add: endTurn_def outcome_def Let_def)
qed

lemma logFits_step: "logFits e \<Longrightarrow> logFits (engineStep c e)"
proof (induction c e rule: engineStep.induct)
  case (1 c e)
  have ex: "preserves logFits executeTurn"
    unfolding executeTurn_def endTurn_def Let_def
    by (rule log_frame.frame_rules frame_keep | rule keeps_modify, simp add: logFits_def)+
  have "preserves logFits (autoReplaceIfFainted s)" for s by (rule log_frame.frame_replace)
  with ex 1 show ?case
    by (cases c) (simp_all add: keeps_def submitAction_def Let_def logFits_def)
next
  case (2 s e)
  have "preserves logFits (forfeit s)"
    unfolding forfeit_def
    by (rule log_frame.frame_rules frame_keep | rule keeps_modify, simp add: logFits_def)+
  with 2 show ?case by (simp add: keeps_def)
next
  case (3 p e)
  then show ?case by (simp add: replaceOpponent_def logFits_def)
qed

text \<open>
  Every line the engine logs, over any sequence of calls, is at most 63 characters: the text
  fits the 64-byte buffers of \<open>emit\<close> and \<open>emitStatChange\<close> with its terminator.
\<close>

theorem log_lines_fit:
  "logFits (fold engineStep cs (start p1 p2 seed gn (newEngine sink)))"
proof -
  have "logFits e \<Longrightarrow> logFits (fold engineStep cs e)" for e
    by (induction cs arbitrary: e) (auto intro: logFits_step)
  then show ?thesis
    by (simp add: logFits_def start_def seedRng_def newEngine_def Let_def)
qed

subsection \<open>Switching and replacement\<close>

text \<open>
  A submitted switch happens exactly when the battle is on, the active monster is up, and the
  chosen slot is in the party, not active and not fainted; it then makes that slot active, clears the
  volatile state of the monster that leaves and touches nothing of the other side.  Otherwise the
  action does nothing at all.
\<close>

theorem switch_rule:
  assumes "pendAction e s = 1"
  shows "let bp = parties e s; i = pendIndex e s; e' = snd (run_state (stepAction s) e)
     in if result e = ONGOING \<and> hp (activeMon e s) \<noteq> 0 \<and> i < pcount bp \<and> i \<noteq> active bp \<and> hp (mons bp ! i) \<noteq> 0
        then active (parties e' s) = i \<and> mons (parties e' s) = upd_at (active bp) clearVolatile (mons bp) \<and>
             parties e' (other s) = parties e (other s)
        else e' = e"
  using assms
  by (auto simp: stepAction_def run_basics switchTo_def split_beta Let_def)

lemma switch_rule_witness:
  "snd (run_state (stepAction S0) (demoBattle\<lparr>pendAction := (\<lambda>_. 1)\<rparr>)) = demoBattle\<lparr>pendAction := (\<lambda>_. 1)\<rparr>"
proof -
  have "active (parties demoBattle S0) = 0" "pendIndex demoBattle S0 = 0"
    by (simp_all add: demoBattle_def start_def seedRng_def newEngine_def initSide_def emptyParty_def Let_def)
  then show ?thesis
    using switch_rule [of "demoBattle\<lparr>pendAction := (\<lambda>_. 1)\<rparr>" S0] by (simp add: Let_def split: if_splits)
qed

lemma alive_find: "pcount p \<le> length (mons p) \<Longrightarrow>
    alive p \<longleftrightarrow> find (\<lambda>i. 0 < hp (mons p ! i)) [0..<pcount p] \<noteq> None"
  by (auto simp: alive_def list_ex_iff find_None_iff nth_image [symmetric])

lemma find_upt_first:
  "find P [0..<n] = Some i \<Longrightarrow> P i \<and> i < n \<and> (\<forall>j < i. \<not> P j)"
  by (auto simp: find_Some_iff)

text \<open>
  A fainted active monster is replaced by the first one with HP, if the party has one; the call
  answers whether there is a monster to fight with, and changes nothing when the active one is up or
  nobody is left.
\<close>

theorem replacement_rule:
  assumes "pcount (parties e s) \<le> length (mons (parties e s))"
  shows "let bp = parties e s; (b, e') = run_state (autoReplaceIfFainted s) e; k = active (parties e' s)
     in if hp (activeMon e s) > 0 then b \<and> e' = e
        else (b \<longleftrightarrow> alive bp) \<and> (\<not> b \<longrightarrow> e' = e) \<and>
             (b \<longrightarrow> k < pcount bp \<and> hp (mons bp ! k) > 0 \<and> (\<forall>j < k. hp (mons bp ! j) = 0))"
proof (cases "find (\<lambda>i. 0 < hp (mons (parties e s) ! i)) [0..<pcount (parties e s)]")
  case None
  then show ?thesis
    using alive_find [OF assms] by (simp add: autoReplaceIfFainted_def run_basics Let_def)
next
  case (Some i)
  then show ?thesis
    using alive_find [OF assms] find_upt_first [OF Some]
    by (simp add: autoReplaceIfFainted_def run_basics Let_def split_beta)
qed

lemma replacement_rule_witness:
  "fst (run_state (autoReplaceIfFainted S0) (onParty S0 (setActive (\<lambda>m. m\<lparr>hp := 0\<rparr>)) demoBattle)) =
     alive (parties (onParty S0 (setActive (\<lambda>m. m\<lparr>hp := 0\<rparr>)) demoBattle) S0)"
proof -
  let ?e = "onParty S0 (setActive (\<lambda>m. m\<lparr>hp := 0\<rparr>)) demoBattle"
  have ok: "party_ok False (parties demoBattle S0)" using demoBattle_safe by (simp add: safe_def)
  then have "pcount (parties ?e S0) \<le> length (mons (parties ?e S0))" "hp (activeMon ?e S0) = 0"
    by (simp_all add: party_ok_def activeMon_def nth_upd_at)
  then show ?thesis
    using replacement_rule [of ?e S0] by (simp add: Let_def split_beta)
qed

text \<open>The record Transform writes: \<open>u\<close> as a copy of \<open>t\<close>, with the backup.\<close>

definition copyOf :: "BattlePoke \<Rightarrow> BattlePoke \<Rightarrow> BattlePoke" where
  "copyOf t u = u\<lparr>transformed := True, origSpecies := species u, origType1 := type1 u, origType2 := type2 u,
     origAtk := atk u, origDef := dfn u, origSpd := spd u, origSpc := spc u, origMoves := moves u,
     origPp := pp u, species := species t, type1 := type1 t, type2 := type2 t, atk := atk t, dfn := dfn t,
     spd := spd t, spc := spc t, moves := moves t, pp := [5, 5, 5, 5]\<rparr>"

lemma activeMon_say [simp]: "activeMon (snd (run_state (say tmpl t) e)) s = activeMon e s"
  by (simp add: activeMon_def)

lemma activeMon_updMon:
  "active (parties e s) < length (mons (parties e s)) \<Longrightarrow>
   activeMon (onParty s (setActive f) e) s = f (activeMon e s)"
  by (simp add: activeMon_onParty nth_upd_at activeMon_def [symmetric])

lemma activeMon_transform:
  assumes "active (parties e s) < length (mons (parties e s))"
  shows "activeMon (snd (run_state (transformMon s mv) e)) s =
    (if meffect mv = EFF_TRANSFORM \<and> \<not> transformed (activeMon e s)
     then copyOf (activeMon e (other s)) (activeMon e s) else activeMon e s)"
  using assms by (simp add: transformMon_def run_basics split_beta activeMon_updMon copyOf_def)

text \<open>
  Leaving the field gives back what Transform took: after Transform, \<open>clearVolatile\<close> restores the
  species, types, stats, moves and PP the monster had.
\<close>

theorem switch_out_undoes_transform:
  assumes "meffect mv = EFF_TRANSFORM" "\<not> transformed (activeMon e s)" "mimicSlot (activeMon e s) = 255"
    and "active (parties e s) < length (mons (parties e s))"
  shows "let u = activeMon e s; m = clearVolatile (activeMon (snd (run_state (transformMon s mv) e)) s)
     in species m = species u \<and> type1 m = type1 u \<and> type2 m = type2 u \<and> atk m = atk u \<and> dfn m = dfn u \<and>
        spd m = spd u \<and> spc m = spc u \<and> moves m = moves u \<and> pp m = pp u \<and> hp m = hp u \<and> \<not> transformed m"
  using assms
  by (simp add: activeMon_transform copyOf_def clearVolatile_def restoreTransform_def restoreMimic_def
      clearCounters_def clearBoosts_def Let_def)

lemma switch_out_undoes_transform_witness:
  "moves (clearVolatile (activeMon (snd (run_state (transformMon S0 (mkMove 144 ''Transform'' 0 0 0 10 0 EFF_TRANSFORM 0)) demoBattle)) S0))
   = moves (activeMon demoBattle S0)"
proof -
  have ok: "party_ok False (parties demoBattle S0)" using demoBattle_safe by (simp add: safe_def)
  have "\<not> transformed (activeMon demoBattle S0)" "mimicSlot (activeMon demoBattle S0) = 255"
    by (simp_all add: demoBattle_def start_def seedRng_def newEngine_def initSide_def emptyParty_def Let_def
        activeMon_def demoParty_def initBattlePokeFromSave_def statsFromSave_def initSentinelFields_def zeroPoke_def)
  then show ?thesis
    using switch_out_undoes_transform [of "mkMove 144 ''Transform'' 0 0 0 10 0 EFF_TRANSFORM 0" demoBattle S0] ok
    by (simp add: Let_def party_ok_def)
qed

subsection \<open>The CPU\<close>

definition usable :: "bool \<Rightarrow> BattlePoke \<Rightarrow> nat \<Rightarrow> bool" where
  "usable g m i \<longleftrightarrow> moves m ! i \<noteq> 0 \<and> pp m ! i \<noteq> 0 \<and> mdata g (moves m ! i) \<noteq> None"

definition slotScore :: "bool \<Rightarrow> BattlePoke \<Rightarrow> BattlePoke \<Rightarrow> nat \<Rightarrow> int" where
  "slotScore g m foe i = moveScore g m foe (the (mdata g (moves m ! i)))"

lemma bestMove_spec:
  "snd best \<le> snd (bestMove g m foe is best) \<and>
   (\<forall>i \<in> set is. usable g m i \<longrightarrow> slotScore g m foe i \<le> snd (bestMove g m foe is best)) \<and>
   (bestMove g m foe is best = best \<or>
    (\<exists>i \<in> set is. usable g m i \<and> bestMove g m foe is best = (i, slotScore g m foe i)))"
proof (induction "is" arbitrary: best)
  case Nil
  then show ?case by simp
next
  case (Cons i "is")
  show ?case
  proof (cases "usable g m i")
    case False
    then have "bestMove g m foe (i # is) best = bestMove g m foe is best"
      by (auto simp: usable_def)
    with Cons.IH [of best] False show ?thesis by auto
  next
    case True
    define nb where "nb = (if slotScore g m foe i > snd best then (i, slotScore g m foe i) else best)"
    have eq: "bestMove g m foe (i # is) best = bestMove g m foe is nb"
      using True by (auto simp: usable_def slotScore_def nb_def)
    have "snd best \<le> snd nb" "slotScore g m foe i \<le> snd nb" by (auto simp: nb_def)
    moreover have "nb = best \<or> nb = (i, slotScore g m foe i)" by (auto simp: nb_def)
    ultimately show ?thesis using Cons.IH [of nb] True unfolding eq by auto
  qed
qed

lemma moveScore_nonneg: "0 \<le> moveScore g m foe mv"
  by (auto simp: moveScore_def Let_def intro!: pos_imp_zdiv_nonneg_iff [THEN iffD2] mult_nonneg_nonneg)

lemma struggle_exists: "mdata g 165 \<noteq> None"
  using struggle_row by (auto simp: mdata_def)



subsection \<open>Who acts first\<close>

text \<open>
  A switch acts before any other action.  Between two actions of the same kind the higher
  priority of the move goes first, and at equal priority the faster monster - its speed scaled by its
  stage and quartered by paralysis; only a tie of both consults the generator.
\<close>

lemma turn_order:
  "(act \<noteq> 1 \<longrightarrow> run_state (pokeActsFirst s 1 act) e = (True, e) \<and> run_state (pokeActsFirst s act 1) e = (False, e)) \<and>
   (let p = actionPriority e s act; q = actionPriority e (other s) act';
        v = battleSpeed (activeMon e s); w = battleSpeed (activeMon e (other s))
    in p \<noteq> q \<or> v \<noteq> w \<longrightarrow> run_state (pokeActsFirst s act act') e = (if p \<noteq> q then p > q else v > w, e))"
proof -
  have six: "actionPriority e t (Suc 0) = 6" for t by (simp add: actionPriority_def)
  have "actionPriority e t act < 6" if "act \<noteq> 1" for t
    using that mdata_row [of "isGen3 e"] by (auto simp: actionPriority_def split: option.split)
  then have lt: "actionPriority e t act \<noteq> 6 \<and> 6 \<noteq> actionPriority e t act \<and> actionPriority e t act < 6 \<and> \<not> 6 < actionPriority e t act"
    if "act \<noteq> 1" for t using that by (metis less_irrefl less_asym)
  have "run_state (pokeActsFirst s 1 act) e = (True, e) \<and> run_state (pokeActsFirst s act 1) e = (False, e)"
    if "act \<noteq> 1" using lt [OF that] by (simp add: pokeActsFirst_def six)
  moreover have "run_state (pokeActsFirst s act act') e = (if p \<noteq> q then p > q else v > w, e)"
    if "p = actionPriority e s act" "q = actionPriority e (other s) act'" "v = battleSpeed (activeMon e s)"
      "w = battleSpeed (activeMon e (other s))" "p \<noteq> q \<or> v \<noteq> w" for p q v w
    using that(5) unfolding that(1-4) by (simp add: pokeActsFirst_def mon_def)
  ultimately show ?thesis by (simp add: Let_def)
qed

lemma turn_order_witness: "run_state (pokeActsFirst S0 1 0) demoBattle = (True, demoBattle)"
  using turn_order [of 0 S0 demoBattle 0] by simp

end
