(* ===== verification/BattleFlaws.thy ===== *)
theory BattleFlaws
  imports BattleRules
begin

text \<open>
  Where the engine does not do what it means to, each shown on the model: charging moves that never
  strike, Transform without the Gen 3 special stats, Mimic lost behind Transform, Super Fang on a
  fainted target, PP below zero, and state that the hash does not cover.
\<close>

subsection \<open>Charging moves\<close>

text \<open>The monster on side \<open>s\<close> before a charging move fires: no thrash lock, no Bide, the charge in \<open>C\<close>.\<close>

definition charge_inv :: "nat set \<Rightarrow> BattleParty \<Rightarrow> nat list \<Rightarrow> bool \<Rightarrow> side \<Rightarrow> Engine \<Rightarrow> bool" where
  "charge_inv C P M g s e \<longleftrightarrow> parties e (other s) = P \<and> isGen3 e = g \<and>
     active (parties e s) < length (mons (parties e s)) \<and>
     thrashSlot (activeMon e s) = 255 \<and> bideTurns (activeMon e s) = 0 \<and> moves (activeMon e s) = M \<and>
     chargingSlot (activeMon e s) \<in> C"

lemma upd_at_nth_cases: "upd_at i f xs ! i = (if i < length xs then f (xs ! i) else xs ! i)"
  by (simp add: upd_at_def list_update_beyond)

lemma charge_updMon:
  assumes "\<And>m. thrashSlot (f m) = thrashSlot m \<and> bideTurns (f m) = bideTurns m \<and> moves (f m) = moves m \<and>
     chargingSlot (f m) = chargingSlot m"
  shows "preserves (charge_inv C P M g s) (updMon s f)"
  unfolding updMon_def
  by (rule keeps_modify) (auto simp: charge_inv_def activeMon_onParty isGen3_def upd_at_nth_cases assms
      activeMon_def [symmetric])

lemma charge_prims:
  "preserves (charge_inv C P M g s) (gets h)" "preserves (charge_inv C P M g s) (mon t)"
  "preserves (charge_inv C P M g s) rand32" "preserves (charge_inv C P M g s) (emit x y z)"
  "preserves (charge_inv C P M g s) trap"
  by (simp_all add: keeps_def run_basics charge_inv_def rand32_def nextRng_def Let_def emit_def activeMon_def isGen3_def)

lemma charge_bind:
  "preserves (charge_inv C P M g s) m \<Longrightarrow> (\<And>x. preserves (charge_inv C P M g s) (f x)) \<Longrightarrow>
   preserves (charge_inv C P M g s) (m \<bind> f)"
  by (rule keeps_bind)

lemmas charge_rules = charge_bind keeps_if keeps_when keeps_Let keeps_return keeps_skip TrueI charge_prims

lemma charge_say: "preserves (charge_inv C P M g s) (say x t)" "preserves (charge_inv C P M g s) (sayMove x t mv)"
  "preserves (charge_inv C P M g s) (percent n)"
  unfolding say_def sayMove_def percent_def by (rule charge_rules)+

lemma charge_pre: "preserves (charge_inv C P M g s) (preMoveChecks s)"
  unfolding preMoveChecks_def sleepCheck_def parCheck_def confusionCheck_def
  by (rule charge_rules charge_say | rule charge_updMon, simp)+

lemma charge_disabled: "preserves (charge_inv C P M g s) (disabledCheck s b k)"
  unfolding disabledCheck_def by (rule charge_rules charge_say | rule charge_updMon, simp)+

lemma charge_pp: "preserves (charge_inv C P M g s) (spendPp s b k)"
  unfolding spendPp_def by (rule charge_rules | rule charge_updMon, simp)+

lemma charge_set:
  assumes "charge_inv C P M g s e" "j \<in> D"
  shows "charge_inv D P M g s (onParty s (setActive (\<lambda>m. m\<lparr>chargingSlot := j\<rparr>)) e)"
  using assms by (simp add: charge_inv_def activeMon_onParty isGen3_def nth_upd_at activeMon_def [symmetric])

lemma charge_forced:
  assumes "charge_inv {255, k} P M g s e" "mdata g (M ! k) = Some mv"
  obtains e' where "run_state (forcedSlot s False k mv) e = (Some (k, mv), e')" "charge_inv {255} P M g s e'"
proof (cases "chargingSlot (activeMon e s) = 255")
  case True
  then show ?thesis
    using assms by (intro that [of e]) (auto simp: forcedSlot_def run_basics charge_inv_def)
next
  case False
  then have "chargingSlot (activeMon e s) = k" using assms(1) by (simp add: charge_inv_def)
  then show ?thesis
    using assms False charge_set [OF assms(1), of 255 "{255}"]
    by (intro that [of "onParty s (setActive (\<lambda>m. m\<lparr>chargingSlot := 255\<rparr>)) e"])
      (auto simp: forcedSlot_def run_basics charge_inv_def)
qed

lemma charge_bide: "charge_inv C P M g s e \<Longrightarrow> run_state (bideTurn s b) e = (False, e)"
  by (simp add: bideTurn_def run_basics charge_inv_def)

lemma parties_sayMove [simp]: "parties (snd (run_state (sayMove tmpl s mv) e)) = parties e"
  by (simp add: sayMove_def emit_def run_basics)

lemma charge_fire:
  assumes "charge_inv {255} P M g s e" "meffect mv = EFF_CHARGE_TURN"
  shows "parties (snd (run_state (fireMove s False k mv) e)) (other s) = P"
  using assms
  by (simp add: fireMove_def chargeStart_def run_basics split_beta charge_inv_def activeMon_def)

text \<open>
  A move with a charging turn never strikes: choosing it starts the charge, and the forced turn
  that should strike resets the charge slot first and so starts the charge again.  Whichever turn it
  is, the other side's party is what it was.
\<close>

theorem charging_moves_never_strike:
  assumes mv: "selectMove (isGen3 e) (activeMon e s) k = Some mv" "meffect mv = EFF_CHARGE_TURN" "k \<noteq> 254"
    and u: "chargingSlot (activeMon e s) \<in> {255, k}" "thrashSlot (activeMon e s) = 255"
      "bideTurns (activeMon e s) = 0" "active (parties e s) < length (mons (parties e s))"
  shows "parties (snd (run_state (useMove s k) e)) (other s) = parties e (other s)"
proof -
  let ?P = "parties e (other s)" and ?M = "moves (activeMon e s)" and ?g = "isGen3 e"
  have i0: "charge_inv {255, k} ?P ?M ?g s e" using u by (simp add: charge_inv_def)
  have md: "mdata ?g (?M ! k) = Some mv" using mv(1,3) by (auto simp: selectMove_def split: if_splits option.splits)
  obtain go e1 where pre: "run_state (preMoveChecks s) e = (go, e1)" by fastforce
  have i1: "charge_inv {255, k} ?P ?M ?g s e1" using keepsD [OF charge_pre i0] pre by simp
  obtain e2 where f: "run_state (forcedSlot s False k mv) e1 = (Some (k, mv), e2)" "charge_inv {255} ?P ?M ?g s e2"
    using charge_forced [OF i1 md] .
  obtain d e3 where dis: "run_state (disabledCheck s False k) e2 = (d, e3)" by fastforce
  have i3: "charge_inv {255} ?P ?M ?g s e3" using keepsD [OF charge_disabled f(2), of False k] dis by simp
  have "charge_inv {255} ?P ?M ?g s (snd (run_state (spendPp s False k) e3))"
    using keepsD [OF charge_pp i3] by simp
  then have "parties (snd (run_state (fireMove s False k mv) (snd (run_state (spendPp s False k) e3)))) (other s) = ?P"
    using mv(2) by (rule charge_fire)
  then show ?thesis
    using mv(1,3) pre f(1) dis charge_bide [OF f(2)] i1 i3
    by (simp add: useMove_def run_basics split_beta charge_inv_def)
qed

lemma razor_wind: "\<exists>m. gen1Move 13 = Some m \<and> meffect m = EFF_CHARGE_TURN"
proof -
  have "meffect (GEN1_MOVES ! 12) = EFF_CHARGE_TURN" by (simp add: GEN1_MOVES_def)
  then show ?thesis using gen1Move_nth [of 12] by simp
qed

text \<open>The demonstration battle with other moves on side 0.\<close>

definition demoWith :: "byte list \<Rightarrow> Engine" where
  "demoWith mvs = start (demoParty 0x54 mvs 0) (demoParty 0x24 [16, 98, 0, 0] 0) 7 1 (newEngine True)"

lemma demoWith_party:
  "parties (demoWith mvs) S0 = initSide 1 (demoParty 0x54 mvs 0)"
  "parties (demoWith mvs) S1 = initSide 1 (demoParty 0x24 [16, 98, 0, 0] 0)"
  "isGen3 (demoWith mvs) = False"
  by (simp_all add: demoWith_def start_def seedRng_def Let_def isGen3_def)

lemma demoSide:
  "active (initSide g (demoParty sp mvs h)) = 0" "length (mons (initSide g (demoParty sp mvs h))) = 6"
  "mons (initSide g (demoParty sp mvs h)) ! 0 =
     initBattlePokeFromSave (demoMon sp mvs h) [0x80, 0x50, 0, 0, 0, 0, 0, 0, 0, 0, 0] g"
  by (simp_all add: initSide_def Let_def emptyParty_def demoParty_def)

lemma demoMon_fields:
  "length mvs = 4 \<Longrightarrow> moves (initBattlePokeFromSave (demoMon sp mvs h) nick g) = map unat mvs"
  "pp (initBattlePokeFromSave (demoMon sp mvs h) nick g) = [10, 10, 10, 10]"
  "chargingSlot (initBattlePokeFromSave src nick g) = 255" "thrashSlot (initBattlePokeFromSave src nick g) = 255"
  "mimicSlot (initBattlePokeFromSave src nick g) = 255" "bideTurns (initBattlePokeFromSave src nick g) = 0"
  "\<not> transformed (initBattlePokeFromSave src nick g)"
  by (simp_all add: initBattlePokeFromSave_def Let_def demoMon_def initSentinelFields_def zeroPoke_def
      statsFromSave_def)

lemma demoWith_mon:
  "length mvs = 4 \<Longrightarrow> moves (activeMon (demoWith mvs) S0) = map unat mvs"
  "pp (activeMon (demoWith mvs) S0) = [10, 10, 10, 10]"
  "chargingSlot (activeMon (demoWith mvs) S0) = 255" "thrashSlot (activeMon (demoWith mvs) S0) = 255"
  "mimicSlot (activeMon (demoWith mvs) S0) = 255" "bideTurns (activeMon (demoWith mvs) S0) = 0"
  "\<not> transformed (activeMon (demoWith mvs) S0)" "\<not> isGen3 (demoWith mvs)"
  "moves (activeMon (demoWith mvs) S1) = [16, 98, 0, 0]"
  "active (parties (demoWith mvs) S0) = 0" "length (mons (parties (demoWith mvs) S0)) = 6"
  by (simp_all add: activeMon_def demoWith_party demoSide demoMon_fields)

lemma charging_moves_never_strike_witness:
  "parties (snd (run_state (useMove S0 0) (demoWith [13, 0, 0, 0]))) S1 = parties (demoWith [13, 0, 0, 0]) S1"
proof -
  let ?e = "demoWith [13, 0, 0, 0]"
  obtain m where m: "gen1Move 13 = Some m" "meffect m = EFF_CHARGE_TURN" using razor_wind by blast
  have "selectMove (isGen3 ?e) (activeMon ?e S0) 0 = Some m"
    using m by (simp add: selectMove_def demoWith_mon mdata_def)
  from charging_moves_never_strike [OF this m(2)] show ?thesis by (simp add: demoWith_mon)
qed

subsection \<open>Transform\<close>

text \<open>
  Transform copies the four battle stats but not the two special stats that Gen 3 damage reads:
  after it the user still attacks and defends with its own, whatever the target.
\<close>

theorem transform_keeps_own_specials:
  "let m = activeMon (snd (run_state (transformMon s mv) e)) s
   in rawAttack True True m = rawAttack True True (activeMon e s) \<and>
      rawDefense True True m = rawDefense True True (activeMon e s)"
proof (cases "active (parties e s) < length (mons (parties e s))")
  case True
  then show ?thesis by (simp add: activeMon_transform copyOf_def rawAttack_def rawDefense_def)
next
  case False
  then have "activeMon (snd (run_state (transformMon s mv) e)) s = activeMon e s"
    by (simp add: transformMon_def run_basics split_beta activeMon_onParty upd_at_nth_cases
        activeMon_def [symmetric])
  then show ?thesis by simp
qed

text \<open>
  A monster that used Mimic and then Transform keeps the copied move when it leaves the field:
  the restore of Mimic writes into the transformed move list, which the restore of Transform then
  replaces by the list saved after Mimic.
\<close>

theorem mimic_survives_transform:
  assumes "meffect mv = EFF_MIMIC" "meffect mv' = EFF_TRANSFORM" "k < 4"
    and "mimicSlot (activeMon e s) = 255" "\<not> transformed (activeMon e s)"
    and "length (moves (activeMon e s)) = 4" "length (pp (activeMon e s)) = 4"
    and "lastMoveIdx (activeMon e (other s)) < 4"
    and "moves (activeMon e (other s)) ! lastMoveIdx (activeMon e (other s)) = j" "j \<noteq> 0"
    and "active (parties e s) < length (mons (parties e s))"
  shows "let e' = snd (run_state (do { mimicMove s k mv; transformMon s mv' }) e);
             m = clearVolatile (activeMon e' s)
         in moves m ! k = j \<and> pp m ! k = 5 \<and> mimicSlot m = 255"
proof -
  define c where "c m = m\<lparr>mimicSlot := k, mimicOrigMove := moves m ! k, mimicOrigPp := pp m ! k,
     moves := (moves m)[k := j], pp := (pp m)[k := 5]\<rparr>" for m :: BattlePoke
  define e1 where "e1 = snd (run_state (mimicMove s k mv) e)"
  have run: "snd (run_state (do { mimicMove s k mv; transformMon s mv' }) e)
      = snd (run_state (transformMon s mv') e1)" by (simp add: e1_def split_beta)
  have e1: "parties e1 = parties (onParty s (setActive c) e)"
    using assms(1,4,8-10) by (simp add: e1_def mimicMove_def run_basics emit_def c_def [abs_def])
  then have act: "activeMon e1 s = c (activeMon e s)" "activeMon e1 (other s) = activeMon e (other s)"
    "active (parties e1 s) < length (mons (parties e1 s))"
    using assms(11) activeMon_updMon [of e s c] by (simp_all add: activeMon_def)
  then have "activeMon (snd (run_state (transformMon s mv') e1)) s
      = copyOf (activeMon e (other s)) (c (activeMon e s))"
    using assms(2,5) by (simp add: activeMon_transform c_def)
  then show ?thesis
    using assms(3,6,7) unfolding run
    by (simp add: clearVolatile_def restoreTransform_def restoreMimic_def clearCounters_def clearBoosts_def
        copyOf_def c_def Let_def)
qed

lemma mimic_survives_transform_witness:
  "let e = onParty S1 (setActive (\<lambda>m. m\<lparr>lastMoveIdx := 0\<rparr>)) (demoWith [102, 144, 0, 0]);
       e' = snd (run_state (do { mimicMove S0 0 (mkMove 102 ''Mimic'' 0 0 0 10 0 EFF_MIMIC 0);
                                 transformMon S0 (mkMove 144 ''Transform'' 0 0 0 10 0 EFF_TRANSFORM 0) }) e)
   in moves (clearVolatile (activeMon e' S0)) ! 0 = 16"
proof -
  define e where "e = onParty S1 (setActive (\<lambda>m. m\<lparr>lastMoveIdx := 0\<rparr>)) (demoWith [102, 144, 0, 0])"
  have "activeMon e S0 = activeMon (demoWith [102, 144, 0, 0]) S0"
    "parties e S0 = parties (demoWith [102, 144, 0, 0]) S0" by (simp_all add: e_def activeMon_onParty)
  moreover have "activeMon e S1 = (activeMon (demoWith [102, 144, 0, 0]) S1)\<lparr>lastMoveIdx := 0\<rparr>"
    unfolding e_def by (rule activeMon_updMon) (simp add: demoWith_party demoSide)
  ultimately show ?thesis
    using mimic_survives_transform [of "mkMove 102 ''Mimic'' 0 0 0 10 0 EFF_MIMIC 0"
        "mkMove 144 ''Transform'' 0 0 0 10 0 EFF_TRANSFORM 0" 0 e S0 16]
    by (simp add: demoWith_mon Let_def e_def [symmetric])
qed

subsection \<open>Wrap-around\<close>

text \<open>
  Super Fang on a target that its own hit just brought to 0 HP subtracts 1 in \<open>uint16_t\<close>: the
  target stands again with 65535 HP.
\<close>

theorem super_fang_revives:
  assumes "meffect mv = EFF_SUPER_FANG" "active (parties e t) < length (mons (parties e t))"
    and "run_state (damageBlock s t mv) e = (True, e1)" "hp (activeMon e1 t) = 0"
    and "active (parties e1 t) < length (mons (parties e1 t))"
  shows "hp (activeMon (snd (run_state (do { go \<leftarrow> damageBlock s t mv; when_ok go (fixedDamage s t mv) }) e)) t) = 65535"
  using assms
  by (simp add: run_when_ok fixedDamage_def run_basics activeMon_updMon sub16_def)

lemma super_fang_revives_witness:
  "hp (activeMon (snd (run_state (do { go \<leftarrow> damageBlock S0 S1 (mkMove 162 ''Super Fang'' 0 0 90 10 0 EFF_SUPER_FANG 0);
      when_ok go (fixedDamage S0 S1 (mkMove 162 ''Super Fang'' 0 0 90 10 0 EFF_SUPER_FANG 0)) })
      (onParty S1 (setActive (\<lambda>m. m\<lparr>hp := 0\<rparr>)) demoBattle))) S1) = 65535"
proof -
  let ?e = "onParty S1 (setActive (\<lambda>m. m\<lparr>hp := 0\<rparr>)) demoBattle"
  have "party_ok False (parties demoBattle S1)" using demoBattle_safe by (simp add: safe_def)
  then have len: "active (parties demoBattle S1) < length (mons (parties demoBattle S1))"
    by (simp add: party_ok_def)
  then have "active (parties ?e S1) < length (mons (parties ?e S1))" by simp
  moreover have "hp (activeMon ?e S1) = 0" using len by (simp add: activeMon_updMon)
  ultimately show ?thesis
    using super_fang_revives [of "mkMove 162 ''Super Fang'' 0 0 90 10 0 EFF_SUPER_FANG 0" ?e S1 S0 ?e]
    by (simp add: damageBlock_def)
qed

text \<open>
  The forced slot of a charging move is taken without a look at its PP, and PP is spent with
  \<open>pp--\<close> on a byte: with 0 PP left the slot is left with 255.
\<close>

theorem forced_slot_wraps_pp:
  assumes "chargingSlot (activeMon e s) = c" "c < 4" "thrashSlot (activeMon e s) = 255"
    and "mdata (isGen3 e) (moves (activeMon e s) ! c) = Some mv'" "pp (activeMon e s) ! c = 0"
    and "length (pp (activeMon e s)) = 4" "active (parties e s) < length (mons (parties e s))"
  shows "let (r, e1) = run_state (forcedSlot s False k mv) e
     in r = Some (c, mv') \<and> pp (activeMon (snd (run_state (spendPp s False c) e1)) s) ! c = 255"
  using assms
  by (simp add: forcedSlot_def spendPp_def run_basics activeMon_updMon nth_upd_at sub8_def split_beta)

lemma forced_slot_wraps_pp_witness:
  "let e = onParty S0 (setActive (\<lambda>m. m\<lparr>chargingSlot := 0, pp := [0, 10, 10, 10]\<rparr>)) (demoWith [13, 98, 0, 0]);
       e1 = snd (run_state (forcedSlot S0 False 1 (mkMove 98 ''Quick Attack'' 0 40 100 30 1 EFF_NONE 0)) e)
   in pp (activeMon (snd (run_state (spendPp S0 False 0) e1)) S0) ! 0 = 255"
proof -
  let ?e = "onParty S0 (setActive (\<lambda>m. m\<lparr>chargingSlot := 0, pp := [0, 10, 10, 10]\<rparr>)) (demoWith [13, 98, 0, 0])"
  have m: "activeMon ?e S0 = (activeMon (demoWith [13, 98, 0, 0]) S0)\<lparr>chargingSlot := 0, pp := [0, 10, 10, 10]\<rparr>"
    by (rule activeMon_updMon) (simp add: demoWith_mon)
  obtain r where r: "gen1Move 13 = Some r" using razor_wind by blast
  have "isGen3 ?e = False" by (simp add: isGen3_def demoWith_party [unfolded isGen3_def])
  then show ?thesis
    using forced_slot_wraps_pp [of ?e S0 0 r 1 "mkMove 98 ''Quick Attack'' 0 40 100 30 1 EFF_NONE 0"] r
    by (simp add: m demoWith_mon mdata_def Let_def split_beta)
qed

subsection \<open>What the hash does not see\<close>

text \<open>
  The hash exchanged to detect a desync does not cover the Gen 3 special stats, the Transform
  backup or the result: two engines that differ only there - and so compute different damage and
  different outcomes - have equal hashes.
\<close>

theorem hash_blind_spots:
  "hashState ((onParty s (\<lambda>p. p\<lparr>mons := map (\<lambda>m. m\<lparr>spaG3 := x, spdG3 := y, origAtk := z, origMoves := ms\<rparr>) (mons p)\<rparr>) e)
      \<lparr>result := r, pendAction := pa, pendIndex := pi, gen := gn\<rparr>) = hashState e"
proof -
  define f where "f m = m\<lparr>spaG3 := x, spdG3 := y, origAtk := z, origMoves := ms\<rparr>" for m :: BattlePoke
  have mb: "monBytes (f m) = monBytes m" for m by (simp add: f_def monBytes_def flagByte_def)
  have side: "sideBytes (p\<lparr>mons := map f (mons p)\<rparr>) = sideBytes p" for p
    by (simp add: sideBytes_def take_map mb comp_def)
  have "stateHash ((onParty s (\<lambda>p. p\<lparr>mons := map f (mons p)\<rparr>) e)
      \<lparr>result := r, pendAction := pa, pendIndex := pi, gen := gn\<rparr>) = stateHash e"
    by (cases s) (simp_all add: stateHash_def turnBytes_def side)
  then show ?thesis unfolding hashState_def f_def [abs_def] by simp
qed

end
