(* ===== verification/DaycareTypes.thy ===== *)
theory DaycareTypes
  imports Prelude
begin

text \<open>
  Data of the daycare (\<^verbatim>\<open>src/modules/monstermesh/DaycareTypes.h\<close>): weather, moods,
  achievements, relationships, the persistent state, beacons and neighbours.  The species profiles of
  \<^verbatim>\<open>DaycareData.h\<close> are generated from the source.  The arrays \<open>relationships\<close> and
  \<open>knownNodes\<close> with their counters are the list of their used slots (every slot is cleared when
  it is taken); character arrays are the string before the terminator.
\<close>

subsection \<open>Enumerations\<close>

datatype DaycareWeatherType = WEATHER_NONE | WEATHER_CLEAR | WEATHER_RAIN | WEATHER_SNOW
  | WEATHER_THUNDERSTORM | WEATHER_FOG | WEATHER_WINDY | WEATHER_HOT | WEATHER_COLD

fun weatherNum :: "DaycareWeatherType \<Rightarrow> nat" where
  "weatherNum WEATHER_NONE = 0"
| "weatherNum WEATHER_CLEAR = 1"
| "weatherNum WEATHER_RAIN = 2"
| "weatherNum WEATHER_SNOW = 3"
| "weatherNum WEATHER_THUNDERSTORM = 4"
| "weatherNum WEATHER_FOG = 5"
| "weatherNum WEATHER_WINDY = 6"
| "weatherNum WEATHER_HOT = 7"
| "weatherNum WEATHER_COLD = 8"

datatype DaycareMood = MOOD_CONTENT | MOOD_HAPPY | MOOD_LONELY | MOOD_EXCITED

datatype DaycareEventCategory = EVCAT_SOCIAL | EVCAT_COMBAT | EVCAT_EXPLORE | EVCAT_REST | EVCAT_MISCHIEF
  | EVCAT_DREAM | EVCAT_VISITOR | EVCAT_ESCAPE | EVCAT_WEATHER

datatype DaycareEventRarity = RARITY_COMMON | RARITY_UNCOMMON | RARITY_RARE | RARITY_LEGENDARY

datatype (plugins only: code) DaycareAchievement =
    ACH_FIRST_DAY | ACH_SETTLED_IN | ACH_DAYCARE_VETERAN | ACH_LIFETIME_RESIDENT
  | ACH_OLD_TIMER | ACH_FIRST_FRIEND | ACH_GOOD_FRIENDS | ACH_BEST_FRIENDS_FOREVER
  | ACH_SOCIAL_BUTTERFLY | ACH_BELOVED | ACH_FIRST_RIVAL | ACH_HEATED_RIVALRY
  | ACH_ARCH_NEMESIS | ACH_FRIENDLY_RIVAL | ACH_FIGHT_CLUB | ACH_UNSTOPPABLE_FORCE
  | ACH_RESPECT | ACH_FIRST_LEVEL_UP | ACH_DAYCARE_GRADUATE | ACH_DAYCARE_SCHOLAR
  | ACH_EXPLORER | ACH_DREAMER | ACH_ESCAPE_ARTIST | ACH_FULL_MOON | ACH_SPLASH_CHAMPION
  | ACH_THE_LONELY_ONE | ACH_STORM_CHASER | ACH_SNOWBOUND | ACH_WEATHERED | ACH_LIGHTNING_ROD
  | ACH_FOG_WALKER | ACH_WELCOME_COMMITTEE | ACH_MESH_ELDER | ACH_NEIGHBORHOOD | ACH_COMMUNITY

text \<open>The enumeration in order; an achievement's number is its position.\<close>

definition allAchievements :: "DaycareAchievement list" where
  "allAchievements =
    [ACH_FIRST_DAY, ACH_SETTLED_IN, ACH_DAYCARE_VETERAN, ACH_LIFETIME_RESIDENT, ACH_OLD_TIMER,
    ACH_FIRST_FRIEND, ACH_GOOD_FRIENDS, ACH_BEST_FRIENDS_FOREVER, ACH_SOCIAL_BUTTERFLY,
    ACH_BELOVED, ACH_FIRST_RIVAL, ACH_HEATED_RIVALRY, ACH_ARCH_NEMESIS, ACH_FRIENDLY_RIVAL,
    ACH_FIGHT_CLUB, ACH_UNSTOPPABLE_FORCE, ACH_RESPECT, ACH_FIRST_LEVEL_UP, ACH_DAYCARE_GRADUATE,
    ACH_DAYCARE_SCHOLAR, ACH_EXPLORER, ACH_DREAMER, ACH_ESCAPE_ARTIST, ACH_FULL_MOON,
    ACH_SPLASH_CHAMPION, ACH_THE_LONELY_ONE, ACH_STORM_CHASER, ACH_SNOWBOUND, ACH_WEATHERED,
    ACH_LIGHTNING_ROD, ACH_FOG_WALKER, ACH_WELCOME_COMMITTEE, ACH_MESH_ELDER, ACH_NEIGHBORHOOD,
    ACH_COMMUNITY]"

definition achNum :: "DaycareAchievement \<Rightarrow> nat" where
  "achNum a = length (takeWhile (\<lambda>b. b \<noteq> a) allAchievements)"

lemma allAchievements_all: "a \<in> set allAchievements"
  by (cases a) (simp_all add: allAchievements_def)

lemma allAchievements_length: "length allAchievements = 35"
  by (simp add: allAchievements_def)

lemma nth_achNum: "allAchievements ! achNum a = a" "achNum a < 35"
proof -
  have less: "achNum a < length allAchievements"
    using allAchievements_all [of a] unfolding achNum_def
    by (metis (full_types) length_takeWhile_le order_le_less takeWhile_eq_all_conv takeWhile_eq_take take_all_iff)
  then show "achNum a < 35" by (simp add: allAchievements_length)
  show "allAchievements ! achNum a = a"
    using nth_length_takeWhile [of "\<lambda>b. b \<noteq> a" allAchievements] less by (simp add: achNum_def)
qed

lemma achNum_inject: "achNum a = achNum b \<Longrightarrow> a = b"
  by (metis nth_achNum(1))

text \<open>Name, description and whether the achievement is broadcast.\<close>

definition achievementDefs :: "(string \<times> string \<times> bool) list" where
  "achievementDefs =
  [(''First Day'', ''24 hours in daycare'', False),
   (''Settled In'', ''100 hours in daycare'', False),
   (''Daycare Veteran'', ''1,000 hours in daycare'', True),
   (''Lifetime Resident'', ''10,000 hours in daycare'', True),
   (''Old Timer'', ''50,000 hours in daycare'', True),
   (''First Friend'', ''Reach Acquaintance tier'', False),
   (''Good Friends'', ''Reach Friends tier'', False),
   (''Best Friends Forever'', ''Reach Best Friends tier'', True),
   (''Social Butterfly'', ''Friends+ with 10 different Pokemon'', True),
   (''Beloved'', ''Best Friends with 5 Pokemon'', True),
   (''First Rival'', ''Reach Competitors tier'', False),
   (''Heated Rivalry'', ''Reach Fierce Rivals tier'', True),
   (''Arch-Nemesis'', ''Reach Arch-Rivals tier'', True),
   (''Friendly Rival'', ''Max friendship AND rivalry'', True),
   (''Fight Club'', ''5+ active rivalries'', True),
   (''Unstoppable Force'', ''Win 50 rival spars'', True),
   (''Respect'', ''Rivalry becomes Best Friends'', True),
   (''First Level Up'', ''Gain a level in daycare'', False),
   (''Daycare Graduate'', ''Gain 10 levels in daycare'', True),
   (''Daycare Scholar'', ''Gain 25 levels in daycare'', True),
   (''Explorer'', ''50 exploration events'', False),
   (''Dreamer'', ''20 dream events'', False),
   (''Escape Artist'', ''Experience a rare escape'', True),
   (''Full Moon'', ''Witness a full moon event'', True),
   (''Splash Champion'', ''Magikarp splashes 100 times'', True),
   (''The Lonely One'', ''Miss a friend 7 days then reunite'', True),
   (''Storm Chaser'', ''Active in 10 thunderstorms'', False),
   (''Snowbound'', ''Active in 10 snow events'', False),
   (''Weathered'', ''Experience all 7 weather types'', True),
   (''Lightning Rod'', ''Electric absorbs lightning 5x'', True),
   (''Fog Walker'', ''Ghost thrives in 10 fogs'', False),
   (''Welcome Committee'', ''Greet 5 new nodes'', False),
   (''Mesh Elder'', ''Greet 25 new nodes'', True),
   (''Neighborhood'', ''5+ nodes in daycare'', True),
   (''Community'', ''10+ nodes in daycare'', True)]"

subsection \<open>Tiers\<close>

definition friendshipXpMultiplier100 :: "nat \<Rightarrow> nat" where
  "friendshipXpMultiplier100 friendship =
     (if friendship \<ge> 201 then 200 else if friendship \<ge> 121 then 150
      else if friendship \<ge> 61 then 125 else if friendship \<ge> 21 then 110 else 100)"

definition rivalryXpBonus :: "nat \<Rightarrow> nat" where
  "rivalryXpBonus rivalry =
     (if rivalry \<ge> 201 then 30 else if rivalry \<ge> 121 then 20
      else if rivalry \<ge> 51 then 10 else if rivalry \<ge> 16 then 5 else 0)"

definition weatherTypeMultiplier100 :: "DaycareWeatherType \<Rightarrow> nat \<Rightarrow> nat" where
  "weatherTypeMultiplier100 w t =
     (case w of
        WEATHER_NONE \<Rightarrow> 100
      | WEATHER_RAIN \<Rightarrow> (if t = 9 \<or> t = 10 then 150 else if t = 8 \<or> t = 5 \<or> t = 4 then 75
                        else if t = 11 then 75 else 100)
      | WEATHER_THUNDERSTORM \<Rightarrow> (if t = 11 then 200 else if t = 2 then 75 else if t = 9 then 75 else 100)
      | WEATHER_CLEAR \<Rightarrow> (if t = 8 then 150 else if t = 10 then 150 else if t = 13 then 75 else 100)
      | WEATHER_HOT \<Rightarrow> (if t = 8 then 150 else if t = 10 then 150 else if t = 13 then 75
                       else if t = 6 then 75 else 100)
      | WEATHER_SNOW \<Rightarrow> (if t = 13 then 150 else if t = 8 then 75 else if t = 10 then 75
                        else if t = 6 then 75 else 100)
      | WEATHER_COLD \<Rightarrow> (if t = 13 then 150 else if t = 8 then 75 else if t = 10 then 75
                        else if t = 6 then 75 else 100)
      | WEATHER_WINDY \<Rightarrow> (if t = 2 \<or> t = 14 then 150 else if t = 6 then 75 else if t = 3 then 75 else 100)
      | WEATHER_FOG \<Rightarrow> (if t = 7 then 150 else if t = 2 then 75 else if t = 0 then 75 else 100))"

subsection \<open>State\<close>

record DaycareRelationship =
  dr_nodeId :: nat
  dr_localSpeciesIdx :: nat
  dr_remoteSpeciesDex :: nat
  dr_friendship :: nat
  dr_rivalry :: nat
  dr_sparCount :: nat
  dr_lastSeenMs :: nat
  dr_daysMissing :: nat

record DaycarePokemonState =
  dp_speciesDex :: nat
  dp_nickname :: string
  dp_savLevel :: nat
  dp_savExp :: nat
  dp_totalHours :: nat
  dp_totalXpGained :: nat
  dp_totalLevelsGained :: nat
  dp_mood :: DaycareMood
  dp_escapeCount :: nat
  dp_dreamCount :: nat
  dp_exploreCount :: nat
  dp_splashCount :: nat
  dp_moves :: "nat list"

definition emptyPokemon :: DaycarePokemonState where
  "emptyPokemon = \<lparr>dp_speciesDex = 0, dp_nickname = [], dp_savLevel = 0, dp_savExp = 0,
     dp_totalHours = 0, dp_totalXpGained = 0, dp_totalLevelsGained = 0, dp_mood = MOOD_CONTENT,
     dp_escapeCount = 0, dp_dreamCount = 0, dp_exploreCount = 0, dp_splashCount = 0,
     dp_moves = [0, 0, 0, 0]\<rparr>"

record DaycareState =
  ds_pokemon :: "DaycarePokemonState list"
  ds_partyCount :: nat
  ds_relationships :: "DaycareRelationship list"
  ds_achievementFlags :: "64 word"
  ds_weatherTypesSeen :: nat
  ds_thunderstormCount :: nat
  ds_snowCount :: nat
  ds_fogCount :: nat
  ds_lightningAbsorbs :: nat
  ds_knownNodes :: "nat list"
  ds_uniqueTrainersGreeted :: nat
  ds_totalEvents :: nat
  ds_totalSparWins :: nat
  ds_lastEventMs :: nat
  ds_lastBeaconMs :: nat
  ds_lastFriendshipDecayMs :: nat

definition emptyState :: DaycareState where
  "emptyState = \<lparr>ds_pokemon = replicate 6 emptyPokemon, ds_partyCount = 0, ds_relationships = [],
     ds_achievementFlags = 0, ds_weatherTypesSeen = 0, ds_thunderstormCount = 0, ds_snowCount = 0,
     ds_fogCount = 0, ds_lightningAbsorbs = 0, ds_knownNodes = [], ds_uniqueTrainersGreeted = 0,
     ds_totalEvents = 0, ds_totalSparWins = 0, ds_lastEventMs = 0, ds_lastBeaconMs = 0,
     ds_lastFriendshipDecayMs = 0\<rparr>"

text \<open>A party entry of a beacon or of a neighbour.\<close>

record PartyEntry =
  pe_species :: nat
  pe_level :: nat
  pe_nickname :: string
  pe_moves :: "nat list"

record DaycareBeacon =
  bc_nodeId :: nat
  bc_shortName :: string
  bc_gameName :: string
  bc_partyCount :: nat
  bc_pokemon :: "PartyEntry list"
  bc_ngPlusTier :: nat
  bc_requestResponse :: nat

record DaycareNeighborPokemon =
  nb_nodeId :: nat
  nb_shortName :: string
  nb_gameName :: string
  nb_speciesDex :: nat
  nb_level :: nat
  nb_nickname :: string
  nb_partyCount :: nat
  nb_party :: "PartyEntry list"
  nb_ngPlusTier :: nat

definition emptyEntry :: PartyEntry where
  "emptyEntry = \<lparr>pe_species = 0, pe_level = 0, pe_nickname = [], pe_moves = [0, 0, 0, 0]\<rparr>"

definition emptyNeighbor :: DaycareNeighborPokemon where
  "emptyNeighbor = \<lparr>nb_nodeId = 0, nb_shortName = [], nb_gameName = [], nb_speciesDex = 0,
     nb_level = 0, nb_nickname = [], nb_partyCount = 0, nb_party = replicate 6 emptyEntry,
     nb_ngPlusTier = 0\<rparr>"

record DaycareEvent =
  ev_message :: string
  ev_remoteMessage :: string
  ev_xp :: nat
  ev_targetSpeciesIdx :: nat
  ev_targetNodeId :: nat
  ev_isBroadcast :: bool
  ev_rarity :: DaycareEventRarity

text \<open>A zero-initialised event.\<close>

definition emptyEvent :: DaycareEvent where
  "emptyEvent = \<lparr>ev_message = [], ev_remoteMessage = [], ev_xp = 0, ev_targetSpeciesIdx = 0,
     ev_targetNodeId = 0, ev_isBroadcast = False, ev_rarity = RARITY_COMMON\<rparr>"

subsection \<open>Achievement flags\<close>

definition hasAchievement :: "64 word \<Rightarrow> DaycareAchievement \<Rightarrow> bool" where
  "hasAchievement flags a \<longleftrightarrow> flags AND push_bit (achNum a) 1 \<noteq> 0"

text \<open>The new flags, and whether the achievement was newly granted.\<close>

definition grantAchievement :: "DaycareAchievement \<Rightarrow> 64 word \<Rightarrow> bool \<times> 64 word" where
  "grantAchievement a flags =
     (if hasAchievement flags a then (False, flags) else (True, flags OR push_bit (achNum a) 1))"

lemma bit_single: "bit (push_bit n 1 :: 64 word) k \<longleftrightarrow> k = n \<and> n < 64"
  by (auto simp: bit_exp_iff)

lemma hasAchievement_bit: "hasAchievement w a \<longleftrightarrow> bit w (achNum a)"
proof -
  have a: "achNum a < 64" using nth_achNum(2) [of a] by simp
  have "bit (w AND push_bit (achNum a) 1) k \<longleftrightarrow> k = achNum a \<and> bit w (achNum a)" for k
    using a by (auto simp only: bit_and_iff bit_single)
  then show ?thesis unfolding hasAchievement_def by (metis bit_0_eq bit_eq_iff bot_apply bot_bool_def)
qed

lemma hasAchievement_grant: "hasAchievement (snd (grantAchievement a w)) b \<longleftrightarrow> b = a \<or> hasAchievement w b"
proof -
  have "bit (w OR push_bit (achNum a) 1) (achNum b) \<longleftrightarrow> bit w (achNum b) \<or> b = a"
    using nth_achNum(2) [of a] achNum_inject [of b a] by (auto simp only: bit_or_iff bit_single)
  then show ?thesis by (auto simp: grantAchievement_def hasAchievement_bit)
qed

subsection \<open>Relationships and known nodes\<close>

definition findRelationship :: "DaycareState \<Rightarrow> nat \<Rightarrow> nat \<Rightarrow> nat \<Rightarrow> nat option" where
  "findRelationship st nodeId localIdx remoteDex =
     find (\<lambda>i. let r = ds_relationships st ! i
               in dr_nodeId r = nodeId \<and> dr_localSpeciesIdx r = localIdx \<and> dr_remoteSpeciesDex r = remoteDex)
       [0..<length (ds_relationships st)]"

text \<open>The eviction scan: the first index of least time, starting from \<open>UINT32_MAX\<close> and slot 0.\<close>

fun oldestLoop :: "nat list \<Rightarrow> nat \<Rightarrow> nat \<times> nat \<Rightarrow> nat" where
  "oldestLoop [] i b = fst b"
| "oldestLoop (t # ts) i b = oldestLoop ts (Suc i) (if t < snd b then (i, t) else b)"

definition oldestIndex :: "nat list \<Rightarrow> nat" where
  "oldestIndex ts = oldestLoop ts 0 (0, 4294967295)"

definition newRelationship :: "nat \<Rightarrow> nat \<Rightarrow> nat \<Rightarrow> nat \<Rightarrow> DaycareRelationship" where
  "newRelationship now nodeId localIdx remoteDex =
     \<lparr>dr_nodeId = nodeId, dr_localSpeciesIdx = localIdx, dr_remoteSpeciesDex = remoteDex,
      dr_friendship = 0, dr_rivalry = 0, dr_sparCount = 0, dr_lastSeenMs = now, dr_daysMissing = 0\<rparr>"

text \<open>The index stands for the returned pointer.\<close>

definition getOrCreateRelationship :: "nat \<Rightarrow> nat \<Rightarrow> nat \<Rightarrow> nat \<Rightarrow> DaycareState \<Rightarrow> nat \<times> DaycareState" where
  "getOrCreateRelationship now nodeId localIdx remoteDex st =
     (case findRelationship st nodeId localIdx remoteDex of
        Some i \<Rightarrow> (i, st)
      | None \<Rightarrow>
          let rs = ds_relationships st; r = newRelationship now nodeId localIdx remoteDex
          in if length rs \<ge> 32 then
               (let i = oldestIndex (map dr_lastSeenMs rs) in (i, st\<lparr>ds_relationships := rs[i := r]\<rparr>))
             else (length rs, st\<lparr>ds_relationships := rs @ [r]\<rparr>))"

definition isKnownNode :: "DaycareState \<Rightarrow> nat \<Rightarrow> bool" where
  "isKnownNode st nodeId \<longleftrightarrow> nodeId \<in> set (ds_knownNodes st)"

text \<open>When the 32 slots are full the oldest is shifted out.\<close>

definition addKnownNode :: "nat \<Rightarrow> DaycareState \<Rightarrow> DaycareState" where
  "addKnownNode nodeId st =
     (if isKnownNode st nodeId then st
      else st\<lparr>ds_knownNodes := (if length (ds_knownNodes st) < 32 then ds_knownNodes st @ [nodeId]
                               else tl (ds_knownNodes st) @ [nodeId]),
             ds_uniqueTrainersGreeted := u8 (ds_uniqueTrainersGreeted st + 1)\<rparr>)"

lemma oldestLoop_spec:
  "snd b \<le> 4294967295 \<Longrightarrow> let r = oldestLoop ts i b in
     (r = fst b \<and> (\<forall>k < length ts. snd b \<le> ts ! k)) \<or>
     (\<exists>k < length ts. r = i + k \<and> ts ! k < snd b \<and> (\<forall>j < length ts. ts ! k \<le> ts ! j))"
proof (induction ts arbitrary: i b)
  case Nil
  then show ?case by simp
next
  case (Cons t ts)
  show ?case
  proof (cases "t < snd b")
    case True
    have "let r = oldestLoop ts (Suc i) (i, t) in (r = i \<and> (\<forall>k < length ts. t \<le> ts ! k)) \<or>
        (\<exists>k < length ts. r = Suc i + k \<and> ts ! k < t \<and> (\<forall>j < length ts. ts ! k \<le> ts ! j))"
      using Cons.IH [of "(i, t)" "Suc i"] Cons.prems True by simp
    then consider "oldestLoop ts (Suc i) (i, t) = i" "\<forall>k < length ts. t \<le> ts ! k"
      | k where "k < length ts" "oldestLoop ts (Suc i) (i, t) = Suc i + k" "ts ! k < t" "\<forall>j < length ts. ts ! k \<le> ts ! j"
      by (auto simp: Let_def)
    then show ?thesis
    proof cases
      case 1
      then show ?thesis using True by (auto simp: Let_def nth_Cons split: nat.split intro!: exI [of _ 0])
    next
      case 2
      then show ?thesis using True
        by (auto simp: Let_def nth_Cons split: nat.split intro!: exI [of _ "Suc k"])
    qed
  next
    case False
    have "let r = oldestLoop ts (Suc i) b in (r = fst b \<and> (\<forall>k < length ts. snd b \<le> ts ! k)) \<or>
        (\<exists>k < length ts. r = Suc i + k \<and> ts ! k < snd b \<and> (\<forall>j < length ts. ts ! k \<le> ts ! j))"
      using Cons.IH [of b "Suc i"] Cons.prems by simp
    then consider "oldestLoop ts (Suc i) b = fst b" "\<forall>k < length ts. snd b \<le> ts ! k"
      | k where "k < length ts" "oldestLoop ts (Suc i) b = Suc i + k" "ts ! k < snd b" "\<forall>j < length ts. ts ! k \<le> ts ! j"
      by (auto simp: Let_def)
    then show ?thesis
    proof cases
      case 1
      then show ?thesis using False by (auto simp: Let_def nth_Cons split: nat.split)
    next
      case 2
      then show ?thesis using False
        by (auto simp: Let_def nth_Cons split: nat.split intro!: exI [of _ "Suc k"])
    qed
  qed
qed

text \<open>The evicted slot holds a least time.\<close>

lemma oldestIndex_min:
  assumes "ts \<noteq> []" "\<forall>t \<in> set ts. t \<le> 4294967295"
  shows "oldestIndex ts < length ts" "j < length ts \<Longrightarrow> ts ! oldestIndex ts \<le> ts ! j"
proof -
  have all: "\<forall>k < length ts. ts ! k \<le> 4294967295" using assms(2) by simp
  have "ts ! 0 \<le> ts ! j" if "\<forall>k < length ts. 4294967295 \<le> ts ! k" "j < length ts" for j
  proof -
    have "ts ! 0 \<le> 4294967295" using all assms(1) by simp
    moreover have "4294967295 \<le> ts ! j" using that by simp
    ultimately show ?thesis by (rule order_trans)
  qed
  then have "oldestIndex ts < length ts \<and> (\<forall>j < length ts. ts ! oldestIndex ts \<le> ts ! j)"
    using oldestLoop_spec [of "(0, 4294967295)" ts 0] assms(1) all
    unfolding oldestIndex_def Let_def by auto
  then show "oldestIndex ts < length ts" "j < length ts \<Longrightarrow> ts ! oldestIndex ts \<le> ts ! j" by simp_all
qed

text \<open>Update of one party slot.\<close>

definition onPokemon :: "nat \<Rightarrow> (DaycarePokemonState \<Rightarrow> DaycarePokemonState) \<Rightarrow> DaycareState \<Rightarrow> DaycareState" where
  "onPokemon i f st = st\<lparr>ds_pokemon := upd_at i f (ds_pokemon st)\<rparr>"

subsection \<open>Species profiles\<close>

record DaycareSpecies =
  sp_dexNum :: nat
  sp_type1 :: nat
  sp_type2 :: nat
  sp_habitat :: nat
  sp_statBias :: nat
  sp_personality :: nat
  sp_evoStage :: nat
  sp_moveCount :: nat
  sp_moves :: "nat list"
  sp_flavorIdx :: nat

definition mkDS :: "nat \<Rightarrow> nat \<Rightarrow> nat \<Rightarrow> nat \<Rightarrow> nat \<Rightarrow> nat \<Rightarrow> nat \<Rightarrow> nat \<Rightarrow> nat list \<Rightarrow> nat \<Rightarrow> DaycareSpecies" where
  "mkDS d a b h s p e n ms f = \<lparr>sp_dexNum = d, sp_type1 = a, sp_type2 = b, sp_habitat = h,
     sp_statBias = s, sp_personality = p, sp_evoStage = e, sp_moveCount = n, sp_moves = ms, sp_flavorIdx = f\<rparr>"

definition daycareSpecies :: "DaycareSpecies list" where
  "daycareSpecies = [
  mkDS 1 10 3 2 3 3 0 15 [33, 45, 73, 22, 77, 75, 74, 79, 76, 14, 15, 34, 36, 38, 72] 0,
  mkDS 2 10 3 2 3 6 1 15 [33, 45, 73, 22, 77, 75, 74, 79, 76, 14, 15, 34, 36, 38, 72] 1,
  mkDS 3 10 3 2 3 3 2 15 [22, 33, 45, 73, 77, 75, 74, 79, 76, 14, 15, 34, 36, 38, 63] 2,
  mkDS 4 8 8 3 4 6 0 15 [10, 45, 52, 43, 99, 163, 53, 83, 5, 14, 15, 25, 34, 36, 38] 3,
  mkDS 5 8 8 3 3 2 1 15 [10, 45, 52, 43, 99, 163, 53, 83, 5, 14, 15, 25, 34, 36, 38] 4,
  mkDS 6 8 2 3 3 0 2 15 [10, 43, 45, 52, 99, 163, 53, 83, 5, 14, 15, 25, 34, 36, 38] 5,
  mkDS 7 9 9 8 2 4 0 15 [33, 39, 145, 55, 44, 110, 130, 56, 5, 25, 34, 36, 38, 57, 58] 6,
  mkDS 8 9 9 8 2 0 1 15 [33, 39, 145, 55, 44, 110, 130, 56, 5, 25, 34, 36, 38, 57, 58] 7,
  mkDS 9 9 9 8 0 3 2 15 [33, 39, 55, 145, 44, 110, 130, 56, 5, 25, 34, 36, 38, 57, 58] 8,
  mkDS 10 6 6 1 0 6 0 2 [33, 81, 0, 0, 0, 0, 0, 0, 0, 0, 0, 0, 0, 0, 0] 9,
  mkDS 11 6 6 1 2 5 1 1 [106, 0, 0, 0, 0, 0, 0, 0, 0, 0, 0, 0, 0, 0, 0] 10,
  mkDS 12 6 2 1 3 3 2 15 [93, 77, 78, 79, 48, 18, 60, 13, 36, 38, 63, 72, 76, 92, 94] 11,
  mkDS 13 6 3 1 4 6 0 2 [40, 81, 0, 0, 0, 0, 0, 0, 0, 0, 0, 0, 0, 0, 0] 12,
  mkDS 14 6 3 1 2 5 1 1 [106, 0, 0, 0, 0, 0, 0, 0, 0, 0, 0, 0, 0, 0, 0] 13,
  mkDS 15 6 3 1 1 2 2 15 [31, 116, 41, 99, 42, 97, 14, 15, 36, 38, 63, 72, 92, 102, 104] 14,
  mkDS 16 0 2 1 4 3 0 15 [16, 28, 98, 18, 17, 97, 119, 13, 19, 36, 38, 92, 99, 102, 104] 15,
  mkDS 17 0 2 1 4 0 1 15 [16, 28, 98, 18, 17, 97, 119, 13, 19, 36, 38, 92, 99, 102, 104] 16,
  mkDS 18 0 2 1 4 0 2 15 [16, 28, 98, 18, 17, 97, 119, 13, 19, 36, 38, 63, 92, 99, 102] 17,
  mkDS 19 0 0 2 4 6 0 15 [33, 39, 98, 158, 116, 162, 34, 36, 38, 55, 59, 61, 85, 87, 91] 18,
  mkDS 20 0 0 2 4 2 1 15 [33, 39, 98, 158, 116, 162, 34, 36, 38, 55, 58, 59, 61, 63, 85] 19,
  mkDS 21 0 2 5 4 2 0 15 [45, 64, 43, 31, 119, 65, 97, 13, 18, 19, 36, 38, 92, 99, 102] 20,
  mkDS 22 0 2 5 4 2 1 15 [43, 45, 64, 31, 119, 65, 97, 13, 18, 19, 36, 38, 63, 92, 99] 21,
  mkDS 23 3 3 2 1 4 0 15 [35, 43, 40, 44, 137, 103, 51, 34, 36, 38, 70, 72, 89, 90, 91] 22,
  mkDS 24 3 3 2 1 4 1 15 [35, 40, 43, 44, 137, 103, 51, 34, 36, 38, 63, 70, 72, 89, 90] 23,
  mkDS 25 11 11 1 4 6 1 15 [45, 84, 86, 98, 129, 97, 87, 5, 6, 25, 34, 36, 38, 57, 66] 24,
  mkDS 26 11 11 1 4 5 2 15 [45, 84, 86, 5, 6, 25, 34, 36, 38, 63, 66, 69, 85, 87, 92] 25,
  mkDS 27 4 4 5 2 6 0 15 [10, 28, 163, 40, 129, 154, 14, 15, 34, 36, 38, 66, 69, 70, 89] 26,
  mkDS 28 4 4 5 2 0 1 15 [10, 28, 163, 40, 129, 154, 14, 15, 34, 36, 38, 63, 66, 69, 70] 27,
  mkDS 29 3 3 2 0 3 0 15 [33, 45, 10, 40, 39, 44, 154, 24, 34, 36, 38, 59, 85, 87, 92] 28,
  mkDS 30 3 3 2 0 3 1 15 [10, 33, 45, 40, 39, 44, 154, 24, 32, 34, 36, 38, 55, 58, 59] 29,
  mkDS 31 3 4 2 1 2 2 15 [10, 33, 34, 39, 40, 5, 6, 25, 32, 36, 38, 55, 57, 58, 59] 30,
  mkDS 32 3 3 2 1 2 0 15 [33, 43, 30, 40, 116, 31, 32, 24, 34, 36, 38, 59, 85, 87, 92] 31,
  mkDS 33 3 3 2 1 2 1 15 [30, 33, 43, 40, 116, 31, 32, 24, 34, 36, 38, 55, 58, 59, 61] 32,
  mkDS 34 3 4 2 1 0 2 15 [30, 33, 37, 40, 5, 6, 25, 32, 34, 36, 38, 55, 57, 58, 59] 33,
  mkDS 35 0 0 3 0 6 1 15 [1, 45, 47, 3, 107, 118, 111, 113, 5, 25, 34, 36, 38, 55, 58] 34,
  mkDS 36 0 0 3 0 3 2 15 [3, 47, 107, 118, 5, 25, 34, 36, 38, 55, 58, 59, 61, 63, 66] 35,
  mkDS 37 8 8 2 0 0 0 15 [39, 52, 98, 46, 109, 53, 83, 34, 36, 38, 91, 92, 99, 102, 104] 36,
  mkDS 38 8 8 2 0 0 1 15 [39, 46, 52, 98, 34, 36, 38, 63, 91, 92, 99, 102, 104, 115, 117] 37,
  mkDS 39 0 0 2 0 0 1 15 [47, 1, 50, 111, 3, 156, 34, 38, 5, 25, 36, 55, 58, 59, 61] 38,
  mkDS 40 0 0 2 0 3 2 15 [3, 47, 50, 111, 5, 25, 34, 36, 38, 55, 58, 59, 61, 63, 66] 39,
  mkDS 41 3 2 0 4 4 0 15 [141, 48, 44, 109, 17, 114, 13, 18, 36, 38, 72, 92, 99, 102, 104] 40,
  mkDS 42 3 2 0 4 4 1 15 [44, 103, 141, 48, 109, 17, 114, 13, 18, 36, 38, 63, 72, 92, 99] 41,
  mkDS 43 10 3 2 3 6 0 15 [71, 77, 78, 79, 51, 80, 76, 14, 15, 36, 38, 72, 92, 99, 102] 42,
  mkDS 44 10 3 2 3 5 1 15 [71, 77, 78, 79, 51, 80, 76, 14, 15, 36, 38, 72, 92, 99, 102] 43,
  mkDS 45 10 3 2 3 3 2 15 [51, 78, 79, 80, 77, 14, 15, 34, 36, 38, 63, 72, 76, 92, 99] 44,
  mkDS 46 6 10 1 1 6 0 15 [10, 78, 141, 147, 163, 74, 14, 15, 34, 36, 38, 72, 76, 91, 92] 45,
  mkDS 47 6 10 1 1 5 1 15 [10, 78, 141, 147, 163, 74, 14, 15, 34, 36, 38, 63, 72, 76, 91] 46,
  mkDS 48 6 3 1 0 6 0 15 [33, 50, 77, 141, 78, 60, 79, 94, 36, 38, 72, 76, 92, 99, 102] 47,
  mkDS 49 6 3 1 3 4 1 15 [33, 50, 77, 141, 78, 60, 79, 94, 13, 18, 36, 38, 63, 72, 76] 48,
  mkDS 50 4 4 0 4 4 0 15 [10, 45, 91, 28, 163, 89, 34, 36, 38, 90, 92, 99, 102, 104, 117] 49,
  mkDS 51 4 4 0 4 4 1 15 [10, 45, 91, 28, 163, 89, 34, 36, 38, 63, 90, 92, 99, 102, 104] 50,
  mkDS 52 0 0 7 4 4 0 15 [10, 45, 44, 6, 103, 154, 163, 34, 36, 38, 55, 61, 85, 87, 92] 51,
  mkDS 53 0 0 7 4 0 1 15 [10, 44, 45, 103, 6, 154, 163, 34, 36, 38, 55, 61, 63, 85, 87] 52,
  mkDS 54 9 9 8 3 1 0 15 [10, 39, 50, 93, 154, 56, 5, 6, 25, 34, 36, 38, 55, 57, 58] 53,
  mkDS 55 9 9 8 3 0 1 15 [10, 39, 50, 93, 154, 56, 5, 6, 25, 34, 36, 38, 55, 57, 58] 54,
  mkDS 56 1 1 3 1 2 0 15 [10, 43, 2, 154, 116, 69, 37, 5, 6, 25, 34, 36, 38, 66, 68] 55,
  mkDS 57 1 1 3 1 2 1 15 [2, 10, 43, 154, 116, 69, 37, 5, 6, 25, 34, 36, 38, 63, 66] 56,
  mkDS 58 8 8 2 1 3 0 15 [44, 46, 52, 43, 36, 97, 53, 34, 38, 82, 91, 92, 99, 102, 104] 57,
  mkDS 59 8 8 2 1 0 1 15 [36, 43, 46, 52, 34, 38, 63, 82, 91, 92, 99, 100, 102, 104, 115] 58,
  mkDS 60 9 9 8 4 6 0 15 [145, 95, 55, 3, 34, 133, 56, 36, 38, 57, 58, 59, 61, 92, 94] 59,
  mkDS 61 9 9 8 4 3 1 15 [55, 95, 145, 3, 34, 133, 56, 5, 25, 36, 38, 57, 58, 59, 61] 60,
  mkDS 62 9 1 8 1 2 2 15 [3, 34, 55, 95, 5, 25, 36, 38, 57, 58, 59, 61, 63, 66, 68] 61,
  mkDS 63 12 12 7 3 4 0 15 [100, 5, 25, 34, 36, 38, 66, 68, 69, 86, 92, 94, 99, 102, 104] 62,
  mkDS 64 12 12 7 3 4 1 15 [50, 93, 100, 60, 105, 94, 115, 5, 25, 34, 36, 38, 66, 68, 69] 63,
  mkDS 65 12 12 7 3 0 2 15 [50, 93, 100, 60, 105, 94, 115, 5, 25, 34, 36, 38, 63, 66, 68] 64,
  mkDS 66 1 1 3 1 2 0 15 [2, 67, 43, 116, 69, 66, 5, 25, 34, 36, 38, 68, 70, 89, 90] 65,
  mkDS 67 1 1 3 1 2 1 15 [2, 43, 67, 116, 69, 66, 5, 25, 34, 36, 38, 68, 70, 89, 90] 66,
  mkDS 68 1 1 3 1 2 2 15 [2, 43, 67, 116, 69, 66, 5, 25, 34, 36, 38, 63, 68, 70, 89] 67,
  mkDS 69 10 3 1 1 6 0 15 [22, 74, 35, 77, 79, 78, 51, 75, 21, 14, 15, 36, 38, 72, 76] 68,
  mkDS 70 10 3 1 1 2 1 15 [22, 35, 74, 77, 79, 78, 51, 75, 21, 14, 15, 36, 38, 72, 76] 69,
  mkDS 71 10 3 1 1 2 2 15 [51, 75, 78, 79, 35, 77, 14, 15, 34, 36, 38, 63, 72, 76, 92] 70,
  mkDS 72 9 3 6 0 6 0 15 [51, 48, 35, 40, 55, 132, 112, 103, 56, 14, 15, 36, 38, 57, 58] 71,
  mkDS 73 9 3 6 0 2 1 15 [35, 48, 51, 40, 55, 132, 112, 103, 56, 14, 15, 36, 38, 57, 58] 72,
  mkDS 74 5 4 3 2 2 0 15 [33, 111, 88, 120, 106, 89, 153, 5, 34, 36, 38, 66, 68, 69, 70] 73,
  mkDS 75 5 4 3 2 2 1 15 [33, 111, 88, 120, 106, 89, 153, 5, 34, 36, 38, 66, 68, 69, 70] 74,
  mkDS 76 5 4 3 2 2 2 15 [33, 111, 88, 120, 106, 89, 153, 5, 25, 34, 36, 38, 63, 66, 68] 75,
  mkDS 77 8 8 2 4 6 0 15 [52, 39, 23, 45, 83, 36, 97, 32, 34, 38, 92, 99, 102, 104, 115] 76,
  mkDS 78 8 8 2 4 0 1 15 [23, 39, 45, 52, 83, 36, 97, 32, 34, 38, 63, 92, 99, 102, 104] 77,
  mkDS 79 9 12 8 0 1 0 15 [93, 50, 29, 45, 55, 133, 94, 6, 34, 36, 38, 57, 58, 59, 61] 78,
  mkDS 80 9 12 8 2 5 1 15 [29, 50, 93, 45, 55, 110, 133, 94, 5, 6, 25, 34, 36, 38, 57] 79,
  mkDS 81 11 11 5 3 6 0 15 [33, 49, 84, 48, 86, 129, 103, 36, 38, 85, 87, 92, 99, 100, 102] 80,
  mkDS 82 11 11 5 3 0 1 15 [33, 49, 84, 48, 86, 129, 103, 36, 38, 63, 85, 87, 92, 99, 100] 81,
  mkDS 83 0 2 2 1 1 0 15 [28, 64, 43, 31, 14, 97, 163, 13, 15, 18, 19, 34, 36, 38, 92] 82,
  mkDS 84 0 2 2 1 1 0 15 [64, 45, 31, 65, 99, 161, 97, 18, 19, 34, 36, 38, 92, 102, 104] 83,
  mkDS 85 0 2 2 1 2 1 15 [31, 45, 64, 65, 99, 161, 97, 18, 19, 34, 36, 38, 63, 92, 102] 84,
  mkDS 86 9 9 6 0 3 0 15 [29, 45, 62, 156, 36, 58, 6, 32, 34, 38, 55, 57, 59, 61, 70] 85,
  mkDS 87 9 13 6 0 3 1 15 [29, 45, 62, 156, 36, 58, 6, 32, 34, 38, 55, 57, 59, 61, 63] 86,
  mkDS 88 3 3 7 0 3 0 15 [1, 50, 139, 107, 124, 106, 103, 151, 34, 72, 85, 87, 92, 99, 102] 87,
  mkDS 89 3 3 7 0 3 1 15 [1, 50, 139, 107, 124, 106, 103, 151, 34, 63, 72, 85, 87, 92, 99] 88,
  mkDS 90 9 9 6 2 6 0 15 [33, 110, 48, 128, 62, 43, 58, 36, 38, 55, 57, 59, 61, 92, 99] 89,
  mkDS 91 9 13 6 2 0 1 15 [48, 62, 110, 128, 131, 36, 38, 55, 57, 58, 59, 61, 63, 92, 99] 90,
  mkDS 92 7 3 0 3 4 0 15 [101, 109, 122, 95, 138, 72, 85, 87, 92, 94, 99, 102, 104, 117, 120] 91,
  mkDS 93 7 3 0 3 4 1 15 [101, 109, 122, 95, 138, 72, 85, 87, 92, 94, 99, 102, 104, 117, 120] 92,
  mkDS 94 7 3 0 3 4 2 15 [101, 109, 122, 95, 138, 5, 25, 34, 36, 38, 63, 66, 68, 69, 70] 93,
  mkDS 95 5 4 0 2 0 0 15 [33, 103, 20, 88, 99, 21, 106, 34, 36, 38, 70, 89, 90, 91, 92] 94,
  mkDS 96 12 12 2 0 4 0 15 [1, 95, 50, 93, 29, 139, 94, 96, 5, 25, 34, 36, 38, 66, 68] 95,
  mkDS 97 12 12 2 0 4 1 15 [1, 50, 93, 95, 29, 139, 94, 96, 5, 25, 34, 36, 38, 63, 66] 96,
  mkDS 98 9 9 8 1 2 0 15 [43, 145, 11, 12, 23, 152, 106, 14, 15, 34, 36, 38, 55, 57, 58] 97,
  mkDS 99 9 9 8 1 2 1 15 [11, 43, 145, 12, 23, 152, 106, 14, 15, 34, 36, 38, 55, 57, 58] 98,
  mkDS 100 11 11 7 4 2 0 15 [33, 103, 49, 120, 113, 129, 153, 36, 85, 86, 87, 92, 99, 100, 102] 99,
  mkDS 101 11 11 7 4 2 1 15 [33, 49, 103, 120, 113, 129, 153, 36, 63, 85, 86, 87, 92, 99, 100] 100,
  mkDS 102 10 12 1 2 6 0 15 [95, 140, 115, 73, 78, 77, 76, 79, 36, 38, 92, 94, 99, 100, 102] 101,
  mkDS 103 10 12 1 3 5 1 15 [95, 140, 23, 36, 38, 63, 70, 72, 76, 92, 94, 99, 100, 102, 104] 102,
  mkDS 104 4 4 3 2 6 0 15 [45, 125, 43, 116, 37, 155, 99, 5, 25, 34, 36, 38, 55, 58, 59] 103,
  mkDS 105 4 4 3 2 0 1 15 [43, 45, 116, 125, 37, 155, 99, 5, 25, 34, 36, 38, 55, 58, 59] 104,
  mkDS 106 1 1 7 1 2 1 15 [24, 96, 27, 26, 116, 136, 25, 5, 34, 36, 38, 66, 68, 69, 70] 105,
  mkDS 107 1 1 7 0 2 1 15 [4, 97, 7, 8, 9, 5, 68, 25, 34, 36, 38, 66, 69, 70, 92] 106,
  mkDS 108 0 0 2 0 1 0 15 [35, 48, 23, 50, 111, 21, 103, 5, 14, 15, 25, 34, 36, 38, 55] 107,
  mkDS 109 3 3 7 2 3 0 15 [33, 123, 124, 108, 120, 114, 153, 85, 87, 92, 99, 102, 104, 117, 126] 108,
  mkDS 110 3 3 7 2 5 1 15 [33, 123, 124, 108, 120, 114, 153, 63, 85, 87, 92, 99, 102, 104, 117] 109,
  mkDS 111 4 5 5 2 2 0 15 [30, 23, 39, 31, 32, 43, 36, 34, 38, 70, 85, 87, 89, 90, 91] 110,
  mkDS 112 4 5 5 1 2 1 15 [23, 30, 31, 39, 32, 43, 36, 5, 6, 25, 34, 38, 55, 57, 58] 111,
  mkDS 113 0 0 7 0 3 1 15 [1, 3, 47, 45, 107, 111, 113, 38, 5, 25, 34, 36, 55, 58, 59] 112,
  mkDS 114 10 10 2 2 6 0 15 [20, 132, 71, 77, 78, 79, 21, 74, 14, 15, 34, 36, 38, 63, 72] 113,
  mkDS 115 0 0 2 0 3 0 15 [4, 99, 44, 39, 5, 43, 146, 25, 34, 36, 38, 55, 57, 58, 59] 114,
  mkDS 116 9 9 6 2 6 0 15 [145, 108, 43, 55, 97, 56, 36, 38, 57, 58, 59, 61, 92, 99, 102] 115,
  mkDS 117 9 9 6 2 0 1 15 [108, 145, 43, 55, 97, 56, 36, 38, 57, 58, 59, 61, 63, 92, 99] 116,
  mkDS 118 9 9 8 1 0 0 15 [39, 64, 48, 30, 31, 127, 32, 97, 36, 38, 55, 57, 58, 59, 61] 117,
  mkDS 119 9 9 8 1 0 1 15 [39, 48, 64, 30, 31, 127, 32, 97, 36, 38, 55, 57, 58, 59, 61] 118,
  mkDS 120 9 9 6 4 6 0 15 [33, 55, 106, 105, 129, 107, 113, 56, 36, 38, 57, 58, 59, 61, 85] 119,
  mkDS 121 9 12 6 4 0 1 15 [33, 55, 106, 36, 38, 57, 58, 59, 61, 63, 85, 86, 87, 92, 94] 120,
  mkDS 122 12 12 7 0 4 1 15 [93, 112, 113, 3, 96, 164, 5, 25, 34, 36, 38, 63, 66, 68, 69] 121,
  mkDS 123 6 2 2 1 2 0 15 [98, 43, 116, 104, 163, 14, 97, 15, 36, 38, 63, 92, 99, 102, 117] 122,
  mkDS 124 13 12 7 3 0 1 15 [1, 142, 122, 3, 8, 34, 37, 59, 5, 25, 36, 38, 55, 58, 61] 123,
  mkDS 125 11 11 2 4 2 1 15 [43, 98, 84, 103, 9, 113, 87, 5, 25, 34, 36, 38, 63, 66, 68] 124,
  mkDS 126 8 8 3 3 2 1 15 [52, 43, 109, 7, 108, 123, 53, 5, 25, 34, 36, 38, 63, 66, 68] 125,
  mkDS 127 6 6 1 1 2 0 15 [11, 69, 12, 116, 106, 163, 14, 15, 34, 36, 38, 63, 66, 70, 92] 126,
  mkDS 128 0 0 2 4 2 0 15 [33, 23, 39, 43, 99, 36, 32, 34, 38, 58, 59, 63, 70, 85, 87] 127,
  mkDS 129 9 9 8 4 1 0 2 [150, 33, 0, 0, 0, 0, 0, 0, 0, 0, 0, 0, 0, 0, 0] 128,
  mkDS 130 9 2 8 1 0 1 15 [43, 44, 56, 82, 63, 34, 36, 38, 55, 57, 58, 59, 61, 70, 85] 129,
  mkDS 131 9 13 6 0 3 0 15 [45, 55, 47, 54, 34, 109, 58, 56, 32, 36, 38, 57, 59, 61, 63] 130,
  mkDS 132 0 0 7 0 4 0 1 [144, 0, 0, 0, 0, 0, 0, 0, 0, 0, 0, 0, 0, 0, 0] 131,
  mkDS 133 0 0 7 0 6 0 15 [28, 33, 98, 39, 44, 36, 34, 38, 92, 99, 102, 104, 115, 117, 129] 132,
  mkDS 134 9 9 7 0 3 1 15 [28, 33, 55, 98, 39, 44, 151, 114, 54, 56, 34, 36, 38, 57, 58] 133,
  mkDS 135 11 11 7 4 6 1 15 [28, 33, 84, 98, 39, 86, 24, 97, 42, 87, 34, 36, 38, 63, 85] 134,
  mkDS 136 8 8 7 1 5 1 15 [28, 33, 52, 98, 39, 44, 43, 83, 99, 53, 34, 36, 38, 63, 92] 135,
  mkDS 137 0 0 7 3 6 0 15 [33, 159, 160, 60, 105, 97, 161, 36, 38, 58, 59, 63, 85, 86, 87] 136,
  mkDS 138 5 9 6 2 6 0 15 [55, 110, 30, 43, 131, 56, 34, 36, 38, 57, 58, 59, 61, 92, 99] 137,
  mkDS 139 5 9 6 2 2 1 15 [30, 55, 110, 43, 131, 56, 32, 34, 36, 38, 57, 58, 59, 61, 63] 138,
  mkDS 140 5 9 6 2 6 0 15 [10, 106, 71, 163, 43, 56, 34, 36, 38, 55, 57, 58, 59, 61, 92] 139,
  mkDS 141 5 9 6 1 2 1 15 [10, 71, 106, 163, 43, 56, 13, 14, 25, 34, 36, 38, 55, 57, 58] 140,
  mkDS 142 5 2 3 4 2 0 15 [17, 97, 48, 44, 36, 63, 13, 18, 19, 38, 82, 92, 99, 102, 104] 141,
  mkDS 143 0 0 3 0 5 1 15 [29, 133, 156, 34, 106, 38, 63, 5, 6, 25, 36, 55, 57, 58, 59] 142,
  mkDS 144 13 2 4 0 0 0 15 [58, 64, 59, 97, 54, 13, 18, 19, 36, 38, 55, 61, 63, 92, 99] 143,
  mkDS 145 11 2 4 3 2 0 15 [65, 84, 87, 97, 113, 13, 18, 19, 36, 38, 63, 85, 86, 92, 99] 144,
  mkDS 146 8 2 4 3 0 0 15 [64, 83, 43, 97, 143, 13, 18, 19, 36, 38, 63, 92, 99, 102, 104] 145,
  mkDS 147 14 14 8 1 6 0 15 [35, 43, 86, 97, 21, 82, 63, 34, 36, 38, 55, 57, 58, 59, 61] 146,
  mkDS 148 14 14 8 1 0 1 15 [35, 43, 86, 97, 21, 82, 63, 32, 34, 36, 38, 55, 57, 58, 59] 147,
  mkDS 149 14 2 8 1 0 2 15 [35, 43, 86, 97, 21, 82, 63, 13, 32, 34, 36, 38, 55, 57, 58] 148,
  mkDS 150 12 12 4 3 2 0 15 [50, 93, 94, 129, 112, 105, 54, 133, 5, 6, 25, 34, 36, 38, 55] 149,
  mkDS 151 12 12 4 0 4 0 15 [1, 144, 5, 118, 94, 6, 13, 14, 15, 18, 19, 25, 32, 34, 36] 150]"

definition daycareGetSpecies :: "nat \<Rightarrow> DaycareSpecies option" where
  "daycareGetSpecies dexNum =
     (if dexNum < 1 \<or> dexNum > 151 then None else Some (daycareSpecies ! (dexNum - 1)))"

definition hasType :: "nat \<Rightarrow> nat \<Rightarrow> bool" where
  "hasType t dexNum =
     (case daycareGetSpecies dexNum of Some sp \<Rightarrow> sp_type1 sp = t \<or> sp_type2 sp = t | None \<Rightarrow> False)"

end
