(* ===== verification/DaycareText.thy ===== *)
theory DaycareText
  imports Prelude
begin

text \<open>
  The text tables of the daycare events, generated from \<^verbatim>\<open>src/modules/monstermesh/DaycareEventGen.cpp\<close>
  and \<^verbatim>\<open>DaycareData.h\<close>: names, slot pools, templates.  Strings are byte strings; the dash of some
  templates is its three UTF-8 bytes.  Of the facts below the event generator uses the lengths.
\<close>

abbreviation (input) EM_DASH :: string where "EM_DASH \<equiv> [CHR 0xE2, CHR 0x80, CHR 0x94]"

subsection \<open>Names\<close>

definition daycareMoveNames :: "string list" where
  "daycareMoveNames = [
     ''???'',
     ''Pound'',
     ''Karate Chop'',
     ''Double Slap'',
     ''Comet Punch'',
     ''Mega Punch'',
     ''Pay Day'',
     ''Fire Punch'',
     ''Ice Punch'',
     ''Thunder Punch'',
     ''Scratch'',
     ''Vice Grip'',
     ''Guillotine'',
     ''Razor Wind'',
     ''Swords Dance'',
     ''Cut'',
     ''Gust'',
     ''Wing Attack'',
     ''Whirlwind'',
     ''Fly'',
     ''Bind'',
     ''Slam'',
     ''Vine Whip'',
     ''Stomp'',
     ''Double Kick'',
     ''Mega Kick'',
     ''Jump Kick'',
     ''Rolling Kick'',
     ''Sand Attack'',
     ''Headbutt'',
     ''Horn Attack'',
     ''Fury Attack'',
     ''Horn Drill'',
     ''Tackle'',
     ''Body Slam'',
     ''Wrap'',
     ''Take Down'',
     ''Thrash'',
     ''Double Edge'',
     ''Tail Whip'',
     ''Poison Sting'',
     ''Twineedle'',
     ''Pin Missile'',
     ''Leer'',
     ''Bite'',
     ''Growl'',
     ''Roar'',
     ''Sing'',
     ''Supersonic'',
     ''Sonic Boom'',
     ''Disable'',
     ''Acid'',
     ''Ember'',
     ''Flamethrower'',
     ''Mist'',
     ''Water Gun'',
     ''Hydro Pump'',
     ''Surf'',
     ''Ice Beam'',
     ''Blizzard'',
     ''Psybeam'',
     ''Bubble Beam'',
     ''Aurora Beam'',
     ''Hyper Beam'',
     ''Peck'',
     ''Drill Peck'',
     ''Submission'',
     ''Low Kick'',
     ''Counter'',
     ''Seismic Toss'',
     ''Strength'',
     ''Absorb'',
     ''Mega Drain'',
     ''Leech Seed'',
     ''Growth'',
     ''Razor Leaf'',
     ''Solar Beam'',
     ''Poison Powder'',
     ''Stun Spore'',
     ''Sleep Powder'',
     ''Petal Dance'',
     ''String Shot'',
     ''Dragon Rage'',
     ''Fire Spin'',
     ''Thunder Shock'',
     ''Thunderbolt'',
     ''Thunder Wave'',
     ''Thunder'',
     ''Rock Throw'',
     ''Earthquake'',
     ''Fissure'',
     ''Dig'',
     ''Toxic'',
     ''Confusion'',
     ''Psychic'',
     ''Hypnosis'',
     ''Meditate'',
     ''Agility'',
     ''Quick Attack'',
     ''Rage'',
     ''Teleport'',
     ''Night Shade'',
     ''Mimic'',
     ''Screech'',
     ''Double Team'',
     ''Recover'',
     ''Harden'',
     ''Minimize'',
     ''Smokescreen'',
     ''Confuse Ray'',
     ''Withdraw'',
     ''Defense Curl'',
     ''Barrier'',
     ''Light Screen'',
     ''Haze'',
     ''Reflect'',
     ''Focus Energy'',
     ''Bide'',
     ''Metronome'',
     ''Mirror Move'',
     ''Self Destruct'',
     ''Egg Bomb'',
     ''Lick'',
     ''Smog'',
     ''Sludge'',
     ''Bone Club'',
     ''Fire Blast'',
     ''Waterfall'',
     ''Clamp'',
     ''Swift'',
     ''Skull Bash'',
     ''Spike Cannon'',
     ''Constrict'',
     ''Amnesia'',
     ''Kinesis'',
     ''Soft Boiled'',
     ''High Jump Kick'',
     ''Glare'',
     ''Dream Eater'',
     ''Poison Gas'',
     ''Barrage'',
     ''Leech Life'',
     ''Lovely Kiss'',
     ''Sky Attack'',
     ''Transform'',
     ''Bubble'',
     ''Dizzy Punch'',
     ''Spore'',
     ''Flash'',
     ''Psywave'',
     ''Splash'',
     ''Acid Armor'',
     ''Crabhammer'',
     ''Explosion'',
     ''Fury Swipes'',
     ''Bonemerang'',
     ''Rest'',
     ''Rock Slide'',
     ''Hyper Fang'',
     ''Sharpen'',
     ''Conversion'',
     ''Tri Attack'',
     ''Super Fang'',
     ''Slash'',
     ''Substitute'',
     ''Struggle'']"

definition daycareSpeciesNames :: "string list" where
  "daycareSpeciesNames = [
     ''???'',
     ''Bulbasaur'',
     ''Ivysaur'',
     ''Venusaur'',
     ''Charmander'',
     ''Charmeleon'',
     ''Charizard'',
     ''Squirtle'',
     ''Wartortle'',
     ''Blastoise'',
     ''Caterpie'',
     ''Metapod'',
     ''Butterfree'',
     ''Weedle'',
     ''Kakuna'',
     ''Beedrill'',
     ''Pidgey'',
     ''Pidgeotto'',
     ''Pidgeot'',
     ''Rattata'',
     ''Raticate'',
     ''Spearow'',
     ''Fearow'',
     ''Ekans'',
     ''Arbok'',
     ''Pikachu'',
     ''Raichu'',
     ''Sandshrew'',
     ''Sandslash'',
     ''Nidoran F'',
     ''Nidorina'',
     ''Nidoqueen'',
     ''Nidoran M'',
     ''Nidorino'',
     ''Nidoking'',
     ''Clefairy'',
     ''Clefable'',
     ''Vulpix'',
     ''Ninetales'',
     ''Jigglypuff'',
     ''Wigglytuff'',
     ''Zubat'',
     ''Golbat'',
     ''Oddish'',
     ''Gloom'',
     ''Vileplume'',
     ''Paras'',
     ''Parasect'',
     ''Venonat'',
     ''Venomoth'',
     ''Diglett'',
     ''Dugtrio'',
     ''Meowth'',
     ''Persian'',
     ''Psyduck'',
     ''Golduck'',
     ''Mankey'',
     ''Primeape'',
     ''Growlithe'',
     ''Arcanine'',
     ''Poliwag'',
     ''Poliwhirl'',
     ''Poliwrath'',
     ''Abra'',
     ''Kadabra'',
     ''Alakazam'',
     ''Machop'',
     ''Machoke'',
     ''Machamp'',
     ''Bellsprout'',
     ''Weepinbell'',
     ''Victreebel'',
     ''Tentacool'',
     ''Tentacruel'',
     ''Geodude'',
     ''Graveler'',
     ''Golem'',
     ''Ponyta'',
     ''Rapidash'',
     ''Slowpoke'',
     ''Slowbro'',
     ''Magnemite'',
     ''Magneton'',
     ''Farfetch'd'',
     ''Doduo'',
     ''Dodrio'',
     ''Seel'',
     ''Dewgong'',
     ''Grimer'',
     ''Muk'',
     ''Shellder'',
     ''Cloyster'',
     ''Gastly'',
     ''Haunter'',
     ''Gengar'',
     ''Onix'',
     ''Drowzee'',
     ''Hypno'',
     ''Krabby'',
     ''Kingler'',
     ''Voltorb'',
     ''Electrode'',
     ''Exeggcute'',
     ''Exeggutor'',
     ''Cubone'',
     ''Marowak'',
     ''Hitmonlee'',
     ''Hitmonchan'',
     ''Lickitung'',
     ''Koffing'',
     ''Weezing'',
     ''Rhyhorn'',
     ''Rhydon'',
     ''Chansey'',
     ''Tangela'',
     ''Kangaskhan'',
     ''Horsea'',
     ''Seadra'',
     ''Goldeen'',
     ''Seaking'',
     ''Staryu'',
     ''Starmie'',
     ''Mr. Mime'',
     ''Scyther'',
     ''Jynx'',
     ''Electabuzz'',
     ''Magmar'',
     ''Pinsir'',
     ''Tauros'',
     ''Magikarp'',
     ''Gyarados'',
     ''Lapras'',
     ''Ditto'',
     ''Eevee'',
     ''Vaporeon'',
     ''Jolteon'',
     ''Flareon'',
     ''Porygon'',
     ''Omanyte'',
     ''Omastar'',
     ''Kabuto'',
     ''Kabutops'',
     ''Aerodactyl'',
     ''Snorlax'',
     ''Articuno'',
     ''Zapdos'',
     ''Moltres'',
     ''Dratini'',
     ''Dragonair'',
     ''Dragonite'',
     ''Mewtwo'',
     ''Mew'']"

subsection \<open>Slot pools\<close>

definition actionsMove :: "string list" where
  "actionsMove = [
     ''practiced %s'',
     ''tried %s'',
     ''showed off %s'',
     ''failed at %s'',
     ''perfected %s'',
     ''accidentally used %s'',
     ''experimented with %s'',
     ''drilled %s'']"

definition actionsSocial :: "string list" where
  "actionsSocial = [
     ''played with'',
     ''chased'',
     ''wrestled'',
     ''raced'',
     ''shared a berry with'',
     ''hid from'',
     ''startled'',
     ''groomed'',
     ''napped beside'',
     ''sparred with'']"

definition actionsExplore :: "string list" where
  "actionsExplore = [
     ''discovered'',
     ''investigated'',
     ''dug up'',
     ''stumbled upon'',
     ''followed a trail to'',
     ''sniffed out'',
     ''climbed up to'']"

definition actionsRest :: "string list" where
  "actionsRest = [
     ''napped'',
     ''dozed off'',
     ''curled up'',
     ''sprawled out'',
     ''settled down'',
     ''found a cozy spot'']"

definition targetsMove :: "string list" where
  "targetsMove = [
     ''on a tree stump'',
     ''on a boulder'',
     ''on a leaf pile'',
     ''on the ground'',
     ''on thin air'',
     ''on a passing Pidgey'',
     ''on its own shadow'',
     ''on the pond surface'',
     ''on a fallen log'',
     ''on a dirt mound'']"

definition targetsFound :: "string list" where
  "targetsFound = [
     ''a shiny pebble'',
     ''an old berry'',
     ''a weird mushroom'',
     ''a lost coin'',
     ''a feather'',
     ''a smooth stone'',
     ''a buried bone'',
     ''a pretty flower'',
     ''a strange seed'',
     ''a piece of driftwood'',
     ''a sparkling crystal'',
     ''a round acorn'']"

definition locations :: "string list" where
  "locations = [
     ''by the pond'',
     ''in the meadow'',
     ''near the big oak'',
     ''on the hilltop'',
     ''in the tall grass'',
     ''under the berry tree'',
     ''behind the rocks'',
     ''along the stream'',
     ''at the edge of the clearing'',
     ''in a sunny patch'',
     ''in the shade'',
     ''by the fence'',
     ''near the den'',
     ''on a warm rock'',
     ''under the stars'']"

subsection \<open>Event templates\<close>

definition dreamTemplates :: "string list" where
  "dreamTemplates = [
     ''Your %s dreamed about evolving.'',
     ''Your %s had a peaceful dream about a sunny field.'',
     ''Your %s dreamed about running through a thunderstorm.'',
     ''Your %s dreamed about an endless buffet. It smiled in its sleep.'',
     ''Your %s dreamed about flying over a waterfall.'',
     ''Your %s dreamed about all the things it could become.'',
     ''Your %s dreamed about the shadows. It seemed happy.'',
     ''Your %s had a dream about its trainer. Its tail wagged in its sleep.'',
     ''Your %s dreamed about swimming in an ocean of stars.'',
     ''Your %s had a restless dream. It muttered in its sleep.'',
     ''Your %s dreamed about winning a great battle.'',
     ''Your %s dreamed about a warm campfire and good friends.'',
     ''Your %s twitched in its sleep. Chasing something in a dream.'',
     ''Your %s dreamed about discovering a hidden cave.'',
     ''Your %s had a nightmare but then something comforted it in the dream.'']"

definition foreshadowDreams :: "string list" where
  "foreshadowDreams = [
     ''Your %s's body glowed faintly in its dream. Something is changing.'',
     ''Your %s dreamed about being stronger. It might be close to a breakthrough.'',
     ''Your %s dreamed it could do things it couldn't before.'']"

definition visitorWelcomeTemplates :: "string list" where
  "visitorWelcomeTemplates = [
     ''A new trainer arrived! Your %s ran over to say hello.'',
     ''Your %s is curious about the new Pokemon in the daycare!'',
     ''Your %s perked up '' @ EM_DASH @ '' new friends!'',
     ''A new trainer joined the mesh! Your %s sniffed the air excitedly.'',
     ''Your %s noticed unfamiliar Pokemon and went to investigate.'']"

definition escapeFlying :: "string list" where
  "escapeFlying = [
     ''Your %s flew over the fence and explored the hills. It came back at sunset.'',
     ''Your %s soared above the daycare for a while. It came back looking refreshed.'']"

definition escapeDigger :: "string list" where
  "escapeDigger = [
     ''Your %s tunneled under the fence. It came back covered in mud and looking proud.'',
     ''Your %s dug an escape tunnel but came back before anyone noticed.'']"

definition escapeGhost :: "string list" where
  "escapeGhost = [
     ''Your %s phased through the wall and scared some wild Rattata outside. It came back laughing.'',
     ''Your %s slipped into the shadows and disappeared for an hour. It came back grinning.'']"

definition escapeWater :: "string list" where
  "escapeWater = [
     ''Your %s followed the stream past the boundary. It floated back an hour later.'',
     ''Your %s swam downstream and explored. It came back smelling like the river.'']"

definition escapeSmall :: "string list" where
  "escapeSmall = [
     ''Your %s squeezed through a gap in the fence. It came back with a leaf in its fur.'',
     ''Your %s found a hole in the fence and went on an adventure. It came back safe.'']"

definition mischiefTemplates :: "string list" where
  "mischiefTemplates = [
     ''Your %s stole a berry from the pile and hid it.'',
     ''Your %s startled a sleeping Pokemon and ran away giggling.'',
     ''Your %s knocked over a pile of rocks just to see what would happen.'',
     ''Your %s pretended to be asleep and then jumped out at someone.'',
     ''Your %s dug a hole in the path. Someone's going to trip.'',
     ''Your %s hid someone's favorite napping spot.'']"

definition rainBoost :: "string list" where
  "rainBoost = [
     ''Your %s is having the time of its life splashing in puddles.'',
     ''Your %s spread its leaves wide to catch the rain.'',
     ''Your %s danced in the downpour.'']"

definition rainPen :: "string list" where
  "rainPen = [
     ''Your %s is huddled under a rock, keeping dry. It looks miserable.'',
     ''Your %s is staying away from the puddles. Smart.'',
     ''Your %s found shelter and refuses to come out until the rain stops.'']"

definition tsBoot :: "string list" where
  "tsBoot = [
     ''Your %s ran to the highest hill and absorbed a bolt of lightning! It's vibrating with energy!'',
     ''Your %s is crackling with electricity from the storm!'']"

definition tsPen :: "string list" where
  "tsPen = [
     ''Your %s is grounded by the storm. It's pacing impatiently.'',
     ''Your %s dove for cover when the lightning started.'']"

definition sunBoost :: "string list" where
  "sunBoost = [
     ''Your %s basked in the sun. Its energy is radiating.'',
     ''Your %s photosynthesized all morning. It looks healthier.'',
     ''Your %s loves this heat!'']"

definition sunPen :: "string list" where
  "sunPen = [
     ''Your %s is desperately staying in the shade.'',
     ''Your %s made a small cold patch to lie on. It's suffering.'']"

definition snowBoost :: "string list" where
  "snowBoost = [
     ''Your %s is singing in the snowfall! It hasn't been this happy in weeks.'',
     ''Your %s built an ice sculpture. It's beautiful.'',
     ''Your %s is thriving in the cold!'']"

definition snowPen :: "string list" where
  "snowPen = [
     ''Your %s is huddled for warmth. Its energy is low.'',
     ''Your %s found a sheltered spot and went dormant.'']"

definition windBoost :: "string list" where
  "windBoost = [
     ''Your %s soared higher than ever on the updrafts!'',
     ''Your %s rode the wind currents with joy!'']"

definition windPen :: "string list" where
  "windPen = [
     ''Your %s got blown off a branch.'',
     ''Your %s is struggling against the wind.'']"

definition fogBoost :: "string list" where
  "fogBoost = [
     ''Your %s is THRIVING in the fog. It scared four Pokemon before breakfast.'',
     ''Your %s disappeared into the fog. It's probably fine.'']"

definition fogPen :: "string list" where
  "fogPen = [
     ''Your %s is sticking very close to the den. It can't see anything.'',
     ''Your %s bumped into three things in the fog.'']"

definition typeNameStr :: "string list" where
  "typeNameStr = [
     ''Normal'',
     ''Fighting'',
     ''Flying'',
     ''Poison'',
     ''Ground'',
     ''Rock'',
     ''Bug'',
     ''Ghost'',
     ''Fire'',
     ''Water'',
     ''Grass'',
     ''Electric'',
     ''Psychic'',
     ''Ice'',
     ''Dragon'']"

definition arrivalAffinityTemplates :: "string list" where
  "arrivalAffinityTemplates = [
     ''Your %s ran over to greet %s '' @ EM_DASH @ '' kindred %s spirits!'',
     ''Your %s and %s hit it off immediately! Fellow %s types.'',
     ''Your %s spotted %s and got excited '' @ EM_DASH @ '' a fellow %s type!'',
     ''Your %s bounded up to %s. %s types stick together!'',
     ''Your %s sniffed the air and dashed toward %s. %s pals!'']"

definition arrivalRivalryTemplates :: "string list" where
  "arrivalRivalryTemplates = [
     ''Your %s locked eyes with %s '' @ EM_DASH @ '' an instant rivalry!'',
     ''Your %s sized up %s. Sparks are already flying!'',
     ''Your %s and %s circled each other warily. This could get interesting!'',
     ''Your %s puffed up as %s approached. A challenge!'']"

definition arrivalCuriousTemplates :: "string list" where
  "arrivalCuriousTemplates = [
     ''Your %s wandered over to check out %s.'',
     ''Your %s curiously approached %s.'',
     ''Your %s noticed %s and went to investigate.'']"

subsection \<open>Signature templates\<close>

record FlatTemplate =
  ft_speciesDex :: nat
  ft_message :: string
  ft_hasXp :: bool
  ft_xp :: nat

definition mkFT :: "nat \<Rightarrow> string \<Rightarrow> bool \<Rightarrow> nat \<Rightarrow> FlatTemplate" where
  "mkFT d m h x = \<lparr>ft_speciesDex = d, ft_message = m, ft_hasXp = h, ft_xp = x\<rparr>"

definition flatTemplates :: "FlatTemplate list" where
  "flatTemplates = [
     mkFT 143 (''Your Snorlax slept for 14 hours. It briefly woke up, ate everything, and went back to sleep.'') False 0,
     mkFT 143 (''Your Snorlax is blocking the path again. Nobody can get through.'') False 0,
     mkFT 143 (''Your Snorlax yawned so hard it created a small breeze.'') False 0,
     mkFT 25 (''Your Pikachu refused to go in its Poke Ball again. It's sitting on Snorlax.'') False 0,
     mkFT 25 (''Your Pikachu found a bottle of ketchup. It won't share.'') False 0,
     mkFT 25 (''Your Pikachu thunderbolted a tree stump. Just because.'') True 15,
     mkFT 129 (''Your Magikarp used Splash. Nothing happened. Magikarp used Splash again.'') False 0,
     mkFT 129 (''Your Magikarp flopped around for a while. It's trying its best.'') False 0,
     mkFT 129 (''Your Magikarp splashed with incredible determination.'') True 5,
     mkFT 39 (''Your Jigglypuff gave a concert. Everyone fell asleep. Everyone has marker on their face.'') False 0,
     mkFT 39 (''Your Jigglypuff sang to the clouds. They didn't fall asleep. Finally, an appreciative audience.'') False 0,
     mkFT 54 (''Your Psyduck stared at a wall for 3 hours. Then accidentally Psychic'd Geodude into the air.'') True 20,
     mkFT 54 (''Your Psyduck's headache got worse. Then it got better. Nobody knows why.'') False 0,
     mkFT 6 (''Your Charizard ignored everyone. Except Dragonite '' @ EM_DASH @ '' it challenged Dragonite to a fight.'') True 20,
     mkFT 6 (''Your Charizard perched on the highest rock and surveyed everything below.'') False 0,
     mkFT 94 (''Your Gengar hid in someone's shadow and scared them. Then it laughed for 20 minutes.'') True 10,
     mkFT 94 (''Your Gengar tried to be scary but everyone was used to it by now. It looked disappointed.'') False 0,
     mkFT 104 (''Your Cubone was alone by the pond. It stared at the moon for a long time.'') False 0,
     mkFT 104 (''Your Cubone found a stick and pretended it was a bone club. It practiced swinging.'') True 10,
     mkFT 122 (''Your Mr. Mime built an invisible wall across the path. Three Pokemon walked into it.'') False 0,
     mkFT 122 (''Your Mr. Mime mimed a battle. It was surprisingly intense.'') True 15,
     mkFT 89 (''Your Muk tried to hug someone. They ran. Muk doesn't understand why.'') False 0,
     mkFT 89 (''Your Muk oozed into a comfortable puddle shape. It seems content.'') False 0,
     mkFT 133 (''Your Eevee can't decide what to do. It started three activities and finished none.'') False 0,
     mkFT 133 (''Your Eevee sat with everyone in the daycare today. One at a time.'') True 10,
     mkFT 1 (''Your Bulbasaur tended to a wilting flower. It perked right up.'') True 10,
     mkFT 1 (''Your Bulbasaur settled a fight between two other Pokemon. Natural peacekeeper.'') True 15,
     mkFT 7 (''Your Squirtle organized a water gun fight. It won.'') True 15,
     mkFT 7 (''Your Squirtle put on sunglasses it found somewhere. It looks cool.'') False 0,
     mkFT 4 (''Your Charmander is guarding its tail flame from the wind. Brave little guy.'') False 0,
     mkFT 4 (''Your Charmander practiced Ember until the tree stump caught fire. Oops.'') True 15,
     mkFT 150 (''Your Mewtwo sat alone on the hilltop. It was thinking about the nature of existence.'') False 0,
     mkFT 150 (''Your Mewtwo levitated every rock in the clearing. Just to see if it could.'') True 25,
     mkFT 79 (''Your Slowpoke realized something funny from three days ago. It laughed.'') False 0,
     mkFT 79 (''Your Slowpoke stared at the pond for 6 hours. It blinked once.'') False 0,
     mkFT 132 (''Your Ditto transformed into a rock. Nobody noticed for hours.'') False 0,
     mkFT 132 (''Your Ditto copied someone's appearance. There was briefly a lot of confusion.'') False 0,
     mkFT 149 (''Your Dragonite gave smaller Pokemon rides on its back. Everyone had a great time.'') True 15,
     mkFT 149 (''Your Dragonite delivered a berry to every Pokemon in the daycare. Mail carrier instincts.'') True 10,
     mkFT 131 (''Your Lapras sang across the pond. The other Pokemon stopped to listen.'') True 10,
     mkFT 131 (''Your Lapras gave a swimming lesson. Only the Water types passed.'') True 15,
     mkFT 57 (''Your Primeape punched a tree. The tree lost.'') True 15,
     mkFT 57 (''Your Primeape got angry at a cloud. It's still angry.'') False 0,
     mkFT 130 (''Your Gyarados surfaced in the pond and everyone backed away slowly.'') False 0,
     mkFT 130 (''Your Gyarados roared and the ripples reached the far shore.'') True 20,
     mkFT 93 (''Your Haunter licked someone. They're paralyzed but it's wearing off.'') False 0,
     mkFT 93 (''Your Haunter made funny faces until someone laughed. Mission accomplished.'') True 10,
     mkFT 63 (''Your Abra teleported in its sleep. It's now napping in a tree.'') False 0,
     mkFT 63 (''Your Abra woke up for 30 seconds. Then teleported back to its napping spot.'') False 0,
     mkFT 68 (''Your Machamp set up an obstacle course for the other Pokemon.'') True 15,
     mkFT 68 (''Your Machamp carried a boulder just to prove it could.'') True 10,
     mkFT 113 (''Your Chansey bandaged a scraped knee on another Pokemon. Nurse on duty.'') True 10,
     mkFT 113 (''Your Chansey offered its egg to someone who looked hungry.'') False 0,
     mkFT 109 (''Your Koffing floated around happily. It doesn't know why the others keep their distance.'') False 0,
     mkFT 109 (''Your Koffing sat with Muk. They had a lovely time. Nobody else joined.'') False 0]"

subsection \<open>Sizes\<close>

lemma length_daycareMoveNames [simp]: "length daycareMoveNames = 166"
  by (simp add: daycareMoveNames_def)

lemma length_daycareSpeciesNames [simp]: "length daycareSpeciesNames = 152"
  by (simp add: daycareSpeciesNames_def)

lemma length_actionsMove [simp]: "length actionsMove = 8"
  by (simp add: actionsMove_def)

lemma length_actionsSocial [simp]: "length actionsSocial = 10"
  by (simp add: actionsSocial_def)

lemma length_actionsExplore [simp]: "length actionsExplore = 7"
  by (simp add: actionsExplore_def)

lemma length_actionsRest [simp]: "length actionsRest = 6"
  by (simp add: actionsRest_def)

lemma length_targetsMove [simp]: "length targetsMove = 10"
  by (simp add: targetsMove_def)

lemma length_targetsFound [simp]: "length targetsFound = 12"
  by (simp add: targetsFound_def)

lemma length_locations [simp]: "length locations = 15"
  by (simp add: locations_def)

lemma length_dreamTemplates [simp]: "length dreamTemplates = 15"
  by (simp add: dreamTemplates_def)

lemma length_foreshadowDreams [simp]: "length foreshadowDreams = 3"
  by (simp add: foreshadowDreams_def)

lemma length_visitorWelcomeTemplates [simp]: "length visitorWelcomeTemplates = 5"
  by (simp add: visitorWelcomeTemplates_def)

lemma length_escapeFlying [simp]: "length escapeFlying = 2"
  by (simp add: escapeFlying_def)

lemma length_escapeDigger [simp]: "length escapeDigger = 2"
  by (simp add: escapeDigger_def)

lemma length_escapeGhost [simp]: "length escapeGhost = 2"
  by (simp add: escapeGhost_def)

lemma length_escapeWater [simp]: "length escapeWater = 2"
  by (simp add: escapeWater_def)

lemma length_escapeSmall [simp]: "length escapeSmall = 2"
  by (simp add: escapeSmall_def)

lemma length_mischiefTemplates [simp]: "length mischiefTemplates = 6"
  by (simp add: mischiefTemplates_def)

lemma length_rainBoost [simp]: "length rainBoost = 3"
  by (simp add: rainBoost_def)

lemma length_rainPen [simp]: "length rainPen = 3"
  by (simp add: rainPen_def)

lemma length_tsBoot [simp]: "length tsBoot = 2"
  by (simp add: tsBoot_def)

lemma length_tsPen [simp]: "length tsPen = 2"
  by (simp add: tsPen_def)

lemma length_sunBoost [simp]: "length sunBoost = 3"
  by (simp add: sunBoost_def)

lemma length_sunPen [simp]: "length sunPen = 2"
  by (simp add: sunPen_def)

lemma length_snowBoost [simp]: "length snowBoost = 3"
  by (simp add: snowBoost_def)

lemma length_snowPen [simp]: "length snowPen = 2"
  by (simp add: snowPen_def)

lemma length_windBoost [simp]: "length windBoost = 2"
  by (simp add: windBoost_def)

lemma length_windPen [simp]: "length windPen = 2"
  by (simp add: windPen_def)

lemma length_fogBoost [simp]: "length fogBoost = 2"
  by (simp add: fogBoost_def)

lemma length_fogPen [simp]: "length fogPen = 2"
  by (simp add: fogPen_def)

lemma length_typeNameStr [simp]: "length typeNameStr = 15"
  by (simp add: typeNameStr_def)

lemma length_arrivalAffinityTemplates [simp]: "length arrivalAffinityTemplates = 5"
  by (simp add: arrivalAffinityTemplates_def)

lemma length_arrivalRivalryTemplates [simp]: "length arrivalRivalryTemplates = 4"
  by (simp add: arrivalRivalryTemplates_def)

lemma length_arrivalCuriousTemplates [simp]: "length arrivalCuriousTemplates = 3"
  by (simp add: arrivalCuriousTemplates_def)

lemma length_flatTemplates [simp]: "length flatTemplates = 55"
  by (simp add: flatTemplates_def)

end
