(* ===== verification/DaycareEventGen.thy ===== *)
theory DaycareEventGen
  imports DaycareTypes DaycareText
begin

text \<open>
  The event generator (\<^verbatim>\<open>src/modules/monstermesh/DaycareEventGen.cpp\<close>): the xorshift32
  generator, the type affinities, the experience formula and the events themselves.  A generator step
  is a state monad over the random state and the daycare state, which \<open>localParty\<close> aliases; the
  clock \<open>now\<close> is read once per event.  A read outside the six entries of a beacon is the result
  \<open>None\<close>.
\<close>

subsection \<open>Random numbers\<close>

record Gen =
  g_rng :: "32 word"
  g_state :: DaycareState

type_synonym 'a gen = "(Gen, 'a) state"

definition rngSeed :: "32 word \<Rightarrow> 32 word" where
  "rngSeed s = (if s = 0 then 1 else s)"

definition xorshift :: "32 word \<Rightarrow> 32 word" where
  "xorshift x = (let x = x XOR push_bit 13 x; x = x XOR drop_bit 17 x in x XOR push_bit 5 x)"

definition rngNext :: "nat gen" where
  "rngNext = State (\<lambda>g. let x = xorshift (g_rng g) in (unat x, g\<lparr>g_rng := x\<rparr>))"

definition rngRange :: "nat \<Rightarrow> nat gen" where
  "rngRange m = (if m = 0 then State_Monad.return 0 else do { x \<leftarrow> rngNext; State_Monad.return (x mod m) })"

definition rngChance :: "nat \<Rightarrow> bool gen" where
  "rngChance percent = do { x \<leftarrow> rngNext; State_Monad.return (x mod 100 < percent) }"

text \<open>\<open>pool[rngRange(n)]\<close> where \<open>n\<close> is the length of the pool.\<close>

definition pick :: "string list \<Rightarrow> string gen" where
  "pick pool = do { i \<leftarrow> rngRange (length pool); State_Monad.return (pool ! i) }"

subsection \<open>Affinities\<close>

definition isEeveeFamily :: "nat \<Rightarrow> bool" where
  "isEeveeFamily dex \<longleftrightarrow> dex \<ge> 133 \<and> dex \<le> 136"

definition hasTypeAffinity :: "nat \<Rightarrow> nat \<Rightarrow> bool" where
  "hasTypeAffinity dex1 dex2 =
     (if isEeveeFamily dex1 \<and> isEeveeFamily dex2 then True
      else case (daycareGetSpecies dex1, daycareGetSpecies dex2) of
        (Some a, Some b) \<Rightarrow> sp_type1 a = sp_type1 b \<or> sp_type1 a = sp_type2 b \<or>
                            sp_type2 a = sp_type1 b \<or> sp_type2 a = sp_type2 b
      | _ \<Rightarrow> False)"

fun isSuperEffective :: "nat \<Rightarrow> nat \<Rightarrow> bool" where
  "isSuperEffective atkType defType =
     (if atkType = 8 then defType \<in> {10, 13, 6}
      else if atkType = 9 then defType \<in> {8, 4, 5}
      else if atkType = 10 then defType \<in> {9, 4, 5}
      else if atkType = 11 then defType \<in> {9, 2}
      else if atkType = 13 then defType \<in> {10, 4, 2, 14}
      else if atkType = 1 then defType \<in> {0, 5, 13}
      else if atkType = 3 then defType = 10
      else if atkType = 4 then defType \<in> {8, 11, 5, 3}
      else if atkType = 2 then defType \<in> {1, 10, 6}
      else if atkType = 12 then defType \<in> {1, 3}
      else if atkType = 5 then defType \<in> {8, 13, 2, 6}
      else if atkType = 6 then defType \<in> {10, 12}
      else if atkType = 7 then defType \<in> {7, 12}
      else if atkType = 14 then defType = 14
      else False)"

declare isSuperEffective.simps [simp del]

text \<open>The roulette over the weights of the neighbours.\<close>

fun rouletteLoop :: "nat list \<Rightarrow> nat \<Rightarrow> nat \<Rightarrow> nat \<Rightarrow> nat" where
  "rouletteLoop [] roll acc i = 0"
| "rouletteLoop (w # ws) roll acc i =
     (let acc = acc + w in if roll < acc then i else rouletteLoop ws roll acc (Suc i))"

definition neighborWeights :: "nat \<Rightarrow> DaycareNeighborPokemon list \<Rightarrow> nat \<Rightarrow> nat list" where
  "neighborWeights localDex ns count =
     map (\<lambda>i. if hasTypeAffinity localDex (nb_speciesDex (ns ! i)) then 3 else 1) [0..<min count 16]"

definition pickNeighbor :: "nat \<Rightarrow> DaycareNeighborPokemon list \<Rightarrow> nat \<Rightarrow> nat gen" where
  "pickNeighbor localDex ns count =
     (if count \<le> 1 then State_Monad.return 0
      else do {
        let ws = neighborWeights localDex ns count;
        x \<leftarrow> rngNext;
        State_Monad.return (rouletteLoop ws (x mod sum_list ws) 0 0) })"

subsection \<open>Names\<close>

definition speciesName :: "string \<Rightarrow> nat \<Rightarrow> string" where
  "speciesName unknown dex = (if dex \<ge> 1 \<and> dex \<le> 151 then daycareSpeciesNames ! dex else unknown)"

definition fmtLocalName :: "DaycarePokemonState \<Rightarrow> string" where
  "fmtLocalName p =
     (let species = speciesName ''Pokemon'' (dp_speciesDex p)
      in if dp_nickname p \<noteq> [] then snprintf 48 (fmtS ''%s, %s'' [species, dp_nickname p])
         else snprintf 48 species)"

definition fmtTrainerTag :: "string \<Rightarrow> string \<Rightarrow> string" where
  "fmtTrainerTag shortName gameName =
     (if gameName \<noteq> [] then snprintf 14 (fmtS ''%s-%s'' [shortName, gameName]) else snprintf 14 shortName)"

definition fmtNeighborName :: "DaycareNeighborPokemon \<Rightarrow> string" where
  "fmtNeighborName n =
     (let tag = fmtTrainerTag (nb_shortName n) (nb_gameName n);
          species = speciesName ''Pokemon'' (nb_speciesDex n)
      in if nb_nickname n \<noteq> [] then snprintf 48 (fmtS ''%s's %s, %s'' [tag, species, nb_nickname n])
         else snprintf 48 (fmtS ''%s's %s'' [tag, species]))"

definition xpTag :: "nat \<Rightarrow> string" where
  "xpTag xp = snprintf 20 ('' (+'' @ digits_of xp @ '' XP)'')"

subsection \<open>Experience\<close>

definition calcXp :: "nat \<Rightarrow> nat \<Rightarrow> nat \<Rightarrow> nat \<Rightarrow> bool \<Rightarrow> nat" where
  "calcXp baseXp friendship rivalry weatherMult100 isMentor =
     (let xp = baseXp * friendshipXpMultiplier100 friendship div 100;
          xp = xp + rivalryXpBonus rivalry;
          xp = xp * weatherMult100 div 100;
          xp = (if isMentor then xp * 150 div 100 else xp)
      in if xp > 200 then 200 else xp)"

definition pickPokemon :: "nat \<Rightarrow> nat gen" where
  "pickPokemon partyCount = rngRange partyCount"

definition getMon :: "nat \<Rightarrow> DaycarePokemonState gen" where
  "getMon i = gets (\<lambda>g. ds_pokemon (g_state g) ! i)"

definition onDay :: "(DaycareState \<Rightarrow> DaycareState) \<Rightarrow> unit gen" where
  "onDay f = modify (\<lambda>g. g\<lparr>g_state := f (g_state g)\<rparr>)"

definition onMon :: "nat \<Rightarrow> (DaycarePokemonState \<Rightarrow> DaycarePokemonState) \<Rightarrow> unit gen" where
  "onMon i f = onDay (onPokemon i f)"

definition countSplash :: "DaycarePokemonState \<Rightarrow> DaycarePokemonState" where
  "countSplash p = p\<lparr>dp_splashCount := u16 (dp_splashCount p + 1)\<rparr>"

definition countExplore :: "DaycarePokemonState \<Rightarrow> DaycarePokemonState" where
  "countExplore p = p\<lparr>dp_exploreCount := u16 (dp_exploreCount p + 1)\<rparr>"

definition countDream :: "DaycarePokemonState \<Rightarrow> DaycarePokemonState" where
  "countDream p = p\<lparr>dp_dreamCount := u16 (dp_dreamCount p + 1)\<rparr>"

definition countEscape :: "DaycarePokemonState \<Rightarrow> DaycarePokemonState" where
  "countEscape p = p\<lparr>dp_escapeCount := u8 (dp_escapeCount p + 1)\<rparr>"

definition tagXp :: "nat \<Rightarrow> DaycareEvent \<Rightarrow> DaycareEvent" where
  "tagXp xp ev = ev\<lparr>ev_xp := xp, ev_message := appendTag 200 (xpTag xp) (ev_message ev)\<rparr>"

subsection \<open>Single events\<close>

definition tryFlatTemplate :: "nat \<Rightarrow> DaycareEvent option gen" where
  "tryFlatTemplate n = do {
     go \<leftarrow> rngChance 30;
     if \<not> go then State_Monad.return None
     else do {
       idx \<leftarrow> pickPokemon n;
       p \<leftarrow> getMon idx;
       let matches = take 16 (filter (\<lambda>t. ft_speciesDex t = dp_speciesDex p) flatTemplates);
       if matches = [] then State_Monad.return None
       else do {
         k \<leftarrow> rngRange (length matches);
         let tmpl = matches ! k;
         let msg = (if contains ''%s'' (ft_message tmpl) then snprintf 200 (fmtS (ft_message tmpl) [fmtLocalName p])
                    else take 199 (ft_message tmpl));
         let ev = emptyEvent\<lparr>ev_message := msg, ev_targetSpeciesIdx := idx\<rparr>;
         xp \<leftarrow> (if ft_hasXp tmpl then State_Monad.return (ft_xp tmpl)
               else do {
                 teach \<leftarrow> rngChance 50;
                 if teach then do { r \<leftarrow> rngRange 8; State_Monad.return (5 + r) } else State_Monad.return 0 });
         when_ok (dp_speciesDex p = 129) (onMon idx countSplash);
         State_Monad.return (Some (if xp > 0 then tagXp xp ev else ev)) } } }"

text \<open>What the branches of the compositional generator set for its common end.\<close>

record Draft =
  cp_msg :: string
  cp_giveXp :: bool
  cp_baseXp :: nat
  cp_friendship :: nat
  cp_rivalry :: nat
  cp_mentor :: bool
  cp_node :: nat

definition draft :: "string \<Rightarrow> bool \<Rightarrow> nat \<Rightarrow> Draft" where
  "draft msg giveXp baseXp = \<lparr>cp_msg = msg, cp_giveXp = giveXp, cp_baseXp = baseXp, cp_friendship = 0,
     cp_rivalry = 0, cp_mentor = False, cp_node = 0\<rparr>"

definition combatEvent :: "DaycareSpecies \<Rightarrow> string \<Rightarrow> string \<Rightarrow> bool \<Rightarrow> Draft gen" where
  "combatEvent sp name loc giveXp = do {
     msg \<leftarrow> (if sp_moveCount sp > 0 then do {
               mi \<leftarrow> rngRange (sp_moveCount sp);
               let moveId = sp_moves sp ! mi;
               let moveName = (if moveId > 0 \<and> moveId \<le> 165 then daycareMoveNames ! moveId else ''a move'');
               actionFmt \<leftarrow> pick actionsMove;
               target \<leftarrow> pick targetsMove;
               let action = snprintf 64 (fmtS actionFmt [moveName]);
               State_Monad.return (snprintf 200 (fmtS ''Your %s %s %s %s'' [name, action, target, loc])) }
             else State_Monad.return (snprintf 200 (fmtS ''Your %s trained %s'' [name, loc])));
     r \<leftarrow> rngRange 11;
     State_Monad.return (draft msg giveXp (10 + r)) }"

text \<open>\<open>(int)\<close> of a \<open>uint32_t\<close>.\<close>

definition toInt32 :: "nat \<Rightarrow> int" where
  "toInt32 n = (if n < 2147483648 then int n else int n - 4294967296)"

definition satAdd :: "nat \<Rightarrow> nat \<Rightarrow> nat" where
  "satAdd x gain = (if x \<le> 255 - gain then x + gain else 255)"

definition socialGain :: "nat \<Rightarrow> nat \<Rightarrow> DaycareNeighborPokemon \<Rightarrow> nat \<times> bool" where
  "socialGain dex hours nb =
     (let affinity = hasTypeAffinity dex (nb_speciesDex nb);
          levelDiff = \<bar>toInt32 hours - int (nb_level nb)\<bar>
      in if affinity \<and> levelDiff \<ge> 10 then (10, True) else (if affinity then 7 else 3, False))"

definition meetRelationship :: "nat \<Rightarrow> nat \<Rightarrow> bool \<Rightarrow> DaycareRelationship \<Rightarrow> DaycareRelationship" where
  "meetRelationship now gain spar r =
     (let r = r\<lparr>dr_friendship := satAdd (dr_friendship r) gain\<rparr>;
          r = (if spar then r\<lparr>dr_rivalry := satAdd (dr_rivalry r) 5, dr_sparCount := u16 (dr_sparCount r + 1)\<rparr> else r)
      in r\<lparr>dr_lastSeenMs := now\<rparr>)"

definition tierTag :: "nat \<Rightarrow> nat \<Rightarrow> nat \<Rightarrow> nat \<Rightarrow> string" where
  "tierTag newF dF newR dR = snprintf 60
     (if dF > 0 \<and> dR > 0 then
        fmtS '' [Friendship %s +%s, Rivalry %s +%s]'' (map digits_of [newF, dF, newR, dR])
      else if dF > 0 then fmtS '' [Friendship %s +%s]'' (map digits_of [newF, dF])
      else if dR > 0 then fmtS '' [Rivalry %s +%s]'' (map digits_of [newR, dR])
      else [])"

definition socialEvent :: "nat \<Rightarrow> nat \<Rightarrow> DaycareNeighborPokemon list \<Rightarrow> nat \<Rightarrow> string \<Rightarrow> string \<Rightarrow> bool \<Rightarrow> Draft gen" where
  "socialEvent now idx ns nc name loc giveXp = do {
     p \<leftarrow> getMon idx;
     ni \<leftarrow> pickNeighbor (dp_speciesDex p) ns nc;
     let nb = ns ! ni;
     action \<leftarrow> pick actionsSocial;
     let msg = snprintf 200 (fmtS ''Your %s %s %s %s'' [name, action, fmtNeighborName nb, loc]);
     st \<leftarrow> gets g_state;
     let (k, st1) = getOrCreateRelationship now (nb_nodeId nb) idx (nb_speciesDex nb) st;
     let old = ds_relationships st1 ! k;
     let (gain, mentor) = socialGain (dp_speciesDex p) (dp_totalHours p) nb;
     let spar = (action = ''sparred with'' \<or> action = ''raced'' \<or> action = ''wrestled'');
     let new = meetRelationship now gain spar old;
     onDay (\<lambda>_. st1\<lparr>ds_relationships := (ds_relationships st1)[k := new]\<rparr>);
     let tag = tierTag (dr_friendship new) (dr_friendship new - dr_friendship old)
                       (dr_rivalry new) (dr_rivalry new - dr_rivalry old);
     r \<leftarrow> rngRange 16;
     State_Monad.return \<lparr>cp_msg = appendTag 200 tag msg, cp_giveXp = giveXp, cp_baseXp = 15 + r,
       cp_friendship = dr_friendship old, cp_rivalry = dr_rivalry old, cp_mentor = mentor,
       cp_node = nb_nodeId nb\<rparr> }"

definition exploreEvent :: "nat \<Rightarrow> string \<Rightarrow> string \<Rightarrow> bool \<Rightarrow> Draft gen" where
  "exploreEvent idx name loc giveXp = do {
     action \<leftarrow> pick actionsExplore;
     found \<leftarrow> pick targetsFound;
     let msg = snprintf 200 (fmtS ''Your %s %s %s %s'' [name, action, found, loc]);
     r \<leftarrow> rngRange 16;
     onMon idx countExplore;
     State_Monad.return (draft msg giveXp (10 + r)) }"

definition restEvent :: "string \<Rightarrow> string \<Rightarrow> Draft gen" where
  "restEvent name loc = do {
     action \<leftarrow> pick actionsRest;
     State_Monad.return (draft (snprintf 200 (fmtS ''Your %s %s %s'' [name, action, loc])) False 0) }"

definition mischiefEvent :: "string \<Rightarrow> Draft gen" where
  "mischiefEvent name = do {
     tmpl \<leftarrow> pick mischiefTemplates;
     State_Monad.return (draft (snprintf 200 (fmtS tmpl [name])) False 0) }"

subsection \<open>Compositional events\<close>

text \<open>Social, combat, explore, rest and mischief weights of a type.\<close>

definition daycareTypeBehaviors :: "(nat \<times> nat \<times> nat \<times> nat \<times> nat) list" where
  "daycareTypeBehaviors =
    [(200,  80, 120, 180,  60), (120, 255,  80,  60,  40), (140, 100, 200, 100,  80),
     ( 60, 100, 100, 120, 200), ( 80, 120, 180, 160,  40), ( 60, 140, 120, 200,  20),
     (100, 100, 180, 120,  80), ( 40, 100, 120,  80, 255), (100, 200, 120, 140, 100),
     (160, 100, 180, 120,  80), (160,  60, 140, 200,  40), (120, 140, 160,  60, 200),
     ( 80, 100, 100, 160, 120), (100,  80, 120, 180,  60), ( 60, 200, 140, 100,  60)]"

definition rollCategory :: "nat \<times> nat \<times> nat \<times> nat \<times> nat \<Rightarrow> nat \<Rightarrow> DaycareEventCategory gen" where
  "rollCategory tb nc = (case tb of (social, combat, explore, rest, mischief) \<Rightarrow> do {
     let socialW = (if nc > 0 then social * 3 else 0);
     x \<leftarrow> rngNext;
     let roll = x mod (socialW + combat + explore + rest + mischief);
     let cat = (if roll < socialW \<and> nc > 0 then EVCAT_SOCIAL
                else if roll < socialW + combat then EVCAT_COMBAT
                else if roll < socialW + combat + explore then EVCAT_EXPLORE
                else if roll < socialW + combat + explore + rest then EVCAT_REST
                else EVCAT_MISCHIEF);
     State_Monad.return (if cat = EVCAT_SOCIAL \<and> nc = 0 then EVCAT_EXPLORE else cat) })"

definition composeEvent ::
  "nat \<Rightarrow> DaycareEventCategory \<Rightarrow> nat \<Rightarrow> DaycareSpecies \<Rightarrow> DaycareNeighborPokemon list \<Rightarrow> nat \<Rightarrow> string \<Rightarrow> string \<Rightarrow> bool
   \<Rightarrow> Draft gen" where
  "composeEvent now cat idx sp ns nc name loc giveXp =
     (case cat of
        EVCAT_COMBAT \<Rightarrow> combatEvent sp name loc giveXp
      | EVCAT_SOCIAL \<Rightarrow> socialEvent now idx ns nc name loc giveXp
      | EVCAT_EXPLORE \<Rightarrow> exploreEvent idx name loc giveXp
      | EVCAT_REST \<Rightarrow> restEvent name loc
      | EVCAT_MISCHIEF \<Rightarrow> mischiefEvent name
      | _ \<Rightarrow> State_Monad.return (draft (snprintf 200 (fmtS ''Your %s had a quiet moment %s'' [name, loc])) False 0))"

definition generateCompositional :: "nat \<Rightarrow> nat \<Rightarrow> DaycareNeighborPokemon list \<Rightarrow> nat \<Rightarrow> DaycareWeatherType \<Rightarrow> DaycareEvent gen" where
  "generateCompositional now n ns nc weather = do {
     idx \<leftarrow> pickPokemon n;
     p \<leftarrow> getMon idx;
     (case daycareGetSpecies (dp_speciesDex p) of
        None \<Rightarrow> State_Monad.return (emptyEvent\<lparr>ev_message := ''Your Pokemon had a quiet day.'', ev_targetSpeciesIdx := idx\<rparr>)
      | Some sp \<Rightarrow> do {
          cat \<leftarrow> rollCategory (daycareTypeBehaviors ! sp_type1 sp) nc;
          giveXp \<leftarrow> rngChance 67;
          loc \<leftarrow> pick locations;
          let mult = (if weather \<noteq> WEATHER_NONE then weatherTypeMultiplier100 weather (sp_type1 sp) else 100);
          d \<leftarrow> composeEvent now cat idx sp ns nc (fmtLocalName p) loc giveXp;
          let ev = emptyEvent\<lparr>ev_message := take 199 (cp_msg d), ev_targetSpeciesIdx := idx, ev_targetNodeId := cp_node d\<rparr>;
          State_Monad.return
            (if cp_giveXp d \<and> cp_baseXp d > 0
             then tagXp (calcXp (cp_baseXp d) (cp_friendship d) (cp_rivalry d) mult (cp_mentor d)) ev
             else ev) }) }"

subsection \<open>Dreams, visitors, escapes and weather\<close>

definition generateDream :: "nat \<Rightarrow> DaycareEvent gen" where
  "generateDream n = do {
     idx \<leftarrow> pickPokemon n;
     p \<leftarrow> getMon idx;
     foreshadow \<leftarrow> (if dp_totalXpGained p > 0 then rngChance 20 else State_Monad.return False);
     tmpl \<leftarrow> pick (if foreshadow then foreshadowDreams else dreamTemplates);
     State_Monad.return (emptyEvent\<lparr>ev_message := snprintf 200 (fmtS tmpl [fmtLocalName p]), ev_targetSpeciesIdx := idx\<rparr>) }"

definition generateVisitor :: "nat \<Rightarrow> nat \<Rightarrow> DaycareEvent gen" where
  "generateVisitor newNodeId n = do {
     idx \<leftarrow> pickPokemon n;
     p \<leftarrow> getMon idx;
     tmpl \<leftarrow> pick visitorWelcomeTemplates;
     State_Monad.return (emptyEvent\<lparr>ev_message := snprintf 200 (fmtS tmpl [fmtLocalName p]), ev_targetSpeciesIdx := idx,
       ev_targetNodeId := newNodeId, ev_rarity := RARITY_UNCOMMON\<rparr>) }"

definition escapePool :: "DaycareSpecies \<Rightarrow> string list" where
  "escapePool sp =
     (if sp_type1 sp = 2 \<or> sp_type2 sp = 2 then escapeFlying
      else if sp_type1 sp = 4 \<or> sp_type2 sp = 4 then escapeDigger
      else if sp_type1 sp = 7 \<or> sp_type2 sp = 7 then escapeGhost
      else if sp_type1 sp = 9 \<or> sp_type2 sp = 9 then escapeWater
      else escapeSmall)"

definition tryEscape :: "nat \<Rightarrow> DaycareEvent option gen" where
  "tryEscape n = do {
     go \<leftarrow> rngChance 1;
     if \<not> go then State_Monad.return None
     else do {
       idx \<leftarrow> pickPokemon n;
       p \<leftarrow> getMon idx;
       msg \<leftarrow> (case daycareGetSpecies (dp_speciesDex p) of
                 Some sp \<Rightarrow> pick (escapePool sp) | None \<Rightarrow> State_Monad.return (escapeSmall ! 0));
       State_Monad.return (Some (emptyEvent\<lparr>ev_message := snprintf 200 (fmtS msg [fmtLocalName p]),
         ev_targetSpeciesIdx := idx, ev_rarity := RARITY_RARE\<rparr>)) } }"

text \<open>Per weather: the texts of a boosted and of a penalized type, the neutral text, the base experience.\<close>

definition weatherPools :: "DaycareWeatherType \<Rightarrow> (string list \<times> string list \<times> string \<times> nat) option" where
  "weatherPools w =
     (case w of
        WEATHER_RAIN \<Rightarrow> Some (rainBoost, rainPen, ''Your %s watched the rain from under a tree.'', 20)
      | WEATHER_THUNDERSTORM \<Rightarrow> Some (tsBoot, tsPen, ''Your %s watched the lightning from a safe distance.'', 30)
      | WEATHER_CLEAR \<Rightarrow> Some (sunBoost, sunPen, ''Your %s enjoyed the sunny weather.'', 20)
      | WEATHER_HOT \<Rightarrow> Some (sunBoost, sunPen, ''Your %s enjoyed the sunny weather.'', 20)
      | WEATHER_SNOW \<Rightarrow> Some (snowBoost, snowPen, ''Your %s watched the snow fall.'', 25)
      | WEATHER_COLD \<Rightarrow> Some (snowBoost, snowPen, ''Your %s watched the snow fall.'', 25)
      | WEATHER_WINDY \<Rightarrow> Some (windBoost, windPen, ''Your %s braced against the wind.'', 25)
      | WEATHER_FOG \<Rightarrow> Some (fogBoost, fogPen, ''Your %s peered into the fog cautiously.'', 20)
      | WEATHER_NONE \<Rightarrow> None)"

definition generateWeatherEvent :: "DaycareWeatherType \<Rightarrow> nat \<Rightarrow> DaycareEvent gen" where
  "generateWeatherEvent weather n = do {
     idx \<leftarrow> pickPokemon n;
     p \<leftarrow> getMon idx;
     let mult = (case daycareGetSpecies (dp_speciesDex p) of
                   Some sp \<Rightarrow> weatherTypeMultiplier100 weather (sp_type1 sp) | None \<Rightarrow> 100);
     (msg, giveXp, baseXp) \<leftarrow> (case weatherPools weather of
         None \<Rightarrow> State_Monad.return (''Your %s watched the weather change.'', False, 0)
       | Some (boost, pen, calm, base) \<Rightarrow>
           (if mult > 100 then do { m \<leftarrow> pick boost; State_Monad.return (m, True, base) }
            else if mult < 100 then do { m \<leftarrow> pick pen; State_Monad.return (m, False, 0) }
            else State_Monad.return (calm, False, 0)));
     let ev = emptyEvent\<lparr>ev_message := snprintf 200 (fmtS msg [fmtLocalName p]), ev_targetSpeciesIdx := idx,
                ev_rarity := RARITY_UNCOMMON\<rparr>;
     State_Monad.return (if giveXp then tagXp (calcXp baseXp 0 0 mult False) ev else ev) }"

subsection \<open>The entry point\<close>

fun weatherChance :: "DaycareWeatherType \<Rightarrow> nat" where
  "weatherChance WEATHER_WINDY = 20"
| "weatherChance WEATHER_THUNDERSTORM = 50"
| "weatherChance WEATHER_SNOW = 40"
| "weatherChance WEATHER_FOG = 30"
| "weatherChance WEATHER_COLD = 20"
| "weatherChance WEATHER_RAIN = 25"
| "weatherChance _ = 10"

text \<open>The tries in the order of their priority; a try that yields nothing has only drawn random numbers.\<close>

definition tryNight :: "bool \<Rightarrow> nat \<Rightarrow> DaycareEvent option gen" where
  "tryNight isNight n = do {
     go \<leftarrow> (if isNight then rngChance 50 else State_Monad.return False);
     if go then do {
       ev \<leftarrow> generateDream n;
       onMon (ev_targetSpeciesIdx ev) countDream;
       State_Monad.return (Some ev) }
     else State_Monad.return None }"

definition tryEscapeCounted :: "nat \<Rightarrow> DaycareEvent option gen" where
  "tryEscapeCounted n = do {
     r \<leftarrow> tryEscape n;
     (case r of
        Some ev \<Rightarrow> do { onMon (ev_targetSpeciesIdx ev) countEscape; State_Monad.return (Some ev) }
      | None \<Rightarrow> State_Monad.return None) }"

definition tryWeather :: "DaycareWeatherType \<Rightarrow> nat \<Rightarrow> DaycareEvent option gen" where
  "tryWeather weather n = do {
     go \<leftarrow> (if weather \<noteq> WEATHER_NONE then rngChance (weatherChance weather) else State_Monad.return False);
     if go then do { ev \<leftarrow> generateWeatherEvent weather n; State_Monad.return (Some ev) }
     else State_Monad.return None }"

definition orElse :: "'a option gen \<Rightarrow> 'a gen \<Rightarrow> 'a gen" where
  "orElse m n = do { r \<leftarrow> m; (case r of Some x \<Rightarrow> State_Monad.return x | None \<Rightarrow> n) }"

definition chooseEvent ::
  "nat \<Rightarrow> DaycareNeighborPokemon list \<Rightarrow> nat \<Rightarrow> DaycareWeatherType \<Rightarrow> bool \<Rightarrow> nat \<Rightarrow> nat \<Rightarrow> DaycareEvent gen" where
  "chooseEvent now ns nc weather isNight newNodeId n =
     (if newNodeId \<noteq> 0 then generateVisitor newNodeId n
      else orElse (tryNight isNight n)
          (orElse (tryEscapeCounted n)
          (orElse (tryWeather weather n)
          (orElse (tryFlatTemplate n)
                  (generateCompositional now n ns nc weather)))))"

definition generate ::
  "nat \<Rightarrow> DaycareNeighborPokemon list \<Rightarrow> nat \<Rightarrow> DaycareWeatherType \<Rightarrow> bool \<Rightarrow> nat \<Rightarrow> DaycareState
   \<Rightarrow> DaycareEvent \<times> DaycareState" where
  "generate now ns nc weather isNight newNodeId st =
     (let seed = rngSeed (of_nat now XOR of_nat (ds_totalEvents st * 2654435761));
          m = do { ev \<leftarrow> chooseEvent now ns nc weather isNight newNodeId (ds_partyCount st);
                   onDay (\<lambda>st. st\<lparr>ds_totalEvents := u32 (ds_totalEvents st + 1)\<rparr>);
                   State_Monad.return ev };
          (ev, g) = run_state m \<lparr>g_rng = seed, g_state = st\<rparr>
      in (ev, g_state g))"

subsection \<open>Arrivals\<close>

text \<open>The six entries of a beacon; its count comes from the network.\<close>

definition beaconEntry :: "DaycareBeacon \<Rightarrow> nat \<Rightarrow> PartyEntry option" where
  "beaconEntry b ri = (if ri < 6 then Some (bc_pokemon b ! ri) else None)"

text \<open>
  The two nested loops over the pairs of a local and a remote monster, stopping at the first match.
  The outer \<open>None\<close> is a read outside the beacon's entries, the inner one that nothing matched.
\<close>

fun scanRemote :: "(DaycareSpecies \<Rightarrow> 'a option) \<Rightarrow> DaycareBeacon \<Rightarrow> nat list \<Rightarrow> (nat \<times> 'a) option option" where
  "scanRemote match b [] = Some None"
| "scanRemote match b (ri # ris) =
     (case beaconEntry b ri of
        None \<Rightarrow> None
      | Some e \<Rightarrow>
          (case Option.bind (daycareGetSpecies (pe_species e)) match of
             Some x \<Rightarrow> Some (Some (ri, x))
           | None \<Rightarrow> scanRemote match b ris))"

fun scanLocal ::
  "(DaycareSpecies \<Rightarrow> DaycareSpecies \<Rightarrow> 'a option) \<Rightarrow> DaycareBeacon \<Rightarrow> DaycarePokemonState list \<Rightarrow> nat
   \<Rightarrow> (nat \<times> nat \<times> 'a) option option" where
  "scanLocal match b [] li = Some None"
| "scanLocal match b (p # ps) li =
     (case daycareGetSpecies (dp_speciesDex p) of
        None \<Rightarrow> scanLocal match b ps (Suc li)
      | Some localSp \<Rightarrow>
          (case scanRemote (match localSp) b [0..<bc_partyCount b] of
             None \<Rightarrow> None
           | Some (Some (ri, x)) \<Rightarrow> Some (Some (li, ri, x))
           | Some None \<Rightarrow> scanLocal match b ps (Suc li)))"

definition affinityMatch :: "DaycareSpecies \<Rightarrow> DaycareSpecies \<Rightarrow> nat option" where
  "affinityMatch localSp remoteSp =
     (if sp_type1 localSp = sp_type1 remoteSp \<or> sp_type1 localSp = sp_type2 remoteSp then Some (sp_type1 localSp)
      else if sp_type2 localSp = sp_type1 remoteSp \<or> sp_type2 localSp = sp_type2 remoteSp then Some (sp_type2 localSp)
      else None)"

definition rivalryMatch :: "DaycareSpecies \<Rightarrow> DaycareSpecies \<Rightarrow> unit option" where
  "rivalryMatch localSp remoteSp =
     (if isSuperEffective (sp_type1 localSp) (sp_type1 remoteSp) \<or> isSuperEffective (sp_type1 localSp) (sp_type2 remoteSp)
        \<or> isSuperEffective (sp_type1 remoteSp) (sp_type1 localSp) \<or> isSuperEffective (sp_type1 remoteSp) (sp_type2 localSp)
      then Some () else None)"

text \<open>Best local and remote index, the shared type, and whether it is a rivalry.\<close>

definition matchArrival :: "DaycareBeacon \<Rightarrow> DaycarePokemonState list \<Rightarrow> (nat \<times> nat \<times> nat \<times> bool) option gen" where
  "matchArrival b ps =
     (case scanLocal affinityMatch b ps 0 of
        None \<Rightarrow> State_Monad.return None
      | Some (Some (li, ri, t)) \<Rightarrow> State_Monad.return (Some (li, ri, t, False))
      | Some None \<Rightarrow>
          (case scanLocal rivalryMatch b ps 0 of
             None \<Rightarrow> State_Monad.return None
           | Some (Some (li, ri, _)) \<Rightarrow> State_Monad.return (Some (li, ri, 0, True))
           | Some None \<Rightarrow> do { li \<leftarrow> pickPokemon (length ps); State_Monad.return (Some (li, 0, 0, False)) }))"

definition dropYour :: "string \<Rightarrow> string" where
  "dropYour s = (case strip_prefix ''Your '' s of Some r \<Rightarrow> r | None \<Rightarrow> s)"

definition remoteNames :: "DaycareBeacon \<Rightarrow> PartyEntry \<Rightarrow> string \<times> string" where
  "remoteNames b e =
     (let species = speciesName ''Pokemon'' (pe_species e); tag = fmtTrainerTag (bc_shortName b) (bc_gameName b)
      in if pe_nickname e \<noteq> [] then (snprintf 60 (fmtS ''%s's %s (%s)'' [tag, species, pe_nickname e]),
                                  snprintf 60 (fmtS ''your %s (%s)'' [species, pe_nickname e]))
         else (snprintf 60 (fmtS ''%s's %s'' [tag, species]), snprintf 60 (fmtS ''your %s'' [species])))"

definition localNameForRemote :: "string \<Rightarrow> string \<Rightarrow> string \<Rightarrow> string" where
  "localNameForRemote shortName gameName localName =
     (let tag = (if shortName \<noteq> [] then fmtTrainerTag shortName gameName else [])
      in if tag \<noteq> [] then snprintf 80 (fmtS ''%s's %s'' [tag, localName]) else snprintf 80 localName)"

definition meetArrival :: "nat \<Rightarrow> nat \<Rightarrow> bool \<Rightarrow> DaycareRelationship \<Rightarrow> DaycareRelationship" where
  "meetArrival now sharedType isRivalry r =
     (let r = (if \<not> isRivalry \<and> sharedType > 0 then r\<lparr>dr_friendship := satAdd (dr_friendship r) 10\<rparr>
               else if isRivalry then r\<lparr>dr_rivalry := satAdd (dr_rivalry r) 8\<rparr> else r)
      in r\<lparr>dr_lastSeenMs := now\<rparr>)"

definition arrivalEvent ::
  "nat \<Rightarrow> DaycareBeacon \<Rightarrow> string \<Rightarrow> string \<Rightarrow> nat \<times> nat \<times> nat \<times> bool \<Rightarrow> DaycareEvent gen" where
  "arrivalEvent now b shortName gameName found = (case found of (li, ri, sharedType, isRivalry) \<Rightarrow> do {
     p \<leftarrow> getMon li;
     let e = bc_pokemon b ! ri;
     let localName = fmtLocalName p;
     let (remoteName, remoteNameForRemote) = remoteNames b e;
     let affine = (\<not> isRivalry \<and> sharedType > 0 \<and> sharedType < 15);
     tmpl \<leftarrow> pick (if affine then arrivalAffinityTemplates
                  else if isRivalry then arrivalRivalryTemplates else arrivalCuriousTemplates);
     let tail = (if affine then [typeNameStr ! sharedType] else []);
     let msg = snprintf 200 (fmtS tmpl ([localName, remoteName] @ tail));
     let other = snprintf 200 (fmtS tmpl ([localNameForRemote shortName gameName localName, remoteNameForRemote] @ tail));
     x \<leftarrow> rngRange 11;
     st \<leftarrow> gets g_state;
     let (k, st1) = getOrCreateRelationship now (bc_nodeId b) li (pe_species e) st;
     onDay (\<lambda>_. st1\<lparr>ds_relationships := upd_at k (meetArrival now sharedType isRivalry) (ds_relationships st1)\<rparr>);
     State_Monad.return (emptyEvent\<lparr>ev_message := msg, ev_remoteMessage := take 199 (dropYour other), ev_xp := 10 + x,
       ev_targetSpeciesIdx := li, ev_targetNodeId := bc_nodeId b, ev_rarity := RARITY_UNCOMMON\<rparr>) })"

text \<open>\<open>None\<close> when the search read outside the beacon.\<close>

definition generateArrivalEvent ::
  "nat \<Rightarrow> DaycareBeacon \<Rightarrow> string \<Rightarrow> string \<Rightarrow> DaycareState \<Rightarrow> (DaycareEvent \<times> DaycareState) option" where
  "generateArrivalEvent now b shortName gameName st =
     (let seed = rngSeed (of_nat now XOR of_nat (bc_nodeId b));
          (found, g) = run_state (matchArrival b (take (ds_partyCount st) (ds_pokemon st))) \<lparr>g_rng = seed, g_state = st\<rparr>
      in case found of
           None \<Rightarrow> None
         | Some f \<Rightarrow> (case run_state (arrivalEvent now b shortName gameName f) g of (ev, g') \<Rightarrow> Some (ev, g_state g')))"

end
