(* ===== verification/DaycareAchievements.thy ===== *)
theory DaycareAchievements
  imports DaycareTypes
begin

text \<open>
  The achievement checker (\<^verbatim>\<open>src/modules/monstermesh/DaycareAchievements.h\<close>).  Each block of
  the function is a list of conditions with the achievement they grant, in the order of the code; the
  checker walks it with the lambda \<open>grant\<close>.  \<open>earned\<close> restates the conditions as a
  predicate, without order or limit, and is what the checker is compared with.
\<close>

subsection \<open>The checker\<close>

type_synonym award = "DaycareAchievement list \<times> 64 word"

definition grant :: "nat \<Rightarrow> DaycareAchievement \<Rightarrow> award \<Rightarrow> award" where
  "grant maxNew ach w =
     (if length (fst w) < maxNew then
        (case grantAchievement ach (snd w) of
           (True, flags) \<Rightarrow> (fst w @ [ach], flags)
         | (False, flags) \<Rightarrow> (fst w, flags))
      else w)"

definition grantIf :: "nat \<Rightarrow> bool \<times> DaycareAchievement \<Rightarrow> award \<Rightarrow> award" where
  "grantIf maxNew rule w = (if fst rule then grant maxNew (snd rule) w else w)"

definition timeRules :: "DaycareState \<Rightarrow> (bool \<times> DaycareAchievement) list" where
  "timeRules st = concat (map (\<lambda>i. let h = dp_totalHours (ds_pokemon st ! i) in
     [(h \<ge> 24, ACH_FIRST_DAY), (h \<ge> 100, ACH_SETTLED_IN), (h \<ge> 1000, ACH_DAYCARE_VETERAN),
      (h \<ge> 10000, ACH_LIFETIME_RESIDENT), (h \<ge> 50000, ACH_OLD_TIMER)]) [0..<ds_partyCount st])"

definition friendRules :: "DaycareState \<Rightarrow> (bool \<times> DaycareAchievement) list" where
  "friendRules st = concat (map (\<lambda>r.
     [(dr_friendship r \<ge> 21, ACH_FIRST_FRIEND), (dr_friendship r \<ge> 61, ACH_GOOD_FRIENDS),
      (dr_friendship r \<ge> 201, ACH_BEST_FRIENDS_FOREVER),
      (dr_friendship r \<ge> 201 \<and> dr_rivalry r \<ge> 201, ACH_FRIENDLY_RIVAL),
      (dr_rivalry r \<ge> 51 \<and> dr_friendship r \<ge> 201, ACH_RESPECT)]) (ds_relationships st))"

definition countIf :: "('a \<Rightarrow> bool) \<Rightarrow> 'a list \<Rightarrow> nat" where
  "countIf P xs = length (filter P xs)"

definition socialRules :: "DaycareState \<Rightarrow> (bool \<times> DaycareAchievement) list" where
  "socialRules st =
     [(countIf (\<lambda>r. dr_friendship r \<ge> 61) (ds_relationships st) \<ge> 10, ACH_SOCIAL_BUTTERFLY),
      (countIf (\<lambda>r. dr_friendship r \<ge> 201) (ds_relationships st) \<ge> 5, ACH_BELOVED)]"

definition rivalRules :: "DaycareState \<Rightarrow> (bool \<times> DaycareAchievement) list" where
  "rivalRules st = concat (map (\<lambda>r.
     [(dr_rivalry r \<ge> 16, ACH_FIRST_RIVAL), (dr_rivalry r \<ge> 121, ACH_HEATED_RIVALRY),
      (dr_rivalry r \<ge> 201, ACH_ARCH_NEMESIS)]) (ds_relationships st))
   @ [(countIf (\<lambda>r. dr_rivalry r \<ge> 16) (ds_relationships st) \<ge> 5, ACH_FIGHT_CLUB),
      (ds_totalSparWins st \<ge> 50, ACH_UNSTOPPABLE_FORCE)]"

definition levelRules :: "DaycareState \<Rightarrow> (bool \<times> DaycareAchievement) list" where
  "levelRules st = concat (map (\<lambda>i. let n = dp_totalLevelsGained (ds_pokemon st ! i) in
     [(n \<ge> 1, ACH_FIRST_LEVEL_UP), (n \<ge> 10, ACH_DAYCARE_GRADUATE), (n \<ge> 25, ACH_DAYCARE_SCHOLAR)])
     [0..<ds_partyCount st])"

definition eventRules :: "DaycareState \<Rightarrow> (bool \<times> DaycareAchievement) list" where
  "eventRules st = concat (map (\<lambda>i. let p = ds_pokemon st ! i in
     [(dp_exploreCount p \<ge> 50, ACH_EXPLORER), (dp_dreamCount p \<ge> 20, ACH_DREAMER),
      (dp_escapeCount p \<ge> 1, ACH_ESCAPE_ARTIST),
      (dp_speciesDex p = 129 \<and> dp_splashCount p \<ge> 100, ACH_SPLASH_CHAMPION)]) [0..<ds_partyCount st])"

definition reunited :: "nat \<Rightarrow> DaycareRelationship \<Rightarrow> bool" where
  "reunited now r \<longleftrightarrow> dr_daysMissing r \<ge> 7 \<and> dr_friendship r \<ge> 61 \<and> sub32 now (dr_lastSeenMs r) < 120000"

definition lonelyRules :: "nat \<Rightarrow> DaycareState \<Rightarrow> (bool \<times> DaycareAchievement) list" where
  "lonelyRules now st = map (\<lambda>r. (reunited now r, ACH_THE_LONELY_ONE)) (ds_relationships st)"

definition partyHasType :: "nat \<Rightarrow> DaycareState \<Rightarrow> bool" where
  "partyHasType t st = list_ex (\<lambda>i. hasType t (dp_speciesDex (ds_pokemon st ! i))) [0..<ds_partyCount st]"

definition weatherRules :: "DaycareState \<Rightarrow> (bool \<times> DaycareAchievement) list" where
  "weatherRules st =
     [(ds_thunderstormCount st \<ge> 10, ACH_STORM_CHASER), (ds_snowCount st \<ge> 10, ACH_SNOWBOUND),
      (ds_fogCount st \<ge> 10 \<and> partyHasType 7 st, ACH_FOG_WALKER),
      (ds_lightningAbsorbs st \<ge> 5 \<and> partyHasType 11 st, ACH_LIGHTNING_ROD),
      ((of_nat (ds_weatherTypesSeen st) :: byte) AND 0xFE = 0xFE, ACH_WEATHERED)]"

definition meshRules :: "nat \<Rightarrow> DaycareState \<Rightarrow> (bool \<times> DaycareAchievement) list" where
  "meshRules neighborCount st =
     [(ds_uniqueTrainersGreeted st \<ge> 5, ACH_WELCOME_COMMITTEE),
      (ds_uniqueTrainersGreeted st \<ge> 25, ACH_MESH_ELDER),
      (neighborCount \<ge> 5, ACH_NEIGHBORHOOD), (neighborCount \<ge> 10, ACH_COMMUNITY)]"

definition achievementRules :: "nat \<Rightarrow> nat \<Rightarrow> DaycareState \<Rightarrow> (bool \<times> DaycareAchievement) list" where
  "achievementRules now neighborCount st =
     timeRules st @ friendRules st @ socialRules st @ rivalRules st @ levelRules st @ eventRules st
     @ lonelyRules now st @ weatherRules st @ meshRules neighborCount st"

text \<open>\<open>daysMissing\<close> of a reunited friend is reset whether or not the grant went through.\<close>

definition resetReunited :: "nat \<Rightarrow> DaycareRelationship \<Rightarrow> DaycareRelationship" where
  "resetReunited now r = (if reunited now r then r\<lparr>dr_daysMissing := 0\<rparr> else r)"

definition checkAchievements ::
  "nat \<Rightarrow> nat \<Rightarrow> nat \<Rightarrow> DaycareState \<Rightarrow> DaycareAchievement list \<times> DaycareState" where
  "checkAchievements now neighborCount maxNew st =
     (let (new, flags) = fold (grantIf maxNew) (achievementRules now neighborCount st)
                           ([], ds_achievementFlags st)
      in (new, st\<lparr>ds_achievementFlags := flags,
                  ds_relationships := map (resetReunited now) (ds_relationships st)\<rparr>))"

subsection \<open>What is earned\<close>

fun earned :: "nat \<Rightarrow> nat \<Rightarrow> DaycareState \<Rightarrow> DaycareAchievement \<Rightarrow> bool" where
  "earned now nc st ACH_FIRST_DAY = (\<exists>i < ds_partyCount st. 24 \<le> dp_totalHours (ds_pokemon st ! i))"
| "earned now nc st ACH_SETTLED_IN = (\<exists>i < ds_partyCount st. 100 \<le> dp_totalHours (ds_pokemon st ! i))"
| "earned now nc st ACH_DAYCARE_VETERAN = (\<exists>i < ds_partyCount st. 1000 \<le> dp_totalHours (ds_pokemon st ! i))"
| "earned now nc st ACH_LIFETIME_RESIDENT = (\<exists>i < ds_partyCount st. 10000 \<le> dp_totalHours (ds_pokemon st ! i))"
| "earned now nc st ACH_OLD_TIMER = (\<exists>i < ds_partyCount st. 50000 \<le> dp_totalHours (ds_pokemon st ! i))"
| "earned now nc st ACH_FIRST_FRIEND = (\<exists>r \<in> set (ds_relationships st). 21 \<le> dr_friendship r)"
| "earned now nc st ACH_GOOD_FRIENDS = (\<exists>r \<in> set (ds_relationships st). 61 \<le> dr_friendship r)"
| "earned now nc st ACH_BEST_FRIENDS_FOREVER = (\<exists>r \<in> set (ds_relationships st). 201 \<le> dr_friendship r)"
| "earned now nc st ACH_SOCIAL_BUTTERFLY = (10 \<le> countIf (\<lambda>r. 61 \<le> dr_friendship r) (ds_relationships st))"
| "earned now nc st ACH_BELOVED = (5 \<le> countIf (\<lambda>r. 201 \<le> dr_friendship r) (ds_relationships st))"
| "earned now nc st ACH_FIRST_RIVAL = (\<exists>r \<in> set (ds_relationships st). 16 \<le> dr_rivalry r)"
| "earned now nc st ACH_HEATED_RIVALRY = (\<exists>r \<in> set (ds_relationships st). 121 \<le> dr_rivalry r)"
| "earned now nc st ACH_ARCH_NEMESIS = (\<exists>r \<in> set (ds_relationships st). 201 \<le> dr_rivalry r)"
| "earned now nc st ACH_FRIENDLY_RIVAL =
     (\<exists>r \<in> set (ds_relationships st). 201 \<le> dr_friendship r \<and> 201 \<le> dr_rivalry r)"
| "earned now nc st ACH_FIGHT_CLUB = (5 \<le> countIf (\<lambda>r. 16 \<le> dr_rivalry r) (ds_relationships st))"
| "earned now nc st ACH_UNSTOPPABLE_FORCE = (50 \<le> ds_totalSparWins st)"
| "earned now nc st ACH_RESPECT =
     (\<exists>r \<in> set (ds_relationships st). 51 \<le> dr_rivalry r \<and> 201 \<le> dr_friendship r)"
| "earned now nc st ACH_FIRST_LEVEL_UP = (\<exists>i < ds_partyCount st. 1 \<le> dp_totalLevelsGained (ds_pokemon st ! i))"
| "earned now nc st ACH_DAYCARE_GRADUATE = (\<exists>i < ds_partyCount st. 10 \<le> dp_totalLevelsGained (ds_pokemon st ! i))"
| "earned now nc st ACH_DAYCARE_SCHOLAR = (\<exists>i < ds_partyCount st. 25 \<le> dp_totalLevelsGained (ds_pokemon st ! i))"
| "earned now nc st ACH_EXPLORER = (\<exists>i < ds_partyCount st. 50 \<le> dp_exploreCount (ds_pokemon st ! i))"
| "earned now nc st ACH_DREAMER = (\<exists>i < ds_partyCount st. 20 \<le> dp_dreamCount (ds_pokemon st ! i))"
| "earned now nc st ACH_ESCAPE_ARTIST = (\<exists>i < ds_partyCount st. 1 \<le> dp_escapeCount (ds_pokemon st ! i))"
| "earned now nc st ACH_FULL_MOON = False"
| "earned now nc st ACH_SPLASH_CHAMPION = (\<exists>i < ds_partyCount st.
     dp_speciesDex (ds_pokemon st ! i) = 129 \<and> 100 \<le> dp_splashCount (ds_pokemon st ! i))"
| "earned now nc st ACH_THE_LONELY_ONE = (\<exists>r \<in> set (ds_relationships st). reunited now r)"
| "earned now nc st ACH_STORM_CHASER = (10 \<le> ds_thunderstormCount st)"
| "earned now nc st ACH_SNOWBOUND = (10 \<le> ds_snowCount st)"
| "earned now nc st ACH_WEATHERED = ((of_nat (ds_weatherTypesSeen st) :: byte) AND 0xFE = 0xFE)"
| "earned now nc st ACH_LIGHTNING_ROD = (5 \<le> ds_lightningAbsorbs st \<and> partyHasType 11 st)"
| "earned now nc st ACH_FOG_WALKER = (10 \<le> ds_fogCount st \<and> partyHasType 7 st)"
| "earned now nc st ACH_WELCOME_COMMITTEE = (5 \<le> ds_uniqueTrainersGreeted st)"
| "earned now nc st ACH_MESH_ELDER = (25 \<le> ds_uniqueTrainersGreeted st)"
| "earned now nc st ACH_NEIGHBORHOOD = (5 \<le> nc)"
| "earned now nc st ACH_COMMUNITY = (10 \<le> nc)"

lemma earned_iff_rule: "earned now nc st a \<longleftrightarrow> (True, a) \<in> set (achievementRules now nc st)"
  by (cases a)
    (auto simp: achievementRules_def timeRules_def friendRules_def socialRules_def rivalRules_def levelRules_def
      eventRules_def lonelyRules_def weatherRules_def meshRules_def Let_def)

subsection \<open>Granting\<close>

lemma grant_cases:
  "(grant n a w = (fst w @ [a], snd (grantAchievement a (snd w))) \<and> length (fst w) < n \<and> \<not> hasAchievement (snd w) a)
   \<or> (grant n a w = w \<and> (n \<le> length (fst w) \<or> hasAchievement (snd w) a))"
  by (cases w) (auto simp: grant_def grantAchievement_def)

text \<open>
  Walking the rules: the granted list grows by achievements that were not held, the flags are exactly
  the old ones and the granted ones, and a rule is passed over only when its achievement is held or
  the limit is reached.
\<close>

lemma grant_fold:
  fixes w :: award
  assumes "\<And>a. hasAchievement (snd w) a \<longleftrightarrow> hasAchievement flags a \<or> a \<in> set (fst w)"
    and "distinct (fst w)" and "\<forall>a \<in> set (fst w). \<not> hasAchievement flags a" and "length (fst w) \<le> n"
  shows "let v = fold (grantIf n) rules w in
    (\<forall>a. hasAchievement (snd v) a \<longleftrightarrow> hasAchievement flags a \<or> a \<in> set (fst v)) \<and> distinct (fst v)
    \<and> (\<forall>a \<in> set (fst v). \<not> hasAchievement flags a) \<and> length (fst v) \<le> n
    \<and> set (fst w) \<subseteq> set (fst v) \<and> set (fst v) \<subseteq> set (fst w) \<union> {a. (True, a) \<in> set rules}
    \<and> (length (fst v) < n \<longrightarrow> (\<forall>a. (True, a) \<in> set rules \<longrightarrow> hasAchievement (snd v) a))"
  using assms
proof (induction rules arbitrary: w)
  case Nil
  then show ?case by simp
next
  case (Cons r rules)
  obtain b a where r: "r = (b, a)" by (cases r)
  define w' where "w' = grantIf n r w"
  have w': "w' = (fst w @ [a], snd (grantAchievement a (snd w))) \<and> b \<and> length (fst w) < n \<and> \<not> hasAchievement (snd w) a
      \<or> w' = w \<and> (b \<longrightarrow> n \<le> length (fst w) \<or> hasAchievement (snd w) a)"
    using grant_cases [of n a w] by (auto simp: w'_def r grantIf_def)
  have inv: "\<And>c. hasAchievement (snd w') c \<longleftrightarrow> hasAchievement flags c \<or> c \<in> set (fst w')"
    "distinct (fst w')" "\<forall>c \<in> set (fst w'). \<not> hasAchievement flags c" "length (fst w') \<le> n"
    using w' Cons.prems by (auto simp: hasAchievement_grant)
  define v where "v = fold (grantIf n) rules w'"
  note IH = Cons.IH [OF inv, folded v_def, unfolded Let_def]
  have sub: "set (fst w) \<subseteq> set (fst w')" "set (fst w') \<subseteq> set (fst w) \<union> {c. (True, c) \<in> set (r # rules)}"
    using w' r by auto
  have held: "hasAchievement (snd v) a" if "b" "length (fst v) < n"
  proof -
    have "length (fst w') \<le> length (fst v)"
      using IH inv(2) by (metis card_mono distinct_card List.finite_set)
    then have "hasAchievement (snd w') a" using w' that by (auto simp: hasAchievement_grant)
    then show ?thesis using IH inv(1) by blast
  qed
  have fv: "fold (grantIf n) (r # rules) w = v" by (simp add: v_def w'_def)
  show ?case
    unfolding fv Let_def
    using IH sub held r by (auto simp del: split_paired_All)
qed

lemma checkAchievements_eq:
  "checkAchievements now nc n st =
     (let v = fold (grantIf n) (achievementRules now nc st) ([], ds_achievementFlags st)
      in (fst v, st\<lparr>ds_achievementFlags := snd v,
                    ds_relationships := map (resetReunited now) (ds_relationships st)\<rparr>))"
  by (simp add: checkAchievements_def split: prod.split)

lemma checkAchievements_spec:
  fixes st :: DaycareState and now nc maxNew :: nat
  defines "r \<equiv> checkAchievements now nc maxNew st"
  shows "distinct (fst r)" "length (fst r) \<le> maxNew"
    "\<And>a. a \<in> set (fst r) \<Longrightarrow> earned now nc st a \<and> \<not> hasAchievement (ds_achievementFlags st) a"
    "\<And>a. hasAchievement (ds_achievementFlags (snd r)) a
       \<longleftrightarrow> hasAchievement (ds_achievementFlags st) a \<or> a \<in> set (fst r)"
    "\<And>a. length (fst r) < maxNew \<Longrightarrow> earned now nc st a \<Longrightarrow> hasAchievement (ds_achievementFlags (snd r)) a"
    "\<exists>flags. snd r = st\<lparr>ds_achievementFlags := flags,
                   ds_relationships := map (resetReunited now) (ds_relationships st)\<rparr>"
proof -
  define v where "v = fold (grantIf maxNew) (achievementRules now nc st) ([], ds_achievementFlags st)"
  have r: "fst r = fst v" "ds_achievementFlags (snd r) = snd v"
    by (simp_all add: r_def v_def checkAchievements_eq Let_def)
  have "let v = fold (grantIf maxNew) (achievementRules now nc st) ([], ds_achievementFlags st) in
    (\<forall>a. hasAchievement (snd v) a \<longleftrightarrow> hasAchievement (ds_achievementFlags st) a \<or> a \<in> set (fst v)) \<and> distinct (fst v)
    \<and> (\<forall>a \<in> set (fst v). \<not> hasAchievement (ds_achievementFlags st) a) \<and> length (fst v) \<le> maxNew
    \<and> set (fst ([], ds_achievementFlags st)) \<subseteq> set (fst v)
    \<and> set (fst v) \<subseteq> set (fst ([], ds_achievementFlags st)) \<union> {a. (True, a) \<in> set (achievementRules now nc st)}
    \<and> (length (fst v) < maxNew \<longrightarrow> (\<forall>a. (True, a) \<in> set (achievementRules now nc st) \<longrightarrow> hasAchievement (snd v) a))"
    by (rule grant_fold) simp_all
  then show "distinct (fst r)" "length (fst r) \<le> maxNew"
    "\<And>a. a \<in> set (fst r) \<Longrightarrow> earned now nc st a \<and> \<not> hasAchievement (ds_achievementFlags st) a"
    "\<And>a. hasAchievement (ds_achievementFlags (snd r)) a
       \<longleftrightarrow> hasAchievement (ds_achievementFlags st) a \<or> a \<in> set (fst r)"
    "\<And>a. length (fst r) < maxNew \<Longrightarrow> earned now nc st a \<Longrightarrow> hasAchievement (ds_achievementFlags (snd r)) a"
    unfolding r earned_iff_rule v_def [symmetric] Let_def by auto
  show "\<exists>flags. snd r = st\<lparr>ds_achievementFlags := flags,
                   ds_relationships := map (resetReunited now) (ds_relationships st)\<rparr>"
    by (auto simp: r_def checkAchievements_eq Let_def)
qed

text \<open>
  C34 The achievement checker grants exactly what is earned, up to its limit: the list of new
  achievements has no duplicates, at most \<open>maxNew\<close> entries, and only earned achievements that
  were not held before; afterwards the held ones are the former ones and the new ones; and when fewer
  than \<open>maxNew\<close> are new, every earned achievement is held.
\<close>

theorem achievements_granted_once:
  fixes st :: DaycareState and now nc maxNew :: nat
  defines "r \<equiv> checkAchievements now nc maxNew st"
  shows "distinct (fst r) \<and> length (fst r) \<le> maxNew
    \<and> set (fst r) \<subseteq> {a. earned now nc st a \<and> \<not> hasAchievement (ds_achievementFlags st) a}
    \<and> (\<forall>a. hasAchievement (ds_achievementFlags (snd r)) a
          \<longleftrightarrow> hasAchievement (ds_achievementFlags st) a \<or> a \<in> set (fst r))
    \<and> (if length (fst r) < maxNew
       then {a. earned now nc st a} \<subseteq> {a. hasAchievement (ds_achievementFlags (snd r)) a} else True)"
  using checkAchievements_spec [where now = now and nc = nc and maxNew = maxNew and st = st] by (auto simp: r_def)

end
