(* ===== verification/SavMemory.thy ===== *)
theory SavMemory
  imports Prelude
begin

text \<open>
  Fields of a byte buffer: the big-endian accessors of
  \<^verbatim>\<open>src/modules/monstermesh/DaycareSavPatcher.h\<close> (lines 481 to 500), the relation "equal outside
  a set of addresses", and the interface of one field (a locale), interpreted on single bytes and on
  the 16- and 24-bit fields.
\<close>

subsection \<open>Accessors\<close>

definition readBE16 :: "byte list \<Rightarrow> nat \<Rightarrow> nat" where
  "readBE16 s a = unat (s ! a) * 256 + unat (s ! (a + 1))"

definition writeBE16 :: "nat \<Rightarrow> nat \<Rightarrow> byte list \<Rightarrow> byte list" where
  "writeBE16 a v s = s[a := of_nat (v div 256), a + 1 := of_nat v]"

definition readBE24 :: "byte list \<Rightarrow> nat \<Rightarrow> nat" where
  "readBE24 s a = unat (s ! a) * 65536 + unat (s ! (a + 1)) * 256 + unat (s ! (a + 2))"

definition writeBE24 :: "nat \<Rightarrow> nat \<Rightarrow> byte list \<Rightarrow> byte list" where
  "writeBE24 a v s = s[a := of_nat (v div 65536), a + 1 := of_nat (v div 256), a + 2 := of_nat v]"

definition readU8 :: "byte list \<Rightarrow> nat \<Rightarrow> nat" where
  "readU8 s a = unat (s ! a)"

definition writeU8 :: "nat \<Rightarrow> nat \<Rightarrow> byte list \<Rightarrow> byte list" where
  "writeU8 a v s = s[a := of_nat v]"

lemma length_writes [simp]:
  "length (writeBE16 a v s) = length s" "length (writeBE24 a v s) = length s"
  "length (writeU8 a v s) = length s"
  by (simp_all add: writeBE16_def writeBE24_def writeU8_def)

lemma readU8_less [simp]: "readU8 s a < 256" by (simp add: readU8_def)

lemma readBE16_less: "readBE16 s a < 65536"
  using unat_byte_less [of "s ! a"] unat_byte_less [of "s ! (a + 1)"]
  unfolding readBE16_def by linarith

lemma readBE24_less: "readBE24 s a < 16777216"
  using unat_byte_less [of "s ! a"] unat_byte_less [of "s ! (a + 1)"] unat_byte_less [of "s ! (a + 2)"]
  unfolding readBE24_def by linarith

lemma unat_of_nat_byte: "unat (of_nat n :: byte) = n mod 256"
  by (simp add: unat_of_nat)

subsection \<open>Equal outside a set of addresses\<close>

definition outside :: "nat set \<Rightarrow> byte list \<Rightarrow> byte list \<Rightarrow> bool" where
  "outside A s t \<longleftrightarrow> length t = length s \<and> (\<forall>i. i \<notin> A \<longrightarrow> t ! i = s ! i)"

named_theorems outside_intros \<open>writes inside the allowed addresses\<close>

lemma outside_refl [outside_intros, simp]: "outside A s s" by (simp add: outside_def)

lemma outside_trans: "outside A s t \<Longrightarrow> outside A t u \<Longrightarrow> outside A s u"
  by (simp add: outside_def)

lemma outside_mono: "outside A s t \<Longrightarrow> A \<subseteq> B \<Longrightarrow> outside B s t"
  by (auto simp: outside_def)

lemma outside_length: "outside A s t \<Longrightarrow> length t = length s" by (simp add: outside_def)

lemma outside_nth: "outside A s t \<Longrightarrow> i \<notin> A \<Longrightarrow> t ! i = s ! i" by (simp add: outside_def)

lemma outside_update [outside_intros]: "outside A s t \<Longrightarrow> i \<in> A \<Longrightarrow> outside A s (t[i := v])"
  unfolding outside_def by (metis length_list_update nth_list_update_neq)

lemma outside_writeBE16 [outside_intros]:
  "outside A s t \<Longrightarrow> a \<in> A \<Longrightarrow> a + 1 \<in> A \<Longrightarrow> outside A s (writeBE16 a v t)"
  unfolding writeBE16_def by (intro outside_update)

lemma outside_writeBE24 [outside_intros]:
  "outside A s t \<Longrightarrow> a \<in> A \<Longrightarrow> a + 1 \<in> A \<Longrightarrow> a + 2 \<in> A \<Longrightarrow> outside A s (writeBE24 a v t)"
  unfolding writeBE24_def by (intro outside_update)

lemma outside_writeU8 [outside_intros]:
  "outside A s t \<Longrightarrow> a \<in> A \<Longrightarrow> outside A s (writeU8 a v t)"
  unfolding writeU8_def by (intro outside_update)

subsection \<open>The interface of a field\<close>

text \<open>
  A field is read and written at fixed cells: what was written is read back, nothing else changes,
  and the value depends on the cells alone.
\<close>

locale save_field =
  fixes rd :: "byte list \<Rightarrow> nat"
    and wr :: "nat \<Rightarrow> byte list \<Rightarrow> byte list"
    and cells :: "nat set"
    and bound :: nat
  assumes read_back: "\<forall>i \<in> cells. i < length s \<Longrightarrow> v < bound \<Longrightarrow> rd (wr v s) = v"
    and write_local: "outside cells s (wr v s)"
    and read_local: "\<forall>i \<in> cells. t ! i = s ! i \<Longrightarrow> rd t = rd s"
begin

lemma unchanged: "outside A s t \<Longrightarrow> A \<inter> cells = {} \<Longrightarrow> rd t = rd s"
  by (rule read_local) (auto simp: outside_def)

lemma write_elsewhere: "cells \<subseteq> A \<Longrightarrow> outside A s t \<Longrightarrow> outside A s (wr v t)"
  using write_local by (blast intro: outside_trans outside_mono)

lemma survives: "outside A (wr v s) t \<Longrightarrow> A \<inter> cells = {} \<Longrightarrow> \<forall>i \<in> cells. i < length s \<Longrightarrow> v < bound \<Longrightarrow> rd t = v"
  using unchanged read_back by metis

end

lemma byte_split: "v < 65536 \<Longrightarrow> v div 256 mod 256 * 256 + v mod 256 = (v :: nat)"
  by (simp add: mod_less div_less_iff_less_mult)

lemma byte_split3:
  assumes "v < 16777216"
  shows "v div 65536 mod 256 * 65536 + v div 256 mod 256 * 256 + v mod 256 = (v :: nat)"
proof -
  have "v div 65536 = v div 256 div 256" by (simp add: div_mult2_eq [symmetric])
  moreover have "v div 256 div 256 mod 256 = v div 256 div 256" using assms by (intro mod_less) simp
  ultimately have "v div 65536 mod 256 = v div 256 div 256" by (simp only:)
  moreover have "h * 65536 + m * 256 + r = (h * 256 + m) * 256 + r" for h m r :: nat by simp
  ultimately show ?thesis by (simp only: div_mult_mod_eq)
qed

interpretation field8: save_field "\<lambda>s. readU8 s a" "writeU8 a" "{a}" 256 for a
  by unfold_locales (auto simp: readU8_def writeU8_def unat_of_nat_byte intro: outside_intros)

interpretation field16: save_field "\<lambda>s. readBE16 s a" "writeBE16 a" "{a, a + 1}" 65536 for a
proof unfold_locales
  fix v :: nat and s :: "byte list"
  assume "\<forall>i\<in>{a, a + 1}. i < length s" and "v < 65536"
  then show "readBE16 (writeBE16 a v s) a = v"
    using byte_split [of v] by (simp add: readBE16_def writeBE16_def unat_of_nat_byte nth_list_update)
qed (auto simp: readBE16_def intro: outside_intros)

interpretation field24: save_field "\<lambda>s. readBE24 s a" "writeBE24 a" "{a, a + 1, a + 2}" 16777216 for a
proof unfold_locales
  fix v :: nat and s :: "byte list"
  assume "\<forall>i\<in>{a, a + 1, a + 2}. i < length s" and v: "v < 16777216"
  then show "readBE24 (writeBE24 a v s) a = v"
    using byte_split3 [OF v] by (simp add: readBE24_def writeBE24_def unat_of_nat_byte nth_list_update)
qed (auto simp: readBE24_def intro: outside_intros)

end
