(* ===== verification/GrowthCurves.thy ===== *)
theory GrowthCurves
  imports IntSqrt SpeciesTables
begin

text \<open>
  Experience and stats of the save patcher (\<^verbatim>\<open>src/modules/monstermesh/DaycareSavPatcher.h\<close>, lines
  502 to 568): the growth curves, the level search over them and the stat formulas.  The interface of
  a growth curve is a locale; every growth rate of the source is an instance.
\<close>

subsection \<open>Growth curves\<close>

text \<open>
  The \<open>switch\<close> of \<open>expForLevel\<close> on the growth rate.  With a level below 256 no \<open>uint32_t\<close> or
  \<open>int32_t\<close> intermediate overflows (\<open>6 * 255^3 < 2^31\<close>), so the integers are exact.
\<close>

definition expOfGrowth :: "nat \<Rightarrow> nat \<Rightarrow> nat" where
  "expOfGrowth rate n =
     (let n3 = n * n * n in
      if rate = 1 then 4 * n3 div 5
      else if rate = 0 then n3
      else if rate = 2 then
        (let e = int (6 * n3 div 5) - int (15 * n * n) + int (100 * n) - 140
         in if e < 0 then 0 else nat e)
      else if rate = 3 then 5 * n3 div 4
      else n3)"

definition expForLevel :: "nat \<Rightarrow> nat \<Rightarrow> nat" where
  "expForLevel dexNum level =
     (if dexNum = 0 \<or> dexNum > 151 \<or> level \<le> 1 then 0
      else expOfGrowth (speciesGrowthRate ! dexNum) level)"

text \<open>The loop over the levels 2 to 100 with its early exit.\<close>

fun levelLoop :: "(nat \<Rightarrow> nat) \<Rightarrow> nat \<Rightarrow> nat list \<Rightarrow> nat \<Rightarrow> nat" where
  "levelLoop f x [] level = level"
| "levelLoop f x (l # ls) level = (if f l > x then level else levelLoop f x ls l)"

definition levelForExp :: "nat \<Rightarrow> nat \<Rightarrow> nat" where
  "levelForExp dexNum totalExp =
     (if dexNum = 0 \<or> dexNum > 151 then 1
      else levelLoop (expForLevel dexNum) totalExp [2..<101] 1)"

subsection \<open>The interface of a growth curve\<close>

locale growth_curve =
  fixes need :: "nat \<Rightarrow> nat"
  assumes base: "need 1 = 0"
    and grows: "1 \<le> l \<Longrightarrow> l < 100 \<Longrightarrow> need l < need (Suc l)"
begin

lemma strict: "1 \<le> k \<Longrightarrow> k < l \<Longrightarrow> l \<le> 100 \<Longrightarrow> need k < need l"
proof (induction l)
  case (Suc l)
  then show ?case using grows [of l] by (cases "k = l") fastforce+
qed simp

lemma mono: "1 \<le> k \<Longrightarrow> k \<le> l \<Longrightarrow> l \<le> 100 \<Longrightarrow> need k \<le> need l"
  using strict [of k l] by (cases "k = l") auto

text \<open>The early exit finds the greatest level whose experience is reached.\<close>

lemma loop_spec:
  assumes "1 \<le> level" "level \<le> 100" "need level \<le> x"
  shows "let r = levelLoop need x [Suc level..<101] level
    in level \<le> r \<and> r \<le> 100 \<and> need r \<le> x \<and> (r = 100 \<or> x < need (Suc r))"
  using assms
proof (induction "100 - level" arbitrary: level)
  case 0
  then show ?case by simp
next
  case (Suc d)
  then have upt: "[Suc level..<101] = Suc level # [Suc (Suc level)..<101]"
    by (simp add: upt_rec)
  show ?case
  proof (cases "need (Suc level) > x")
    case True
    with Suc.prems show ?thesis unfolding upt by simp
  next
    case False
    have "d = 100 - Suc level" "level < 100" using Suc.hyps(2) by simp_all
    then have "let r = levelLoop need x [Suc (Suc level)..<101] (Suc level)
        in Suc level \<le> r \<and> r \<le> 100 \<and> need r \<le> x \<and> (r = 100 \<or> x < need (Suc r))"
      using Suc.hyps(1) [of "Suc level"] False by simp
    with False show ?thesis unfolding upt by (simp add: Let_def)
  qed
qed

definition levelOf :: "nat \<Rightarrow> nat" where
  "levelOf x = levelLoop need x [2..<101] 1"

lemma levelOf_spec:
  "1 \<le> levelOf x \<and> levelOf x \<le> 100 \<and> need (levelOf x) \<le> x \<and> (levelOf x = 100 \<or> x < need (Suc (levelOf x)))"
  using loop_spec [of 1 x] base by (simp add: levelOf_def Let_def numeral_2_eq_2)

lemma levelOf_galois:
  assumes "1 \<le> l" "l \<le> 100"
  shows "l \<le> levelOf x \<longleftrightarrow> need l \<le> x"
proof
  assume "l \<le> levelOf x"
  then show "need l \<le> x" using mono [OF assms(1), of "levelOf x"] levelOf_spec [of x] by simp
next
  assume l: "need l \<le> x"
  show "l \<le> levelOf x"
  proof (rule ccontr)
    assume "\<not> l \<le> levelOf x"
    then have "Suc (levelOf x) \<le> l" by simp
    moreover have "levelOf x \<noteq> 100" using calculation assms by simp
    ultimately have "x < need l" using mono [of "Suc (levelOf x)" l] levelOf_spec [of x] assms by fastforce
    with l show False by simp
  qed
qed

lemma levelOf_need: "1 \<le> l \<Longrightarrow> l \<le> 100 \<Longrightarrow> levelOf (need l) = l"
proof -
  assume l: "1 \<le> l" "l \<le> 100"
  have "l \<le> levelOf (need l)" using levelOf_galois [OF l] by simp
  moreover have "\<not> Suc l \<le> levelOf (need l)" if "l < 100"
    using levelOf_galois [of "Suc l" "need l"] grows [OF l(1) that] l that by simp
  ultimately show ?thesis using levelOf_spec [of "need l"] l by (metis Suc_leI le_antisym not_less)
qed

lemma levelOf_mono: "x \<le> y \<Longrightarrow> levelOf x \<le> levelOf y"
  using levelOf_galois levelOf_spec by (meson order_trans)

end

subsection \<open>The growth rates of the source\<close>

lemma div_gap: "0 < d \<Longrightarrow> a + d \<le> b \<Longrightarrow> a div d < b div (d :: nat)"
  by (metis Suc_le_eq div_add_self2 div_le_mono neq0_conv add_Suc_right add_0_right plus_1_eq_Suc add.commute)

lemma cube_Suc: "Suc n * Suc n * Suc n = n * n * n + 3 * (n * n) + 3 * n + 1"
  by (simp add: algebra_simps)

lemma medium_slow_grows:
  fixes n :: int
  assumes "1 \<le> n"
  shows "6 * (n * n * n) div 5 - 15 * n * n + 100 * n < 6 * ((n + 1) * (n + 1) * (n + 1)) div 5 - 15 * (n + 1) * (n + 1) + 100 * (n + 1)"
proof -
  let ?a = "6 * (n * n * n)" and ?b = "6 * ((n + 1) * (n + 1) * (n + 1))"
  have b: "?b = ?a + 18 * (n * n) + 18 * n + 6" by (simp add: algebra_simps)
  have gap: "5 * (?b div 5 - ?a div 5) \<ge> 18 * (n * n) + 18 * n + 6 - 4"
    unfolding b by presburger
  have "0 \<le> (n - 4) * (n - 4)" by simp
  then have "18 * (n * n) \<ge> 144 * n - 288" by (simp add: algebra_simps)
  then have "18 * (n * n) + 18 * n + 2 > 5 * (15 * (2 * n + 1) - 100)"
    using assms by (simp add: algebra_simps)
  with gap show ?thesis by (simp add: algebra_simps)
qed

definition slowCurve :: "nat \<Rightarrow> int" where
  "slowCurve n = int (6 * (n * n * n) div 5) - int (15 * n * n) + int (100 * n) - 140"

lemma slowCurve_Suc: "1 \<le> n \<Longrightarrow> slowCurve n < slowCurve (Suc n)"
  using medium_slow_grows [of "int n"] by (simp add: slowCurve_def zdiv_int algebra_simps)

lemma slowCurve_ge: "2 \<le> n \<Longrightarrow> 9 \<le> slowCurve n"
proof (induction n rule: nat_induct_at_least)
  case base
  show ?case by (simp add: slowCurve_def)
next
  case (Suc n)
  then show ?case using slowCurve_Suc [of n] by simp
qed

lemma expOfGrowth_slowCurve: "2 \<le> n \<Longrightarrow> expOfGrowth 2 n = nat (slowCurve n)"
  using slowCurve_ge [of n] by (simp add: expOfGrowth_def slowCurve_def Let_def mult.assoc)

lemma expOfGrowth_Suc: "2 \<le> n \<Longrightarrow> expOfGrowth rate n < expOfGrowth rate (Suc n)"
proof -
  assume n: "2 \<le> n"
  have "expOfGrowth 2 n < expOfGrowth 2 (Suc n)"
    using n slowCurve_Suc [of n] slowCurve_ge [of n] by (simp add: expOfGrowth_slowCurve)
  moreover have "n * n * n < Suc n * Suc n * Suc n" unfolding cube_Suc using n by simp
  moreover have "4 * (n * n * n) div 5 < 4 * (Suc n * Suc n * Suc n) div 5"
    unfolding cube_Suc using n by (intro div_gap) (simp_all add: algebra_simps)
  moreover have "5 * (n * n * n) div 4 < 5 * (Suc n * Suc n * Suc n) div 4"
    unfolding cube_Suc using n by (intro div_gap) (simp_all add: algebra_simps)
  ultimately show ?thesis by (simp add: expOfGrowth_def Let_def del: mult_Suc mult_Suc_right)
qed

definition rateCurve :: "nat \<Rightarrow> nat \<Rightarrow> nat" where
  "rateCurve r l = (if l \<le> 1 then 0 else expOfGrowth r l)"

interpretation rate: growth_curve "rateCurve r" for r
proof unfold_locales
  fix l :: nat
  assume "1 \<le> l" "l < 100"
  then consider "l = 1" | "2 \<le> l" by linarith
  then show "rateCurve r l < rateCurve r (Suc l)"
  proof cases
    case 1
    then show ?thesis by (simp add: rateCurve_def expOfGrowth_def Let_def)
  next
    case 2
    then show ?thesis using expOfGrowth_Suc [of l r] by (simp add: rateCurve_def)
  qed
qed (simp add: rateCurve_def)

lemma expForLevel_rate:
  "1 \<le> d \<Longrightarrow> d \<le> 151 \<Longrightarrow> expForLevel d = rateCurve (speciesGrowthRate ! d)"
  by (auto simp: expForLevel_def rateCurve_def)

lemma levelForExp_rate:
  "1 \<le> d \<Longrightarrow> d \<le> 151 \<Longrightarrow> levelForExp d x = rate.levelOf (speciesGrowthRate ! d) x"
  by (simp add: levelForExp_def rate.levelOf_def expForLevel_rate)

text \<open>What the instance gives for a species.\<close>

lemma levelForExp_spec:
  assumes "1 \<le> d" "d \<le> 151"
  shows "1 \<le> levelForExp d x" "levelForExp d x \<le> 100" "expForLevel d (levelForExp d x) \<le> x"
    "levelForExp d x = 100 \<or> x < expForLevel d (Suc (levelForExp d x))"
  using rate.levelOf_spec [of "speciesGrowthRate ! d" x] assms
  by (simp_all add: levelForExp_rate expForLevel_rate)

lemma levelForExp_galois:
  "1 \<le> d \<Longrightarrow> d \<le> 151 \<Longrightarrow> 1 \<le> l \<Longrightarrow> l \<le> 100 \<Longrightarrow> l \<le> levelForExp d x \<longleftrightarrow> expForLevel d l \<le> x"
  using rate.levelOf_galois [of l "speciesGrowthRate ! d" x] by (simp only: levelForExp_rate expForLevel_rate)

lemma levelForExp_expForLevel:
  "1 \<le> d \<Longrightarrow> d \<le> 151 \<Longrightarrow> 1 \<le> l \<Longrightarrow> l \<le> 100 \<Longrightarrow> levelForExp d (expForLevel d l) = l"
  using rate.levelOf_need [of l "speciesGrowthRate ! d"] by (simp only: levelForExp_rate expForLevel_rate)

lemma levelForExp_mono: "1 \<le> d \<Longrightarrow> d \<le> 151 \<Longrightarrow> x \<le> y \<Longrightarrow> levelForExp d x \<le> levelForExp d y"
  using rate.levelOf_mono [of x y "speciesGrowthRate ! d"] by (simp only: levelForExp_rate)

lemma levelForExp_range: "1 \<le> levelForExp d x \<and> levelForExp d x \<le> 100"
proof (cases "d = 0 \<or> d > 151")
  case True
  then show ?thesis by (simp add: levelForExp_def)
next
  case False
  then show ?thesis using levelForExp_spec [of d x] by simp
qed

lemma expForLevel_100: "expForLevel d 100 < 1250001"
  by (auto simp: expForLevel_def expOfGrowth_def Let_def)

subsection \<open>Stat formulas of the patcher\<close>

text \<open>\<open>ceil(sqrt(statExp)) / 4\<close> as the source computes it, and the two formulas.\<close>

definition evBonus :: "nat \<Rightarrow> nat" where
  "evBonus statExp =
     (let r = isqrt16 statExp; r = (if r * r < statExp then r + 1 else r) in r div 4)"

definition patchStatHP :: "nat \<Rightarrow> nat \<Rightarrow> nat \<Rightarrow> nat \<Rightarrow> nat" where
  "patchStatHP base dv statExp level =
     u16 (u16 ((base + dv) * 2 + evBonus statExp) * level div 100 + level + 10)"

definition patchStat :: "nat \<Rightarrow> nat \<Rightarrow> nat \<Rightarrow> nat \<Rightarrow> nat" where
  "patchStat base dv statExp level =
     u16 (u16 ((base + dv) * 2 + evBonus statExp) * level div 100 + 5)"

lemma evBonus_le: "x < 65536 \<Longrightarrow> evBonus x \<le> 64"
  using isqrt16_le [of x] by (auto simp: evBonus_def Let_def)

lemma patchStat_bounds:
  assumes "base \<le> 255" "dv \<le> 15" "x < 65536" "level \<le> 100"
  shows "patchStat base dv x level = ((base + dv) * 2 + evBonus x) * level div 100 + 5"
    and "patchStatHP base dv x level = ((base + dv) * 2 + evBonus x) * level div 100 + level + 10"
    and "((base + dv) * 2 + evBonus x) * level div 100 \<le> 604"
proof -
  have k: "(base + dv) * 2 + evBonus x \<le> 604" using evBonus_le [OF assms(3)] assms by simp
  then have "((base + dv) * 2 + evBonus x) * level \<le> 604 * 100" using assms(4) by (rule mult_le_mono)
  then show n: "((base + dv) * 2 + evBonus x) * level div 100 \<le> 604" by linarith
  show "patchStat base dv x level = ((base + dv) * 2 + evBonus x) * level div 100 + 5"
    "patchStatHP base dv x level = ((base + dv) * 2 + evBonus x) * level div 100 + level + 10"
    using k n assms(4) by (simp_all add: patchStat_def patchStatHP_def)
qed

end
