(* ===== verification/SavPatcher.thy ===== *)
theory SavPatcher
  imports SavMemory GrowthCurves TableFacts
begin

text \<open>
  The save patcher: class \<open>DaycareSavPatcher\<close> of
  \<^verbatim>\<open>src/modules/monstermesh/DaycareSavPatcher.h\<close> and the learnset query of
  \<^verbatim>\<open>Gen1Learnsets.h\<close>.  The cartridge RAM is a list of 32768 bytes that every operation returns
  updated; a pointer into it is its address.
\<close>

subsection \<open>Layout\<close>

definition SAV_PARTY_COUNT :: nat where "SAV_PARTY_COUNT = 0x2F2C"
definition SAV_POKEMON_DATA :: nat where "SAV_POKEMON_DATA = 0x2F34"
definition SAV_OT_NAMES :: nat where "SAV_OT_NAMES = 0x303C"
definition SAV_NICKNAMES :: nat where "SAV_NICKNAMES = 0x307E"
definition SAV_CHECKSUM_OFFSET :: nat where "SAV_CHECKSUM_OFFSET = 0x3523"
definition SAV_CHECKSUM_START :: nat where "SAV_CHECKSUM_START = 0x2598"
definition SAV_CHECKSUM_END :: nat where "SAV_CHECKSUM_END = 0x3522"

text \<open>\<open>&sram[SAV_POKEMON_DATA + i * SAV_POKEMON_SIZE]\<close>.\<close>

definition pkmAt :: "nat \<Rightarrow> nat" where
  "pkmAt i = SAV_POKEMON_DATA + i * 44"

text \<open>Offsets in the 44-byte record.\<close>

abbreviation (input) PKM_CURRENT_HP :: nat where "PKM_CURRENT_HP \<equiv> 0x01"
abbreviation (input) PKM_LEVEL_PC :: nat where "PKM_LEVEL_PC \<equiv> 0x03"
abbreviation (input) PKM_MOVES :: nat where "PKM_MOVES \<equiv> 0x08"
abbreviation (input) PKM_EXP :: nat where "PKM_EXP \<equiv> 0x0E"
abbreviation (input) PKM_HP_EV :: nat where "PKM_HP_EV \<equiv> 0x11"
abbreviation (input) PKM_ATK_EV :: nat where "PKM_ATK_EV \<equiv> 0x13"
abbreviation (input) PKM_DEF_EV :: nat where "PKM_DEF_EV \<equiv> 0x15"
abbreviation (input) PKM_SPD_EV :: nat where "PKM_SPD_EV \<equiv> 0x17"
abbreviation (input) PKM_SPC_EV :: nat where "PKM_SPC_EV \<equiv> 0x19"
abbreviation (input) PKM_DVS :: nat where "PKM_DVS \<equiv> 0x1B"
abbreviation (input) PKM_PP :: nat where "PKM_PP \<equiv> 0x1D"
abbreviation (input) PKM_LEVEL_PARTY :: nat where "PKM_LEVEL_PARTY \<equiv> 0x21"
abbreviation (input) PKM_MAX_HP :: nat where "PKM_MAX_HP \<equiv> 0x22"
abbreviation (input) PKM_ATTACK :: nat where "PKM_ATTACK \<equiv> 0x24"
abbreviation (input) PKM_DEFENSE :: nat where "PKM_DEFENSE \<equiv> 0x26"
abbreviation (input) PKM_SPEED :: nat where "PKM_SPEED \<equiv> 0x28"
abbreviation (input) PKM_SPECIAL :: nat where "PKM_SPECIAL \<equiv> 0x2A"

subsection \<open>Reading the party\<close>

text \<open>The character table of this header, which covers more punctuation than \<^verbatim>\<open>Gen1Species.h\<close>.\<close>

definition gen1CharToAsciiExt :: "byte \<Rightarrow> char" where
  "gen1CharToAsciiExt c =
     (let n = unat c in
      if 0x80 \<le> n \<and> n \<le> 0x99 then char_of (65 + (n - 0x80))
      else if 0xA0 \<le> n \<and> n \<le> 0xB9 then char_of (97 + (n - 0xA0))
      else if 0xF6 \<le> n \<and> n \<le> 0xFF then char_of (48 + (n - 0xF6))
      else if n = 0x7F then CHR '' ''
      else if n = 0xE8 then CHR ''.''
      else if n = 0xE3 then CHR ''-''
      else if n = 0xEF then CHR 0x27
      else if n = 0xF4 then CHR '',''
      else if n = 0xF3 then CHR ''/''
      else if n = 0x50 then CHR 0x00
      else CHR ''?'')"

definition asciiToGen1Char :: "char \<Rightarrow> byte" where
  "asciiToGen1Char c =
     (let n = of_char c :: nat in
      if 65 \<le> n \<and> n \<le> 90 then of_nat (0x80 + (n - 65))
      else if 97 \<le> n \<and> n \<le> 122 then of_nat (0xA0 + (n - 97))
      else if 48 \<le> n \<and> n \<le> 57 then of_nat (0xF6 + (n - 48))
      else if c = CHR '' '' then 0x7F
      else if c = CHR ''.'' then 0xE8
      else if c = CHR ''-'' then 0xE3
      else if c = CHR 0x27 then 0xEF
      else if c = CHR '','' then 0xF4
      else if c = CHR ''/'' then 0xF3
      else if c = CHR 0x00 then 0x50
      else 0x50)"

record DaycarePartyInfo =
  pi_dexNum :: nat
  pi_level :: nat
  pi_totalExp :: nat
  pi_nickname :: string
  pi_otName :: string
  pi_moves :: "nat list"

text \<open>A name field: up to ten characters before the terminator.\<close>

definition readName :: "byte list \<Rightarrow> nat \<Rightarrow> string" where
  "readName s a = map gen1CharToAsciiExt (takeWhile (\<lambda>b. b \<noteq> 0x50) (take 10 (drop a s)))"

definition readPartyMon :: "byte list \<Rightarrow> nat \<Rightarrow> DaycarePartyInfo" where
  "readPartyMon s i =
     (let p = pkmAt i in
      \<lparr>pi_dexNum = internalToDex ! readU8 s p,
       pi_level = readU8 s (p + PKM_LEVEL_PARTY),
       pi_totalExp = readBE24 s (p + PKM_EXP),
       pi_nickname = readName s (SAV_NICKNAMES + i * 11),
       pi_otName = readName s (SAV_OT_NAMES + i * 11),
       pi_moves = map (\<lambda>m. readU8 s (p + 8 + m)) [0..<4]\<rparr>)"

definition readParty :: "byte list \<Rightarrow> DaycarePartyInfo list" where
  "readParty s =
     (let count = readU8 s SAV_PARTY_COUNT; count = (if count > 6 then 6 else count)
      in map (readPartyMon s) [0..<count])"

subsection \<open>Stats and levels\<close>

definition atkDV :: "byte list \<Rightarrow> nat \<Rightarrow> nat" where "atkDV s p = readU8 s (p + PKM_DVS) div 16"
definition defDV :: "byte list \<Rightarrow> nat \<Rightarrow> nat" where "defDV s p = readU8 s (p + PKM_DVS) mod 16"
definition spdDV :: "byte list \<Rightarrow> nat \<Rightarrow> nat" where "spdDV s p = readU8 s (p + (PKM_DVS + 1)) div 16"
definition spcDV :: "byte list \<Rightarrow> nat \<Rightarrow> nat" where "spcDV s p = readU8 s (p + (PKM_DVS + 1)) mod 16"

definition hpDVof :: "byte list \<Rightarrow> nat \<Rightarrow> nat" where
  "hpDVof s p = atkDV s p mod 2 * 8 + defDV s p mod 2 * 4 + spdDV s p mod 2 * 2 + spcDV s p mod 2"

definition scaledHp :: "nat \<Rightarrow> nat \<Rightarrow> nat \<Rightarrow> nat" where
  "scaledHp oldMax oldCur maxHP =
     (if oldMax > 0 \<and> oldCur > 0 then
        (let c = u16 (oldCur * maxHP div oldMax);
             c = (if c = 0 then 1 else c)
         in if c > maxHP then maxHP else c)
      else maxHP)"

definition recalcStats :: "nat \<Rightarrow> nat \<Rightarrow> nat \<Rightarrow> byte list \<Rightarrow> byte list" where
  "recalcStats p dexNum level s =
     (if dexNum = 0 \<or> dexNum > 151 then s
      else
        let base = speciesBaseStats ! dexNum;
            maxHP = patchStatHP (bs_hp base) (hpDVof s p) (readBE16 s (p + PKM_HP_EV)) level;
            attack = patchStat (bs_atk base) (atkDV s p) (readBE16 s (p + PKM_ATK_EV)) level;
            defense = patchStat (bs_def base) (defDV s p) (readBE16 s (p + PKM_DEF_EV)) level;
            speed = patchStat (bs_spd base) (spdDV s p) (readBE16 s (p + PKM_SPD_EV)) level;
            special = patchStat (bs_spc base) (spcDV s p) (readBE16 s (p + PKM_SPC_EV)) level;
            newCurHP = scaledHp (readBE16 s (p + PKM_MAX_HP)) (readBE16 s (p + PKM_CURRENT_HP)) maxHP
        in writeBE16 (p + PKM_SPECIAL) special
             (writeBE16 (p + PKM_SPEED) speed
               (writeBE16 (p + PKM_DEFENSE) defense
                 (writeBE16 (p + PKM_ATTACK) attack
                   (writeBE16 (p + PKM_MAX_HP) maxHP
                     (writeBE16 (p + PKM_CURRENT_HP) newCurHP s))))))"

text \<open>The sum wraps as \<open>uint32_t\<close>; the returned level is 0 on an argument error.\<close>

definition patchPokemon :: "nat \<Rightarrow> nat \<Rightarrow> nat \<Rightarrow> byte list \<Rightarrow> nat \<times> byte list" where
  "patchPokemon partyIdx dexNum xpGained s =
     (if partyIdx \<ge> 6 \<or> dexNum = 0 \<or> dexNum > 151 then (0, s)
      else
        let p = pkmAt partyIdx;
            newExp = u32 (readBE24 s (p + PKM_EXP) + xpGained);
            maxExp = expForLevel dexNum 100;
            newExp = (if newExp > maxExp then maxExp else newExp);
            newLevel = levelForExp dexNum newExp;
            newLevel = (if newLevel > 100 then 100 else newLevel);
            s = writeBE24 (p + PKM_EXP) newExp s;
            s = writeU8 (p + PKM_LEVEL_PC) newLevel s;
            s = writeU8 (p + PKM_LEVEL_PARTY) newLevel s
        in (newLevel, recalcStats p dexNum newLevel s))"

subsection \<open>Moves\<close>

text \<open>
  The entries of a species whose level is in \<open>(from, to]\<close>, in table order, at most \<open>maxOut\<close>: the
  loop stops as soon as the output is full.
\<close>

definition learnsetOf :: "nat \<Rightarrow> (nat \<times> nat) list" where
  "learnsetOf dexNum = take (gen1LearnsetCount ! dexNum) (drop (gen1LearnsetOffset ! dexNum) gen1LearnsetData)"

definition gen1MovesLearnedBetween :: "nat \<Rightarrow> nat \<Rightarrow> nat \<Rightarrow> nat \<Rightarrow> nat list" where
  "gen1MovesLearnedBetween dexNum fromLevel toLevel maxOut =
     (if dexNum = 0 \<or> dexNum > 151 then []
      else take maxOut (map snd (filter (\<lambda>(l, m). l > fromLevel \<and> l \<le> toLevel) (learnsetOf dexNum))))"

definition basePp :: "nat \<Rightarrow> nat" where
  "basePp moveId =
     (if moveId = 0 then 0
      else let pp = (case gen1Move moveId of Some md \<Rightarrow> mpp md | None \<Rightarrow> 0)
           in if pp > 63 then 63 else pp)"

definition setMove :: "nat \<Rightarrow> nat \<Rightarrow> nat \<Rightarrow> byte list \<Rightarrow> byte list" where
  "setMove partyIdx slotIdx moveId s =
     (if partyIdx \<ge> 6 \<or> slotIdx \<ge> 4 then s
      else writeU8 (pkmAt partyIdx + (PKM_PP + slotIdx)) (basePp moveId)
             (writeU8 (pkmAt partyIdx + (PKM_MOVES + slotIdx)) moveId s))"

definition moveAt :: "byte list \<Rightarrow> nat \<Rightarrow> nat \<Rightarrow> nat" where
  "moveAt s partyIdx k = readU8 s (pkmAt partyIdx + (PKM_MOVES + k))"

definition movesOf :: "byte list \<Rightarrow> nat \<Rightarrow> nat list" where
  "movesOf s partyIdx = map (moveAt s partyIdx) [0..<4]"

record MoveLearnResult =
  learned :: "nat list"
  pending :: "nat list"

text \<open>One move of the loop of \<open>learnMoves\<close>.\<close>

definition learnOne :: "nat \<Rightarrow> nat \<Rightarrow> MoveLearnResult \<times> byte list \<Rightarrow> MoveLearnResult \<times> byte list" where
  "learnOne partyIdx mv rs =
     (let (res, s) = rs in
      if mv \<in> set (movesOf s partyIdx) then (res, s)
      else case find (\<lambda>k. moveAt s partyIdx k = 0) [0..<4] of
        Some k \<Rightarrow>
          ((if length (learned res) < 8 then res\<lparr>learned := learned res @ [mv]\<rparr> else res),
           setMove partyIdx k mv s)
      | None \<Rightarrow>
          ((if length (pending res) < 8 then res\<lparr>pending := pending res @ [mv]\<rparr> else res), s))"

definition learnMoves :: "nat \<Rightarrow> nat \<Rightarrow> nat \<Rightarrow> nat \<Rightarrow> byte list \<Rightarrow> MoveLearnResult \<times> byte list" where
  "learnMoves partyIdx dexNum fromLevel toLevel s =
     (let res = \<lparr>learned = [], pending = []\<rparr> in
      if partyIdx \<ge> 6 \<or> dexNum = 0 \<or> dexNum > 151 \<or> toLevel \<le> fromLevel then (res, s)
      else fold (learnOne partyIdx) (gen1MovesLearnedBetween dexNum fromLevel toLevel 16) (res, s))"

definition slotWeight :: "nat \<Rightarrow> int" where
  "slotWeight mv =
     (if mv = 0 then - 1
      else let score = (case gen1Move mv of Some md \<Rightarrow> int (mpower md) | None \<Rightarrow> 0)
           in if score = 0 then 35 else score)"

fun weakestLoop :: "byte list \<Rightarrow> nat \<Rightarrow> nat list \<Rightarrow> nat \<times> int \<Rightarrow> nat \<times> int" where
  "weakestLoop s i [] b = b"
| "weakestLoop s i (k # ks) b =
     weakestLoop s i ks (if slotWeight (moveAt s i k) < snd b then (k, slotWeight (moveAt s i k)) else b)"

definition weakestMoveSlot :: "byte list \<Rightarrow> nat \<Rightarrow> nat" where
  "weakestMoveSlot s partyIdx = fst (weakestLoop s partyIdx [0..<4] (0, 1000))"

subsection \<open>Checksum and check-out\<close>

definition checksum :: "byte list \<Rightarrow> byte" where
  "checksum s = foldl (\<lambda>sum i. sum + s ! i) 0 [SAV_CHECKSUM_START..<Suc SAV_CHECKSUM_END]"

definition fixChecksum :: "byte list \<Rightarrow> byte list" where
  "fixChecksum s = s[SAV_CHECKSUM_OFFSET := NOT (checksum s)]"

definition checkoutOne :: "nat list \<Rightarrow> nat list \<Rightarrow> nat \<Rightarrow> bool \<times> byte list \<Rightarrow> bool \<times> byte list" where
  "checkoutOne dexNums xpGained i ps =
     (if xpGained ! i > 0 then (True, snd (patchPokemon i (dexNums ! i) (xpGained ! i) (snd ps))) else ps)"

definition checkout :: "nat list \<Rightarrow> nat list \<Rightarrow> nat \<Rightarrow> byte list \<Rightarrow> bool \<times> byte list" where
  "checkout dexNums xpGained partyCount s =
     (let (patched, s) = fold (checkoutOne dexNums xpGained) [0..<min partyCount 6] (False, s)
      in (patched, if patched then fixChecksum s else s))"

end
