(* ===== verification/Daycare.thy ===== *)
theory Daycare
  imports DaycareEventGen DaycareAchievements SavPatcher
begin

text \<open>
  The daycare (\<^verbatim>\<open>src/modules/monstermesh/PokemonDaycare.cpp\<close> and its header): check-in
  from the cartridge RAM, the tick with its events, moods and decays, the table of neighbours fed by
  beacons, weather, and check-out.  The clock \<open>now\<close> (\<^verbatim>\<open>millis()\<close>), the solar night
  test and what the file system returns are arguments; callbacks and flash writes are a list of effects.
\<close>

subsection \<open>The object\<close>

datatype effect = SendBeacon DaycareBeacon | Broadcast string | SaveState DaycareState

text \<open>
  The neighbour table is two arrays of 16 slots with one counter; slots past the counter keep what
  they last held.  \<open>dc_lastMoodMs\<close>, \<open>dc_lastSaveMs\<close>, \<open>dc_excitedTicks\<close> and
  \<open>dc_lonelyTicks\<close> are the function-local statics.
\<close>

record PokemonDaycare =
  dc_state :: DaycareState
  dc_active :: bool
  dc_neighbors :: "DaycareNeighborPokemon list"
  dc_neighborCount :: nat
  dc_neighborLastSeen :: "nat list"
  dc_shortName :: string
  dc_gameName :: string
  dc_weather :: DaycareWeatherType
  dc_lastEvent :: DaycareEvent
  dc_lastEventTimeMs :: nat
  dc_lastNewNodeId :: nat
  dc_broadcast :: bool
  dc_sendBeacon :: bool
  dc_lastMoodMs :: nat
  dc_lastSaveMs :: nat
  dc_excitedTicks :: nat
  dc_lonelyTicks :: nat
  dc_out :: "effect list"

abbreviation (input) EVENT_INTERVAL_MS :: nat where "EVENT_INTERVAL_MS \<equiv> 300000"
abbreviation (input) BEACON_INTERVAL_MS :: nat where "BEACON_INTERVAL_MS \<equiv> 900000"
abbreviation (input) NEIGHBOR_TIMEOUT_MS :: nat where "NEIGHBOR_TIMEOUT_MS \<equiv> 7200000"
abbreviation (input) DECAY_INTERVAL_MS :: nat where "DECAY_INTERVAL_MS \<equiv> 86400000"
abbreviation (input) SAVE_INTERVAL_MS :: nat where "SAVE_INTERVAL_MS \<equiv> 300000"
abbreviation (input) MOOD_UPDATE_MS :: nat where "MOOD_UPDATE_MS \<equiv> 60000"

text \<open>The object as constructed, with or without the callbacks set.\<close>

definition newDaycare :: "bool \<Rightarrow> bool \<Rightarrow> PokemonDaycare" where
  "newDaycare bc sb = \<lparr>dc_state = emptyState, dc_active = False, dc_neighbors = replicate 16 emptyNeighbor,
     dc_neighborCount = 0, dc_neighborLastSeen = replicate 16 0, dc_shortName = [], dc_gameName = [],
     dc_weather = WEATHER_NONE, dc_lastEvent = emptyEvent, dc_lastEventTimeMs = 0, dc_lastNewNodeId = 0,
     dc_broadcast = bc, dc_sendBeacon = sb, dc_lastMoodMs = 0, dc_lastSaveMs = 0, dc_excitedTicks = 0,
     dc_lonelyTicks = 0, dc_out = []\<rparr>"

definition onState :: "(DaycareState \<Rightarrow> DaycareState) \<Rightarrow> PokemonDaycare \<Rightarrow> PokemonDaycare" where
  "onState f d = d\<lparr>dc_state := f (dc_state d)\<rparr>"

subsection \<open>Check-in\<close>

definition init :: "PokemonDaycare \<Rightarrow> PokemonDaycare" where
  "init d = d\<lparr>dc_state := emptyState, dc_active := False, dc_neighborCount := 0\<rparr>"

text \<open>\<open>loaded\<close> is the state read from flash, \<open>None\<close> when the read fails or the magic differs.\<close>

definition restore :: "DaycareState option \<Rightarrow> PokemonDaycare \<Rightarrow> PokemonDaycare" where
  "restore loaded d = (case loaded of Some st \<Rightarrow> d\<lparr>dc_state := st\<rparr> | None \<Rightarrow> init d)"

text \<open>A slot whose species changed starts afresh.\<close>

definition enterSlot :: "nat \<Rightarrow> nat \<Rightarrow> nat \<Rightarrow> string \<Rightarrow> DaycarePokemonState \<Rightarrow> DaycarePokemonState" where
  "enterSlot dex lv xp nick p =
     (if dp_speciesDex p \<noteq> dex then emptyPokemon\<lparr>dp_speciesDex := dex\<rparr> else p)
     \<lparr>dp_savLevel := lv, dp_savExp := xp, dp_nickname := take 10 nick, dp_mood := MOOD_CONTENT\<rparr>"

definition openDaycare :: "string \<Rightarrow> string \<Rightarrow> nat \<Rightarrow> PokemonDaycare \<Rightarrow> PokemonDaycare" where
  "openDaycare shortName gameName now d =
     (onState (\<lambda>st. st\<lparr>ds_lastEventMs := now, ds_lastBeaconMs := 0\<rparr>) d)
     \<lparr>dc_shortName := take 4 shortName, dc_gameName := take 7 gameName, dc_active := True\<rparr>"

definition checkIn :: "DaycareState option \<Rightarrow> byte list \<Rightarrow> string \<Rightarrow> string \<Rightarrow> nat \<Rightarrow> PokemonDaycare \<Rightarrow> PokemonDaycare" where
  "checkIn loaded sram shortName gameName now d =
     (let party = readParty sram;
          enter = (\<lambda>i. onPokemon i (enterSlot (pi_dexNum (party ! i)) (pi_level (party ! i))
                                       (pi_totalExp (party ! i)) (pi_nickname (party ! i))))
      in openDaycare shortName gameName now
           (onState (fold enter [0..<length party])
             (onState (\<lambda>st. st\<lparr>ds_partyCount := length party\<rparr>) (restore loaded d))))"

text \<open>The check-in from a party read elsewhere; null levels or nicknames are \<open>None\<close>.\<close>

definition checkInParty ::
  "DaycareState option \<Rightarrow> nat list \<Rightarrow> nat list option \<Rightarrow> string list option \<Rightarrow> nat \<Rightarrow> string \<Rightarrow> string \<Rightarrow> nat
   \<Rightarrow> PokemonDaycare \<Rightarrow> PokemonDaycare" where
  "checkInParty loaded dexes levels nicks n shortName gameName now d =
     (let count = (if n > 6 then 6 else n);
          lv = (\<lambda>i. case levels of Some ls \<Rightarrow> ls ! i | None \<Rightarrow> 0);
          xp = (\<lambda>i. case levels of Some ls \<Rightarrow> expForLevel (dexes ! i) (ls ! i) | None \<Rightarrow> 0);
          nick = (\<lambda>i. case nicks of Some ns \<Rightarrow> ns ! i | None \<Rightarrow> []);
          enter = (\<lambda>i. onPokemon i (enterSlot (dexes ! i) (lv i) (xp i) (nick i)))
      in openDaycare shortName gameName now
           (onState (fold enter [0..<count])
             (onState (\<lambda>st. st\<lparr>ds_partyCount := count\<rparr>) (restore loaded d))))"

subsection \<open>Check-out\<close>

text \<open>The pending moves replace the weakest slot, one after the other.\<close>

definition replaceWeakest :: "nat \<Rightarrow> nat \<Rightarrow> byte list \<Rightarrow> byte list" where
  "replaceWeakest i mv s = setMove i (weakestMoveSlot s i) mv s"

definition teachOne :: "nat list \<Rightarrow> nat list \<Rightarrow> nat list \<Rightarrow> nat \<Rightarrow> bool \<times> byte list \<Rightarrow> bool \<times> byte list" where
  "teachOne dexNums xpGained oldLevels i ts =
     (if xpGained ! i = 0 then ts
      else
        let newLevel = readU8 (snd ts) (pkmAt i + PKM_LEVEL_PARTY);
            (res, s) = learnMoves i (dexNums ! i) (oldLevels ! i) newLevel (snd ts)
        in (fst ts \<or> learned res \<noteq> [] \<or> pending res \<noteq> [], fold (replaceWeakest i) (pending res) s))"

definition patchSave :: "DaycareState \<Rightarrow> byte list \<Rightarrow> byte list" where
  "patchSave st sram =
     (let n = (if ds_partyCount st < 6 then ds_partyCount st else 6);
          dexNums = map (\<lambda>i. dp_speciesDex (ds_pokemon st ! i)) [0..<n] @ replicate (6 - n) 0;
          xpGained = map (\<lambda>i. dp_totalXpGained (ds_pokemon st ! i)) [0..<n] @ replicate (6 - n) 0;
          oldLevels = map (\<lambda>i. readU8 sram (pkmAt i + PKM_LEVEL_PARTY)) [0..<n] @ replicate (6 - n) 0;
          sram = snd (checkout dexNums xpGained (ds_partyCount st) sram);
          (taughtAny, sram) = fold (teachOne dexNums xpGained oldLevels) [0..<n] (False, sram)
      in if taughtAny then fixChecksum sram else sram)"

definition saveState :: "PokemonDaycare \<Rightarrow> PokemonDaycare" where
  "saveState d = d\<lparr>dc_out := dc_out d @ [SaveState (dc_state d)]\<rparr>"

text \<open>A null pointer (no cartridge RAM) is \<open>None\<close>.\<close>

definition checkOut :: "byte list option \<Rightarrow> PokemonDaycare \<Rightarrow> byte list option \<times> PokemonDaycare" where
  "checkOut sram d =
     (map_option (patchSave (dc_state d)) sram, saveState (d\<lparr>dc_active := False\<rparr>))"

subsection \<open>Experience of an event\<close>

definition gainXp :: "nat \<Rightarrow> DaycarePokemonState \<Rightarrow> DaycarePokemonState" where
  "gainXp eventXp p =
     (let xp = (if eventXp > 200 then 200 else eventXp);
          maxExp = expForLevel (dp_speciesDex p) 100;
          cur = u32 (dp_savExp p + dp_totalXpGained p);
          xp = (if u32 (cur + xp) > maxExp then (if cur \<ge> maxExp then 0 else u16 (maxExp - cur)) else xp);
          total = u32 (dp_totalXpGained p + xp);
          oldLevel = u8 (dp_savLevel p + dp_totalLevelsGained p);
          newLevel = levelForExp (dp_speciesDex p) (u32 (dp_savExp p + total));
          newLevel = (if newLevel > 100 then 100 else newLevel)
      in p\<lparr>dp_totalXpGained := total,
           dp_totalLevelsGained := (if newLevel > oldLevel then sub16 newLevel (dp_savLevel p)
                                    else dp_totalLevelsGained p)\<rparr>)"

definition applyEventXp :: "DaycareEvent \<Rightarrow> DaycareState \<Rightarrow> DaycareState" where
  "applyEventXp evt st =
     (if ev_xp evt > 0 \<and> ev_targetSpeciesIdx evt < ds_partyCount st then
        onPokemon (ev_targetSpeciesIdx evt) (gainXp (ev_xp evt)) st
      else st)"

text \<open>The arrival event adds its experience without the cap, and compares the levels as \<open>int\<close>.\<close>

definition gainArrivalXp :: "nat \<Rightarrow> DaycarePokemonState \<Rightarrow> DaycarePokemonState" where
  "gainArrivalXp eventXp p =
     (let xp = (if eventXp > 200 then 200 else eventXp);
          total = u32 (dp_totalXpGained p + xp);
          newLevel = levelForExp (dp_speciesDex p) (u32 (dp_savExp p + total));
          newLevel = (if newLevel > 100 then 100 else newLevel)
      in p\<lparr>dp_totalXpGained := total,
           dp_totalLevelsGained := (if newLevel > dp_savLevel p + dp_totalLevelsGained p
                                    then sub16 newLevel (dp_savLevel p)
                                    else dp_totalLevelsGained p)\<rparr>)"

definition applyArrivalXp :: "DaycareEvent \<Rightarrow> DaycareState \<Rightarrow> DaycareState" where
  "applyArrivalXp evt st =
     (if ev_xp evt > 0 \<and> ev_targetSpeciesIdx evt < ds_partyCount st then
        onPokemon (ev_targetSpeciesIdx evt) (gainArrivalXp (ev_xp evt)) st
      else st)"

definition updateEventCounters :: "DaycareEvent \<Rightarrow> nat \<Rightarrow> DaycareState \<Rightarrow> DaycareState" where
  "updateEventCounters evt targetIdx st =
     (if targetIdx \<ge> ds_partyCount st then st
      else onPokemon targetIdx
        (\<lambda>p. let m = ev_message evt;
                 has = (\<lambda>ks. list_ex (\<lambda>k. contains k m) ks);
                 dream = has [''dream'', ''Dream'', ''slept'', ''sleep''];
                 explore = has [''discover'', ''explore'', ''found'', ''trail'', ''dug up'', ''investigated''];
                 escape = has [''escape'', ''Escape'', ''broke free'', ''ran off''];
                 splash = (dp_speciesDex p = 129 \<and> contains ''Splash'' m)
             in p\<lparr>dp_dreamCount := (if dream then u16 (dp_dreamCount p + 1) else dp_dreamCount p),
                  dp_exploreCount := (if explore then u16 (dp_exploreCount p + 1) else dp_exploreCount p),
                  dp_escapeCount := (if escape then u8 (dp_escapeCount p + 1) else dp_escapeCount p),
                  dp_splashCount := (if splash then u16 (dp_splashCount p + 1) else dp_splashCount p)\<rparr>) st)"

subsection \<open>The event cycle\<close>

definition announcement :: "PokemonDaycare \<Rightarrow> DaycareAchievement \<Rightarrow> string" where
  "announcement d a =
     (case achievementDefs ! achNum a of (name, description, _) \<Rightarrow>
        let tag = fmtTrainerTag (dc_shortName d) (dc_gameName d)
        in snprintf 200 (fmtS ([CHR 0xE2, CHR 0x9C, CHR 0xA8] @ '' %s earned '' @ [CHR 0x22] @ ''%s'' @ [CHR 0x22] @ ''! %s'')
                              [tag, name, description]))"

definition isBroadcastAchievement :: "DaycareAchievement \<Rightarrow> bool" where
  "isBroadcastAchievement a = snd (snd (achievementDefs ! achNum a))"

definition announce :: "PokemonDaycare \<Rightarrow> DaycareAchievement list \<Rightarrow> effect list" where
  "announce d new =
     (if dc_broadcast d then map (\<lambda>a. Broadcast (announcement d a)) (filter isBroadcastAchievement new) else [])"

definition addHour :: "DaycarePokemonState \<Rightarrow> DaycarePokemonState" where
  "addHour p = p\<lparr>dp_totalHours := u32 (dp_totalHours p + 1)\<rparr>"

definition addHours :: "DaycareState \<Rightarrow> DaycareState" where
  "addHours st = fold (\<lambda>i. onPokemon i addHour) [0..<ds_partyCount st] st"

definition runEventCycle :: "nat \<Rightarrow> bool \<Rightarrow> PokemonDaycare \<Rightarrow> PokemonDaycare" where
  "runEventCycle now isNight d =
     (let (evt, st) = generate now (dc_neighbors d) (dc_neighborCount d) (dc_weather d) isNight
                        (dc_lastNewNodeId d) (addHours (dc_state d));
          st = applyEventXp evt st;
          st = updateEventCounters evt (ev_targetSpeciesIdx evt) st;
          st = st\<lparr>ds_totalEvents := u32 (ds_totalEvents st + 1)\<rparr>;
          (new, st) = checkAchievements now (dc_neighborCount d) 4 st
      in d\<lparr>dc_state := st, dc_lastNewNodeId := 0, dc_lastEvent := evt, dc_lastEventTimeMs := now,
           dc_out := dc_out d @ announce d new\<rparr>)"

subsection \<open>Moods\<close>

text \<open>The state is the mood list with the two static counters.\<close>

definition moodWithNeighbors :: "DaycareMood \<Rightarrow> nat \<Rightarrow> DaycareMood \<times> nat" where
  "moodWithNeighbors m excitedTicks =
     (let m = (if m = MOOD_LONELY then MOOD_EXCITED else if m \<noteq> MOOD_EXCITED then MOOD_HAPPY else m)
      in if m = MOOD_EXCITED then
           (let t = u8 (excitedTicks + 1) in if t \<ge> 5 then (MOOD_HAPPY, 0) else (m, t))
         else (m, excitedTicks))"

definition moodAlone :: "DaycareMood \<Rightarrow> nat \<Rightarrow> DaycareMood \<times> nat" where
  "moodAlone m lonelyTicks =
     (if m = MOOD_HAPPY \<or> m = MOOD_EXCITED then (MOOD_LONELY, lonelyTicks)
      else if m = MOOD_LONELY then
        (let t = u8 (lonelyTicks + 1) in if t \<ge> 10 then (MOOD_CONTENT, 0) else (m, t))
      else (m, lonelyTicks))"

definition updateMoodOne :: "nat \<Rightarrow> PokemonDaycare \<Rightarrow> PokemonDaycare" where
  "updateMoodOne i d =
     (let m = dp_mood (ds_pokemon (dc_state d) ! i) in
      if dc_neighborCount d > 0 then
        (case moodWithNeighbors m (dc_excitedTicks d) of (m', t) \<Rightarrow>
           (onState (onPokemon i (\<lambda>p. p\<lparr>dp_mood := m'\<rparr>)) d)\<lparr>dc_excitedTicks := t\<rparr>)
      else
        (case moodAlone m (dc_lonelyTicks d) of (m', t) \<Rightarrow>
           (onState (onPokemon i (\<lambda>p. p\<lparr>dp_mood := m'\<rparr>)) d)\<lparr>dc_lonelyTicks := t\<rparr>))"

definition updateMood :: "PokemonDaycare \<Rightarrow> PokemonDaycare" where
  "updateMood d = fold updateMoodOne [0..<ds_partyCount (dc_state d)] d"

subsection \<open>Decay of friendships\<close>

definition isPresent :: "PokemonDaycare \<Rightarrow> nat \<Rightarrow> bool" where
  "isPresent d nodeId = list_ex (\<lambda>n. nb_nodeId n = nodeId) (take (dc_neighborCount d) (dc_neighbors d))"

definition decayOne :: "nat \<Rightarrow> bool \<Rightarrow> DaycareRelationship \<Rightarrow> DaycareRelationship" where
  "decayOne now present r =
     (if \<not> present then
        let r = (if dr_friendship r > 0 then r\<lparr>dr_friendship := dr_friendship r - 1\<rparr> else r);
            r = r\<lparr>dr_daysMissing := u16 (dr_daysMissing r + 1)\<rparr>
        in if dr_daysMissing r mod 2 = 0 \<and> dr_rivalry r > 0 then r\<lparr>dr_rivalry := dr_rivalry r - 1\<rparr> else r
      else r\<lparr>dr_daysMissing := 0, dr_lastSeenMs := now\<rparr>)"

definition decayFriendships :: "nat \<Rightarrow> PokemonDaycare \<Rightarrow> PokemonDaycare" where
  "decayFriendships now d =
     onState (\<lambda>st. st\<lparr>ds_relationships := map (\<lambda>r. decayOne now (isPresent d (dr_nodeId r)) r) (ds_relationships st)\<rparr>) d"

subsection \<open>Neighbours\<close>

text \<open>The slot of a beacon: its node's, else a new one, else the one not heard of for longest.\<close>

definition neighborSlot :: "nat \<Rightarrow> PokemonDaycare \<Rightarrow> nat \<times> nat" where
  "neighborSlot nodeId d =
     (let nc = dc_neighborCount d in
      case find (\<lambda>i. nb_nodeId (dc_neighbors d ! i) = nodeId) [0..<nc] of
        Some i \<Rightarrow> (i, nc)
      | None \<Rightarrow> (if nc < 16 then (nc, Suc nc) else (oldestIndex (dc_neighborLastSeen d), nc)))"

text \<open>An entry of the party is copied without its moves.\<close>

definition copyEntry :: "PartyEntry \<Rightarrow> PartyEntry \<Rightarrow> PartyEntry" where
  "copyEntry src e = e\<lparr>pe_species := pe_species src, pe_level := pe_level src, pe_nickname := take 10 (pe_nickname src)\<rparr>"

definition copyParty :: "DaycareBeacon \<Rightarrow> nat \<Rightarrow> PartyEntry list \<Rightarrow> PartyEntry list" where
  "copyParty b cnt party = map (\<lambda>i. if i < cnt then copyEntry (bc_pokemon b ! i) (party ! i) else party ! i) [0..<6]"

definition storeBeacon :: "DaycareBeacon \<Rightarrow> DaycareNeighborPokemon \<Rightarrow> DaycareNeighborPokemon" where
  "storeBeacon b n =
     (let cnt = (if bc_partyCount b < 6 then bc_partyCount b else 6);
          n = n\<lparr>nb_nodeId := bc_nodeId b, nb_shortName := take 4 (bc_shortName b), nb_gameName := take 7 (bc_gameName b),
                nb_partyCount := cnt, nb_party := copyParty b cnt (nb_party n)\<rparr>;
          n = (if cnt > 0 then n\<lparr>nb_speciesDex := pe_species (bc_pokemon b ! 0), nb_level := pe_level (bc_pokemon b ! 0),
                                 nb_nickname := take 10 (pe_nickname (bc_pokemon b ! 0))\<rparr> else n)
      in n\<lparr>nb_ngPlusTier := bc_ngPlusTier b\<rparr>)"

definition meetNode :: "DaycareBeacon \<Rightarrow> PokemonDaycare \<Rightarrow> PokemonDaycare" where
  "meetNode b d =
     (if \<not> isKnownNode (dc_state d) (bc_nodeId b)
      then (onState (addKnownNode (bc_nodeId b)) d)\<lparr>dc_lastNewNodeId := bc_nodeId b\<rparr> else d)"

definition handleBeacon :: "nat \<Rightarrow> DaycareBeacon \<Rightarrow> PokemonDaycare \<Rightarrow> PokemonDaycare" where
  "handleBeacon now b d =
     (let d = meetNode b d;
          (slot, nc) = neighborSlot (bc_nodeId b) d
      in d\<lparr>dc_neighbors := upd_at slot (storeBeacon b) (dc_neighbors d), dc_neighborCount := nc,
           dc_neighborLastSeen := (dc_neighborLastSeen d)[slot := now]\<rparr>)"

text \<open>The slots from \<open>i\<close> up to the last one move down by one; the last one keeps its value.\<close>

definition shiftDown :: "nat \<Rightarrow> nat \<Rightarrow> 'a list \<Rightarrow> 'a list" where
  "shiftDown i nc xs = fold (\<lambda>j ys. ys[j := ys ! Suc j]) [i..<nc - 1] xs"

function expireFrom ::
  "nat \<Rightarrow> nat \<Rightarrow> nat \<Rightarrow> DaycareNeighborPokemon list \<Rightarrow> nat list \<Rightarrow> nat \<times> DaycareNeighborPokemon list \<times> nat list" where
  "expireFrom now i nc ns seen =
     (if i < nc then
        (if sub32 now (seen ! i) > NEIGHBOR_TIMEOUT_MS
         then expireFrom now i (nc - 1) (shiftDown i nc ns) (shiftDown i nc seen)
         else expireFrom now (Suc i) nc ns seen)
      else (nc, ns, seen))"
  by pat_completeness auto
termination
  by (relation "measure (\<lambda>(now, i, nc, ns, seen). nc - i)") auto

declare expireFrom.simps [simp del]

definition expireNeighbors :: "nat \<Rightarrow> PokemonDaycare \<Rightarrow> PokemonDaycare" where
  "expireNeighbors now d =
     (case expireFrom now 0 (dc_neighborCount d) (dc_neighbors d) (dc_neighborLastSeen d) of
        (nc, ns, seen) \<Rightarrow> d\<lparr>dc_neighborCount := nc, dc_neighbors := ns, dc_neighborLastSeen := seen\<rparr>)"

subsection \<open>Beacons and arrivals\<close>

definition beaconMon :: "DaycarePokemonState \<Rightarrow> PartyEntry" where
  "beaconMon p = emptyEntry\<lparr>pe_species := dp_speciesDex p, pe_level := u8 (dp_savLevel p + dp_totalLevelsGained p),
     pe_nickname := take 10 (dp_nickname p)\<rparr>"

definition beaconOf :: "PokemonDaycare \<Rightarrow> DaycareBeacon" where
  "beaconOf d =
     (let st = dc_state d in
      \<lparr>bc_nodeId = 0, bc_shortName = take 4 (dc_shortName d), bc_gameName = take 7 (dc_gameName d),
       bc_partyCount = ds_partyCount st,
       bc_pokemon = map (\<lambda>i. if i < ds_partyCount st then beaconMon (ds_pokemon st ! i) else emptyEntry) [0..<6],
       bc_ngPlusTier = 0, bc_requestResponse = 0\<rparr>)"

definition broadcastBeacon :: "PokemonDaycare \<Rightarrow> PokemonDaycare" where
  "broadcastBeacon d = (if \<not> dc_sendBeacon d then d else d\<lparr>dc_out := dc_out d @ [SendBeacon (beaconOf d)]\<rparr>)"

definition forceBeacon :: "nat \<Rightarrow> PokemonDaycare \<Rightarrow> PokemonDaycare" where
  "forceBeacon now d = onState (\<lambda>st. st\<lparr>ds_lastBeaconMs := now\<rparr>) (broadcastBeacon d)"

definition forceEvent :: "nat \<Rightarrow> bool \<Rightarrow> PokemonDaycare \<Rightarrow> PokemonDaycare" where
  "forceEvent now isNight d =
     (if dc_active d then onState (\<lambda>st. st\<lparr>ds_lastEventMs := now\<rparr>) (runEventCycle now isNight d) else d)"

text \<open>The result and the new object, or \<open>None\<close> when the generator read outside the beacon.\<close>

definition triggerArrivalEvent :: "nat \<Rightarrow> DaycareBeacon \<Rightarrow> PokemonDaycare \<Rightarrow> (bool \<times> PokemonDaycare) option" where
  "triggerArrivalEvent now b d =
     (if \<not> dc_active d \<or> ds_partyCount (dc_state d) = 0 \<or> bc_partyCount b = 0 then Some (False, d)
      else
        (case generateArrivalEvent now b (dc_shortName d) (dc_gameName d) (dc_state d) of
           None \<Rightarrow> None
         | Some (evt, st) \<Rightarrow>
             let st = applyArrivalXp evt st;
                 st = st\<lparr>ds_totalEvents := u32 (ds_totalEvents st + 1)\<rparr>
             in Some (True, d\<lparr>dc_state := st, dc_lastEvent := evt, dc_lastEventTimeMs := now\<rparr>)))"

subsection \<open>Weather\<close>

definition absorbs :: "DaycareState \<Rightarrow> nat" where
  "absorbs st = countIf (\<lambda>i. hasType 11 (dp_speciesDex (ds_pokemon st ! i))) [0..<ds_partyCount st]"

definition updateWeatherCounters :: "DaycareWeatherType \<Rightarrow> DaycareState \<Rightarrow> DaycareState" where
  "updateWeatherCounters w st =
     (if w = WEATHER_NONE then st
      else
        let st = st\<lparr>ds_weatherTypesSeen := unat (of_nat (ds_weatherTypesSeen st) OR push_bit (weatherNum w) (1 :: byte))\<rparr>
        in (case w of
              WEATHER_THUNDERSTORM \<Rightarrow> st\<lparr>ds_thunderstormCount := u8 (ds_thunderstormCount st + 1),
                                         ds_lightningAbsorbs := u8 (ds_lightningAbsorbs st + absorbs st)\<rparr>
            | WEATHER_SNOW \<Rightarrow> st\<lparr>ds_snowCount := u8 (ds_snowCount st + 1)\<rparr>
            | WEATHER_COLD \<Rightarrow> st\<lparr>ds_snowCount := u8 (ds_snowCount st + 1)\<rparr>
            | WEATHER_FOG \<Rightarrow> st\<lparr>ds_fogCount := u8 (ds_fogCount st + 1)\<rparr>
            | _ \<Rightarrow> st))"

text \<open>Temperature, wind and fetch time are kept for display only.\<close>

definition setWeather :: "DaycareWeatherType \<Rightarrow> PokemonDaycare \<Rightarrow> PokemonDaycare" where
  "setWeather w d = onState (updateWeatherCounters w) (d\<lparr>dc_weather := w\<rparr>)"

subsection \<open>The tick\<close>

text \<open>\<open>due now since interval\<close>: the unsigned test the timers share.\<close>

definition due :: "nat \<Rightarrow> nat \<Rightarrow> nat \<Rightarrow> bool" where
  "due now since interval \<longleftrightarrow> sub32 now since \<ge> interval"

definition tickBeacon :: "nat \<Rightarrow> PokemonDaycare \<Rightarrow> PokemonDaycare" where
  "tickBeacon now d =
     (if due now (ds_lastBeaconMs (dc_state d)) BEACON_INTERVAL_MS
      then onState (\<lambda>st. st\<lparr>ds_lastBeaconMs := now\<rparr>) (broadcastBeacon d) else d)"

definition tickMood :: "nat \<Rightarrow> PokemonDaycare \<Rightarrow> PokemonDaycare" where
  "tickMood now d = (if due now (dc_lastMoodMs d) MOOD_UPDATE_MS then (updateMood d)\<lparr>dc_lastMoodMs := now\<rparr> else d)"

definition tickDecay :: "nat \<Rightarrow> PokemonDaycare \<Rightarrow> PokemonDaycare" where
  "tickDecay now d =
     (if due now (ds_lastFriendshipDecayMs (dc_state d)) DECAY_INTERVAL_MS
      then onState (\<lambda>st. st\<lparr>ds_lastFriendshipDecayMs := now\<rparr>) (decayFriendships now d) else d)"

definition tickEvent :: "nat \<Rightarrow> bool \<Rightarrow> PokemonDaycare \<Rightarrow> PokemonDaycare" where
  "tickEvent now isNight d =
     (if due now (ds_lastEventMs (dc_state d)) EVENT_INTERVAL_MS
      then onState (\<lambda>st. st\<lparr>ds_lastEventMs := now\<rparr>) (runEventCycle now isNight d) else d)"

definition tickSave :: "nat \<Rightarrow> PokemonDaycare \<Rightarrow> PokemonDaycare" where
  "tickSave now d = (if due now (dc_lastSaveMs d) SAVE_INTERVAL_MS then (saveState d)\<lparr>dc_lastSaveMs := now\<rparr> else d)"

definition tick :: "nat \<Rightarrow> bool \<Rightarrow> PokemonDaycare \<Rightarrow> PokemonDaycare" where
  "tick now isNight d =
     (if \<not> dc_active d \<or> ds_partyCount (dc_state d) = 0 then d
      else tickSave now (expireNeighbors now (tickEvent now isNight (tickDecay now (tickMood now (tickBeacon now d))))))"

end
