(* ===== verification/DaycareInvariant.thy ===== *)
theory DaycareInvariant
  imports Daycare
begin

text \<open>
  What every reachable daycare state satisfies.  \<open>monOk\<close>, \<open>relOk\<close> and the first part of
  \<open>dayOk\<close> say that each field fits its C type; \<open>keysDistinct\<close> that a relationship and a
  known node are stored once; \<open>neverGranted\<close> that two achievements have no way to be granted.  The
  event generator keeps them (monadic rules \<open>keeps\<close>), and so does every call of the daycare.
\<close>

named_theorems day_intros \<open>updates that keep the daycare state well formed\<close>

subsection \<open>Predicates\<close>

definition monOk :: "DaycarePokemonState \<Rightarrow> bool" where
  "monOk p \<longleftrightarrow> dp_speciesDex p < 256 \<and> length (dp_nickname p) \<le> 10 \<and> dp_savLevel p < 256
     \<and> dp_savExp p < 4294967296 \<and> dp_totalHours p < 4294967296 \<and> dp_totalXpGained p < 4294967296
     \<and> dp_totalLevelsGained p < 65536 \<and> dp_escapeCount p < 256 \<and> dp_dreamCount p < 65536
     \<and> dp_exploreCount p < 65536 \<and> dp_splashCount p < 65536 \<and> length (dp_moves p) = 4"

definition relOk :: "DaycareRelationship \<Rightarrow> bool" where
  "relOk r \<longleftrightarrow> dr_nodeId r < 4294967296 \<and> dr_localSpeciesIdx r < 6 \<and> dr_remoteSpeciesDex r < 256
     \<and> dr_friendship r < 256 \<and> dr_rivalry r < 256 \<and> dr_sparCount r < 65536
     \<and> dr_lastSeenMs r < 4294967296 \<and> dr_daysMissing r < 65536"

definition relKey :: "DaycareRelationship \<Rightarrow> nat \<times> nat \<times> nat" where
  "relKey r = (dr_nodeId r, dr_localSpeciesIdx r, dr_remoteSpeciesDex r)"

definition sizesOk :: "DaycareState \<Rightarrow> bool" where
  "sizesOk st \<longleftrightarrow> length (ds_pokemon st) = 6 \<and> ds_partyCount st \<le> 6
     \<and> length (ds_relationships st) \<le> 32 \<and> length (ds_knownNodes st) \<le> 32"

definition fieldsOk :: "DaycareState \<Rightarrow> bool" where
  "fieldsOk st \<longleftrightarrow> list_all monOk (ds_pokemon st) \<and> list_all relOk (ds_relationships st)
     \<and> list_all (\<lambda>k. k < 4294967296) (ds_knownNodes st)
     \<and> ds_weatherTypesSeen st < 256 \<and> ds_thunderstormCount st < 256 \<and> ds_snowCount st < 256
     \<and> ds_fogCount st < 256 \<and> ds_lightningAbsorbs st < 256 \<and> ds_uniqueTrainersGreeted st < 256
     \<and> ds_totalEvents st < 4294967296 \<and> ds_totalSparWins st < 65536 \<and> ds_lastEventMs st < 4294967296
     \<and> ds_lastBeaconMs st < 4294967296 \<and> ds_lastFriendshipDecayMs st < 4294967296"

definition keysDistinct :: "DaycareState \<Rightarrow> bool" where
  "keysDistinct st \<longleftrightarrow> distinct (map relKey (ds_relationships st)) \<and> distinct (ds_knownNodes st)"

definition neverGranted :: "DaycareState \<Rightarrow> bool" where
  "neverGranted st \<longleftrightarrow> ds_totalSparWins st = 0
     \<and> \<not> hasAchievement (ds_achievementFlags st) ACH_UNSTOPPABLE_FORCE
     \<and> \<not> hasAchievement (ds_achievementFlags st) ACH_FULL_MOON"

definition dayOk :: "DaycareState \<Rightarrow> bool" where
  "dayOk st \<longleftrightarrow> sizesOk st \<and> fieldsOk st \<and> keysDistinct st \<and> neverGranted st"

lemmas dayOk_unfold = dayOk_def sizesOk_def fieldsOk_def keysDistinct_def neverGranted_def

lemma dayOk_empty: "dayOk emptyState"
  by (simp add: dayOk_unfold emptyState_def emptyPokemon_def monOk_def hasAchievement_def list_all_iff)

lemma dayOk_sizes: "dayOk st \<Longrightarrow> length (ds_pokemon st) = 6" "dayOk st \<Longrightarrow> ds_partyCount st \<le> 6"
  by (simp_all add: dayOk_unfold)

lemma dayOk_mon: "dayOk st \<Longrightarrow> i < 6 \<Longrightarrow> monOk (ds_pokemon st ! i)"
  by (simp add: dayOk_unfold list_all_length)

text \<open>The rate-limit times of the tick.\<close>

definition timers :: "DaycareState \<Rightarrow> nat \<times> nat \<times> nat" where
  "timers st = (ds_lastEventMs st, ds_lastBeaconMs st, ds_lastFriendshipDecayMs st)"

lemma timers_simps [simp]:
  "timers (st\<lparr>ds_relationships := rs\<rparr>) = timers st" "timers (st\<lparr>ds_totalEvents := n\<rparr>) = timers st"
  "timers (st\<lparr>ds_achievementFlags := fl\<rparr>) = timers st" "timers (onPokemon i f st) = timers st"
  by (simp_all add: timers_def onPokemon_def)

subsection \<open>Updates\<close>

lemma onPokemon_fields [simp]:
  "ds_partyCount (onPokemon i f st) = ds_partyCount st"
  "ds_relationships (onPokemon i f st) = ds_relationships st"
  "ds_achievementFlags (onPokemon i f st) = ds_achievementFlags st"
  "ds_totalSparWins (onPokemon i f st) = ds_totalSparWins st"
  "ds_totalEvents (onPokemon i f st) = ds_totalEvents st"
  "ds_knownNodes (onPokemon i f st) = ds_knownNodes st"
  "length (ds_pokemon (onPokemon i f st)) = length (ds_pokemon st)"
  by (simp_all add: onPokemon_def)

lemma dayOk_onPokemon [day_intros]:
  "dayOk st \<Longrightarrow> (\<And>p. monOk p \<Longrightarrow> monOk (f p)) \<Longrightarrow> dayOk (onPokemon i f st)"
  by (cases "i < 6")
    (auto simp: dayOk_unfold onPokemon_def upd_at_def list_all_length nth_list_update)

lemma dayOk_onPokemons:
  "dayOk st \<Longrightarrow> (\<And>i p. monOk p \<Longrightarrow> monOk (f i p)) \<Longrightarrow>
   dayOk (fold (\<lambda>i. onPokemon i (f i)) is' st) \<and> ds_partyCount (fold (\<lambda>i. onPokemon i (f i)) is' st) = ds_partyCount st"
proof (induction is' arbitrary: st)
  case (Cons i is')
  have "dayOk (onPokemon i (f i) st)" by (rule dayOk_onPokemon) (use Cons.prems in auto)
  then show ?case using Cons.IH Cons.prems(2) by simp
qed simp

lemma dayOk_relationships [day_intros]:
  "dayOk st \<Longrightarrow> list_all relOk rs \<Longrightarrow> map relKey rs = map relKey (ds_relationships st) \<Longrightarrow>
   dayOk (st\<lparr>ds_relationships := rs\<rparr>)"
  using map_eq_imp_length_eq [of relKey rs relKey "ds_relationships st"] by (auto simp: dayOk_unfold)

lemma dayOk_totalEvents [day_intros]: "dayOk st \<Longrightarrow> dayOk (st\<lparr>ds_totalEvents := u32 n\<rparr>)"
  by (simp add: dayOk_unfold)

lemma dayOk_lastEventMs [day_intros]: "dayOk st \<Longrightarrow> now < 4294967296 \<Longrightarrow> dayOk (st\<lparr>ds_lastEventMs := now\<rparr>)"
  by (simp add: dayOk_unfold)

lemma dayOk_lastBeaconMs [day_intros]: "dayOk st \<Longrightarrow> now < 4294967296 \<Longrightarrow> dayOk (st\<lparr>ds_lastBeaconMs := now\<rparr>)"
  by (simp add: dayOk_unfold)

lemma dayOk_lastDecay [day_intros]:
  "dayOk st \<Longrightarrow> now < 4294967296 \<Longrightarrow> dayOk (st\<lparr>ds_lastFriendshipDecayMs := now\<rparr>)"
  by (simp add: dayOk_unfold)

lemma dayOk_partyCount [day_intros]: "dayOk st \<Longrightarrow> n \<le> 6 \<Longrightarrow> dayOk (st\<lparr>ds_partyCount := n\<rparr>)"
  by (simp add: dayOk_unfold)

text \<open>Counters of one monster.\<close>

lemma monOk_counts [simp]:
  "monOk p \<Longrightarrow> monOk (countSplash p)" "monOk p \<Longrightarrow> monOk (countExplore p)"
  "monOk p \<Longrightarrow> monOk (countDream p)" "monOk p \<Longrightarrow> monOk (countEscape p)" "monOk p \<Longrightarrow> monOk (addHour p)"
  by (simp_all add: monOk_def countSplash_def countExplore_def countDream_def countEscape_def addHour_def)

subsection \<open>Relationships\<close>

lemma distinct_map_update:
  "distinct (map f xs) \<Longrightarrow> i < length xs \<Longrightarrow> f y \<notin> f ` set xs \<Longrightarrow> distinct (map f (xs[i := y]))"
  by (simp add: map_update distinct_list_update)

lemma findRelationship_spec:
  "findRelationship st n l d = Some i \<Longrightarrow> i < length (ds_relationships st) \<and> relKey (ds_relationships st ! i) = (n, l, d)"
  by (auto simp: findRelationship_def relKey_def Let_def dest!: find_SomeD)

lemma findRelationship_None: "findRelationship st n l d = None \<longleftrightarrow> (n, l, d) \<notin> relKey ` set (ds_relationships st)"
  by (fastforce simp: findRelationship_def relKey_def Let_def find_None_iff in_set_conv_nth image_iff)

text \<open>The relationship is found or made, in a slot of the table, and the keys stay distinct.\<close>

lemma getOrCreate_spec:
  assumes ok: "dayOk st" and args: "now < 4294967296" "n < 4294967296" "l < 6" "d < 256"
    and r: "getOrCreateRelationship now n l d st = (k, st')"
  shows "dayOk st' \<and> k < length (ds_relationships st') \<and> relKey (ds_relationships st' ! k) = (n, l, d)
    \<and> ds_partyCount st' = ds_partyCount st \<and> timers st' = timers st"
proof (cases "findRelationship st n l d")
  case (Some i)
  then show ?thesis using r ok findRelationship_spec [OF Some] by (auto simp: getOrCreateRelationship_def)
next
  case None
  let ?rs = "ds_relationships st" and ?new = "newRelationship now n l d"
  have new: "relOk ?new" "relKey ?new = (n, l, d)"
    using args by (simp_all add: relOk_def relKey_def newRelationship_def)
  have fresh: "(n, l, d) \<notin> relKey ` set ?rs" using None findRelationship_None by blast
  have rs: "list_all relOk ?rs" "distinct (map relKey ?rs)" "length ?rs \<le> 32" using ok by (simp_all add: dayOk_unfold)
  show ?thesis
  proof (cases "length ?rs \<ge> 32")
    case True
    define i where "i = oldestIndex (map dr_lastSeenMs ?rs)"
    have "\<forall>t \<in> set (map dr_lastSeenMs ?rs). t \<le> 4294967295"
      using rs(1) by (auto simp: list_all_iff relOk_def)
    moreover have "map dr_lastSeenMs ?rs \<noteq> []" using True by auto
    ultimately have i: "i < length ?rs" using oldestIndex_min(1) [of "map dr_lastSeenMs ?rs"] by (simp add: i_def)
    have st': "k = i" "st' = st\<lparr>ds_relationships := ?rs[i := ?new]\<rparr>"
      using r None True by (auto simp: getOrCreateRelationship_def i_def Let_def)
    have "distinct (map relKey (?rs[i := ?new]))"
      by (rule distinct_map_update) (use rs(2) i fresh new(2) in auto)
    then show ?thesis using ok i new st' by (auto simp: dayOk_unfold list_all_update)
  next
    case False
    have st': "k = length ?rs" "st' = st\<lparr>ds_relationships := ?rs @ [?new]\<rparr>"
      using r None False by (simp_all add: getOrCreateRelationship_def Let_def)
    then show ?thesis using ok new fresh False by (auto simp: dayOk_unfold)
  qed
qed

lemma satAdd_less: "x < 256 \<Longrightarrow> g < 256 \<Longrightarrow> satAdd x g < 256" by (auto simp: satAdd_def)

lemma relOk_meet: "relOk r \<Longrightarrow> g < 256 \<Longrightarrow> now < 4294967296 \<Longrightarrow> relOk (meetRelationship now g b r)"
  by (simp add: meetRelationship_def relOk_def Let_def satAdd_less)

lemma relKey_meet: "relKey (meetRelationship now g b r) = relKey r"
  by (simp add: meetRelationship_def relKey_def Let_def)

lemma relOk_arrival: "relOk r \<Longrightarrow> now < 4294967296 \<Longrightarrow> relOk (meetArrival now t b r)"
  by (simp add: meetArrival_def relOk_def Let_def satAdd_less)

lemma relKey_arrival: "relKey (meetArrival now t b r) = relKey r"
  by (simp add: meetArrival_def relKey_def Let_def)

lemma dayOk_setRelationship:
  assumes "dayOk st" "k < length (ds_relationships st)" "relOk r" "relKey r = relKey (ds_relationships st ! k)"
  shows "dayOk (st\<lparr>ds_relationships := (ds_relationships st)[k := r]\<rparr>)"
proof (rule dayOk_relationships [OF assms(1)])
  show "list_all relOk ((ds_relationships st)[k := r])"
    using assms(1,3) by (simp add: dayOk_unfold list_all_update)
  show "map relKey ((ds_relationships st)[k := r]) = map relKey (ds_relationships st)"
    using assms(2,4) by (metis list_update_id map_update nth_map)
qed

lemma dayOk_relAt: "dayOk st \<Longrightarrow> k < length (ds_relationships st) \<Longrightarrow> relOk (ds_relationships st ! k)"
  by (simp add: dayOk_unfold list_all_length)

end
