(* ===== verification/DaycareEventRules.thy ===== *)
theory DaycareEventRules
  imports DaycareInvariant
begin

text \<open>
  What the event generator promises, for every seed: the random state never sticks at zero and
  distinct states stay distinct, a neighbour is drawn with odds proportional to its weight, an event is
  addressed to a monster of the party with at most 200 points and a message that fits its buffer, the
  daycare state stays well formed, and the arrival search reads inside the beacon exactly when its count
  is in range.
\<close>

subsection \<open>The random state\<close>

text \<open>A word equal to its own shift is zero.\<close>

lemma push_bit_fix:
  fixes x :: "32 word"
  assumes "x = push_bit k x" "0 < k"
  shows "x = 0"
proof (rule bit_word_eqI)
  fix n
  have "\<not> bit x n" for n
  proof (induction n rule: less_induct)
    case (less n)
    have "bit x n \<longleftrightarrow> k \<le> n \<and> n < 32 \<and> bit x (n - k)"
      by (subst assms(1)) (auto simp: bit_push_bit_iff)
    then show ?case using less [of "n - k"] assms(2) by (cases "k \<le> n") auto
  qed
  then show "bit x n \<longleftrightarrow> bit (0 :: 32 word) n" by simp
qed

lemma drop_bit_fix:
  fixes x :: "32 word"
  assumes "x = drop_bit k x" "0 < k"
  shows "x = 0"
proof (rule bit_word_eqI)
  fix n
  have "\<not> bit x m" for m
  proof (induction "32 - m" arbitrary: m rule: less_induct)
    case less
    have "bit x m \<longleftrightarrow> bit x (k + m)" by (subst assms(1)) (simp add: bit_drop_bit_eq)
    then show ?case using less [of "k + m"] assms(2) bit_imp_le_length [of x m] by (cases "m < 32") auto
  qed
  then show "bit x n \<longleftrightarrow> bit (0 :: 32 word) n" by simp
qed

lemma xor_eq_0: "a XOR b = (0 :: 32 word) \<Longrightarrow> a = b"
  by (metis xor.left_neutral xor.assoc xor_self_eq)

lemma xorshift_0: "xorshift x = 0 \<longleftrightarrow> x = 0"
proof
  assume "xorshift x = 0"
  define a where "a = x XOR push_bit 13 x"
  define b where "b = a XOR drop_bit 17 a"
  have "b XOR push_bit 5 b = 0" using \<open>xorshift x = 0\<close> by (simp only: xorshift_def a_def b_def Let_def)
  then have "b = 0" by (intro push_bit_fix [of b 5]) (auto dest: xor_eq_0)
  then have "a = 0" unfolding b_def by (intro drop_bit_fix [of a 17]) (auto dest: xor_eq_0)
  then show "x = 0" unfolding a_def by (intro push_bit_fix [of x 13]) (auto dest: xor_eq_0)
qed (simp add: xorshift_def)

lemma push_bit_xor_w: "push_bit k (x XOR y) = push_bit k x XOR push_bit k (y :: 32 word)"
  by (simp add: push_bit_xor)

lemma xorshift_xor: "xorshift (x XOR y) = xorshift x XOR xorshift y"
  by (simp only: xorshift_def Let_def push_bit_xor drop_bit_xor xor.assoc xor.left_commute xor.commute)

text \<open>
  The random state of the event generator never sticks: the seed is never zero, one step is a
  permutation of the 32-bit words, and zero is its only state that leads to zero.
\<close>

theorem rng_never_sticks: "bij xorshift \<and> rngSeed s \<noteq> 0 \<and> (xorshift x = 0 \<longleftrightarrow> x = 0)"
proof -
  have "inj xorshift"
  proof (rule injI)
    fix x y :: "32 word"
    assume "xorshift x = xorshift y"
    then have "xorshift (x XOR y) = 0" by (simp add: xorshift_xor)
    then show "x = y" using xorshift_0 xor_eq_0 by blast
  qed
  then have "bij xorshift" by (simp add: bij_def finite_UNIV_inj_surj)
  then show ?thesis using xorshift_0 by (simp add: rngSeed_def)
qed

subsection \<open>Drawing a neighbour\<close>

text \<open>The roulette returns the segment the roll falls into.\<close>

lemma rouletteLoop_ge: "roll < acc + sum_list ws \<Longrightarrow> acc \<le> roll \<Longrightarrow> i \<le> rouletteLoop ws roll acc i"
proof (induction ws arbitrary: acc i)
  case (Cons w ws)
  show ?case
  proof (cases "roll < acc + w")
    case False
    then have "Suc i \<le> rouletteLoop ws roll (acc + w) (Suc i)"
      by (intro Cons.IH) (use Cons.prems in simp_all)
    then show ?thesis using False by (simp add: Let_def)
  qed (simp add: Let_def)
qed simp

lemma rouletteLoop_segment:
  "k < length ws \<Longrightarrow> acc \<le> roll \<Longrightarrow>
   (roll < acc + sum_list ws \<and> rouletteLoop ws roll acc i = i + k) \<longleftrightarrow>
   (acc + sum_list (take k ws) \<le> roll \<and> roll < acc + sum_list (take (Suc k) ws))"
proof (induction ws arbitrary: acc i k)
  case Nil
  then show ?case by simp
next
  case (Cons w ws)
  show ?case
  proof (cases "roll < acc + w")
    case True
    then show ?thesis using Cons.prems by (cases k) (simp_all add: Let_def)
  next
    case False
    then have le: "acc + w \<le> roll" by simp
    have ge: "roll < acc + w + sum_list ws \<Longrightarrow> Suc i \<le> rouletteLoop ws roll (acc + w) (Suc i)"
      using rouletteLoop_ge le by blast
    show ?thesis
    proof (cases k)
      case 0
      then show ?thesis using False ge by (auto simp: Let_def add.assoc)
    next
      case (Suc j)
      then show ?thesis
        using Cons.IH [OF _ le, of j "Suc i"] Cons.prems(1) False by (simp add: Let_def add.assoc)
    qed
  qed
qed

lemma sum_take_Suc: "k < length ws \<Longrightarrow> sum_list (take (Suc k) ws) = sum_list (take k ws) + (ws ! k :: nat)"
  by (simp add: take_Suc_conv_app_nth)

text \<open>
  A neighbour is drawn fairly: of the rolls below the sum of the weights, exactly \<open>w\<close> select
  a neighbour of weight \<open>w\<close>, that is three for a neighbour of a shared type or of the Eevee
  family and one for the others.
\<close>

theorem neighbor_drawn_fairly:
  assumes "k < nc" "nc \<le> 16"
  shows "card {roll. roll < sum_list (neighborWeights dex ns nc)
                   \<and> rouletteLoop (neighborWeights dex ns nc) roll 0 0 = k}
    = (if hasTypeAffinity dex (nb_speciesDex (ns ! k)) then 3 else 1)"
proof -
  define ws where "ws = neighborWeights dex ns nc"
  have k: "k < length ws" and w: "ws ! k = (if hasTypeAffinity dex (nb_speciesDex (ns ! k)) then 3 else 1)"
    using assms by (simp_all add: ws_def neighborWeights_def)
  have "{roll. roll < sum_list ws \<and> rouletteLoop ws roll 0 0 = k}
      = {roll. sum_list (take k ws) \<le> roll \<and> roll < sum_list (take (Suc k) ws)}"
    using rouletteLoop_segment [OF k le0, where i = 0] by (simp only: add_0 conj_commute)
  also have "\<dots> = {sum_list (take k ws) ..< sum_list (take k ws) + ws ! k}"
    unfolding sum_take_Suc [OF k] by (simp only: atLeastLessThan_def atLeast_def lessThan_def Collect_conj_eq)
  finally show ?thesis unfolding ws_def [symmetric] using w by simp
qed

theorem neighbor_drawn_fairly_witness:
  "card {roll. roll < sum_list (neighborWeights 25 (replicate 16 emptyNeighbor) 2)
             \<and> rouletteLoop (neighborWeights 25 (replicate 16 emptyNeighbor) 2) roll 0 0 = 1}
   = (if hasTypeAffinity 25 (nb_speciesDex (replicate 16 emptyNeighbor ! 1)) then 3 else 1)"
  by (rule neighbor_drawn_fairly) simp_all

subsection \<open>Events are well formed\<close>

text \<open>The second argument is the frame: the party size and the timers, which no step changes.\<close>

definition genOk :: "nat \<times> nat \<times> nat \<times> nat \<Rightarrow> Gen \<Rightarrow> bool" where
  "genOk fr g \<longleftrightarrow> dayOk (g_state g) \<and> (ds_partyCount (g_state g), timers (g_state g)) = fr"

definition evOk :: "nat \<Rightarrow> DaycareEvent \<Rightarrow> bool" where
  "evOk n ev \<longleftrightarrow> ev_targetSpeciesIdx ev < max 1 n \<and> ev_xp ev \<le> 200 \<and> length (ev_message ev) < 200
     \<and> length (ev_remoteMessage ev) < 200 \<and> ev_targetNodeId ev < 4294967296"

definition nbOk :: "DaycareNeighborPokemon \<Rightarrow> bool" where
  "nbOk n \<longleftrightarrow> nb_nodeId n < 4294967296 \<and> nb_speciesDex n < 256"

lemma keeps_rngNext [keeps_intros]: "preserves (genOk (n, tm)) rngNext"
  by (simp add: keeps_def rngNext_def genOk_def Let_def)

lemma keeps_rngRange: "0 < m \<Longrightarrow> keeps (genOk (n, tm)) (rngRange m) (\<lambda>x. x < m)"
  unfolding rngRange_def by (auto intro!: keeps_bind [OF keeps_rngNext] keeps_return)

lemma keeps_rngChance [keeps_intros]: "preserves (genOk (n, tm)) (rngChance p)"
  unfolding rngChance_def by (rule keeps_bind [OF keeps_rngNext], rule keeps_return) simp

lemma keeps_pick: "pool \<noteq> [] \<Longrightarrow> preserves (genOk (n, tm)) (pick pool)"
  unfolding pick_def by (rule keeps_bind [OF keeps_rngRange]) (auto intro: keeps_return)

text \<open>With an empty party the generator picks slot 0.\<close>

lemma keeps_pickPokemon: "keeps (genOk (n, tm)) (pickPokemon n) (\<lambda>i. i < max 1 n)"
proof (cases "n = 0")
  case True
  then show ?thesis by (simp add: pickPokemon_def rngRange_def keeps_return)
next
  case False
  then show ?thesis unfolding pickPokemon_def by (intro keeps_weaken [OF keeps_rngRange]) auto
qed

lemma keeps_getMon: "i < max 1 n \<Longrightarrow> keeps (genOk (n, tm)) (getMon i) monOk"
  unfolding getMon_def by (rule keeps_gets) (use dayOk_sizes(2) in \<open>fastforce simp: genOk_def intro: dayOk_mon\<close>)

lemma keeps_onMon: "(\<And>p. monOk p \<Longrightarrow> monOk (f p)) \<Longrightarrow> preserves (genOk (n, tm)) (onMon i f)"
  unfolding onMon_def onDay_def by (rule keeps_modify) (auto simp: genOk_def intro: dayOk_onPokemon)

lemma calcXp_le: "calcXp b f r w m \<le> 200"
  by (simp add: calcXp_def Let_def)

lemma snprintf_200 [simp]: "length (snprintf 200 s) < 200" by (rule snprintf_length) simp

lemma take_199 [simp]: "length (take 199 s) < 200" by simp

lemma evOk_empty [simp]:
  "evOk n (emptyEvent\<lparr>ev_message := m, ev_targetSpeciesIdx := i\<rparr>) \<longleftrightarrow> length m < 200 \<and> i < max 1 n"
  "evOk n (emptyEvent\<lparr>ev_message := m, ev_targetSpeciesIdx := i, ev_rarity := q\<rparr>) \<longleftrightarrow> length m < 200 \<and> i < max 1 n"
  "evOk n (emptyEvent\<lparr>ev_message := m, ev_targetSpeciesIdx := i, ev_targetNodeId := k\<rparr>)
     \<longleftrightarrow> length m < 200 \<and> i < max 1 n \<and> k < 4294967296"
  "evOk n (emptyEvent\<lparr>ev_message := m, ev_targetSpeciesIdx := i, ev_targetNodeId := k, ev_rarity := q\<rparr>)
     \<longleftrightarrow> length m < 200 \<and> i < max 1 n \<and> k < 4294967296"
  by (auto simp: evOk_def emptyEvent_def)

lemma evOk_tagXp: "evOk n ev \<Longrightarrow> xp \<le> 200 \<Longrightarrow> evOk n (tagXp xp ev)"
  by (simp add: evOk_def tagXp_def appendTag_length)

text \<open>Each event picks a monster and reads it.\<close>

lemma keeps_withMon:
  assumes "\<And>i p. i < max 1 n \<Longrightarrow> monOk p \<Longrightarrow> keeps (genOk (n, tm)) (f i p) R"
  shows "keeps (genOk (n, tm)) (pickPokemon n \<bind> (\<lambda>i. getMon i \<bind> f i)) R"
  by (rule keeps_bind [OF keeps_pickPokemon], rule keeps_bind [OF keeps_getMon]) (auto intro: assms)

lemma keeps_pick_then:
  assumes "pool \<noteq> []" and "\<And>t. keeps (genOk (n, tm)) (f t) R"
  shows "keeps (genOk (n, tm)) (pick pool \<bind> f) R"
  by (rule keeps_bind [OF keeps_pick [OF assms(1)]]) (rule assms(2))

lemma pools_nonempty [simp]:
  "actionsMove \<noteq> []"
  "actionsSocial \<noteq> []"
  "actionsExplore \<noteq> []"
  "actionsRest \<noteq> []"
  "targetsMove \<noteq> []"
  "targetsFound \<noteq> []"
  "locations \<noteq> []"
  "dreamTemplates \<noteq> []"
  "foreshadowDreams \<noteq> []"
  "visitorWelcomeTemplates \<noteq> []"
  "escapeFlying \<noteq> []"
  "escapeDigger \<noteq> []"
  "escapeGhost \<noteq> []"
  "escapeWater \<noteq> []"
  "escapeSmall \<noteq> []"
  "mischiefTemplates \<noteq> []"
  "rainBoost \<noteq> []"
  "rainPen \<noteq> []"
  "tsBoot \<noteq> []"
  "tsPen \<noteq> []"
  "sunBoost \<noteq> []"
  "sunPen \<noteq> []"
  "snowBoost \<noteq> []"
  "snowPen \<noteq> []"
  "windBoost \<noteq> []"
  "windPen \<noteq> []"
  "fogBoost \<noteq> []"
  "fogPen \<noteq> []"
  "arrivalAffinityTemplates \<noteq> []"
  "arrivalRivalryTemplates \<noteq> []"
  "arrivalCuriousTemplates \<noteq> []"
  by (simp_all flip: length_greater_0_conv)

lemma keeps_dream: "keeps (genOk (n, tm)) (generateDream n) (evOk n)"
  unfolding generateDream_def
  by (rule keeps_withMon, rule keeps_bind [where R = "\<lambda>_. True"])
    (auto intro!: keeps_intros keeps_pick_then keeps_return)

lemma keeps_visitor: "node < 4294967296 \<Longrightarrow> keeps (genOk (n, tm)) (generateVisitor node n) (evOk n)"
  unfolding generateVisitor_def
  by (rule keeps_withMon, rule keeps_pick_then) (auto intro!: keeps_return)

definition optEvOk :: "nat \<Rightarrow> DaycareEvent option \<Rightarrow> bool" where
  "optEvOk n r \<longleftrightarrow> (case r of Some ev \<Rightarrow> evOk n ev | None \<Rightarrow> True)"

lemma optEvOk_simps [simp]: "optEvOk n None" "optEvOk n (Some ev) = evOk n ev"
  by (simp_all add: optEvOk_def)

lemma escapePool_nonempty: "escapePool sp \<noteq> []"
  by (simp add: escapePool_def)

lemma keeps_escape: "keeps (genOk (n, tm)) (tryEscape n) (optEvOk n)"
  unfolding tryEscape_def
  apply (rule keeps_bind [OF keeps_rngChance], rule keeps_if)
   apply (rule keeps_return, simp)
  apply (rule keeps_withMon, rule keeps_bind [where R = "\<lambda>_. True"])
   apply (auto intro!: keeps_intros keeps_pick escapePool_nonempty keeps_return)
  done

lemma weatherPools_nonempty: "weatherPools w = Some (b, p, c, x) \<Longrightarrow> b \<noteq> [] \<and> p \<noteq> []"
  by (cases w) (auto simp: weatherPools_def)

lemma keeps_weather: "keeps (genOk (n, tm)) (generateWeatherEvent w n) (evOk n)"
  unfolding generateWeatherEvent_def
  apply (rule keeps_withMon, rule keeps_Let, rule keeps_bind [where R = "\<lambda>_. True"])
   apply (auto dest: weatherPools_nonempty
      intro!: keeps_intros keeps_pick_then keeps_return evOk_tagXp calcXp_le split: option.split prod.split)
  done

lemma flatTemplates_xp: "t \<in> set flatTemplates \<Longrightarrow> ft_xp t \<le> 200"
proof -
  have "list_all (\<lambda>t. ft_xp t \<le> 200) flatTemplates"
    by (simp add: flatTemplates_def mkFT_def)
  then show "t \<in> set flatTemplates \<Longrightarrow> ft_xp t \<le> 200" by (simp add: list_all_iff)
qed

lemma keeps_flat: "keeps (genOk (n, tm)) (tryFlatTemplate n) (optEvOk n)"
  unfolding tryFlatTemplate_def
  apply (rule keeps_bind [OF keeps_rngChance], rule keeps_if)
   apply (rule keeps_return, simp)
  apply (rule keeps_withMon, rule keeps_Let, rule keeps_if)
   apply (rule keeps_return, simp)
  apply (rule keeps_bind, rule keeps_rngRange, simp, (rule keeps_Let)+)
  apply (rule keeps_bind [where R = "\<lambda>x. x \<le> 200"])
   apply (rule keeps_if)
    apply (rule keeps_return)
    apply (rule flatTemplates_xp, drule nth_mem, drule in_set_takeD, simp)
   apply (rule keeps_bind [OF keeps_rngChance], rule keeps_if)
    apply (rule keeps_bind, rule keeps_rngRange, simp, rule keeps_return, simp)
   apply (rule keeps_return, simp)
  apply (rule keeps_bind [where R = "\<lambda>_. True"])
   apply (rule keeps_when, rule keeps_onMon, simp)
  apply (rule keeps_return)
  apply (auto simp: evOk_tagXp simp del: length_take)
  done

definition draftOk :: "Draft \<Rightarrow> bool" where
  "draftOk d \<longleftrightarrow> cp_node d < 4294967296"

lemma draftOk_draft [simp]: "draftOk (draft m g b)" by (simp add: draftOk_def draft_def)

lemma keeps_onDay:
  "(\<And>st. dayOk st \<Longrightarrow> dayOk (f st) \<and> ds_partyCount (f st) = ds_partyCount st \<and> timers (f st) = timers st) \<Longrightarrow> preserves (genOk (n, tm)) (onDay f)"
  unfolding onDay_def by (rule keeps_modify) (simp add: genOk_def)

lemma keeps_combat: "keeps (genOk (n, tm)) (combatEvent sp name loc b) draftOk"
  unfolding combatEvent_def
  apply (rule keeps_bind [where R = "\<lambda>_. True"], rule keeps_if)
    apply (rule keeps_bind, rule keeps_rngRange, simp)
    apply ((rule keeps_Let)+, (rule keeps_pick_then, simp)+, rule keeps_Let, rule keeps_return, simp)
   apply (rule keeps_return, simp)
  apply (rule keeps_bind, rule keeps_rngRange, simp, rule keeps_return, simp)
  done

lemma keeps_pickNeighbor:
  "0 < nc \<Longrightarrow> nc \<le> 16 \<Longrightarrow> keeps (genOk (n, tm)) (pickNeighbor dex ns nc) (\<lambda>i. i < nc)"
proof -
  assume nc: "0 < nc" "nc \<le> 16"
  have less: "rouletteLoop ws roll acc i < i + length ws \<or> rouletteLoop ws roll acc i = 0" for ws roll acc i
  proof (induction ws arbitrary: acc i)
    case (Cons w ws)
    then show ?case using Cons.IH [of "acc + w" "Suc i"] by (auto simp: Let_def)
  qed simp
  have "length (neighborWeights dex ns nc) = nc" using nc by (simp add: neighborWeights_def)
  then show ?thesis
    unfolding pickNeighbor_def
    apply (intro keeps_if keeps_Let)
     apply (rule keeps_return, simp add: nc)
    apply (rule keeps_bind [OF keeps_rngNext], rule keeps_return)
    subgoal for x using less [of "neighborWeights dex ns nc" _ 0 0] nc(1) by (metis add_0)
    done
qed

lemma socialGain_less: "fst (socialGain dex h nb) < 256"
  by (simp add: socialGain_def Let_def)

text \<open>The social event changes one relationship, found or made.\<close>

lemma social_state:
  assumes "dayOk st" "now < 4294967296" "nbOk nb" "i < 6"
    and "getOrCreateRelationship now (nb_nodeId nb) i (nb_speciesDex nb) st = (k, st1)"
  shows "dayOk (st1\<lparr>ds_relationships := (ds_relationships st1)[k :=
           meetRelationship now (fst (socialGain dex h nb)) b (ds_relationships st1 ! k)]\<rparr>)
    \<and> ds_partyCount st1 = ds_partyCount st \<and> timers st1 = timers st"
proof -
  have s: "dayOk st1 \<and> k < length (ds_relationships st1)
      \<and> relKey (ds_relationships st1 ! k) = (nb_nodeId nb, i, nb_speciesDex nb) \<and> ds_partyCount st1 = ds_partyCount st
      \<and> timers st1 = timers st"
    by (rule getOrCreate_spec [OF assms(1,2) _ assms(4) _ assms(5)]) (use assms(3) in \<open>simp_all add: nbOk_def\<close>)
  then show ?thesis
    using assms(2) by (auto intro!: dayOk_setRelationship relOk_meet socialGain_less dayOk_relAt simp: relKey_meet)
qed

lemma keeps_social:
  assumes "now < 4294967296" "0 < nc" "nc \<le> 16" "nc \<le> length ns" "list_all nbOk ns" "i < max 1 n"
  shows "keeps (genOk (n, tm)) (socialEvent now i ns nc name loc b) draftOk"
  unfolding socialEvent_def
  apply (rule keeps_bind [OF keeps_getMon [OF assms(6)]], rule keeps_bind [OF keeps_pickNeighbor [OF assms(2,3)]])
  apply (rule keeps_Let, rule keeps_pick_then, simp, rule keeps_Let)
  unfolding keeps_def
  apply (intro allI impI)
  subgoal for p ni action g
  proof -
    assume ni: "ni < nc" and g: "genOk (n, tm) g"
    obtain k st1 where k: "getOrCreateRelationship now (nb_nodeId (ns ! ni)) i (nb_speciesDex (ns ! ni)) (g_state g) = (k, st1)"
      by (cases "getOrCreateRelationship now (nb_nodeId (ns ! ni)) i (nb_speciesDex (ns ! ni)) (g_state g)")
    obtain gain mentor where gm: "socialGain (dp_speciesDex p) (dp_totalHours p) (ns ! ni) = (gain, mentor)"
      by (cases "socialGain (dp_speciesDex p) (dp_totalHours p) (ns ! ni)")
    have nb: "nbOk (ns ! ni)" using ni assms(4,5) by (simp add: list_all_length)
    have i6: "i < 6" using g assms(6) dayOk_sizes(2) [of "g_state g"] by (simp add: genOk_def)
    note st = social_state [OF _ assms(1) nb i6 k, of "dp_speciesDex p" "dp_totalHours p", unfolded gm fst_conv]
    show ?thesis
      using g st nb by (simp add: k gm Let_def genOk_def onDay_def rngRange_def rngNext_def draftOk_def nbOk_def)
  qed
  done

lemma keeps_explore: "keeps (genOk (n, tm)) (exploreEvent i name loc b) draftOk"
  unfolding exploreEvent_def
  apply ((rule keeps_pick_then, simp)+, rule keeps_Let, rule keeps_bind, rule keeps_rngRange, simp)
  apply (rule keeps_bind [where R = "\<lambda>_. True"], rule keeps_onMon, simp, rule keeps_return, simp)
  done

lemma keeps_rest: "keeps (genOk (n, tm)) (restEvent name loc) draftOk"
  unfolding restEvent_def by (rule keeps_pick_then, simp, rule keeps_return, simp)

lemma keeps_mischief: "keeps (genOk (n, tm)) (mischiefEvent name) draftOk"
  unfolding mischiefEvent_def by (rule keeps_pick_then, simp, rule keeps_return, simp)

lemma keeps_category: "keeps (genOk (n, tm)) (rollCategory tb nc) (\<lambda>c. c = EVCAT_SOCIAL \<longrightarrow> 0 < nc)"
  unfolding rollCategory_def
  by (cases tb) (auto intro!: keeps_bind [OF keeps_rngNext] keeps_return simp: Let_def split: if_splits)

lemma keeps_compositional:
  assumes "now < 4294967296" "nc \<le> 16" "nc \<le> length ns" "list_all nbOk ns"
  shows "keeps (genOk (n, tm)) (generateCompositional now n ns nc w) (evOk n)"
proof -
  have compose: "keeps (genOk (n, tm)) (composeEvent now cat i sp ns nc name loc b) draftOk"
    if "cat = EVCAT_SOCIAL \<longrightarrow> 0 < nc" "i < max 1 n" for cat i sp name loc b
    using that keeps_social [OF assms(1) _ assms(2-4)]
    by (cases cat)
      (auto simp: composeEvent_def intro: keeps_combat keeps_explore keeps_rest keeps_mischief keeps_return)
  show ?thesis
    unfolding generateCompositional_def
    apply (rule keeps_withMon, rule keeps_case_option)
     apply (rule keeps_return, simp)
    apply (rule keeps_bind [OF keeps_category], rule keeps_bind [OF keeps_rngChance], rule keeps_pick_then, simp, rule keeps_Let)
    apply (rule keeps_bind, rule compose, assumption, assumption, rule keeps_Let, rule keeps_return)
    apply (auto simp: draftOk_def intro!: evOk_tagXp calcXp_le)
    done
qed

lemma keeps_orElse: "keeps I m (optEvOk n) \<Longrightarrow> keeps I k (evOk n) \<Longrightarrow> keeps I (orElse m k) (evOk n)"
  unfolding orElse_def by (rule keeps_bind, assumption, rule keeps_case_option) (auto intro: keeps_return)

lemma keeps_night: "keeps (genOk (n, tm)) (tryNight b n) (optEvOk n)"
  unfolding tryNight_def
  apply (rule keeps_bind [where R = "\<lambda>_. True"])
   apply (rule keeps_if, rule keeps_rngChance, rule keeps_return, simp)
  apply (rule keeps_if, rule keeps_bind [OF keeps_dream])
   apply (rule keeps_bind [where R = "\<lambda>_. True"], rule keeps_onMon, simp)
   apply (rule keeps_return, simp)+
  done

lemma keeps_escapeCounted: "keeps (genOk (n, tm)) (tryEscapeCounted n) (optEvOk n)"
  unfolding tryEscapeCounted_def
  apply (rule keeps_bind [OF keeps_escape], rule keeps_case_option)
   apply (rule keeps_return, simp)
  apply (rule keeps_bind [where R = "\<lambda>_. True"], rule keeps_onMon, simp, rule keeps_return, simp)
  done

lemma keeps_tryWeather: "keeps (genOk (n, tm)) (tryWeather w n) (optEvOk n)"
  unfolding tryWeather_def
  apply (rule keeps_bind [where R = "\<lambda>_. True"])
   apply (rule keeps_if, rule keeps_rngChance, rule keeps_return, simp)
  apply (rule keeps_if, rule keeps_bind [OF keeps_weather])
   apply (rule keeps_return, simp)+
  done

lemma keeps_choose:
  assumes "now < 4294967296" "nc \<le> 16" "nc \<le> length ns" "list_all nbOk ns" "node < 4294967296"
  shows "keeps (genOk (n, tm)) (chooseEvent now ns nc w night node n) (evOk n)"
  unfolding chooseEvent_def
  by (intro keeps_if keeps_orElse keeps_visitor keeps_night keeps_escapeCounted keeps_tryWeather keeps_flat
      keeps_compositional assms)

lemma generate_ok:
  fixes st :: DaycareState and now nc node :: nat and ns :: "DaycareNeighborPokemon list"
    and w :: DaycareWeatherType and night :: bool
  defines "r \<equiv> generate now ns nc w night node st"
  assumes "dayOk st" "now < 4294967296" "node < 4294967296"
    and "nc \<le> 16" "nc \<le> length ns" "list_all nbOk ns"
  shows "evOk (ds_partyCount st) (fst r) \<and> dayOk (snd r) \<and> ds_partyCount (snd r) = ds_partyCount st
    \<and> timers (snd r) = timers st"
proof -
  let ?n = "ds_partyCount st"
  let ?m = "chooseEvent now ns nc w night node ?n \<bind> (\<lambda>ev. onDay (\<lambda>st. st\<lparr>ds_totalEvents := u32 (ds_totalEvents st + 1)\<rparr>)
              \<bind> (\<lambda>_. State_Monad.return ev))"
  define g where "g = \<lparr>g_rng = rngSeed (of_nat now XOR of_nat (ds_totalEvents st * 2654435761)), g_state = st\<rparr>"
  have k: "keeps (genOk (?n, timers st)) ?m (evOk ?n)"
    apply (rule keeps_bind [OF keeps_choose [OF assms(3,5,6,7,4)]], rule keeps_bind [where R = "\<lambda>_. True"])
     apply (rule keeps_onDay, simp add: dayOk_totalEvents)
    apply (rule keeps_return, simp)
    done
  have "genOk (?n, timers st) g" using assms(2) by (simp add: g_def genOk_def)
  with keepsD [OF k] have "genOk (?n, timers st) (snd (run_state ?m g)) \<and> evOk ?n (fst (run_state ?m g))" .
  moreover have "fst r = fst (run_state ?m g)" "snd r = g_state (snd (run_state ?m g))"
    unfolding r_def generate_def g_def Let_def by (auto split: prod.splits)
  ultimately show ?thesis by (simp add: genOk_def)
qed

text \<open>
  C40 For every seed, weather, hour and set of neighbours, the generator addresses an event to a
  monster of the party, gives it at most 200 points, and writes a message that fits its buffer; the
  daycare state stays well formed and keeps its party.
\<close>

theorem generated_event_fits:
  fixes st :: DaycareState and now nc node :: nat and ns :: "DaycareNeighborPokemon list"
    and w :: DaycareWeatherType and night :: bool
  defines "r \<equiv> generate now ns nc w night node st"
  assumes "dayOk st" "0 < ds_partyCount st" "now < 4294967296" "node < 4294967296"
    and "nc \<le> 16" "nc \<le> length ns" "list_all nbOk ns"
  shows "ev_targetSpeciesIdx (fst r) < ds_partyCount st \<and> ev_xp (fst r) \<le> 200 \<and> length (ev_message (fst r)) < 200
    \<and> dayOk (snd r) \<and> ds_partyCount (snd r) = ds_partyCount st"
  using generate_ok [OF assms(2,4-8), of w night] assms(3) by (auto simp: r_def evOk_def)

text \<open>A party of one Pikachu.\<close>

definition onePikachu :: DaycareState where
  "onePikachu = (onPokemon 0 (\<lambda>p. p\<lparr>dp_speciesDex := 25\<rparr>) emptyState)\<lparr>ds_partyCount := 1\<rparr>"

lemma onePikachu_ok: "dayOk onePikachu" "ds_partyCount onePikachu = 1" "dp_speciesDex (ds_pokemon onePikachu ! 0) = 25"
proof -
  show "dayOk onePikachu"
    unfolding onePikachu_def by (intro dayOk_partyCount dayOk_onPokemon dayOk_empty) (simp_all add: monOk_def)
qed (simp_all add: onePikachu_def onPokemon_def upd_at_def emptyState_def)

theorem generated_event_fits_witness:
  "ev_targetSpeciesIdx (fst (generate 5 [] 0 WEATHER_RAIN True 0 onePikachu)) < ds_partyCount onePikachu
   \<and> ev_xp (fst (generate 5 [] 0 WEATHER_RAIN True 0 onePikachu)) \<le> 200
   \<and> length (ev_message (fst (generate 5 [] 0 WEATHER_RAIN True 0 onePikachu))) < 200
   \<and> dayOk (snd (generate 5 [] 0 WEATHER_RAIN True 0 onePikachu))
   \<and> ds_partyCount (snd (generate 5 [] 0 WEATHER_RAIN True 0 onePikachu)) = ds_partyCount onePikachu"
  by (rule generated_event_fits) (simp_all add: onePikachu_ok)

subsection \<open>The arrival search\<close>

definition beaconOk :: "DaycareBeacon \<Rightarrow> bool" where
  "beaconOk b \<longleftrightarrow> bc_nodeId b < 4294967296 \<and> bc_partyCount b < 256 \<and> length (bc_pokemon b) = 6
     \<and> list_all (\<lambda>e. pe_species e < 256) (bc_pokemon b)"

lemma scanRemote_in_bounds:
  "\<forall>ri \<in> set ris. ri < 6 \<Longrightarrow> \<exists>r. scanRemote f b ris = Some r \<and> (\<forall>ri x. r = Some (ri, x) \<longrightarrow> ri < 6)"
  by (induction ris) (auto simp: beaconEntry_def split: option.splits)

lemma scanLocal_in_bounds:
  assumes "bc_partyCount b \<le> 6"
  shows "\<exists>r. scanLocal f b ps k = Some r \<and> (\<forall>li ri x. r = Some (li, ri, x) \<longrightarrow> li < k + length ps \<and> ri < 6)"
proof (induction ps arbitrary: k)
  case (Cons p ps)
  have r: "\<exists>r. scanRemote (f sp) b [0..<bc_partyCount b] = Some r \<and> (\<forall>ri x. r = Some (ri, x) \<longrightarrow> ri < 6)" for sp
    by (rule scanRemote_in_bounds) (use assms in auto)
  obtain rest where rest: "scanLocal f b ps (Suc k) = Some rest"
      "\<forall>li ri x. rest = Some (li, ri, x) \<longrightarrow> li < Suc k + length ps \<and> ri < 6"
    using Cons.IH by blast
  show ?case
  proof (cases "daycareGetSpecies (dp_speciesDex p)")
    case None
    then show ?thesis using rest by simp
  next
    case (Some sp)
    obtain a where a: "scanRemote (f sp) b [0..<bc_partyCount b] = Some a" "\<forall>ri x. a = Some (ri, x) \<longrightarrow> ri < 6"
      using r by blast
    show ?thesis using Some rest a by (cases a) auto
  qed
qed simp

lemma keeps_matchArrival:
  assumes "bc_partyCount b \<le> 6" "0 < length ps"
  shows "keeps (genOk (length ps, tm)) (matchArrival b ps)
    (\<lambda>r. \<exists>li ri t v. r = Some (li, ri, t, v) \<and> li < length ps \<and> ri < 6)"
proof -
  have pick: "keeps (genOk (length ps, tm)) (pickPokemon (length ps)) (\<lambda>i. i < length ps)"
    using keeps_rngRange [OF assms(2)] by (simp add: pickPokemon_def)
  obtain a where a: "scanLocal affinityMatch b ps 0 = Some a"
      "\<forall>li ri x. a = Some (li, ri, x) \<longrightarrow> li < length ps \<and> ri < 6"
    using scanLocal_in_bounds [OF assms(1), of affinityMatch ps 0] by auto
  obtain v where v: "scanLocal rivalryMatch b ps 0 = Some v"
      "\<forall>li ri x. v = Some (li, ri, x) \<longrightarrow> li < length ps \<and> ri < 6"
    using scanLocal_in_bounds [OF assms(1), of rivalryMatch ps 0] by auto
  show ?thesis
    unfolding matchArrival_def a(1) v(1)
    using a(2) v(2)
    by (auto split: option.split intro!: keeps_return keeps_bind [OF pick])
qed

lemma keeps_arrivalEvent:
  assumes "beaconOk b" "now < 4294967296" "li < n" "ri < 6"
  shows "keeps (genOk (n, tm)) (arrivalEvent now b sn gn (li, ri, t, v)) (evOk n)"
proof -
  obtain remote forRemote where names: "remoteNames b (bc_pokemon b ! ri) = (remote, forRemote)"
    by (cases "remoteNames b (bc_pokemon b ! ri)")
  show ?thesis
    unfolding arrivalEvent_def prod.case
    apply (rule keeps_bind [OF keeps_getMon], use assms(3) in simp)
    apply (simp only: Let_def names prod.case)
    apply (rule keeps_pick_then)
     apply simp
    apply (rule keeps_bind, rule keeps_rngRange, simp)
    unfolding keeps_def
    apply (intro allI impI)
    subgoal for p tmpl x g
    proof -
      assume x: "x < 11" and g: "genOk (n, tm) g"
      obtain k st1 where k: "getOrCreateRelationship now (bc_nodeId b) li (pe_species (bc_pokemon b ! ri)) (g_state g) = (k, st1)"
        by (cases "getOrCreateRelationship now (bc_nodeId b) li (pe_species (bc_pokemon b ! ri)) (g_state g)")
      have args: "dayOk (g_state g)" "bc_nodeId b < 4294967296" "li < 6" "pe_species (bc_pokemon b ! ri) < 256"
        using g assms dayOk_sizes(2) [of "g_state g"] by (auto simp: genOk_def beaconOk_def list_all_length)
      note s = getOrCreate_spec [OF args(1) assms(2) args(2-4) k]
      have "dayOk (st1\<lparr>ds_relationships := upd_at k (meetArrival now t v) (ds_relationships st1)\<rparr>)"
        unfolding upd_at_def
        by (rule dayOk_setRelationship) (use s assms(2) in \<open>auto intro: relOk_arrival dayOk_relAt simp: relKey_arrival\<close>)
      then show ?thesis
        using g s x args(2) assms(3) by (simp add: k genOk_def onDay_def evOk_def emptyEvent_def)
    qed
    done
qed

lemma arrival_ok:
  assumes "dayOk st" "0 < ds_partyCount st" "now < 4294967296" "beaconOk b" "bc_partyCount b \<le> 6"
  shows "\<exists>ev st'. generateArrivalEvent now b sn gn st = Some (ev, st') \<and> evOk (ds_partyCount st) ev
    \<and> dayOk st' \<and> ds_partyCount st' = ds_partyCount st"
proof -
  let ?n = "ds_partyCount st" and ?ps = "take (ds_partyCount st) (ds_pokemon st)"
  have n: "length ?ps = ?n" using dayOk_sizes [OF assms(1)] by simp
  define g where "g = \<lparr>g_rng = rngSeed (of_nat now XOR of_nat (bc_nodeId b)), g_state = st\<rparr>"
  have gOk: "genOk (?n, timers st) g" using assms(1) by (simp add: g_def genOk_def)
  obtain r g1 where m: "run_state (matchArrival b ?ps) g = (r, g1)" by (cases "run_state (matchArrival b ?ps) g")
  have "0 < length ?ps" using assms(2) n by simp
  from keepsD [OF keeps_matchArrival [OF assms(5) this, unfolded n] gOk]
  obtain li ri t v where f: "r = Some (li, ri, t, v)" "li < ?n" "ri < 6" and g1: "genOk (?n, timers st) g1"
    unfolding m by auto
  obtain ev g2 where e: "run_state (arrivalEvent now b sn gn (li, ri, t, v)) g1 = (ev, g2)"
    by (cases "run_state (arrivalEvent now b sn gn (li, ri, t, v)) g1")
  have "genOk (?n, timers st) g2 \<and> evOk ?n ev"
    using keepsD [OF keeps_arrivalEvent [OF assms(4,3) f(2,3), where sn = sn and gn = gn and t = t and v = v] g1]
    unfolding e by simp
  moreover have "generateArrivalEvent now b sn gn st = Some (ev, g_state g2)"
    unfolding generateArrivalEvent_def Let_def g_def [symmetric] m prod.case f(1) option.case e by simp
  ultimately show ?thesis by (auto simp: genOk_def)
qed

text \<open>
  When the beacon's count is at most six the arrival search never reads outside the beacon: an
  event is generated, addressed to a monster of the party, and the daycare state stays well formed.
\<close>

lemma arrival_in_bounds:
  assumes "dayOk st" "0 < ds_partyCount st" "now < 4294967296" "beaconOk b" "bc_partyCount b \<le> 6"
  shows "\<exists>ev st'. generateArrivalEvent now b sn gn st = Some (ev, st') \<and> evOk (ds_partyCount st) ev
    \<and> dayOk st' \<and> ds_partyCount st' = ds_partyCount st"
  by (rule arrival_ok [OF assms])

definition smallBeacon :: "nat \<Rightarrow> DaycareBeacon" where
  "smallBeacon n = \<lparr>bc_nodeId = 7, bc_shortName = ''ABCD'', bc_gameName = ''RED'', bc_partyCount = n,
     bc_pokemon = replicate 6 emptyEntry, bc_ngPlusTier = 0, bc_requestResponse = 0\<rparr>"

lemma smallBeacon_ok: "n < 256 \<Longrightarrow> beaconOk (smallBeacon n)"
  by (simp add: smallBeacon_def beaconOk_def emptyEntry_def list_all_iff)

lemma arrival_in_bounds_witness:
  "\<exists>ev st'. generateArrivalEvent 5 (smallBeacon 3) ''ABCD'' [] onePikachu = Some (ev, st')
    \<and> evOk (ds_partyCount onePikachu) ev \<and> dayOk st' \<and> ds_partyCount st' = ds_partyCount onePikachu"
  by (rule arrival_in_bounds) (simp_all add: onePikachu_ok smallBeacon_ok, simp add: smallBeacon_def)

lemma scanRemote_overread:
  "\<forall>ri < 6. Option.bind (daycareGetSpecies (pe_species (bc_pokemon b ! ri))) f = None \<Longrightarrow>
   \<exists>ri \<in> set ris. 6 \<le> ri \<Longrightarrow> scanRemote f b ris = None"
  by (induction ris) (auto simp: beaconEntry_def split: option.splits)

lemma scanLocal_overread:
  assumes "6 < bc_partyCount b" "\<exists>p \<in> set ps. daycareGetSpecies (dp_speciesDex p) \<noteq> None"
    and "\<forall>sp. \<forall>ri < 6. Option.bind (daycareGetSpecies (pe_species (bc_pokemon b ! ri))) (f sp) = None"
  shows "scanLocal f b ps k = None"
proof -
  have r: "scanRemote (f sp) b [0..<bc_partyCount b] = None" for sp
    by (rule scanRemote_overread) (use assms(1,3) in \<open>auto intro: bexI [of _ 6]\<close>)
  show ?thesis
    using assms(2) by (induction ps arbitrary: k) (auto simp: r split: option.splits)
qed

text \<open>
  The count of a beacon is taken from the network unchecked: a beacon that announces more than
  six monsters, none of the six being a known species, makes the arrival search read past the end of the
  packet as soon as the own party holds a known species.
\<close>

lemma oversized_beacon_overreads:
  assumes "6 < bc_partyCount b" and "\<forall>ri < 6. daycareGetSpecies (pe_species (bc_pokemon b ! ri)) = None"
    and "i < ds_partyCount st" "i < length (ds_pokemon st)" "daycareGetSpecies (dp_speciesDex (ds_pokemon st ! i)) \<noteq> None"
  shows "generateArrivalEvent now b sn gn st = None"
proof -
  have "ds_pokemon st ! i \<in> set (take (ds_partyCount st) (ds_pokemon st))"
    using assms(3,4) by (auto simp: in_set_conv_nth intro!: exI [of _ i])
  then have "scanLocal affinityMatch b (take (ds_partyCount st) (ds_pokemon st)) 0 = None"
    by (intro scanLocal_overread) (use assms in auto)
  then show ?thesis by (simp add: generateArrivalEvent_def matchArrival_def Let_def)
qed

lemma oversized_beacon_overreads_witness:
  "generateArrivalEvent 5 (smallBeacon 7) ''ABCD'' [] onePikachu = None"
proof (rule oversized_beacon_overreads [where i = 0])
  show "\<forall>ri < 6. daycareGetSpecies (pe_species (bc_pokemon (smallBeacon 7) ! ri)) = None"
    by (simp add: smallBeacon_def emptyEntry_def daycareGetSpecies_def)
qed (simp_all add: onePikachu_ok dayOk_sizes(1) [OF onePikachu_ok(1)] smallBeacon_def daycareGetSpecies_def)

end
