(* ===== verification/DaycareReach.thy ===== *)
theory DaycareReach
  imports DaycareEventRules
begin

text \<open>
  The daycare object under any sequence of calls: every operation keeps the object well formed
  (\<open>objOk\<close>), which the transition-system interface turns into a fact about every run.  The
  properties state the parts of it: widths, uniqueness, what is never granted, what is never known.
\<close>

subsection \<open>The object\<close>

definition entryOk :: "PartyEntry \<Rightarrow> bool" where
  "entryOk e \<longleftrightarrow> pe_species e < 256 \<and> pe_level e < 256 \<and> length (pe_nickname e) \<le> 10"

definition neighborOk :: "DaycareNeighborPokemon \<Rightarrow> bool" where
  "neighborOk n \<longleftrightarrow> nbOk n \<and> length (nb_shortName n) \<le> 4 \<and> length (nb_gameName n) \<le> 7 \<and> nb_level n < 256
     \<and> length (nb_nickname n) \<le> 10 \<and> nb_partyCount n \<le> 6 \<and> length (nb_party n) = 6
     \<and> list_all entryOk (nb_party n)"

definition movesUnknown :: "DaycareNeighborPokemon \<Rightarrow> bool" where
  "movesUnknown n \<longleftrightarrow> list_all (\<lambda>e. pe_moves e = [0, 0, 0, 0]) (nb_party n)"

definition tableOk :: "PokemonDaycare \<Rightarrow> bool" where
  "tableOk d \<longleftrightarrow> length (dc_neighbors d) = 16 \<and> length (dc_neighborLastSeen d) = 16 \<and> dc_neighborCount d \<le> 16
     \<and> list_all neighborOk (dc_neighbors d) \<and> list_all (\<lambda>t. t < 4294967296) (dc_neighborLastSeen d)"

definition nodesDistinct :: "PokemonDaycare \<Rightarrow> bool" where
  "nodesDistinct d \<longleftrightarrow> distinct (map nb_nodeId (take (dc_neighborCount d) (dc_neighbors d)))"

definition savesOk :: "effect list \<Rightarrow> bool" where
  "savesOk out \<longleftrightarrow> (\<forall>st. SaveState st \<in> set out \<longrightarrow> dayOk st)"

definition objOk :: "PokemonDaycare \<Rightarrow> bool" where
  "objOk d \<longleftrightarrow> dayOk (dc_state d) \<and> tableOk d \<and> nodesDistinct d \<and> list_all movesUnknown (dc_neighbors d)
     \<and> dc_lastNewNodeId d < 4294967296 \<and> savesOk (dc_out d)"

text \<open>The neighbour table is untouched by most calls.\<close>

definition sameTable :: "PokemonDaycare \<Rightarrow> PokemonDaycare \<Rightarrow> bool" where
  "sameTable d e \<longleftrightarrow> dc_neighbors e = dc_neighbors d \<and> dc_neighborCount e = dc_neighborCount d
     \<and> dc_neighborLastSeen e = dc_neighborLastSeen d"

lemma objOk_sameTable:
  "objOk d \<Longrightarrow> sameTable d e \<Longrightarrow> dayOk (dc_state e) \<Longrightarrow> dc_lastNewNodeId e < 4294967296 \<Longrightarrow> savesOk (dc_out e) \<Longrightarrow> objOk e"
  by (simp add: objOk_def sameTable_def tableOk_def nodesDistinct_def)

lemma objOkD:
  assumes "objOk d"
  shows "dayOk (dc_state d)" "tableOk d" "nodesDistinct d" "list_all movesUnknown (dc_neighbors d)"
    "dc_lastNewNodeId d < 4294967296" "savesOk (dc_out d)"
  using assms by (simp_all add: objOk_def)

lemma savesOk_simps [simp]:
  "savesOk []" "savesOk (xs @ ys) \<longleftrightarrow> savesOk xs \<and> savesOk ys" "savesOk [SendBeacon b]" "savesOk [Broadcast m]"
  "savesOk [SaveState st] \<longleftrightarrow> dayOk st"
  by (auto simp: savesOk_def)

lemma sameTable_refl [simp]: "sameTable d d" by (simp add: sameTable_def)

lemma onState_simps [simp]:
  "dc_state (onState f d) = f (dc_state d)" "sameTable e (onState f d) = sameTable e d"
  "dc_lastNewNodeId (onState f d) = dc_lastNewNodeId d" "dc_out (onState f d) = dc_out d"
  "dc_neighbors (onState f d) = dc_neighbors d" "dc_neighborCount (onState f d) = dc_neighborCount d"
  "dc_neighborLastSeen (onState f d) = dc_neighborLastSeen d"
  by (simp_all add: onState_def sameTable_def)

lemma objOk_onState: "objOk d \<Longrightarrow> dayOk (f (dc_state d)) \<Longrightarrow> objOk (onState f d)"
  by (rule objOk_sameTable [of d]) (simp_all add: objOk_def)

lemma objOk_new: "objOk (newDaycare bc sb)"
  by (simp add: objOk_def newDaycare_def dayOk_empty tableOk_def nodesDistinct_def list_all_iff neighborOk_def
      emptyNeighbor_def nbOk_def entryOk_def emptyEntry_def movesUnknown_def)

subsection \<open>Experience and counters\<close>

lemma dayOk_applyEventXp: "dayOk st \<Longrightarrow> dayOk (applyEventXp ev st) \<and> ds_partyCount (applyEventXp ev st) = ds_partyCount st"
  unfolding applyEventXp_def by (auto intro!: dayOk_onPokemon simp: monOk_def gainXp_def Let_def)

lemma dayOk_applyArrivalXp: "dayOk st \<Longrightarrow> dayOk (applyArrivalXp ev st)"
  unfolding applyArrivalXp_def by (auto intro!: dayOk_onPokemon simp: monOk_def gainArrivalXp_def Let_def)

lemma dayOk_updateEventCounters: "dayOk st \<Longrightarrow> dayOk (updateEventCounters ev i st)"
  unfolding updateEventCounters_def
  by (cases "i < ds_partyCount st") (simp_all add: Let_def, rule dayOk_onPokemon, auto simp: monOk_def)

lemma dayOk_checkAchievements: "dayOk st \<Longrightarrow> dayOk (snd (checkAchievements now nc k st))"
proof -
  assume ok: "dayOk st"
  obtain flags where s: "snd (checkAchievements now nc k st) =
      st\<lparr>ds_achievementFlags := flags, ds_relationships := map (resetReunited now) (ds_relationships st)\<rparr>"
    using checkAchievements_spec(6) by blast
  note spec = checkAchievements_spec [where now = now and nc = nc and maxNew = k and st = st]
  have none: "\<not> earned now nc st ACH_UNSTOPPABLE_FORCE" "\<not> earned now nc st ACH_FULL_MOON"
    using ok by (simp_all add: dayOk_unfold)
  then have "ACH_UNSTOPPABLE_FORCE \<notin> set (fst (checkAchievements now nc k st))"
    "ACH_FULL_MOON \<notin> set (fst (checkAchievements now nc k st))"
    using spec(3) by blast+
  then have "\<not> hasAchievement flags ACH_UNSTOPPABLE_FORCE" "\<not> hasAchievement flags ACH_FULL_MOON"
    using spec(4) ok s by (simp_all add: dayOk_unfold)
  moreover have "relKey \<circ> resetReunited now = relKey" "\<And>r. relOk r \<Longrightarrow> relOk (resetReunited now r)"
    by (auto simp: fun_eq_iff resetReunited_def relKey_def relOk_def)
  ultimately show ?thesis unfolding s using ok by (auto simp: dayOk_unfold list.pred_map list_all_iff)
qed

lemma dayOk_addHours: "dayOk st \<Longrightarrow> dayOk (addHours st) \<and> ds_partyCount (addHours st) = ds_partyCount st"
  unfolding addHours_def by (rule dayOk_onPokemons) auto

lemma savesOk_announce [simp]: "savesOk (announce d new)"
  by (auto simp: savesOk_def announce_def)

lemma tableOk_neighbors: "tableOk d \<Longrightarrow> list_all nbOk (dc_neighbors d)"
  by (auto simp: tableOk_def neighborOk_def list_all_iff)

lemma objOk_runEventCycle:
  assumes "objOk d" "now < 4294967296"
  shows "objOk (runEventCycle now night d)"
proof -
  let ?st = "addHours (dc_state d)"
  have d: "dayOk (dc_state d)" "tableOk d" "dc_lastNewNodeId d < 4294967296" "savesOk (dc_out d)"
    using assms(1) by (simp_all add: objOk_def)
  obtain ev st1 where g: "generate now (dc_neighbors d) (dc_neighborCount d) (dc_weather d) night (dc_lastNewNodeId d) ?st = (ev, st1)"
    by (cases "generate now (dc_neighbors d) (dc_neighborCount d) (dc_weather d) night (dc_lastNewNodeId d) ?st")
  have "dayOk st1"
    using generate_ok [of ?st now "dc_lastNewNodeId d" "dc_neighborCount d" "dc_neighbors d" "dc_weather d" night]
      g d assms(2) dayOk_addHours [OF d(1)] tableOk_neighbors [OF d(2)] by (simp add: tableOk_def)
  then have "dayOk (snd (checkAchievements now (dc_neighborCount d) 4
      ((updateEventCounters ev (ev_targetSpeciesIdx ev) (applyEventXp ev st1))
        \<lparr>ds_totalEvents := u32 (ds_totalEvents (updateEventCounters ev (ev_targetSpeciesIdx ev) (applyEventXp ev st1)) + 1)\<rparr>)))"
    by (intro dayOk_checkAchievements dayOk_totalEvents dayOk_updateEventCounters) (simp add: dayOk_applyEventXp)
  then show ?thesis
    unfolding runEventCycle_def g
    by (intro objOk_sameTable [OF assms(1)]) (auto simp: Let_def sameTable_def d split: prod.split)
qed

subsection \<open>Moods and decay\<close>

lemma objOk_updateMoodOne:
  "objOk d \<Longrightarrow> objOk (updateMoodOne i d) \<and> ds_partyCount (dc_state (updateMoodOne i d)) = ds_partyCount (dc_state d)
     \<and> dc_active (updateMoodOne i d) = dc_active d"
proof -
  assume d: "objOk d"
  have "dayOk (onPokemon i (\<lambda>p. p\<lparr>dp_mood := m\<rparr>) (dc_state d))" for m
    by (rule dayOk_onPokemon) (use d in \<open>auto simp: objOk_def monOk_def\<close>)
  then show ?thesis
    unfolding updateMoodOne_def Let_def
    using objOkD [OF d] by (auto intro!: objOk_sameTable [OF d] simp: sameTable_def onState_def split: prod.split)
qed

lemma objOk_updateMood:
  assumes "objOk d"
  shows "objOk (updateMood d)" "ds_partyCount (dc_state (updateMood d)) = ds_partyCount (dc_state d)"
proof -
  have "objOk e \<Longrightarrow> objOk (fold updateMoodOne is' e) \<and> ds_partyCount (dc_state (fold updateMoodOne is' e)) = ds_partyCount (dc_state e)"
    for e is'
    by (induction is' arbitrary: e) (simp_all add: objOk_updateMoodOne)
  then show "objOk (updateMood d)" "ds_partyCount (dc_state (updateMood d)) = ds_partyCount (dc_state d)"
    using assms by (simp_all add: updateMood_def)
qed

lemma relOk_decay: "relOk r \<Longrightarrow> now < 4294967296 \<Longrightarrow> relOk (decayOne now b r)"
  by (auto simp: decayOne_def relOk_def Let_def)

lemma relKey_decay: "relKey (decayOne now b r) = relKey r"
  by (auto simp: decayOne_def relKey_def Let_def)

lemma objOk_decayFriendships: "objOk d \<Longrightarrow> now < 4294967296 \<Longrightarrow> objOk (decayFriendships now d)"
  unfolding decayFriendships_def
  by (rule objOk_onState, assumption, rule dayOk_relationships)
    (auto simp: objOk_def dayOk_unfold list_all_iff relOk_decay relKey_decay)

subsection \<open>Expiry is a filter\<close>

lemma length_shiftDown [simp]: "length (shiftDown i nc xs) = length xs"
proof -
  have "length (fold (\<lambda>j ys. ys[j := ys ! Suc j]) is' ys) = length ys" for is' and ys :: "'a list"
    by (induction is' arbitrary: ys) auto
  then show ?thesis by (simp add: shiftDown_def)
qed

lemma nth_shiftDown:
  assumes "nc \<le> length xs" "k < length xs"
  shows "shiftDown i nc xs ! k = (if i \<le> k \<and> k < nc - 1 then xs ! Suc k else xs ! k)"
proof -
  have "m < length xs \<or> m = 0 \<Longrightarrow>
      (fold (\<lambda>j ys. ys[j := ys ! Suc j]) [i..<m] xs) ! k = (if i \<le> k \<and> k < m then xs ! Suc k else xs ! k)
      \<and> (\<forall>l. m \<le> l \<longrightarrow> (fold (\<lambda>j ys. ys[j := ys ! Suc j]) [i..<m] xs) ! l = xs ! l)
      \<and> length (fold (\<lambda>j ys. ys[j := ys ! Suc j]) [i..<m] xs) = length xs" for m
  proof (induction m)
    case (Suc m)
    then show ?case using assms(2) by (auto simp: nth_list_update)
  qed simp
  moreover have "nc - 1 < length xs \<or> nc - 1 = 0" using assms by auto
  ultimately show ?thesis unfolding shiftDown_def by blast
qed

lemma set_shiftDown: "nc \<le> length xs \<Longrightarrow> set (shiftDown i nc xs) \<subseteq> set xs"
proof
  fix x
  assume nc: "nc \<le> length xs" and "x \<in> set (shiftDown i nc xs)"
  then obtain k where k: "k < length xs" "x = shiftDown i nc xs ! k" by (auto simp: in_set_conv_nth)
  then show "x \<in> set xs" using nc by (auto simp: nth_shiftDown [OF nc k(1)])
qed

lemma zip_shiftDown:
  assumes "length ys = length xs" "nc \<le> length xs"
  shows "zip (shiftDown i nc xs) (shiftDown i nc ys) = shiftDown i nc (zip xs ys)"
  by (rule nth_equalityI) (use assms in \<open>auto simp: nth_shiftDown\<close>)

lemma shiftDown_parts:
  assumes "i < nc" "nc \<le> length xs"
  shows "take i (shiftDown i nc xs) = take i xs" "drop i (take (nc - 1) (shiftDown i nc xs)) = drop (Suc i) (take nc xs)"
proof -
  show "take i (shiftDown i nc xs) = take i xs"
    by (rule nth_equalityI) (use assms in \<open>auto simp: nth_shiftDown\<close>)
  show "drop i (take (nc - 1) (shiftDown i nc xs)) = drop (Suc i) (take nc xs)"
    by (rule nth_equalityI) (use assms in \<open>auto simp: nth_shiftDown\<close>)
qed

definition fresh :: "nat \<Rightarrow> DaycareNeighborPokemon \<times> nat \<Rightarrow> bool" where
  "fresh now nt \<longleftrightarrow> sub32 now (snd nt) \<le> 7200000"

lemma expireFrom_filter:
  "nc \<le> length ns \<Longrightarrow> length seen = length ns \<Longrightarrow> i \<le> nc \<Longrightarrow> expireFrom now i nc ns seen = (nc', ns', seen') \<Longrightarrow>
   length ns' = length ns \<and> length seen' = length seen \<and> nc' \<le> nc \<and> set ns' \<subseteq> set ns \<and> set seen' \<subseteq> set seen
   \<and> take nc' (zip ns' seen') = take i (zip ns seen) @ filter (fresh now) (drop i (take nc (zip ns seen)))"
proof (induction now i nc ns seen rule: expireFrom.induct)
  case (1 now i nc ns seen)
  show ?case
  proof (cases "i < nc")
    case False
    then have "expireFrom now i nc ns seen = (nc, ns, seen)" by (subst expireFrom.simps) simp
    then show ?thesis using "1.prems" False by simp
  next
    case True
    have cons: "drop i (take nc (zip ns seen)) = (ns ! i, seen ! i) # drop (Suc i) (take nc (zip ns seen))"
      using True "1.prems"(1,2) by (simp add: Cons_nth_drop_Suc [symmetric])
    show ?thesis
    proof (cases "sub32 now (seen ! i) > 7200000")
      case stale: True
      have e: "expireFrom now i (nc - 1) (shiftDown i nc ns) (shiftDown i nc seen) = (nc', ns', seen')"
        using "1.prems"(4) True stale by (simp add: expireFrom.simps [of now i nc])
      have gone: "\<not> fresh now (ns ! i, seen ! i)" using stale by (simp add: fresh_def)
      note IH = "1.IH"(1) [OF True stale _ _ _ e]
      have "length ns' = length ns \<and> length seen' = length seen \<and> nc' \<le> nc - 1
          \<and> set ns' \<subseteq> set (shiftDown i nc ns) \<and> set seen' \<subseteq> set (shiftDown i nc seen)
          \<and> take nc' (zip ns' seen') = take i (zip ns seen)
              @ filter (fresh now) (drop (Suc i) (take nc (zip ns seen)))"
        using IH "1.prems"(1,2) True by (simp add: zip_shiftDown shiftDown_parts [unfolded One_nat_def])
      then show ?thesis
        using set_shiftDown [of nc ns i] set_shiftDown [of nc seen i] "1.prems"(1,2) gone
        by (auto simp: cons)
    next
      case fresh: False
      have e: "expireFrom now (Suc i) nc ns seen = (nc', ns', seen')"
        using "1.prems"(4) True fresh by (simp add: expireFrom.simps [of now i nc])
      have stays: "fresh now (ns ! i, seen ! i)" using fresh by (simp add: fresh_def)
      have "take (Suc i) (zip ns seen) = take i (zip ns seen) @ [(ns ! i, seen ! i)]"
        using True "1.prems"(1,2) by (simp add: take_Suc_conv_app_nth)
      then show ?thesis
        using "1.IH"(2) [OF True fresh "1.prems"(1,2) _ e] True stays by (simp add: cons)
    qed
  qed
qed

text \<open>The table with its times, as one list.\<close>

definition neighborTable :: "PokemonDaycare \<Rightarrow> (DaycareNeighborPokemon \<times> nat) list" where
  "neighborTable d = take (dc_neighborCount d) (zip (dc_neighbors d) (dc_neighborLastSeen d))"

lemma expireNeighbors_spec:
  assumes "tableOk d"
  shows "neighborTable (expireNeighbors now d) = filter (fresh now) (neighborTable d)"
    and "tableOk (expireNeighbors now d)" "set (dc_neighbors (expireNeighbors now d)) \<subseteq> set (dc_neighbors d)"
proof -
  obtain nc ns seen where e: "expireFrom now 0 (dc_neighborCount d) (dc_neighbors d) (dc_neighborLastSeen d) = (nc, ns, seen)"
    by (cases "expireFrom now 0 (dc_neighborCount d) (dc_neighbors d) (dc_neighborLastSeen d)")
  have d: "dc_neighborCount d \<le> length (dc_neighbors d)" "length (dc_neighborLastSeen d) = length (dc_neighbors d)"
    using assms by (simp_all add: tableOk_def)
  note f = expireFrom_filter [OF d _ e]
  have eq: "expireNeighbors now d = d\<lparr>dc_neighborCount := nc, dc_neighbors := ns, dc_neighborLastSeen := seen\<rparr>"
    by (simp add: expireNeighbors_def e)
  show "neighborTable (expireNeighbors now d) = filter (fresh now) (neighborTable d)"
    using f by (simp add: neighborTable_def eq)
  show "set (dc_neighbors (expireNeighbors now d)) \<subseteq> set (dc_neighbors d)" using f by (simp add: eq)
  show "tableOk (expireNeighbors now d)"
    using f assms by (auto simp: tableOk_def eq list_all_iff)
qed

lemma nodes_of_table: "tableOk d \<Longrightarrow> map nb_nodeId (take (dc_neighborCount d) (dc_neighbors d)) = map (nb_nodeId \<circ> fst) (neighborTable d)"
  by (simp add: neighborTable_def tableOk_def take_zip flip: map_map)

lemma objOk_expire:
  assumes "objOk d" shows "objOk (expireNeighbors now d)"
proof -
  note d = objOkD [OF assms] and x = expireNeighbors_spec [OF objOkD(2) [OF assms], of now]
  have same: "dc_state (expireNeighbors now d) = dc_state d" "dc_lastNewNodeId (expireNeighbors now d) = dc_lastNewNodeId d"
    "dc_out (expireNeighbors now d) = dc_out d"
    by (simp_all add: expireNeighbors_def split: prod.split)
  have "distinct (map (nb_nodeId \<circ> fst) (neighborTable d))"
    using d(2,3) by (simp add: nodesDistinct_def nodes_of_table)
  then have "nodesDistinct (expireNeighbors now d)"
    unfolding nodesDistinct_def nodes_of_table [OF x(2)] x(1) by (rule distinct_map_filter)
  then show ?thesis using d x by (auto simp: objOk_def same list_all_iff)
qed

subsection \<open>Beacons\<close>

lemma dayOk_addKnownNode: "dayOk st \<Longrightarrow> n < 4294967296 \<Longrightarrow> dayOk (addKnownNode n st)"
proof -
  assume ok: "dayOk st" and n: "n < 4294967296"
  let ?ks = "ds_knownNodes st"
  let ?new = "if length ?ks < 32 then ?ks @ [n] else tl ?ks @ [n]"
  show ?thesis
  proof (cases "n \<in> set ?ks")
    case True
    then show ?thesis using ok by (simp add: addKnownNode_def isKnownNode_def)
  next
    case False
    have "set (tl ?ks) \<subseteq> set ?ks" by (cases ?ks) auto
    then have "distinct ?new" "length ?new \<le> 32" "list_all (\<lambda>k. k < 4294967296) ?new"
      using False ok n by (auto simp: dayOk_unfold distinct_tl list_all_iff)
    then show ?thesis using ok False by (simp add: addKnownNode_def isKnownNode_def dayOk_unfold)
  qed
qed

lemma isKnownNode_add: "isKnownNode (addKnownNode n st) n"
  by (simp add: addKnownNode_def isKnownNode_def)

text \<open>The slot: the node's own, a new one at the end, or the one not heard of for longest.\<close>

lemma neighborSlot_cases:
  assumes "tableOk d" "neighborSlot n d = (slot, nc)"
  obtains (known) "slot < dc_neighborCount d" "nc = dc_neighborCount d" "nb_nodeId (dc_neighbors d ! slot) = n"
  | (room) "dc_neighborCount d < 16" "slot = dc_neighborCount d" "nc = Suc slot"
      "n \<notin> nb_nodeId ` set (take (dc_neighborCount d) (dc_neighbors d))"
  | (full) "dc_neighborCount d = 16" "nc = 16" "slot < 16"
      "n \<notin> nb_nodeId ` set (take (dc_neighborCount d) (dc_neighbors d))"
      "\<forall>j < 16. dc_neighborLastSeen d ! slot \<le> dc_neighborLastSeen d ! j"
proof -
  let ?f = "find (\<lambda>i. nb_nodeId (dc_neighbors d ! i) = n) [0..<dc_neighborCount d]"
  have t: "length (dc_neighbors d) = 16" "length (dc_neighborLastSeen d) = 16" "dc_neighborCount d \<le> 16"
    "\<forall>t \<in> set (dc_neighborLastSeen d). t \<le> 4294967295"
    using assms(1) by (auto simp: tableOk_def list_all_iff)
  have absent: "n \<notin> nb_nodeId ` set (take (dc_neighborCount d) (dc_neighbors d))" if "?f = None"
  proof
    assume "n \<in> nb_nodeId ` set (take (dc_neighborCount d) (dc_neighbors d))"
    then obtain i where "i < dc_neighborCount d" "nb_nodeId (dc_neighbors d ! i) = n"
      using t by (auto simp: in_set_conv_nth)
    then show False using that by (simp add: find_None_iff)
  qed
  show thesis
  proof (cases ?f)
    case (Some i)
    then have "i < dc_neighborCount d" "nb_nodeId (dc_neighbors d ! i) = n" by (auto dest!: find_SomeD)
    moreover have "slot = i" "nc = dc_neighborCount d" using assms(2) Some by (simp_all add: neighborSlot_def Let_def)
    ultimately show thesis using known by simp
  next
    case None
    show thesis
    proof (cases "dc_neighborCount d < 16")
      case True
      then have "slot = dc_neighborCount d" "nc = Suc slot"
        using assms(2) None by (simp_all add: neighborSlot_def Let_def)
      then show thesis using room True absent [OF None] by simp
    next
      case False
      let ?i = "oldestIndex (dc_neighborLastSeen d)"
      have "slot = ?i" "nc = dc_neighborCount d" using assms(2) None False by (simp_all add: neighborSlot_def Let_def)
      moreover have "dc_neighborCount d = 16" using False t(3) by simp
      moreover have "dc_neighborLastSeen d \<noteq> []" using t(2) by auto
      from oldestIndex_min [OF this t(4)] have "?i < 16" "\<forall>j < 16. dc_neighborLastSeen d ! ?i \<le> dc_neighborLastSeen d ! j"
        using t(2) by simp_all
      ultimately show thesis using full absent [OF None] by simp
    qed
  qed
qed

lemma neighborSlot_less: "tableOk d \<Longrightarrow> neighborSlot n d = (slot, nc) \<Longrightarrow> slot < nc \<and> nc \<le> 16"
proof -
  assume t: "tableOk d" and s: "neighborSlot n d = (slot, nc)"
  then show ?thesis by (cases rule: neighborSlot_cases) (use t in \<open>auto simp: tableOk_def\<close>)
qed

lemma nb_nodeId_store [simp]: "nb_nodeId (storeBeacon b n) = bc_nodeId b"
  by (simp add: storeBeacon_def Let_def)

definition beaconFull :: "DaycareBeacon \<Rightarrow> bool" where
  "beaconFull b \<longleftrightarrow> beaconOk b \<and> list_all (\<lambda>e. pe_level e < 256) (bc_pokemon b)"

lemma length_copyParty [simp]: "length (copyParty b c ps) = 6" by (simp add: copyParty_def)

lemma nth_copyParty: "i < 6 \<Longrightarrow> copyParty b c ps ! i = (if i < c then copyEntry (bc_pokemon b ! i) (ps ! i) else ps ! i)"
  by (simp add: copyParty_def)

lemma neighborOk_store:
  assumes "beaconFull b" "neighborOk n"
  shows "neighborOk (storeBeacon b n)"
proof -
  have e: "pe_species (bc_pokemon b ! i) < 256" "pe_level (bc_pokemon b ! i) < 256" if "i < 6" for i
    using assms(1) that by (auto simp: beaconFull_def beaconOk_def list_all_length)
  have "entryOk (copyParty b c (nb_party n) ! i)" if "i < 6" for i c
    using e [OF that] assms(2) that by (auto simp: nth_copyParty copyEntry_def entryOk_def neighborOk_def list_all_length)
  then have "list_all entryOk (copyParty b c (nb_party n))" for c
    by (simp add: list_all_length)
  then show ?thesis
    using assms e [of 0] by (simp add: storeBeacon_def Let_def neighborOk_def nbOk_def beaconFull_def beaconOk_def)
qed

lemma movesUnknown_store:
  assumes "movesUnknown n" "length (nb_party n) = 6"
  shows "movesUnknown (storeBeacon b n)"
proof -
  have "pe_moves (copyParty b c (nb_party n) ! i) = [0, 0, 0, 0]" if "i < 6" for i c
    using assms that by (simp add: nth_copyParty copyEntry_def movesUnknown_def list_all_length)
  then show ?thesis
    by (simp add: storeBeacon_def Let_def movesUnknown_def list_all_length)
qed

lemma distinct_store:
  assumes "tableOk d" "nodesDistinct d" "neighborSlot (bc_nodeId b) d = (slot, nc)"
  shows "distinct (map nb_nodeId (take nc (upd_at slot (storeBeacon b) (dc_neighbors d))))"
proof -
  have len: "length (dc_neighbors d) = 16" "dc_neighborCount d \<le> 16" using assms(1) by (simp_all add: tableOk_def)
  have dist: "distinct (map nb_nodeId (take (dc_neighborCount d) (dc_neighbors d)))"
    using assms(2) by (simp add: nodesDistinct_def)
  from assms(1,3) show ?thesis
  proof (cases rule: neighborSlot_cases)
    case known
    have "map nb_nodeId (take nc (upd_at slot (storeBeacon b) (dc_neighbors d))) = map nb_nodeId (take nc (dc_neighbors d))"
      by (rule nth_equalityI) (use known len in \<open>auto simp: nth_upd_at\<close>)
    then show ?thesis using dist known(2) by simp
  next
    case room
    have "take nc (upd_at slot (storeBeacon b) (dc_neighbors d))
        = take (dc_neighborCount d) (dc_neighbors d) @ [storeBeacon b (dc_neighbors d ! slot)]"
      by (rule nth_equalityI) (use room len in \<open>auto simp: nth_append nth_upd_at less_Suc_eq\<close>)
    then show ?thesis using dist room(4) by auto
  next
    case full
    have "take nc (upd_at slot (storeBeacon b) (dc_neighbors d)) = (dc_neighbors d)[slot := storeBeacon b (dc_neighbors d ! slot)]"
      using full(2) len by (simp add: upd_at_def)
    then show ?thesis
      using dist full len by (auto intro!: distinct_map_update)
  qed
qed

lemma objOk_handleBeacon:
  assumes "objOk d" "beaconFull b" "now < 4294967296"
  shows "objOk (handleBeacon now b d)"
proof -
  define d1 where "d1 = meetNode b d"
  have node: "bc_nodeId b < 4294967296" using assms(2) by (simp add: beaconFull_def beaconOk_def)
  have d1: "objOk d1"
    unfolding d1_def meetNode_def
    using objOk_sameTable [OF assms(1)] objOkD [OF assms(1)] node dayOk_addKnownNode assms(1)
    by (simp add: sameTable_def)
  note d = objOkD [OF d1]
  obtain slot nc where sl: "neighborSlot (bc_nodeId b) d1 = (slot, nc)" by (cases "neighborSlot (bc_nodeId b) d1")
  have eq: "handleBeacon now b d = d1\<lparr>dc_neighbors := upd_at slot (storeBeacon b) (dc_neighbors d1),
      dc_neighborCount := nc, dc_neighborLastSeen := (dc_neighborLastSeen d1)[slot := now]\<rparr>"
    by (simp add: handleBeacon_def d1_def [symmetric] sl)
  have slot: "slot < 16" "nc \<le> 16" using neighborSlot_less [OF d(2) sl] by auto
  have nbs: "length (dc_neighbors d1) = 16" "list_all neighborOk (dc_neighbors d1)" using d(2) by (simp_all add: tableOk_def)
  have old: "neighborOk (dc_neighbors d1 ! slot)" "movesUnknown (dc_neighbors d1 ! slot)"
    using nbs slot d(4) by (simp_all add: list_all_length)
  have new: "neighborOk (storeBeacon b (dc_neighbors d1 ! slot))" "movesUnknown (storeBeacon b (dc_neighbors d1 ! slot))"
    using neighborOk_store [OF assms(2) old(1)] movesUnknown_store [OF old(2)] old(1) by (simp_all add: neighborOk_def)
  show ?thesis
    using d new slot assms(3) distinct_store [OF d(2,3) sl]
    by (simp add: objOk_def eq tableOk_def nodesDistinct_def upd_at_def list_all_update)
qed

subsection \<open>Check-in and check-out\<close>

lemma internalToDex_rows: "list_all (\<lambda>d. d \<le> 151) internalToDex" "length internalToDex = 256"
  by (simp_all add: internalToDex_def)

lemma monOk_enterSlot: "dex < 256 \<Longrightarrow> lv < 256 \<Longrightarrow> xp < 4294967296 \<Longrightarrow> monOk p \<Longrightarrow> monOk (enterSlot dex lv xp nick p)"
  by (auto simp: enterSlot_def monOk_def emptyPokemon_def)

lemma readParty_range:
  assumes "i < length (readParty sram)"
  shows "pi_dexNum (readParty sram ! i) < 256" "pi_level (readParty sram ! i) < 256"
    "pi_totalExp (readParty sram ! i) < 4294967296" "length (readParty sram) \<le> 6"
proof -
  have i: "readParty sram ! i = readPartyMon sram i"
    using assms by (auto simp: readParty_def Let_def)
  have "internalToDex ! readU8 sram (pkmAt i) \<le> 151"
    using list_all_nth [OF internalToDex_rows(1)] by (simp add: internalToDex_rows)
  then show "pi_dexNum (readParty sram ! i) < 256" "pi_level (readParty sram ! i) < 256"
    "pi_totalExp (readParty sram ! i) < 4294967296"
    using readBE24_less [of sram "pkmAt i + PKM_EXP"] by (simp_all add: i readPartyMon_def Let_def)
qed (simp add: readParty_def Let_def)

lemma readParty_length: "length (readParty sram) \<le> 6" by (simp add: readParty_def Let_def)

lemma objOk_restore:
  assumes "objOk d" "\<forall>st. loaded = Some st \<longrightarrow> dayOk st"
  shows "objOk (restore loaded d)"
proof (cases loaded)
  case None
  then show ?thesis
    using objOkD [OF assms(1)]
    by (simp add: restore_def init_def objOk_def dayOk_empty tableOk_def nodesDistinct_def)
next
  case (Some st)
  then show ?thesis
    using objOkD [OF assms(1)] assms by (auto simp: restore_def sameTable_def intro!: objOk_sameTable [OF assms(1)])
qed

text \<open>Slots are entered in range, each keeping the state well formed.\<close>

lemma dayOk_enter:
  assumes "\<forall>i \<in> set is'. \<forall>p. monOk p \<longrightarrow> monOk (f i p)" "dayOk st"
  shows "dayOk (fold (\<lambda>i. onPokemon i (f i)) is' st)"
  using assms
proof (induction is' arbitrary: st)
  case (Cons i is')
  then show ?case by (simp add: dayOk_onPokemon)
qed simp

lemma objOk_open: "objOk d \<Longrightarrow> now < 4294967296 \<Longrightarrow> objOk (openDaycare sn gn now d)"
  unfolding openDaycare_def
  by (rule objOk_sameTable [where d = d])
    (auto simp: sameTable_def dest: objOkD intro!: dayOk_lastBeaconMs dayOk_lastEventMs)

lemma objOk_checkIn:
  assumes "objOk d" "\<forall>st. loaded = Some st \<longrightarrow> dayOk st" "now < 4294967296"
  shows "objOk (checkIn loaded sram sn gn now d)"
  unfolding checkIn_def Let_def
  by (intro objOk_open objOk_onState objOk_restore dayOk_enter dayOk_partyCount assms objOkD(1) ballI allI impI monOk_enterSlot)
    (auto simp: readParty_range readParty_length assms intro!: objOkD(1) objOk_restore dayOk_partyCount)

lemma expForLevel_range: "l < 256 \<Longrightarrow> expForLevel d l < 4294967296"
proof -
  assume l: "l < 256"
  have "l * l * l \<le> 255 * 255 * 255" using l by (intro mult_le_mono) simp_all
  then have n3: "l * l * l \<le> 16581375" by simp
  have "e < 4294967296" if "e = int (6 * (l * l * l) div 5) - int (15 * l * l) + int (100 * l) - 140" for e
  proof -
    have "6 * (l * l * l) div 5 \<le> 19897650" using n3 by linarith
    moreover have "int (100 * l) \<le> 25500" "0 \<le> int (15 * l * l)" using l by simp_all
    ultimately show ?thesis using that by linarith
  qed
  moreover have "4 * (l * l * l) div 5 < 4294967296" "5 * (l * l * l) div 4 < 4294967296" using n3 by linarith+
  ultimately show ?thesis using n3 by (auto simp: expForLevel_def expOfGrowth_def Let_def nat_less_iff)
qed

lemma objOk_checkInParty:
  assumes "objOk d" "\<forall>st. loaded = Some st \<longrightarrow> dayOk st" "now < 4294967296"
    and "n \<le> 6 \<longrightarrow> n \<le> length dexes" "6 < n \<longrightarrow> 6 \<le> length dexes" "list_all (\<lambda>x. x < 256) dexes"
    and "\<forall>ls. levels = Some ls \<longrightarrow> length dexes \<le> length ls \<and> list_all (\<lambda>x. x < 256) ls"
  shows "objOk (checkInParty loaded dexes levels nicks n sn gn now d)"
proof -
  define c where "c = (if n > 6 then 6 else n)"
  have c: "c \<le> 6" "c \<le> length dexes" using assms(4,5) by (auto simp: c_def)
  have dex: "dexes ! i < 256" if "i < c" for i using that c assms(6) by (simp add: list_all_length)
  have lv: "ls ! i < 256" if "levels = Some ls" "i < c" for ls i
    using that c assms(7) by (auto simp: list_all_length)
  show ?thesis
    unfolding checkInParty_def Let_def c_def [symmetric]
    by (intro objOk_open objOk_onState objOk_restore dayOk_enter dayOk_partyCount assms(1,2,3) objOkD(1) ballI allI impI monOk_enterSlot)
      (auto simp: c dex lv expForLevel_range assms intro!: objOkD(1) objOk_restore dayOk_partyCount split: option.split)
qed

lemma objOk_saveState: "objOk d \<Longrightarrow> objOk (saveState d)"
  unfolding saveState_def by (rule objOk_sameTable [where d = d]) (auto simp: sameTable_def dest: objOkD)

lemma objOk_checkOut: "objOk d \<Longrightarrow> objOk (snd (checkOut sram d))"
  unfolding checkOut_def
  by (simp, rule objOk_saveState, rule objOk_sameTable [where d = d]) (auto simp: sameTable_def dest: objOkD)

subsection \<open>The other calls\<close>

lemma objOk_broadcast: "objOk d \<Longrightarrow> objOk (broadcastBeacon d)"
  unfolding broadcastBeacon_def
  by (cases "dc_sendBeacon d") (auto simp: sameTable_def dest: objOkD intro!: objOk_sameTable [where d = d])

lemma objOk_forceBeacon: "objOk d \<Longrightarrow> now < 4294967296 \<Longrightarrow> objOk (forceBeacon now d)"
  unfolding forceBeacon_def by (intro objOk_onState objOk_broadcast dayOk_lastBeaconMs objOkD(1))

lemma dayOk_weather: "dayOk st \<Longrightarrow> dayOk (updateWeatherCounters w st)"
  by (cases w) (auto simp: updateWeatherCounters_def dayOk_unfold Let_def)

lemma objOk_setWeather: "objOk d \<Longrightarrow> objOk (setWeather w d)"
  unfolding setWeather_def
  by (rule objOk_onState, rule objOk_sameTable [where d = d]) (auto simp: sameTable_def dest: objOkD intro: dayOk_weather)

lemma objOk_arrival:
  assumes "objOk d" "beaconFull b" "bc_partyCount b \<le> 6" "now < 4294967296"
  shows "\<exists>r d'. triggerArrivalEvent now b d = Some (r, d') \<and> objOk d'"
proof (cases "\<not> dc_active d \<or> ds_partyCount (dc_state d) = 0 \<or> bc_partyCount b = 0")
  case True
  then have "triggerArrivalEvent now b d = Some (False, d)" by (auto simp: triggerArrivalEvent_def)
  then show ?thesis using assms(1) by blast
next
  case False
  then obtain ev st where g: "generateArrivalEvent now b (dc_shortName d) (dc_gameName d) (dc_state d) = Some (ev, st)" "dayOk st"
    using arrival_ok [OF objOkD(1) [OF assms(1)] _ assms(4) _ assms(3), of "dc_shortName d" "dc_gameName d"] assms(2)
    by (auto simp: beaconFull_def)
  show ?thesis
    unfolding triggerArrivalEvent_def
    using False g objOkD [OF assms(1)] assms(1)
    by (auto simp: sameTable_def Let_def intro!: objOk_sameTable [where d = d] dayOk_totalEvents dayOk_applyArrivalXp)
qed

lemma tick_parts:
  assumes "objOk d" "now < 4294967296"
  shows "objOk (tickBeacon now d)" "objOk (tickMood now d)" "objOk (tickDecay now d)" "objOk (tickSave now d)"
    "objOk (tickEvent now night d)"
proof -
  show "objOk (tickBeacon now d)"
    unfolding tickBeacon_def using assms by (auto intro!: objOk_onState objOk_broadcast dayOk_lastBeaconMs objOkD(1))
  show "objOk (tickMood now d)"
    unfolding tickMood_def
    using objOk_updateMood(1) [OF assms(1)] assms
    by (auto simp: sameTable_def dest: objOkD intro!: objOk_sameTable [where d = "updateMood d"])
  show "objOk (tickDecay now d)"
    unfolding tickDecay_def using assms by (auto intro!: objOk_onState objOk_decayFriendships dayOk_lastDecay objOkD(1))
  show "objOk (tickSave now d)"
    unfolding tickSave_def
    using objOk_saveState [OF assms(1)] assms
    by (auto simp: sameTable_def dest: objOkD intro!: objOk_sameTable [where d = "saveState d"])
  show "objOk (tickEvent now night d)"
    unfolding tickEvent_def using assms by (auto intro!: objOk_onState objOk_runEventCycle dayOk_lastEventMs objOkD(1))
qed

lemma objOk_tick: "objOk d \<Longrightarrow> now < 4294967296 \<Longrightarrow> objOk (tick now night d)"
  unfolding tick_def
  by (auto intro!: tick_parts objOk_expire)

subsection \<open>Every run\<close>

datatype call =
    Restart
  | CheckIn "DaycareState option" "byte list" string string nat
  | CheckInParty "DaycareState option" "nat list" "nat list option" "string list option" nat string string nat
  | CheckOut "byte list option"
  | Tick nat bool
  | Beacon nat DaycareBeacon
  | Arrival nat DaycareBeacon
  | Weather DaycareWeatherType
  | ForceEvent nat bool
  | ForceBeacon nat

fun runCall :: "call \<Rightarrow> PokemonDaycare \<Rightarrow> PokemonDaycare" where
  "runCall Restart d = init d"
| "runCall (CheckIn loaded sram sn gn now) d = checkIn loaded sram sn gn now d"
| "runCall (CheckInParty loaded dexes levels nicks n sn gn now) d = checkInParty loaded dexes levels nicks n sn gn now d"
| "runCall (CheckOut sram) d = snd (checkOut sram d)"
| "runCall (Tick now night) d = tick now night d"
| "runCall (Beacon now b) d = handleBeacon now b d"
| "runCall (Arrival now b) d = (case triggerArrivalEvent now b d of Some (_, d') \<Rightarrow> d' | None \<Rightarrow> d)"
| "runCall (Weather w) d = setWeather w d"
| "runCall (ForceEvent now night) d = forceEvent now night d"
| "runCall (ForceBeacon now) d = forceBeacon now d"

text \<open>
  What the callers pass: 32-bit times, bytes of a packet, arrays of matching lengths, and a saved
  state that was written by this component.  An arrival's count must fit the packet.
\<close>

fun callOk :: "call \<Rightarrow> bool" where
  "callOk Restart \<longleftrightarrow> True"
| "callOk (CheckIn loaded sram sn gn now) \<longleftrightarrow> (\<forall>st. loaded = Some st \<longrightarrow> dayOk st) \<and> now < 4294967296"
| "callOk (CheckInParty loaded dexes levels nicks n sn gn now) \<longleftrightarrow>
     (\<forall>st. loaded = Some st \<longrightarrow> dayOk st) \<and> now < 4294967296 \<and> n \<le> length dexes \<and> list_all (\<lambda>x. x < 256) dexes
     \<and> (\<forall>ls. levels = Some ls \<longrightarrow> length dexes \<le> length ls \<and> list_all (\<lambda>x. x < 256) ls)"
| "callOk (CheckOut sram) \<longleftrightarrow> True"
| "callOk (Tick now night) \<longleftrightarrow> now < 4294967296"
| "callOk (Beacon now b) \<longleftrightarrow> now < 4294967296 \<and> beaconFull b"
| "callOk (Arrival now b) \<longleftrightarrow> now < 4294967296 \<and> beaconFull b \<and> bc_partyCount b \<le> 6"
| "callOk (Weather w) \<longleftrightarrow> True"
| "callOk (ForceEvent now night) \<longleftrightarrow> now < 4294967296"
| "callOk (ForceBeacon now) \<longleftrightarrow> now < 4294967296"

lemma objOk_call: "objOk d \<Longrightarrow> callOk c \<Longrightarrow> objOk (runCall c d)"
proof (cases c)
  case (Arrival now b)
  assume "objOk d" "callOk c"
  then show ?thesis using objOk_arrival [of d b now] Arrival by auto
next
  case Restart
  assume "objOk d"
  then show ?thesis using objOk_restore [of d None] Restart by (simp add: restore_def)
next
  case (ForceEvent now night)
  assume "objOk d" "callOk c"
  then show ?thesis
    using ForceEvent by (auto simp: forceEvent_def intro!: objOk_onState objOk_runEventCycle dayOk_lastEventMs objOkD(1))
qed (auto intro!: objOk_checkIn objOk_checkInParty objOk_checkOut objOk_tick objOk_handleBeacon objOk_setWeather objOk_forceBeacon)

interpretation daycare: transition_system "\<lambda>d. \<exists>bc sb. d = newDaycare bc sb" runCall callOk objOk
  by unfold_locales (auto intro: objOk_new objOk_call)

end
