(* ===== verification/DaycareRules.thy ===== *)
theory DaycareRules
  imports DaycareReach
begin

text \<open>
  The properties of the daycare: what holds in every reachable object (through the interpretation
  \<open>daycare\<close> of the transition-system interface), the neighbour table as a filtered list and as a
  registry, the timers, the moods, and how experience flows into the cartridge.
\<close>

subsection \<open>Every reachable object\<close>

lemma reachable: "list_all callOk cs \<Longrightarrow> objOk (fold runCall cs (newDaycare bc sb))"
  by (rule daycare.reach_inv) auto

text \<open>A run used by the witnesses: a beacon, a check-in and two ticks.\<close>

definition sampleRun :: "call list" where
  "sampleRun = [Beacon 1000 (smallBeacon 1), CheckInParty None [25] (Some [5]) None 1 ''ABCD'' ''RED'' 2000,
     Tick 400000 False, Tick 700000 True]"

lemma sampleRun_ok: "list_all callOk sampleRun"
  by (simp add: sampleRun_def beaconFull_def smallBeacon_ok, simp add: smallBeacon_def emptyEntry_def list_all_iff)





text \<open>
  Two achievements can never be granted: no call increments the count of won spars, and nothing
  grants the full-moon achievement.
\<close>

theorem achievements_out_of_reach:
  assumes "list_all callOk cs"
  shows "let st = dc_state (fold runCall cs (newDaycare bc sb)) in
    ds_totalSparWins st = 0 \<and> \<not> hasAchievement (ds_achievementFlags st) ACH_UNSTOPPABLE_FORCE
    \<and> \<not> hasAchievement (ds_achievementFlags st) ACH_FULL_MOON"
  using reachable [OF assms, of bc sb] by (simp add: Let_def objOk_def dayOk_def neverGranted_def)

theorem achievements_out_of_reach_witness:
  "let st = dc_state (fold runCall sampleRun (newDaycare True True)) in
    ds_totalSparWins st = 0 \<and> \<not> hasAchievement (ds_achievementFlags st) ACH_UNSTOPPABLE_FORCE
    \<and> \<not> hasAchievement (ds_achievementFlags st) ACH_FULL_MOON"
  by (rule achievements_out_of_reach [OF sampleRun_ok])

text \<open>
  The moves a beacon carries are never copied: after any sequence of calls every party entry of
  every neighbour has four empty moves.
\<close>

theorem neighbor_moves_never_known:
  assumes "list_all callOk cs"
  shows "let d = fold runCall cs (newDaycare bc sb) in
    list_all (\<lambda>n. list_all (\<lambda>e. pe_moves e = [0, 0, 0, 0]) (nb_party n)) (dc_neighbors d)"
  using reachable [OF assms, of bc sb] by (simp add: Let_def objOk_def movesUnknown_def [abs_def])

theorem neighbor_moves_never_known_witness:
  "let d = fold runCall sampleRun (newDaycare True True) in
    list_all (\<lambda>n. list_all (\<lambda>e. pe_moves e = [0, 0, 0, 0]) (nb_party n)) (dc_neighbors d)"
  by (rule neighbor_moves_never_known [OF sampleRun_ok])

subsection \<open>The neighbour table\<close>

text \<open>
  Expiry refines a filter: read as a list of neighbours with the time each was last heard of, the
  table after \<open>expireNeighbors\<close> is the table before without the entries older than two hours
  (modulo the wrap of the clock), in the same order.
\<close>

lemma expire_is_filter:
  assumes "objOk d"
  shows "neighborTable (expireNeighbors now d) = filter (\<lambda>(n, t). sub32 now t \<le> NEIGHBOR_TIMEOUT_MS) (neighborTable d)"
  using expireNeighbors_spec(1) [OF objOkD(2) [OF assms], of now]
  by (simp add: fresh_def case_prod_unfold cong: filter_cong)

lemma expire_is_filter_witness:
  "neighborTable (expireNeighbors 9000000 (fold runCall sampleRun (newDaycare True True)))
   = filter (\<lambda>(n, t). sub32 9000000 t \<le> NEIGHBOR_TIMEOUT_MS) (neighborTable (fold runCall sampleRun (newDaycare True True)))"
  by (rule expire_is_filter [OF reachable [OF sampleRun_ok]])

lemma handleBeacon_fields:
  assumes "neighborSlot (bc_nodeId b) d = (slot, nc)"
  shows "dc_neighbors (handleBeacon now b d) = upd_at slot (storeBeacon b) (dc_neighbors d)"
    "dc_neighborCount (handleBeacon now b d) = nc"
    "dc_neighborLastSeen (handleBeacon now b d) = (dc_neighborLastSeen d)[slot := now]"
    "dc_state (handleBeacon now b d) = addKnownNode (bc_nodeId b) (dc_state d)"
proof -
  have "neighborSlot n (meetNode b d) = neighborSlot n d" for n
    by (auto simp: meetNode_def neighborSlot_def Let_def split: option.split)
  then have "neighborSlot (bc_nodeId b) (meetNode b d) = (slot, nc)" using assms by simp
  then show "dc_neighbors (handleBeacon now b d) = upd_at slot (storeBeacon b) (dc_neighbors d)"
    "dc_neighborCount (handleBeacon now b d) = nc"
    "dc_neighborLastSeen (handleBeacon now b d) = (dc_neighborLastSeen d)[slot := now]"
    "dc_state (handleBeacon now b d) = addKnownNode (bc_nodeId b) (dc_state d)"
    by (simp_all add: handleBeacon_def meetNode_def addKnownNode_def)
qed



subsection \<open>The timers\<close>

text \<open>What a step of the tick leaves alone.\<close>

definition frame :: "PokemonDaycare \<Rightarrow> (nat \<times> nat \<times> nat) \<times> bool \<times> nat \<times> nat \<times> nat" where
  "frame d = (timers (dc_state d), dc_active d, ds_partyCount (dc_state d), dc_lastMoodMs d, dc_lastSaveMs d)"

lemma frame_updateMood: "frame (updateMood d) = frame d"
proof -
  have one: "frame (updateMoodOne i e) = frame e" for i e
    by (simp add: updateMoodOne_def frame_def Let_def onState_def split: prod.split)
  have "frame (fold updateMoodOne is' e) = frame e" for is' e
    by (induction is' arbitrary: e) (simp_all add: one)
  then show ?thesis by (simp add: updateMood_def)
qed

lemma frame_simple:
  "frame (broadcastBeacon d) = frame d" "frame (decayFriendships now d) = frame d" "frame (saveState d) = frame d"
  "frame (expireNeighbors now d) = frame d"
  by (simp_all add: frame_def broadcastBeacon_def decayFriendships_def saveState_def expireNeighbors_def onState_def
      split: prod.split)

lemma timers_event_steps:
  "timers (applyEventXp ev st) = timers st" "timers (updateEventCounters ev i st) = timers st"
  "timers (addHours st) = timers st" "timers (snd (checkAchievements now nc k st)) = timers st"
  "ds_partyCount (updateEventCounters ev i st) = ds_partyCount st"
  "ds_partyCount (snd (checkAchievements now nc k st)) = ds_partyCount st"
proof -
  have "timers (fold (\<lambda>i. onPokemon i addHour) is' st') = timers st'" for is' st'
    by (induction is' arbitrary: st') simp_all
  then show "timers (addHours st) = timers st" by (simp add: addHours_def)
  show "timers (snd (checkAchievements now nc k st)) = timers st"
    "ds_partyCount (snd (checkAchievements now nc k st)) = ds_partyCount st"
    by (simp_all add: checkAchievements_eq Let_def timers_def)
qed (simp_all add: applyEventXp_def updateEventCounters_def)

lemma frame_runEventCycle:
  assumes "objOk d" "now < 4294967296"
  shows "frame (runEventCycle now night d) = frame d"
proof -
  let ?st = "addHours (dc_state d)"
  note d = objOkD [OF assms(1)]
  obtain ev st1 where g: "generate now (dc_neighbors d) (dc_neighborCount d) (dc_weather d) night (dc_lastNewNodeId d) ?st = (ev, st1)"
    by (cases "generate now (dc_neighbors d) (dc_neighborCount d) (dc_weather d) night (dc_lastNewNodeId d) ?st")
  have st1: "dayOk st1" "timers st1 = timers (dc_state d)" "ds_partyCount st1 = ds_partyCount (dc_state d)"
    using generate_ok [of ?st now "dc_lastNewNodeId d" "dc_neighborCount d" "dc_neighbors d" "dc_weather d" night]
      g d assms(2) dayOk_addHours [OF d(1)] tableOk_neighbors [OF d(2)] by (simp_all add: tableOk_def timers_event_steps)
  define st2 where "st2 = (updateEventCounters ev (ev_targetSpeciesIdx ev) (applyEventXp ev st1))
      \<lparr>ds_totalEvents := u32 (ds_totalEvents (updateEventCounters ev (ev_targetSpeciesIdx ev) (applyEventXp ev st1)) + 1)\<rparr>"
  have "timers st2 = timers (dc_state d)" "ds_partyCount st2 = ds_partyCount (dc_state d)"
    using st1 dayOk_applyEventXp [OF st1(1)] by (simp_all add: st2_def timers_event_steps)
  moreover obtain new st3 where c: "checkAchievements now (dc_neighborCount d) 4 st2 = (new, st3)"
    by (cases "checkAchievements now (dc_neighborCount d) 4 st2")
  moreover have "timers st3 = timers st2" "ds_partyCount st3 = ds_partyCount st2"
    using timers_event_steps(4,6) [of now "dc_neighborCount d" 4 st2] by (simp_all add: c)
  ultimately show ?thesis
    unfolding runEventCycle_def g Let_def prod.case st2_def [symmetric] c by (simp add: frame_def)
qed

lemma not_due_self: "now < 4294967296 \<Longrightarrow> 0 < interval \<Longrightarrow> \<not> due now now interval"
  by (simp add: due_def)

definition body :: "PokemonDaycare \<Rightarrow> bool \<times> nat" where
  "body d = (dc_active d, ds_partyCount (dc_state d))"

text \<open>Each step leaves its own timer quiet and changes no other.\<close>

lemma tick_steps:
  assumes "objOk d" "now < 4294967296"
  shows "\<not> due now (ds_lastBeaconMs (dc_state (tickBeacon now d))) BEACON_INTERVAL_MS"
    and "\<not> due now (dc_lastMoodMs (tickMood now d)) MOOD_UPDATE_MS"
    and "\<not> due now (ds_lastFriendshipDecayMs (dc_state (tickDecay now d))) DECAY_INTERVAL_MS"
    and "\<not> due now (ds_lastEventMs (dc_state (tickEvent now night d))) EVENT_INTERVAL_MS"
    and "\<not> due now (dc_lastSaveMs (tickSave now d)) SAVE_INTERVAL_MS"
    and "timers (dc_state (tickMood now d)) = timers (dc_state d)"
    and "ds_lastBeaconMs (dc_state (tickDecay now d)) = ds_lastBeaconMs (dc_state d)"
    and "dc_lastMoodMs (tickDecay now d) = dc_lastMoodMs d"
    and "ds_lastBeaconMs (dc_state (tickEvent now night d)) = ds_lastBeaconMs (dc_state d)"
    and "ds_lastFriendshipDecayMs (dc_state (tickEvent now night d)) = ds_lastFriendshipDecayMs (dc_state d)"
    and "dc_lastMoodMs (tickEvent now night d) = dc_lastMoodMs d"
    and "timers (dc_state (tickSave now d)) = timers (dc_state d)"
    and "dc_lastMoodMs (tickSave now d) = dc_lastMoodMs d"
    and "body (tickBeacon now d) = body d" and "body (tickMood now d) = body d" and "body (tickDecay now d) = body d"
    and "body (tickEvent now night d) = body d" and "body (tickSave now d) = body d" and "body (expireNeighbors now d) = body d"
  using frame_updateMood [of d] frame_simple(1,3) [where d = d] frame_simple(2,4) [where d = d and now = now]
    frame_runEventCycle [OF assms, of night] assms(2)
  by (auto simp: tickBeacon_def tickMood_def tickDecay_def tickEvent_def tickSave_def onState_def frame_def timers_def
      not_due_self body_def)

lemma expire_again: "tableOk d \<Longrightarrow> expireNeighbors now (expireNeighbors now d) = expireNeighbors now d"
proof -
  assume t: "tableOk d"
  define e where "e = expireNeighbors now d"
  have te: "tableOk e" and fe: "neighborTable e = filter (fresh now) (neighborTable d)"
    using expireNeighbors_spec [OF t, of now] by (simp_all add: e_def)
  have all: "\<not> sub32 now (dc_neighborLastSeen e ! i) > NEIGHBOR_TIMEOUT_MS" if "i < dc_neighborCount e" for i
  proof -
    have "neighborTable e ! i \<in> set (neighborTable e)" using that te by (intro nth_mem) (simp add: neighborTable_def tableOk_def)
    then have "fresh now (neighborTable e ! i)" unfolding fe by simp
    then show ?thesis using that te by (simp add: fresh_def neighborTable_def tableOk_def)
  qed
  have "expireFrom now i (dc_neighborCount e) (dc_neighbors e) (dc_neighborLastSeen e)
      = (dc_neighborCount e, dc_neighbors e, dc_neighborLastSeen e)" for i
  proof (induction "dc_neighborCount e - i" arbitrary: i)
    case 0
    then show ?case by (subst expireFrom.simps) simp
  next
    case (Suc k)
    have "k = dc_neighborCount e - Suc i" using Suc(2) by simp
    from Suc(1) [OF this] show ?case using all [of i] Suc(2) by (subst expireFrom.simps) auto
  qed
  then have "expireNeighbors now e = e" by (simp add: expireNeighbors_def)
  then show "expireNeighbors now (expireNeighbors now d) = expireNeighbors now d" by (simp add: e_def)
qed

text \<open>
  C38 A tick is rate-limited by its timers alone: a second tick at the same time changes nothing,
  whatever the hour test says, even across the wrap of the 32-bit clock.
\<close>

theorem tick_idempotent:
  assumes "objOk d" "now < 4294967296"
  shows "tick now night' (tick now night d) = tick now night d"
proof (cases "\<not> dc_active d \<or> ds_partyCount (dc_state d) = 0")
  case True
  then show ?thesis by (auto simp: tick_def)
next
  case False
  define a where "a = tickBeacon now d"
  define b where "b = tickMood now a"
  define c where "c = tickDecay now b"
  define e where "e = tickEvent now night c"
  define x where "x = expireNeighbors now e"
  define f where "f = tickSave now x"
  have ok: "objOk a" "objOk b" "objOk c" "objOk e" "objOk x"
    using assms tick_parts objOk_expire by (simp_all add: a_def b_def c_def e_def x_def)
  have x: "dc_state x = dc_state e" "dc_lastMoodMs x = dc_lastMoodMs e"
    by (simp_all add: x_def expireNeighbors_def split: prod.split)
  have f: "expireNeighbors now f = f"
  proof -
    have same: "expireNeighbors now x = x" unfolding x_def by (rule expire_again [OF objOkD(2) [OF ok(4)]])
    obtain nc ns seen where r: "expireFrom now 0 (dc_neighborCount x) (dc_neighbors x) (dc_neighborLastSeen x) = (nc, ns, seen)"
      by (cases "expireFrom now 0 (dc_neighborCount x) (dc_neighbors x) (dc_neighborLastSeen x)")
    have u: "x\<lparr>dc_neighborCount := nc, dc_neighbors := ns, dc_neighborLastSeen := seen\<rparr> = x"
      using same by (simp add: expireNeighbors_def r)
    have "nc = dc_neighborCount x" "ns = dc_neighbors x" "seen = dc_neighborLastSeen x"
      using arg_cong [OF u, of dc_neighborCount] arg_cong [OF u, of dc_neighbors] arg_cong [OF u, of dc_neighborLastSeen]
      by simp_all
    then show ?thesis by (simp add: f_def tickSave_def saveState_def expireNeighbors_def r)
  qed
  note sa = tick_steps [OF assms, folded a_def] and sb = tick_steps [OF ok(1) assms(2), folded b_def]
    and sc = tick_steps [OF ok(2) assms(2), folded c_def] and se = tick_steps(4,9-11,17) [OF ok(3) assms(2), where night = night, folded e_def]
    and sx = tick_steps [OF ok(4) assms(2), folded x_def] and sf = tick_steps [OF ok(5) assms(2), folded f_def]
  have act: "dc_active f = dc_active d" "ds_partyCount (dc_state f) = ds_partyCount (dc_state d)"
    using sa(14) sb(15) sc(16) se(5) sx(19) sf(18) by (simp_all add: body_def)
  have quiet: "\<not> due now (ds_lastBeaconMs (dc_state f)) BEACON_INTERVAL_MS" "\<not> due now (dc_lastMoodMs f) MOOD_UPDATE_MS"
    "\<not> due now (ds_lastFriendshipDecayMs (dc_state f)) DECAY_INTERVAL_MS"
    "\<not> due now (ds_lastEventMs (dc_state f)) EVENT_INTERVAL_MS" "\<not> due now (dc_lastSaveMs f) SAVE_INTERVAL_MS"
    using sa(1) sb(2,6) sc(3,7,8) se(1-4) sf(5,12,13) x by (simp_all add: timers_def)
  have t: "tick now night d = f" using False by (simp add: tick_def a_def b_def c_def e_def x_def f_def)
  have "tickBeacon now f = f" "tickMood now f = f" "tickDecay now f = f" "tickEvent now night' f = f" "tickSave now f = f"
    using quiet by (simp_all add: tickBeacon_def tickMood_def tickDecay_def tickEvent_def tickSave_def)
  then show ?thesis unfolding t by (simp add: tick_def f)
qed

theorem tick_idempotent_witness:
  "tick 4000000000 True (tick 4000000000 False (fold runCall sampleRun (newDaycare True True)))
   = tick 4000000000 False (fold runCall sampleRun (newDaycare True True))"
  by (rule tick_idempotent [OF reachable [OF sampleRun_ok]]) simp

end
