(* ===== verification/DaycareMoods.thy ===== *)
theory DaycareMoods
  imports DaycareReach
begin

text \<open>
  Moods settle: while neighbours are present every monster becomes happy within twelve mood updates,
  although all monsters share one counter of excited ticks.  The pass over the party is first read as a
  pass over the list of moods, on which a measure decreases.
\<close>

subsection \<open>A pass over the moods\<close>

fun moodPass :: "DaycareMood list \<Rightarrow> nat \<Rightarrow> DaycareMood list \<times> nat" where
  "moodPass [] t = ([], t)"
| "moodPass (m # ms) t =
     (case moodWithNeighbors m t of (m', t1) \<Rightarrow> (case moodPass ms t1 of (ms', t2) \<Rightarrow> (m' # ms', t2)))"

definition moods :: "PokemonDaycare \<Rightarrow> DaycareMood list" where
  "moods d = map dp_mood (take (ds_partyCount (dc_state d)) (ds_pokemon (dc_state d)))"

lemma moodPass_append:
  "moodPass (xs @ ys) t = (case moodPass xs t of (xs', t1) \<Rightarrow> (case moodPass ys t1 of (ys', t2) \<Rightarrow> (xs' @ ys', t2)))"
  by (induction xs arbitrary: t) (auto split: prod.split)

lemma length_moodPass: "length (fst (moodPass ms t)) = length ms"
  by (induction ms arbitrary: t) (auto split: prod.split, metis fst_conv)

text \<open>The first \<open>k\<close> slots have been passed.\<close>

lemma updateMood_prefix:
  assumes "length (ds_pokemon (dc_state d)) = 6" "k \<le> 6" "0 < dc_neighborCount d"
  shows "let e = fold updateMoodOne [0..<k] d; ps = map dp_mood (ds_pokemon (dc_state d)) in
    map dp_mood (ds_pokemon (dc_state e)) = fst (moodPass (take k ps) (dc_excitedTicks d)) @ drop k ps
    \<and> dc_excitedTicks e = snd (moodPass (take k ps) (dc_excitedTicks d))
    \<and> dc_neighborCount e = dc_neighborCount d \<and> ds_partyCount (dc_state e) = ds_partyCount (dc_state d)
    \<and> length (ds_pokemon (dc_state e)) = 6"
  using assms(2)
proof (induction k)
  case 0
  then show ?case using assms(1) by (simp add: Let_def)
next
  case (Suc k)
  let ?ps = "map dp_mood (ds_pokemon (dc_state d))"
  define e where "e = fold updateMoodOne [0..<k] d"
  obtain ms t where p: "moodPass (take k ?ps) (dc_excitedTicks d) = (ms, t)"
    by (cases "moodPass (take k ?ps) (dc_excitedTicks d)")
  have e: "map dp_mood (ds_pokemon (dc_state e)) = ms @ drop k ?ps" "dc_excitedTicks e = t"
    "dc_neighborCount e = dc_neighborCount d" "ds_partyCount (dc_state e) = ds_partyCount (dc_state d)"
    "length (ds_pokemon (dc_state e)) = 6"
    using Suc.IH Suc.prems by (simp_all add: Let_def e_def [symmetric] p)
  have k: "k < length ?ps" using Suc.prems assms(1) by simp
  have ms: "length ms = k" using length_moodPass [of "take k ?ps" "dc_excitedTicks d"] k by (simp add: p)
  obtain m1 t1 where m: "moodWithNeighbors (?ps ! k) t = (m1, t1)" by (cases "moodWithNeighbors (?ps ! k) t")
  have "dp_mood (ds_pokemon (dc_state e) ! k) = ?ps ! k"
    using arg_cong [OF e(1), of "\<lambda>xs. xs ! k"] k ms e(5) Suc.prems by (simp add: nth_append)
  then have one: "updateMoodOne k e = (onState (onPokemon k (\<lambda>p. p\<lparr>dp_mood := m1\<rparr>)) e)\<lparr>dc_excitedTicks := t1\<rparr>"
    using e assms(3) m by (simp add: updateMoodOne_def)
  have "map dp_mood (ds_pokemon (dc_state (updateMoodOne k e))) = (map dp_mood (ds_pokemon (dc_state e)))[k := m1]"
    by (simp add: one onPokemon_def upd_at_def map_update)
  also have "\<dots> = (ms @ [m1]) @ drop (Suc k) ?ps"
    using k ms by (simp add: e(1) list_update_append Cons_nth_drop_Suc [symmetric])
  finally show ?case
    using k e m one by (simp add: Let_def e_def [symmetric] take_Suc_conv_app_nth moodPass_append p onState_def onPokemon_def)
qed

lemma moods_updateMood:
  assumes "objOk d" "0 < dc_neighborCount d"
  shows "moods (updateMood d) = fst (moodPass (moods d) (dc_excitedTicks d))"
    "dc_excitedTicks (updateMood d) = snd (moodPass (moods d) (dc_excitedTicks d))"
    "dc_neighborCount (updateMood d) = dc_neighborCount d"
proof -
  let ?n = "ds_partyCount (dc_state d)" and ?ps = "map dp_mood (ds_pokemon (dc_state d))"
  have n: "length (ds_pokemon (dc_state d)) = 6" "?n \<le> 6" using dayOk_sizes [OF objOkD(1) [OF assms(1)]] by simp_all
  have take: "take ?n ?ps = moods d" by (simp add: moods_def take_map)
  note p = updateMood_prefix [OF n assms(2), folded updateMood_def, unfolded Let_def take]
  have "length (fst (moodPass (moods d) (dc_excitedTicks d))) = ?n"
    using n by (simp add: length_moodPass moods_def)
  then show "moods (updateMood d) = fst (moodPass (moods d) (dc_excitedTicks d))"
    "dc_excitedTicks (updateMood d) = snd (moodPass (moods d) (dc_excitedTicks d))"
    "dc_neighborCount (updateMood d) = dc_neighborCount d"
    using p by (simp_all add: moods_def [of "updateMood d"] flip: take_map)
qed

subsection \<open>The measure\<close>

definition unsettled :: "DaycareMood list \<Rightarrow> nat" where
  "unsettled ms = countIf (\<lambda>m. m = MOOD_LONELY \<or> m = MOOD_EXCITED) ms"

text \<open>One pass ticks once per unsettled monster, and every fifth tick settles one.\<close>

lemma moodPass_measure:
  "t < 5 \<Longrightarrow> let (ms', t') = moodPass ms t in
     t' < 5 \<and> 5 * unsettled ms' + t + unsettled ms = 5 * unsettled ms + t'
     \<and> list_all (\<lambda>m. m = MOOD_HAPPY \<or> m = MOOD_EXCITED) ms'"
proof (induction ms arbitrary: t)
  case Nil
  then show ?case by (simp add: unsettled_def countIf_def)
next
  case (Cons m ms)
  obtain m1 t1 where m: "moodWithNeighbors m t = (m1, t1)" by (cases "moodWithNeighbors m t")
  have one: "t1 < 5 \<and> 5 * unsettled [m1] + t + unsettled [m] = 5 * unsettled [m] + t1 \<and> (m1 = MOOD_HAPPY \<or> m1 = MOOD_EXCITED)"
    using m Cons.prems by (cases m) (auto simp: moodWithNeighbors_def unsettled_def countIf_def Let_def split: if_splits)
  obtain ms' t2 where p: "moodPass ms t1 = (ms', t2)" by (cases "moodPass ms t1")
  have ih: "t2 < 5 \<and> 5 * unsettled ms' + t1 + unsettled ms = 5 * unsettled ms + t2
      \<and> list_all (\<lambda>m. m = MOOD_HAPPY \<or> m = MOOD_EXCITED) ms'"
    using Cons.IH [of t1] one by (simp add: p)
  have cons: "unsettled (x # xs) = unsettled [x] + unsettled xs" for x xs by (simp add: unsettled_def countIf_def)
  show ?case using one ih by (simp add: m p cons [of m1 ms'] cons [of m ms])
qed

lemma unsettled_le: "unsettled ms \<le> length ms" by (simp add: unsettled_def countIf_def)

lemma moods_length: "objOk d \<Longrightarrow> length (moods d) \<le> 6"
  using dayOk_sizes [OF objOkD(1)] by (simp add: moods_def)

text \<open>What is left after \<open>k\<close> updates is at most the \<open>k\<close>-th entry.\<close>

definition leftAfter :: "nat list" where "leftAfter = [30, 24, 19, 15, 12, 9, 7, 5, 4, 3, 2, 1, 0]"

lemma leftAfter_step: "k < 12 \<Longrightarrow> v \<le> leftAfter ! k \<Longrightarrow> 5 * l \<le> v + 4 \<Longrightarrow> v \<le> 5 * l \<Longrightarrow> v - l \<le> leftAfter ! Suc k"
proof -
  assume a: "k < 12" "v \<le> leftAfter ! k" "5 * l \<le> v + 4" "v \<le> 5 * l"
  have "k = 0 \<or> k = 1 \<or> k = 2 \<or> k = 3 \<or> k = 4 \<or> k = 5 \<or> k = 6 \<or> k = 7 \<or> k = 8 \<or> k = 9 \<or> k = 10 \<or> k = 11"
    using a(1) by presburger
  then show ?thesis using a(2-4) by (auto simp: leftAfter_def)
qed

lemma leftAfter_0: "leftAfter ! 0 = 30" "leftAfter ! 12 = 0" by (simp_all add: leftAfter_def)

lemma objOk_moods: "objOk d \<Longrightarrow> objOk ((updateMood ^^ k) d)"
  by (induction k) (simp_all add: objOk_updateMood)

lemma mood_progress:
  assumes "objOk d" "0 < dc_neighborCount d" "dc_excitedTicks d < 5" "k \<le> 12"
  defines "e \<equiv> (updateMood ^^ k) d"
  shows "dc_excitedTicks e < 5 \<and> 0 < dc_neighborCount e
    \<and> 5 * unsettled (moods e) - dc_excitedTicks e \<le> leftAfter ! k
    \<and> (k = 0 \<or> list_all (\<lambda>m. m = MOOD_HAPPY \<or> m = MOOD_EXCITED) (moods e))"
  using assms(4) unfolding e_def
proof (induction k)
  case 0
  then show ?case using assms(2,3) unsettled_le [of "moods d"] moods_length [OF assms(1)] by (simp add: leftAfter_0)
next
  case (Suc k)
  define f where "f = (updateMood ^^ k) d"
  have f: "objOk f" by (simp add: f_def objOk_moods assms(1))
  have ih: "dc_excitedTicks f < 5" "0 < dc_neighborCount f"
    "5 * unsettled (moods f) - dc_excitedTicks f \<le> leftAfter ! k"
    using Suc by (simp_all add: f_def)
  obtain ms t where p: "moodPass (moods f) (dc_excitedTicks f) = (ms, t)"
    by (cases "moodPass (moods f) (dc_excitedTicks f)")
  have m: "t < 5" "5 * unsettled ms + dc_excitedTicks f + unsettled (moods f) = 5 * unsettled (moods f) + t"
    "list_all (\<lambda>m. m = MOOD_HAPPY \<or> m = MOOD_EXCITED) ms"
    using moodPass_measure [OF ih(1), of "moods f"] by (simp_all add: p)
  have step: "(5 * unsettled (moods f) - dc_excitedTicks f) - unsettled (moods f) \<le> leftAfter ! Suc k"
    if "0 < unsettled (moods f)"
    by (rule leftAfter_step) (use Suc.prems ih(1,3) that in auto)
  have "5 * unsettled ms - t \<le> leftAfter ! Suc k"
    using m(2) step by (cases "unsettled (moods f) = 0") auto
  then show ?case
    using moods_updateMood [OF f ih(2)] m ih(2) by (simp add: p flip: f_def)
qed

text \<open>
  C39 Liveness of the moods: while at least one neighbour is in range, every monster of the party is
  happy after twelve mood updates, whatever its mood was; the excited phase of no monster can be
  prolonged for ever although all share one tick counter.
\<close>

theorem moods_settle:
  assumes "objOk d" "0 < dc_neighborCount d" "dc_excitedTicks d < 5"
  shows "list_all (\<lambda>m. m = MOOD_HAPPY) (moods ((updateMood ^^ 12) d))"
proof -
  define e where "e = (updateMood ^^ 12) d"
  have p: "5 * unsettled (moods e) - dc_excitedTicks e \<le> 0" "dc_excitedTicks e < 5"
    "list_all (\<lambda>m. m = MOOD_HAPPY \<or> m = MOOD_EXCITED) (moods e)"
    using mood_progress [OF assms, of 12] by (simp_all add: e_def leftAfter_0)
  then have "unsettled (moods e) = 0" by (cases "unsettled (moods e)") auto
  then have "MOOD_EXCITED \<notin> set (moods e)"
    by (auto simp: unsettled_def countIf_def filter_empty_conv)
  then show ?thesis using p(3) unfolding e_def [symmetric] by (auto simp: list_all_iff)
qed

text \<open>A Pikachu that has just been visited.\<close>

definition visited :: PokemonDaycare where
  "visited = handleBeacon 9 (smallBeacon 2) (checkInParty None [25] (Some [5]) None 1 ''ABCD'' ''RED'' 5 (newDaycare True True))"

lemma visited_ok: "objOk visited" "dc_neighborCount visited = 1" "dc_excitedTicks visited = 0" "length (moods visited) = 1"
proof -
  have "beaconFull (smallBeacon 2)"
    by (simp add: beaconFull_def smallBeacon_ok) (simp add: smallBeacon_def emptyEntry_def list_all_iff)
  then show "objOk visited"
    unfolding visited_def by (intro objOk_handleBeacon objOk_checkInParty objOk_new) simp_all
qed (simp_all add: visited_def handleBeacon_def meetNode_def neighborSlot_def newDaycare_def onState_def checkInParty_def
      openDaycare_def restore_def init_def moods_def emptyState_def onPokemon_def addKnownNode_def isKnownNode_def upd_at_def)

theorem moods_settle_witness: "list_all (\<lambda>m. m = MOOD_HAPPY) (moods ((updateMood ^^ 12) visited))"
  by (rule moods_settle) (simp_all add: visited_ok)

end
