(* ===== verification/SavRules.thy ===== *)
theory SavRules
  imports SavPatcher
begin

text \<open>
  What the save patcher guarantees: the addresses each operation may touch, the values it leaves in
  the experience, level, stat and move fields, and the validity of the checksum.
\<close>

subsection \<open>Addresses\<close>

text \<open>A full cartridge RAM.\<close>

definition sram_ok :: "byte list \<Rightarrow> bool" where
  "sram_ok s \<longleftrightarrow> length s = 32768"

definition statCells :: "nat \<Rightarrow> nat set" where
  "statCells i = {pkmAt i + 1, pkmAt i + 2} \<union> {pkmAt i + 34 ..< pkmAt i + 44}"

definition patchCells :: "nat \<Rightarrow> nat set" where
  "patchCells i = statCells i \<union> {pkmAt i + 3, pkmAt i + 14, pkmAt i + 15, pkmAt i + 16, pkmAt i + 33}"

definition moveCells :: "nat \<Rightarrow> nat set" where
  "moveCells i = {pkmAt i + 8 ..< pkmAt i + 12} \<union> {pkmAt i + 29 ..< pkmAt i + 33}"

lemma pkmAt_less: "i < 6 \<Longrightarrow> k < 44 \<Longrightarrow> pkmAt i + k < 12348"
  by (simp add: pkmAt_def SAV_POKEMON_DATA_def)

lemma pkmAt_sram: "sram_ok s \<Longrightarrow> i < 6 \<Longrightarrow> k < 44 \<Longrightarrow> pkmAt i + k < length s"
  using pkmAt_less [of i k] by (simp add: sram_ok_def)

text \<open>Records of different slots do not overlap.\<close>

lemma pkmAt_disjoint: "pkmAt i + k = pkmAt j + l \<Longrightarrow> k < 44 \<Longrightarrow> l < 44 \<Longrightarrow> i = j \<and> k = l"
proof -
  assume a: "pkmAt i + k = pkmAt j + l" "k < 44" "l < 44"
  then have eq: "i * 44 + k = j * 44 + l" by (simp add: pkmAt_def)
  have "(i * 44 + k) div 44 = i" "(j * 44 + l) div 44 = j" using a by simp_all
  with eq have "i = j" by simp
  with eq show ?thesis by simp
qed

lemma statCells_patchCells: "statCells i \<subseteq> patchCells i" by (auto simp: patchCells_def)

lemma recalcStats_outside: "outside (statCells i) s (recalcStats (pkmAt i) d lv s)"
proof (cases "d = 0 \<or> d > 151")
  case True
  then show ?thesis by (simp add: recalcStats_def)
next
  case False
  have "outside (statCells i) s
      (writeBE16 (pkmAt i + 42) a (writeBE16 (pkmAt i + 40) b (writeBE16 (pkmAt i + 38) c
        (writeBE16 (pkmAt i + 36) m (writeBE16 (pkmAt i + 34) e (writeBE16 (pkmAt i + 1) f s))))))" for a b c m e f
    by (intro outside_writeBE16 outside_refl) (simp_all add: statCells_def)
  with False show ?thesis by (simp add: recalcStats_def Let_def)
qed

lemma patchPokemon_outside: "outside (patchCells i) s (snd (patchPokemon i d xp s))"
proof (cases "i \<ge> 6 \<or> d = 0 \<or> d > 151")
  case True
  then show ?thesis by (simp add: patchPokemon_def)
next
  case False
  let ?t = "\<lambda>e l. writeU8 (pkmAt i + 33) l (writeU8 (pkmAt i + 3) l (writeBE24 (pkmAt i + 14) e s))"
  have "outside (patchCells i) s (?t e l)" for e l
    by (intro outside_intros) (simp_all add: patchCells_def)
  moreover have "outside (patchCells i) u (recalcStats (pkmAt i) d l u)" for l u
    using recalcStats_outside statCells_patchCells by (rule outside_mono)
  ultimately have "outside (patchCells i) s (recalcStats (pkmAt i) d l (?t e l))" for e l
    by (blast intro: outside_trans)
  with False show ?thesis by (simp add: patchPokemon_def Let_def)
qed

lemma setMove_outside: "outside (moveCells i) s (setMove i k m s)"
proof (cases "i \<ge> 6 \<or> k \<ge> 4")
  case True
  then show ?thesis by (simp add: setMove_def)
next
  case False
  have "outside (moveCells i) s (writeU8 (pkmAt i + (29 + k)) b (writeU8 (pkmAt i + (8 + k)) m s))" for b
    using False by (intro outside_writeU8 outside_refl) (simp_all add: moveCells_def)
  with False show ?thesis by (simp add: setMove_def)
qed

subsection \<open>Experience and level\<close>

lemma recalcStats_keeps:
  "a \<notin> statCells i \<Longrightarrow> readU8 (recalcStats (pkmAt i) d lv s) a = readU8 s a"
  using field8.unchanged [OF recalcStats_outside] by blast

lemma recalcStats_exp:
  "readBE24 (recalcStats (pkmAt i) d lv s) (pkmAt i + 14) = readBE24 s (pkmAt i + 14)"
  by (rule field24.unchanged [OF recalcStats_outside]) (auto simp: statCells_def)

lemma patch_level_spec:
  assumes "sram_ok s" "i < 6" "1 \<le> d" "d \<le> 151"
  shows "let (lv, t) = patchPokemon i d xp s; p = pkmAt i;
             e = min (u32 (readBE24 s (p + PKM_EXP) + xp)) (expForLevel d 100)
         in readBE24 t (p + PKM_EXP) = e \<and> readU8 t (p + PKM_LEVEL_PC) = lv \<and>
            readU8 t (p + PKM_LEVEL_PARTY) = lv \<and> 1 \<le> lv \<and> lv \<le> 100 \<and>
            expForLevel d lv \<le> e \<and> (lv = 100 \<or> e < expForLevel d (Suc lv))"
proof -
  define p e where "p = pkmAt i" and "e = min (u32 (readBE24 s (p + PKM_EXP) + xp)) (expForLevel d 100)"
  define lv where "lv = levelForExp d e"
  define t where "t = writeU8 (p + 33) lv (writeU8 (p + 3) lv (writeBE24 (p + 14) e s))"
  have lv: "1 \<le> lv" "lv \<le> 100" "expForLevel d lv \<le> e" "lv = 100 \<or> e < expForLevel d (Suc lv)"
    using levelForExp_spec [OF assms(3,4), of e] by (simp_all add: lv_def)
  have run: "patchPokemon i d xp s = (lv, recalcStats p d lv t)"
    using assms lv by (auto simp: patchPokemon_def Let_def p_def e_def lv_def t_def min_def)
  have e: "e < 16777216" using expForLevel_100 [of d] by (simp add: e_def)
  have mem: "p + k < length s" if "k < 44" for k using pkmAt_sram [OF assms(1,2) that] by (simp add: p_def)
  have "readBE24 t (p + 14) = e"
    unfolding t_def using e mem [of 14] mem [of 15] mem [of 16]
    by (intro field24.survives [where A = "{p + 3, p + 33}" and s = s] outside_writeU8 outside_refl) simp_all
  moreover have "readU8 t (p + 3) = lv"
    unfolding t_def using lv mem [of 3]
    by (intro field8.survives [where A = "{p + 33}" and s = "writeBE24 (p + 14) e s"] outside_writeU8 outside_refl) simp_all
  moreover have "readU8 t (p + 33) = lv"
    unfolding t_def using lv mem [of 33] by (intro field8.read_back) simp_all
  ultimately show ?thesis
    using lv recalcStats_exp [of i d lv t] recalcStats_keeps [of "p + 3" i d lv t] recalcStats_keeps [of "p + 33" i d lv t]
    by (simp add: run Let_def statCells_def flip: p_def e_def del: min.bounded_iff)
qed

text \<open>
  C30 Patching a monster adds the experience (in 32 bits), stops at the experience of level 100, and
  stores the greatest level the new experience reaches: the box level, the party level and the
  returned value are that level, and it is between 1 and 100.
\<close>

theorem patch_sets_level:
  assumes "sram_ok s" "i < 6" "1 \<le> d" "d \<le> 151"
  shows "let (lv, t) = patchPokemon i d xp s; p = pkmAt i;
             e = min (u32 (readBE24 s (p + PKM_EXP) + xp)) (expForLevel d 100)
         in readBE24 t (p + PKM_EXP) = e \<and> readU8 t (p + PKM_LEVEL_PC) = lv \<and>
            readU8 t (p + PKM_LEVEL_PARTY) = lv \<and> 1 \<le> lv \<and> lv \<le> 100 \<and>
            expForLevel d lv \<le> e \<and> (lv = 100 \<or> e < expForLevel d (Suc lv))"
  by (rule patch_level_spec [OF assms])

text \<open>An empty cartridge RAM, for the concrete instances.\<close>

definition blankSram :: "byte list" where
  "blankSram = replicate 32768 0"

lemma blankSram_ok [simp]: "sram_ok blankSram" by (simp add: sram_ok_def blankSram_def)

lemma blankSram_nth [simp]: "a < 32768 \<Longrightarrow> blankSram ! a = 0" by (simp add: blankSram_def)

lemma patch_sets_level_witness:
  "readBE24 (snd (patchPokemon 0 4 1000 blankSram)) (pkmAt 0 + PKM_EXP) = 1000"
proof -
  have "readBE24 blankSram (pkmAt 0 + 14) = 0" by (simp add: readBE24_def pkmAt_def SAV_POKEMON_DATA_def)
  moreover have "expForLevel 4 100 = 1059860"
    by (simp add: expForLevel_def expOfGrowth_def speciesGrowthRate_def)
  ultimately show ?thesis
    using patch_sets_level [of blankSram 0 4 1000] by (simp add: Let_def split_beta)
qed

text \<open>
  C33 The level search returns the greatest level whose experience is reached: a level from 1 to 100
  is at most the result exactly when its experience is, and the experience of a level gives that
  level back.
\<close>

theorem level_is_greatest:
  assumes "1 \<le> d" "d \<le> 151" "1 \<le> l" "l \<le> 100"
  shows "(l \<le> levelForExp d x \<longleftrightarrow> expForLevel d l \<le> x) \<and> levelForExp d (expForLevel d l) = l"
  using levelForExp_galois [OF assms] levelForExp_expForLevel [OF assms] by blast

lemma level_is_greatest_witness: "levelForExp 151 (expForLevel 151 50) = 50"
  using level_is_greatest [of 151 50 0] by simp

subsection \<open>Stats\<close>

lemma readBE16_same: "a + 1 < length s \<Longrightarrow> v < 65536 \<Longrightarrow> readBE16 (writeBE16 a v s) a = v"
  by (rule field16.read_back) simp_all

lemma readBE16_other: "a + 1 < b \<or> b + 1 < a \<Longrightarrow> readBE16 (writeBE16 a v s) b = readBE16 s b"
  by (rule field16.unchanged [OF field16.write_local]) auto

lemma scaledHp_range: "1 \<le> maxHP \<Longrightarrow> 1 \<le> scaledHp oldMax oldCur maxHP \<and> scaledHp oldMax oldCur maxHP \<le> maxHP"
  by (simp add: scaledHp_def Let_def)

lemma base_rows: "list_all (\<lambda>b. bs_hp b \<le> 255 \<and> bs_atk b \<le> 255 \<and> bs_def b \<le> 255 \<and> bs_spd b \<le> 255 \<and> bs_spc b \<le> 255)
    speciesBaseStats"
  by (simp add: speciesBaseStats_def mkBS_def)

lemma base_length: "length speciesBaseStats = 152"
  by (simp add: speciesBaseStats_def)

lemma sav_dv_le: "atkDV s p \<le> 15" "defDV s p \<le> 15" "spdDV s p \<le> 15" "spcDV s p \<le> 15" "hpDVof s p \<le> 15"
proof -
  have "readU8 s a div 16 \<le> 15" for a using readU8_less [of s a] by linarith
  then show "atkDV s p \<le> 15" "spdDV s p \<le> 15" by (simp_all add: atkDV_def spdDV_def)
  have m: "n mod 16 \<le> 15" "n mod 2 \<le> 1" for n :: nat by simp_all
  show "defDV s p \<le> 15" "spcDV s p \<le> 15" by (simp_all add: defDV_def spcDV_def m)
  show "hpDVof s p \<le> 15"
    using m(2) [of "atkDV s p"] m(2) [of "defDV s p"] m(2) [of "spdDV s p"] m(2) [of "spcDV s p"]
    unfolding hpDVof_def by linarith
qed

lemma recalcStats_fields:
  fixes s :: "byte list" and i d lv :: nat
  assumes "sram_ok s" "i < 6" "1 \<le> d" "d \<le> 151"
  defines "p \<equiv> pkmAt i" and "b \<equiv> speciesBaseStats ! d"
  defines "t \<equiv> recalcStats p d lv s"
  defines "m \<equiv> patchStatHP (bs_hp b) (hpDVof s p) (readBE16 s (p + PKM_HP_EV)) lv"
  shows "readBE16 t (p + PKM_MAX_HP) = m"
    and "readBE16 t (p + PKM_CURRENT_HP) = scaledHp (readBE16 s (p + PKM_MAX_HP)) (readBE16 s (p + PKM_CURRENT_HP)) m"
    and "readBE16 t (p + PKM_ATTACK) = patchStat (bs_atk b) (atkDV s p) (readBE16 s (p + PKM_ATK_EV)) lv"
    and "readBE16 t (p + PKM_DEFENSE) = patchStat (bs_def b) (defDV s p) (readBE16 s (p + PKM_DEF_EV)) lv"
    and "readBE16 t (p + PKM_SPEED) = patchStat (bs_spd b) (spdDV s p) (readBE16 s (p + PKM_SPD_EV)) lv"
    and "readBE16 t (p + PKM_SPECIAL) = patchStat (bs_spc b) (spcDV s p) (readBE16 s (p + PKM_SPC_EV)) lv"
proof -
  have mem: "p + k < length s" if "k < 44" for k using pkmAt_sram [OF assms(1,2) that] by (simp add: p_def)
  have m: "m < 65536" by (simp add: m_def patchStatHP_def)
  have c: "scaledHp x y m < 65536" for x y
    using m by (auto simp: scaledHp_def Let_def)
  have st: "patchStat w x y z < 65536" for w x y z by (simp add: patchStat_def)
  show "readBE16 t (p + PKM_MAX_HP) = m"
    "readBE16 t (p + PKM_CURRENT_HP) = scaledHp (readBE16 s (p + PKM_MAX_HP)) (readBE16 s (p + PKM_CURRENT_HP)) m"
    "readBE16 t (p + PKM_ATTACK) = patchStat (bs_atk b) (atkDV s p) (readBE16 s (p + PKM_ATK_EV)) lv"
    "readBE16 t (p + PKM_DEFENSE) = patchStat (bs_def b) (defDV s p) (readBE16 s (p + PKM_DEF_EV)) lv"
    "readBE16 t (p + PKM_SPEED) = patchStat (bs_spd b) (spdDV s p) (readBE16 s (p + PKM_SPD_EV)) lv"
    "readBE16 t (p + PKM_SPECIAL) = patchStat (bs_spc b) (spcDV s p) (readBE16 s (p + PKM_SPC_EV)) lv"
    using assms(3,4) m c st mem [of 2] mem [of 35] mem [of 37] mem [of 39] mem [of 41] mem [of 43]
    by (simp_all add: t_def recalcStats_def Let_def readBE16_same readBE16_other b_def flip: m_def [unfolded b_def])
qed

text \<open>The stats read the same before and after the experience and the level bytes are written.\<close>

lemma stat_inputs_unchanged:
  fixes i :: nat
  defines "p \<equiv> pkmAt i"
  defines "A \<equiv> {p + 3, p + 14, p + 15, p + 16, p + 33}"
  assumes "outside A s t"
  shows "hpDVof t p = hpDVof s p" "atkDV t p = atkDV s p"
    "readBE16 t (p + PKM_HP_EV) = readBE16 s (p + PKM_HP_EV)"
    "readBE16 t (p + PKM_ATK_EV) = readBE16 s (p + PKM_ATK_EV)"
    "readBE16 t (p + PKM_MAX_HP) = readBE16 s (p + PKM_MAX_HP)"
    "readBE16 t (p + PKM_CURRENT_HP) = readBE16 s (p + PKM_CURRENT_HP)"
proof -
  have f8: "readU8 t a = readU8 s a" if "a \<notin> A" for a
    using assms(3) that by (intro field8.unchanged [of A s t]) auto
  have f16: "readBE16 t a = readBE16 s a" if "a \<notin> A" "a + 1 \<notin> A" for a
    using assms(3) that by (intro field16.unchanged [of A s t]) auto
  have dv: "p + 27 \<notin> A" "p + (27 + 1) \<notin> A" by (simp_all add: A_def)
  show "hpDVof t p = hpDVof s p" "atkDV t p = atkDV s p"
    using f8 [OF dv(1)] f8 [OF dv(2)]
    by (simp_all add: hpDVof_def atkDV_def defDV_def spdDV_def spcDV_def)
  show "readBE16 t (p + PKM_HP_EV) = readBE16 s (p + PKM_HP_EV)"
    "readBE16 t (p + PKM_ATK_EV) = readBE16 s (p + PKM_ATK_EV)"
    "readBE16 t (p + PKM_MAX_HP) = readBE16 s (p + PKM_MAX_HP)"
    "readBE16 t (p + PKM_CURRENT_HP) = readBE16 s (p + PKM_CURRENT_HP)"
    by (rule f16; simp add: A_def)+
qed

text \<open>
  The stats of a patched monster are the exact formula at the new level over the stored stat
  experience and individual values, and its HP stays within 1 and the new maximum: it is scaled from
  the old HP, and a fainted monster comes back with full HP.
\<close>

theorem patch_recomputes_stats:
  assumes "sram_ok s" "i < 6" "1 \<le> d" "d \<le> 151"
  shows "let (lv, t) = patchPokemon i d xp s; p = pkmAt i; b = speciesBaseStats ! d;
             full = readBE16 t (p + PKM_MAX_HP); cur = readBE16 t (p + PKM_CURRENT_HP)
         in full = ((bs_hp b + hpDVof s p) * 2 + evBonus (readBE16 s (p + PKM_HP_EV))) * lv div 100 + lv + 10 \<and>
            readBE16 t (p + PKM_ATTACK) = ((bs_atk b + atkDV s p) * 2 + evBonus (readBE16 s (p + PKM_ATK_EV))) * lv div 100 + 5 \<and>
            1 \<le> cur \<and> cur \<le> full \<and> (readBE16 s (p + PKM_CURRENT_HP) = 0 \<longrightarrow> cur = full)"
proof -
  define p b where "p = pkmAt i" and "b = speciesBaseStats ! d"
  define e lv where "e = min (u32 (readBE24 s (p + 14) + xp)) (expForLevel d 100)" and "lv = levelForExp d e"
  define u where "u = writeU8 (p + 33) lv (writeU8 (p + 3) lv (writeBE24 (p + 14) e s))"
  define t where "t = recalcStats p d lv u"
  have lv: "1 \<le> lv" "lv \<le> 100" using levelForExp_range [of d e] by (simp_all add: lv_def)
  have run: "patchPokemon i d xp s = (lv, t)"
    using assms lv by (auto simp: patchPokemon_def Let_def p_def e_def lv_def t_def u_def min_def)
  have u: "sram_ok u" using assms(1) by (simp add: u_def sram_ok_def)
  have "outside {p + 3, p + 14, p + 15, p + 16, p + 33} s u"
    unfolding u_def by (intro outside_intros) simp_all
  note same = stat_inputs_unchanged [OF this [unfolded p_def], folded p_def]
  note f = recalcStats_fields [OF u assms(2-4), of lv, folded p_def b_def, folded t_def, unfolded same]
  have "b \<in> set speciesBaseStats" using assms(4) by (simp add: b_def base_length)
  then have base: "bs_hp b \<le> 255" "bs_atk b \<le> 255" using base_rows by (auto simp: list_all_iff)
  have hp: "readBE16 t (p + 34) = ((bs_hp b + hpDVof s p) * 2 + evBonus (readBE16 s (p + 17))) * lv div 100 + lv + 10"
    using f(1) patchStat_bounds(2) [OF base(1) sav_dv_le(5) readBE16_less lv(2)] by simp
  have at: "readBE16 t (p + 36) = ((bs_atk b + atkDV s p) * 2 + evBonus (readBE16 s (p + 19))) * lv div 100 + 5"
    using f(3) patchStat_bounds(1) [OF base(2) sav_dv_le(1) readBE16_less lv(2)] by simp
  have cur: "readBE16 t (p + 1) = scaledHp (readBE16 s (p + 34)) (readBE16 s (p + 1)) (readBE16 t (p + 34))"
    using f(1,2) by simp
  then have "1 \<le> readBE16 t (p + 1)" "readBE16 t (p + 1) \<le> readBE16 t (p + 34)"
    using scaledHp_range [of "readBE16 t (p + 34)"] hp by simp_all
  moreover have "readBE16 t (p + 1) = readBE16 t (p + 34)" if "readBE16 s (p + 1) = 0"
    using cur that by (simp add: scaledHp_def)
  ultimately show ?thesis using hp at by (simp add: run Let_def flip: p_def b_def)
qed

lemma patch_recomputes_stats_witness:
  "let t = snd (patchPokemon 0 4 1000 blankSram)
   in readBE16 t (pkmAt 0 + PKM_CURRENT_HP) = readBE16 t (pkmAt 0 + PKM_MAX_HP)"
proof -
  have "readBE16 blankSram (pkmAt 0 + 1) = 0"
    by (simp add: readBE16_def pkmAt_def SAV_POKEMON_DATA_def)
  then show ?thesis
    using patch_recomputes_stats [of blankSram 0 4 1000] by (simp add: Let_def split_beta)
qed

subsection \<open>Checksum and check-out\<close>

text \<open>The stored byte is the complement of the sum of the range.\<close>

definition checksum_ok :: "byte list \<Rightarrow> bool" where
  "checksum_ok s \<longleftrightarrow> s ! SAV_CHECKSUM_OFFSET = NOT (checksum s)"

lemma checksum_local: "outside {SAV_CHECKSUM_OFFSET} s t \<Longrightarrow> checksum t = checksum s"
  unfolding checksum_def
  by (intro foldl_cong) (auto simp: outside_def SAV_CHECKSUM_OFFSET_def SAV_CHECKSUM_END_def)

lemma fixChecksum_outside: "outside {SAV_CHECKSUM_OFFSET} s (fixChecksum s)"
  unfolding fixChecksum_def by (intro outside_intros) simp

lemma fixChecksum_ok: "sram_ok s \<Longrightarrow> checksum_ok (fixChecksum s)"
  using checksum_local [OF fixChecksum_outside, of s]
  by (simp add: checksum_ok_def sram_ok_def) (simp add: fixChecksum_def SAV_CHECKSUM_OFFSET_def)

lemma checkout_loop:
  "outside (\<Union>i \<in> {i \<in> set js. xps ! i > 0}. patchCells i) s (snd (fold (checkoutOne ds xps) js (b, s))) \<and>
   (fst (fold (checkoutOne ds xps) js (b, s)) \<longleftrightarrow> b \<or> (\<exists>i \<in> set js. xps ! i > 0)) \<and>
   ((\<forall>i \<in> set js. xps ! i = 0) \<longrightarrow> snd (fold (checkoutOne ds xps) js (b, s)) = s)"
proof (induction js arbitrary: b s)
  case Nil
  then show ?case by simp
next
  case (Cons k ks)
  show ?case
  proof (cases "xps ! k > 0")
    case False
    then have "{i \<in> set (k # ks). xps ! i > 0} = {i \<in> set ks. xps ! i > 0}" by auto
    then show ?thesis using False Cons.IH [where b = b and s = s] by (simp add: checkoutOne_def)
  next
    case True
    define u where "u = snd (patchPokemon k (ds ! k) (xps ! k) s)"
    have eq: "{i \<in> set (k # ks). xps ! i > 0} = insert k {i \<in> set ks. xps ! i > 0}" using True by auto
    have "outside (patchCells k) s u" unfolding u_def by (rule patchPokemon_outside)
    then have "outside (\<Union>i \<in> {i \<in> set (k # ks). xps ! i > 0}. patchCells i) s u"
      by (rule outside_mono) (unfold eq, blast)
    moreover have "outside (\<Union>i \<in> {i \<in> set (k # ks). xps ! i > 0}. patchCells i) u
        (snd (fold (checkoutOne ds xps) ks (True, u)))"
      using Cons.IH [where b = True and s = u] unfolding eq by (blast intro: outside_mono)
    ultimately have "outside (\<Union>i \<in> {i \<in> set (k # ks). xps ! i > 0}. patchCells i) s
        (snd (fold (checkoutOne ds xps) ks (True, u)))" by (rule outside_trans)
    moreover have "fold (checkoutOne ds xps) (k # ks) (b, s) = fold (checkoutOne ds xps) ks (True, u)"
      using True by (simp add: checkoutOne_def u_def)
    moreover have "fst (fold (checkoutOne ds xps) ks (True, u))"
      using Cons.IH [where b = True and s = u] by blast
    ultimately show ?thesis using True by (simp only:) force
  qed
qed

text \<open>
  C31 A check-out touches only what it must: the experience, level, HP and stat bytes of the party
  slots that gained experience, and the checksum.  It reports whether any slot gained, changes
  nothing when none did, and leaves a valid checksum when one did.
\<close>

theorem checkout_is_local:
  assumes "sram_ok s"
  shows "let (patched, t) = checkout ds xps n s; gainers = {i. i < min n 6 \<and> xps ! i > 0}
         in (patched \<longleftrightarrow> gainers \<noteq> {}) \<and> (\<not> patched \<longrightarrow> t = s) \<and> (patched \<longrightarrow> checksum_ok t) \<and>
            outside ((\<Union>i \<in> gainers. patchCells i) \<union> {SAV_CHECKSUM_OFFSET}) s t"
proof -
  define l where "l = fold (checkoutOne ds xps) [0..<min n 6] (False, s)"
  define G where "G = {i. i < min n 6 \<and> xps ! i > 0}"
  have G: "{i \<in> set [0..<min n 6]. xps ! i > 0} = G" by (auto simp: G_def)
  note loop = checkout_loop [where xps = xps and js = "[0..<min n 6]" and s = s and ds = ds and b = False, folded l_def, unfolded G]
  have out: "outside (\<Union>i \<in> G. patchCells i) s (snd l)" using loop by blast
  then have "outside ((\<Union>i \<in> G. patchCells i) \<union> {SAV_CHECKSUM_OFFSET}) s (snd l)"
    "outside ((\<Union>i \<in> G. patchCells i) \<union> {SAV_CHECKSUM_OFFSET}) s (fixChecksum (snd l))"
    using fixChecksum_outside [of "snd l"] by (blast intro: outside_mono outside_trans)+
  moreover have "sram_ok (snd l)" using out assms by (simp add: sram_ok_def outside_def)
  moreover have "fst l \<longleftrightarrow> G \<noteq> {}" "G = {} \<Longrightarrow> snd l = s" using loop by (auto simp: G_def)
  moreover have "checkout ds xps n s = (fst l, if fst l then fixChecksum (snd l) else snd l)"
    by (simp add: checkout_def l_def split_beta)
  ultimately show ?thesis
    unfolding G_def [symmetric] by (simp add: Let_def fixChecksum_ok del: Un_insert_right)
qed

lemma checkout_is_local_witness:
  "let (patched, t) = checkout [4] [1000] 1 blankSram in patched \<and> checksum_ok t \<and> t ! SAV_PARTY_COUNT = 0"
proof -
  have g: "{i. i < min 1 6 \<and> [1000] ! i > (0 :: nat)} = {0}" by auto
  have "blankSram ! SAV_PARTY_COUNT = 0" by (simp add: SAV_PARTY_COUNT_def)
  moreover have "SAV_PARTY_COUNT \<notin> patchCells 0 \<union> {SAV_CHECKSUM_OFFSET}"
    by (simp add: SAV_PARTY_COUNT_def patchCells_def statCells_def pkmAt_def SAV_POKEMON_DATA_def SAV_CHECKSUM_OFFSET_def)
  ultimately show ?thesis
    using checkout_is_local [of blankSram "[4]" "[1000]" 1] unfolding g
    by (auto simp: Let_def split_beta outside_def)
qed

subsection \<open>Moves\<close>

lemma learnset_rows: "list_all (\<lambda>(l, m). 1 \<le> l \<and> l \<le> 100 \<and> 1 \<le> m \<and> m \<le> 165) gen1LearnsetData"
  by (simp add: gen1LearnsetData_def)

lemma learnset_counts: "list_all (\<lambda>c. c \<le> 8) gen1LearnsetCount" "length gen1LearnsetCount = 152"
  by (simp_all add: gen1LearnsetCount_def)

lemma gained_moves:
  assumes "m \<in> set (gen1MovesLearnedBetween d lo hi k)"
  shows "1 \<le> m \<and> m \<le> 165"
proof -
  have "m \<in> snd ` set gen1LearnsetData"
    using assms unfolding gen1MovesLearnedBetween_def learnsetOf_def
    by (auto split: if_splits dest!: in_set_takeD in_set_dropD)
  then show ?thesis using learnset_rows by (auto simp: list_all_iff)
qed

lemma length_gained: "d \<le> 151 \<Longrightarrow> length (gen1MovesLearnedBetween d lo hi k) \<le> 8"
proof -
  assume "d \<le> 151"
  then have "gen1LearnsetCount ! d \<le> 8" using learnset_counts by (simp add: list_all_length)
  then have "length (learnsetOf d) \<le> 8" by (simp add: learnsetOf_def min_def)
  then have "length (filter (\<lambda>(l, m). l > lo \<and> l \<le> hi) (learnsetOf d)) \<le> 8"
    using length_filter_le order_trans by blast
  then show ?thesis by (auto simp: gen1MovesLearnedBetween_def)
qed

lemma nth_movesOf: "k < 4 \<Longrightarrow> movesOf s i ! k = moveAt s i k"
  by (simp add: movesOf_def)

lemma length_movesOf [simp]: "length (movesOf s i) = 4" by (simp add: movesOf_def)

lemma moveAt_setMove:
  assumes "sram_ok s" "i < 6" "k < 4" "m < 256" "j < 4"
  shows "moveAt (setMove i k m s) i j = (if j = k then m else moveAt s i j)"
proof -
  let ?u = "writeU8 (pkmAt i + (8 + k)) m s" and ?a = "pkmAt i + (8 + j)"
  have run: "setMove i k m s = writeU8 (pkmAt i + (29 + k)) (basePp m) ?u"
    using assms by (simp add: setMove_def)
  have "readU8 (setMove i k m s) ?a = readU8 ?u ?a"
    unfolding run using assms by (intro field8.unchanged [OF field8.write_local]) simp
  moreover have "readU8 ?u ?a = m" if "j = k"
    using that assms pkmAt_sram [OF assms(1,2), of "8 + k"] by (simp add: field8.read_back)
  moreover have "readU8 ?u ?a = readU8 s ?a" if "j \<noteq> k"
    using that by (intro field8.unchanged [OF field8.write_local]) simp
  ultimately show ?thesis by (simp add: moveAt_def)
qed

lemma movesOf_setMove:
  "sram_ok s \<Longrightarrow> i < 6 \<Longrightarrow> k < 4 \<Longrightarrow> m < 256 \<Longrightarrow> movesOf (setMove i k m s) i = (movesOf s i)[k := m]"
  by (rule nth_equalityI) (simp_all add: nth_movesOf moveAt_setMove nth_list_update)

lemma sram_setMove: "sram_ok s \<Longrightarrow> sram_ok (setMove i k m s)"
  using outside_length [OF setMove_outside] by (simp add: sram_ok_def)

text \<open>The loop on the move list alone: fill the first empty slot, else leave the move pending.\<close>

definition fillOne :: "nat \<Rightarrow> nat list \<times> nat list \<Rightarrow> nat list \<times> nat list" where
  "fillOne mv st =
     (if mv \<in> set (fst st) then st
      else case find (\<lambda>k. fst st ! k = 0) [0..<4] of
        Some k \<Rightarrow> ((fst st)[k := mv], snd st)
      | None \<Rightarrow> (fst st, snd st @ [mv]))"

lemma find_movesOf: "find (\<lambda>k. movesOf s i ! k = 0) [0..<4] = find (\<lambda>k. moveAt s i k = 0) [0..<4]"
  by (simp add: upt_rec nth_movesOf)

lemma learnOne_refines:
  assumes "sram_ok s" "i < 6" "mv < 256" "length (pending r) < 8"
  shows "let (r', s') = learnOne i mv (r, s)
         in sram_ok s' \<and> outside (moveCells i) s s' \<and> (movesOf s' i, pending r') = fillOne mv (movesOf s i, pending r)"
proof (cases "mv \<in> set (movesOf s i)")
  case True
  then show ?thesis using assms(1) by (simp add: learnOne_def fillOne_def)
next
  case False
  show ?thesis
  proof (cases "find (\<lambda>k. moveAt s i k = 0) [0..<4]")
    case None
    with False assms show ?thesis by (simp add: learnOne_def fillOne_def find_movesOf)
  next
    case (Some k)
    then have "k < 4" by (auto dest!: find_SomeD)
    with Some False assms show ?thesis
      by (simp add: learnOne_def fillOne_def find_movesOf movesOf_setMove sram_setMove setMove_outside)
  qed
qed

lemma learn_loop_refines:
  assumes "sram_ok s" "i < 6" "\<forall>m \<in> set ms. m < 256" "length (pending r) + length ms \<le> 8"
  shows "let (r', s') = fold (learnOne i) ms (r, s)
         in sram_ok s' \<and> outside (moveCells i) s s' \<and> (movesOf s' i, pending r') = fold fillOne ms (movesOf s i, pending r)"
  using assms
proof (induction ms arbitrary: r s)
  case Nil
  then show ?case by simp
next
  case (Cons m ms)
  obtain r1 s1 where step: "learnOne i m (r, s) = (r1, s1)" by (cases "learnOne i m (r, s)")
  have one: "sram_ok s1" "outside (moveCells i) s s1" "(movesOf s1 i, pending r1) = fillOne m (movesOf s i, pending r)"
    using learnOne_refines [OF Cons.prems(1,2), of m r] Cons.prems(3,4) step by simp_all
  have "length (snd (fillOne m st)) \<le> Suc (length (snd st))" for st
    by (simp add: fillOne_def split: option.split)
  from this [of "(movesOf s i, pending r)"] one(3) have "length (pending r1) \<le> Suc (length (pending r))"
    by (metis snd_conv)
  then have "let (r', s') = fold (learnOne i) ms (r1, s1)
      in sram_ok s' \<and> outside (moveCells i) s1 s' \<and> (movesOf s' i, pending r') = fold fillOne ms (movesOf s1 i, pending r1)"
    using Cons.IH [OF one(1) Cons.prems(2), of r1] Cons.prems(3,4) by simp
  then show ?case using one step by (auto simp: split_beta intro: outside_trans)
qed

text \<open>What the abstract loop guarantees, kept by each step.\<close>

definition filled :: "nat list \<Rightarrow> nat list \<Rightarrow> nat list \<times> nat list \<Rightarrow> bool" where
  "filled ms0 seen st \<longleftrightarrow>
     length (fst st) = 4 \<and> 0 \<notin> set seen \<and> (\<forall>k < 4. ms0 ! k \<noteq> 0 \<longrightarrow> fst st ! k = ms0 ! k) \<and>
     set seen \<subseteq> set (fst st) \<union> set (snd st) \<and>
     (snd st \<noteq> [] \<longrightarrow> 0 \<notin> set (fst st)) \<and> (distinct (filter (\<lambda>m. m \<noteq> 0) ms0) \<longrightarrow> distinct (filter (\<lambda>m. m \<noteq> 0) (fst st)))"

lemma distinct_fill:
  assumes "distinct (filter (\<lambda>m. m \<noteq> 0) xs)" "m \<notin> set xs" "xs ! k = 0" "k < length xs"
  shows "distinct (filter (\<lambda>m. m \<noteq> (0 :: nat)) (xs[k := m]))"
proof -
  have "xs = take k xs @ 0 # drop (Suc k) xs" using assms(3,4) by (metis id_take_nth_drop)
  then obtain a b where ab: "xs = a @ 0 # b" "length a = k" using assms(4) by (metis length_take min.absorb2 less_imp_le)
  then show ?thesis using assms(1,2) by (auto simp: list_update_append)
qed

lemma fillOne_filled:
  assumes "filled ms0 seen st" "m \<noteq> 0"
  shows "filled ms0 (seen @ [m]) (fillOne m st)"
proof (cases "m \<in> set (fst st)")
  case True
  with assms show ?thesis by (auto simp: fillOne_def filled_def)
next
  case False
  show ?thesis
  proof (cases "find (\<lambda>k. fst st ! k = 0) [0..<4]")
    case None
    have "0 \<notin> set (fst st)"
    proof
      assume "0 \<in> set (fst st)"
      then obtain k where "k < length (fst st)" "fst st ! k = 0" by (auto simp: in_set_conv_nth)
      with None assms(1) show False by (auto simp: find_None_iff filled_def)
    qed
    with None False assms show ?thesis by (auto simp: fillOne_def filled_def)
  next
    case (Some k)
    then have k: "k < 4" "fst st ! k = 0" by (auto dest!: find_SomeD)
    have len: "length (fst st) = 4" using assms(1) by (simp add: filled_def)
    have "0 \<in> set (fst st)" using k len by (metis nth_mem)
    then have none: "snd st = []" using assms(1) by (auto simp: filled_def)
    have "x \<in> set ((fst st)[k := m])" if "x \<in> set seen" for x
    proof -
      have "x \<in> set (fst st)" "0 \<notin> set seen" using assms(1) none that by (auto simp: filled_def)
      then have "x \<noteq> 0" using that by metis
      obtain j where "j < 4" "fst st ! j = x" using \<open>x \<in> set (fst st)\<close> len by (auto simp: in_set_conv_nth)
      then show ?thesis using \<open>x \<noteq> 0\<close> k len by (metis length_list_update nth_list_update_neq nth_mem)
    qed
    moreover have "m \<in> set ((fst st)[k := m])" using k len by (simp add: set_update_memI)
    moreover have "(fst st)[k := m] ! j = ms0 ! j" if "j < 4" "ms0 ! j \<noteq> 0" for j
      using assms(1) k that by (auto simp: filled_def nth_list_update)
    moreover have "distinct (filter (\<lambda>m. m \<noteq> 0) ((fst st)[k := m]))" if "distinct (filter (\<lambda>m. m \<noteq> 0) ms0)"
      using distinct_fill [of "fst st" m k] assms(1) that False k len by (simp add: filled_def)
    ultimately show ?thesis
      using Some False assms none len by (simp add: fillOne_def filled_def subset_iff)
  qed
qed

lemma fill_loop_filled:
  "filled ms0 seen st \<Longrightarrow> 0 \<notin> set ms \<Longrightarrow> filled ms0 (seen @ ms) (fold fillOne ms st)"
proof (induction ms arbitrary: seen st)
  case (Cons m ms)
  then show ?case using Cons.IH [of "seen @ [m]" "fillOne m st"] fillOne_filled by simp
qed simp

text \<open>
  C32 Learning level-up moves never replaces a move and loses none: every move the species learns in
  the level range is afterwards in one of the four slots or reported as pending, a slot that held a
  move still holds it, a move is pending only when no slot is empty, no move is duplicated, and only
  the move and PP bytes of that party slot change.
\<close>

theorem learn_moves_complete:
  assumes "sram_ok s" "i < 6" "1 \<le> d" "d \<le> 151" "lo < hi"
  shows "let (r, t) = learnMoves i d lo hi s; old = movesOf s i; new = movesOf t i
         in (\<forall>k < 4. old ! k \<noteq> 0 \<longrightarrow> new ! k = old ! k) \<and>
            set (gen1MovesLearnedBetween d lo hi 16) \<subseteq> set new \<union> set (pending r) \<and>
            (pending r \<noteq> [] \<longrightarrow> 0 \<notin> set new) \<and>
            (distinct (filter (\<lambda>m. m \<noteq> 0) old) \<longrightarrow> distinct (filter (\<lambda>m. m \<noteq> 0) new)) \<and>
            outside (moveCells i) s t"
proof -
  define ms where "ms = gen1MovesLearnedBetween d lo hi 16"
  define r0 where "r0 = \<lparr>learned = [], pending = [] :: nat list\<rparr>"
  have run: "learnMoves i d lo hi s = fold (learnOne i) ms (r0, s)"
    using assms by (simp add: learnMoves_def Let_def ms_def r0_def)
  have "\<forall>m \<in> set ms. m < 256" "0 \<notin> set ms" using gained_moves unfolding ms_def by fastforce+
  moreover have "length (pending r0) + length ms \<le> 8"
    using length_gained [OF assms(4)] by (simp add: r0_def ms_def)
  moreover obtain r t where rt: "fold (learnOne i) ms (r0, s) = (r, t)" by (cases "fold (learnOne i) ms (r0, s)")
  ultimately have eq: "fold fillOne ms (movesOf s i, []) = (movesOf t i, pending r)" and out: "outside (moveCells i) s t"
    using learn_loop_refines [OF assms(1,2), of ms r0] by (simp_all add: r0_def)
  have "filled (movesOf s i) ([] @ ms) (fold fillOne ms (movesOf s i, []))"
    using \<open>0 \<notin> set ms\<close> by (intro fill_loop_filled) (simp_all add: filled_def)
  then show ?thesis
    unfolding run rt eq using out by (simp add: Let_def filled_def flip: ms_def)
qed

lemma learn_moves_complete_witness:
  "let (r, t) = learnMoves 0 4 1 9 blankSram in 52 \<in> set (movesOf t 0) \<union> set (pending r)"
proof -
  have "52 \<in> set (gen1MovesLearnedBetween 4 1 9 16)"
    by (simp add: gen1MovesLearnedBetween_def learnsetOf_def gen1LearnsetOffset_def gen1LearnsetCount_def
        gen1LearnsetData_def)
  then show ?thesis
    using learn_moves_complete [of blankSram 0 4 1 9] by (auto simp: Let_def split_beta)
qed

lemma slotWeight_less: "slotWeight m < 1000"
proof -
  have "mpower x \<le> 255" if "gen1Move m = Some x" for x
  proof -
    have "x \<in> set GEN1_MOVES" using that by (auto simp: gen1Move_def dest!: find_SomeD)
    then show ?thesis using gen1_rows by (auto simp: list_all_iff)
  qed
  then show ?thesis by (fastforce simp: slotWeight_def Let_def split: option.split)
qed

lemma less_four: "(k :: nat) < 4 \<longleftrightarrow> k = 0 \<or> k = 1 \<or> k = 2 \<or> k = 3"
  "(k :: nat) < 3 \<longleftrightarrow> k = 0 \<or> k = 1 \<or> k = 2" "(k :: nat) < 2 \<longleftrightarrow> k = 0 \<or> k = 1"
  by auto

text \<open>
  The slot chosen for replacement is the first of least weight: an empty slot if there is one,
  otherwise the move of least power, a move without power counting as power 35.
\<close>

theorem weakest_slot_minimal:
  shows "let k = weakestMoveSlot s i; w = \<lambda>j. slotWeight (moveAt s i j)
         in k < 4 \<and> (\<forall>j < 4. w k \<le> w j) \<and> (\<forall>j < k. w k < w j)"
proof -
  define w where "w j = slotWeight (moveAt s i j)" for j
  have less: "w j < 1000" for j unfolding w_def by (rule slotWeight_less)
  have "[0..<4] = [0, 1, 2, 3 :: nat]" by code_simp
  then have pick: "weakestMoveSlot s i = fst (weakestLoop s i [0, 1, 2, 3] (0, 1000))"
    by (simp only: weakestMoveSlot_def)
  have k: "weakestMoveSlot s i =
      (if w 1 < w 0 then if w 2 < w 1 then if w 3 < w 2 then 3 else 2 else if w 3 < w 1 then 3 else 1
       else if w 2 < w 0 then if w 3 < w 2 then 3 else 2 else if w 3 < w 0 then 3 else 0)"
    using less [of 0] by (simp add: pick flip: w_def)
  consider "weakestMoveSlot s i = 0" "w 0 \<le> w 1" "w 0 \<le> w 2" "w 0 \<le> w 3"
    | "weakestMoveSlot s i = 1" "w 1 < w 0" "w 1 \<le> w 2" "w 1 \<le> w 3"
    | "weakestMoveSlot s i = 2" "w 2 < w 0" "w 2 < w 1" "w 2 \<le> w 3"
    | "weakestMoveSlot s i = 3" "w 3 < w 0" "w 3 < w 1" "w 3 < w 2"
    using k by (force simp: not_less split: if_splits)
  then show ?thesis
    unfolding Let_def w_def [symmetric] less_four(1) by cases (auto simp: less_four)
qed

lemma weakest_slot_minimal_witness: "slotWeight (moveAt blankSram 0 (weakestMoveSlot blankSram 0)) = - 1"
proof -
  have "moveAt blankSram 0 j = 0" if "j < 4" for j
    using that by (simp add: moveAt_def readU8_def pkmAt_def SAV_POKEMON_DATA_def)
  then show ?thesis
    using weakest_slot_minimal [of blankSram 0] by (simp add: Let_def slotWeight_def)
qed

subsection \<open>Names\<close>

lemma punctuation_roundtrip:
  "c \<in> {CHR '' '', CHR 0x27, CHR '','', CHR ''-'', CHR ''.'', CHR ''/''} \<Longrightarrow>
   gen1CharToAsciiExt (asciiToGen1Char c) = c"
  by (elim insertE emptyE; simp add: asciiToGen1Char_def gen1CharToAsciiExt_def)

text \<open>
  The two character tables are inverse where the cartridge and the terminal share a character:
  letters, digits, the space and the five punctuation marks survive the way to the cartridge's
  alphabet and back.
\<close>

theorem char_roundtrip:
  assumes "(of_char c :: nat) \<in> {65..90} \<union> {97..122} \<union> {48..57} \<union> {32, 39, 44, 45, 46, 47}"
  shows "gen1CharToAsciiExt (asciiToGen1Char c) = c"
proof -
  define n where "n = (of_char c :: nat)"
  have c: "c = char_of n" by (simp add: n_def)
  have punct: "CHR '' '' = char_of (32 :: nat)" "CHR 0x27 = char_of (39 :: nat)" "CHR '','' = char_of (44 :: nat)"
    "CHR ''-'' = char_of (45 :: nat)" "CHR ''.'' = char_of (46 :: nat)" "CHR ''/'' = char_of (47 :: nat)"
    "CHR 0x00 = char_of (0 :: nat)"
    by (simp_all add: char_of_def bit_Suc_0_iff)
  consider "65 \<le> n" "n \<le> 90" | "97 \<le> n" "n \<le> 122" | "48 \<le> n" "n \<le> 57" | "n \<in> {32, 39, 44, 45, 46, 47}"
    using assms unfolding n_def by auto
  then show ?thesis
  proof cases
    case 1
    then have "unat (asciiToGen1Char c) = n + 63"
      by (simp add: asciiToGen1Char_def Let_def unat_of_nat_byte flip: n_def del: of_nat_add)
    with 1 show ?thesis by (simp add: gen1CharToAsciiExt_def Let_def c)
  next
    case 2
    then have "unat (asciiToGen1Char c) = n + 63"
      by (simp add: asciiToGen1Char_def Let_def unat_of_nat_byte flip: n_def del: of_nat_add)
    with 2 show ?thesis by (simp add: gen1CharToAsciiExt_def Let_def c)
  next
    case 3
    then have "unat (asciiToGen1Char c) = n + 198"
      by (simp add: asciiToGen1Char_def Let_def unat_of_nat_byte flip: n_def del: of_nat_add)
    with 3 show ?thesis by (simp add: gen1CharToAsciiExt_def Let_def c)
  next
    case 4
    then have "c \<in> {CHR '' '', CHR 0x27, CHR '','', CHR ''-'', CHR ''.'', CHR ''/''}"
      unfolding c punct by auto
    then show ?thesis by (rule punctuation_roundtrip)
  qed
qed

lemma char_roundtrip_witness: "gen1CharToAsciiExt (asciiToGen1Char (CHR ''-'')) = CHR ''-''"
  by (rule char_roundtrip) simp

end
