(* ===== verification/DaycareSaves.thy ===== *)
theory DaycareSaves
  imports DaycareReach SavRules
begin

text \<open>
  How the experience of the daycare flows into the cartridge: the experience of an event is exact and
  capped, the level the daycare shows is the level the save patcher writes at check-out, and a second
  check-in and check-out pays the same experience again.
\<close>

subsection \<open>Experience of an event\<close>

definition slot :: "nat \<Rightarrow> DaycareState \<Rightarrow> DaycarePokemonState" where
  "slot i st = ds_pokemon st ! i"

lemma slot_onPokemon:
  "length (ds_pokemon st) = 6 \<Longrightarrow> i < 6 \<Longrightarrow> slot i (onPokemon j f st) = (if i = j then f (slot i st) else slot i st)"
  by (auto simp: slot_def onPokemon_def nth_upd_at)

text \<open>Below the experience of level 100 no addition wraps.\<close>

lemma gainXp_exact:
  fixes p :: DaycarePokemonState and xp :: nat
  assumes cap: "dp_savExp p + dp_totalXpGained p \<le> expForLevel (dp_speciesDex p) 100"
  defines "q \<equiv> gainXp xp p"
  shows "dp_savExp q + dp_totalXpGained q = min (dp_savExp p + dp_totalXpGained p + min xp 200) (expForLevel (dp_speciesDex p) 100)"
    and "dp_savExp q = dp_savExp p" "dp_savLevel q = dp_savLevel p" "dp_speciesDex q = dp_speciesDex p"
    and "dp_totalLevelsGained q =
      (let lv = levelForExp (dp_speciesDex p) (dp_savExp q + dp_totalXpGained q)
       in if lv > u8 (dp_savLevel p + dp_totalLevelsGained p) then sub16 lv (dp_savLevel p) else dp_totalLevelsGained p)"
proof -
  define m where "m = expForLevel (dp_speciesDex p) 100"
  define cur where "cur = dp_savExp p + dp_totalXpGained p"
  define x where "x = min xp 200"
  have m: "m < 1250001" unfolding m_def by (rule expForLevel_100)
  have c: "cur \<le> m" using cap by (simp add: cur_def m_def)
  have x: "(if xp > 200 then 200 else xp) = x" "x \<le> 200" by (auto simp: x_def)
  have gain: "(if u32 (u32 cur + x) > m then (if u32 cur \<ge> m then 0 else u16 (m - u32 cur)) else x) = min (cur + x) m - cur"
    using c m x by (auto simp: min_def)
  have tot: "u32 (dp_totalXpGained p + (min (cur + x) m - cur)) = min (cur + x) m - dp_savExp p"
    using c m x by (auto simp: cur_def min_def)
  have sum: "dp_savExp p + (min (cur + x) m - dp_savExp p) = min (cur + x) m"
    using c by (auto simp: cur_def min_def)
  have small: "u32 (min (cur + x) m) = min (cur + x) m" using m by simp
  have lv: "\<not> levelForExp d y > 100" for d y using levelForExp_range [of d y] by simp
  have q: "q = p\<lparr>dp_totalXpGained := min (cur + x) m - dp_savExp p,
      dp_totalLevelsGained := (if levelForExp (dp_speciesDex p) (min (cur + x) m) > u8 (dp_savLevel p + dp_totalLevelsGained p)
        then sub16 (levelForExp (dp_speciesDex p) (min (cur + x) m)) (dp_savLevel p) else dp_totalLevelsGained p)\<rparr>"
    unfolding q_def gainXp_def Let_def m_def [symmetric] x(1) cur_def [symmetric] gain tot sum small if_not_P [OF lv] ..
  show "dp_savExp q + dp_totalXpGained q = min (dp_savExp p + dp_totalXpGained p + min xp 200) (expForLevel (dp_speciesDex p) 100)"
    using sum by (simp add: q flip: m_def cur_def x_def)
  show "dp_savExp q = dp_savExp p" "dp_savLevel q = dp_savLevel p" "dp_speciesDex q = dp_speciesDex p" by (simp_all add: q)
  show "dp_totalLevelsGained q =
      (let lv = levelForExp (dp_speciesDex p) (dp_savExp q + dp_totalXpGained q)
       in if lv > u8 (dp_savLevel p + dp_totalLevelsGained p) then sub16 lv (dp_savLevel p) else dp_totalLevelsGained p)"
    by (simp add: q sum Let_def)
qed

text \<open>
  An event pays exactly its experience, at most 200 points, and never lifts the monster past the
  experience of level 100; the other monsters of the party are unchanged.
\<close>

theorem event_xp_capped:
  assumes "length (ds_pokemon st) = 6" "ev_targetSpeciesIdx ev = i" "i < ds_partyCount st" "ds_partyCount st \<le> 6"
    and "dp_savExp (slot i st) + dp_totalXpGained (slot i st) \<le> expForLevel (dp_speciesDex (slot i st)) 100"
  shows "dp_savExp (slot i (applyEventXp ev st)) + dp_totalXpGained (slot i (applyEventXp ev st))
      = min (dp_savExp (slot i st) + dp_totalXpGained (slot i st) + min (ev_xp ev) 200)
            (expForLevel (dp_speciesDex (slot i st)) 100)
    \<and> (\<forall>j < 6. j \<noteq> i \<longrightarrow> slot j (applyEventXp ev st) = slot j st)"
  using assms gainXp_exact(1) [OF assms(5), of "ev_xp ev"]
  by (cases "ev_xp ev = 0") (auto simp: applyEventXp_def slot_onPokemon)

text \<open>A Pikachu of level 5 with 120 points, and an event for it.\<close>

definition pikachu5 :: DaycareState where
  "pikachu5 = (onPokemon 0 (\<lambda>p. p\<lparr>dp_speciesDex := 25, dp_savLevel := 5, dp_savExp := 125\<rparr>) emptyState)\<lparr>ds_partyCount := 1\<rparr>"

definition gift :: DaycareEvent where
  "gift = emptyEvent\<lparr>ev_xp := 150\<rparr>"

lemma pikachu5_slot: "slot 0 pikachu5 = emptyPokemon\<lparr>dp_speciesDex := 25, dp_savLevel := 5, dp_savExp := 125\<rparr>"
  "length (ds_pokemon pikachu5) = 6" "ds_partyCount pikachu5 = 1"
  by (simp_all add: pikachu5_def slot_def onPokemon_def upd_at_def emptyState_def)

lemma exp_pikachu: "expForLevel 25 l = (if l \<le> 1 then 0 else l * l * l)"
  by (simp add: expForLevel_def expOfGrowth_def speciesGrowthRate_def Let_def)

theorem event_xp_capped_witness:
  "dp_savExp (slot 0 (applyEventXp gift pikachu5)) + dp_totalXpGained (slot 0 (applyEventXp gift pikachu5)) = 275"
  using event_xp_capped [of pikachu5 gift 0]
  by (simp add: pikachu5_slot exp_pikachu gift_def emptyEvent_def emptyPokemon_def)

subsection \<open>The level shown is the level saved\<close>

text \<open>What check-in establishes for a monster whose cartridge level fits its experience.\<close>

definition agrees :: "DaycarePokemonState \<Rightarrow> bool" where
  "agrees p \<longleftrightarrow> 1 \<le> dp_speciesDex p \<and> dp_speciesDex p \<le> 151
     \<and> dp_savExp p + dp_totalXpGained p \<le> expForLevel (dp_speciesDex p) 100
     \<and> dp_savLevel p + dp_totalLevelsGained p = levelForExp (dp_speciesDex p) (dp_savExp p + dp_totalXpGained p)"

lemma agrees_gainXp:
  assumes "agrees p" shows "agrees (gainXp xp p) \<and> dp_savExp (gainXp xp p) = dp_savExp p \<and> dp_speciesDex (gainXp xp p) = dp_speciesDex p"
proof -
  define q where "q = gainXp xp p"
  have cap: "dp_savExp p + dp_totalXpGained p \<le> expForLevel (dp_speciesDex p) 100" using assms by (simp add: agrees_def)
  note g = gainXp_exact [OF cap, of xp, folded q_def]
  define lv where "lv = levelForExp (dp_speciesDex p) (dp_savExp q + dp_totalXpGained q)"
  define old where "old = dp_savLevel p + dp_totalLevelsGained p"
  have old: "old = levelForExp (dp_speciesDex p) (dp_savExp p + dp_totalXpGained p)" using assms by (simp add: agrees_def old_def)
  have "old \<le> lv"
    unfolding old lv_def by (rule levelForExp_mono) (use assms g(1) cap in \<open>auto simp: agrees_def\<close>)
  moreover have "lv \<le> 100" "old \<le> 100" using levelForExp_range unfolding lv_def old by blast+
  ultimately have "dp_savLevel q + dp_totalLevelsGained q = lv"
    using g(5) unfolding lv_def [symmetric] Let_def by (auto simp: g(3) old_def sub16_exact split: if_splits)
  moreover have "dp_savExp q + dp_totalXpGained q \<le> expForLevel (dp_speciesDex p) 100" unfolding g(1) by simp
  ultimately show ?thesis using assms g(2,4) by (simp add: agrees_def lv_def flip: q_def)
qed

lemma agrees_events:
  assumes "length (ds_pokemon st) = 6" "i < 6" "agrees (slot i st)"
  shows "agrees (slot i (fold applyEventXp evs st)) \<and> dp_savExp (slot i (fold applyEventXp evs st)) = dp_savExp (slot i st)
    \<and> dp_speciesDex (slot i (fold applyEventXp evs st)) = dp_speciesDex (slot i st)"
  using assms
proof (induction evs arbitrary: st)
  case (Cons ev evs)
  have "agrees (slot i (applyEventXp ev st)) \<and> dp_savExp (slot i (applyEventXp ev st)) = dp_savExp (slot i st)
      \<and> dp_speciesDex (slot i (applyEventXp ev st)) = dp_speciesDex (slot i st)"
    using Cons.prems agrees_gainXp by (auto simp: applyEventXp_def slot_onPokemon)
  moreover have "length (ds_pokemon (applyEventXp ev st)) = 6" using Cons.prems(1) by (simp add: applyEventXp_def)
  ultimately show ?case using Cons.IH [of "applyEventXp ev st"] Cons.prems(2) by simp
qed simp

text \<open>
  The two level computations agree: for a monster checked in with the level its experience gives,
  the level the daycare shows after any list of events is the level the save patcher stores at check-out,
  together with exactly the experience of the daycare.
\<close>

theorem shown_level_is_saved:
  assumes "length (ds_pokemon st) = 6" "i < 6" "agrees (slot i st)" "sram_ok sram"
    and "readBE24 sram (pkmAt i + PKM_EXP) = dp_savExp (slot i st)"
  shows "let p = slot i (fold applyEventXp evs st);
             (level, sram') = patchPokemon i (dp_speciesDex p) (dp_totalXpGained p) sram in
    level = dp_savLevel p + dp_totalLevelsGained p
    \<and> readU8 sram' (pkmAt i + PKM_LEVEL_PARTY) = dp_savLevel p + dp_totalLevelsGained p
    \<and> readBE24 sram' (pkmAt i + PKM_EXP) = dp_savExp p + dp_totalXpGained p"
proof -
  define p where "p = slot i (fold applyEventXp evs st)"
  have p: "agrees p" "dp_savExp p = dp_savExp (slot i st)"
    using agrees_events [OF assms(1-3), of evs] by (simp_all add: p_def)
  obtain level t where r: "patchPokemon i (dp_speciesDex p) (dp_totalXpGained p) sram = (level, t)"
    by (cases "patchPokemon i (dp_speciesDex p) (dp_totalXpGained p) sram")
  have d: "1 \<le> dp_speciesDex p" "dp_speciesDex p \<le> 151" using p by (simp_all add: agrees_def)
  define e where "e = dp_savExp p + dp_totalXpGained p"
  have "e \<le> expForLevel (dp_speciesDex p) 100" using p by (simp add: agrees_def e_def)
  then have e: "min (u32 e) (expForLevel (dp_speciesDex p) 100) = e"
    using expForLevel_100 [of "dp_speciesDex p"] by simp
  have s: "readBE24 t (pkmAt i + PKM_EXP) = e" "readU8 t (pkmAt i + PKM_LEVEL_PARTY) = level" "1 \<le> level" "level \<le> 100"
    "expForLevel (dp_speciesDex p) level \<le> e" "level = 100 \<or> e < expForLevel (dp_speciesDex p) (Suc level)"
    using patch_level_spec [OF assms(4,2) d, of "dp_totalXpGained p"] assms(5) p(2) e
    by (simp_all add: r Let_def e_def del: min.bounded_iff)
  have "level = levelForExp (dp_speciesDex p) e"
  proof (rule antisym)
    show "level \<le> levelForExp (dp_speciesDex p) e" using levelForExp_galois [OF d s(3,4)] s(5) by simp
    show "levelForExp (dp_speciesDex p) e \<le> level"
    proof (rule ccontr)
      assume "\<not> ?thesis"
      then have l: "Suc level \<le> levelForExp (dp_speciesDex p) e" by simp
      then have "Suc level \<le> 100" using levelForExp_range [of "dp_speciesDex p" e] by simp
      then show False using levelForExp_galois [OF d, of "Suc level" e] l s(6) by auto
    qed
  qed
  also have "\<dots> = dp_savLevel p + dp_totalLevelsGained p" using p(1) by (simp add: agrees_def e_def)
  finally show ?thesis using s by (simp add: Let_def r e_def flip: p_def)
qed

lemma pikachu_level: "levelForExp 25 125 = 5"
  using levelForExp_expForLevel [of 25 5] by (simp add: exp_pikachu)

lemma pikachu5_agrees: "agrees (slot 0 pikachu5)"
  using pikachu_level by (simp add: agrees_def pikachu5_slot emptyPokemon_def exp_pikachu)

text \<open>A cartridge whose only monster is that Pikachu (internal number 84).\<close>

definition pikachuSram :: "byte list" where
  "pikachuSram = blankSram[SAV_PARTY_COUNT := 1, pkmAt 0 := 84, pkmAt 0 + (PKM_EXP + 2) := 125]"

lemma pikachuSram_facts:
  "sram_ok pikachuSram" "readBE24 pikachuSram (pkmAt 0 + PKM_EXP) = 125" "readU8 pikachuSram SAV_PARTY_COUNT = 1"
  "readU8 pikachuSram (pkmAt 0) = 84"
  by (simp_all add: pikachuSram_def sram_ok_def readBE24_def readU8_def pkmAt_def SAV_POKEMON_DATA_def SAV_PARTY_COUNT_def
      nth_list_update blankSram_def)

theorem shown_level_is_saved_witness:
  "let p = slot 0 (fold applyEventXp [gift, gift] pikachu5);
       (level, sram') = patchPokemon 0 (dp_speciesDex p) (dp_totalXpGained p) pikachuSram in
    level = dp_savLevel p + dp_totalLevelsGained p
    \<and> readU8 sram' (pkmAt 0 + PKM_LEVEL_PARTY) = dp_savLevel p + dp_totalLevelsGained p
    \<and> readBE24 sram' (pkmAt 0 + PKM_EXP) = dp_savExp p + dp_totalXpGained p"
  by (rule shown_level_is_saved)
    (use pikachuSram_facts pikachu5_agrees in \<open>simp_all add: pikachu5_slot emptyPokemon_def\<close>)

subsection \<open>Experience is paid twice\<close>

lemma learnMoves_outside: "outside (moveCells i) s (snd (learnMoves i d lo hi s))"
proof -
  have one: "outside (moveCells i) u (snd (learnOne i m (r, u)))" for m r u
    by (auto simp: learnOne_def setMove_outside split: option.split)
  have "outside (moveCells i) (snd ru) (snd (fold (learnOne i) ms ru))" for ms ru
  proof (induction ms arbitrary: ru)
    case (Cons m ms)
    show ?case using one [of "snd ru" m "fst ru"] Cons.IH [of "learnOne i m ru"] by (auto intro: outside_trans)
  qed simp
  from this [of "(\<lparr>learned = [], pending = []\<rparr>, s)"] show ?thesis by (simp add: learnMoves_def Let_def)
qed

lemma replace_outside: "outside (moveCells i) s (fold (replaceWeakest i) ms s)"
proof (induction ms arbitrary: s)
  case (Cons m ms)
  then show ?case using setMove_outside [of i s] by (auto simp: replaceWeakest_def intro: outside_trans)
qed simp

text \<open>Everything a check-out of a party of one may change.\<close>

definition savedCells :: "nat set" where
  "savedCells = patchCells 0 \<union> moveCells 0 \<union> {SAV_CHECKSUM_OFFSET}"

lemma patchSave_one:
  assumes st: "ds_partyCount st = 1" and d: "dp_speciesDex (slot 0 st) = d" "1 \<le> d" "d \<le> 151"
    and xp: "dp_totalXpGained (slot 0 st) = xp" "0 < xp" and s: "sram_ok s"
    and cap: "readBE24 s (pkmAt 0 + PKM_EXP) + xp \<le> expForLevel d 100"
  shows "outside savedCells s (patchSave st s)"
    and "readBE24 (patchSave st s) (pkmAt 0 + PKM_EXP) = readBE24 s (pkmAt 0 + PKM_EXP) + xp"
proof -
  define a where "a = snd (patchPokemon 0 d xp s)"
  define b where "b = fixChecksum a"
  define old where "old = readU8 s (pkmAt 0 + PKM_LEVEL_PARTY)"
  define lr where "lr = learnMoves 0 d old (readU8 b (pkmAt 0 + PKM_LEVEL_PARTY)) b"
  define c where "c = fold (replaceWeakest 0) (pending (fst lr)) (snd lr)"
  have ps: "dp_speciesDex (ds_pokemon st ! 0) = d" "dp_totalXpGained (ds_pokemon st ! 0) = xp"
    using d(1) xp(1) by (simp_all add: slot_def)
  have co: "snd (checkout (d # ds) (xp # xs) (Suc 0) s) = b" for ds xs
    using xp(2) by (simp add: checkout_def checkoutOne_def a_def b_def)
  have run: "patchSave st s = (if learned (fst lr) \<noteq> [] \<or> pending (fst lr) \<noteq> [] then fixChecksum c else c)"
    using xp(2)
    by (cases "learnMoves 0 d old (readU8 b (pkmAt 0 + PKM_LEVEL_PARTY)) b")
      (simp add: patchSave_def Let_def st ps co teachOne_def c_def lr_def old_def)
  have ab: "outside {SAV_CHECKSUM_OFFSET} a b" unfolding b_def by (rule fixChecksum_outside)
  have bc: "outside (moveCells 0) b c"
    unfolding c_def lr_def by (rule outside_trans [OF learnMoves_outside replace_outside])
  have cd: "outside {SAV_CHECKSUM_OFFSET} c (patchSave st s)"
    unfolding run by (simp add: fixChecksum_outside)
  have rest: "outside (moveCells 0 \<union> {SAV_CHECKSUM_OFFSET}) a (patchSave st s)"
    by (rule outside_trans [OF outside_trans]) (rule outside_mono [OF ab] outside_mono [OF bc] outside_mono [OF cd], blast)+
  show "outside savedCells s (patchSave st s)"
    unfolding savedCells_def
    by (rule outside_trans [OF outside_mono [OF patchPokemon_outside [of 0 s d xp, folded a_def]] outside_mono [OF rest]]) blast+
  have "readBE24 (patchSave st s) (pkmAt 0 + 14) = readBE24 a (pkmAt 0 + 14)"
    by (rule field24.unchanged [OF rest]) (auto simp: moveCells_def pkmAt_def SAV_POKEMON_DATA_def SAV_CHECKSUM_OFFSET_def)
  also have "\<dots> = min (u32 (readBE24 s (pkmAt 0 + 14) + xp)) (expForLevel d 100)"
    using patch_level_spec [OF s _ d(2,3), of 0 xp] by (simp add: a_def Let_def split_beta)
  also have "\<dots> = readBE24 s (pkmAt 0 + 14) + xp" using cap expForLevel_100 [of d] by simp
  finally show "readBE24 (patchSave st s) (pkmAt 0 + PKM_EXP) = readBE24 s (pkmAt 0 + PKM_EXP) + xp" .
qed

text \<open>The species byte and the party count are not among the cells.\<close>

lemma patchSave_party:
  assumes "outside savedCells s t"
  shows "readU8 t SAV_PARTY_COUNT = readU8 s SAV_PARTY_COUNT" "readU8 t (pkmAt 0) = readU8 s (pkmAt 0)"
  by (rule field8.unchanged [OF assms],
      simp add: savedCells_def patchCells_def statCells_def moveCells_def pkmAt_def SAV_POKEMON_DATA_def
        SAV_CHECKSUM_OFFSET_def SAV_PARTY_COUNT_def)+

lemma checkIn_one:
  assumes "readU8 s SAV_PARTY_COUNT = 1" "internalToDex ! readU8 s (pkmAt 0) = d"
    and "dp_speciesDex (slot 0 st) = d" "length (ds_pokemon st) = 6"
  shows "ds_partyCount (dc_state (checkIn (Some st) s sn gn now dc)) = 1"
    and "dp_speciesDex (slot 0 (dc_state (checkIn (Some st) s sn gn now dc))) = d"
    and "dp_totalXpGained (slot 0 (dc_state (checkIn (Some st) s sn gn now dc))) = dp_totalXpGained (slot 0 st)"
proof -
  have "readParty s = [readPartyMon s 0]" using assms(1) by (simp add: readParty_def)
  moreover have "pi_dexNum (readPartyMon s 0) = d" using assms(2) by (simp add: readPartyMon_def Let_def)
  ultimately show "ds_partyCount (dc_state (checkIn (Some st) s sn gn now dc)) = 1"
    "dp_speciesDex (slot 0 (dc_state (checkIn (Some st) s sn gn now dc))) = d"
    "dp_totalXpGained (slot 0 (dc_state (checkIn (Some st) s sn gn now dc))) = dp_totalXpGained (slot 0 st)"
    using assms(3,4)
    by (simp_all add: checkIn_def openDaycare_def onState_def restore_def onPokemon_def upd_at_def slot_def enterSlot_def)
qed

text \<open>
  Check-out never clears the experience it has paid: checking the same monster in and out again
  adds the same experience to the cartridge a second time, without any event in between.
\<close>

theorem checkout_pays_twice:
  assumes "ds_partyCount (dc_state dc) = 1" "length (ds_pokemon (dc_state dc)) = 6" "sram_ok s"
    and "readU8 s SAV_PARTY_COUNT = 1" "internalToDex ! readU8 s (pkmAt 0) = d" "1 \<le> d" "d \<le> 151"
    and "dp_speciesDex (slot 0 (dc_state dc)) = d" "dp_totalXpGained (slot 0 (dc_state dc)) = xp" "0 < xp"
    and "readBE24 s (pkmAt 0 + PKM_EXP) + 2 * xp \<le> expForLevel d 100"
    and "checkOut (Some s) dc = (Some s1, dc1)"
    and "checkOut (Some s1) (checkIn (Some (dc_state dc1)) s1 sn gn now dc1) = (Some s2, dc2)"
  shows "readBE24 s1 (pkmAt 0 + PKM_EXP) = readBE24 s (pkmAt 0 + PKM_EXP) + xp
    \<and> readBE24 s2 (pkmAt 0 + PKM_EXP) = readBE24 s (pkmAt 0 + PKM_EXP) + 2 * xp"
proof -
  define st2 where "st2 = dc_state (checkIn (Some (dc_state dc1)) s1 sn gn now dc1)"
  have s1: "s1 = patchSave (dc_state dc) s" "dc_state dc1 = dc_state dc" and s2: "s2 = patchSave st2 s1"
    using assms(12,13) by (auto simp: checkOut_def saveState_def st2_def)
  have cap1: "readBE24 s (pkmAt 0 + PKM_EXP) + xp \<le> expForLevel d 100" using assms(11) by simp
  note p1 = patchSave_one [OF assms(1,8,6,7,9,10,3) cap1, folded s1(1)]
  have party: "readU8 s1 SAV_PARTY_COUNT = 1" "internalToDex ! readU8 s1 (pkmAt 0) = d"
    using patchSave_party [OF p1(1)] assms(4,5) by simp_all
  note c = checkIn_one [OF party assms(8,2), of sn gn now dc1, folded st2_def [unfolded s1(2)]]
  have "sram_ok s1" using p1(1) assms(3) by (simp add: sram_ok_def outside_def)
  then have "readBE24 s2 (pkmAt 0 + PKM_EXP) = readBE24 s1 (pkmAt 0 + PKM_EXP) + xp"
    unfolding s2 by (intro patchSave_one(2) [where d = d]) (use c assms(6,7,9,10,11) p1(2) in auto)
  then show ?thesis using p1(2) by simp
qed

lemma gifted: "slot 0 (applyEventXp gift pikachu5) = (slot 0 (applyEventXp gift pikachu5))\<lparr>dp_totalXpGained := 150, dp_speciesDex := 25\<rparr>"
proof -
  have cap: "dp_savExp (slot 0 pikachu5) + dp_totalXpGained (slot 0 pikachu5) \<le> expForLevel (dp_speciesDex (slot 0 pikachu5)) 100"
    by (simp add: pikachu5_slot emptyPokemon_def exp_pikachu)
  have "slot 0 (applyEventXp gift pikachu5) = gainXp 150 (slot 0 pikachu5)"
    by (simp add: applyEventXp_def gift_def emptyEvent_def slot_onPokemon pikachu5_slot(2,3))
  then show ?thesis
    using gainXp_exact [OF cap, of 150]
    by (simp add: pikachu5_slot emptyPokemon_def exp_pikachu DaycarePokemonState.equality)
qed

theorem checkout_pays_twice_witness:
  "let dc = (newDaycare False False)\<lparr>dc_state := applyEventXp gift pikachu5\<rparr>;
       (r1, dc1) = checkOut (Some pikachuSram) dc;
       (r2, dc2) = checkOut r1 (checkIn (Some (dc_state dc1)) (the r1) ''ABCD'' ''RED'' 5 dc1) in
    readBE24 (the r1) (pkmAt 0 + PKM_EXP) = 275 \<and> readBE24 (the r2) (pkmAt 0 + PKM_EXP) = 425"
proof -
  define dc where "dc = (newDaycare False False)\<lparr>dc_state := applyEventXp gift pikachu5\<rparr>"
  define s1 dc1 where "s1 = patchSave (dc_state dc) pikachuSram" and "dc1 = snd (checkOut (Some pikachuSram) dc)"
  define dc2 where "dc2 = checkIn (Some (dc_state dc1)) s1 ''ABCD'' ''RED'' 5 dc1"
  have g: "dp_totalXpGained (slot 0 (dc_state dc)) = 150" "dp_speciesDex (slot 0 (dc_state dc)) = 25"
    using gifted by (simp_all add: dc_def) (metis DaycarePokemonState.select_convs DaycarePokemonState.surjective DaycarePokemonState.update_convs)+
  have st: "ds_partyCount (dc_state dc) = 1" "length (ds_pokemon (dc_state dc)) = 6"
    by (simp_all add: dc_def applyEventXp_def pikachu5_slot)
  have r1: "checkOut (Some pikachuSram) dc = (Some s1, dc1)" by (simp add: checkOut_def s1_def dc1_def)
  obtain dc3 where r2: "checkOut (Some s1) dc2 = (Some (patchSave (dc_state dc2) s1), dc3)"
    by (simp add: checkOut_def)
  have "readBE24 s1 (pkmAt 0 + PKM_EXP) = readBE24 pikachuSram (pkmAt 0 + PKM_EXP) + 150
    \<and> readBE24 (patchSave (dc_state dc2) s1) (pkmAt 0 + PKM_EXP) = readBE24 pikachuSram (pkmAt 0 + PKM_EXP) + 2 * 150"
    unfolding dc2_def
    by (rule checkout_pays_twice [OF st pikachuSram_facts(1,3) _ _ _ g(2,1) _ _ r1 r2 [unfolded dc2_def]])
      (simp_all add: pikachuSram_facts internalToDex_def exp_pikachu)
  then show ?thesis
    unfolding Let_def dc_def [symmetric] r1 prod.case option.sel dc2_def [symmetric] r2
    by (simp add: pikachuSram_facts)
qed

end
