(* ===== verification/BattleWire.thy ===== *)
theory BattleWire
  imports BattleHash
begin

text \<open>
  The wire format of networked battles: \<^verbatim>\<open>src/modules/monstermesh/BattlePacket.h\<close> and the
  party blob of \<^verbatim>\<open>MonsterMeshTextBattle.cpp\<close> (lines 1545 to 1595).  A packet on the air is a
  list of bytes (numbers below 256) of the length handed to the transport; its struct is read off the
  first four of them.
\<close>

subsection \<open>Packet types and sizes\<close>

datatype PktType =
    BATTLE_REQUEST | BATTLE_ACCEPT | BATTLE_REJECT | BATTLE_CANCEL | SERIAL_DATA | PING
  | PONG | LOBBY_BEACON | LOBBY_CHALLENGE | LOBBY_ACCEPT | LOBBY_REJECT | TRADE_READY
  | TRADE_BLOCK_PART | PATCH_LIST_PART | TRADE_SELECT | TRADE_CONFIRM | TEXT_BATTLE_START
  | TEXT_BATTLE_ACTION | TEXT_BATTLE_FORFEIT | TEXT_BATTLE_HASH | TEXT_BATTLE_PARTY
  | TEXT_BATTLE_PARTY_MIN | TEXT_BATTLE_UPDATE | TEXT_BATTLE_ACTION_V2
  | TEXT_BATTLE_CHALLENGE | TEXT_BATTLE_ACCEPT | TEXT_BATTLE_STATE_REQUEST
  | TEXT_BATTLE_FULL_STATE | TEXT_BATTLE_READY | BBS_PING | BBS_REPLY | BBS_FIGHT_REQUEST
  | BBS_FIGHT_RESULT | BBS_LADDER_REQUEST | BBS_LADDER_NAMES | BBS_LADDER_PARTIES
  | DUNGEON_BEACON | DUNGEON_JOIN | DUNGEON_JOIN_ACK | DUNGEON_CMD | DUNGEON_STATE
  | DUNGEON_MSG | DUNGEON_PROMPT

fun pktCode :: "PktType \<Rightarrow> nat" where
  "pktCode BATTLE_REQUEST = 0x10"
| "pktCode BATTLE_ACCEPT = 0x11"
| "pktCode BATTLE_REJECT = 0x12"
| "pktCode BATTLE_CANCEL = 0x13"
| "pktCode SERIAL_DATA = 0x20"
| "pktCode PING = 0x30"
| "pktCode PONG = 0x31"
| "pktCode LOBBY_BEACON = 0x40"
| "pktCode LOBBY_CHALLENGE = 0x41"
| "pktCode LOBBY_ACCEPT = 0x42"
| "pktCode LOBBY_REJECT = 0x43"
| "pktCode TRADE_READY = 0x50"
| "pktCode TRADE_BLOCK_PART = 0x51"
| "pktCode PATCH_LIST_PART = 0x52"
| "pktCode TRADE_SELECT = 0x53"
| "pktCode TRADE_CONFIRM = 0x54"
| "pktCode TEXT_BATTLE_START = 0x60"
| "pktCode TEXT_BATTLE_ACTION = 0x61"
| "pktCode TEXT_BATTLE_FORFEIT = 0x62"
| "pktCode TEXT_BATTLE_HASH = 0x63"
| "pktCode TEXT_BATTLE_PARTY = 0x64"
| "pktCode TEXT_BATTLE_PARTY_MIN = 0x65"
| "pktCode TEXT_BATTLE_UPDATE = 0x66"
| "pktCode TEXT_BATTLE_ACTION_V2 = 0x67"
| "pktCode TEXT_BATTLE_CHALLENGE = 0x68"
| "pktCode TEXT_BATTLE_ACCEPT = 0x69"
| "pktCode TEXT_BATTLE_STATE_REQUEST = 0x6A"
| "pktCode TEXT_BATTLE_FULL_STATE = 0x6B"
| "pktCode TEXT_BATTLE_READY = 0x6C"
| "pktCode BBS_PING = 0x70"
| "pktCode BBS_REPLY = 0x71"
| "pktCode BBS_FIGHT_REQUEST = 0x72"
| "pktCode BBS_FIGHT_RESULT = 0x73"
| "pktCode BBS_LADDER_REQUEST = 0x74"
| "pktCode BBS_LADDER_NAMES = 0x75"
| "pktCode BBS_LADDER_PARTIES = 0x76"
| "pktCode DUNGEON_BEACON = 0x80"
| "pktCode DUNGEON_JOIN = 0x81"
| "pktCode DUNGEON_JOIN_ACK = 0x82"
| "pktCode DUNGEON_CMD = 0x83"
| "pktCode DUNGEON_STATE = 0x84"
| "pktCode DUNGEON_MSG = 0x85"
| "pktCode DUNGEON_PROMPT = 0x86"

definition allPktTypes :: "PktType list" where
  "allPktTypes =
    [BATTLE_REQUEST, BATTLE_ACCEPT, BATTLE_REJECT, BATTLE_CANCEL, SERIAL_DATA, PING, PONG
     , LOBBY_BEACON, LOBBY_CHALLENGE, LOBBY_ACCEPT, LOBBY_REJECT, TRADE_READY
     , TRADE_BLOCK_PART, PATCH_LIST_PART, TRADE_SELECT, TRADE_CONFIRM, TEXT_BATTLE_START
     , TEXT_BATTLE_ACTION, TEXT_BATTLE_FORFEIT, TEXT_BATTLE_HASH, TEXT_BATTLE_PARTY
     , TEXT_BATTLE_PARTY_MIN, TEXT_BATTLE_UPDATE, TEXT_BATTLE_ACTION_V2
     , TEXT_BATTLE_CHALLENGE, TEXT_BATTLE_ACCEPT, TEXT_BATTLE_STATE_REQUEST
     , TEXT_BATTLE_FULL_STATE, TEXT_BATTLE_READY, BBS_PING, BBS_REPLY, BBS_FIGHT_REQUEST
     , BBS_FIGHT_RESULT, BBS_LADDER_REQUEST, BBS_LADDER_NAMES, BBS_LADDER_PARTIES
     , DUNGEON_BEACON, DUNGEON_JOIN, DUNGEON_JOIN_ACK, DUNGEON_CMD, DUNGEON_STATE
     , DUNGEON_MSG, DUNGEON_PROMPT]"

text \<open>The cast of a received type byte.\<close>

definition pktType :: "nat \<Rightarrow> PktType option" where
  "pktType n = find (\<lambda>t. pktCode t = n) allPktTypes"

abbreviation (input) BATTLELINK_MAX_PKT :: nat where "BATTLELINK_MAX_PKT \<equiv> 200"
abbreviation (input) BATTLELINK_HDR_SIZE :: nat where "BATTLELINK_HDR_SIZE \<equiv> 4"
abbreviation (input) BATTLELINK_MAX_PAYLOAD :: nat where "BATTLELINK_MAX_PAYLOAD \<equiv> 196"
abbreviation (input) TB_MAX_NAME_LEN :: nat where "TB_MAX_NAME_LEN \<equiv> 12"
abbreviation (input) TB_PARTY_MIN_BYTES :: nat where "TB_PARTY_MIN_BYTES \<equiv> 109"
abbreviation (input) TB_ACTION_BYTES :: nat where "TB_ACTION_BYTES \<equiv> 4"
abbreviation (input) TB_STATE_REQUEST_BYTES :: nat where "TB_STATE_REQUEST_BYTES \<equiv> 1"
abbreviation (input) TB_UPDATE_MAX_LOG_LINES :: nat where "TB_UPDATE_MAX_LOG_LINES \<equiv> 6"
abbreviation (input) TB_CHALLENGE_RESEND_MS :: nat where "TB_CHALLENGE_RESEND_MS \<equiv> 8000"
abbreviation (input) TB_CHALLENGE_MAX_TRIES :: nat where "TB_CHALLENGE_MAX_TRIES \<equiv> 15"
abbreviation (input) TB_UPDATE_RESEND_MS :: nat where "TB_UPDATE_RESEND_MS \<equiv> 15000"
abbreviation (input) TB_ACTION_RESEND_MS :: nat where "TB_ACTION_RESEND_MS \<equiv> 11000"
abbreviation (input) TB_NO_TRAFFIC_TIMEOUT_MS :: nat where "TB_NO_TRAFFIC_TIMEOUT_MS \<equiv> 60000"

text \<open>The sections of an UPDATE are selected by bits of a 16-bit field.\<close>

abbreviation (input) TB_UPD_HP :: nat where "TB_UPD_HP \<equiv> 1"
abbreviation (input) TB_UPD_PP :: nat where "TB_UPD_PP \<equiv> 2"
abbreviation (input) TB_UPD_SWITCH :: nat where "TB_UPD_SWITCH \<equiv> 4"
abbreviation (input) TB_UPD_STATUS :: nat where "TB_UPD_STATUS \<equiv> 8"
abbreviation (input) TB_UPD_RESULT :: nat where "TB_UPD_RESULT \<equiv> 16"
abbreviation (input) TB_UPD_LOG :: nat where "TB_UPD_LOG \<equiv> 32"
abbreviation (input) TB_UPD_NEED_PLAYER_SWITCH :: nat where "TB_UPD_NEED_PLAYER_SWITCH \<equiv> 64"
abbreviation (input) TB_UPD_BENCH :: nat where "TB_UPD_BENCH \<equiv> 128"
abbreviation (input) TB_UPD_FX :: nat where "TB_UPD_FX \<equiv> 256"

definition has_flag :: "nat \<Rightarrow> nat \<Rightarrow> bool" where
  "has_flag flags b \<longleftrightarrow> flags div b mod 2 = 1"

text \<open>Results as the client sees them.\<close>

abbreviation (input) TB_RESULT_ONGOING :: nat where "TB_RESULT_ONGOING \<equiv> 0"
abbreviation (input) TB_RESULT_YOU_WIN :: nat where "TB_RESULT_YOU_WIN \<equiv> 1"
abbreviation (input) TB_RESULT_YOU_LOSE :: nat where "TB_RESULT_YOU_LOSE \<equiv> 2"
abbreviation (input) TB_RESULT_DRAW :: nat where "TB_RESULT_DRAW \<equiv> 3"
abbreviation (input) TB_RESULT_FLED :: nat where "TB_RESULT_FLED \<equiv> 4"

subsection \<open>The header\<close>

record BattlePacket =
  pk_type :: nat
  pk_sessionHi :: nat
  pk_sessionLo :: nat
  pk_seq :: nat
  pk_payload :: "nat list"

definition sessionId :: "BattlePacket \<Rightarrow> nat" where
  "sessionId p = pk_sessionHi p * 256 + pk_sessionLo p"

definition setSessionId :: "nat \<Rightarrow> BattlePacket \<Rightarrow> BattlePacket" where
  "setSessionId sid p = p\<lparr>pk_sessionHi := sid div 256 mod 256, pk_sessionLo := sid mod 256\<rparr>"

text \<open>The struct laid over a buffer of at least four bytes, and back.\<close>

definition overlay :: "nat list \<Rightarrow> BattlePacket" where
  "overlay buf = \<lparr>pk_type = buf ! 0, pk_sessionHi = buf ! 1, pk_sessionLo = buf ! 2, pk_seq = buf ! 3,
     pk_payload = drop BATTLELINK_HDR_SIZE buf\<rparr>"

definition packetBytes :: "BattlePacket \<Rightarrow> nat list" where
  "packetBytes p = [pk_type p, pk_sessionHi p, pk_sessionLo p, pk_seq p] @ pk_payload p"

definition mkPacket :: "PktType \<Rightarrow> nat \<Rightarrow> nat \<Rightarrow> nat list \<Rightarrow> nat list" where
  "mkPacket t sid sq payload =
     packetBytes (setSessionId sid \<lparr>pk_type = pktCode t, pk_sessionHi = 0, pk_sessionLo = 0,
       pk_seq = sq, pk_payload = payload\<rparr>)"

lemma overlay_mkPacket [simp]:
  "pk_type (overlay (mkPacket t sid sq pl)) = pktCode t"
  "pk_seq (overlay (mkPacket t sid sq pl)) = sq"
  "pk_payload (overlay (mkPacket t sid sq pl)) = pl"
  "length (mkPacket t sid sq pl) = 4 + length pl"
  by (simp_all add: overlay_def mkPacket_def packetBytes_def setSessionId_def)

lemma sessionId_mkPacket [simp]: "sid < 65536 \<Longrightarrow> sessionId (overlay (mkPacket t sid sq pl)) = sid"
  by (simp add: overlay_def mkPacket_def packetBytes_def setSessionId_def sessionId_def)

lemma pktType_pktCode [simp]: "pktType (pktCode t) = Some t"
  by (cases t) (simp_all add: pktType_def allPktTypes_def)

subsection \<open>Fixed-size payloads\<close>

definition tbPackAction :: "nat \<Rightarrow> nat \<Rightarrow> nat \<Rightarrow> nat \<Rightarrow> nat list" where
  "tbPackAction trn actionType index lastAckedSeq = [trn, actionType, index, lastAckedSeq]"

definition tbUnpackAction :: "nat list \<Rightarrow> (nat \<times> nat \<times> nat \<times> nat) option" where
  "tbUnpackAction inp =
     (if length inp < TB_ACTION_BYTES then None else Some (inp ! 0, inp ! 1, inp ! 2, inp ! 3))"

definition tbPackStateRequest :: "nat \<Rightarrow> nat list" where
  "tbPackStateRequest lastAppliedSeq = [lastAppliedSeq]"

definition tbUnpackStateRequest :: "nat list \<Rightarrow> nat option" where
  "tbUnpackStateRequest inp = (if length inp < TB_STATE_REQUEST_BYTES then None else Some (inp ! 0))"

lemma tbUnpackAction_pack [simp]: "tbUnpackAction (tbPackAction t a i s) = Some (t, a, i, s)"
  by (simp add: tbPackAction_def tbUnpackAction_def)

text \<open>FNV-1a on 32 bits, cut to its low 24.\<close>

definition fnv32Step :: "32 word \<Rightarrow> nat \<Rightarrow> 32 word" where
  "fnv32Step h b = (h XOR of_nat b) * 0x01000193"

definition tbBoardHash24 :: "nat list \<Rightarrow> nat" where
  "tbBoardHash24 buf = unat (foldl fnv32Step 0x811c9dc5 buf AND 0x00FFFFFF)"

subsection \<open>The party blob\<close>

text \<open>A zeroed record, as \<open>memset\<close> leaves it.\<close>

definition zeroSaved :: Gen1Pokemon where
  "zeroSaved = \<lparr>sv_species = 0, sv_hp = [0, 0], sv_boxLevel = 0, sv_status = 0, sv_type1 = 0, sv_type2 = 0,
     sv_catchRate = 0, sv_moves = [0, 0, 0, 0], sv_otId = [0, 0], sv_exp = [0, 0, 0], sv_hpExp = [0, 0],
     sv_atkExp = [0, 0], sv_defExp = [0, 0], sv_spdExp = [0, 0], sv_spcExp = [0, 0], sv_dvs = [0, 0],
     sv_pp = [0, 0, 0, 0], sv_level = 0, sv_maxHp = [0, 0], sv_atk = [0, 0], sv_def = [0, 0],
     sv_spd = [0, 0], sv_spc = [0, 0]\<rparr>"

definition packMonMin :: "Gen1Pokemon \<Rightarrow> nat list" where
  "packMonMin m =
     [unat (sv_species m), unat (if sv_level m \<noteq> 0 then sv_level m else sv_boxLevel m),
      unat (sv_dvs m ! 0), unat (sv_dvs m ! 1)]
     @ map unat (take 2 (sv_hpExp m)) @ map unat (take 2 (sv_atkExp m)) @ map unat (take 2 (sv_defExp m))
     @ map unat (take 2 (sv_spdExp m)) @ map unat (take 2 (sv_spcExp m)) @ map unat (take 4 (sv_moves m))"

definition packPartyMinTb :: "Gen1Party \<Rightarrow> nat list" where
  "packPartyMinTb src = unat (gp_count src) # concat (map (\<lambda>i. packMonMin (gp_mons src ! i)) [0..<6])"

definition bytesAt :: "nat list \<Rightarrow> nat \<Rightarrow> nat \<Rightarrow> byte list" where
  "bytesAt p i n = map of_nat (take n (drop i p))"

definition unpackMonMin :: "nat list \<Rightarrow> Gen1Pokemon" where
  "unpackMonMin p =
     (let mvs = bytesAt p 14 4
      in zeroSaved\<lparr>sv_species := of_nat (p ! 0), sv_level := of_nat (p ! 1), sv_boxLevel := of_nat (p ! 1),
           sv_dvs := [of_nat (p ! 2), of_nat (p ! 3)],
           sv_hpExp := bytesAt p 4 2, sv_atkExp := bytesAt p 6 2, sv_defExp := bytesAt p 8 2,
           sv_spdExp := bytesAt p 10 2, sv_spcExp := bytesAt p 12 2, sv_moves := mvs,
           sv_pp := map (\<lambda>m. case gen1Move (unat m) of Some d \<Rightarrow> of_nat (mpp d) | None \<Rightarrow> 0) mvs\<rparr>)"

definition unpackPartyMinTb :: "nat list \<Rightarrow> Gen1Party" where
  "unpackPartyMinTb inp =
     (let n = (if inp ! 0 > 6 then 6 else inp ! 0);
          ms = map (\<lambda>i. unpackMonMin (take 18 (drop (1 + i * 18) inp))) [0..<6]
      in \<lparr>gp_count = of_nat n,
          gp_species = map (\<lambda>i. if i < n then sv_species (ms ! i) else 0xFF) [0..<7],
          gp_mons = ms, gp_otNames = replicate 6 (replicate 11 0), gp_nicknames = replicate 6 (replicate 11 0)\<rparr>)"

end
