(* ===== verification/BattleSession.thy ===== *)
theory BattleSession
  imports BattleWire
begin

text \<open>
  The object that plays a battle over the mesh or against the computer
  (\<^verbatim>\<open>src/modules/monstermesh/MonsterMeshTextBattle.h\<close> and its source file): its state, the
  log ring, the transmit queue of \<^verbatim>\<open>MeshtasticTransport.h\<close>, the engine calls that write to the
  log, and experience inside a battle.  Members that only the display reads (dirty flag, scroll
  counters, header and prompt texts) are left out.  \<open>now\<close> is \<open>millis()\<close> when a call starts
  and \<open>rnd\<close> the value of \<open>esp_random()\<close> in it.
\<close>

subsection \<open>State\<close>

datatype Mode = OFF | NETWORKED | LOCAL_ROGUELIKE

datatype Role = LEGACY | SERVER | CLIENT

datatype Phase = IDLE | WAIT_ACTION | WAIT_REMOTE | WAIT_SWITCH | WAIT_FLEE | ANIMATING | FINISHED
  | WAIT_CHALLENGE_OVERLAY | WAIT_PEER_READY

abbreviation (input) LOG_LINES :: nat where "LOG_LINES \<equiv> 6"
abbreviation (input) LOG_WIDTH :: nat where "LOG_WIDTH \<equiv> 40"
abbreviation (input) REMOTE_TIMEOUT_MS :: nat where "REMOTE_TIMEOUT_MS \<equiv> 60000"
abbreviation (input) RESEND_INTERVAL_MS :: nat where "RESEND_INTERVAL_MS \<equiv> 4000"

record TextBattle =
  engine :: Engine
  txQueue :: "nat list list"
  mode :: Mode
  phase :: Phase
  remoteId :: nat
  session :: nat
  cursor :: nat
  switchCursor :: nat
  pendingRemoteAction :: bool
  lastSentAction :: nat
  lastSentIndex :: nat
  lastSentTurn :: nat
  lastSendMs :: nat
  fleeAttempts :: nat
  prevSentAction :: nat
  prevSentIndex :: nat
  prevSentTurn :: nat
  participantMask :: nat
  lastPlayerActive :: nat
  lastEnemyActive :: nat
  lastEnemyHp :: "nat list"
  isTrainerBattle :: bool
  pendingXpDrops :: nat
  pendingXpPerSlot :: "nat list"
  slotXpAccum :: "nat list"
  log_lines :: "string list"
  logHead :: nat
  logFill :: nat
  myNodeNum :: nat
  lastRecvMs :: nat
  peerReady :: bool
  playerWon :: bool
  oppTag :: string
  peerReadyTimeoutMs :: nat
  role :: Role
  myTbName :: string
  peerTbName :: string
  pendingMyParty :: Gen1Party
  pendingClientParty :: Gen1Party
  pendingServerParty :: Gen1Party
  lastChallengeMs :: nat
  challengeTries :: nat
  awaitingAccept :: bool
  updateSeq :: nat
  unackedUpdate :: bool
  pendingKeyExit :: bool
  finishedAtMs :: nat
  lastUpdateSendMs :: nat
  lastUpdateBuf :: "nat list"
  unshippedLogLines :: nat
  clientActionType :: nat
  clientActionIndex :: nat
  clientActionTurn :: nat
  lastClientActionSendMs :: nat
  lastAppliedUpdateSeq :: nat
  clientNeedsFullState :: bool
  awaitingFirstUpdate :: bool
  lastAcceptSendMs :: nat
  awaitingUpdateSinceMs :: nat
  preAcceptUpdateBuf :: "nat list"
  clientTurn :: nat

definition emptySaveParty :: Gen1Party where
  "emptySaveParty = \<lparr>gp_count = 0, gp_species = replicate 7 0, gp_mons = replicate 6 zeroSaved,
     gp_otNames = replicate 6 (replicate 11 0), gp_nicknames = replicate 6 (replicate 11 0)\<rparr>"

definition newBattle :: "nat \<Rightarrow> TextBattle" where
  "newBattle node = \<lparr>engine = newEngine True, txQueue = [], mode = OFF, phase = IDLE, remoteId = 0, session = 0,
     cursor = 0, switchCursor = 0, pendingRemoteAction = False, lastSentAction = 255, lastSentIndex = 0,
     lastSentTurn = 0, lastSendMs = 0, fleeAttempts = 0, prevSentAction = 255, prevSentIndex = 0,
     prevSentTurn = 0, participantMask = 1, lastPlayerActive = 0, lastEnemyActive = 0,
     lastEnemyHp = replicate 6 0, isTrainerBattle = True, pendingXpDrops = 0,
     pendingXpPerSlot = replicate 6 0, slotXpAccum = replicate 6 0, log_lines = replicate 6 [],
     logHead = 0, logFill = 0, myNodeNum = node, lastRecvMs = 0, peerReady = False, playerWon = False,
     oppTag = [], peerReadyTimeoutMs = 0, role = LEGACY, myTbName = [], peerTbName = [],
     pendingMyParty = emptySaveParty, pendingClientParty = emptySaveParty, pendingServerParty = emptySaveParty,
     lastChallengeMs = 0, challengeTries = 0, awaitingAccept = False, updateSeq = 0, unackedUpdate = False,
     pendingKeyExit = False, finishedAtMs = 0, lastUpdateSendMs = 0, lastUpdateBuf = [],
     unshippedLogLines = 0, clientActionType = 255, clientActionIndex = 0, clientActionTurn = 0,
     lastClientActionSendMs = 0, lastAppliedUpdateSeq = 0, clientNeedsFullState = False,
     awaitingFirstUpdate = False, lastAcceptSendMs = 0, awaitingUpdateSinceMs = 0,
     preAcceptUpdateBuf = [], clientTurn = 0\<rparr>"

subsection \<open>Log and transmit queue\<close>

text \<open>The source's texts are UTF-8; these are its ellipsis and its dash.\<close>

definition ellipsis :: string where "ellipsis = [CHR 0xE2, CHR 0x80, CHR 0xA6]"

definition emdash :: string where "emdash = [CHR 0xE2, CHR 0x80, CHR 0x94]"

definition appendLog :: "string \<Rightarrow> TextBattle \<Rightarrow> TextBattle" where
  "appendLog line t = t\<lparr>log_lines := (log_lines t)[logHead t := snprintf (LOG_WIDTH + 1) line],
     logHead := (logHead t + 1) mod LOG_LINES,
     logFill := (if logFill t < LOG_LINES then logFill t + 1 else logFill t),
     unshippedLogLines := (if unshippedLogLines t < LOG_LINES then unshippedLogLines t + 1 else unshippedLogLines t)\<rparr>"

text \<open>The last lines, oldest first, as far as they fit the caller's buffer.\<close>

fun joinLog :: "nat \<Rightarrow> nat \<Rightarrow> string list \<Rightarrow> string \<times> nat" where
  "joinLog i room [] = ([], 0)"
| "joinLog i room (l # ls) =
     (let s = (if i = 0 then l else CHR 0x0A # l)
      in if room = 0 \<or> s = [] then ([], 0)
         else if room \<le> length s then (take (room - 1) s, 1)
         else (let (r, n) = joinLog (i + 1) (room - length s) ls in (s @ r, n + 1)))"

definition getRecentLog :: "nat \<Rightarrow> nat \<Rightarrow> TextBattle \<Rightarrow> string \<times> nat" where
  "getRecentLog outCap maxLines t =
     (let n = min (logFill t) maxLines
      in if outCap = 0 \<or> logFill t = 0 then ([], 0)
         else joinLog 0 (outCap - 1) (map (\<lambda>i. log_lines t ! ((logHead t + LOG_LINES - n + i) mod LOG_LINES)) [0..<n]))"

text \<open>
  A full queue drops the packet (the send gives up after 50 ms); packets longer than the radio's
  limit are refused.
\<close>

definition queueSend :: "nat list \<Rightarrow> TextBattle \<Rightarrow> TextBattle" where
  "queueSend pkt t =
     (if length pkt > 237 \<or> 16 \<le> length (txQueue t) then t else t\<lparr>txQueue := txQueue t @ [pkt]\<rparr>)"

definition dropPendingSends :: "TextBattle \<Rightarrow> TextBattle" where
  "dropPendingSends t = t\<lparr>txQueue := []\<rparr>"

definition dequeueSend :: "TextBattle \<Rightarrow> nat list option \<times> TextBattle" where
  "dequeueSend t = (case txQueue t of [] \<Rightarrow> (None, t) | p # ps \<Rightarrow> (Some p, t\<lparr>txQueue := ps\<rparr>))"

subsection \<open>Engine calls\<close>

text \<open>
  The sink of an engine call is \<open>appendLog\<close> of this object; the lines the call emits are handed to
  it in order.
\<close>

definition runEngine :: "'a eng \<Rightarrow> TextBattle \<Rightarrow> 'a \<times> TextBattle" where
  "runEngine m t =
     (let (x, e) = run_state m ((engine t)\<lparr>logOn := True, elog := []\<rparr>)
      in (x, fold appendLog (elog e) (t\<lparr>engine := e\<lparr>elog := []\<rparr>\<rparr>)))"

definition callEngine :: "unit eng \<Rightarrow> TextBattle \<Rightarrow> TextBattle" where
  "callEngine m t = snd (runEngine m t)"

definition onEngine :: "(Engine \<Rightarrow> Engine) \<Rightarrow> TextBattle \<Rightarrow> TextBattle" where
  "onEngine f t = t\<lparr>engine := f (engine t)\<rparr>"

definition submit :: "nat \<Rightarrow> nat \<Rightarrow> nat \<Rightarrow> TextBattle \<Rightarrow> TextBattle" where
  "submit sd a i = onEngine (\<lambda>e. snd (submitAction sd a i e))"

definition faintCheck :: "side \<Rightarrow> TextBattle \<Rightarrow> TextBattle" where
  "faintCheck s t =
     (if hp (activeMon (engine t) s) = 0 then snd (runEngine (autoReplaceIfFainted s) t) else t)"

definition handleFaints :: "TextBattle \<Rightarrow> TextBattle" where
  "handleFaints t = faintCheck S1 (faintCheck S0 t)"

text \<open>Full HP, no status, and PP from the move table, as at the start of every battle.\<close>

definition freshMon :: "BattlePoke \<Rightarrow> BattlePoke" where
  "freshMon m = m\<lparr>hp := maxHp m, status := 0,
     pp := map (\<lambda>x. case gen1Move x of Some d \<Rightarrow> mpp d | None \<Rightarrow> 0) (moves m)\<rparr>"

definition onMons :: "(BattlePoke \<Rightarrow> BattlePoke) \<Rightarrow> BattleParty \<Rightarrow> BattleParty" where
  "onMons f p = p\<lparr>mons := map f (take (min 6 (pcount p)) (mons p)) @ drop (min 6 (pcount p)) (mons p)\<rparr>"

definition freshParty :: "BattleParty \<Rightarrow> BattleParty" where
  "freshParty = onMons freshMon"

definition freshBoth :: "Engine \<Rightarrow> Engine" where
  "freshBoth e = onParty S1 freshParty (onParty S0 freshParty e)"

definition healPlayer :: "TextBattle \<Rightarrow> TextBattle" where
  "healPlayer t = appendLog ''HP restored.''
     (onEngine (onParty S0 (onMons (\<lambda>m. m\<lparr>hp := maxHp m, status := 0\<rparr>))) t)"

subsection \<open>Experience inside a battle\<close>

definition popcount8 :: "nat \<Rightarrow> nat" where
  "popcount8 m = length (filter (\<lambda>k. bit m k) [0..<8])"

definition faintXp :: "nat \<Rightarrow> nat \<Rightarrow> BattlePoke \<Rightarrow> nat" where
  "faintXp mult pm m =
     (let n = (if popcount8 pm = 0 then 1 else popcount8 pm);
          lvl = (if level m \<noteq> 0 then level m else 1);
          b = GEN1_BASE_STATS ! (if species m < 152 then species m else 0);
          y = (b1_hp b + b1_atk b + b1_def b + b1_spd b + b1_spc b) div 3;
          y = (if y < 20 then 20 else y);
          xp = (y * lvl * mult) div (14 * n)
      in if xp = 0 then 1 else xp)"

text \<open>
  The level-up line passes the nickname, which the engine holds as ASCII, through the conversion from
  the game's character set.  The nickname buffer has 11 bytes, zero after the name.
\<close>

definition gen1NameToAscii :: "byte list \<Rightarrow> string" where
  "gen1NameToAscii src = map gen1CharToAscii (takeWhile (\<lambda>b. b \<noteq> 0x50) src)"

definition nickBytes :: "string \<Rightarrow> byte list" where
  "nickBytes s = map (\<lambda>c. of_nat (of_char c)) s @ replicate (11 - length s) 0"

definition levelUpLine :: "BattlePoke \<Rightarrow> nat \<Rightarrow> string" where
  "levelUpLine m newLvl =
     (let a = gen1NameToAscii (nickBytes (nickname m))
      in snprintf 40 (fmtS ''%s grew to L%s!'' [take 10 (if a = [] then ''?'' else a), showInt (int newLvl)]))"

definition scaleStat :: "nat \<Rightarrow> nat \<Rightarrow> nat \<Rightarrow> nat" where
  "scaleStat oldLvl newLvl v =
     (if oldLvl = 0 then v else (let r = u32 (v * newLvl) div oldLvl in if r > 65535 then 65535 else r))"

definition levelUpMon :: "BattlePoke \<Rightarrow> BattlePoke" where
  "levelUpMon m =
     (let l = level m; n = l + 1; sc = scaleStat l n;
          newMaxHp = sc (maxHp m);
          deltaHp = (if newMaxHp > maxHp m then newMaxHp - maxHp m else 0)
      in m\<lparr>maxHp := newMaxHp,
           hp := (if hp m + deltaHp > newMaxHp then newMaxHp else hp m + deltaHp),
           atk := sc (atk m), dfn := sc (dfn m), spd := sc (spd m), spc := sc (spc m), level := n\<rparr>)"

definition inBattleLevelUp :: "nat \<Rightarrow> TextBattle \<Rightarrow> TextBattle" where
  "inBattleLevelUp slot t =
     (let p = parties (engine t) S0; m = mons p ! slot
      in if pcount p \<le> slot \<or> 6 \<le> slot \<or> 100 \<le> level m then t
         else appendLog (levelUpLine m (level m + 1))
                (onEngine (onParty S0 (\<lambda>p. p\<lparr>mons := upd_at slot levelUpMon (mons p)\<rparr>)) t))"

definition levelThreshold :: "nat \<Rightarrow> nat" where
  "levelThreshold l = 3 * l * l + 3 * l + 1"

text \<open>
  The \<open>while (true)\<close> loop: each round raises the level, and level 100 ends it, so the distance to
  100 is fuel enough (\<open>levelUps_done\<close> in \<open>LinkStart\<close>).
\<close>

fun levelUps :: "nat \<Rightarrow> nat \<Rightarrow> TextBattle \<Rightarrow> TextBattle" where
  "levelUps 0 s t = t"
| "levelUps (Suc k) s t =
     (let l = level (mons (parties (engine t) S0) ! s); need = levelThreshold l; have_xp = slotXpAccum t ! s
      in if 100 \<le> l \<or> have_xp < need then t
         else levelUps k s (inBattleLevelUp s (t\<lparr>slotXpAccum := (slotXpAccum t)[s := have_xp - need]\<rparr>)))"

definition creditSlot :: "nat \<Rightarrow> nat \<Rightarrow> TextBattle \<Rightarrow> TextBattle" where
  "creditSlot xp s t =
     (if \<not> bit (participantMask t) s \<or> hp (mons (parties (engine t) S0) ! s) = 0 then t
      else levelUps (100 - level (mons (parties (engine t) S0) ! s)) s
        (t\<lparr>pendingXpPerSlot := (pendingXpPerSlot t)[s := u32 (pendingXpPerSlot t ! s + xp)],
           slotXpAccum := (slotXpAccum t)[s := u32 (slotXpAccum t ! s + xp)]\<rparr>))"

text \<open>What both the server and the client do for one opponent that has just fainted.\<close>

definition awardFaint :: "nat \<Rightarrow> nat \<Rightarrow> TextBattle \<Rightarrow> TextBattle" where
  "awardFaint mult i t =
     (let xp = faintXp mult (participantMask t) (mons (parties (engine t) S1) ! i);
          t = appendLog (snprintf 40 (fmtS ''Each earned %s XP!'' [showInt (int xp)]))
                (t\<lparr>pendingXpDrops := u8 (pendingXpDrops t + 1)\<rparr>);
          t = fold (creditSlot xp) [0..<min 6 (pcount (parties (engine t) S0))] t
      in t\<lparr>participantMask := u8 (2 ^ active (parties (engine t) S0))\<rparr>)"

definition trackActive :: "TextBattle \<Rightarrow> TextBattle" where
  "trackActive t =
     (let a = active (parties (engine t) S0)
      in if a = lastPlayerActive t then t
         else t\<lparr>participantMask := or (participantMask t) (u8 (2 ^ a)), lastPlayerActive := a\<rparr>)"

definition consumePendingXp :: "TextBattle \<Rightarrow> (nat list \<times> bool) \<times> TextBattle" where
  "consumePendingXp t =
     ((pendingXpPerSlot t, \<exists>x \<in> set (pendingXpPerSlot t). x \<noteq> 0),
      t\<lparr>pendingXpPerSlot := replicate 6 0, pendingXpDrops := 0\<rparr>)"

subsection \<open>Staging and end of a battle\<close>

definition setMyTbParty :: "Gen1Party \<Rightarrow> string \<Rightarrow> TextBattle \<Rightarrow> TextBattle" where
  "setMyTbParty p name t = t\<lparr>pendingMyParty := p, myTbName := take TB_MAX_NAME_LEN name\<rparr>"

definition exit_battle :: "TextBattle \<Rightarrow> TextBattle" where
  "exit_battle t = t\<lparr>mode := OFF, phase := IDLE, role := LEGACY, awaitingAccept := False,
     awaitingFirstUpdate := False, awaitingUpdateSinceMs := 0, unackedUpdate := False,
     pendingKeyExit := False, finishedAtMs := 0, challengeTries := 0, clientActionType := 255,
     clientTurn := 0, clientNeedsFullState := False, unshippedLogLines := 0, preAcceptUpdateBuf := []\<rparr>"

definition markPeerReady :: "TextBattle \<Rightarrow> TextBattle" where
  "markPeerReady t = t\<lparr>peerReady := True,
     phase := (if phase t = WAIT_PEER_READY then WAIT_ACTION else phase t)\<rparr>"

end
