(* ===== verification/BattleServer.thy ===== *)
theory BattleServer
  imports BattleSession
begin

text \<open>
  The server of a networked battle (\<^verbatim>\<open>MonsterMeshTextBattle.cpp\<close>, lines 1597 to 2103 and 335 to
  385): the only side that runs the engine.  It challenges, ships an UPDATE after every turn, repeats it
  until it is acknowledged, and answers requests for the full state.
\<close>

subsection \<open>The board both sides hash\<close>

definition monBoard :: "BattlePoke \<Rightarrow> nat list" where
  "monBoard m = [hp m div 256 mod 256, hp m mod 256, status m]"

definition sideBoard :: "BattleParty \<Rightarrow> nat list" where
  "sideBoard p = [active p, pcount p] @ concat (map monBoard (take (min 6 (pcount p)) (mons p)))"

text \<open>Each side is party 0 of its own engine; on the wire the client comes first.\<close>

definition clientSide :: "Role \<Rightarrow> side" where
  "clientSide r = (if r = CLIENT then S0 else S1)"

definition boardOf :: "nat \<Rightarrow> BattleParty \<Rightarrow> BattleParty \<Rightarrow> nat list" where
  "boardOf trn c s = [trn div 256 mod 256, trn mod 256, TB_RESULT_ONGOING] @ sideBoard c @ sideBoard s
     @ take 4 (pp (mons c ! active c))"

definition packClientState :: "TextBattle \<Rightarrow> nat list" where
  "packClientState t =
     boardOf (if role t = CLIENT then clientTurn t else turn (engine t))
       (parties (engine t) (clientSide (role t))) (parties (engine t) (other (clientSide (role t))))"

subsection \<open>Sending\<close>

definition serverAuthSendChallenge :: "nat \<Rightarrow> TextBattle \<Rightarrow> TextBattle" where
  "serverAuthSendChallenge now t =
     (let nm = take TB_MAX_NAME_LEN (myTbName t); r = remoteId t;
          payload = [r div 16777216 mod 256, r div 65536 mod 256, r div 256 mod 256, r mod 256, 1, length nm]
            @ map of_char nm @ packPartyMinTb (pendingMyParty t);
          t = queueSend (mkPacket TEXT_BATTLE_CHALLENGE (session t) 0 payload) t
      in t\<lparr>lastChallengeMs := now, challengeTries := u8 (challengeTries t + 1)\<rparr>)"

definition resultByte :: "Result \<Rightarrow> nat" where
  "resultByte r = (case r of P2_WIN \<Rightarrow> TB_RESULT_YOU_WIN | P1_WIN \<Rightarrow> TB_RESULT_YOU_LOSE
     | DRAW \<Rightarrow> TB_RESULT_DRAW | ONGOING \<Rightarrow> TB_RESULT_ONGOING)"

definition updateFlags :: "TextBattle \<Rightarrow> nat" where
  "updateFlags t =
     (let finished = (result (engine t) \<noteq> ONGOING)
      in TB_UPD_HP + TB_UPD_PP + TB_UPD_SWITCH + TB_UPD_STATUS
         + (if finished then TB_UPD_RESULT else 0)
         + (if unshippedLogLines t > 0 then TB_UPD_LOG else 0)
         + (if \<not> finished \<and> hp (activeMon (engine t) S1) = 0 then TB_UPD_NEED_PLAYER_SWITCH else 0)
         + TB_UPD_BENCH + TB_UPD_FX)"

text \<open>Lines are shipped while they fit in front of the 95 bytes kept for the sections that follow.\<close>

fun linesThatFit :: "nat \<Rightarrow> string list \<Rightarrow> string list" where
  "linesThatFit w [] = []"
| "linesThatFit w (l # ls) =
     (if w + 1 + length l > BATTLELINK_MAX_PAYLOAD - 95 then []
      else l # linesThatFit (w + 1 + length l) ls)"

definition unshippedLines :: "TextBattle \<Rightarrow> string list" where
  "unshippedLines t =
     (let n = min (unshippedLogLines t) TB_UPDATE_MAX_LOG_LINES
      in map (\<lambda>i. take LOG_WIDTH (log_lines t ! ((logHead t + LOG_LINES - n + i) mod LOG_LINES))) [0..<n])"

definition logSection :: "nat \<Rightarrow> TextBattle \<Rightarrow> nat list" where
  "logSection w t =
     (let ls = linesThatFit (w + 1) (unshippedLines t)
      in length ls # concat (map (\<lambda>l. length l # map of_char l) ls))"

definition benchMon :: "BattlePoke \<Rightarrow> nat list" where
  "benchMon m = [hp m div 256 mod 256, hp m mod 256, status m, pp m ! 0, pp m ! 1, pp m ! 2, pp m ! 3]"

definition benchSection :: "BattleParty \<Rightarrow> BattleParty \<Rightarrow> nat list" where
  "benchSection c s =
     (let m = mons c ! active c
      in pcount c # concat (map benchMon (take (min 6 (pcount c)) (mons c)))
         @ map int8Byte [atkBoost m, defBoost m, spdBoost m, spcBoost m, accBoost m, evaBoost m]
         @ pcount s # concat (map monBoard (take (min 6 (pcount s)) (mons s))))"

definition fxFlags :: "BattlePoke \<Rightarrow> nat" where
  "fxFlags m = boolByte (mustRecharge m) + 2 * boolByte (flinched m) + 4 * boolByte (thrashing m)
     + 8 * boolByte (rageActive m) + 16 * boolByte (transformed m) + 32 * boolByte (chargingSlot m \<noteq> 255)"

definition fieldFlags :: "BattleParty \<Rightarrow> nat" where
  "fieldFlags p = boolByte (reflect p) + 2 * boolByte (lightScreen p) + 4 * boolByte (mist p)
     + 8 * boolByte (focused p)"

definition fxSide :: "BattleParty \<Rightarrow> nat list" where
  "fxSide p =
     (let m = mons p ! active p
      in [sleepTurns m, confuseTurns m, substituteHp m div 256 mod 256, substituteHp m mod 256, fxFlags m,
          fieldFlags p, reflectTurns p, lightScreenTurns p])"

definition fxSection :: "BattleParty \<Rightarrow> BattleParty \<Rightarrow> nat list" where
  "fxSection c s =
     (let m = mons c ! active c
      in fxSide c @ fxSide s @ [disabledSlot m, disabledTurns m, trapTurns m])"

text \<open>The sections up to RESULT, and the whole payload.\<close>

definition updateHead :: "TextBattle \<Rightarrow> nat list" where
  "updateHead t =
     (let fl = updateFlags t; h = tbBoardHash24 (packClientState t);
          cm = activeMon (engine t) S1; sm = activeMon (engine t) S0
      in [turn (engine t) mod 256, fl div 256 mod 256, fl mod 256, h div 65536 mod 256, h div 256 mod 256, h mod 256]
         @ [hp cm div 256 mod 256, hp cm mod 256, hp sm div 256 mod 256, hp sm mod 256]
         @ take 4 (pp cm)
         @ [active (parties (engine t) S1), active (parties (engine t) S0)]
         @ [status cm, status sm]
         @ (if has_flag fl TB_UPD_RESULT then [resultByte (result (engine t))] else []))"

definition updatePayload :: "TextBattle \<Rightarrow> nat list" where
  "updatePayload t =
     (let w = updateHead t; c = parties (engine t) S1; s = parties (engine t) S0
      in w @ (if has_flag (updateFlags t) TB_UPD_LOG then logSection (length w) t else [])
           @ benchSection c s @ fxSection c s)"

definition serverAuthSendUpdate :: "nat \<Rightarrow> TextBattle \<Rightarrow> TextBattle" where
  "serverAuthSendUpdate now t =
     (let payload = updatePayload t;
          t = t\<lparr>updateSeq := u8 (updateSeq t + 1), unshippedLogLines := 0\<rparr>;
          buf = mkPacket TEXT_BATTLE_UPDATE (session t) (updateSeq t) payload
      in (queueSend buf t)\<lparr>lastUpdateBuf := buf, unackedUpdate := True, lastUpdateSendMs := now\<rparr>)"

definition serverAuthSendFullState :: "TextBattle \<Rightarrow> TextBattle" where
  "serverAuthSendFullState t =
     queueSend (mkPacket TEXT_BATTLE_FULL_STATE (session t) (updateSeq t) (packClientState t)) t"

subsection \<open>The start of a battle\<close>

definition startServerAuthAsInitiator :: "nat \<Rightarrow> nat \<Rightarrow> Gen1Party \<Rightarrow> string option \<Rightarrow> TextBattle \<Rightarrow> TextBattle" where
  "startServerAuthAsInitiator now peer_id myParty myName t =
     (let t = t\<lparr>playerWon := False, mode := NETWORKED, phase := WAIT_REMOTE, role := SERVER, remoteId := peer_id,
            session := unat (of_nat now XOR of_nat peer_id :: 32 word) mod 65536, cursor := 0, switchCursor := 0,
            pendingRemoteAction := False, logFill := 0, logHead := 0, peerReady := False,
            awaitingAccept := True, challengeTries := 0, lastChallengeMs := 0, unackedUpdate := False,
            updateSeq := 0, lastUpdateBuf := [], clientActionType := 255, lastAppliedUpdateSeq := 0,
            clientNeedsFullState := False, pendingMyParty := myParty,
            myTbName := (case myName of None \<Rightarrow> [] | Some n \<Rightarrow> take TB_MAX_NAME_LEN n), peerTbName := []\<rparr>;
          t = onEngine (\<lambda>e. onParty S1 (\<lambda>p. p\<lparr>pcount := 0\<rparr>) (start myParty myParty 0xCAFEBABE 3 e)) t;
          t = appendLog (''Sending challenge'' @ ellipsis) t;
          t = serverAuthSendChallenge now t
      in t\<lparr>lastRecvMs := now\<rparr>)"

text \<open>A name on the wire becomes the string before its first zero byte.\<close>

definition wireName :: "nat list \<Rightarrow> string" where
  "wireName bs = takeWhile (\<lambda>c. c \<noteq> CHR 0x00) (map char_of bs)"

definition serverAuthOnAcceptPkt :: "nat \<Rightarrow> 32 word \<Rightarrow> nat \<Rightarrow> nat list \<Rightarrow> TextBattle \<Rightarrow> TextBattle" where
  "serverAuthOnAcceptPkt now rnd fromId buf t =
     (let pkt = overlay buf; pl = pk_payload pkt; nameLen = min (pl ! 1) TB_MAX_NAME_LEN in
      if \<not> awaitingAccept t then t
      else if length buf < BATTLELINK_HDR_SIZE + 2 + TB_PARTY_MIN_BYTES then t
      else if sessionId pkt \<noteq> session t then t
      else if length buf < BATTLELINK_HDR_SIZE + 2 + nameLen + TB_PARTY_MIN_BYTES then t
      else if pl ! 0 = 0 then (appendLog ''Challenge declined.'' t)\<lparr>phase := FINISHED, awaitingAccept := False\<rparr>
      else
        (let t = t\<lparr>peerTbName := wireName (take nameLen (drop 2 pl)),
                   pendingClientParty := unpackPartyMinTb (drop (2 + nameLen) pl)\<rparr>;
             seed = of_nat now XOR rnd XOR of_nat fromId;
             t = onEngine (\<lambda>e. freshBoth (start (pendingMyParty t) (pendingClientParty t) seed 3 e)) t;
             t = t\<lparr>awaitingAccept := False, peerReady := True, remoteId := fromId, pendingRemoteAction := False,
                   phase := WAIT_ACTION, lastRecvMs := now\<rparr>;
             t = handleFaints t;
             t = appendLog ''Battle begins!'' t;
             t = appendLog (''Vs '' @ take 12 (if peerTbName t = [] then ''trainer'' else peerTbName t)) t
         in serverAuthSendUpdate now (dropPendingSends t)))"

subsection \<open>Requests of the client\<close>

definition serverAuthOnActionV2Pkt :: "nat \<Rightarrow> nat \<Rightarrow> nat list \<Rightarrow> TextBattle \<Rightarrow> TextBattle" where
  "serverAuthOnActionV2Pkt now fromId buf t =
     (let pkt = overlay buf in
      if length buf < BATTLELINK_HDR_SIZE + TB_ACTION_BYTES \<or> sessionId pkt \<noteq> session t \<or> fromId \<noteq> remoteId t then t
      else
       (case tbUnpackAction (pk_payload pkt) of
          None \<Rightarrow> t
        | Some (trn, actionType, index, lastAckedSeq) \<Rightarrow>
            (let t = (if unackedUpdate t \<and> lastAckedSeq = updateSeq t then t\<lparr>unackedUpdate := False\<rparr> else t) in
             if trn \<noteq> turn (engine t) mod 256 then t
             else if actionType = 0xFE then t\<lparr>lastRecvMs := now\<rparr>
             else if actionType = 2 then
               serverAuthSendUpdate now
                 ((appendLog ''Opponent fled.'' (callEngine (forfeit 1) t))\<lparr>phase := FINISHED\<rparr>)
             else (submit 1 actionType index t)\<lparr>pendingRemoteAction := True, lastRecvMs := now\<rparr>)))"

definition serverAuthOnStateRequestPkt :: "nat \<Rightarrow> nat list \<Rightarrow> TextBattle \<Rightarrow> TextBattle" where
  "serverAuthOnStateRequestPkt fromId buf t =
     (if length buf < BATTLELINK_HDR_SIZE + TB_STATE_REQUEST_BYTES \<or> sessionId (overlay buf) \<noteq> session t
         \<or> fromId \<noteq> remoteId t then t
      else serverAuthSendFullState t)"

subsection \<open>Repeats\<close>

definition serverAuthRetransmit :: "nat \<Rightarrow> TextBattle \<Rightarrow> TextBattle" where
  "serverAuthRetransmit now t =
     (if awaitingAccept t then
        (if TB_CHALLENGE_RESEND_MS \<le> sub32 now (lastChallengeMs t) then
           (if TB_CHALLENGE_MAX_TRIES \<le> challengeTries t then
              (appendLog (''No response '' @ emdash @ '' cancelled.'') t)\<lparr>phase := FINISHED, awaitingAccept := False\<rparr>
            else serverAuthSendChallenge now t)
         else t)
      else if unackedUpdate t \<and> lastUpdateBuf t \<noteq> [] \<and> TB_UPDATE_RESEND_MS \<le> sub32 now (lastUpdateSendMs t) then
        (queueSend (lastUpdateBuf t) t)\<lparr>lastUpdateSendMs := now\<rparr>
      else t)"

end
