(* ===== verification/BattleClient.thy ===== *)
theory BattleClient
  imports BattleServer
begin

text \<open>
  The client of a networked battle (\<^verbatim>\<open>MonsterMeshTextBattle.cpp\<close>, lines 2105 to 2741): it
  answers a challenge, loads both parties as static data, and lets UPDATE and FULL_STATE packets write
  the live fields.  A section of an UPDATE that is cut short makes the handler return with the earlier
  sections applied: \<open>Inl\<close> of the object at that point; otherwise the object and the bytes left.
\<close>

type_synonym section_run = "TextBattle + TextBattle \<times> nat list"

definition and_then :: "section_run \<Rightarrow> (TextBattle \<Rightarrow> nat list \<Rightarrow> section_run) \<Rightarrow> section_run" where
  "and_then r f = (case r of Inl t \<Rightarrow> Inl t | Inr (t, bs) \<Rightarrow> f t bs)"

lemma and_then_simps [simp]:
  "and_then (Inl t) f = Inl t" "and_then (Inr (t, bs)) f = f t bs"
  by (simp_all add: and_then_def)

text \<open>The lambda \<open>take\<close> of the source: a null pointer when fewer bytes are left.\<close>

definition takeN :: "nat \<Rightarrow> nat list \<Rightarrow> (nat list \<times> nat list) option" where
  "takeN n bs = (if length bs < n then None else Some (take n bs, drop n bs))"

lemma takeN_append [simp]: "length xs = n \<Longrightarrow> takeN n (xs @ ys) = Some (xs, ys)"
  by (simp add: takeN_def)

definition with_bytes :: "nat \<Rightarrow> (nat list \<Rightarrow> TextBattle \<Rightarrow> TextBattle) \<Rightarrow> TextBattle \<Rightarrow> nat list \<Rightarrow> section_run" where
  "with_bytes n f t bs = (case takeN n bs of None \<Rightarrow> Inl t | Some (p, r) \<Rightarrow> Inr (f p t, r))"

definition when_flag :: "bool \<Rightarrow> (TextBattle \<Rightarrow> nat list \<Rightarrow> section_run) \<Rightarrow> TextBattle \<Rightarrow> nat list \<Rightarrow> section_run" where
  "when_flag b f t bs = (if b then f t bs else Inr (t, bs))"

subsection \<open>Sending\<close>

definition clientAuthSendActionV2 :: "nat \<Rightarrow> nat \<Rightarrow> nat \<Rightarrow> TextBattle \<Rightarrow> TextBattle" where
  "clientAuthSendActionV2 now actionType index t =
     (let t = queueSend (mkPacket TEXT_BATTLE_ACTION_V2 (session t) 0
                (tbPackAction (clientTurn t) actionType index (lastAppliedUpdateSeq t))) t
      in if actionType \<noteq> 0xFE then
           t\<lparr>clientActionType := actionType, clientActionIndex := index, clientActionTurn := clientTurn t,
             lastClientActionSendMs := now\<rparr>
         else t)"

definition clientAuthSendStateRequest :: "TextBattle \<Rightarrow> TextBattle" where
  "clientAuthSendStateRequest t =
     queueSend (mkPacket TEXT_BATTLE_STATE_REQUEST (session t) 0 (tbPackStateRequest (lastAppliedUpdateSeq t))) t"

subsection \<open>Sections of an UPDATE\<close>

definition word16 :: "nat list \<Rightarrow> nat \<Rightarrow> nat" where
  "word16 p i = p ! i * 256 + p ! (i + 1)"

definition int8Of :: "nat \<Rightarrow> int" where
  "int8Of b = (if b < 128 then int b else int b - 256)"

definition onMine :: "side \<Rightarrow> (BattlePoke \<Rightarrow> BattlePoke) \<Rightarrow> TextBattle \<Rightarrow> TextBattle" where
  "onMine s f = onEngine (onParty s (\<lambda>p. if pcount p \<noteq> 0 then setActive f p else p))"

definition applyHp :: "nat list \<Rightarrow> TextBattle \<Rightarrow> TextBattle" where
  "applyHp p t = onMine S1 (\<lambda>m. m\<lparr>hp := word16 p 2\<rparr>) (onMine S0 (\<lambda>m. m\<lparr>hp := word16 p 0\<rparr>) t)"

definition applyPp :: "nat list \<Rightarrow> TextBattle \<Rightarrow> TextBattle" where
  "applyPp p = onMine S0 (\<lambda>m. m\<lparr>pp := [p ! 0, p ! 1, p ! 2, p ! 3]\<rparr>)"

definition setActiveIdx :: "nat \<Rightarrow> BattleParty \<Rightarrow> BattleParty" where
  "setActiveIdx i p = (if i < pcount p then p\<lparr>active := i\<rparr> else p)"

definition applySwitch :: "nat list \<Rightarrow> TextBattle \<Rightarrow> TextBattle" where
  "applySwitch p t = onEngine (onParty S1 (setActiveIdx (p ! 1))) (onEngine (onParty S0 (setActiveIdx (p ! 0))) t)"

definition applyStatus :: "nat list \<Rightarrow> TextBattle \<Rightarrow> TextBattle" where
  "applyStatus p t = onMine S1 (\<lambda>m. m\<lparr>status := p ! 1\<rparr>) (onMine S0 (\<lambda>m. m\<lparr>status := p ! 0\<rparr>) t)"

definition resultText :: "nat \<Rightarrow> TextBattle \<Rightarrow> TextBattle" where
  "resultText r t =
     (if r = TB_RESULT_YOU_WIN then (appendLog ''You won!'' t)\<lparr>playerWon := True\<rparr>
      else if r = TB_RESULT_YOU_LOSE then appendLog (''You blacked out'' @ ellipsis) t
      else if r = TB_RESULT_DRAW then appendLog (''It'' @ [CHR 0x27] @ ''s a draw.'') t
      else if r = TB_RESULT_FLED then appendLog ''Got away safely!'' t
      else t)"

text \<open>Log lines; a line that is cut short ends the section, not the handler.\<close>

fun applyLines :: "nat \<Rightarrow> TextBattle \<Rightarrow> nat list \<Rightarrow> TextBattle \<times> nat list" where
  "applyLines 0 t bs = (t, bs)"
| "applyLines (Suc n) t [] = (t, [])"
| "applyLines (Suc n) t (l # bs) =
     (case takeN l bs of
        None \<Rightarrow> (t, bs)
      | Some (lb, r) \<Rightarrow>
          applyLines n (appendLog (wireName (take (min l LOG_WIDTH) lb)) t) r)"

definition logApply :: "TextBattle \<Rightarrow> nat list \<Rightarrow> section_run" where
  "logApply t bs = (case takeN 1 bs of None \<Rightarrow> Inl t | Some (p, r) \<Rightarrow> Inr (applyLines (p ! 0) t r))"

definition benchWrite :: "nat list \<Rightarrow> BattlePoke \<Rightarrow> BattlePoke" where
  "benchWrite p m = m\<lparr>hp := word16 p 0, status := p ! 2, pp := [p ! 3, p ! 4, p ! 5, p ! 6]\<rparr>"

definition enemyWrite :: "nat list \<Rightarrow> BattlePoke \<Rightarrow> BattlePoke" where
  "enemyWrite p m = m\<lparr>hp := word16 p 0, status := p ! 2\<rparr>"

definition writeSlot :: "side \<Rightarrow> nat \<Rightarrow> (BattlePoke \<Rightarrow> BattlePoke) \<Rightarrow> TextBattle \<Rightarrow> TextBattle" where
  "writeSlot s i f = onEngine (onParty s (\<lambda>p. if i < pcount p then p\<lparr>mons := upd_at i f (mons p)\<rparr> else p))"

fun slots :: "side \<Rightarrow> nat \<Rightarrow> (nat list \<Rightarrow> BattlePoke \<Rightarrow> BattlePoke) \<Rightarrow> nat list \<Rightarrow> TextBattle \<Rightarrow> nat list \<Rightarrow> section_run" where
  "slots s n f [] t bs = Inr (t, bs)"
| "slots s n f (i # is) t bs = and_then (with_bytes n (\<lambda>p. writeSlot s i (f p)) t bs) (slots s n f is)"

definition boostWrite :: "nat list \<Rightarrow> BattlePoke \<Rightarrow> BattlePoke" where
  "boostWrite b m = m\<lparr>atkBoost := int8Of (b ! 0), defBoost := int8Of (b ! 1), spdBoost := int8Of (b ! 2),
     spcBoost := int8Of (b ! 3), accBoost := int8Of (b ! 4), evaBoost := int8Of (b ! 5)\<rparr>"

definition benchApply :: "TextBattle \<Rightarrow> nat list \<Rightarrow> section_run" where
  "benchApply t bs =
     (case takeN 1 bs of None \<Rightarrow> Inl t | Some (c, r) \<Rightarrow>
        and_then (slots S0 7 benchWrite [0..<min 6 (c ! 0)] t r) (\<lambda>t r.
        and_then (with_bytes 6 (\<lambda>b. onMine S0 (boostWrite b)) t r) (\<lambda>t r.
        case takeN 1 r of None \<Rightarrow> Inl t | Some (e, r) \<Rightarrow>
          slots S1 3 enemyWrite [0..<min 6 (e ! 0)] t r)))"

definition fxWrite :: "nat list \<Rightarrow> BattleParty \<Rightarrow> BattleParty" where
  "fxWrite p q =
     (let mf = p ! 4; ff = p ! 5
      in (setActive (\<lambda>m. m\<lparr>sleepTurns := p ! 0, confuseTurns := p ! 1, substituteHp := word16 p 2,
             mustRecharge := has_flag mf 1, flinched := has_flag mf 2, thrashing := has_flag mf 4,
             rageActive := has_flag mf 8, transformed := has_flag mf 16\<rparr>) q)
         \<lparr>reflect := has_flag ff 1, lightScreen := has_flag ff 2, mist := has_flag ff 4, focused := has_flag ff 8,
          reflectTurns := p ! 6, lightScreenTurns := p ! 7\<rparr>)"

definition fxApply :: "TextBattle \<Rightarrow> nat list \<Rightarrow> section_run" where
  "fxApply t bs =
     and_then (with_bytes 8 (\<lambda>p. onEngine (onParty S0 (fxWrite p))) t bs) (\<lambda>t bs.
     and_then (with_bytes 8 (\<lambda>p. onEngine (onParty S1 (fxWrite p))) t bs) (\<lambda>t bs.
     with_bytes 3 (\<lambda>d. onMine S0 (\<lambda>m. m\<lparr>disabledSlot := d ! 0, disabledTurns := d ! 1, trapTurns := d ! 2\<rparr>)) t bs))"

text \<open>All sections in the order of their flags; the result byte is read off on the way.\<close>

definition applySections :: "nat \<Rightarrow> TextBattle \<Rightarrow> nat list \<Rightarrow> section_run" where
  "applySections fl t bs =
     and_then (when_flag (has_flag fl TB_UPD_HP) (with_bytes 4 applyHp) t bs) (\<lambda>t bs.
     and_then (when_flag (has_flag fl TB_UPD_PP) (with_bytes 4 applyPp) t bs) (\<lambda>t bs.
     and_then (when_flag (has_flag fl TB_UPD_SWITCH) (with_bytes 2 applySwitch) t bs) (\<lambda>t bs.
     and_then (when_flag (has_flag fl TB_UPD_STATUS) (with_bytes 2 applyStatus) t bs) (\<lambda>t bs.
     and_then (when_flag (has_flag fl TB_UPD_RESULT) (with_bytes 1 (\<lambda>p. resultText (p ! 0))) t bs) (\<lambda>t bs.
     and_then (when_flag (has_flag fl TB_UPD_LOG) logApply t bs) (\<lambda>t bs.
     and_then (when_flag (has_flag fl TB_UPD_BENCH) benchApply t bs) (\<lambda>t bs.
     when_flag (has_flag fl TB_UPD_FX) fxApply t bs)))))))"

text \<open>
  The result byte sits behind the sections HP, PP, SWITCH and STATUS; the handler has finished the battle
  when it is not ONGOING.
\<close>

definition resultOffset :: "nat \<Rightarrow> nat" where
  "resultOffset fl = (if has_flag fl TB_UPD_HP then 4 else 0) + (if has_flag fl TB_UPD_PP then 4 else 0)
     + (if has_flag fl TB_UPD_SWITCH then 2 else 0) + (if has_flag fl TB_UPD_STATUS then 2 else 0)"

definition finishedBy :: "nat \<Rightarrow> nat list \<Rightarrow> bool" where
  "finishedBy fl bs \<longleftrightarrow> has_flag fl TB_UPD_RESULT \<and> bs ! resultOffset fl \<noteq> TB_RESULT_ONGOING"

subsection \<open>UPDATE\<close>

definition enemyHps :: "TextBattle \<Rightarrow> nat list" where
  "enemyHps t = (let p = parties (engine t) S1 in map (\<lambda>i. if i < pcount p then hp (mons p ! i) else 0) [0..<6])"

definition creditFaints :: "nat list \<Rightarrow> TextBattle \<Rightarrow> TextBattle" where
  "creditFaints pre t =
     fold (\<lambda>i t. if pre ! i = 0 \<or> hp (mons (parties (engine t) S1) ! i) \<noteq> 0 then t else awardFaint 3 i t)
       [0..<min 6 (pcount (parties (engine t) S1))] t"

text \<open>After the sections: experience, then the comparison of hashes, then the next phase.\<close>

definition finishUpdate :: "nat \<Rightarrow> nat \<Rightarrow> nat \<Rightarrow> nat list \<Rightarrow> bool \<Rightarrow> bool \<Rightarrow> TextBattle \<Rightarrow> TextBattle" where
  "finishUpdate now sq serverHash preEnemyHp finished needSwitch t =
     (let t = trackActive (creditFaints preEnemyHp t) in
      if tbBoardHash24 (packClientState t) \<noteq> serverHash then
        (clientAuthSendStateRequest (t\<lparr>clientNeedsFullState := True\<rparr>))\<lparr>lastRecvMs := now\<rparr>
      else
       (let t = t\<lparr>lastAppliedUpdateSeq := sq, lastRecvMs := now\<rparr> in
        if finished then clientAuthSendActionV2 now 0xFE 0 (t\<lparr>phase := FINISHED\<rparr>)
        else if needSwitch then
          t\<lparr>phase := WAIT_SWITCH, switchCursor := active (parties (engine t) S0), clientActionType := 255\<rparr>
        else t\<lparr>phase := WAIT_ACTION, clientActionType := 255\<rparr>))"

definition clientAuthOnUpdatePkt :: "nat \<Rightarrow> nat list \<Rightarrow> TextBattle \<Rightarrow> TextBattle" where
  "clientAuthOnUpdatePkt now buf t =
     (let pkt = overlay buf; pl = pk_payload pkt in
      if length buf < BATTLELINK_HDR_SIZE + 6 \<or> sessionId pkt \<noteq> session t then t
      else if phase t = WAIT_CHALLENGE_OVERLAY then t\<lparr>preAcceptUpdateBuf := take BATTLELINK_MAX_PKT buf\<rparr>
      else
       (let t = t\<lparr>awaitingFirstUpdate := False, awaitingUpdateSinceMs := 0\<rparr>;
            pre = enemyHps t; sq = pk_seq pkt in
        if sq = lastAppliedUpdateSeq t \<and> lastAppliedUpdateSeq t \<noteq> 0 then
          (if clientActionType t \<noteq> 255 then clientAuthSendActionV2 now (clientActionType t) (clientActionIndex t) t
           else clientAuthSendActionV2 now 0xFE 0 t)
        else
         (let t = t\<lparr>clientTurn := pl ! 0\<rparr>; fl = word16 pl 1;
              serverHash = pl ! 3 * 65536 + pl ! 4 * 256 + pl ! 5;
              rest = drop 6 pl
          in case applySections fl t rest of
               Inl t \<Rightarrow> t
             | Inr (t, _) \<Rightarrow>
                 finishUpdate now sq serverHash pre (finishedBy fl rest)
                   (has_flag fl TB_UPD_NEED_PLAYER_SWITCH) t)))"

subsection \<open>Challenge and accept\<close>

definition clientAuthSendAccept :: "nat \<Rightarrow> bool \<Rightarrow> TextBattle \<Rightarrow> TextBattle" where
  "clientAuthSendAccept now accepted t =
     (let nm = take TB_MAX_NAME_LEN (myTbName t);
          t = queueSend (mkPacket TEXT_BATTLE_ACCEPT (session t) 0
                ([if accepted then 1 else 0, length nm] @ map of_char nm @ packPartyMinTb (pendingMyParty t))) t;
          t = t\<lparr>lastAcceptSendMs := now\<rparr> in
      if \<not> accepted then
        (appendLog ''Declined.'' t)\<lparr>phase := FINISHED, awaitingFirstUpdate := False, awaitingUpdateSinceMs := 0\<rparr>
      else if awaitingFirstUpdate t then t
      else
       (let t = onEngine (\<lambda>e. freshBoth (start (pendingMyParty t) (pendingServerParty t) 0 3 e)) t;
            t = t\<lparr>phase := WAIT_REMOTE, awaitingFirstUpdate := True, awaitingUpdateSinceMs := now\<rparr>;
            t = (appendLog ''Battle begins!'' t)\<lparr>lastRecvMs := now\<rparr> in
        if preAcceptUpdateBuf t \<noteq> [] then
          clientAuthOnUpdatePkt now (preAcceptUpdateBuf t) (t\<lparr>preAcceptUpdateBuf := []\<rparr>)
        else t))"

definition clientAuthOnChallengePkt :: "nat \<Rightarrow> nat \<Rightarrow> nat list \<Rightarrow> TextBattle \<Rightarrow> TextBattle" where
  "clientAuthOnChallengePkt now fromId buf t =
     (let pkt = overlay buf; pl = pk_payload pkt;
          targetId = pl ! 0 * 16777216 + pl ! 1 * 65536 + pl ! 2 * 256 + pl ! 3;
          nameLen = min (pl ! 5) TB_MAX_NAME_LEN in
      if length buf < BATTLELINK_HDR_SIZE + 6 + TB_PARTY_MIN_BYTES then t
      else if targetId \<noteq> 0 \<and> myNodeNum t \<noteq> 0 \<and> targetId \<noteq> myNodeNum t then t
      else if pl ! 4 \<noteq> 1 then t
      else if length buf < BATTLELINK_HDR_SIZE + 6 + nameLen + TB_PARTY_MIN_BYTES then t
      else if mode t \<noteq> OFF \<and> role t = CLIENT \<and> awaitingFirstUpdate t \<and> sessionId pkt = session t then
        clientAuthSendAccept now True t
      else
       (let t = t\<lparr>playerWon := False, mode := NETWORKED, role := CLIENT, phase := WAIT_CHALLENGE_OVERLAY,
              remoteId := fromId, session := sessionId pkt, cursor := 0, switchCursor := 0, logFill := 0,
              logHead := 0, peerReady := True, lastAppliedUpdateSeq := 0, clientActionType := 255,
              clientNeedsFullState := False, pendingRemoteAction := False, preAcceptUpdateBuf := [],
              peerTbName := wireName (take nameLen (drop 6 pl)),
              pendingServerParty := unpackPartyMinTb (drop (6 + nameLen) pl)\<rparr>;
            who = take 12 (if peerTbName t = [] then ''Trainer'' else peerTbName t);
            t = appendLog (who @ '' wants to battle!'') t
        in (appendLog ''Y=accept  N=decline'' t)\<lparr>lastRecvMs := now\<rparr>))"

subsection \<open>FULL_STATE\<close>

definition fullSlots :: "side \<Rightarrow> TextBattle \<Rightarrow> nat list \<Rightarrow> section_run" where
  "fullSlots s t bs =
     (case takeN 2 bs of None \<Rightarrow> Inl t | Some (h, r) \<Rightarrow>
        let n = min 6 (h ! 1);
            t = onEngine (onParty s (\<lambda>p. if h ! 0 < n then p\<lparr>active := h ! 0\<rparr> else p)) t
        in slots s 3 enemyWrite [0..<n] t r)"

definition clientAuthOnFullStatePkt :: "nat \<Rightarrow> nat list \<Rightarrow> TextBattle \<Rightarrow> TextBattle" where
  "clientAuthOnFullStatePkt now buf t =
     (let pkt = overlay buf; pl = pk_payload pkt in
      if length buf < BATTLELINK_HDR_SIZE + 5 \<or> sessionId pkt \<noteq> session t then t
      else
       (case and_then (fullSlots S0 t (drop 3 pl)) (fullSlots S1) of
          Inl t \<Rightarrow> t
        | Inr (t, r) \<Rightarrow>
           (let t = (case takeN 4 r of None \<Rightarrow> t | Some (p, _) \<Rightarrow> applyPp p t);
                t = t\<lparr>clientNeedsFullState := False, awaitingFirstUpdate := False, awaitingUpdateSinceMs := 0,
                      lastAppliedUpdateSeq := pk_seq pkt, lastRecvMs := now, clientActionType := 255\<rparr>;
                t = appendLog ''State reconverged.'' t
            in t\<lparr>phase := (if pl ! 2 = TB_RESULT_ONGOING then WAIT_ACTION else FINISHED)\<rparr>)))"

subsection \<open>Repeats\<close>

definition clientAuthRetransmit :: "nat \<Rightarrow> 32 word \<Rightarrow> TextBattle \<Rightarrow> TextBattle" where
  "clientAuthRetransmit now rnd t =
     (let t = (if awaitingFirstUpdate t then
                 (if 15000 \<le> sub32 now (awaitingUpdateSinceMs t) then
                    (if 12000 \<le> sub32 now (lastAcceptSendMs t) then
                       (clientAuthSendStateRequest t)\<lparr>lastAcceptSendMs := now\<rparr> else t)
                  else if 5000 + unat (rnd AND 0x7FF) \<le> sub32 now (lastAcceptSendMs t) then
                    clientAuthSendAccept now True t
                  else t)
               else t)
      in if \<not> clientNeedsFullState t \<and> clientActionType t \<noteq> 255 \<and> clientActionTurn t = clientTurn t
            \<and> TB_ACTION_RESEND_MS \<le> sub32 now (lastClientActionSendMs t) then
           clientAuthSendActionV2 now (clientActionType t) (clientActionIndex t) t
         else t)"

end
