(* ===== verification/BattlePlay.thy ===== *)
theory BattlePlay
  imports BattleClient
begin

text \<open>
  The rest of the battle object (\<^verbatim>\<open>MonsterMeshTextBattle.cpp\<close>, lines 70 to 305 and 387 to
  1206): the lockstep protocol of the older role, local battles, turn resolution, dispatch of received
  packets, the periodic tick and the keys.
\<close>

subsection \<open>Packets of the lockstep protocol\<close>

definition be32 :: "nat \<Rightarrow> nat list" where
  "be32 v = [v div 16777216 mod 256, v div 65536 mod 256, v div 256 mod 256, v mod 256]"

definition sendStart :: "nat \<Rightarrow> Gen1Party \<Rightarrow> TextBattle \<Rightarrow> TextBattle" where
  "sendStart seed p t =
     queueSend (mkPacket TEXT_BATTLE_START (session t) 0
       (be32 seed @ [1, unat (gp_count p)] @ map (\<lambda>i. unat (gp_species p ! (i mod 7))) [0..<8])) t"

definition sendActionPacket :: "nat \<Rightarrow> nat \<Rightarrow> nat \<Rightarrow> nat \<Rightarrow> TextBattle \<Rightarrow> TextBattle" where
  "sendActionPacket sid trn actionType index t =
     queueSend (mkPacket TEXT_BATTLE_ACTION sid (trn mod 256)
       [trn div 256 mod 256, trn mod 256, actionType, index]) t"

definition sendAction :: "nat \<Rightarrow> nat \<Rightarrow> nat \<Rightarrow> TextBattle \<Rightarrow> TextBattle" where
  "sendAction now actionType index t =
     (let trn = turn (engine t);
          t = (if lastSentAction t \<noteq> 255 then
                 t\<lparr>prevSentAction := lastSentAction t, prevSentIndex := lastSentIndex t, prevSentTurn := lastSentTurn t\<rparr>
               else t);
          t = sendActionPacket (session t) trn actionType index t
      in t\<lparr>lastSentAction := actionType, lastSentIndex := index, lastSentTurn := trn, lastSendMs := now\<rparr>)"

definition sendForfeit :: "TextBattle \<Rightarrow> TextBattle" where
  "sendForfeit t = queueSend (mkPacket TEXT_BATTLE_FORFEIT (session t) 0 []) t"

definition sendReady :: "TextBattle \<Rightarrow> TextBattle" where
  "sendReady t = queueSend (mkPacket TEXT_BATTLE_READY (session t) 0 []) t"

definition sendHash :: "TextBattle \<Rightarrow> TextBattle" where
  "sendHash t =
     (let trn = turn (engine t)
      in queueSend (mkPacket TEXT_BATTLE_HASH (session t) (trn mod 256)
           ([trn div 256 mod 256, trn mod 256] @ map unat (hashState (engine t)))) t)"

subsection \<open>Starting\<close>

definition startEngine :: "Gen1Party \<Rightarrow> Gen1Party \<Rightarrow> 32 word \<Rightarrow> TextBattle \<Rightarrow> TextBattle" where
  "startEngine mine opp seed = onEngine (\<lambda>e. freshBoth (start mine opp seed 3 e))"

definition startNetworkedAsInitiator ::
    "nat \<Rightarrow> 32 word \<Rightarrow> nat \<Rightarrow> Gen1Party \<Rightarrow> Gen1Party \<Rightarrow> nat \<Rightarrow> nat \<Rightarrow> TextBattle \<Rightarrow> TextBattle" where
  "startNetworkedAsInitiator now rnd peer_id myParty oppParty existingSeed existingSession t =
     (let t = t\<lparr>mode := NETWORKED, phase := WAIT_REMOTE, remoteId := peer_id, peerReady := False,
            session := (if existingSession \<noteq> 0 then existingSession else now mod 65536), cursor := 0,
            switchCursor := 0, pendingRemoteAction := False, logFill := 0, logHead := 0\<rparr>;
          seed = (if existingSeed \<noteq> 0 then of_nat existingSeed
                  else rnd XOR of_nat peer_id XOR of_nat (session t));
          opp = (if gp_count oppParty \<noteq> 0 then oppParty else myParty);
          t = startEngine myParty opp seed t;
          t = (if existingSeed = 0 then sendStart (unat seed) myParty t else t);
          t = appendLog (''Battle ready '' @ emdash @ '' waiting for peer'' @ ellipsis) t;
          t = handleFaints (t\<lparr>lastRecvMs := now\<rparr>)
      in t\<lparr>phase := (if result (engine t) = ONGOING then WAIT_PEER_READY else phase t),
           peerReadyTimeoutMs := u32 (now + 10000)\<rparr>)"

definition startNetworkedAsReceiver ::
    "nat \<Rightarrow> nat \<Rightarrow> Gen1Party \<Rightarrow> 32 word \<Rightarrow> Gen1Party \<Rightarrow> nat \<Rightarrow> TextBattle \<Rightarrow> TextBattle" where
  "startNetworkedAsReceiver now peer_id myParty seed oppParty existingSession t =
     (let t = t\<lparr>mode := NETWORKED, phase := WAIT_ACTION, remoteId := peer_id, session := existingSession,
            cursor := 0, switchCursor := 0, logFill := 0, logHead := 0\<rparr>;
          t = startEngine myParty (if gp_count oppParty \<noteq> 0 then oppParty else myParty) seed t;
          t = appendLog ''Battle started!'' t
      in sendHash (sendReady (t\<lparr>lastRecvMs := now, peerReady := True\<rparr>)))"

definition tagNick :: "string \<Rightarrow> BattlePoke \<Rightarrow> BattlePoke" where
  "tagNick tag m = m\<lparr>nickname := snprintf 11 (take 4 tag @ ''-'' @ take 5 (nickname m))\<rparr>"

definition tagOpponent :: "string \<Rightarrow> TextBattle \<Rightarrow> TextBattle" where
  "tagOpponent tag t =
     (let t = t\<lparr>oppTag := take 7 tag\<rparr>
      in if tag = [] then t else onEngine (onParty S1 (onMons (tagNick tag))) t)"

definition startLocal :: "nat \<Rightarrow> 32 word \<Rightarrow> Gen1Party \<Rightarrow> Gen1Party \<Rightarrow> string \<Rightarrow> TextBattle \<Rightarrow> TextBattle" where
  "startLocal now rnd myParty cpuParty theirTag t =
     (let t = t\<lparr>playerWon := False, mode := LOCAL_ROGUELIKE, phase := WAIT_ACTION, remoteId := 0, cursor := 0,
            switchCursor := 0, fleeAttempts := 0, logFill := 0, logHead := 0, participantMask := 1,
            lastPlayerActive := 0, lastEnemyActive := 0, isTrainerBattle := True, pendingXpDrops := 0,
            pendingXpPerSlot := replicate 6 0, slotXpAccum := replicate 6 0\<rparr>;
          t = onEngine (start myParty cpuParty (of_nat now XOR rnd) 3) t;
          t = onEngine freshBoth (tagOpponent theirTag t)
      in appendLog ''A wild battle begins!'' t)"

definition nextOpponent :: "Gen1Party \<Rightarrow> string \<Rightarrow> TextBattle \<Rightarrow> TextBattle" where
  "nextOpponent cpu theirTag t =
     (let t = onEngine (replaceOpponent cpu) (t\<lparr>mode := LOCAL_ROGUELIKE\<rparr>);
          t = onEngine (onParty S1 freshParty) (tagOpponent theirTag t);
          t = t\<lparr>phase := WAIT_ACTION, pendingRemoteAction := False, cursor := 0, switchCursor := 0\<rparr>
      in appendLog ''Next trainer steps up!'' t)"

subsection \<open>Turn resolution\<close>

definition turnFaints :: "TextBattle \<Rightarrow> TextBattle" where
  "turnFaints t =
     fold (\<lambda>i t. if 0 < lastEnemyHp t ! i \<and> hp (mons (parties (engine t) S1) ! i) = 0
                  then (let t = awardFaint (if isTrainerBattle t then 3 else 2) i t
                        in t\<lparr>lastEnemyActive := active (parties (engine t) S1)\<rparr>)
                  else t)
       [0..<min 6 (pcount (parties (engine t) S1))] t"

definition announceResult :: "TextBattle \<Rightarrow> TextBattle" where
  "announceResult t =
     (case result (engine t) of
        P1_WIN \<Rightarrow> (appendLog ''You won!'' t)\<lparr>playerWon := True\<rparr>
      | P2_WIN \<Rightarrow> appendLog (''You blacked out'' @ ellipsis) t
      | DRAW \<Rightarrow> appendLog (''It'' @ [CHR 0x27] @ ''s a draw.'') t
      | ONGOING \<Rightarrow> t)"

definition resolveTurn :: "nat \<Rightarrow> TextBattle \<Rightarrow> TextBattle" where
  "resolveTurn now t =
     (let t = handleFaints (callEngine executeTurn (t\<lparr>lastEnemyHp := enemyHps t\<rparr>));
          t = turnFaints t;
          moved = (active (parties (engine t) S0) \<noteq> lastPlayerActive t);
          t = trackActive t;
          t = (if moved then t\<lparr>cursor := 0\<rparr> else t) in
      if result (engine t) \<noteq> ONGOING then
        (let t = announceResult t;
             t = (if role t = SERVER then serverAuthSendUpdate now t else t)
         in t\<lparr>phase := FINISHED\<rparr>)
      else
        (let t = t\<lparr>pendingRemoteAction := False\<rparr>;
             t = (if mode t = NETWORKED then
                    (if role t = SERVER then serverAuthSendUpdate now t else sendHash t)
                  else t)
         in t\<lparr>phase := WAIT_ACTION\<rparr>))"

subsection \<open>Received packets\<close>

definition onAction :: "nat \<Rightarrow> nat list \<Rightarrow> TextBattle \<Rightarrow> TextBattle" where
  "onAction now pl t =
     (let trn = word16 pl 0; now_turn = turn (engine t) in
      if trn \<noteq> now_turn then
        (let t = (if trn < now_turn then
                    (if lastSentAction t \<noteq> 255 \<and> lastSentTurn t = trn then
                       sendActionPacket (session t) trn (lastSentAction t) (lastSentIndex t) t
                     else if prevSentAction t \<noteq> 255 \<and> prevSentTurn t = trn then
                       sendActionPacket (session t) trn (prevSentAction t) (prevSentIndex t) t
                     else t)
                  else t)
         in t\<lparr>lastRecvMs := now\<rparr>)
      else (submit 1 (pl ! 2) (pl ! 3) t)\<lparr>pendingRemoteAction := True, lastRecvMs := now\<rparr>)"

definition onHash :: "nat list \<Rightarrow> TextBattle \<Rightarrow> TextBattle" where
  "onHash pl t =
     (if word16 pl 0 \<noteq> turn (engine t) then t
      else if map unat (hashState (engine t)) \<noteq> take 8 (drop 2 pl) then
        (callEngine (forfeit 0) (appendLog (''Desync detected '' @ emdash @ '' match aborted.'') t))\<lparr>phase := FINISHED\<rparr>
      else t)"

definition firstContact :: "TextBattle \<Rightarrow> TextBattle" where
  "firstContact t =
     (if peerReady t then t
      else if phase t = WAIT_PEER_READY then
        appendLog ''Opponent ready!'' (t\<lparr>peerReady := True, phase := WAIT_ACTION\<rparr>)
      else appendLog (''Opponent ready '' @ emdash @ '' go!'') (t\<lparr>peerReady := True\<rparr>))"

definition legacyPacket :: "nat \<Rightarrow> nat list \<Rightarrow> TextBattle \<Rightarrow> bool \<times> TextBattle" where
  "legacyPacket now buf t =
     (let pl = drop BATTLELINK_HDR_SIZE buf in
      case pktType (buf ! 0) of
        Some TEXT_BATTLE_READY \<Rightarrow> (True, t)
      | Some TEXT_BATTLE_ACTION \<Rightarrow> (True, if length buf < BATTLELINK_HDR_SIZE + 4 then t else onAction now pl t)
      | Some TEXT_BATTLE_FORFEIT \<Rightarrow> (True, (callEngine (forfeit 1) t)\<lparr>phase := FINISHED\<rparr>)
      | Some TEXT_BATTLE_HASH \<Rightarrow> (True, if length buf < BATTLELINK_HDR_SIZE + 10 then t else onHash pl t)
      | _ \<Rightarrow> (False, t))"

text \<open>
  Dispatch.  The server's and the client's packets are looked for first; the rest must belong to the
  session and come from the peer.  The result says whether the packet was consumed.
\<close>

definition handlePacket :: "nat \<Rightarrow> 32 word \<Rightarrow> nat \<Rightarrow> nat list \<Rightarrow> TextBattle \<Rightarrow> bool \<times> TextBattle" where
  "handlePacket now rnd fromId buf t =
     (if length buf < BATTLELINK_HDR_SIZE then (False, t)
      else
       (let ty = pktType (buf ! 0); pkt = overlay buf in
        if ty = Some TEXT_BATTLE_CHALLENGE then
          (True, if mode t \<noteq> OFF then t else clientAuthOnChallengePkt now fromId buf t)
        else if mode t \<noteq> OFF \<and> role t = SERVER \<and> ty = Some TEXT_BATTLE_ACCEPT then
          (True, serverAuthOnAcceptPkt now rnd fromId buf t)
        else if mode t \<noteq> OFF \<and> role t = SERVER \<and> ty = Some TEXT_BATTLE_ACTION_V2 then
          (True, serverAuthOnActionV2Pkt now fromId buf t)
        else if mode t \<noteq> OFF \<and> role t = SERVER \<and> ty = Some TEXT_BATTLE_STATE_REQUEST then
          (True, serverAuthOnStateRequestPkt fromId buf t)
        else if mode t \<noteq> OFF \<and> role t = CLIENT \<and> ty = Some TEXT_BATTLE_UPDATE then
          (True, clientAuthOnUpdatePkt now buf t)
        else if mode t \<noteq> OFF \<and> role t = CLIENT \<and> ty = Some TEXT_BATTLE_FULL_STATE then
          (True, clientAuthOnFullStatePkt now buf t)
        else if ty = Some TEXT_BATTLE_START then
          (True, if mode t \<noteq> OFF \<or> length buf < BATTLELINK_HDR_SIZE + 14 then t
                 else t\<lparr>session := sessionId pkt, remoteId := fromId\<rparr>)
        else if mode t = OFF then (False, t)
        else if sessionId pkt \<noteq> session t then (False, t)
        else if remoteId t \<noteq> 0 \<and> fromId \<noteq> remoteId t then (False, t)
        else legacyPacket now buf (firstContact t)))"

subsection \<open>Tick\<close>

definition tickServer :: "nat \<Rightarrow> TextBattle \<Rightarrow> TextBattle" where
  "tickServer now t =
     serverAuthRetransmit now
       (if phase t = FINISHED \<and> finishedAtMs t = 0 then t\<lparr>finishedAtMs := now\<rparr> else t)"

definition keyExitDue :: "nat \<Rightarrow> TextBattle \<Rightarrow> bool" where
  "keyExitDue now t \<longleftrightarrow> pendingKeyExit t \<and>
     (\<not> unackedUpdate t \<or> finishedAtMs t \<noteq> 0 \<and> 45000 < sub32 now (finishedAtMs t))"

definition tickLegacy :: "nat \<Rightarrow> TextBattle \<Rightarrow> TextBattle" where
  "tickLegacy now t =
     (if phase t = WAIT_REMOTE \<and> lastSentAction t \<noteq> 255 \<and> RESEND_INTERVAL_MS \<le> sub32 now (lastSendMs t)
      then sendAction now (lastSentAction t) (lastSentIndex t) t else t)"

definition tickTimeouts :: "nat \<Rightarrow> TextBattle \<Rightarrow> TextBattle" where
  "tickTimeouts now t =
     (let t = (if phase t = WAIT_PEER_READY \<and> peerReadyTimeoutMs t \<le> now then
                 appendLog ''Peer ready (timeout)'' (t\<lparr>phase := WAIT_ACTION\<rparr>) else t);
          limit = (if role t \<noteq> LEGACY then TB_NO_TRAFFIC_TIMEOUT_MS else REMOTE_TIMEOUT_MS) in
      if limit < sub32 now (lastRecvMs t) \<and> phase t \<noteq> FINISHED \<and> phase t \<noteq> WAIT_PEER_READY
         \<and> \<not> awaitingAccept t then
        (let t = appendLog ''Opponent timed out.'' t;
             t = (if result (engine t) = ONGOING then callEngine (forfeit 1) t else t)
         in t\<lparr>phase := FINISHED\<rparr>)
      else t)"

definition tickBattle :: "nat \<Rightarrow> 32 word \<Rightarrow> TextBattle \<Rightarrow> TextBattle" where
  "tickBattle now rnd t =
     (case mode t of
        OFF \<Rightarrow> t
      | NETWORKED \<Rightarrow>
         (let t' = (case role t of SERVER \<Rightarrow> tickServer now t | CLIENT \<Rightarrow> clientAuthRetransmit now rnd t
                     | LEGACY \<Rightarrow> tickLegacy now t) in
          if role t = SERVER \<and> keyExitDue now t' then exit_battle (t'\<lparr>pendingKeyExit := False\<rparr>)
          else
           (let t' = tickTimeouts now t'
            in if phase t' = WAIT_REMOTE \<and> pendingRemoteAction t' then resolveTurn now t' else t'))
      | LOCAL_ROGUELIKE \<Rightarrow>
         (if phase t = WAIT_REMOTE then
            (let (a, i) = cpuPickAction 1 (engine t) in resolveTurn now (submit 1 a i t))
          else t))"

subsection \<open>Keys\<close>

abbreviation ESC :: char where "ESC \<equiv> CHR 0x1B"

definition isAccept :: "char \<Rightarrow> bool" where
  "isAccept c \<longleftrightarrow> c \<in> {CHR ''k'', CHR ''K'', CHR 0x0A, CHR 0x0D, CHR '' ''}"

definition isBack :: "char \<Rightarrow> bool" where
  "isBack c \<longleftrightarrow> c \<in> {CHR ''l'', CHR ''L''}"

text \<open>The cursor step of a direction key on a grid of two columns.\<close>

definition gridStep :: "char \<Rightarrow> int option" where
  "gridStep c =
     (if c \<in> {CHR ''w'', CHR ''W'', CHR 0xB5} then Some (- 2)
      else if c \<in> {CHR ''s'', CHR ''S'', CHR 0xB6} then Some 2
      else if c \<in> {CHR ''a'', CHR ''A''} then Some (- 1)
      else if c \<in> {CHR ''d'', CHR ''D''} then Some 1
      else None)"

definition wrapTo :: "nat \<Rightarrow> int \<Rightarrow> nat" where
  "wrapTo n v = u8 (nat (v mod int n))"

definition finishedKey :: "TextBattle \<Rightarrow> TextBattle" where
  "finishedKey t =
     (if role t = SERVER \<and> unackedUpdate t \<and> \<not> pendingKeyExit t then t\<lparr>pendingKeyExit := True\<rparr> else exit_battle t)"

definition escKey :: "nat \<Rightarrow> TextBattle \<Rightarrow> TextBattle" where
  "escKey now t =
     (if role t = CLIENT then (clientAuthSendActionV2 now 2 0 t)\<lparr>phase := FINISHED\<rparr>
      else if role t = SERVER then (serverAuthSendUpdate now (callEngine (forfeit 0) t))\<lparr>phase := FINISHED\<rparr>
      else (callEngine (forfeit 0) (if mode t = NETWORKED then sendForfeit t else t))\<lparr>phase := FINISHED\<rparr>)"

definition fleeKey :: "nat \<Rightarrow> char \<Rightarrow> TextBattle \<Rightarrow> TextBattle" where
  "fleeKey now c t =
     (if \<not> isAccept c then t\<lparr>phase := WAIT_ACTION\<rparr>
      else if role t = CLIENT then (clientAuthSendActionV2 now 2 0 t)\<lparr>phase := FINISHED\<rparr>
      else if mode t = NETWORKED then (callEngine (forfeit 0) (sendForfeit t))\<lparr>phase := FINISHED\<rparr>
      else if role t = LEGACY then (appendLog ''Got away safely!'' t)\<lparr>phase := FINISHED\<rparr>
      else
       (let t = t\<lparr>fleeAttempts := u8 (fleeAttempts t + 1)\<rparr>;
            f = u32 (spd (activeMon (engine t) S0) * 32 div (spd (activeMon (engine t) S1) + 1) + 30 * fleeAttempts t)
        in if 255 \<le> f \<or> now mod 256 < f mod 256 then (appendLog ''Got away safely!'' t)\<lparr>phase := FINISHED\<rparr>
           else (submit 0 2 0 (appendLog (''Can'' @ [CHR 0x27] @ ''t escape!'') t))\<lparr>phase := WAIT_REMOTE\<rparr>))"

text \<open>Handing in an action: the client sends it, the others tell the engine, the lockstep role both.\<close>

definition handIn :: "nat \<Rightarrow> nat \<Rightarrow> nat \<Rightarrow> TextBattle \<Rightarrow> TextBattle" where
  "handIn now a i t =
     (let t = (if role t = CLIENT then clientAuthSendActionV2 now a i t
               else (let t = submit 0 a i t
                     in if mode t = NETWORKED \<and> role t = LEGACY then sendAction now a i t else t))
      in t\<lparr>phase := WAIT_REMOTE\<rparr>)"

definition switchKey :: "nat \<Rightarrow> char \<Rightarrow> TextBattle \<Rightarrow> TextBattle" where
  "switchKey now c t =
     (let p = parties (engine t) S0 in
      case gridStep c of
        Some d \<Rightarrow> t\<lparr>switchCursor := wrapTo (pcount p) (int (switchCursor t) + d)\<rparr>
      | None \<Rightarrow>
          (if isAccept c then
             (if 0 < hp (mons p ! switchCursor t) \<and> switchCursor t \<noteq> active p
              then handIn now 1 (switchCursor t) t else t)
           else if isBack c \<or> c = ESC then t\<lparr>phase := WAIT_ACTION\<rparr>
           else t))"

definition acceptMove :: "nat \<Rightarrow> TextBattle \<Rightarrow> TextBattle" where
  "acceptMove now t =
     (let m = activeMon (engine t) S0 in
      if mode t = NETWORKED \<and> \<not> peerReady t then appendLog ''Waiting for opponent...'' t
      else if \<not> list_ex (\<lambda>i. moves m ! i \<noteq> 0 \<and> 0 < pp m ! i) [0..<4] then handIn now 0 0xFE t
      else if moves m ! cursor t = 0 \<or> pp m ! cursor t = 0 then t
      else if disabledSlot m = cursor t \<and> 0 < disabledTurns m then appendLog ''That move is disabled.'' t
      else handIn now 0 (cursor t) t)"

definition actionKey :: "nat \<Rightarrow> char \<Rightarrow> TextBattle \<Rightarrow> TextBattle" where
  "actionKey now c t =
     (let m = activeMon (engine t) S0 in
      if c \<in> set ''1234'' then acceptMove now (t\<lparr>cursor := of_char c - 49\<rparr>)
      else (case gridStep c of
        Some d \<Rightarrow> t\<lparr>cursor := wrapTo 4 (int (cursor t) + d)\<rparr>
      | None \<Rightarrow>
          (if isAccept c then acceptMove now t
           else if c \<in> {CHR ''p'', CHR ''P''} \<or> isBack c then
             (if 0 < trapTurns m then
                appendLog (snprintf 40 (fmtS (''Can'' @ [CHR 0x27] @ ''t switch '' @ emdash @ '' trapped for %s!'')
                  [showInt (int (trapTurns m))])) t
              else t\<lparr>switchCursor := active (parties (engine t) S0), phase := WAIT_SWITCH\<rparr>)
           else t)))"

definition handleKey :: "nat \<Rightarrow> char \<Rightarrow> TextBattle \<Rightarrow> TextBattle" where
  "handleKey now c t =
     (if mode t = OFF then t
      else if phase t = FINISHED then finishedKey t
      else if phase t = WAIT_CHALLENGE_OVERLAY then
        (if c \<in> {CHR ''y'', CHR ''Y''} then clientAuthSendAccept now True t
         else if c \<in> {CHR ''n'', CHR ''N'', ESC} then clientAuthSendAccept now False t
         else t)
      else if c = ESC then escKey now t
      else if phase t \<in> {WAIT_REMOTE, ANIMATING, WAIT_PEER_READY} then t
      else if phase t = WAIT_FLEE then fleeKey now c t
      else if c \<in> {CHR ''f'', CHR ''F''} then (appendLog ''Flee? K=yes  any=no'' t)\<lparr>phase := WAIT_FLEE\<rparr>
      else if phase t = WAIT_SWITCH then switchKey now c t
      else if phase t = WAIT_ACTION then actionKey now c t
      else t)"

end
