(* ===== verification/BattleLink.thy ===== *)
theory BattleLink
  imports BattlePlay
begin

text \<open>
  How the server's packets act on the client: each section of an UPDATE is read off the front of the
  payload the server built, the party fields it carries end up equal to the server's, and the hash over
  them detects a difference in a single byte.
\<close>

subsection \<open>What a step leaves alone\<close>

lemma parties_onEngine [simp]: "parties (engine (onEngine (onParty s f) t)) u = (if s = u then f (parties (engine t) u) else parties (engine t) u)"
  by (simp add: onEngine_def)

lemma onEngine_sel [simp]:
  "engine (onEngine f t) = f (engine t)" "txQueue (onEngine f t) = txQueue t" "phase (onEngine f t) = phase t"
  "role (onEngine f t) = role t" "session (onEngine f t) = session t" "clientTurn (onEngine f t) = clientTurn t"
  "lastAppliedUpdateSeq (onEngine f t) = lastAppliedUpdateSeq t"
  "clientNeedsFullState (onEngine f t) = clientNeedsFullState t" "mode (onEngine f t) = mode t"
  "participantMask (onEngine f t) = participantMask t" "slotXpAccum (onEngine f t) = slotXpAccum t"
  "log_lines (onEngine f t) = log_lines t" "logHead (onEngine f t) = logHead t"
  by (simp_all add: onEngine_def)

lemma appendLog_sel [simp]:
  "engine (appendLog l t) = engine t" "txQueue (appendLog l t) = txQueue t" "phase (appendLog l t) = phase t"
  "role (appendLog l t) = role t" "session (appendLog l t) = session t" "clientTurn (appendLog l t) = clientTurn t"
  "lastAppliedUpdateSeq (appendLog l t) = lastAppliedUpdateSeq t"
  "clientNeedsFullState (appendLog l t) = clientNeedsFullState t" "mode (appendLog l t) = mode t"
  "participantMask (appendLog l t) = participantMask t" "slotXpAccum (appendLog l t) = slotXpAccum t"
  by (simp_all add: appendLog_def)

lemma queueSend_sel [simp]:
  "engine (queueSend p t) = engine t" "phase (queueSend p t) = phase t" "role (queueSend p t) = role t"
  "session (queueSend p t) = session t" "clientTurn (queueSend p t) = clientTurn t"
  "lastAppliedUpdateSeq (queueSend p t) = lastAppliedUpdateSeq t" "updateSeq (queueSend p t) = updateSeq t"
  "clientNeedsFullState (queueSend p t) = clientNeedsFullState t" "mode (queueSend p t) = mode t"
  "pendingRemoteAction (queueSend p t) = pendingRemoteAction t" "clientActionType (queueSend p t) = clientActionType t"
  by (simp_all add: queueSend_def)

text \<open>What the sections of an UPDATE, the experience and the log never write.\<close>

definition same_link :: "TextBattle \<Rightarrow> TextBattle \<Rightarrow> bool" where
  "same_link t u \<longleftrightarrow> role u = role t \<and> session u = session t \<and> clientTurn u = clientTurn t \<and> phase u = phase t
     \<and> lastAppliedUpdateSeq u = lastAppliedUpdateSeq t \<and> clientNeedsFullState u = clientNeedsFullState t
     \<and> txQueue u = txQueue t \<and> mode u = mode t"

lemma same_link_refl [simp, intro]: "same_link t t"
  by (simp add: same_link_def)

lemma same_link_trans: "same_link t u \<Longrightarrow> same_link u v \<Longrightarrow> same_link t v"
  by (simp add: same_link_def)

lemma same_link_onEngine [simp, intro]: "same_link t (onEngine f t)"
  by (simp add: same_link_def)

lemma same_link_appendLog [simp, intro]: "same_link t (appendLog l t)"
  by (simp add: same_link_def)

lemma same_link_fold: "(\<And>x u. same_link u (f x u)) \<Longrightarrow> same_link t (fold f xs t)"
  by (induction xs arbitrary: t) (auto intro: same_link_trans)

lemma onEngine_onEngine [simp]: "onEngine f (onEngine g t) = onEngine (f \<circ> g) t"
  by (simp add: onEngine_def)

lemma onEngine_id: "(\<And>e. f e = e) \<Longrightarrow> onEngine f t = t"
  by (simp add: onEngine_def)

lemma onParty_onParty [simp]: "onParty s f (onParty s g e) = onParty s (f \<circ> g) e"
  by (simp add: onParty_def)

subsection \<open>Sections\<close>

lemma with_bytes_append [simp]: "length xs = n \<Longrightarrow> with_bytes n f t (xs @ ys) = Inr (f xs t, ys)"
  by (simp add: with_bytes_def)

lemma when_flag_simps [simp]: "when_flag True f t bs = f t bs" "when_flag False f t bs = Inr (t, bs)"
  by (simp_all add: when_flag_def)

primrec writeAll :: "nat \<Rightarrow> (BattlePoke \<Rightarrow> BattlePoke) list \<Rightarrow> BattleParty \<Rightarrow> BattleParty" where
  "writeAll j [] p = p"
| "writeAll j (h # hs) p = writeAll (Suc j) hs (if j < pcount p then p\<lparr>mons := upd_at j h (mons p)\<rparr> else p)"

lemma writeAll_sel [simp]:
  "pcount (writeAll j hs p) = pcount p" "active (writeAll j hs p) = active p"
  "length (mons (writeAll j hs p)) = length (mons p)"
  by (induction hs arbitrary: j p) simp_all

lemma writeAll_nth:
  "j + length hs \<le> pcount p \<Longrightarrow> i < length (mons p) \<Longrightarrow>
   mons (writeAll j hs p) ! i = (if j \<le> i \<and> i < j + length hs then (hs ! (i - j)) (mons p ! i) else mons p ! i)"
proof (induction hs arbitrary: j p)
  case (Cons h hs)
  show ?case
  proof (cases "j < i")
    case True
    then have "i - j = Suc (i - Suc j)" by simp
    with Cons True show ?thesis by (auto simp: nth_upd_at)
  next
    case False
    with Cons show ?thesis by (cases "i = j") (simp_all add: nth_upd_at)
  qed
qed auto

lemma writeSlot_eq: "writeSlot s i f t = onEngine (onParty s (\<lambda>p. if i < pcount p then p\<lparr>mons := upd_at i f (mons p)\<rparr> else p)) t"
  by (simp add: writeSlot_def)

lemma slots_run:
  assumes "\<And>m. m \<in> set ms \<Longrightarrow> length (g m) = n"
  shows "slots s n f [j..<j + length ms] t (concat (map g ms) @ r)
         = Inr (onEngine (onParty s (writeAll j (map (\<lambda>m. f (g m)) ms))) t, r)"
  using assms
proof (induction ms arbitrary: j t)
  case Nil
  have "onEngine (onParty s (\<lambda>p. p)) t = t"
    by (rule onEngine_id) (simp add: onParty_def)
  then show ?case by simp
next
  case (Cons m ms)
  have u: "[j..<j + length (m # ms)] = j # [Suc j..<Suc j + length ms]" by (simp add: upt_rec)
  show ?case
    using Cons.IH [of "Suc j" "writeSlot s j (f (g m)) t"] Cons.prems
    unfolding u by (simp add: writeSlot_eq comp_def)
qed

subsection \<open>Log lines\<close>

lemma char_of_of_char_map [simp]: "map char_of (map (of_char :: char \<Rightarrow> nat) l) = l"
  by (induction l) simp_all

lemma applyLines_run:
  assumes "\<And>l. l \<in> set ls \<Longrightarrow> length l \<le> LOG_WIDTH \<and> CHR 0x00 \<notin> set l"
  shows "applyLines (length ls) t (concat (map (\<lambda>l. length l # map of_char l) ls) @ r) = (fold appendLog ls t, r)"
  using assms
proof (induction ls arbitrary: t)
  case (Cons l ls)
  then have "takeWhile (\<lambda>c. c \<noteq> CHR 0x00) l = l" by (auto simp: takeWhile_eq_all_conv)
  moreover have "take LOG_WIDTH l = l" using Cons.prems by simp
  ultimately have "wireName (take (min (length l) LOG_WIDTH) (map of_char l)) = l"
    unfolding wireName_def using Cons.prems by (simp add: take_map)
  with Cons show ?case by simp
qed simp

text \<open>Whatever the lines hold, the section is consumed and only the log changes.\<close>

lemma applyLines_rest:
  "\<exists>u. applyLines (length ls) t (concat (map (\<lambda>l. length l # map of_char l) ls) @ r) = (u, r)
       \<and> same_link t u \<and> engine u = engine t"
proof (induction ls arbitrary: t)
  case (Cons l ls)
  let ?w = "wireName (take (min (length l) LOG_WIDTH) (map of_char l))"
  obtain u where u: "applyLines (length ls) (appendLog ?w t) (concat (map (\<lambda>l. length l # map of_char l) ls) @ r) = (u, r)"
    "same_link (appendLog ?w t) u" "engine u = engine (appendLog ?w t)"
    using Cons.IH by blast
  then have "same_link t u" by (meson same_link_appendLog same_link_trans)
  with u show ?case by (intro exI [of _ u]) simp
qed auto

subsection \<open>Parties on both sides of the link\<close>

text \<open>
  A party as the engine keeps it: six slots, one to six of them used, the active one among them, HP in
  two bytes and four PP values.
\<close>

definition wireMon :: "BattlePoke \<Rightarrow> bool" where
  "wireMon m \<longleftrightarrow> hp m < 65536 \<and> length (pp m) = 4"

definition wireParty :: "BattleParty \<Rightarrow> bool" where
  "wireParty p \<longleftrightarrow> length (mons p) = 6 \<and> pcount p \<le> 6 \<and> active p < pcount p \<and> list_all wireMon (mons p)"

text \<open>\<open>shows_hp p q\<close>: what the board shows of \<open>p\<close> is what it shows of the copy \<open>q\<close>.\<close>

definition shows_hp :: "BattleParty \<Rightarrow> BattleParty \<Rightarrow> bool" where
  "shows_hp p q \<longleftrightarrow> pcount p \<le> 6 \<and> pcount q = pcount p \<and> active q = active p \<and> length (mons q) = 6 \<and>
     (\<forall>i < pcount p. hp (mons q ! i) = hp (mons p ! i) \<and> status (mons q ! i) = status (mons p ! i))"

definition shows_pp :: "BattleParty \<Rightarrow> BattleParty \<Rightarrow> bool" where
  "shows_pp p q \<longleftrightarrow> (\<forall>i < pcount p. pp (mons q ! i) = pp (mons p ! i))"

text \<open>The link: the server's packets reach the client of the same session, which loaded parties of the same sizes.\<close>

definition loadedAs :: "BattleParty \<Rightarrow> BattleParty \<Rightarrow> bool" where
  "loadedAs p q \<longleftrightarrow> length (mons q) = 6 \<and> pcount q = pcount p"

definition linked :: "TextBattle \<Rightarrow> TextBattle \<Rightarrow> bool" where
  "linked s c \<longleftrightarrow> role s = SERVER \<and> role c = CLIENT \<and> session c = session s \<and> session s < 65536
     \<and> wireParty (parties (engine s) S0) \<and> wireParty (parties (engine s) S1)
     \<and> loadedAs (parties (engine s) S1) (parties (engine c) S0)
     \<and> loadedAs (parties (engine s) S0) (parties (engine c) S1)"

lemma list_of_four: "length xs = 4 \<Longrightarrow> [xs ! 0, xs ! Suc 0, xs ! 2, xs ! 3] = xs"
  by (cases xs rule: list.exhaust; simp) (auto simp: length_Suc_conv numeral_eq_Suc)

lemma shows_hp_setActive:
  "shows_hp p q \<Longrightarrow> (\<And>m. hp (f m) = hp m \<and> status (f m) = status m) \<Longrightarrow> shows_hp p (setActive f q)"
  by (auto simp: shows_hp_def nth_upd_at)

lemma shows_pp_setActive:
  "shows_pp p q \<Longrightarrow> (\<And>m. pp (f m) = pp m) \<Longrightarrow> shows_hp p q \<Longrightarrow> shows_pp p (setActive f q)"
  by (auto simp: shows_hp_def shows_pp_def nth_upd_at)

lemma bytes16: "(v :: nat) < 65536 \<Longrightarrow> v div 256 mod 256 * 256 + v mod 256 = v"
proof -
  assume "v < 65536"
  then have "v div 256 < 256" by simp
  then show ?thesis by simp
qed

lemma wireParty_nth:
  "wireParty p \<Longrightarrow> i < pcount p \<Longrightarrow> hp (mons p ! i) < 65536 \<and> length (pp (mons p ! i)) = 4"
  by (auto simp: wireParty_def wireMon_def list_all_length)

lemma writeAll_bench:
  assumes "wireParty p" "loadedAs p q" "active q = active p"
  shows "shows_hp p (writeAll 0 (map (\<lambda>m. benchWrite (benchMon m)) (take (pcount p) (mons p))) q)"
    and "shows_pp p (writeAll 0 (map (\<lambda>m. benchWrite (benchMon m)) (take (pcount p) (mons p))) q)"
  using assms wireParty_nth [OF assms(1)]
  by (auto simp: shows_hp_def shows_pp_def wireParty_def loadedAs_def writeAll_nth benchWrite_def benchMon_def
      word16_def bytes16 list_of_four)

lemma writeAll_enemy:
  assumes "wireParty p" "loadedAs p q" "active q = active p"
  shows "shows_hp p (writeAll 0 (map (\<lambda>m. enemyWrite (monBoard m)) (take (pcount p) (mons p))) q)"
  using assms wireParty_nth [OF assms(1)]
  by (auto simp: shows_hp_def wireParty_def loadedAs_def writeAll_nth enemyWrite_def monBoard_def word16_def bytes16)

lemma shows_hp_board: "shows_hp p q \<Longrightarrow> wireParty p \<Longrightarrow> sideBoard q = sideBoard p"
proof -
  assume a: "shows_hp p q" "wireParty p"
  then have "map monBoard (take (pcount p) (mons q)) = map monBoard (take (pcount p) (mons p))"
    by (intro nth_equalityI) (auto simp: shows_hp_def wireParty_def monBoard_def)
  with a show ?thesis by (simp add: sideBoard_def shows_hp_def wireParty_def)
qed

lemma shows_board:
  assumes "shows_hp p q" "shows_pp p q" "shows_hp p' q'" "wireParty p" "wireParty p'"
  shows "boardOf n q q' = boardOf n p p'"
proof -
  have "pp (mons q ! active q) = pp (mons p ! active p)"
    using assms(1,2,4) by (simp add: shows_hp_def shows_pp_def wireParty_def)
  with assms show ?thesis by (simp add: boardOf_def shows_hp_board)
qed

subsection \<open>An UPDATE is read back section by section\<close>

lemma flags_of_update [simp]:
  "has_flag (updateFlags s) TB_UPD_HP" "has_flag (updateFlags s) TB_UPD_PP"
  "has_flag (updateFlags s) TB_UPD_SWITCH" "has_flag (updateFlags s) TB_UPD_STATUS"
  "has_flag (updateFlags s) TB_UPD_BENCH" "has_flag (updateFlags s) TB_UPD_FX"
  "has_flag (updateFlags s) TB_UPD_RESULT \<longleftrightarrow> result (engine s) \<noteq> ONGOING"
  "has_flag (updateFlags s) TB_UPD_LOG \<longleftrightarrow> unshippedLogLines s > 0"
  "has_flag (updateFlags s) TB_UPD_NEED_PLAYER_SWITCH \<longleftrightarrow>
     result (engine s) = ONGOING \<and> hp (activeMon (engine s) S1) = 0"
  by (simp_all add: updateFlags_def has_flag_def Let_def)

lemma updateFlags_less: "updateFlags s < 65536"
  by (simp add: updateFlags_def Let_def)

text \<open>The bytes behind the six of the turn, the flags and the hash.\<close>

definition liveBytes :: "TextBattle \<Rightarrow> nat list" where
  "liveBytes s =
     (let cm = activeMon (engine s) S1; sm = activeMon (engine s) S0
      in [hp cm div 256 mod 256, hp cm mod 256, hp sm div 256 mod 256, hp sm mod 256] @ take 4 (pp cm)
         @ [active (parties (engine s) S1), active (parties (engine s) S0)] @ [status cm, status sm])"

definition resultBytes :: "TextBattle \<Rightarrow> nat list" where
  "resultBytes s = (if result (engine s) \<noteq> ONGOING then [resultByte (result (engine s))] else [])"

definition logBytes :: "TextBattle \<Rightarrow> nat list" where
  "logBytes s = (if 0 < unshippedLogLines s then logSection (length (updateHead s)) s else [])"

definition sectionBytes :: "TextBattle \<Rightarrow> nat list" where
  "sectionBytes s =
     (let c = parties (engine s) S1; p = parties (engine s) S0
      in liveBytes s @ resultBytes s @ logBytes s @ benchSection c p @ fxSection c p)"

lemma updatePayload_split:
  "updatePayload s =
     [turn (engine s) mod 256, updateFlags s div 256 mod 256, updateFlags s mod 256,
      tbBoardHash24 (packClientState s) div 65536 mod 256, tbBoardHash24 (packClientState s) div 256 mod 256,
      tbBoardHash24 (packClientState s) mod 256] @ sectionBytes s"
  by (simp add: updatePayload_def updateHead_def sectionBytes_def liveBytes_def resultBytes_def logBytes_def Let_def)

lemma length_benchMon [simp]: "length (benchMon m) = 7" by (simp add: benchMon_def)

lemma length_monBoard [simp]: "length (monBoard m) = 3" by (simp add: monBoard_def)

definition boostBytes :: "BattlePoke \<Rightarrow> nat list" where
  "boostBytes m = map int8Byte [atkBoost m, defBoost m, spdBoost m, spcBoost m, accBoost m, evaBoost m]"

lemma length_boostBytes [simp]: "length (boostBytes m) = 6" by (simp add: boostBytes_def)

definition benchWrites :: "BattleParty \<Rightarrow> BattleParty \<Rightarrow> TextBattle \<Rightarrow> TextBattle" where
  "benchWrites c p t =
     onEngine (onParty S1 (writeAll 0 (map (\<lambda>m. enemyWrite (monBoard m)) (take (pcount p) (mons p)))))
       (onMine S0 (boostWrite (boostBytes (mons c ! active c)))
         (onEngine (onParty S0 (writeAll 0 (map (\<lambda>m. benchWrite (benchMon m)) (take (pcount c) (mons c))))) t))"

lemma benchApply_run:
  assumes "wireParty c" "wireParty p"
  shows "benchApply t (benchSection c p @ r) = Inr (benchWrites c p t, r)"
proof -
  let ?mc = "take (pcount c) (mons c)" and ?mp = "take (pcount p) (mons p)"
  have n: "min 6 (pcount c) = pcount c" "min 6 (pcount p) = pcount p" "length ?mc = pcount c" "length ?mp = pcount p"
    using assms by (simp_all add: wireParty_def)
  have b: "benchSection c p @ r = [pcount c] @ (concat (map benchMon ?mc) @ (boostBytes (mons c ! active c)
      @ ([pcount p] @ (concat (map monBoard ?mp) @ r))))"
    by (simp add: benchSection_def boostBytes_def Let_def n)
  have s0: "slots S0 7 benchWrite [0..<pcount c] t (concat (map benchMon ?mc) @ q)
      = Inr (onEngine (onParty S0 (writeAll 0 (map (\<lambda>m. benchWrite (benchMon m)) ?mc))) t, q)" for q
    using slots_run [of ?mc benchMon 7 S0 benchWrite 0 t q] by (simp only: n add_0 length_benchMon)
  have s1: "slots S1 3 enemyWrite [0..<pcount p] u (concat (map monBoard ?mp) @ r)
      = Inr (onEngine (onParty S1 (writeAll 0 (map (\<lambda>m. enemyWrite (monBoard m)) ?mp))) u, r)" for u
    using slots_run [of ?mp monBoard 3 S1 enemyWrite 0 u r] by (simp only: n add_0 length_monBoard)
  have h: "takeN 1 ([x] @ q) = Some ([x], q)" "takeN 1 (x # q) = Some ([x], q)" for x :: nat and q
    by (simp_all add: takeN_def)
  show ?thesis
    unfolding b benchApply_def h option.case prod.case nth_Cons_0 n s0 and_then_simps
    by (simp add: s1 benchWrites_def h [unfolded One_nat_def] n)
qed

definition fxWrites :: "BattleParty \<Rightarrow> BattleParty \<Rightarrow> TextBattle \<Rightarrow> TextBattle" where
  "fxWrites c p t =
     (let d = [disabledSlot (mons c ! active c), disabledTurns (mons c ! active c), trapTurns (mons c ! active c)]
      in onMine S0 (\<lambda>m. m\<lparr>disabledSlot := d ! 0, disabledTurns := d ! 1, trapTurns := d ! 2\<rparr>)
           (onEngine (onParty S1 (fxWrite (fxSide p))) (onEngine (onParty S0 (fxWrite (fxSide c))) t)))"

lemma length_fxSide [simp]: "length (fxSide p) = 8" by (simp add: fxSide_def Let_def)

lemma fxApply_run: "fxApply t (fxSection c p) = Inr (fxWrites c p t, [])"
proof -
  have b: "fxSection c p = fxSide c @ (fxSide p @ ([disabledSlot (mons c ! active c),
      disabledTurns (mons c ! active c), trapTurns (mons c ! active c)] @ []))"
    by (simp add: fxSection_def Let_def)
  show ?thesis
    unfolding b fxApply_def by (subst with_bytes_append, simp)+ (simp add: fxWrites_def Let_def with_bytes_def takeN_def)
qed

definition liveWrites :: "TextBattle \<Rightarrow> TextBattle \<Rightarrow> TextBattle" where
  "liveWrites s t =
     (let cm = activeMon (engine s) S1; sm = activeMon (engine s) S0
      in applyStatus [status cm, status sm]
          (applySwitch [active (parties (engine s) S1), active (parties (engine s) S0)]
            (applyPp (take 4 (pp cm))
              (applyHp [hp cm div 256 mod 256, hp cm mod 256, hp sm div 256 mod 256, hp sm mod 256] t))))"

lemma same_link_live: "same_link t (liveWrites s t)"
  by (simp add: liveWrites_def applyStatus_def applySwitch_def applyPp_def applyHp_def onMine_def Let_def)

lemma resultText_same: "engine (resultText r t) = engine t" "same_link t (resultText r t)"
  by (simp_all add: resultText_def same_link_def)

lemma logSection_read:
  "\<exists>u. logApply t (logSection w s @ r) = Inr (u, r) \<and> same_link t u \<and> engine u = engine t"
proof -
  let ?ls = "linesThatFit (w + 1) (unshippedLines s)"
  have "logSection w s @ r = [length ?ls] @ (concat (map (\<lambda>l. length l # map of_char l) ?ls) @ r)"
    by (simp add: logSection_def Let_def)
  moreover have "logApply t ([length ?ls] @ q) = Inr (applyLines (length ?ls) t q)" for q
    by (simp add: logApply_def takeN_def)
  ultimately show ?thesis using applyLines_rest [of ?ls t r] by auto
qed

lemma applySections_run:
  assumes "wireParty (parties (engine s) S1)" "wireParty (parties (engine s) S0)"
  shows "\<exists>u. applySections (updateFlags s) t (sectionBytes s)
             = Inr (fxWrites (parties (engine s) S1) (parties (engine s) S0)
                     (benchWrites (parties (engine s) S1) (parties (engine s) S0) u), [])
           \<and> engine u = engine (liveWrites s t) \<and> same_link t u"
proof -
  let ?c = "parties (engine s) S1" and ?p = "parties (engine s) S0"
  let ?cm = "activeMon (engine s) S1" and ?sm = "activeMon (engine s) S0"
  let ?H = "[hp ?cm div 256 mod 256, hp ?cm mod 256, hp ?sm div 256 mod 256, hp ?sm mod 256]"
  let ?P = "take 4 (pp ?cm)" and ?W = "[active ?c, active ?p]" and ?S = "[status ?cm, status ?sm]"
  let ?T = "benchSection ?c ?p @ fxSection ?c ?p"
  have P: "length ?P = 4" using wireParty_nth [OF assms(1)] assms(1) by (simp add: activeMon_def wireParty_def)
  have live: "sectionBytes s = ?H @ (?P @ (?W @ (?S @ (resultBytes s @ (logBytes s @ ?T)))))"
    by (simp add: sectionBytes_def liveBytes_def Let_def)
  define u0 where "u0 = liveWrites s t"
  have u0: "u0 = applyStatus ?S (applySwitch ?W (applyPp ?P (applyHp ?H t)))"
    by (simp add: u0_def liveWrites_def Let_def)
  obtain u1 where u1: "when_flag (has_flag (updateFlags s) TB_UPD_RESULT) (with_bytes 1 (\<lambda>p. resultText (p ! 0))) u0
      (resultBytes s @ q) = Inr (u1, q)" "engine u1 = engine u0" "same_link u0 u1" for q
  proof (cases "result (engine s) = ONGOING")
    case True
    then show ?thesis by (intro that [of u0]) (simp_all add: resultBytes_def)
  next
    case False
    then show ?thesis
      by (intro that [of "resultText (resultByte (result (engine s))) u0"])
        (simp_all add: resultBytes_def resultText_same with_bytes_def takeN_def)
  qed
  obtain u2 where u2: "when_flag (has_flag (updateFlags s) TB_UPD_LOG) logApply u1 (logBytes s @ ?T) = Inr (u2, ?T)"
    "engine u2 = engine u1" "same_link u1 u2"
    using logSection_read [of u1 "length (updateHead s)" s ?T] that [of u1] that
    by (cases "0 < unshippedLogLines s") (fastforce simp: logBytes_def)+
  have h1: "with_bytes 4 applyHp x (?H @ q) = Inr (applyHp ?H x, q)" for x q
    by (rule with_bytes_append) simp
  have h2: "with_bytes 4 applyPp x (?P @ q) = Inr (applyPp ?P x, q)" for x q
    by (rule with_bytes_append) (rule P)
  have h3: "with_bytes 2 applySwitch x (?W @ q) = Inr (applySwitch ?W x, q)" for x q
    by (rule with_bytes_append) simp
  have h4: "with_bytes 2 applyStatus x (?S @ q) = Inr (applyStatus ?S x, q)" for x q
    by (rule with_bytes_append) simp
  have "applySections (updateFlags s) t (sectionBytes s)
      = Inr (fxWrites ?c ?p (benchWrites ?c ?p u2), [])"
    unfolding live applySections_def
    by (simp only: flags_of_update(1-6) when_flag_simps h1 h2 h3 h4 and_then_simps u0 [symmetric] u1(1) u2(1) benchApply_run [OF assms] fxApply_run)
  moreover have "engine u2 = engine (liveWrites s t)" using u1(2) u2(2) by (simp add: u0_def)
  moreover have "same_link t u2"
    using same_link_live [of t s] u1(3) u2(3) unfolding u0_def by (blast intro: same_link_trans)
  ultimately show ?thesis by blast
qed

subsection \<open>The boards agree\<close>

lemma parties_onMine:
  "parties (engine (onMine s f t)) u =
     (if s = u \<and> pcount (parties (engine t) u) \<noteq> 0 then setActive f (parties (engine t) u) else parties (engine t) u)"
  by (auto simp: onMine_def)

lemma same_link_writes: "same_link t (fxWrites c p (benchWrites c p t))"
  by (simp add: fxWrites_def benchWrites_def onMine_def Let_def)

lemma liveWrites_parties:
  assumes "linked s c"
  shows "loadedAs (parties (engine s) S1) (parties (engine (liveWrites s c)) S0)"
    and "active (parties (engine (liveWrites s c)) S0) = active (parties (engine s) S1)"
    and "loadedAs (parties (engine s) S0) (parties (engine (liveWrites s c)) S1)"
    and "active (parties (engine (liveWrites s c)) S1) = active (parties (engine s) S0)"
  using assms
  by (auto simp: linked_def loadedAs_def wireParty_def liveWrites_def applyStatus_def applySwitch_def applyPp_def
      applyHp_def parties_onMine setActiveIdx_def Let_def)

lemma shows_fxWrite:
  "shows_hp p q \<Longrightarrow> shows_hp p (fxWrite b q)"
  "shows_pp p q \<Longrightarrow> shows_hp p q \<Longrightarrow> shows_pp p (fxWrite b q)"
proof -
  let ?f = "\<lambda>m. m\<lparr>sleepTurns := b ! 0, confuseTurns := b ! 1, substituteHp := word16 b 2,
             mustRecharge := has_flag (b ! 4) 1, flinched := has_flag (b ! 4) 2, thrashing := has_flag (b ! 4) 4,
             rageActive := has_flag (b ! 4) 8, transformed := has_flag (b ! 4) 16\<rparr>"
  have f: "mons (fxWrite b q) = mons (setActive ?f q)" "active (fxWrite b q) = active q" "pcount (fxWrite b q) = pcount q"
    by (simp_all add: fxWrite_def Let_def)
  show "shows_hp p q \<Longrightarrow> shows_hp p (fxWrite b q)"
    using shows_hp_setActive [of p q ?f] by (simp add: shows_hp_def f)
  show "shows_pp p q \<Longrightarrow> shows_hp p q \<Longrightarrow> shows_pp p (fxWrite b q)"
    using shows_pp_setActive [of p q ?f] by (simp add: shows_pp_def f)
qed

lemma writes_show:
  assumes "wireParty c" "wireParty p" "loadedAs c (parties (engine t) S0)" "active (parties (engine t) S0) = active c"
    "loadedAs p (parties (engine t) S1)" "active (parties (engine t) S1) = active p"
  defines "v \<equiv> fxWrites c p (benchWrites c p t)"
  shows "shows_hp c (parties (engine v) S0)" and "shows_pp c (parties (engine v) S0)"
    and "shows_hp p (parties (engine v) S1)"
proof -
  define w where "w = benchWrites c p t"
  have w: "shows_hp c (parties (engine w) S0)" "shows_pp c (parties (engine w) S0)" "shows_hp p (parties (engine w) S1)"
    using writeAll_bench [OF assms(1,3,4)] writeAll_enemy [OF assms(2,5,6)]
    by (auto simp: w_def benchWrites_def parties_onMine boostWrite_def intro!: shows_hp_setActive shows_pp_setActive)
  show "shows_hp c (parties (engine v) S0)" "shows_pp c (parties (engine v) S0)" "shows_hp p (parties (engine v) S1)"
    using shows_fxWrite(1) [OF w(1)] shows_fxWrite(2) [OF w(2,1)] shows_fxWrite(1) [OF w(3)]
    by (auto simp: v_def w_def [symmetric] fxWrites_def parties_onMine Let_def
        intro!: shows_hp_setActive shows_pp_setActive)
qed

lemma sections_converge:
  assumes "linked s c" "applySections (updateFlags s) c (sectionBytes s) = Inr (t, r)"
  shows "boardOf n (parties (engine t) S0) (parties (engine t) S1)
           = boardOf n (parties (engine s) S1) (parties (engine s) S0)"
    and "same_link c t" and "loadedAs (parties (engine s) S1) (parties (engine t) S0)"
    and "loadedAs (parties (engine s) S0) (parties (engine t) S1)"
    and "hp (activeMon (engine t) S0) = hp (activeMon (engine s) S1)"
proof -
  let ?c = "parties (engine s) S1" and ?p = "parties (engine s) S0"
  have wp: "wireParty ?c" "wireParty ?p" using assms(1) by (simp_all add: linked_def)
  obtain u where u: "t = fxWrites ?c ?p (benchWrites ?c ?p u)" "engine u = engine (liveWrites s c)" "same_link c u"
    using applySections_run [OF wp, of c] assms(2) by auto
  have v: "shows_hp ?c (parties (engine t) S0)" "shows_pp ?c (parties (engine t) S0)" "shows_hp ?p (parties (engine t) S1)"
    unfolding u(1) using writes_show [OF wp, of u] liveWrites_parties [OF assms(1)] by (simp_all add: u(2))
  then show "boardOf n (parties (engine t) S0) (parties (engine t) S1) = boardOf n ?c ?p"
    using wp by (rule shows_board)
  show "same_link c t" unfolding u(1) using u(3) same_link_writes by (rule same_link_trans)
  show "loadedAs ?c (parties (engine t) S0)" "loadedAs ?p (parties (engine t) S1)"
    using v by (simp_all add: shows_hp_def loadedAs_def)
  show "hp (activeMon (engine t) S0) = hp (activeMon (engine s) S1)"
    using v(1) wp(1) by (simp add: shows_hp_def activeMon_def wireParty_def)
qed

subsection \<open>Levels\<close>

text \<open>
  Experience changes the engine only where it raises a level, so a client whose levels are what they
  were has the parties the sections left.
\<close>

definition ownLevels :: "TextBattle \<Rightarrow> nat list" where
  "ownLevels t = map level (mons (parties (engine t) S0))"

definition grows :: "TextBattle \<Rightarrow> TextBattle \<Rightarrow> bool" where
  "grows t u \<longleftrightarrow> same_link t u \<and> (engine u = engine t \<or> sum_list (ownLevels t) < sum_list (ownLevels u))"

lemma grows_same: "same_link t u \<Longrightarrow> engine u = engine t \<Longrightarrow> grows t u"
  by (simp add: grows_def)

lemma grows_trans: "grows t u \<Longrightarrow> grows u v \<Longrightarrow> grows t v"
  by (auto simp: grows_def ownLevels_def intro: same_link_trans)

lemma grows_fold: "(\<And>x u. grows u (f x u)) \<Longrightarrow> grows t (fold f xs t)"
  by (induction xs arbitrary: t) (auto intro: grows_same grows_trans)

lemma level_levelUpMon [simp]: "level (levelUpMon m) = level m + 1"
  by (simp add: levelUpMon_def Let_def)

lemma sum_levels_upd:
  "k < length ms \<Longrightarrow> sum_list (map level (upd_at k levelUpMon ms)) = Suc (sum_list (map level ms))"
  by (induction ms arbitrary: k) (auto simp: upd_at_def split: nat.splits)

lemma grows_inBattleLevelUp: "grows t (inBattleLevelUp s t)"
proof -
  let ?ms = "mons (parties (engine t) S0)"
  consider "length ?ms \<le> s" | "s < length ?ms" by linarith
  then show ?thesis
  proof cases
    case 1
    then have "upd_at s levelUpMon ?ms = ?ms" by (simp add: upd_at_def list_update_beyond)
    then have "onParty S0 (\<lambda>p. p\<lparr>mons := upd_at s levelUpMon (mons p)\<rparr>) (engine t) = engine t"
      by (simp add: onParty_def)
    then have "engine (inBattleLevelUp s t) = engine t" by (simp add: inBattleLevelUp_def Let_def)
    then show ?thesis by (auto simp: grows_def same_link_def inBattleLevelUp_def Let_def)
  next
    case 2
    then show ?thesis
      by (auto simp: grows_def same_link_def inBattleLevelUp_def Let_def ownLevels_def sum_levels_upd)
  qed
qed

lemma grows_levelUps: "grows t (levelUps k s t)"
proof (induction k arbitrary: t)
  case 0
  show ?case by (simp add: grows_same)
next
  case (Suc k)
  let ?t = "t\<lparr>slotXpAccum := (slotXpAccum t)[s := slotXpAccum t ! s - levelThreshold (level (mons (parties (engine t) S0) ! s))]\<rparr>"
  have "grows t ?t" by (rule grows_same) (simp_all add: same_link_def)
  then have "grows t (levelUps k s (inBattleLevelUp s ?t))"
    using grows_inBattleLevelUp Suc.IH grows_trans by blast
  then show ?case by (auto simp: Let_def grows_same)
qed

lemma grows_creditSlot: "grows t (creditSlot xp s t)"
proof -
  let ?t = "t\<lparr>pendingXpPerSlot := (pendingXpPerSlot t)[s := u32 (pendingXpPerSlot t ! s + xp)],
              slotXpAccum := (slotXpAccum t)[s := u32 (slotXpAccum t ! s + xp)]\<rparr>"
  have "grows t ?t" by (rule grows_same) (simp_all add: same_link_def)
  then show ?thesis using grows_levelUps grows_trans by (auto simp: creditSlot_def grows_same)
qed

lemma grows_awardFaint: "grows t (awardFaint m i t)"
proof -
  let ?line = "snprintf 40 (fmtS ''Each earned %s XP!'' [showInt (int (faintXp m (participantMask t) (mons (parties (engine t) S1) ! i)))])"
  let ?t = "appendLog ?line (t\<lparr>pendingXpDrops := u8 (pendingXpDrops t + 1)\<rparr>)"
  let ?u = "fold (creditSlot (faintXp m (participantMask t) (mons (parties (engine t) S1) ! i)))
              [0..<min 6 (pcount (parties (engine ?t) S0))] ?t"
  have a: "grows t ?t" by (rule grows_same) (simp_all add: same_link_def appendLog_def)
  have b: "grows ?t ?u" by (rule grows_fold) (rule grows_creditSlot)
  have c: "grows ?u (awardFaint m i t)"
    by (rule grows_same) (simp_all add: awardFaint_def Let_def same_link_def)
  show ?thesis using a b c grows_trans by blast
qed

lemma grows_trackActive: "grows t (trackActive t)"
  by (rule grows_same) (simp_all add: trackActive_def Let_def same_link_def)

lemma grows_xp: "grows t (trackActive (creditFaints pre t))"
proof -
  have "grows t (creditFaints pre t)" unfolding creditFaints_def
    by (rule grows_fold) (auto intro: grows_awardFaint grows_same)
  then show ?thesis using grows_trackActive grows_trans by blast
qed

lemma levels_setActive: "(\<And>m. level (f m) = level m) \<Longrightarrow> map level (mons (setActive f p)) = map level (mons p)"
  by (simp add: upd_at_def map_update) (metis list_update_id map_update)

lemma levels_writeAll:
  "(\<And>h m. h \<in> set hs \<Longrightarrow> level (h m) = level m) \<Longrightarrow> map level (mons (writeAll j hs p)) = map level (mons p)"
proof (induction hs arbitrary: j p)
  case (Cons h hs)
  have "map level (upd_at j h (mons p)) = map level (mons p)"
    using Cons.prems by (simp add: upd_at_def map_update) (metis list_update_id map_update)
  with Cons show ?case by simp
qed simp

lemma levels_sections:
  assumes "applySections (updateFlags s) c (sectionBytes s) = Inr (t, r)" "linked s c"
  shows "ownLevels t = ownLevels c"
proof -
  have wp: "wireParty (parties (engine s) S1)" "wireParty (parties (engine s) S0)"
    using assms(2) by (simp_all add: linked_def)
  obtain u where u: "t = fxWrites (parties (engine s) S1) (parties (engine s) S0)
      (benchWrites (parties (engine s) S1) (parties (engine s) S0) u)" "engine u = engine (liveWrites s c)"
    using applySections_run [OF wp, of c] assms(1) by auto
  have mine: "ownLevels (onMine a f x) = ownLevels x" if "\<And>m. level (f m) = level m" for a f x
    using levels_setActive [OF that] by (simp add: ownLevels_def parties_onMine)
  have fx: "map level (mons (fxWrite b p)) = map level (mons p)" for b p
    unfolding fxWrite_def Let_def by simp (subst levels_setActive [unfolded setActive_sel], simp_all)
  have bench: "map level (mons (writeAll j (map (\<lambda>m. benchWrite (g m)) ms) p)) = map level (mons p)" for j g ms p
    by (rule levels_writeAll) (auto simp: benchWrite_def)
  have "ownLevels t = ownLevels u" unfolding u(1)
    by (simp add: fxWrites_def Let_def mine) (simp add: ownLevels_def fx benchWrites_def parties_onMine levels_setActive
        boostWrite_def bench del: setActive_sel)
  also have "\<dots> = ownLevels (liveWrites s c)" by (simp add: ownLevels_def u(2))
  also have "\<dots> = ownLevels c"
    by (simp add: liveWrites_def Let_def applyStatus_def applyPp_def applyHp_def mine)
      (simp add: ownLevels_def applySwitch_def setActiveIdx_def, simp add: ownLevels_def [symmetric] mine applyPp_def applyHp_def)
  finally show ?thesis .
qed

end
