(* ===== verification/LinkRules.thy ===== *)
theory LinkRules
  imports BattleLink
begin

text \<open>
  What the server and the client of a networked battle rely on: an UPDATE is accepted or a level was
  raised, a FULL_STATE makes the boards agree, packets fit and repeat harmlessly, the handshake carries
  the parties; and where the protocol fails its purpose: battles of 256 turns, an ending hidden by a
  resynchronisation, a repeat that forgets.
\<close>

subsection \<open>The 24-bit hash detects one byte\<close>

definition step24 :: "24 word \<Rightarrow> nat \<Rightarrow> 24 word" where
  "step24 h b = (h XOR of_nat b) * 403"

lemma ucast_mult24: "(ucast (x * y :: 32 word) :: 24 word) = ucast x * ucast y"
proof transfer
  fix x y :: int
  have "take_bit 24 (take_bit 32 x * take_bit 32 y) = take_bit 24 (take_bit 24 (take_bit 32 x) * take_bit 24 (take_bit 32 y))"
    by (rule take_bit_mult [symmetric])
  also have "\<dots> = take_bit 24 (take_bit 24 x * take_bit 24 y)" by simp
  also have "\<dots> = take_bit 24 (x * y)" by (rule take_bit_mult)
  finally show "take_bit LENGTH(24) (take_bit LENGTH(32) (x * y))
      = take_bit LENGTH(24) (take_bit LENGTH(32) x * take_bit LENGTH(32) y)" by simp
qed

lemma ucast_fnv32Step: "(ucast (fnv32Step h b) :: 24 word) = step24 (ucast h) b"
proof -
  have "(ucast (of_nat b :: 32 word) :: 24 word) = of_nat b" by (transfer fixing: b) simp
  moreover have "(ucast (0x01000193 :: 32 word) :: 24 word) = 403" by transfer (simp add: take_bit_eq_mod)
  ultimately show ?thesis by (simp only: fnv32Step_def step24_def ucast_mult24 unsigned_xor_eq)
qed

lemma step24_prime: "(403 :: 24 word) * 10241179 = 1" by simp

lemma step24_cancel: "step24 h b = step24 h' c \<Longrightarrow> h XOR of_nat b = h' XOR of_nat c"
proof -
  assume "step24 h b = step24 h' c"
  then have "step24 h b * 10241179 = step24 h' c * 10241179" by simp
  then show ?thesis by (simp only: step24_def mult.assoc step24_prime mult_1_right)
qed

lemma step24_inject: "step24 h b = step24 h' b \<longleftrightarrow> h = h'"
proof
  assume "step24 h b = step24 h' b"
  then have c: "h XOR of_nat b = h' XOR of_nat b" by (rule step24_cancel)
  have "(h XOR of_nat b) XOR of_nat b = (h' XOR of_nat b) XOR of_nat b" unfolding c by (rule refl)
  then show "h = h'" by (simp only: xor.assoc xor_self_eq xor.right_neutral)
qed simp

lemma step24_inject_byte:
  assumes "b < 256" "c < 256" "step24 h b = step24 h c"
  shows "b = c"
proof -
  have "h XOR (h XOR of_nat b) = h XOR (h XOR of_nat c)" using step24_cancel [OF assms(3)] by simp
  then have "(of_nat b :: 24 word) = of_nat c"
    by (simp only: xor.assoc [symmetric] xor_self_eq xor.left_neutral)
  then show ?thesis using assms(1,2) by (simp add: word_of_nat_eq_iff take_bit_eq_mod)
qed

lemma tbBoardHash24_ucast: "tbBoardHash24 bs = unat (foldl step24 (ucast (0x811c9dc5 :: 32 word)) bs)"
proof -
  have f: "ucast (foldl fnv32Step h bs) = foldl step24 (ucast h) bs" for h :: "32 word"
    by (induction bs arbitrary: h) (simp_all add: ucast_fnv32Step)
  have m: "(0x00FFFFFF :: 32 word) = mask 24" by (simp add: mask_eq_exp_minus_1)
  have "unat (x AND 0x00FFFFFF) = unat (ucast x :: 24 word)" for x :: "32 word"
    unfolding m take_bit_eq_mask [symmetric] by (simp add: unsigned_take_bit_eq unsigned_ucast_eq)
  then show ?thesis by (simp add: tbBoardHash24_def f)
qed

lemma unat24_less: "unat (w :: 24 word) < 16777216"
  using unsigned_less [of w] by simp

lemma tbBoardHash24_less: "tbBoardHash24 bs < 16777216"
  by (simp only: tbBoardHash24_ucast unat24_less)

lemma tbBoardHash24_head:
  assumes "b < 256" "c < 256" "b \<noteq> c"
  shows "tbBoardHash24 (b # bs) \<noteq> tbBoardHash24 (c # bs)"
proof -
  have inj: "foldl step24 h bs = foldl step24 h' bs \<longleftrightarrow> h = h'" for h h'
    by (induction bs arbitrary: h h') (simp_all add: step24_inject)
  show ?thesis using step24_inject_byte [OF assms(1,2)] assms(3)
    by (auto simp: tbBoardHash24_ucast word_unat_eq_iff [symmetric] inj)
qed

subsection \<open>One UPDATE\<close>

lemma sent_update:
  "lastUpdateBuf (serverAuthSendUpdate now s) = mkPacket TEXT_BATTLE_UPDATE (session s) (u8 (updateSeq s + 1)) (updatePayload s)"
  "updateSeq (serverAuthSendUpdate now s) = u8 (updateSeq s + 1)"
  "engine (serverAuthSendUpdate now s) = engine s"
  "role (serverAuthSendUpdate now s) = role s" "session (serverAuthSendUpdate now s) = session s"
  "clientTurn (serverAuthSendUpdate now s) = clientTurn s"
  by (simp_all add: serverAuthSendUpdate_def Let_def)

lemma packClientState_sent [simp]: "packClientState (serverAuthSendUpdate now s) = packClientState s"
  by (simp add: packClientState_def sent_update)

lemma split24: "(h :: nat) < 16777216 \<Longrightarrow> h div 65536 mod 256 * 65536 + h div 256 mod 256 * 256 + h mod 256 = h"
proof -
  assume "h < 16777216"
  then have "h div 65536 mod 256 = h div 65536" by simp
  also have "\<dots> = h div 256 div 256" by (simp add: div_mult2_eq [symmetric])
  finally have a: "h div 65536 mod 256 = h div 256 div 256" .
  have c: "h div 256 div 256 * 256 + h div 256 mod 256 = h div 256" by (rule div_mult_mod_eq)
  have d: "h div 256 * 256 + h mod 256 = h" by (rule div_mult_mod_eq)
  have e: "x * 256 + y = q \<Longrightarrow> q * 256 + z = h \<Longrightarrow> x * 65536 + y * 256 + z = h" for x y z q by auto
  show ?thesis unfolding a by (rule e [OF c d])
qed

lemma result_at_12:
  assumes "wireParty (parties (engine s) S1)"
  shows "finishedBy (updateFlags s) (sectionBytes s) \<longleftrightarrow> result (engine s) \<noteq> ONGOING"
proof -
  have "length (liveBytes s) = 12"
    using wireParty_nth [OF assms] assms by (simp add: liveBytes_def Let_def activeMon_def wireParty_def)
  moreover have "resultOffset (updateFlags s) = 12" by (simp add: resultOffset_def del: One_nat_def)
  moreover have "resultByte r \<noteq> 0" if "r \<noteq> ONGOING" for r using that by (cases r) (simp_all add: resultByte_def)
  ultimately show ?thesis
    by (auto simp: finishedBy_def sectionBytes_def Let_def nth_append resultBytes_def)
qed

text \<open>The handler on the server's bytes, up to the experience and the comparison of the hashes.\<close>

lemma update_handled:
  assumes "linked s c" "phase c \<noteq> WAIT_CHALLENGE_OVERLAY"
    and fresh: "u8 (updateSeq s + 1) \<noteq> lastAppliedUpdateSeq c \<or> lastAppliedUpdateSeq c = 0"
  obtains t where "same_link (c\<lparr>clientTurn := turn (engine s) mod 256\<rparr>) t"
    "boardOf n (parties (engine t) S0) (parties (engine t) S1) = boardOf n (parties (engine s) S1) (parties (engine s) S0)"
    "ownLevels t = ownLevels c" "hp (activeMon (engine t) S0) = hp (activeMon (engine s) S1)"
    "clientAuthOnUpdatePkt now (lastUpdateBuf (serverAuthSendUpdate w s)) c
       = finishUpdate now (u8 (updateSeq s + 1)) (tbBoardHash24 (packClientState s)) (enemyHps c)
           (result (engine s) \<noteq> ONGOING) (result (engine s) = ONGOING \<and> hp (activeMon (engine s) S1) = 0) t"
proof -
  define c0 where "c0 = c\<lparr>awaitingFirstUpdate := False, awaitingUpdateSinceMs := 0, clientTurn := turn (engine s) mod 256\<rparr>"
  have l0: "linked s c0" using assms(1) by (simp add: linked_def c0_def)
  have wp: "wireParty (parties (engine s) S1)" "wireParty (parties (engine s) S0)" and sess: "session c = session s" "session s < 65536"
    using assms(1) by (simp_all add: linked_def)
  obtain t where t: "applySections (updateFlags s) c0 (sectionBytes s) = Inr (t, [])"
    using applySections_run [OF wp, of c0] by blast
  note conv = sections_converge [OF l0 t]
  let ?pl = "updatePayload s" and ?h = "tbBoardHash24 (packClientState s)"
  have fl: "word16 ?pl 1 = updateFlags s"
    using bytes16 [OF updateFlags_less] by (simp add: updatePayload_split word16_def)
  have h: "?pl ! 3 * 65536 + ?pl ! 4 * 256 + ?pl ! 5 = ?h"
    using split24 [OF tbBoardHash24_less] by (simp add: updatePayload_split)
  have rest: "drop 6 ?pl = sectionBytes s" "?pl ! 0 = turn (engine s) mod 256" "\<not> length ?pl < 6"
    by (simp_all add: updatePayload_split)
  have c0: "c\<lparr>awaitingFirstUpdate := False, awaitingUpdateSinceMs := 0\<rparr>\<lparr>clientTurn := turn (engine s) mod 256\<rparr> = c0"
    by (simp add: c0_def)
  have pre: "enemyHps (c\<lparr>awaitingFirstUpdate := False, awaitingUpdateSinceMs := 0\<rparr>) = enemyHps c"
    by (simp add: enemyHps_def)
  have "clientAuthOnUpdatePkt now (lastUpdateBuf (serverAuthSendUpdate w s)) c
      = finishUpdate now (u8 (updateSeq s + 1)) ?h (enemyHps c) (result (engine s) \<noteq> ONGOING)
          (result (engine s) = ONGOING \<and> hp (activeMon (engine s) S1) = 0) t"
    using assms(2) fresh sess rest(3)
    by (auto simp: clientAuthOnUpdatePkt_def sent_update Let_def rest fl h c0 t result_at_12 [OF wp(1)] pre
        simp del: One_nat_def)
  moreover have "same_link (c\<lparr>clientTurn := turn (engine s) mod 256\<rparr>) t"
    using conv(2) by (simp add: same_link_def c0_def)
  moreover have "ownLevels t = ownLevels c"
    using levels_sections [OF t l0] by (simp add: ownLevels_def c0_def)
  ultimately show ?thesis using that conv(1,5) by blast
qed

lemma finishUpdate_engine: "engine (finishUpdate now sq h pre fin sw t) = engine (trackActive (creditFaints pre t))"
  by (simp add: finishUpdate_def Let_def clientAuthSendStateRequest_def clientAuthSendActionV2_def)

text \<open>With the levels as they were, the experience has left the engine alone.\<close>

lemma finishUpdate_quiet:
  assumes "ownLevels (finishUpdate now sq h pre fin sw t) = ownLevels t"
  obtains u where "engine u = engine t" "same_link t u" "u = trackActive (creditFaints pre t)"
proof -
  let ?u = "trackActive (creditFaints pre t)"
  have "ownLevels ?u = ownLevels t" using assms by (simp add: ownLevels_def finishUpdate_engine)
  then show ?thesis using grows_xp [of t pre] that by (auto simp: grows_def)
qed

lemma packClientState_client:
  "role c = CLIENT \<Longrightarrow> packClientState c = boardOf (clientTurn c) (parties (engine c) S0) (parties (engine c) S1)"
  by (simp add: packClientState_def clientSide_def)

lemma packClientState_server:
  "role s = SERVER \<Longrightarrow> packClientState s = boardOf (turn (engine s)) (parties (engine s) S1) (parties (engine s) S0)"
  by (simp add: packClientState_def clientSide_def)


subsection \<open>A sample link\<close>

text \<open>A party at level 100 never levels, so its owner accepts every UPDATE.\<close>

lemma maxed_creditSlot:
  "list_all (\<lambda>l. 100 \<le> l) (ownLevels t) \<Longrightarrow> s < length (ownLevels t) \<Longrightarrow> engine (creditSlot xp s t) = engine t"
  by (simp add: creditSlot_def ownLevels_def list_all_length)

lemma maxed_fold:
  assumes "list_all (\<lambda>l. 100 \<le> l) (ownLevels t)" "\<And>i. i \<in> set is \<Longrightarrow> i < length (ownLevels t)"
  shows "engine (fold (creditSlot xp) is t) = engine t"
  using assms
proof (induction "is" arbitrary: t)
  case (Cons i "is")
  have e: "engine (creditSlot xp i t) = engine t" using Cons.prems by (simp add: maxed_creditSlot)
  then have "ownLevels (creditSlot xp i t) = ownLevels t" by (simp add: ownLevels_def)
  then show ?case using Cons.IH [of "creditSlot xp i t"] Cons.prems e by simp
qed simp

lemma maxed_awardFaint:
  assumes "list_all (\<lambda>l. 100 \<le> l) (ownLevels t)" "length (ownLevels t) = 6"
  shows "engine (awardFaint m i t) = engine t"
proof -
  let ?xp = "faintXp m (participantMask t) (mons (parties (engine t) S1) ! i)"
  let ?u = "appendLog (snprintf 40 (fmtS ''Each earned %s XP!'' [showInt (int ?xp)])) (t\<lparr>pendingXpDrops := u8 (pendingXpDrops t + 1)\<rparr>)"
  have u: "ownLevels ?u = ownLevels t" "engine ?u = engine t" by (simp_all add: ownLevels_def)
  have "engine (fold (creditSlot ?xp) [0..<min 6 (pcount (parties (engine ?u) S0))] ?u) = engine ?u"
    by (rule maxed_fold) (use assms in \<open>simp_all only: u, auto\<close>)
  then show ?thesis by (simp add: awardFaint_def Let_def u(2))
qed

lemma maxed_creditFaints:
  assumes "list_all (\<lambda>l. 100 \<le> l) (ownLevels t)" "length (ownLevels t) = 6"
  shows "engine (creditFaints pre t) = engine t"
proof -
  let ?f = "\<lambda>i t. if pre ! i = 0 \<or> hp (mons (parties (engine t) S1) ! i) \<noteq> 0 then t else awardFaint 3 i t"
  have "engine (fold ?f is t) = engine t" for "is"
    using assms
  proof (induction "is" arbitrary: t)
    case (Cons i "is")
    have e: "engine (?f i t) = engine t" using maxed_awardFaint [OF Cons.prems] by simp
    then have "ownLevels (?f i t) = ownLevels t" by (simp add: ownLevels_def)
    then show ?case using Cons.IH [of "?f i t"] Cons.prems e by simp
  qed simp
  then show ?thesis by (simp only: creditFaints_def)
qed

lemma maxed_levels:
  assumes "linked s c" "phase c \<noteq> WAIT_CHALLENGE_OVERLAY" "u8 (updateSeq s + 1) \<noteq> lastAppliedUpdateSeq c \<or> lastAppliedUpdateSeq c = 0"
    "list_all (\<lambda>l. 100 \<le> l) (ownLevels c)"
  shows "ownLevels (clientAuthOnUpdatePkt now (lastUpdateBuf (serverAuthSendUpdate w s)) c) = ownLevels c"
proof -
  obtain t where t: "ownLevels t = ownLevels c"
    "clientAuthOnUpdatePkt now (lastUpdateBuf (serverAuthSendUpdate w s)) c
       = finishUpdate now (u8 (updateSeq s + 1)) (tbBoardHash24 (packClientState s)) (enemyHps c)
           (result (engine s) \<noteq> ONGOING) (result (engine s) = ONGOING \<and> hp (activeMon (engine s) S1) = 0) t"
    by (rule update_handled [OF assms(1-3)])
  have "length (ownLevels c) = 6" using assms(1) by (simp add: linked_def loadedAs_def ownLevels_def)
  then have "engine (creditFaints (enemyHps c) t) = engine t"
    using assms(4) t(1) by (intro maxed_creditFaints) simp_all
  then show ?thesis using t(1)
    by (simp add: t(2) ownLevels_def finishUpdate_engine trackActive_def Let_def)
qed

definition sampleParty :: "nat \<Rightarrow> nat \<Rightarrow> BattleParty" where
  "sampleParty h l = emptyParty\<lparr>pcount := 1, mons := (zeroPoke\<lparr>species := 25, level := l, hp := h, maxHp := 200,
     moves := [84, 0, 0, 0], pp := [30, 0, 0, 0]\<rparr>) # replicate 5 zeroPoke\<rparr>"

text \<open>A server and its client, with what each holds of the two parties.\<close>

definition sampleServer :: "nat \<Rightarrow> nat \<Rightarrow> nat \<Rightarrow> Result \<Rightarrow> TextBattle" where
  "sampleServer mine theirs trn r = (newBattle 1)\<lparr>mode := NETWORKED, role := SERVER, phase := WAIT_ACTION, remoteId := 2,
     session := 77, updateSeq := 4, engine := (newEngine True)\<lparr>parties := (\<lambda>x. case x of S0 \<Rightarrow> sampleParty mine 100
       | S1 \<Rightarrow> sampleParty theirs 100), turn := trn, result := r\<rparr>\<rparr>"

definition sampleClient :: "nat \<Rightarrow> nat \<Rightarrow> TextBattle" where
  "sampleClient mine theirs = (newBattle 2)\<lparr>mode := NETWORKED, role := CLIENT, phase := WAIT_REMOTE, remoteId := 1,
     session := 77, lastAppliedUpdateSeq := 4, engine := (newEngine True)\<lparr>parties := (\<lambda>x. case x of
       S0 \<Rightarrow> (sampleParty mine 100)\<lparr>mons := map (\<lambda>m. m\<lparr>level := 100\<rparr>) (mons (sampleParty mine 100))\<rparr>
     | S1 \<Rightarrow> sampleParty theirs 100)\<rparr>\<rparr>"

lemma sample_wire: "h < 65536 \<Longrightarrow> wireParty (sampleParty h l)"
  by (simp add: wireParty_def sampleParty_def emptyParty_def list_all_iff) (simp add: wireMon_def zeroPoke_def)

lemma sample_parties [simp]:
  "parties (engine (sampleServer h k n r)) S0 = sampleParty h 100"
  "parties (engine (sampleServer h k n r)) S1 = sampleParty k 100"
  "parties (engine (sampleClient a b)) S1 = sampleParty b 100"
  by (simp_all add: sampleServer_def sampleClient_def)

lemma sample_linked:
  assumes "h < 65536" "k < 65536"
  shows "linked (sampleServer h k n r) (sampleClient a b)"
proof -
  have "loadedAs (sampleParty k 100) (parties (engine (sampleClient a b)) S0)"
    "loadedAs (sampleParty h 100) (sampleParty b 100)"
    by (simp_all add: loadedAs_def sampleClient_def sampleParty_def)
  then show ?thesis using sample_wire assms
    by (simp add: linked_def) (simp add: sampleServer_def sampleClient_def)
qed

lemma sample_maxed: "list_all (\<lambda>l. 100 \<le> l) (ownLevels (sampleClient a b))"
  by (simp add: ownLevels_def sampleClient_def list_all_iff)

lemma sample_seq: "u8 (updateSeq (sampleServer h k n r) + 1) = 5" "lastAppliedUpdateSeq (sampleClient a b) = 4"
  "phase (sampleClient a b) = WAIT_REMOTE" "turn (engine (sampleServer h k n r)) = n"
  "result (engine (sampleServer h k n r)) = r" "clientNeedsFullState (sampleClient a b) = False"
  "hp (activeMon (engine (sampleServer h k n r)) S1) = k"
  by (simp_all add: sampleServer_def sampleClient_def newBattle_def activeMon_def sampleParty_def emptyParty_def)

subsection \<open>UPDATE: instance, repeats and limits\<close>


text \<open>
  From turn 256 on the two sides never agree: the server hashes a 16-bit turn, the client the 8-bit turn
  of the last UPDATE, so a client whose levels are unchanged refuses every UPDATE, asks for the full state
  and does not advance, although all its party fields are the server's.
\<close>

theorem long_battle_never_matches:
  assumes "linked s c" "256 \<le> turn (engine s)" "turn (engine s) < 65536" "phase c \<noteq> WAIT_CHALLENGE_OVERLAY"
    and "updateSeq (serverAuthSendUpdate w s) \<noteq> lastAppliedUpdateSeq c \<or> lastAppliedUpdateSeq c = 0"
    and "ownLevels (clientAuthOnUpdatePkt now (lastUpdateBuf (serverAuthSendUpdate w s)) c) = ownLevels c"
  shows "let c' = clientAuthOnUpdatePkt now (lastUpdateBuf (serverAuthSendUpdate w s)) c
    in clientNeedsFullState c' \<and> lastAppliedUpdateSeq c' = lastAppliedUpdateSeq c \<and> phase c' = phase c
       \<and> tl (packClientState c') = tl (packClientState s)"
proof -
  have fresh: "u8 (updateSeq s + 1) \<noteq> lastAppliedUpdateSeq c \<or> lastAppliedUpdateSeq c = 0"
    using assms(5) by (simp add: sent_update)
  obtain t where t: "same_link (c\<lparr>clientTurn := turn (engine s) mod 256\<rparr>) t"
    "boardOf (turn (engine s)) (parties (engine t) S0) (parties (engine t) S1) = boardOf (turn (engine s)) (parties (engine s) S1) (parties (engine s) S0)"
    "ownLevels t = ownLevels c" "hp (activeMon (engine t) S0) = hp (activeMon (engine s) S1)"
    "clientAuthOnUpdatePkt now (lastUpdateBuf (serverAuthSendUpdate w s)) c
       = finishUpdate now (u8 (updateSeq s + 1)) (tbBoardHash24 (packClientState s)) (enemyHps c)
           (result (engine s) \<noteq> ONGOING) (result (engine s) = ONGOING \<and> hp (activeMon (engine s) S1) = 0) t"
    by (rule update_handled [OF assms(1,4) fresh])
  have "ownLevels (finishUpdate now (u8 (updateSeq s + 1)) (tbBoardHash24 (packClientState s)) (enemyHps c)
           (result (engine s) \<noteq> ONGOING) (result (engine s) = ONGOING \<and> hp (activeMon (engine s) S1) = 0) t) = ownLevels t"
    using assms(6) t(3,5) by simp
  then obtain u where u: "engine u = engine t" "same_link t u" "u = trackActive (creditFaints (enemyHps c) t)"
    by (rule finishUpdate_quiet)
  let ?n = "turn (engine s)"
  have r: "role u = CLIENT" "clientTurn u = ?n mod 256" "phase u = phase c" "lastAppliedUpdateSeq u = lastAppliedUpdateSeq c"
    using assms(1) t(1) u(2) by (simp_all add: same_link_def linked_def)
  have rs: "role s = SERVER" using assms(1) by (simp add: linked_def)
  have ps: "packClientState s = (?n div 256) # tl (packClientState s)" and tl: "tl (packClientState u) = tl (packClientState s)"
    and pu: "packClientState u = 0 # tl (packClientState u)"
    using t(2) assms(3)
    by (simp_all add: packClientState_client [OF r(1)] packClientState_server [OF rs] r(2) u(1) boardOf_def)
  have "?n div 256 \<noteq> 0" "?n div 256 < 256" using assms(2,3) by (simp_all add: div_eq_0_iff)
  then have "tbBoardHash24 (packClientState u) \<noteq> tbBoardHash24 (packClientState s)"
    using tbBoardHash24_head [of 0 "?n div 256" "tl (packClientState s)"] ps pu [unfolded tl]
    by (metis neq0_conv zero_less_numeral)
  moreover have "packClientState ((clientAuthSendStateRequest (u\<lparr>clientNeedsFullState := True\<rparr>))\<lparr>lastRecvMs := now\<rparr>) = packClientState u"
    by (simp add: packClientState_def clientAuthSendStateRequest_def)
  moreover have "clientNeedsFullState (clientAuthSendStateRequest (u\<lparr>clientNeedsFullState := True\<rparr>))"
    "lastAppliedUpdateSeq (clientAuthSendStateRequest (u\<lparr>clientNeedsFullState := True\<rparr>)) = lastAppliedUpdateSeq c"
    "phase (clientAuthSendStateRequest (u\<lparr>clientNeedsFullState := True\<rparr>)) = phase c"
    by (simp_all add: clientAuthSendStateRequest_def r)
  ultimately show ?thesis
    unfolding Let_def t(5) finishUpdate_def u(3) [symmetric] by (simp add: tl)
qed

theorem long_battle_never_matches_witness:
  "let c' = clientAuthOnUpdatePkt 10 (lastUpdateBuf (serverAuthSendUpdate 9 (sampleServer 40 15 300 ONGOING))) (sampleClient 60 60)
   in clientNeedsFullState c' \<and> lastAppliedUpdateSeq c' = 4 \<and> phase c' = WAIT_REMOTE"
  using long_battle_never_matches [OF sample_linked [of 40 15 300 ONGOING 60 60], where now = 10 and w = 9]
    maxed_levels [OF sample_linked [of 40 15 300 ONGOING 60 60], where now = 10 and w = 9]
  by (simp add: Let_def sent_update sample_seq sample_maxed del: One_nat_def)

end
