(* ===== verification/LinkRepeats.thy ===== *)
theory LinkRepeats
  imports LinkRules
begin

text \<open>
  Packets on a lossy link: they fit, they can be repeated without effect, a full state repairs the
  board but hides the end of the battle, the handshake carries the parties, and a repeat of the older
  lockstep role forgets what it kept for a peer one turn behind.
\<close>

subsection \<open>Sizes\<close>

lemma linesThatFit_sum:
  "w + sum_list (map (\<lambda>l. Suc (length l)) (linesThatFit w ls)) \<le> max w 101"
proof (induction w ls rule: linesThatFit.induct)
  case (2 w l ls)
  then show ?case by auto
qed simp

lemma length_concat_mon: "length (concat (map f (take (min 6 n) ms))) \<le> k * 6" if "\<And>m. length (f m) = k" for f n ms k
proof -
  have "length (concat (map f xs)) = k * length xs" for xs using that by (induction xs) simp_all
  moreover have "length (take (min 6 n) ms) \<le> 6" by simp
  ultimately show ?thesis by (metis mult_le_mono2)
qed

lemma payload_bounds:
  "length (updatePayload s) \<le> 188 \<and> length (packClientState t) \<le> 47"
proof -
  let ?c = "parties (engine s) S1" and ?p = "parties (engine s) S0"
  have head: "length (updateHead s) \<le> 19"
    by (simp add: updateHead_def Let_def min.coboundedI2)
  have lines: "length (concat (map (\<lambda>l. length l # map of_char l) ls)) = sum_list (map (\<lambda>l. Suc (length l)) ls)"
    for ls :: "string list" by (induction ls) simp_all
  have log: "length (updateHead s) + length (logSection (length (updateHead s)) s) \<le> 101"
    using linesThatFit_sum [of "length (updateHead s) + 1" "unshippedLines s"] head
    by (simp add: logSection_def Let_def lines)
  have bench: "length (benchSection ?c ?p) \<le> 68"
    using length_concat_mon [of benchMon 7 "pcount ?c" "mons ?c"] length_concat_mon [of monBoard 3 "pcount ?p" "mons ?p"]
    by (simp add: benchSection_def Let_def)
  have fx: "length (fxSection ?c ?p) = 19" by (simp add: fxSection_def Let_def)
  have side: "length (sideBoard q) \<le> 20" for q
    using length_concat_mon [of monBoard 3 "pcount q" "mons q"] by (simp add: sideBoard_def)
  have "length (packClientState t) \<le> 47"
    using side [of "parties (engine t) (clientSide (role t))"] side [of "parties (engine t) (other (clientSide (role t)))"]
    by (simp add: packClientState_def boardOf_def)
  moreover have "length (updatePayload s) \<le> 188"
    using head log bench fx by (auto simp: updatePayload_def Let_def)
  ultimately show ?thesis by simp
qed

text \<open>
  Every packet fits: an UPDATE payload has at most 188 of the 196 bytes, whatever the parties hold and
  however many log lines wait, and the board at most 47 of its 80-byte buffer.
\<close>

lemma update_fits:
  "length (updatePayload s) \<le> 188 \<and> length (packClientState t) \<le> 47
   \<and> length (lastUpdateBuf (serverAuthSendUpdate now s)) \<le> BATTLELINK_MAX_PKT"
  using payload_bounds [of s t] by (simp add: sent_update)

subsection \<open>A full state\<close>

lemma fullSlots_run:
  assumes "wireParty p"
  shows "fullSlots s t (sideBoard p @ r) = Inr (onEngine (onParty s (writeAll 0 (map (\<lambda>m. enemyWrite (monBoard m))
      (take (pcount p) (mons p))))) (onEngine (onParty s (\<lambda>q. q\<lparr>active := active p\<rparr>)) t), r)"
proof -
  let ?ms = "take (pcount p) (mons p)"
  have n: "min 6 (pcount p) = pcount p" "length ?ms = pcount p" "active p < pcount p" "active p < 6"
    using assms by (simp_all add: wireParty_def)
  have b: "sideBoard p @ r = [active p, pcount p] @ (concat (map monBoard ?ms) @ r)" by (simp add: sideBoard_def n)
  have run: "slots s 3 enemyWrite [0..<pcount p] u (concat (map monBoard ?ms) @ r)
      = Inr (onEngine (onParty s (writeAll 0 (map (\<lambda>m. enemyWrite (monBoard m)) ?ms))) u, r)" for u
    using slots_run [of ?ms monBoard 3 s enemyWrite 0 u r] by (simp only: n add_0 length_monBoard)
  have h: "takeN 2 ([active p, pcount p] @ q) = Some ([active p, pcount p], q)" for q by (simp add: takeN_def)
  show ?thesis unfolding b fullSlots_def h by (simp add: Let_def n run)
qed

lemma length_sideBoard: "wireParty p \<Longrightarrow> length (sideBoard p) = 2 + 3 * pcount p"
proof -
  assume "wireParty p"
  moreover have "length (concat (map monBoard ms)) = 3 * length ms" for ms by (induction ms) simp_all
  ultimately show ?thesis by (simp add: sideBoard_def wireParty_def)
qed

text \<open>The handler on the server's board: the party fields are the server's, the phase waits for an action.\<close>

definition fullWrites :: "BattleParty \<Rightarrow> BattleParty \<Rightarrow> BattleParty" where
  "fullWrites p q = writeAll 0 (map (\<lambda>m. enemyWrite (monBoard m)) (take (pcount p) (mons p))) (q\<lparr>active := active p\<rparr>)"

lemma fullWrites_show:
  assumes "wireParty p" "loadedAs p q"
  shows "shows_hp p (fullWrites p q)"
  unfolding fullWrites_def by (rule writeAll_enemy) (use assms in \<open>simp_all add: loadedAs_def\<close>)

lemma full_state_handled:
  assumes "linked s c"
  obtains t where "clientAuthOnFullStatePkt now (mkPacket TEXT_BATTLE_FULL_STATE (session s) q (packClientState s)) c
      = (appendLog ''State reconverged.'' (t\<lparr>clientNeedsFullState := False, awaitingFirstUpdate := False,
          awaitingUpdateSinceMs := 0, lastAppliedUpdateSeq := q, lastRecvMs := now, clientActionType := 255\<rparr>))
        \<lparr>phase := WAIT_ACTION\<rparr>"
    "same_link c t"
    "boardOf n (parties (engine t) S0) (parties (engine t) S1) = boardOf n (parties (engine s) S1) (parties (engine s) S0)"
proof -
  let ?c = "parties (engine s) S1" and ?p = "parties (engine s) S0"
  have wp: "wireParty ?c" "wireParty ?p" and rs: "role s = SERVER" and sess: "session c = session s" "session s < 65536"
    and l: "loadedAs ?c (parties (engine c) S0)" "loadedAs ?p (parties (engine c) S1)"
    using assms by (simp_all add: linked_def)
  have p4: "length (pp (mons ?c ! active ?c)) = 4" using wireParty_nth [OF wp(1)] wp(1) by (simp add: wireParty_def)
  let ?P = "take 4 (pp (mons ?c ! active ?c))"
  define u where "u = onEngine (onParty S1 (fullWrites ?p)) (onEngine (onParty S0 (fullWrites ?c)) c)"
  define t where "t = applyPp ?P u"
  have pl: "packClientState s = [turn (engine s) div 256 mod 256, turn (engine s) mod 256, 0] @ (sideBoard ?c @ (sideBoard ?p @ ?P))"
    by (simp add: packClientState_server [OF rs] boardOf_def)
  have run: "and_then (fullSlots S0 c (drop 3 (packClientState s))) (fullSlots S1) = Inr (u, ?P)"
    unfolding pl using fullSlots_run [OF wp(1)] fullSlots_run [OF wp(2)]
    by (simp add: u_def fullWrites_def [abs_def] comp_def onParty_def)
  have tk: "takeN 4 ?P = Some (?P, [])" using p4 by (simp add: takeN_def)
  have len: "\<not> length (packClientState s) < Suc 0" "\<not> length (packClientState s) < 5" "packClientState s ! 2 = 0"
    by (simp_all add: pl length_sideBoard wp)
  have "clientAuthOnFullStatePkt now (mkPacket TEXT_BATTLE_FULL_STATE (session s) q (packClientState s)) c
      = (appendLog ''State reconverged.'' (t\<lparr>clientNeedsFullState := False, awaitingFirstUpdate := False,
          awaitingUpdateSinceMs := 0, lastAppliedUpdateSeq := q, lastRecvMs := now, clientActionType := 255\<rparr>))
        \<lparr>phase := WAIT_ACTION\<rparr>"
    using sess len by (simp add: clientAuthOnFullStatePkt_def Let_def run tk t_def)
  moreover have "same_link c t" by (simp add: t_def u_def applyPp_def onMine_def same_link_def)
  moreover have "boardOf n (parties (engine t) S0) (parties (engine t) S1) = boardOf n ?c ?p"
  proof -
    have sh: "shows_hp ?c (fullWrites ?c (parties (engine c) S0))" "shows_hp ?p (fullWrites ?p (parties (engine c) S1))"
      using fullWrites_show wp l by blast+
    let ?f = "\<lambda>m :: BattlePoke. m\<lparr>pp := [?P ! 0, ?P ! 1, ?P ! 2, ?P ! 3]\<rparr>"
    have P: "[?P ! 0, ?P ! Suc 0, ?P ! 2, ?P ! 3] = pp (mons ?c ! active ?c)" using list_of_four [OF p4] p4 by simp
    have e: "parties (engine t) S0 = setActive ?f (fullWrites ?c (parties (engine c) S0))"
      "parties (engine t) S1 = fullWrites ?p (parties (engine c) S1)"
      using wp(1) l(1) by (simp_all add: t_def u_def applyPp_def parties_onMine fullWrites_def wireParty_def loadedAs_def)
    have sf: "shows_hp ?c (setActive ?f (fullWrites ?c (parties (engine c) S0)))"
      by (rule shows_hp_setActive [OF sh(1)]) simp
    have "pp (mons (parties (engine t) S0) ! active ?c) = pp (mons ?c ! active ?c)"
      using sh(1) wp(1) P by (simp add: e(1) shows_hp_def wireParty_def nth_upd_at del: One_nat_def) simp
    moreover have "active (parties (engine t) S0) = active ?c" using sf by (simp add: e(1) shows_hp_def)
    ultimately show ?thesis
      using shows_hp_board [OF sf wp(1)] shows_hp_board [OF sh(2) wp(2)] by (simp add: boardOf_def e)
  qed
  ultimately show ?thesis using that by blast
qed

subsection \<open>A repeated UPDATE\<close>

lemma sent_update_queue:
  "length (txQueue s) < 15 \<Longrightarrow> txQueue (serverAuthSendUpdate w s) = txQueue s @ [lastUpdateBuf (serverAuthSendUpdate w s)]"
  using payload_bounds [of s s] by (simp add: serverAuthSendUpdate_def Let_def queueSend_def)

text \<open>What a packet that repeats the last applied sequence number leaves as it was.\<close>

definition same_play :: "TextBattle \<Rightarrow> TextBattle \<Rightarrow> bool" where
  "same_play t u \<longleftrightarrow> engine u = engine t \<and> phase u = phase t \<and> session u = session t \<and> role u = role t
     \<and> lastAppliedUpdateSeq u = lastAppliedUpdateSeq t \<and> clientNeedsFullState u = clientNeedsFullState t
     \<and> log_lines u = log_lines t \<and> clientTurn u = clientTurn t"

lemma update_repeat:
  assumes "session c = session s" "session s < 65536" "lastAppliedUpdateSeq c = q" "q \<noteq> 0" "phase c \<noteq> WAIT_CHALLENGE_OVERLAY"
  shows "same_play c (clientAuthOnUpdatePkt now (mkPacket TEXT_BATTLE_UPDATE (session s) q (updatePayload s)) c)"
  using assms
  by (simp add: clientAuthOnUpdatePkt_def Let_def updatePayload_split same_play_def clientAuthSendActionV2_def queueSend_def)

lemma update_repeats:
  assumes "session c = session s" "session s < 65536" "lastAppliedUpdateSeq c = q" "q \<noteq> 0" "phase c \<noteq> WAIT_CHALLENGE_OVERLAY"
  shows "same_play c (fold (\<lambda>n. clientAuthOnUpdatePkt n (mkPacket TEXT_BATTLE_UPDATE (session s) q (updatePayload s))) ns c)"
  using assms
proof (induction ns arbitrary: c)
  case (Cons n ns)
  let ?d = "clientAuthOnUpdatePkt n (mkPacket TEXT_BATTLE_UPDATE (session s) q (updatePayload s)) c"
  have d: "same_play c ?d" using Cons.prems by (rule update_repeat)
  then show ?case using Cons.IH [of ?d] Cons.prems by (simp add: same_play_def)
qed (simp add: same_play_def)

text \<open>
  A resynchronisation repairs the board and hides the end of the battle: after the server has sent an
  UPDATE, whatever its result, its full state makes the client's board the server's, but the client then
  waits for an action, and however often the UPDATE is repeated it never learns that the battle is over.
\<close>

theorem resync_hides_the_end:
  assumes "linked s c" "length (txQueue s) < 15" "updateSeq (serverAuthSendUpdate w s) \<noteq> 0"
  shows "let s' = serverAuthSendUpdate w s; c' = clientAuthOnFullStatePkt now (last (txQueue (serverAuthSendFullState s'))) c;
           c'' = fold (\<lambda>n. clientAuthOnUpdatePkt n (lastUpdateBuf s')) ns c'
    in drop 3 (packClientState c') = drop 3 (packClientState s') \<and> lastAppliedUpdateSeq c' = updateSeq s'
       \<and> \<not> clientNeedsFullState c' \<and> phase c'' = WAIT_ACTION \<and> engine c'' = engine c' \<and> log_lines c'' = log_lines c'"
proof -
  define s' where "s' = serverAuthSendUpdate w s"
  have l: "linked s' c" using assms(1) by (simp add: linked_def s'_def sent_update)
  have q: "length (txQueue s') < 16" using assms(2) by (simp add: s'_def sent_update_queue)
  have full: "last (txQueue (serverAuthSendFullState s')) = mkPacket TEXT_BATTLE_FULL_STATE (session s') (updateSeq s') (packClientState s')"
    using q payload_bounds [of s' s'] by (simp add: serverAuthSendFullState_def queueSend_def)
  obtain t where t: "clientAuthOnFullStatePkt now (last (txQueue (serverAuthSendFullState s'))) c
      = (appendLog ''State reconverged.'' (t\<lparr>clientNeedsFullState := False, awaitingFirstUpdate := False,
          awaitingUpdateSinceMs := 0, lastAppliedUpdateSeq := updateSeq s', lastRecvMs := now, clientActionType := 255\<rparr>))
        \<lparr>phase := WAIT_ACTION\<rparr>"
    "same_link c t"
    "boardOf 0 (parties (engine t) S0) (parties (engine t) S1) = boardOf 0 (parties (engine s') S1) (parties (engine s') S0)"
    unfolding full by (rule full_state_handled [OF l])
  define c' where "c' = clientAuthOnFullStatePkt now (last (txQueue (serverAuthSendFullState s'))) c"
  have c': "engine c' = engine t" "role c' = CLIENT" "session c' = session s'" "lastAppliedUpdateSeq c' = updateSeq s'"
    "\<not> clientNeedsFullState c'" "phase c' = WAIT_ACTION" "session s' < 65536"
    using t(2) l by (simp_all add: c'_def t(1) same_link_def linked_def)
  have rs: "role s' = SERVER" using l by (simp add: linked_def)
  have "drop 3 (packClientState c') = drop 3 (packClientState s')"
    using t(3) by (simp add: packClientState_client [OF c'(2)] packClientState_server [OF rs] c'(1) boardOf_def)
  moreover have buf: "lastUpdateBuf s' = mkPacket TEXT_BATTLE_UPDATE (session s') (updateSeq s') (updatePayload s)"
    by (simp add: s'_def sent_update)
  moreover have "same_play c' (fold (\<lambda>n. clientAuthOnUpdatePkt n (lastUpdateBuf s')) ns c')"
    unfolding buf using update_repeats [of c' s "updateSeq s'" ns] c' assms(3) by (simp add: s'_def sent_update)
  ultimately show ?thesis using c' by (simp add: Let_def same_play_def s'_def [symmetric] c'_def [symmetric])
qed

text \<open>The server has won; the client, told by a full state, still waits for its own action.\<close>

theorem resync_hides_the_end_witness:
  "let s' = serverAuthSendUpdate 9 (sampleServer 40 0 3 P1_WIN);
       c' = clientAuthOnFullStatePkt 10 (last (txQueue (serverAuthSendFullState s'))) (sampleClient 60 60);
       c'' = fold (\<lambda>n. clientAuthOnUpdatePkt n (lastUpdateBuf s')) [20, 30] c'
   in result (engine s') = P1_WIN \<and> drop 3 (packClientState c') = drop 3 (packClientState s') \<and> phase c'' = WAIT_ACTION"
proof -
  have "updateSeq (serverAuthSendUpdate 9 (sampleServer 40 0 3 P1_WIN)) = 5"
    "length (txQueue (sampleServer 40 0 3 P1_WIN)) < 15" "result (engine (serverAuthSendUpdate 9 (sampleServer 40 0 3 P1_WIN))) = P1_WIN"
    by (simp_all add: sent_update sample_seq del: One_nat_def) (simp add: sampleServer_def newBattle_def)
  then show ?thesis
    using resync_hides_the_end [OF sample_linked [of 40 0 3 P1_WIN 60 60], where w = 9 and now = 10 and ns = "[20, 30]"]
    by (simp add: Let_def)
qed

subsection \<open>Requests of the client\<close>

lemma submit_sel [simp]:
  "session (submit k a i t) = session t" "remoteId (submit k a i t) = remoteId t" "updateSeq (submit k a i t) = updateSeq t"
  "unackedUpdate (submit k a i t) = unackedUpdate t" "turn (engine (submit k a i t)) = turn (engine t)"
  by (simp_all add: submit_def onEngine_def submitAction_def Let_def)

lemma submit_submit [simp]:
  "submit k a i (t\<lparr>pendingRemoteAction := b\<rparr>) = (submit k a i t)\<lparr>pendingRemoteAction := b\<rparr>"
  "submit k a i (t\<lparr>lastRecvMs := n\<rparr>) = (submit k a i t)\<lparr>lastRecvMs := n\<rparr>"
  "submit k a i (submit k a i t) = submit k a i t"
  by (simp_all add: submit_def onEngine_def submitAction_def Let_def)

definition ackedBy :: "nat \<Rightarrow> TextBattle \<Rightarrow> TextBattle" where
  "ackedBy q t = (if unackedUpdate t \<and> q = updateSeq t then t\<lparr>unackedUpdate := False\<rparr> else t)"

lemma ackedBy_cases: "ackedBy q t = t \<or> ackedBy q t = t\<lparr>unackedUpdate := False\<rparr>"
  by (simp add: ackedBy_def)

lemma ackedBy_sel [simp]:
  "session (ackedBy q t) = session t" "remoteId (ackedBy q t) = remoteId t" "engine (ackedBy q t) = engine t"
  "ackedBy q (ackedBy q t) = ackedBy q t" "ackedBy q (t\<lparr>lastRecvMs := n\<rparr>) = (ackedBy q t)\<lparr>lastRecvMs := n\<rparr>"
  by (simp_all add: ackedBy_def)

lemma ackedBy_submit [simp]: "ackedBy q (submit k a i t) = submit k a i (ackedBy q t)"
  "ackedBy q (t\<lparr>pendingRemoteAction := b\<rparr>) = (ackedBy q t)\<lparr>pendingRemoteAction := b\<rparr>"
  by (simp_all add: ackedBy_def submit_def onEngine_def)

lemma action_handled:
  "buf ! 5 \<noteq> 2 \<Longrightarrow> serverAuthOnActionV2Pkt now k buf t =
     (if length buf < 8 \<or> sessionId (overlay buf) \<noteq> session t \<or> k \<noteq> remoteId t then t
      else if buf ! 4 \<noteq> turn (engine t) mod 256 then ackedBy (buf ! 7) t
      else if buf ! 5 = 0xFE then (ackedBy (buf ! 7) t)\<lparr>lastRecvMs := now\<rparr>
      else (submit 1 (buf ! 5) (buf ! 6) (ackedBy (buf ! 7) t))\<lparr>pendingRemoteAction := True, lastRecvMs := now\<rparr>)"
proof -
  assume "buf ! 5 \<noteq> 2"
  moreover have "length buf - 4 < 4 \<longleftrightarrow> length buf < 8" by auto
  ultimately show ?thesis
    by (simp add: serverAuthOnActionV2Pkt_def Let_def tbUnpackAction_def overlay_def ackedBy_def [symmetric] del: One_nat_def)
qed



subsection \<open>The repeat of the lockstep role\<close>

lemma tickLegacy_due:
  assumes "phase t = WAIT_REMOTE" "lastSentAction t \<noteq> 255" "RESEND_INTERVAL_MS \<le> sub32 now (lastSendMs t)"
  shows "prevSentTurn (tickLegacy now t) = lastSentTurn t" "lastSentTurn (tickLegacy now t) = turn (engine t)"
    "engine (tickLegacy now t) = engine t" "session (tickLegacy now t) = session t"
  using assms by (simp_all add: tickLegacy_def sendAction_def sendActionPacket_def queueSend_def Let_def)

text \<open>
  The lockstep role answers an action of a peer one turn behind with its own action of that turn, but not
  after it has repeated its current action: the repeat overwrites the only copy, and no later action packet
  of that peer is answered, so the peer stays behind.
\<close>

theorem resend_forgets:
  assumes "phase t = WAIT_REMOTE" "RESEND_INTERVAL_MS \<le> sub32 now (lastSendMs t)"
    and "lastSentAction t \<noteq> 255" "lastSentTurn t = turn (engine t)"
    and "prevSentAction t \<noteq> 255" "prevSentTurn t = word16 pl 0" "word16 pl 0 < turn (engine t)"
    and "length (txQueue t) < 16"
  shows "txQueue (onAction k pl t) = txQueue t @ [mkPacket TEXT_BATTLE_ACTION (session t) (prevSentTurn t mod 256)
           [prevSentTurn t div 256 mod 256, prevSentTurn t mod 256, prevSentAction t, prevSentIndex t]]
    \<and> onAction k pl (tickLegacy now t) = (tickLegacy now t)\<lparr>lastRecvMs := k\<rparr>"
proof
  show "txQueue (onAction k pl t) = txQueue t @ [mkPacket TEXT_BATTLE_ACTION (session t) (prevSentTurn t mod 256)
           [prevSentTurn t div 256 mod 256, prevSentTurn t mod 256, prevSentAction t, prevSentIndex t]]"
    using assms by (simp add: onAction_def Let_def sendActionPacket_def queueSend_def)
  show "onAction k pl (tickLegacy now t) = (tickLegacy now t)\<lparr>lastRecvMs := k\<rparr>"
    using assms tickLegacy_due [OF assms(1,3,2)] by (simp add: onAction_def Let_def)
qed

text \<open>Turn 5 waits for the peer, whose action of turn 4 comes after the repeat.\<close>

definition lockstepWaiting :: TextBattle where
  "lockstepWaiting = (newBattle 1)\<lparr>mode := NETWORKED, phase := WAIT_REMOTE, remoteId := 2, session := 77,
     engine := (newEngine True)\<lparr>turn := 5\<rparr>, lastSentAction := 0, lastSentIndex := 1, lastSentTurn := 5,
     prevSentAction := 0, prevSentIndex := 2, prevSentTurn := 4, lastSendMs := 1000\<rparr>"

theorem resend_forgets_witness:
  "onAction 6000 [0, 4, 0, 3] (tickLegacy 5000 lockstepWaiting) = (tickLegacy 5000 lockstepWaiting)\<lparr>lastRecvMs := 6000\<rparr>"
  by (rule conjunct2 [OF resend_forgets])
    (simp_all add: lockstepWaiting_def newBattle_def newEngine_def word16_def sub32_def)

end
