(* ===== verification/LinkStart.thy ===== *)
theory LinkStart
  imports LinkRepeats BattleInvariant
begin

text \<open>
  The start of a networked battle: the party blob keeps all a battle needs, so challenge and accept leave
  server and client with the same two parties, names aside; and the experience loop inside a battle.
\<close>

subsection \<open>The party blob\<close>

text \<open>The array sizes of a save party, as far as the blob reads them.\<close>

definition blobMon :: "Gen1Pokemon \<Rightarrow> bool" where
  "blobMon m \<longleftrightarrow> length (sv_dvs m) = 2 \<and> length (sv_hpExp m) = 2 \<and> length (sv_atkExp m) = 2
     \<and> length (sv_defExp m) = 2 \<and> length (sv_spdExp m) = 2 \<and> length (sv_spcExp m) = 2 \<and> length (sv_moves m) = 4"

definition blobParty :: "Gen1Party \<Rightarrow> bool" where
  "blobParty p \<longleftrightarrow> length (gp_mons p) = 6 \<and> list_all blobMon (gp_mons p)"

lemma length_two: "length xs = 2 \<longleftrightarrow> xs = [xs ! 0, xs ! 1]"
  by (cases xs; cases "tl xs") auto

lemma of_nat_unat_byte [simp]: "of_nat (unat (b :: byte)) = b" by simp

lemma map_of_nat_unat [simp]: "map (of_nat \<circ> unat) (bs :: byte list) = bs"
  by (induction bs) simp_all

lemma length_packMonMin: "blobMon m \<Longrightarrow> length (packMonMin m) = 18"
  by (simp add: packMonMin_def blobMon_def)

lemma unpackMonMin_pack:
  assumes "blobMon m"
  defines "u \<equiv> unpackMonMin (packMonMin m)"
  shows "sv_species u = sv_species m" "sv_level u = (if sv_level m \<noteq> 0 then sv_level m else sv_boxLevel m)"
    "sv_boxLevel u = (if sv_level m \<noteq> 0 then sv_level m else sv_boxLevel m)"
    "sv_dvs u = sv_dvs m" "sv_hpExp u = sv_hpExp m" "sv_atkExp u = sv_atkExp m" "sv_defExp u = sv_defExp m"
    "sv_spdExp u = sv_spdExp m" "sv_spcExp u = sv_spcExp m" "sv_moves u = sv_moves m"
proof -
  have "length (sv_dvs m) = 2" using assms(1) by (simp add: blobMon_def)
  then have "sv_dvs m = [sv_dvs m ! 0, sv_dvs m ! 1]" by (rule length_two [THEN iffD1])
  then show "sv_dvs u = sv_dvs m" by (simp add: u_def unpackMonMin_def packMonMin_def Let_def)
qed (use assms(1) in \<open>simp_all add: u_def unpackMonMin_def packMonMin_def Let_def bytesAt_def blobMon_def drop_map take_map\<close>)

lemma concat_block:
  "(\<And>x. x \<in> set xs \<Longrightarrow> length (f x) = k) \<Longrightarrow> i < length xs \<Longrightarrow> take k (drop (i * k) (concat (map f xs))) = f (xs ! i)"
proof (induction xs arbitrary: i)
  case (Cons x xs)
  then show ?case by (cases i) simp_all
qed simp

lemma unpack_pack:
  assumes "blobParty p"
  shows "gp_count (unpackPartyMinTb (packPartyMinTb p)) = (if 6 < gp_count p then 6 else gp_count p)"
    and "i < 6 \<Longrightarrow> gp_mons (unpackPartyMinTb (packPartyMinTb p)) ! i = unpackMonMin (packMonMin (gp_mons p ! i))"
proof -
  have c: "packPartyMinTb p ! 0 = unat (gp_count p)" by (simp add: packPartyMinTb_def)
  have "unat (gp_count p) > 6 \<longleftrightarrow> gp_count p > 6" by (simp add: word_less_nat_alt)
  then show "gp_count (unpackPartyMinTb (packPartyMinTb p)) = (if 6 < gp_count p then 6 else gp_count p)"
    by (simp add: unpackPartyMinTb_def Let_def c)
  assume i: "i < 6"
  have "length (packMonMin (gp_mons p ! j)) = 18" if "j \<in> set [0..<6]" for j
    using assms that by (intro length_packMonMin) (simp add: blobParty_def list_all_length)
  then have "take 18 (drop (i * 18) (concat (map (\<lambda>j. packMonMin (gp_mons p ! j)) [0..<6]))) = packMonMin (gp_mons p ! i)"
    using concat_block [of "[0..<6]" "\<lambda>j. packMonMin (gp_mons p ! j)" 18 i] i by simp
  then have "take 18 (drop (1 + i * 18) (packPartyMinTb p)) = packMonMin (gp_mons p ! i)"
    by (simp add: packPartyMinTb_def)
  then show "gp_mons (unpackPartyMinTb (packPartyMinTb p)) ! i = unpackMonMin (packMonMin (gp_mons p ! i))"
    using i by (simp add: unpackPartyMinTb_def Let_def del: upt_Suc)
qed

text \<open>Parties up to the names the blob leaves out.\<close>

definition nameless :: "BattleParty \<Rightarrow> BattleParty" where
  "nameless p = p\<lparr>mons := map (\<lambda>m. m\<lparr>nickname := []\<rparr>) (mons p)\<rparr>"

lemma statsFromSave_nickname:
  "statsFromSave g s (d\<lparr>nickname := n\<rparr>) = (statsFromSave g s d)\<lparr>nickname := n\<rparr>"
  by (simp add: statsFromSave_def Let_def)

lemma freshMon_blob:
  assumes "blobMon m"
  shows "(freshMon (initBattlePokeFromSave (unpackMonMin (packMonMin m)) n g))\<lparr>nickname := []\<rparr>
       = (freshMon (initBattlePokeFromSave m n' g))\<lparr>nickname := []\<rparr>"
proof -
  let ?u = "unpackMonMin (packMonMin m)"
  have st: "statsFromSave b ?u d = statsFromSave b m d" for b d
    by (simp add: statsFromSave_def unpackMonMin_pack [OF assms])
  have lv: "(if sv_level ?u \<noteq> 0 then unat (sv_level ?u) else unat (sv_boxLevel ?u))
      = (if sv_level m \<noteq> 0 then unat (sv_level m) else unat (sv_boxLevel m))"
    by (simp add: unpackMonMin_pack [OF assms])
  let ?d = "\<lambda>k. (initSentinelFields zeroPoke)\<lparr>species := internalToDex ! unat (sv_species m), nickname := k,
      level := (if sv_level m \<noteq> 0 then unat (sv_level m) else unat (sv_boxLevel m))\<rparr>"
  have d: "?d k = (?d [])\<lparr>nickname := k\<rparr>" for k by simp
  have nick: "statsFromSave (3 \<le> g) m (?d k) = (statsFromSave (3 \<le> g) m (?d []))\<lparr>nickname := k\<rparr>" for k
    by (subst d) (rule statsFromSave_nickname)
  show ?thesis
    unfolding initBattlePokeFromSave_def Let_def st lv unpackMonMin_pack(1,10) [OF assms]
    by (subst (1 2) nick) (simp add: freshMon_def)
qed

lemma freshParty_blob:
  assumes "blobParty p"
  shows "nameless (freshParty (initSide g (unpackPartyMinTb (packPartyMinTb p)))) = nameless (freshParty (initSide g p))"
proof -
  let ?u = "unpackPartyMinTb (packPartyMinTb p)"
  have "min 6 (unat (if 6 < gp_count p then 6 else gp_count p)) = min 6 (unat (gp_count p))"
    by (simp add: word_less_nat_alt)
  then have n: "min 6 (unat (gp_count ?u)) = min 6 (unat (gp_count p))" using unpack_pack(1) [OF assms] by simp
  have m: "(freshMon (initBattlePokeFromSave (gp_mons ?u ! i) a g))\<lparr>nickname := []\<rparr>
      = (freshMon (initBattlePokeFromSave (gp_mons p ! i) b g))\<lparr>nickname := []\<rparr>" if "i < 6" for i a b
    using unpack_pack(2) [OF assms that] assms that
    by (simp add: freshMon_blob blobParty_def list_all_length)
  show ?thesis
    by (simp add: nameless_def freshParty_def onMons_def initSide_def Let_def n emptyParty_def m)
qed

subsection \<open>The handshake\<close>

lemma mkPacket_type [simp]: "mkPacket t sid q pl ! 0 = pktCode t"
  by (simp add: mkPacket_def packetBytes_def setSessionId_def)

lemma length_packPartyMinTb: "blobParty p \<Longrightarrow> length (packPartyMinTb p) = 109"
proof -
  assume "blobParty p"
  then have "length (packMonMin (gp_mons p ! j)) = 18" if "j < 6" for j
    using that by (intro length_packMonMin) (simp add: blobParty_def list_all_length)
  then have "length (concat (map (\<lambda>i. packMonMin (gp_mons p ! i)) [0..<6])) = 108"
    by (simp add: upt_rec length_concat)
  then show ?thesis by (simp add: packPartyMinTb_def)
qed

lemma split32: "(r :: nat) < 4294967296 \<Longrightarrow>
    r div 16777216 mod 256 * 16777216 + r div 65536 mod 256 * 65536 + r div 256 mod 256 * 256 + r mod 256 = r"
proof -
  assume r: "r < 4294967296"
  have "r div 256 < 16777216" using r by simp
  moreover have e: "r div 256 div 65536 = r div 16777216" "r div 256 div 256 = r div 65536"
    by (simp_all add: div_mult2_eq [symmetric])
  ultimately have "r div 16777216 mod 256 * 65536 + r div 65536 mod 256 * 256 + r div 256 mod 256 = r div 256"
    using split24 [of "r div 256"] unfolding e by blast
  moreover have "r div 256 * 256 + r mod 256 = r" by (rule div_mult_mod_eq)
  ultimately show ?thesis by linarith
qed

text \<open>The parties of both engines after the accept: fresh, the opponent's as its blob has them.\<close>

lemma started_parties [simp]:
  "parties (freshBoth (start p q sd g e)) S0 = freshParty (initSide g p)"
  "parties (freshBoth (start p q sd g e)) S1 = freshParty (initSide g q)"
  by (simp_all add: freshBoth_def start_def onParty_def)

lemma freshParty_sel [simp]:
  "pcount (freshParty p) = pcount p" "active (freshParty p) = active p"
  by (simp_all add: freshParty_def onMons_def)

lemma wireParty_fresh:
  assumes "save_ok p"
  shows "wireParty (freshParty (initSide g p)) \<and> hp (mons (freshParty (initSide g p)) ! active (initSide g p)) \<noteq> 0"
proof -
  have ok: "party_ok (3 \<le> g) (initSide g p)" using assms by (rule initSide_ok)
  define q where "q = initSide g p"
  have q: "length (mons q) = 6" "1 \<le> pcount q" "pcount q \<le> 6" "active q = 0"
    using assms by (simp_all add: q_def initSide_def emptyParty_def Let_def save_ok_def)
  have m: "10 \<le> maxHp (mons q ! i) \<and> maxHp (mons q ! i) \<le> 714 \<and> length (moves (mons q ! i)) = 4" if "i < pcount q" for i
    using ok that q by (auto simp: party_ok_def q_def [symmetric] mon_ok_def)
  have z: "wireMon (mons q ! i)" if "pcount q \<le> i" "i < 6" for i
    using that by (auto simp: q_def initSide_def emptyParty_def Let_def nth_append wireMon_def zeroPoke_def)
  have "wireMon (mons (freshParty q) ! i)" if "i < 6" for i
    using m [of i] z [of i] that q by (auto simp: freshParty_def onMons_def nth_append wireMon_def freshMon_def)
  moreover have "length (mons (freshParty q)) = 6" using q by (simp add: freshParty_def onMons_def)
  moreover have "hp (mons (freshParty q) ! 0) \<noteq> 0"
    using m [of 0] q by (auto simp: freshParty_def onMons_def nth_append freshMon_def)
  ultimately show ?thesis using q by (simp add: wireParty_def list_all_length q_def [symmetric])
qed

lemma nameless_wire:
  assumes "nameless p = nameless q"
  shows "wireParty p = wireParty q" "pcount p = pcount q" "active p = active q" "length (mons p) = length (mons q)"
    "i < length (mons q) \<Longrightarrow> hp (mons p ! i) = hp (mons q ! i)"
proof -
  show c: "pcount p = pcount q" "active p = active q"
    using assms unfolding nameless_def by (metis BattleParty.select_convs BattleParty.surjective BattleParty.update_convs(1))+
  have l: "map (\<lambda>m. m\<lparr>nickname := []\<rparr>) (mons p) = map (\<lambda>m. m\<lparr>nickname := []\<rparr>) (mons q)"
    using arg_cong [OF assms, of mons] by (simp add: nameless_def)
  then show n: "length (mons p) = length (mons q)" by (metis length_map)
  have e: "(mons p ! i)\<lparr>nickname := []\<rparr> = (mons q ! i)\<lparr>nickname := []\<rparr>" if "i < length (mons q)" for i
    using arg_cong [OF l, of "\<lambda>xs. xs ! i"] that n by simp
  have h: "hp (mons p ! i) = hp (mons q ! i) \<and> pp (mons p ! i) = pp (mons q ! i)" if "i < length (mons q)" for i
    using arg_cong [OF e [OF that], of hp] arg_cong [OF e [OF that], of pp] by simp
  then show "i < length (mons q) \<Longrightarrow> hp (mons p ! i) = hp (mons q ! i)" by simp
  show "wireParty p = wireParty q" using h n by (auto simp: wireParty_def c list_all_length wireMon_def)
qed

text \<open>What the challenger's packet is, and what the challenged device makes of it.\<close>

definition challengeOf :: "nat \<Rightarrow> nat \<Rightarrow> string \<Rightarrow> Gen1Party \<Rightarrow> nat list" where
  "challengeOf sid tgt nm p = mkPacket TEXT_BATTLE_CHALLENGE sid 0
     ([tgt div 16777216 mod 256, tgt div 65536 mod 256, tgt div 256 mod 256, tgt mod 256, 1, length nm]
      @ map of_char nm @ packPartyMinTb p)"

definition acceptOf :: "nat \<Rightarrow> string \<Rightarrow> Gen1Party \<Rightarrow> nat list" where
  "acceptOf sid nm p = mkPacket TEXT_BATTLE_ACCEPT sid 0 ([1, length nm] @ map of_char nm @ packPartyMinTb p)"

lemma appendLog_more [simp]:
  "awaitingAccept (appendLog l t) = awaitingAccept t" "pendingMyParty (appendLog l t) = pendingMyParty t"
  "remoteId (appendLog l t) = remoteId t" "myTbName (appendLog l t) = myTbName t"
  "pendingServerParty (appendLog l t) = pendingServerParty t" "awaitingFirstUpdate (appendLog l t) = awaitingFirstUpdate t"
  "preAcceptUpdateBuf (appendLog l t) = preAcceptUpdateBuf t" "updateSeq (appendLog l t) = updateSeq t"
  by (simp_all add: appendLog_def)

lemma onEngine_more [simp]:
  "awaitingAccept (onEngine f t) = awaitingAccept t" "pendingMyParty (onEngine f t) = pendingMyParty t"
  "remoteId (onEngine f t) = remoteId t" "myTbName (onEngine f t) = myTbName t" "updateSeq (onEngine f t) = updateSeq t"
  "preAcceptUpdateBuf (onEngine f t) = preAcceptUpdateBuf t"
  by (simp_all add: onEngine_def)

lemma sendChallenge_sel:
  "session (serverAuthSendChallenge now t) = session t" "role (serverAuthSendChallenge now t) = role t"
  "mode (serverAuthSendChallenge now t) = mode t" "awaitingAccept (serverAuthSendChallenge now t) = awaitingAccept t"
  "pendingMyParty (serverAuthSendChallenge now t) = pendingMyParty t" "remoteId (serverAuthSendChallenge now t) = remoteId t"
  by (simp_all add: serverAuthSendChallenge_def Let_def queueSend_def)

lemma sendChallenge_queue:
  assumes "length (txQueue t) < 16" "blobParty (pendingMyParty t)"
  shows "last (txQueue (serverAuthSendChallenge now t)) = challengeOf (session t) (remoteId t) (take 12 (myTbName t)) (pendingMyParty t)"
proof -
  let ?b = "challengeOf (session t) (remoteId t) (take 12 (myTbName t)) (pendingMyParty t)"
  have "\<not> 237 < length ?b" using length_packPartyMinTb [OF assms(2)] by (simp add: challengeOf_def)
  then have "txQueue (queueSend ?b t) = txQueue t @ [?b]" using assms(1) by (simp add: queueSend_def)
  then show ?thesis by (simp add: serverAuthSendChallenge_def Let_def challengeOf_def)
qed

lemma initiator_state:
  fixes now tgt :: nat and nm :: "string option" and s0 :: TextBattle
  assumes "length (txQueue s0) < 16" "blobParty p"
  defines "s \<equiv> startServerAuthAsInitiator now tgt p nm s0"
  obtains sid n where "sid < 65536" "session s = sid" "length n \<le> 12" "last (txQueue s) = challengeOf sid tgt n p"
    "role s = SERVER" "mode s = NETWORKED" "awaitingAccept s" "pendingMyParty s = p" "remoteId s = tgt"
proof -
  define sid where "sid = unat (of_nat now XOR of_nat tgt :: 32 word) mod 65536"
  have sid: "sid < 65536" by (simp add: sid_def)
  have "\<exists>t. s = (serverAuthSendChallenge now t)\<lparr>lastRecvMs := now\<rparr> \<and>
      session t = sid \<and> role t = SERVER \<and> mode t = NETWORKED \<and> awaitingAccept t \<and> pendingMyParty t = p
      \<and> remoteId t = tgt \<and> txQueue t = txQueue s0"
    unfolding s_def startServerAuthAsInitiator_def Let_def sid_def [symmetric]
    by (rule exI, rule conjI, rule refl) simp
  then obtain t where t: "s = (serverAuthSendChallenge now t)\<lparr>lastRecvMs := now\<rparr>"
    "session t = sid" "role t = SERVER" "mode t = NETWORKED" "awaitingAccept t" "pendingMyParty t = p" "remoteId t = tgt"
    "txQueue t = txQueue s0" by blast
  show ?thesis
    using sendChallenge_queue [of t now] t(2-8) assms(1,2) sid
    by (intro that [of sid "take 12 (myTbName t)"]) (simp_all add: t(1) sendChallenge_sel)
qed

lemma challenge_payload:
  fixes sid :: nat
  assumes "blobParty p" "length n \<le> 12" "tgt < 4294967296"
  defines "pl \<equiv> pk_payload (overlay (challengeOf sid tgt n p))"
  shows "pl ! 0 * 16777216 + pl ! 1 * 65536 + pl ! 2 * 256 + pl ! 3 = tgt" "pl ! 4 = 1" "min (pl ! 5) 12 = length n"
    "take (length n) (drop 6 pl) = map of_char n" "drop (6 + length n) pl = packPartyMinTb p"
    "length (challengeOf sid tgt n p) = 119 + length n"
proof -
  obtain a b c d where t: "tgt div 16777216 mod 256 = a" "tgt div 65536 mod 256 = b" "tgt div 256 mod 256 = c" "tgt mod 256 = d"
    by blast
  have "a * 16777216 + b * 65536 + c * 256 + d = tgt" using split32 [OF assms(3)] unfolding t .
  moreover have "pl = [a, b, c, d, 1, length n] @ map of_char n @ packPartyMinTb p"
    unfolding pl_def challengeOf_def t by simp
  moreover have "drop (6 + length n) pl = drop (length n) (drop 6 pl)" by (simp add: add.commute)
  ultimately show "pl ! 0 * 16777216 + pl ! 1 * 65536 + pl ! 2 * 256 + pl ! 3 = tgt" "pl ! 4 = 1" "min (pl ! 5) 12 = length n"
    "take (length n) (drop 6 pl) = map of_char n" "drop (6 + length n) pl = packPartyMinTb p"
    using assms(2) by simp_all
  show "length (challengeOf sid tgt n p) = 119 + length n"
    using assms(1) by (simp add: challengeOf_def length_packPartyMinTb)
qed

lemma challenged:
  fixes now k :: nat and rnd :: "32 word"
  assumes "mode c = OFF" "myNodeNum c = tgt" "tgt < 4294967296" "sid < 65536" "length n \<le> 12" "blobParty p"
  defines "c1 \<equiv> snd (handlePacket now rnd k (challengeOf sid tgt n p) c)"
  shows "phase c1 = WAIT_CHALLENGE_OVERLAY" "mode c1 = NETWORKED" "role c1 = CLIENT" "session c1 = sid"
    "pendingServerParty c1 = unpackPartyMinTb (packPartyMinTb p)" "pendingMyParty c1 = pendingMyParty c"
    "awaitingFirstUpdate c1 = awaitingFirstUpdate c" "txQueue c1 = txQueue c"
    "preAcceptUpdateBuf c1 = []" "lastAppliedUpdateSeq c1 = 0"
proof -
  have ty: "challengeOf sid tgt n p ! 0 = pktCode TEXT_BATTLE_CHALLENGE" and si: "sessionId (overlay (challengeOf sid tgt n p)) = sid"
    using assms(4) by (simp_all add: challengeOf_def)
  have c1: "c1 = clientAuthOnChallengePkt now k (challengeOf sid tgt n p) c"
    using assms(1) challenge_payload(6) [OF assms(6,5,3)] unfolding c1_def handlePacket_def Let_def ty pktType_pktCode by simp
  show "phase c1 = WAIT_CHALLENGE_OVERLAY" "mode c1 = NETWORKED" "role c1 = CLIENT" "session c1 = sid"
    "pendingServerParty c1 = unpackPartyMinTb (packPartyMinTb p)" "pendingMyParty c1 = pendingMyParty c"
    "awaitingFirstUpdate c1 = awaitingFirstUpdate c" "txQueue c1 = txQueue c"
    "preAcceptUpdateBuf c1 = []" "lastAppliedUpdateSeq c1 = 0"
    unfolding c1 clientAuthOnChallengePkt_def Let_def challenge_payload [OF assms(6,5,3)] si assms(2)
    by (simp_all add: assms(1))
qed

lemma accepting:
  fixes now :: nat and c :: TextBattle
  assumes "phase c = WAIT_CHALLENGE_OVERLAY" "mode c = NETWORKED" "\<not> awaitingFirstUpdate c" "preAcceptUpdateBuf c = []"
    "length (txQueue c) < 16" "blobParty (pendingMyParty c)"
  defines "c2 \<equiv> handleKey now (CHR ''y'') c"
  obtains n where "length n \<le> 12" "last (txQueue c2) = acceptOf (session c) n (pendingMyParty c)" "phase c2 = WAIT_REMOTE" "role c2 = role c"
    "session c2 = session c" "lastAppliedUpdateSeq c2 = lastAppliedUpdateSeq c"
    "parties (engine c2) S0 = freshParty (initSide 3 (pendingMyParty c))"
    "parties (engine c2) S1 = freshParty (initSide 3 (pendingServerParty c))"
proof -
  let ?n = "take 12 (myTbName c)"
  let ?b = "acceptOf (session c) ?n (pendingMyParty c)"
  have "\<not> 237 < length ?b" by (simp add: length_packPartyMinTb assms(6) acceptOf_def)
  then have q: "queueSend ?b c = c\<lparr>txQueue := txQueue c @ [?b]\<rparr>" using assms(5) by (simp add: queueSend_def)
  have b: "mkPacket TEXT_BATTLE_ACCEPT (session c) 0 ([if True then 1 else 0, length ?n] @ map of_char ?n @ packPartyMinTb (pendingMyParty c)) = ?b"
    by (simp add: acceptOf_def)
  have c2: "c2 = clientAuthSendAccept now True c" using assms(1,2) by (simp add: c2_def handleKey_def)
  note c2' = c2 [unfolded clientAuthSendAccept_def Let_def b q]
  show ?thesis using assms(3,4) by (intro that [of ?n]) (simp_all add: c2')
qed

lemma freshBoth_header:
  "turn (freshBoth (start p q sd g e)) = 0" "result (freshBoth (start p q sd g e)) = ONGOING"
  by (simp_all add: freshBoth_def start_def seedRng_def Let_def onParty_def)

lemma accept_payload:
  fixes sid :: nat
  assumes "blobParty p" "length n \<le> 12"
  defines "pl \<equiv> pk_payload (overlay (acceptOf sid n p))"
  shows "pl ! 0 = 1" "min (pl ! 1) 12 = length n" "drop (2 + length n) pl = packPartyMinTb p"
    "length (acceptOf sid n p) = 115 + length n"
  using assms(1,2) by (simp_all add: pl_def acceptOf_def length_packPartyMinTb)

lemma accepted:
  fixes now k :: nat and rnd :: "32 word" and s :: TextBattle
  assumes "role s = SERVER" "mode s = NETWORKED" "awaitingAccept s" "session s = sid" "sid < 65536" "length n \<le> 12"
    "blobParty p" "save_ok p" "save_ok (pendingMyParty s)"
  defines "s2 \<equiv> snd (handlePacket now rnd k (acceptOf sid n p) s)"
  shows "phase s2 = WAIT_ACTION" "role s2 = SERVER" "session s2 = sid"
    "parties (engine s2) S0 = freshParty (initSide 3 (pendingMyParty s))"
    "parties (engine s2) S1 = freshParty (initSide 3 (unpackPartyMinTb (packPartyMinTb p)))"
proof -
  let ?u = "unpackPartyMinTb (packPartyMinTb p)"
  have ty: "acceptOf sid n p ! 0 = pktCode TEXT_BATTLE_ACCEPT" and si: "sessionId (overlay (acceptOf sid n p)) = sid"
    using assms(5) by (simp_all add: acceptOf_def)
  note nl = nameless_wire [OF freshParty_blob [OF assms(7), of 3]]
  have w: "wireParty (freshParty (initSide 3 p))" "hp (mons (freshParty (initSide 3 p)) ! active (initSide 3 p)) \<noteq> 0"
    "hp (mons (freshParty (initSide 3 (pendingMyParty s))) ! active (initSide 3 (pendingMyParty s))) \<noteq> 0"
    using wireParty_fresh assms(8,9) by blast+
  have up: "hp (mons (freshParty (initSide 3 ?u)) ! active (freshParty (initSide 3 ?u))) \<noteq> 0"
    using nl(3) nl(5) [of "active (initSide 3 p)"] w(1,2) by (simp add: wireParty_def)
  have hf: "handleFaints t = t" if "parties (engine t) S0 = freshParty (initSide 3 (pendingMyParty s))"
    "parties (engine t) S1 = freshParty (initSide 3 ?u)" for t
    using that w(3) up by (simp add: handleFaints_def faintCheck_def activeMon_def)
  have s2: "s2 = serverAuthOnAcceptPkt now rnd k (acceptOf sid n p) s"
    using assms(1,2) accept_payload(4) [OF assms(7,6)] unfolding s2_def handlePacket_def Let_def ty pktType_pktCode by simp
  have "\<exists>t x y. s2 = serverAuthSendUpdate now (dropPendingSends (appendLog x (appendLog y (handleFaints t))))
      \<and> phase t = WAIT_ACTION \<and> role t = SERVER \<and> session t = sid
      \<and> parties (engine t) S0 = freshParty (initSide 3 (pendingMyParty s)) \<and> parties (engine t) S1 = freshParty (initSide 3 ?u)"
    using assms(1-4) unfolding s2 serverAuthOnAcceptPkt_def Let_def accept_payload [OF assms(7,6)] si
    by (simp split del: if_split) (rule exI, rule conjI, rule exI, rule exI, rule refl, simp)
  then obtain t x y where t: "s2 = serverAuthSendUpdate now (dropPendingSends (appendLog x (appendLog y (handleFaints t))))"
    "phase t = WAIT_ACTION" "role t = SERVER" "session t = sid"
    "parties (engine t) S0 = freshParty (initSide 3 (pendingMyParty s))"
    "parties (engine t) S1 = freshParty (initSide 3 ?u)" by blast
  show "phase s2 = WAIT_ACTION" "role s2 = SERVER" "session s2 = sid"
    "parties (engine s2) S0 = freshParty (initSide 3 (pendingMyParty s))"
    "parties (engine s2) S1 = freshParty (initSide 3 (unpackPartyMinTb (packPartyMinTb p)))"
    using t(2-6) by (simp_all add: t(1) hf [OF t(5,6)] sent_update dropPendingSends_def) (simp add: serverAuthSendUpdate_def Let_def)
qed

text \<open>
  C8 The handshake carries both parties: after the challenge, its acceptance with the key Y and the handling of
  the accept packet, server and client hold the same two parties, each as its own side 0, all but the names;
  they are linked, and the client waits for its first UPDATE.
\<close>

theorem handshake_carries_parties:
  assumes "blobParty p" "save_ok p" "blobParty q" "save_ok q"
    and "mode c = OFF" "\<not> awaitingFirstUpdate c" "myNodeNum c = tgt" "tgt < 4294967296"
    and "length (txQueue s0) < 16" "length (txQueue c) < 16"
  shows "let s = startServerAuthAsInitiator n1 tgt p nm s0;
      c1 = snd (handlePacket n2 r2 k (last (txQueue s)) (setMyTbParty q nm' c));
      c2 = handleKey n3 (CHR ''y'') c1;
      s2 = snd (handlePacket n4 r4 tgt (last (txQueue c2)) s)
    in linked s2 c2 \<and> phase s2 = WAIT_ACTION \<and> phase c2 = WAIT_REMOTE \<and> lastAppliedUpdateSeq c2 = 0
       \<and> nameless (parties (engine s2) S0) = nameless (parties (engine c2) S1)
       \<and> nameless (parties (engine s2) S1) = nameless (parties (engine c2) S0)"
proof -
  define s where "s = startServerAuthAsInitiator n1 tgt p nm s0"
  obtain sid n where s: "sid < 65536" "session s = sid" "length n \<le> 12" "last (txQueue s) = challengeOf sid tgt n p"
    "role s = SERVER" "mode s = NETWORKED" "awaitingAccept s" "pendingMyParty s = p"
    unfolding s_def using assms(9,1) by (rule initiator_state)
  define c0 where "c0 = setMyTbParty q nm' c"
  have c0: "mode c0 = OFF" "\<not> awaitingFirstUpdate c0" "myNodeNum c0 = tgt" "length (txQueue c0) < 16" "pendingMyParty c0 = q"
    using assms(5,6,7,10) by (simp_all add: c0_def setMyTbParty_def)
  define c1 where "c1 = snd (handlePacket n2 r2 k (last (txQueue s)) c0)"
  note ch = challenged [OF c0(1,3) assms(8) s(1,3) assms(1), of n2 r2 k, folded s(4), folded c1_def]
  define c2 where "c2 = handleKey n3 (CHR ''y'') c1"
  have A: "\<not> awaitingFirstUpdate c1" "length (txQueue c1) < 16" "blobParty (pendingMyParty c1)"
    using ch c0 assms(3) by simp_all
  obtain m where m': "length m \<le> 12" "last (txQueue c2) = acceptOf (session c1) m (pendingMyParty c1)" "phase c2 = WAIT_REMOTE"
    "role c2 = role c1" "session c2 = session c1" "lastAppliedUpdateSeq c2 = lastAppliedUpdateSeq c1"
    "parties (engine c2) S0 = freshParty (initSide 3 (pendingMyParty c1))"
    "parties (engine c2) S1 = freshParty (initSide 3 (pendingServerParty c1))"
    unfolding c2_def by (rule accepting [OF ch(1,2) A(1) ch(9) A(2,3)])
  have m: "length m \<le> 12" "last (txQueue c2) = acceptOf sid m q" "phase c2 = WAIT_REMOTE" "role c2 = CLIENT"
    "session c2 = sid" "lastAppliedUpdateSeq c2 = 0" "parties (engine c2) S0 = freshParty (initSide 3 q)"
    "parties (engine c2) S1 = freshParty (initSide 3 (unpackPartyMinTb (packPartyMinTb p)))"
    using m' by (simp_all add: ch c0)
  define s2 where "s2 = snd (handlePacket n4 r4 tgt (last (txQueue c2)) s)"
  have "save_ok (pendingMyParty s)" using s(8) assms(2) by simp
  note s2 = accepted [OF s(5,6,7,2,1) m(1) assms(3,4) this, of n4 r4 tgt, folded m(2), folded s2_def, unfolded s(8)]
  have nl: "nameless (parties (engine s2) S0) = nameless (parties (engine c2) S1)"
    "nameless (parties (engine s2) S1) = nameless (parties (engine c2) S0)"
    using freshParty_blob [OF assms(1)] freshParty_blob [OF assms(3)] s2(4,5) m(7,8) by simp_all
  have w: "wireParty (parties (engine s2) S0)" "wireParty (parties (engine c2) S0)"
    using wireParty_fresh assms(2,4) s2(4) m(7) by auto
  have "linked s2 c2"
    using w nameless_wire [OF nl(1)] nameless_wire [OF nl(2)] s2 m s(1)
    by (auto simp: linked_def loadedAs_def wireParty_def)
  then show ?thesis using nl s2(1) m(3,6)
    by (simp add: Let_def s_def [symmetric] c0_def [symmetric] c1_def [symmetric] c2_def [symmetric] s2_def [symmetric])
qed

text \<open>A trainer with one monster of level 50 on each side.\<close>

definition sampleSave :: "nat \<Rightarrow> Gen1Party" where
  "sampleSave l = emptySaveParty\<lparr>gp_count := 1, gp_mons := zeroSaved\<lparr>sv_species := 0x54, sv_level := of_nat l,
     sv_moves := [84, 45, 0, 0], sv_dvs := [0xAB, 0xCD]\<rparr> # replicate 5 zeroSaved\<rparr>"

theorem handshake_carries_parties_witness:
  "let s = startServerAuthAsInitiator 1000 2 (sampleSave 50) None (newBattle 1);
      c1 = snd (handlePacket 2000 7 1 (last (txQueue s)) (setMyTbParty (sampleSave 60) ''RED'' (newBattle 2)));
      c2 = handleKey 3000 (CHR ''y'') c1;
      s2 = snd (handlePacket 4000 9 2 (last (txQueue c2)) s)
   in linked s2 c2 \<and> nameless (parties (engine s2) S1) = nameless (parties (engine c2) S0)"
proof -
  have "blobParty (sampleSave k)" for k
    by (simp add: blobParty_def sampleSave_def list_all_iff blobMon_def zeroSaved_def)
  moreover have "save_ok (sampleSave 50)" "save_ok (sampleSave 60)"
    by (simp_all add: save_ok_def sampleSave_def emptySaveParty_def zeroSaved_def saveLevel_def Let_def)
  moreover have "mode (newBattle 2) = OFF" "\<not> awaitingFirstUpdate (newBattle 2)" "myNodeNum (newBattle 2) = 2"
    "length (txQueue (newBattle k)) < 16" for k by (simp_all add: newBattle_def)
  ultimately show ?thesis
    using handshake_carries_parties [of "sampleSave 50" "sampleSave 60" "newBattle 2" 2 "newBattle 1" 1000 None 2000 7 1 "''RED''" 3000 4000 9]
    by (simp add: Let_def)
qed

subsection \<open>The experience loop ends\<close>

lemma cube_suc: "l * l * l + levelThreshold l = Suc l * Suc l * Suc l"
  by (simp add: levelThreshold_def algebra_simps)

lemma levelUps_done:
  assumes "s < pcount (parties (engine t) S0)" "s < 6" "length (mons (parties (engine t) S0)) = 6"
    "length (slotXpAccum t) = 6" "level (mons (parties (engine t) S0) ! s) \<le> 100"
    "100 - level (mons (parties (engine t) S0) ! s) \<le> k"
  shows "let u = levelUps k s t; l = level (mons (parties (engine t) S0) ! s); m = level (mons (parties (engine u) S0) ! s)
    in l \<le> m \<and> m \<le> 100 \<and> (m = 100 \<or> slotXpAccum u ! s < levelThreshold m)
       \<and> m * m * m + slotXpAccum u ! s = l * l * l + slotXpAccum t ! s"
  using assms
proof (induction k arbitrary: t)
  case 0
  then show ?case by (simp add: Let_def)
next
  case (Suc k)
  let ?l = "level (mons (parties (engine t) S0) ! s)" and ?x = "slotXpAccum t ! s"
  show ?case
  proof (cases "100 \<le> ?l \<or> ?x < levelThreshold ?l")
    case True
    then show ?thesis using Suc.prems by (auto simp: Let_def)
  next
    case False
    let ?t = "inBattleLevelUp s (t\<lparr>slotXpAccum := (slotXpAccum t)[s := ?x - levelThreshold ?l]\<rparr>)"
    have p: "pcount (parties (engine ?t) S0) = pcount (parties (engine t) S0)" "length (mons (parties (engine ?t) S0)) = 6"
      "slotXpAccum ?t = (slotXpAccum t)[s := ?x - levelThreshold ?l]" "level (mons (parties (engine ?t) S0) ! s) = Suc ?l"
      using Suc.prems False by (simp_all add: inBattleLevelUp_def Let_def nth_upd_at)
    have ih: "let m = level (mons (parties (engine (levelUps k s ?t)) S0) ! s)
      in Suc ?l \<le> m \<and> m \<le> 100 \<and> (m = 100 \<or> slotXpAccum (levelUps k s ?t) ! s < levelThreshold m)
         \<and> m * m * m + slotXpAccum (levelUps k s ?t) ! s = Suc ?l * Suc ?l * Suc ?l + (?x - levelThreshold ?l)"
      using Suc.IH [of ?t] Suc.prems False unfolding p Let_def
      by (simp add: inBattleLevelUp_def Let_def del: mult_Suc mult_Suc_right)
    have "levelUps (Suc k) s t = levelUps k s ?t" using False by (simp add: Let_def)
    moreover have "Suc ?l * Suc ?l * Suc ?l + (?x - levelThreshold ?l) = ?l * ?l * ?l + ?x"
      using cube_suc [of ?l] False by linarith
    ultimately show ?thesis using ih by (simp add: Let_def del: mult_Suc mult_Suc_right)
  qed
qed

text \<open>
  C10 Crediting experience inside a battle ends with the monster at level 100 or short of the next threshold,
  and loses nothing: the cube of the level plus the experience left over is the cube of the old level plus the
  experience there was, so the level is the only one the thresholds allow.
\<close>

theorem levelling_ends:
  assumes "s < pcount (parties (engine t) S0)" "pcount (parties (engine t) S0) \<le> 6"
    and "length (mons (parties (engine t) S0)) = 6" "length (slotXpAccum t) = 6"
    and "level (mons (parties (engine t) S0) ! s) \<le> 100"
    and "bit (participantMask t) s" "hp (mons (parties (engine t) S0) ! s) \<noteq> 0"
  shows "let u = creditSlot xp s t; l = level (mons (parties (engine t) S0) ! s); m = level (mons (parties (engine u) S0) ! s)
    in l \<le> m \<and> m \<le> 100 \<and> (m = 100 \<or> slotXpAccum u ! s < 3 * m * m + 3 * m + 1)
       \<and> m ^ 3 + slotXpAccum u ! s = l ^ 3 + (slotXpAccum t ! s + xp) mod 2 ^ 32"
proof -
  let ?t = "t\<lparr>pendingXpPerSlot := (pendingXpPerSlot t)[s := u32 (pendingXpPerSlot t ! s + xp)],
           slotXpAccum := (slotXpAccum t)[s := u32 (slotXpAccum t ! s + xp)]\<rparr>"
  have "creditSlot xp s t = levelUps (100 - level (mons (parties (engine t) S0) ! s)) s ?t"
    using assms(6,7) by (simp add: creditSlot_def)
  then show ?thesis
    using levelUps_done [of s ?t "100 - level (mons (parties (engine t) S0) ! s)"] assms(1-5)
    by (simp add: Let_def levelThreshold_def power3_eq_cube u32_def)
qed

text \<open>The level 50 monster of the sample trainer earns 20000 points: level 52 and 4392 points left.\<close>

definition levelling :: TextBattle where
  "levelling = (newBattle 1)\<lparr>engine := freshBoth (start (sampleSave 50) (sampleSave 50) 1 3 (newEngine True))\<rparr>"

theorem levelling_ends_witness:
  "let u = creditSlot 20000 0 levelling; m = level (mons (parties (engine u) S0) ! 0)
   in (m = 100 \<or> slotXpAccum u ! 0 < 3 * m * m + 3 * m + 1) \<and> m ^ 3 + slotXpAccum u ! 0 = 50 ^ 3 + 20000"
proof -
  have e: "parties (engine levelling) S0 = freshParty (initSide 3 (sampleSave 50))"
    "slotXpAccum levelling = replicate 6 0" "participantMask levelling = 1"
    by (simp_all add: levelling_def newBattle_def)
  have n: "pcount (initSide 3 (sampleSave 50)) = 1" by (simp add: initSide_def sampleSave_def Let_def)
  have l: "level (mons (freshParty (initSide 3 (sampleSave 50))) ! 0) = 50"
    by (simp add: freshParty_def onMons_def n initSide_def sampleSave_def Let_def freshMon_def
        initBattlePokeFromSave_def zeroSaved_def)
  have w: "wireParty (freshParty (initSide 3 (sampleSave 50)))" "hp (mons (freshParty (initSide 3 (sampleSave 50))) ! 0) \<noteq> 0"
    using wireParty_fresh [of "sampleSave 50" 3]
    by (simp_all add: save_ok_def sampleSave_def emptySaveParty_def zeroSaved_def saveLevel_def Let_def
        initSide_def emptyParty_def)
  show ?thesis
    using levelling_ends [of 0 levelling 20000] w l n by (simp add: Let_def e wireParty_def bit_0)
qed

end
