(* ===== verification/LordTables.thy ===== *)
theory LordTables
  imports Prelude
begin

text \<open>
  The data of the campaign Legend of Charizard, row by row: the gyms with their trainers and fillers
  (\<^verbatim>\<open>LordGyms.cpp\<close>), the Elite Four (\<^verbatim>\<open>LordE4.cpp\<close>), the routes
  (\<^verbatim>\<open>LordRoutes.cpp\<close>), the moves by type that higher tiers add (\<^verbatim>\<open>LordLogic.cpp\<close>)
  and the pool of the computer opponent (\<^verbatim>\<open>MonsterMeshModule.cpp\<close>).  A pointer with a count
  is a list.
\<close>

record LordGymMon =
  gm_species :: nat
  gm_level :: nat
  gm_moves :: "nat list"

definition gmon :: "nat \<Rightarrow> nat \<Rightarrow> nat list \<Rightarrow> LordGymMon" where
  "gmon s l ms = \<lparr>gm_species = s, gm_level = l, gm_moves = ms\<rparr>"

type_synonym LordGymTrainer = "string \<times> LordGymMon list"

record LordGym =
  lg_city :: string
  lg_leaderName :: string
  lg_badgeName :: string
  lg_badgeBit :: nat
  lg_minLevelHint :: nat
  lg_trainers :: "LordGymTrainer list"

record LordE4Member =
  e4_name :: string
  e4_title :: string
  e4_typeFlavor :: string
  e4_roster :: "LordGymMon list"

record LordRouteEncounter =
  re_species :: nat
  re_levelMin :: nat
  re_levelMax :: nat
  re_moves :: "nat list"
  re_weight :: nat

definition enc :: "nat \<Rightarrow> nat \<Rightarrow> nat \<Rightarrow> nat list \<Rightarrow> nat \<Rightarrow> LordRouteEncounter" where
  "enc s a b ms w = \<lparr>re_species = s, re_levelMin = a, re_levelMax = b, re_moves = ms, re_weight = w\<rparr>"

subsection \<open>Tables\<close>

definition g1_t0 :: "LordGymMon list" where
  "g1_t0 =
    [gmon 74 10 [33, 111, 0, 0]]"

definition g1_t1 :: "LordGymMon list" where
  "g1_t1 =
    [gmon 16 9 [16, 98, 0, 0],
     gmon 19 9 [33, 45, 0, 0]]"

definition g1_t2 :: "LordGymMon list" where
  "g1_t2 =
    [gmon 27 11 [10, 28, 0, 0]]"

definition g1_t3 :: "LordGymMon list" where
  "g1_t3 =
    [gmon 74 11 [88, 33, 0, 0],
     gmon 95 12 [88, 20, 0, 0]]"

definition g1_t4 :: "LordGymMon list" where
  "g1_t4 =
    [gmon 74 12 [33, 111, 88, 0],
     gmon 95 14 [33, 20, 88, 43]]"

definition g2_t0 :: "LordGymMon list" where
  "g2_t0 =
    [gmon 120 16 [33, 55, 0, 0]]"

definition g2_t1 :: "LordGymMon list" where
  "g2_t1 =
    [gmon 54 19 [10, 39, 55, 0]]"

definition g2_t2 :: "LordGymMon list" where
  "g2_t2 =
    [gmon 118 17 [64, 39, 0, 0],
     gmon 72 18 [40, 51, 0, 0]]"

definition g2_t3 :: "LordGymMon list" where
  "g2_t3 =
    [gmon 86 20 [44, 45, 62, 0]]"

definition g2_t4 :: "LordGymMon list" where
  "g2_t4 =
    [gmon 120 18 [33, 55, 0, 0],
     gmon 121 21 [33, 55, 61, 50]]"

definition g3_t0 :: "LordGymMon list" where
  "g3_t0 =
    [gmon 25 20 [84, 28, 98, 0]]"

definition g3_t1 :: "LordGymMon list" where
  "g3_t1 =
    [gmon 100 21 [33, 103, 84, 0]]"

definition g3_t2 :: "LordGymMon list" where
  "g3_t2 =
    [gmon 81 20 [33, 48, 84, 0],
     gmon 82 22 [33, 84, 49, 0]]"

definition g3_t3 :: "LordGymMon list" where
  "g3_t3 =
    [gmon 100 23 [33, 84, 103, 0],
     gmon 125 23 [98, 85, 50, 0]]"

definition g3_t4 :: "LordGymMon list" where
  "g3_t4 =
    [gmon 100 21 [84, 103, 153, 0],
     gmon 26 24 [85, 28, 86, 98],
     gmon 25 21 [98, 84, 45, 0]]"

definition g4_t0 :: "LordGymMon list" where
  "g4_t0 =
    [gmon 43 24 [71, 78, 51, 0]]"

definition g4_t1 :: "LordGymMon list" where
  "g4_t1 =
    [gmon 69 24 [22, 74, 0, 0]]"

definition g4_t2 :: "LordGymMon list" where
  "g4_t2 =
    [gmon 102 26 [79, 77, 71, 0],
     gmon 44 25 [78, 51, 0, 0]]"

definition g4_t3 :: "LordGymMon list" where
  "g4_t3 =
    [gmon 70 26 [22, 77, 79, 0]]"

definition g4_t4 :: "LordGymMon list" where
  "g4_t4 =
    [gmon 114 29 [22, 20, 75, 0],
     gmon 71 29 [77, 79, 22, 72],
     gmon 45 29 [78, 79, 80, 72]]"

definition g5_t0 :: "LordGymMon list" where
  "g5_t0 =
    [gmon 41 31 [44, 103, 109, 0],
     gmon 41 31 [44, 48, 0, 0]]"

definition g5_t1 :: "LordGymMon list" where
  "g5_t1 =
    [gmon 48 32 [48, 50, 93, 0]]"

definition g5_t2 :: "LordGymMon list" where
  "g5_t2 =
    [gmon 88 33 [106, 51, 124, 0],
     gmon 89 33 [124, 106, 34, 0]]"

definition g5_t3 :: "LordGymMon list" where
  "g5_t3 =
    [gmon 42 34 [44, 48, 100, 0]]"

definition g5_t4 :: "LordGymMon list" where
  "g5_t4 =
    [gmon 109 37 [123, 108, 0, 0],
     gmon 89 39 [139, 51, 34, 106],
     gmon 109 37 [139, 123, 108, 0],
     gmon 110 43 [124, 123, 139, 108]]"

definition g6_t0 :: "LordGymMon list" where
  "g6_t0 =
    [gmon 96 34 [95, 50, 93, 0],
     gmon 97 34 [95, 50, 93, 0]]"

definition g6_t1 :: "LordGymMon list" where
  "g6_t1 =
    [gmon 64 38 [93, 50, 105, 0]]"

definition g6_t2 :: "LordGymMon list" where
  "g6_t2 =
    [gmon 122 39 [50, 93, 113, 115]]"

definition g6_t3 :: "LordGymMon list" where
  "g6_t3 =
    [gmon 96 36 [95, 93, 138, 0],
     gmon 96 36 [95, 93, 138, 0]]"

definition g6_t4 :: "LordGymMon list" where
  "g6_t4 =
    [gmon 64 38 [93, 50, 115, 105],
     gmon 122 37 [93, 113, 115, 0],
     gmon 49 38 [48, 78, 60, 0],
     gmon 65 43 [94, 105, 115, 93]]"

definition g7_t0 :: "LordGymMon list" where
  "g7_t0 =
    [gmon 77 34 [52, 45, 39, 0],
     gmon 126 38 [108, 52, 98, 0]]"

definition g7_t1 :: "LordGymMon list" where
  "g7_t1 =
    [gmon 58 40 [52, 43, 36, 0]]"

definition g7_t2 :: "LordGymMon list" where
  "g7_t2 =
    [gmon 78 41 [52, 39, 23, 83]]"

definition g7_t3 :: "LordGymMon list" where
  "g7_t3 =
    [gmon 37 42 [52, 45, 98, 46],
     gmon 38 42 [52, 46, 98, 53]]"

definition g7_t4 :: "LordGymMon list" where
  "g7_t4 =
    [gmon 58 42 [52, 43, 36, 46],
     gmon 126 40 [52, 83, 109, 34],
     gmon 78 42 [52, 23, 83, 36],
     gmon 59 47 [52, 46, 36, 53]]"

definition g8_t0 :: "LordGymMon list" where
  "g8_t0 =
    [gmon 24 37 [40, 43, 35, 0]]"

definition g8_t1 :: "LordGymMon list" where
  "g8_t1 =
    [gmon 111 42 [88, 43, 34, 0]]"

definition g8_t2 :: "LordGymMon list" where
  "g8_t2 =
    [gmon 50 41 [10, 28, 91, 0],
     gmon 51 42 [10, 28, 91, 89]]"

definition g8_t3 :: "LordGymMon list" where
  "g8_t3 =
    [gmon 34 45 [40, 30, 31, 0]]"

definition g8_t4 :: "LordGymMon list" where
  "g8_t4 =
    [gmon 111 45 [88, 34, 31, 43],
     gmon 51 42 [28, 91, 89, 163],
     gmon 31 44 [40, 89, 34, 43],
     gmon 112 50 [89, 23, 43, 88],
     gmon 34 45 [40, 31, 89, 30]]"

definition LORD_GYMS :: "LordGym list" where
  "LORD_GYMS =
    [\<lparr>lg_city = ''Pewter'', lg_leaderName = ''Brock'', lg_badgeName = ''Boulder'', lg_badgeBit = 0, lg_minLevelHint = 10,
      lg_trainers = [(''Camper Liam'', g1_t0), (''Lass Crissy'', g1_t1), (''Youngster Ben'', g1_t2), (''Hiker Marcos'', g1_t3), (''Brock'', g1_t4)]\<rparr>,
     \<lparr>lg_city = ''Cerulean'', lg_leaderName = ''Misty'', lg_badgeName = ''Cascade'', lg_badgeBit = 1, lg_minLevelHint = 18,
      lg_trainers = [(''Swimmer Luis'', g2_t0), (''Trainer Diana'', g2_t1), (''Lass Haley'', g2_t2), (''Swimmer Parker'', g2_t3), (''Misty'', g2_t4)]\<rparr>,
     \<lparr>lg_city = ''Vermilion'', lg_leaderName = ''Lt. Surge'', lg_badgeName = ''Thunder'', lg_badgeBit = 2, lg_minLevelHint = 22,
      lg_trainers = [(''Gentleman Tucker'', g3_t0), (''Rocker Luca'', g3_t1), (''Sailor Dwayne'', g3_t2), (''Engineer Baily'', g3_t3), (''Lt. Surge'', g3_t4)]\<rparr>,
     \<lparr>lg_city = ''Celadon'', lg_leaderName = ''Erika'', lg_badgeName = ''Rainbow'', lg_badgeBit = 3, lg_minLevelHint = 26,
      lg_trainers = [(''Lass Michelle'', g4_t0), (''Beauty Lola'', g4_t1), (''Picnicker Tanya'', g4_t2), (''Trainer Miranda'', g4_t3), (''Erika'', g4_t4)]\<rparr>,
     \<lparr>lg_city = ''Fuchsia'', lg_leaderName = ''Koga'', lg_badgeName = ''Soul'', lg_badgeBit = 4, lg_minLevelHint = 32,
      lg_trainers = [(''Juggler Nate'', g5_t0), (''Tamer Edgar'', g5_t1), (''Juggler Kirk'', g5_t2), (''Ninja Shin'', g5_t3), (''Koga'', g5_t4)]\<rparr>,
     \<lparr>lg_city = ''Saffron'', lg_leaderName = ''Sabrina'', lg_badgeName = ''Marsh'', lg_badgeBit = 5, lg_minLevelHint = 36,
      lg_trainers = [(''Medium Martha'', g6_t0), (''Channeler Abigail'', g6_t1), (''Medium Grace'', g6_t2), (''Psychic Rodney'', g6_t3), (''Sabrina'', g6_t4)]\<rparr>,
     \<lparr>lg_city = ''Cinnabar'', lg_leaderName = ''Blaine'', lg_badgeName = ''Volcano'', lg_badgeBit = 6, lg_minLevelHint = 42,
      lg_trainers = [(''Burglar Derek'', g7_t0), (''Super Nerd Sam'', g7_t1), (''Burglar Ramon'', g7_t2), (''Super Nerd Zac'', g7_t3), (''Blaine'', g7_t4)]\<rparr>,
     \<lparr>lg_city = ''Viridian'', lg_leaderName = ''Giovanni'', lg_badgeName = ''Earth'', lg_badgeBit = 7, lg_minLevelHint = 47,
      lg_trainers = [(''Tough Guy Nick'', g8_t0), (''Cooltrainer Leo'', g8_t1), (''Tough Guy Shane'', g8_t2), (''Cooltrainer Gwen'', g8_t3), (''Giovanni'', g8_t4)]\<rparr>]"

definition GYM_FILL :: "(nat \<times> nat list) list list" where
  "GYM_FILL =
    [[(74, [33, 111, 88, 0]), (27, [10, 28, 0, 0]), (95, [33, 20, 88, 43]), (111, [88, 43, 34, 0]), (66, [10, 106, 0, 0]), (74, [88, 111, 33, 0])],
     [(120, [33, 55, 0, 0]), (118, [64, 39, 0, 0]), (54, [10, 39, 55, 0]), (72, [40, 51, 0, 0]), (86, [44, 45, 62, 0]), (90, [33, 55, 0, 0])],
     [(25, [84, 28, 98, 0]), (100, [33, 103, 84, 0]), (81, [33, 48, 84, 0]), (82, [33, 84, 49, 0]), (125, [98, 85, 50, 0]), (100, [84, 103, 153, 0])],
     [(43, [71, 78, 51, 0]), (69, [22, 74, 0, 0]), (102, [79, 77, 71, 0]), (44, [78, 51, 0, 0]), (46, [78, 77, 71, 0]), (114, [22, 20, 75, 0])],
     [(41, [44, 103, 109, 0]), (48, [48, 50, 93, 0]), (88, [106, 51, 124, 0]), (89, [124, 106, 34, 0]), (23, [40, 43, 35, 0]), (109, [123, 139, 0, 0])],
     [(96, [95, 50, 93, 0]), (97, [95, 50, 93, 138]), (64, [93, 50, 115, 105]), (122, [50, 93, 113, 115]), (79, [93, 95, 55, 0]), (124, [93, 95, 0, 0])],
     [(77, [52, 45, 39, 0]), (58, [52, 43, 36, 0]), (126, [52, 83, 109, 0]), (37, [52, 45, 98, 46]), (78, [52, 39, 23, 83]), (59, [52, 46, 36, 53])],
     [(50, [10, 28, 91, 0]), (51, [10, 28, 91, 89]), (111, [88, 43, 34, 0]), (27, [10, 28, 0, 0]), (31, [40, 89, 34, 43]), (34, [40, 31, 89, 30])]]"

definition kLorelei :: "LordGymMon list" where
  "kLorelei =
    [gmon 87 54 [33, 16, 62, 58],
     gmon 91 53 [33, 88, 59, 110],
     gmon 80 54 [33, 8, 93, 10],
     gmon 124 56 [47, 95, 93, 58],
     gmon 131 56 [44, 8, 56, 58]]"

definition kBruno :: "LordGymMon list" where
  "kBruno =
    [gmon 95 53 [88, 36, 20, 90],
     gmon 107 55 [4, 7, 2, 152],
     gmon 106 55 [26, 25, 136, 67],
     gmon 95 56 [88, 36, 20, 91],
     gmon 68 58 [36, 8, 43, 70]]"

definition kAgatha :: "LordGymMon list" where
  "kAgatha =
    [gmon 94 56 [95, 50, 122, 153],
     gmon 42 56 [44, 95, 100, 109],
     gmon 93 55 [95, 50, 122, 93],
     gmon 24 58 [40, 51, 144, 44],
     gmon 94 60 [95, 94, 122, 50]]"

definition kLance :: "LordGymMon list" where
  "kLance =
    [gmon 130 58 [44, 8, 82, 58],
     gmon 148 56 [44, 86, 82, 86],
     gmon 148 56 [8, 36, 82, 58],
     gmon 142 60 [17, 8, 134, 102],
     gmon 149 62 [8, 7, 82, 31]]"

definition kChampion :: "LordGymMon list" where
  "kChampion =
    [gmon 18 61 [17, 16, 19, 31],
     gmon 65 59 [6, 100, 60, 94],
     gmon 112 61 [91, 88, 36, 102],
     gmon 59 61 [33, 39, 53, 36],
     gmon 103 63 [71, 76, 153, 47],
     gmon 6 65 [35, 56, 53, 102]]"

definition kE4 :: "LordE4Member list" where
  "kE4 =
    [\<lparr>e4_name = ''Lorelei'', e4_title = ''Elite Four'', e4_typeFlavor = ''Ice'', e4_roster = kLorelei\<rparr>,
     \<lparr>e4_name = ''Bruno'', e4_title = ''Elite Four'', e4_typeFlavor = ''Fighting'', e4_roster = kBruno\<rparr>,
     \<lparr>e4_name = ''Agatha'', e4_title = ''Elite Four'', e4_typeFlavor = ''Ghost'', e4_roster = kAgatha\<rparr>,
     \<lparr>e4_name = ''Lance'', e4_title = ''Elite Four'', e4_typeFlavor = ''Dragon'', e4_roster = kLance\<rparr>,
     \<lparr>e4_name = ''Blue'', e4_title = ''Champion'', e4_typeFlavor = ''Mixed'', e4_roster = kChampion\<rparr>]"

definition kRoute0 :: "LordRouteEncounter list" where
  "kRoute0 =
    [enc 16 3 6 [33, 45, 0, 0] 10,
     enc 19 2 4 [33, 39, 0, 0] 10,
     enc 10 3 5 [33, 81, 0, 0] 8,
     enc 13 3 5 [40, 81, 0, 0] 8,
     enc 25 3 5 [33, 84, 0, 0] 1]"

definition kRoute1 :: "LordRouteEncounter list" where
  "kRoute1 =
    [enc 41 7 11 [44, 100, 0, 0] 10,
     enc 74 7 10 [33, 88, 0, 0] 9,
     enc 46 8 10 [10, 77, 0, 0] 6,
     enc 35 8 11 [39, 47, 0, 0] 3,
     enc 39 8 11 [33, 47, 0, 0] 2]"

definition kRoute2 :: "LordRouteEncounter list" where
  "kRoute2 =
    [enc 50 15 19 [10, 28, 0, 0] 10,
     enc 56 11 15 [10, 43, 0, 0] 9,
     enc 17 12 15 [16, 98, 0, 0] 8,
     enc 52 12 14 [10, 39, 0, 0] 6,
     enc 21 11 14 [64, 39, 0, 0] 5]"

definition kRoute3 :: "LordRouteEncounter list" where
  "kRoute3 =
    [enc 95 17 22 [88, 20, 0, 0] 10,
     enc 74 17 21 [33, 88, 0, 0] 10,
     enc 66 17 21 [10, 70, 0, 0] 9,
     enc 115 18 22 [33, 23, 0, 0] 3,
     enc 100 17 21 [33, 84, 0, 0] 4]"

definition kRoute4 :: "LordRouteEncounter list" where
  "kRoute4 =
    [enc 69 21 24 [22, 71, 0, 0] 10,
     enc 43 22 25 [71, 77, 0, 0] 10,
     enc 84 21 25 [64, 33, 0, 0] 9,
     enc 48 22 24 [33, 79, 0, 0] 8,
     enc 70 23 26 [22, 71, 0, 0] 4]"

definition kRoute5 :: "LordRouteEncounter list" where
  "kRoute5 =
    [enc 92 25 28 [122, 50, 0, 0] 10,
     enc 93 28 32 [122, 50, 0, 0] 6,
     enc 29 24 28 [33, 39, 0, 0] 9,
     enc 32 24 28 [33, 43, 0, 0] 9,
     enc 113 30 33 [39, 47, 0, 0] 1]"

definition kRoute6 :: "LordRouteEncounter list" where
  "kRoute6 =
    [enc 84 29 32 [64, 33, 0, 0] 10,
     enc 22 30 34 [64, 19, 0, 0] 8,
     enc 17 29 33 [16, 98, 0, 0] 8,
     enc 98 30 32 [33, 55, 0, 0] 9,
     enc 86 30 33 [71, 62, 0, 0] 8]"

definition kRoute7 :: "LordRouteEncounter list" where
  "kRoute7 =
    [enc 126 32 36 [52, 33, 0, 0] 10,
     enc 77 32 36 [52, 36, 0, 0] 9,
     enc 88 31 35 [33, 51, 0, 0] 9,
     enc 109 32 36 [33, 51, 0, 0] 9,
     enc 150 40 42 [94, 60, 0, 0] 1]"

definition kRoutes :: "(string \<times> LordRouteEncounter list) list" where
  "kRoutes =
    [(''Viridian Forest'', kRoute0),
     (''Mt. Moon'', kRoute1),
     (''Diglett'' @ [CHR 0x27] @ ''s Cave'', kRoute2),
     (''Rock Tunnel'', kRoute3),
     (''Cycling Road'', kRoute4),
     (''Safari Zone'', kRoute5),
     (''Seafoam Islands'', kRoute6),
     (''Cerulean Cave'', kRoute7)]"

definition kCoverageByType :: "nat list" where
  "kCoverageByType =
    [36, 70, 19, 188, 89, 88, 19, 63, 122, 53, 56, 76, 87, 94, 58, 82]"

definition PVPC_POOL :: "(nat \<times> nat list) list" where
  "PVPC_POOL =
    [(4, [10, 45, 52, 0]),
     (7, [33, 39, 55, 0]),
     (1, [33, 45, 22, 0]),
     (25, [84, 45, 98, 0]),
     (52, [10, 45, 44, 0]),
     (6, [52, 17, 10, 0]),
     (16, [33, 45, 16, 0]),
     (19, [33, 39, 98, 0]),
     (41, [33, 141, 0, 0]),
     (74, [33, 88, 0, 0]),
     (92, [93, 45, 0, 0]),
     (54, [55, 10, 0, 0]),
     (66, [2, 33, 0, 0]),
     (60, [145, 33, 0, 0]),
     (23, [33, 45, 44, 0]),
     (27, [10, 33, 88, 0])]"

end
