(* ===== verification/LordState.thy ===== *)
theory LordState
  imports LordTables
begin

text \<open>
  The persistent state of the campaign (\<^verbatim>\<open>LordSave.h\<close>, \<^verbatim>\<open>LordSave.cpp\<close>): the record,
  its bytes in the file \<^verbatim>\<open>lord.dat\<close>, loading with its checks, and the ring of news.  The struct
  is packed and written in the byte order of the device, little-endian on the ESP32; the padding
  members are part of it.  A file is the list of its bytes, a missing file \<open>None\<close>.
\<close>

subsection \<open>The record\<close>

abbreviation (input) LORD_MAGIC :: nat where "LORD_MAGIC \<equiv> 0x4C4F5244"
abbreviation (input) LORD_VERSION :: nat where "LORD_VERSION \<equiv> 1"
abbreviation (input) LORD_NEWS_CAP :: nat where "LORD_NEWS_CAP \<equiv> 8"
abbreviation (input) LORD_NEWS_NONE :: nat where "LORD_NEWS_NONE \<equiv> 0"
abbreviation (input) LORD_NEWS_BADGE :: nat where "LORD_NEWS_BADGE \<equiv> 1"
abbreviation (input) LORD_NEWS_BEST_RUN :: nat where "LORD_NEWS_BEST_RUN \<equiv> 2"
abbreviation (input) LORD_NEWS_CENTURY :: nat where "LORD_NEWS_CENTURY \<equiv> 3"
abbreviation (input) LORD_NEWS_RUN_ENDED :: nat where "LORD_NEWS_RUN_ENDED \<equiv> 4"

record LordNewsEntry =
  ne_ts :: nat
  ne_type :: nat
  ne_arg1 :: nat
  ne_arg2 :: nat
  ne_reserved :: nat

record LordSave =
  ls_magic :: nat
  ls_version :: nat
  badges :: nat
  ls_pad0 :: nat
  nextResetEpoch :: nat
  exploreRunsToday :: nat
  exploreUnlimited :: nat
  ls_pad1 :: nat
  totalRuns :: nat
  totalWavesBeaten :: nat
  bestRunXp :: nat
  bestRunWaves :: nat
  bestRunHighestLevel :: nat
  ls_pad2 :: nat
  gymProgress :: "nat list"
  newsHead :: nat
  newsCount :: nat
  ls_pad3 :: nat
  news :: "LordNewsEntry list"
  e4Progress :: nat
  leagueCleared :: nat
  ngPlusTier :: nat
  ls_pad4 :: nat
  gymTierCleared :: "nat list"
  e4TierCleared :: nat
  ls_pad5 :: "nat list"
  ls_reserved :: "nat list"

definition lordInitDefaults :: LordSave where
  "lordInitDefaults = \<lparr>ls_magic = LORD_MAGIC, ls_version = LORD_VERSION, badges = 0, ls_pad0 = 0,
     nextResetEpoch = 0, exploreRunsToday = 0, exploreUnlimited = 0, ls_pad1 = 0, totalRuns = 0,
     totalWavesBeaten = 0, bestRunXp = 0, bestRunWaves = 0, bestRunHighestLevel = 0, ls_pad2 = 0,
     gymProgress = replicate 8 0, newsHead = 0, newsCount = 0, ls_pad3 = 0,
     news = replicate 8 \<lparr>ne_ts = 0, ne_type = 0, ne_arg1 = 0, ne_arg2 = 0, ne_reserved = 0\<rparr>,
     e4Progress = 0, leagueCleared = 0, ngPlusTier = 0, ls_pad4 = 0, gymTierCleared = replicate 8 0,
     e4TierCleared = 0, ls_pad5 = replicate 3 0, ls_reserved = replicate 112 0\<rparr>"

text \<open>\<open>ts\<close> is the clock \<open>getTime()\<close> reads.\<close>

definition lordAppendNews :: "nat \<Rightarrow> nat \<Rightarrow> nat \<Rightarrow> nat \<Rightarrow> LordSave \<Rightarrow> LordSave" where
  "lordAppendNews ts ty arg1 arg2 s =
     s\<lparr>news := (news s)[newsHead s := \<lparr>ne_ts = ts, ne_type = ty, ne_arg1 = arg1, ne_arg2 = arg2, ne_reserved = 0\<rparr>],
       newsHead := (newsHead s + 1) mod LORD_NEWS_CAP,
       newsCount := (if newsCount s < LORD_NEWS_CAP then newsCount s + 1 else newsCount s)\<rparr>"

subsection \<open>The file\<close>

fun le_bytes :: "nat \<Rightarrow> nat \<Rightarrow> nat list" where
  "le_bytes 0 v = []"
| "le_bytes (Suc n) v = v mod 256 # le_bytes n (v div 256)"

fun le_value :: "nat list \<Rightarrow> nat" where
  "le_value [] = 0"
| "le_value (b # bs) = b + 256 * le_value bs"

definition newsBytes :: "LordNewsEntry \<Rightarrow> nat list" where
  "newsBytes e = le_bytes 4 (ne_ts e) @ le_bytes 1 (ne_type e) @ le_bytes 1 (ne_arg1 e) @ le_bytes 2 (ne_arg2 e)
     @ le_bytes 4 (ne_reserved e)"

definition lordBytes :: "LordSave \<Rightarrow> nat list" where
  "lordBytes s = le_bytes 4 (ls_magic s) @ le_bytes 1 (ls_version s) @ le_bytes 1 (badges s) @ le_bytes 2 (ls_pad0 s)
     @ le_bytes 4 (nextResetEpoch s) @ le_bytes 1 (exploreRunsToday s) @ le_bytes 1 (exploreUnlimited s) @ le_bytes 2 (ls_pad1 s)
     @ le_bytes 4 (totalRuns s) @ le_bytes 4 (totalWavesBeaten s) @ le_bytes 4 (bestRunXp s) @ le_bytes 2 (bestRunWaves s)
     @ le_bytes 1 (bestRunHighestLevel s) @ le_bytes 1 (ls_pad2 s) @ gymProgress s
     @ le_bytes 1 (newsHead s) @ le_bytes 1 (newsCount s) @ le_bytes 2 (ls_pad3 s) @ concat (map newsBytes (news s))
     @ le_bytes 1 (e4Progress s) @ le_bytes 1 (leagueCleared s) @ le_bytes 1 (ngPlusTier s) @ le_bytes 1 (ls_pad4 s)
     @ gymTierCleared s @ le_bytes 1 (e4TierCleared s) @ ls_pad5 s @ ls_reserved s"

abbreviation (input) LORD_BYTES :: nat where "LORD_BYTES \<equiv> 268"

definition field :: "nat \<Rightarrow> nat \<Rightarrow> nat list \<Rightarrow> nat list" where
  "field off n bs = take n (drop off bs)"

definition newsOf :: "nat list \<Rightarrow> LordNewsEntry" where
  "newsOf b = \<lparr>ne_ts = le_value (field 0 4 b), ne_type = le_value (field 4 1 b), ne_arg1 = le_value (field 5 1 b),
     ne_arg2 = le_value (field 6 2 b), ne_reserved = le_value (field 8 4 b)\<rparr>"

definition lordOf :: "nat list \<Rightarrow> LordSave" where
  "lordOf b = \<lparr>ls_magic = le_value (field 0 4 b), ls_version = le_value (field 4 1 b), badges = le_value (field 5 1 b),
     ls_pad0 = le_value (field 6 2 b), nextResetEpoch = le_value (field 8 4 b), exploreRunsToday = le_value (field 12 1 b),
     exploreUnlimited = le_value (field 13 1 b), ls_pad1 = le_value (field 14 2 b), totalRuns = le_value (field 16 4 b),
     totalWavesBeaten = le_value (field 20 4 b), bestRunXp = le_value (field 24 4 b), bestRunWaves = le_value (field 28 2 b),
     bestRunHighestLevel = le_value (field 30 1 b), ls_pad2 = le_value (field 31 1 b), gymProgress = field 32 8 b,
     newsHead = le_value (field 40 1 b), newsCount = le_value (field 41 1 b), ls_pad3 = le_value (field 42 2 b),
     news = map (\<lambda>i. newsOf (field (44 + 12 * i) 12 b)) [0..<8], e4Progress = le_value (field 140 1 b),
     leagueCleared = le_value (field 141 1 b), ngPlusTier = le_value (field 142 1 b), ls_pad4 = le_value (field 143 1 b),
     gymTierCleared = field 144 8 b, e4TierCleared = le_value (field 152 1 b), ls_pad5 = field 153 3 b,
     ls_reserved = field 156 112 b\<rparr>"

text \<open>
  Loading: the defaults unless the file is there, not shorter than the struct, and its magic and version
  are right; the flag is the result of the function.
\<close>

definition lordLoad :: "nat list option \<Rightarrow> bool \<times> LordSave" where
  "lordLoad file =
     (case file of None \<Rightarrow> (False, lordInitDefaults)
      | Some bs \<Rightarrow>
          (let tmp = lordOf bs
           in if length bs < LORD_BYTES then (False, lordInitDefaults)
              else if ls_magic tmp \<noteq> LORD_MAGIC then (False, lordInitDefaults)
              else if ls_version tmp \<noteq> LORD_VERSION then (False, lordInitDefaults)
              else (True, tmp)))"

text \<open>
  Writing: the old file is removed first; \<open>written\<close> is how many bytes the file system accepts, \<open>None\<close>
  when the file cannot be opened.
\<close>

definition lordSave :: "nat option \<Rightarrow> LordSave \<Rightarrow> bool \<times> nat list option" where
  "lordSave written s =
     (case written of None \<Rightarrow> (False, None)
      | Some n \<Rightarrow> (n = LORD_BYTES, Some (take n (lordBytes s))))"

subsection \<open>Round trip\<close>

lemma length_le_bytes [simp]: "length (le_bytes n v) = n"
  by (induction n v rule: le_bytes.induct) simp_all

lemma le_value_bytes [simp]: "v < 256 ^ n \<Longrightarrow> le_value (le_bytes n v) = v"
proof (induction n v rule: le_bytes.induct)
  case (2 n v)
  then have "v div 256 < 256 ^ n" by (simp add: less_mult_imp_div_less mult.commute)
  with 2 show ?case by simp
qed simp

lemma field_skip: "length xs \<le> off \<Longrightarrow> field off n (xs @ ys) = field (off - length xs) n ys"
  by (simp add: field_def)

lemma field_here: "length xs = n \<Longrightarrow> field 0 n (xs @ ys) = xs"
  by (simp add: field_def)

lemma field_all: "length xs = n \<Longrightarrow> field 0 n xs = xs"
  by (simp add: field_def)

text \<open>Every member within its C type, every array at its length.\<close>

definition news_fit :: "LordNewsEntry \<Rightarrow> bool" where
  "news_fit e \<longleftrightarrow> ne_ts e < 4294967296 \<and> ne_type e < 256 \<and> ne_arg1 e < 256 \<and> ne_arg2 e < 65536 \<and> ne_reserved e < 4294967296"

definition lord_fit :: "LordSave \<Rightarrow> bool" where
  "lord_fit s \<longleftrightarrow> ls_magic s < 4294967296 \<and> ls_version s < 256 \<and> badges s < 256 \<and> ls_pad0 s < 65536
     \<and> nextResetEpoch s < 4294967296 \<and> exploreRunsToday s < 256 \<and> exploreUnlimited s < 256 \<and> ls_pad1 s < 65536
     \<and> totalRuns s < 4294967296 \<and> totalWavesBeaten s < 4294967296 \<and> bestRunXp s < 4294967296 \<and> bestRunWaves s < 65536
     \<and> bestRunHighestLevel s < 256 \<and> ls_pad2 s < 256 \<and> length (gymProgress s) = 8 \<and> list_all (\<lambda>b. b < 256) (gymProgress s)
     \<and> newsHead s < 8 \<and> newsCount s \<le> 8 \<and> ls_pad3 s < 65536 \<and> length (news s) = 8 \<and> list_all news_fit (news s)
     \<and> e4Progress s < 256 \<and> leagueCleared s < 256 \<and> ngPlusTier s < 256 \<and> ls_pad4 s < 256
     \<and> length (gymTierCleared s) = 8 \<and> list_all (\<lambda>b. b < 256) (gymTierCleared s) \<and> e4TierCleared s < 256
     \<and> length (ls_pad5 s) = 3 \<and> list_all (\<lambda>b. b < 256) (ls_pad5 s)
     \<and> length (ls_reserved s) = 112 \<and> list_all (\<lambda>b. b < 256) (ls_reserved s)"

lemma length_newsBytes [simp]: "length (newsBytes e) = 12"
  by (simp add: newsBytes_def)

lemma newsOf_bytes: "news_fit e \<Longrightarrow> newsOf (newsBytes e) = e"
  by (simp add: newsOf_def newsBytes_def news_fit_def field_skip field_here field_all del: le_bytes.simps)

lemma length_concat_news [simp]: "length (concat (map newsBytes es)) = 12 * length es"
  by (induction es) simp_all

lemma field_news: "i < length es \<Longrightarrow> field (12 * i) 12 (concat (map newsBytes es) @ ys) = newsBytes (es ! i)"
proof (induction es arbitrary: i)
  case (Cons e es)
  show ?case
  proof (cases i)
    case 0
    then show ?thesis by (simp add: field_here)
  next
    case (Suc j)
    then have "field (12 * i) 12 (newsBytes e @ (concat (map newsBytes es) @ ys)) = field (12 * j) 12 (concat (map newsBytes es) @ ys)"
      by (subst field_skip) simp_all
    with Suc Cons show ?thesis by simp
  qed
qed simp

lemma length_lordBytes: "lord_fit s \<Longrightarrow> length (lordBytes s) = 268"
  by (simp add: lordBytes_def lord_fit_def del: le_bytes.simps)

lemma lordOf_bytes:
  assumes "lord_fit s"
  shows "lordOf (lordBytes s) = s"
proof -
  let ?b = "lordBytes s"
  note fit = assms [unfolded lord_fit_def]
  have lens: "length (gymProgress s) = 8" "length (news s) = 8" "length (gymTierCleared s) = 8" "length (ls_pad5 s) = 3"
    "length (ls_reserved s) = 112" using fit by simp_all
  note fs = field_skip field_here field_all lens
  have nw: "map (\<lambda>i. newsOf (field (44 + 12 * i) 12 ?b)) [0..<8] = news s"
  proof (rule nth_equalityI)
    show "length (map (\<lambda>i. newsOf (field (44 + 12 * i) 12 ?b)) [0..<8]) = length (news s)" by (simp add: lens)
    fix i assume "i < length (map (\<lambda>i. newsOf (field (44 + 12 * i) 12 ?b)) [0..<8])"
    then have i: "i < 8" by simp
    have "field (44 + 12 * i) 12 ?b = newsBytes (news s ! i)"
      using i field_news [of i "news s"] by (simp add: lordBytes_def fs del: le_bytes.simps)
    moreover have "news_fit (news s ! i)" using fit i by (simp add: list_all_length)
    ultimately show "map (\<lambda>i. newsOf (field (44 + 12 * i) 12 ?b)) [0..<8] ! i = news s ! i"
      using i newsOf_bytes by simp
  qed
  show ?thesis unfolding lordOf_def nw
    using fit by (simp add: lordBytes_def fs del: le_bytes.simps)
qed

end
