(* ===== verification/LordLogic.thy ===== *)
theory LordLogic
  imports LordState SpeciesTables
begin

text \<open>
  The rules of the campaign (\<^verbatim>\<open>LordLogic.cpp\<close>): the daily reset at nine in the morning, runs
  and badges, which gyms are open, and what a higher tier does to levels and moves.
\<close>

subsection \<open>Daily reset\<close>

text \<open>Division of a signed integer in C rounds towards zero.\<close>

definition cdiv :: "int \<Rightarrow> int \<Rightarrow> int" where
  "cdiv a b = (if a < 0 then - ((- a) div b) else a div b)"

definition nextBoundaryUtc :: "nat \<Rightarrow> int \<Rightarrow> nat" where
  "nextBoundaryUtc nowEpoch tzOffsetHours =
     (let tzSec = tzOffsetHours * 3600;
          local = int nowEpoch + tzSec;
          shifted = local - 32400;
          shifted = (if shifted < 0 then shifted - 86399 else shifted);
          lastBoundaryLocal = cdiv shifted 86400 * 86400 + 32400;
          nextBoundaryLocal = lastBoundaryLocal + 86400
      in nat ((nextBoundaryLocal - tzSec) mod 4294967296))"

definition lordApplyDailyReset :: "nat \<Rightarrow> int \<Rightarrow> LordSave \<Rightarrow> LordSave" where
  "lordApplyDailyReset nowEpoch tzOffsetHours s =
     (if nowEpoch = 0 then s
      else if nextResetEpoch s = 0 \<or> nextResetEpoch s \<le> nowEpoch then
        s\<lparr>exploreRunsToday := 0, nextResetEpoch := nextBoundaryUtc nowEpoch tzOffsetHours\<rparr>
      else s)"

subsection \<open>Runs and badges\<close>

record LordRunStats =
  wavesBeaten :: nat
  xpEarned :: nat
  highestOppLevel :: nat

definition lordResetRunStats :: LordRunStats where
  "lordResetRunStats = \<lparr>wavesBeaten = 0, xpEarned = 0, highestOppLevel = 0\<rparr>"

definition lordOnRunEnd :: "nat \<Rightarrow> LordRunStats \<Rightarrow> LordSave \<Rightarrow> LordSave" where
  "lordOnRunEnd ts r s =
     (let newBestWaves = (wavesBeaten r > bestRunWaves s); newBestXp = (xpEarned r > bestRunXp s);
          s = s\<lparr>totalRuns := u32 (totalRuns s + 1), totalWavesBeaten := u32 (totalWavesBeaten s + wavesBeaten r),
                bestRunWaves := max (bestRunWaves s) (wavesBeaten r), bestRunXp := max (bestRunXp s) (xpEarned r),
                bestRunHighestLevel := max (bestRunHighestLevel s) (highestOppLevel r)\<rparr>;
          s = lordAppendNews ts LORD_NEWS_RUN_ENDED 0 (wavesBeaten r) s;
          s = (if newBestWaves \<or> newBestXp then lordAppendNews ts LORD_NEWS_BEST_RUN 0 (bestRunWaves s) s else s)
      in if totalRuns s mod 100 = 0 then lordAppendNews ts LORD_NEWS_CENTURY 0 (u16 (totalRuns s)) s else s)"

definition lordHasBadge :: "LordSave \<Rightarrow> nat \<Rightarrow> bool" where
  "lordHasBadge s gymIdx \<longleftrightarrow> gymIdx < 8 \<and> bit (badges s) gymIdx"

definition lordOnGymCleared :: "nat \<Rightarrow> nat \<Rightarrow> LordSave \<Rightarrow> LordSave" where
  "lordOnGymCleared ts gymIdx s =
     (if 8 \<le> gymIdx then s
      else
       (let s' = s\<lparr>badges := or (badges s) (2 ^ gymIdx), gymProgress := (gymProgress s)[gymIdx := 5]\<rparr>
        in if bit (badges s) gymIdx then s' else lordAppendNews ts LORD_NEWS_BADGE gymIdx 0 s'))"

definition lordGymUnlocked :: "LordSave \<Rightarrow> nat \<Rightarrow> bool" where
  "lordGymUnlocked s gymIdx \<longleftrightarrow>
     (if 8 \<le> gymIdx then False else if gymIdx = 0 then True else list_all (lordHasBadge s) [0..<gymIdx])"

subsection \<open>Tiers\<close>

definition lordScaleLevel :: "nat \<Rightarrow> nat \<Rightarrow> bool \<Rightarrow> nat" where
  "lordScaleLevel baseLevel tier isE4 =
     (if tier = 0 then baseLevel
      else
       (let gymLvl = (if tier = 1 then 60 else if tier = 2 then 70 else if tier = 3 then 80 else if tier = 4 then 90 else 100);
            target = (if isE4 then gymLvl + 10 else gymLvl);
            target = (if target > 100 then 100 else target)
        in if baseLevel > target then baseLevel else target))"

text \<open>The value the global tier takes.\<close>

definition lordSetCurrentNgPlusTier :: "nat \<Rightarrow> nat" where
  "lordSetCurrentNgPlusTier tier = (if tier > 5 then 5 else tier)"

definition coverageMoves :: "nat \<Rightarrow> nat \<times> nat" where
  "coverageMoves dex =
     (let b = GEN1_BASE_STATS ! dex
      in (if b1_type1 b < 16 then kCoverageByType ! b1_type1 b else 0,
          if b1_type2 b < 16 \<and> b1_type2 b \<noteq> b1_type1 b then kCoverageByType ! b1_type2 b else 0))"

definition knows :: "nat list \<Rightarrow> nat \<Rightarrow> bool" where
  "knows ms mv \<longleftrightarrow> mv = 0 \<or> mv \<in> set (take 4 ms)"

definition overlayMoves :: "nat \<times> nat \<Rightarrow> nat \<Rightarrow> nat list \<Rightarrow> nat list" where
  "overlayMoves covs tier ms =
     (let (cov1, cov2) = covs;
          firstBuff = (if \<not> knows ms cov1 then cov1 else if \<not> knows ms cov2 then cov2 else 0);
          ms = (if firstBuff \<noteq> 0 then ms[3 := firstBuff] else ms);
          secondBuff = (if cov1 \<noteq> firstBuff \<and> \<not> knows ms cov1 then cov1
                        else if cov2 \<noteq> firstBuff \<and> \<not> knows ms cov2 then cov2 else 0);
          ms = (if 2 \<le> tier \<and> secondBuff \<noteq> 0 then ms[2 := secondBuff] else ms)
      in if 3 \<le> tier \<and> \<not> knows ms 99 then ms[3 := 99] else ms)"

definition lordApplyNgPlusMoves :: "nat \<Rightarrow> nat \<Rightarrow> nat list \<Rightarrow> nat list" where
  "lordApplyNgPlusMoves dex tier ms =
     (if tier = 0 \<or> 152 \<le> dex then ms else overlayMoves (coverageMoves dex) tier ms)"

end
