(* ===== verification/LordParty.thy ===== *)
theory LordParty
  imports LordLogic BattleSession GrowthCurves DaycareTypes
begin

text \<open>
  Opponents of local battles as save parties: gym trainers (\<^verbatim>\<open>LordGyms.cpp\<close>), the Elite Four
  (\<^verbatim>\<open>LordE4.cpp\<close>), wild monsters (\<^verbatim>\<open>LordRoutes.cpp\<close>), and a trainer known from
  the daycare or the computer's party (\<^verbatim>\<open>MonsterMeshModule.cpp\<close>, lines 3457 to 3552).
  \<open>tier\<close> is the global tier, \<open>r\<close> arguments are the values \<open>esp_random()\<close> returns.
\<close>

subsection \<open>One monster from a table row\<close>

text \<open>The C string in an array of 11 bytes that was zero.\<close>

definition nickField :: "string \<Rightarrow> byte list" where
  "nickField s = map (\<lambda>c. of_nat (of_char c)) (snprintf 11 s) @ replicate (11 - length (snprintf 11 s)) 0"

definition savedFromBase :: "nat \<Rightarrow> nat \<Rightarrow> nat list \<Rightarrow> Gen1Pokemon" where
  "savedFromBase dex lvl mvs =
     (let tmp = initBattlePokeFromBase dex lvl mvs 1
      in zeroSaved\<lparr>sv_species := of_nat (if dex < 152 then dexToInternal ! dex else 0),
           sv_boxLevel := of_nat lvl, sv_level := of_nat lvl,
           sv_maxHp := setBe16 (maxHp tmp), sv_hp := setBe16 (hp tmp), sv_atk := setBe16 (atk tmp),
           sv_def := setBe16 (dfn tmp), sv_spd := setBe16 (spd tmp), sv_spc := setBe16 (spc tmp),
           sv_type1 := of_nat (type1 tmp), sv_type2 := of_nat (type2 tmp), sv_dvs := [0x88, 0x88],
           sv_moves := map of_nat (take 4 mvs),
           sv_pp := map (\<lambda>m. case gen1Move m of Some d \<Rightarrow> of_nat (mpp d) | None \<Rightarrow> 0) (take 4 mvs)\<rparr>)"

definition putMon :: "nat \<Rightarrow> Gen1Pokemon \<Rightarrow> string \<Rightarrow> Gen1Party \<Rightarrow> Gen1Party" where
  "putMon slot m nick p = p\<lparr>gp_mons := (gp_mons p)[slot := m], gp_species := (gp_species p)[slot := sv_species m],
     gp_nicknames := (gp_nicknames p)[slot := nickField nick]\<rparr>"

definition writeMonToParty :: "bool \<Rightarrow> nat \<Rightarrow> nat \<Rightarrow> LordGymMon \<Rightarrow> string \<Rightarrow> Gen1Party \<Rightarrow> Gen1Party" where
  "writeMonToParty isE4 tier slot src nick p =
     (let lvl = lordScaleLevel (gm_level src) tier isE4;
          mvs = lordApplyNgPlusMoves (gm_species src) tier (gm_moves src)
      in putMon slot (savedFromBase (gm_species src) lvl mvs) nick p)"

subsection \<open>Gyms and the Elite Four\<close>

definition lordGym :: "nat \<Rightarrow> LordGym option" where
  "lordGym i = (if 8 \<le> i then None else Some (LORD_GYMS ! i))"

text \<open>The average is taken in a \<open>uint8_t\<close>.\<close>

definition avgLevel :: "LordGymMon list \<Rightarrow> nat" where
  "avgLevel ms = foldl (\<lambda>a m. u8 (a + gm_level m)) 0 ms div length ms"

definition lordBuildGymParty :: "nat \<Rightarrow> nat \<Rightarrow> nat \<Rightarrow> Gen1Party option" where
  "lordBuildGymParty tier gymIdx trainerIdx =
     (case lordGym gymIdx of None \<Rightarrow> None
      | Some g \<Rightarrow>
         (if 5 \<le> trainerIdx then None
          else
           (let (name, party) = lg_trainers g ! trainerIdx; n = min 6 (length party); avg = avgLevel (take n party)
            in if party = [] then None
               else
                (let p = fold (\<lambda>i. writeMonToParty False tier i (party ! i) name) [0..<n] emptySaveParty;
                     p = fold (\<lambda>i. let (sp, ms) = GYM_FILL ! gymIdx ! (i mod 6)
                                   in writeMonToParty False tier i (gmon sp avg ms) name) [n..<6] p
                 in Some (p\<lparr>gp_count := 6\<rparr>)))))"

definition lordE4Member :: "nat \<Rightarrow> LordE4Member option" where
  "lordE4Member i = (if i < 5 then Some (kE4 ! i) else None)"

definition lordBuildE4Party :: "nat \<Rightarrow> nat \<Rightarrow> Gen1Party option" where
  "lordBuildE4Party tier idx =
     (case lordE4Member idx of None \<Rightarrow> None
      | Some m \<Rightarrow>
         (if e4_roster m = [] then None
          else
           (let n = min 6 (length (e4_roster m))
            in Some (fold (\<lambda>i. writeMonToParty True tier i (e4_roster m ! i) (e4_name m)) [0..<n]
                       (emptySaveParty\<lparr>gp_count := of_nat n\<rparr>)))))"

subsection \<open>Wild monsters\<close>

definition lordRoute :: "nat \<Rightarrow> (string \<times> LordRouteEncounter list) option" where
  "lordRoute i = (if i < 8 then Some (kRoutes ! i) else None)"

fun pickByWeight :: "nat \<Rightarrow> nat \<Rightarrow> LordRouteEncounter list \<Rightarrow> LordRouteEncounter option" where
  "pickByWeight x acc [] = None"
| "pickByWeight x acc (e # es) =
     (let acc = u16 (acc + re_weight e) in if x < acc then Some e else pickByWeight x acc es)"

definition lordPickWildEncounter :: "nat \<Rightarrow> nat \<Rightarrow> nat \<Rightarrow> Gen1Party option" where
  "lordPickWildEncounter r1 r2 routeIdx =
     (case lordRoute routeIdx of None \<Rightarrow> None
      | Some (name, pool) \<Rightarrow>
         (let total = foldl (\<lambda>a e. u16 (a + re_weight e)) 0 pool
          in if pool = [] \<or> total = 0 then None
             else
              (let pick = (case pickByWeight (r1 mod total) 0 pool of Some e \<Rightarrow> e | None \<Rightarrow> pool ! 0);
                   span = (if re_levelMin pick \<le> re_levelMax pick then u8 (re_levelMax pick - re_levelMin pick + 1) else 1);
                   level = u8 (re_levelMin pick + r2 mod span)
               in Some (putMon 0 (savedFromBase (re_species pick) level (re_moves pick)) ''WILD'' (emptySaveParty\<lparr>gp_count := 1\<rparr>)))))"

subsection \<open>Trainers of the mesh and the computer\<close>

definition exp24 :: "nat \<Rightarrow> byte list" where
  "exp24 e = [of_nat (e div 65536), of_nat (e div 256), of_nat e]"

definition plainSaved :: "nat \<Rightarrow> nat \<Rightarrow> nat list \<Rightarrow> Gen1Pokemon" where
  "plainSaved dex lvl mvs =
     zeroSaved\<lparr>sv_species := of_nat (if dex < 152 then dexToInternal ! dex else 0), sv_level := of_nat lvl,
       sv_boxLevel := of_nat lvl, sv_moves := map of_nat (take 4 mvs), sv_exp := exp24 (expForLevel dex lvl),
       sv_dvs := [0x88, 0x88]\<rparr>"

definition neighborParty :: "DaycareNeighborPokemon \<Rightarrow> Gen1Party" where
  "neighborParty n =
     (let k = (if nb_partyCount n > 6 then 6 else nb_partyCount n)
      in fold (\<lambda>i. let e = nb_party n ! i in putMon i (plainSaved (pe_species e) (pe_level e) (pe_moves e)) (pe_nickname e))
           [0..<k] (emptySaveParty\<lparr>gp_count := of_nat k\<rparr>))"

text \<open>The average level of the monsters that have one, 5 when none has.\<close>

definition partyAvg :: "Gen1Party \<Rightarrow> int" where
  "partyAvg me =
     (let ls = filter (\<lambda>l. l \<noteq> 0) (map (\<lambda>m. unat (sv_level m)) (take (unat (gp_count me)) (take 6 (gp_mons me))))
      in if ls = [] then 5 else int (sum_list ls div length ls))"

definition poolLevel :: "int \<Rightarrow> nat \<Rightarrow> nat" where
  "poolLevel avg r =
     (let lv = avg + int (r mod 7) - 3; lv = (if lv < 2 then 2 else lv)
      in nat (if lv > 100 then 100 else lv))"

fun poolPicks :: "nat option \<Rightarrow> (nat \<times> nat) list \<Rightarrow> nat list" where
  "poolPicks prev [] = []"
| "poolPicks prev ((r, l) # rs) =
     (let idx = r mod length PVPC_POOL; idx = (if Some idx = prev then (idx + 1) mod length PVPC_POOL else idx)
      in idx # poolPicks (Some idx) rs)"

text \<open>\<open>rs\<close>: for each monster the two random values, species first.  Nicknames stay empty.\<close>

definition pvpcParty :: "Gen1Party \<Rightarrow> (nat \<times> nat) list \<Rightarrow> Gen1Party" where
  "pvpcParty me rs =
     (let n = (if unat (gp_count me) > 6 then 6 else unat (gp_count me)); n = (if n = 0 then 1 else n);
          picks = poolPicks None (take n rs)
      in fold (\<lambda>i p. let (dex, mvs) = PVPC_POOL ! (picks ! i); m = plainSaved dex (poolLevel (partyAvg me) (snd (rs ! i))) mvs
                     in p\<lparr>gp_mons := (gp_mons p)[i := m], gp_species := (gp_species p)[i := sv_species m]\<rparr>)
           [0..<n] (emptySaveParty\<lparr>gp_count := of_nat n\<rparr>))"

end
