(* ===== verification/LordCampaign.thy ===== *)
theory LordCampaign
  imports LordParty BattlePlay
begin

text \<open>
  The campaign as it is played: the commands of the terminal and what it does with a result
  (\<^verbatim>\<open>MonsterMeshTerminal.cpp\<close>, lines 404 to 457, 467 to 488, 731 to 829, 900 to 925 and
  1268 to 1412), and the part of the module that starts a local battle, chains the trainers of a gym and
  of the Indigo Plateau, and stages the result (\<^verbatim>\<open>MonsterMeshModule.cpp\<close>, lines 3366 to
  3582 and 3647 to 3890, \<^verbatim>\<open>MonsterMeshModule.h\<close>, lines 262 to 297).  Printed lines,
  headers and battles with a gym on the mesh are left out.  255 stands for "none" in the index members.
\<close>

subsection \<open>State\<close>

datatype StagedEndKind = GYM | EXPLORE | E4 | FIGHT

record Campaign =
  lord :: LordSave
  lordLoaded :: bool
  flash :: "nat list option"
  curTier :: nat
  pendingRematchGym :: "nat option"
  partyLoaded :: bool
  myParty :: Gen1Party
  battle :: TextBattle
  textBattleStartReq :: bool
  gymBattleIdx :: nat
  gymTrainerIdx :: nat
  exploreRouteIdx :: nat
  e4MemberIdx :: nat
  fightTarget :: string
  fightSkipPeers :: bool
  textBattleActive :: bool
  activeGymBattle :: nat
  activeGymTrainer :: nat
  activeExploreRoute :: nat
  activeExploreLevel :: nat
  activeE4Member :: nat
  stagedXp :: "nat list"
  staged :: "(StagedEndKind \<times> nat \<times> nat \<times> bool) option"

text \<open>The device after power-on, with the file of the last session and the party of the cartridge.\<close>

definition boot :: "nat list option \<Rightarrow> bool \<Rightarrow> Gen1Party \<Rightarrow> nat \<Rightarrow> Campaign" where
  "boot file loaded p node = \<lparr>lord = lordInitDefaults\<lparr>ls_magic := 0, ls_version := 0\<rparr>, lordLoaded = False, flash = file,
     curTier = 0, pendingRematchGym = None, partyLoaded = loaded, myParty = p, battle = newBattle node,
     textBattleStartReq = False, gymBattleIdx = 255, gymTrainerIdx = 0, exploreRouteIdx = 255, e4MemberIdx = 255,
     fightTarget = [], fightSkipPeers = False, textBattleActive = False, activeGymBattle = 255,
     activeGymTrainer = 0, activeExploreRoute = 255, activeExploreLevel = 0, activeE4Member = 255,
     stagedXp = replicate 6 0, staged = None\<rparr>"

definition onLord :: "(LordSave \<Rightarrow> LordSave) \<Rightarrow> Campaign \<Rightarrow> Campaign" where
  "onLord f c = c\<lparr>lord := f (lord c)\<rparr>"

text \<open>\<open>wr\<close> is how many bytes the file system takes, \<open>None\<close> when it cannot open the file.\<close>

definition storeLord :: "nat option \<Rightarrow> Campaign \<Rightarrow> Campaign" where
  "storeLord wr c = c\<lparr>flash := snd (lordSave wr (lord c))\<rparr>"

subsection \<open>The terminal: commands\<close>

definition openTerminal :: "nat \<Rightarrow> Campaign \<Rightarrow> Campaign" where
  "openTerminal epoch c =
     (let c = (if lordLoaded c then c else c\<lparr>lord := snd (lordLoad (flash c)), lordLoaded := True\<rparr>);
          c = c\<lparr>curTier := lordSetCurrentNgPlusTier (ngPlusTier (lord c))\<rparr>
      in if epoch > 0 then onLord (lordApplyDailyReset epoch (- 4)) c else c)"

definition requestGymBattle :: "nat \<Rightarrow> nat \<Rightarrow> Campaign \<Rightarrow> Campaign" where
  "requestGymBattle gymIdx trainerIdx c = c\<lparr>textBattleStartReq := True, gymBattleIdx := gymIdx, gymTrainerIdx := trainerIdx\<rparr>"

definition requestExplore :: "nat \<Rightarrow> Campaign \<Rightarrow> Campaign" where
  "requestExplore routeIdx c = c\<lparr>textBattleStartReq := True, exploreRouteIdx := routeIdx\<rparr>"

definition requestE4Battle :: "nat \<Rightarrow> Campaign \<Rightarrow> Campaign" where
  "requestE4Battle memberIdx c = c\<lparr>textBattleStartReq := True, e4MemberIdx := memberIdx\<rparr>"

definition requestFight :: "string option \<Rightarrow> Campaign \<Rightarrow> Campaign" where
  "requestFight target c =
     (case target of
        None \<Rightarrow> c\<lparr>fightTarget := [], fightSkipPeers := True, textBattleStartReq := True\<rparr>
      | Some s \<Rightarrow> c\<lparr>fightTarget := take 4 s, fightSkipPeers := False, textBattleStartReq := True\<rparr>)"

text \<open>The fight \<open>gym fight\<close> picks without a number; 8 is the Indigo Plateau.\<close>

definition autoPick :: "LordSave \<Rightarrow> nat option" where
  "autoPick l =
     (case find (\<lambda>i. \<not> (lordHasBadge l i \<and> ngPlusTier l \<le> gymTierCleared l ! i) \<and> lordGymUnlocked l i) [0..<8] of
        Some i \<Rightarrow> Some i
      | None \<Rightarrow> if badges l = 255 \<and> e4Progress l < 5 then Some 8 else None)"

definition challengeGym :: "nat \<Rightarrow> Campaign \<Rightarrow> Campaign" where
  "challengeGym g c =
     (let l = lord c in
      if \<not> lordGymUnlocked l g then c
      else if lordHasBadge l g \<and> ngPlusTier l \<le> gymTierCleared l ! g then c\<lparr>pendingRematchGym := Some g\<rparr>
      else
       (let c = (if lordHasBadge l g then onLord (\<lambda>l. l\<lparr>gymProgress := (gymProgress l)[g := 0]\<rparr>) c else c);
            t = gymProgress (lord c) ! g
        in requestGymBattle g (if t > 4 then 4 else t) c))"

definition challengeLeague :: "Campaign \<Rightarrow> Campaign" where
  "challengeLeague c =
     (if badges (lord c) \<noteq> 255 then c
      else
       (let c = (if leagueCleared (lord c) \<noteq> 0 \<and> 5 \<le> e4Progress (lord c) then onLord (\<lambda>l. l\<lparr>e4Progress := 0\<rparr>) c else c);
            k = e4Progress (lord c)
        in requestE4Battle (if k > 4 then 4 else k) c))"

definition gymFight :: "nat \<Rightarrow> Campaign \<Rightarrow> Campaign" where
  "gymFight n c =
     (case (if n = 0 then autoPick (lord c) else if n \<le> 9 then Some (n - 1) else None) of
        None \<Rightarrow> c
      | Some g \<Rightarrow> if \<not> partyLoaded c then c else if g = 8 then challengeLeague c else challengeGym g c)"

definition popcount :: "nat \<Rightarrow> nat" where
  "popcount m = length (filter (bit m) [0..<8])"

definition explore :: "Campaign \<Rightarrow> Campaign" where
  "explore c = (if \<not> partyLoaded c then c else requestExplore (min 7 (popcount (badges (lord c)))) c)"

definition devAll8 :: "nat option \<Rightarrow> Campaign \<Rightarrow> Campaign" where
  "devAll8 wr c =
     storeLord wr ((onLord (\<lambda>l. l\<lparr>badges := 255, e4Progress := 0, leagueCleared := 0, e4TierCleared := 0, ngPlusTier := 0,
       gymProgress := replicate 8 5, gymTierCleared := replicate 8 0\<rparr>) c)\<lparr>curTier := lordSetCurrentNgPlusTier 0\<rparr>)"

definition devClear :: "nat option \<Rightarrow> Campaign \<Rightarrow> Campaign" where
  "devClear wr c = storeLord wr ((onLord (\<lambda>l. lordInitDefaults) c)\<lparr>curTier := lordSetCurrentNgPlusTier 0\<rparr>)"

text \<open>A line typed at the terminal; \<open>Yes\<close> stands for any line that starts with a Y.\<close>

datatype Line = GymFight nat | Explore | Fight "string option" | DevAll8 | DevClear | Yes | OtherLine

definition execute :: "nat option \<Rightarrow> Line \<Rightarrow> Campaign \<Rightarrow> Campaign" where
  "execute wr line c =
     (case pendingRematchGym c of
        Some g \<Rightarrow>
          (let c = c\<lparr>pendingRematchGym := None\<rparr>
           in if line = Yes \<and> partyLoaded c then requestGymBattle g 0 c else c)
      | None \<Rightarrow>
          (case line of
             GymFight n \<Rightarrow> gymFight n c
           | Explore \<Rightarrow> explore c
           | Fight target \<Rightarrow> requestFight target c
           | DevAll8 \<Rightarrow> devAll8 wr c
           | DevClear \<Rightarrow> devClear wr c
           | _ \<Rightarrow> c))"

subsection \<open>The terminal: results\<close>

definition onGymBattleEnded :: "nat \<Rightarrow> nat option \<Rightarrow> nat \<Rightarrow> nat \<Rightarrow> bool \<Rightarrow> Campaign \<Rightarrow> Campaign" where
  "onGymBattleEnded ts wr gymIdx trainerIdx won c =
     (if 8 \<le> gymIdx then c
      else if \<not> won then
        (if 0 < trainerIdx \<and> gymProgress (lord c) ! gymIdx < trainerIdx then
           storeLord wr (onLord (\<lambda>l. l\<lparr>gymProgress := (gymProgress l)[gymIdx := trainerIdx]\<rparr>) c)
         else c)
      else if trainerIdx < 4 then
        storeLord wr (onLord (\<lambda>l. if gymProgress l ! gymIdx \<le> trainerIdx
          then l\<lparr>gymProgress := (gymProgress l)[gymIdx := trainerIdx + 1]\<rparr> else l) c)
      else
        storeLord wr (onLord (\<lambda>l. (lordOnGymCleared ts gymIdx l)
          \<lparr>gymTierCleared := (gymTierCleared l)[gymIdx := ngPlusTier l]\<rparr>) c))"

definition onExploreBattleEnded :: "nat option \<Rightarrow> nat \<Rightarrow> bool \<Rightarrow> Campaign \<Rightarrow> Campaign" where
  "onExploreBattleEnded wr lvl won c =
     storeLord wr (if won then
       onLord (\<lambda>l. l\<lparr>exploreRunsToday := (if exploreRunsToday l < 255 then exploreRunsToday l + 1 else exploreRunsToday l),
                     totalRuns := (if totalRuns l < 4294967295 then totalRuns l + 1 else totalRuns l),
                     bestRunWaves := max (bestRunWaves l) lvl\<rparr>) c
     else c)"

definition leagueWon :: "nat \<Rightarrow> LordSave \<Rightarrow> LordSave" where
  "leagueWon ts l =
     (let firstClear = (leagueCleared l = 0);
          l = l\<lparr>leagueCleared := 1, e4TierCleared := ngPlusTier l\<rparr>;
          l = (if ngPlusTier l < 5 then l\<lparr>ngPlusTier := ngPlusTier l + 1\<rparr> else l);
          l = l\<lparr>e4Progress := 0, gymProgress := replicate 8 0\<rparr>
      in if firstClear then lordAppendNews ts LORD_NEWS_BADGE 8 0 l else l)"

definition onE4BattleEnded :: "nat \<Rightarrow> nat option \<Rightarrow> nat \<Rightarrow> bool \<Rightarrow> Campaign \<Rightarrow> Campaign" where
  "onE4BattleEnded ts wr memberIdx won c =
     storeLord wr
       (if \<not> won then c
        else if memberIdx < 4 then
          onLord (\<lambda>l. if e4Progress l \<le> memberIdx then l\<lparr>e4Progress := memberIdx + 1\<rparr> else l) c
        else
          (let c' = onLord (leagueWon ts) c
           in if ngPlusTier (lord c) < 5 then c'\<lparr>curTier := lordSetCurrentNgPlusTier (ngPlusTier (lord c'))\<rparr> else c'))"

definition deliver :: "nat \<Rightarrow> nat option \<Rightarrow> Campaign \<Rightarrow> Campaign" where
  "deliver ts wr c =
     (case staged c of
        None \<Rightarrow> c
      | Some (k, a, b, won) \<Rightarrow>
          (let c = c\<lparr>staged := None\<rparr> in
           case k of
             GYM \<Rightarrow> onGymBattleEnded ts wr a b won c
           | EXPLORE \<Rightarrow> onExploreBattleEnded wr b won c
           | E4 \<Rightarrow> onE4BattleEnded ts wr a won c
           | FIGHT \<Rightarrow> c))"

subsection \<open>The module: choosing an opponent\<close>

text \<open>
  \<open>cpu_party\<close> follows the branches of the source in their order.  \<open>r k\<close> is the random value drawn at the
  \<open>k\<close>-th place of the text.  The pair is the opponent with the tag shown for it, \<open>None\<close> while no
  branch has filled it.
\<close>

definition lowerChar :: "char \<Rightarrow> char" where
  "lowerChar c = (if 65 \<le> (of_char c :: nat) \<and> (of_char c :: nat) \<le> 90 then char_of ((of_char c :: nat) + 32) else c)"

definition sameShortName :: "string \<Rightarrow> string \<Rightarrow> bool" where
  "sameShortName a b \<longleftrightarrow> map lowerChar (take 4 a) = map lowerChar (take 4 b)"

definition startE4 :: "Campaign \<Rightarrow> Campaign \<times> (Gen1Party \<times> string) option" where
  "startE4 c =
     (if e4MemberIdx c < 5 then
        (case lordBuildE4Party (curTier c) (e4MemberIdx c) of
           Some p \<Rightarrow> (c\<lparr>activeE4Member := e4MemberIdx c\<rparr>, Some (p, take 4 (e4_name (kE4 ! e4MemberIdx c))))
         | None \<Rightarrow> (c\<lparr>e4MemberIdx := 255\<rparr>, None))
      else (c, None))"

definition startExplore :: "(nat \<Rightarrow> nat) \<Rightarrow> Campaign \<Rightarrow> Campaign \<times> (Gen1Party \<times> string) option" where
  "startExplore r c =
     (if 5 \<le> e4MemberIdx c \<and> exploreRouteIdx c < 8 then
        (case lordPickWildEncounter (r 0) (r 1) (exploreRouteIdx c) of
           Some p \<Rightarrow> (c\<lparr>activeExploreRoute := exploreRouteIdx c, activeExploreLevel := unat (sv_level (gp_mons p ! 0))\<rparr>,
                     Some (p, ''WILD''))
         | None \<Rightarrow> (c\<lparr>exploreRouteIdx := 255\<rparr>, None))
      else (c, None))"

definition startGym :: "Campaign \<Rightarrow> Campaign \<times> (Gen1Party \<times> string) option" where
  "startGym c =
     (if 5 \<le> e4MemberIdx c \<and> 8 \<le> exploreRouteIdx c \<and> gymBattleIdx c < 8 then
        (case lordBuildGymParty (curTier c) (gymBattleIdx c) (gymTrainerIdx c) of
           Some p \<Rightarrow> (c\<lparr>activeGymBattle := gymBattleIdx c, activeGymTrainer := gymTrainerIdx c\<rparr>,
                     Some (p, take 4 (fst (lg_trainers (LORD_GYMS ! gymBattleIdx c) ! gymTrainerIdx c))))
         | None \<Rightarrow> (c\<lparr>gymBattleIdx := 255\<rparr>, None))
      else (c, None))"

definition noCampaignFight :: "Campaign \<Rightarrow> bool" where
  "noCampaignFight c \<longleftrightarrow> 5 \<le> e4MemberIdx c \<and> 8 \<le> exploreRouteIdx c \<and> 8 \<le> gymBattleIdx c"

definition startPeer :: "(nat \<Rightarrow> nat) \<Rightarrow> DaycareNeighborPokemon list \<Rightarrow> Campaign \<Rightarrow> Campaign \<times> (Gen1Party \<times> string) option" where
  "startPeer r peers c =
     (if noCampaignFight c \<and> peers \<noteq> [] \<and> \<not> fightSkipPeers c then
        (let pick = (case find (\<lambda>i. fightTarget c \<noteq> [] \<and> sameShortName (nb_shortName (peers ! i)) (fightTarget c)) [0..<length peers] of
                       Some i \<Rightarrow> i | None \<Rightarrow> r 2 mod length peers);
             n = peers ! pick
         in (c\<lparr>fightTarget := []\<rparr>, Some (neighborParty n, take 4 (nb_shortName n))))
      else (c, None))"

definition randomTrainer :: "(nat \<Rightarrow> nat) \<Rightarrow> string \<Rightarrow> Campaign \<Rightarrow> Gen1Party \<times> string" where
  "randomTrainer r tag c =
     (let g = r 3 mod 8; t = r 4 mod 5
      in case lordBuildGymParty (curTier c) g t of
           Some p \<Rightarrow> (p, take 4 (lg_leaderName (LORD_GYMS ! g)))
         | None \<Rightarrow> (myParty c, tag))"

definition hasMons :: "(Gen1Party \<times> string) option \<Rightarrow> bool" where
  "hasMons opp \<longleftrightarrow> (case opp of None \<Rightarrow> False | Some (p, _) \<Rightarrow> gp_count p \<noteq> 0)"

definition poolRandoms :: "(nat \<Rightarrow> nat) \<Rightarrow> (nat \<times> nat) list" where
  "poolRandoms r = map (\<lambda>i. (r (5 + 2 * i), r (6 + 2 * i))) [0..<6]"

definition cpuParty :: "(nat \<Rightarrow> nat) \<Rightarrow> DaycareNeighborPokemon list \<Rightarrow> Campaign \<Rightarrow> Campaign \<times> Gen1Party \<times> string" where
  "cpuParty r peers c =
     (let (c, p1) = startE4 c; (c, p2) = startExplore r c; (c, p3) = startGym c; (c, p4) = startPeer r peers c;
          opp = (if p1 \<noteq> None then p1 else if p2 \<noteq> None then p2 else if p3 \<noteq> None then p3 else p4);
          opp = (if fightSkipPeers c \<and> \<not> hasMons opp then Some (pvpcParty (myParty c) (poolRandoms r), ''CPU'') else opp);
          tag = (case opp of Some (_, t) \<Rightarrow> t | None \<Rightarrow> ''RIVAL'');
          opp = (if noCampaignFight c \<and> \<not> hasMons opp then Some (randomTrainer r tag c) else opp)
      in (c, case opp of Some x \<Rightarrow> x | None \<Rightarrow> (emptySaveParty, ''RIVAL'')))"

definition startFight :: "nat \<Rightarrow> 32 word \<Rightarrow> (nat \<Rightarrow> nat) \<Rightarrow> DaycareNeighborPokemon list \<Rightarrow> Campaign \<Rightarrow> Campaign" where
  "startFight now rnd r peers c =
     (if textBattleStartReq c \<and> \<not> textBattleActive c \<and> gp_count (myParty c) \<noteq> 0 then
        (let (c, p, tag) = cpuParty r peers (c\<lparr>textBattleStartReq := False\<rparr>)
         in c\<lparr>gymBattleIdx := 255, exploreRouteIdx := 255, e4MemberIdx := 255, fightSkipPeers := False,
              battle := startLocal now rnd (myParty c) p tag (battle c), textBattleActive := True\<rparr>)
      else c)"

subsection \<open>The module: the end of a battle\<close>

definition stage :: "StagedEndKind \<Rightarrow> nat \<Rightarrow> nat \<Rightarrow> bool \<Rightarrow> Campaign \<Rightarrow> Campaign" where
  "stage k a b won c = c\<lparr>staged := Some (k, a, b, won), textBattleActive := False\<rparr>"

definition endGym :: "Campaign \<Rightarrow> Campaign" where
  "endGym c =
     (let won = (result (engine (battle c)) = P1_WIN); g = activeGymBattle c; t = activeGymTrainer c
      in case (if won \<and> t < 4 then lordBuildGymParty (curTier c) g (t + 1) else None) of
           Some p \<Rightarrow> c\<lparr>battle := nextOpponent p (take 4 (fst (lg_trainers (LORD_GYMS ! g) ! (t + 1)))) (healPlayer (battle c)),
                      activeGymTrainer := t + 1, textBattleActive := True\<rparr>
         | None \<Rightarrow> stage GYM g t won (c\<lparr>activeGymBattle := 255\<rparr>))"

definition endE4 :: "Campaign \<Rightarrow> Campaign" where
  "endE4 c =
     (let won = (result (engine (battle c)) = P1_WIN); m = activeE4Member c
      in case (if won \<and> m < 4 then lordBuildE4Party (curTier c) (m + 1) else None) of
           Some p \<Rightarrow> c\<lparr>battle := nextOpponent p (take 4 (e4_name (kE4 ! (m + 1)))) (battle c), activeE4Member := m + 1\<rparr>
         | None \<Rightarrow> stage E4 m 0 won (c\<lparr>activeE4Member := 255\<rparr>))"

definition endBattle :: "Campaign \<Rightarrow> Campaign" where
  "endBattle c =
     (if activeGymBattle c < 8 then endGym c
      else if activeExploreRoute c < 8 then
        stage EXPLORE (activeExploreRoute c) (activeExploreLevel c) (result (engine (battle c)) = P1_WIN)
          (c\<lparr>activeExploreRoute := 255, activeExploreLevel := 0\<rparr>)
      else if activeE4Member c < 5 then endE4 c
      else if staged c = None then stage FIGHT 0 0 (playerWon (battle c)) c
      else c\<lparr>textBattleActive := False\<rparr>)"

text \<open>One pass of the loop: start what was requested, tick the battle, credit its experience, notice its end.\<close>

definition runOnce :: "nat \<Rightarrow> 32 word \<Rightarrow> (nat \<Rightarrow> nat) \<Rightarrow> DaycareNeighborPokemon list \<Rightarrow> Campaign \<Rightarrow> Campaign" where
  "runOnce now rnd r peers c =
     (let c = startFight now rnd r peers c in
      if \<not> textBattleActive c then c
      else
       (let ((xp, some_xp), b) = consumePendingXp (tickBattle now rnd (battle c));
            c = c\<lparr>battle := b, stagedXp := (if some_xp then map (\<lambda>i. u32 (stagedXp c ! i + xp ! i)) [0..<6] else stagedXp c)\<rparr>
        in if mode b = OFF then endBattle c else c))"

definition pressKey :: "nat \<Rightarrow> char \<Rightarrow> Campaign \<Rightarrow> Campaign" where
  "pressKey now k c = (if textBattleActive c then c\<lparr>battle := handleKey now k (battle c)\<rparr> else c)"

end
