(* ===== verification/LordTeams.thy ===== *)
theory LordTeams
  imports LordRules
begin

text \<open>
  The opponents the device makes itself, from the tables of the campaign and from the pool of the
  computer: each is a party the battle engine accepts, at every tier and for every random value, so
  that battles against them run without a fault.
\<close>

subsection \<open>A monster of the tables\<close>

definition saved_ok :: "Gen1Pokemon \<Rightarrow> bool" where
  "saved_ok m \<longleftrightarrow> length (sv_moves m) = 4 \<and> length (sv_pp m) = 4 \<and> 1 \<le> saveLevel m \<and> saveLevel m \<le> 100"

lemma saveLevel_byte: "1 \<le> l \<Longrightarrow> l \<le> 100 \<Longrightarrow> unat (of_nat l :: byte) = l \<and> (of_nat l :: byte) \<noteq> 0"
  by (auto simp: unat_of_nat simp flip: unat_eq_0)

lemma savedFromBase_ok: "1 \<le> l \<Longrightarrow> l \<le> 100 \<Longrightarrow> length ms = 4 \<Longrightarrow> saved_ok (savedFromBase dex l ms)"
  using saveLevel_byte [of l] by (simp add: saved_ok_def savedFromBase_def saveLevel_def Let_def)

lemma plainSaved_ok: "1 \<le> l \<Longrightarrow> l \<le> 100 \<Longrightarrow> length ms = 4 \<Longrightarrow> saved_ok (plainSaved dex l ms)"
  using saveLevel_byte [of l] by (simp add: saved_ok_def plainSaved_def saveLevel_def zeroSaved_def)

subsection \<open>Filling the slots one after the other\<close>

definition filled :: "nat \<Rightarrow> Gen1Party \<Rightarrow> bool" where
  "filled n p \<longleftrightarrow> length (gp_mons p) = 6 \<and> (\<forall>i < n. saved_ok (gp_mons p ! i))"

lemma filled_save_ok: "filled n p \<Longrightarrow> 1 \<le> unat (gp_count p) \<Longrightarrow> unat (gp_count p) \<le> n \<Longrightarrow> save_ok p"
  by (auto simp: filled_def save_ok_def saved_ok_def Let_def)

lemma filled_empty: "filled 0 (emptySaveParty\<lparr>gp_count := n\<rparr>)" "filled 0 emptySaveParty"
  by (simp_all add: filled_def emptySaveParty_def)

lemma filled_count [simp]: "filled n (p\<lparr>gp_count := k\<rparr>) = filled n p"
  by (simp add: filled_def)

lemma filled_step:
  assumes "filled i p" "i < 6" "saved_ok m" "gp_mons q = (gp_mons p)[i := m]"
  shows "filled (Suc i) q"
  using assms by (auto simp: filled_def nth_list_update less_Suc_eq)

lemma filled_fold:
  assumes "filled a p" "a \<le> b" "b \<le> 6"
    and "\<And>i q. a \<le> i \<Longrightarrow> i < b \<Longrightarrow> \<exists>m. saved_ok m \<and> gp_mons (f i q) = (gp_mons q)[i := m]"
    and "\<And>i q. gp_count (f i q) = gp_count q"
  shows "filled b (fold f [a..<b] p) \<and> gp_count (fold f [a..<b] p) = gp_count p"
  using assms(2,3,4)
proof (induction b)
  case 0
  then show ?case using assms(1) by simp
next
  case (Suc b)
  show ?case
  proof (cases "a = Suc b")
    case True
    then show ?thesis using assms(1) by simp
  next
    case False
    then have ab: "a \<le> b" using Suc.prems(1) by simp
    have ih: "filled b (fold f [a..<b] p)" "gp_count (fold f [a..<b] p) = gp_count p"
      using Suc.IH ab Suc.prems by simp_all
    obtain m where "saved_ok m" "gp_mons (f b (fold f [a..<b] p)) = (gp_mons (fold f [a..<b] p))[b := m]"
      using Suc.prems(3) [of b] ab by blast
    then have "filled (Suc b) (f b (fold f [a..<b] p))"
      using filled_step [OF ih(1)] Suc.prems(2) by simp
    then show ?thesis using ab ih(2) assms(5) by (simp add: upt_Suc_append)
  qed
qed

definition row_ok :: "LordGymMon \<Rightarrow> bool" where
  "row_ok m \<longleftrightarrow> 1 \<le> gm_level m \<and> gm_level m \<le> 100 \<and> length (gm_moves m) = 4"

lemma row_gmon [simp]: "row_ok (gmon s l ms) \<longleftrightarrow> 1 \<le> l \<and> l \<le> 100 \<and> length ms = 4"
  by (simp add: row_ok_def gmon_def)

lemma writeMon_slot:
  assumes "row_ok m"
  shows "\<exists>x. saved_ok x \<and> gp_mons (writeMonToParty e tier i m nick q) = (gp_mons q)[i := x]"
proof -
  let ?x = "savedFromBase (gm_species m) (lordScaleLevel (gm_level m) tier e) (lordApplyNgPlusMoves (gm_species m) tier (gm_moves m))"
  have "saved_ok ?x"
    using assms scale_range [of "gm_level m" tier e] by (intro savedFromBase_ok) (simp_all add: row_ok_def)
  then show ?thesis by (auto simp: writeMonToParty_def putMon_def Let_def)
qed

lemma writeMon_count [simp]: "gp_count (writeMonToParty e tier i m nick q) = gp_count q"
  by (simp add: writeMonToParty_def putMon_def Let_def)

subsection \<open>The rows\<close>

definition roster_ok :: "LordGymMon list \<Rightarrow> bool" where
  "roster_ok ms \<longleftrightarrow> ms \<noteq> [] \<and> length ms \<le> 6 \<and> list_all row_ok ms \<and> sum_list (map gm_level ms) < 256"

lemma gmon_level [simp]: "gm_level (gmon s l ms) = l"
  by (simp add: gmon_def)

lemma roster_rows:
  "list_all roster_ok [g1_t0, g1_t1, g1_t2, g1_t3, g1_t4, g2_t0, g2_t1, g2_t2, g2_t3, g2_t4, g3_t0, g3_t1, g3_t2, g3_t3, g3_t4,
     g4_t0, g4_t1, g4_t2, g4_t3, g4_t4, g5_t0, g5_t1, g5_t2, g5_t3, g5_t4, g6_t0, g6_t1, g6_t2, g6_t3, g6_t4,
     g7_t0, g7_t1, g7_t2, g7_t3, g7_t4, g8_t0, g8_t1, g8_t2, g8_t3, g8_t4]"
  unfolding g1_t0_def g1_t1_def g1_t2_def g1_t3_def g1_t4_def g2_t0_def g2_t1_def g2_t2_def g2_t3_def g2_t4_def
    g3_t0_def g3_t1_def g3_t2_def g3_t3_def g3_t4_def g4_t0_def g4_t1_def g4_t2_def g4_t3_def g4_t4_def
    g5_t0_def g5_t1_def g5_t2_def g5_t3_def g5_t4_def g6_t0_def g6_t1_def g6_t2_def g6_t3_def g6_t4_def
    g7_t0_def g7_t1_def g7_t2_def g7_t3_def g7_t4_def g8_t0_def g8_t1_def g8_t2_def g8_t3_def g8_t4_def
  by (simp add: roster_ok_def)

lemma gym_rows: "length LORD_GYMS = 8"
  "list_all (\<lambda>g. length (lg_trainers g) = 5 \<and> list_all (\<lambda>t. roster_ok (snd t)) (lg_trainers g)) LORD_GYMS"
  using roster_rows by (simp_all add: LORD_GYMS_def)

lemma fill_rows: "length GYM_FILL = 8" "list_all (\<lambda>f. length f = 6 \<and> list_all (\<lambda>x. length (snd x) = 4) f) GYM_FILL"
  by (simp_all add: GYM_FILL_def)

lemma e4_rows: "length kE4 = 5" "list_all (\<lambda>m. e4_roster m \<noteq> [] \<and> length (e4_roster m) \<le> 6 \<and> list_all row_ok (e4_roster m)) kE4"
  by (simp_all add: kE4_def kLorelei_def kBruno_def kAgatha_def kLance_def kChampion_def)

definition wild_ok :: "LordRouteEncounter \<Rightarrow> bool" where
  "wild_ok e \<longleftrightarrow> 1 \<le> re_levelMin e \<and> re_levelMin e \<le> re_levelMax e \<and> re_levelMax e \<le> 100 \<and> length (re_moves e) = 4
     \<and> 0 < re_weight e \<and> re_weight e \<le> 10"

lemma wild_enc [simp]: "wild_ok (enc s a b ms w) \<longleftrightarrow> 1 \<le> a \<and> a \<le> b \<and> b \<le> 100 \<and> length ms = 4 \<and> 0 < w \<and> w \<le> 10"
  by (simp add: wild_ok_def enc_def)

lemma route_rows: "length kRoutes = 8" "list_all (\<lambda>r. length (snd r) = 5 \<and> list_all wild_ok (snd r)) kRoutes"
  by (simp_all add: kRoutes_def kRoute0_def kRoute1_def kRoute2_def kRoute3_def kRoute4_def kRoute5_def kRoute6_def kRoute7_def)

lemma pool_rows: "length PVPC_POOL = 16" "list_all (\<lambda>x. length (snd x) = 4) PVPC_POOL"
  by (simp_all add: PVPC_POOL_def)

subsection \<open>Gyms\<close>

lemma byte_sum: "a + sum_list (map gm_level ms) < 256 \<Longrightarrow> foldl (\<lambda>a m. u8 (a + gm_level m)) a ms = a + sum_list (map gm_level ms)"
  by (induction ms arbitrary: a) simp_all

lemma avg_between:
  assumes "roster_ok ms"
  shows "1 \<le> avgLevel ms \<and> avgLevel ms \<le> 100"
proof -
  have "length xs \<le> sum_list (map gm_level xs) \<and> sum_list (map gm_level xs) \<le> 100 * length xs" if "list_all row_ok xs" for xs
    using that by (induction xs) (auto simp: row_ok_def)
  from this [of ms] assms
  have "length ms \<le> sum_list (map gm_level ms)" "sum_list (map gm_level ms) \<le> 100 * length ms" "0 < length ms"
    by (auto simp: roster_ok_def)
  moreover have "avgLevel ms = sum_list (map gm_level ms) div length ms"
    using assms byte_sum [of 0 ms] by (simp add: roster_ok_def avgLevel_def)
  moreover have "s div n \<le> 100" "1 \<le> s div n" if "n \<le> s" "s \<le> 100 * n" "0 < n" for s n :: nat
    using that div_le_mono [of s "100 * n" n] div_le_mono [of n s n] by simp_all
  ultimately show ?thesis by simp
qed

lemma gym_party:
  assumes "g < 8" "t < 5"
  shows "\<exists>p. lordBuildGymParty tier g t = Some p \<and> gp_count p = 6 \<and> save_ok p"
proof -
  define ts where "ts = lg_trainers (LORD_GYMS ! g)"
  have ts: "length ts = 5" "list_all (\<lambda>t. roster_ok (snd t)) ts"
    using list_all_nth [OF gym_rows(2), of g] assms(1) gym_rows(1) by (simp_all add: ts_def)
  obtain name ms where t: "ts ! t = (name, ms)" by (cases "ts ! t")
  have ms: "roster_ok ms" using list_all_nth [OF ts(2), of t] ts(1) assms(2) t by simp
  define fl where "fl = GYM_FILL ! g"
  have fl: "length fl = 6" "list_all (\<lambda>x. length (snd x) = 4) fl"
    using list_all_nth [OF fill_rows(2), of g] assms(1) fill_rows(1) by (simp_all add: fl_def)
  define n where "n = length ms"
  have n: "n \<le> 6" "min 6 n = n" "take n ms = ms" "ms \<noteq> []" using ms by (simp_all add: roster_ok_def n_def)
  let ?f = "\<lambda>i. writeMonToParty False tier i (ms ! i) name"
  let ?g = "\<lambda>i. let (sp, mv) = fl ! (i mod 6) in writeMonToParty False tier i (gmon sp (avgLevel ms) mv) name"
  have 1: "filled n (fold ?f [0..<n] emptySaveParty)"
    using ms n(1) list_all_nth [of row_ok ms]
    by (intro conjunct1 [OF filled_fold [OF filled_empty(2)]] writeMon_slot) (simp_all add: roster_ok_def n_def)
  have 2: "filled 6 (fold ?g [n..<6] (fold ?f [0..<n] emptySaveParty))"
  proof (rule conjunct1 [OF filled_fold [OF 1 n(1)]])
    fix i q
    obtain sp mv where x: "fl ! (i mod 6) = (sp, mv)" by (cases "fl ! (i mod 6)")
    have "length mv = 4" using list_all_nth [OF fl(2), of "i mod 6"] fl(1) x by simp
    then show "\<exists>m. saved_ok m \<and> gp_mons (?g i q) = (gp_mons q)[i := m]"
      using avg_between [OF ms] by (simp add: x writeMon_slot)
    show "gp_count (?g i q) = gp_count q" by (simp add: x)
  qed simp
  have "lordBuildGymParty tier g t = Some ((fold ?g [n..<6] (fold ?f [0..<n] emptySaveParty))\<lparr>gp_count := 6\<rparr>)"
    using assms n t by (simp add: lordBuildGymParty_def lordGym_def Let_def flip: ts_def fl_def n_def)
  then show ?thesis using 2 filled_save_ok by simp
qed

lemma e4_party:
  assumes "i < 5"
  shows "\<exists>p. lordBuildE4Party tier i = Some p \<and> gp_count p \<noteq> 0 \<and> save_ok p"
proof -
  define ms where "ms = e4_roster (kE4 ! i)"
  have ms: "ms \<noteq> []" "length ms \<le> 6" "list_all row_ok ms"
    using list_all_nth [OF e4_rows(2), of i] assms e4_rows(1) by (simp_all add: ms_def)
  define n where "n = length ms"
  let ?f = "\<lambda>j. writeMonToParty True tier j (ms ! j) (e4_name (kE4 ! i))"
  let ?p = "fold ?f [0..<n] (emptySaveParty\<lparr>gp_count := of_nat n\<rparr>)"
  have "filled n ?p \<and> gp_count ?p = gp_count (emptySaveParty\<lparr>gp_count := of_nat n\<rparr>)"
    using ms list_all_nth [of row_ok ms]
    by (intro filled_fold [OF filled_empty(1)] writeMon_slot) (simp_all add: n_def)
  moreover have "unat (of_nat n :: byte) = n" "1 \<le> n" using ms by (simp_all add: n_def unat_of_nat Suc_le_eq)
  ultimately have "save_ok ?p \<and> gp_count ?p \<noteq> 0" using filled_save_ok [of n ?p] by (auto simp: simp flip: unat_eq_0)
  moreover have "lordBuildE4Party tier i = Some ?p"
    using assms ms by (simp add: lordBuildE4Party_def lordE4Member_def Let_def n_def min_absorb2 flip: ms_def)
  ultimately show ?thesis by simp
qed

subsection \<open>Wild monsters and the computer's team\<close>

lemma pick_member: "pickByWeight x a es = Some e \<Longrightarrow> e \<in> set es"
  by (induction x a es rule: pickByWeight.induct) (auto simp: Let_def split: if_splits)

lemma weight_sum: "a + 10 * length es < 65536 \<Longrightarrow> list_all wild_ok es \<Longrightarrow>
  foldl (\<lambda>a e. u16 (a + re_weight e)) a es = a + sum_list (map re_weight es)"
  by (induction es arbitrary: a) (auto simp: wild_ok_def)

lemma wild_party:
  assumes "i < 8"
  shows "\<exists>p. lordPickWildEncounter r1 r2 i = Some p \<and> gp_count p = 1 \<and> save_ok p"
proof -
  obtain name pool where r: "kRoutes ! i = (name, pool)" by (cases "kRoutes ! i")
  have pool: "length pool = 5" "list_all wild_ok pool"
    using list_all_nth [OF route_rows(2), of i] assms route_rows(1) r by simp_all
  define total where "total = foldl (\<lambda>a e. u16 (a + re_weight e)) 0 pool"
  obtain e0 es where p0: "pool = e0 # es" using pool(1) by (cases pool) simp_all
  have "pool \<noteq> []" using p0 by simp
  have "total = sum_list (map re_weight pool)" using weight_sum [of 0 pool] pool by (simp add: total_def)
  then have total: "0 < total" using p0 pool(2) by (simp add: wild_ok_def)
  define e where "e = (case pickByWeight (r1 mod total) 0 pool of Some e \<Rightarrow> e | None \<Rightarrow> pool ! 0)"
  have "e \<in> set pool" using pick_member [of "r1 mod total" 0 pool] p0 by (auto simp: e_def split: option.split)
  then have e: "wild_ok e" using pool(2) by (simp add: list_all_iff)
  define sp where "sp = (if re_levelMin e \<le> re_levelMax e then u8 (re_levelMax e - re_levelMin e + 1) else 1)"
  have sp: "sp = re_levelMax e - re_levelMin e + 1"
    unfolding sp_def using e [unfolded wild_ok_def] by (auto intro!: u8_id)
  then have "r2 mod sp < sp" by simp
  then have "re_levelMin e + r2 mod sp \<le> re_levelMax e" using e [unfolded wild_ok_def] sp by linarith
  then have lv: "1 \<le> u8 (re_levelMin e + r2 mod sp)" "u8 (re_levelMin e + r2 mod sp) \<le> 100"
    using e by (simp_all add: wild_ok_def)
  let ?m = "savedFromBase (re_species e) (u8 (re_levelMin e + r2 mod sp)) (re_moves e)"
  let ?p = "putMon 0 ?m ''WILD'' (emptySaveParty\<lparr>gp_count := 1\<rparr>)"
  have "saved_ok ?m" using lv e by (intro savedFromBase_ok) (simp_all add: wild_ok_def)
  then have "filled (Suc 0) ?p" by (rule filled_step [OF filled_empty(1), rotated]) (simp_all add: putMon_def)
  then have "save_ok ?p" using filled_save_ok [of 1 ?p] by (simp add: putMon_def)
  moreover have "lordPickWildEncounter r1 r2 i = Some ?p"
    using assms r \<open>pool \<noteq> []\<close> total
    by (simp add: lordPickWildEncounter_def lordRoute_def Let_def flip: total_def e_def sp_def)
  moreover have "gp_count ?p = 1" by (simp add: putMon_def)
  ultimately show ?thesis by blast
qed

lemma poolPicks_length [simp]: "length (poolPicks k rs) = length rs"
  by (induction k rs rule: poolPicks.induct) (simp_all add: Let_def)

lemma poolPicks_range: "x \<in> set (poolPicks k rs) \<Longrightarrow> x < 16"
  by (induction k rs rule: poolPicks.induct) (auto simp: Let_def pool_rows split: if_splits)

lemma poolLevel_range: "2 \<le> poolLevel a r \<and> poolLevel a r \<le> 100"
  by (auto simp: poolLevel_def Let_def nat_le_iff le_nat_iff)

lemma pvpc_party:
  assumes "length rs = 6"
  shows "save_ok (pvpcParty me rs) \<and> gp_count (pvpcParty me rs) \<noteq> 0"
proof -
  define n where "n = (let n = (if unat (gp_count me) > 6 then 6 else unat (gp_count me)) in if n = 0 then 1 else n)"
  have n: "1 \<le> n" "n \<le> 6" by (simp_all add: n_def Let_def)
  let ?picks = "poolPicks None (take n rs)"
  let ?f = "\<lambda>i p. let (dex, mvs) = PVPC_POOL ! (?picks ! i); m = plainSaved dex (poolLevel (partyAvg me) (snd (rs ! i))) mvs
                     in p\<lparr>gp_mons := (gp_mons p)[i := m], gp_species := (gp_species p)[i := sv_species m]\<rparr>"
  let ?p = "fold ?f [0..<n] (emptySaveParty\<lparr>gp_count := of_nat n\<rparr>)"
  have "filled n ?p \<and> gp_count ?p = gp_count (emptySaveParty\<lparr>gp_count := of_nat n\<rparr>)"
  proof (rule filled_fold [OF filled_empty(1) _ n(2)])
    fix i q assume "0 \<le> i" "i < n"
    obtain dex mvs where x: "PVPC_POOL ! (?picks ! i) = (dex, mvs)" by (cases "PVPC_POOL ! (?picks ! i)")
    have "?picks ! i < 16" using \<open>i < n\<close> n assms by (intro poolPicks_range [of _ None "take n rs"] nth_mem) simp
    then have "length mvs = 4" using list_all_nth [OF pool_rows(2), of "?picks ! i"] pool_rows(1) x by simp
    then have "saved_ok (plainSaved dex (poolLevel (partyAvg me) (snd (rs ! i))) mvs)"
      using poolLevel_range [of "partyAvg me" "snd (rs ! i)"] by (intro plainSaved_ok) simp_all
    then show "\<exists>m. saved_ok m \<and> gp_mons (?f i q) = (gp_mons q)[i := m]" by (auto simp: x Let_def)
  next
    fix i q show "gp_count (?f i q) = gp_count q" by (simp add: Let_def split: prod.split)
  qed simp
  moreover have "unat (of_nat n :: byte) = n" using n by (simp add: unat_of_nat)
  ultimately have "save_ok ?p \<and> gp_count ?p \<noteq> 0" using filled_save_ok [of n ?p] n by (auto simp flip: unat_eq_0)
  moreover have "pvpcParty me rs = ?p" by (simp add: pvpcParty_def n_def Let_def)
  ultimately show ?thesis by simp
qed

text \<open>
  C13 Every opponent the device makes itself exists and is fit for the battle engine: a gym and trainer number
  in range has a party of six at every tier, a member of the Elite Four and a route have theirs, whatever the
  random values; and in a battle of generation 3 against any of these, or against the computer's team, no
  sequence of engine calls reads outside an array, divides by zero or overflows.
\<close>

theorem opponents_run_clean:
  assumes "save_ok me" "length rs = 6" "list_all engineAllowed cs"
    and "lordBuildGymParty tier g t = Some opp \<or> lordBuildE4Party tier g = Some opp
         \<or> lordPickWildEncounter r1 r2 g = Some opp \<or> opp = pvpcParty them rs"
  shows "save_ok opp \<and> \<not> fault (fold engineStep cs (start me opp seed 3 (newEngine True)))
    \<and> (lordBuildGymParty tier g t \<noteq> None \<longleftrightarrow> g < 8 \<and> t < 5) \<and> (lordBuildE4Party tier g \<noteq> None \<longleftrightarrow> g < 5)
    \<and> (lordPickWildEncounter r1 r2 g \<noteq> None \<longleftrightarrow> g < 8)"
proof -
  have none: "\<not> (g < 8 \<and> t < 5) \<Longrightarrow> lordBuildGymParty tier g t = None" "\<not> g < 5 \<Longrightarrow> lordBuildE4Party tier g = None"
    "\<not> g < 8 \<Longrightarrow> lordPickWildEncounter r1 r2 g = None"
    by (auto simp: lordBuildGymParty_def lordGym_def lordBuildE4Party_def lordE4Member_def lordPickWildEncounter_def lordRoute_def)
  note some = gym_party [of g t tier] e4_party [of g tier] wild_party [of g r1 r2]
  have "save_ok opp" using assms(4) none some pvpc_party [OF assms(2), of them] by (metis option.inject option.distinct(1))
  moreover have "started True (start me opp seed 3 (newEngine True))"
    using assms(1) calculation unfolding started_def by (intro exI conjI) (auto simp: exI [of _ 3])
  then have "safe True (fold engineStep cs (start me opp seed 3 (newEngine True)))"
    using assms(3) by (rule engine.reach_inv)
  then have "\<not> fault (fold engineStep cs (start me opp seed 3 (newEngine True)))" by (simp add: safe_def)
  moreover have "lordBuildGymParty tier g t \<noteq> None \<longleftrightarrow> g < 8 \<and> t < 5" using none(1) some(1) by fastforce
  moreover have "lordBuildE4Party tier g \<noteq> None \<longleftrightarrow> g < 5" using none(2) some(2) by fastforce
  moreover have "lordPickWildEncounter r1 r2 g \<noteq> None \<longleftrightarrow> g < 8" using none(3) some(3) by fastforce
  ultimately show ?thesis by simp
qed

theorem opponents_run_clean_witness:
  "\<exists>opp. lordBuildGymParty 3 7 4 = Some opp \<and> save_ok opp
     \<and> \<not> fault (fold engineStep [Net (Submit S0 0 0), Net (Submit S1 0 3), Net Turn] (start opp opp 7 3 (newEngine True)))"
proof -
  obtain p where p: "lordBuildGymParty 3 7 4 = Some p" "save_ok p" using gym_party [of 7 4 3] by auto
  with opponents_run_clean [of p "replicate 6 (0, 0)" "[Net (Submit S0 0 0), Net (Submit S1 0 3), Net Turn]" 3 7 4 p 0 0 p 7]
  show ?thesis by simp
qed

end
