(* ===== verification/LordPlay.thy ===== *)
theory LordPlay
  imports LordTeams
begin

text \<open>
  The campaign as a transition system: the device after the terminal has been opened once, driven by
  commands, keys, passes of the loop and deliveries of results.  Its invariant says how far the badges
  can be ahead of the gyms, what a pending, running or finished fight implies about them, and that the
  file always loads to such a state; the rules of the campaign are the abstract specification it refines.
\<close>

subsection \<open>A good saved state\<close>

text \<open>The badges are the first \<open>k\<close> ones; nothing of the Elite Four is remembered.\<close>

definition lord_good :: "LordSave \<Rightarrow> bool" where
  "lord_good l \<longleftrightarrow> lord_fit l \<and> e4Progress l = 0 \<and> ngPlusTier l \<le> 5 \<and> (\<exists>k \<le> 8. badges l = mask k)"

lemma has_badge_mask: "badges l = mask k \<Longrightarrow> k \<le> 8 \<Longrightarrow> lordHasBadge l g \<longleftrightarrow> g < k"
  by (auto simp: lordHasBadge_def bit_mask_iff)

lemma unlocked_mask:
  assumes "badges l = mask k" "k \<le> 8"
  shows "lordGymUnlocked l g \<longleftrightarrow> g < 8 \<and> g \<le> k"
  by (auto simp: lordGymUnlocked_def has_badge_mask [OF assms] list_all_iff not_less)

lemma mask_all: "k \<le> 8 \<Longrightarrow> (mask k = (255 :: nat)) = (k = 8)"
proof -
  assume k: "k \<le> 8"
  have "(2 :: nat) ^ k = 256 \<longleftrightarrow> k = 8" using power_inject_exp [of "2 :: nat" k 8] by simp
  moreover have "(1 :: nat) \<le> 2 ^ k" by simp
  ultimately show ?thesis by (auto simp: mask_eq_exp_minus_1)
qed

lemma popcount_mask: "k \<le> 8 \<Longrightarrow> popcount (mask k) = k"
proof -
  assume k: "k \<le> 8"
  have "filter (bit (mask k :: nat)) [0..<8] = filter (\<lambda>g. g < k) [0..<8]" by (simp add: bit_mask_iff cong: filter_cong)
  also have "\<dots> = [0..<k]" using k
    by (metis filter_False filter_True atLeastLessThan_iff filter_append le0 append_Nil2 not_le set_upt upt_add_eq_append le_add_diff_inverse)
  finally show ?thesis by (simp add: popcount_def)
qed

text \<open>Losing nothing on the way: an update of other members.\<close>

lemma news_keeps_fit:
  assumes "lord_fit s" "ts < 4294967296" "ty < 256" "a < 256" "b < 65536"
  shows "lord_fit (lordAppendNews ts ty a b s)"
  using assms by (auto simp: lord_fit_def lordAppendNews_def news_fit_def intro!: list_all_update)

lemma news_frame [simp]:
  "badges (lordAppendNews ts ty a b s) = badges s" "e4Progress (lordAppendNews ts ty a b s) = e4Progress s"
  "ngPlusTier (lordAppendNews ts ty a b s) = ngPlusTier s" "gymProgress (lordAppendNews ts ty a b s) = gymProgress s"
  "gymTierCleared (lordAppendNews ts ty a b s) = gymTierCleared s" "leagueCleared (lordAppendNews ts ty a b s) = leagueCleared s"
  by (simp_all add: lordAppendNews_def)

lemma reset_good: "lord_good l \<Longrightarrow> lord_good (lordApplyDailyReset epoch tz l)"
proof -
  have "nextBoundaryUtc epoch tz < 4294967296" by (simp add: nextBoundaryUtc_eq nat_less_iff)
  then show "lord_good l \<Longrightarrow> lord_good (lordApplyDailyReset epoch tz l)"
    by (simp add: lord_good_def lordApplyDailyReset_def lord_fit_def)
qed

lemma progress_good: "lord_good l \<Longrightarrow> v < 256 \<Longrightarrow> lord_good (l\<lparr>gymProgress := (gymProgress l)[g := v]\<rparr>)"
  by (auto simp: lord_good_def lord_fit_def intro!: list_all_update)

lemma tiers_keep_fit: "lord_fit s \<Longrightarrow> gymTierCleared s = xs \<Longrightarrow> v < 256 \<Longrightarrow> lord_fit (s\<lparr>gymTierCleared := xs[g := v]\<rparr>)"
  by (simp add: lord_fit_def list_all_update)

lemma mask_fits: "k \<le> 8 \<Longrightarrow> (mask k :: nat) < 256"
  using power_increasing [of k 8 "2 :: nat"] by (auto simp: mask_eq_exp_minus_1 intro: order.strict_trans2 [of _ "2 ^ k"])

lemma cleared_good:
  assumes "lord_good l" "lordGymUnlocked l g" "ts < 4294967296"
  shows "lord_good ((lordOnGymCleared ts g l)\<lparr>gymTierCleared := (gymTierCleared l)[g := ngPlusTier l]\<rparr>)"
proof -
  obtain k where k: "badges l = mask k" "k \<le> 8" using assms(1) by (auto simp: lord_good_def)
  have l: "lord_fit l" "e4Progress l = 0" "ngPlusTier l \<le> 5" using assms(1) by (simp_all add: lord_good_def)
  have g: "g < 8" "g \<le> k" using assms(2) unlocked_mask [OF k] by auto
  define j where "j = (if g < k then k else Suc k)"
  have j: "j \<le> 8" using g k by (simp add: j_def)
  have or: "or (badges l) (2 ^ g) = mask j"
    using g by (auto intro!: bit_eqI simp: k j_def bit_or_iff bit_mask_iff bit_exp_iff less_Suc_eq)
  define s where "s = l\<lparr>badges := mask j, gymProgress := (gymProgress l)[g := 5]\<rparr>"
  have s: "lord_fit s" using l(1) mask_fits [OF j] by (simp add: s_def lord_fit_def list_all_update)
  define s' where "s' = lordOnGymCleared ts g l"
  have s': "s' = (if bit (badges l) g then s else lordAppendNews ts LORD_NEWS_BADGE g 0 s)"
    using g(1) by (simp add: s'_def lordOnGymCleared_def Let_def or s_def)
  have f: "badges s = mask j" "e4Progress s = 0" "ngPlusTier s = ngPlusTier l" "gymTierCleared s = gymTierCleared l"
    using l by (simp_all add: s_def)
  have "lord_fit s'" using s g(1) assms(3) news_keeps_fit [OF s] by (simp add: s')
  then have "lord_fit (s'\<lparr>gymTierCleared := (gymTierCleared l)[g := ngPlusTier l]\<rparr>)"
    using l by (intro tiers_keep_fit) (simp_all add: s' f)
  then show ?thesis using l(3) j by (auto simp: lord_good_def s' f simp flip: s'_def)
qed

lemma list_all_replicate: "list_all P (replicate n x) \<longleftrightarrow> n = 0 \<or> P x"
  by (induction n) auto

lemma league_good: "lord_good l \<Longrightarrow> ts < 4294967296 \<Longrightarrow> lord_good (leagueWon ts l)"
  by (auto simp: lord_good_def leagueWon_def lord_fit_def Let_def lordAppendNews_def news_fit_def list_all_replicate
      intro!: list_all_update)

lemma league_frame [simp]: "badges (leagueWon ts l) = badges l" "ngPlusTier (leagueWon ts l) = (if ngPlusTier l < 5 then ngPlusTier l + 1 else ngPlusTier l)"
  by (simp_all add: leagueWon_def Let_def)

lemma explore_good: "lord_good l \<Longrightarrow> lvl < 65536 \<Longrightarrow>
  lord_good (l\<lparr>exploreRunsToday := (if exploreRunsToday l < 255 then exploreRunsToday l + 1 else exploreRunsToday l),
                totalRuns := (if totalRuns l < 4294967295 then totalRuns l + 1 else totalRuns l),
                bestRunWaves := max (bestRunWaves l) lvl\<rparr>)"
  by (auto simp: lord_good_def lord_fit_def)

lemma fit_defaults: "lord_fit lordInitDefaults"
  by (simp add: lord_fit_def lordInitDefaults_def news_fit_def list_all_iff)

lemma defaults_good: "lord_good lordInitDefaults"
proof -
  have "e4Progress lordInitDefaults = 0" "ngPlusTier lordInitDefaults = 0" "badges lordInitDefaults = mask 0"
    by (simp_all add: lordInitDefaults_def)
  then show ?thesis using fit_defaults unfolding lord_good_def by (metis le0)
qed

text \<open>Whatever the file system does, the file loads to a good state again.\<close>

lemma stored_good: "lord_good l \<Longrightarrow> lord_good (snd (lordLoad (snd (lordSave wr l))))"
proof -
  assume l: "lord_good l"
  then have fit: "lord_fit l" by (simp add: lord_good_def)
  note b = lordOf_bytes [OF fit] length_lordBytes [OF fit]
  show ?thesis
    using l defaults_good by (auto simp: lordSave_def lordLoad_def Let_def b not_less split: option.split)
qed

subsection \<open>The invariant\<close>

definition fight_fits :: "LordSave \<Rightarrow> StagedEndKind \<times> nat \<times> nat \<times> bool \<Rightarrow> bool" where
  "fight_fits l x \<longleftrightarrow>
     (case x of
        (GYM, g, t, won) \<Rightarrow> lordGymUnlocked l g \<and> t \<le> 4 \<and> (won \<longrightarrow> t = 4)
      | (EXPLORE, r, lvl, won) \<Rightarrow> lvl < 65536
      | (E4, m, _, won) \<Rightarrow> badges l = 255 \<and> m < 5 \<and> (won \<longrightarrow> m = 4)
      | (FIGHT, _, _, won) \<Rightarrow> True)"

definition camp_ok :: "Campaign \<Rightarrow> bool" where
  "camp_ok c \<longleftrightarrow> lordLoaded c \<and> lord_good (lord c) \<and> lord_good (snd (lordLoad (flash c))) \<and> curTier c = ngPlusTier (lord c)
     \<and> (\<forall>g. pendingRematchGym c = Some g \<longrightarrow> lordGymUnlocked (lord c) g)
     \<and> (gymBattleIdx c < 8 \<longrightarrow> lordGymUnlocked (lord c) (gymBattleIdx c) \<and> gymTrainerIdx c \<le> 4)
     \<and> (activeGymBattle c < 8 \<longrightarrow> lordGymUnlocked (lord c) (activeGymBattle c) \<and> activeGymTrainer c \<le> 4)
     \<and> activeExploreLevel c < 65536
     \<and> (e4MemberIdx c < 5 \<longrightarrow> e4MemberIdx c = 0 \<and> badges (lord c) = 255)
     \<and> (activeE4Member c < 5 \<longrightarrow> badges (lord c) = 255)
     \<and> (\<forall>x. staged c = Some x \<longrightarrow> fight_fits (lord c) x)"

lemma lord_goodD: "lord_good l \<Longrightarrow> e4Progress l = 0" "lord_good l \<Longrightarrow> ngPlusTier l \<le> 5"
  by (simp_all add: lord_good_def)

text \<open>More badges keep what was open, open.\<close>

definition ahead :: "LordSave \<Rightarrow> LordSave \<Rightarrow> bool" where
  "ahead l l' \<longleftrightarrow> (\<forall>g. bit (badges l) g \<longrightarrow> bit (badges l') g) \<and> (badges l = 255 \<longrightarrow> badges l' = 255)"

lemma ahead_same: "badges l' = badges l \<Longrightarrow> ahead l l'"
  by (simp add: ahead_def)

lemma ahead_unlocked: "ahead l l' \<Longrightarrow> lordGymUnlocked l g \<Longrightarrow> lordGymUnlocked l' g"
  by (auto simp: ahead_def lordGymUnlocked_def lordHasBadge_def list_all_iff split: if_splits)

lemma ahead_fits: "ahead l l' \<Longrightarrow> fight_fits l x \<Longrightarrow> fight_fits l' x"
  using ahead_unlocked [of l l'] by (auto simp: fight_fits_def ahead_def split: StagedEndKind.splits)

lemma cleared_badges: "badges (lordOnGymCleared ts g l) = (if 8 \<le> g then badges l else or (badges l) (2 ^ g))"
  by (simp add: lordOnGymCleared_def Let_def)

lemma ahead_cleared:
  assumes "lord_good l"
  shows "ahead l ((lordOnGymCleared ts g l)\<lparr>gymTierCleared := x\<rparr>)"
proof -
  have "or (mask 8) (2 ^ g) = (mask 8 :: nat)" if "g < 8"
    using that by (auto intro!: bit_eqI simp: bit_or_iff bit_mask_iff bit_exp_iff)
  then have "or 255 (2 ^ g) = (255 :: nat)" if "g < 8" using that by (simp add: mask_eq_exp_minus_1)
  then show ?thesis by (auto simp: ahead_def cleared_badges bit_or_iff)
qed

lemma camp_ok_lord:
  assumes "camp_ok c" "lord_good l" "ahead (lord c) l"
  shows "lord_good (snd (lordLoad f)) \<Longrightarrow> camp_ok (c\<lparr>lord := l, flash := f, curTier := ngPlusTier l\<rparr>)"
    and "lord_good (snd (lordLoad f)) \<Longrightarrow> ngPlusTier l = ngPlusTier (lord c) \<Longrightarrow> camp_ok (c\<lparr>lord := l, flash := f\<rparr>)"
    and "ngPlusTier l = ngPlusTier (lord c) \<Longrightarrow> camp_ok (c\<lparr>lord := l\<rparr>)"
  using assms ahead_unlocked [OF assms(3)] ahead_fits [OF assms(3)] by (auto simp: camp_ok_def ahead_def)

subsection \<open>Every event keeps it\<close>

lemma camp_okD:
  assumes "camp_ok c"
  shows "lord_good (lord c)" "lord_good (snd (lordLoad (flash c)))" "curTier c = ngPlusTier (lord c)" "lordLoaded c"
    "staged c = Some x \<Longrightarrow> fight_fits (lord c) x"
  using assms by (simp_all add: camp_ok_def)

lemma reset_frame [simp]: "badges (lordApplyDailyReset epoch tz l) = badges l" "ngPlusTier (lordApplyDailyReset epoch tz l) = ngPlusTier l"
  "e4Progress (lordApplyDailyReset epoch tz l) = e4Progress l"
  by (simp_all add: lordApplyDailyReset_def)

lemma open_ok:
  assumes c: "camp_ok c"
  shows "camp_ok (openTerminal epoch c)"
proof -
  have "lordSetCurrentNgPlusTier (ngPlusTier (lord c)) = curTier c"
    using lord_goodD(2) [OF camp_okD(1) [OF c]] camp_okD(3) [OF c] by (simp add: lordSetCurrentNgPlusTier_def)
  moreover have "camp_ok (c\<lparr>lord := lordApplyDailyReset epoch (- 4) (lord c)\<rparr>)"
    by (rule camp_ok_lord(3) [OF c reset_good [OF camp_okD(1) [OF c]] ahead_same]) simp_all
  ultimately show ?thesis using c camp_okD(4) [OF c] by (simp add: openTerminal_def onLord_def)
qed

lemma pending_ok [simp]: "camp_ok c \<Longrightarrow> camp_ok (c\<lparr>pendingRematchGym := None\<rparr>)"
  by (simp add: camp_ok_def)

lemma request_ok: "camp_ok c \<Longrightarrow> lordGymUnlocked (lord c) g \<Longrightarrow> t \<le> 4 \<Longrightarrow> camp_ok (requestGymBattle g t c)"
  by (simp add: camp_ok_def requestGymBattle_def)

lemma challengeGym_ok:
  assumes c: "camp_ok c"
  shows "camp_ok (challengeGym g c)"
proof (cases "lordGymUnlocked (lord c) g")
  case True
  let ?l = "(lord c)\<lparr>gymProgress := (gymProgress (lord c))[g := 0]\<rparr>"
  have 1: "camp_ok (c\<lparr>lord := ?l\<rparr>)"
    by (rule camp_ok_lord(3) [OF c progress_good [OF camp_okD(1) [OF c]] ahead_same]) simp_all
  have u: "lordGymUnlocked ?l g" using ahead_unlocked [OF ahead_same True, of ?l] by simp
  have 2: "camp_ok (c\<lparr>pendingRematchGym := Some g\<rparr>)" using c True by (simp add: camp_ok_def)
  show ?thesis
    using True c 1 2 u by (auto simp: challengeGym_def Let_def onLord_def intro!: request_ok)
qed (simp add: challengeGym_def c)

lemma challengeLeague_ok: "camp_ok c \<Longrightarrow> camp_ok (challengeLeague c)"
  by (auto simp: challengeLeague_def Let_def camp_ok_def requestE4Battle_def lord_goodD)

lemma explore_ok: "camp_ok c \<Longrightarrow> camp_ok (explore c)"
  by (simp add: explore_def requestExplore_def camp_ok_def)

lemma fight_ok: "camp_ok c \<Longrightarrow> camp_ok (requestFight target c)"
  by (simp add: requestFight_def camp_ok_def split: option.split)

lemma execute_ok: "camp_ok c \<Longrightarrow> line \<noteq> DevAll8 \<Longrightarrow> line \<noteq> DevClear \<Longrightarrow> camp_ok (execute wr line c)"
  by (auto simp: execute_def gymFight_def Let_def challengeGym_ok challengeLeague_ok explore_ok fight_ok camp_ok_def [of c]
      intro!: request_ok split: option.split Line.split)

text \<open>Results.\<close>

lemma stored_ok:
  assumes "camp_ok c" "lord_good l" "ahead (lord c) l" "ngPlusTier l = ngPlusTier (lord c)"
  shows "camp_ok (storeLord wr (c\<lparr>lord := l\<rparr>))"
  using camp_ok_lord(2) [OF assms(1-3) stored_good [OF assms(2)] assms(4)] by (simp add: storeLord_def)

lemma onGymBattleEnded_ok:
  assumes c: "camp_ok c" and g: "lordGymUnlocked (lord c) g" "t \<le> 4" "ts < 4294967296"
  shows "camp_ok (onGymBattleEnded ts wr g t won c)"
proof -
  note good = camp_okD(1) [OF c]
  have 1: "camp_ok (storeLord wr (c\<lparr>lord := (lord c)\<lparr>gymProgress := (gymProgress (lord c))[g := v]\<rparr>\<rparr>))" if "v < 256" for v
    by (rule stored_ok [OF c progress_good [OF good that] ahead_same]) simp_all
  let ?l = "(lordOnGymCleared ts g (lord c))\<lparr>gymTierCleared := (gymTierCleared (lord c))[g := ngPlusTier (lord c)]\<rparr>"
  have 2: "camp_ok (storeLord wr (c\<lparr>lord := ?l\<rparr>))"
    by (rule stored_ok [OF c cleared_good [OF good g(1,3)] ahead_cleared [OF good]]) (simp add: lordOnGymCleared_def Let_def)
  have 3: "camp_ok (storeLord wr c)"
    using stored_ok [OF c good ahead_same, of wr] by simp
  have "gymTierCleared (lordOnGymCleared ts g (lord c)) = gymTierCleared (lord c)" "ngPlusTier (lordOnGymCleared ts g (lord c)) = ngPlusTier (lord c)"
    by (simp_all add: lordOnGymCleared_def Let_def)
  then show ?thesis using 1 [of t] 1 [of "t + 1"] 2 3 c g(2) by (auto simp: onGymBattleEnded_def onLord_def)
qed

lemma onExploreBattleEnded_ok:
  assumes c: "camp_ok c" and "lvl < 65536"
  shows "camp_ok (onExploreBattleEnded wr lvl won c)"
proof -
  note good = camp_okD(1) [OF c]
  have "camp_ok (storeLord wr c)" using stored_ok [OF c good ahead_same, of wr] by simp
  moreover have "camp_ok (storeLord wr (c\<lparr>lord := (lord c)\<lparr>
      exploreRunsToday := (if exploreRunsToday (lord c) < 255 then exploreRunsToday (lord c) + 1 else exploreRunsToday (lord c)),
      totalRuns := (if totalRuns (lord c) < 4294967295 then totalRuns (lord c) + 1 else totalRuns (lord c)),
      bestRunWaves := max (bestRunWaves (lord c)) lvl\<rparr>\<rparr>))"
    by (rule stored_ok [OF c explore_good [OF good assms(2)] ahead_same]) simp_all
  ultimately show ?thesis by (simp add: onExploreBattleEnded_def onLord_def)
qed

lemma onE4BattleEnded_ok:
  assumes c: "camp_ok c" and "won \<longrightarrow> m = 4" "ts < 4294967296"
  shows "camp_ok (onE4BattleEnded ts wr m won c)"
proof -
  note good = camp_okD(1) [OF c]
  have 1: "camp_ok (storeLord wr c)" using stored_ok [OF c good ahead_same, of wr] by simp
  let ?l = "leagueWon ts (lord c)"
  have g: "lord_good ?l" by (rule league_good [OF good assms(3)])
  have 2: "camp_ok (c\<lparr>lord := ?l, flash := snd (lordSave wr ?l), curTier := ngPlusTier ?l\<rparr>)"
    by (rule camp_ok_lord(1) [OF c g ahead_same stored_good [OF g]]) simp
  have "ngPlusTier (lord c) \<le> 5" "curTier c = ngPlusTier (lord c)" using lord_goodD(2) [OF good] camp_okD(3) [OF c] by simp_all
  then have "onE4BattleEnded ts wr m True c = c\<lparr>lord := ?l, flash := snd (lordSave wr ?l), curTier := ngPlusTier ?l\<rparr>" if "m = 4"
    using that by (auto simp: onE4BattleEnded_def storeLord_def onLord_def Let_def lordSetCurrentNgPlusTier_def)
  with 1 2 assms(2) show ?thesis by (cases won) (simp_all, simp add: onE4BattleEnded_def)
qed

lemma staged_ok [simp]: "camp_ok c \<Longrightarrow> camp_ok (c\<lparr>staged := None\<rparr>)"
  by (simp add: camp_ok_def)

lemma deliver_ok:
  assumes c: "camp_ok c" and "ts < 4294967296"
  shows "camp_ok (deliver ts wr c)"
proof (cases "staged c")
  case (Some x)
  obtain k a b won where x: "x = (k, a, b, won)" by (cases x)
  have "fight_fits (lord c) x" by (rule camp_okD(5) [OF c Some])
  then show ?thesis
    using onGymBattleEnded_ok [OF staged_ok [OF c]] onExploreBattleEnded_ok [OF staged_ok [OF c]] onE4BattleEnded_ok [OF staged_ok [OF c]] assms
    by (cases k) (auto simp: deliver_def Some x fight_fits_def)
qed (simp add: deliver_def c)

text \<open>Starting a fight.\<close>

lemma startE4_ok: "camp_ok c \<Longrightarrow> camp_ok (fst (startE4 c))"
  by (auto simp: startE4_def camp_ok_def split: option.split)

lemma startExplore_ok: "camp_ok c \<Longrightarrow> camp_ok (fst (startExplore r c))"
  by (auto simp: startExplore_def camp_ok_def intro: order.strict_trans [OF unat_byte_less] split: option.split)

lemma startGym_ok: "camp_ok c \<Longrightarrow> camp_ok (fst (startGym c))"
  by (auto simp: startGym_def camp_ok_def split: option.split)

lemma startPeer_ok: "camp_ok c \<Longrightarrow> camp_ok (fst (startPeer r peers c))"
  by (auto simp: startPeer_def camp_ok_def Let_def)

lemma cpuParty_state: "fst (cpuParty r peers c) = fst (startPeer r peers (fst (startGym (fst (startExplore r (fst (startE4 c)))))))"
  by (simp add: cpuParty_def Let_def split: prod.split)

lemma startFight_ok:
  assumes c: "camp_ok c"
  shows "camp_ok (startFight now rnd r peers c)"
proof -
  let ?c = "c\<lparr>textBattleStartReq := False\<rparr>"
  have "camp_ok ?c" using c by (simp add: camp_ok_def)
  then have "camp_ok (fst (cpuParty r peers ?c))"
    unfolding cpuParty_state by (intro startPeer_ok startGym_ok startExplore_ok startE4_ok)
  then have "camp_ok c' \<Longrightarrow> camp_ok (c'\<lparr>gymBattleIdx := 255, exploreRouteIdx := 255, e4MemberIdx := 255, fightSkipPeers := False,
      battle := b, textBattleActive := True\<rparr>)" for c' b
    by (simp add: camp_ok_def)
  with \<open>camp_ok (fst (cpuParty r peers ?c))\<close> c show ?thesis
    by (auto simp: startFight_def split: prod.split)
qed

text \<open>The end of a battle: a win is staged only after the leader or the champion.\<close>

lemma stage_ok: "camp_ok c \<Longrightarrow> fight_fits (lord c) (k, a, b, won) \<Longrightarrow> camp_ok (stage k a b won c)"
  by (simp add: camp_ok_def stage_def)

lemma endGym_ok:
  assumes c: "camp_ok c" and a: "activeGymBattle c < 8"
  shows "camp_ok (endGym c)"
proof -
  let ?g = "activeGymBattle c" and ?t = "activeGymTrainer c" and ?won = "result (engine (battle c)) = P1_WIN"
  have g: "lordGymUnlocked (lord c) ?g" "?t \<le> 4" using c a by (simp_all add: camp_ok_def)
  have c': "camp_ok (c\<lparr>activeGymBattle := 255\<rparr>)" using c by (simp add: camp_ok_def)
  show ?thesis
  proof (cases "?won \<and> ?t < 4")
    case True
    then obtain p where p: "lordBuildGymParty (curTier c) ?g (?t + 1) = Some p"
      using gym_party [of ?g "?t + 1" "curTier c"] a by auto
    have "camp_ok (c\<lparr>battle := b, activeGymTrainer := Suc ?t, textBattleActive := True\<rparr>)" for b
      using c True by (simp add: camp_ok_def)
    with True p show ?thesis by (simp add: endGym_def Let_def)
  next
    case False
    then have "fight_fits (lord c) (GYM, ?g, ?t, ?won)" using g by (auto simp: fight_fits_def)
    then show ?thesis using False stage_ok [OF c'] by (auto simp: endGym_def Let_def)
  qed
qed

lemma endE4_ok:
  assumes c: "camp_ok c" and a: "activeE4Member c < 5"
  shows "camp_ok (endE4 c)"
proof -
  let ?m = "activeE4Member c" and ?won = "result (engine (battle c)) = P1_WIN"
  have b: "badges (lord c) = 255" using c a by (simp add: camp_ok_def)
  have c': "camp_ok (c\<lparr>activeE4Member := 255\<rparr>)" using c by (simp add: camp_ok_def)
  show ?thesis
  proof (cases "?won \<and> ?m < 4")
    case True
    then obtain p where p: "lordBuildE4Party (curTier c) (?m + 1) = Some p" using e4_party [of "?m + 1" "curTier c"] by auto
    have "camp_ok (c\<lparr>battle := b, activeE4Member := Suc ?m\<rparr>)" for b using c b by (simp add: camp_ok_def)
    with True p show ?thesis by (simp add: endE4_def Let_def)
  next
    case False
    then have "fight_fits (lord c) (E4, ?m, 0, ?won)" using b a by (auto simp: fight_fits_def)
    then show ?thesis using False stage_ok [OF c'] by (auto simp: endE4_def Let_def)
  qed
qed

lemma endBattle_ok:
  assumes c: "camp_ok c"
  shows "camp_ok (endBattle c)"
proof -
  have 1: "camp_ok (c\<lparr>activeExploreRoute := 255, activeExploreLevel := 0\<rparr>)" "camp_ok (c\<lparr>textBattleActive := False\<rparr>)"
    using c by (simp_all add: camp_ok_def)
  have "activeExploreLevel c < 65536" using c by (simp add: camp_ok_def)
  then have "camp_ok (stage EXPLORE a (activeExploreLevel c) won (c\<lparr>activeExploreRoute := 255, activeExploreLevel := 0\<rparr>))" for a won
    using 1 by (intro stage_ok) (simp_all add: fight_fits_def)
  moreover have "camp_ok (stage FIGHT 0 0 won c)" for won using c by (intro stage_ok) (simp_all add: fight_fits_def)
  ultimately show ?thesis using c 1 endGym_ok endE4_ok by (simp add: endBattle_def)
qed

lemma battle_frame: "camp_ok c \<Longrightarrow> camp_ok (c\<lparr>battle := b, stagedXp := x\<rparr>)" "camp_ok c \<Longrightarrow> camp_ok (c\<lparr>battle := b\<rparr>)"
  by (simp_all add: camp_ok_def)

lemma runOnce_ok:
  assumes "camp_ok c"
  shows "camp_ok (runOnce now rnd r peers c)"
  using startFight_ok [OF assms, of now rnd r peers]
  by (auto simp: runOnce_def Let_def battle_frame intro!: endBattle_ok split: prod.split)

lemma pressKey_ok: "camp_ok c \<Longrightarrow> camp_ok (pressKey now k c)"
  by (simp add: pressKey_def battle_frame)

subsection \<open>Runs\<close>

text \<open>
  Events of a session.  The development commands are left out, which rewrite the state at will; the party
  comes from the cartridge and may change at any time.
\<close>

datatype Event = Open nat | Typed "nat option" Line | LoopPass nat "32 word" "nat \<Rightarrow> nat" "DaycareNeighborPokemon list"
  | KeyPress nat char | Deliver nat "nat option" | PartyRead bool Gen1Party

fun campaignStep :: "Event \<Rightarrow> Campaign \<Rightarrow> Campaign" where
  "campaignStep (Open epoch) c = openTerminal epoch c"
| "campaignStep (Typed wr line) c = execute wr line c"
| "campaignStep (LoopPass now rnd r peers) c = runOnce now rnd r peers c"
| "campaignStep (KeyPress now k) c = pressKey now k c"
| "campaignStep (Deliver ts wr) c = deliver ts wr c"
| "campaignStep (PartyRead loaded p) c = c\<lparr>partyLoaded := loaded, myParty := p\<rparr>"

fun campaignAllowed :: "Event \<Rightarrow> bool" where
  "campaignAllowed (Typed wr line) \<longleftrightarrow> line \<noteq> DevAll8 \<and> line \<noteq> DevClear"
| "campaignAllowed (Deliver ts wr) \<longleftrightarrow> ts < 4294967296"
| "campaignAllowed e \<longleftrightarrow> True"

text \<open>A session starts with a file that is missing, damaged or good, and the terminal opened.\<close>

definition sessionStart :: "Campaign \<Rightarrow> bool" where
  "sessionStart c \<longleftrightarrow> (\<exists>dat loaded p node epoch. lord_good (snd (lordLoad dat)) \<and> c = openTerminal epoch (boot dat loaded p node))"

lemma start_ok: "sessionStart c \<Longrightarrow> camp_ok c"
proof -
  assume "sessionStart c"
  then obtain dat loaded p node epoch
    where f: "lord_good (snd (lordLoad dat))" and c: "c = openTerminal epoch (boot dat loaded p node)"
    by (auto simp: sessionStart_def)
  let ?l = "snd (lordLoad dat)"
  have "lordSetCurrentNgPlusTier (ngPlusTier ?l) = ngPlusTier ?l" using lord_goodD(2) [OF f] by (simp add: lordSetCurrentNgPlusTier_def)
  then have "c = (boot dat loaded p node)\<lparr>lord := if 0 < epoch then lordApplyDailyReset epoch (- 4) ?l else ?l,
      lordLoaded := True, curTier := ngPlusTier ?l\<rparr>"
    by (simp add: c openTerminal_def boot_def Let_def onLord_def)
  then show ?thesis using f reset_good [OF f] by (simp add: camp_ok_def boot_def)
qed

lemma campaignStep_ok: "camp_ok c \<Longrightarrow> campaignAllowed e \<Longrightarrow> camp_ok (campaignStep e c)"
proof (cases e)
  case (PartyRead loaded p)
  then show "camp_ok c \<Longrightarrow> camp_ok (campaignStep e c)" by (simp add: camp_ok_def)
qed (simp_all add: open_ok execute_ok runOnce_ok pressKey_ok deliver_ok)

interpretation campaign: transition_system sessionStart campaignStep campaignAllowed camp_ok
  by unfold_locales (fact start_ok, fact campaignStep_ok)

end
