(* ===== verification/LordLeague.thy ===== *)
theory LordLeague
  imports LordPlay
begin

text \<open>
  What the campaign guarantees over whole sessions: badges come in order, a session only moves along the
  rules of the campaign, and every fight that is asked for can be fought; and where the play differs
  from what the texts of the source promise: the Elite Four is always begun again at its first member, a
  higher tier needs no gym of it, and between two trainers of a gym PP stay spent.
\<close>

lemmas session_ok = campaign.reach_inv

text \<open>A device without a file, with a party, after the terminal was opened; used in the witnesses.\<close>

definition firstSession :: Campaign where
  "firstSession = openTerminal 0 (boot None True (emptySaveParty\<lparr>gp_count := 1\<rparr>) 7)"

lemma first_start: "sessionStart firstSession"
  unfolding sessionStart_def firstSession_def
  by (intro exI conjI) (auto simp: lordLoad_def defaults_good)

lemma first_lord: "lord firstSession = lordInitDefaults" "flash firstSession = None" "curTier firstSession = 0"
  "staged firstSession = None" "partyLoaded firstSession" "pendingRematchGym firstSession = None"
  by (simp_all add: firstSession_def openTerminal_def boot_def lordLoad_def Let_def lordSetCurrentNgPlusTier_def)
    (simp add: lordInitDefaults_def)

subsection \<open>Badges\<close>



subsection \<open>The rules of the campaign\<close>

text \<open>The abstract campaign: how many badges, which tier.\<close>

inductive campaignRule :: "nat \<times> nat \<Rightarrow> nat \<times> nat \<Rightarrow> bool" where
  Badge: "k < 8 \<Longrightarrow> campaignRule (k, t) (Suc k, t)"
| Champion: "campaignRule (8, t) (8, if t < 5 then Suc t else t)"

inductive_cases campaignRuleE: "campaignRule x y"

definition standing :: "Campaign \<Rightarrow> nat \<times> nat" where
  "standing c = (popcount (badges (lord c)), ngPlusTier (lord c))"

lemma standing_same: "badges (lord c') = badges (lord c) \<Longrightarrow> ngPlusTier (lord c') = ngPlusTier (lord c) \<Longrightarrow> standing c' = standing c"
  by (simp add: standing_def)

lemma onLord_lord [simp]: "lord (onLord f c) = f (lord c)"
  by (simp add: onLord_def)

lemma storeLord_lord [simp]: "lord (storeLord wr c) = lord c"
  by (simp add: storeLord_def)

lemma request_lord [simp]: "lord (requestGymBattle g t c) = lord c" "lord (requestExplore r c) = lord c"
  "lord (requestE4Battle m c) = lord c" "lord (requestFight tg c) = lord c"
  by (simp_all add: requestGymBattle_def requestExplore_def requestE4Battle_def requestFight_def split: option.split)

lemma execute_standing:
  assumes "line \<noteq> DevAll8" "line \<noteq> DevClear"
  shows "standing (execute wr line c) = standing c"
proof -
  have "standing (gymFight n c) = standing c" for n
    by (simp add: gymFight_def challengeGym_def challengeLeague_def Let_def standing_def split: option.split)
  moreover have "standing (explore c) = standing c" by (simp add: explore_def standing_def)
  moreover have "standing (requestFight t c) = standing c" "standing (requestGymBattle g 0 (c\<lparr>pendingRematchGym := None\<rparr>)) = standing c"
    "standing (c\<lparr>pendingRematchGym := None\<rparr>) = standing c" for t g
    by (simp_all add: standing_def)
  ultimately show ?thesis using assms by (simp add: execute_def Let_def split: option.split Line.split)
qed

lemma start_lord: "lord (fst (startE4 c)) = lord c" "lord (fst (startExplore r c)) = lord c" "lord (fst (startGym c)) = lord c"
  "lord (fst (startPeer r peers c)) = lord c"
  by (simp_all add: startE4_def startExplore_def startGym_def startPeer_def Let_def split: option.split)

lemma runOnce_lord: "lord (runOnce now rnd r peers c) = lord c"
proof -
  have "lord (startFight now rnd r peers c) = lord c"
  proof -
    have "lord (fst (cpuParty r peers x)) = lord x" for x by (simp only: cpuParty_state start_lord)
    from this [of "c\<lparr>textBattleStartReq := False\<rparr>"] show ?thesis by (auto simp: startFight_def split: prod.split)
  qed
  moreover have "lord (endBattle d) = lord d" for d
    by (simp add: endBattle_def endGym_def endE4_def stage_def Let_def split: option.split)
  ultimately show ?thesis by (simp add: runOnce_def Let_def split: prod.split)
qed

lemma popcount_or:
  assumes "k \<le> 8" "g \<le> k" "g < 8"
  shows "popcount (or (mask k) (2 ^ g)) = (if g < k then k else Suc k)"
proof -
  have "or (mask k) (2 ^ g) = (mask (if g < k then k else Suc k) :: nat)"
    using assms by (auto intro!: bit_eqI simp: bit_or_iff bit_mask_iff bit_exp_iff less_Suc_eq)
  moreover have "(if g < k then k else Suc k) \<le> 8" using assms by auto
  ultimately show ?thesis by (simp only: popcount_mask)
qed

lemma deliver_rule:
  assumes ok: "camp_ok c"
  shows "standing (deliver ts wr c) = standing c \<or> campaignRule (standing c) (standing (deliver ts wr c))"
proof (cases "staged c")
  case (Some x)
  obtain k a b won where x: "x = (k, a, b, won)" by (cases x)
  have fits: "fight_fits (lord c) x" by (rule camp_okD(5) [OF ok Some])
  obtain j where j: "badges (lord c) = mask j" "j \<le> 8" using camp_okD(1) [OF ok] by (auto simp: lord_good_def)
  have pc: "standing c = (j, ngPlusTier (lord c))" using j by (simp add: standing_def popcount_mask)
  show ?thesis
  proof (cases k)
    case GYM
    have u: "a < 8" "a \<le> j" using fits unlocked_mask [OF j] by (simp_all add: x GYM fight_fits_def)
    then show ?thesis
      using pc popcount_or [OF j(2) u(2,1)] j
      by (auto simp: deliver_def Some x GYM onGymBattleEnded_def standing_def cleared_badges lordOnGymCleared_def Let_def
          intro: campaignRule.Badge)
  next
    case EXPLORE
    then show ?thesis by (simp add: deliver_def Some x onExploreBattleEnded_def standing_def Let_def)
  next
    case E4
    have "badges (lord c) = 255" using fits by (simp add: x E4 fight_fits_def)
    then have "j = 8" using mask_all [OF j(2)] j(1) by simp
    then show ?thesis
      using pc j campaignRule.Champion [of "ngPlusTier (lord c)"]
      by (auto simp: deliver_def Some x E4 onE4BattleEnded_def standing_def Let_def popcount_mask)
  next
    case FIGHT
    then show ?thesis by (simp add: deliver_def Some x standing_def Let_def)
  qed
qed (simp add: deliver_def)

lemma step_rule:
  assumes "camp_ok c" "campaignAllowed e"
  shows "standing (campaignStep e c) = standing c \<or> campaignRule (standing c) (standing (campaignStep e c)) \<and> (\<exists>ts wr. e = Deliver ts wr)"
proof (cases e)
  case (Open epoch)
  have "lord (openTerminal epoch c) = (if 0 < epoch then lordApplyDailyReset epoch (- 4) (lord c) else lord c)"
    using camp_okD(4) [OF assms(1)] by (simp add: openTerminal_def)
  then show ?thesis by (auto simp: Open intro!: standing_same)
next
  case (Typed wr line)
  then show ?thesis using execute_standing assms(2) by simp
next
  case (LoopPass now rnd r peers)
  then show ?thesis using runOnce_lord by (auto intro!: standing_same)
next
  case (KeyPress now k)
  then show ?thesis by (auto simp: pressKey_def intro!: standing_same)
next
  case (Deliver ts wr)
  then show ?thesis using deliver_rule [OF assms(1)] by auto
next
  case (PartyRead loaded p)
  then show ?thesis by (auto intro!: standing_same)
qed

lemma rules_bound: "rtranclp campaignRule x y \<Longrightarrow> fst x \<le> 8 \<and> (snd x = 0 \<or> fst x = 8) \<Longrightarrow> fst y \<le> 8 \<and> (snd y = 0 \<or> fst y = 8)"
  by (induction rule: rtranclp_induct) (auto elim!: campaignRuleE)

lemma session_rules:
  assumes "camp_ok c" "list_all campaignAllowed es"
  shows "rtranclp campaignRule (standing c) (standing (fold campaignStep es c))"
  using assms
proof (induction es arbitrary: c)
  case (Cons e es)
  then have "camp_ok (campaignStep e c)" by (simp add: campaignStep_ok)
  then have "rtranclp campaignRule (standing (campaignStep e c)) (standing (fold campaignStep es (campaignStep e c)))"
    using Cons by simp
  then show ?case using step_rule [of c e] Cons.prems by (auto intro: converse_rtranclp_into_rtranclp)
qed simp



subsection \<open>The Elite Four\<close>

lemma autoPick_some:
  assumes "badges l < 256" "e4Progress l < 5"
  shows "autoPick l \<noteq> None"
proof (cases "find (\<lambda>i. \<not> (lordHasBadge l i \<and> ngPlusTier l \<le> gymTierCleared l ! i) \<and> lordGymUnlocked l i) [0..<8]")
  case None
  have has: "lordHasBadge l i" if "i < 8" for i using that
  proof (induction i rule: less_induct)
    case (less i)
    then have "lordGymUnlocked l i" by (simp add: lordGymUnlocked_def list_all_iff)
    then show ?case using None less.prems by (auto simp: find_None_iff)
  qed
  have "badges l = (mask 8 :: nat)"
  proof (rule bit_eqI)
    fix i
    have "take_bit 8 (badges l) = badges l" using assms(1) by (simp add: take_bit_nat_eq_self)
    then have "bit (badges l) i \<Longrightarrow> i < 8" using bit_take_bit_iff [of 8 "badges l" i] by simp
    then show "bit (badges l) i = bit (mask 8 :: nat) i" using has [of i] by (auto simp: bit_mask_iff lordHasBadge_def)
  qed
  then have "badges l = 255" by (simp add: mask_eq_exp_minus_1)
  then show ?thesis using None assms(2) by (simp add: autoPick_def)
qed (simp add: autoPick_def)

text \<open>
  The Elite Four is always fought from its first member: in every session the saved progress there stays 0,
  since the module reports only a defeat or the fall of the champion, so with all badges \<open>gym fight 9\<close> asks
  for member 0 even after a defeat by a later one; and \<open>gym fight\<close> without a number always finds a fight,
  so the line saying that everything is cleared is never printed.
\<close>

theorem league_starts_over:
  assumes "sessionStart c" "list_all campaignAllowed es"
  shows "let c' = fold campaignStep es c in
    e4Progress (lord c') = 0 \<and> e4Progress (snd (lordLoad (flash c'))) = 0
    \<and> (\<forall>m b. staged c' = Some (E4, m, b, True) \<longrightarrow> m = 4)
    \<and> (badges (lord c') = 255 \<longrightarrow> e4MemberIdx (challengeLeague c') = 0 \<and> textBattleStartReq (challengeLeague c'))
    \<and> autoPick (lord c') \<noteq> None"
proof -
  define c' where "c' = fold campaignStep es c"
  have ok: "camp_ok c'" unfolding c'_def by (rule session_ok [OF assms])
  note l = camp_okD(1) [OF ok] camp_okD(2) [OF ok]
  have e: "e4Progress (lord c') = 0" "e4Progress (snd (lordLoad (flash c'))) = 0" using l by (simp_all add: lord_goodD)
  have "badges (lord c') < 256" using l(1) by (simp add: lord_good_def lord_fit_def)
  then have "autoPick (lord c') \<noteq> None" using e by (simp add: autoPick_some)
  moreover have "m = 4" if "staged c' = Some (E4, m, b, True)" for m b
    using camp_okD(5) [OF ok that] by (simp add: fight_fits_def)
  ultimately show ?thesis
    unfolding Let_def c'_def [symmetric] using e by (simp add: challengeLeague_def requestE4Battle_def Let_def)
qed

theorem league_starts_over_witness:
  "let c = fold campaignStep [Typed None (GymFight 1), Deliver 5 (Some 268)] firstSession in
     e4Progress (lord c) = 0 \<and> autoPick (lord c) \<noteq> None"
  using league_starts_over [OF first_start, of "[Typed None (GymFight 1), Deliver 5 (Some 268)]"] by (simp add: Let_def)

text \<open>
  A higher tier needs no gym of it: once all badges are held and the champion has fallen, the tier goes up
  and \<open>gym fight 9\<close> at once asks for the Elite Four again, while every gym that was cleared at the old tier is
  owed at the new one; the text printed says that all gyms must be challenged again.
\<close>

theorem tiers_without_gyms:
  assumes "camp_ok c" "staged c = Some (E4, 4, b, True)" "partyLoaded c" "pendingRematchGym c = None" "ts < 4294967296"
  shows "let l = lord c; c' = execute wr' (GymFight 9) (deliver ts wr c); l' = lord c' in
    e4MemberIdx c' = 0 \<and> textBattleStartReq c' \<and> ngPlusTier l' = min 5 (ngPlusTier l + 1) \<and> curTier c' = ngPlusTier l'
    \<and> gymTierCleared l' = gymTierCleared l \<and> badges l' = 255 \<and> gymProgress l' = replicate 8 0 \<and> leagueCleared l' = 1"
proof -
  have b: "badges (lord c) = 255" using camp_okD(5) [OF assms(1,2)] by (simp add: fight_fits_def)
  have t: "ngPlusTier (lord c) \<le> 5" "curTier c = ngPlusTier (lord c)"
    using lord_goodD(2) [OF camp_okD(1) [OF assms(1)]] camp_okD(3) [OF assms(1)] by simp_all
  let ?l = "leagueWon ts (lord c)"
  have w: "e4Progress ?l = 0" "gymTierCleared ?l = gymTierCleared (lord c)" "gymProgress ?l = replicate 8 0" "leagueCleared ?l = 1"
    by (simp_all add: leagueWon_def Let_def)
  have d: "deliver ts wr c = c\<lparr>staged := None, lord := ?l, flash := snd (lordSave wr ?l), curTier := ngPlusTier ?l\<rparr>"
    using t by (auto simp: deliver_def assms(2) onE4BattleEnded_def storeLord_def onLord_def Let_def lordSetCurrentNgPlusTier_def)
  show ?thesis
    unfolding d using b t w assms(3,4)
    by (simp add: execute_def gymFight_def challengeLeague_def requestE4Battle_def Let_def min_def)
qed

theorem tiers_without_gyms_witness:
  "let c = firstSession\<lparr>lord := lordInitDefaults\<lparr>badges := 255\<rparr>, staged := Some (E4, 4, 0, True)\<rparr>;
       c' = execute None (GymFight 9) (deliver 9 (Some 268) c)
   in e4MemberIdx c' = 0 \<and> ngPlusTier (lord c') = 1 \<and> gymTierCleared (lord c') = replicate 8 0"
proof -
  let ?l = "lordInitDefaults\<lparr>badges := 255\<rparr>"
  let ?c = "firstSession\<lparr>lord := ?l, staged := Some (E4, 4, 0, True)\<rparr>"
  have f: "e4Progress lordInitDefaults = 0" "ngPlusTier lordInitDefaults = 0" "gymTierCleared lordInitDefaults = replicate 8 0"
    "badges lordInitDefaults = 0"
    by (simp_all add: lordInitDefaults_def)
  have "lord_fit ?l" using fit_defaults by (simp add: lord_fit_def)
  moreover have "\<exists>k \<le> 8. (255 :: nat) = mask k" by (intro exI [of _ 8]) (simp add: mask_eq_exp_minus_1)
  ultimately have g: "lord_good ?l" using f by (simp add: lord_good_def)
  have i: "gymBattleIdx firstSession = 255" "activeGymBattle firstSession = 255" "activeExploreLevel firstSession = 0"
    "e4MemberIdx firstSession = 255" "activeE4Member firstSession = 255" "lordLoaded firstSession"
    by (simp_all add: firstSession_def openTerminal_def boot_def Let_def)
  have "camp_ok ?c" using g f i defaults_good by (simp add: camp_ok_def first_lord fight_fits_def lordLoad_def)
  from tiers_without_gyms [OF this, of 0 9 None "Some 268"] show ?thesis by (simp add: Let_def first_lord f)
qed

subsection \<open>Where a fight begins\<close>

text \<open>
  Where a gym begins: a locked gym starts nothing; one cleared at the current tier asks first; one owed at a
  higher tier begins at its first trainer, whatever resume point a defeat had saved; a gym not yet won resumes at the
  trainer that won, or further if the player had been further.
\<close>

theorem where_a_gym_begins:
  assumes "length (gymProgress (lord c)) = 8" "g < 8" "t \<le> 4" "gymProgress (lord c) ! g \<le> 4"
  shows "let c' = onGymBattleEnded ts wr g t False c; d = challengeGym g c'; l = lord c in
    if \<not> lordGymUnlocked l g then d = c'
    else if lordHasBadge l g \<and> ngPlusTier l \<le> gymTierCleared l ! g then d = c'\<lparr>pendingRematchGym := Some g\<rparr>
    else textBattleStartReq d \<and> gymBattleIdx d = g
      \<and> gymTrainerIdx d = (if lordHasBadge l g then 0 else max t (gymProgress l ! g))"
proof -
  define c' where "c' = onGymBattleEnded ts wr g t False c"
  have p: "gymProgress (lord c') ! g = max t (gymProgress (lord c) ! g)"
    using assms by (simp add: c'_def onGymBattleEnded_def max_def)
  have f: "badges (lord c') = badges (lord c)" "ngPlusTier (lord c') = ngPlusTier (lord c)"
    "gymTierCleared (lord c') = gymTierCleared (lord c)" "length (gymProgress (lord c')) = 8"
    using assms by (simp_all add: c'_def onGymBattleEnded_def)
  have h: "lordHasBadge (lord c') i = lordHasBadge (lord c) i" for i by (simp add: lordHasBadge_def f)
  then have u: "lordGymUnlocked (lord c') g = lordGymUnlocked (lord c) g" by (simp add: lordGymUnlocked_def list_all_iff)
  show ?thesis
    unfolding Let_def c'_def [symmetric]
    using assms h u f p by (auto simp: challengeGym_def Let_def requestGymBattle_def)
qed

theorem where_a_gym_begins_witness:
  "gymTrainerIdx (challengeGym 0 (onGymBattleEnded 5 None 0 3 False firstSession)) = 3"
proof -
  have f: "gymProgress lordInitDefaults = replicate 8 0" "badges lordInitDefaults = 0" by (simp_all add: lordInitDefaults_def)
  show ?thesis
    using where_a_gym_begins [of firstSession 0 3 5 None]
    by (simp add: Let_def first_lord f lordHasBadge_def lordGymUnlocked_def)
qed

subsection \<open>Between two trainers\<close>

lemma nextOpponent_player: "parties (engine (nextOpponent p tag t)) S0 = parties (engine t) S0"
  by (simp add: nextOpponent_def tagOpponent_def appendLog_def onEngine_def replaceOpponent_def onParty_def Let_def)

lemma nextOpponent_result: "result (engine (nextOpponent p tag t)) = ONGOING" "mode (nextOpponent p tag t) = LOCAL_ROGUELIKE"
  "phase (nextOpponent p tag t) = WAIT_ACTION"
  by (simp_all add: nextOpponent_def tagOpponent_def appendLog_def onEngine_def replaceOpponent_def onParty_def Let_def)

lemma healPlayer_player: "parties (engine (healPlayer t)) S0 = onMons (\<lambda>m. m\<lparr>hp := maxHp m, status := 0\<rparr>) (parties (engine t) S0)"
  by (simp add: healPlayer_def appendLog_def onEngine_def onParty_def)

lemma onMons_nth: "i < min 6 (pcount p) \<Longrightarrow> i < length (mons p) \<Longrightarrow> mons (onMons f p) ! i = f (mons p ! i)"
  by (simp add: onMons_def nth_append)

text \<open>
  A win over any but the last trainer of a gym goes on at once against the next, with every monster of the
  player at full HP and without status, but with the PP, stat stages and confusion it was left with, although a comment
  promises HP, PP and status; at the Indigo Plateau the next member follows with no healing at all.
\<close>

theorem between_trainers:
  assumes "result (engine (battle c)) = P1_WIN" "n \<le> 6" "pcount (parties (engine (battle c)) S0) = n"
    "length (mons (parties (engine (battle c)) S0)) = 6" "i < n"
  shows "let m = mons (parties (engine (battle c)) S0) ! i; g = activeGymBattle c; e = activeE4Member c in
    (g < 8 \<and> activeGymTrainer c < 4 \<longrightarrow>
      (let c' = endGym c; m' = mons (parties (engine (battle c')) S0) ! i in
         activeGymBattle c' = g \<and> activeGymTrainer c' = activeGymTrainer c + 1 \<and> textBattleActive c' \<and> staged c' = staged c
         \<and> result (engine (battle c')) = ONGOING \<and> hp m' = maxHp m \<and> status m' = 0
         \<and> pp m' = pp m \<and> atkBoost m' = atkBoost m \<and> confuseTurns m' = confuseTurns m))
    \<and> (e < 4 \<longrightarrow>
      (let c' = endE4 c; m' = mons (parties (engine (battle c')) S0) ! i in
         activeE4Member c' = e + 1 \<and> staged c' = staged c \<and> result (engine (battle c')) = ONGOING \<and> m' = m))"
proof -
  let ?p = "parties (engine (battle c)) S0"
  have m: "mons (onMons f ?p) ! i = f (mons ?p ! i)" for f by (rule onMons_nth) (use assms in simp_all)
  have "\<exists>p. lordBuildGymParty (curTier c) (activeGymBattle c) (activeGymTrainer c + 1) = Some p"
    if "activeGymBattle c < 8" "activeGymTrainer c < 4"
    using gym_party [of "activeGymBattle c" "activeGymTrainer c + 1" "curTier c"] that by auto
  moreover have "\<exists>p. lordBuildE4Party (curTier c) (activeE4Member c + 1) = Some p" if "activeE4Member c < 4"
    using e4_party [of "activeE4Member c + 1" "curTier c"] that by auto
  ultimately show ?thesis
    using assms(1) m by (auto simp: endGym_def endE4_def Let_def nextOpponent_player nextOpponent_result healPlayer_player)
qed

theorem between_trainers_witness:
  "let m = zeroPoke\<lparr>hp := 3, maxHp := 20, pp := [1, 0, 0, 0], atkBoost := 2\<rparr>;
       e = (newEngine True)\<lparr>result := P1_WIN, parties := (\<lambda>_. emptyParty\<lparr>pcount := 6, mons := replicate 6 m\<rparr>)\<rparr>;
       c = firstSession\<lparr>battle := (newBattle 7)\<lparr>engine := e\<rparr>, activeGymBattle := 2, activeGymTrainer := 1\<rparr>;
       m' = mons (parties (engine (battle (endGym c))) S0) ! 4
   in activeGymTrainer (endGym c) = 2 \<and> hp m' = 20 \<and> pp m' = [1, 0, 0, 0] \<and> atkBoost m' = 2"
proof -
  let ?m = "zeroPoke\<lparr>hp := 3, maxHp := 20, pp := [1, 0, 0, 0], atkBoost := 2\<rparr>"
  let ?e = "(newEngine True)\<lparr>result := P1_WIN, parties := (\<lambda>_. emptyParty\<lparr>pcount := 6, mons := replicate 6 ?m\<rparr>)\<rparr>"
  let ?c = "firstSession\<lparr>battle := (newBattle 7)\<lparr>engine := ?e\<rparr>, activeGymBattle := 2, activeGymTrainer := 1\<rparr>"
  from between_trainers [of ?c 6 4] show ?thesis by (simp add: Let_def)
qed

end
