(* ===== verification/CStrings.thy ===== *)
theory CStrings
  imports Prelude
begin

text \<open>
  Strings and numbers of C as several components use them: characters, the bytes of a text, \<open>atoi\<close>, comparison
  without case, hexadecimal and big-endian numbers.
\<close>

subsection \<open>Characters\<close>

definition asciiUpper :: "char \<Rightarrow> char" where
  "asciiUpper c = (if 97 \<le> (of_char c :: nat) \<and> (of_char c :: nat) \<le> 122 then char_of ((of_char c :: nat) - 32) else c)"

definition asciiLower :: "char \<Rightarrow> char" where
  "asciiLower c = (if 65 \<le> (of_char c :: nat) \<and> (of_char c :: nat) \<le> 90 then char_of ((of_char c :: nat) + 32) else c)"

text \<open>A comparison of the first characters without case (\<open>strncasecmp\<close> against a constant in lower case).\<close>

definition ciPrefix :: "string \<Rightarrow> string \<Rightarrow> bool" where
  "ciPrefix p s \<longleftrightarrow> map asciiLower (take (length p) s) = p"

definition isBlank :: "char \<Rightarrow> bool" where
  "isBlank c \<longleftrightarrow> c = CHR '' '' \<or> c = CHR 0x09"

definition skipBlanks :: "string \<Rightarrow> string" where
  "skipBlanks s = dropWhile isBlank s"

subsection \<open>Texts as bytes\<close>

text \<open>The string at the start of some bytes, when they hold its terminator.\<close>

definition cstr :: "nat list \<Rightarrow> string" where
  "cstr bs = map char_of (takeWhile (\<lambda>b. b \<noteq> 0) bs)"

definition bytesOf :: "string \<Rightarrow> nat list" where
  "bytesOf s = map of_char s"

lemma bytes_of [simp]: "list_all (\<lambda>b. b < 256) (bytesOf s)" "length (bytesOf s) = length s"
  by (simp_all add: bytesOf_def list_all_iff)

subsection \<open>Numbers\<close>

text \<open>\<open>atoi\<close>: blanks, a sign, digits; it is \<open>strtol\<close> of the C library, which stays in the range of an \<open>int\<close>.\<close>

definition digitsAt :: "string \<Rightarrow> nat" where
  "digitsAt s = foldl (\<lambda>n c. n * 10 + (of_char c - 48)) 0 (takeWhile (\<lambda>c. 48 \<le> (of_char c :: nat) \<and> (of_char c :: nat) \<le> 57) s)"

definition atoi :: "string \<Rightarrow> int" where
  "atoi s =
     (let v = (case dropWhile (\<lambda>c. c = CHR '' '' \<or> 9 \<le> (of_char c :: nat) \<and> (of_char c :: nat) \<le> 13) s of
                 [] \<Rightarrow> 0
               | c # cs \<Rightarrow> if c = CHR ''-'' then - int (digitsAt cs)
                           else if c = CHR ''+'' then int (digitsAt cs) else int (digitsAt (c # cs)))
      in max (- 2147483648) (min 2147483647 v))"

fun hexDigits :: "nat \<Rightarrow> nat \<Rightarrow> string" where
  "hexDigits 0 n = []"
| "hexDigits (Suc k) n = hexDigits k (n div 16) @ [''0123456789ABCDEF'' ! (n mod 16)]"

definition be32Bytes :: "nat \<Rightarrow> nat list" where
  "be32Bytes n = [n div 16777216 mod 256, n div 65536 mod 256, n div 256 mod 256, n mod 256]"

definition be32At :: "nat list \<Rightarrow> nat \<Rightarrow> nat" where
  "be32At p k = p ! k * 16777216 + p ! (k + 1) * 65536 + p ! (k + 2) * 256 + p ! (k + 3)"

end
