(* ===== verification/DungeonWordle.thy ===== *)
theory DungeonWordle
  imports CStrings
begin

text \<open>
  The word game of the dungeon (\<^verbatim>\<open>dungeon/DungeonWordle.h\<close>): a session of at most six guesses,
  the marks of a guess, the damage at the end, and the choice of the word.  The texts shown
  (\<^verbatim>\<open>formatRow\<close>, \<^verbatim>\<open>formatResult\<close>) are left out.
\<close>

subsection \<open>State\<close>

abbreviation (input) WORDLE_MAX_GUESSES :: nat where "WORDLE_MAX_GUESSES \<equiv> 6"
abbreviation (input) WORDLE_MAX_LEN :: nat where "WORDLE_MAX_LEN \<equiv> 8"

datatype WordleTile = Unknown | Grey | Yellow | Green

datatype WordleDamageTier = NoDamage | Spared | Low | Medium | High | Severe

record WordleGuess =
  wg_word :: string
  wg_tiles :: "WordleTile list"

record WordleSession =
  secretWord :: string
  wordLen :: nat
  guessCount :: nat
  guesses :: "WordleGuess list"
  solved :: bool
  failed :: bool
  hintCount :: nat

definition emptyGuess :: WordleGuess where
  "emptyGuess = \<lparr>wg_word = [], wg_tiles = replicate (WORDLE_MAX_LEN - 1) Unknown\<rparr>"

definition wordleInit :: "string \<Rightarrow> nat \<Rightarrow> WordleSession" where
  "wordleInit word wisScore =
     (let secret = map asciiUpper (take (WORDLE_MAX_LEN - 1) word)
      in \<lparr>secretWord = secret, wordLen = length secret, guessCount = 0,
          guesses = replicate WORDLE_MAX_GUESSES emptyGuess, solved = False, failed = False,
          hintCount = (if 17 \<le> wisScore then 2 else if 14 \<le> wisScore then 1 else 0)\<rparr>)"

definition getHint :: "nat \<Rightarrow> WordleSession \<Rightarrow> char option" where
  "getHint pos s =
     (if 1 \<le> hintCount s \<and> pos = 0 then Some (secretWord s ! 0)
      else if 2 \<le> hintCount s \<and> pos = wordLen s div 2 then Some (secretWord s ! (wordLen s div 2))
      else None)"

subsection \<open>Marks\<close>

text \<open>
  The second pass over the letters, each with the mark of the first; \<open>used\<close> says which letters of the
  secret are taken.
\<close>

fun passTwo :: "string \<Rightarrow> (char \<times> bool) list \<Rightarrow> bool list \<Rightarrow> WordleTile list" where
  "passTwo secret [] used = []"
| "passTwo secret ((c, green) # rest) used =
     (if green then Green # passTwo secret rest used
      else
       (case find (\<lambda>j. \<not> used ! j \<and> c = secret ! j) [0..<length secret] of
          Some j \<Rightarrow> Yellow # passTwo secret rest (used[j := True])
        | None \<Rightarrow> Grey # passTwo secret rest used))"

definition wordleTiles :: "string \<Rightarrow> string \<Rightarrow> WordleTile list" where
  "wordleTiles guess secret =
     (let greens = map2 (=) guess secret in passTwo secret (zip guess greens) greens)"

subsection \<open>A guess\<close>

text \<open>The letters after the length of the word are not looked at.\<close>

definition submitGuess :: "string \<Rightarrow> WordleSession \<Rightarrow> bool \<times> WordleSession" where
  "submitGuess raw s =
     (if solved s \<or> failed s \<or> WORDLE_MAX_GUESSES \<le> guessCount s then (False, s)
      else
       (let guess = map asciiUpper (take (wordLen s) raw) in
        if length guess = 0 \<and> raw \<noteq> [] \<and> raw ! 0 = CHR '' '' then (False, s)
        else if length guess \<noteq> wordLen s then (False, s)
        else
         (let tiles = wordleTiles guess (secretWord s);
              wg = \<lparr>wg_word = guess, wg_tiles = tiles @ drop (length tiles) (wg_tiles (guesses s ! guessCount s))\<rparr>;
              s = s\<lparr>guesses := (guesses s)[guessCount s := wg], guessCount := guessCount s + 1\<rparr>
          in (True, if list_all (\<lambda>t. t = Green) tiles then s\<lparr>solved := True\<rparr>
                    else if WORDLE_MAX_GUESSES \<le> guessCount s then s\<lparr>failed := True\<rparr>
                    else s))))"

subsection \<open>Damage\<close>

definition getDamageTier :: "WordleSession \<Rightarrow> WordleDamageTier" where
  "getDamageTier s =
     (if \<not> solved s then Severe
      else if guessCount s = 1 then NoDamage
      else if guessCount s = 2 then Spared
      else if guessCount s = 3 then Low
      else if guessCount s = 4 \<or> guessCount s = 5 then Medium
      else High)"

definition tierToHpDamage :: "WordleDamageTier \<Rightarrow> nat \<Rightarrow> nat \<Rightarrow> nat" where
  "tierToHpDamage tier mx cur =
     (case tier of
        NoDamage \<Rightarrow> 0
      | Spared \<Rightarrow> 0
      | Low \<Rightarrow> mx div 4
      | Medium \<Rightarrow> mx div 2
      | High \<Rightarrow> u16 (mx * 3 div 4)
      | Severe \<Rightarrow> if cur \<le> mx div 2 then cur else u16 (mx * 9 div 10))"

subsection \<open>The word\<close>

definition WORDLE_WORDS :: "string list" where
  "WORDLE_WORDS = [''DUNGEON'', ''DRAGON'', ''BATTLE'', ''WIZARD'', ''KNIGHT'', ''SHIELD'', ''POISON'', ''FOREST'',
     ''CASTLE'', ''GOBLIN'', ''MYSTIC'', ''WYVERN'', ''CLERIC'', ''PORTAL'', ''ROGUE'', ''FROST'', ''BLAZE'',
     ''CHAOS'', ''ALTAR'', ''TORCH'']"

definition pickWordleWord :: "nat \<Rightarrow> 32 word \<Rightarrow> string" where
  "pickWordleWord depth seed =
     (let rng = (seed XOR (of_nat depth * 0x9e3779b9)) * 1664525 + 1013904223
      in WORDLE_WORDS ! (unat rng mod length WORDLE_WORDS))"

subsection \<open>What the marks mean\<close>

text \<open>
  The reference: a letter in its place is green; another occurrence of a letter is yellow as long as the
  secret has more of it, out of place, than were met before it.
\<close>

definition wordleSpec :: "string \<Rightarrow> string \<Rightarrow> WordleTile list" where
  "wordleSpec g s =
     map (\<lambda>i. if g ! i = s ! i then Green
              else if length (filter (\<lambda>j. g ! j = g ! i \<and> g ! j \<noteq> s ! j) [0..<i])
                        < length (filter (\<lambda>j. s ! j = g ! i \<and> g ! j \<noteq> s ! j) [0..<length s]) then Yellow
              else Grey)
       [0..<length g]"

text \<open>How many places of a letter are not taken.\<close>

definition left_of :: "string \<Rightarrow> bool list \<Rightarrow> char \<Rightarrow> nat" where
  "left_of s used c = length (filter (\<lambda>j. \<not> used ! j \<and> c = s ! j) [0..<length s])"

lemma filter_update:
  assumes "j < n" "P j" "\<And>i. i \<noteq> j \<Longrightarrow> Q i = P i" "\<not> Q j"
  shows "length (filter Q [0..<n]) = length (filter P [0..<n]) - 1"
proof -
  have l: "length (filter R [0..<n]) = card {i. i < n \<and> R i}" for R
    by (simp add: length_filter_conv_card cong: conj_cong)
  have "{i. i < n \<and> P i} = insert j {i. i < n \<and> Q i}" using assms by auto metis
  moreover have "j \<notin> {i. i < n \<and> Q i}" "finite {i. i < n \<and> Q i}" using assms(4) by simp_all
  ultimately show ?thesis unfolding l by simp
qed

lemma left_of_use:
  assumes "j < length s" "length used = length s" "\<not> used ! j" "s ! j = c"
  shows "left_of s (used[j := True]) d = (if d = c then left_of s used d - 1 else left_of s used d)"
proof (cases "d = c")
  case True
  then show ?thesis
    using assms filter_update [of j "length s" "\<lambda>j. \<not> used ! j \<and> c = s ! j" "\<lambda>i. \<not> used[j := True] ! i \<and> c = s ! i"]
    by (simp add: left_of_def)
next
  case False
  then have "filter (\<lambda>i. \<not> used[j := True] ! i \<and> d = s ! i) [0..<length s] = filter (\<lambda>i. \<not> used ! i \<and> d = s ! i) [0..<length s]"
    using assms by (intro filter_cong) (auto simp: nth_list_update)
  then show ?thesis using False by (simp add: left_of_def)
qed

lemma find_left: "find (\<lambda>j. \<not> used ! j \<and> c = s ! j) [0..<length s] = None \<longleftrightarrow> left_of s used c = 0"
  by (auto simp: find_None_iff left_of_def filter_empty_conv)

lemma filter_shift: "filter P [0..<Suc n] = (if P 0 then [0] else []) @ map Suc (filter (\<lambda>i. P (Suc i)) [0..<n])"
  by (simp add: upt_conv_Cons map_Suc_upt [symmetric] filter_map o_def del: upt_Suc)

lemma passTwo_length [simp]: "length (passTwo s zs used) = length zs"
  by (induction s zs used rule: passTwo.induct) (auto split: option.split)

lemma passTwo_nth:
  "length used = length s \<Longrightarrow> k < length zs \<Longrightarrow>
   passTwo s zs used ! k =
     (if snd (zs ! k) then Green
      else if length (filter (\<lambda>j. fst (zs ! j) = fst (zs ! k) \<and> \<not> snd (zs ! j)) [0..<k]) < left_of s used (fst (zs ! k)) then Yellow
      else Grey)"
proof (induction s zs used arbitrary: k rule: passTwo.induct)
  case (2 s c green rest used)
  show ?case
  proof (cases k)
    case 0
    then show ?thesis using find_left [of used c s] by (auto split: option.split)
  next
    case (Suc i)
    then have i: "i < length rest" using 2 by simp
    note shift = filter_shift [of "\<lambda>j. fst (((c, green) # rest) ! j) = fst (rest ! i) \<and> \<not> snd (((c, green) # rest) ! j)" i]
    show ?thesis
    proof (cases green)
      case True
      then show ?thesis using 2 Suc i shift by simp
    next
      case False
      show ?thesis
      proof (cases "find (\<lambda>j. \<not> used ! j \<and> c = s ! j) [0..<length s]")
        case None
        then have "left_of s used c = 0" by (simp add: find_left)
        then show ?thesis using 2(2) [OF False None] 2(4) Suc i False None shift by auto
      next
        case (Some j)
        then have j: "j < length s" "\<not> used ! j" "s ! j = c" by (auto dest: find_SomeD)
        note u = left_of_use [OF j(1) 2(4) j(2,3)]
        have "left_of s used c \<noteq> 0" using Some find_left [of used c s] by auto
        then show ?thesis using 2(3) [OF False Some] 2(4) Suc i False Some shift u by auto
      qed
    qed
  qed
qed simp

lemma tiles_spec:
  assumes "length g = length s"
  shows "wordleTiles g s = wordleSpec g s"
proof (rule nth_equalityI)
  show "length (wordleTiles g s) = length (wordleSpec g s)" using assms by (simp add: wordleTiles_def wordleSpec_def Let_def)
next
  let ?g = "map2 (=) g s"
  have gr: "?g ! j \<longleftrightarrow> g ! j = s ! j" if "j < length s" for j using that assms by simp
  fix i assume "i < length (wordleTiles g s)"
  then have i: "i < length s" using assms by (simp add: wordleTiles_def Let_def)
  have "filter (\<lambda>j. fst (zip g ?g ! j) = fst (zip g ?g ! i) \<and> \<not> snd (zip g ?g ! j)) [0..<i]
      = filter (\<lambda>j. g ! j = g ! i \<and> g ! j \<noteq> s ! j) [0..<i]"
    using i assms by (intro filter_cong) auto
  moreover have "left_of s ?g (g ! i) = length (filter (\<lambda>j. s ! j = g ! i \<and> g ! j \<noteq> s ! j) [0..<length s])"
    unfolding left_of_def using assms by (intro arg_cong [of _ _ length] filter_cong) auto
  ultimately show "wordleTiles g s ! i = wordleSpec g s ! i"
    using passTwo_nth [of ?g s i "zip g ?g"] i assms by (simp add: wordleTiles_def wordleSpec_def Let_def)
qed

lemma first_ranks:
  "length (filter (\<lambda>i. P i \<and> length (filter P [0..<i]) < m) [0..<n]) = min (length (filter P [0..<n])) m"
  by (induction n) auto

lemma filter_split: "length (filter P xs) = length (filter (\<lambda>x. P x \<and> Q x) xs) + length (filter (\<lambda>x. P x \<and> \<not> Q x) xs)"
  by (induction xs) auto

definition letters :: "char \<Rightarrow> string \<Rightarrow> nat" where
  "letters c w = length (filter (\<lambda>i. w ! i = c) [0..<length w])"

lemma marked_letters:
  assumes "length g = length s"
  shows "length (filter (\<lambda>i. g ! i = c \<and> wordleSpec g s ! i \<noteq> Grey) [0..<length g]) = min (letters c g) (letters c s)"
proof -
  let ?n = "length g"
  let ?P = "\<lambda>i. g ! i = c \<and> g ! i \<noteq> s ! i"
  define G where "G = length (filter (\<lambda>i. g ! i = c \<and> g ! i = s ! i) [0..<?n])"
  define m where "m = length (filter (\<lambda>j. s ! j = c \<and> g ! j \<noteq> s ! j) [0..<?n])"
  have ranks: "length (filter (\<lambda>i. ?P i \<and> length (filter ?P [0..<i]) < m) [0..<?n]) = min (length (filter ?P [0..<?n])) m"
    by (rule first_ranks)
  have "filter (\<lambda>i. (g ! i = c \<and> wordleSpec g s ! i \<noteq> Grey) \<and> g ! i = s ! i) [0..<?n] = filter (\<lambda>i. g ! i = c \<and> g ! i = s ! i) [0..<?n]"
    by (intro filter_cong) (auto simp: wordleSpec_def)
  moreover have "filter (\<lambda>i. (g ! i = c \<and> wordleSpec g s ! i \<noteq> Grey) \<and> g ! i \<noteq> s ! i) [0..<?n]
      = filter (\<lambda>i. ?P i \<and> length (filter ?P [0..<i]) < m) [0..<?n]"
    using assms by (intro filter_cong) (auto simp: wordleSpec_def m_def)
  ultimately have 1: "length (filter (\<lambda>i. g ! i = c \<and> wordleSpec g s ! i \<noteq> Grey) [0..<?n]) = G + min (length (filter ?P [0..<?n])) m"
    using filter_split [of "\<lambda>i. g ! i = c \<and> wordleSpec g s ! i \<noteq> Grey" "[0..<?n]" "\<lambda>i. g ! i = s ! i"] ranks by (simp add: G_def)
  have 2: "letters c g = G + length (filter ?P [0..<?n])"
    using filter_split [of "\<lambda>i. g ! i = c" "[0..<?n]" "\<lambda>i. g ! i = s ! i"] by (simp add: letters_def G_def)
  have "filter (\<lambda>i. s ! i = c \<and> g ! i = s ! i) [0..<?n] = filter (\<lambda>i. g ! i = c \<and> g ! i = s ! i) [0..<?n]"
    by (intro filter_cong) auto
  then have 3: "letters c s = G + m"
    using filter_split [of "\<lambda>i. s ! i = c" "[0..<?n]" "\<lambda>i. g ! i = s ! i"] assms by (simp add: letters_def G_def m_def)
  show ?thesis unfolding 1 2 3 by simp
qed

text \<open>
  C16 The marks of a guess are those of the game: computed in two passes with a table of used letters, they equal
  the reference - green in place, yellow for the first occurrences the secret still has, grey otherwise - and
  of each letter exactly as many are marked as both words have.
\<close>

theorem wordle_marks:
  assumes "length g = length s"
  shows "wordleTiles g s = wordleSpec g s
    \<and> length (filter (\<lambda>i. g ! i = c \<and> wordleTiles g s ! i \<noteq> Grey) [0..<length g]) = min (letters c g) (letters c s)"
  using tiles_spec [OF assms] marked_letters [OF assms] by simp

theorem wordle_marks_witness:
  "wordleTiles ''PORTAL'' ''PATROL'' = [Green, Yellow, Yellow, Yellow, Yellow, Green]
   \<and> letters CHR ''O'' ''PORTAL'' = 1"
proof -
  have "wordleSpec ''PORTAL'' ''PATROL'' = [Green, Yellow, Yellow, Yellow, Yellow, Green]" by code_simp
  moreover have "letters CHR ''O'' ''PORTAL'' = 1" by code_simp
  ultimately show ?thesis using wordle_marks [of "''PORTAL''" "''PATROL''" "CHR ''O''"] by simp
qed

subsection \<open>Sessions\<close>

definition wordle_ok :: "WordleSession \<Rightarrow> bool" where
  "wordle_ok s \<longleftrightarrow> wordLen s = length (secretWord s) \<and> length (secretWord s) < WORDLE_MAX_LEN \<and> length (guesses s) = 6
     \<and> guessCount s \<le> 6 \<and> \<not> (solved s \<and> failed s) \<and> (failed s \<longrightarrow> guessCount s = 6)
     \<and> (guessCount s = 6 \<longrightarrow> solved s \<or> failed s)
     \<and> (solved s \<longrightarrow> 0 < guessCount s \<and> wg_word (guesses s ! (guessCount s - 1)) = secretWord s)
     \<and> (\<forall>i < guessCount s. length (wg_word (guesses s ! i)) = wordLen s
          \<and> (wg_word (guesses s ! i) = secretWord s \<longrightarrow> solved s \<and> Suc i = guessCount s))"

lemma all_green:
  assumes "length g = length s"
  shows "list_all (\<lambda>t. t = Green) (wordleTiles g s) \<longleftrightarrow> g = s"
proof -
  have "list_all (\<lambda>t. t = Green) (wordleSpec g s) \<longleftrightarrow> (\<forall>i < length g. g ! i = s ! i)"
    by (auto simp: wordleSpec_def list_all_length)
  also have "\<dots> \<longleftrightarrow> g = s" using assms by (auto intro: nth_equalityI)
  finally show ?thesis by (simp only: tiles_spec [OF assms])
qed

lemma wordle_start: "wordle_ok (wordleInit w wis)"
proof -
  have "wordle_ok \<lparr>secretWord = x, wordLen = length x, guessCount = 0, guesses = gs, solved = False, failed = False, hintCount = h\<rparr>"
    if "length x < 8" "length gs = 6" for x gs h
    using that by (simp add: wordle_ok_def)
  note ok = this
  show ?thesis unfolding wordleInit_def Let_def by (rule ok) simp_all
qed

text \<open>An accepted guess.\<close>

lemma submit_cases:
  obtains (refused) "submitGuess raw s = (False, s)"
  | (taken) g t where "\<not> solved s" "\<not> failed s" "guessCount s < 6" "length g = wordLen s" "g = map asciiUpper (take (wordLen s) raw)"
      "submitGuess raw s = (True, let s' = s\<lparr>guesses := (guesses s)[guessCount s := \<lparr>wg_word = g, wg_tiles = t\<rparr>], guessCount := guessCount s + 1\<rparr>
         in if list_all (\<lambda>t. t = Green) (wordleTiles g (secretWord s)) then s'\<lparr>solved := True\<rparr>
            else if 6 \<le> guessCount s' then s'\<lparr>failed := True\<rparr> else s')"
proof (cases "solved s \<or> failed s \<or> 6 \<le> guessCount s")
  case True
  then show ?thesis by (intro refused) (simp add: submitGuess_def)
next
  case False
  define g where "g = map asciiUpper (take (wordLen s) raw)"
  show ?thesis
  proof (cases "length g = 0 \<and> raw \<noteq> [] \<and> raw ! 0 = CHR '' '' \<or> length g \<noteq> wordLen s")
    case True
    then show ?thesis by (intro refused) (auto simp: submitGuess_def Let_def simp flip: g_def)
  next
    case no: False
    show ?thesis
    proof (rule taken [of g "wordleTiles g (secretWord s) @ drop (length (wordleTiles g (secretWord s))) (wg_tiles (guesses s ! guessCount s))"])
      show "g = map asciiUpper (take (wordLen s) raw)" by (rule g_def)
    qed (use False no in \<open>simp_all add: submitGuess_def Let_def flip: g_def\<close>)
  qed
qed

lemma wordle_step: "wordle_ok s \<Longrightarrow> wordle_ok (snd (submitGuess raw s))"
proof (cases rule: submit_cases [of raw s])
  case refused
  then show "wordle_ok s \<Longrightarrow> wordle_ok (snd (submitGuess raw s))" by simp
next
  case (taken g t)
  assume s: "wordle_ok s"
  define s' where "s' = s\<lparr>guesses := (guesses s)[guessCount s := \<lparr>wg_word = g, wg_tiles = t\<rparr>], guessCount := guessCount s + 1\<rparr>"
  have len: "length (guesses s) = 6" and w: "wordLen s = length (secretWord s)" "length (secretWord s) < 8"
    using s by (simp_all add: wordle_ok_def)
  have f: "wordLen s' = wordLen s" "secretWord s' = secretWord s" "guessCount s' = Suc (guessCount s)" "length (guesses s') = 6"
    "\<not> solved s'" "\<not> failed s'"
    using taken(1,2) len by (simp_all add: s'_def)
  have new: "guesses s' ! guessCount s = \<lparr>wg_word = g, wg_tiles = t\<rparr>" using len taken(3) by (simp add: s'_def)
  have old: "guesses s' ! i = guesses s ! i" if "i < guessCount s" for i using that by (simp add: s'_def)
  have before: "length (wg_word (guesses s ! i)) = wordLen s" "wg_word (guesses s ! i) \<noteq> secretWord s" if "i < guessCount s" for i
    using s that taken(1) by (auto simp: wordle_ok_def)
  have green: "list_all (\<lambda>t. t = Green) (wordleTiles g (secretWord s)) \<longleftrightarrow> g = secretWord s"
    using taken(4) w by (intro all_green) simp
  have words: "length (wg_word (guesses s' ! i)) = wordLen s \<and> (wg_word (guesses s' ! i) = secretWord s \<longrightarrow> g = secretWord s \<and> i = guessCount s)"
    if "i < Suc (guessCount s)" for i
    using that before new old taken(4) by (cases "i = guessCount s") (auto simp: less_Suc_eq)
  have r: "snd (submitGuess raw s) = (if g = secretWord s then s'\<lparr>solved := True\<rparr> else if 6 \<le> guessCount s' then s'\<lparr>failed := True\<rparr> else s')"
    by (simp only: taken(6) snd_conv Let_def s'_def [symmetric] green)
  show ?thesis unfolding r wordle_ok_def using f w words new taken(3) by auto
qed

lemma submit_frame: "wordLen (snd (submitGuess raw s)) = wordLen s" "secretWord (snd (submitGuess raw s)) = secretWord s"
  by (simp_all add: submitGuess_def Let_def)

lemma submit_accepts:
  "wordle_ok s \<Longrightarrow> 0 < wordLen s \<Longrightarrow> fst (submitGuess raw s) \<longleftrightarrow> \<not> solved s \<and> \<not> failed s \<and> wordLen s \<le> length raw"
  by (auto simp: submitGuess_def Let_def wordle_ok_def min_def)

text \<open>
  C17 A word game always ends after at most six guesses: in every session, whatever is typed, it is lost exactly
  after six wrong guesses and won exactly when the last guess is the secret word, no guess is both; a guess is
  taken if the game is not over and it has at least as many letters as the word - the rest is cut off.
\<close>

theorem wordle_session:
  assumes "w \<noteq> []"
  shows "let s = fold (\<lambda>r s. snd (submitGuess r s)) rs (wordleInit w wis) in
    guessCount s \<le> 6 \<and> (failed s \<longleftrightarrow> guessCount s = 6 \<and> \<not> solved s)
    \<and> (solved s \<longrightarrow> 0 < guessCount s)
    \<and> (\<forall>i < guessCount s. wg_word (guesses s ! i) = secretWord s \<longleftrightarrow> solved s \<and> Suc i = guessCount s)
    \<and> (fst (submitGuess raw s) \<longleftrightarrow> \<not> solved s \<and> \<not> failed s \<and> length (secretWord (wordleInit w wis)) \<le> length raw)"
proof -
  let ?i = "wordleInit w wis"
  have run: "wordle_ok t \<Longrightarrow> wordle_ok (fold (\<lambda>r s. snd (submitGuess r s)) rs t)
      \<and> wordLen (fold (\<lambda>r s. snd (submitGuess r s)) rs t) = wordLen t" for t
    by (induction rs arbitrary: t) (simp_all add: wordle_step submit_frame)
  define s where "s = fold (\<lambda>r s. snd (submitGuess r s)) rs ?i"
  have ok: "wordle_ok s" and len: "wordLen s = wordLen ?i" using run [OF wordle_start] by (simp_all add: s_def)
  have pos: "0 < wordLen s" "wordLen s = length (secretWord ?i)" using assms by (simp_all add: len) (simp_all add: wordleInit_def Let_def)
  have last: "wg_word (guesses s ! i) = secretWord s" if "solved s" "Suc i = guessCount s" for i
  proof -
    have "guessCount s - 1 = i" using that(2) by simp
    then show ?thesis using ok that(1) by (simp add: wordle_ok_def)
  qed
  have "fst (submitGuess raw s) \<longleftrightarrow> \<not> solved s \<and> \<not> failed s \<and> length (secretWord ?i) \<le> length raw"
    using submit_accepts [OF ok pos(1)] pos(2) by simp
  then show ?thesis
    unfolding Let_def s_def [symmetric] using ok last unfolding wordle_ok_def by (intro conjI) blast+
qed

theorem wordle_session_witness:
  "guessCount (fold (\<lambda>r s. snd (submitGuess r s)) [''mango'', ''x'', ''altars''] (wordleInit ''ALTAR'' 15)) \<le> 6"
  using wordle_session [of "''ALTAR''" "[''mango'', ''x'', ''altars'']" 15 "[]"] by (simp add: Let_def)

text \<open>
  The penalty is in proportion: it never exceeds the maximum HP, it grows with the number of guesses a solved
  game took, and a lost game costs a monster at half its HP or below all of it.
\<close>

theorem wordle_penalty:
  assumes "mx < 65536" "cur \<le> mx" "solved s" "solved t" "1 \<le> guessCount s" "guessCount s \<le> guessCount t" "guessCount t \<le> 6"
  shows "tierToHpDamage (getDamageTier s) mx cur \<le> tierToHpDamage (getDamageTier t) mx cur
    \<and> tierToHpDamage (getDamageTier t) mx cur \<le> mx * 3 div 4
    \<and> (\<not> solved u \<longrightarrow> tierToHpDamage (getDamageTier u) mx cur = (if cur \<le> mx div 2 then cur else mx * 9 div 10))"
proof -
  have n: "guessCount s \<in> {1, 2, 3, 4, 5, 6}" "guessCount t \<in> {1, 2, 3, 4, 5, 6}" using assms by auto
  have b: "mx div 4 \<le> mx div 2" "mx div 2 \<le> mx * 3 div 4" "mx * 3 div 4 < 65536" "mx * 9 div 10 < 65536" using assms(1) by linarith+
  have tier: "tierToHpDamage (getDamageTier v) mx cur = (if guessCount v \<le> 2 then 0 else if guessCount v = 3 then mx div 4
      else if guessCount v \<le> 5 then mx div 2 else mx * 3 div 4)" if "solved v" "guessCount v \<in> {1, 2, 3, 4, 5, 6}" for v
    using that b by (auto simp: getDamageTier_def tierToHpDamage_def)
  have "(if i \<le> 2 then 0 else if i = 3 then x else if i \<le> 5 then y else z) \<le> (if j \<le> 2 then 0 else if j = 3 then x else if j \<le> 5 then y else z)
      \<and> (if j \<le> 2 then 0 else if j = 3 then x else if j \<le> 5 then y else z) \<le> z"
    if "i \<le> j" "x \<le> y" "y \<le> z" for i j x y z :: nat
    using that by auto
  moreover have "tierToHpDamage (getDamageTier u) mx cur = (if cur \<le> mx div 2 then cur else mx * 9 div 10)" if "\<not> solved u"
    using that b(4) by (simp add: getDamageTier_def tierToHpDamage_def)
  ultimately show ?thesis
    unfolding tier [OF assms(3) n(1)] tier [OF assms(4) n(2)] using assms(6) b(1,2) by blast
qed

end
