(* ===== verification/DungeonTrivia.thy ===== *)
theory DungeonTrivia
  imports DungeonWordle
begin

text \<open>
  The trivia questions of the dungeon (\<^verbatim>\<open>dungeon/DungeonTrivia.h\<close>): the bank, the choice of a
  question, the check of an answer, and the prices.  An answer is the string before its terminator.
\<close>

subsection \<open>Questions\<close>

datatype TriviaCategory = Pokemon | DnD | PopCulture | Science | History

record TriviaQuestion =
  tq_question :: string
  tq_answer :: string
  tq_altAnswer :: "string option"
  tq_category :: TriviaCategory
  tq_minDepth :: nat

definition tq :: "string \<Rightarrow> string \<Rightarrow> string option \<Rightarrow> TriviaCategory \<Rightarrow> nat \<Rightarrow> TriviaQuestion" where
  "tq q a alt c d = \<lparr>tq_question = q, tq_answer = a, tq_altAnswer = alt, tq_category = c, tq_minDepth = d\<rparr>"

fun categoryNum :: "TriviaCategory \<Rightarrow> nat" where
  "categoryNum Pokemon = 0"
| "categoryNum DnD = 1"
| "categoryNum PopCulture = 2"
| "categoryNum Science = 3"
| "categoryNum History = 4"

definition TRIVIA_BANK :: "TriviaQuestion list" where
  "TRIVIA_BANK =
    [tq (''What type is Charizard?'') ''fire flying'' (Some ''flying fire'') Pokemon 1,
     tq (''Which Pokemon is #25 in the Pokedex?'') ''pikachu'' None Pokemon 1,
     tq (''What move does Pikachu typically use?'') ''thunderbolt'' (Some ''thunder'') Pokemon 1,
     tq (''What does Machop evolve into?'') ''machoke'' None Pokemon 2,
     tq (''What type is super effective against Psychic?'') ''bug'' (Some ''ghost'') Pokemon 2,
     tq (''Which Pokemon has base 100 in every stat?'') ''mew'' None Pokemon 3,
     tq (''What is Eevee'' @ [CHR 0x27] @ ''s Fire-type evolution?'') ''flareon'' None Pokemon 2,
     tq (''Which Pokemon evolves into Gengar?'') ''haunter'' None Pokemon 2,
     tq (''How many sides does a d20 have?'') ''20'' (Some ''twenty'') DnD 1,
     tq (''What class uses Sneak Attack?'') ''rogue'' None DnD 1,
     tq (''What is the standard max ability score in D&D 5E?'') ''20'' (Some ''twenty'') DnD 1,
     tq (''What saving throw does Fireball require?'') ''dexterity'' (Some ''dex'') DnD 2,
     tq (''What class gets Bardic Inspiration?'') ''bard'' None DnD 1,
     tq (''What damage type does Eldritch Blast deal?'') ''force'' None DnD 3,
     tq (''What is a roll of 20 on a d20 called?'') ''critical hit'' (Some ''nat 20'') DnD 1,
     tq (''Which class can Wildshape into animals?'') ''druid'' None DnD 1,
     tq (''What franchise uses the slogan Gotta Catch Em All?'') ''pokemon'' None PopCulture 1,
     tq (''Name the post-apocalyptic currency used in Fallout.'') ''caps'' (Some ''bottle caps'') PopCulture 1,
     tq (''What color is Link'' @ [CHR 0x27] @ ''s tunic in the original Legend of Zelda?'') ''green'' None PopCulture 1,
     tq (''What company makes Meshtastic firmware?'') ''meshtastic'' None PopCulture 2,
     tq (''What is the T-Deck device manufacturer called?'') ''lilygo'' None PopCulture 2,
     tq (''What does LoRa stand for?'') ''long range'' (Some ''lora'') PopCulture 2,
     tq (''Who makes the SX1262 LoRa chip?'') ''semtech'' None PopCulture 3,
     tq (''Name any type super effective against Fire.'') ''water'' (Some ''rock'') PopCulture 1,
     tq (''How many elements are on the periodic table?'') ''118'' None Science 2,
     tq (''What is the chemical symbol for gold?'') ''au'' (Some ''gold'') Science 1,
     tq (''What gas do plants absorb from the air?'') ''co2'' (Some ''carbon dioxide'') Science 1,
     tq (''How many bones are in the adult human body?'') ''206'' None Science 2,
     tq (''What does CPU stand for?'') ''central processing unit'' (Some ''cpu'') Science 1,
     tq (''What voltage does a standard AA battery produce?'') ''1.5'' (Some ''1.5v'') Science 2,
     tq (''What frequency band does standard WiFi use?'') ''2.4'' (Some ''2.4ghz'') Science 2,
     tq (''What subatomic particle has a negative charge?'') ''electron'' None Science 1,
     tq (''In what year did World War 2 end?'') ''1945'' None History 1,
     tq (''Who was the first President of the United States?'') ''washington'' (Some ''george washington'') History 1,
     tq (''In what year did the Berlin Wall fall?'') ''1989'' None History 2,
     tq (''What empire did Julius Caesar lead?'') ''roman'' (Some ''rome'') History 1,
     tq (''What year did humans first land on the Moon?'') ''1969'' None History 1,
     tq (''What country built the Great Wall?'') ''china'' None History 1,
     tq (''Who is credited with inventing the telephone?'') ''bell'' (Some ''alexander graham bell'') History 1,
     tq (''What year did Nintendo release the original Game Boy?'') ''1989'' None History 2]"

definition categoryBit :: "TriviaQuestion \<Rightarrow> nat" where
  "categoryBit q = 2 ^ categoryNum (tq_category q)"

subsection \<open>Choice of a question\<close>

text \<open>
  The two pools in bank order: categories not answered yet, and the others.
\<close>

definition primaryPool :: "nat \<Rightarrow> nat \<Rightarrow> nat list" where
  "primaryPool depth catMask =
     filter (\<lambda>i. \<not> depth < tq_minDepth (TRIVIA_BANK ! i) \<and> catMask AND categoryBit (TRIVIA_BANK ! i) = 0) [0..<length TRIVIA_BANK]"

definition fallbackPool :: "nat \<Rightarrow> nat \<Rightarrow> nat list" where
  "fallbackPool depth catMask =
     filter (\<lambda>i. \<not> depth < tq_minDepth (TRIVIA_BANK ! i) \<and> catMask AND categoryBit (TRIVIA_BANK ! i) \<noteq> 0) [0..<length TRIVIA_BANK]"

definition getQuestion :: "nat \<Rightarrow> nat \<Rightarrow> 32 word \<Rightarrow> TriviaQuestion" where
  "getQuestion depth catMask seed =
     (let rng = unat (seed * 1664525 + 1013904223);
          prim = primaryPool depth catMask;
          fall = fallbackPool depth catMask
      in if 0 < length prim then TRIVIA_BANK ! (prim ! (rng mod length prim))
         else if 0 < length fall then TRIVIA_BANK ! (fall ! (rng mod length fall))
         else TRIVIA_BANK ! 0)"

subsection \<open>Check of an answer\<close>

definition rtrim :: "string \<Rightarrow> string" where
  "rtrim s = rev (dropWhile (\<lambda>c. c = CHR '' '') (rev s))"

definition normAnswer :: "string \<Rightarrow> string" where
  "normAnswer input = rtrim (map asciiLower (take 63 (dropWhile (\<lambda>c. c = CHR '' '') input)))"

definition checkAnswer :: "TriviaQuestion \<Rightarrow> string \<Rightarrow> bool" where
  "checkAnswer q input =
     (let norm = normAnswer input in
      norm = tq_answer q
      \<or> (case tq_altAnswer q of Some alt \<Rightarrow> norm = alt | None \<Rightarrow> False)
      \<or> 3 \<le> length norm \<and> contains norm (tq_answer q)
      \<or> (case tq_altAnswer q of Some alt \<Rightarrow> 3 \<le> length norm \<and> contains norm alt | None \<Rightarrow> False))"

subsection \<open>Prices\<close>

definition wrongAnswerDamage :: "nat \<Rightarrow> nat \<Rightarrow> nat" where
  "wrongAnswerDamage depth enemyAtk = (let dmg = u16 (enemyAtk div 4 + depth * 2) in if dmg < 5 then 5 else dmg)"

definition trivialPursuitBonus :: "nat \<Rightarrow> nat" where
  "trivialPursuitBonus depth = 100 + depth * 25"

definition allCategoriesCovered :: "nat \<Rightarrow> bool" where
  "allCategoriesCovered catMask \<longleftrightarrow> catMask AND 0x1F = 0x1F"

subsection \<open>A run covers the categories\<close>

lemma category_bit: "catMask AND categoryBit q = 0 \<longleftrightarrow> \<not> bit catMask (categoryNum (tq_category q))"
  by (simp add: categoryBit_def and_exp_eq_0_iff_not_bit)

lemma categoryNum_less [simp]: "categoryNum c < 5"
  by (cases c) simp_all

lemma bank_length: "length TRIVIA_BANK = 40"
  by (simp add: TRIVIA_BANK_def)

text \<open>Every category has a question without a depth.\<close>

lemma bank_categories: "k < 5 \<Longrightarrow> \<exists>i < length TRIVIA_BANK. tq_minDepth (TRIVIA_BANK ! i) = 1 \<and> categoryNum (tq_category (TRIVIA_BANK ! i)) = k"
proof -
  have "list_all (\<lambda>k. list_ex (\<lambda>q. tq_minDepth q = 1 \<and> categoryNum (tq_category q) = k) TRIVIA_BANK) [0..<5]"
    by code_simp
  moreover assume "k < 5"
  ultimately have "\<exists>q \<in> set TRIVIA_BANK. tq_minDepth q = 1 \<and> categoryNum (tq_category q) = k"
    by (auto simp: list_all_iff list_ex_iff)
  then show ?thesis by (auto simp: in_set_conv_nth)
qed

lemma covered_iff: "allCategoriesCovered catMask \<longleftrightarrow> (\<forall>k < 5. bit catMask k)"
proof -
  have m: "(0x1F :: nat) = mask 5" by (simp add: mask_eq_exp_minus_1)
  have "bm AND mask 5 = mask 5 \<longleftrightarrow> (\<forall>k < 5. bit bm k)" for bm :: nat
    by (auto simp: bit_eq_iff bit_and_iff bit_mask_iff)
  then show ?thesis unfolding allCategoriesCovered_def m by blast
qed

lemma pool_pick: "pool \<noteq> [] \<Longrightarrow> pool ! (r mod length pool) \<in> set pool"
  by simp

lemma question_uncovered:
  fixes seed :: "32 word"
  assumes "1 \<le> depth" "\<not> allCategoriesCovered catMask"
  defines "q \<equiv> getQuestion depth catMask seed"
  shows "tq_minDepth q \<le> depth \<and> \<not> bit catMask (categoryNum (tq_category q))"
proof -
  obtain k where k: "k < 5" "\<not> bit catMask k" using assms(2) by (auto simp: covered_iff)
  obtain i where "i < length TRIVIA_BANK" "tq_minDepth (TRIVIA_BANK ! i) = 1" "categoryNum (tq_category (TRIVIA_BANK ! i)) = k"
    using bank_categories [OF k(1)] by blast
  then have "i \<in> set (primaryPool depth catMask)" using assms(1) k(2) by (simp add: primaryPool_def category_bit)
  then have ne: "primaryPool depth catMask \<noteq> []" by auto
  then show ?thesis
    using pool_pick [OF ne, of "unat (seed * 1664525 + 1013904223)"]
    by (simp add: q_def getQuestion_def Let_def primaryPool_def category_bit)
qed

text \<open>Questions answered one after the other, each seed with the mask left by the answers before it.\<close>

fun answerAll :: "nat \<Rightarrow> 32 word list \<Rightarrow> nat \<Rightarrow> nat" where
  "answerAll depth [] catMask = catMask"
| "answerAll depth (seed # seeds) catMask = answerAll depth seeds (catMask OR categoryBit (getQuestion depth catMask seed))"

abbreviation (input) covered :: "nat \<Rightarrow> nat set" where
  "covered catMask \<equiv> {k. k < 5 \<and> bit catMask k}"

lemma covered_or: "covered (catMask OR categoryBit q) = insert (categoryNum (tq_category q)) (covered catMask)"
  by (auto simp: bit_or_iff categoryBit_def bit_exp_iff)

lemma covered_all: "allCategoriesCovered catMask \<longleftrightarrow> card (covered catMask) = 5"
proof -
  have "card (covered catMask) = 5 \<longleftrightarrow> covered catMask = {..<5}"
  proof
    have "covered catMask \<subseteq> {..<5}" by auto
    then show "covered catMask = {..<5}" if "card (covered catMask) = 5"
      by (rule card_subset_eq [rotated]) (simp_all add: that)
  qed simp
  moreover have "covered catMask = {..<5} \<longleftrightarrow> (\<forall>k < 5. bit catMask k)" by auto
  ultimately show ?thesis unfolding covered_iff by simp
qed

lemma answerAll_count: "1 \<le> depth \<Longrightarrow> min 5 (card (covered catMask) + length seeds) \<le> card (covered (answerAll depth seeds catMask))"
proof (induction seeds arbitrary: catMask)
  case Nil
  then show ?case by simp
next
  case (Cons seed seeds)
  let ?q = "getQuestion depth catMask seed"
  have "min 5 (Suc (card (covered catMask))) \<le> card (covered (catMask OR categoryBit ?q))"
  proof (cases "allCategoriesCovered catMask")
    case True
    have "covered catMask \<subseteq> covered (catMask OR categoryBit ?q)" by (auto simp: bit_or_iff)
    from card_mono [OF _ this] True show ?thesis by (simp add: covered_all)
  next
    case False
    then show ?thesis using question_uncovered [OF Cons.prems False, of seed] by (simp add: covered_or)
  qed
  then show ?case using Cons.IH [OF Cons.prems, of "catMask OR categoryBit ?q"] by simp
qed

text \<open>
  C18 Five questions answered from the first floor on cover the five categories, whatever the seeds:
  as long as a category is missing, the question asked is of a missing one and allowed at that depth.
\<close>

theorem five_questions_cover:
  assumes "1 \<le> depth" "5 \<le> length seeds" "\<not> allCategoriesCovered m"
  shows "allCategoriesCovered (answerAll depth seeds 0)
    \<and> tq_minDepth (getQuestion depth m seed) \<le> depth \<and> m AND categoryBit (getQuestion depth m seed) = 0"
proof -
  have "card (covered (answerAll depth seeds 0)) \<le> card {..<5 :: nat}" by (rule card_mono) auto
  then have "allCategoriesCovered (answerAll depth seeds 0)"
    using answerAll_count [OF assms(1), of 0 seeds] assms(2) by (simp add: covered_all)
  then show ?thesis using question_uncovered [OF assms(1,3)] by (simp add: category_bit)
qed

theorem five_questions_cover_witness:
  "allCategoriesCovered (answerAll 2 [3, 1, 4, 1, 5] 0)
   \<and> tq_minDepth (getQuestion 2 13 7) \<le> 2 \<and> 13 AND categoryBit (getQuestion 2 13 7) = 0"
proof -
  have "\<not> allCategoriesCovered 13" by code_simp
  then show ?thesis using five_questions_cover [of 2 "[3, 1, 4, 1, 5]" 13 7] by simp
qed

subsection \<open>Answers\<close>

lemma rtrim_blanks: "s = [] \<or> last s \<noteq> CHR '' '' \<Longrightarrow> rtrim (s @ replicate n CHR '' '') = s"
proof -
  assume s: "s = [] \<or> last s \<noteq> CHR '' ''"
  have "dropWhile (\<lambda>c. c = CHR '' '') (replicate n CHR '' '' @ rev s) = rev s"
    using s by (induction n) (cases s rule: rev_cases; simp)+
  then show ?thesis by (simp add: rtrim_def rev_replicate)
qed

lemma ltrim_blanks: "s = [] \<or> hd s \<noteq> CHR '' '' \<Longrightarrow> dropWhile (\<lambda>c. c = CHR '' '') (replicate n CHR '' '' @ s) = dropWhile (\<lambda>c. c = CHR '' '') s"
  by (induction n) simp_all

lemma lower_blank: "asciiLower c = CHR '' '' \<longleftrightarrow> c = CHR '' ''"
proof -
  have eq: "d = CHR '' '' \<longleftrightarrow> (of_char d :: nat) = 32" for d
    using of_char_eq_iff [of d "CHR '' ''", where 'a = nat] by simp
  have "(of_char (char_of ((of_char c :: nat) + 32)) :: nat) = of_char c + 32" if "(of_char c :: nat) \<le> 90"
    using that by (simp add: of_char_of)
  then show ?thesis unfolding eq asciiLower_def by simp
qed

text \<open>An answer of the bank: at most 63 letters, no blank at either end.\<close>

definition plainAnswer :: "string \<Rightarrow> bool" where
  "plainAnswer a \<longleftrightarrow> a \<noteq> [] \<and> length a \<le> 63 \<and> hd a \<noteq> CHR '' '' \<and> last a \<noteq> CHR '' ''"

lemma norm_plain:
  assumes "plainAnswer a" "map asciiLower s = a"
  shows "normAnswer (replicate n CHR '' '' @ s @ replicate m CHR '' '') = a"
proof -
  have s: "s \<noteq> []" "length s \<le> 63" using assms by (auto simp: plainAnswer_def)
  then have h: "hd s \<noteq> CHR '' ''" "last s \<noteq> CHR '' ''"
    using assms(1) lower_blank [of "hd s"] lower_blank [of "last s"] unfolding plainAnswer_def
    by (simp_all add: hd_map last_map flip: assms(2))
  have "dropWhile (\<lambda>c. c = CHR '' '') (replicate n CHR '' '' @ s @ replicate m CHR '' '') = s @ replicate m CHR '' ''"
    using s h by (subst ltrim_blanks) (simp_all add: dropWhile_eq_self_iff)
  moreover have "take 63 (s @ replicate m CHR '' '') = s @ replicate (min m (63 - length s)) CHR '' ''"
    using s by (simp add: min.commute)
  moreover have "asciiLower CHR '' '' = CHR '' ''" by (simp add: lower_blank)
  ultimately show ?thesis
    using rtrim_blanks [of a "min m (63 - length s)"] assms by (simp add: normAnswer_def plainAnswer_def)
qed

lemma bank_plain: "list_all (\<lambda>q. plainAnswer (tq_answer q) \<and> (case tq_altAnswer q of Some a \<Rightarrow> plainAnswer a | None \<Rightarrow> True)) TRIVIA_BANK"
  by code_simp

text \<open>
  Each question of the bank accepts its answers in any case and with any blanks around them, so every
  question can be answered; an answer of less than three letters counts only when it is a whole answer.
\<close>

lemma answers_accepted:
  assumes "q \<in> set TRIVIA_BANK" "map asciiLower s = tq_answer q \<or> tq_altAnswer q = Some (map asciiLower s)"
  shows "checkAnswer q (replicate n CHR '' '' @ s @ replicate m CHR '' '')"
  using assms norm_plain [OF _ refl, of s n m] bank_plain by (auto simp: checkAnswer_def Let_def list_all_iff)

lemma short_answers: "length (normAnswer s) < 3 \<Longrightarrow> checkAnswer q s \<longleftrightarrow> normAnswer s = tq_answer q \<or> tq_altAnswer q = Some (normAnswer s)"
  by (auto simp: checkAnswer_def Let_def split: option.split)

lemma price_of_an_answer: "depth < 256 \<Longrightarrow> atk < 65536 \<Longrightarrow> wrongAnswerDamage depth atk = max 5 (atk div 4 + depth * 2)"
  by (simp add: wrongAnswerDamage_def Let_def)

end
