(* ===== verification/DungeonTypes.thy ===== *)
theory DungeonTypes
  imports BattleWire DungeonTrivia
begin

text \<open>
  The state of the dungeon: what of \<^verbatim>\<open>dungeon/DungeonModule.h\<close> and \<^verbatim>\<open>dungeon/DungeonGame.h\<close> the game
  reads or writes.  A field of a struct that no function touches (names, ability scores, feats, experience,
  run levels, the biome) is left out.  Phases and types are kept as the bytes the source casts freely; a text
  is the string before its terminator.
\<close>

subsection \<open>Enumerations\<close>

datatype DnDClass = Fighter | Barbarian | Ranger | Rogue | Wizard | Sorcerer | Warlock | Cleric | Paladin | Druid | Bard | Monk

abbreviation (input) PokeType_Fire :: nat where "PokeType_Fire \<equiv> 1"
abbreviation (input) PokeType_Ground :: nat where "PokeType_Ground \<equiv> 8"
abbreviation (input) PlaneFire :: nat where "PlaneFire \<equiv> 0"

abbreviation (input) Lobby :: nat where "Lobby \<equiv> 0"
abbreviation (input) Exploring :: nat where "Exploring \<equiv> 1"
abbreviation (input) InCombat :: nat where "InCombat \<equiv> 2"
abbreviation (input) FloorComplete :: nat where "FloorComplete \<equiv> 7"
abbreviation (input) RunOver :: nat where "RunOver \<equiv> 8"

datatype DungeonVerb = JOIN | PARTY | ATTACK | CAST | SWITCH | ITEM | ANSWER | WORDLE | HACK | FLEE | REST | HOST_START

definition allVerbs :: "DungeonVerb list" where
  "allVerbs = [JOIN, PARTY, ATTACK, CAST, SWITCH, ITEM, ANSWER, WORDLE, HACK, FLEE, REST, HOST_START]"

fun verbNum :: "DungeonVerb \<Rightarrow> nat" where
  "verbNum JOIN = 0"
| "verbNum PARTY = 1"
| "verbNum ATTACK = 2"
| "verbNum CAST = 3"
| "verbNum SWITCH = 4"
| "verbNum ITEM = 5"
| "verbNum ANSWER = 6"
| "verbNum WORDLE = 7"
| "verbNum HACK = 8"
| "verbNum FLEE = 9"
| "verbNum REST = 10"
| "verbNum HOST_START = 11"

text \<open>The cast of a received verb.\<close>

definition verbOf :: "nat \<Rightarrow> DungeonVerb option" where
  "verbOf n = (if n < length allVerbs then Some (allVerbs ! n) else None)"

lemma verbOf_verbNum [simp]: "verbOf (verbNum v) = Some v"
  by (cases v) (simp_all add: verbOf_def allVerbs_def)

lemma verbNum_less: "verbNum v < 12"
  by (cases v) simp_all

subsection \<open>Trainers, floor and run\<close>

record DungeonTrainer =
  dt_nodeId :: nat
  dt_class :: DnDClass
  dt_spellSlots :: "nat list"
  dt_activeSlot :: nat
  dt_slotFainted :: "bool list"
  dt_slotHp :: "nat list"

definition isAlive :: "DungeonTrainer \<Rightarrow> bool" where
  "isAlive t \<longleftrightarrow> list_ex (\<lambda>i. \<not> dt_slotFainted t ! i) [0..<6]"

definition isSpellcaster :: "DungeonTrainer \<Rightarrow> bool" where
  "isSpellcaster t \<longleftrightarrow> dt_class t \<in> {Wizard, Cleric, Druid, Sorcerer, Warlock, Bard, Paladin, Ranger}"

record DungeonFloor =
  fl_plane :: nat
  fl_floorInPlane :: nat
  fl_depth :: nat
  fl_typeBias :: "nat list"
  fl_classBias :: "DnDClass list"

record DungeonRun =
  dr_floor :: DungeonFloor
  dr_phase :: nat
  dr_partySize :: nat
  dr_party :: "DungeonTrainer list"

text \<open>The zeroed memory of the constructor.\<close>

definition zeroTrainer :: DungeonTrainer where
  "zeroTrainer = \<lparr>dt_nodeId = 0, dt_class = Fighter, dt_spellSlots = replicate 10 0, dt_activeSlot = 0,
     dt_slotFainted = replicate 6 False, dt_slotHp = replicate 6 0\<rparr>"

definition zeroRun :: DungeonRun where
  "zeroRun = \<lparr>dr_floor = \<lparr>fl_plane = 0, fl_floorInPlane = 0, fl_depth = 0, fl_typeBias = [0, 0, 0], fl_classBias = [Fighter, Fighter]\<rparr>,
     dr_phase = Lobby, dr_partySize = 0, dr_party = replicate 5 zeroTrainer\<rparr>"

subsection \<open>The message log\<close>

abbreviation (input) DLOG_LINES :: nat where "DLOG_LINES \<equiv> 8"
abbreviation (input) DLOG_LEN :: nat where "DLOG_LEN \<equiv> 60"

record DungeonLog =
  dl_lines :: "string list"
  dl_head :: nat
  dl_count :: nat

definition pushLog :: "string \<Rightarrow> DungeonLog \<Rightarrow> DungeonLog" where
  "pushLog msg l = \<lparr>dl_lines = (dl_lines l)[dl_head l := take (DLOG_LEN - 1) msg],
     dl_head = (dl_head l + 1) mod DLOG_LINES,
     dl_count = (if dl_count l < DLOG_LINES then dl_count l + 1 else dl_count l)\<rparr>"

definition getLog :: "DungeonLog \<Rightarrow> nat \<Rightarrow> string" where
  "getLog l i = (if dl_count l \<le> i then [] else dl_lines l ! ((DLOG_LINES + dl_head l - dl_count l + i) mod DLOG_LINES))"

subsection \<open>The encounter and the game object\<close>

record TestEnemy =
  te_name :: string
  te_className :: string
  te_classLv :: nat
  te_hp :: nat
  te_maxHp :: nat
  te_atkDmg :: nat

definition newTestEnemy :: TestEnemy where
  "newTestEnemy = \<lparr>te_name = ''Charmander'', te_className = ''Fighter'', te_classLv = 3, te_hp = 45, te_maxHp = 45, te_atkDmg = 8\<rparr>"

text \<open>
  The transport is the identifier of the node and the packets handed to it, in order.
\<close>

record DungeonGame =
  dg_nodeId :: nat
  dg_sent :: "nat list list"
  dg_active :: bool
  dg_isHost :: bool
  dg_hostId :: nat
  dg_seq :: nat
  dg_run :: DungeonRun
  dg_log :: DungeonLog
  dg_testEnemy :: TestEnemy
  dg_dirty :: bool
  dg_lastBeaconMs :: nat

definition newDungeonGame :: "nat \<Rightarrow> DungeonGame" where
  "newDungeonGame nodeId = \<lparr>dg_nodeId = nodeId, dg_sent = [], dg_active = False, dg_isHost = False, dg_hostId = 0, dg_seq = 0,
     dg_run = zeroRun, dg_log = \<lparr>dl_lines = replicate 8 [], dl_head = 0, dl_count = 0\<rparr>,
     dg_testEnemy = newTestEnemy, dg_dirty = False, dg_lastBeaconMs = 0\<rparr>"

definition consumeDirty :: "DungeonGame \<Rightarrow> bool \<times> DungeonGame" where
  "consumeDirty g = (if dg_dirty g then (True, g\<lparr>dg_dirty := False\<rparr>) else (False, g))"

definition markDirty :: "DungeonGame \<Rightarrow> DungeonGame" where
  "markDirty g = g\<lparr>dg_dirty := True\<rparr>"

definition onRun :: "(DungeonRun \<Rightarrow> DungeonRun) \<Rightarrow> DungeonGame \<Rightarrow> DungeonGame" where
  "onRun f g = g\<lparr>dg_run := f (dg_run g)\<rparr>"

text \<open>A write to one trainer of the party.\<close>

definition onTrainer :: "nat \<Rightarrow> (DungeonTrainer \<Rightarrow> DungeonTrainer) \<Rightarrow> DungeonGame \<Rightarrow> DungeonGame" where
  "onTrainer i f = onRun (\<lambda>r. r\<lparr>dr_party := (dr_party r)[i := f (dr_party r ! i)]\<rparr>)"

definition setPhase :: "nat \<Rightarrow> DungeonGame \<Rightarrow> DungeonGame" where
  "setPhase ph = onRun (\<lambda>r. r\<lparr>dr_phase := ph\<rparr>)"

definition findTrainer :: "DungeonRun \<Rightarrow> nat \<Rightarrow> nat option" where
  "findTrainer r chipId = find (\<lambda>i. dt_nodeId (dr_party r ! i) = chipId) [0..<dr_partySize r]"

subsection \<open>The log as a list\<close>

text \<open>The last eight messages, oldest first.\<close>

definition logLines :: "DungeonLog \<Rightarrow> string list" where
  "logLines l = map (getLog l) [0..<dl_count l]"

definition log_ok :: "DungeonLog \<Rightarrow> bool" where
  "log_ok l \<longleftrightarrow> length (dl_lines l) = 8 \<and> dl_head l < 8 \<and> dl_count l \<le> 8"

lemma log_push_ok: "log_ok l \<Longrightarrow> log_ok (pushLog m l)"
  by (simp add: log_ok_def pushLog_def)

lemma log_push_lines:
  assumes "log_ok l"
  shows "logLines (pushLog m l) = drop (if dl_count l = 8 then 1 else 0) (logLines l) @ [take 59 m]"
proof (rule nth_equalityI)
  show "length (logLines (pushLog m l)) = length (drop (if dl_count l = 8 then 1 else 0) (logLines l) @ [take 59 m])"
    using assms by (auto simp: logLines_def pushLog_def log_ok_def)
next
  have ok: "length (dl_lines l) = 8" "dl_head l < 8" "dl_count l \<le> 8" using assms by (simp_all add: log_ok_def)
  fix i assume i: "i < length (logLines (pushLog m l))"
  have ring: "((8 + dl_head l - dl_count l + j) mod 8 = dl_head l) \<longleftrightarrow> j = dl_count l \<or> j + 8 = dl_count l" if "j \<le> dl_count l" for j
  proof -
    define d where "d = dl_count l - j"
    have d: "8 + dl_head l - dl_count l + j = 8 + dl_head l - d" "d \<le> 8" using that ok(3) by (simp_all add: d_def)
    have "(8 + dl_head l - d) mod 8 = (if d \<le> dl_head l then dl_head l - d else 8 + dl_head l - d)" if "d < 8"
    proof (cases "d \<le> dl_head l")
      case True
      then have "8 + dl_head l - d = (dl_head l - d) + 8" by simp
      moreover have "((dl_head l - d) + 8) mod 8 = dl_head l - d" using ok(2) by simp
      ultimately show ?thesis using True by (simp only: if_True)
    qed (use that ok(2) in simp)
    moreover have "(8 + dl_head l - d) mod 8 = dl_head l" if "d = 8" using that ok(2) by simp
    moreover have "j = dl_count l \<or> j + 8 = dl_count l \<longleftrightarrow> d = 0 \<or> d = 8" using that ok(3) unfolding d_def by arith
    ultimately show ?thesis unfolding d(1) using d(2) by (cases "d = 8") auto
  qed
  have next_head: "(8 + Suc (dl_head l) mod 8 - Suc (dl_count l) + j) mod 8 = (8 + dl_head l - dl_count l + j) mod 8"
    if "dl_count l < 8" for j
  proof (cases "dl_head l = 7")
    case True
    then have "8 + dl_head l - dl_count l + j = (8 - Suc (dl_count l) + j) + 8" using that by simp
    then have "(8 + dl_head l - dl_count l + j) mod 8 = (8 - Suc (dl_count l) + j) mod 8"
      by (simp only: mod_add_self2)
    moreover have "Suc (dl_head l) mod 8 = 0" using True by simp
    ultimately show ?thesis by (simp only: add_0_right)
  next
    case False
    then show ?thesis using that ok(2) by simp
  qed
  have full_head: "(Suc (dl_head l) mod 8 + j) mod 8 = (dl_head l + Suc j) mod 8" for j
    by (simp add: mod_simps)
  show "logLines (pushLog m l) ! i = (drop (if dl_count l = 8 then 1 else 0) (logLines l) @ [take 59 m]) ! i"
  proof (cases "dl_count l = 8")
    case True
    then have "i < 8" using i by (simp add: logLines_def pushLog_def)
    moreover have "(dl_head l + Suc i) mod 8 = dl_head l \<longleftrightarrow> i = 7" if "i < 8"
    proof (cases "dl_head l + Suc i < 8")
      case False
      then have "dl_head l + Suc i = (dl_head l + Suc i - 8) + 8" by simp
      moreover have "dl_head l + Suc i - 8 < 8" using that ok(2) by simp
      ultimately have "(dl_head l + Suc i) mod 8 = dl_head l + Suc i - 8" by (metis mod_add_self2 mod_less)
      then show ?thesis using that False by auto
    qed (use that in auto)
    ultimately show ?thesis
      using True ok full_head [of i]
      by (cases "i = 7") (simp_all add: logLines_def pushLog_def getLog_def nth_append nth_list_update del: upt_Suc)
  next
    case False
    then have "i \<le> dl_count l" "dl_count l < 8" using i ok by (simp_all add: logLines_def pushLog_def)
    then show ?thesis
      using False ok ring [of i] next_head [of i]
      by (cases "i = dl_count l") (simp_all add: logLines_def pushLog_def getLog_def nth_append nth_list_update del: upt_Suc)
  qed
qed

end
