(* ===== verification/DungeonPlay.thy ===== *)
theory DungeonPlay
  imports DungeonTypes
begin

text \<open>
  The dungeon as it is played (\<^verbatim>\<open>dungeon/DungeonGame.cpp\<close>): one device is the host and keeps the run, the
  others send commands and take over the states it broadcasts.  Each function that a call of the public
  interface reaches is one definition; a call runs to its end before the next one starts (the locks of the
  source are released between the steps of one call).  A read or write outside an array or past the end of a
  packet makes the call \<open>None\<close>.
\<close>

subsection \<open>Sending\<close>

definition logMsg :: "string \<Rightarrow> DungeonGame \<Rightarrow> DungeonGame" where
  "logMsg msg g = g\<lparr>dg_log := pushLog msg (dg_log g)\<rparr>"

text \<open>\<open>buildPacket\<close> and \<open>sendPkt\<close>: session 0, the running number, the payload.\<close>

definition sendPacket :: "PktType \<Rightarrow> nat list \<Rightarrow> DungeonGame \<Rightarrow> DungeonGame" where
  "sendPacket t pl g = g\<lparr>dg_sent := dg_sent g @ [mkPacket t 0 (dg_seq g) pl], dg_seq := u8 (dg_seq g + 1)\<rparr>"

text \<open>The payload of a beacon and of a request to join; the name is a placeholder of the source.\<close>

definition beaconPayload :: "DungeonGame \<Rightarrow> nat list" where
  "beaconPayload g = be32Bytes (dg_nodeId g) @ bytesOf ''Trainer'' @ [0, 0, 0]"

definition sendBeacon :: "DungeonGame \<Rightarrow> DungeonGame" where
  "sendBeacon g = sendPacket DUNGEON_BEACON (beaconPayload g) g"

definition sendJoinRequest :: "DungeonGame \<Rightarrow> DungeonGame" where
  "sendJoinRequest g = sendPacket DUNGEON_JOIN (beaconPayload g) g"

definition sendJoinAck :: "nat \<Rightarrow> bool \<Rightarrow> nat \<Rightarrow> DungeonGame \<Rightarrow> DungeonGame" where
  "sendJoinAck targetId accepted slot g =
     sendPacket DUNGEON_JOIN_ACK (be32Bytes targetId @ [if accepted then 1 else 0, slot, dr_partySize (dg_run g)]) g"

text \<open>The ten bytes of a trainer: identifier, HP of the active slot, a constant, the slot, and who is up.\<close>

definition aliveBits :: "DungeonTrainer \<Rightarrow> nat" where
  "aliveBits t = foldl (\<lambda>a s. if \<not> dt_slotFainted t ! s then a OR 2 ^ s else a) 0 [0..<6]"

definition stateEntry :: "DungeonTrainer \<Rightarrow> nat list" where
  "stateEntry t =
     (let slot = dt_activeSlot t; hp = dt_slotHp t ! slot in
      be32Bytes (dt_nodeId t) @ [hp div 256 mod 256, hp mod 256, 0, 100, slot, aliveBits t])"

definition statePayload :: "DungeonRun \<Rightarrow> nat list" where
  "statePayload r =
     [dr_phase r, fl_depth (dr_floor r), dr_partySize r]
     @ concat (map (\<lambda>i. stateEntry (dr_party r ! i)) [0..<dr_partySize r])"

definition sendState :: "DungeonGame \<Rightarrow> DungeonGame" where
  "sendState g = sendPacket DUNGEON_STATE (statePayload (dg_run g)) g"

definition sendMsg :: "string \<Rightarrow> DungeonGame \<Rightarrow> DungeonGame" where
  "sendMsg msg g =
     (let len = u8 (length msg);
          len = (if len > BATTLELINK_MAX_PAYLOAD - 1 then BATTLELINK_MAX_PAYLOAD - 1 else len)
      in sendPacket DUNGEON_MSG (take (len + 1) (bytesOf msg @ [0])) (logMsg msg g))"

definition sendPrompt :: "nat \<Rightarrow> string \<Rightarrow> DungeonGame \<Rightarrow> DungeonGame" where
  "sendPrompt promptType dat g =
     (let dlen = u8 (length dat);
          dlen = (if dlen > BATTLELINK_MAX_PAYLOAD - 2 then BATTLELINK_MAX_PAYLOAD - 2 else dlen)
      in sendPacket DUNGEON_PROMPT (promptType # take dlen (bytesOf dat) @ [0]) g)"

definition forwardCmd :: "DungeonVerb \<Rightarrow> string \<Rightarrow> DungeonGame \<Rightarrow> DungeonGame" where
  "forwardCmd verb arg g =
     (let arglen = u8 (length arg);
          arglen = (if arglen > 32 then 32 else arglen)
      in sendPacket DUNGEON_CMD (be32Bytes (dg_nodeId g) @ [verbNum verb] @ take arglen (bytesOf arg) @ [0]) g)"

subsection \<open>The host: start of a run\<close>

definition floorOne :: "DungeonFloor \<Rightarrow> DungeonFloor" where
  "floorOne f = f\<lparr>fl_plane := PlaneFire, fl_floorInPlane := 0, fl_depth := 1,
     fl_typeBias := (fl_typeBias f)[0 := PokeType_Fire, 1 := PokeType_Ground], fl_classBias := [Fighter, Barbarian]\<rparr>"

definition hostStartRun :: "DungeonGame \<Rightarrow> DungeonGame" where
  "hostStartRun g =
     (if \<not> dg_isHost g then g
      else if dr_partySize (dg_run g) = 0 then g
      else
       (let g = onRun (\<lambda>r. r\<lparr>dr_floor := floorOne (dr_floor r), dr_phase := InCombat\<rparr>) g;
            g = markDirty (g\<lparr>dg_testEnemy := newTestEnemy\<rparr>);
            e = dg_testEnemy g;
            g = sendMsg (snprintf 64 ''=== FLOOR 1: Volcanic Plains (Plane of Fire) ==='') g;
            g = sendMsg (snprintf 64 (fmtS ''A wild %s [%s Lv.%s] appears! HP: %s''
                  [te_name e, te_className e, digits_of (te_classLv e), digits_of (te_hp e)])) g;
            g = sendMsg ''Type: dungeon attack [move]'' g
        in sendState g))"

subsection \<open>The host: attack\<close>

text \<open>
  The blow against the active slot of a trainer; the flag says that the trainer has a slot to go on with.
\<close>

definition hitTrainer :: "nat \<Rightarrow> DungeonTrainer \<Rightarrow> DungeonTrainer \<times> bool" where
  "hitTrainer enemyDmg t =
     (let slot = dt_activeSlot t in
      if dt_slotHp t ! slot \<le> enemyDmg then
       (let t = t\<lparr>dt_slotHp := (dt_slotHp t)[slot := 0], dt_slotFainted := (dt_slotFainted t)[slot := True]\<rparr> in
        case find (\<lambda>i. \<not> dt_slotFainted t ! i) [0..<6] of
          Some i \<Rightarrow> (t\<lparr>dt_activeSlot := i\<rparr>, True)
        | None \<Rightarrow> (t, False))
      else (t\<lparr>dt_slotHp := (dt_slotHp t)[slot := dt_slotHp t ! slot - enemyDmg]\<rparr>, True))"

definition hitEnemy :: "nat \<Rightarrow> TestEnemy \<Rightarrow> TestEnemy \<times> bool" where
  "hitEnemy playerDmg e = (if te_hp e \<le> playerDmg then (e\<lparr>te_hp := 0\<rparr>, True) else (e\<lparr>te_hp := te_hp e - playerDmg\<rparr>, False))"

definition anyAlive :: "DungeonRun \<Rightarrow> bool" where
  "anyAlive r \<longleftrightarrow> list_ex (\<lambda>i. isAlive (dr_party r ! i)) [0..<dr_partySize r]"

text \<open>The changes under the lock; the flags say that the enemy fell and that the party did.\<close>

definition attackRun :: "nat \<Rightarrow> DungeonGame \<Rightarrow> DungeonGame \<times> bool \<times> bool" where
  "attackRun i g =
     (let playerDmg = 12; enemyDmg = te_atkDmg (dg_testEnemy g);
          (e, enemyDied) = hitEnemy playerDmg (dg_testEnemy g);
          (t, goesOn) = hitTrainer enemyDmg (dr_party (dg_run g) ! i);
          g = onTrainer i (\<lambda>_. t) (g\<lparr>dg_testEnemy := e\<rparr>);
          partyWiped = (\<not> goesOn \<and> \<not> anyAlive (dg_run g));
          g = (if enemyDied then setPhase FloorComplete g else g);
          g = (if partyWiped then setPhase RunOver g else g)
      in (markDirty g, enemyDied, partyWiped))"

definition partyWipedMsg :: string where
  "partyWipedMsg = ''=== PARTY WIPED '' @ [CHR 0xE2, CHR 0x80, CHR 0x94] @ '' run over ===''"

definition narrateAttack :: "string \<Rightarrow> bool \<Rightarrow> bool \<Rightarrow> DungeonGame \<Rightarrow> DungeonGame" where
  "narrateAttack moveName enemyDied partyWiped g =
     (let e = dg_testEnemy g;
          mv = (if moveName \<noteq> [] then moveName else ''Tackle'');
          g = sendMsg (snprintf 64 (fmtS ''Used %s! Enemy -%s HP'' [mv, digits_of 12])) g;
          g = sendMsg (snprintf 64 (fmtS ''%s attacks! You -%s HP'' [te_name e, digits_of (te_atkDmg e)])) g;
          g = (if enemyDied then
                 sendMsg ''Type: dungeon rest (heal) or dungeon party (status)''
                   (sendMsg (snprintf 64 (fmtS ''%s fainted! Floor clear!'' [te_name e])) g)
               else sendMsg (snprintf 64 (fmtS ''Enemy HP: %s/%s'' [digits_of (te_hp e), digits_of (te_maxHp e)])) g);
          g = (if partyWiped then sendMsg partyWipedMsg g else g)
      in sendState g)"

text \<open>
  The argument of a command is \<open>None\<close> when its terminator is missing in the packet: reading it is then a
  read past the end.
\<close>

definition hostCmdAttack :: "nat \<Rightarrow> string option \<Rightarrow> DungeonGame \<Rightarrow> DungeonGame option" where
  "hostCmdAttack fromId moveName g =
     (if dr_phase (dg_run g) \<noteq> InCombat then Some (sendMsg ''[D] Not in combat.'' g)
      else
       (case findTrainer (dg_run g) fromId of
          None \<Rightarrow> Some g
        | Some i \<Rightarrow>
            if dt_activeSlot (dr_party (dg_run g) ! i) < 6 then
             (let (g, enemyDied, partyWiped) = attackRun i g in
              map_option (\<lambda>mv. narrateAttack mv enemyDied partyWiped g) moveName)
            else None))"

subsection \<open>The host: the other commands\<close>

text \<open>The slot a spell uses: the lowest one left, or the class resource in slot 0.\<close>

definition castSlot :: "DungeonTrainer \<Rightarrow> nat option" where
  "castSlot t =
     (if isSpellcaster t then find (\<lambda>lvl. 0 < dt_spellSlots t ! lvl) [1..<10]
      else if dt_spellSlots t ! 0 = 0 then None else Some 0)"

definition hostCmdCast :: "nat \<Rightarrow> string option \<Rightarrow> DungeonGame \<Rightarrow> DungeonGame option" where
  "hostCmdCast fromId spellName g =
     (if dr_phase (dg_run g) \<noteq> InCombat then Some (sendMsg ''[D] Not in combat.'' g)
      else
       (case findTrainer (dg_run g) fromId of
          None \<Rightarrow> Some g
        | Some i \<Rightarrow>
           (let t = dr_party (dg_run g) ! i in
            case castSlot t of
              None \<Rightarrow>
                Some (sendMsg (if isSpellcaster t then ''[D] No spell slots remaining. Recharge at a Pokemon Center.''
                               else ''[D] No class uses remaining. Recharge at a Pokemon Center.'') g)
            | Some lvl \<Rightarrow>
               (let g = markDirty (onTrainer i (\<lambda>t. t\<lparr>dt_spellSlots := (dt_spellSlots t)[lvl := dt_spellSlots t ! lvl - 1]\<rparr>) g) in
                map_option (\<lambda>sp. sendMsg (snprintf 64
                    (if 0 < lvl then fmtS ''[D] Cast %s (slot lv%s)! (Phase 2: effect TBD)'' [sp, digits_of lvl]
                     else fmtS ''[D] Used %s! (Phase 2: effect TBD)'' [sp])) g) spellName))))"

definition hostCmdSwitch :: "nat \<Rightarrow> nat \<Rightarrow> DungeonGame \<Rightarrow> DungeonGame" where
  "hostCmdSwitch fromId slot g =
     (let g = (case findTrainer (dg_run g) fromId of
                 None \<Rightarrow> g
               | Some i \<Rightarrow> if slot < 6 \<and> \<not> dt_slotFainted (dr_party (dg_run g) ! i) ! slot
                           then markDirty (onTrainer i (\<lambda>t. t\<lparr>dt_activeSlot := slot\<rparr>) g) else g)
      in sendState (sendMsg (snprintf 32 (fmtS ''Switched to slot %s.'' [digits_of slot])) g))"

definition hostCmdItem :: "nat \<Rightarrow> DungeonGame \<Rightarrow> DungeonGame" where
  "hostCmdItem fromId g = sendMsg ''[D] Items: Phase 2.'' g"

definition hostCmdAnswer :: "nat \<Rightarrow> DungeonGame \<Rightarrow> DungeonGame" where
  "hostCmdAnswer fromId g = sendMsg ''[D] Trivia: Phase 3.'' g"

definition hostCmdWordle :: "nat \<Rightarrow> DungeonGame \<Rightarrow> DungeonGame" where
  "hostCmdWordle fromId g = sendMsg ''[D] Wordle: Phase 3.'' g"

definition hostCmdFlee :: "nat \<Rightarrow> DungeonGame \<Rightarrow> DungeonGame" where
  "hostCmdFlee fromId g = sendMsg ''[D] Flee: TBD (open design question).'' g"

definition healTrainer :: "DungeonTrainer \<Rightarrow> DungeonTrainer" where
  "healTrainer t = t\<lparr>dt_slotHp := replicate 6 100, dt_slotFainted := replicate 6 False\<rparr>"

definition hostCmdRest :: "nat \<Rightarrow> DungeonGame \<Rightarrow> DungeonGame" where
  "hostCmdRest fromId g =
     (if dr_phase (dg_run g) = FloorComplete \<or> dr_phase (dg_run g) = Exploring then
        let g = fold (\<lambda>i. onTrainer i healTrainer) [0..<dr_partySize (dg_run g)] g;
            g = markDirty (setPhase Exploring g)
        in sendState (sendMsg ''[PC] Full heal! All Pokemon restored.'' g)
      else sendMsg ''[D] No Pokemon Center here yet.'' g)"

definition partyLine :: "DungeonRun \<Rightarrow> nat \<Rightarrow> string" where
  "partyLine r i = snprintf 48 (fmtS '' Slot%s chipId=0x%s alive=%s''
     [digits_of i, hexDigits 8 (dt_nodeId (dr_party r ! i)), if isAlive (dr_party r ! i) then ''Y'' else ''N''])"

definition hostCmdParty :: "DungeonGame \<Rightarrow> DungeonGame" where
  "hostCmdParty g =
     (let r = dg_run g;
          g = sendMsg (snprintf 64 (fmtS ''[Party %s/5 | Floor %s | Phase %s]''
                [digits_of (dr_partySize r), digits_of (fl_depth (dr_floor r)), digits_of (dr_phase r)])) g
      in fold (\<lambda>i. sendMsg (partyLine r i)) [0..<dr_partySize r] g)"

definition hostProcessCmd :: "nat \<Rightarrow> DungeonVerb option \<Rightarrow> string option \<Rightarrow> DungeonGame \<Rightarrow> DungeonGame option" where
  "hostProcessCmd fromId verb arg g =
     (case verb of
        Some HOST_START \<Rightarrow> Some (hostStartRun g)
      | Some PARTY \<Rightarrow> Some (hostCmdParty g)
      | Some ATTACK \<Rightarrow> hostCmdAttack fromId arg g
      | Some CAST \<Rightarrow> hostCmdCast fromId arg g
      | Some SWITCH \<Rightarrow> map_option (\<lambda>a. hostCmdSwitch fromId (nat (atoi a mod 256)) g) arg
      | Some ITEM \<Rightarrow> Some (hostCmdItem fromId g)
      | Some ANSWER \<Rightarrow> Some (hostCmdAnswer fromId g)
      | Some WORDLE \<Rightarrow> Some (hostCmdWordle fromId g)
      | Some FLEE \<Rightarrow> Some (hostCmdFlee fromId g)
      | Some REST \<Rightarrow> Some (hostCmdRest fromId g)
      | _ \<Rightarrow> Some g)"

subsection \<open>Packets\<close>

abbreviation (input) DUNGEON_BEACON_SIZE :: nat where "DUNGEON_BEACON_SIZE \<equiv> 14"
abbreviation (input) DUNGEON_JOIN_ACK_SIZE :: nat where "DUNGEON_JOIN_ACK_SIZE \<equiv> 7"
abbreviation (input) DUNGEON_CMD_HDR_SIZE :: nat where "DUNGEON_CMD_HDR_SIZE \<equiv> 5"
abbreviation (input) DUNGEON_STATE_SLOT_SIZE :: nat where "DUNGEON_STATE_SLOT_SIZE \<equiv> 10"
abbreviation (input) DUNGEON_STATE_HDR_SIZE :: nat where "DUNGEON_STATE_HDR_SIZE \<equiv> 3"

definition nameAt :: "nat list \<Rightarrow> string" where
  "nameAt pl = cstr (take 10 (drop 4 pl))"

definition handleDungeonBeacon :: "nat list \<Rightarrow> DungeonGame \<Rightarrow> DungeonGame" where
  "handleDungeonBeacon pl g =
     (if \<not> dg_active g \<or> length pl < DUNGEON_BEACON_SIZE \<or> be32At pl 0 = dg_nodeId g then g
      else markDirty (logMsg (snprintf 48 (fmtS ''[D] Beacon: %s (0x%s)'' [nameAt pl, hexDigits 8 (be32At pl 0)])) g))"

definition handleJoin :: "nat list \<Rightarrow> DungeonGame \<Rightarrow> DungeonGame" where
  "handleJoin pl g =
     (if \<not> dg_isHost g \<or> length pl < DUNGEON_BEACON_SIZE \<or> be32At pl 0 = dg_nodeId g then g
      else
       (let guestId = be32At pl 0; slot = dr_partySize (dg_run g) in
        if 5 \<le> slot then sendJoinAck guestId False 0 g
        else
         (let g = onTrainer slot (\<lambda>t. t\<lparr>dt_nodeId := guestId, dt_slotHp := replicate 6 100\<rparr>) g;
              g = markDirty (onRun (\<lambda>r. r\<lparr>dr_partySize := dr_partySize r + 1\<rparr>) g);
              g = sendJoinAck guestId True slot g;
              g = sendMsg (snprintf 40 (fmtS ''[D] %s joined (slot %s)'' [nameAt pl, digits_of slot])) g
          in sendState g)))"

definition joinRejectedMsg :: string where
  "joinRejectedMsg = ''[D] Join rejected '' @ [CHR 0xE2, CHR 0x80, CHR 0x94] @ '' party full.''"

definition handleJoinAck :: "nat list \<Rightarrow> DungeonGame \<Rightarrow> DungeonGame option" where
  "handleJoinAck pl g =
     (if dg_isHost g \<or> length pl < DUNGEON_JOIN_ACK_SIZE \<or> be32At pl 0 \<noteq> dg_nodeId g then Some g
      else if pl ! 4 \<noteq> 0 then
       (let slot = pl ! 5 in
        if slot < length (dr_party (dg_run g)) then
          Some (markDirty (logMsg (snprintf 32 (fmtS ''[D] Joined! Party slot %s.'' [digits_of slot]))
            (markDirty (onTrainer slot (\<lambda>t. t\<lparr>dt_nodeId := dg_nodeId g, dt_slotHp := replicate 6 100\<rparr>) g))))
        else None)
      else Some (markDirty (logMsg joinRejectedMsg g)))"

definition handleCmd :: "nat list \<Rightarrow> DungeonGame \<Rightarrow> DungeonGame option" where
  "handleCmd pl g =
     (if \<not> dg_isHost g \<or> length pl < DUNGEON_CMD_HDR_SIZE then Some g
      else
       (let rest = drop DUNGEON_CMD_HDR_SIZE pl;
            arg = (if rest = [] then Some [] else if 0 \<in> set rest then Some (cstr rest) else None)
        in hostProcessCmd (be32At pl 0) (verbOf (pl ! 4)) arg g))"

text \<open>One entry of a state packet; its slot must be one of the six.\<close>

definition readEntry :: "nat list \<Rightarrow> nat \<Rightarrow> DungeonTrainer \<Rightarrow> DungeonTrainer option" where
  "readEntry pl off t =
     (let curHp = pl ! (off + 4) * 256 + pl ! (off + 5); slot = pl ! (off + 8); alive = pl ! (off + 9) in
      if slot < 6 then
        Some (t\<lparr>dt_nodeId := be32At pl off, dt_activeSlot := slot,
          dt_slotFainted := map (\<lambda>s. \<not> bit alive s) [0..<6], dt_slotHp := (dt_slotHp t)[slot := curHp]\<rparr>)
      else None)"

text \<open>The loop over the entries: \<open>i\<close> the next trainer, \<open>n\<close> how many are left.\<close>

fun readEntries :: "nat list \<Rightarrow> nat \<Rightarrow> nat \<Rightarrow> DungeonTrainer list \<Rightarrow> DungeonTrainer list option" where
  "readEntries pl i 0 trainers = Some trainers"
| "readEntries pl i (Suc n) trainers =
     (let off = DUNGEON_STATE_HDR_SIZE + i * DUNGEON_STATE_SLOT_SIZE in
      if off + DUNGEON_STATE_SLOT_SIZE \<le> length pl then
       (case readEntry pl off (trainers ! i) of
          None \<Rightarrow> None
        | Some t \<Rightarrow> readEntries pl (Suc i) n (trainers[i := t]))
      else Some trainers)"

definition handleState :: "nat list \<Rightarrow> DungeonGame \<Rightarrow> DungeonGame option" where
  "handleState pl g =
     (if \<not> dg_active g \<or> dg_isHost g \<or> length pl < DUNGEON_STATE_HDR_SIZE then Some g
      else
       (let ps = (if pl ! 2 > 5 then 5 else pl ! 2);
            g = onRun (\<lambda>r. r\<lparr>dr_phase := pl ! 0, dr_floor := (dr_floor r)\<lparr>fl_depth := pl ! 1\<rparr>, dr_partySize := ps\<rparr>) g
        in map_option (\<lambda>trainers. markDirty (onRun (\<lambda>r. r\<lparr>dr_party := trainers\<rparr>) g)) (readEntries pl 0 ps (dr_party (dg_run g)))))"

definition handleMsg :: "nat list \<Rightarrow> DungeonGame \<Rightarrow> DungeonGame" where
  "handleMsg pl g =
     (if \<not> dg_active g \<or> length pl = 0 then g
      else markDirty (logMsg (cstr (take (if length pl < DLOG_LEN - 1 then length pl else DLOG_LEN - 1) pl)) g))"

definition handlePrompt :: "nat list \<Rightarrow> DungeonGame \<Rightarrow> DungeonGame" where
  "handlePrompt pl g =
     (if \<not> dg_active g \<or> length pl < 2 then g
      else
       (let prompt = cstr (take (if length pl - 1 < 63 then length pl - 1 else 63) (drop 1 pl));
            label = (if pl ! 0 = 0 then ''TRIVIA'' else if pl ! 0 = 1 then ''WORDLE'' else ''HACK'')
        in markDirty (logMsg (snprintf 72 (fmtS ''[%s] %s'' [label, prompt])) g)))"

definition handleDungeonPacket :: "nat list \<Rightarrow> DungeonGame \<Rightarrow> DungeonGame option" where
  "handleDungeonPacket buf g =
     (if length buf < BATTLELINK_HDR_SIZE then Some g
      else
       (let pkt = overlay buf; pl = take (u8 (length buf - BATTLELINK_HDR_SIZE)) (pk_payload pkt) in
        case pktType (pk_type pkt) of
          Some DUNGEON_BEACON \<Rightarrow> Some (handleDungeonBeacon pl g)
        | Some DUNGEON_JOIN \<Rightarrow> Some (handleJoin pl g)
        | Some DUNGEON_JOIN_ACK \<Rightarrow> handleJoinAck pl g
        | Some DUNGEON_CMD \<Rightarrow> handleCmd pl g
        | Some DUNGEON_STATE \<Rightarrow> handleState pl g
        | Some DUNGEON_MSG \<Rightarrow> Some (handleMsg pl g)
        | Some DUNGEON_PROMPT \<Rightarrow> Some (handlePrompt pl g)
        | _ \<Rightarrow> Some g))"

subsection \<open>Local calls\<close>

definition tickDungeon :: "nat \<Rightarrow> DungeonGame \<Rightarrow> DungeonGame" where
  "tickDungeon now g =
     (if \<not> dg_active g then g
      else if 30000 \<le> sub32 now (dg_lastBeaconMs g) then (sendBeacon g)\<lparr>dg_lastBeaconMs := now\<rparr> else g)"

definition becomeHost :: "DungeonGame \<Rightarrow> DungeonGame" where
  "becomeHost g =
     (let g = onRun (\<lambda>r. r\<lparr>dr_partySize := 1\<rparr>) (g\<lparr>dg_active := True, dg_isHost := True, dg_hostId := 0\<rparr>);
          g = onTrainer 0 (\<lambda>t. t\<lparr>dt_nodeId := dg_nodeId g, dt_activeSlot := 0, dt_slotHp := replicate 6 100,
                dt_slotFainted := replicate 6 False\<rparr>) g;
          g = setPhase Lobby g;
          g = logMsg ''[D] You are now the dungeon host.'' g;
          g = logMsg (''[D] Others: type '' @ [CHR 0x27] @ ''dungeon join'' @ [CHR 0x27]) g
      in sendBeacon g)"

definition becomeGuest :: "DungeonGame \<Rightarrow> DungeonGame" where
  "becomeGuest g =
     (let g = logMsg ''[D] Looking for host...'' (g\<lparr>dg_active := True, dg_isHost := False\<rparr>)
      in sendJoinRequest (sendBeacon g))"

definition localVerbs :: "(string \<times> DungeonVerb) list" where
  "localVerbs =
     [(''party'', PARTY), (''attack'', ATTACK), (''cast'', CAST), (''switch'', SWITCH), (''item'', ITEM),
      (''answer'', ANSWER), (''wordle'', WORDLE), (''hack'', HACK), (''flee'', FLEE), (''rest'', REST), (''start'', HOST_START)]"

definition handleLocalCommand :: "string \<Rightarrow> string \<Rightarrow> DungeonGame \<Rightarrow> DungeonGame option" where
  "handleLocalCommand verb arg g =
     (let v = map asciiLower (take 15 verb) in
      if v = ''host'' then Some (becomeHost g)
      else if v = ''join'' then Some (becomeGuest g)
      else if \<not> dg_active g then Some g
      else
       (case map_of localVerbs v of
          None \<Rightarrow> Some (logMsg ''[D] Unknown dungeon command.'' g)
        | Some dv \<Rightarrow> if dg_isHost g then hostProcessCmd (dg_nodeId g) (Some dv) (Some arg) g
                     else Some (forwardCmd dv arg g)))"

end
