(* ===== verification/DungeonSafety.thy ===== *)
theory DungeonSafety
  imports DungeonPlay
begin

text \<open>
  The dungeon object in every reachable state: its invariant, kept by each call, and the packets that make a
  call read or write outside an array.
\<close>

lemma all_replicate [simp]: "list_all P (replicate n x) \<longleftrightarrow> n = 0 \<or> P x"
  by (auto simp: list_all_iff)

subsection \<open>What a send leaves alone\<close>

lemma send_frame [simp]:
  "dg_run (sendPacket t pl g) = dg_run g" "dg_isHost (sendPacket t pl g) = dg_isHost g"
  "dg_active (sendPacket t pl g) = dg_active g" "dg_nodeId (sendPacket t pl g) = dg_nodeId g"
  "dg_testEnemy (sendPacket t pl g) = dg_testEnemy g"
  by (simp_all add: sendPacket_def)

lemma log_frame [simp]:
  "dg_run (logMsg m g) = dg_run g" "dg_isHost (logMsg m g) = dg_isHost g"
  "dg_active (logMsg m g) = dg_active g" "dg_nodeId (logMsg m g) = dg_nodeId g"
  "dg_testEnemy (logMsg m g) = dg_testEnemy g" "dg_sent (logMsg m g) = dg_sent g" "dg_seq (logMsg m g) = dg_seq g"
  by (simp_all add: logMsg_def)

lemma msg_frame [simp]:
  "dg_run (sendMsg m g) = dg_run g" "dg_isHost (sendMsg m g) = dg_isHost g"
  "dg_active (sendMsg m g) = dg_active g" "dg_nodeId (sendMsg m g) = dg_nodeId g"
  "dg_testEnemy (sendMsg m g) = dg_testEnemy g"
  by (simp_all add: sendMsg_def Let_def)

lemma state_frame [simp]:
  "dg_run (sendState g) = dg_run g" "dg_isHost (sendState g) = dg_isHost g"
  "dg_active (sendState g) = dg_active g" "dg_nodeId (sendState g) = dg_nodeId g"
  "dg_testEnemy (sendState g) = dg_testEnemy g"
  by (simp_all add: sendState_def)

lemma dirty_frame [simp]:
  "dg_run (markDirty g) = dg_run g" "dg_isHost (markDirty g) = dg_isHost g"
  "dg_active (markDirty g) = dg_active g" "dg_nodeId (markDirty g) = dg_nodeId g"
  "dg_testEnemy (markDirty g) = dg_testEnemy g" "dg_sent (markDirty g) = dg_sent g"
  "dg_seq (markDirty g) = dg_seq g" "dg_log (markDirty g) = dg_log g"
  by (simp_all add: markDirty_def)

lemma run_frame [simp]:
  "dg_run (onRun f g) = f (dg_run g)" "dg_isHost (onRun f g) = dg_isHost g"
  "dg_active (onRun f g) = dg_active g" "dg_nodeId (onRun f g) = dg_nodeId g"
  "dg_testEnemy (onRun f g) = dg_testEnemy g" "dg_sent (onRun f g) = dg_sent g"
  "dg_seq (onRun f g) = dg_seq g" "dg_log (onRun f g) = dg_log g"
  by (simp_all add: onRun_def)

lemma trainer_frame [simp]:
  "dr_partySize (dg_run (onTrainer i f g)) = dr_partySize (dg_run g)"
  "dr_phase (dg_run (onTrainer i f g)) = dr_phase (dg_run g)"
  "dr_floor (dg_run (onTrainer i f g)) = dr_floor (dg_run g)"
  "dr_party (dg_run (onTrainer i f g)) = (dr_party (dg_run g))[i := f (dr_party (dg_run g) ! i)]"
  "dg_isHost (onTrainer i f g) = dg_isHost g" "dg_active (onTrainer i f g) = dg_active g"
  "dg_nodeId (onTrainer i f g) = dg_nodeId g" "dg_testEnemy (onTrainer i f g) = dg_testEnemy g"
  by (simp_all add: onTrainer_def)

lemma phase_frame [simp]:
  "dr_partySize (dg_run (setPhase ph g)) = dr_partySize (dg_run g)"
  "dr_phase (dg_run (setPhase ph g)) = ph"
  "dr_floor (dg_run (setPhase ph g)) = dr_floor (dg_run g)"
  "dr_party (dg_run (setPhase ph g)) = dr_party (dg_run g)"
  "dg_isHost (setPhase ph g) = dg_isHost g" "dg_active (setPhase ph g) = dg_active g"
  "dg_nodeId (setPhase ph g) = dg_nodeId g" "dg_testEnemy (setPhase ph g) = dg_testEnemy g"
  by (simp_all add: setPhase_def)

subsection \<open>The invariant\<close>

text \<open>
  A trainer: six slots of HP and faint marks, an active slot among them, fields of their width.  Class and
  spell slots still have the values of the constructor: nothing sets them.
\<close>

definition trainer_ok :: "DungeonTrainer \<Rightarrow> bool" where
  "trainer_ok t \<longleftrightarrow> dt_activeSlot t < 6 \<and> length (dt_slotFainted t) = 6 \<and> length (dt_slotHp t) = 6
     \<and> list_all (\<lambda>h. h < 65536) (dt_slotHp t) \<and> dt_nodeId t < 4294967296
     \<and> dt_class t = Fighter \<and> dt_spellSlots t = replicate 10 0"

definition run_ok :: "DungeonRun \<Rightarrow> bool" where
  "run_ok r \<longleftrightarrow> length (dr_party r) = 5 \<and> dr_partySize r \<le> 5 \<and> dr_phase r < 256 \<and> fl_depth (dr_floor r) < 256
     \<and> list_all trainer_ok (dr_party r)"

definition enemy_ok :: "TestEnemy \<Rightarrow> bool" where
  "enemy_ok e \<longleftrightarrow> te_hp e \<le> 45 \<and> te_maxHp e = 45 \<and> te_atkDmg e = 8"

definition packet_ok :: "nat list \<Rightarrow> bool" where
  "packet_ok p \<longleftrightarrow> length p \<le> BATTLELINK_MAX_PKT \<and> list_all (\<lambda>b. b < 256) p"

text \<open>A host has joined its own party and is in one of the five phases it sets.\<close>

definition host_ok :: "DungeonGame \<Rightarrow> bool" where
  "host_ok g \<longleftrightarrow> (dg_isHost g \<longrightarrow> dg_active g \<and> 0 < dr_partySize (dg_run g)
     \<and> dr_phase (dg_run g) \<in> {Lobby, Exploring, InCombat, FloorComplete, RunOver})"

definition dungeon_ok :: "DungeonGame \<Rightarrow> bool" where
  "dungeon_ok g \<longleftrightarrow> run_ok (dg_run g) \<and> log_ok (dg_log g) \<and> enemy_ok (dg_testEnemy g)
     \<and> dg_seq g < 256 \<and> dg_nodeId g < 4294967296 \<and> list_all packet_ok (dg_sent g) \<and> host_ok g"

named_theorems dungeon_intros \<open>calls that keep the invariant of the dungeon\<close>

subsubsection \<open>Bytes\<close>

lemma bytes_be32 [simp]: "list_all (\<lambda>b. b < 256) (be32Bytes n)" "length (be32Bytes n) = 4"
  by (simp_all add: be32Bytes_def)

lemma bytes_take: "list_all P xs \<Longrightarrow> list_all P (take n xs)"
  by (auto simp: list_all_iff dest: in_set_takeD)

lemma ok_packet: "length pl \<le> 196 \<Longrightarrow> list_all (\<lambda>b. b < 256) pl \<Longrightarrow> q < 256 \<Longrightarrow> packet_ok (mkPacket t 0 q pl)"
  by (cases t) (simp_all add: packet_ok_def mkPacket_def packetBytes_def setSessionId_def)

subsubsection \<open>Sends\<close>

lemma ok_send [dungeon_intros]:
  "dungeon_ok g \<Longrightarrow> length pl \<le> 196 \<Longrightarrow> list_all (\<lambda>b. b < 256) pl \<Longrightarrow> dungeon_ok (sendPacket t pl g)"
  by (simp add: dungeon_ok_def host_ok_def) (simp add: sendPacket_def ok_packet)

lemma ok_log [dungeon_intros]: "dungeon_ok g \<Longrightarrow> dungeon_ok (logMsg m g)"
  by (simp add: dungeon_ok_def host_ok_def) (simp add: logMsg_def log_push_ok)

lemma ok_dirty [dungeon_intros]: "dungeon_ok g \<Longrightarrow> dungeon_ok (markDirty g)"
  by (simp add: dungeon_ok_def host_ok_def)

lemma ok_beacon [dungeon_intros]: "dungeon_ok g \<Longrightarrow> dungeon_ok (sendBeacon g)"
  unfolding sendBeacon_def by (intro dungeon_intros) (simp_all add: beaconPayload_def)

lemma ok_joinRequest [dungeon_intros]: "dungeon_ok g \<Longrightarrow> dungeon_ok (sendJoinRequest g)"
  unfolding sendJoinRequest_def by (intro dungeon_intros) (simp_all add: beaconPayload_def)

lemma ok_joinAck [dungeon_intros]: "dungeon_ok g \<Longrightarrow> slot < 256 \<Longrightarrow> dungeon_ok (sendJoinAck i a slot g)"
  unfolding sendJoinAck_def by (intro dungeon_intros) (simp_all add: dungeon_ok_def run_ok_def)

lemma length_take_le: "n \<le> k \<Longrightarrow> length (take n xs) \<le> k"
  by simp

lemma ok_msg [dungeon_intros]: "dungeon_ok g \<Longrightarrow> dungeon_ok (sendMsg m g)"
  unfolding sendMsg_def Let_def
  by (intro ok_send ok_log bytes_take length_take_le) (simp_all split: if_split)

lemma bit_aliveBits: "bit (aliveBits t) s \<longleftrightarrow> s < 6 \<and> \<not> dt_slotFainted t ! s"
proof -
  have "bit (foldl (\<lambda>a s. if \<not> dt_slotFainted t ! s then a OR 2 ^ s else a) (0 :: nat) [0..<n]) s \<longleftrightarrow> s < n \<and> \<not> dt_slotFainted t ! s" for n
    by (induction n) (auto simp: bit_or_iff bit_exp_iff less_Suc_eq)
  then show ?thesis by (simp add: aliveBits_def del: upt_Suc)
qed

lemma aliveBits_less: "aliveBits t < 64"
proof -
  have "take_bit 6 (aliveBits t) = aliveBits t"
    by (rule bit_eqI) (auto simp: bit_take_bit_iff bit_aliveBits)
  then show ?thesis using take_bit_nat_less_exp [of 6 "aliveBits t"] by simp
qed

lemma entry_bytes:
  assumes "trainer_ok t"
  shows "length (stateEntry t) = 10" "list_all (\<lambda>b. b < 256) (stateEntry t)"
  using assms aliveBits_less [of t] by (simp_all add: stateEntry_def Let_def trainer_ok_def)

lemma ok_state [dungeon_intros]: "dungeon_ok g \<Longrightarrow> dungeon_ok (sendState g)"
proof -
  assume ok: "dungeon_ok g"
  let ?r = "dg_run g"
  have r: "run_ok ?r" using ok by (simp add: dungeon_ok_def)
  then have t: "i < dr_partySize ?r \<Longrightarrow> trainer_ok (dr_party ?r ! i)" for i
    by (simp add: run_ok_def list_all_length)
  have "length (concat (map (\<lambda>i. stateEntry (dr_party ?r ! i)) [0..<n])) = 10 * n" if "n \<le> dr_partySize ?r" for n
    using that t by (induction n) (simp_all add: entry_bytes)
  moreover have "list_all (\<lambda>b. b < 256) (concat (map (\<lambda>i. stateEntry (dr_party ?r ! i)) [0..<dr_partySize ?r]))"
    using t entry_bytes(2) by (fastforce simp: list_all_iff)
  ultimately show ?thesis
    using r unfolding sendState_def by (intro ok_send ok) (simp_all add: statePayload_def run_ok_def)
qed

lemma ok_forward [dungeon_intros]: "dungeon_ok g \<Longrightarrow> dungeon_ok (forwardCmd v a g)"
proof -
  assume ok: "dungeon_ok g"
  have "verbNum v < 256" using verbNum_less [of v] by simp
  then show ?thesis unfolding forwardCmd_def Let_def
    by (intro ok_send ok) (auto intro: bytes_take)
qed

subsubsection \<open>Writes\<close>

lemma ok_trainer:
  assumes "dungeon_ok g" "i < 5 \<Longrightarrow> trainer_ok (dr_party (dg_run g) ! i) \<Longrightarrow> trainer_ok (f (dr_party (dg_run g) ! i))"
  shows "dungeon_ok (onTrainer i f g)"
proof -
  have p: "length (dr_party (dg_run g)) = 5" "list_all trainer_ok (dr_party (dg_run g))"
    using assms(1) by (simp_all add: dungeon_ok_def run_ok_def)
  have "list_all trainer_ok ((dr_party (dg_run g))[i := f (dr_party (dg_run g) ! i)])"
  proof (cases "i < 5")
    case True
    then show ?thesis using assms(2) p by (intro list_all_update) (simp_all add: list_all_length)
  next
    case False
    then show ?thesis using p by (simp add: list_update_beyond)
  qed
  moreover have "dg_log (onTrainer i f g) = dg_log g" "dg_seq (onTrainer i f g) = dg_seq g" "dg_sent (onTrainer i f g) = dg_sent g"
    by (simp_all add: onTrainer_def)
  ultimately show ?thesis using assms(1) by (simp add: dungeon_ok_def run_ok_def host_ok_def)
qed

lemma ok_phase:
  assumes "dungeon_ok g" "ph \<in> {Lobby, Exploring, InCombat, FloorComplete, RunOver}"
  shows "dungeon_ok (setPhase ph g)"
proof -
  have "dg_log (setPhase ph g) = dg_log g" "dg_seq (setPhase ph g) = dg_seq g" "dg_sent (setPhase ph g) = dg_sent g"
    by (simp_all add: setPhase_def)
  then show ?thesis using assms by (auto simp add: dungeon_ok_def run_ok_def host_ok_def)
qed

lemma ok_start [dungeon_intros]: "dungeon_ok g \<Longrightarrow> dungeon_ok (hostStartRun g)"
proof -
  assume ok: "dungeon_ok g"
  have "dungeon_ok ((onRun (\<lambda>r. r\<lparr>dr_floor := floorOne (dr_floor r), dr_phase := InCombat\<rparr>) g)\<lparr>dg_testEnemy := newTestEnemy\<rparr>)"
    using ok by (simp add: dungeon_ok_def run_ok_def host_ok_def floorOne_def enemy_ok_def newTestEnemy_def)
  then show ?thesis using ok unfolding hostStartRun_def Let_def
    by (auto intro!: ok_state ok_msg ok_dirty)
qed

lemma hit_trainer_ok: "trainer_ok t \<Longrightarrow> trainer_ok (fst (hitTrainer d t))"
  by (auto simp: trainer_ok_def hitTrainer_def Let_def list_all_length nth_list_update dest: find_SomeD split: option.split)

lemma hit_enemy_ok: "enemy_ok e \<Longrightarrow> enemy_ok (fst (hitEnemy d e))"
  by (auto simp: enemy_ok_def hitEnemy_def)

lemma ok_attackRun: "dungeon_ok g \<Longrightarrow> dungeon_ok (fst (attackRun i g))"
proof -
  assume ok: "dungeon_ok g"
  obtain e d where e: "hitEnemy 12 (dg_testEnemy g) = (e, d)" by fastforce
  obtain t n where t: "hitTrainer (te_atkDmg (dg_testEnemy g)) (dr_party (dg_run g) ! i) = (t, n)" by fastforce
  have "enemy_ok e" using hit_enemy_ok [of "dg_testEnemy g" 12] ok e by (simp add: dungeon_ok_def)
  then have "dungeon_ok (g\<lparr>dg_testEnemy := e\<rparr>)" using ok by (simp add: dungeon_ok_def host_ok_def)
  then have "dungeon_ok (onTrainer i (\<lambda>_. t) (g\<lparr>dg_testEnemy := e\<rparr>))"
    using hit_trainer_ok [of "dr_party (dg_run g) ! i" "te_atkDmg (dg_testEnemy g)"] t by (intro ok_trainer) simp_all
  then show ?thesis unfolding attackRun_def Let_def e t by (auto intro!: ok_dirty ok_phase)
qed

lemma ok_narrate: "dungeon_ok g \<Longrightarrow> dungeon_ok (narrateAttack m d w g)"
  unfolding narrateAttack_def Let_def by (cases d; cases w) (simp_all add: ok_state ok_msg)

lemma ok_attack: "dungeon_ok g \<Longrightarrow> hostCmdAttack i m g = Some g' \<Longrightarrow> dungeon_ok g'"
  using ok_attackRun [of g] unfolding hostCmdAttack_def
  by (auto simp: ok_msg ok_narrate Let_def split: if_splits option.splits prod.splits) (metis fst_conv ok_narrate)

lemma fresh_slots: "trainer_ok t \<Longrightarrow> castSlot t = None"
  by (simp add: trainer_ok_def castSlot_def isSpellcaster_def)

lemma ok_cast: "dungeon_ok g \<Longrightarrow> hostCmdCast i m g = Some g' \<Longrightarrow> dungeon_ok g'"
proof -
  assume ok: "dungeon_ok g"
  have "castSlot (dr_party (dg_run g) ! k) = None" if "findTrainer (dg_run g) i = Some k" for k
  proof (rule fresh_slots)
    have "k < dr_partySize (dg_run g)" using find_SomeD [OF that [unfolded findTrainer_def]] by simp
    then show "trainer_ok (dr_party (dg_run g) ! k)" using ok by (simp add: dungeon_ok_def run_ok_def list_all_length)
  qed
  then show "hostCmdCast i m g = Some g' \<Longrightarrow> dungeon_ok g'"
    using ok unfolding hostCmdCast_def by (auto simp: ok_msg Let_def split: if_splits option.splits)
qed

lemma ok_switch [dungeon_intros]: "dungeon_ok g \<Longrightarrow> dungeon_ok (hostCmdSwitch i k g)"
  unfolding hostCmdSwitch_def Let_def
  by (auto intro!: ok_state ok_msg ok_dirty ok_trainer simp: trainer_ok_def split: option.split)

lemma heal_ok: "trainer_ok t \<Longrightarrow> trainer_ok (healTrainer t)"
  by (simp add: trainer_ok_def healTrainer_def)

lemma ok_heal: "dungeon_ok g \<Longrightarrow> dungeon_ok (fold (\<lambda>i. onTrainer i healTrainer) is g)"
  by (induction "is" arbitrary: g) (auto intro!: ok_trainer heal_ok)

lemma ok_rest [dungeon_intros]: "dungeon_ok g \<Longrightarrow> dungeon_ok (hostCmdRest i g)"
  unfolding hostCmdRest_def Let_def by (auto intro!: ok_state ok_msg ok_dirty ok_phase ok_heal)

lemma ok_party [dungeon_intros]: "dungeon_ok g \<Longrightarrow> dungeon_ok (hostCmdParty g)"
proof -
  have "dungeon_ok h \<Longrightarrow> dungeon_ok (fold (\<lambda>i. sendMsg (partyLine r i)) is h)" for h r "is"
    by (induction "is" arbitrary: h) (auto intro: ok_msg)
  then show "dungeon_ok g \<Longrightarrow> dungeon_ok (hostCmdParty g)" by (simp add: hostCmdParty_def Let_def ok_msg)
qed

lemma ok_cmd: "dungeon_ok g \<Longrightarrow> hostProcessCmd i v a g = Some g' \<Longrightarrow> dungeon_ok g'"
  unfolding hostProcessCmd_def
  by (auto intro: ok_attack ok_cast simp: ok_start ok_party ok_switch ok_rest ok_msg hostCmdItem_def hostCmdAnswer_def
        hostCmdWordle_def hostCmdFlee_def split: option.splits DungeonVerb.splits)

subsubsection \<open>Packets\<close>

lemma be32_less: "list_all (\<lambda>b. b < 256) pl \<Longrightarrow> k + 3 < length pl \<Longrightarrow> be32At pl k < 4294967296"
proof -
  assume "list_all (\<lambda>b. b < 256) pl" "k + 3 < length pl"
  then have "pl ! k < 256" "pl ! (k + 1) < 256" "pl ! (k + 2) < 256" "pl ! (k + 3) < 256"
    by (simp_all add: list_all_length)
  then show ?thesis unfolding be32At_def by linarith
qed

lemma ok_handleDungeonBeacon: "dungeon_ok g \<Longrightarrow> dungeon_ok (handleDungeonBeacon pl g)"
  by (simp add: handleDungeonBeacon_def ok_dirty ok_log)

lemma ok_handleJoin: "dungeon_ok g \<Longrightarrow> list_all (\<lambda>b. b < 256) pl \<Longrightarrow> dungeon_ok (handleJoin pl g)"
proof (cases "\<not> dg_isHost g \<or> length pl < 14 \<or> be32At pl 0 = dg_nodeId g \<or> 5 \<le> dr_partySize (dg_run g)")
  case True
  assume "dungeon_ok g"
  then show ?thesis using True by (auto simp: handleJoin_def Let_def intro!: ok_joinAck)
next
  case False
  assume ok: "dungeon_ok g" and "list_all (\<lambda>b. b < 256) pl"
  then have "be32At pl 0 < 4294967296" using False by (intro be32_less) simp_all
  then have "dungeon_ok (onTrainer n (\<lambda>t. t\<lparr>dt_nodeId := be32At pl 0, dt_slotHp := replicate 6 100\<rparr>) g)" for n
    by (intro ok_trainer ok) (simp add: trainer_ok_def)
  moreover have "dungeon_ok h \<Longrightarrow> dr_partySize (dg_run h) < 5 \<Longrightarrow> dungeon_ok (onRun (\<lambda>r. r\<lparr>dr_partySize := dr_partySize r + 1\<rparr>) h)" for h
    by (simp add: dungeon_ok_def run_ok_def host_ok_def)
  ultimately show ?thesis
    using False unfolding handleJoin_def Let_def by (auto intro!: ok_state ok_msg ok_joinAck ok_dirty)
qed

lemma ok_handleJoinAck: "dungeon_ok g \<Longrightarrow> handleJoinAck pl g = Some g' \<Longrightarrow> dungeon_ok g'"
proof -
  assume ok: "dungeon_ok g"
  then have "dungeon_ok (onTrainer n (\<lambda>t. t\<lparr>dt_nodeId := dg_nodeId g, dt_slotHp := replicate 6 100\<rparr>) g)" for n
    by (intro ok_trainer ok) (simp add: trainer_ok_def dungeon_ok_def)
  then show "handleJoinAck pl g = Some g' \<Longrightarrow> dungeon_ok g'"
    using ok unfolding handleJoinAck_def Let_def by (auto simp: ok_dirty ok_log split: if_splits)
qed

lemma read_entry_ok:
  assumes "trainer_ok t" "readEntry pl off t = Some t'" "list_all (\<lambda>b. b < 256) pl" "off + 10 \<le> length pl"
  shows "trainer_ok t'"
proof -
  have "pl ! (off + 4) < 256" "pl ! (off + 5) < 256" using assms(3,4) by (simp_all add: list_all_length)
  then have "pl ! (off + 4) * 256 + pl ! (off + 5) < 65536" by linarith
  moreover have "be32At pl off < 4294967296" using assms(3,4) by (intro be32_less) simp_all
  ultimately show ?thesis
    using assms(1,2) by (auto simp: readEntry_def Let_def trainer_ok_def list_all_length nth_list_update split: if_splits)
qed

lemma read_entries_ok:
  "list_all trainer_ok ts \<Longrightarrow> readEntries pl i n ts = Some ts' \<Longrightarrow> list_all (\<lambda>b. b < 256) pl \<Longrightarrow> i + n \<le> length ts \<Longrightarrow>
   list_all trainer_ok ts' \<and> length ts' = length ts"
proof (induction pl i n ts rule: readEntries.induct)
  case (2 pl i n ts)
  show ?case
  proof (cases "3 + i * 10 + 10 \<le> length pl")
    case True
    then obtain t where t: "readEntry pl (3 + i * 10) (ts ! i) = Some t" "readEntries pl (Suc i) n (ts[i := t]) = Some ts'"
      using 2(3) by (auto split: option.splits)
    have "trainer_ok t" using 2(2,4,5) True by (intro read_entry_ok [OF _ t(1)]) (simp_all add: list_all_length)
    then have "list_all trainer_ok (ts[i := t])" using 2(2) by (intro list_all_update)
    then show ?thesis using 2(1) [OF refl True t(1)] t(2) 2(4,5) by simp
  next
    case False
    then show ?thesis using 2(2,3) by simp
  qed
qed simp

lemma ok_handleState: "dungeon_ok g \<Longrightarrow> list_all (\<lambda>b. b < 256) pl \<Longrightarrow> handleState pl g = Some g' \<Longrightarrow> dungeon_ok g'"
proof (cases "\<not> dg_active g \<or> dg_isHost g \<or> length pl < 3")
  case True
  then show "dungeon_ok g \<Longrightarrow> handleState pl g = Some g' \<Longrightarrow> ?thesis" by (simp add: handleState_def)
next
  case False
  assume ok: "dungeon_ok g" and b: "list_all (\<lambda>b. b < 256) pl" and g': "handleState pl g = Some g'"
  define ps where "ps = (if pl ! 2 > 5 then 5 else pl ! 2)"
  obtain ts where ts: "readEntries pl 0 ps (dr_party (dg_run g)) = Some ts"
    and g'_eq: "g' = markDirty (onRun (\<lambda>r. r\<lparr>dr_party := ts\<rparr>) (onRun (\<lambda>r. r\<lparr>dr_phase := pl ! 0,
         dr_floor := (dr_floor r)\<lparr>fl_depth := pl ! 1\<rparr>, dr_partySize := ps\<rparr>) g))"
    using g' False by (auto simp: handleState_def Let_def ps_def)
  have "0 < length pl" "1 < length pl" using False by auto
  then have "pl ! 0 < 256" "pl ! 1 < 256" using b by (simp_all only: list_all_length)
  moreover have "ps \<le> 5" by (simp add: ps_def)
  moreover have "list_all trainer_ok ts \<and> length ts = 5"
    using read_entries_ok [OF _ ts b] ok \<open>ps \<le> 5\<close> by (simp add: dungeon_ok_def run_ok_def)
  ultimately show ?thesis using ok False unfolding g'_eq by (simp add: dungeon_ok_def run_ok_def host_ok_def)
qed

lemma ok_packet_call:
  assumes ok: "dungeon_ok g" and b: "list_all (\<lambda>b. b < 256) buf" and g': "handleDungeonPacket buf g = Some g'"
  shows "dungeon_ok g'"
proof (cases "length buf < 4")
  case True
  then show ?thesis using ok g' by (simp add: handleDungeonPacket_def)
next
  case False
  define pl where "pl = take (u8 (length buf - 4)) (pk_payload (overlay buf))"
  have pl: "list_all (\<lambda>b. b < 256) pl"
    using b by (auto simp: pl_def overlay_def list_all_iff dest!: in_set_takeD in_set_dropD)
  have cmd: "dungeon_ok h" if "handleCmd pl g = Some h" for h
    using that ok_cmd [OF ok] ok by (auto simp: handleCmd_def Let_def split: if_splits)
  have out: "dungeon_ok (handleMsg pl g)" "dungeon_ok (handlePrompt pl g)"
    using ok by (simp_all add: handleMsg_def handlePrompt_def Let_def ok_dirty ok_log)
  show ?thesis
    using g' False ok ok_handleDungeonBeacon [OF ok, of pl] ok_handleJoin [OF ok pl] ok_handleJoinAck [OF ok, of pl] ok_handleState [OF ok pl] cmd out
    unfolding handleDungeonPacket_def Let_def pl_def [symmetric]
    by (auto split: option.splits PktType.splits)
qed

subsubsection \<open>Local calls\<close>

lemma ok_tick: "dungeon_ok g \<Longrightarrow> dungeon_ok (tickDungeon now g)"
proof -
  have "dungeon_ok h \<Longrightarrow> dungeon_ok (h\<lparr>dg_lastBeaconMs := n\<rparr>)" for h n by (simp add: dungeon_ok_def host_ok_def)
  then show "dungeon_ok g \<Longrightarrow> dungeon_ok (tickDungeon now g)" by (simp add: tickDungeon_def ok_beacon)
qed

lemma ok_host: "dungeon_ok g \<Longrightarrow> dungeon_ok (becomeHost g)"
proof -
  assume ok: "dungeon_ok g"
  define h where "h = onRun (\<lambda>r. r\<lparr>dr_partySize := 1\<rparr>) (g\<lparr>dg_active := True, dg_isHost := True, dg_hostId := 0\<rparr>)"
  define f :: "DungeonTrainer \<Rightarrow> DungeonTrainer" where "f = (\<lambda>t. t\<lparr>dt_nodeId := dg_nodeId h, dt_activeSlot := 0, dt_slotHp := replicate 6 100, dt_slotFainted := replicate 6 False\<rparr>)"
  have "run_ok (dg_run g)" "0 < (5 :: nat)" "dg_nodeId g < 4294967296" using ok by (simp_all add: dungeon_ok_def)
  then have "run_ok (dg_run (setPhase Lobby (onTrainer 0 f h)))"
    unfolding run_ok_def by (auto simp: h_def f_def trainer_ok_def list_all_length nth_list_update)
  moreover have "dg_log (setPhase Lobby (onTrainer 0 f h)) = dg_log g" "dg_seq (setPhase Lobby (onTrainer 0 f h)) = dg_seq g"
    "dg_sent (setPhase Lobby (onTrainer 0 f h)) = dg_sent g"
    by (simp_all add: h_def setPhase_def onTrainer_def)
  ultimately have "dungeon_ok (setPhase Lobby (onTrainer 0 f h))"
    using ok by (simp add: dungeon_ok_def host_ok_def) (simp add: h_def)
  then show ?thesis unfolding becomeHost_def Let_def h_def [symmetric] f_def [symmetric] by (intro ok_beacon ok_log)
qed

lemma ok_guest: "dungeon_ok g \<Longrightarrow> dungeon_ok (becomeGuest g)"
proof -
  assume "dungeon_ok g"
  then have "dungeon_ok (g\<lparr>dg_active := True, dg_isHost := False\<rparr>)" by (simp add: dungeon_ok_def host_ok_def)
  then show ?thesis unfolding becomeGuest_def Let_def by (intro ok_joinRequest ok_beacon ok_log)
qed

lemma ok_local: "dungeon_ok g \<Longrightarrow> handleLocalCommand v a g = Some g' \<Longrightarrow> dungeon_ok g'"
  using ok_cmd [of g]
  by (auto simp: handleLocalCommand_def Let_def ok_host ok_guest ok_log ok_forward split: if_splits option.splits)

subsection \<open>Reachable states\<close>

text \<open>The calls of the module; a call outside the arrays is not defined and leaves the model's state.\<close>

datatype DungeonCall = Command string string | Packet "nat list" | Tick nat

fun dungeonCall :: "DungeonCall \<Rightarrow> DungeonGame \<Rightarrow> DungeonGame option" where
  "dungeonCall (Command verb arg) g = handleLocalCommand verb arg g"
| "dungeonCall (Packet buf) g = handleDungeonPacket buf g"
| "dungeonCall (Tick now) g = Some (tickDungeon now g)"

fun callInRange :: "DungeonCall \<Rightarrow> bool" where
  "callInRange (Packet buf) \<longleftrightarrow> list_all (\<lambda>b. b < 256) buf"
| "callInRange _ \<longleftrightarrow> True"

definition bootedDungeon :: "DungeonGame \<Rightarrow> bool" where
  "bootedDungeon g \<longleftrightarrow> (\<exists>n < 4294967296. g = newDungeonGame n)"

lemma booted_new [simp]: "n < 4294967296 \<Longrightarrow> bootedDungeon (newDungeonGame n)"
  unfolding bootedDungeon_def by blast

definition runDungeon :: "DungeonCall \<Rightarrow> DungeonGame \<Rightarrow> DungeonGame" where
  "runDungeon c g = (case dungeonCall c g of Some g' \<Rightarrow> g' | None \<Rightarrow> g)"

lemma boot_ok: "bootedDungeon g \<Longrightarrow> dungeon_ok g"
  by (auto simp: bootedDungeon_def newDungeonGame_def dungeon_ok_def run_ok_def zeroRun_def zeroTrainer_def trainer_ok_def
        log_ok_def enemy_ok_def newTestEnemy_def host_ok_def)

lemma call_ok: "dungeon_ok g \<Longrightarrow> callInRange c \<Longrightarrow> dungeonCall c g = Some g' \<Longrightarrow> dungeon_ok g'"
  by (cases c) (auto intro: ok_local ok_packet_call ok_tick)

interpretation dungeon: transition_system bootedDungeon runDungeon callInRange dungeon_ok
  by unfold_locales (auto simp: boot_ok runDungeon_def intro: call_ok split: option.split)

end
