(* ===== verification/DungeonRules.thy ===== *)
theory DungeonRules
  imports DungeonSafety
begin

text \<open>
  The dungeon between devices: what every reachable state and packet satisfies, which packets break a
  device, the guest as a mirror of the host, and the course of a fight.
\<close>

subsection \<open>Reachable states\<close>



subsection \<open>Packets that break a device\<close>

definition payloadOf :: "nat list \<Rightarrow> nat list" where
  "payloadOf buf = take (u8 (length buf - 4)) (drop 4 buf)"

text \<open>An accepted answer to this guest with a seat outside the party.\<close>

definition badJoinAck :: "nat list \<Rightarrow> DungeonGame \<Rightarrow> bool" where
  "badJoinAck pl g \<longleftrightarrow> \<not> dg_isHost g \<and> 7 \<le> length pl \<and> be32At pl 0 = dg_nodeId g \<and> pl ! 4 \<noteq> 0 \<and> 5 \<le> pl ! 5"

text \<open>A state for a guest with an entry whose active slot is not one of the six.\<close>

definition badState :: "nat list \<Rightarrow> DungeonGame \<Rightarrow> bool" where
  "badState pl g \<longleftrightarrow> dg_active g \<and> \<not> dg_isHost g \<and> 3 \<le> length pl
     \<and> (\<exists>i < min 5 (pl ! 2). 3 + i * 10 + 10 \<le> length pl \<and> 6 \<le> pl ! (3 + i * 10 + 8))"

text \<open>A command for a host whose text has no end: a switch, or an attack of a member in a fight.\<close>

definition badCmd :: "nat list \<Rightarrow> DungeonGame \<Rightarrow> bool" where
  "badCmd pl g \<longleftrightarrow> dg_isHost g \<and> 5 < length pl \<and> 0 \<notin> set (drop 5 pl)
     \<and> (pl ! 4 = verbNum SWITCH
        \<or> pl ! 4 = verbNum ATTACK \<and> dr_phase (dg_run g) = InCombat \<and> findTrainer (dg_run g) (be32At pl 0) \<noteq> None)"

lemma member_less: "findTrainer r i = Some k \<Longrightarrow> k < dr_partySize r"
  using find_SomeD [of _ _ k] unfolding findTrainer_def by fastforce

lemma member_ok: "dungeon_ok g \<Longrightarrow> findTrainer (dg_run g) i = Some k \<Longrightarrow> trainer_ok (dr_party (dg_run g) ! k)"
  using member_less [of "dg_run g" i k] by (simp add: dungeon_ok_def run_ok_def list_all_length)

lemma attack_faults:
  assumes "dungeon_ok g"
  shows "hostCmdAttack i a g = None \<longleftrightarrow> dr_phase (dg_run g) = InCombat \<and> findTrainer (dg_run g) i \<noteq> None \<and> a = None"
  using member_ok [OF assms, of i]
  by (auto simp: hostCmdAttack_def Let_def trainer_ok_def split: option.splits prod.splits)

lemma cast_faults: "dungeon_ok g \<Longrightarrow> hostCmdCast i a g \<noteq> None"
  using member_ok [of g i, THEN fresh_slots] by (auto simp: hostCmdCast_def Let_def split: option.splits)

lemma cmd_faults:
  assumes "dungeon_ok g"
  shows "hostProcessCmd i v a g = None \<longleftrightarrow> a = None \<and> (v = Some SWITCH
    \<or> v = Some ATTACK \<and> dr_phase (dg_run g) = InCombat \<and> findTrainer (dg_run g) i \<noteq> None)"
  using attack_faults [OF assms, of i a] cast_faults [OF assms, of i a]
  by (auto simp: hostProcessCmd_def split: option.splits DungeonVerb.splits)

lemma verb_cases: "verbOf n = Some v \<longleftrightarrow> n = verbNum v"
proof
  assume "verbOf n = Some v"
  then have n: "n < 12" "v = allVerbs ! n" by (auto simp: verbOf_def allVerbs_def split: if_splits)
  have "list_all (\<lambda>n. verbNum (allVerbs ! n) = n) [0..<12]" by code_simp
  then have "\<forall>n \<in> {0..<12}. verbNum (allVerbs ! n) = n" by (simp only: list_all_iff set_upt)
  then show "n = verbNum v" using n by simp
qed simp

lemma handle_cmd_faults:
  assumes "dungeon_ok g"
  shows "handleCmd pl g = None \<longleftrightarrow> badCmd pl g"
  using cmd_faults [OF assms]
  by (auto simp: handleCmd_def Let_def badCmd_def verb_cases)

lemma ex_from: "(\<exists>k. i \<le> k \<and> k < i + Suc n \<and> P k) \<longleftrightarrow> P i \<or> (\<exists>k. Suc i \<le> k \<and> k < Suc i + n \<and> P k)"
proof
  assume "\<exists>k. i \<le> k \<and> k < i + Suc n \<and> P k"
  then obtain k where "i \<le> k" "k < i + Suc n" "P k" by blast
  then show "P i \<or> (\<exists>k. Suc i \<le> k \<and> k < Suc i + n \<and> P k)" by (cases "k = i") auto
next
  assume "P i \<or> (\<exists>k. Suc i \<le> k \<and> k < Suc i + n \<and> P k)"
  then show "\<exists>k. i \<le> k \<and> k < i + Suc n \<and> P k"
  proof
    assume "P i"
    then show ?thesis by (intro exI [of _ i]) simp
  next
    assume "\<exists>k. Suc i \<le> k \<and> k < Suc i + n \<and> P k"
    then obtain k where "Suc i \<le> k" "k < Suc i + n" "P k" by blast
    then show ?thesis by (intro exI [of _ k]) simp
  qed
qed

lemma read_faults:
  "readEntries pl i n ts = None \<longleftrightarrow> (\<exists>k. i \<le> k \<and> k < i + n \<and> 3 + k * 10 + 10 \<le> length pl \<and> 6 \<le> pl ! (3 + k * 10 + 8))"
proof (induction pl i n ts rule: readEntries.induct)
  case (2 pl i n ts)
  let ?bad = "\<lambda>k. 3 + k * 10 + 10 \<le> length pl \<and> 6 \<le> pl ! (3 + k * 10 + 8)"
  note split = ex_from [of i n ?bad]
  show ?case
  proof (cases "3 + i * 10 + 10 \<le> length pl")
    case True
    show ?thesis
    proof (cases "pl ! (3 + i * 10 + 8) < 6")
      case False
      then have "readEntry pl (3 + i * 10) (ts ! i) = None" by (simp add: readEntry_def Let_def)
      then show ?thesis using True False unfolding split by simp
    next
      case small: True
      obtain t where t: "readEntry pl (3 + i * 10) (ts ! i) = Some t"
        using small by (auto simp: readEntry_def Let_def)
      then show ?thesis using 2 [OF refl True t] True small unfolding split by simp
    qed
  next
    case False
    then have "\<not> ?bad k" if "i \<le> k" for k using that by simp
    then show ?thesis using False by auto
  qed
qed simp

lemma handle_state_faults: "handleState pl g = None \<longleftrightarrow> badState pl g"
proof -
  have ps: "(if 5 < n then 5 else n) = min 5 n" for n :: nat by simp
  have "readEntries pl 0 (min 5 (pl ! 2)) ts = None
      \<longleftrightarrow> (\<exists>i < min 5 (pl ! 2). 3 + i * 10 + 10 \<le> length pl \<and> 6 \<le> pl ! (3 + i * 10 + 8))" for ts
    unfolding read_faults by auto
  then show ?thesis unfolding handleState_def badState_def Let_def ps by auto
qed

lemma handle_join_ack_faults: "dungeon_ok g \<Longrightarrow> handleJoinAck pl g = None \<longleftrightarrow> badJoinAck pl g"
  by (auto simp: handleJoinAck_def badJoinAck_def Let_def dungeon_ok_def run_ok_def)

lemma packet_dispatch:
  "\<not> length buf < 4 \<Longrightarrow> handleDungeonPacket buf g =
     (let pl = payloadOf buf in
      case pktType (buf ! 0) of
        Some DUNGEON_BEACON \<Rightarrow> Some (handleDungeonBeacon pl g)
      | Some DUNGEON_JOIN \<Rightarrow> Some (handleJoin pl g)
      | Some DUNGEON_JOIN_ACK \<Rightarrow> handleJoinAck pl g
      | Some DUNGEON_CMD \<Rightarrow> handleCmd pl g
      | Some DUNGEON_STATE \<Rightarrow> handleState pl g
      | Some DUNGEON_MSG \<Rightarrow> Some (handleMsg pl g)
      | Some DUNGEON_PROMPT \<Rightarrow> Some (handlePrompt pl g)
      | _ \<Rightarrow> Some g)"
  by (simp only: handleDungeonPacket_def Let_def overlay_def payloadOf_def BattlePacket.select_convs if_False)



end
