(* ===== verification/DungeonMirror.thy ===== *)
theory DungeonMirror
  imports DungeonRules
begin

text \<open>
  Host and guests: a state the host broadcasts makes a guest's picture of the run the host's; the course of
  a fight on the host.
\<close>

subsection \<open>The guest as a mirror of the host\<close>

text \<open>What a guest shows of a trainer, and of the run.\<close>

definition mirrorsTrainer :: "DungeonTrainer \<Rightarrow> DungeonTrainer \<Rightarrow> bool" where
  "mirrorsTrainer u t \<longleftrightarrow> dt_nodeId t = dt_nodeId u \<and> dt_activeSlot t = dt_activeSlot u
     \<and> dt_slotHp t ! dt_activeSlot t = dt_slotHp u ! dt_activeSlot u
     \<and> (\<forall>s < 6. dt_slotFainted t ! s = dt_slotFainted u ! s)"

definition mirrorsRun :: "DungeonRun \<Rightarrow> DungeonRun \<Rightarrow> bool" where
  "mirrorsRun h g \<longleftrightarrow> dr_phase g = dr_phase h \<and> fl_depth (dr_floor g) = fl_depth (dr_floor h)
     \<and> dr_partySize g = dr_partySize h
     \<and> (\<forall>i < dr_partySize h. mirrorsTrainer (dr_party h ! i) (dr_party g ! i))"

lemma be32_roundtrip: "n < 4294967296 \<Longrightarrow> be32At (be32Bytes n @ xs) 0 = n"
proof -
  assume "n < 4294967296"
  then have d: "n div 16777216 mod 256 = n div 16777216" by simp
  have "n div 65536 = n div 16777216 * 256 + n div 65536 mod 256"
    using div_mult_mod_eq [of "n div 65536" 256] by (simp add: div_mult2_eq [symmetric])
  moreover have "n div 256 = n div 65536 * 256 + n div 256 mod 256"
    using div_mult_mod_eq [of "n div 256" 256] by (simp add: div_mult2_eq [symmetric])
  moreover have "n div 256 * 256 + n mod 256 = n" by (rule div_mult_mod_eq)
  ultimately have "n div 16777216 mod 256 * 16777216 + n div 65536 mod 256 * 65536 + n div 256 mod 256 * 256 + n mod 256 = n"
    using d by linarith
  then show ?thesis using d by (simp add: be32At_def be32Bytes_def numeral_3_eq_3 numeral_2_eq_2)
qed

lemma read_entry_mirror:
  assumes "trainer_ok u" "trainer_ok t" "off + 10 \<le> length pl" "take 10 (drop off pl) = stateEntry u"
  obtains t' where "readEntry pl off t = Some t'" "mirrorsTrainer u t'" "length (dt_slotHp t') = 6"
proof -
  define hp where "hp = dt_slotHp u ! dt_activeSlot u"
  have u: "dt_activeSlot u < 6" "hp < 65536" "dt_nodeId u < 4294967296" "length (dt_slotHp t) = 6"
    using assms(1,2) by (simp_all add: trainer_ok_def hp_def list_all_length)
  have at: "pl ! (off + j) = stateEntry u ! j" if "j < 10" for j
    using arg_cong [OF assms(4), of "\<lambda>xs. xs ! j"] that assms(3) by simp
  have entry: "stateEntry u = be32Bytes (dt_nodeId u) @ [hp div 256 mod 256, hp mod 256, 0, 100, dt_activeSlot u, aliveBits u]"
    by (simp add: stateEntry_def Let_def hp_def)
  have n: "be32At pl off = dt_nodeId u"
    using be32_roundtrip [OF u(3), of "[hp div 256 mod 256, hp mod 256, 0, 100, dt_activeSlot u, aliveBits u]"] at [of 0] at [of 1] at [of 2] at [of 3]
    unfolding be32At_def entry by (simp add: numeral_2_eq_2)
  have h: "pl ! (off + 4) = hp div 256" "pl ! (off + 5) = hp mod 256" "pl ! (off + 8) = dt_activeSlot u" "pl ! (off + 9) = aliveBits u"
    using at [of 4] at [of 5] at [of 8] at [of 9] u(2) unfolding entry by (simp_all add: be32Bytes_def)
  have hp: "pl ! (off + 4) * 256 + pl ! (off + 5) = hp" unfolding h by simp
  show thesis
  proof (rule that)
    show "readEntry pl off t = Some (t\<lparr>dt_nodeId := dt_nodeId u, dt_activeSlot := dt_activeSlot u,
      dt_slotFainted := map (\<lambda>s. \<not> bit (aliveBits u) s) [0..<6], dt_slotHp := (dt_slotHp t)[dt_activeSlot u := hp]\<rparr>)"
      unfolding readEntry_def Let_def hp n h(3,4) using u(1) by simp
    show "mirrorsTrainer u (t\<lparr>dt_nodeId := dt_nodeId u, dt_activeSlot := dt_activeSlot u,
      dt_slotFainted := map (\<lambda>s. \<not> bit (aliveBits u) s) [0..<6], dt_slotHp := (dt_slotHp t)[dt_activeSlot u := hp]\<rparr>)"
      using u(1,4) by (simp add: mirrorsTrainer_def bit_aliveBits hp_def del: upt_Suc upt_rec_numeral)
  qed (use u in simp)
qed

lemma read_entries_mirror:
  "\<forall>k. i \<le> k \<and> k < i + n \<longrightarrow> trainer_ok (us ! k) \<and> 3 + k * 10 + 10 \<le> length pl \<and> take 10 (drop (3 + k * 10) pl) = stateEntry (us ! k) \<Longrightarrow>
   list_all trainer_ok ts \<Longrightarrow> list_all (\<lambda>b. b < 256) pl \<Longrightarrow> i + n \<le> length ts \<Longrightarrow>
   \<exists>ts'. readEntries pl i n ts = Some ts' \<and> (\<forall>k < i. ts' ! k = ts ! k)
     \<and> (\<forall>k. i \<le> k \<and> k < i + n \<longrightarrow> mirrorsTrainer (us ! k) (ts' ! k))"
proof (induction pl i n ts rule: readEntries.induct)
  case (2 pl i n ts)
  have i: "trainer_ok (us ! i)" "3 + i * 10 + 10 \<le> length pl" "take 10 (drop (3 + i * 10) pl) = stateEntry (us ! i)"
    "trainer_ok (ts ! i)"
    using 2(2) [rule_format, of i] 2(3,5) by (simp_all add: list_all_length)
  obtain t where t: "readEntry pl (3 + i * 10) (ts ! i) = Some t" "mirrorsTrainer (us ! i) t"
    using read_entry_mirror [OF i(1,4,2,3)] by metis
  have ok: "list_all trainer_ok (ts[i := t])"
    using read_entry_ok [OF i(4) t(1) 2(4) i(2)] 2(3) by (simp add: list_all_update)
  obtain ts' where ts': "readEntries pl (Suc i) n (ts[i := t]) = Some ts'" "\<forall>k < Suc i. ts' ! k = ts[i := t] ! k"
    "\<forall>k. Suc i \<le> k \<and> k < Suc i + n \<longrightarrow> mirrorsTrainer (us ! k) (ts' ! k)"
    using 2(1) [OF refl i(2) t(1) _ ok 2(4)] 2(2,5) by force
  have "mirrorsTrainer (us ! i) (ts' ! i)" using ts'(2) t(2) 2(5) by simp
  then have "mirrorsTrainer (us ! k) (ts' ! k)" if "i \<le> k" "k < i + Suc n" for k
    using ts'(3) that by (cases "k = i") auto
  moreover have "ts' ! k = ts ! k" if "k < i" for k using ts'(2) that by simp
  moreover have "readEntries pl i (Suc n) ts = Some ts'" using i(2) t(1) ts'(1) by simp
  ultimately show ?case by blast
qed auto

lemma entries_length: "(\<And>k. k < n \<Longrightarrow> length (f k) = 10) \<Longrightarrow> length (concat (map f [0..<n])) = n * 10"
  by (induction n) simp_all

lemma entries_at:
  "(\<And>k. k < n \<Longrightarrow> length (f k) = 10) \<Longrightarrow> k < n \<Longrightarrow> take 10 (drop (k * 10) (concat (map f [0..<n]) @ ys)) = f k"
proof (induction n arbitrary: ys)
  case (Suc n)
  have len: "length (concat (map f [0..<n])) = n * 10" using Suc.prems(1) by (intro entries_length) simp
  show ?case
  proof (cases "k = n")
    case True
    then show ?thesis using len Suc.prems(1) [of n] by simp
  next
    case False
    then show ?thesis using Suc.IH [of "f n @ ys"] Suc.prems by simp
  qed
qed simp

lemma state_mirrors:
  assumes h: "dungeon_ok h" and g: "dungeon_ok g" "dg_active g" "\<not> dg_isHost g"
  obtains g' where "handleState (statePayload (dg_run h)) g = Some g'" "mirrorsRun (dg_run h) (dg_run g')"
proof -
  let ?r = "dg_run h"
  let ?pl = "statePayload ?r"
  have r: "run_ok ?r" "dr_partySize ?r \<le> 5" using h by (simp_all add: dungeon_ok_def run_ok_def)
  have t: "trainer_ok (dr_party ?r ! k)" if "k < dr_partySize ?r" for k
    using that r by (simp add: run_ok_def list_all_length)
  note es = entries_at [of "dr_partySize ?r" "\<lambda>i. stateEntry (dr_party ?r ! i)", OF entry_bytes(1) [OF t]]
    and el = entries_length [of "dr_partySize ?r" "\<lambda>i. stateEntry (dr_party ?r ! i)", OF entry_bytes(1) [OF t]]
  have len: "length ?pl = 3 + dr_partySize ?r * 10" using el by (simp add: statePayload_def)
  have "list_all (\<lambda>b. b < 256) ?pl"
    using r t entry_bytes(2) unfolding statePayload_def run_ok_def by (fastforce simp: list_all_iff)
  moreover have "\<forall>k. 0 \<le> k \<and> k < 0 + dr_partySize ?r \<longrightarrow> trainer_ok (dr_party ?r ! k) \<and> 3 + k * 10 + 10 \<le> length ?pl
      \<and> take 10 (drop (3 + k * 10) ?pl) = stateEntry (dr_party ?r ! k)"
  proof (intro allI impI conjI)
    fix k assume k: "0 \<le> k \<and> k < 0 + dr_partySize ?r"
    then show "trainer_ok (dr_party ?r ! k)" "3 + k * 10 + 10 \<le> length ?pl" using t len by simp_all
    have "3 + k * 10 = Suc (Suc (Suc (k * 10)))" by simp
    then show "take 10 (drop (3 + k * 10) ?pl) = stateEntry (dr_party ?r ! k)"
      using es [of k "[]"] k by (simp only: statePayload_def) simp
  qed
  moreover have "list_all trainer_ok (dr_party (dg_run g))" "length (dr_party (dg_run g)) = 5"
    using g(1) by (simp_all add: dungeon_ok_def run_ok_def)
  ultimately obtain ts where ts: "readEntries ?pl 0 (dr_partySize ?r) (dr_party (dg_run g)) = Some ts"
    "\<forall>k. 0 \<le> k \<and> k < 0 + dr_partySize ?r \<longrightarrow> mirrorsTrainer (dr_party ?r ! k) (ts ! k)"
    using read_entries_mirror [of 0 "dr_partySize ?r" "dr_party ?r" ?pl "dr_party (dg_run g)"] r(2) by auto
  have hd: "?pl ! 0 = dr_phase ?r" "?pl ! 1 = fl_depth (dr_floor ?r)" "?pl ! 2 = dr_partySize ?r"
    by (simp_all add: statePayload_def)
  show thesis
  proof (rule that)
    show "handleState ?pl g = Some (markDirty (onRun (\<lambda>r. r\<lparr>dr_party := ts\<rparr>) (onRun (\<lambda>r. r\<lparr>dr_phase := dr_phase ?r,
        dr_floor := (dr_floor r)\<lparr>fl_depth := fl_depth (dr_floor ?r)\<rparr>, dr_partySize := dr_partySize ?r\<rparr>) g)))"
      unfolding handleState_def Let_def hd using g(2,3) r(2) ts(1) len by simp
    show "mirrorsRun ?r (dg_run (markDirty (onRun (\<lambda>r. r\<lparr>dr_party := ts\<rparr>) (onRun (\<lambda>r. r\<lparr>dr_phase := dr_phase ?r,
        dr_floor := (dr_floor r)\<lparr>fl_depth := fl_depth (dr_floor ?r)\<rparr>, dr_partySize := dr_partySize ?r\<rparr>) g))))"
      using ts(2) by (simp add: mirrorsRun_def)
  qed
qed

text \<open>
  C21 A state packet makes a guest the mirror of its host: sent by any reachable host and received by any
  reachable active guest, it is handled without a fault, and then phase, depth, size and, for every
  member, the identifier, the active slot with its HP and who has fainted are the host's.
\<close>

theorem guest_mirrors_host:
  assumes "bootedDungeon h0" "list_all callInRange hcalls" "bootedDungeon g0" "list_all callInRange gcalls"
  defines "h \<equiv> fold runDungeon hcalls h0" and "g \<equiv> fold runDungeon gcalls g0"
  assumes "dg_active g" "\<not> dg_isHost g"
  shows "\<exists>g'. handleDungeonPacket (last (dg_sent (sendState h))) g = Some g' \<and> mirrorsRun (dg_run h) (dg_run g')"
proof -
  have h: "dungeon_ok h" unfolding h_def by (rule dungeon.reach_inv [OF assms(1,2)])
  have g: "dungeon_ok g" unfolding g_def by (rule dungeon.reach_inv [OF assms(3,4)])
  let ?pl = "statePayload (dg_run h)"
  have p: "last (dg_sent (sendState h)) = mkPacket DUNGEON_STATE 0 (dg_seq h) ?pl"
    by (simp add: sendState_def sendPacket_def)
  have "length ?pl < 256"
  proof -
    have "dungeon_ok (sendState h)" using h by (rule ok_state)
    then have "packet_ok (mkPacket DUNGEON_STATE 0 (dg_seq h) ?pl)"
      by (simp add: dungeon_ok_def sendState_def sendPacket_def)
    then show ?thesis by (simp add: packet_ok_def)
  qed
  then have "payloadOf (mkPacket DUNGEON_STATE 0 (dg_seq h) ?pl) = ?pl"
    by (simp add: payloadOf_def mkPacket_def packetBytes_def setSessionId_def)
  moreover have "mkPacket DUNGEON_STATE 0 (dg_seq h) ?pl ! 0 = pktCode DUNGEON_STATE"
    by (simp add: mkPacket_def packetBytes_def setSessionId_def)
  moreover have "\<not> length (mkPacket DUNGEON_STATE 0 (dg_seq h) ?pl) < 4" by simp
  ultimately have "handleDungeonPacket (last (dg_sent (sendState h))) g = handleState ?pl g"
    unfolding p by (simp only: packet_dispatch pktType_pktCode Let_def option.case PktType.case simp_thms)
  then show ?thesis using state_mirrors [OF h g assms(7,8)] by metis
qed

theorem guest_mirrors_host_witness:
  "\<exists>g'. handleDungeonPacket (last (dg_sent (sendState (fold runDungeon [Command ''host'' [], Command ''start'' []] (newDungeonGame 77)))))
       (fold runDungeon [Command ''join'' []] (newDungeonGame 5)) = Some g'
     \<and> mirrorsRun (dg_run (fold runDungeon [Command ''host'' [], Command ''start'' []] (newDungeonGame 77))) (dg_run g')"
proof -
  have n: "(77 :: nat) < 4294967296" "(5 :: nat) < 4294967296" by simp_all
  have calls: "list_all callInRange [Command ''host'' [], Command ''start'' []]" "list_all callInRange [Command ''join'' []]" by simp_all
  have "map asciiLower (take 15 ''join'') = ''join''" by code_simp
  then have "fold runDungeon [Command ''join'' []] (newDungeonGame 5) = becomeGuest (newDungeonGame 5)"
    by (simp add: runDungeon_def handleLocalCommand_def Let_def)
  moreover have "dg_active (becomeGuest (newDungeonGame 5))" "\<not> dg_isHost (becomeGuest (newDungeonGame 5))"
    by (simp_all add: becomeGuest_def Let_def sendJoinRequest_def sendBeacon_def)
  ultimately show ?thesis
    using guest_mirrors_host [OF booted_new [OF n(1)] calls(1) booted_new [OF n(2)] calls(2)] by metis
qed

end
