(* ===== verification/DungeonFights.thy ===== *)
theory DungeonFights
  imports DungeonMirror
begin

text \<open>
  The course of a fight on a host.  A device that becomes the host for the first time keeps faint marks and
  HP in step; from there an attack is exactly decided.  Shown as well is what a second time as host, or a
  second request to join, leads to.
\<close>

subsection \<open>A fresh host\<close>

definition fair_trainer :: "DungeonTrainer \<Rightarrow> bool" where
  "fair_trainer t \<longleftrightarrow> (\<forall>s < 6. dt_slotFainted t ! s \<longleftrightarrow> dt_slotHp t ! s = 0) \<and> (\<forall>s < 6. dt_slotHp t ! s \<le> 100)
     \<and> (isAlive t \<longrightarrow> \<not> dt_slotFainted t ! dt_activeSlot t)"

definition fresh_trainer :: "DungeonTrainer \<Rightarrow> bool" where
  "fresh_trainer t \<longleftrightarrow> dt_slotFainted t = replicate 6 False \<and> dt_activeSlot t = 0"

definition fair_run :: "DungeonRun \<Rightarrow> bool" where
  "fair_run r \<longleftrightarrow> (\<forall>i < 5. if i < dr_partySize r then fair_trainer (dr_party r ! i) else fresh_trainer (dr_party r ! i))"

definition fair_host :: "DungeonGame \<Rightarrow> bool" where
  "fair_host g \<longleftrightarrow> dungeon_ok g \<and> dg_isHost g \<and> fair_run (dg_run g)
     \<and> (dr_phase (dg_run g) = InCombat \<longrightarrow> 0 < te_hp (dg_testEnemy g))"

text \<open>Only run, role and enemy matter.\<close>

lemma fair_same:
  "fair_host g \<Longrightarrow> dungeon_ok g' \<Longrightarrow> dg_run g' = dg_run g \<Longrightarrow> dg_isHost g' = dg_isHost g \<Longrightarrow> dg_testEnemy g' = dg_testEnemy g \<Longrightarrow> fair_host g'"
  by (simp add: fair_host_def)

lemma alive_iff: "isAlive t \<longleftrightarrow> (\<exists>s < 6. \<not> dt_slotFainted t ! s)"
  by (auto simp: isAlive_def list_ex_iff)

lemma hit_fair:
  assumes t: "fair_trainer t" "trainer_ok t" and h: "hitTrainer d t = (t', n)"
  shows "fair_trainer t' \<and> (n \<longleftrightarrow> isAlive t')"
proof (cases "dt_slotHp t ! dt_activeSlot t \<le> d")
  case False
  then have t': "t' = t\<lparr>dt_slotHp := (dt_slotHp t)[dt_activeSlot t := dt_slotHp t ! dt_activeSlot t - d]\<rparr>" "n"
    using h by (auto simp: hitTrainer_def Let_def)
  have a: "dt_activeSlot t < 6" "length (dt_slotHp t) = 6" using t(2) by (simp_all add: trainer_ok_def)
  have up: "\<not> dt_slotFainted t ! dt_activeSlot t" using t(1) a(1) False by (auto simp: fair_trainer_def)
  have "\<forall>s < 6. dt_slotHp t ! s \<le> 100" using t(1) by (simp add: fair_trainer_def)
  then have hp: "\<forall>s < 6. dt_slotHp t' ! s \<le> 100" using a by (simp add: t' nth_list_update le_diff_conv trans_le_add1)
  have f: "\<forall>s < 6. dt_slotFainted t' ! s \<longleftrightarrow> dt_slotHp t' ! s = 0"
    using t(1) a up False by (simp add: t' fair_trainer_def nth_list_update)
  have "isAlive t'" using up a(1) by (auto simp: alive_iff t')
  then show ?thesis using hp f up t'(2) by (simp add: fair_trainer_def) (simp add: t')
next
  case True
  define u where "u = t\<lparr>dt_slotHp := (dt_slotHp t)[dt_activeSlot t := 0], dt_slotFainted := (dt_slotFainted t)[dt_activeSlot t := True]\<rparr>"
  have a: "dt_activeSlot t < 6" "length (dt_slotHp t) = 6" "length (dt_slotFainted t) = 6" using t(2) by (simp_all add: trainer_ok_def)
  have u: "\<forall>s < 6. dt_slotFainted u ! s \<longleftrightarrow> dt_slotHp u ! s = 0" "\<forall>s < 6. dt_slotHp u ! s \<le> 100"
    using t(1) a by (auto simp: u_def fair_trainer_def nth_list_update)
  have h': "(case find (\<lambda>i. \<not> dt_slotFainted u ! i) [0..<6] of Some i \<Rightarrow> (u\<lparr>dt_activeSlot := i\<rparr>, True) | None \<Rightarrow> (u, False)) = (t', n)"
    using h True unfolding u_def by (simp add: hitTrainer_def Let_def)
  show ?thesis
  proof (cases "find (\<lambda>i. \<not> dt_slotFainted u ! i) [0..<6]")
    case None
    then have "t' = u" "\<not> n" using h' by simp_all
    moreover have "\<not> isAlive u" using None by (auto simp: alive_iff find_None_iff)
    ultimately show ?thesis using u by (simp add: fair_trainer_def)
  next
    case (Some i)
    then have "t' = u\<lparr>dt_activeSlot := i\<rparr>" "n" using h' by simp_all
    moreover have "i < 6" "\<not> dt_slotFainted u ! i" using find_SomeD [OF Some] by simp_all
    ultimately show ?thesis using u by (auto simp: fair_trainer_def alive_iff)
  qed
qed

text \<open>The changes of an attack, as functions of the state before.\<close>

lemma attack_run:
  assumes "attackRun i g = (g', died, wiped)" "i < dr_partySize (dg_run g)" "run_ok (dg_run g)"
  defines "t' \<equiv> hitTrainer (te_atkDmg (dg_testEnemy g)) (dr_party (dg_run g) ! i)"
  shows "dr_party (dg_run g') = (dr_party (dg_run g))[i := fst t']"
    and "dr_partySize (dg_run g') = dr_partySize (dg_run g)" and "dr_floor (dg_run g') = dr_floor (dg_run g)"
    and "te_hp (dg_testEnemy g') = te_hp (dg_testEnemy g) - 12" and "died \<longleftrightarrow> te_hp (dg_testEnemy g) \<le> 12"
    and "wiped \<longleftrightarrow> \<not> snd t' \<and> \<not> anyAlive (dg_run g')"
    and "dr_phase (dg_run g') = (if wiped then RunOver else if died then FloorComplete else dr_phase (dg_run g))"
    and "dg_isHost g' = dg_isHost g" and "te_atkDmg (dg_testEnemy g') = te_atkDmg (dg_testEnemy g)"
  using assms(1)
  by (auto simp: attackRun_def Let_def hitEnemy_def anyAlive_def t'_def split: prod.splits if_splits)

subsubsection \<open>Every call keeps it\<close>

named_theorems fair_intros \<open>calls that keep a host fair\<close>

lemma fair_log [fair_intros]: "fair_host g \<Longrightarrow> fair_host (logMsg m g)"
  by (rule fair_same) (simp_all add: ok_log fair_host_def)

lemma fair_dirty [fair_intros]: "fair_host g \<Longrightarrow> fair_host (markDirty g)"
  by (rule fair_same) (simp_all add: ok_dirty fair_host_def)

lemma fair_msg [fair_intros]: "fair_host g \<Longrightarrow> fair_host (sendMsg m g)"
  by (rule fair_same) (simp_all add: ok_msg fair_host_def)

lemma fair_state [fair_intros]: "fair_host g \<Longrightarrow> fair_host (sendState g)"
  by (rule fair_same) (simp_all add: ok_state fair_host_def)

lemma fair_narrate [fair_intros]: "fair_host g \<Longrightarrow> fair_host (narrateAttack m d w g)"
  unfolding narrateAttack_def Let_def by (cases d; cases w) (simp_all add: fair_state fair_msg)

lemma fair_member: "fair_host g \<Longrightarrow> i < dr_partySize (dg_run g) \<Longrightarrow> fair_trainer (dr_party (dg_run g) ! i) \<and> trainer_ok (dr_party (dg_run g) ! i)"
  by (auto simp: fair_host_def fair_run_def dungeon_ok_def run_ok_def list_all_length)

text \<open>A write to one member, by a fair trainer.\<close>

lemma fair_run_update:
  "fair_run r \<Longrightarrow> run_ok r \<Longrightarrow> i < dr_partySize r \<Longrightarrow> fair_trainer t \<Longrightarrow> dr_partySize r' = dr_partySize r \<Longrightarrow>
   dr_party r' = (dr_party r)[i := t] \<Longrightarrow> fair_run r'"
  by (auto simp: fair_run_def run_ok_def nth_list_update)

lemma fair_attackRun:
  assumes g: "fair_host g" "i < dr_partySize (dg_run g)" and r: "attackRun i g = (g', died, wiped)"
  shows "fair_host g'" and "wiped \<longleftrightarrow> \<not> anyAlive (dg_run g')"
proof -
  have ok: "dungeon_ok g" "run_ok (dg_run g)" "fair_run (dg_run g)" using g(1) by (simp_all add: fair_host_def dungeon_ok_def)
  note m = fair_member [OF g]
  define t' where "t' = hitTrainer (te_atkDmg (dg_testEnemy g)) (dr_party (dg_run g) ! i)"
  note a = attack_run [OF r g(2) ok(2), folded t'_def]
  have t': "fair_trainer (fst t')" "snd t' \<longleftrightarrow> isAlive (fst t')"
    using hit_fair [OF conjunct1 [OF m] conjunct2 [OF m], of "te_atkDmg (dg_testEnemy g)" "fst t'" "snd t'"] by (simp_all add: t'_def)
  have "fair_run (dg_run g')" by (rule fair_run_update [OF ok(3,2) g(2) t'(1) a(2,1)])
  moreover have "dungeon_ok g'" using ok_attackRun [OF ok(1), of i] r by simp
  moreover have "dr_phase (dg_run g') = InCombat \<longrightarrow> 0 < te_hp (dg_testEnemy g')" using a(4,5,7) by auto
  ultimately show "fair_host g'" using g(1) a(8) by (simp add: fair_host_def)
  have "i < length (dr_party (dg_run g))" using ok(2) g(2) by (simp add: run_ok_def)
  then have "dr_party (dg_run g') ! i = fst t'" using a(1) by simp
  then have "isAlive (fst t') \<Longrightarrow> anyAlive (dg_run g')" using g(2) a(2) by (auto simp: anyAlive_def list_ex_iff intro!: bexI [of _ i])
  then show "wiped \<longleftrightarrow> \<not> anyAlive (dg_run g')" using a(6) t'(2) by blast
qed

lemma fair_attack: "fair_host g \<Longrightarrow> hostCmdAttack i m g = Some g' \<Longrightarrow> fair_host g'"
  unfolding hostCmdAttack_def
  by (auto simp: Let_def fair_msg dest!: member_less split: if_splits option.splits prod.splits
        intro!: fair_narrate dest: fair_attackRun(1))

lemma cast_refused: "dungeon_ok g \<Longrightarrow> hostCmdCast i m g = Some g' \<Longrightarrow> g' = g \<or> (\<exists>msg. g' = sendMsg msg g)"
  using member_ok [of g i, THEN fresh_slots] unfolding hostCmdCast_def
  by (auto simp: Let_def split: if_splits option.splits)

lemma fair_cast: "fair_host g \<Longrightarrow> hostCmdCast i m g = Some g' \<Longrightarrow> fair_host g'"
proof -
  assume g: "fair_host g"
  then have "dungeon_ok g" by (simp add: fair_host_def)
  then show "hostCmdCast i m g = Some g' \<Longrightarrow> fair_host g'" using g cast_refused [of g i m g'] fair_msg by blast
qed

lemma fair_start: "fair_host g \<Longrightarrow> fair_host (hostStartRun g)"
proof -
  assume g: "fair_host g"
  have "dungeon_ok ((onRun (\<lambda>r. r\<lparr>dr_floor := floorOne (dr_floor r), dr_phase := InCombat\<rparr>) g)\<lparr>dg_testEnemy := newTestEnemy\<rparr>)"
    using g by (simp add: fair_host_def dungeon_ok_def run_ok_def host_ok_def floorOne_def enemy_ok_def newTestEnemy_def)
  then have "fair_host ((onRun (\<lambda>r. r\<lparr>dr_floor := floorOne (dr_floor r), dr_phase := InCombat\<rparr>) g)\<lparr>dg_testEnemy := newTestEnemy\<rparr>)"
    using g by (simp add: fair_host_def fair_run_def newTestEnemy_def)
  then show ?thesis using g unfolding hostStartRun_def Let_def by (auto intro!: fair_state fair_msg fair_dirty)
qed

lemma fair_switch: "fair_host g \<Longrightarrow> fair_host (hostCmdSwitch i k g)"
proof -
  assume g: "fair_host g"
  have "fair_host (onTrainer j (\<lambda>t. t\<lparr>dt_activeSlot := k\<rparr>) g)"
    if j: "findTrainer (dg_run g) i = Some j" and k: "k < 6" "\<not> dt_slotFainted (dr_party (dg_run g) ! j) ! k" for j
  proof -
    let ?t = "(dr_party (dg_run g) ! j)\<lparr>dt_activeSlot := k\<rparr>"
    note m = fair_member [OF g member_less [OF j]]
    have t: "fair_trainer ?t" using conjunct1 [OF m] k by (simp add: fair_trainer_def)
    have "fair_run (dg_run (onTrainer j (\<lambda>t. t\<lparr>dt_activeSlot := k\<rparr>) g))"
      by (rule fair_run_update [OF _ _ member_less [OF j] t]) (use g in \<open>simp_all add: fair_host_def dungeon_ok_def\<close>)
    moreover have "dungeon_ok (onTrainer j (\<lambda>t. t\<lparr>dt_activeSlot := k\<rparr>) g)"
      using g k(1) by (intro ok_trainer) (simp_all add: trainer_ok_def fair_host_def)
    ultimately show ?thesis using g by (simp add: fair_host_def)
  qed
  then show ?thesis using g unfolding hostCmdSwitch_def Let_def
    by (auto intro!: fair_state fair_msg fair_dirty split: option.split)
qed

lemma fair_rest: "fair_host g \<Longrightarrow> fair_host (hostCmdRest i g)"
proof -
  have healed: "fair_trainer (healTrainer t)" if "trainer_ok t" for t
    using that by (simp add: fair_trainer_def healTrainer_def trainer_ok_def)
  have one: "fair_host (onTrainer j healTrainer h)" if h: "fair_host h" and j: "j < dr_partySize (dg_run h)" for j h
  proof -
    have "fair_run (dg_run (onTrainer j healTrainer h))"
      by (rule fair_run_update [OF _ _ j healed [OF conjunct2 [OF fair_member [OF h j]]]]) (use h in \<open>simp_all add: fair_host_def dungeon_ok_def\<close>)
    moreover have "dungeon_ok (onTrainer j healTrainer h)" using h by (intro ok_trainer heal_ok) (simp_all add: fair_host_def)
    ultimately show ?thesis using h by (simp add: fair_host_def)
  qed
  have all: "fair_host h \<Longrightarrow> \<forall>j \<in> set js. j < dr_partySize (dg_run h) \<Longrightarrow> fair_host (fold (\<lambda>i. onTrainer i healTrainer) js h)" for h js
    by (induction js arbitrary: h) (simp_all add: one)
  have phase: "fair_host h \<Longrightarrow> fair_host (setPhase Exploring h)" for h
    by (auto simp: fair_host_def fair_run_def intro: ok_phase)
  assume "fair_host g"
  then show ?thesis unfolding hostCmdRest_def Let_def
    by (auto intro!: fair_state fair_msg fair_dirty phase [unfolded One_nat_def] all)
qed

lemma fair_party: "fair_host g \<Longrightarrow> fair_host (hostCmdParty g)"
proof -
  have "fair_host h \<Longrightarrow> fair_host (fold (\<lambda>i. sendMsg (partyLine r i)) is h)" for h r "is"
    by (induction "is" arbitrary: h) (auto intro: fair_msg)
  then show "fair_host g \<Longrightarrow> fair_host (hostCmdParty g)" by (simp add: hostCmdParty_def Let_def fair_msg)
qed

lemma fair_cmd: "fair_host g \<Longrightarrow> hostProcessCmd i v a g = Some g' \<Longrightarrow> fair_host g'"
  unfolding hostProcessCmd_def
  by (auto intro: fair_attack fair_cast simp: fair_start fair_party fair_switch fair_rest fair_msg hostCmdItem_def hostCmdAnswer_def
        hostCmdWordle_def hostCmdFlee_def split: option.splits DungeonVerb.splits)

lemma fair_joinAck: "fair_host g \<Longrightarrow> slot < 256 \<Longrightarrow> fair_host (sendJoinAck i a slot g)"
  by (rule fair_same) (simp_all add: ok_joinAck fair_host_def, simp_all add: sendJoinAck_def)

lemma fair_join: "fair_host g \<Longrightarrow> list_all (\<lambda>b. b < 256) pl \<Longrightarrow> fair_host (handleJoin pl g)"
proof -
  assume g: "fair_host g" and b: "list_all (\<lambda>b. b < 256) pl"
  have h: "dg_isHost g" "run_ok (dg_run g)" using g by (simp_all add: fair_host_def dungeon_ok_def)
  let ?n = "dr_partySize (dg_run g)"
  define t where "t = (dr_party (dg_run g) ! ?n)\<lparr>dt_nodeId := be32At pl 0, dt_slotHp := replicate 6 100\<rparr>"
  have seat: "fair_host (onRun (\<lambda>r. r\<lparr>dr_partySize := dr_partySize r + 1\<rparr>)
      (onTrainer ?n (\<lambda>t. t\<lparr>dt_nodeId := be32At pl 0, dt_slotHp := replicate 6 100\<rparr>) g))"
    if "?n < 5" "14 \<le> length pl"
  proof -
    have "fresh_trainer (dr_party (dg_run g) ! ?n)" using g that by (auto simp: fair_host_def fair_run_def)
    then have t: "fair_trainer t" by (auto simp: t_def fresh_trainer_def fair_trainer_def)
    have "be32At pl 0 < 4294967296" using b that by (intro be32_less) simp_all
    then have "dungeon_ok (onTrainer ?n (\<lambda>t. t\<lparr>dt_nodeId := be32At pl 0, dt_slotHp := replicate 6 100\<rparr>) g)"
      using g by (intro ok_trainer) (simp_all add: trainer_ok_def fair_host_def)
    moreover have "fair_run (r\<lparr>dr_partySize := Suc (dr_partySize r)\<rparr>)"
      if "dr_partySize r = ?n" "dr_party r = (dr_party (dg_run g))[?n := t]" for r
      using g t that h(2) by (auto simp: fair_host_def fair_run_def run_ok_def nth_list_update less_Suc_eq)
    ultimately show ?thesis using g that
      by (simp add: fair_host_def dungeon_ok_def run_ok_def host_ok_def t_def)
  qed
  show ?thesis using g h(1) seat unfolding handleJoin_def Let_def
    by (auto intro!: fair_state fair_msg fair_joinAck fair_dirty)
qed

lemma fair_packet: "fair_host g \<Longrightarrow> list_all (\<lambda>b. b < 256) buf \<Longrightarrow> handleDungeonPacket buf g = Some g' \<Longrightarrow> fair_host g'"
proof (cases "length buf < 4")
  case True
  then show "fair_host g \<Longrightarrow> handleDungeonPacket buf g = Some g' \<Longrightarrow> ?thesis" by (simp add: handleDungeonPacket_def)
next
  case False
  assume g: "fair_host g" and b: "list_all (\<lambda>b. b < 256) buf" and g': "handleDungeonPacket buf g = Some g'"
  have h: "dg_isHost g" using g by (simp add: fair_host_def)
  define pl where "pl = payloadOf buf"
  have pl: "list_all (\<lambda>b. b < 256) pl"
    using b by (auto simp: pl_def payloadOf_def list_all_iff dest!: in_set_takeD in_set_dropD)
  have cmd: "fair_host k" if "handleCmd pl g = Some k" for k
    using that fair_cmd [OF g] g by (auto simp: handleCmd_def Let_def split: if_splits)
  have out: "fair_host (handleDungeonBeacon pl g)" "fair_host (handleMsg pl g)" "fair_host (handlePrompt pl g)"
    using g by (simp_all add: handleDungeonBeacon_def handleMsg_def handlePrompt_def Let_def fair_dirty fair_log)
  have off: "handleJoinAck pl g = Some g" "handleState pl g = Some g"
    using h by (simp_all add: handleJoinAck_def handleState_def)
  show ?thesis
    using g' g fair_join [OF g pl] cmd out off unfolding packet_dispatch [OF False] pl_def [symmetric] Let_def
    by (auto split: option.splits PktType.splits)
qed

lemma fair_tick: "fair_host g \<Longrightarrow> fair_host (tickDungeon now g)"
proof -
  assume g: "fair_host g"
  have "dungeon_ok (tickDungeon now g)" using g by (intro ok_tick) (simp add: fair_host_def)
  then show ?thesis by (intro fair_same [OF g]) (simp_all add: tickDungeon_def sendBeacon_def)
qed

text \<open>A device that has just become the host, and what may happen to it until it leaves that role.\<close>

definition newHost :: "DungeonGame \<Rightarrow> bool" where
  "newHost g \<longleftrightarrow> (\<exists>n < 4294967296. g = becomeHost (newDungeonGame n))"

definition hostCall :: "DungeonCall \<Rightarrow> bool" where
  "hostCall c \<longleftrightarrow> callInRange c
     \<and> (case c of Command v a \<Rightarrow> map asciiLower (take 15 v) \<notin> {''host'', ''join''} | _ \<Rightarrow> True)"

lemma new_host_fair: "newHost g \<Longrightarrow> fair_host g"
proof -
  assume "newHost g"
  then obtain n where n: "n < 4294967296" "g = becomeHost (newDungeonGame n)" by (auto simp: newHost_def)
  have run: "dr_partySize (dg_run g) = 1" "dr_phase (dg_run g) = Lobby"
    "dr_party (dg_run g) = (replicate 5 zeroTrainer)[0 := zeroTrainer\<lparr>dt_nodeId := n, dt_activeSlot := 0, dt_slotHp := replicate 6 100, dt_slotFainted := replicate 6 False\<rparr>]"
    unfolding n(2) by (simp_all add: becomeHost_def Let_def sendBeacon_def newDungeonGame_def zeroRun_def)
  have "dungeon_ok g" unfolding n(2) using n(1) by (intro ok_host boot_ok) simp
  moreover have "dg_isHost g" unfolding n(2) by (simp add: becomeHost_def Let_def sendBeacon_def)
  moreover have "fair_run (dg_run g)"
    unfolding fair_run_def run by (auto simp: nth_list_update fair_trainer_def fresh_trainer_def zeroTrainer_def)
  ultimately show ?thesis using run by (simp add: fair_host_def)
qed

lemma fair_call: "fair_host g \<Longrightarrow> hostCall c \<Longrightarrow> fair_host (runDungeon c g)"
proof (cases c)
  case (Command v a)
  assume g: "fair_host g" and "hostCall c"
  then have "map asciiLower (take 15 v) \<notin> {''host'', ''join''}" "dg_isHost g"
    using Command by (simp_all add: hostCall_def fair_host_def)
  then show ?thesis using fair_cmd [OF g] fair_log [OF g] g unfolding Command
    by (auto simp: runDungeon_def handleLocalCommand_def Let_def split: option.split)
next
  case (Packet buf)
  then show "fair_host g \<Longrightarrow> hostCall c \<Longrightarrow> ?thesis"
    by (auto simp: runDungeon_def hostCall_def intro: fair_packet split: option.split)
next
  case (Tick now)
  then show "fair_host g \<Longrightarrow> hostCall c \<Longrightarrow> ?thesis" by (simp add: runDungeon_def fair_tick)
qed

interpretation fairHost: transition_system newHost runDungeon hostCall fair_host
  by unfold_locales (auto simp: new_host_fair fair_call)

subsection \<open>Attacks\<close>

lemma narrate_frame [simp]: "dg_run (narrateAttack m d w g) = dg_run g" "dg_testEnemy (narrateAttack m d w g) = dg_testEnemy g"
  by (simp_all add: narrateAttack_def Let_def)

lemma attack_member:
  assumes "dungeon_ok g" "dr_phase (dg_run g) = InCombat" "findTrainer (dg_run g) from = Some i" "attackRun i g = (g', died, wiped)"
  shows "hostCmdAttack from (Some mv) g = Some (narrateAttack mv died wiped g')"
  using member_ok [OF assms(1,3)] assms(2-4) by (simp add: hostCmdAttack_def trainer_ok_def)



subsection \<open>A fight ends\<close>

definition attackBy :: "string \<Rightarrow> nat list \<Rightarrow> DungeonGame \<Rightarrow> DungeonGame" where
  "attackBy mv ids g = fold (\<lambda>from g. case hostCmdAttack from (Some mv) g of Some g' \<Rightarrow> g' | None \<Rightarrow> g) ids g"

lemma attack_outside: "dr_phase (dg_run g) \<noteq> InCombat \<Longrightarrow> dg_run (attackBy mv ids g) = dg_run g"
proof (induction ids arbitrary: g)
  case (Cons a ids)
  then have "dg_run (attackBy mv ids (sendMsg ''[D] Not in combat.'' g)) = dg_run g" by simp
  then show ?case using Cons.prems by (simp add: attackBy_def hostCmdAttack_def)
qed (simp add: attackBy_def)

lemma hit_node: "dt_nodeId (fst (hitTrainer d t)) = dt_nodeId t"
  by (simp add: hitTrainer_def Let_def split: option.split)

lemma find_same_nodes:
  "dr_partySize r' = dr_partySize r \<Longrightarrow> (\<And>j. j < dr_partySize r \<Longrightarrow> dt_nodeId (dr_party r' ! j) = dt_nodeId (dr_party r ! j)) \<Longrightarrow>
   findTrainer r' = findTrainer r"
  by (rule ext) (auto simp: findTrainer_def intro!: find_cong)

lemma attacks_end:
  "dungeon_ok g \<Longrightarrow> dr_phase (dg_run g) = InCombat \<Longrightarrow> \<forall>from \<in> set ids. findTrainer (dg_run g) from \<noteq> None \<Longrightarrow>
   te_hp (dg_testEnemy g) \<le> 12 * n \<Longrightarrow> 0 < n \<Longrightarrow> n \<le> length ids \<Longrightarrow>
   dr_phase (dg_run (attackBy mv ids g)) \<in> {FloorComplete, RunOver}"
proof (induction ids arbitrary: g n)
  case (Cons k ids)
  obtain i where i: "findTrainer (dg_run g) k = Some i" using Cons.prems(3) by auto
  have lt: "i < dr_partySize (dg_run g)" by (rule member_less [OF i])
  have run: "run_ok (dg_run g)" using Cons.prems(1) by (simp add: dungeon_ok_def)
  obtain g' died wiped where r: "attackRun i g = (g', died, wiped)" by (cases "attackRun i g") auto
  note a = attack_run [OF r lt run]
  let ?g = "narrateAttack mv died wiped g'"
  have step: "attackBy mv (k # ids) g = attackBy mv ids ?g"
    using attack_member [OF Cons.prems(1,2) i r, of mv] by (simp add: attackBy_def)
  have ok: "dungeon_ok ?g" using ok_attackRun [OF Cons.prems(1), of i] r by (intro ok_narrate) simp
  show ?case
  proof (cases "died \<or> wiped")
    case True
    then have "dr_phase (dg_run ?g) \<in> {FloorComplete, RunOver}" using a(7) by auto
    then show ?thesis unfolding step using attack_outside [of ?g mv ids] by auto
  next
    case False
    then have ph: "dr_phase (dg_run ?g) = InCombat" and hp: "12 < te_hp (dg_testEnemy g)" using a(5,7) Cons.prems(2) by auto
    have "findTrainer (dg_run g') = findTrainer (dg_run g)"
      using a(1) lt run hit_node by (intro find_same_nodes a(2)) (auto simp: nth_list_update run_ok_def)
    then have "\<forall>from \<in> set ids. findTrainer (dg_run ?g) from \<noteq> None" using Cons.prems(3) by simp
    moreover have "te_hp (dg_testEnemy ?g) \<le> 12 * (n - 1)" "0 < n - 1" "n - 1 \<le> length ids"
      using a(4) hp Cons.prems(4-6) by (simp_all add: diff_mult_distrib2)
    ultimately show ?thesis unfolding step by (rule Cons.IH [OF ok ph])
  qed
qed simp

text \<open>
  C23 A fight ends: in every reachable state in combat, after any four attacks of members of the party - each answered by the
  enemy - the floor is complete or the run is over.
\<close>

theorem fights_end:
  assumes "bootedDungeon g0" "list_all callInRange calls"
  defines "g \<equiv> fold runDungeon calls g0"
  assumes "dr_phase (dg_run g) = InCombat" "\<forall>from \<in> set ids. findTrainer (dg_run g) from \<noteq> None" "4 \<le> length ids"
  shows "dr_phase (dg_run (attackBy mv ids g)) \<in> {FloorComplete, RunOver}"
proof -
  have ok: "dungeon_ok g" unfolding g_def by (rule dungeon.reach_inv [OF assms(1,2)])
  then have "te_hp (dg_testEnemy g) \<le> 12 * 4" by (simp add: dungeon_ok_def enemy_ok_def)
  then show ?thesis by (rule attacks_end [OF ok assms(4,5)]) (use assms(6) in simp_all)
qed

theorem fights_end_witness:
  "dr_phase (dg_run (attackBy ''Ember'' [77, 77, 77, 77] (fold runDungeon [Command ''host'' [], Command ''start'' []] (newDungeonGame 77)))) \<in> {FloorComplete, RunOver}"
proof -
  let ?h = "becomeHost (newDungeonGame 77)"
  have n: "(77 :: nat) < 4294967296" by simp
  have v: "map asciiLower (take 15 ''start'') = ''start''" "map asciiLower (take 15 ''host'') = ''host''" by code_simp+
  have calls: "list_all callInRange [Command ''host'' [], Command ''start'' []]" by simp
  have hr: "dg_isHost ?h" "dg_active ?h" "dr_partySize (dg_run ?h) = 1" "dt_nodeId (dr_party (dg_run ?h) ! 0) = 77"
    by (simp_all add: becomeHost_def Let_def sendBeacon_def newDungeonGame_def zeroRun_def)
  have g: "fold runDungeon [Command ''host'' [], Command ''start'' []] (newDungeonGame 77) = hostStartRun ?h"
    using v hr by (simp add: runDungeon_def handleLocalCommand_def Let_def localVerbs_def hostProcessCmd_def)
  have "dr_phase (dg_run (hostStartRun ?h)) = InCombat" "findTrainer (dg_run (hostStartRun ?h)) 77 = Some 0"
    using hr by (simp_all add: hostStartRun_def Let_def findTrainer_def)
  then show ?thesis using fights_end [OF booted_new [OF n] calls, of "[77, 77, 77, 77]" "''Ember''"] unfolding g by simp
qed

subsection \<open>Seats\<close>

text \<open>
  The host does not look for a node that has a seat already: every repeat of the same request takes another
  one, and after four requests of one guest the party is full.
\<close>

lemma join_takes_a_seat:
  assumes "dg_isHost g" "14 \<le> length pl" "be32At pl 0 \<noteq> dg_nodeId g" "dr_partySize (dg_run g) < 5"
  shows "dr_partySize (dg_run (handleJoin pl g)) = dr_partySize (dg_run g) + 1 \<and> dg_isHost (handleJoin pl g)
    \<and> dg_nodeId (handleJoin pl g) = dg_nodeId g"
  using assms by (simp add: handleJoin_def Let_def sendJoinAck_def)

lemma one_guest_fills_the_party:
  assumes "newHost h" "14 \<le> length pl" "be32At pl 0 \<noteq> dg_nodeId h"
  shows "dr_partySize (dg_run ((handleJoin pl ^^ 4) h)) = 5"
proof -
  have h: "dg_isHost h" "dr_partySize (dg_run h) = 1"
    using assms(1) by (auto simp: newHost_def becomeHost_def Let_def sendBeacon_def)
  have "k \<le> 4 \<Longrightarrow> dr_partySize (dg_run ((handleJoin pl ^^ k) h)) = k + 1 \<and> dg_isHost ((handleJoin pl ^^ k) h)
      \<and> dg_nodeId ((handleJoin pl ^^ k) h) = dg_nodeId h" for k
  proof (induction k)
    case (Suc k)
    then show ?case using join_takes_a_seat [of "(handleJoin pl ^^ k) h" pl] assms(2,3) by simp
  qed (use h in simp)
  from this [of 4] show ?thesis by simp
qed

text \<open>
  A device that is host again gives the next guests the faint marks left in the seats of the run before: with
  them a member that has just joined with 100 HP counts as fainted.
\<close>

lemma seat_keeps_faints:
  assumes "dg_isHost g" "14 \<le> length pl" "be32At pl 0 \<noteq> dg_nodeId g" "dr_partySize (dg_run g) < 5" "length (dr_party (dg_run g)) = 5"
  defines "t \<equiv> dr_party (dg_run (handleJoin pl g)) ! dr_partySize (dg_run g)"
  shows "dt_slotHp t = replicate 6 100 \<and> (isAlive t \<longleftrightarrow> isAlive (dr_party (dg_run g) ! dr_partySize (dg_run g)))"
  using assms by (simp add: handleJoin_def Let_def sendJoinAck_def isAlive_def)

lemma host_again_keeps_faints:
  "0 < j \<Longrightarrow> dr_party (dg_run (becomeHost g)) ! j = dr_party (dg_run g) ! j"
  by (simp add: becomeHost_def Let_def sendBeacon_def)

end
