(* ===== verification/DungeonBattle.thy ===== *)
theory DungeonBattle
  imports DungeonTypes
begin

text \<open>
  The battle formulas of the dungeon (\<^verbatim>\<open>dungeon/DungeonBattle.h\<close>, \<^verbatim>\<open>DungeonBattle.cpp\<close>): type chart, base
  stats and spells row by row, building an enemy, attacks of both sides, the choice of the enemy and the
  status at the end of a turn.  The names shown (\<^verbatim>\<open>POKEDEX_NAMES\<close>, the class names, the unused move names of a player) are left out.  Types are
  the bytes the source casts.  A result the source writes through a pointer is returned beside the value.
\<close>

subsection \<open>Types\<close>

abbreviation (input) T_Normal :: nat where "T_Normal \<equiv> 0"
abbreviation (input) T_Fire :: nat where "T_Fire \<equiv> 1"
abbreviation (input) T_Water :: nat where "T_Water \<equiv> 2"
abbreviation (input) T_Electric :: nat where "T_Electric \<equiv> 3"
abbreviation (input) T_Grass :: nat where "T_Grass \<equiv> 4"
abbreviation (input) T_Ice :: nat where "T_Ice \<equiv> 5"
abbreviation (input) T_Fighting :: nat where "T_Fighting \<equiv> 6"
abbreviation (input) T_Poison :: nat where "T_Poison \<equiv> 7"
abbreviation (input) T_Ground :: nat where "T_Ground \<equiv> 8"
abbreviation (input) T_Flying :: nat where "T_Flying \<equiv> 9"
abbreviation (input) T_Psychic :: nat where "T_Psychic \<equiv> 10"
abbreviation (input) T_Rock :: nat where "T_Rock \<equiv> 12"
abbreviation (input) T_Ghost :: nat where "T_Ghost \<equiv> 13"

definition DUNGEON_TYPE_CHART :: "nat list list" where
  "DUNGEON_TYPE_CHART = [
  [100, 100, 100, 100, 100, 100, 100, 100, 100, 100, 100, 100, 50, 0, 100],
  [100, 50, 50, 100, 200, 200, 100, 100, 100, 100, 100, 200, 50, 100, 50],
  [100, 200, 50, 100, 50, 100, 100, 100, 200, 100, 100, 100, 200, 100, 50],
  [100, 100, 200, 50, 50, 100, 100, 100, 0, 200, 100, 100, 100, 100, 50],
  [100, 50, 200, 100, 50, 100, 100, 50, 200, 50, 100, 50, 200, 100, 50],
  [100, 50, 50, 100, 200, 50, 100, 100, 200, 200, 100, 100, 100, 100, 200],
  [200, 100, 100, 100, 100, 200, 100, 50, 100, 100, 50, 50, 200, 0, 100],
  [100, 100, 100, 100, 200, 100, 100, 50, 50, 100, 100, 200, 50, 50, 100],
  [100, 200, 100, 200, 50, 100, 100, 200, 100, 0, 100, 50, 200, 100, 100],
  [100, 100, 100, 50, 200, 100, 200, 100, 100, 100, 100, 200, 50, 100, 100],
  [100, 100, 100, 100, 100, 100, 200, 200, 100, 100, 50, 100, 100, 0, 100],
  [100, 50, 100, 100, 200, 100, 50, 200, 100, 50, 200, 100, 100, 100, 100],
  [100, 200, 100, 100, 100, 200, 50, 100, 50, 200, 100, 200, 100, 100, 100],
  [0, 100, 100, 100, 100, 100, 100, 100, 100, 100, 0, 100, 100, 200, 100],
  [100, 100, 100, 100, 100, 100, 100, 100, 100, 100, 100, 100, 100, 100, 200]]"

definition typeEffectiveness :: "nat \<Rightarrow> nat \<Rightarrow> nat" where
  "typeEffectiveness a d = (if 15 \<le> a \<or> 15 \<le> d then 100 else DUNGEON_TYPE_CHART ! a ! d)"

definition typeEffectivenessDual :: "nat \<Rightarrow> nat \<Rightarrow> nat \<Rightarrow> nat" where
  "typeEffectivenessDual a t1 t2 = u16 (typeEffectiveness a t1 * typeEffectiveness a t2 div 100)"

text \<open>The keywords of spell names, in order, and the type when none occurs.\<close>

definition spellKeywords :: "(string \<times> nat) list" where
  "spellKeywords = [
  (''fire'', T_Fire), (''flame'', T_Fire), (''burn'', T_Fire), (''blaze'', T_Fire),
  (''lightning'', T_Electric), (''thunder'', T_Electric), (''shock'', T_Electric), (''ice'', T_Ice),
  (''frost'', T_Ice), (''cold'', T_Ice), (''snow'', T_Ice), (''poison'', T_Poison),
  (''acid'', T_Poison), (''venom'', T_Poison), (''necrotic'', T_Ghost), (''shadow'', T_Ghost),
  (''radiant'', T_Normal), (''water'', T_Water), (''flood'', T_Water), (''earth'', T_Ground),
  (''stone'', T_Rock), (''rock'', T_Rock), (''wind'', T_Flying), (''air'', T_Flying),
  (''gust'', T_Flying), (''psychic'', T_Psychic), (''mind'', T_Psychic), (''heal'', T_Normal),
  (''cure'', T_Normal)]"

definition spellNameToType :: "string option \<Rightarrow> nat" where
  "spellNameToType name =
     (case name of
        None \<Rightarrow> T_Psychic
      | Some n \<Rightarrow>
         (let lower = map asciiLower (take 31 n) in
          case find (\<lambda>(k, t). contains k lower) spellKeywords of Some (k, t) \<Rightarrow> t | None \<Rightarrow> T_Psychic))"

subsection \<open>Species\<close>

record Gen1Stats =
  g1_hp :: nat
  g1_atk :: nat
  g1_def :: nat
  g1_spd :: nat
  g1_spc :: nat
  g1_type1 :: nat
  g1_type2 :: nat

definition g1 :: "nat \<Rightarrow> nat \<Rightarrow> nat \<Rightarrow> nat \<Rightarrow> nat \<Rightarrow> nat \<Rightarrow> nat \<Rightarrow> Gen1Stats" where
  "g1 h a d s c t u = \<lparr>g1_hp = h, g1_atk = a, g1_def = d, g1_spd = s, g1_spc = c, g1_type1 = t, g1_type2 = u\<rparr>"

definition DUNGEON_BASE_STATS :: "Gen1Stats list" where
  "DUNGEON_BASE_STATS = [
  g1 45 45 45 45 45 0 0, g1 45 49 49 45 65 4 7, g1 60 62 63 60 80 4 7, g1 80 82 83 80 100 4 7,
  g1 39 52 43 65 50 1 1, g1 58 64 58 80 65 1 1, g1 78 84 78 100 85 1 9, g1 44 48 65 43 50 2 2,
  g1 59 63 80 58 65 2 2, g1 79 83 100 78 85 2 2, g1 45 30 35 45 20 11 11, g1 50 20 55 30 25 11 11,
  g1 60 45 50 70 90 11 9, g1 40 35 30 50 20 11 7, g1 45 25 50 35 25 11 7, g1 65 90 40 75 45 11 7,
  g1 40 45 40 56 35 0 9, g1 63 60 55 71 50 0 9, g1 83 80 75 101 70 0 9, g1 30 56 35 72 25 0 0,
  g1 55 81 60 97 50 0 0, g1 40 60 30 70 31 0 9, g1 65 90 65 100 61 0 9, g1 35 60 44 55 40 7 7,
  g1 60 85 69 80 65 7 7, g1 35 55 30 90 50 3 3, g1 60 90 55 110 90 3 3, g1 50 75 85 40 30 8 8,
  g1 75 100 110 65 55 8 8, g1 55 47 52 41 40 7 7, g1 70 62 67 56 55 7 7, g1 90 92 87 76 75 7 8,
  g1 46 57 40 50 40 7 7, g1 61 72 57 65 55 7 7, g1 81 102 77 85 75 7 8, g1 70 45 48 35 60 0 0,
  g1 95 70 73 60 85 0 0, g1 38 41 40 65 65 1 1, g1 73 76 75 100 100 1 1, g1 115 45 20 20 25 0 0,
  g1 140 70 45 45 50 0 0, g1 40 45 35 55 40 7 9, g1 75 80 70 90 75 7 9, g1 45 50 55 30 75 4 7,
  g1 60 65 70 40 85 4 7, g1 75 80 85 50 100 4 7, g1 35 70 55 25 55 11 4, g1 60 95 80 30 80 11 4,
  g1 60 55 50 45 40 11 7, g1 70 65 60 90 90 11 7, g1 10 55 25 95 45 8 8, g1 35 80 50 120 70 8 8,
  g1 40 45 35 90 40 0 0, g1 65 70 60 115 65 0 0, g1 50 52 48 55 50 2 2, g1 80 82 78 85 80 2 2,
  g1 40 80 35 70 35 6 6, g1 65 105 60 95 60 6 6, g1 55 70 45 60 50 1 1, g1 90 110 80 95 80 1 1,
  g1 40 50 40 90 40 2 2, g1 65 65 65 90 50 2 2, g1 90 95 95 70 70 2 6, g1 25 20 15 90 105 10 10,
  g1 40 35 30 105 120 10 10, g1 55 50 45 120 135 10 10, g1 70 80 50 35 35 6 6, g1 80 100 70 45 50 6 6,
  g1 90 130 80 55 65 6 6, g1 50 75 35 40 70 4 7, g1 65 90 50 55 85 4 7, g1 80 105 65 70 100 4 7,
  g1 40 40 35 70 100 2 7, g1 80 70 65 100 120 2 7, g1 40 80 100 20 30 12 8, g1 55 95 115 35 45 12 8,
  g1 80 120 130 45 55 12 8, g1 50 85 55 90 65 1 1, g1 65 100 70 105 80 1 1, g1 90 65 65 15 40 2 10,
  g1 95 75 110 30 80 2 10, g1 25 35 70 45 95 3 3, g1 50 60 95 70 120 3 3, g1 52 65 55 60 58 0 9,
  g1 35 85 45 75 35 0 9, g1 60 110 70 100 60 0 9, g1 65 45 55 45 70 2 2, g1 90 70 80 70 95 2 5,
  g1 80 80 50 25 40 7 7, g1 105 105 75 50 65 7 7, g1 30 65 100 40 45 2 2, g1 50 95 180 70 85 2 5,
  g1 30 35 30 80 100 13 7, g1 45 50 45 95 115 13 7, g1 60 65 60 110 130 13 7, g1 35 45 160 70 30 12 8,
  g1 60 48 45 42 90 10 10, g1 85 73 70 67 115 10 10, g1 30 105 90 50 25 2 2, g1 55 130 115 75 50 2 2,
  g1 40 30 50 100 55 3 3, g1 60 50 70 140 80 3 3, g1 60 40 80 40 60 4 10, g1 95 95 85 55 125 4 10,
  g1 50 50 95 35 40 8 8, g1 60 80 110 45 50 8 8, g1 50 120 53 87 35 6 6, g1 50 105 79 76 35 6 6,
  g1 90 55 75 30 60 0 0, g1 40 65 95 35 60 7 7, g1 65 90 120 60 85 7 7, g1 80 85 95 25 30 8 12,
  g1 105 130 120 40 45 8 12, g1 250 5 5 50 105 0 0, g1 65 55 115 60 100 4 4, g1 105 95 80 90 40 0 0,
  g1 30 40 70 60 70 2 2, g1 55 65 95 85 95 2 2, g1 45 67 60 63 50 2 2, g1 80 92 65 68 80 2 2,
  g1 30 45 55 85 70 2 2, g1 60 75 85 115 100 2 10, g1 40 45 65 90 100 10 10, g1 70 110 80 105 55 11 9,
  g1 65 50 35 95 95 5 10, g1 65 83 57 105 85 3 3, g1 65 95 57 93 85 1 1, g1 65 125 100 85 55 11 11,
  g1 75 100 95 110 70 0 0, g1 20 10 55 80 20 2 2, g1 95 125 79 81 100 2 9, g1 130 85 80 60 95 2 5,
  g1 48 48 48 48 48 0 0, g1 55 55 50 55 65 0 0, g1 130 65 60 65 110 2 2, g1 65 65 60 130 110 3 3,
  g1 65 130 60 65 110 1 1, g1 65 60 70 40 75 0 0, g1 35 40 100 35 90 12 2, g1 70 60 125 55 115 12 2,
  g1 30 80 90 55 45 12 2, g1 60 115 105 80 70 12 2, g1 80 105 65 130 60 12 9, g1 160 110 65 30 65 0 0,
  g1 90 85 100 85 125 5 9, g1 90 90 85 100 125 3 9, g1 90 100 90 90 125 1 9, g1 41 64 45 50 50 14 14,
  g1 61 84 65 70 70 14 14, g1 91 134 95 80 100 14 9, g1 106 110 90 130 154 10 10, g1 100 100 100 100 100 10 10]"

definition getSpeciesStats :: "nat \<Rightarrow> Gen1Stats" where
  "getSpeciesStats dexNum = (if dexNum = 0 \<or> 151 < dexNum then DUNGEON_BASE_STATS ! 0 else DUNGEON_BASE_STATS ! dexNum)"

subsection \<open>Classes and spells\<close>

fun classNum :: "DnDClass \<Rightarrow> nat" where
  "classNum Fighter = 0"
| "classNum Barbarian = 1"
| "classNum Ranger = 2"
| "classNum Rogue = 3"
| "classNum Wizard = 4"
| "classNum Sorcerer = 5"
| "classNum Warlock = 6"
| "classNum Cleric = 7"
| "classNum Paladin = 8"
| "classNum Druid = 9"
| "classNum Bard = 10"
| "classNum Monk = 11"

definition allClasses :: "DnDClass list" where
  "allClasses = [Fighter, Barbarian, Ranger, Rogue, Wizard, Sorcerer, Warlock, Cleric, Paladin, Druid, Bard, Monk]"

record DnDSpell =
  sp_name :: string
  sp_slotLevel :: nat
  sp_pokeType :: nat
  sp_basePower :: nat
  sp_hpEffect :: int
  sp_effectCode :: nat
  sp_effectChance :: nat
  sp_isAoE :: bool

definition sp :: "string \<Rightarrow> nat \<Rightarrow> nat \<Rightarrow> nat \<Rightarrow> int \<Rightarrow> nat \<Rightarrow> nat \<Rightarrow> bool \<Rightarrow> DnDSpell" where
  "sp n l t p h e c a = \<lparr>sp_name = n, sp_slotLevel = l, sp_pokeType = t, sp_basePower = p, sp_hpEffect = h,
     sp_effectCode = e, sp_effectChance = c, sp_isAoE = a\<rparr>"

definition DND_CLASS_SPELLS :: "DnDSpell list list" where
  "DND_CLASS_SPELLS = [
  [
    sp ''Action Surge'' 0 6 0 0 10 100 False,
    sp ''Second Wind'' 0 0 0 20 0 0 False,
    sp ''Trip Attack'' 0 6 50 0 13 50 False,
    sp ''Disarming Strike'' 0 6 55 0 12 50 False,
    sp ''Sweeping Attack'' 0 6 65 0 0 0 True,
    sp ''Push Attack'' 0 6 45 0 7 30 False],
  [
    sp ''Rage'' 0 6 0 0 10 100 False,
    sp ''Reckless Attack'' 0 6 80 0 0 0 False,
    sp ''Frenzy Throw'' 0 12 60 0 7 20 False,
    sp ''Intimidate'' 0 0 0 0 12 100 False,
    sp ''Bear Totem'' 0 0 0 0 11 100 False,
    sp ''Brutal Critical'' 0 6 95 0 0 0 False],
  [
    sp (''Hunter'' @ [CHR 0x27] @ ''s Mark'') 1 0 0 0 10 100 False,
    sp ''Ensnaring Strike'' 1 4 50 0 14 50 False,
    sp ''Hail of Arrows'' 1 0 55 0 0 0 True,
    sp ''Lightning Arrow'' 3 3 80 0 2 20 False,
    sp ''Entangle'' 1 4 0 0 14 70 True,
    sp ''Volley'' 5 0 75 0 0 0 True],
  [
    sp ''Sneak Attack'' 0 0 75 0 0 0 False,
    sp ''Cunning Action'' 0 0 0 0 11 100 False,
    sp ''Psychic Blade'' 0 10 60 0 6 30 False,
    sp ''Poison Dagger'' 0 7 45 0 4 40 False,
    sp ''Uncanny Dodge'' 0 0 0 0 11 100 False,
    sp ''Assassinate'' 0 0 90 0 0 0 False],
  [
    sp ''Fireball'' 3 1 80 0 1 10 True,
    sp ''Magic Missile'' 1 10 45 0 0 0 False,
    sp ''Thunderwave'' 1 3 50 0 2 60 False,
    sp ''Ray of Frost'' 0 2 40 0 2 10 False,
    sp ''Cone of Cold'' 5 5 85 0 5 20 True,
    sp ''Disintegrate'' 6 10 120 0 0 0 False],
  [
    sp ''Burning Hands'' 1 1 50 0 1 10 True,
    sp ''Chromatic Orb'' 1 0 60 0 0 0 False,
    sp ''Lightning Bolt'' 3 3 80 0 0 0 False,
    sp ''Wild Surge'' 0 0 40 0 6 50 False,
    sp ''Chaos Bolt'' 1 0 65 0 0 0 False,
    sp ''Twinned Spell'' 0 0 70 0 0 0 False],
  [
    sp ''Eldritch Blast'' 0 10 60 0 0 0 False,
    sp ''Hex'' 1 7 30 0 4 100 False,
    sp ''Hunger of Hadar'' 3 13 70 0 3 20 True,
    sp ''Blight'' 4 7 90 0 4 50 False,
    sp ''Banishment'' 4 10 0 0 14 100 False,
    sp (''Dark One'' @ [CHR 0x27] @ ''s Blessing'') 0 13 0 15 0 0 False],
  [
    sp ''Sacred Flame'' 0 10 40 0 0 0 False,
    sp ''Guiding Bolt'' 1 10 70 0 10 100 False,
    sp ''Cure Wounds'' 1 0 0 25 0 0 False,
    sp ''Spiritual Weapon'' 2 6 55 0 0 0 False,
    sp ''Inflict Wounds'' 1 13 75 0 0 0 False,
    sp ''Harm'' 6 13 100 0 0 0 False],
  [
    sp ''Divine Smite'' 1 6 65 0 0 0 False,
    sp ''Lay on Hands'' 0 0 0 30 0 0 False,
    sp ''Bless'' 1 0 0 0 10 100 False,
    sp ''Thunderous Smite'' 1 3 70 0 7 20 False,
    sp ''Searing Smite'' 1 1 60 0 1 100 False,
    sp ''Aura of Courage'' 3 0 0 0 11 100 False],
  [
    sp ''Shillelagh'' 0 4 50 0 10 100 False,
    sp ''Healing Word'' 1 4 0 20 0 0 False,
    sp ''Entangle'' 1 4 0 0 14 80 True,
    sp ''Call Lightning'' 3 3 80 0 2 10 False,
    sp ''Erupting Earth'' 3 8 75 0 13 50 True,
    sp ''Sunbeam'' 6 1 90 0 1 30 False],
  [
    sp ''Vicious Mockery'' 0 10 30 0 6 100 False,
    sp ''Cutting Words'' 0 0 0 0 12 100 False,
    sp ''Hypnotic Pattern'' 3 10 70 0 3 70 True,
    sp ''Shatter'' 2 0 60 0 0 0 True,
    sp ''Power Word Pain'' 7 10 100 0 0 0 False,
    sp ''Song of Rest'' 0 0 0 15 0 0 False],
  [
    sp ''Flurry of Blows'' 0 6 30 0 0 0 False,
    sp ''Stunning Strike'' 0 6 50 0 14 40 False,
    sp ''Ki-Empowered'' 0 6 55 0 0 0 False,
    sp ''Shadow Step'' 0 13 45 0 10 100 False,
    sp ''Empty Body'' 0 10 0 0 11 100 False,
    sp ''Quivering Palm'' 9 6 90 0 14 100 False]]"

definition getClassSpells :: "DnDClass \<Rightarrow> DnDSpell list" where
  "getClassSpells c = DND_CLASS_SPELLS ! classNum c"

definition SPELL_SLOTS_BY_LEVEL :: "nat list list" where
  "SPELL_SLOTS_BY_LEVEL = [
  [2, 0, 0, 0, 0, 0, 0, 0, 0],
  [3, 0, 0, 0, 0, 0, 0, 0, 0],
  [4, 2, 0, 0, 0, 0, 0, 0, 0],
  [4, 3, 0, 0, 0, 0, 0, 0, 0],
  [4, 3, 2, 0, 0, 0, 0, 0, 0],
  [4, 3, 3, 0, 0, 0, 0, 0, 0],
  [4, 3, 3, 1, 0, 0, 0, 0, 0],
  [4, 3, 3, 2, 0, 0, 0, 0, 0],
  [4, 3, 3, 3, 1, 0, 0, 0, 0],
  [4, 3, 3, 3, 2, 0, 0, 0, 0],
  [4, 3, 3, 3, 2, 1, 0, 0, 0],
  [4, 3, 3, 3, 2, 1, 0, 0, 0],
  [4, 3, 3, 3, 2, 1, 1, 0, 0],
  [4, 3, 3, 3, 2, 1, 1, 0, 0],
  [4, 3, 3, 3, 2, 1, 1, 1, 0],
  [4, 3, 3, 3, 2, 1, 1, 1, 0],
  [4, 3, 3, 3, 2, 1, 1, 1, 1],
  [4, 3, 3, 3, 3, 1, 1, 1, 1],
  [4, 3, 3, 3, 3, 2, 1, 1, 1],
  [4, 3, 3, 3, 3, 2, 2, 1, 1]]"

subsection \<open>Damage\<close>

definition gen1Damage :: "nat \<Rightarrow> nat \<Rightarrow> nat \<Rightarrow> nat \<Rightarrow> nat \<Rightarrow> bool \<Rightarrow> nat" where
  "gen1Damage lv attack pw defense typeEff stab =
     (if pw = 0 then 0
      else
       (let lvlBonus = lv * 2 div 5 + 2;
            raw = u32 (u32 (u32 (lvlBonus * attack) * pw) div (if 0 < defense then defense else 1) div 50 + 2);
            raw = (if stab then u32 (raw * 150) div 100 else raw);
            final = u32 (raw * typeEff) div 100
        in if final > 65535 then 65535 else final))"

text \<open>The cap of the source on a combined effectiveness.\<close>

definition effCapped :: "nat \<Rightarrow> nat" where
  "effCapped typeEff = (if typeEff > 200 then 200 else u8 typeEff)"

subsection \<open>Actors\<close>

record EnemyActor =
  ea_dexNum :: nat
  ea_class :: DnDClass
  ea_classLevel :: nat
  ea_hp :: nat
  ea_maxHp :: nat
  ea_atk :: nat
  ea_def :: nat
  ea_spd :: nat
  ea_spc :: nat
  ea_type1 :: nat
  ea_type2 :: nat
  ea_spellSlots :: "nat list"
  ea_status :: "32 word"

record PlayerActor =
  pa_dexNum :: nat
  pa_hp :: nat
  pa_maxHp :: nat
  pa_atk :: nat
  pa_def :: nat
  pa_spd :: nat
  pa_spc :: nat
  pa_level :: nat
  pa_type1 :: nat
  pa_type2 :: nat
  pa_status :: "32 word"

text \<open>Status flags.\<close>

abbreviation (input) SF_Poison :: "32 word" where "SF_Poison \<equiv> 1"
abbreviation (input) SF_BadPoison :: "32 word" where "SF_BadPoison \<equiv> 2"
abbreviation (input) SF_Burn :: "32 word" where "SF_Burn \<equiv> 4"
abbreviation (input) SF_Paralysis :: "32 word" where "SF_Paralysis \<equiv> 8"
abbreviation (input) SF_Freeze :: "32 word" where "SF_Freeze \<equiv> 16"
abbreviation (input) SF_Sleep :: "32 word" where "SF_Sleep \<equiv> 32"
abbreviation (input) SF_Confusion :: "32 word" where "SF_Confusion \<equiv> 64"
abbreviation (input) SF_Stunned :: "32 word" where "SF_Stunned \<equiv> 1024"

definition abilityMod :: "nat \<Rightarrow> int" where
  "abilityMod score = int (score div 2) - 5"

definition lcg :: "32 word \<Rightarrow> 32 word \<times> nat" where
  "lcg st = (let s = st * 1664525 + 1013904223 in (s, unat (drop_bit 16 s)))"

subsection \<open>Enemies\<close>

definition classSlots :: "DnDClass \<Rightarrow> nat list \<Rightarrow> nat list" where
  "classSlots cls slots =
     (if cls = Fighter \<or> cls = Barbarian then map (\<lambda>_. 0) slots
      else if cls = Ranger \<or> cls = Rogue \<or> cls = Monk then map (\<lambda>n. n div 2) slots
      else slots)"

definition buildWildEnemy :: "nat \<Rightarrow> nat \<Rightarrow> DnDClass \<Rightarrow> 32 word \<Rightarrow> EnemyActor" where
  "buildWildEnemy depth dexNum cls seed =
     (let dex = (if dexNum = 0 \<or> 151 < dexNum then 4 else dexNum);
          classLevel = (if depth > 15 then 15 else if depth > 0 then depth else 1);
          base = getSpeciesStats dex;
          hpBonus = u16 ((classLevel - 1) * 5 + depth * 3);
          hp = u16 (g1_hp base + hpBonus);
          lvIdx = (if classLevel > 0 then classLevel - 1 else 0);
          lvIdx = (if lvIdx \<ge> 20 then 19 else lvIdx)
      in \<lparr>ea_dexNum = dex, ea_class = cls, ea_classLevel = classLevel, ea_hp = hp, ea_maxHp = hp,
          ea_atk = u16 (g1_atk base + classLevel * 2), ea_def = u16 (g1_def base + classLevel),
          ea_spd = g1_spd base, ea_spc = u16 (g1_spc base + classLevel),
          ea_type1 = g1_type1 base, ea_type2 = g1_type2 base,
          ea_spellSlots = classSlots cls (SPELL_SLOTS_BY_LEVEL ! lvIdx), ea_status = 0\<rparr>)"

abbreviation (input) MAX_ENEMIES :: nat where "MAX_ENEMIES \<equiv> 6"

definition trainerMinDex :: "nat \<Rightarrow> nat" where
  "trainerMinDex depth = (let minDex = u8 (1 + (depth div 3) * 20) in if minDex > 130 then 130 else minDex)"

fun npcTeam :: "nat \<Rightarrow> nat \<Rightarrow> nat \<Rightarrow> 32 word \<Rightarrow> EnemyActor list" where
  "npcTeam depth minDex 0 rng = []"
| "npcTeam depth minDex (Suc n) rng =
     (let (rng, a) = lcg rng;
          dex = u8 (minDex + a mod 20 + 1);
          dex = (if dex > 151 then 151 else dex);
          (rng, b) = lcg rng
      in buildWildEnemy depth dex (allClasses ! (b mod 12)) rng # npcTeam depth minDex n rng)"

definition buildNpcTrainer :: "nat \<Rightarrow> nat \<Rightarrow> 32 word \<Rightarrow> EnemyActor list" where
  "buildNpcTrainer depth partySize seed =
     npcTeam depth (trainerMinDex depth) (if partySize > MAX_ENEMIES then MAX_ENEMIES else partySize) seed"

subsection \<open>The trainer's ability scores\<close>

text \<open>Strength and constitution are the two scores used.\<close>

definition applyTrainerBonuses :: "nat \<Rightarrow> nat \<Rightarrow> PlayerActor \<Rightarrow> PlayerActor" where
  "applyTrainerBonuses str con actor =
     (let strMod = abilityMod str; conMod = abilityMod con;
          actor = (if strMod \<noteq> 0 then actor\<lparr>pa_atk := u16 (nat (int (pa_atk actor) * (100 + strMod) div 100))\<rparr> else actor)
      in if conMod \<noteq> 0 then
           (let actor = actor\<lparr>pa_maxHp := u16 (nat (int (pa_maxHp actor) * (100 + conMod) div 100))\<rparr>
            in if pa_hp actor > pa_maxHp actor then actor\<lparr>pa_hp := pa_maxHp actor\<rparr> else actor)
         else actor)"

subsection \<open>The player's attack\<close>

definition moveKeywords :: "(string list \<times> nat) list" where
  "moveKeywords = [
  ([''fire'', ''ember'', ''flame''], T_Fire),
  ([''water'', ''surf'', ''bubble''], T_Water),
  ([''thunder'', ''bolt'', ''spark''], T_Electric),
  ([''leaf'', ''vine'', ''grass''], T_Grass),
  ([''psychic'', ''psych''], T_Psychic),
  ([''rock'', ''stone'', ''slide''], T_Rock),
  ([''ice'', ''blizzard'', ''frost''], T_Ice),
  ([''poison'', ''acid'', ''sludge''], T_Poison),
  ([''shadow'', ''ghost'', ''lick''], T_Ghost),
  ([''kick'', ''punch'', ''karate''], T_Fighting),
  ([''wing'', ''gust'', ''fly''], T_Flying)]"

definition moveNameToType :: "string \<Rightarrow> nat" where
  "moveNameToType moveName =
     (let low = map asciiLower (take 15 moveName) in
      case find (\<lambda>(ks, t). list_ex (\<lambda>k. contains k low) ks) moveKeywords of Some (ks, t) \<Rightarrow> t | None \<Rightarrow> T_Normal)"

definition playerAttack :: "PlayerActor \<Rightarrow> EnemyActor \<Rightarrow> string option \<Rightarrow> EnemyActor \<times> nat" where
  "playerAttack attacker target moveName =
     (let power = 40;
          moveType = (case moveName of Some n \<Rightarrow> if n \<noteq> [] then moveNameToType n else T_Normal | None \<Rightarrow> T_Normal);
          stab = (moveType = pa_type1 attacker \<or> moveType = pa_type2 attacker);
          eff = effCapped (typeEffectivenessDual moveType (ea_type1 target) (ea_type2 target));
          dmg = gen1Damage (pa_level attacker) (pa_atk attacker) power (ea_def target) eff stab
      in (target\<lparr>ea_hp := (if dmg \<ge> ea_hp target then 0 else ea_hp target - dmg)\<rparr>, dmg))"

subsection \<open>The enemy's choice\<close>

definition slotAvailable :: "EnemyActor \<Rightarrow> DnDSpell \<Rightarrow> bool" where
  "slotAvailable e s \<longleftrightarrow> sp_slotLevel s = 0 \<or> sp_slotLevel s \<le> 9 \<and> 0 < ea_spellSlots e ! (sp_slotLevel s - 1)"

text \<open>The available spell with the highest power, the first of equals; index 255 when there is none.\<close>

definition bestSpell :: "EnemyActor \<Rightarrow> DnDSpell list \<Rightarrow> nat" where
  "bestSpell e spells =
     fst (foldl (\<lambda>(idx, power) i.
        if sp_basePower (spells ! i) > power \<and> slotAvailable e (spells ! i) then (i, sp_basePower (spells ! i)) else (idx, power))
       (255, 0) [0..<6])"

text \<open>The last resort: available spells in order, each with the chance of 3 in 10.\<close>

fun utilitySpell :: "EnemyActor \<Rightarrow> DnDSpell list \<Rightarrow> nat list \<Rightarrow> 32 word \<Rightarrow> nat \<times> 32 word" where
  "utilitySpell e spells [] rng = (255, rng)"
| "utilitySpell e spells (i # is) rng =
     (if slotAvailable e (spells ! i) then
        (let (rng, a) = lcg rng in if a mod 10 < 3 then (i, rng) else utilitySpell e spells is rng)
      else utilitySpell e spells is rng)"

definition pickEnemyAction :: "EnemyActor \<Rightarrow> 32 word \<Rightarrow> nat \<times> 32 word" where
  "pickEnemyAction e rng =
     (let spells = getClassSpells (ea_class e);
          heal = (if ea_hp e < ea_maxHp e * 3 div 10
                  then find (\<lambda>i. 0 < sp_hpEffect (spells ! i) \<and> slotAvailable e (spells ! i)) [0..<6] else None)
      in case heal of
           Some i \<Rightarrow> (i, rng)
         | None \<Rightarrow>
            (let best = bestSpell e spells in
             if best \<noteq> 255 then (best, rng) else utilitySpell e spells [0..<6] rng))"

subsection \<open>The enemy's attack\<close>

definition effectFlag :: "nat \<Rightarrow> 32 word" where
  "effectFlag code =
     (if code = 1 then SF_Burn else if code = 2 then SF_Paralysis else if code = 3 then SF_Sleep
      else if code = 4 then SF_Poison else if code = 5 then SF_Freeze else if code = 6 then SF_Confusion
      else if code = 14 then SF_Stunned else 0)"

definition useSlot :: "DnDSpell \<Rightarrow> EnemyActor \<Rightarrow> EnemyActor" where
  "useSlot s e =
     (if 0 < sp_slotLevel s \<and> sp_slotLevel s \<le> 9 then
       (let si = sp_slotLevel s - 1 in
        if 0 < ea_spellSlots e ! si then e\<lparr>ea_spellSlots := (ea_spellSlots e)[si := ea_spellSlots e ! si - 1]\<rparr> else e)
      else e)"

definition castSpell :: "DnDSpell \<Rightarrow> EnemyActor \<Rightarrow> PlayerActor \<Rightarrow> EnemyActor \<times> nat" where
  "castSpell s e target =
     (if 0 < sp_basePower s then
       (let stab = (sp_pokeType s = ea_type1 e \<or> sp_pokeType s = ea_type2 e);
            eff = effCapped (typeEffectivenessDual (sp_pokeType s) (pa_type1 target) (pa_type2 target));
            dmg = gen1Damage (u8 (ea_classLevel e + 3)) (ea_atk e) (sp_basePower s) (pa_def target) eff stab
        in (useSlot s e, dmg))
      else if 0 < sp_hpEffect s then
       (let newHp = u16 (ea_hp e + nat (sp_hpEffect s))
        in (e\<lparr>ea_hp := (if newHp > ea_maxHp e then ea_maxHp e else newHp)\<rparr>, 0))
      else (e, 0))"

definition spellEffect :: "DnDSpell \<Rightarrow> nat \<Rightarrow> PlayerActor \<Rightarrow> 32 word \<Rightarrow> PlayerActor \<times> 32 word" where
  "spellEffect s dmg target rng =
     (if 0 < dmg \<and> 0 < sp_effectCode s \<and> 0 < sp_effectChance s then
       (let (rng, a) = lcg rng in
        if a mod 100 < sp_effectChance s then (target\<lparr>pa_status := pa_status target OR effectFlag (sp_effectCode s)\<rparr>, rng)
        else (target, rng))
      else (target, rng))"

definition physicalDamage :: "EnemyActor \<Rightarrow> PlayerActor \<Rightarrow> nat" where
  "physicalDamage e target =
     gen1Damage (u8 (ea_classLevel e + 3)) (ea_atk e) 40 (pa_def target)
       (effCapped (typeEffectivenessDual (ea_type1 e) (pa_type1 target) (pa_type2 target))) True"

definition enemyMove :: "EnemyActor \<Rightarrow> PlayerActor \<Rightarrow> 32 word \<Rightarrow> nat \<times> EnemyActor \<times> PlayerActor \<times> 32 word" where
  "enemyMove e target rng =
     (let (idx, rng) = pickEnemyAction e rng;
          (e, target, rng, dmg) =
            (if idx = 255 then (e, target, rng, physicalDamage e target)
             else
              (let s = getClassSpells (ea_class e) ! idx;
                   (e, dmg) = castSpell s e target;
                   (target, rng) = spellEffect s dmg target rng
               in (e, target, rng, dmg)))
      in (dmg, e, target\<lparr>pa_hp := (if dmg \<ge> pa_hp target then 0 else pa_hp target - dmg)\<rparr>, rng))"

definition enemyAttack :: "EnemyActor \<Rightarrow> PlayerActor \<Rightarrow> 32 word \<Rightarrow> nat \<times> EnemyActor \<times> PlayerActor \<times> 32 word" where
  "enemyAttack e target rng =
     (let paralysed = (ea_status e AND SF_Paralysis \<noteq> 0);
          (rng, a) = (if paralysed then lcg rng else (rng, 1))
      in if paralysed \<and> a mod 4 = 0 then (0, e, target, rng)
         else if ea_status e AND SF_Stunned \<noteq> 0 then (0, e\<lparr>ea_status := ea_status e AND NOT SF_Stunned\<rparr>, target, rng)
         else enemyMove e target rng)"

subsection \<open>Status\<close>

text \<open>HP lost, an 8-bit number, and the HP afterwards; the flags stay.\<close>

definition statusDamage :: "32 word \<Rightarrow> nat \<Rightarrow> nat" where
  "statusDamage flags curHp =
     (if flags AND SF_Burn \<noteq> 0 then u8 (if curHp > 8 then curHp div 8 else 1)
      else if flags AND SF_BadPoison \<noteq> 0 then u8 (if curHp > 6 then curHp div 6 else 1)
      else if flags AND SF_Poison \<noteq> 0 then u8 (if curHp > 16 then curHp div 16 else 1)
      else 0)"

definition tickStatus :: "32 word \<Rightarrow> nat \<Rightarrow> nat \<times> nat" where
  "tickStatus flags curHp =
     (let damage = statusDamage flags curHp in
      if damage \<ge> curHp then (u8 (sub16 curHp 1), 1) else (damage, curHp - damage))"

text \<open>Confusion, bound, charmed, frightened, stunned, restrained, blinded, deafened: bits 6 to 13.\<close>

definition clearBattleEndStatus :: "32 word \<Rightarrow> 32 word" where
  "clearBattleEndStatus flags = flags AND NOT (0x40 OR 0x80 OR 0x100 OR 0x200 OR 0x400 OR 0x800 OR 0x1000 OR 0x2000)"

end
