(* ===== verification/DungeonBattleRules.thy ===== *)
theory DungeonBattleRules
  imports DungeonBattle SpeciesTables
begin

text \<open>
  What the battle formulas of the dungeon amount to: the enemy's choice, the ranges of a fight, the status tick,
  and how the type chart and the base stats compare with those of the battle engine.
\<close>

subsection \<open>The enemy's choice\<close>

text \<open>The fold over the spells: the best of those seen so far.\<close>

lemma best_fold:
  fixes ok :: "nat \<Rightarrow> bool" and pw :: "nat \<Rightarrow> nat"
  shows "n \<le> 6 \<Longrightarrow> (let (idx, p) = foldl (\<lambda>(idx, p) i. if pw i > p \<and> ok i then (i, pw i) else (idx, p)) (255, 0) [0..<n] in
     (idx = 255 \<and> p = 0 \<or> idx < n \<and> ok idx \<and> p = pw idx \<and> 0 < p) \<and> (\<forall>i < n. ok i \<longrightarrow> pw i \<le> p))"
proof (induction n)
  case (Suc n)
  obtain idx p where f: "foldl (\<lambda>(idx, p) i. if pw i > p \<and> ok i then (i, pw i) else (idx, p)) (255, 0) [0..<n] = (idx, p)"
    by fastforce
  then have "idx = 255 \<and> p = 0 \<or> idx < n \<and> ok idx \<and> p = pw idx \<and> 0 < p" "\<forall>i < n. ok i \<longrightarrow> pw i \<le> p"
    using Suc by simp_all
  then show ?case using f by (auto simp: less_Suc_eq)
qed simp

lemma best_spell:
  fixes e :: EnemyActor and spells :: "DnDSpell list"
  defines "ok \<equiv> \<lambda>i. slotAvailable e (spells ! i)" and "pw \<equiv> \<lambda>i. sp_basePower (spells ! i)"
  shows "bestSpell e spells \<noteq> 255 \<Longrightarrow> bestSpell e spells < 6 \<and> ok (bestSpell e spells) \<and> 0 < pw (bestSpell e spells)
      \<and> (\<forall>i < 6. ok i \<longrightarrow> pw i \<le> pw (bestSpell e spells))"
    and "bestSpell e spells = 255 \<Longrightarrow> \<forall>i < 6. ok i \<longrightarrow> pw i = 0"
proof -
  obtain idx p where f: "foldl (\<lambda>(idx, p) i. if pw i > p \<and> ok i then (i, pw i) else (idx, p)) (255, 0) [0..<6] = (idx, p)"
    by fastforce
  then have b: "bestSpell e spells = idx" unfolding bestSpell_def ok_def pw_def by simp
  have "(idx = 255 \<and> p = 0 \<or> idx < 6 \<and> ok idx \<and> p = pw idx \<and> 0 < p) \<and> (\<forall>i < 6. ok i \<longrightarrow> pw i \<le> p)"
    using best_fold [of 6 pw ok] f by simp
  then show "bestSpell e spells \<noteq> 255 \<Longrightarrow> bestSpell e spells < 6 \<and> ok (bestSpell e spells) \<and> 0 < pw (bestSpell e spells)
      \<and> (\<forall>i < 6. ok i \<longrightarrow> pw i \<le> pw (bestSpell e spells))"
    and "bestSpell e spells = 255 \<Longrightarrow> \<forall>i < 6. ok i \<longrightarrow> pw i = 0"
    unfolding b by auto
qed

lemma utility_spell: "utilitySpell e spells is rng = (k, rng') \<Longrightarrow> k = 255 \<or> k \<in> set is \<and> slotAvailable e (spells ! k)"
  by (induction e spells "is" rng rule: utilitySpell.induct) (auto split: if_splits prod.splits)

definition healingNow :: "EnemyActor \<Rightarrow> nat \<Rightarrow> bool" where
  "healingNow e i \<longleftrightarrow> i < 6 \<and> ea_hp e < ea_maxHp e * 3 div 10 \<and> 0 < sp_hpEffect (getClassSpells (ea_class e) ! i)
     \<and> slotAvailable e (getClassSpells (ea_class e) ! i)"

lemma pick_facts:
  fixes e :: EnemyActor
  defines "spells \<equiv> getClassSpells (ea_class e)"
  assumes "pickEnemyAction e rng = (k, rng')"
  shows "(k = 255 \<or> k < 6 \<and> slotAvailable e (spells ! k))
    \<and> (if \<exists>i. healingNow e i then healingNow e k \<and> rng' = rng
       else if \<exists>i < 6. slotAvailable e (spells ! i) \<and> 0 < sp_basePower (spells ! i) then
         k < 6 \<and> 0 < sp_basePower (spells ! k) \<and> rng' = rng
         \<and> (\<forall>i < 6. slotAvailable e (spells ! i) \<longrightarrow> sp_basePower (spells ! i) \<le> sp_basePower (spells ! k))
       else k = 255 \<or> sp_basePower (spells ! k) = 0)"
proof -
  define heal where "heal = (if ea_hp e < ea_maxHp e * 3 div 10
      then find (\<lambda>i. 0 < sp_hpEffect (spells ! i) \<and> slotAvailable e (spells ! i)) [0..<6] else None)"
  have pick: "pickEnemyAction e rng = (case heal of Some i \<Rightarrow> (i, rng)
      | None \<Rightarrow> (let best = bestSpell e spells in if best \<noteq> 255 then (best, rng) else utilitySpell e spells [0..<6] rng))"
    unfolding pickEnemyAction_def heal_def spells_def Let_def ..
  note best = best_spell [where e = e and spells = spells]
  show ?thesis
  proof (cases heal)
    case (Some i)
    then have "ea_hp e < ea_maxHp e * 3 div 10" "find (\<lambda>i. 0 < sp_hpEffect (spells ! i) \<and> slotAvailable e (spells ! i)) [0..<6] = Some i"
      by (simp_all add: heal_def split: if_splits)
    then have h: "healingNow e i" using find_SomeD [of _ _ i] by (fastforce simp: healingNow_def spells_def)
    moreover have "k = i" "rng' = rng" using assms(2) Some unfolding pick by simp_all
    ultimately show ?thesis by (auto simp: healingNow_def spells_def)
  next
    case None
    then have no: "\<not> (\<exists>i. healingNow e i)"
      by (auto simp: heal_def healingNow_def spells_def find_None_iff split: if_splits)
    have k: "(let best = bestSpell e spells in if best \<noteq> 255 then (best, rng) else utilitySpell e spells [0..<6] rng) = (k, rng')"
      using assms(2) None unfolding pick by simp
    show ?thesis
    proof (cases "bestSpell e spells = 255")
      case False
      then have "k = bestSpell e spells" "rng' = rng" using k by simp_all
      then show ?thesis using best(1) [OF False] no by auto
    next
      case True
      then have u: "utilitySpell e spells [0..<6] rng = (k, rng')" using k by simp
      have "k = 255 \<or> k < 6 \<and> slotAvailable e (spells ! k)" using utility_spell [OF u] by auto
      then show ?thesis using best(2) [OF True] no by auto
    qed
  qed
qed

text \<open>
  C24 The choice of a dungeon enemy: what it picks is one of its six class spells that is free or has a slot left, or its
  physical move; below 30 percent of its HP it heals whenever one of its spells can; otherwise it takes an available spell of
  the highest power, without a draw, and only when none of its available spells does damage is the choice left to chance.
\<close>

theorem enemy_choice:
  fixes e :: EnemyActor
  defines "spells \<equiv> getClassSpells (ea_class e)"
  assumes "pickEnemyAction e rng = (k, rng')"
  shows "(k = 255 \<or> k < 6 \<and> slotAvailable e (spells ! k))
    \<and> (if \<exists>i. healingNow e i then healingNow e k \<and> rng' = rng
       else if \<exists>i < 6. slotAvailable e (spells ! i) \<and> 0 < sp_basePower (spells ! i) then
         k < 6 \<and> 0 < sp_basePower (spells ! k) \<and> rng' = rng
         \<and> (\<forall>i < 6. slotAvailable e (spells ! i) \<longrightarrow> sp_basePower (spells ! i) \<le> sp_basePower (spells ! k))
       else k = 255 \<or> sp_basePower (spells ! k) = 0)"
  unfolding spells_def by (rule pick_facts [OF assms(2)])

theorem enemy_choice_witness:
  "case pickEnemyAction (buildWildEnemy 11 94 Wizard 0) 7 of (k, rng) \<Rightarrow>
     k < 6 \<and> 40 \<le> sp_basePower (getClassSpells Wizard ! k) \<and> rng = 7"
proof -
  define e where "e = buildWildEnemy 11 94 Wizard 0"
  obtain k rng where p: "pickEnemyAction e 7 = (k, rng)" by fastforce
  have c: "ea_class e = Wizard" and "ea_hp e = ea_maxHp e" by (simp_all add: e_def buildWildEnemy_def Let_def)
  moreover have "\<not> m < m * 3 div 10" for m :: nat by presburger
  ultimately have h: "\<not> (\<exists>i. healingNow e i)" by (simp add: healingNow_def)
  have s: "sp_slotLevel (getClassSpells Wizard ! 3) = 0" "sp_basePower (getClassSpells Wizard ! 3) = 40"
    by (simp_all add: getClassSpells_def DND_CLASS_SPELLS_def sp_def)
  then have a: "slotAvailable e (getClassSpells Wizard ! 3)" by (simp add: slotAvailable_def)
  moreover have "(3 :: nat) < 6" by simp
  ultimately have "k < 6 \<and> sp_basePower (getClassSpells Wizard ! 3) \<le> sp_basePower (getClassSpells Wizard ! k) \<and> rng = 7"
    using enemy_choice [OF p] h s(2) unfolding c by (metis zero_less_numeral)
  then show ?thesis using p s(2) by (simp add: e_def)
qed

subsection \<open>Healing and utility\<close>

lemma spell_table:
  "list_all (\<lambda>ss. length ss = 6 \<and> list_all (\<lambda>s. 0 \<le> sp_hpEffect s \<and> sp_hpEffect s \<le> 30 \<and> (0 < sp_hpEffect s \<longrightarrow> sp_basePower s = 0)
     \<and> sp_basePower s \<le> 120 \<and> sp_slotLevel s \<le> 9 \<and> sp_pokeType s < 15) ss) DND_CLASS_SPELLS"
  by code_simp

lemma class_spells: "getClassSpells c \<in> set DND_CLASS_SPELLS"
  by (cases c) (simp_all add: getClassSpells_def DND_CLASS_SPELLS_def)

lemma spell_facts:
  fixes c :: DnDClass
  assumes "i < 6"
  defines "s \<equiv> getClassSpells c ! i"
  shows "0 \<le> sp_hpEffect s \<and> sp_hpEffect s \<le> 30 \<and> (0 < sp_hpEffect s \<longrightarrow> sp_basePower s = 0)
     \<and> sp_basePower s \<le> 120 \<and> sp_slotLevel s \<le> 9 \<and> sp_pokeType s < 15"
  using spell_table class_spells [of c] assms(1) unfolding s_def by (simp add: list_all_iff)

text \<open>
  The slot of a spell is taken only in the branch of the spells with power: an enemy that heals keeps its
  slots, so it heals every time it falls below 30 percent.
\<close>

lemma heals_are_free:
  assumes "healingNow e i"
  shows "\<exists>k. healingNow e k \<and> enemyMove e t rng =
     (0, e\<lparr>ea_hp := min (ea_maxHp e) (u16 (ea_hp e + nat (sp_hpEffect (getClassSpells (ea_class e) ! k))))\<rparr>, t, rng)"
proof -
  obtain k rng' where p: "pickEnemyAction e rng = (k, rng')" by fastforce
  have "\<exists>i. healingNow e i" using assms by blast
  then have k: "healingNow e k" "rng' = rng" using pick_facts [OF p] by simp_all
  then have "k < 6" "0 < sp_hpEffect (getClassSpells (ea_class e) ! k)" by (simp_all add: healingNow_def)
  then have "sp_basePower (getClassSpells (ea_class e) ! k) = 0" "k \<noteq> 255"
    using spell_facts [of k "ea_class e"] by auto
  then show ?thesis
    using k p \<open>0 < sp_hpEffect _\<close> by (intro exI [of _ k]) (auto simp: enemyMove_def castSpell_def spellEffect_def min_def Let_def)
qed

text \<open>A spell without power that does not heal has no effect at all: its secondary effect needs damage.\<close>

lemma utility_does_nothing:
  assumes "pickEnemyAction e rng = (k, rng')" "k \<noteq> 255" "sp_basePower (getClassSpells (ea_class e) ! k) = 0"
    "sp_hpEffect (getClassSpells (ea_class e) ! k) \<le> 0"
  shows "enemyMove e t rng = (0, e, t, rng')"
  using assms by (auto simp: enemyMove_def castSpell_def spellEffect_def Let_def)

text \<open>No enemy has a slot of the ninth level, so the ninth-level spell of the monk is never used.\<close>

lemma no_ninth_slot: "ea_spellSlots (buildWildEnemy depth dex cls seed) ! 8 = 0"
proof -
  have t: "list_all (\<lambda>n. length (SPELL_SLOTS_BY_LEVEL ! n) = 9 \<and> SPELL_SLOTS_BY_LEVEL ! n ! 8 = 0) [0..<15]" by code_simp
  have "length (SPELL_SLOTS_BY_LEVEL ! n) = 9 \<and> SPELL_SLOTS_BY_LEVEL ! n ! 8 = 0" if "n < 15" for n
    using t that by (simp only: list_all_iff set_upt) simp
  then show ?thesis by (auto simp: buildWildEnemy_def Let_def classSlots_def)
qed

text \<open>From depth 39 on the first species of a trainer's team wraps around to the start of the list.\<close>

lemma trainer_range: "depth < 39 \<Longrightarrow> trainerMinDex depth = min 130 (1 + depth div 3 * 20)"
  by (auto simp: trainerMinDex_def Let_def u8_def min_def)

lemma trainer_range_wraps: "trainerMinDex 39 = 5"
  by (simp add: trainerMinDex_def u8_def)

subsection \<open>Status\<close>

lemma low_flags: "(flags :: 32 word) AND 7 = 0 \<longleftrightarrow> flags AND 4 = 0 \<and> flags AND 2 = 0 \<and> flags AND 1 = 0"
proof -
  have "(7 :: 32 word) = mask 3" "(4 :: 32 word) = push_bit 2 1" "(2 :: 32 word) = push_bit 1 1" "(1 :: 32 word) = push_bit 0 1"
    by (simp_all add: mask_eq_exp_minus_1)
  have b: "flags AND 2 ^ k = 0 \<longleftrightarrow> \<not> bit flags k" for k
    by (simp add: and_exp_eq_0_iff_not_bit)
  have "flags AND mask 3 = 0 \<longleftrightarrow> (\<forall>k < 3. \<not> bit flags k)"
  proof
    assume a: "flags AND mask 3 = 0"
    have "bit (flags AND mask 3) k = bit flags k" if "k < 3" for k using that by (simp add: bit_and_iff bit_mask_iff)
    then show "\<forall>k < 3. \<not> bit flags k" unfolding a by simp
  next
    assume "\<forall>k < 3. \<not> bit flags k"
    then show "flags AND mask 3 = 0" by (auto simp: bit_eq_iff bit_and_iff bit_mask_iff)
  qed
  also have "\<dots> \<longleftrightarrow> \<not> bit flags 2 \<and> \<not> bit flags 1 \<and> \<not> bit flags 0"
    by (auto simp: numeral_3_eq_3 less_Suc_eq numeral_2_eq_2)
  finally show ?thesis using b [of 2] b [of 1] b [of 0] by (simp add: mask_eq_exp_minus_1)
qed

lemma status_damage:
  "0 < n \<Longrightarrow> n < 1536 \<Longrightarrow> statusDamage flags n \<le> n \<and> (1 < n \<longrightarrow> statusDamage flags n < n)
     \<and> (flags AND 7 = 0 \<longrightarrow> statusDamage flags n = 0) \<and> (flags AND 7 \<noteq> 0 \<longrightarrow> 0 < statusDamage flags n)"
  by (auto simp: statusDamage_def low_flags)

text \<open>
  The status tick: poison and burn take part of the HP, never the last one, and what is reported is what was lost (below 1536 HP,
  so that an eighth, sixth or sixteenth fits a byte); without such a status nothing changes - but a monster that has
  fainted comes back with 1 HP, reported as a loss of 255, whatever its status.
\<close>

theorem status_tick:
  assumes "0 < n" "n < 1536"
  shows "snd (tickStatus flags n) + fst (tickStatus flags n) = n \<and> 1 \<le> snd (tickStatus flags n)
    \<and> (flags AND 7 = 0 \<longrightarrow> snd (tickStatus flags n) = n)
    \<and> (flags AND 7 \<noteq> 0 \<and> 1 < n \<longrightarrow> snd (tickStatus flags n) < n)
    \<and> tickStatus flags 0 = (255, 1)"
proof -
  have "tickStatus flags 0 = (255, 1)" by (simp add: tickStatus_def statusDamage_def sub16_def u8_def)
  moreover have "n = 1 \<Longrightarrow> u8 (sub16 n 1) = 0" by (simp add: sub16_def u8_def)
  ultimately show ?thesis
    using status_damage [OF assms, of flags] assms by (cases "n = 1") (auto simp: tickStatus_def Let_def)
qed

theorem status_tick_witness: "snd (tickStatus 1 160) < 160 \<and> tickStatus 1 0 = (255, 1)"
  using status_tick [of 160 1] by simp

subsection \<open>The tables beside those of the battle engine\<close>

text \<open>The engine's numbers of the dungeon's types.\<close>

definition engineTypes :: "nat list" where
  "engineTypes = [0, 9, 10, 12, 11, 14, 1, 3, 4, 2, 13, 7, 5, 8, 15]"

text \<open>The engine's chart in the dungeon's order and unit, and the dungeon's chart with four entries replaced.\<close>

lemma chart_rows:
  "map (\<lambda>row. map (\<lambda>j. 50 * row ! j) engineTypes) (map (\<lambda>i. GEN1_TYPECHART ! i) engineTypes) =
   DUNGEON_TYPE_CHART[5 := (DUNGEON_TYPE_CHART ! 5)[1 := 100], 6 := (DUNGEON_TYPE_CHART ! 6)[9 := 50],
     10 := (DUNGEON_TYPE_CHART ! 10)[13 := 100], 11 := (DUNGEON_TYPE_CHART ! 11)[13 := 50]]"
  by code_simp

lemma chart_shape: "length DUNGEON_TYPE_CHART = 15" "a < 15 \<Longrightarrow> length (DUNGEON_TYPE_CHART ! a) = 15"
proof -
  show l: "length DUNGEON_TYPE_CHART = 15" by (simp add: DUNGEON_TYPE_CHART_def)
  have "list_all (\<lambda>row. length row = 15) DUNGEON_TYPE_CHART" by code_simp
  then show "a < 15 \<Longrightarrow> length (DUNGEON_TYPE_CHART ! a) = 15" using l by (simp add: list_all_length)
qed

lemma chart_four:
  "DUNGEON_TYPE_CHART ! 5 ! 1 = 50" "DUNGEON_TYPE_CHART ! 6 ! 9 = 100"
  "DUNGEON_TYPE_CHART ! 10 ! 13 = 0" "DUNGEON_TYPE_CHART ! 11 ! 13 = 100"
  by code_simp+

text \<open>
  The dungeon's type chart is the battle engine's chart of the same generation, in percent and in another order of the
  types, for all pairs but exactly four: Ice on Fire, Fighting on Flying, Psychic on Ghost, Bug on Ghost.
\<close>

theorem dungeon_chart:
  assumes "a < 15" "d < 15"
  shows "typeEffectiveness a d = 50 * GEN1_TYPECHART ! (engineTypes ! a) ! (engineTypes ! d)
    \<longleftrightarrow> (a, d) \<notin> {(T_Ice, T_Fire), (T_Fighting, T_Flying), (T_Psychic, T_Ghost), (11, T_Ghost)}"
proof -
  have "length engineTypes = 15" by (simp add: engineTypes_def)
  then have "50 * GEN1_TYPECHART ! (engineTypes ! a) ! (engineTypes ! d)
      = map (\<lambda>row. map (\<lambda>j. 50 * row ! j) engineTypes) (map (\<lambda>i. GEN1_TYPECHART ! i) engineTypes) ! a ! d"
    using assms by simp
  then have e: "50 * GEN1_TYPECHART ! (engineTypes ! a) ! (engineTypes ! d) =
      (if a = 5 \<and> d = 1 then 100 else if a = 6 \<and> d = 9 then 50 else if a = 10 \<and> d = 13 then 100 else if a = 11 \<and> d = 13 then 50
       else DUNGEON_TYPE_CHART ! a ! d)"
    unfolding chart_rows using assms chart_shape by (simp add: nth_list_update)
  show ?thesis
    using chart_four assms unfolding e by (auto simp: typeEffectiveness_def)
qed

theorem dungeon_chart_witness:
  "typeEffectiveness T_Water T_Fire = 50 * GEN1_TYPECHART ! (engineTypes ! T_Water) ! (engineTypes ! T_Fire)"
  using dungeon_chart [of T_Water T_Fire] by simp

text \<open>Eight species have the base stats of a later generation, unlike the table of the save patcher.\<close>

lemma dungeon_stats:
  "map fst (filter (\<lambda>(i, a, b). \<not> (g1_hp a = bs_hp b \<and> g1_atk a = bs_atk b \<and> g1_def a = bs_def b \<and> g1_spd a = bs_spd b \<and> g1_spc a = bs_spc b))
     (tl (zip [0..<152] (zip DUNGEON_BASE_STATS speciesBaseStats))))
   = [12, 15, 18, 26, 31, 34, 62, 76]"
  by code_simp

text \<open>A double weakness counts as a single one: the cap cuts four times the damage to twice.\<close>

lemma no_fourfold: "effCapped n \<le> 200"
  by (simp add: effCapped_def)

lemma fourfold_is_cut: "typeEffectivenessDual T_Water 12 T_Ground = 400 \<and> effCapped (typeEffectivenessDual T_Water 12 T_Ground) = 200"
  by (simp add: typeEffectivenessDual_def typeEffectiveness_def DUNGEON_TYPE_CHART_def effCapped_def u16_def)

subsection \<open>The ranges of a fight\<close>

lemma species_range:
  "g1_hp (getSpeciesStats d) \<le> 250 \<and> g1_atk (getSpeciesStats d) \<le> 134 \<and> g1_def (getSpeciesStats d) \<le> 180
   \<and> g1_type1 (getSpeciesStats d) < 15 \<and> g1_type2 (getSpeciesStats d) < 15"
proof -
  have "list_all (\<lambda>g. g1_hp g \<le> 250 \<and> g1_atk g \<le> 134 \<and> g1_def g \<le> 180 \<and> g1_type1 g < 15 \<and> g1_type2 g < 15) DUNGEON_BASE_STATS"
    by code_simp
  moreover have "length DUNGEON_BASE_STATS = 152" by (simp add: DUNGEON_BASE_STATS_def)
  ultimately show ?thesis by (simp add: getSpeciesStats_def list_all_length)
qed

lemma slot_table: "n < 20 \<Longrightarrow> length (SPELL_SLOTS_BY_LEVEL ! n) = 9 \<and> list_all (\<lambda>k. k \<le> 4) (SPELL_SLOTS_BY_LEVEL ! n)"
proof -
  have "list_all (\<lambda>n. length (SPELL_SLOTS_BY_LEVEL ! n) = 9 \<and> list_all (\<lambda>k. k \<le> 4) (SPELL_SLOTS_BY_LEVEL ! n)) [0..<20]" by code_simp
  then have "\<forall>n \<in> {0..<20}. length (SPELL_SLOTS_BY_LEVEL ! n) = 9 \<and> list_all (\<lambda>k. k \<le> 4) (SPELL_SLOTS_BY_LEVEL ! n)"
    by (simp only: list_all_iff set_upt)
  then show "n < 20 \<Longrightarrow> ?thesis" by simp
qed

definition enemy_range :: "EnemyActor \<Rightarrow> bool" where
  "enemy_range e \<longleftrightarrow> ea_classLevel e \<le> 15 \<and> ea_hp e \<le> ea_maxHp e \<and> ea_maxHp e \<le> 1085 \<and> ea_atk e \<le> 164
     \<and> length (ea_spellSlots e) = 9 \<and> list_all (\<lambda>k. k \<le> 4) (ea_spellSlots e)"

lemma built_range: "depth < 256 \<Longrightarrow> enemy_range (buildWildEnemy depth dex cls seed)"
proof -
  assume d: "depth < 256"
  define cl where "cl = (if depth > 15 then 15 else if depth > 0 then depth else 1)"
  define b where "b = getSpeciesStats (if dex = 0 \<or> 151 < dex then 4 else dex)"
  have cl: "1 \<le> cl" "cl \<le> 15" by (simp_all add: cl_def)
  have sl: "length (classSlots cls (SPELL_SLOTS_BY_LEVEL ! n)) = 9 \<and> list_all (\<lambda>k. k \<le> 4) (classSlots cls (SPELL_SLOTS_BY_LEVEL ! n))" if "n < 20" for n
    using slot_table [OF that] by (auto simp: classSlots_def list_all_iff)
  have hb: "(cl - 1) * 5 + depth * 3 \<le> 835" using d cl by simp
  have b: "g1_hp b \<le> 250" "g1_atk b \<le> 134" using species_range by (simp_all add: b_def)
  have ix: "(if cl > 0 then cl - 1 else 0) = cl - 1" "(if cl - 1 \<ge> 20 then 19 else cl - 1) = cl - 1" "cl - 1 < 20" using cl by simp_all
  show ?thesis
    using cl hb b sl [OF ix(3)]
    unfolding buildWildEnemy_def Let_def enemy_range_def cl_def [symmetric] b_def [symmetric] ix(1,2) by simp
qed

text \<open>With the numbers of an enemy the damage formula neither wraps nor reaches its cap.\<close>

lemma enemy_damage:
  assumes "lv \<le> 18" "atk' \<le> 164" "pw \<le> 120" "eff \<le> 200"
  shows "gen1Damage lv atk' pw df eff stab \<le> 10632"
    and "0 < pw \<Longrightarrow> gen1Damage lv atk' pw df eff stab =
      (let raw = (lv * 2 div 5 + 2) * atk' * pw div max 1 df div 50 + 2 in (if stab then raw * 150 div 100 else raw) * eff div 100)"
proof -
  define lb where "lb = lv * 2 div 5 + 2"
  have lb: "lb \<le> 9" using assms(1) by (simp add: lb_def)
  have "lb * atk' \<le> 9 * 164" by (rule mult_le_mono [OF lb assms(2)])
  then have la: "lb * atk' \<le> 1476" by simp
  have "lb * atk' * pw \<le> 1476 * 120" by (rule mult_le_mono [OF la assms(3)])
  then have lap: "lb * atk' * pw \<le> 177120" by simp
  have mx: "(if 0 < df then df else 1) = max 1 df" by auto
  define raw where "raw = lb * atk' * pw div max 1 df div 50 + 2"
  have "lb * atk' * pw div max 1 df \<le> 177120" using lap by (meson div_le_dividend le_trans)
  then have raw: "raw \<le> 3544" by (simp add: raw_def)
  define sr where "sr = (if stab then raw * 150 div 100 else raw)"
  have "raw * 150 \<le> 3544 * 150" by (rule mult_le_mono1 [OF raw])
  then have "raw * 150 div 100 \<le> 5316" by (simp add: div_le_mono [of "raw * 150" 531600 100, simplified])
  then have sr: "sr \<le> 5316" using raw by (simp add: sr_def)
  have "sr * eff \<le> 5316 * 200" by (rule mult_le_mono [OF sr assms(4)])
  then have se: "sr * eff \<le> 1063200" by simp
  have eq: "gen1Damage lv atk' pw df eff stab = (if pw = 0 then 0 else sr * eff div 100)"
  proof -
    have r1: "u32 (u32 (u32 (lb * atk') * pw) div max 1 df div 50 + 2) = raw"
      using la lap raw by (simp add: raw_def)
    have r2: "u32 (raw * 150) = raw * 150" using raw by simp
    have r3: "u32 (sr * eff) = sr * eff" "(65535 < sr * eff div 100) = False" using se by simp_all
    show ?thesis
      unfolding gen1Damage_def Let_def lb_def [symmetric] mx r1 r2 sr_def [symmetric] r3 if_False ..
  qed
  moreover have "sr * eff div 100 \<le> 1063200 div 100" by (rule div_le_mono [OF se])
  ultimately show "gen1Damage lv atk' pw df eff stab \<le> 10632" by simp
  show "0 < pw \<Longrightarrow> gen1Damage lv atk' pw df eff stab =
      (let raw = (lv * 2 div 5 + 2) * atk' * pw div max 1 df div 50 + 2 in (if stab then raw * 150 div 100 else raw) * eff div 100)"
    unfolding eq Let_def lb_def [symmetric] raw_def [symmetric] by (simp add: sr_def)
qed

lemma use_slot_range:
  "enemy_range e \<Longrightarrow> enemy_range (useSlot s e) \<and> ea_maxHp (useSlot s e) = ea_maxHp e"
proof -
  assume e: "enemy_range e"
  have "ea_spellSlots e ! (sp_slotLevel s - 1) - 1 \<le> 4" if "0 < sp_slotLevel s" "sp_slotLevel s \<le> 9"
  proof -
    have "sp_slotLevel s - 1 < 9" using that by arith
    then have "ea_spellSlots e ! (sp_slotLevel s - 1) \<le> 4"
      using list_all_nth [of "\<lambda>k. k \<le> 4" "ea_spellSlots e" "sp_slotLevel s - 1"] e by (simp add: enemy_range_def)
    then show ?thesis by (rule le_trans [OF diff_le_self])
  qed
  then show ?thesis using e by (simp add: useSlot_def Let_def enemy_range_def list_all_update)
qed

lemma cast_range:
  assumes "enemy_range e" "k < 6" "castSpell (getClassSpells c ! k) e t = (e', dmg)"
  shows "enemy_range e' \<and> ea_maxHp e' = ea_maxHp e \<and> dmg \<le> 10632"
proof -
  let ?s = "getClassSpells c ! k"
  have s: "sp_basePower ?s \<le> 120" "0 \<le> sp_hpEffect ?s" "sp_hpEffect ?s \<le> 30" using spell_facts [OF assms(2), of c] by simp_all
  have r: "u8 (ea_classLevel e + 3) \<le> 18" "ea_atk e \<le> 164" using assms(1) by (simp_all add: enemy_range_def)
  show ?thesis
  proof (cases "0 < sp_basePower ?s")
    case True
    then show ?thesis
      using assms(3) use_slot_range [OF assms(1), of ?s] enemy_damage(1) [OF r s(1) no_fourfold]
      by (auto simp: castSpell_def Let_def)
  next
    case False
    then show ?thesis using assms(1,3) by (auto simp: castSpell_def Let_def enemy_range_def split: if_splits)
  qed
qed

lemma enemy_attack_range:
  assumes e: "enemy_range e" and r: "enemyAttack e t rng = (dmg, e', t', rng')"
  shows "enemy_range e' \<and> ea_maxHp e' = ea_maxHp e \<and> dmg \<le> 10632 \<and> pa_hp t' = pa_hp t - dmg \<and> pa_maxHp t' = pa_maxHp t"
proof -
  have move: "enemy_range e' \<and> ea_maxHp e' = ea_maxHp e \<and> dmg \<le> 10632 \<and> pa_hp t' = pa_hp t - dmg \<and> pa_maxHp t' = pa_maxHp t"
    if m: "enemyMove e t rng = (dmg, e', t', rng')" for rng
  proof -
    obtain k rng1 where p: "pickEnemyAction e rng = (k, rng1)" by fastforce
    show ?thesis
    proof (cases "k = 255")
      case True
      have "u8 (ea_classLevel e + 3) \<le> 18" "ea_atk e \<le> 164" using e by (simp_all add: enemy_range_def)
      then have "physicalDamage e t \<le> 10632" unfolding physicalDamage_def by (intro enemy_damage(1) no_fourfold) simp_all
      then show ?thesis using m p True e by (auto simp: enemyMove_def Let_def)
    next
      case False
      then have k: "k < 6" using pick_facts [OF p] by simp
      obtain e1 d where c: "castSpell (getClassSpells (ea_class e) ! k) e t = (e1, d)" by fastforce
      obtain t1 rng2 where s: "spellEffect (getClassSpells (ea_class e) ! k) d t rng1 = (t1, rng2)" by fastforce
      then have t1: "pa_hp t1 = pa_hp t" "pa_maxHp t1 = pa_maxHp t"
        by (auto simp: spellEffect_def Let_def split: if_splits prod.splits)
      have "dmg = d" "e' = e1" "t' = t1\<lparr>pa_hp := (if d \<ge> pa_hp t1 then 0 else pa_hp t1 - d)\<rparr>"
        using m p False c s by (auto simp: enemyMove_def)
      then show ?thesis using cast_range [OF e k c] t1 by auto
    qed
  qed
  have stay: "enemy_range (e\<lparr>ea_status := x\<rparr>)" for x using e by (simp add: enemy_range_def)
  show ?thesis
    using r move stay e unfolding enemyAttack_def Let_def by (auto split: prod.splits if_splits)
qed

lemma player_attack_range:
  assumes "enemy_range e" "playerAttack t e mv = (e', dmg)"
  shows "enemy_range e' \<and> ea_maxHp e' = ea_maxHp e \<and> ea_hp e' = ea_hp e - dmg"
proof -
  have "e' = e\<lparr>ea_hp := ea_hp e - dmg\<rparr>"
    using assms(2) by (auto simp: playerAttack_def Let_def)
  then show ?thesis using assms(1) by (auto simp: enemy_range_def)
qed

text \<open>A fight: the two actors and the random state, and the calls on them.\<close>

datatype FightCall = PlayerStrikes "string option" | EnemyStrikes | PlayerTick | PlayerClears

fun fightCall :: "FightCall \<Rightarrow> EnemyActor \<times> PlayerActor \<times> 32 word \<Rightarrow> EnemyActor \<times> PlayerActor \<times> 32 word" where
  "fightCall (PlayerStrikes mv) (e, t, rng) = (fst (playerAttack t e mv), t, rng)"
| "fightCall EnemyStrikes (e, t, rng) = snd (enemyAttack e t rng)"
| "fightCall PlayerTick (e, t, rng) = (e, t\<lparr>pa_hp := snd (tickStatus (pa_status t) (pa_hp t))\<rparr>, rng)"
| "fightCall PlayerClears (e, t, rng) = (e, t\<lparr>pa_status := clearBattleEndStatus (pa_status t)\<rparr>, rng)"

definition fightStart :: "EnemyActor \<times> PlayerActor \<times> 32 word \<Rightarrow> bool" where
  "fightStart f \<longleftrightarrow> (case f of (e, t, rng) \<Rightarrow> (\<exists>depth < 256. \<exists>dex cls seed. e = buildWildEnemy depth dex cls seed)
     \<and> 0 < pa_maxHp t \<and> pa_hp t \<le> pa_maxHp t)"

definition fight_range :: "EnemyActor \<times> PlayerActor \<times> 32 word \<Rightarrow> bool" where
  "fight_range f \<longleftrightarrow> (case f of (e, t, rng) \<Rightarrow> enemy_range e \<and> 0 < pa_maxHp t \<and> pa_hp t \<le> pa_maxHp t)"

lemma tick_le: "0 < m \<Longrightarrow> n \<le> m \<Longrightarrow> snd (tickStatus flags n) \<le> m"
  using le_trans [OF diff_le_self [of n "statusDamage flags n"]] by (simp add: tickStatus_def Let_def)

lemma fight_call_range: "fight_range f \<Longrightarrow> fight_range (fightCall c f)"
proof (cases f)
  case (fields e t rng)
  assume "fight_range f"
  then have f: "enemy_range e" "0 < pa_maxHp t" "pa_hp t \<le> pa_maxHp t" by (simp_all add: fight_range_def fields)
  show ?thesis
  proof (cases c)
    case (PlayerStrikes mv)
    obtain e' d where "playerAttack t e mv = (e', d)" by fastforce
    then show ?thesis using player_attack_range [OF f(1)] f PlayerStrikes by (simp add: fight_range_def fields)
  next
    case EnemyStrikes
    obtain d e' t' r' where a: "enemyAttack e t rng = (d, e', t', r')" by (cases "enemyAttack e t rng") auto
    then show ?thesis using enemy_attack_range [OF f(1) a] f EnemyStrikes by (auto simp: fight_range_def fields)
  next
    case PlayerTick
    then show ?thesis using f tick_le by (simp add: fight_range_def fields)
  next
    case PlayerClears
    then show ?thesis using f by (simp add: fight_range_def fields)
  qed
qed

interpretation fight: transition_system fightStart fightCall "\<lambda>_. True" fight_range
proof unfold_locales
  show "fightStart f \<Longrightarrow> fight_range f" for f
    by (auto simp: fightStart_def fight_range_def built_range)
qed (rule fight_call_range)

text \<open>
  In every fight against an enemy the dungeon builds, whatever the player's stats, moves and order of the calls: the
  enemy has at most its full HP, never more than 1085, and at most four slots of a spell level, the player at most its full
  HP, and the next blow of the enemy takes at most 10632 HP - it is computed without wrap-around or cap - and
  exactly that from the player's HP, down to 0.
\<close>

theorem fight_in_range:
  assumes "fightStart f0" "fold fightCall calls f0 = (e, t, rng)"
  shows "ea_hp e \<le> ea_maxHp e \<and> ea_maxHp e \<le> 1085 \<and> (\<forall>k < 9. ea_spellSlots e ! k \<le> 4) \<and> pa_hp t \<le> pa_maxHp t
    \<and> (case enemyAttack e t rng of (dmg, e', t', rng') \<Rightarrow> dmg \<le> 10632 \<and> pa_hp t' = pa_hp t - dmg)"
proof -
  have "list_all (\<lambda>_. True) calls" by (simp add: list_all_iff)
  then have "fight_range (e, t, rng)" using fight.reach_inv [OF assms(1)] assms(2) by metis
  then have r: "enemy_range e" "pa_hp t \<le> pa_maxHp t" by (simp_all add: fight_range_def)
  obtain d e' t' r' where a: "enemyAttack e t rng = (d, e', t', r')" by (cases "enemyAttack e t rng") auto
  show ?thesis using enemy_attack_range [OF r(1) a] r unfolding a by (simp add: enemy_range_def list_all_length)
qed

definition samplePlayer :: PlayerActor where
  "samplePlayer = \<lparr>pa_dexNum = 25, pa_hp = 80, pa_maxHp = 90, pa_atk = 70, pa_def = 50, pa_spd = 95, pa_spc = 60,
     pa_level = 30, pa_type1 = 3, pa_type2 = 3, pa_status = 1\<rparr>"

theorem fight_in_range_witness:
  "case fold fightCall [PlayerStrikes (Some ''Thunderbolt''), EnemyStrikes, PlayerTick] (buildWildEnemy 20 74 Druid 0, samplePlayer, 9) of
     (e, t, rng) \<Rightarrow> ea_maxHp e \<le> 1085 \<and> pa_hp t \<le> pa_maxHp t"
proof -
  obtain e t rng where f: "fold fightCall [PlayerStrikes (Some ''Thunderbolt''), EnemyStrikes, PlayerTick] (buildWildEnemy 20 74 Druid 0, samplePlayer, 9) = (e, t, rng)"
    by (cases "fold fightCall [PlayerStrikes (Some ''Thunderbolt''), EnemyStrikes, PlayerTick] (buildWildEnemy 20 74 Druid 0, samplePlayer, 9)") auto
  have "(20 :: nat) < 256" by simp
  then have "\<exists>depth < 256. \<exists>dex cls seed. buildWildEnemy 20 74 Druid 0 = buildWildEnemy depth dex cls seed" by blast
  then have "fightStart (buildWildEnemy 20 74 Druid 0, samplePlayer, 9)" by (simp add: fightStart_def samplePlayer_def)
  from fight_in_range [OF this f] show ?thesis unfolding f by simp
qed

end
