(* ===== verification/GauntletTables.thy ===== *)
theory GauntletTables
  imports LordTables
begin

text \<open>
  The data of a gym station, row by row: the preset gyms (\<^verbatim>\<open>gauntlet/GauntletGyms.h\<close>), default moves and
  the Elite Four (\<^verbatim>\<open>gauntlet/GauntletBattle.cpp\<close>), the pool of leaders and the second copy of the default
  moves (\<^verbatim>\<open>gauntlet/GauntletModule.cpp\<close>).  A pointer with a count is a list; a row of zeros that ends a
  list is left out, where it fills an array it is kept.
\<close>

record GymPresetMon =
  pm_dex :: nat
  pm_level :: nat
  pm_moves :: "nat list"

definition pmon :: "nat \<Rightarrow> nat \<Rightarrow> nat list \<Rightarrow> GymPresetMon" where
  "pmon d l ms = \<lparr>pm_dex = d, pm_level = l, pm_moves = ms\<rparr>"

type_synonym GymPresetTrainer = "string \<times> GymPresetMon list"

record GymPreset =
  pr_name :: string
  pr_leaderName :: string
  pr_badgeName :: string
  pr_minLevelHint :: nat
  pr_trainers :: "GymPresetTrainer list"

record ElitePoolEntry =
  el_name :: string
  el_party :: "(nat \<times> nat) list"
  el_bossLevel :: nat
  el_bossName :: string

abbreviation (input) GAUNTLET_GYM_COUNT :: nat where "GAUNTLET_GYM_COUNT \<equiv> 8"
abbreviation (input) GAUNTLET_GYM_LEADER_IDX :: nat where "GAUNTLET_GYM_LEADER_IDX \<equiv> 4"

subsection \<open>Preset gyms\<close>

definition gym1_t0 :: "GymPresetMon list" where
  "gym1_t0 =
    [pmon 74 10 [33, 111, 0, 0]]"

definition gym1_t1 :: "GymPresetMon list" where
  "gym1_t1 =
    [pmon 16 9 [16, 98, 0, 0],
     pmon 19 9 [33, 45, 0, 0]]"

definition gym1_t2 :: "GymPresetMon list" where
  "gym1_t2 =
    [pmon 27 11 [10, 28, 0, 0]]"

definition gym1_t3 :: "GymPresetMon list" where
  "gym1_t3 =
    [pmon 74 11 [88, 33, 0, 0],
     pmon 95 12 [88, 20, 0, 0]]"

definition gym1_t4 :: "GymPresetMon list" where
  "gym1_t4 =
    [pmon 74 12 [33, 111, 88, 0],
     pmon 95 14 [33, 20, 88, 43]]"

definition gym2_t0 :: "GymPresetMon list" where
  "gym2_t0 =
    [pmon 120 16 [33, 55, 0, 0]]"

definition gym2_t1 :: "GymPresetMon list" where
  "gym2_t1 =
    [pmon 54 19 [10, 39, 55, 0]]"

definition gym2_t2 :: "GymPresetMon list" where
  "gym2_t2 =
    [pmon 118 17 [64, 39, 0, 0],
     pmon 72 18 [40, 51, 0, 0]]"

definition gym2_t3 :: "GymPresetMon list" where
  "gym2_t3 =
    [pmon 86 20 [44, 45, 62, 0]]"

definition gym2_t4 :: "GymPresetMon list" where
  "gym2_t4 =
    [pmon 120 18 [33, 55, 0, 0],
     pmon 121 21 [33, 55, 61, 50]]"

definition gym3_t0 :: "GymPresetMon list" where
  "gym3_t0 =
    [pmon 25 20 [84, 28, 98, 0]]"

definition gym3_t1 :: "GymPresetMon list" where
  "gym3_t1 =
    [pmon 100 21 [33, 103, 84, 0]]"

definition gym3_t2 :: "GymPresetMon list" where
  "gym3_t2 =
    [pmon 81 20 [33, 48, 84, 0],
     pmon 82 22 [33, 84, 49, 0]]"

definition gym3_t3 :: "GymPresetMon list" where
  "gym3_t3 =
    [pmon 100 23 [33, 84, 103, 0],
     pmon 125 23 [98, 85, 50, 0]]"

definition gym3_t4 :: "GymPresetMon list" where
  "gym3_t4 =
    [pmon 100 21 [84, 103, 153, 0],
     pmon 26 24 [85, 28, 86, 98],
     pmon 25 21 [98, 84, 45, 0]]"

definition gym4_t0 :: "GymPresetMon list" where
  "gym4_t0 =
    [pmon 43 24 [71, 78, 51, 0]]"

definition gym4_t1 :: "GymPresetMon list" where
  "gym4_t1 =
    [pmon 69 24 [22, 74, 0, 0]]"

definition gym4_t2 :: "GymPresetMon list" where
  "gym4_t2 =
    [pmon 102 26 [79, 77, 71, 0],
     pmon 44 25 [78, 51, 0, 0]]"

definition gym4_t3 :: "GymPresetMon list" where
  "gym4_t3 =
    [pmon 70 26 [22, 77, 79, 0]]"

definition gym4_t4 :: "GymPresetMon list" where
  "gym4_t4 =
    [pmon 114 29 [22, 20, 75, 0],
     pmon 71 29 [77, 79, 22, 72],
     pmon 45 29 [78, 79, 80, 72]]"

definition gym5_t0 :: "GymPresetMon list" where
  "gym5_t0 =
    [pmon 41 31 [44, 103, 109, 0],
     pmon 41 31 [44, 48, 0, 0]]"

definition gym5_t1 :: "GymPresetMon list" where
  "gym5_t1 =
    [pmon 48 32 [48, 50, 93, 0]]"

definition gym5_t2 :: "GymPresetMon list" where
  "gym5_t2 =
    [pmon 88 33 [106, 51, 124, 0],
     pmon 89 33 [124, 106, 34, 0]]"

definition gym5_t3 :: "GymPresetMon list" where
  "gym5_t3 =
    [pmon 42 34 [44, 48, 100, 0]]"

definition gym5_t4 :: "GymPresetMon list" where
  "gym5_t4 =
    [pmon 109 37 [123, 108, 0, 0],
     pmon 89 39 [139, 51, 34, 106],
     pmon 109 37 [139, 123, 108, 0],
     pmon 110 43 [124, 123, 139, 108]]"

definition gym6_t0 :: "GymPresetMon list" where
  "gym6_t0 =
    [pmon 96 34 [95, 50, 93, 0],
     pmon 97 34 [95, 50, 93, 0]]"

definition gym6_t1 :: "GymPresetMon list" where
  "gym6_t1 =
    [pmon 64 38 [93, 50, 105, 0]]"

definition gym6_t2 :: "GymPresetMon list" where
  "gym6_t2 =
    [pmon 122 39 [50, 93, 113, 115]]"

definition gym6_t3 :: "GymPresetMon list" where
  "gym6_t3 =
    [pmon 96 36 [95, 93, 138, 0],
     pmon 96 36 [95, 93, 138, 0]]"

definition gym6_t4 :: "GymPresetMon list" where
  "gym6_t4 =
    [pmon 64 38 [93, 50, 115, 105],
     pmon 122 37 [93, 113, 115, 0],
     pmon 49 38 [48, 78, 60, 0],
     pmon 65 43 [94, 105, 115, 93]]"

definition gym7_t0 :: "GymPresetMon list" where
  "gym7_t0 =
    [pmon 77 34 [52, 45, 39, 0],
     pmon 126 38 [108, 52, 98, 0]]"

definition gym7_t1 :: "GymPresetMon list" where
  "gym7_t1 =
    [pmon 58 40 [52, 43, 36, 0]]"

definition gym7_t2 :: "GymPresetMon list" where
  "gym7_t2 =
    [pmon 78 41 [52, 39, 23, 83]]"

definition gym7_t3 :: "GymPresetMon list" where
  "gym7_t3 =
    [pmon 37 42 [52, 45, 98, 46],
     pmon 38 42 [52, 46, 98, 53]]"

definition gym7_t4 :: "GymPresetMon list" where
  "gym7_t4 =
    [pmon 58 42 [52, 43, 36, 46],
     pmon 126 40 [52, 83, 109, 34],
     pmon 78 42 [52, 23, 83, 36],
     pmon 59 47 [52, 46, 36, 53]]"

definition gym8_t0 :: "GymPresetMon list" where
  "gym8_t0 =
    [pmon 24 37 [40, 43, 35, 0]]"

definition gym8_t1 :: "GymPresetMon list" where
  "gym8_t1 =
    [pmon 111 42 [88, 43, 34, 0]]"

definition gym8_t2 :: "GymPresetMon list" where
  "gym8_t2 =
    [pmon 50 41 [10, 28, 91, 0],
     pmon 51 42 [10, 28, 91, 89]]"

definition gym8_t3 :: "GymPresetMon list" where
  "gym8_t3 =
    [pmon 34 45 [40, 30, 31, 0]]"

definition gym8_t4 :: "GymPresetMon list" where
  "gym8_t4 =
    [pmon 111 45 [88, 34, 31, 43],
     pmon 51 42 [28, 91, 89, 163],
     pmon 31 44 [40, 89, 34, 43],
     pmon 112 50 [89, 23, 43, 88],
     pmon 34 45 [40, 31, 89, 30]]"

definition GAUNTLET_GYMS :: "GymPreset list" where
  "GAUNTLET_GYMS =
    [\<lparr>pr_name = ''Pewter'', pr_leaderName = ''Brock'', pr_badgeName = ''Boulder'', pr_minLevelHint = 10,
       pr_trainers = [(''Camper Liam'', gym1_t0), (''Lass Crissy'', gym1_t1), (''Youngster Ben'', gym1_t2), (''Hiker Marcos'', gym1_t3), (''Brock'', gym1_t4)]\<rparr>,
     \<lparr>pr_name = ''Cerulean'', pr_leaderName = ''Misty'', pr_badgeName = ''Cascade'', pr_minLevelHint = 18,
       pr_trainers = [(''Swimmer Luis'', gym2_t0), (''Trainer Diana'', gym2_t1), (''Lass Haley'', gym2_t2), (''Swimmer Parker'', gym2_t3), (''Misty'', gym2_t4)]\<rparr>,
     \<lparr>pr_name = ''Vermilion'', pr_leaderName = ''Lt. Surge'', pr_badgeName = ''Thunder'', pr_minLevelHint = 22,
       pr_trainers = [(''Gentleman Tucker'', gym3_t0), (''Rocker Luca'', gym3_t1), (''Sailor Dwayne'', gym3_t2), (''Engineer Baily'', gym3_t3), (''Lt. Surge'', gym3_t4)]\<rparr>,
     \<lparr>pr_name = ''Celadon'', pr_leaderName = ''Erika'', pr_badgeName = ''Rainbow'', pr_minLevelHint = 26,
       pr_trainers = [(''Lass Michelle'', gym4_t0), (''Beauty Lola'', gym4_t1), (''Picnicker Tanya'', gym4_t2), (''Trainer Miranda'', gym4_t3), (''Erika'', gym4_t4)]\<rparr>,
     \<lparr>pr_name = ''Fuchsia'', pr_leaderName = ''Koga'', pr_badgeName = ''Soul'', pr_minLevelHint = 32,
       pr_trainers = [(''Juggler Nate'', gym5_t0), (''Tamer Edgar'', gym5_t1), (''Juggler Kirk'', gym5_t2), (''Ninja Shin'', gym5_t3), (''Koga'', gym5_t4)]\<rparr>,
     \<lparr>pr_name = ''Saffron'', pr_leaderName = ''Sabrina'', pr_badgeName = ''Marsh'', pr_minLevelHint = 36,
       pr_trainers = [(''Medium Martha'', gym6_t0), (''Channeler Abigail'', gym6_t1), (''Medium Grace'', gym6_t2), (''Psychic Rodney'', gym6_t3), (''Sabrina'', gym6_t4)]\<rparr>,
     \<lparr>pr_name = ''Cinnabar'', pr_leaderName = ''Blaine'', pr_badgeName = ''Volcano'', pr_minLevelHint = 42,
       pr_trainers = [(''Burglar Derek'', gym7_t0), (''Super Nerd Sam'', gym7_t1), (''Burglar Ramon'', gym7_t2), (''Super Nerd Zac'', gym7_t3), (''Blaine'', gym7_t4)]\<rparr>,
     \<lparr>pr_name = ''Viridian'', pr_leaderName = ''Giovanni'', pr_badgeName = ''Earth'', pr_minLevelHint = 47,
       pr_trainers = [(''Tough Guy Nick'', gym8_t0), (''Cooltrainer Leo'', gym8_t1), (''Tough Guy Shane'', gym8_t2), (''Cooltrainer Gwen'', gym8_t3), (''Giovanni'', gym8_t4)]\<rparr>]"

definition gauntletGymPreset :: "nat \<Rightarrow> GymPreset option" where
  "gauntletGymPreset idx = (if idx < GAUNTLET_GYM_COUNT then Some (GAUNTLET_GYMS ! idx) else None)"

subsection \<open>Default moves, Elite Four and pool of leaders\<close>

definition DEFAULT_MOVES :: "nat list list" where
  "DEFAULT_MOVES =
    [[33, 34, 98, 63],
     [2, 67, 66, 69],
     [17, 64, 65, 19],
     [40, 124, 123, 51],
     [89, 91, 28, 31],
     [88, 157, 89, 33],
     [17, 64, 65, 19],
     [42, 41, 141, 33],
     [122, 109, 101, 95],
     [52, 53, 126, 7],
     [55, 57, 56, 145],
     [22, 75, 76, 79],
     [84, 85, 87, 86],
     [93, 94, 95, 60],
     [58, 59, 62, 8],
     [82, 63, 21, 33]]"

definition E4_TABLE :: "(string \<times> (nat \<times> nat) list) list" where
  "E4_TABLE =
    [(''Lorelei'', [(87, 52), (91, 53), (80, 54), (124, 56), (91, 54), (131, 56)]),
     (''Bruno'', [(95, 53), (107, 55), (106, 55), (95, 56), (68, 58), (0, 0)]),
     (''Agatha'', [(94, 56), (42, 56), (93, 55), (24, 56), (94, 60), (0, 0)]),
     (''Lance'', [(130, 58), (148, 56), (142, 60), (149, 56), (149, 60), (6, 60)])]"

definition e4_lorelei :: "(nat \<times> nat) list" where
  "e4_lorelei = [(87, 52), (91, 53), (80, 54), (124, 56), (91, 54), (131, 56)]"

definition e4_bruno :: "(nat \<times> nat) list" where
  "e4_bruno = [(95, 53), (107, 55), (106, 55), (95, 56), (68, 58)]"

definition e4_agatha :: "(nat \<times> nat) list" where
  "e4_agatha = [(94, 56), (42, 56), (93, 55), (24, 56), (94, 60)]"

definition e4_lance :: "(nat \<times> nat) list" where
  "e4_lance = [(130, 58), (148, 56), (142, 60), (149, 56), (149, 60), (6, 60)]"

definition e4_gary :: "(nat \<times> nat) list" where
  "e4_gary = [(18, 61), (65, 59), (112, 61), (103, 61), (59, 63), (6, 65)]"

definition ELITE_POOL :: "ElitePoolEntry list" where
  "ELITE_POOL =
    [\<lparr>el_name = ''Lorelei'', el_party = e4_lorelei, el_bossLevel = 56, el_bossName = ''Lapras''\<rparr>,
     \<lparr>el_name = ''Bruno'', el_party = e4_bruno, el_bossLevel = 58, el_bossName = ''Machamp''\<rparr>,
     \<lparr>el_name = ''Agatha'', el_party = e4_agatha, el_bossLevel = 60, el_bossName = ''Gengar''\<rparr>,
     \<lparr>el_name = ''Lance'', el_party = e4_lance, el_bossLevel = 60, el_bossName = ''Dragonite''\<rparr>,
     \<lparr>el_name = ''Gary'', el_party = e4_gary, el_bossLevel = 65, el_bossName = ''Charizard''\<rparr>]"

definition kDefaultMoves :: "nat list list" where
  "kDefaultMoves =
    [[33, 34, 98, 63],
     [2, 67, 66, 69],
     [17, 64, 65, 19],
     [40, 124, 123, 51],
     [89, 91, 28, 31],
     [88, 157, 89, 33],
     [17, 64, 65, 19],
     [42, 41, 141, 33],
     [122, 109, 101, 95],
     [52, 53, 126, 7],
     [55, 57, 56, 145],
     [22, 75, 76, 79],
     [84, 85, 87, 86],
     [93, 94, 95, 60],
     [58, 59, 62, 8],
     [82, 63, 21, 33]]"

subsection \<open>Facts of the tables\<close>

text \<open>The comment of the header: the presets are those of the campaign.\<close>

definition presetOf :: "LordGym \<Rightarrow> GymPreset" where
  "presetOf g = \<lparr>pr_name = lg_city g, pr_leaderName = lg_leaderName g, pr_badgeName = lg_badgeName g,
     pr_minLevelHint = lg_minLevelHint g,
     pr_trainers = map (\<lambda>(n, ms). (n, map (\<lambda>m. pmon (gm_species m) (gm_level m) (gm_moves m)) ms)) (lg_trainers g)\<rparr>"

lemma presets_are_campaign: "GAUNTLET_GYMS = map presetOf LORD_GYMS"
  by code_simp

lemma default_moves_agree: "kDefaultMoves = DEFAULT_MOVES"
  by (simp add: kDefaultMoves_def DEFAULT_MOVES_def)

definition preset_mon_ok :: "GymPresetMon \<Rightarrow> bool" where
  "preset_mon_ok m \<longleftrightarrow> 1 \<le> pm_dex m \<and> pm_dex m \<le> 151 \<and> 1 \<le> pm_level m \<and> pm_level m \<le> 50
     \<and> length (pm_moves m) = 4 \<and> pm_moves m ! 0 \<noteq> 0 \<and> list_all (\<lambda>k. k < 256) (pm_moves m)"

definition preset_trainer_ok :: "GymPresetTrainer \<Rightarrow> bool" where
  "preset_trainer_ok t \<longleftrightarrow> fst t \<noteq> [] \<and> length (fst t) \<le> 17 \<and> 1 \<le> length (snd t) \<and> length (snd t) \<le> 6 \<and> list_all preset_mon_ok (snd t)"

definition preset_ok :: "GymPreset \<Rightarrow> bool" where
  "preset_ok g \<longleftrightarrow> length (pr_trainers g) = 5 \<and> list_all preset_trainer_ok (pr_trainers g)
     \<and> length (pr_name g) \<le> 9 \<and> pr_name g \<noteq> [] \<and> length (pr_leaderName g) \<le> 9 \<and> pr_leaderName g \<noteq> [] \<and> length (pr_badgeName g) \<le> 7"

lemma presets_ok: "list_all preset_ok GAUNTLET_GYMS" "length GAUNTLET_GYMS = 8"
  by code_simp+

lemma preset_trainer:
  assumes "g < 8" "t < 5"
  shows "preset_trainer_ok (pr_trainers (GAUNTLET_GYMS ! g) ! t)"
proof -
  have "preset_ok (GAUNTLET_GYMS ! g)" using presets_ok assms(1) by (simp add: list_all_length)
  then show ?thesis using assms(2) by (simp add: preset_ok_def list_all_length)
qed

definition elite_ok :: "ElitePoolEntry \<Rightarrow> bool" where
  "elite_ok e \<longleftrightarrow> el_name e \<noteq> [] \<and> length (el_name e) \<le> 7 \<and> 1 \<le> length (el_party e) \<and> length (el_party e) \<le> 6
     \<and> list_all (\<lambda>(d, l). 1 \<le> d \<and> d \<le> 151 \<and> 50 < l \<and> l \<le> el_bossLevel e) (el_party e) \<and> el_bossLevel e \<le> 65
     \<and> list_ex (\<lambda>(d, l). l = el_bossLevel e) (el_party e)"

lemma elite_all: "list_all elite_ok ELITE_POOL" "length ELITE_POOL = 5"
  by code_simp+

lemma elite_entry: "t < 5 \<Longrightarrow> elite_ok (ELITE_POOL ! t)"
  using elite_all by (simp add: list_all_length)

end
