(* ===== verification/GauntletTypes.thy ===== *)
theory GauntletTypes
  imports GauntletParty
begin

text \<open>
  The state of a gym station (\<^verbatim>\<open>gauntlet/GauntletData.h\<close>, \<^verbatim>\<open>gauntlet/GauntletModule.h\<close>) and what it
  keeps in files: the gym itself (\<^verbatim>\<open>gauntlet/GauntletStorage.cpp\<close>), one profile per challenger
  (\<^verbatim>\<open>gauntlet/GauntletProfile.cpp\<close>) and two logs of JSON lines (\<^verbatim>\<open>gauntlet/GauntletBBS.cpp\<close>).  A
  text in an array is the string before its terminator; \<open>ms\<close> is \<open>millis()\<close> and \<open>now\<close> is \<open>getTime()\<close>.
\<close>

subsection \<open>The gym\<close>

abbreviation (input) GAUNTLET_ROSTER_MAX :: nat where "GAUNTLET_ROSTER_MAX \<equiv> 12"
abbreviation (input) GAUNTLET_PREV_MAX :: nat where "GAUNTLET_PREV_MAX \<equiv> 4"
abbreviation (input) GAUNTLET_SESSION_MAX :: nat where "GAUNTLET_SESSION_MAX \<equiv> 4"
abbreviation (input) GAUNTLET_NAME_MAX :: nat where "GAUNTLET_NAME_MAX \<equiv> 16"
abbreviation (input) GAUNTLET_BADGE_MAX :: nat where "GAUNTLET_BADGE_MAX \<equiv> 16"
abbreviation (input) GAUNTLET_SESSION_TTL :: nat where "GAUNTLET_SESSION_TTL \<equiv> 600"
abbreviation (input) GAUNTLET_MAGIC :: nat where "GAUNTLET_MAGIC \<equiv> 0x47594D31"
abbreviation (input) GAUNTLET_VERSION :: nat where "GAUNTLET_VERSION \<equiv> 5"
abbreviation (input) NPC_NODE :: nat where "NPC_NODE \<equiv> 0xFFFFFFFE"

record GauntletTrainer =
  gt_nodeNum :: nat
  gt_name :: string
  gt_party :: Gen1Party
  gt_timestamp :: nat

definition noTrainer :: GauntletTrainer where
  "noTrainer = \<lparr>gt_nodeNum = 0, gt_name = [], gt_party = emptySaveParty, gt_timestamp = 0\<rparr>"

record GauntletState =
  gs_magic :: nat
  gs_version :: nat
  gs_nodeNum :: nat
  gs_gymName :: string
  gs_gymBadge :: string
  gs_leader :: GauntletTrainer
  gs_rosterSize :: nat
  gs_prevLeaderCount :: nat
  gs_roster :: "GauntletTrainer list"
  gs_prevLeaders :: "GauntletTrainer list"
  gs_totalChallenges :: nat
  gs_totalBattles :: nat
  gs_lastUpdate :: nat
  gs_gymPresetIdx :: nat
  gs_memberLevels :: "nat list"
  gs_adminNodeNum :: nat
  gs_autoEnabled :: nat
  gs_autoSlots :: "(nat \<times> nat) list"
  gs_autoLeaderLevel :: nat

datatype GauntletSessionState = GS_IDLE | GS_AWAIT_PARTY | GS_BATTLING

text \<open>Of a session no function reads more than these; the party is what a promotion records.\<close>

record GauntletSession =
  se_nodeNum :: nat
  se_state :: GauntletSessionState
  se_lastActivity :: nat
  se_party :: Gen1Party

definition zeroSession :: GauntletSession where
  "zeroSession = \<lparr>se_nodeNum = 0, se_state = GS_IDLE, se_lastActivity = 0, se_party = emptySaveParty\<rparr>"

record GauntletLadderProgress =
  la_nodeNum :: nat
  la_ladderIdx :: nat
  la_lastSeenMs :: nat

datatype AdminUi = ADM_OFF | ADM_MAIN | ADM_PICK_GYM | ADM_PICK_MEMBER | ADM_LEVEL_CHOICE | ADM_LEVEL_TENS | ADM_LEVEL_ONES
  | ADM_SUMMARY | ADM_RESET_CONFIRM | ADM_CLAIM_WINDOW | ADM_ADMIN_CLAIMED | ADM_WINDOW_CLOSED | ADM_SHOW_ADMIN

subsection \<open>Storage\<close>

definition gauntletInitDefaults :: "string \<Rightarrow> string \<Rightarrow> nat \<Rightarrow> nat \<Rightarrow> GauntletState" where
  "gauntletInitDefaults gymName badge node now =
     \<lparr>gs_magic = GAUNTLET_MAGIC, gs_version = GAUNTLET_VERSION, gs_nodeNum = node, gs_gymName = take (GAUNTLET_NAME_MAX - 1) gymName,
      gs_gymBadge = take (GAUNTLET_BADGE_MAX - 1) badge, gs_leader = noTrainer, gs_rosterSize = 0, gs_prevLeaderCount = 0,
      gs_roster = replicate GAUNTLET_ROSTER_MAX noTrainer, gs_prevLeaders = replicate GAUNTLET_PREV_MAX noTrainer,
      gs_totalChallenges = 0, gs_totalBattles = 0, gs_lastUpdate = now, gs_gymPresetIdx = 0xFF,
      gs_memberLevels = [0, 0, 0, 0, 0], gs_adminNodeNum = 0, gs_autoEnabled = 0,
      gs_autoSlots = [(0, 0), (0, 0), (0, 0), (0, 0), (0, 0)], gs_autoLeaderLevel = 0\<rparr>"

text \<open>
  The file is the memory of the struct: the number of bytes that could be read and the struct they make.  The
  struct has 7400 bytes; every pattern of bytes is one.
\<close>

abbreviation (input) GAUNTLET_STATE_BYTES :: nat where "GAUNTLET_STATE_BYTES \<equiv> 7400"

definition gauntletLoad :: "(nat \<times> GauntletState) option \<Rightarrow> string \<Rightarrow> string \<Rightarrow> nat \<Rightarrow> nat \<Rightarrow> bool \<times> GauntletState" where
  "gauntletLoad file defaultName defaultBadge node now =
     (case file of None \<Rightarrow> (False, gauntletInitDefaults defaultName defaultBadge node now)
      | Some (n, s) \<Rightarrow>
         (if n = GAUNTLET_STATE_BYTES \<and> gs_magic s = GAUNTLET_MAGIC \<and> gs_version s = GAUNTLET_VERSION \<and> gs_nodeNum s = node
          then (True, s) else (False, gauntletInitDefaults defaultName defaultBadge node now)))"

subsection \<open>Profiles\<close>

abbreviation (input) GAUNTLET_PROFILE_MAGIC :: nat where "GAUNTLET_PROFILE_MAGIC \<equiv> 0x47504631"
abbreviation (input) GAUNTLET_PROFILE_VERSION :: nat where "GAUNTLET_PROFILE_VERSION \<equiv> 1"

record GauntletProfile =
  pf_magic :: nat
  pf_version :: nat
  pf_nodeNum :: nat
  pf_name :: string
  pf_totalChallenges :: nat
  pf_totalWins :: nat
  pf_totalLosses :: nat
  pf_gymTitles :: nat
  pf_bestRank :: nat
  pf_reachedLeader :: nat
  pf_lastSeen :: nat
  pf_lastParty :: string

definition newProfile :: "nat \<Rightarrow> GauntletProfile" where
  "newProfile node = \<lparr>pf_magic = GAUNTLET_PROFILE_MAGIC, pf_version = GAUNTLET_PROFILE_VERSION, pf_nodeNum = node, pf_name = [],
     pf_totalChallenges = 0, pf_totalWins = 0, pf_totalLosses = 0, pf_gymTitles = 0, pf_bestRank = 0, pf_reachedLeader = 0,
     pf_lastSeen = 0, pf_lastParty = []\<rparr>"

text \<open>A file of another size is as none.\<close>

definition gauntletProfileLoad :: "GauntletProfile option \<Rightarrow> GauntletProfile option" where
  "gauntletProfileLoad file =
     (case file of None \<Rightarrow> None
      | Some p \<Rightarrow> if pf_magic p \<noteq> GAUNTLET_PROFILE_MAGIC \<or> pf_version p \<noteq> GAUNTLET_PROFILE_VERSION then None else Some p)"

record ProfileEvent =
  ev_challengeStarted :: bool
  ev_ranked :: bool
  ev_rankAchieved :: nat
  ev_becameLeader :: bool
  ev_reachedLeader :: bool

definition profileRank :: "ProfileEvent \<Rightarrow> nat \<Rightarrow> nat" where
  "profileRank e best =
     (if ev_becameLeader e then 1
      else if ev_ranked e \<and> ev_rankAchieved e > 0 then (if best = 0 \<or> ev_rankAchieved e < best then ev_rankAchieved e else best)
      else best)"

definition updatedProfile :: "string \<Rightarrow> string \<Rightarrow> ProfileEvent \<Rightarrow> nat \<Rightarrow> GauntletProfile \<Rightarrow> GauntletProfile" where
  "updatedProfile name partyCsv e now p =
     p\<lparr>pf_name := (if name \<noteq> [] then take (GAUNTLET_NAME_MAX - 1) name else pf_name p),
       pf_lastParty := (if partyCsv \<noteq> [] then take 63 partyCsv else pf_lastParty p),
       pf_totalChallenges := (if ev_challengeStarted e then u32 (pf_totalChallenges p + 1) else pf_totalChallenges p),
       pf_gymTitles := (if ev_becameLeader e then u8 (pf_gymTitles p + 1) else pf_gymTitles p),
       pf_totalWins := (if ev_becameLeader e then u32 (pf_totalWins p + 1) else pf_totalWins p),
       pf_totalLosses := (if \<not> ev_becameLeader e \<and> ev_ranked e then u32 (pf_totalLosses p + 1) else pf_totalLosses p),
       pf_reachedLeader := (if ev_reachedLeader e then 1 else pf_reachedLeader p),
       pf_bestRank := profileRank e (pf_bestRank p), pf_lastSeen := now\<rparr>"

subsection \<open>Logs\<close>

abbreviation (input) GAUNTLET_LOG_MAX_BYTES :: nat where "GAUNTLET_LOG_MAX_BYTES \<equiv> 32768"

text \<open>A file over the limit starts anew; one of exactly the limit is not read and lost as well.\<close>

definition appendJsonl :: "string \<Rightarrow> string \<Rightarrow> string" where
  "appendJsonl json file = (if length file < GAUNTLET_LOG_MAX_BYTES then file else []) @ json @ [CHR 0x0A]"

fun escapeJson :: "nat \<Rightarrow> string \<Rightarrow> string \<Rightarrow> string" where
  "escapeJson outLen [] out = out"
| "escapeJson outLen (c # cs) out =
     (if length out + 2 < outLen then
        (if c = CHR 0x22 \<or> c = CHR 0x5C then escapeJson outLen cs (out @ [CHR 0x5C, c])
         else if 32 \<le> (of_char c :: nat) then escapeJson outLen cs (out @ [c])
         else escapeJson outLen cs out)
      else out)"

definition quoted :: "string \<Rightarrow> string" where
  "quoted s = CHR 0x22 # s @ [CHR 0x22]"

definition jsonField :: "string \<Rightarrow> string \<Rightarrow> string" where
  "jsonField key val = quoted key @ '':'' @ val"

text \<open>The fields of a line, separated by commas, in braces.\<close>

fun commaSep :: "string list \<Rightarrow> string" where
  "commaSep [] = []"
| "commaSep [x] = x"
| "commaSep (x # xs) = x @ '','' @ commaSep xs"

definition jsonObject :: "string list \<Rightarrow> string" where
  "jsonObject fs = ''{'' @ commaSep fs @ ''}''"

definition leaderLine :: "GauntletState \<Rightarrow> nat \<Rightarrow> string \<Rightarrow> string \<Rightarrow> nat \<Rightarrow> string" where
  "leaderLine s node name partyCsv now = snprintf 260 (jsonObject
     [jsonField ''type'' (quoted ''leader''), jsonField ''ts'' (digits_of now), jsonField ''gym'' (quoted (escapeJson 24 (gs_gymName s) [])),
      jsonField ''badge'' (quoted (escapeJson 24 (gs_gymBadge s) [])), jsonField ''node'' (digits_of node),
      jsonField ''name'' (quoted (escapeJson 24 name [])), jsonField ''party'' (quoted (escapeJson 80 partyCsv []))])"

definition rosterLine :: "GauntletState \<Rightarrow> nat \<Rightarrow> string \<Rightarrow> nat \<Rightarrow> nat \<Rightarrow> string" where
  "rosterLine s node name rank now = snprintf 200 (jsonObject
     [jsonField ''type'' (quoted ''roster''), jsonField ''ts'' (digits_of now), jsonField ''gym'' (quoted (escapeJson 24 (gs_gymName s) [])),
      jsonField ''node'' (digits_of node), jsonField ''name'' (quoted (escapeJson 24 name [])), jsonField ''rank'' (digits_of rank)])"

definition messageLine :: "nat \<Rightarrow> string \<Rightarrow> string \<Rightarrow> nat \<Rightarrow> string" where
  "messageLine node name txt now = snprintf 260 (jsonObject
     [jsonField ''type'' (quoted ''msg''), jsonField ''ts'' (digits_of now), jsonField ''node'' (digits_of node),
      jsonField ''name'' (quoted (escapeJson 24 name [])), jsonField ''text'' (quoted (escapeJson 200 txt []))])"

subsection \<open>The module\<close>

text \<open>
  The object, the node database it reads (short names, the name of the device), the files, and what it has sent:
  text replies with their receiver, and binary packets with receiver and channel.
\<close>

record GauntletModule =
  gm_state :: GauntletState
  gm_sessions :: "GauntletSession list"
  gm_ladders :: "GauntletLadderProgress list"
  gm_adminClaimUntilMs :: nat
  gm_admUi :: AdminUi
  gm_admMainCursor :: nat
  gm_admGymIdx :: nat
  gm_admMemberIdx :: nat
  gm_admChoice :: nat
  gm_admTens :: nat
  gm_admOnes :: nat
  gm_admResetConfirm :: nat
  gm_admSummaryUntil :: nat
  gm_lastDrawMs :: nat
  gm_shortNames :: "nat \<Rightarrow> string option"
  gm_longName :: string
  gm_file :: "(nat \<times> GauntletState) option"
  gm_profiles :: "nat \<Rightarrow> GauntletProfile option"
  gm_records :: string
  gm_messages :: string
  gm_replies :: "(nat \<times> string) list"
  gm_sent :: "(nat \<times> nat \<times> nat list) list"

definition onState :: "(GauntletState \<Rightarrow> GauntletState) \<Rightarrow> GauntletModule \<Rightarrow> GauntletModule" where
  "onState f g = g\<lparr>gm_state := f (gm_state g)\<rparr>"

definition gauntletSave :: "GauntletModule \<Rightarrow> GauntletModule" where
  "gauntletSave g = g\<lparr>gm_file := Some (GAUNTLET_STATE_BYTES, gm_state g)\<rparr>"

definition gauntletProfileUpdate :: "nat \<Rightarrow> string \<Rightarrow> string \<Rightarrow> ProfileEvent \<Rightarrow> nat \<Rightarrow> GauntletModule \<Rightarrow> GauntletModule" where
  "gauntletProfileUpdate node name partyCsv e now g =
     (if node = 0 then g
      else
       (let p = (case gauntletProfileLoad (gm_profiles g node) of None \<Rightarrow> newProfile node | Some p \<Rightarrow> p)
        in g\<lparr>gm_profiles := (gm_profiles g)(pf_nodeNum p := Some (updatedProfile name partyCsv e now p))\<rparr>))"

text \<open>The name of a node, or its number in hexadecimal.\<close>

fun hexLower :: "nat \<Rightarrow> nat \<Rightarrow> string" where
  "hexLower 0 n = []"
| "hexLower (Suc k) n = hexLower k (n div 16) @ [''0123456789abcdef'' ! (n mod 16)]"

definition senderShortName :: "GauntletModule \<Rightarrow> nat \<Rightarrow> string" where
  "senderShortName g node =
     (case gm_shortNames g node of Some n \<Rightarrow> (if n \<noteq> [] then n else ''!'' @ hexLower 8 node) | None \<Rightarrow> ''!'' @ hexLower 8 node)"

text \<open>A reply is a text message of at most 233 bytes.\<close>

definition sendReply :: "nat \<Rightarrow> string \<Rightarrow> GauntletModule \<Rightarrow> GauntletModule" where
  "sendReply to txt g = (if txt = [] then g else g\<lparr>gm_replies := gm_replies g @ [(to, take 233 txt)]\<rparr>)"

end
