(* ===== verification/GauntletGym.thy ===== *)
theory GauntletGym
  imports GauntletTypes BattleWire
begin

text \<open>
  The gym station at work (\<^verbatim>\<open>gauntlet/GauntletModule.cpp\<close>): the automatic line-up, the administrator's
  settings, the sessions of text messages, the ladder every challenger climbs, promotion to leader, the packets of
  the terminals and the slide on the device.  The loops that draw are left out, as are the functions of the older
  protocol that need a \<open>NetBattle\<close>, which nothing creates.  \<open>getFrom\<close> reads a sender of 0 as the
  device itself.
\<close>

definition getFrom :: "nat \<Rightarrow> GauntletModule \<Rightarrow> nat" where
  "getFrom frm g = (if frm = 0 then gs_nodeNum (gm_state g) else frm)"

subsection \<open>The automatic line-up\<close>

type_synonym GruntRef = "nat \<times> nat \<times> nat"

definition gruntPool :: "GruntRef list" where
  "gruntPool = concat (map (\<lambda>g. map (\<lambda>t. (g, t, bossLevel (map pm_level (snd (pr_trainers (GAUNTLET_GYMS ! g) ! t))))) [0..<4]) [0..<8])"

text \<open>Each pick takes an entry out of the pool and moves the last one into its place.\<close>

fun pickGrunts :: "nat list \<Rightarrow> 'a list \<Rightarrow> 'a list" where
  "pickGrunts [] pool = []"
| "pickGrunts (r # rs) pool =
     (if pool = [] then []
      else let k = r mod length pool; n = length pool - 1
           in pool ! k # pickGrunts rs (take n (pool[k := pool ! n])))"

definition swapIf :: "nat \<Rightarrow> nat \<Rightarrow> GruntRef list \<Rightarrow> GruntRef list" where
  "swapIf i j xs = (if snd (snd (xs ! j)) < snd (snd (xs ! i)) then xs[i := xs ! j, j := xs ! i] else xs)"

definition sortGrunts :: "GruntRef list \<Rightarrow> GruntRef list" where
  "sortGrunts xs = fold (\<lambda>i. fold (swapIf i) [i + 1..<length xs]) [0..<length xs - 1] xs"

text \<open>Source, trainer and level of the leader a random number below 13 stands for.\<close>

definition pickLeader :: "nat \<Rightarrow> GruntRef" where
  "pickLeader k =
     (if k < 8 then (k, 4, bossLevel (map pm_level (snd (pr_trainers (GAUNTLET_GYMS ! k) ! 4))))
      else (8, k - 8, el_bossLevel (ELITE_POOL ! (k - 8))))"

definition npcLeader :: "string \<Rightarrow> Gen1Party \<Rightarrow> nat \<Rightarrow> GauntletTrainer" where
  "npcLeader name p now = \<lparr>gt_nodeNum = NPC_NODE, gt_name = take (GAUNTLET_NAME_MAX - 1) name, gt_party = p, gt_timestamp = now\<rparr>"

text \<open>\<open>rs\<close>: the five random numbers, four for the grunts and one for the leader.\<close>

definition autoSetup :: "nat list \<Rightarrow> nat \<Rightarrow> GauntletModule \<Rightarrow> GauntletModule" where
  "autoSetup rs now g =
     (let chosen = sortGrunts (pickGrunts (take 4 rs) gruntPool);
          (source, trainer, boss) = pickLeader (rs ! 4 mod 13);
          top = snd (snd (chosen ! 3));
          override = (if top > 0 \<and> boss > top then top else 0);
          (name, p) = (case autoLookupTrainer source trainer override of Some (n, b, p) \<Rightarrow> (n, p) | None \<Rightarrow> (''?'', emptySaveParty))
      in gauntletSave (onState (\<lambda>s. s\<lparr>gs_autoEnabled := 1,
           gs_autoSlots := map (\<lambda>(gy, t, b). (gy, t)) chosen @ [(source, trainer)],
           gs_autoLeaderLevel := override, gs_gymName := ''MonsterMesh Gym'', gs_gymBadge := ''Random Badge'',
           gs_leader := npcLeader name p now, gs_lastUpdate := now\<rparr>) g))"

subsection \<open>Settings of the administrator\<close>

definition gymAdminApply :: "nat \<Rightarrow> nat \<Rightarrow> nat \<Rightarrow> nat \<Rightarrow> GauntletModule \<Rightarrow> bool \<times> GauntletModule" where
  "gymAdminApply gymIdx memberIdx lvl now g =
     (if GAUNTLET_GYM_COUNT \<le> gymIdx \<or> 5 \<le> memberIdx \<or> 100 < lvl then (False, g)
      else
       (case gauntletGymPreset gymIdx of None \<Rightarrow> (False, g)
        | Some pr \<Rightarrow>
           (let g = onState (\<lambda>s. s\<lparr>gs_autoEnabled := 1, gs_autoSlots := (gs_autoSlots s)[memberIdx := (gymIdx, memberIdx)],
                      gs_memberLevels := (gs_memberLevels s)[memberIdx := lvl], gs_gymPresetIdx := 0xFF\<rparr>) g;
                g = (if memberIdx = GAUNTLET_GYM_LEADER_IDX
                     then onState (\<lambda>s. s\<lparr>gs_leader := npcLeader (fst (pr_trainers pr ! memberIdx))
                              (snd (gauntletBuildPresetTrainerParty gymIdx memberIdx lvl)) now,
                            gs_autoLeaderLevel := 0\<rparr>) g
                     else g)
            in (True, gauntletSave (onState (\<lambda>s. s\<lparr>gs_lastUpdate := now\<rparr>) g)))))"

definition resetConfig :: "nat \<Rightarrow> GauntletState \<Rightarrow> GauntletState" where
  "resetConfig now s = s\<lparr>gs_gymPresetIdx := 0xFF, gs_memberLevels := [0, 0, 0, 0, 0], gs_leader := noTrainer,
     gs_adminNodeNum := 0, gs_autoEnabled := 0, gs_gymName := ''Pallet Gym'', gs_gymBadge := ''Boulder Badge'', gs_lastUpdate := now\<rparr>"

abbreviation (input) ADMIN_CLAIM_WINDOW_MS :: nat where "ADMIN_CLAIM_WINDOW_MS \<equiv> 120000"

definition gymAdminResetAndOpenWindow :: "nat list \<Rightarrow> nat \<Rightarrow> nat \<Rightarrow> GauntletModule \<Rightarrow> GauntletModule" where
  "gymAdminResetAndOpenWindow rs ms now g =
     (autoSetup rs now (gauntletSave (onState (resetConfig now) g)))\<lparr>gm_adminClaimUntilMs := u32 (ms + ADMIN_CLAIM_WINDOW_MS)\<rparr>"

definition isAdminAuthorized :: "nat \<Rightarrow> nat \<Rightarrow> nat \<Rightarrow> GauntletModule \<Rightarrow> bool \<times> GauntletModule" where
  "isAdminAuthorized sender ms now g =
     (if sender = 0 then (False, g)
      else if gs_adminNodeNum (gm_state g) = sender then (True, g)
      else if gs_adminNodeNum (gm_state g) = 0 \<and> gm_adminClaimUntilMs g \<noteq> 0 \<and> ms < gm_adminClaimUntilMs g
      then (True, gauntletSave ((onState (\<lambda>s. s\<lparr>gs_adminNodeNum := sender, gs_lastUpdate := now\<rparr>) g)\<lparr>gm_adminClaimUntilMs := 0\<rparr>))
      else (False, g))"

subsection \<open>Sessions\<close>

definition newSession :: "nat \<Rightarrow> GauntletSession" where
  "newSession node = zeroSession\<lparr>se_nodeNum := node\<rparr>"

definition putSession :: "nat \<Rightarrow> GauntletSession \<Rightarrow> GauntletModule \<Rightarrow> GauntletModule" where
  "putSession i s g = g\<lparr>gm_sessions := (gm_sessions g)[i := s]\<rparr>"

text \<open>The idle session that was silent for longest.\<close>

definition oldestIdle :: "GauntletSession list \<Rightarrow> nat option" where
  "oldestIdle ss =
     fst (foldl (\<lambda>(k, ts) i. if se_state (ss ! i) = GS_IDLE \<and> se_lastActivity (ss ! i) < ts
                            then (Some i, se_lastActivity (ss ! i)) else (k, ts)) (None, 0xFFFFFFFF) [0..<length ss])"

definition getOrCreateSession :: "nat \<Rightarrow> GauntletModule \<Rightarrow> nat option \<times> GauntletModule" where
  "getOrCreateSession node g =
     (let ss = gm_sessions g in
      if node = 0 then (None, g)
      else
       (case find (\<lambda>i. se_nodeNum (ss ! i) = node) [0..<GAUNTLET_SESSION_MAX] of Some i \<Rightarrow> (Some i, g)
        | None \<Rightarrow>
           (case find (\<lambda>i. se_nodeNum (ss ! i) = 0) [0..<GAUNTLET_SESSION_MAX] of Some i \<Rightarrow> (Some i, putSession i (newSession node) g)
            | None \<Rightarrow>
               (case oldestIdle ss of None \<Rightarrow> (None, g) | Some i \<Rightarrow> (Some i, putSession i (newSession node) g)))))"

definition expireSessions :: "nat \<Rightarrow> GauntletModule \<Rightarrow> GauntletModule" where
  "expireSessions now g =
     (if now = 0 then g
      else g\<lparr>gm_sessions := map (\<lambda>s. if se_nodeNum s = 0 then s
                                    else if sub32 now (se_lastActivity s) > GAUNTLET_SESSION_TTL then zeroSession else s) (gm_sessions g)\<rparr>)"

text \<open>\<open>runOnce\<close>.\<close>

definition gymRunOnce :: "nat \<Rightarrow> GauntletModule \<Rightarrow> GauntletModule" where
  "gymRunOnce now g = expireSessions now g"

subsection \<open>The ladder of a challenger\<close>

abbreviation (input) LADDER_SLOTS :: nat where "LADDER_SLOTS \<equiv> 8"
abbreviation (input) LADDER_IDLE_MS :: nat where "LADDER_IDLE_MS \<equiv> 600000"

definition lookupLadder :: "nat \<Rightarrow> GauntletModule \<Rightarrow> nat option" where
  "lookupLadder node g = (if node = 0 then None else find (\<lambda>i. la_nodeNum (gm_ladders g ! i) = node) [0..<LADDER_SLOTS])"

definition expireLadders :: "nat \<Rightarrow> GauntletModule \<Rightarrow> GauntletModule" where
  "expireLadders ms g =
     g\<lparr>gm_ladders := map (\<lambda>l. if la_nodeNum l = 0 then l
                               else if sub32 ms (la_lastSeenMs l) > LADDER_IDLE_MS then l\<lparr>la_nodeNum := 0, la_ladderIdx := 0\<rparr> else l) (gm_ladders g)\<rparr>"

definition oldestLadder :: "GauntletLadderProgress list \<Rightarrow> nat" where
  "oldestLadder ls =
     fst (foldl (\<lambda>(k, ts) i. if la_lastSeenMs (ls ! i) < ts then (i, la_lastSeenMs (ls ! i)) else (k, ts)) (0, 0xFFFFFFFF) [0..<length ls])"

definition putLadder :: "nat \<Rightarrow> nat \<Rightarrow> nat \<Rightarrow> nat \<Rightarrow> GauntletModule \<Rightarrow> GauntletModule" where
  "putLadder i node idx ms g = g\<lparr>gm_ladders := (gm_ladders g)[i := \<lparr>la_nodeNum = node, la_ladderIdx = idx, la_lastSeenMs = ms\<rparr>]\<rparr>"

definition lookupOrInsertLadder :: "nat \<Rightarrow> nat \<Rightarrow> GauntletModule \<Rightarrow> nat option \<times> GauntletModule" where
  "lookupOrInsertLadder node ms g =
     (if node = 0 then (None, g)
      else
       (case lookupLadder node g of Some i \<Rightarrow> (Some i, g)
        | None \<Rightarrow>
           (let g = expireLadders ms g;
                i = (case find (\<lambda>i. la_nodeNum (gm_ladders g ! i) = 0) [0..<LADDER_SLOTS] of Some i \<Rightarrow> i | None \<Rightarrow> oldestLadder (gm_ladders g))
            in (Some i, putLadder i node 0 ms g))))"

text \<open>The parties served; \<open>out\<close> is what the caller's variable held before.\<close>

definition buildGymBattleParty :: "Gen1Party \<Rightarrow> GauntletState \<Rightarrow> Gen1Party" where
  "buildGymBattleParty out s =
     (if gt_nodeNum (gs_leader s) \<noteq> 0 \<and> gt_nodeNum (gs_leader s) \<noteq> NPC_NODE then gt_party (gs_leader s)
      else
       (let scale = gs_memberLevels s ! GAUNTLET_GYM_LEADER_IDX;
            scale = (if scale = 0 \<and> gs_autoLeaderLevel s \<noteq> 0 then gs_autoLeaderLevel s else scale);
            (source, trainer) = gs_autoSlots s ! GAUNTLET_GYM_LEADER_IDX;
            out = (if gs_autoEnabled s \<noteq> 0
                   then (case autoLookupTrainer source trainer scale of Some (n, b, p) \<Rightarrow> p | None \<Rightarrow> out) else out)
        in if gs_autoEnabled s \<noteq> 0 \<and> gp_count out \<noteq> 0 then out
           else if gp_count (gt_party (gs_leader s)) \<noteq> 0 then gt_party (gs_leader s)
           else snd (gauntletBuildE4Party 0)))"

definition buildLadderTrainerParty :: "Gen1Party \<Rightarrow> nat \<Rightarrow> GauntletState \<Rightarrow> Gen1Party" where
  "buildLadderTrainerParty out idx s =
     (if idx = GAUNTLET_GYM_LEADER_IDX then buildGymBattleParty out s
      else
       (let q = (if gs_autoEnabled s \<noteq> 0 \<and> idx < 5
                 then (case autoLookupTrainer (fst (gs_autoSlots s ! idx)) (snd (gs_autoSlots s ! idx)) (gs_memberLevels s ! idx) of
                         Some (n, b, p) \<Rightarrow> p | None \<Rightarrow> out)
                 else out)
        in if gs_autoEnabled s \<noteq> 0 \<and> idx < 5 \<and> gp_count q \<noteq> 0 then q else buildGymBattleParty q s))"

subsection \<open>Roster and leader\<close>

text \<open>Texts with a line feed.\<close>

definition nl :: string where
  "nl = [CHR 0x0A]"

definition trainerNow :: "nat \<Rightarrow> string \<Rightarrow> Gen1Party \<Rightarrow> nat \<Rightarrow> GauntletTrainer" where
  "trainerNow node name p now = \<lparr>gt_nodeNum = node, gt_name = take (GAUNTLET_NAME_MAX - 1) name, gt_party = p, gt_timestamp = now\<rparr>"

definition shiftInto :: "nat \<Rightarrow> nat \<Rightarrow> 'a \<Rightarrow> 'a list \<Rightarrow> 'a list" where
  "shiftInto rank hi t xs = (fold (\<lambda>i ys. ys[i := ys ! (i - 1)]) (rev [rank + 1..<hi + 1]) xs)[rank := t]"

definition insertAtRank :: "nat \<Rightarrow> Gen1Party \<Rightarrow> nat \<Rightarrow> nat \<Rightarrow> GauntletModule \<Rightarrow> GauntletModule" where
  "insertAtRank frm p rank now g =
     (let node = getFrom frm g; name = senderShortName g node;
          n = gs_rosterSize (gm_state g); rank = (if rank > n then n else rank);
          (cnt, hi) = (if n < GAUNTLET_ROSTER_MAX then (n + 1, n) else (n, GAUNTLET_ROSTER_MAX - 1));
          g = onState (\<lambda>s. s\<lparr>gs_rosterSize := cnt, gs_roster := shiftInto rank hi (trainerNow node name p now) (gs_roster s), gs_lastUpdate := now\<rparr>) g;
          g = sendReply node (snprintf 220 (fmtS ''You take Rank #%s! Everyone below shifts down. Defend it!'' [digits_of (rank + 1)])) g;
          csv = gauntletFormatParty p 64;
          g = gauntletProfileUpdate node (take 15 name) csv \<lparr>ev_challengeStarted = False, ev_ranked = True, ev_rankAchieved = u8 (rank + 1),
                ev_becameLeader = False, ev_reachedLeader = (rank = 0)\<rparr> now g;
          g = gauntletSave g
      in g\<lparr>gm_records := appendJsonl (rosterLine (gm_state g) node (take 15 name) (u8 (rank + 1)) now) (gm_records g)\<rparr>)"

definition archiveLeader :: "GauntletState \<Rightarrow> GauntletState" where
  "archiveLeader s =
     (if gt_nodeNum (gs_leader s) = 0 then s
      else
       (let n = gs_prevLeaderCount s; (cnt, hi) = (if n < GAUNTLET_PREV_MAX then (n + 1, n) else (n, GAUNTLET_PREV_MAX - 1))
        in s\<lparr>gs_prevLeaderCount := cnt, gs_prevLeaders := shiftInto 0 hi (gs_leader s) (gs_prevLeaders s)\<rparr>))"

definition championText :: "string \<Rightarrow> GauntletState \<Rightarrow> string \<Rightarrow> string" where
  "championText name s csv = snprintf 220
     (fmtS ''CHAMPION! %s is the new %s leader.'' [name, gs_gymName s] @ nl
      @ fmtS ''%s Badge earned. Party: %s'' [gs_gymBadge s, csv])"

definition promoteToLeader :: "nat \<Rightarrow> Gen1Party \<Rightarrow> nat \<Rightarrow> GauntletModule \<Rightarrow> GauntletModule" where
  "promoteToLeader frm p now g =
     (let node = getFrom frm g; name = senderShortName g node; csv = gauntletFormatParty p 64;
          g = onState (\<lambda>s. (archiveLeader s)\<lparr>gs_leader := trainerNow node name p now, gs_rosterSize := 0, gs_lastUpdate := now\<rparr>) g;
          g = sendReply node (championText name (gm_state g) csv) g;
          g = gauntletProfileUpdate node name csv \<lparr>ev_challengeStarted = False, ev_ranked = False, ev_rankAchieved = 0,
                ev_becameLeader = True, ev_reachedLeader = True\<rparr> now g;
          g = gauntletSave g
      in g\<lparr>gm_records := appendJsonl (leaderLine (gm_state g) node name csv now) (gm_records g)\<rparr>)"

subsection \<open>Packets\<close>

definition sendTo :: "nat \<Rightarrow> nat \<Rightarrow> nat list \<Rightarrow> GauntletModule \<Rightarrow> GauntletModule" where
  "sendTo to chan bytes g = g\<lparr>gm_sent := gm_sent g @ [(to, chan, bytes)]\<rparr>"

abbreviation (input) MM_CHANNEL :: nat where "MM_CHANNEL \<equiv> 1"

text \<open>A string with its length in front, as long as it fits.\<close>

definition pushStr :: "string \<Rightarrow> nat list \<Rightarrow> nat list" where
  "pushStr s out =
     (let len = (if u8 (length s) > 24 then 24 else u8 (length s))
      in if length out + 1 + len > BATTLELINK_MAX_PAYLOAD then out else out @ len # bytesOf (take len s))"

definition leaderName :: "GauntletState \<Rightarrow> string" where
  "leaderName s = (if gt_nodeNum (gs_leader s) \<noteq> 0 then gt_name (gs_leader s) else ''open'')"

definition sendBbsReply :: "nat \<Rightarrow> nat \<Rightarrow> GauntletModule \<Rightarrow> GauntletModule" where
  "sendBbsReply target chan g =
     (let s = gm_state g;
          pl = pushStr (leaderName s) (pushStr (gs_gymBadge s) (pushStr (gs_gymName s) []));
          pl = (if length pl < BATTLELINK_MAX_PAYLOAD then pl @ [gs_rosterSize s] else pl)
      in sendTo target chan (mkPacket BBS_REPLY 0 0 pl) g)"

text \<open>The 404 bytes of a party in memory, and its chunks.\<close>

definition savedMonBytes :: "Gen1Pokemon \<Rightarrow> nat list" where
  "savedMonBytes m = map unat
     ([sv_species m] @ sv_hp m @ [sv_boxLevel m, sv_status m, sv_type1 m, sv_type2 m, sv_catchRate m] @ sv_moves m @ sv_otId m
      @ sv_exp m @ sv_hpExp m @ sv_atkExp m @ sv_defExp m @ sv_spdExp m @ sv_spcExp m @ sv_dvs m @ sv_pp m @ [sv_level m]
      @ sv_maxHp m @ sv_atk m @ sv_def m @ sv_spd m @ sv_spc m)"

definition partyBytes :: "Gen1Party \<Rightarrow> nat list" where
  "partyBytes p = unat (gp_count p) # map unat (gp_species p) @ concat (map savedMonBytes (gp_mons p))
     @ map unat (concat (gp_otNames p)) @ map unat (concat (gp_nicknames p))"

abbreviation (input) PARTY_CHUNK :: nat where "PARTY_CHUNK \<equiv> 194"
abbreviation (input) GEN1_PARTY_BYTES :: nat where "GEN1_PARTY_BYTES \<equiv> 404"

definition partyChunks :: "nat \<Rightarrow> nat list \<Rightarrow> nat list list" where
  "partyChunks sid src =
     (let total = (GEN1_PARTY_BYTES + PARTY_CHUNK - 1) div PARTY_CHUNK
      in map (\<lambda>i. mkPacket TEXT_BATTLE_PARTY sid i ([i, total] @ take PARTY_CHUNK (drop (i * PARTY_CHUNK) src))) [0..<total])"

definition onFightRequest :: "nat \<Rightarrow> nat \<Rightarrow> Gen1Party \<Rightarrow> nat \<Rightarrow> GauntletModule \<Rightarrow> GauntletModule" where
  "onFightRequest frm sid stack ms g =
     (let (i, g) = lookupOrInsertLadder frm ms g;
          idx = (case i of Some k \<Rightarrow> la_ladderIdx (gm_ladders g ! k) | None \<Rightarrow> GAUNTLET_GYM_LEADER_IDX);
          g = (case i of Some k \<Rightarrow> putLadder k (la_nodeNum (gm_ladders g ! k)) idx ms g | None \<Rightarrow> g)
      in fold (\<lambda>pkt. sendTo frm MM_CHANNEL pkt) (partyChunks sid (partyBytes (buildLadderTrainerParty stack idx (gm_state g)))) g)"

text \<open>The monsters of a slot as they go over the air.\<close>

definition kMoves :: "nat \<Rightarrow> nat list" where
  "kMoves dex = (let t = (if 1 \<le> dex \<and> dex \<le> 151 then b1_type1 (GEN1_BASE_STATS ! dex) else 0)
                 in kDefaultMoves ! (if 16 \<le> t then 0 else t))"

definition buildSlot :: "GauntletState \<Rightarrow> nat \<Rightarrow> (nat \<times> nat \<times> nat list) list" where
  "buildSlot s idx =
     (if gs_autoEnabled s = 0 \<or> 5 \<le> idx then []
      else
       (let (source, trainer) = gs_autoSlots s ! idx; scaleTo = gs_memberLevels s ! idx;
            scaleTo = (if idx = GAUNTLET_GYM_LEADER_IDX \<and> scaleTo = 0 then gs_autoLeaderLevel s else scaleTo)
        in if source < GAUNTLET_GYM_COUNT then
             (case gauntletGymPreset source of None \<Rightarrow> []
              | Some pr \<Rightarrow>
                 (if 5 \<le> trainer then []
                  else
                   (let row = snd (pr_trainers pr ! trainer); canon = bossLevel (map pm_level row); canon = (if canon = 0 then 1 else canon)
                    in map (\<lambda>m. (pm_dex m, scaleLevel scaleTo canon (pm_level m),
                                  if list_ex (\<lambda>k. k \<noteq> 0) (pm_moves m) then pm_moves m else kMoves (pm_dex m)))
                         (take 6 (filter (\<lambda>m. pm_dex m \<noteq> 0) row)))))
           else if source = 8 \<and> trainer < 5 then
             (let e = ELITE_POOL ! trainer; canon = (if el_bossLevel e \<noteq> 0 then el_bossLevel e else 1)
              in map (\<lambda>(d, l). (d, scaleLevel scaleTo canon l, kMoves d)) (take 6 (el_party e)))
           else []))"

definition trainerName :: "GauntletState \<Rightarrow> nat \<Rightarrow> string" where
  "trainerName s idx =
     (if gs_autoEnabled s = 0 \<or> 5 \<le> idx then ''?''
      else
       (let (source, trainer) = gs_autoSlots s ! idx
        in if source < GAUNTLET_GYM_COUNT then
             (case gauntletGymPreset source of None \<Rightarrow> ''?'' | Some pr \<Rightarrow> if 5 \<le> trainer then ''?'' else fst (pr_trainers pr ! trainer))
           else if source = 8 \<and> trainer < 5 then el_name (ELITE_POOL ! trainer) else ''?''))"

fun namesSection :: "string list \<Rightarrow> nat list \<Rightarrow> nat list" where
  "namesSection [] out = out"
| "namesSection (nm # nms) out =
     (let n = (if length nm > 16 then 16 else length nm)
      in if length out + 1 + n > BATTLELINK_MAX_PAYLOAD then out else namesSection nms (out @ n # bytesOf (take n nm)))"

definition ladderNames :: "GauntletState \<Rightarrow> nat list" where
  "ladderNames s =
     (let out = namesSection (map (trainerName s) [0..<5]) [5];
          gn = take 16 (gs_gymName s); gb = take 16 (gs_gymBadge s)
      in if length out + 2 + length gn + length gb \<le> BATTLELINK_MAX_PAYLOAD
         then out @ [length gn] @ bytesOf gn @ [length gb] @ bytesOf gb else out)"

definition monWire :: "nat \<times> nat \<times> nat list \<Rightarrow> nat list" where
  "monWire m = (case m of (d, l, ms) \<Rightarrow> [d, l, ms ! 0, ms ! 1, ms ! 2, ms ! 3])"

fun partiesSection :: "(nat \<times> nat \<times> nat list) list list \<Rightarrow> nat list \<Rightarrow> nat list" where
  "partiesSection [] out = out"
| "partiesSection (ms # mss) out =
     (if length out + 1 + length ms * 6 > BATTLELINK_MAX_PAYLOAD then out
      else partiesSection mss (out @ length ms # concat (map monWire ms)))"

definition ladderParties :: "GauntletState \<Rightarrow> nat list" where
  "ladderParties s = partiesSection (map (buildSlot s) [0..<5]) [5]"

definition onLadderRequest :: "nat \<Rightarrow> nat \<Rightarrow> GauntletModule \<Rightarrow> GauntletModule" where
  "onLadderRequest frm sid g =
     sendTo frm MM_CHANNEL (mkPacket BBS_LADDER_PARTIES sid 1 (ladderParties (gm_state g)))
       (sendTo frm MM_CHANNEL (mkPacket BBS_LADDER_NAMES sid 0 (ladderNames (gm_state g))) g)"

text \<open>The name a result carries, or the short name of its sender.\<close>

definition resultName :: "nat \<Rightarrow> nat list \<Rightarrow> GauntletModule \<Rightarrow> string" where
  "resultName frm pl g =
     (let len = (if length pl < 2 then 0 else min (pl ! 1) (length pl - 2));
          len = (if GAUNTLET_NAME_MAX \<le> len then GAUNTLET_NAME_MAX - 1 else len);
          name = cstr (take len (drop 2 pl))
      in if name = [] then take (GAUNTLET_NAME_MAX - 1) (senderShortName g frm) else name)"

definition countBattle :: "bool \<Rightarrow> GauntletState \<Rightarrow> GauntletState" where
  "countBattle challenge s = s\<lparr>gs_totalBattles := u32 (gs_totalBattles s + 1),
     gs_totalChallenges := (if challenge then u32 (gs_totalChallenges s + 1) else gs_totalChallenges s)\<rparr>"

definition restartLadder :: "nat option \<Rightarrow> nat \<Rightarrow> nat \<Rightarrow> GauntletModule \<Rightarrow> GauntletModule" where
  "restartLadder i idx ms g = (case i of Some k \<Rightarrow> putLadder k (la_nodeNum (gm_ladders g ! k)) idx ms g | None \<Rightarrow> g)"

definition fightEvent :: "bool \<Rightarrow> ProfileEvent" where
  "fightEvent won = \<lparr>ev_challengeStarted = True, ev_ranked = False, ev_rankAchieved = 0, ev_becameLeader = won, ev_reachedLeader = won\<rparr>"

definition onFightResult :: "nat \<Rightarrow> nat list \<Rightarrow> nat \<Rightarrow> nat \<Rightarrow> GauntletModule \<Rightarrow> GauntletModule" where
  "onFightResult frm pl ms now g =
     (if pl = [] then g
      else
       (let name = resultName frm pl g; won = (pl ! 0 = 1);
            (i, g) = lookupOrInsertLadder frm ms g;
            idx = (case i of Some k \<Rightarrow> la_ladderIdx (gm_ladders g ! k) | None \<Rightarrow> GAUNTLET_GYM_LEADER_IDX)
        in if won \<and> idx < GAUNTLET_GYM_LEADER_IDX then
             gauntletSave (onState (countBattle False) (restartLadder i (u8 (idx + 1)) ms g))
           else if won then
             (let p = buildGymBattleParty emptySaveParty (gm_state g);
                  g = promoteToLeader frm p now g;
                  g = gauntletProfileUpdate frm name (gauntletFormatParty p 64) (fightEvent True) now g
              in gauntletSave (onState (countBattle True) (restartLadder i 0 ms g)))
           else
             gauntletSave (onState (countBattle True) (restartLadder i 0 ms
               (gauntletProfileUpdate frm name [] (fightEvent False) now g)))))"

definition handleBattlePacket :: "nat \<Rightarrow> nat \<Rightarrow> nat list \<Rightarrow> Gen1Party \<Rightarrow> nat \<Rightarrow> nat \<Rightarrow> GauntletModule \<Rightarrow> GauntletModule" where
  "handleBattlePacket frm chan bytes stack ms now g =
     (if length bytes < BATTLELINK_HDR_SIZE then g
      else
       (let pkt = overlay bytes in
        case pktType (pk_type pkt) of
          Some BBS_PING \<Rightarrow> sendBbsReply frm chan g
        | Some BBS_FIGHT_REQUEST \<Rightarrow> onFightRequest frm (sessionId pkt) stack ms g
        | Some BBS_LADDER_REQUEST \<Rightarrow> onLadderRequest frm (sessionId pkt) g
        | Some BBS_FIGHT_RESULT \<Rightarrow> onFightResult frm (pk_payload pkt) ms now g
        | _ \<Rightarrow> g))"

subsection \<open>The slide on the device\<close>

datatype InputEvent = INPUT_BROKER_SELECT | INPUT_BROKER_USER_PRESS | OtherInput

definition admEnter :: "GauntletModule \<Rightarrow> GauntletModule" where
  "admEnter g = g\<lparr>gm_admUi := ADM_MAIN, gm_admMainCursor := 0, gm_admGymIdx := 0, gm_admMemberIdx := 0, gm_admChoice := 0,
     gm_admTens := 0, gm_admOnes := 0, gm_admResetConfirm := 0, gm_admSummaryUntil := 0\<rparr>"

definition admExit :: "GauntletModule \<Rightarrow> GauntletModule" where
  "admExit g = g\<lparr>gm_admUi := ADM_OFF, gm_admSummaryUntil := 0\<rparr>"

definition admShortPress :: "GauntletModule \<Rightarrow> GauntletModule" where
  "admShortPress g =
     (case gm_admUi g of
        ADM_MAIN \<Rightarrow> g\<lparr>gm_admMainCursor := (gm_admMainCursor g + 1) mod 4\<rparr>
      | ADM_PICK_GYM \<Rightarrow> g\<lparr>gm_admGymIdx := (gm_admGymIdx g + 1) mod 8\<rparr>
      | ADM_PICK_MEMBER \<Rightarrow> g\<lparr>gm_admMemberIdx := (gm_admMemberIdx g + 1) mod 6\<rparr>
      | ADM_LEVEL_CHOICE \<Rightarrow> g\<lparr>gm_admChoice := (gm_admChoice g + 1) mod 2\<rparr>
      | ADM_LEVEL_TENS \<Rightarrow> g\<lparr>gm_admTens := (gm_admTens g + 1) mod 10\<rparr>
      | ADM_LEVEL_ONES \<Rightarrow> g\<lparr>gm_admOnes := (gm_admOnes g + 1) mod 10\<rparr>
      | ADM_RESET_CONFIRM \<Rightarrow> g\<lparr>gm_admResetConfirm := (gm_admResetConfirm g + 1) mod 2\<rparr>
      | ADM_CLAIM_WINDOW \<Rightarrow> g
      | ADM_OFF \<Rightarrow> g
      | _ \<Rightarrow> admExit g)"

definition admApplyAndShowSummary :: "nat \<Rightarrow> nat \<Rightarrow> GauntletModule \<Rightarrow> GauntletModule" where
  "admApplyAndShowSummary ms now g =
     (let lvl = (if gm_admChoice g = 1 then clampLevel (int (gm_admTens g * 10 + gm_admOnes g)) else 0)
      in (snd (gymAdminApply (gm_admGymIdx g) (gm_admMemberIdx g) lvl now g))\<lparr>gm_admUi := ADM_SUMMARY, gm_admSummaryUntil := u32 (ms + 4000)\<rparr>)"

definition admLongPress :: "nat list \<Rightarrow> nat \<Rightarrow> nat \<Rightarrow> GauntletModule \<Rightarrow> GauntletModule" where
  "admLongPress rs ms now g =
     (case gm_admUi g of
        ADM_MAIN \<Rightarrow>
          (if gm_admMainCursor g = 0 then g\<lparr>gm_admUi := ADM_PICK_MEMBER, gm_admMemberIdx := 0\<rparr>
           else if gm_admMainCursor g = 1 then g\<lparr>gm_admUi := ADM_SHOW_ADMIN, gm_admSummaryUntil := u32 (ms + 6000)\<rparr>
           else if gm_admMainCursor g = 2 then g\<lparr>gm_admUi := ADM_RESET_CONFIRM, gm_admResetConfirm := 0\<rparr>
           else admExit g)
      | ADM_PICK_MEMBER \<Rightarrow>
          (if gm_admMemberIdx g = 5 then g\<lparr>gm_admUi := ADM_MAIN\<rparr> else g\<lparr>gm_admUi := ADM_PICK_GYM, gm_admGymIdx := 0\<rparr>)
      | ADM_PICK_GYM \<Rightarrow> g\<lparr>gm_admUi := ADM_LEVEL_CHOICE, gm_admChoice := 0\<rparr>
      | ADM_LEVEL_CHOICE \<Rightarrow>
          (if gm_admChoice g = 0 then admApplyAndShowSummary ms now g
           else g\<lparr>gm_admUi := ADM_LEVEL_TENS, gm_admTens := 0, gm_admOnes := 0\<rparr>)
      | ADM_LEVEL_TENS \<Rightarrow> g\<lparr>gm_admUi := ADM_LEVEL_ONES\<rparr>
      | ADM_LEVEL_ONES \<Rightarrow> admApplyAndShowSummary ms now g
      | ADM_RESET_CONFIRM \<Rightarrow>
          (if gm_admResetConfirm g = 1
           then (gymAdminResetAndOpenWindow rs ms now g)\<lparr>gm_admUi := ADM_CLAIM_WINDOW, gm_admSummaryUntil := 0\<rparr>
           else g\<lparr>gm_admUi := ADM_MAIN\<rparr>)
      | ADM_OFF \<Rightarrow> g
      | _ \<Rightarrow> admExit g)"

definition handleInputEvent :: "InputEvent \<Rightarrow> nat list \<Rightarrow> nat \<Rightarrow> nat \<Rightarrow> GauntletModule \<Rightarrow> GauntletModule" where
  "handleInputEvent ev rs ms now g =
     (if gm_lastDrawMs g = 0 \<or> sub32 ms (gm_lastDrawMs g) > 3000 then g
      else if gm_admUi g \<noteq> ADM_OFF then
        (case ev of INPUT_BROKER_SELECT \<Rightarrow> admLongPress rs ms now g | INPUT_BROKER_USER_PRESS \<Rightarrow> admShortPress g | OtherInput \<Rightarrow> g)
      else if ev = INPUT_BROKER_SELECT then admEnter g else g)"

text \<open>What drawing a frame does to the slide.\<close>

definition drawTimeouts :: "nat \<Rightarrow> GauntletModule \<Rightarrow> GauntletModule" where
  "drawTimeouts ms g =
     (let over = (\<lambda>g. gm_admSummaryUntil g \<noteq> 0 \<and> gm_admSummaryUntil g \<le> ms);
          g = (if gm_admUi g = ADM_SUMMARY \<and> over g then admExit g else g);
          g = (if gm_admUi g = ADM_CLAIM_WINDOW then
                 (if gs_adminNodeNum (gm_state g) \<noteq> 0 then g\<lparr>gm_admUi := ADM_ADMIN_CLAIMED, gm_admSummaryUntil := u32 (ms + 10000)\<rparr>
                  else if gm_adminClaimUntilMs g = 0 \<or> gm_adminClaimUntilMs g \<le> ms
                  then g\<lparr>gm_admUi := ADM_WINDOW_CLOSED, gm_admSummaryUntil := u32 (ms + 10000)\<rparr> else g)
               else g);
          g = (if (gm_admUi g = ADM_WINDOW_CLOSED \<or> gm_admUi g = ADM_ADMIN_CLAIMED) \<and> over g then admExit g else g)
      in if gm_admUi g = ADM_SHOW_ADMIN \<and> over g then admExit g else g)"

definition drawFrame :: "nat \<Rightarrow> GauntletModule \<Rightarrow> GauntletModule" where
  "drawFrame ms g =
     (let g = g\<lparr>gm_lastDrawMs := ms\<rparr> in if gm_admUi g \<noteq> ADM_OFF then drawTimeouts ms g else g)"

subsection \<open>The start of the device\<close>

definition newLadder :: GauntletLadderProgress where
  "newLadder = \<lparr>la_nodeNum = 0, la_ladderIdx = 0, la_lastSeenMs = 0\<rparr>"

definition bootGym :: "GauntletModule \<Rightarrow> nat \<Rightarrow> nat list \<Rightarrow> nat \<Rightarrow> nat \<Rightarrow> GauntletModule" where
  "bootGym files node rs ms now =
     (let (ok, s) = gauntletLoad (gm_file files) ''Pallet Gym'' ''Boulder Badge'' node now;
          g = files\<lparr>gm_state := s, gm_sessions := replicate GAUNTLET_SESSION_MAX zeroSession, gm_ladders := replicate LADDER_SLOTS newLadder,
                gm_adminClaimUntilMs := 0, gm_admUi := ADM_OFF, gm_admMainCursor := 0, gm_admGymIdx := 0, gm_admMemberIdx := 0,
                gm_admChoice := 0, gm_admTens := 0, gm_admOnes := 0, gm_admResetConfirm := 0, gm_admSummaryUntil := 0,
                gm_lastDrawMs := 0, gm_replies := [], gm_sent := []\<rparr>;
          g = (if ok then g else gauntletSave g);
          g = (if gs_adminNodeNum (gm_state g) = 0 then g\<lparr>gm_adminClaimUntilMs := u32 (ms + ADMIN_CLAIM_WINDOW_MS)\<rparr> else g)
      in if gs_adminNodeNum (gm_state g) = 0 \<and> GAUNTLET_GYM_COUNT \<le> gs_gymPresetIdx (gm_state g) \<and> gs_autoEnabled (gm_state g) = 0
         then autoSetup rs now g else g)"

end
