(* ===== verification/GauntletAdmin.thy ===== *)
theory GauntletAdmin
  imports GauntletGym
begin

text \<open>
  The text messages a gym station understands (\<open>handleReceived\<close> and \<open>handleCommand\<close> of
  \<^verbatim>\<open>gauntlet/GauntletModule.cpp\<close>): the menus for players, and the commands of the administrator with their
  access check.  A listing that grows line by line while it is short enough is \<open>addLines\<close>; no format of the
  source starts beyond its buffer, so a text is the whole of it, cut to the buffer.
\<close>

abbreviation (input) REPLY_MAX :: nat where "REPLY_MAX \<equiv> 220"

subsection \<open>Texts\<close>

definition emDash :: string where
  "emDash = [CHR 0xE2, CHR 0x80, CHR 0x94]"

definition inQuotes :: "string \<Rightarrow> string" where
  "inQuotes s = CHR 0x27 # s @ [CHR 0x27]"

definition addLines :: "nat \<Rightarrow> string list \<Rightarrow> string \<Rightarrow> string" where
  "addLines room pieces txt = foldl (\<lambda>t p. if length t + room < REPLY_MAX then t @ p else t) txt pieces"

definition padTo :: "nat \<Rightarrow> string \<Rightarrow> string" where
  "padTo n s = s @ replicate (n - length s) CHR '' ''"

definition skipWord :: "string \<Rightarrow> string" where
  "skipWord s = skipBlanks (dropWhile (\<lambda>c. \<not> isBlank c) s)"

definition gymOrDeviceName :: "GauntletModule \<Rightarrow> string" where
  "gymOrDeviceName g =
     (if gs_gymName (gm_state g) \<noteq> [] then gs_gymName (gm_state g)
      else if gm_longName g \<noteq> [] then gm_longName g else ''MonsterMesh Gym'')"

subsection \<open>What a player can ask\<close>

definition openOr :: "string \<Rightarrow> GauntletState \<Rightarrow> string" where
  "openOr alt s = (if gt_nodeNum (gs_leader s) \<noteq> 0 then gt_name (gs_leader s) else alt)"

definition pingText :: "GauntletState \<Rightarrow> string" where
  "pingText s = snprintf 120 (fmtS ''GYM:%s|%s|%s|%s'' [gs_gymName s, gs_gymBadge s, openOr ''open'' s, digits_of (gs_rosterSize s)])"

definition statusText :: "GauntletState \<Rightarrow> string" where
  "statusText s = snprintf REPLY_MAX
     (fmtS ''%s [%s]'' [gs_gymName s, gs_gymBadge s] @ nl @ fmtS ''Leader: %s'' [openOr ''(open)'' s] @ nl
      @ fmtS ''Roster: %s  Prev: %s  Battles: %s'' [digits_of (gs_rosterSize s), digits_of (gs_prevLeaderCount s), digits_of (gs_totalBattles s)] @ nl
      @ ''Send '' @ inQuotes ''gym challenge'' @ '' to fight.'')"

definition challengeText :: string where
  "challengeText = ''Battles run on MonsterMesh Terminal.'' @ nl @ ''On a T-Deck: type `bbs`, then `bbs fight N` to fight this gym.''"

definition rosterText :: "GauntletState \<Rightarrow> string" where
  "rosterText s =
     (let t = fmtS ''-- %s ladder --'' [gs_gymName s] @ nl;
          t = t @ (if gt_nodeNum (gs_leader s) \<noteq> 0
                   then fmtS ''LEADER %s: %s'' [gt_name (gs_leader s), gauntletFormatParty (gt_party (gs_leader s)) 40] @ nl
                   else ''LEADER: (open)'' @ nl);
          t = addLines 16 (map (\<lambda>i. fmtS ''#%s %s'' [digits_of (i + 1), gt_name (gs_roster s ! i)] @ nl) [0..<min 5 (gs_rosterSize s)]) t
      in snprintf REPLY_MAX (if gs_rosterSize s > 5 then t @ fmtS ''...+%s more'' [digits_of (gs_rosterSize s - 5)] else t))"

definition leaderText :: "GauntletState \<Rightarrow> string" where
  "leaderText s =
     (if gt_nodeNum (gs_leader s) = 0 then ''No leader yet '' @ emDash @ '' claim the title!''
      else snprintf REPLY_MAX (fmtS ''Leader: %s'' [gt_name (gs_leader s)] @ nl
             @ fmtS ''Party: %s'' [gauntletFormatParty (gt_party (gs_leader s)) 64]))"

definition recordsText :: "GauntletState \<Rightarrow> string" where
  "recordsText s =
     (if gs_prevLeaderCount s = 0 then ''No previous leaders on record.''
      else snprintf REPLY_MAX (addLines 24
             (map (\<lambda>i. let t = gs_prevLeaders s ! i in fmtS ''%s: %s'' [gt_name t, gauntletFormatParty (gt_party t) 32] @ nl) [0..<gs_prevLeaderCount s])
             (''-- Hall of Champions --'' @ nl)))"

definition rankText :: "GauntletProfile \<Rightarrow> string" where
  "rankText p =
     (if pf_bestRank p = 0 then ''n/a''
      else if pf_bestRank p = 1 \<and> pf_gymTitles p > 0 then ''LEADER''
      else ''#'' @ digits_of (pf_bestRank p))"

definition profileText :: "nat \<Rightarrow> GauntletModule \<Rightarrow> string" where
  "profileText who g =
     (case gauntletProfileLoad (gm_profiles g who) of None \<Rightarrow> ''No profile yet '' @ emDash @ '' challenge the gym!''
      | Some p \<Rightarrow> snprintf REPLY_MAX
          (fmtS ''%s @ %s'' [if pf_name p \<noteq> [] then pf_name p else senderShortName g who, gs_gymName (gm_state g)] @ nl
           @ fmtS ''Chall: %s  W: %s  L: %s'' [digits_of (pf_totalChallenges p), digits_of (pf_totalWins p), digits_of (pf_totalLosses p)] @ nl
           @ fmtS ''Best rank: %s  Titles: %s'' [rankText p, digits_of (pf_gymTitles p)]))"

definition helpText :: "GauntletModule \<Rightarrow> string" where
  "helpText g = snprintf REPLY_MAX
     (fmtS ''== %s =='' [gymOrDeviceName g] @ nl @ ''challenge    start fight'' @ nl @ ''leader       current leader'' @ nl
      @ ''roster       ladder'' @ nl @ ''records      past leaders'' @ nl @ ''profile      your stats'' @ nl
      @ ''msg <text>   post to board'' @ nl @ ''help         this menu'' @ nl @ ''admin help   admin commands'')"

definition postMessage :: "nat \<Rightarrow> string \<Rightarrow> nat \<Rightarrow> GauntletModule \<Rightarrow> GauntletModule" where
  "postMessage who txt now g =
     (let body = skipBlanks txt in
      if body = [] then sendReply who ''Usage: gym msg <your text>'' g
      else sendReply who ''Message posted to gym board.''
             (g\<lparr>gm_messages := appendJsonl (messageLine who (senderShortName g who) body now) (gm_messages g)\<rparr>))"

subsection \<open>What the administrator can ask\<close>

definition numbered :: "nat \<Rightarrow> string \<Rightarrow> string" where
  "numbered i s = digits_of (i + 1) @ s"

definition adminHelp :: "nat \<Rightarrow> GauntletModule \<Rightarrow> string" where
  "adminHelp ms g =
     (let s = gm_state g; upto = gm_adminClaimUntilMs g;
          t = ''== '' @ gymOrDeviceName g @ '' '' @ emDash @ '' Admin =='' @ nl @ ''  set [N M L]    one member'' @ nl
              @ ''  gym [N L]      whole gym'' @ nl @ ''  name <text>    rename gym'' @ nl @ ''  badge <text>   set badge'' @ nl
              @ ''  reset          drop admin'' @ nl @ ''  help/list      this menu'' @ nl @ ''Gyms:'' @ nl;
          t = addLines 24 (map (\<lambda>i. numbered i ''.'' @ pr_name (GAUNTLET_GYMS ! i) @ '' '') [0..<GAUNTLET_GYM_COUNT]) t;
          status = nl @ (if gs_adminNodeNum s \<noteq> 0 then ''Admin: 0x'' @ hexLower 8 (gs_adminNodeNum s)
                         else if upto \<noteq> 0 \<and> ms < upto then fmtS ''Claim window: %ss left'' [digits_of ((upto - ms) div 1000)]
                         else ''Admin: none '' @ emDash @ '' reboot to claim'')
      in snprintf REPLY_MAX (if length t < REPLY_MAX - 1 then t @ status else t))"

definition notAuthorizedText :: string where
  "notAuthorizedText = ''Admin not authorized. Use the on-device'' @ nl @ ''Reset Admin menu, then send `admin set`'' @ nl @ ''within 120s to claim.''"

definition claimedText :: "nat \<Rightarrow> string" where
  "claimedText node = snprintf 160 (''** Admin claimed by 0x'' @ hexLower 8 node @ '' **'' @ nl
     @ ''Send `admin set` again for the wizard,'' @ nl @ ''or `admin help` for commands.'')"

definition adminReset :: "nat list \<Rightarrow> nat \<Rightarrow> nat \<Rightarrow> nat \<Rightarrow> GauntletModule \<Rightarrow> GauntletModule" where
  "adminReset rs to ms now g =
     sendReply to (''Admin dropped, preset cleared.'' @ nl @ ''120s claim window OPEN '' @ emDash @ '' first node to send'' @ nl
                   @ ''`admin set` becomes the new admin.'')
       ((autoSetup rs now (gauntletSave (onState (resetConfig now) g)))\<lparr>gm_adminClaimUntilMs := u32 (ms + ADMIN_CLAIM_WINDOW_MS)\<rparr>)"

definition adminName :: "string \<Rightarrow> nat \<Rightarrow> nat \<Rightarrow> GauntletModule \<Rightarrow> GauntletModule" where
  "adminName txt to now g =
     (let p = skipBlanks txt in
      if p = [] then sendReply to ''Usage: admin name <text>'' g
      else
       (let g = gauntletSave (onState (\<lambda>s. s\<lparr>gs_gymName := take (GAUNTLET_NAME_MAX - 1) p, gs_lastUpdate := now\<rparr>) g)
        in sendReply to (snprintf 80 (fmtS ''Gym renamed to: %s'' [gs_gymName (gm_state g)])) g))"

definition adminBadge :: "string \<Rightarrow> nat \<Rightarrow> nat \<Rightarrow> GauntletModule \<Rightarrow> GauntletModule" where
  "adminBadge txt to now g =
     (let p = skipBlanks txt in
      if p = [] then sendReply to ''Usage: admin badge <text>'' g
      else
       (let g = gauntletSave (onState (\<lambda>s. s\<lparr>gs_gymBadge := take (GAUNTLET_BADGE_MAX - 1) p, gs_lastUpdate := now\<rparr>) g)
        in sendReply to (snprintf 80 (fmtS ''Badge set to: %s'' [gs_gymBadge (gm_state g)])) g))"

text \<open>A level typed by the administrator: \<open>None\<close> is refused, 0 is the level of the table.\<close>

definition typedLevel :: "string \<Rightarrow> nat option" where
  "typedLevel p =
     (if ciPrefix ''stock'' p then Some 0
      else let lv = atoi p in if lv < 1 \<or> lv > 100 then None else Some (nat lv))"

definition gymList :: "string \<Rightarrow> string" where
  "gymList header = snprintf REPLY_MAX (addLines 24
     (map (\<lambda>i. numbered i (fmtS ''. %s (%s)'' [pr_name (GAUNTLET_GYMS ! i), pr_leaderName (GAUNTLET_GYMS ! i)] @ nl)) [0..<GAUNTLET_GYM_COUNT]) header)"

definition memberBoss :: "GymPreset \<Rightarrow> nat \<Rightarrow> nat" where
  "memberBoss pr m = bossLevel (map pm_level (snd (pr_trainers pr ! m)))"

definition memberName :: "GymPreset \<Rightarrow> nat \<Rightarrow> string" where
  "memberName pr m = fst (pr_trainers pr ! m)"

definition effectiveLevel :: "GauntletState \<Rightarrow> GymPreset \<Rightarrow> nat \<Rightarrow> string" where
  "effectiveLevel s pr m =
     (let over = gs_memberLevels s ! m
      in ''L'' @ digits_of (if over \<noteq> 0 then over else memberBoss pr m) @ (if over \<noteq> 0 then ''*'' else []))"

definition gymScaled :: "GymPreset \<Rightarrow> nat \<Rightarrow> nat \<Rightarrow> nat" where
  "gymScaled pr lvl m =
     (let top = memberBoss pr GAUNTLET_GYM_LEADER_IDX; top = (if top = 0 then 1 else top)
      in if lvl > 0 then clampLevel (int lvl + (int (memberBoss pr m) - int top)) else 0)"

definition adminGym :: "string \<Rightarrow> nat \<Rightarrow> nat \<Rightarrow> GauntletModule \<Rightarrow> GauntletModule" where
  "adminGym txt to now g =
     (let p = skipBlanks txt; gn = atoi p; rest = skipWord p in
      if p = [] then sendReply to (gymList (''Pick a gym (reply: admin gym N [L]):'' @ nl)) g
      else if gn < 1 \<or> gn > int GAUNTLET_GYM_COUNT then sendReply to ''Pick gym 1..8. Try `admin gym` for the list.'' g
      else
       (case (if rest = [] then Some 0 else typedLevel rest) of
          None \<Rightarrow> sendReply to (''Level must be 1..100 or '' @ inQuotes ''stock'' @ ''.'') g
        | Some lvl \<Rightarrow>
           (let gymIdx = nat (gn - 1); pr = GAUNTLET_GYMS ! gymIdx;
                g = fold (\<lambda>m g. snd (gymAdminApply gymIdx m (gymScaled pr lvl m) now g)) [0..<5] g;
                t = fmtS ''%s Gym -- %s'' [pr_name pr, if lvl > 0 then ''boss L'' else ''stock levels''] @ nl;
                t = (if lvl > 0 then addLines 8 [fmtS ''all members boss=L%s'' [digits_of lvl] @ nl] t else t);
                t = addLines 24 (map (\<lambda>i. numbered i (fmtS ''.%s %s'' [padTo 7 (memberName pr i), effectiveLevel (gm_state g) pr i] @ nl)) [0..<5]) t
            in sendReply to (snprintf REPLY_MAX t) g)))"

text \<open>The wizard: gym, member, level.\<close>

definition adoptPreset :: "nat \<Rightarrow> GymPreset \<Rightarrow> GauntletState \<Rightarrow> GauntletState" where
  "adoptPreset gymIdx pr s =
     (if gs_gymPresetIdx s = gymIdx then s
      else s\<lparr>gs_gymPresetIdx := gymIdx, gs_memberLevels := [0, 0, 0, 0, 0],
             gs_gymName := take (GAUNTLET_NAME_MAX - 1) (snprintf 16 (fmtS ''%s Gym'' [pr_name pr])),
             gs_gymBadge := take (GAUNTLET_BADGE_MAX - 1) (snprintf 16 (fmtS ''%s Badge'' [pr_badgeName pr]))\<rparr>)"

definition wizardApply :: "nat \<Rightarrow> nat \<Rightarrow> nat \<Rightarrow> nat \<Rightarrow> GauntletModule \<Rightarrow> GauntletModule" where
  "wizardApply gymIdx memberIdx lvl now g =
     (let pr = GAUNTLET_GYMS ! gymIdx;
          g = onState (\<lambda>s. let s = adoptPreset gymIdx pr s in s\<lparr>gs_memberLevels := (gs_memberLevels s)[memberIdx := lvl]\<rparr>) g;
          g = (if memberIdx = GAUNTLET_GYM_LEADER_IDX
               then onState (\<lambda>s. s\<lparr>gs_leader := npcLeader (pr_leaderName pr) (snd (gauntletBuildPresetTrainerParty gymIdx memberIdx lvl)) now\<rparr>) g
               else g)
      in gauntletSave (onState (\<lambda>s. s\<lparr>gs_lastUpdate := now\<rparr>) g))"

definition bossName :: "GymPreset \<Rightarrow> nat \<Rightarrow> string" where
  "bossName pr m =
     snd (foldl (\<lambda>(l, n) x. if l < pm_level x then (pm_level x, gen1SpeciesName (gen1DexToInternal (pm_dex x))) else (l, n))
            (0, ''?'') (snd (pr_trainers pr ! m)))"

definition memberList :: "GauntletState \<Rightarrow> nat \<Rightarrow> string" where
  "memberList s gymIdx =
     (let pr = GAUNTLET_GYMS ! gymIdx in snprintf REPLY_MAX (addLines 32
       (map (\<lambda>m. numbered m (fmtS ''. %s (%s %s)'' [memberName pr m, bossName pr m, effectiveLevel s pr m] @ nl)) [0..<5])
       (pr_name pr @ '' Gym '' @ emDash @ '' pick a member'' @ nl @ fmtS ''(reply: admin set %s M):'' [digits_of (gymIdx + 1)] @ nl)))"

definition levelPrompt :: "nat \<Rightarrow> nat \<Rightarrow> string" where
  "levelPrompt gymIdx m =
     (let pr = GAUNTLET_GYMS ! gymIdx in snprintf REPLY_MAX
       (pr_name pr @ '' '' @ emDash @ '' '' @ memberName pr m @ nl
        @ fmtS ''Boss: %s (canon L%s)'' [bossName pr m, digits_of (memberBoss pr m)] @ nl
        @ fmtS ''Reply: admin set %s %s L'' [digits_of (gymIdx + 1), digits_of (m + 1)] @ nl
        @ ''  L = 1..100, or '' @ inQuotes ''stock''))"

definition savedText :: "GauntletState \<Rightarrow> nat \<Rightarrow> nat \<Rightarrow> string" where
  "savedText s gymIdx m =
     (let pr = GAUNTLET_GYMS ! gymIdx in snprintf REPLY_MAX (addLines 32
       (map (\<lambda>i. numbered i (fmtS ''. %s %s'' [memberName pr i, effectiveLevel s pr i] @ nl)) [0..<5])
       (pr_name pr @ '' Gym '' @ emDash @ fmtS '' saved member %s:'' [digits_of (m + 1)] @ nl)))"

definition adminSet :: "string \<Rightarrow> nat \<Rightarrow> nat \<Rightarrow> GauntletModule \<Rightarrow> GauntletModule" where
  "adminSet txt to now g =
     (let a1 = skipBlanks txt; n = atoi a1; a2 = skipWord a1; m = atoi a2; a3 = skipWord a2; gymIdx = nat (n - 1); memberIdx = nat (m - 1) in
      if a1 = [] then sendReply to (gymList (''Pick a gym (reply: admin set N):'' @ nl)) g
      else if n < 1 \<or> n > int GAUNTLET_GYM_COUNT then sendReply to ''Pick 1..8. Try `admin set` to see the list.'' g
      else if a2 = [] then sendReply to (memberList (gm_state g) gymIdx) g
      else if m < 1 \<or> m > 5 then sendReply to ''Pick member 1..5. Try `admin set N` to see them.'' g
      else if a3 = [] then sendReply to (levelPrompt gymIdx memberIdx) g
      else
       (case typedLevel a3 of None \<Rightarrow> sendReply to (''Level must be 1..100 or '' @ inQuotes ''stock'' @ ''.'') g
        | Some lvl \<Rightarrow>
           (let g = wizardApply gymIdx memberIdx lvl now g in sendReply to (savedText (gm_state g) gymIdx memberIdx) g)))"

definition wordEnds :: "string \<Rightarrow> bool" where
  "wordEnds s \<longleftrightarrow> s = [] \<or> isBlank (hd s)"

definition blankFollows :: "string \<Rightarrow> bool" where
  "blankFollows s \<longleftrightarrow> s \<noteq> [] \<and> isBlank (hd s)"

text \<open>\<open>sub\<close> is what follows the word admin; the access check comes before every command but the help.\<close>

definition adminCommand :: "nat list \<Rightarrow> nat \<Rightarrow> string \<Rightarrow> nat \<Rightarrow> nat \<Rightarrow> GauntletModule \<Rightarrow> GauntletModule" where
  "adminCommand rs frm sub ms now g =
     (let to = getFrom frm g;
          isReset = ciPrefix ''reset'' sub; isSet = ciPrefix ''set'' sub;
          isGym = ciPrefix ''gym'' sub \<and> wordEnds (drop 3 sub);
          isName = ciPrefix ''name'' sub \<and> blankFollows (drop 4 sub);
          isBadge = ciPrefix ''badge'' sub \<and> blankFollows (drop 5 sub);
          wasAdmin = (gs_adminNodeNum (gm_state g) = frm)
      in if \<not> isReset \<and> \<not> isSet \<and> \<not> isGym \<and> (ciPrefix ''help'' sub \<or> ciPrefix ''list'' sub \<or> sub = [])
         then sendReply to (adminHelp ms g) g
         else if \<not> isReset \<and> \<not> isSet \<and> \<not> isGym \<and> \<not> isName \<and> \<not> isBadge
         then sendReply to ''Usage: admin <set | gym | reset | name | badge | help>'' g
         else
          (let (ok, h) = (if isSet then isAdminAuthorized frm ms now g else (wasAdmin, g)) in
           if \<not> ok then sendReply to (if isSet then notAuthorizedText
                                      else ''Only the admin can run that.'' @ nl @ ''Send `admin set` first to claim admin.'') h
           else if isSet \<and> \<not> wasAdmin \<and> gs_adminNodeNum (gm_state h) = frm then sendReply to (claimedText frm) h
           else if isReset then adminReset rs to ms now h
           else if isName then adminName (drop 4 sub) to now h
           else if isBadge then adminBadge (drop 5 sub) to now h
           else if isGym then adminGym (drop 3 sub) to now h
           else adminSet (drop 3 sub) to now h))"

subsection \<open>Messages\<close>

definition handleCommand :: "nat list \<Rightarrow> nat \<Rightarrow> string \<Rightarrow> nat \<Rightarrow> nat \<Rightarrow> GauntletModule \<Rightarrow> GauntletModule" where
  "handleCommand rs frm cmd ms now g =
     (let to = getFrom frm g; s = gm_state g in
      if cmd = [] then sendReply to (statusText s) g
      else if ciPrefix ''challenge'' cmd then sendReply to challengeText g
      else if ciPrefix ''roster'' cmd then sendReply to (rosterText s) g
      else if ciPrefix ''leader'' cmd then sendReply to (leaderText s) g
      else if ciPrefix ''records'' cmd then sendReply to (recordsText s) g
      else if ciPrefix ''msg '' cmd \<or> ciPrefix (''msg'' @ [CHR 0x09]) cmd then postMessage to (drop 4 cmd) now g
      else if ciPrefix ''profile'' cmd then sendReply to (profileText to g) g
      else if ciPrefix ''admin'' cmd then adminCommand rs frm (skipBlanks (drop 5 cmd)) ms now g
      else if ciPrefix ''help'' cmd then sendReply to (helpText g) g
      else sendReply to (''Unknown command. Try '' @ inQuotes ''help'' @ ''.'') g)"

definition isBoundary :: "string \<Rightarrow> bool" where
  "isBoundary s \<longleftrightarrow> s = [] \<or> hd s = CHR '' '' \<or> hd s = CHR 0x09 \<or> hd s = CHR 0x0A \<or> hd s = CHR 0x0D"

text \<open>The characters to skip for a prefix word, 0 for none.\<close>

definition matchPrefix :: "string \<Rightarrow> nat" where
  "matchPrefix s =
     (let off = (if s \<noteq> [] \<and> hd s = CHR ''!'' then 1 else 0); t = drop off s
      in if \<not> ciPrefix ''mmg'' t \<and> \<not> ciPrefix ''gym'' t \<and> \<not> ciPrefix ''bbs'' t then 0
         else if isBoundary (drop 3 t) then off + 3 else 0)"

definition isHelpAlias :: "string \<Rightarrow> bool" where
  "isHelpAlias s \<longleftrightarrow> map asciiLower s = ''help'' \<or> map asciiLower s = ''list'' \<or> map asciiLower s = ''ls''"

definition isCommandAlias :: "string \<Rightarrow> bool" where
  "isCommandAlias s \<longleftrightarrow> list_ex (\<lambda>c. ciPrefix c s \<and> isBoundary (drop (length c) s))
     [''admin'', ''challenge'', ''leader'', ''roster'', ''records'', ''profile'', ''msg'', ''ping'']"

definition gymCommand :: "nat list \<Rightarrow> nat \<Rightarrow> string \<Rightarrow> nat \<Rightarrow> nat \<Rightarrow> GauntletModule \<Rightarrow> GauntletModule" where
  "gymCommand rs frm cmd ms now g =
     (if ciPrefix ''ping'' cmd then sendReply (getFrom frm g) (pingText (gm_state g)) g else handleCommand rs frm cmd ms now g)"

definition handleText :: "nat list \<Rightarrow> nat \<Rightarrow> nat list \<Rightarrow> nat \<Rightarrow> nat \<Rightarrow> GauntletModule \<Rightarrow> GauntletModule" where
  "handleText rs frm payload ms now g =
     (let t = skipBlanks (cstr (take 237 payload)) in
      if payload = [] \<or> t = [] then g
      else
       (case getOrCreateSession (getFrom frm g) g of (None, g) \<Rightarrow> g
        | (Some i, g) \<Rightarrow>
           (let g = putSession i ((gm_sessions g ! i)\<lparr>se_lastActivity := now\<rparr>) g; k = matchPrefix t
            in if k = 0 \<and> isHelpAlias t then handleCommand rs frm ''help'' ms now g
               else if k = 0 \<and> isCommandAlias t then gymCommand rs frm t ms now g
               else if k = 0 then g
               else gymCommand rs frm (skipBlanks (drop k t)) ms now g)))"

datatype GymPort = TEXT_MESSAGE_APP | PRIVATE_APP | OtherPort

definition isBroadcast :: "nat \<Rightarrow> bool" where
  "isBroadcast dest \<longleftrightarrow> dest = 0xFFFFFFFF \<or> dest = 1"

definition wantPacket :: "GymPort \<Rightarrow> nat \<Rightarrow> nat \<Rightarrow> bool" where
  "wantPacket port to node =
     (case port of PRIVATE_APP \<Rightarrow> to = node \<and> \<not> isBroadcast to \<or> isBroadcast to
      | TEXT_MESSAGE_APP \<Rightarrow> to = node \<and> \<not> isBroadcast to | OtherPort \<Rightarrow> False)"

text \<open>A packet of the mesh: port, receiver, sender, channel, payload.\<close>

definition gymReceives :: "GymPort \<Rightarrow> nat \<Rightarrow> nat \<Rightarrow> nat \<Rightarrow> nat list \<Rightarrow> Gen1Party \<Rightarrow> nat list \<Rightarrow> nat \<Rightarrow> nat \<Rightarrow> GauntletModule \<Rightarrow> GauntletModule" where
  "gymReceives port to frm chan payload stack rs ms now g =
     (if \<not> wantPacket port to (gs_nodeNum (gm_state g)) \<or> payload = [] then g
      else if port = PRIVATE_APP then handleBattlePacket frm chan payload stack ms now g
      else handleText rs frm payload ms now g)"

end
