(* ===== verification/GauntletRosters.thy ===== *)
theory GauntletRosters
  imports GauntletParty LordTeams
begin

text \<open>
  What the parties of a gym station are: the list of (species, level, moves) a trainer of the line-up stands for
  and the party that is built for it.  A monster of a gym has the stats of the campaign's, the text of an Elite
  Four trainer is parsed back to its list, and every party built is fit for the battle engine.
\<close>

subsection \<open>One monster\<close>

lemma stat_is_engine_stat: "gen1ComputeStat b l h = calcStat b 8 0 l h"
proof -
  have "isqrt16 0 = 0" by code_simp
  then show ?thesis by (simp add: gen1ComputeStat_def calcStat_def Let_def)
qed

text \<open>The comment of \<^verbatim>\<open>Gen1MinimalStats.h\<close>: the stats are those of the engine; only the PP differ.\<close>

lemma gym_mon_is_campaign_mon:
  assumes "1 \<le> d" "d \<le> 151"
  shows "monByDex d l ms = (savedFromBase d l ms)\<lparr>sv_pp := map (\<lambda>m. if m \<noteq> 0 then 25 else 0) (take 4 ms)\<rparr>"
  using assms by (simp add: monByDex_def savedFromBase_def gen1MinimalStats_def initBattlePokeFromBase_def
      stat_is_engine_stat gen1DexToInternal_def Let_def)

lemma monByDex_ok: "1 \<le> l \<Longrightarrow> l \<le> 100 \<Longrightarrow> length ms = 4 \<Longrightarrow> saved_ok (monByDex d l ms)"
  using saveLevel_byte [of l] by (simp add: saved_ok_def monByDex_def saveLevel_def Let_def)

subsection \<open>Writing a list of monsters\<close>

type_synonym mon_row = "nat \<times> nat \<times> nat list"

definition row_fits :: "mon_row \<Rightarrow> bool" where
  "row_fits r \<longleftrightarrow> (case r of (d, l, ms) \<Rightarrow> 1 \<le> d \<and> d \<le> 151 \<and> 1 \<le> l \<and> l \<le> 100 \<and> length ms = 4 \<and> list_all (\<lambda>k. k < 256) ms)"

text \<open>A party stands for a list of rows: its slots are these monsters, in order, and it has no others.\<close>

definition servesMons :: "Gen1Party \<Rightarrow> mon_row list \<Rightarrow> bool" where
  "servesMons p rs \<longleftrightarrow> gp_count p = of_nat (length rs) \<and> length rs \<le> 6 \<and> length (gp_mons p) = 6 \<and> length (gp_species p) = 7
     \<and> (\<forall>i<length rs. case rs ! i of (d, l, ms) \<Rightarrow>
          gp_mons p ! i = monByDex d l ms \<and> gp_species p ! i = of_nat (gen1DexToInternal d))"

fun writeFrom :: "nat \<Rightarrow> (nat \<times> nat \<times> nat list \<times> string) list \<Rightarrow> Gen1Party \<Rightarrow> Gen1Party" where
  "writeFrom a [] p = p"
| "writeFrom a ((d, l, ms, nick) # rs) p = writeFrom (Suc a) rs (writeMonByDex a d l ms nick p)"

lemma fold_writeFrom:
  "fold (\<lambda>i. writeMonByDex (a + i) (d (xs ! i)) (l (xs ! i)) (m (xs ! i)) (k (xs ! i))) [0..<length xs] p
     = writeFrom a (map (\<lambda>x. (d x, l x, m x, k x)) xs) p"
proof (induction xs arbitrary: a p)
  case (Cons x xs)
  have "[0..<length (x # xs)] = 0 # map Suc [0..<length xs]" by (simp add: map_Suc_upt upt_conv_Cons del: upt_Suc)
  then show ?case using Cons [of "Suc a"] by (simp add: fold_map comp_def del: upt_Suc)
qed simp

lemma writeMon_parts:
  assumes "1 \<le> d" "d \<le> 151" "1 \<le> l"
  shows "gp_mons (writeMonByDex a d l ms nick p) = (gp_mons p)[a := monByDex d l ms]"
    "gp_species (writeMonByDex a d l ms nick p) = (gp_species p)[a := of_nat (gen1DexToInternal d)]"
    "gp_count (writeMonByDex a d l ms nick p) = gp_count p"
  using assms by (simp_all add: writeMonByDex_def putMon_def monByDex_def Let_def)

lemma writeFrom_parts:
  assumes "list_all (\<lambda>(d, l, ms, nick). row_fits (d, l, ms)) rs" "a + length rs \<le> 6" "length (gp_mons p) = 6" "length (gp_species p) = 7"
  shows "length (gp_mons (writeFrom a rs p)) = 6 \<and> length (gp_species (writeFrom a rs p)) = 7 \<and> gp_count (writeFrom a rs p) = gp_count p
    \<and> (\<forall>i<a. gp_mons (writeFrom a rs p) ! i = gp_mons p ! i \<and> gp_species (writeFrom a rs p) ! i = gp_species p ! i)
    \<and> (\<forall>i<length rs. case rs ! i of (d, l, ms, nick) \<Rightarrow>
         gp_mons (writeFrom a rs p) ! (a + i) = monByDex d l ms \<and> gp_species (writeFrom a rs p) ! (a + i) = of_nat (gen1DexToInternal d))"
  using assms
proof (induction a rs p rule: writeFrom.induct)
  case (2 a d l ms nick rs p)
  have d: "1 \<le> d" "d \<le> 151" "1 \<le> l" using 2(2) by (simp_all add: row_fits_def)
  let ?q = "writeMonByDex a d l ms nick p"
  note w = writeMon_parts [OF d, of a ms nick p]
  have ih: "length (gp_mons (writeFrom (Suc a) rs ?q)) = 6 \<and> length (gp_species (writeFrom (Suc a) rs ?q)) = 7
      \<and> gp_count (writeFrom (Suc a) rs ?q) = gp_count ?q
      \<and> (\<forall>i<Suc a. gp_mons (writeFrom (Suc a) rs ?q) ! i = gp_mons ?q ! i \<and> gp_species (writeFrom (Suc a) rs ?q) ! i = gp_species ?q ! i)
      \<and> (\<forall>i<length rs. case rs ! i of (d, l, ms, nick) \<Rightarrow>
         gp_mons (writeFrom (Suc a) rs ?q) ! (Suc a + i) = monByDex d l ms \<and> gp_species (writeFrom (Suc a) rs ?q) ! (Suc a + i) = of_nat (gen1DexToInternal d))"
    by (rule 2(1)) (use 2(2-) w in simp_all)
  have "case ((d, l, ms, nick) # rs) ! i of (d, l, ms, nick) \<Rightarrow>
      gp_mons (writeFrom (Suc a) rs ?q) ! (a + i) = monByDex d l ms \<and> gp_species (writeFrom (Suc a) rs ?q) ! (a + i) = of_nat (gen1DexToInternal d)"
    if "i < Suc (length rs)" for i
    using that ih w 2(3-) by (cases i) (auto split: prod.splits)
  then show ?case using ih w 2(3-) by (auto simp: less_Suc_eq)
qed simp

lemma serves_written:
  assumes "list_all (\<lambda>(d, l, ms, nick). row_fits (d, l, ms)) rs" "length rs \<le> 6"
  shows "servesMons ((writeFrom 0 rs emptySaveParty)\<lparr>gp_count := of_nat (length rs), gp_otNames := ots\<rparr>) (map (\<lambda>(d, l, ms, nick). (d, l, ms)) rs)"
    "servesMons ((writeFrom 0 rs emptySaveParty)\<lparr>gp_count := of_nat (length rs)\<rparr>) (map (\<lambda>(d, l, ms, nick). (d, l, ms)) rs)"
  using writeFrom_parts [of rs 0 emptySaveParty] assms
  by (auto simp: servesMons_def emptySaveParty_def split: prod.splits)

lemma serves_save_ok:
  assumes "servesMons p rs" "list_all row_fits rs" "rs \<noteq> []"
  shows "save_ok p \<and> gp_count p \<noteq> 0"
proof -
  have "saved_ok (gp_mons p ! i)" if "i < length rs" for i
    using assms that unfolding servesMons_def list_all_length row_fits_def
    by (cases "rs ! i") (fastforce intro: monByDex_ok)
  then have "filled (length rs) p" using assms by (simp add: filled_def servesMons_def)
  moreover have "unat (gp_count p) = length rs" using assms by (simp add: servesMons_def unat_of_nat)
  ultimately show ?thesis using filled_save_ok [of "length rs" p] assms(3) by (auto simp: Suc_le_eq simp flip: unat_eq_0)
qed

subsection \<open>Numbers in texts\<close>

lemma digits_shape: "list_all isDigit (digits_of n) \<and> digits_of n \<noteq> []"
proof (induction n rule: digits_of.induct)
  case (1 n)
  have d: "isDigit (char_of (48 + k))" if "k < 10" for k :: nat
    using that by (simp add: isDigit_def of_char_of)
  show ?case by (subst (1 2) digits_of.simps) (use 1 d [of n] d [of "n mod 10"] in auto)
qed

lemma digit_char: "isDigit c \<Longrightarrow> \<not> isSep c \<and> c \<noteq> CHR '':'' \<and> \<not> isBlank c \<and> \<not> isTail c \<and> c \<noteq> CHR ''-'' \<and> c \<noteq> CHR ''+''"
  by (auto simp: isDigit_def isSep_def isBlank_def isTail_def)

lemma digits_value:
  "foldl (\<lambda>n c. n * 10 + (of_char c - 48)) 0 (digits_of n) = n"
proof (induction n rule: digits_of.induct)
  case (1 n)
  have v: "of_char (char_of (48 + k) :: char) - 48 = k" if "k < 10" for k :: nat using that by (simp add: of_char_of)
  show ?case
  proof (cases "n < 10")
    case True
    then show ?thesis using v [of n] by (subst digits_of.simps) simp
  next
    case False
    then show ?thesis using 1 v [of "n mod 10"] by (subst digits_of.simps) simp
  qed
qed

lemma atoi_digits:
  assumes "n \<le> 2147483647"
  shows "atoi (digits_of n) = int n"
proof -
  obtain c cs where e: "digits_of n = c # cs" using digits_shape [of n] by (cases "digits_of n") auto
  have c: "isDigit c" "list_all isDigit (c # cs)" using digits_shape [of n] e by simp_all
  have "takeWhile (\<lambda>c. 48 \<le> (of_char c :: nat) \<and> (of_char c :: nat) \<le> 57) (digits_of n) = digits_of n"
    using digits_shape [of n] by (simp add: takeWhile_eq_all_conv list_all_iff isDigit_def)
  then have "digitsAt (c # cs) = n" using digits_value [of n] e by (simp add: digitsAt_def)
  moreover have "\<not> (c = CHR '' '' \<or> 9 \<le> (of_char c :: nat) \<and> (of_char c :: nat) \<le> 13)" using c(1) by (auto simp: isDigit_def)
  then have "dropWhile (\<lambda>c. c = CHR '' '' \<or> 9 \<le> (of_char c :: nat) \<and> (of_char c :: nat) \<le> 13) (c # cs) = c # cs" by auto
  ultimately show ?thesis using digit_char [OF c(1)] assms unfolding atoi_def e by simp
qed

subsection \<open>A token of a party text\<close>

definition monToken :: "nat \<Rightarrow> nat \<Rightarrow> string" where
  "monToken d l = digits_of d @ '':'' @ digits_of l"

lemma token_chars: "list_all (\<lambda>c. isDigit c \<or> c = CHR '':'') (monToken d l)" "monToken d l \<noteq> []"
  using digits_shape [of d] digits_shape [of l] by (auto simp: monToken_def list_all_iff)

lemma token_no_sep: "list_all (\<lambda>c. \<not> isSep c) (monToken d l)"
  using token_chars [of d l] digit_char by (fastforce simp: list_all_iff isSep_def)

lemma token_trim: "trimToken (monToken d l) = monToken d l"
proof -
  obtain c cs where e: "digits_of d = c # cs" using digits_shape [of d] by (cases "digits_of d") auto
  obtain e' es where f: "digits_of l = es @ [e']" using digits_shape [of l] by (cases "digits_of l" rule: rev_cases) auto
  have c: "isDigit c" and e': "isDigit e'" using digits_shape [of d] digits_shape [of l] e f by simp_all
  have "skipBlanks (monToken d l) = monToken d l" using digit_char [OF c] by (simp add: skipBlanks_def monToken_def e)
  then show ?thesis using digit_char [OF e'] by (simp add: trimToken_def monToken_def f)
qed

lemma token_read:
  assumes "1 \<le> d" "d \<le> 151" "1 \<le> l" "l \<le> 100"
  shows "tokenDex (tokenName (monToken d l)) = d" "tokenLevel (monToken d l) = l"
proof -
  have colon: "c \<in> set (digits_of d) \<Longrightarrow> c \<noteq> CHR '':''" for c
    using digits_shape [of d] digit_char by (auto simp: list_all_iff)
  then have n: "tokenName (monToken d l) = digits_of d" "dropWhile (\<lambda>c. c \<noteq> CHR '':'') (monToken d l) = CHR '':'' # digits_of l"
    by (simp_all add: tokenName_def monToken_def takeWhile_append2 dropWhile_append2)
  show "tokenDex (tokenName (monToken d l)) = d"
    unfolding n(1) tokenDex_def using atoi_digits [of d] digits_shape [of d] assms by (simp add: Let_def)
  show "tokenLevel (monToken d l) = l"
    using atoi_digits [of l] assms by (simp add: tokenLevel_def n(2) clampLevel_def Let_def)
qed

subsection \<open>The text of a list\<close>

lemma strtoks_sep: "D c \<Longrightarrow> strtoks D (c # s) = strtoks D s"
  by (subst (1 2) strtoks.simps) simp

lemma strtoks_nil [simp]: "strtoks D [] = []"
  by (subst strtoks.simps) simp

lemma strtoks_word:
  assumes "t \<noteq> []" "list_all (\<lambda>c. \<not> D c) t" "s = [] \<or> D (hd s)"
  shows "strtoks D (t @ s) = t # strtoks D s"
proof -
  obtain c cs where t: "t = c # cs" using assms(1) by (cases t) auto
  have "takeWhile (\<lambda>x. \<not> D x) (cs @ s) = cs" "dropWhile (\<lambda>x. \<not> D x) (cs @ s) = s"
    using assms(2,3) t by (cases s; simp add: list_all_iff takeWhile_append2 dropWhile_append2)+
  then show ?thesis using assms(2) t by (subst strtoks.simps) simp
qed

lemma strtoks_snoc:
  assumes "D c" "t \<noteq> []" "list_all (\<lambda>c. \<not> D c) t"
  shows "strtoks D (s @ c # t) = strtoks D s @ [t]"
proof (induction s rule: length_induct)
  case (1 s)
  consider "s = []" | x xs where "s = x # xs" "D x" | x xs where "s = x # xs" "\<not> D x" by (cases s) auto
  then show ?case
  proof cases
    case 1
    then show ?thesis using strtoks_word [OF assms(2,3), of "[]"] assms(1) by (simp add: strtoks_sep)
  next
    case 2
    then show ?thesis using "1.IH" by (simp add: strtoks_sep)
  next
    case 3
    define w where "w = takeWhile (\<lambda>x. \<not> D x) s"
    define r where "r = dropWhile (\<lambda>x. \<not> D x) s"
    have s: "s = w @ r" "w \<noteq> []" "list_all (\<lambda>c. \<not> D c) w" "r = [] \<or> D (hd r)"
      using 3 hd_dropWhile [of "\<lambda>x. \<not> D x" s] by (auto simp: w_def r_def list_all_iff dest: set_takeWhileD)
    have "length r < length s" using s(1,2) by simp
    then have "strtoks D (r @ c # t) = strtoks D r @ [t]" using "1.IH" by blast
    moreover have "strtoks D (w @ (r @ c # t)) = w # strtoks D (r @ c # t)"
      by (rule strtoks_word [OF s(2,3)]) (use s(4) assms(1) in \<open>cases r; simp\<close>)
    moreover have "strtoks D (w @ r) = w # strtoks D r" by (rule strtoks_word [OF s(2,3,4)])
    ultimately show ?thesis using s(1) by simp
  qed
qed

definition csvOf :: "(nat \<times> nat) list \<Rightarrow> string" where
  "csvOf xs = foldl (\<lambda>csv (d, l). csv @ (if csv \<noteq> [] then '','' else []) @ monToken d l) [] xs"

lemma csvOf_snoc: "csvOf (xs @ [(d, l)]) = csvOf xs @ (if csvOf xs \<noteq> [] then '','' else []) @ monToken d l"
  by (simp add: csvOf_def)

lemma csvOf_tokens: "strtoks isSep (csvOf xs) = map (\<lambda>(d, l). monToken d l) xs \<and> (csvOf xs = [] \<longleftrightarrow> xs = [])"
proof (induction xs rule: rev_induct)
  case Nil
  then show ?case by (simp add: csvOf_def)
next
  case (snoc x xs)
  obtain d l where x: "x = (d, l)" by (cases x)
  have "isSep CHR '',''" by (simp add: isSep_def)
  note sn = strtoks_snoc [OF this token_chars(2) token_no_sep, of "csvOf xs" d l]
  have "strtoks isSep (monToken d l) = [monToken d l]"
    using strtoks_word [OF token_chars(2) token_no_sep, of "[]" d l] by simp
  then show ?case using snoc sn token_chars(2) [of d l] by (auto simp: x csvOf_snoc)
qed

lemma csvOf_length:
  assumes "list_all (\<lambda>(d, l). d < 1000 \<and> l < 1000) xs"
  shows "length (csvOf xs) \<le> 8 * length xs"
  using assms
proof (induction xs rule: rev_induct)
  case Nil
  then show ?case by (simp add: csvOf_def)
next
  case (snoc x xs)
  obtain d l where x: "x = (d, l)" by (cases x)
  have three: "length (digits_of k) \<le> 3" if "k < 1000" for k
  proof -
    have "length (digits_of k) = (if k < 10 then 1 else if k < 100 then 2 else 3)"
      using that by (subst digits_of.simps, subst digits_of.simps, subst digits_of.simps) (auto simp: less_mult_imp_div_less div_less_dividend)
    then show ?thesis by simp
  qed
  have "length (monToken d l) \<le> 7" using three [of d] three [of l] snoc.prems x by (auto simp: monToken_def)
  then show ?case using snoc x by (auto simp: csvOf_snoc)
qed

subsection \<open>Parsing it back\<close>

lemma default_rows: "length DEFAULT_MOVES = 16" "list_all (\<lambda>ms. length ms = 4 \<and> list_all (\<lambda>k. k < 256) ms) DEFAULT_MOVES"
  by (simp_all add: DEFAULT_MOVES_def)

lemma default_moves_fit: "length (pickDefaultMoves d) = 4 \<and> list_all (\<lambda>k. k < 256) (pickDefaultMoves d)"
  unfolding pickDefaultMoves_def Let_def using default_rows by (auto simp: list_all_length)

lemma parse_rows:
  assumes "list_all (\<lambda>(d, l). 1 \<le> d \<and> d \<le> 151 \<and> 1 \<le> l \<and> l \<le> 100) xs" "a + length xs \<le> 6"
  shows "parseTokens (map (\<lambda>(d, l). monToken d l) xs) a p =
    (a + length xs, writeFrom a (map (\<lambda>(d, l). (d, l, pickDefaultMoves d, gen1SpeciesName (gen1DexToInternal d))) xs) p)"
  using assms
proof (induction xs arbitrary: a p)
  case (Cons x xs)
  obtain d l where x: "x = (d, l)" by (cases x)
  have dl: "1 \<le> d" "d \<le> 151" "1 \<le> l" "l \<le> 100" using Cons.prems x by simp_all
  have "\<not> 6 \<le> a" using Cons.prems(2) by simp
  then show ?case using Cons token_read [OF dl] token_chars(2) [of d l] dl(1) by (simp add: x token_trim Let_def)
qed simp

lemma parse_csv:
  assumes "list_all (\<lambda>(d, l). 1 \<le> d \<and> d \<le> 151 \<and> 1 \<le> l \<and> l \<le> 100) xs" "length xs \<le> 6" "xs \<noteq> []"
  shows "servesMons (gauntletParseParty (csvOf xs) ot) (map (\<lambda>(d, l). (d, l, pickDefaultMoves d)) xs)"
proof -
  let ?rs = "map (\<lambda>(d, l). (d, l, pickDefaultMoves d, gen1SpeciesName (gen1DexToInternal d))) xs"
  have "list_all (\<lambda>(d, l). d < 1000 \<and> l < 1000) xs" using assms(1) by (auto simp: list_all_iff)
  then have "length (csvOf xs) \<le> 48" using csvOf_length [of xs] assms(2) by linarith
  then have t: "take 139 (csvOf xs) = csvOf xs" by simp
  have r: "list_all (\<lambda>(d, l, ms, nick). row_fits (d, l, ms)) ?rs" "length ?rs \<le> 6"
    using assms(1,2) default_moves_fit by (auto simp: list_all_iff row_fits_def)
  have m: "map (\<lambda>(d, l, ms, nick). (d, l, ms)) ?rs = map (\<lambda>(d, l). (d, l, pickDefaultMoves d)) xs" by auto
  have "csvOf xs \<noteq> []" using csvOf_tokens [of xs] assms(3) by simp
  then have "gauntletParseParty (csvOf xs) ot = (writeFrom 0 ?rs emptySaveParty)\<lparr>gp_count := of_nat (length ?rs),
      gp_otNames := map (\<lambda>s. if s < length xs then nickField ot else gp_otNames (writeFrom 0 ?rs emptySaveParty) ! s) [0..<6]\<rparr>"
    using csvOf_tokens [of xs] parse_rows [OF assms(1), of 0 emptySaveParty] assms(2)
    by (simp add: gauntletParseParty_def t)
  then show ?thesis using serves_written(1) [OF r] unfolding m by simp
qed

subsection \<open>The rows of a trainer\<close>

lemma scale_fits: "1 \<le> l \<Longrightarrow> l \<le> 100 \<Longrightarrow> 1 \<le> scaleLevel b c l \<and> scaleLevel b c l \<le> 100"
  by (simp add: scaleLevel_def clampLevel_def Let_def nat_le_iff le_nat_iff)

definition eliteRows :: "nat \<Rightarrow> ElitePoolEntry \<Rightarrow> mon_row list" where
  "eliteRows sc e = map (\<lambda>(d, l). (d, scaleLevel sc (el_bossLevel e) l, pickDefaultMoves d)) (el_party e)"

definition presetRows :: "nat \<Rightarrow> GymPresetMon list \<Rightarrow> mon_row list" where
  "presetRows sc row = map (\<lambda>m. (pm_dex m, scaleLevel sc (bossLevel (map pm_level row)) (pm_level m), pm_moves m)) row"

definition lineRows :: "nat \<Rightarrow> nat \<Rightarrow> nat \<Rightarrow> mon_row list" where
  "lineRows source trainer sc =
     (if source < 8 then presetRows sc (snd (pr_trainers (GAUNTLET_GYMS ! source) ! trainer)) else eliteRows sc (ELITE_POOL ! trainer))"

lemma elite_levels: "elite_ok e \<Longrightarrow> list_all (\<lambda>(d, l). 1 \<le> d \<and> d \<le> 151 \<and> 1 \<le> l \<and> l \<le> 100) (el_party e)"
  by (auto simp: elite_ok_def list_all_iff)

lemma scaled_levels:
  "list_all (\<lambda>(d, l). 1 \<le> d \<and> d \<le> 151 \<and> 1 \<le> l \<and> l \<le> 100) xs \<Longrightarrow>
   list_all (\<lambda>(d, l). 1 \<le> d \<and> d \<le> 151 \<and> 1 \<le> l \<and> l \<le> 100) (map (\<lambda>(d, l). (d, scaleLevel sc b l)) xs)"
proof (induction xs)
  case (Cons x xs)
  then show ?case using scale_fits [of "snd x" sc b] by (cases x) simp
qed simp

lemma elite_csv:
  assumes "elite_ok e"
  shows "eliteCsv sc e = csvOf (map (\<lambda>(d, l). (d, scaleLevel sc (el_bossLevel e) l)) (el_party e))"
proof -
  let ?f = "\<lambda>(d, l). (d, scaleLevel sc (el_bossLevel e) l)"
  let ?g = "\<lambda>csv (d, l). if length csv < 120 - 12
       then csv @ (if csv \<noteq> [] then '','' else []) @ digits_of d @ '':'' @ showInt (int (scaleLevel sc (el_bossLevel e) l)) else csv"
  have "foldl ?g [] xs = csvOf (map ?f xs)" if "length xs \<le> 6" "list_all (\<lambda>(d, l). 1 \<le> d \<and> d \<le> 151 \<and> 1 \<le> l \<and> l \<le> 100) xs" for xs
    using that
  proof (induction xs rule: rev_induct)
    case Nil
    then show ?case by (simp add: csvOf_def)
  next
    case (snoc x xs)
    obtain d l where x: "x = (d, l)" by (cases x)
    have "list_all (\<lambda>(d, l). d < 1000 \<and> l < 1000) (map ?f xs)"
      using scaled_levels [of xs sc "el_bossLevel e"] snoc.prems(2) by (auto simp: list_all_iff)
    then have "length (csvOf (map ?f xs)) < 108" using csvOf_length [of "map ?f xs"] snoc.prems(1) by simp
    moreover have "foldl ?g [] xs = csvOf (map ?f xs)" using snoc by simp
    moreover have "map ?f (xs @ [x]) = map ?f xs @ [(d, scaleLevel sc (el_bossLevel e) l)]" by (simp add: x)
    ultimately show ?case by (simp only: foldl_append foldl.simps csvOf_snoc x) (simp add: monToken_def showInt_def)
  qed
  then show ?thesis using assms elite_levels [OF assms] by (simp add: eliteCsv_def elite_ok_def)
qed

lemma elite_serves:
  assumes "elite_ok e"
  shows "servesMons (gauntletParseParty (eliteCsv sc e) ot) (eliteRows sc e)"
proof -
  let ?xs = "map (\<lambda>(d, l). (d, scaleLevel sc (el_bossLevel e) l)) (el_party e)"
  have "list_all (\<lambda>(d, l). 1 \<le> d \<and> d \<le> 151 \<and> 1 \<le> l \<and> l \<le> 100) ?xs"
    by (rule scaled_levels [OF elite_levels [OF assms]])
  moreover have "length ?xs \<le> 6" "?xs \<noteq> []" using assms by (auto simp: elite_ok_def)
  moreover have "map (\<lambda>(d, l). (d, l, pickDefaultMoves d)) ?xs = eliteRows sc e" by (auto simp: eliteRows_def)
  ultimately show ?thesis using parse_csv [of ?xs ot] elite_csv [OF assms] by simp
qed

lemma boss_foldl: "foldl (\<lambda>b l. if b < l then l else b) b ls = (if ls = [] then b else max b (Max (set ls)))" for b :: nat
  by (induction ls arbitrary: b) (auto simp: max_def)

lemma bossLevel_max: "bossLevel ls = (if ls = [] then 0 else Max (set ls))"
  by (simp add: bossLevel_def boss_foldl)

lemma preset_serves:
  assumes "g < 8" "t < 5"
  shows "servesMons (snd (gauntletBuildPresetTrainerParty g t sc)) (lineRows g t sc)"
    "fst (gauntletBuildPresetTrainerParty g t sc) = Some (fst (pr_trainers (GAUNTLET_GYMS ! g) ! t))"
proof -
  obtain name row where r: "pr_trainers (GAUNTLET_GYMS ! g) ! t = (name, row)" by (cases "pr_trainers (GAUNTLET_GYMS ! g) ! t")
  have ok: "row \<noteq> []" "length row \<le> 6" "list_all preset_mon_ok row"
    using preset_trainer [OF assms] r by (auto simp: preset_trainer_ok_def)
  have "pm_level (hd row) \<in> set (map pm_level row)" "1 \<le> pm_level (hd row)"
    using ok by (auto simp: list_all_iff preset_mon_ok_def)
  then have "1 \<le> Max (set (map pm_level row))" by (meson List.finite_set Max_ge order_trans)
  then have "bossLevel (map pm_level row) \<noteq> 0" using ok(1) by (simp add: bossLevel_max)
  have f: "filter (\<lambda>m. 0 < pm_dex m) row = row" "min (length row) 6 = length row" "take 6 row = row"
    using ok(2,3) by (auto intro!: filter_True simp: list_all_iff preset_mon_ok_def)
  have mv: "presetMoves m = pm_moves m" if "m \<in> set row" for m
  proof -
    have "preset_mon_ok m" using ok(3) that by (simp add: list_all_iff)
    then have "pm_moves m ! 0 \<in> set (pm_moves m)" "pm_moves m ! 0 \<noteq> 0" by (auto simp: preset_mon_ok_def intro: nth_mem)
    then show ?thesis by (auto simp: presetMoves_def list_ex_iff)
  qed
  let ?c = "bossLevel (map pm_level row)"
  let ?rs = "map (\<lambda>m. (pm_dex m, scaleLevel sc ?c (pm_level m), presetMoves m, ''FOE'')) row"
  have rs: "list_all (\<lambda>(d, l, ms, nick). row_fits (d, l, ms)) ?rs" "length ?rs \<le> 6"
    using ok(2,3) mv scale_fits [of _ sc ?c] by (auto simp: list_all_iff row_fits_def preset_mon_ok_def)
  have "map (\<lambda>(d, l, ms, nick). (d, l, ms)) ?rs = presetRows sc row" using mv by (auto simp: presetRows_def)
  moreover have "gauntletBuildPresetTrainerParty g t sc = (Some name, (writeFrom 0 ?rs emptySaveParty)\<lparr>gp_count := of_nat (length ?rs)\<rparr>)"
    using assms \<open>bossLevel (map pm_level row) \<noteq> 0\<close> ok(1)
      fold_writeFrom [of 0 pm_dex row "\<lambda>m. scaleLevel sc ?c (pm_level m)" presetMoves "\<lambda>m. ''FOE''" emptySaveParty]
    by (simp add: gauntletBuildPresetTrainerParty_def gauntletGymPreset_def r f Let_def)
  ultimately show "servesMons (snd (gauntletBuildPresetTrainerParty g t sc)) (lineRows g t sc)"
    "fst (gauntletBuildPresetTrainerParty g t sc) = Some (fst (pr_trainers (GAUNTLET_GYMS ! g) ! t))"
    using serves_written(2) [OF rs] assms(1) by (simp_all add: lineRows_def r)
qed

lemma rows_fit:
  assumes "g \<le> 8" "t < 5"
  shows "list_all row_fits (lineRows g t sc) \<and> lineRows g t sc \<noteq> [] \<and> length (lineRows g t sc) \<le> 6"
proof (cases "g < 8")
  case True
  obtain name row where r: "pr_trainers (GAUNTLET_GYMS ! g) ! t = (name, row)" by (cases "pr_trainers (GAUNTLET_GYMS ! g) ! t")
  have ok: "row \<noteq> []" "length row \<le> 6" "list_all preset_mon_ok row"
    using preset_trainer [OF True assms(2)] r by (auto simp: preset_trainer_ok_def)
  then show ?thesis using True scale_fits [of _ sc "bossLevel (map pm_level row)"]
    by (auto simp: lineRows_def presetRows_def r list_all_iff row_fits_def preset_mon_ok_def)
next
  case False
  let ?e = "ELITE_POOL ! t"
  have e: "elite_ok ?e" using elite_entry assms(2) by simp
  have "list_all row_fits (map (\<lambda>(d, l). (d, scaleLevel sc b l, pickDefaultMoves d)) xs)"
    if "list_all (\<lambda>(d, l). 1 \<le> d \<and> d \<le> 151 \<and> 1 \<le> l \<and> l \<le> 100) xs" for xs b
    using that
  proof (induction xs)
    case (Cons x xs)
    then show ?case using scale_fits [of "snd x" sc b] default_moves_fit by (cases x) (simp add: row_fits_def)
  qed simp
  then show ?thesis using False e elite_levels [OF e] by (auto simp: lineRows_def eliteRows_def elite_ok_def)
qed

lemma lookup_line:
  assumes "g \<le> 8" "t < 5"
  shows "\<exists>name boss p. autoLookupTrainer g t sc = Some (name, boss, p) \<and> servesMons p (lineRows g t sc)"
proof (cases "g < 8")
  case True
  then show ?thesis using preset_serves(1) [OF True assms(2), of sc] assms(2)
    by (auto simp: autoLookupTrainer_def gauntletGymPreset_def split: prod.split)
next
  case False
  then show ?thesis using elite_serves [OF elite_entry [OF assms(2)], of sc] assms
    by (auto simp: autoLookupTrainer_def lineRows_def Let_def)
qed

lemma served_line_fits:
  assumes "g \<le> 8" "t < 5" "autoLookupTrainer g t sc = Some (name, boss, p)"
  shows "save_ok p \<and> gp_count p \<noteq> 0"
  using lookup_line [OF assms(1,2), of sc] rows_fit [OF assms(1,2), of sc] serves_save_ok assms(3) by auto

end
