(* ===== verification/GauntletSafety.thy ===== *)
theory GauntletSafety
  imports GauntletAdmin GauntletRosters "HOL-Library.Multiset"
begin

text \<open>
  The invariant of a gym station: its tables have their sizes and ranges, no challenger has two sessions or two
  ladders, the line-up names trainers that exist, a leader has a party the battle engine accepts, the slide shows
  existing gyms and members, what was sent fits a packet, and what is on file is such a gym again.
\<close>

named_theorems gym_intros \<open>calls that keep the invariant of a gym\<close>

subsection \<open>The invariant\<close>

definition slot_ok :: "nat \<times> nat \<Rightarrow> bool" where
  "slot_ok x \<longleftrightarrow> fst x \<le> 8 \<and> snd x < 5"

definition leader_ok :: "GauntletTrainer \<Rightarrow> bool" where
  "leader_ok t \<longleftrightarrow> length (gt_name t) \<le> 15 \<and> (gt_nodeNum t \<noteq> 0 \<or> gp_count (gt_party t) \<noteq> 0 \<longrightarrow> save_ok (gt_party t) \<and> gp_count (gt_party t) \<noteq> 0)"

definition state_ok :: "GauntletState \<Rightarrow> bool" where
  "state_ok s \<longleftrightarrow> gs_magic s = GAUNTLET_MAGIC \<and> gs_version s = GAUNTLET_VERSION
     \<and> length (gs_gymName s) \<le> 15 \<and> length (gs_gymBadge s) \<le> 15 \<and> leader_ok (gs_leader s)
     \<and> gs_rosterSize s \<le> 12 \<and> length (gs_roster s) = 12 \<and> list_all leader_ok (gs_roster s)
     \<and> gs_prevLeaderCount s \<le> 4 \<and> length (gs_prevLeaders s) = 4 \<and> list_all leader_ok (gs_prevLeaders s)
     \<and> gs_totalChallenges s < 4294967296 \<and> gs_totalBattles s < 4294967296 \<and> gs_gymPresetIdx s < 256
     \<and> length (gs_memberLevels s) = 5 \<and> list_all (\<lambda>l. l \<le> 100) (gs_memberLevels s) \<and> gs_autoEnabled s \<le> 1
     \<and> length (gs_autoSlots s) = 5 \<and> list_all slot_ok (gs_autoSlots s) \<and> gs_autoLeaderLevel s \<le> 100"

definition unique_by :: "('a \<Rightarrow> nat) \<Rightarrow> 'a list \<Rightarrow> bool" where
  "unique_by f xs \<longleftrightarrow> (\<forall>i<length xs. \<forall>j<length xs. f (xs ! i) \<noteq> 0 \<and> f (xs ! i) = f (xs ! j) \<longrightarrow> i = j)"

definition ladders_ok :: "GauntletLadderProgress list \<Rightarrow> bool" where
  "ladders_ok ls \<longleftrightarrow> length ls = 8 \<and> unique_by la_nodeNum ls \<and> list_all (\<lambda>l. la_ladderIdx l \<le> 4) ls"

definition sessions_ok :: "GauntletSession list \<Rightarrow> bool" where
  "sessions_ok ss \<longleftrightarrow> length ss = 4 \<and> unique_by se_nodeNum ss \<and> list_all (\<lambda>s. se_state s = GS_IDLE) ss"

definition slide_ok :: "GauntletModule \<Rightarrow> bool" where
  "slide_ok g \<longleftrightarrow> gm_admMainCursor g < 4 \<and> gm_admGymIdx g < 8 \<and> gm_admMemberIdx g \<le> 5 \<and> gm_admChoice g < 2
     \<and> gm_admTens g < 10 \<and> gm_admOnes g < 10 \<and> gm_admResetConfirm g < 2
     \<and> (gm_admUi g \<in> {ADM_PICK_GYM, ADM_LEVEL_CHOICE, ADM_LEVEL_TENS, ADM_LEVEL_ONES, ADM_SUMMARY} \<longrightarrow> gm_admMemberIdx g < 5)"

definition gym_packet_ok :: "nat \<times> nat \<times> nat list \<Rightarrow> bool" where
  "gym_packet_ok p \<longleftrightarrow> length (snd (snd p)) \<le> BATTLELINK_MAX_PKT \<and> list_all (\<lambda>b. b < 256) (snd (snd p))"

definition file_ok :: "(nat \<times> GauntletState) option \<Rightarrow> bool" where
  "file_ok f \<longleftrightarrow> (case f of None \<Rightarrow> True
     | Some (n, s) \<Rightarrow> n = GAUNTLET_STATE_BYTES \<and> gs_magic s = GAUNTLET_MAGIC \<and> gs_version s = GAUNTLET_VERSION \<longrightarrow> state_ok s)"

definition gym_ok :: "GauntletModule \<Rightarrow> bool" where
  "gym_ok g \<longleftrightarrow> state_ok (gm_state g) \<and> sessions_ok (gm_sessions g) \<and> ladders_ok (gm_ladders g) \<and> slide_ok g
     \<and> file_ok (gm_file g) \<and> list_all gym_packet_ok (gm_sent g) \<and> list_all (\<lambda>r. length (snd r) \<le> 233) (gm_replies g)"

lemmas gym_parts = gym_ok_def slide_ok_def

lemma gym_state [gym_intros]: "gym_ok g \<Longrightarrow> (\<And>s. state_ok s \<Longrightarrow> state_ok (f s)) \<Longrightarrow> gym_ok (onState f g)"
  by (simp add: gym_parts onState_def)

lemma gym_save [gym_intros]: "gym_ok g \<Longrightarrow> gym_ok (gauntletSave g)"
  by (simp add: gym_parts gauntletSave_def file_ok_def)

lemma gym_profile [gym_intros]: "gym_ok g \<Longrightarrow> gym_ok (gauntletProfileUpdate n nm csv e now g)"
  by (simp add: gym_parts gauntletProfileUpdate_def Let_def split: option.splits)

lemma gym_reply [gym_intros]: "gym_ok g \<Longrightarrow> gym_ok (sendReply to txt g)"
  by (simp add: gym_parts sendReply_def)

lemma gym_records [gym_intros]: "gym_ok g \<Longrightarrow> gym_ok (g\<lparr>gm_records := r\<rparr>)" "gym_ok g \<Longrightarrow> gym_ok (g\<lparr>gm_messages := r\<rparr>)"
  "gym_ok g \<Longrightarrow> gym_ok (g\<lparr>gm_adminClaimUntilMs := k\<rparr>)" "gym_ok g \<Longrightarrow> gym_ok (g\<lparr>gm_lastDrawMs := k\<rparr>)"
  by (simp_all add: gym_parts)

lemma same_state [simp]:
  "gm_state (gauntletSave g) = gm_state g" "gm_state (sendReply to txt g) = gm_state g"
  "gm_state (gauntletProfileUpdate n nm csv e now g) = gm_state g" "gm_state (onState f g) = f (gm_state g)"
  "gm_state (putSession i s g) = gm_state g" "gm_state (putLadder i n x ms g) = gm_state g" "gm_state (sendTo to c b g) = gm_state g"
  by (simp_all add: gauntletSave_def sendReply_def gauntletProfileUpdate_def onState_def putSession_def putLadder_def sendTo_def Let_def
      split: option.splits)

lemma same_ladders [simp]:
  "gm_ladders (gauntletSave g) = gm_ladders g" "gm_ladders (sendReply to txt g) = gm_ladders g"
  "gm_ladders (gauntletProfileUpdate n nm csv e now g) = gm_ladders g" "gm_ladders (onState f g) = gm_ladders g"
  "gm_ladders (sendTo to c b g) = gm_ladders g"
  by (simp_all add: gauntletSave_def sendReply_def gauntletProfileUpdate_def onState_def sendTo_def Let_def split: option.splits)

subsection \<open>The line-up\<close>

lemma grunts: "gruntPool =
   [(0, 0, 10), (0, 1, 9), (0, 2, 11), (0, 3, 12), (1, 0, 16), (1, 1, 19), (1, 2, 18), (1, 3, 20), (2, 0, 20), (2, 1, 21), (2, 2, 22),
    (2, 3, 23), (3, 0, 24), (3, 1, 24), (3, 2, 26), (3, 3, 26), (4, 0, 31), (4, 1, 32), (4, 2, 33), (4, 3, 34), (5, 0, 34), (5, 1, 38),
    (5, 2, 39), (5, 3, 36), (6, 0, 38), (6, 1, 40), (6, 2, 41), (6, 3, 42), (7, 0, 37), (7, 1, 42), (7, 2, 42), (7, 3, 45)]"
  by code_simp

lemma grunt_pool:
  "length gruntPool = 32" "distinct gruntPool" "list_all (\<lambda>(g, t, b). g < 8 \<and> t < 4 \<and> 1 \<le> b \<and> b \<le> 50) gruntPool"
  by (simp_all add: grunts)

lemma grunt_level: "(g, t, b) \<in> set gruntPool \<Longrightarrow> b = bossLevel (map pm_level (snd (pr_trainers (GAUNTLET_GYMS ! g) ! t)))"
  by (auto simp: gruntPool_def)

abbreviation (input) levelOf :: "GruntRef \<Rightarrow> nat" where "levelOf x \<equiv> snd (snd x)"

lemma leader_levels: "list_all (\<lambda>k. levelOf (pickLeader k) \<le> 65) [0..<13]"
  by code_simp

lemma pick_leader:
  assumes "k < 13"
  obtains g t b where "pickLeader k = (g, t, b)" "g \<le> 8" "t < 5" "b \<le> 65"
proof -
  have "levelOf (pickLeader k) \<le> 65" using leader_levels assms by (simp only: list_all_iff set_upt) simp
  then show thesis using that [of "fst (pickLeader k)" "fst (snd (pickLeader k))" "levelOf (pickLeader k)"] assms
    by (cases "k < 8") (simp_all add: pickLeader_def)
qed

lemma picked:
  assumes "length rs \<le> length pool"
  shows "length (pickGrunts rs pool) = length rs \<and> set (pickGrunts rs pool) \<subseteq> set pool \<and> (distinct pool \<longrightarrow> distinct (pickGrunts rs pool))"
  using assms
proof (induction rs pool rule: pickGrunts.induct)
  case (2 r rs pool)
  then have ne: "pool \<noteq> []" by auto
  define k where "k = r mod length pool"
  define n where "n = length pool - 1"
  define q where "q = take n (pool[k := pool ! n])"
  have k: "k < length pool" "n < length pool" "length q = n" using ne by (simp_all add: k_def n_def q_def)
  have sub: "set q \<subseteq> set pool"
    using set_update_subset_insert [of pool k "pool ! n"] k(2) by (auto simp: q_def dest!: in_set_takeD subsetD)
  have ih: "length (pickGrunts rs q) = length rs \<and> set (pickGrunts rs q) \<subseteq> set q \<and> (distinct q \<longrightarrow> distinct (pickGrunts rs q))"
    using 2(1) [OF ne k_def n_def, folded q_def] 2(2) k(3) by (simp add: n_def)
  have "distinct q \<and> pool ! k \<notin> set q" if d: "distinct pool"
  proof -
    have qi: "q ! i = (if i = k then pool ! n else pool ! i)" if "i < n" for i using that k by (simp add: q_def nth_list_update)
    have "distinct q" unfolding distinct_conv_nth using d k qi nth_eq_iff_index_eq [OF d] by (auto split: if_splits)
    moreover have "pool ! k \<noteq> q ! i" if "i < n" for i using qi [OF that] that k nth_eq_iff_index_eq [OF d] by auto
    ultimately show ?thesis using k(3) by (metis in_set_conv_nth)
  qed
  moreover have "pickGrunts (r # rs) pool = pool ! k # pickGrunts rs q" using ne by (simp add: k_def n_def q_def Let_def)
  ultimately show ?case using ih sub k(1) by auto
qed simp

lemma swap_parts:
  assumes "i < length xs" "j < length xs" "i \<noteq> j"
  shows "mset (swapIf i j xs) = mset xs \<and> length (swapIf i j xs) = length xs"
    "k < length xs \<Longrightarrow> levelOf (swapIf i j xs ! k) =
       (if k = j then max (levelOf (xs ! i)) (levelOf (xs ! j)) else if k = i then min (levelOf (xs ! i)) (levelOf (xs ! j)) else levelOf (xs ! k))"
proof -
  have "mset (xs[i := xs ! j, j := xs ! i]) = mset xs" by (rule mset_swap [OF assms(2,1)])
  then show "mset (swapIf i j xs) = mset xs \<and> length (swapIf i j xs) = length xs" by (simp add: swapIf_def)
  show "k < length xs \<Longrightarrow> levelOf (swapIf i j xs ! k) =
       (if k = j then max (levelOf (xs ! i)) (levelOf (xs ! j)) else if k = i then min (levelOf (xs ! i)) (levelOf (xs ! j)) else levelOf (xs ! k))"
    using assms by (auto simp: swapIf_def nth_list_update min_def max_def)
qed

lemma sort_four:
  assumes "length xs = 4"
  shows "mset (sortGrunts xs) = mset xs \<and> sorted (map levelOf (sortGrunts xs)) \<and> length (sortGrunts xs) = 4"
proof -
  have e: "sortGrunts xs = swapIf 2 3 (swapIf 1 3 (swapIf 1 2 (swapIf 0 3 (swapIf 0 2 (swapIf 0 1 xs)))))"
    using assms by (simp add: sortGrunts_def upt_rec numeral_eq_Suc)
  define y1 where "y1 = swapIf 0 1 xs"
  define y2 where "y2 = swapIf 0 2 y1"
  define y3 where "y3 = swapIf 0 3 y2"
  define y4 where "y4 = swapIf 1 2 y3"
  define y5 where "y5 = swapIf 1 3 y4"
  define y6 where "y6 = swapIf 2 3 y5"
  define L where "L = (\<lambda>y i. levelOf (y ! i) :: nat)"
  have ls: "length y1 = 4" "length y2 = 4" "length y3 = 4" "length y4 = 4" "length y5 = 4" "length y6 = 4"
    and m: "mset y1 = mset xs" "mset y2 = mset y1" "mset y3 = mset y2" "mset y4 = mset y3" "mset y5 = mset y4" "mset y6 = mset y5"
  proof -
    have step: "length (swapIf i j y) = 4 \<and> mset (swapIf i j y) = mset y" if "length y = 4" "i < 4" "j < 4" "i \<noteq> j" for i j y
      using swap_parts [of i y j] that by simp
    have 1: "length y1 = 4 \<and> mset y1 = mset xs" unfolding y1_def by (rule step) (simp_all add: assms)
    have 2: "length y2 = 4 \<and> mset y2 = mset y1" unfolding y2_def by (rule step) (simp_all add: 1)
    have 3: "length y3 = 4 \<and> mset y3 = mset y2" unfolding y3_def by (rule step) (simp_all add: 2)
    have 4: "length y4 = 4 \<and> mset y4 = mset y3" unfolding y4_def by (rule step) (simp_all add: 3)
    have 5: "length y5 = 4 \<and> mset y5 = mset y4" unfolding y5_def by (rule step) (simp_all add: 4)
    have 6: "length y6 = 4 \<and> mset y6 = mset y5" unfolding y6_def by (rule step) (simp_all add: 5)
    show "length y1 = 4" "length y2 = 4" "length y3 = 4" "length y4 = 4" "length y5 = 4" "length y6 = 4"
      "mset y1 = mset xs" "mset y2 = mset y1" "mset y3 = mset y2" "mset y4 = mset y3" "mset y5 = mset y4" "mset y6 = mset y5"
      using 1 2 3 4 5 6 by simp_all
  qed
  have lev: "L (swapIf i j y) k = (if k = j then max (L y i) (L y j) else if k = i then min (L y i) (L y j) else L y k)"
    if "length y = 4" "i < 4" "j < 4" "i \<noteq> j" "k < 4" for y i j k
    using swap_parts(2) [of i y j k] that by (simp add: L_def)
  have e1: "L y1 0 = min (L xs 0) (L xs 1)" "L y1 1 = max (L xs 0) (L xs 1)" "L y1 2 = L xs 2" "L y1 3 = L xs 3"
    unfolding y1_def by (simp_all add: lev [OF assms])
  have e2: "L y2 0 = min (L y1 0) (L y1 2)" "L y2 1 = L y1 1" "L y2 2 = max (L y1 0) (L y1 2)" "L y2 3 = L y1 3"
    unfolding y2_def by (simp_all add: lev [OF ls(1)])
  have e3: "L y3 0 = min (L y2 0) (L y2 3)" "L y3 1 = L y2 1" "L y3 2 = L y2 2" "L y3 3 = max (L y2 0) (L y2 3)"
    unfolding y3_def by (simp_all add: lev [OF ls(2)])
  have e4: "L y4 0 = L y3 0" "L y4 1 = min (L y3 1) (L y3 2)" "L y4 2 = max (L y3 1) (L y3 2)" "L y4 3 = L y3 3"
    unfolding y4_def by (simp_all add: lev [OF ls(3)])
  have e5: "L y5 0 = L y4 0" "L y5 1 = min (L y4 1) (L y4 3)" "L y5 2 = L y4 2" "L y5 3 = max (L y4 1) (L y4 3)"
    unfolding y5_def by (simp_all add: lev [OF ls(4)])
  have e6: "L y6 0 = L y5 0" "L y6 1 = L y5 1" "L y6 2 = min (L y5 2) (L y5 3)" "L y6 3 = max (L y5 2) (L y5 3)"
    unfolding y6_def by (simp_all add: lev [OF ls(5)])
  have "L y3 0 \<le> L y3 1" "L y3 0 \<le> L y3 2" "L y3 0 \<le> L y3 3" unfolding e3 e2 e1 by simp_all
  then have "L y5 0 \<le> L y5 1" "L y5 0 \<le> L y5 2" "L y5 0 \<le> L y5 3" unfolding e5 e4 by simp_all
  moreover have "L y5 1 \<le> L y5 2" "L y5 1 \<le> L y5 3" unfolding e5 e4 by simp_all
  ultimately have "L y6 0 \<le> L y6 1 \<and> L y6 1 \<le> L y6 2 \<and> L y6 2 \<le> L y6 3" unfolding e6 by simp
  then have "sorted (map levelOf y6)"
    using ls(6) by (auto simp: L_def numeral_eq_Suc length_Suc_conv)
  then show ?thesis using m ls(6) e by (simp add: y1_def y2_def y3_def y4_def y5_def y6_def)
qed

lemma line_up:
  assumes "length rs = 5"
  shows "length (sortGrunts (pickGrunts (take 4 rs) gruntPool)) = 4
    \<and> set (sortGrunts (pickGrunts (take 4 rs) gruntPool)) \<subseteq> set gruntPool
    \<and> distinct (sortGrunts (pickGrunts (take 4 rs) gruntPool))
    \<and> sorted (map levelOf (sortGrunts (pickGrunts (take 4 rs) gruntPool)))"
proof -
  let ?p = "pickGrunts (take 4 rs) gruntPool"
  have p: "length ?p = 4" "set ?p \<subseteq> set gruntPool" "distinct ?p"
    using picked [of "take 4 rs" gruntPool] grunt_pool(1,2) assms by simp_all
  note s = sort_four [OF p(1)]
  have "set (sortGrunts ?p) = set ?p" using s by (metis mset_eq_setD)
  moreover have "distinct (sortGrunts ?p)" using s p(3) by (metis mset_eq_imp_distinct_iff)
  ultimately show ?thesis using s p(2) by simp
qed

end
