(* ===== verification/GauntletPlay.thy ===== *)
theory GauntletPlay
  imports GauntletSafety
begin

text \<open>
  Every call of a gym station keeps its invariant: settings, sessions, ladders, promotion, packets, text messages,
  the slide and the start of the device.
\<close>

subsection \<open>Parties served\<close>

lemma lorelei_rows: "list_all (\<lambda>(d, l). 1 \<le> d \<and> d \<le> 151 \<and> 1 \<le> l \<and> l \<le> 100) (filter (\<lambda>(d, l). d \<noteq> 0) (snd (E4_TABLE ! 0)))
    \<and> 1 \<le> length (filter (\<lambda>(d, l). d \<noteq> 0) (snd (E4_TABLE ! 0))) \<and> length (filter (\<lambda>(d, l). d \<noteq> 0) (snd (E4_TABLE ! 0))) \<le> 6"
  by code_simp

lemma lorelei_fits: "save_ok (snd (gauntletBuildE4Party 0)) \<and> gp_count (snd (gauntletBuildE4Party 0)) \<noteq> 0"
proof -
  define ms where "ms = filter (\<lambda>(d, l). d \<noteq> 0) (snd (E4_TABLE ! 0))"
  note r = lorelei_rows [folded ms_def]
  let ?rs = "map (\<lambda>x. (fst x, snd x, pickDefaultMoves (fst x), ''FOE'')) ms"
  have rs: "list_all (\<lambda>(d, l, mv, nick). row_fits (d, l, mv)) ?rs" "length ?rs \<le> 6"
    using r default_moves_fit by (auto simp: list_all_iff row_fits_def)
  have e: "snd (gauntletBuildE4Party 0) = (writeFrom 0 ?rs emptySaveParty)\<lparr>gp_count := of_nat (length ?rs)\<rparr>"
    using fold_writeFrom [of 0 fst ms snd "\<lambda>x. pickDefaultMoves (fst x)" "\<lambda>x. ''FOE''" emptySaveParty]
    by (cases "E4_TABLE ! 0") (simp add: gauntletBuildE4Party_def ms_def Let_def)
  have "list_all row_fits (map (\<lambda>(d, l, mv, nick). (d, l, mv)) ?rs)" "map (\<lambda>(d, l, mv, nick). (d, l, mv)) ?rs \<noteq> []"
    using rs(1) r by (auto simp: list_all_iff)
  then show ?thesis unfolding e by - (rule serves_save_ok [OF serves_written(2) [OF rs]])
qed

lemma slot_line:
  assumes "list_all slot_ok xs" "i < length xs"
  shows "\<exists>name boss p. autoLookupTrainer (fst (xs ! i)) (snd (xs ! i)) sc = Some (name, boss, p)
    \<and> servesMons p (lineRows (fst (xs ! i)) (snd (xs ! i)) sc) \<and> save_ok p \<and> gp_count p \<noteq> 0"
proof -
  have "fst (xs ! i) \<le> 8" "snd (xs ! i) < 5" using assms by (simp_all add: list_all_length slot_ok_def)
  then show ?thesis using lookup_line [of "fst (xs ! i)" "snd (xs ! i)" sc] served_line_fits [of "fst (xs ! i)" "snd (xs ! i)" sc] by metis
qed

lemma leader_party_fits:
  assumes "state_ok s"
  shows "save_ok (buildGymBattleParty out s) \<and> gp_count (buildGymBattleParty out s) \<noteq> 0"
proof -
  have l: "leader_ok (gs_leader s)" and "list_all slot_ok (gs_autoSlots s)" "4 < length (gs_autoSlots s)" using assms by (simp_all add: state_ok_def)
  then obtain name boss p where "autoLookupTrainer (fst (gs_autoSlots s ! 4)) (snd (gs_autoSlots s ! 4))
      (if gs_memberLevels s ! 4 = 0 \<and> gs_autoLeaderLevel s \<noteq> 0 then gs_autoLeaderLevel s else gs_memberLevels s ! 4) = Some (name, boss, p)"
      "save_ok p" "gp_count p \<noteq> 0"
    using slot_line [of "gs_autoSlots s" 4] by blast
  then show ?thesis using l lorelei_fits
    by (cases "gs_autoSlots s ! 4") (simp add: buildGymBattleParty_def leader_ok_def Let_def)
qed

lemma ladder_party_fits:
  assumes "state_ok s" "i < 5"
  shows "save_ok (buildLadderTrainerParty out i s) \<and> gp_count (buildLadderTrainerParty out i s) \<noteq> 0"
proof -
  have "list_all slot_ok (gs_autoSlots s)" "i < length (gs_autoSlots s)" using assms by (simp_all add: state_ok_def)
  then obtain name boss p where "autoLookupTrainer (fst (gs_autoSlots s ! i)) (snd (gs_autoSlots s ! i)) (gs_memberLevels s ! i) = Some (name, boss, p)"
      "save_ok p" "gp_count p \<noteq> 0"
    using slot_line [of "gs_autoSlots s" i] by blast
  then show ?thesis using leader_party_fits [OF assms(1)] assms(2) by (simp add: buildLadderTrainerParty_def Let_def)
qed

subsection \<open>Settings\<close>

lemma npc_leader_ok: "save_ok p \<Longrightarrow> gp_count p \<noteq> 0 \<Longrightarrow> leader_ok (npcLeader name p now)"
  by (simp add: leader_ok_def npcLeader_def)

lemma no_trainer_ok [simp]: "leader_ok noTrainer"
  by (simp add: leader_ok_def noTrainer_def emptySaveParty_def)

lemma preset_party_fits:
  assumes "g < 8" "t < 5"
  shows "save_ok (snd (gauntletBuildPresetTrainerParty g t sc)) \<and> gp_count (snd (gauntletBuildPresetTrainerParty g t sc)) \<noteq> 0"
  using serves_save_ok [OF preset_serves(1) [OF assms, of sc]] rows_fit [of g t sc] assms by simp

lemma line_up_slots:
  assumes "length rs = 5"
  defines "ch \<equiv> sortGrunts (pickGrunts (take 4 rs) gruntPool)"
  shows "length ch = 4 \<and> list_all slot_ok (map (\<lambda>(gy, t, b). (gy, t)) ch) \<and> 1 \<le> levelOf (ch ! 3) \<and> levelOf (ch ! 3) \<le> 50"
proof -
  note l = line_up [OF assms(1), folded ch_def]
  have all: "list_all (\<lambda>(g, t, b). g < 8 \<and> t < 4 \<and> 1 \<le> b \<and> b \<le> 50) ch" using l grunt_pool(3) by (auto simp: list_all_iff)
  have "list_all slot_ok (map (\<lambda>(gy, t, b). (gy, t)) ch)"
    using all by (induction ch) (auto simp: slot_ok_def)
  moreover have "case ch ! 3 of (g, t, b) \<Rightarrow> g < 8 \<and> t < 4 \<and> 1 \<le> b \<and> b \<le> 50" using all l by (simp only: list_all_length)
  ultimately show ?thesis using l by (auto split: prod.splits)
qed

lemma auto_setup_state:
  assumes "length rs = 5"
  obtains ch src tr boss ov name p where "ch = sortGrunts (pickGrunts (take 4 rs) gruntPool)" "pickLeader (rs ! 4 mod 13) = (src, tr, boss)"
    "src \<le> 8" "tr < 5" "ov = (if levelOf (ch ! 3) < boss then levelOf (ch ! 3) else 0)" "save_ok p" "gp_count p \<noteq> 0"
    "servesMons p (lineRows src tr ov)"
    "autoSetup rs now g = gauntletSave (onState (\<lambda>s. s\<lparr>gs_autoEnabled := 1, gs_autoSlots := map (\<lambda>(gy, t, b). (gy, t)) ch @ [(src, tr)],
           gs_autoLeaderLevel := ov, gs_gymName := ''MonsterMesh Gym'', gs_gymBadge := ''Random Badge'',
           gs_leader := npcLeader name p now, gs_lastUpdate := now\<rparr>) g)"
proof -
  define ch where "ch = sortGrunts (pickGrunts (take 4 rs) gruntPool)"
  have c: "1 \<le> levelOf (ch ! 3)" using line_up_slots [OF assms, folded ch_def] by blast
  obtain src tr boss where pl: "pickLeader (rs ! 4 mod 13) = (src, tr, boss)" "src \<le> 8" "tr < 5" by (rule pick_leader [of "rs ! 4 mod 13"]) auto
  define ov where "ov = (if levelOf (ch ! 3) < boss then levelOf (ch ! 3) else 0)"
  have ov: "(if levelOf (ch ! 3) > 0 \<and> boss > levelOf (ch ! 3) then levelOf (ch ! 3) else 0) = ov" using c by (simp add: ov_def)
  obtain name b p where a: "autoLookupTrainer src tr ov = Some (name, b, p)" "servesMons p (lineRows src tr ov)"
    using lookup_line [OF pl(2,3), of ov] by blast
  have "autoSetup rs now g = gauntletSave (onState (\<lambda>s. s\<lparr>gs_autoEnabled := 1, gs_autoSlots := map (\<lambda>(gy, t, b). (gy, t)) ch @ [(src, tr)],
           gs_autoLeaderLevel := ov, gs_gymName := ''MonsterMesh Gym'', gs_gymBadge := ''Random Badge'',
           gs_leader := npcLeader name p now, gs_lastUpdate := now\<rparr>) g)"
    by (simp only: autoSetup_def Let_def ch_def [symmetric] pl(1) prod.case ov a(1) option.case)
  then show thesis using that ch_def pl ov_def served_line_fits [OF pl(2,3) a(1)] a(2) by blast
qed

lemma auto_setup_ok [gym_intros]:
  assumes "gym_ok g" "length rs = 5"
  shows "gym_ok (autoSetup rs now g)"
proof -
  obtain ch src tr boss ov name p where c: "ch = sortGrunts (pickGrunts (take 4 rs) gruntPool)"
    "src \<le> 8" "tr < 5" "ov = (if levelOf (ch ! 3) < boss then levelOf (ch ! 3) else 0)" "save_ok p" "gp_count p \<noteq> 0"
    "autoSetup rs now g = gauntletSave (onState (\<lambda>s. s\<lparr>gs_autoEnabled := 1, gs_autoSlots := map (\<lambda>(gy, t, b). (gy, t)) ch @ [(src, tr)],
           gs_autoLeaderLevel := ov, gs_gymName := ''MonsterMesh Gym'', gs_gymBadge := ''Random Badge'',
           gs_leader := npcLeader name p now, gs_lastUpdate := now\<rparr>) g)"
    by (rule auto_setup_state [OF assms(2), of now g])
  have "length ch = 4" "list_all slot_ok (map (\<lambda>(gy, t, b). (gy, t)) ch)" "ov \<le> 100"
    using line_up_slots [OF assms(2), folded c(1)] c(4) by auto
  then show ?thesis unfolding c(7) using assms(1) c(2,3) npc_leader_ok [OF c(5,6)]
    by (intro gym_save gym_state) (simp_all add: state_ok_def slot_ok_def)
qed

lemma reset_config_ok: "state_ok s \<Longrightarrow> state_ok (resetConfig now s)"
  by (simp add: state_ok_def resetConfig_def)

lemma reset_window_ok [gym_intros]: "gym_ok g \<Longrightarrow> length rs = 5 \<Longrightarrow> gym_ok (gymAdminResetAndOpenWindow rs ms now g)"
  unfolding gymAdminResetAndOpenWindow_def by (intro gym_intros reset_config_ok)

lemma member_set_ok: "state_ok s \<Longrightarrow> gymIdx < 8 \<Longrightarrow> m < 5 \<Longrightarrow> lvl \<le> 100 \<Longrightarrow>
   state_ok (s\<lparr>gs_autoEnabled := Suc 0, gs_autoSlots := (gs_autoSlots s)[m := (gymIdx, m)],
     gs_memberLevels := (gs_memberLevels s)[m := lvl], gs_gymPresetIdx := 255\<rparr>)"
  by (auto simp: state_ok_def slot_ok_def intro!: list_all_update)

lemma leader_set_ok: "state_ok s \<Longrightarrow> gymIdx < 8 \<Longrightarrow>
   state_ok (s\<lparr>gs_leader := npcLeader nm (snd (gauntletBuildPresetTrainerParty gymIdx 4 lvl)) now\<rparr>)"
  "state_ok s \<Longrightarrow> state_ok (s\<lparr>gs_autoLeaderLevel := 0\<rparr>)" "state_ok s \<Longrightarrow> state_ok (s\<lparr>gs_lastUpdate := now\<rparr>)"
  using npc_leader_ok [of "snd (gauntletBuildPresetTrainerParty gymIdx 4 lvl)" nm now] preset_party_fits [of gymIdx 4 lvl]
  by (simp_all add: state_ok_def)

lemma leader_level_ok: "state_ok s \<Longrightarrow> gymIdx < 8 \<Longrightarrow>
   state_ok (s\<lparr>gs_leader := npcLeader nm (snd (gauntletBuildPresetTrainerParty gymIdx 4 lvl)) now, gs_autoLeaderLevel := 0\<rparr>)"
  using leader_set_ok(2) [OF leader_set_ok(1)] .

lemma admin_apply_ok [gym_intros]: "gym_ok g \<Longrightarrow> gym_ok (snd (gymAdminApply gymIdx m lvl now g))"
  by (auto simp: gymAdminApply_def Let_def gauntletGymPreset_def
      intro!: gym_save gym_state member_set_ok leader_set_ok(3) leader_level_ok)

lemma authorized_ok: "gym_ok g \<Longrightarrow> gym_ok (snd (isAdminAuthorized n ms now g))"
  by (auto simp: isAdminAuthorized_def state_ok_def intro!: gym_save gym_state gym_records)

subsection \<open>Sessions and ladders\<close>

lemma unique_update:
  assumes "unique_by f xs" "\<And>j. j < length xs \<Longrightarrow> f x \<noteq> 0 \<Longrightarrow> f (xs ! j) = f x \<Longrightarrow> j = i"
  shows "unique_by f (xs[i := x])"
  unfolding unique_by_def
proof (intro allI impI)
  fix a b
  assume "a < length (xs[i := x])" "b < length (xs[i := x])" "f (xs[i := x] ! a) \<noteq> 0 \<and> f (xs[i := x] ! a) = f (xs[i := x] ! b)"
  then show "a = b" using assms(1) [unfolded unique_by_def, rule_format, of a b] assms(2) [of a] assms(2) [of b]
    by (cases "i < length xs") (auto simp: nth_list_update split: if_splits)
qed

lemma unique_map:
  assumes "unique_by f xs" "\<And>x. f (h x) = f x \<or> f (h x) = 0"
  shows "unique_by f (map h xs)"
  unfolding unique_by_def
proof (intro allI impI)
  fix a b
  assume "a < length (map h xs)" "b < length (map h xs)" "f (map h xs ! a) \<noteq> 0 \<and> f (map h xs ! a) = f (map h xs ! b)"
  then show "a = b" using assms(1) [unfolded unique_by_def, rule_format, of a b] assms(2) [of "xs ! a"] assms(2) [of "xs ! b"] by simp
qed

lemma gym_sessions: "gym_ok g \<Longrightarrow> sessions_ok ss \<Longrightarrow> gym_ok (g\<lparr>gm_sessions := ss\<rparr>)"
  and gym_ladders: "gym_ok g \<Longrightarrow> ladders_ok ls \<Longrightarrow> gym_ok (g\<lparr>gm_ladders := ls\<rparr>)"
  by (simp_all add: gym_parts)

lemma put_session_ok:
  assumes "gym_ok g" "se_state s = GS_IDLE" "\<And>j. j < 4 \<Longrightarrow> se_nodeNum s \<noteq> 0 \<Longrightarrow> se_nodeNum (gm_sessions g ! j) = se_nodeNum s \<Longrightarrow> j = i"
  shows "gym_ok (putSession i s g)"
proof -
  have "sessions_ok (gm_sessions g)" using assms(1) by (simp add: gym_ok_def)
  then have "sessions_ok ((gm_sessions g)[i := s])" using assms(2,3) by (auto simp: sessions_ok_def intro!: unique_update list_all_update)
  then show ?thesis unfolding putSession_def by (rule gym_sessions [OF assms(1)])
qed

lemma put_ladder_ok:
  assumes "gym_ok g" "idx \<le> 4" "\<And>j. j < 8 \<Longrightarrow> n \<noteq> 0 \<Longrightarrow> la_nodeNum (gm_ladders g ! j) = n \<Longrightarrow> j = i"
  shows "gym_ok (putLadder i n idx ms g)"
proof -
  have "ladders_ok (gm_ladders g)" using assms(1) by (simp add: gym_ok_def)
  then have "ladders_ok ((gm_ladders g)[i := \<lparr>la_nodeNum = n, la_ladderIdx = idx, la_lastSeenMs = ms\<rparr>])"
    using assms(2,3) by (auto simp: ladders_ok_def intro!: unique_update list_all_update)
  then show ?thesis unfolding putLadder_def by (rule gym_ladders [OF assms(1)])
qed

lemma same_slot:
  assumes "unique_by f xs" "i < length xs" "j < length xs" "f (xs ! i) \<noteq> 0" "f (xs ! j) = f (xs ! i)"
  shows "j = i"
  using assms by (metis unique_by_def)

lemma found: "find (\<lambda>i. P i) [0..<n] = Some k \<Longrightarrow> k < n \<and> P k"
  by (metis find_Some_iff length_upt nth_upt diff_zero add_0)

lemma not_found: "find (\<lambda>i. P i) [0..<n] = None \<Longrightarrow> k < n \<Longrightarrow> \<not> P k"
  by (simp add: find_None_iff)

lemma oldest_idle: "oldestIdle ss = Some i \<Longrightarrow> i < length ss"
proof -
  have "fst (foldl (\<lambda>(k, ts) i. if P i \<and> t i < ts then (Some i, t i) else (k, ts)) (k0, u) is) \<in> insert k0 (Some ` set is)"
    for P and t :: "nat \<Rightarrow> nat" and k0 u "is"
    by (induction "is" arbitrary: k0 u) auto
  from this [of "\<lambda>i. se_state (ss ! i) = GS_IDLE" "\<lambda>i. se_lastActivity (ss ! i)" None "0xFFFFFFFF" "[0..<length ss]"]
  show "oldestIdle ss = Some i \<Longrightarrow> i < length ss" unfolding oldestIdle_def by auto
qed

lemma session_ok:
  assumes g: "gym_ok g" and r: "getOrCreateSession node g = (k, h)"
  shows "gym_ok h \<and> gm_state h = gm_state g \<and> (\<forall>i. k = Some i \<longrightarrow> i < 4 \<and> se_nodeNum (gm_sessions h ! i) = node)"
proof -
  have len: "length (gm_sessions g) = 4" using g by (simp add: gym_ok_def sessions_ok_def)
  have new: "gym_ok (putSession i (newSession node) g) \<and> se_nodeNum (gm_sessions (putSession i (newSession node) g) ! i) = node"
    if "i < 4" "find (\<lambda>i. se_nodeNum (gm_sessions g ! i) = node) [0..<4] = None" for i
  proof
    show "gym_ok (putSession i (newSession node) g)"
      using not_found [OF that(2)] by (intro put_session_ok [OF g]) (auto simp: newSession_def zeroSession_def)
    show "se_nodeNum (gm_sessions (putSession i (newSession node) g) ! i) = node"
      using that(1) len by (simp add: putSession_def newSession_def)
  qed
  consider "k = None" "h = g" | i where "i < 4" "k = Some i" "h = g" "se_nodeNum (gm_sessions g ! i) = node"
    | i where "i < 4" "k = Some i" "h = putSession i (newSession node) g" "find (\<lambda>i. se_nodeNum (gm_sessions g ! i) = node) [0..<4] = None"
  proof (cases "node = 0")
    case False
    show thesis
    proof (cases "find (\<lambda>i. se_nodeNum (gm_sessions g ! i) = node) [0..<4]")
      case None
      show thesis
      proof (cases "find (\<lambda>i. se_nodeNum (gm_sessions g ! i) = 0) [0..<4]")
        case (Some i)
        then show thesis using that(3) [of i] r False None found [OF Some] by (simp add: getOrCreateSession_def)
      next
        case none: None
        have e: "(k, h) = (case oldestIdle (gm_sessions g) of None \<Rightarrow> (None, g) | Some i \<Rightarrow> (Some i, putSession i (newSession node) g))"
          using r False None none by (simp add: getOrCreateSession_def)
        show thesis
        proof (cases "oldestIdle (gm_sessions g)")
          case (Some i)
          then show thesis using that(3) [of i] e None oldest_idle [OF Some] len by simp
        qed (use that(1) e in simp)
      qed
    next
      case (Some i)
      then show thesis using that(2) [of i] r False found [OF Some] by (simp add: getOrCreateSession_def)
    qed
  qed (use r that(1) in \<open>simp add: getOrCreateSession_def\<close>)
  then show ?thesis using g new by cases auto
qed

lemma expire_sessions_ok [gym_intros]: "gym_ok g \<Longrightarrow> gym_ok (expireSessions now g)"
proof -
  assume g: "gym_ok g"
  then have s: "sessions_ok (gm_sessions g)" by (simp add: gym_ok_def)
  let ?h = "\<lambda>s. if se_nodeNum s = 0 then s else if sub32 now (se_lastActivity s) > 600 then zeroSession else s"
  have "sessions_ok (map ?h (gm_sessions g))"
    using s unique_map [of se_nodeNum "gm_sessions g" ?h] by (auto simp: sessions_ok_def zeroSession_def list_all_iff)
  then show ?thesis using gym_sessions [OF g] g by (simp add: expireSessions_def)
qed

lemma expire_ladders_ok [gym_intros]: "gym_ok g \<Longrightarrow> gym_ok (expireLadders ms g)"
proof -
  assume g: "gym_ok g"
  then have s: "ladders_ok (gm_ladders g)" by (simp add: gym_ok_def)
  let ?h = "\<lambda>l. if la_nodeNum l = 0 then l else if sub32 ms (la_lastSeenMs l) > 600000 then l\<lparr>la_nodeNum := 0, la_ladderIdx := 0\<rparr> else l"
  have "ladders_ok (map ?h (gm_ladders g))"
    using s unique_map [of la_nodeNum "gm_ladders g" ?h] by (auto simp: ladders_ok_def list_all_iff)
  then show ?thesis using gym_ladders [OF g] g by (simp add: expireLadders_def)
qed

lemma oldest_ladder: "ls \<noteq> [] \<Longrightarrow> oldestLadder ls < length ls"
proof -
  have "fst (foldl (\<lambda>(k, ts) i. if t i < ts then (i, t i) else (k, ts)) (k0, u) is) \<in> insert k0 (set is)"
    for t :: "nat \<Rightarrow> nat" and k0 u "is"
    by (induction "is" arbitrary: k0 u) auto
  from this [of "\<lambda>i. la_lastSeenMs (ls ! i)" 0 "0xFFFFFFFF" "[0..<length ls]"]
  show "ls \<noteq> [] \<Longrightarrow> oldestLadder ls < length ls" unfolding oldestLadder_def by auto
qed

lemma ladder_slot_ok:
  assumes g: "gym_ok g" and r: "lookupOrInsertLadder node ms g = (k, h)"
  shows "gym_ok h \<and> gm_state h = gm_state g \<and> (node \<noteq> 0 \<longrightarrow> k \<noteq> None)
    \<and> (\<forall>i. k = Some i \<longrightarrow> i < 8 \<and> node \<noteq> 0 \<and> la_nodeNum (gm_ladders h ! i) = node)"
proof (cases "node = 0 \<or> lookupLadder node g \<noteq> None")
  case True
  then consider "node = 0" "k = None" "h = g" | i where "node \<noteq> 0" "lookupLadder node g = Some i" "k = Some i" "h = g"
    using r by (cases "node = 0") (auto simp: lookupOrInsertLadder_def)
  then show ?thesis using g by cases (auto simp: lookupLadder_def dest: found)
next
  case False
  define e where "e = expireLadders ms g"
  have e: "gym_ok e" "length (gm_ladders e) = 8" unfolding e_def using expire_ladders_ok [OF g, of ms] by (simp_all add: gym_ok_def ladders_ok_def)
  define i where "i = (case find (\<lambda>i. la_nodeNum (gm_ladders e ! i) = 0) [0..<8] of Some i \<Rightarrow> i | None \<Rightarrow> oldestLadder (gm_ladders e))"
  have i: "i < 8" using e(2) oldest_ladder [of "gm_ladders e"] by (cases "gm_ladders e = []") (auto simp: i_def dest: found split: option.split)
  have absent: "la_nodeNum (gm_ladders e ! j) \<noteq> node" if "j < 8" for j
    using False that not_found [of "\<lambda>i. la_nodeNum (gm_ladders g ! i) = node" 8 j] e(2)
    by (auto simp: lookupLadder_def e_def expireLadders_def)
  have kh: "k = Some i" "h = putLadder i node 0 ms e"
    using r False by (auto simp: lookupOrInsertLadder_def Let_def i_def simp flip: e_def)
  have "gym_ok h" unfolding kh by (rule put_ladder_ok [OF e(1)]) (use absent in auto)
  moreover have "gm_state h = gm_state g" "la_nodeNum (gm_ladders h ! i) = node"
    using e(2) i by (simp_all add: kh e_def expireLadders_def putLadder_def)
  ultimately show ?thesis using kh i False by auto
qed

subsection \<open>Roster and leader\<close>

lemma shift_ok:
  assumes "list_all P xs" "P t"
  shows "list_all P (shiftInto rank hi t xs) \<and> length (shiftInto rank hi t xs) = length xs"
proof -
  have "list_all P (fold (\<lambda>i ys. ys[i := ys ! (i - 1)]) is xs) \<and> length (fold (\<lambda>i ys. ys[i := ys ! (i - 1)]) is xs) = length xs" for "is"
    using assms(1)
  proof (induction "is" arbitrary: xs)
    case (Cons i "is")
    have "list_all P (xs[i := xs ! (i - 1)])"
      using Cons.prems by (cases "i < length xs") (auto simp: list_all_length nth_list_update)
    then show ?case using Cons.IH [of "xs[i := xs ! (i - 1)]"] by simp
  qed simp
  then show ?thesis using assms(2) by (simp add: shiftInto_def list_all_update)
qed

lemma trainer_now_ok: "save_ok p \<Longrightarrow> gp_count p \<noteq> 0 \<Longrightarrow> leader_ok (trainerNow node name p now)"
  by (simp add: leader_ok_def trainerNow_def)

lemma archive_ok: "state_ok s \<Longrightarrow> state_ok (archiveLeader s)"
  using shift_ok [of leader_ok "gs_prevLeaders s" "gs_leader s"]
  by (auto simp: archiveLeader_def state_ok_def Let_def)

lemma crowned_ok:
  assumes "state_ok s" "save_ok p" "gp_count p \<noteq> 0"
  shows "state_ok ((archiveLeader s)\<lparr>gs_leader := trainerNow node name p now, gs_rosterSize := 0, gs_lastUpdate := now\<rparr>)"
  using archive_ok [OF assms(1)] trainer_now_ok [OF assms(2,3)] by (simp add: state_ok_def)

lemma promote_ok [gym_intros]: "gym_ok g \<Longrightarrow> save_ok p \<Longrightarrow> gp_count p \<noteq> 0 \<Longrightarrow> gym_ok (promoteToLeader frm p now g)"
  unfolding promoteToLeader_def Let_def by (intro gym_intros crowned_ok)

lemma insert_ok: "gym_ok g \<Longrightarrow> save_ok p \<Longrightarrow> gp_count p \<noteq> 0 \<Longrightarrow> gym_ok (insertAtRank frm p rank now g)"
proof -
  assume g: "gym_ok g" and p: "save_ok p" "gp_count p \<noteq> 0"
  have "state_ok (s\<lparr>gs_rosterSize := n, gs_roster := shiftInto r hi (trainerNow node nm p now) (gs_roster s), gs_lastUpdate := now\<rparr>)"
    if "state_ok s" "n \<le> 12" for s n r hi node nm
    using that shift_ok [of leader_ok "gs_roster s" "trainerNow node nm p now"] trainer_now_ok [OF p] by (simp add: state_ok_def)
  moreover have "gs_rosterSize (gm_state g) \<le> 12" using g by (simp add: gym_ok_def state_ok_def)
  ultimately show ?thesis using g by (auto simp: insertAtRank_def Let_def intro!: gym_intros)
qed

lemma count_ok: "state_ok s \<Longrightarrow> state_ok (countBattle c s)"
  by (simp add: state_ok_def countBattle_def)

subsection \<open>Packets\<close>

lemma send_ok: "gym_ok g \<Longrightarrow> length bs \<le> 200 \<Longrightarrow> list_all (\<lambda>b. b < 256) bs \<Longrightarrow> gym_ok (sendTo to c bs g)"
  by (simp add: gym_parts sendTo_def gym_packet_ok_def)

lemma ok_made: "length pl \<le> 196 \<Longrightarrow> list_all (\<lambda>b. b < 256) pl \<Longrightarrow> q < 256 \<Longrightarrow> sid < 65536
    \<Longrightarrow> length (mkPacket t sid q pl) \<le> 200 \<and> list_all (\<lambda>b. b < 256) (mkPacket t sid q pl)"
  by (cases t) (simp_all add: mkPacket_def packetBytes_def setSessionId_def)

lemma push_str_ok: "length out \<le> 196 \<Longrightarrow> list_all (\<lambda>b. b < 256) out \<Longrightarrow>
   length (pushStr s out) \<le> 196 \<and> list_all (\<lambda>b. b < 256) (pushStr s out)"
  by (auto simp: pushStr_def Let_def)

lemma bbs_reply_ok [gym_intros]: "gym_ok g \<Longrightarrow> gym_ok (sendBbsReply to c g)"
proof -
  assume g: "gym_ok g"
  define pl where "pl = pushStr (leaderName (gm_state g)) (pushStr (gs_gymBadge (gm_state g)) (pushStr (gs_gymName (gm_state g)) []))"
  have "length pl \<le> 196 \<and> list_all (\<lambda>b. b < 256) pl" unfolding pl_def by (simp add: push_str_ok)
  moreover have "gs_rosterSize (gm_state g) < 256" using g by (simp add: gym_ok_def state_ok_def)
  ultimately have "length (if length pl < 196 then pl @ [gs_rosterSize (gm_state g)] else pl) \<le> 196
      \<and> list_all (\<lambda>b. b < 256) (if length pl < 196 then pl @ [gs_rosterSize (gm_state g)] else pl)" by simp
  then show ?thesis unfolding sendBbsReply_def Let_def pl_def [symmetric] using ok_made [of _ 0 0 BBS_REPLY] g
    by (intro send_ok) auto
qed

text \<open>The rows a slot stands for, whatever way they are sent.\<close>

definition slotScale :: "GauntletState \<Rightarrow> nat \<Rightarrow> nat" where
  "slotScale s i = (if i = 4 \<and> gs_memberLevels s ! i = 0 then gs_autoLeaderLevel s else gs_memberLevels s ! i)"

definition slotRows :: "GauntletState \<Rightarrow> nat \<Rightarrow> mon_row list" where
  "slotRows s i = lineRows (fst (gs_autoSlots s ! i)) (snd (gs_autoSlots s ! i)) (slotScale s i)"

lemma same_default_moves: "1 \<le> d \<Longrightarrow> d \<le> 151 \<Longrightarrow> kMoves d = pickDefaultMoves d"
  by (simp add: kMoves_def pickDefaultMoves_def default_moves_agree Let_def)

lemma preset_boss: "preset_trainer_ok (name, row) \<Longrightarrow> bossLevel (map pm_level row) \<noteq> 0"
proof -
  assume ok: "preset_trainer_ok (name, row)"
  then have "pm_level (hd row) \<in> set (map pm_level row)" "1 \<le> pm_level (hd row)" "row \<noteq> []"
    by (cases row; auto simp: preset_trainer_ok_def list_all_iff preset_mon_ok_def)+
  then have "1 \<le> Max (set (map pm_level row))" by (meson List.finite_set Max_ge order_trans)
  then show ?thesis using \<open>row \<noteq> []\<close> by (simp add: bossLevel_max)
qed

lemma slot_rows:
  assumes "state_ok s" "i < 5" "gs_autoEnabled s \<noteq> 0"
  shows "buildSlot s i = slotRows s i"
proof -
  obtain g t where gt: "gs_autoSlots s ! i = (g, t)" by (cases "gs_autoSlots s ! i")
  have "slot_ok (gs_autoSlots s ! i)" using assms by (simp add: state_ok_def list_all_length)
  then have b: "g \<le> 8" "t < 5" by (simp_all add: gt slot_ok_def)
  show ?thesis
  proof (cases "g < 8")
    case True
    obtain name row where r: "pr_trainers (GAUNTLET_GYMS ! g) ! t = (name, row)" by (cases "pr_trainers (GAUNTLET_GYMS ! g) ! t")
    have ok: "preset_trainer_ok (name, row)" using preset_trainer [OF True b(2)] r by simp
    have f: "filter (\<lambda>m. 0 < pm_dex m) row = row" "take 6 row = row"
      using ok by (auto intro!: filter_True simp: preset_trainer_ok_def list_all_iff preset_mon_ok_def)
    have "list_ex (\<lambda>k. 0 < k) (pm_moves m)" if "m \<in> set row" for m
    proof -
      have "preset_mon_ok m" using ok that by (simp add: preset_trainer_ok_def list_all_iff)
      then have "pm_moves m ! 0 \<in> set (pm_moves m)" "pm_moves m ! 0 \<noteq> 0" by (auto simp: preset_mon_ok_def intro: nth_mem)
      then show ?thesis by (auto simp: list_ex_iff)
    qed
    then show ?thesis using assms(2,3) True b(2) preset_boss [OF ok]
      by (auto simp: buildSlot_def slotRows_def slotScale_def lineRows_def presetRows_def gauntletGymPreset_def gt r f Let_def)
  next
    case False
    then have e: "elite_ok (ELITE_POOL ! t)" "g = 8" using elite_entry [OF b(2)] b(1) by simp_all
    then have "el_bossLevel (ELITE_POOL ! t) \<noteq> 0" "take 6 (el_party (ELITE_POOL ! t)) = el_party (ELITE_POOL ! t)"
      by (cases "el_party (ELITE_POOL ! t)"; auto simp: elite_ok_def)+
    moreover have "kMoves (fst x) = pickDefaultMoves (fst x)" if "x \<in> set (el_party (ELITE_POOL ! t))" for x
      using elite_levels [OF e(1)] that same_default_moves [of "fst x"] by (auto simp: list_all_iff)
    ultimately show ?thesis using assms(2,3) b(2) e(2)
      by (auto simp: buildSlot_def slotRows_def slotScale_def lineRows_def eliteRows_def gt Let_def)
  qed
qed

lemma slot_fits:
  assumes "state_ok s" "i < 5"
  shows "list_all row_fits (slotRows s i) \<and> slotRows s i \<noteq> [] \<and> length (slotRows s i) \<le> 6"
proof -
  have "slot_ok (gs_autoSlots s ! i)" using assms by (simp add: state_ok_def list_all_length)
  then show ?thesis unfolding slotRows_def slot_ok_def by (intro rows_fit) simp_all
qed

lemma served_ok: "state_ok s \<Longrightarrow> i < 5 \<Longrightarrow> list_all row_fits (buildSlot s i) \<and> length (buildSlot s i) \<le> 6"
  using slot_rows [of s i] slot_fits [of s i] by (cases "gs_autoEnabled s = 0") (simp_all add: buildSlot_def)

lemma names_ok: "length out \<le> 196 \<Longrightarrow> list_all (\<lambda>b. b < 256) out \<Longrightarrow>
   length (namesSection nms out) \<le> 196 \<and> list_all (\<lambda>b. b < 256) (namesSection nms out)"
  by (induction nms out rule: namesSection.induct) (auto simp: Let_def)

lemma wire_ok: "list_all row_fits ms \<Longrightarrow> list_all (\<lambda>b. b < 256) (concat (map monWire ms)) \<and> length (concat (map monWire ms)) = 6 * length ms"
proof (induction ms)
  case (Cons m ms)
  obtain d l mv where m: "m = (d, l, mv)" by (cases m)
  have "row_fits (d, l, mv)" using Cons.prems by (simp add: m)
  then have "d \<le> 151" "l \<le> 100" "k < 4 \<Longrightarrow> mv ! k < 256" for k by (auto simp: row_fits_def list_all_length)
  then have "list_all (\<lambda>b. b < 256) (monWire m)" by (simp add: m monWire_def)
  then show ?case using Cons by (simp add: m monWire_def)
qed simp

lemma parties_ok: "length out \<le> 196 \<Longrightarrow> list_all (\<lambda>b. b < 256) out \<Longrightarrow> list_all (\<lambda>ms. list_all row_fits ms \<and> length ms \<le> 6) mss \<Longrightarrow>
   length (partiesSection mss out) \<le> 196 \<and> list_all (\<lambda>b. b < 256) (partiesSection mss out)"
  by (induction mss out rule: partiesSection.induct) (auto simp: wire_ok)

lemma ladder_request_ok [gym_intros]:
  assumes "gym_ok g" "sid < 65536"
  shows "gym_ok (onLadderRequest frm sid g)"
proof -
  have s: "state_ok (gm_state g)" using assms(1) by (simp add: gym_ok_def)
  have n: "length (ladderNames (gm_state g)) \<le> 196 \<and> list_all (\<lambda>b. b < 256) (ladderNames (gm_state g))"
    using names_ok [of "[5]" "map (trainerName (gm_state g)) [0..<5]"] by (simp add: ladderNames_def Let_def)
  have p: "length (ladderParties (gm_state g)) \<le> 196 \<and> list_all (\<lambda>b. b < 256) (ladderParties (gm_state g))"
    unfolding ladderParties_def by (rule parties_ok) (use served_ok [OF s] in \<open>auto simp: list_all_iff\<close>)
  show ?thesis unfolding onLadderRequest_def
    using n p ok_made [of "ladderNames (gm_state g)" 0 sid BBS_LADDER_NAMES] ok_made [of "ladderParties (gm_state g)" 1 sid BBS_LADDER_PARTIES] assms
    by (intro send_ok) simp_all
qed

lemma restart_ok [gym_intros]:
  assumes "gym_ok g" "\<forall>k. i = Some k \<longrightarrow> k < 8" "idx \<le> 4"
  shows "gym_ok (restartLadder i idx ms g)"
proof (cases i)
  case (Some k)
  have u: "unique_by la_nodeNum (gm_ladders g)" "length (gm_ladders g) = 8" using assms(1) by (simp_all add: gym_ok_def ladders_ok_def)
  show ?thesis unfolding restartLadder_def Some option.case
    by (rule put_ladder_ok [OF assms(1,3)]) (use same_slot [OF u(1)] u(2) assms(2) Some in auto)
qed (use assms(1) in \<open>simp add: restartLadder_def\<close>)

lemma ladder_index:
  assumes "gym_ok g" "k < 8"
  shows "la_ladderIdx (gm_ladders g ! k) \<le> 4"
  using assms by (simp add: gym_ok_def ladders_ok_def list_all_length)

lemma sends_ok: "gym_ok g \<Longrightarrow> list_all (\<lambda>p. length p \<le> 200 \<and> list_all (\<lambda>b. b < 256) p) ps \<Longrightarrow> gym_ok (fold (\<lambda>p. sendTo to c p) ps g)"
  by (induction ps arbitrary: g) (auto intro: send_ok)

lemma party_bytes: "list_all (\<lambda>b. b < 256) (partyBytes p)"
proof -
  have b: "list_all (\<lambda>b. b < 256) (map unat xs)" for xs :: "8 word list"
    by (simp add: list_all_iff unat_byte_less)
  have "list_all (\<lambda>b. b < 256) (savedMonBytes m)" for m unfolding savedMonBytes_def by (rule b)
  then have "list_all (\<lambda>b. b < 256) (concat (map savedMonBytes ms))" for ms by (induction ms) simp_all
  moreover have "unat (gp_count p) < 256" by (rule unat_byte_less)
  ultimately show ?thesis using b [of "gp_species p"] b [of "concat (gp_otNames p)"] b [of "concat (gp_nicknames p)"]
    by (simp add: partyBytes_def)
qed

lemma chunks_ok:
  assumes "sid < 65536"
  shows "list_all (\<lambda>p. length p \<le> 200 \<and> list_all (\<lambda>b. b < 256) p) (partyChunks sid (partyBytes q))"
proof -
  have "list_all (\<lambda>b. b < 256) (take n (drop k (partyBytes q)))" for n k
    using party_bytes [of q] by (auto simp: list_all_iff dest!: in_set_takeD in_set_dropD)
  then have "length (mkPacket TEXT_BATTLE_PARTY sid i ([i, 3] @ take 194 (drop (i * 194) (partyBytes q)))) \<le> 200
      \<and> list_all (\<lambda>b. b < 256) (mkPacket TEXT_BATTLE_PARTY sid i ([i, 3] @ take 194 (drop (i * 194) (partyBytes q))))" if "i < 3" for i
    using that by (intro ok_made assms) simp_all
  then show ?thesis by (simp only: partyChunks_def Let_def) (simp add: list_all_iff)
qed

lemma fight_request_ok [gym_intros]:
  assumes "gym_ok g" "sid < 65536"
  shows "gym_ok (onFightRequest frm sid stack ms g)"
proof -
  obtain i h where r: "lookupOrInsertLadder frm ms g = (i, h)" by (cases "lookupOrInsertLadder frm ms g")
  note h = ladder_slot_ok [OF assms(1) r]
  define idx where "idx = (case i of Some k \<Rightarrow> la_ladderIdx (gm_ladders h ! k) | None \<Rightarrow> 4)"
  have "idx \<le> 4" using h ladder_index [of h] by (auto simp: idx_def split: option.split)
  then have "gym_ok (restartLadder i idx ms h)" using h by (intro restart_ok) auto
  then show ?thesis
    by (simp add: onFightRequest_def r Let_def sends_ok chunks_ok assms(2) flip: idx_def restartLadder_def)
qed

lemma fight_result_ok [gym_intros]:
  assumes "gym_ok g"
  shows "gym_ok (onFightResult frm pl ms now g)"
proof -
  obtain i h where r: "lookupOrInsertLadder frm ms g = (i, h)" by (cases "lookupOrInsertLadder frm ms g")
  note h = ladder_slot_ok [OF assms r]
  have k: "\<forall>k. i = Some k \<longrightarrow> k < 8" and o: "gym_ok h" using h by simp_all
  have p: "save_ok (buildGymBattleParty q (gm_state h)) \<and> gp_count (buildGymBattleParty q (gm_state h)) \<noteq> 0" for q
    using o by (intro leader_party_fits) (simp add: gym_ok_def)
  have "gym_ok (gauntletSave (onState (countBattle False) (restartLadder i (u8 (n + 1)) ms h)))" if "n < 4" for n
    using o k that by (intro gym_save gym_state restart_ok count_ok) (simp_all add: u8_def)
  moreover have "gym_ok (gauntletSave (onState (countBattle True) (restartLadder i 0 ms (gauntletProfileUpdate frm nm csv e now
       (promoteToLeader frm (buildGymBattleParty emptySaveParty (gm_state h)) now h)))))" for nm csv e
    using p k by (intro gym_save gym_state restart_ok gym_profile promote_ok o count_ok) simp_all
  moreover have "gym_ok (gauntletSave (onState (countBattle True) (restartLadder i 0 ms (gauntletProfileUpdate frm nm [] e now h))))" for nm e
    using k by (intro gym_save gym_state restart_ok gym_profile o count_ok) simp_all
  ultimately show ?thesis using assms by (simp add: onFightResult_def r Let_def)
qed

lemma session_number: "list_all (\<lambda>b. b < 256) bs \<Longrightarrow> 4 \<le> length bs \<Longrightarrow> sessionId (overlay bs) < 65536"
proof -
  assume "list_all (\<lambda>b. b < 256) bs" "4 \<le> length bs"
  then have "bs ! 1 < 256" "bs ! 2 < 256" by (simp_all add: list_all_length)
  then show ?thesis by (simp add: sessionId_def overlay_def)
qed

lemma battle_packet_ok [gym_intros]:
  assumes "gym_ok g" "list_all (\<lambda>b. b < 256) bs"
  shows "gym_ok (handleBattlePacket frm chan bs stack ms now g)"
  using assms session_number [OF assms(2)]
  by (auto simp: handleBattlePacket_def Let_def split: option.split PktType.split intro!: bbs_reply_ok fight_request_ok ladder_request_ok fight_result_ok)

subsection \<open>The slide\<close>

lemma exit_ok: "gym_ok g \<Longrightarrow> gym_ok (admExit g)"
  and enter_ok: "gym_ok g \<Longrightarrow> gym_ok (admEnter g)"
  by (simp_all add: admExit_def admEnter_def gym_parts)

lemma short_press_ok: "gym_ok g \<Longrightarrow> gym_ok (admShortPress g)"
  using exit_ok [of g] by (cases "gm_admUi g") (simp_all add: admShortPress_def gym_parts)

lemma apply_same_member: "gm_admMemberIdx (snd (gymAdminApply gi m lvl now g)) = gm_admMemberIdx g"
  by (simp add: gymAdminApply_def gauntletSave_def onState_def Let_def split: option.split)

lemma summary_ok:
  assumes "gym_ok g" "gm_admMemberIdx g < 5"
  shows "gym_ok (admApplyAndShowSummary ms now g)"
proof -
  have "gym_ok (h\<lparr>gm_admUi := ADM_SUMMARY, gm_admSummaryUntil := k\<rparr>)" if "gym_ok h" "gm_admMemberIdx h < 5" for h k
    using that by (simp add: gym_parts)
  then show ?thesis using assms by (simp add: admApplyAndShowSummary_def Let_def admin_apply_ok apply_same_member)
qed

lemma long_press_ok:
  assumes "gym_ok g" "length rs = 5"
  shows "gym_ok (admLongPress rs ms now g)"
proof -
  have "gym_ok (h\<lparr>gm_admUi := ADM_CLAIM_WINDOW, gm_admSummaryUntil := 0\<rparr>)" if "gym_ok h" for h
    using that by (simp add: gym_parts)
  then have r: "gym_ok ((gymAdminResetAndOpenWindow rs ms now g)\<lparr>gm_admUi := ADM_CLAIM_WINDOW, gm_admSummaryUntil := 0\<rparr>)"
    using reset_window_ok [OF assms] by simp
  have m: "gm_admUi g \<in> {ADM_LEVEL_CHOICE, ADM_LEVEL_ONES} \<Longrightarrow> gm_admMemberIdx g < 5" using assms(1) by (auto simp: gym_parts)
  show ?thesis
    using assms(1) r exit_ok [OF assms(1)] m summary_ok [OF assms(1), of ms now]
    by (cases "gm_admUi g") (auto simp: admLongPress_def gym_parts)
qed

lemma input_ok: "gym_ok g \<Longrightarrow> length rs = 5 \<Longrightarrow> gym_ok (handleInputEvent ev rs ms now g)"
  by (auto simp: handleInputEvent_def short_press_ok long_press_ok enter_ok split: InputEvent.split)

lemma timeouts_ok: "gym_ok g \<Longrightarrow> gym_ok (drawTimeouts ms g)"
proof -
  assume "gym_ok g"
  have "gym_ok (if b then admExit h else h)" if "gym_ok h" for b h using that exit_ok by simp
  moreover have "gym_ok (if gm_admUi h = ADM_CLAIM_WINDOW then (if b then h\<lparr>gm_admUi := ADM_ADMIN_CLAIMED, gm_admSummaryUntil := k\<rparr>
      else if c then h\<lparr>gm_admUi := ADM_WINDOW_CLOSED, gm_admSummaryUntil := k\<rparr> else h) else h)" if "gym_ok h" for b c h k
    using that by (simp add: gym_parts)
  ultimately show ?thesis using \<open>gym_ok g\<close> unfolding drawTimeouts_def Let_def by blast
qed

lemma draw_ok: "gym_ok g \<Longrightarrow> gym_ok (drawFrame ms g)"
  using timeouts_ok [of "g\<lparr>gm_lastDrawMs := ms\<rparr>" ms] by (simp add: drawFrame_def Let_def gym_records)

subsection \<open>Text messages\<close>

lemma post_ok [gym_intros]: "gym_ok g \<Longrightarrow> gym_ok (postMessage who txt now g)"
  by (simp add: postMessage_def Let_def gym_reply gym_records)

lemma admin_reset_ok [gym_intros]: "gym_ok g \<Longrightarrow> length rs = 5 \<Longrightarrow> gym_ok (adminReset rs to ms now g)"
  unfolding adminReset_def by (intro gym_intros reset_config_ok)

lemma admin_text_ok [gym_intros]: "gym_ok g \<Longrightarrow> gym_ok (adminName txt to now g)" "gym_ok g \<Longrightarrow> gym_ok (adminBadge txt to now g)"
  by (auto simp: adminName_def adminBadge_def Let_def state_ok_def intro!: gym_reply gym_save gym_state)

lemma applies_ok: "gym_ok g \<Longrightarrow> gym_ok (fold (\<lambda>m g. snd (gymAdminApply gi m (f m) now g)) ms g)"
  by (induction ms arbitrary: g) (auto intro: admin_apply_ok)

lemma admin_gym_ok [gym_intros]: "gym_ok g \<Longrightarrow> gym_ok (adminGym txt to now g)"
  by (auto simp: adminGym_def Let_def intro!: gym_reply applies_ok split: option.split)

lemma adopt_ok: "state_ok s \<Longrightarrow> gi < 8 \<Longrightarrow> state_ok (adoptPreset gi pr s)"
  by (simp add: adoptPreset_def state_ok_def)

lemma typed_level: "typedLevel t = Some l \<Longrightarrow> l \<le> 100"
  by (auto simp: typedLevel_def Let_def split: if_splits)

lemma wizard_ok:
  assumes "gym_ok g" "gi < 8" "m < 5" "lvl \<le> 100"
  shows "gym_ok (wizardApply gi m lvl now g)"
proof -
  have "gym_ok (onState (\<lambda>s. let s = adoptPreset gi (GAUNTLET_GYMS ! gi) s in s\<lparr>gs_memberLevels := (gs_memberLevels s)[m := lvl]\<rparr>) g)" (is "gym_ok ?h")
  proof (rule gym_state [OF assms(1)])
    fix s assume "state_ok s"
    then have "state_ok (adoptPreset gi (GAUNTLET_GYMS ! gi) s)" by (rule adopt_ok [OF _ assms(2)])
    then show "state_ok (let s = adoptPreset gi (GAUNTLET_GYMS ! gi) s in s\<lparr>gs_memberLevels := (gs_memberLevels s)[m := lvl]\<rparr>)"
      using assms(4) by (auto simp: state_ok_def Let_def intro!: list_all_update)
  qed
  then show ?thesis using assms(2) leader_set_ok
    by (auto simp: wizardApply_def Let_def intro!: gym_save gym_state)
qed

lemma admin_set_ok [gym_intros]: "gym_ok g \<Longrightarrow> gym_ok (adminSet txt to now g)"
  unfolding adminSet_def Let_def
  by (auto intro!: gym_reply wizard_ok dest: typed_level split: option.split)

lemma admin_command_ok [gym_intros]:
  assumes "gym_ok g" "length rs = 5"
  shows "gym_ok (adminCommand rs frm sub ms now g)"
proof -
  obtain ok h where a: "(if ciPrefix ''set'' sub then isAdminAuthorized frm ms now g else (gs_adminNodeNum (gm_state g) = frm, g)) = (ok, h)"
    by (cases "if ciPrefix ''set'' sub then isAdminAuthorized frm ms now g else (gs_adminNodeNum (gm_state g) = frm, g)")
  have h: "gym_ok h" using a assms(1) authorized_ok [OF assms(1), of frm ms now] by (auto split: if_splits)
  have "gym_ok (if b1 then sendReply to t1 g else if b2 then sendReply to t2 g
      else if b3 then sendReply to t3 h else if b4 then sendReply to t4 h
      else if b5 then adminReset rs to ms now h else if b6 then adminName u1 to now h else if b7 then adminBadge u2 to now h
      else if b8 then adminGym u3 to now h else adminSet u4 to now h)" for b1 b2 b3 b4 b5 b6 b7 b8 t1 t2 t3 t4 u1 u2 u3 u4 to
    using assms h by (simp add: gym_intros)
  then show ?thesis unfolding adminCommand_def Let_def a prod.case .
qed

lemma command_ok [gym_intros]: "gym_ok g \<Longrightarrow> length rs = 5 \<Longrightarrow> gym_ok (handleCommand rs frm cmd ms now g)"
  unfolding handleCommand_def Let_def by (simp add: gym_intros)

lemma gym_command_ok: "gym_ok g \<Longrightarrow> length rs = 5 \<Longrightarrow> gym_ok (gymCommand rs frm cmd ms now g)"
  by (simp add: gymCommand_def gym_intros)

lemma text_ok [gym_intros]:
  assumes "gym_ok g" "length rs = 5"
  shows "gym_ok (handleText rs frm pl ms now g)"
proof -
  obtain i h where r: "getOrCreateSession (getFrom frm g) g = (i, h)" by (cases "getOrCreateSession (getFrom frm g) g")
  note h = session_ok [OF assms(1) r]
  have "gym_ok (putSession k ((gm_sessions h ! k)\<lparr>se_lastActivity := now\<rparr>) h)" if "i = Some k" for k
  proof (rule put_session_ok)
    have u: "unique_by se_nodeNum (gm_sessions h)" "length (gm_sessions h) = 4" "list_all (\<lambda>s. se_state s = GS_IDLE) (gm_sessions h)"
      using h by (simp_all add: gym_ok_def sessions_ok_def)
    then show "se_state ((gm_sessions h ! k)\<lparr>se_lastActivity := now\<rparr>) = GS_IDLE" using h that by (simp add: list_all_length)
    fix j assume "j < 4" "se_nodeNum ((gm_sessions h ! k)\<lparr>se_lastActivity := now\<rparr>) \<noteq> 0"
      "se_nodeNum (gm_sessions h ! j) = se_nodeNum ((gm_sessions h ! k)\<lparr>se_lastActivity := now\<rparr>)"
    then show "j = k" using same_slot [OF u(1), of k j] u(2) h that by simp
  qed (use h in simp)
  then show ?thesis using assms h
    by (cases i) (simp_all add: handleText_def r Let_def gym_command_ok command_ok)
qed

lemma receive_ok: "gym_ok g \<Longrightarrow> length rs = 5 \<Longrightarrow> list_all (\<lambda>b. b < 256) pl \<Longrightarrow> gym_ok (gymReceives port to frm chan pl stack rs ms now g)"
  by (simp add: gymReceives_def battle_packet_ok text_ok)

subsection \<open>Reachable states\<close>

lemma defaults_ok: "length nm \<le> 15 \<Longrightarrow> length bd \<le> 15 \<Longrightarrow> state_ok (gauntletInitDefaults nm bd node now)"
  by (simp add: gauntletInitDefaults_def state_ok_def slot_ok_def list_all_iff)

lemma boot_gym_ok:
  assumes "file_ok (gm_file f)" "length rs = 5"
  shows "gym_ok (bootGym f node rs ms now)"
proof -
  obtain ok s where l: "gauntletLoad (gm_file f) ''Pallet Gym'' ''Boulder Badge'' node now = (ok, s)"
    by (cases "gauntletLoad (gm_file f) ''Pallet Gym'' ''Boulder Badge'' node now")
  have s: "state_ok s" using l assms(1) defaults_ok [of "''Pallet Gym''" "''Boulder Badge''" node now]
    by (auto simp: gauntletLoad_def file_ok_def split: option.splits if_splits)
  define g where "g = f\<lparr>gm_state := s, gm_sessions := replicate 4 zeroSession, gm_ladders := replicate 8 newLadder,
                gm_adminClaimUntilMs := 0, gm_admUi := ADM_OFF, gm_admMainCursor := 0, gm_admGymIdx := 0, gm_admMemberIdx := 0,
                gm_admChoice := 0, gm_admTens := 0, gm_admOnes := 0, gm_admResetConfirm := 0, gm_admSummaryUntil := 0,
                gm_lastDrawMs := 0, gm_replies := [], gm_sent := []\<rparr>"
  have u: "unique_by se_nodeNum (replicate n zeroSession)" "unique_by la_nodeNum (replicate n newLadder)" for n
    by (simp_all add: unique_by_def zeroSession_def newLadder_def)
  have "gym_ok g"
    using s assms(1) u by (simp add: g_def gym_parts sessions_ok_def ladders_ok_def list_all_iff zeroSession_def newLadder_def)
  then have "gym_ok (if b then autoSetup rs now (if c then (if ok then g else gauntletSave g)\<lparr>gm_adminClaimUntilMs := k\<rparr> else if ok then g else gauntletSave g)
     else if c then (if ok then g else gauntletSave g)\<lparr>gm_adminClaimUntilMs := k\<rparr> else if ok then g else gauntletSave g)" for b c k
    using assms(2) by (simp add: gym_intros)
  then show ?thesis unfolding bootGym_def l prod.case Let_def g_def [symmetric] .
qed

text \<open>
  A call: a packet of the mesh, a key, a drawn frame, a pass of the loop, a restart.  \<open>rs\<close> are the five random
  numbers a call may draw, \<open>ms\<close> and \<open>now\<close> the clocks, \<open>stack\<close> what an uninitialised variable holds.
\<close>

datatype GymCall =
    GymPacket GymPort nat nat nat "nat list" Gen1Party "nat list" nat nat
  | GymKey InputEvent "nat list" nat nat
  | GymFrame nat
  | GymPass nat
  | GymRestart nat "nat list" nat nat

fun gymCall :: "GymCall \<Rightarrow> GauntletModule \<Rightarrow> GauntletModule" where
  "gymCall (GymPacket port to frm chan pl stack rs ms now) g = gymReceives port to frm chan pl stack rs ms now g"
| "gymCall (GymKey ev rs ms now) g = handleInputEvent ev rs ms now g"
| "gymCall (GymFrame ms) g = drawFrame ms g"
| "gymCall (GymPass now) g = gymRunOnce now g"
| "gymCall (GymRestart node rs ms now) g = bootGym g node rs ms now"

fun gymCallFits :: "GymCall \<Rightarrow> bool" where
  "gymCallFits (GymPacket port to frm chan pl stack rs ms now) \<longleftrightarrow> length rs = 5 \<and> list_all (\<lambda>b. b < 256) pl"
| "gymCallFits (GymKey ev rs ms now) \<longleftrightarrow> length rs = 5"
| "gymCallFits (GymRestart node rs ms now) \<longleftrightarrow> length rs = 5"
| "gymCallFits _ \<longleftrightarrow> True"

text \<open>A device that starts for the first time, or with a file it has written.\<close>

definition bootedGym :: "GauntletModule \<Rightarrow> bool" where
  "bootedGym g \<longleftrightarrow> (\<exists>f node rs ms now. gm_file f = None \<and> length rs = 5 \<and> g = bootGym f node rs ms now)"

lemma gym_file: "gym_ok g \<Longrightarrow> file_ok (gm_file g)"
  by (simp add: gym_ok_def)

lemma gym_call_ok: "gym_ok g \<Longrightarrow> gymCallFits c \<Longrightarrow> gym_ok (gymCall c g)"
  by (cases c) (simp_all add: receive_ok input_ok draw_ok gymRunOnce_def expire_sessions_ok boot_gym_ok gym_file)

interpretation station: transition_system bootedGym gymCall gymCallFits gym_ok
  by unfold_locales (auto simp: bootedGym_def file_ok_def intro: gym_call_ok boot_gym_ok)

end
