(* ===== verification/GauntletRules.thy ===== *)
theory GauntletRules
  imports GauntletPlay
begin

text \<open>
  What a gym station guarantees: its states, who may change its settings, the parties it serves, the ladder to the
  title, and the line-up it picks; and where it departs from the texts of its source.
\<close>

subsection \<open>Who may change the settings\<close>

definition settings :: "GauntletModule \<Rightarrow> string \<times> string \<times> nat \<times> nat list \<times> nat \<times> (nat \<times> nat) list \<times> nat" where
  "settings g = (let s = gm_state g in (gs_gymName s, gs_gymBadge s, gs_gymPresetIdx s, gs_memberLevels s, gs_autoEnabled s,
     gs_autoSlots s, gs_autoLeaderLevel s))"

definition guarded :: "GauntletModule \<Rightarrow> GauntletModule \<Rightarrow> bool" where
  "guarded g h \<longleftrightarrow> settings h = settings g \<and> gs_adminNodeNum (gm_state h) = gs_adminNodeNum (gm_state g)
     \<and> gm_adminClaimUntilMs h = gm_adminClaimUntilMs g"

lemma guarded_refl: "guarded g g"
  by (simp add: guarded_def)

lemma guarded_trans: "guarded g h \<Longrightarrow> guarded h k \<Longrightarrow> guarded g k"
  by (simp add: guarded_def)

lemma guarded_steps:
  "guarded g (gauntletSave g)" "guarded g (sendReply to txt g)" "guarded g (gauntletProfileUpdate n nm csv e now g)"
  "guarded g (sendTo to c bs g)" "guarded g (putSession i s g)" "guarded g (putLadder i n x ms g)"
  "guarded g (g\<lparr>gm_records := r\<rparr>)" "guarded g (g\<lparr>gm_messages := r\<rparr>)" "guarded g (expireLadders ms g)"
  "guarded g (restartLadder k x ms g)" "guarded g (onState (countBattle b) g)"
  by (simp_all add: guarded_def settings_def Let_def gauntletSave_def sendReply_def gauntletProfileUpdate_def sendTo_def putSession_def
      putLadder_def expireLadders_def restartLadder_def onState_def countBattle_def split: option.split)

lemma guarded_after: "guarded g h \<Longrightarrow> guarded g (gauntletSave h)" "guarded g h \<Longrightarrow> guarded g (sendReply to txt h)"
  "guarded g h \<Longrightarrow> guarded g (gauntletProfileUpdate n nm csv e now h)" "guarded g h \<Longrightarrow> guarded g (sendTo to c bs h)"
  "guarded g h \<Longrightarrow> guarded g (h\<lparr>gm_records := r\<rparr>)" "guarded g h \<Longrightarrow> guarded g (h\<lparr>gm_messages := r\<rparr>)"
  "guarded g h \<Longrightarrow> guarded g (restartLadder k x ms h)" "guarded g h \<Longrightarrow> guarded g (onState (countBattle b) h)"
  "guarded g h \<Longrightarrow> guarded g (putSession i s h)"
  by (rule guarded_trans, assumption, rule guarded_steps)+

lemma guarded_promote: "guarded g h \<Longrightarrow> guarded g (promoteToLeader frm p now h)"
proof -
  have "guarded h (onState (\<lambda>s. (archiveLeader s)\<lparr>gs_leader := t, gs_rosterSize := 0, gs_lastUpdate := now\<rparr>) h)" for t
    by (simp add: guarded_def settings_def onState_def archiveLeader_def Let_def split: prod.split)
  moreover assume "guarded g h"
  ultimately have "guarded g (onState (\<lambda>s. (archiveLeader s)\<lparr>gs_leader := t, gs_rosterSize := 0, gs_lastUpdate := now\<rparr>) h)" for t
    using guarded_trans by blast
  then show ?thesis unfolding promoteToLeader_def Let_def by (intro guarded_after)
qed

lemma guarded_ladder: "lookupOrInsertLadder n ms g = (i, h) \<Longrightarrow> guarded g h"
  using guarded_trans [OF guarded_steps(9) guarded_steps(6)]
  by (auto simp: lookupOrInsertLadder_def Let_def guarded_refl split: if_splits option.splits)

lemma guarded_session: "getOrCreateSession n g = (i, h) \<Longrightarrow> guarded g h"
  by (auto simp: getOrCreateSession_def Let_def guarded_refl guarded_steps split: if_splits option.splits)

lemma guarded_sends: "guarded g h \<Longrightarrow> guarded g (fold (\<lambda>p. sendTo to c p) ps h)"
  by (induction ps arbitrary: h) (auto intro: guarded_after)

lemma guarded_packet: "guarded g (handleBattlePacket frm chan bs stack ms now g)"
proof -
  obtain i h where r: "lookupOrInsertLadder frm ms g = (i, h)" by (cases "lookupOrInsertLadder frm ms g")
  note h = guarded_ladder [OF r]
  have "guarded g (onFightRequest frm sid stack ms g)" for sid
    by (simp add: onFightRequest_def r Let_def flip: restartLadder_def) (intro guarded_sends guarded_after h)
  moreover have "guarded g (onFightResult frm pl ms now g)" for pl
    by (auto simp: onFightResult_def r Let_def intro!: guarded_refl guarded_after guarded_promote h)
  moreover have "guarded g (onLadderRequest frm sid g)" for sid
    unfolding onLadderRequest_def by (intro guarded_after guarded_refl)
  moreover have "guarded g (sendBbsReply frm chan g)"
    unfolding sendBbsReply_def Let_def by (rule guarded_steps)
  ultimately show ?thesis
    by (simp add: handleBattlePacket_def Let_def guarded_refl split: option.split PktType.split)
qed

text \<open>The only other thing a stranger can do is to become the administrator while the window is open.\<close>

definition claimed :: "nat \<Rightarrow> nat \<Rightarrow> GauntletModule \<Rightarrow> GauntletModule \<Rightarrow> bool" where
  "claimed frm ms g h \<longleftrightarrow> settings h = settings g \<and> gs_adminNodeNum (gm_state g) = 0 \<and> gm_adminClaimUntilMs g \<noteq> 0 \<and> ms < gm_adminClaimUntilMs g
     \<and> gs_adminNodeNum (gm_state h) = frm \<and> gm_adminClaimUntilMs h = 0"

lemma claim_after: "guarded g h \<Longrightarrow> claimed frm ms h k \<Longrightarrow> claimed frm ms g k"
  by (simp add: claimed_def guarded_def)

lemma claim_reply: "claimed frm ms g h \<Longrightarrow> claimed frm ms g (sendReply to txt h)"
  by (simp add: claimed_def settings_def sendReply_def)

lemma stranger_command:
  assumes "frm \<noteq> 0" "frm \<noteq> gs_adminNodeNum (gm_state g)"
  shows "guarded g (adminCommand rs frm sub ms now g) \<or> claimed frm ms g (adminCommand rs frm sub ms now g)"
proof (cases "ciPrefix ''set'' sub \<and> gs_adminNodeNum (gm_state g) = 0 \<and> gm_adminClaimUntilMs g \<noteq> 0 \<and> ms < gm_adminClaimUntilMs g")
  case True
  define h where "h = gauntletSave ((onState (\<lambda>s. s\<lparr>gs_adminNodeNum := frm, gs_lastUpdate := now\<rparr>) g)\<lparr>gm_adminClaimUntilMs := 0\<rparr>)"
  have "isAdminAuthorized frm ms now g = (True, h)" using True assms by (simp add: isAdminAuthorized_def h_def)
  moreover have "claimed frm ms g h" "gs_adminNodeNum (gm_state h) = frm"
    using True by (simp_all add: claimed_def h_def settings_def gauntletSave_def onState_def Let_def)
  ultimately show ?thesis using True assms by (simp add: adminCommand_def Let_def claim_reply)
next
  case False
  have "isAdminAuthorized frm ms now g = (False, g)" if "ciPrefix ''set'' sub" using False that assms by (auto simp: isAdminAuthorized_def)
  then show ?thesis using assms by (auto simp: adminCommand_def Let_def guarded_steps)
qed

lemma stranger_gym_command:
  assumes "frm \<noteq> 0" "frm \<noteq> gs_adminNodeNum (gm_state g)"
  shows "guarded g (gymCommand rs frm cmd ms now g) \<or> claimed frm ms g (gymCommand rs frm cmd ms now g)"
proof -
  have "guarded g (postMessage n body now g)" for n body
    by (auto simp: postMessage_def Let_def intro!: guarded_after guarded_refl)
  then show ?thesis using stranger_command [OF assms] guarded_steps(2) by (simp add: gymCommand_def handleCommand_def Let_def)
qed

lemma stranger_text:
  assumes "frm \<noteq> 0" "frm \<noteq> gs_adminNodeNum (gm_state g)"
  shows "guarded g (handleText rs frm pl ms now g) \<or> claimed frm ms g (handleText rs frm pl ms now g)"
proof -
  obtain i h where r: "getOrCreateSession (getFrom frm g) g = (i, h)" by (cases "getOrCreateSession (getFrom frm g) g")
  note h = guarded_session [OF r]
  show ?thesis
  proof (cases i)
    case None
    then show ?thesis using h by (simp add: handleText_def r Let_def guarded_refl)
  next
    case (Some k)
    define u where "u = putSession k ((gm_sessions h ! k)\<lparr>se_lastActivity := now\<rparr>) h"
    have u: "guarded g u" unfolding u_def by (rule guarded_after [OF h])
    then have a: "frm \<noteq> gs_adminNodeNum (gm_state u)" using assms(2) by (simp add: guarded_def)
    have c: "guarded g (gymCommand rs frm cmd ms now u) \<or> claimed frm ms g (gymCommand rs frm cmd ms now u)" for cmd
      using stranger_gym_command [OF assms(1) a, of rs cmd ms now] guarded_trans [OF u] claim_after [OF u] by blast
    have "guarded g (handleCommand rs frm ''help'' ms now u)"
      by (simp add: handleCommand_def ciPrefix_def asciiLower_def Let_def guarded_after u)
    then show ?thesis using c u unfolding handleText_def r Let_def Some option.case prod.case u_def [symmetric]
      by (simp add: guarded_refl)
  qed
qed

text \<open>
  C25 Whatever a node other than the administrator sends over the mesh, as text or as packet, name, badge, preset,
  levels and line-up of the gym stay as they are.  The administrator and the claim window change only when there was no
  administrator and the window was open: then the sender becomes the administrator and the window is closed.
\<close>

theorem settings_need_admin:
  fixes port to frm chan pl stack rs ms now g
  assumes "frm \<noteq> 0" "frm \<noteq> gs_adminNodeNum (gm_state g)"
  defines "h \<equiv> gymReceives port to frm chan pl stack rs ms now g"
  shows "settings h = settings g
    \<and> (gs_adminNodeNum (gm_state h) = gs_adminNodeNum (gm_state g) \<and> gm_adminClaimUntilMs h = gm_adminClaimUntilMs g
       \<or> gs_adminNodeNum (gm_state g) = 0 \<and> gm_adminClaimUntilMs g \<noteq> 0 \<and> ms < gm_adminClaimUntilMs g
         \<and> port = TEXT_MESSAGE_APP \<and> gs_adminNodeNum (gm_state h) = frm \<and> gm_adminClaimUntilMs h = 0)"
proof (cases port)
  case TEXT_MESSAGE_APP
  then show ?thesis using stranger_text [OF assms(1,2), of rs pl ms now] guarded_refl [of g]
    by (auto simp: h_def gymReceives_def guarded_def claimed_def)
qed (use guarded_packet [of g frm chan pl stack ms now] in \<open>auto simp: h_def gymReceives_def guarded_def wantPacket_def\<close>)

text \<open>A device without files and its first start, for the examples.\<close>

definition sampleFiles :: GauntletModule where
  "sampleFiles = \<lparr>gm_state = gauntletInitDefaults [] [] 0 0, gm_sessions = [], gm_ladders = [], gm_adminClaimUntilMs = 0, gm_admUi = ADM_OFF,
     gm_admMainCursor = 0, gm_admGymIdx = 0, gm_admMemberIdx = 0, gm_admChoice = 0, gm_admTens = 0, gm_admOnes = 0, gm_admResetConfirm = 0,
     gm_admSummaryUntil = 0, gm_lastDrawMs = 0, gm_shortNames = (\<lambda>n. None), gm_longName = [], gm_file = None, gm_profiles = (\<lambda>n. None),
     gm_records = [], gm_messages = [], gm_replies = [], gm_sent = []\<rparr>"

definition sampleGym :: GauntletModule where
  "sampleGym = bootGym sampleFiles 5 [0, 4, 9, 14, 2] 100 0"

lemma sample_booted: "bootedGym sampleGym"
  unfolding bootedGym_def sampleGym_def 
  by (rule exI [of _ sampleFiles], rule exI [of _ 5], rule exI [of _ "[0, 4, 9, 14, 2]"], rule exI [of _ 100], rule exI [of _ 0])
    (simp add: sampleFiles_def)

lemma sample_parts:
  "gm_adminClaimUntilMs sampleGym = 120100" "gs_adminNodeNum (gm_state sampleGym) = 0" "gs_autoEnabled (gm_state sampleGym) = 1"
  "gm_ladders sampleGym = replicate 8 newLadder" "gt_nodeNum (gs_leader (gm_state sampleGym)) = NPC_NODE" "gs_nodeNum (gm_state sampleGym) = 5"
proof -
  define g where "g = (gauntletSave (sampleFiles\<lparr>gm_state := gauntletInitDefaults ''Pallet Gym'' ''Boulder Badge'' 5 0,
     gm_sessions := replicate 4 zeroSession, gm_ladders := replicate 8 newLadder,
     gm_adminClaimUntilMs := 0, gm_admUi := ADM_OFF, gm_admMainCursor := 0, gm_admGymIdx := 0, gm_admMemberIdx := 0,
     gm_admChoice := 0, gm_admTens := 0, gm_admOnes := 0, gm_admResetConfirm := 0, gm_admSummaryUntil := 0,
     gm_lastDrawMs := 0, gm_replies := [], gm_sent := []\<rparr>))\<lparr>gm_adminClaimUntilMs := 120100\<rparr>"
  have e: "sampleGym = autoSetup [0, 4, 9, 14, 2] 0 g"
    by (simp add: sampleGym_def bootGym_def sampleFiles_def gauntletLoad_def gauntletInitDefaults_def gauntletSave_def g_def Let_def)
  have l: "length [0, 4, 9, 14, 2 :: nat] = 5" by simp
  obtain sl ov name p where a: "autoSetup [0, 4, 9, 14, 2] 0 g = gauntletSave (onState (\<lambda>s. s\<lparr>gs_autoEnabled := 1, gs_autoSlots := sl,
           gs_autoLeaderLevel := ov, gs_gymName := ''MonsterMesh Gym'', gs_gymBadge := ''Random Badge'',
           gs_leader := npcLeader name p 0, gs_lastUpdate := 0\<rparr>) g)"
    by (rule auto_setup_state [OF l, of 0 g]) blast
  show "gm_adminClaimUntilMs sampleGym = 120100" "gs_adminNodeNum (gm_state sampleGym) = 0" "gs_autoEnabled (gm_state sampleGym) = 1"
    "gm_ladders sampleGym = replicate 8 newLadder" "gt_nodeNum (gs_leader (gm_state sampleGym)) = NPC_NODE" "gs_nodeNum (gm_state sampleGym) = 5"
    unfolding e a by (simp_all add: gauntletSave_def onState_def g_def gauntletInitDefaults_def npcLeader_def)
qed

theorem settings_need_admin_witness:
  "settings (gymReceives TEXT_MESSAGE_APP 5 7 0 (bytesOf ''gym admin gym 1 60'') emptySaveParty [1, 2, 3, 4, 5] 900000 0 sampleGym) = settings sampleGym
   \<and> settings (gymReceives TEXT_MESSAGE_APP 5 7 0 (bytesOf ''admin set'') emptySaveParty [1, 2, 3, 4, 5] 900 0 sampleGym) = settings sampleGym"
  using settings_need_admin [of 7 sampleGym] by (simp add: sample_parts)

subsection \<open>Reachable states\<close>

text \<open>
  C28 After any sequence of packets, keys, drawn frames, passes and restarts: names fit their arrays, every level set is at most
  100, every slot of the line-up names a trainer of the tables, the leader - a player or not - and all recorded leaders have
  parties the battle engine accepts, no node has two sessions or two entries of the ladder, the slide shows an existing gym and
  member, everything sent fits a packet, and the file on flash, if there is one, holds a gym for which the same is true.
\<close>

theorem gym_states:
  assumes "bootedGym g0" "list_all gymCallFits calls"
  defines "g \<equiv> fold gymCall calls g0"
  defines "s \<equiv> gm_state g"
  shows "length (gs_gymName s) < 16 \<and> length (gs_gymBadge s) < 16 \<and> (\<forall>l \<in> set (gs_memberLevels s). l \<le> 100)
    \<and> length (gs_autoSlots s) = 5 \<and> (\<forall>x \<in> set (gs_autoSlots s). fst x \<le> 8 \<and> snd x < 5)
    \<and> (\<forall>t \<in> insert (gs_leader s) (set (gs_prevLeaders s)). length (gt_name t) < 16 \<and> (gt_nodeNum t \<noteq> 0 \<longrightarrow> save_ok (gt_party t)))
    \<and> gs_rosterSize s \<le> 12 \<and> gs_prevLeaderCount s \<le> 4
    \<and> (\<forall>i < 4. \<forall>j < 4. se_nodeNum (gm_sessions g ! i) \<noteq> 0 \<and> se_nodeNum (gm_sessions g ! i) = se_nodeNum (gm_sessions g ! j) \<longrightarrow> i = j)
    \<and> (\<forall>i < 8. \<forall>j < 8. la_nodeNum (gm_ladders g ! i) \<noteq> 0 \<and> la_nodeNum (gm_ladders g ! i) = la_nodeNum (gm_ladders g ! j) \<longrightarrow> i = j)
    \<and> (\<forall>i < 8. la_ladderIdx (gm_ladders g ! i) \<le> 4)
    \<and> gm_admGymIdx g < 8 \<and> gm_admMemberIdx g \<le> 5 \<and> (gm_admUi g = ADM_SUMMARY \<longrightarrow> gm_admMemberIdx g < 5)
    \<and> (\<forall>p \<in> set (gm_sent g). length (snd (snd p)) \<le> 200 \<and> (\<forall>b \<in> set (snd (snd p)). b < 256))
    \<and> (\<forall>r \<in> set (gm_replies g). length (snd r) \<le> 233) \<and> file_ok (gm_file g)"
proof -
  have o: "gym_ok g" unfolding g_def by (rule station.reach_inv [OF assms(1,2)])
  then have s: "state_ok s" by (simp add: gym_ok_def s_def)
  have ss: "sessions_ok (gm_sessions g)" and l: "ladders_ok (gm_ladders g)" using o by (simp_all add: gym_ok_def)
  have "(\<forall>i < 4. \<forall>j < 4. se_nodeNum (gm_sessions g ! i) \<noteq> 0 \<and> se_nodeNum (gm_sessions g ! i) = se_nodeNum (gm_sessions g ! j) \<longrightarrow> i = j)"
    using ss unfolding sessions_ok_def unique_by_def by simp
  moreover have "(\<forall>i < 8. \<forall>j < 8. la_nodeNum (gm_ladders g ! i) \<noteq> 0 \<and> la_nodeNum (gm_ladders g ! i) = la_nodeNum (gm_ladders g ! j) \<longrightarrow> i = j)"
    using l unfolding ladders_ok_def unique_by_def by simp
  moreover have "\<forall>i < 8. la_ladderIdx (gm_ladders g ! i) \<le> 4" using l by (simp add: ladders_ok_def list_all_length)
  moreover have "\<forall>t \<in> insert (gs_leader s) (set (gs_prevLeaders s)). length (gt_name t) < 16 \<and> (gt_nodeNum t \<noteq> 0 \<longrightarrow> save_ok (gt_party t))"
    using s by (auto simp: state_ok_def leader_ok_def list_all_iff)
  moreover have "(\<forall>l \<in> set (gs_memberLevels s). l \<le> 100) \<and> (\<forall>x \<in> set (gs_autoSlots s). fst x \<le> 8 \<and> snd x < 5)"
    using s by (simp add: state_ok_def slot_ok_def list_all_iff)
  ultimately show ?thesis using s o
    by (simp add: state_ok_def gym_ok_def slide_ok_def gym_packet_ok_def list_all_iff)
qed

theorem gym_states_witness: "gs_rosterSize (gm_state (gymCall (GymFrame 200) sampleGym)) \<le> 12"
  using gym_states [OF sample_booted, of "[GymFrame 200]"] by simp

subsection \<open>What is served\<close>

lemma served_rows:
  assumes "state_ok s" "i < 5" "gs_autoEnabled s \<noteq> 0" "i = 4 \<longrightarrow> gt_nodeNum (gs_leader s) \<in> {0, NPC_NODE}"
  shows "servesMons (buildLadderTrainerParty out i s) (slotRows s i)"
proof -
  have sl: "list_all slot_ok (gs_autoSlots s)" "i < length (gs_autoSlots s)" using assms(1,2) by (simp_all add: state_ok_def)
  obtain name boss p where p: "autoLookupTrainer (fst (gs_autoSlots s ! i)) (snd (gs_autoSlots s ! i)) (slotScale s i) = Some (name, boss, p)"
      "servesMons p (slotRows s i)" "gp_count p \<noteq> 0"
    using slot_line [OF sl, of "slotScale s i"] unfolding slotRows_def by blast
  show ?thesis
  proof (cases "i = 4")
    case True
    then have sc: "slotScale s 4 = (if gs_memberLevels s ! 4 = 0 \<and> gs_autoLeaderLevel s \<noteq> 0 then gs_autoLeaderLevel s else gs_memberLevels s ! 4)"
      by (simp add: slotScale_def)
    have "buildGymBattleParty out s = p"
      using p(1,3) assms(3,4) True unfolding buildGymBattleParty_def Let_def sc [symmetric]
      by (cases "gs_autoSlots s ! 4") auto
    then show ?thesis using p(2) True by (simp add: buildLadderTrainerParty_def)
  next
    case False
    then have "slotScale s i = gs_memberLevels s ! i" by (simp add: slotScale_def)
    then show ?thesis using p assms(2,3) False by (simp add: buildLadderTrainerParty_def Let_def)
  qed
qed

lemma parties_all:
  "length out + sum_list (map (\<lambda>ms. 1 + 6 * length ms) mss) \<le> 196 \<Longrightarrow>
   partiesSection mss out = out @ concat (map (\<lambda>ms. length ms # concat (map monWire ms)) mss)"
proof (induction mss out rule: partiesSection.induct)
  case (2 ms mss out)
  have "length (concat (map monWire ms)) = 6 * length ms" by (induction ms) (auto simp: monWire_def)
  then show ?case using 2 by simp
qed simp

lemma five: "[0..<5] = [0, 1, 2, 3, 4 :: nat]"
  by code_simp



subsection \<open>The ladder\<close>

text \<open>The step a challenger stands on, 0 for one without an entry.\<close>

definition rung :: "GauntletModule \<Rightarrow> nat \<Rightarrow> nat" where
  "rung g n = (case lookupLadder n g of Some i \<Rightarrow> la_ladderIdx (gm_ladders g ! i) | None \<Rightarrow> 0)"

lemma ladder_at:
  assumes "gym_ok g" "k < 8" "la_nodeNum (gm_ladders g ! k) = n" "n \<noteq> 0"
  shows "lookupLadder n g = Some k"
proof (cases "find (\<lambda>i. la_nodeNum (gm_ladders g ! i) = n) [0..<8]")
  case None
  then show ?thesis using not_found [OF None assms(2)] assms(3) by simp
next
  case (Some j)
  have "unique_by la_nodeNum (gm_ladders g)" "length (gm_ladders g) = 8" using assms(1) by (simp_all add: gym_ok_def ladders_ok_def)
  then have "j = k" using same_slot [of la_nodeNum "gm_ladders g" k j] found [OF Some] assms(2-4) by simp
  then show ?thesis using Some assms(4) by (simp add: lookupLadder_def)
qed

lemma rung_at: "gym_ok g \<Longrightarrow> k < 8 \<Longrightarrow> la_nodeNum (gm_ladders g ! k) = n \<Longrightarrow> n \<noteq> 0 \<Longrightarrow> rung g n = la_ladderIdx (gm_ladders g ! k)"
  by (simp add: rung_def ladder_at)

lemma rung_le: "gym_ok g \<Longrightarrow> rung g n \<le> 4"
  using ladder_index [of g] by (auto simp: rung_def lookupLadder_def dest: found split: option.split)

lemma rung_cases:
  assumes "gym_ok g" "n \<noteq> 0"
  obtains k where "k < 8" "la_nodeNum (gm_ladders g ! k) = n" "rung g n = la_ladderIdx (gm_ladders g ! k)"
  | "\<And>k. k < 8 \<Longrightarrow> la_nodeNum (gm_ladders g ! k) \<noteq> n" "rung g n = 0"
proof (cases "find (\<lambda>i. la_nodeNum (gm_ladders g ! i) = n) [0..<8]")
  case None
  then show thesis using that(2) not_found [OF None] assms(2) by (simp add: rung_def lookupLadder_def)
next
  case (Some j)
  then show thesis using that(1) [of j] found [OF Some] assms(2) by (simp add: rung_def lookupLadder_def)
qed

text \<open>An entry set to a step: the others keep theirs, or have lost their entry to it.\<close>

lemma rung_put:
  assumes "gym_ok g" "gym_ok (putLadder k n x ms g)" "k < 8" "n \<noteq> 0"
  shows "rung (putLadder k n x ms g) n = x"
    "m \<noteq> 0 \<Longrightarrow> m \<noteq> n \<Longrightarrow> rung (putLadder k n x ms g) m \<in> {rung g m, 0}"
proof -
  have len: "length (gm_ladders g) = 8" using assms(1) by (simp add: gym_ok_def ladders_ok_def)
  have l: "gm_ladders (putLadder k n x ms g) = (gm_ladders g)[k := \<lparr>la_nodeNum = n, la_ladderIdx = x, la_lastSeenMs = ms\<rparr>]"
    by (simp add: putLadder_def)
  show "rung (putLadder k n x ms g) n = x" using rung_at [OF assms(2,3) _ assms(4)] len assms(3) by (simp add: l)
  assume m: "m \<noteq> 0" "m \<noteq> n"
  show "rung (putLadder k n x ms g) m \<in> {rung g m, 0}"
  proof (rule rung_cases [OF assms(2) m(1)])
    fix j assume j: "j < 8" "la_nodeNum (gm_ladders (putLadder k n x ms g) ! j) = m"
      "rung (putLadder k n x ms g) m = la_ladderIdx (gm_ladders (putLadder k n x ms g) ! j)"
    then have "j \<noteq> k" using len m(2) assms(3) by (auto simp: l)
    then show ?thesis using rung_at [OF assms(1) j(1) _ m(1)] j by (simp add: l)
  qed simp
qed

lemma rung_expire:
  assumes "gym_ok g" "m \<noteq> 0"
  shows "rung (expireLadders ms g) m \<in> {rung g m, 0}"
proof (rule rung_cases [OF expire_ladders_ok [OF assms(1)] assms(2)])
  fix j assume j: "j < 8" "la_nodeNum (gm_ladders (expireLadders ms g) ! j) = m" "rung (expireLadders ms g) m = la_ladderIdx (gm_ladders (expireLadders ms g) ! j)"
  have len: "length (gm_ladders g) = 8" using assms(1) by (simp add: gym_ok_def ladders_ok_def)
  then have "la_nodeNum (gm_ladders g ! j) = m \<and> la_ladderIdx (gm_ladders (expireLadders ms g) ! j) = la_ladderIdx (gm_ladders g ! j)"
    using j(1,2) assms(2) by (auto simp: expireLadders_def split: if_splits)
  then show ?thesis using rung_at [OF assms(1) j(1) _ assms(2)] j(3) by simp
qed simp

lemma rung_same: "gm_ladders h = gm_ladders g \<Longrightarrow> rung h n = rung g n"
  by (simp add: rung_def lookupLadder_def split: option.split)

lemma ladder_entry:
  assumes "gym_ok g" "n \<noteq> 0" "lookupOrInsertLadder n ms g = (i, h)"
  obtains k where "i = Some k" "k < 8" "la_nodeNum (gm_ladders h ! k) = n" "la_ladderIdx (gm_ladders h ! k) = rung g n"
    "gm_shortNames h = gm_shortNames g" "\<forall>m. m \<noteq> 0 \<longrightarrow> rung h m \<in> {rung g m, 0}"
proof -
  note h = ladder_slot_ok [OF assms(1,3)]
  obtain k where k: "i = Some k" "k < 8" "la_nodeNum (gm_ladders h ! k) = n" using h assms(2) by blast
  note at = rung_at [OF _ k(2,3) assms(2)]
  show thesis
  proof (cases "lookupLadder n g")
    case (Some j)
    then have "h = g" using assms(2,3) by (simp add: lookupOrInsertLadder_def)
    then show thesis using that [OF k] at assms(1) by simp
  next
    case None
    then have e: "h = putLadder k n 0 ms (expireLadders ms g)" using assms(2,3) k(1) by (auto simp: lookupOrInsertLadder_def Let_def)
    have x: "gym_ok (expireLadders ms g)" by (rule expire_ladders_ok [OF assms(1)])
    have o: "gym_ok (putLadder k n 0 ms (expireLadders ms g))" using h e by simp
    have "rung h n = 0" "rung g n = 0" using rung_put(1) [OF x o k(2) assms(2)] None by (simp_all add: e rung_def)
    moreover have "rung h m \<in> {rung g m, 0}" if "m \<noteq> 0" for m
    proof (cases "m = n")
      case False
      then show ?thesis using rung_put(2) [OF x o k(2) assms(2) that False] rung_expire [OF assms(1) that, of ms] by (auto simp: e)
    qed (use \<open>rung h n = 0\<close> in simp)
    ultimately show thesis using that [OF k] at h by (simp add: e putLadder_def expireLadders_def)
  qed
qed

lemma same_after:
  "gm_ladders (promoteToLeader frm p now g) = gm_ladders g"
  "gs_leader (gm_state (promoteToLeader frm p now g)) = trainerNow (getFrom frm g) (senderShortName g (getFrom frm g)) p now"
  "gs_leader (countBattle b s) = gs_leader s" "gm_state (restartLadder i x ms g) = gm_state g"
  by (simp_all add: promoteToLeader_def countBattle_def restartLadder_def Let_def split: option.split)

lemma report_step:
  fixes ms now
  assumes g: "gym_ok g" "n \<noteq> 0" and pl: "pl \<noteq> []"
  defines "h \<equiv> onFightResult n pl ms now g"
  shows "rung h n = (if pl ! 0 = 1 \<and> rung g n < 4 then rung g n + 1 else 0)"
    "gs_leader (gm_state h) = (if pl ! 0 = 1 \<and> rung g n = 4
       then trainerNow n (senderShortName g n) (buildGymBattleParty emptySaveParty (gm_state g)) now else gs_leader (gm_state g))"
    "\<And>m. m \<noteq> 0 \<Longrightarrow> m \<noteq> n \<Longrightarrow> rung h m \<in> {rung g m, 0}"
proof -
  obtain i u where r: "lookupOrInsertLadder n ms g = (i, u)" by (cases "lookupOrInsertLadder n ms g")
  obtain k where k: "i = Some k" "k < 8" "la_nodeNum (gm_ladders u ! k) = n" "la_ladderIdx (gm_ladders u ! k) = rung g n"
    "gm_shortNames u = gm_shortNames g" "\<forall>m. m \<noteq> 0 \<longrightarrow> rung u m \<in> {rung g m, 0}"
    by (rule ladder_entry [OF g r])
  have u: "gym_ok u" "gm_state u = gm_state g" using ladder_slot_ok [OF g(1) r] by simp_all
  have nm: "senderShortName u = senderShortName g" using k(5) by (simp add: senderShortName_def fun_eq_iff)
  let ?p = "buildGymBattleParty emptySaveParty (gm_state g)"
  let ?x = "if pl ! 0 = 1 \<and> rung g n < 4 then rung g n + 1 else 0"
  have o: "gym_ok (putLadder k n ?x ms u)"
    using restart_ok [OF u(1), of "Some k" ?x ms] k(2,3) by (simp add: restartLadder_def)
  have l: "gm_ladders h = gm_ladders (putLadder k n ?x ms u)"
    using pl k by (simp add: h_def onFightResult_def r Let_def restartLadder_def putLadder_def same_after u8_def)
  show "rung h n = ?x" using rung_put(1) [OF u(1) o k(2) g(2)] rung_same [OF l, of n] by simp
  show "rung h m \<in> {rung g m, 0}" if "m \<noteq> 0" "m \<noteq> n" for m
    using rung_put(2) [OF u(1) o k(2) g(2) that] k(6) [rule_format, OF that(1)] rung_same [OF l, of m] by auto
  show "gs_leader (gm_state h) = (if pl ! 0 = 1 \<and> rung g n = 4 then trainerNow n (senderShortName g n) ?p now else gs_leader (gm_state g))"
    using pl k rung_le [OF g(1), of n] g(2)
    by (auto simp: h_def onFightResult_def r Let_def same_after u(2) nm getFrom_def)
qed

text \<open>A report as it comes over the air.\<close>

abbreviation report :: "nat \<Rightarrow> nat \<Rightarrow> nat list \<Rightarrow> nat list" where
  "report sid sq pl \<equiv> mkPacket BBS_FIGHT_RESULT sid sq pl"

lemma report_received:
  "wantPacket PRIVATE_APP to (gs_nodeNum (gm_state g)) \<Longrightarrow>
   gymReceives PRIVATE_APP to frm chan (report sid sq pl) stack rs ms now g = onFightResult frm pl ms now g"
proof -
  have "4 \<le> length (report sid sq pl)" "report sid sq pl \<noteq> []" by (simp_all add: mkPacket_def packetBytes_def setSessionId_def)
  then show "wantPacket PRIVATE_APP to (gs_nodeNum (gm_state g)) \<Longrightarrow> ?thesis"
    by (simp only: gymReceives_def handleBattlePacket_def Let_def overlay_mkPacket pktType_pktCode) simp
qed

text \<open>
  C26 In every reachable state, when a node reports a fight: a win moves it one step up the ladder and leaves the leader, unless
  it stands on the fifth step; then it is the leader from now on, with the party it has beaten, and starts over; any other
  report sends it back to the first step.  Nobody else is moved up: others keep their step or lose their entry.
\<close>

theorem report_moves_ladder:
  fixes n to chan sid sq pl stack rs ms now
  assumes "bootedGym g0" "list_all gymCallFits calls" "n \<noteq> 0" "pl \<noteq> []"
  defines "g \<equiv> fold gymCall calls g0"
  assumes "wantPacket PRIVATE_APP to (gs_nodeNum (gm_state g))"
  defines "h \<equiv> gymReceives PRIVATE_APP to n chan (report sid sq pl) stack rs ms now g"
  shows "rung h n = (if pl ! 0 = 1 \<and> rung g n < 4 then rung g n + 1 else 0)
    \<and> gs_leader (gm_state h) = (if pl ! 0 = 1 \<and> rung g n = 4
        then trainerNow n (senderShortName g n) (buildGymBattleParty emptySaveParty (gm_state g)) now else gs_leader (gm_state g))
    \<and> (\<forall>m. m \<noteq> 0 \<and> m \<noteq> n \<longrightarrow> rung h m = rung g m \<or> rung h m = 0)"
proof -
  have g: "gym_ok g" unfolding g_def by (rule station.reach_inv [OF assms(1,2)])
  show ?thesis using report_step [OF g assms(3,4), where ms = ms and now = now] report_received [OF assms(6)] by (auto simp: h_def)
qed

theorem report_moves_ladder_witness:
  "rung (gymReceives PRIVATE_APP 5 77 0 (report 1 2 [1]) emptySaveParty [1, 2, 3, 4, 5] 900 7 sampleGym) 77 = 1"
proof -
  have "rung sampleGym 77 = 0" by (simp add: rung_def lookupLadder_def sample_parts newLadder_def find_None_iff split: option.split)
    (auto dest!: found)
  then show ?thesis
    using report_moves_ladder [OF sample_booted, of "[]" 77 "[1]" 5 0 1 2 emptySaveParty "[1, 2, 3, 4, 5]" 900 7]
    by (simp add: sample_parts wantPacket_def isBroadcast_def)
qed

text \<open>
  Five reports in a row make any node the leader, whether or not it ever asked for a fight; a terminal that played the five
  fights of a bulk dump by itself and sends the one report of the last fight has only taken the first step.
\<close>

lemma five_reports:
  assumes "gym_ok g" "n \<noteq> 0" "rung g n = 0" "pl \<noteq> []" "pl ! 0 = 1" "length ws \<le> 5"
  shows "gym_ok (fold (\<lambda>(ms, now). onFightResult n pl ms now) ws g)
    \<and> rung (fold (\<lambda>(ms, now). onFightResult n pl ms now) ws g) n = length ws mod 5
    \<and> gt_nodeNum (gs_leader (gm_state (fold (\<lambda>(ms, now). onFightResult n pl ms now) ws g)))
        = (if length ws = 5 then n else gt_nodeNum (gs_leader (gm_state g)))"
  using assms(6)
proof (induction ws rule: rev_induct)
  case Nil
  then show ?case using assms by simp
next
  case (snoc w ws)
  obtain ms now where w: "w = (ms, now)" by (cases w)
  let ?h = "fold (\<lambda>(ms, now). onFightResult n pl ms now) ws g"
  have ih: "gym_ok ?h" "rung ?h n = length ws" "gt_nodeNum (gs_leader (gm_state ?h)) = gt_nodeNum (gs_leader (gm_state g))"
    using snoc by simp_all
  then show ?case
    using report_step(1,2) [OF ih(1) assms(2,4), of ms now] fight_result_ok [OF ih(1), of n pl ms now] assms(5) snoc.prems
    by (auto simp: w trainerNow_def)
qed

subsection \<open>The line-up the station picks\<close>

lemma strongest_fold: "xs \<noteq> [] \<Longrightarrow> bossLevel xs \<in> set xs \<and> (\<forall>x \<in> set xs. x \<le> bossLevel xs)"
  by (simp add: bossLevel_max)

lemma scaled_boss:
  assumes "1 \<le> ov" "ov \<le> 100" "l \<le> c"
  shows "scaleLevel ov c l \<le> ov" "l = c \<Longrightarrow> scaleLevel ov c l = ov"
  using assms by (auto simp: scaleLevel_def clampLevel_def Let_def)

definition rowLevel :: "mon_row \<Rightarrow> nat" where
  "rowLevel r = fst (snd r)"

lemma strongest_scaled:
  assumes "xs \<noteq> []" "\<forall>l \<in> set xs. l \<le> c" "c \<in> set xs" "ov \<le> 100"
  shows "bossLevel (map (scaleLevel ov c) xs) = (if ov = 0 then c else ov)"
proof (cases "ov = 0")
  case True
  then have "map (scaleLevel ov c) xs = xs" by (simp add: scaleLevel_def map_idI)
  moreover have "bossLevel xs = c" using strongest_fold [OF assms(1)] assms(2,3) by (simp add: le_antisym)
  ultimately show ?thesis using True by simp
next
  case False
  then have b: "\<forall>l \<in> set xs. scaleLevel ov c l \<le> ov" "scaleLevel ov c c = ov" using scaled_boss [of ov _ c] assms(2,4) by auto
  have "ov \<in> set (map (scaleLevel ov c) xs)" using b(2) assms(3) by force
  moreover have "\<forall>x \<in> set (map (scaleLevel ov c) xs). x \<le> ov" using b(1) by auto
  ultimately have "bossLevel (map (scaleLevel ov c) xs) = ov"
    using strongest_fold [of "map (scaleLevel ov c) xs"] assms(1) by (metis le_antisym map_is_Nil_conv)
  then show ?thesis using False by simp
qed

lemma strongest_of_line:
  assumes "g \<le> 8" "t < 5" "ov \<le> 100"
  shows "bossLevel (map rowLevel (lineRows g t ov)) = (if ov = 0 then bossLevel (map rowLevel (lineRows g t 0)) else ov)"
proof (cases "g < 8")
  case True
  obtain name row where r: "pr_trainers (GAUNTLET_GYMS ! g) ! t = (name, row)" by (cases "pr_trainers (GAUNTLET_GYMS ! g) ! t")
  have "row \<noteq> []" using preset_trainer [OF True assms(2)] r by (auto simp: preset_trainer_ok_def)
  then have "bossLevel (map (scaleLevel sc (bossLevel (map pm_level row))) (map pm_level row)) = (if sc = 0 then bossLevel (map pm_level row) else sc)"
    if "sc \<le> 100" for sc
    using strongest_fold [of "map pm_level row"] that by (intro strongest_scaled) auto
  moreover have "map rowLevel (lineRows g t sc) = map (scaleLevel sc (bossLevel (map pm_level row))) (map pm_level row)" for sc
    using True by (simp add: lineRows_def presetRows_def r rowLevel_def)
  ultimately show ?thesis using assms(3) by simp
next
  case False
  let ?e = "ELITE_POOL ! t"
  have e: "elite_ok ?e" by (rule elite_entry [OF assms(2)])
  have "bossLevel (map (scaleLevel sc (el_bossLevel ?e)) (map snd (el_party ?e))) = (if sc = 0 then el_bossLevel ?e else sc)" if "sc \<le> 100" for sc
    using e that by (intro strongest_scaled) (auto simp: elite_ok_def list_all_iff list_ex_iff split_beta intro: rev_image_eqI)
  moreover have "map rowLevel (lineRows g t sc) = map (scaleLevel sc (el_bossLevel ?e)) (map snd (el_party ?e))" for sc
    using False by (auto simp: lineRows_def eliteRows_def rowLevel_def)
  ultimately show ?thesis using assms(3) by simp
qed

text \<open>The level of the strongest monster of a trainer as the tables have it.\<close>

definition canonLevel :: "nat \<times> nat \<Rightarrow> nat" where
  "canonLevel x = bossLevel (map rowLevel (lineRows (fst x) (snd x) 0))"

lemma canon_preset: "g < 8 \<Longrightarrow> canonLevel (g, t) = bossLevel (map pm_level (snd (pr_trainers (GAUNTLET_GYMS ! g) ! t)))"
  by (simp add: canonLevel_def lineRows_def presetRows_def rowLevel_def scaleLevel_def comp_def)

lemma canon_elite:
  assumes "t < 5"
  shows "canonLevel (8, t) = el_bossLevel (ELITE_POOL ! t)"
proof -
  let ?e = "ELITE_POOL ! t"
  have e: "elite_ok ?e" by (rule elite_entry [OF assms])
  have "bossLevel (map (scaleLevel 0 (el_bossLevel ?e)) (map snd (el_party ?e))) = (if (0 :: nat) = 0 then el_bossLevel ?e else 0)"
    using e by (intro strongest_scaled) (auto simp: elite_ok_def list_all_iff list_ex_iff split_beta intro: rev_image_eqI)
  moreover have "map rowLevel (lineRows 8 t 0) = map (scaleLevel 0 (el_bossLevel ?e)) (map snd (el_party ?e))"
    by (auto simp: lineRows_def eliteRows_def rowLevel_def)
  ultimately show ?thesis by (simp add: canonLevel_def)
qed

lemma leader_level:
  assumes "k < 13" "pickLeader k = (src, tr, boss)"
  shows "boss = canonLevel (src, tr)"
  using assms canon_preset [of k 4] canon_elite [of "k - 8"] by (auto simp: pickLeader_def split: if_splits)

lemma grunt_levels:
  assumes "set ch \<subseteq> set gruntPool"
  shows "map levelOf ch = map canonLevel (map (\<lambda>(gy, t, b). (gy, t)) ch)"
    "distinct ch \<Longrightarrow> distinct (map (\<lambda>(gy, t, b). (gy, t)) ch)"
proof -
  have c: "b = canonLevel (gy, t)" if "(gy, t, b) \<in> set ch" for gy t b
  proof -
    have i: "(gy, t, b) \<in> set gruntPool" using that assms by auto
    then have "gy < 8" using grunt_pool(3) by (auto simp: list_all_iff)
    then show ?thesis using grunt_level [OF i] canon_preset by simp
  qed
  then show "map levelOf ch = map canonLevel (map (\<lambda>(gy, t, b). (gy, t)) ch)" by auto
  have "inj_on (\<lambda>(gy, t, b). (gy, t)) (set ch)" by (rule inj_onI) (auto dest: c)
  then show "distinct ch \<Longrightarrow> distinct (map (\<lambda>(gy, t, b). (gy, t)) ch)" by (simp add: distinct_map)
qed

text \<open>
  C29 After the administrator is reset at the device, for all five random numbers: four different grunts of the eight gyms stand
  in the order of their levels; the fifth is the leader of a gym or of the pool, and the strongest monster of the party
  served for it is as strong as the tables say, but not stronger than that of the fourth; the leader recorded defends with that
  very party; there is no administrator, and the window for a new one is open for 120 seconds.
\<close>

theorem reset_draws_line_up:
  fixes g ms now
  assumes "length rs = 5"
  defines "h \<equiv> gymAdminResetAndOpenWindow rs ms now g"
  defines "s \<equiv> gm_state h"
  shows "length (gs_autoSlots s) = 5 \<and> distinct (take 4 (gs_autoSlots s)) \<and> (\<forall>x \<in> set (take 4 (gs_autoSlots s)). fst x < 8 \<and> snd x < 4)
    \<and> sorted (map canonLevel (take 4 (gs_autoSlots s)))
    \<and> (fst (gs_autoSlots s ! 4) < 8 \<and> snd (gs_autoSlots s ! 4) = 4 \<or> fst (gs_autoSlots s ! 4) = 8 \<and> snd (gs_autoSlots s ! 4) < 5)
    \<and> bossLevel (map rowLevel (slotRows s 4)) = min (canonLevel (gs_autoSlots s ! 4)) (canonLevel (gs_autoSlots s ! 3))
    \<and> servesMons (gt_party (gs_leader s)) (slotRows s 4) \<and> gt_nodeNum (gs_leader s) = NPC_NODE
    \<and> gs_adminNodeNum s = 0 \<and> gm_adminClaimUntilMs h = u32 (ms + 120000)"
proof -
  define u where "u = gauntletSave (onState (resetConfig now) g)"
  obtain ch src tr boss ov name p where c: "ch = sortGrunts (pickGrunts (take 4 rs) gruntPool)" "pickLeader (rs ! 4 mod 13) = (src, tr, boss)"
    "src \<le> 8" "tr < 5" "ov = (if levelOf (ch ! 3) < boss then levelOf (ch ! 3) else 0)" "servesMons p (lineRows src tr ov)"
    "autoSetup rs now u = gauntletSave (onState (\<lambda>s. s\<lparr>gs_autoEnabled := 1, gs_autoSlots := map (\<lambda>(gy, t, b). (gy, t)) ch @ [(src, tr)],
           gs_autoLeaderLevel := ov, gs_gymName := ''MonsterMesh Gym'', gs_gymBadge := ''Random Badge'',
           gs_leader := npcLeader name p now, gs_lastUpdate := now\<rparr>) u)"
    by (rule auto_setup_state [OF assms(1), of now u])
  let ?sl = "map (\<lambda>(gy, t, b). (gy, t)) ch"
  note l = line_up [OF assms(1), folded c(1)] and b = line_up_slots [OF assms(1), folded c(1)]
  have parts: "gs_autoSlots s = ?sl @ [(src, tr)]" "gs_autoLeaderLevel s = ov" "gs_memberLevels s = [0, 0, 0, 0, 0]" "gs_leader s = npcLeader name p now"
    "gs_adminNodeNum s = 0" "gm_adminClaimUntilMs h = u32 (ms + 120000)"
    by (simp_all add: s_def h_def gymAdminResetAndOpenWindow_def c(7) u_def [symmetric])
      (simp_all add: u_def gauntletSave_def onState_def resetConfig_def)
  have len: "length ?sl = 4" using l by simp
  have at: "take 4 (gs_autoSlots s) = ?sl" "gs_autoSlots s ! 4 = (src, tr)" "gs_autoSlots s ! 3 = ?sl ! 3"
    using len by (simp_all add: parts nth_append)
  have canon: "map levelOf ch = map canonLevel ?sl" "distinct ?sl" using grunt_levels [of ch] l by blast+
  have "map levelOf ch ! 3 = map canonLevel ?sl ! 3" by (simp only: canon(1))
  then have lv: "levelOf (ch ! 3) = canonLevel (?sl ! 3)" using l by simp
  have boss: "boss = canonLevel (src, tr)" by (rule leader_level [OF _ c(2)]) simp
  have rows: "slotRows s 4 = lineRows src tr ov" unfolding slotRows_def slotScale_def at(2) by (simp add: parts(2,3))
  have "ov \<le> 100" using c(5) b by simp
  then have "bossLevel (map rowLevel (slotRows s 4)) = (if ov = 0 then boss else ov)"
    unfolding rows boss canonLevel_def using strongest_of_line [OF c(3,4), of ov] by simp
  then have strong: "bossLevel (map rowLevel (slotRows s 4)) = min (canonLevel (src, tr)) (canonLevel (?sl ! 3))"
    using c(5) b lv boss by (auto simp: min_def)
  have "src < 8 \<and> tr = 4 \<or> src = 8 \<and> tr < 5" using c(2,4) by (auto simp: pickLeader_def split: if_splits)
  moreover have "\<forall>x \<in> set ?sl. fst x < 8 \<and> snd x < 4" using l grunt_pool(3) by (fastforce simp: list_all_iff)
  moreover have "sorted (map canonLevel ?sl)" using l canon(1) by simp
  ultimately show ?thesis using canon(2) strong c(6) len unfolding at rows by (simp add: parts npcLeader_def)
qed

theorem reset_draws_line_up_witness:
  "gs_adminNodeNum (gm_state (gymAdminResetAndOpenWindow [0, 4, 9, 14, 2] 500 0 sampleGym)) = 0"
proof -
  have "length [0, 4, 9, 14, 2 :: nat] = 5" by simp
  from reset_draws_line_up [OF this, of 500 0 sampleGym] show ?thesis by blast
qed

subsection \<open>Where the code departs from its texts\<close>

text \<open>The wizard changes the levels but not the line-up, so the gym chosen is not the gym that is served.\<close>

lemma wizard_keeps_line_up:
  "gs_autoSlots (gm_state (adminSet t to now g)) = gs_autoSlots (gm_state g)"
  by (simp add: adminSet_def wizardApply_def adoptPreset_def Let_def sendReply_def gauntletSave_def onState_def split: option.split)

text \<open>The command for a whole gym does.\<close>

lemma whole_gym_sets_line_up:
  fixes now
  assumes "gi < 8" "\<And>m. f m \<le> 100" "length (gs_autoSlots (gm_state g)) = 5" "length (gs_memberLevels (gm_state g)) = 5"
  defines "h \<equiv> fold (\<lambda>m g. snd (gymAdminApply gi m (f m) now g)) [0..<5] g"
  shows "gs_autoSlots (gm_state h) = map (\<lambda>m. (gi, m)) [0..<5]" "gs_memberLevels (gm_state h) = map f [0..<5]"
proof -
  obtain x0 x1 x2 x3 x4 where x: "gs_autoSlots (gm_state g) = [x0, x1, x2, x3, x4]" using assms(3) by (auto simp: length_Suc_conv numeral_eq_Suc)
  obtain y0 y1 y2 y3 y4 where y: "gs_memberLevels (gm_state g) = [y0, y1, y2, y3, y4]" using assms(4) by (auto simp: length_Suc_conv numeral_eq_Suc)
  have a: "gs_autoSlots (gm_state (snd (gymAdminApply gi m (f m) now k))) = (gs_autoSlots (gm_state k))[m := (gi, m)]"
    "gs_memberLevels (gm_state (snd (gymAdminApply gi m (f m) now k))) = (gs_memberLevels (gm_state k))[m := f m]" if "m < 5" for m k
    using that assms(1) assms(2) [of m] by (simp_all add: gymAdminApply_def gauntletGymPreset_def gauntletSave_def onState_def Let_def)
  show "gs_autoSlots (gm_state h) = map (\<lambda>m. (gi, m)) [0..<5]" "gs_memberLevels (gm_state h) = map f [0..<5]"
    unfolding h_def five by (simp_all add: a x y numeral_eq_Suc)
qed

text \<open>An entry of the ladder does not expire for the node it belongs to, however long it was silent.\<close>

lemma silence_keeps_step: "lookupLadder n g = Some i \<Longrightarrow> n \<noteq> 0 \<Longrightarrow> lookupOrInsertLadder n ms g = (Some i, g)"
  by (simp add: lookupOrInsertLadder_def)

text \<open>A log of exactly the limit is lost.\<close>

lemma full_log_lost: "length file = 32768 \<Longrightarrow> appendJsonl json file = json @ [CHR 0x0A]"
  by (simp add: appendJsonl_def)

text \<open>A title is counted twice in the profile of the new leader: by the promotion and by the report.\<close>

lemma title_counts_twice:
  assumes "gym_ok g" "n \<noteq> 0" "rung g n = 4" "gm_profiles g n = None"
  shows "\<exists>p. gm_profiles (onFightResult n [1] ms now g) n = Some p \<and> pf_gymTitles p = 2 \<and> pf_totalWins p = 2 \<and> pf_totalChallenges p = 1"
proof -
  obtain i u where r: "lookupOrInsertLadder n ms g = (i, u)" by (cases "lookupOrInsertLadder n ms g")
  obtain k where k: "i = Some k" "k < 8" "la_nodeNum (gm_ladders u ! k) = n" "la_ladderIdx (gm_ladders u ! k) = rung g n"
    "gm_shortNames u = gm_shortNames g" "\<forall>m. m \<noteq> 0 \<longrightarrow> rung u m \<in> {rung g m, 0}"
    by (rule ladder_entry [OF assms(1,2) r])
  have "gm_profiles u = gm_profiles g"
    using r by (auto simp: lookupOrInsertLadder_def expireLadders_def putLadder_def Let_def split: if_splits option.splits)
  then show ?thesis using k assms(2-4)
    by (simp add: onFightResult_def r Let_def restartLadder_def putLadder_def promoteToLeader_def gauntletProfileUpdate_def gauntletProfileLoad_def
        newProfile_def updatedProfile_def fightEvent_def gauntletSave_def onState_def sendReply_def getFrom_def u8_def)
qed

end
