(* ===== verification/Spec2Isabelle.thy ===== *)
theory Spec2Isabelle
  imports BattleFlaws DaycareRules DaycareMoods DaycareSaves LinkStart LordLeague DungeonFights
    DungeonBattleRules GauntletRules
begin

text \<open>
  Verification of MonsterMesh, a module of a Meshtastic firmware that lets two LoRa handhelds keep
  monsters together and battle them (\<^verbatim>\<open>src/modules/monstermesh/\<close> in the sources).

  \<^bold>\<open>The program.\<close>  A player's monsters come from the RAM of a Game Boy cartridge.  Checked in to the
  daycare they live on the device: a periodic \<open>tick\<close> generates events, pays experience, updates
  moods and friendships, grants achievements, and exchanges beacons with the daycares in radio range.
  Checked out, the experience is written back by the save patcher, which recomputes level, stats, moves
  and checksum.  The battle engine runs the same monsters against a peer or a computer opponent.  A
  networked battle has one of two protocols: in the older one both devices execute the same turns from a
  shared seed, each seeing itself as side 0, and compare a hash of the state; in the newer one only the
  server runs the engine, ships the result of every turn to the client, and both compare a hash of the
  board.  Tables of moves, species, type charts and learnsets feed all three.  Against the computer the same
  battle object carries the campaign Legend of Charizard: eight gyms of five trainers, wild routes, the Elite
  Four, and tiers that raise levels and change moves, with a file that keeps the badges.  Apart from these stands
  the dungeon: up to five players who hear each other form a party, one of them is the host, the party walks
  floor by floor through fights and trivia questions, and a word game and a simpler battle engine come with it.
  A gym station, a build of its own, serves five trainers to the terminals that challenge it, promotes who beats them
  all, and is set up by text messages or keys.

  \<^bold>\<open>Theories and sources.\<close>
  \<^item> \<open>Prelude\<close>: fixed-width reads and writes, decimal text, a proof calculus for the state monad
    (\<open>keeps\<close>, \<open>mirror\<close>) and the locale \<open>transition_system\<close>.
  \<^item> \<open>MoveTables\<close>, \<open>SpeciesTables\<close>, \<open>TableFacts\<close>: the \<^verbatim>\<open>showdown_*.h\<close> tables,
    \<^verbatim>\<open>Gen1Species.h\<close>, \<^verbatim>\<open>Gen1Learnsets.h\<close>, row by row, and what is true of all rows.
  \<^item> \<open>BattleTypes\<close>, \<open>BattleStats\<close>, \<open>BattleDamage\<close>, \<open>BattleMoves\<close>, \<open>BattleTurn\<close>,
    \<open>BattleHash\<close>: the class \<open>Gen1BattleEngine\<close> in the order of \<^verbatim>\<open>Gen1BattleEngine.cpp\<close>.  The
    record \<open>Engine\<close> is the object; the array \<open>p_[2]\<close> is a function of the datatype \<open>side\<close>;
    methods are actions of a state monad.  A ghost flag \<open>fault\<close> records a division by zero, a
    signed overflow or a call of a null log sink.
  \<^item> \<open>BattleWire\<close>, \<open>BattleSession\<close>, \<open>BattleServer\<close>, \<open>BattleClient\<close>, \<open>BattlePlay\<close>:
    \<^verbatim>\<open>BattlePacket.h\<close> and \<^verbatim>\<open>MonsterMeshTextBattle.cpp\<close>.  The record \<open>TextBattle\<close> is the
    battle object with its engine; packets are lists of bytes; a packet handler is a function from the
    object to the object, the transmit queue a list in it; the parser of an UPDATE stops at the first
    section that is cut short (a sum type).
  \<^item> \<open>IntSqrt\<close>, \<open>SavMemory\<close>, \<open>GrowthCurves\<close>, \<open>SavPatcher\<close>: \<^verbatim>\<open>DaycareSavPatcher.h\<close>;
    the cartridge RAM is a list of 32768 bytes.
  \<^item> \<open>DaycareTypes\<close>, \<open>DaycareText\<close>, \<open>DaycareAchievements\<close>, \<open>DaycareEventGen\<close>,
    \<open>Daycare\<close>: \<^verbatim>\<open>DaycareTypes.h\<close>, \<^verbatim>\<open>DaycareData.h\<close>, \<^verbatim>\<open>DaycareAchievements.h\<close>,
    \<^verbatim>\<open>DaycareEventGen.cpp\<close>, \<^verbatim>\<open>PokemonDaycare.cpp\<close>.  The record \<open>PokemonDaycare\<close> is the
    object; the states written to flash and the texts announced are lists in it, in order.
  \<^item> \<open>LordTables\<close>, \<open>LordState\<close>, \<open>LordLogic\<close>, \<open>LordParty\<close>, \<open>LordCampaign\<close>:
    \<^verbatim>\<open>LordGyms\<close>, \<^verbatim>\<open>LordE4\<close>, \<^verbatim>\<open>LordRoutes\<close>, \<^verbatim>\<open>LordSave\<close>,
    \<^verbatim>\<open>LordLogic\<close> and the parts of \<^verbatim>\<open>MonsterMeshTerminal.cpp\<close> and
    \<^verbatim>\<open>MonsterMeshModule.cpp\<close> that play the campaign.  The record \<open>Campaign\<close> holds the saved
    state, its file, the battle object and the members through which terminal and module talk; the commands
    typed, the passes of the loop, the keys and the delivery of a result are functions on it, in the order
    the two threads run them one at a time.
  \<^item> \<open>DungeonWordle\<close>, \<open>DungeonTrivia\<close>, \<open>DungeonTypes\<close>, \<open>DungeonPlay\<close>, \<open>DungeonBattle\<close>:
    \<^verbatim>\<open>DungeonWordle\<close>, \<^verbatim>\<open>DungeonTrivia\<close>, \<^verbatim>\<open>DungeonPacket.h\<close>, \<^verbatim>\<open>DungeonGame\<close> and
    \<^verbatim>\<open>DungeonBattle\<close> (each a header and a \<^verbatim>\<open>.cpp\<close>).  The record \<open>DungeonGame\<close> is the object;
    packets and messages sent are lists in it; a command, a beacon or a packet is a partial function on it, \<open>None\<close>
    where the code would index outside an array.  The battle engine is a record with the same state monad as above.

  \<^item> \<open>GauntletTables\<close>, \<open>GauntletParty\<close>, \<open>GauntletTypes\<close>, \<open>GauntletGym\<close>, \<open>GauntletAdmin\<close>: the
    gym station, the files of \<^verbatim>\<open>gauntlet/\<close>.  The record \<open>GauntletModule\<close> is the object with its files and
    what it has sent; a text message, a packet, a key and a drawn frame are functions on it, random numbers and clocks
    arguments.
  \<^item> \<open>CStrings\<close>: strings and numbers of C that the dungeon and the gym station share.

  \<^bold>\<open>What is shown.\<close>
  \<^item> \<open>BattleSync\<close>, \<open>BattleProps\<close>: the operations commute with exchanging the sides, so two peers stay
    in lockstep; the one exception, the speed tie, is shown to break it.
  \<^item> \<open>BattleSafety\<close>, \<open>BattleInvariant\<close>: every call keeps the engine well formed and free of faults
    (an instance of \<open>transition_system\<close>); damage and stats are bounded.
  \<^item> \<open>BattleRules\<close>, \<open>BattleFlaws\<close>: the rules of a turn, branch by branch, and where the code
    departs from what it means to do.
  \<^item> \<open>BattleLink\<close>, \<open>LinkRules\<close>, \<open>LinkRepeats\<close>, \<open>LinkStart\<close>: server and client as two
    objects joined by packets.  The predicate \<open>linked\<close> says they play the same session; the handshake
    establishes it, an UPDATE makes the client's board a copy of the server's (a refinement of what the
    hash compares), packets fit and may be repeated; shown as well are the battles of 256 turns, the end
    hidden by a resynchronisation and the history lost by a repeat.
  \<^item> \<open>SavRules\<close>: what a check-out may write and what it leaves there; the level search is the
    inverse of the experience curve.
  \<^item> \<open>DaycareInvariant\<close>, \<open>DaycareReach\<close>, \<open>DaycareRules\<close>: the daycare object in every reachable
    state (an instance of \<open>transition_system\<close>): types, array sizes, uniqueness; the neighbour table
    as a filtered list; timers.
  \<^item> \<open>DaycareEventRules\<close>, \<open>DaycareMoods\<close>, \<open>DaycareSaves\<close>: the event generator for every
    seed, moods that settle, and the flow of experience from an event to the cartridge.
  \<^item> \<open>LordRules\<close>, \<open>LordTeams\<close>, \<open>LordPlay\<close>, \<open>LordLeague\<close>: the daily reset and the file
    of the campaign; every opponent the tables give is fit for the engine; the campaign as an instance of
    \<open>transition_system\<close> whose invariant ties badges, pending, running and reported fights together, and
    which refines two abstract rules; where the play departs from the texts of the source.
  \<^item> \<open>DungeonSafety\<close>, \<open>DungeonRules\<close>, \<open>DungeonMirror\<close>, \<open>DungeonFights\<close>: the dungeon object
    in every reachable state (the interpretation \<open>dungeon\<close> of \<open>transition_system\<close>), the three packets
    that can break it, the host's state packet that makes a guest its mirror, and fights that end on a device
    that became the host (the interpretation \<open>fairHost\<close>).  \<open>DungeonWordle\<close> and \<open>DungeonTrivia\<close> hold
    their own lemmas: marks as multiset counts, questions without a repeat.
  \<^item> \<open>DungeonBattleRules\<close>: the dungeon's battle engine - an invariant of every call (the
    interpretation \<open>fight\<close>), the enemy's choice, the status tick, and its type chart against the chart of the
    battle engine.
  \<^item> \<open>GauntletRosters\<close>, \<open>GauntletSafety\<close>, \<open>GauntletPlay\<close>, \<open>GauntletRules\<close>: every trainer of the gym
    station's tables is served as the party its rows describe, also when it goes through a text; the station in every
    reachable state (the interpretation \<open>station\<close> of \<open>transition_system\<close>); who may change its settings, the
    ladder to the title, the line-up it draws, and where the code departs from its texts.

  \<^bold>\<open>Bounds.\<close>  The loops of the modelled code are structural recursion or have a measure, except the
  \<open>while (true)\<close> that raises levels inside a battle: its fuel is the distance to level 100, and
  \<open>LinkStart.levelling_ends\<close> shows that the loop has ended by then.  The roulette and search loops run over the lists the code indexes.  Time is the value of
  \<open>millis()\<close> when a call starts: a call that reads the clock more than once reads one value here.
  Words of the random generators and hashes are \<open>32 word\<close> and \<open>64 word\<close>; smaller fields are
  numbers with the wrap-around written at the writes that can overflow.  The packed record of the campaign's
  file is written in the byte order of the device, little-endian.

  \<^bold>\<open>Not modelled.\<close>  Whether it is night (a solar position in floating point) is an argument of the
  event cycle.  Flash and SD files, radio frames, LVGL and serial screens and the callbacks around
  them (the rest of \<^verbatim>\<open>MonsterMeshModule.cpp\<close> and \<^verbatim>\<open>MonsterMeshTerminal.cpp\<close>, with the
  gyms of the mesh, the menus and the printed lines, and the drawing half of
  \<^verbatim>\<open>MonsterMeshTextBattle.cpp\<close>),
  of the gym station the drawing, the publication over MQTT, the stubs of door games and the functions of an older
  protocol that need an engine nothing creates, the floor generator of the dungeon and its screens, the vendored emulator and sound core, image data, and the Meshtastic
  firmware itself are left out: they are input and output around the modelled logic, or code of other
  projects.  Display names of friendship tiers and unused text pools are left out as well.
\<close>

end
